(* ===== verification/Maru_Prelude.thy ===== *)
theory Maru_Prelude
  imports
    Main
    "HOL-Library.Word"
    "HOL-Library.Multiset"
    "HOL-Library.Char_ord"
    "HOL-Library.List_Lexorder"
    "HOL-Library.Product_Lexorder"
begin

text \<open>
  Shared vocabulary of the development: Python values that every Maru component uses (UUIDs and
  their printed form, instants and durations in microseconds, wrongly typed arguments), the error
  monad in which raising an exception is the left injection of a sum, loops that stop at the
  first exception, stable sorting by a key, and generic lemmas on lists and orders.
\<close>

section \<open>Python values\<close>

text \<open>
  A \<open>uuid.UUID\<close> is its 128-bit integer; PostgreSQL and Python both compare UUIDs by that integer.
  Instants and durations (\<open>datetime\<close>, \<open>timedelta\<close>) are integers in microseconds, the resolution
  both types have; an instant counts from the first representable UTC instant, 0001-01-01.
\<close>

type_synonym uuid = "128 word"
type_synonym instant = int
type_synonym duration = int

text \<open>A value that a caller may pass with the wrong dynamic type, as \<open>isinstance\<close> checks find.\<close>

datatype 'a typed = Typed 'a | Untyped

text \<open>A value that should be an integer: \<open>bool\<close> is a subclass of \<open>int\<close> and is refused by name.\<close>

datatype py_number = PyInt int | PyBool bool | PyNotNumber

definition second_us :: duration where
  "second_us = 1000000"

definition minute_us :: duration where
  "minute_us = 60 * second_us"

definition day_us :: duration where
  "day_us = 24 * 60 * minute_us"

subsection \<open>The printed form of a UUID\<close>

text \<open>
  \<open>str(uuid)\<close> is the integer in 32 lower-case hexadecimal digits, hyphenated after the digits
  8, 12, 16 and 20. Several sorts of the program use it as their key.
\<close>

definition hex_char :: "nat \<Rightarrow> char" where
  "hex_char d = (if d < 10 then char_of (48 + d) else char_of (87 + d))"

fun hex_digits :: "nat \<Rightarrow> nat \<Rightarrow> string" where
  "hex_digits 0 v = []"
| "hex_digits (Suc n) v = hex_digits n (v div 16) @ [hex_char (v mod 16)]"

definition hyphenate :: "string \<Rightarrow> string" where
  "hyphenate h = take 8 h @ ''-'' @ take 4 (drop 8 h) @ ''-'' @ take 4 (drop 12 h) @ ''-''
     @ take 4 (drop 16 h) @ ''-'' @ drop 20 h"

definition uuid_str :: "uuid \<Rightarrow> string" where
  "uuid_str u = hyphenate (hex_digits 32 (unat u))"

text \<open>\<open>str(None)\<close> is \<open>"None"\<close>.\<close>

definition opt_uuid_str :: "uuid option \<Rightarrow> string" where
  "opt_uuid_str v = (case v of None \<Rightarrow> ''None'' | Some u \<Rightarrow> uuid_str u)"

subsection \<open>Characters\<close>

text \<open>Python's \<open>str.split()\<close> and \<open>str.strip()\<close> know these white-space characters below 256.\<close>

definition is_space :: "char \<Rightarrow> bool" where
  "is_space c \<longleftrightarrow> (of_char c :: nat) \<in> {9, 10, 11, 12, 13, 28, 29, 30, 31, 32, 133, 160}"

section \<open>Exceptions as values\<close>

text \<open>
  A fallible operation returns \<open>Inl\<close> of what it raises or \<open>Inr\<close> of its result. \<open>bindE\<close> runs the
  rest of a body unless an exception left it, \<open>guardE\<close> is a guard that raises, and \<open>foldE\<close> is a
  \<open>for\<close> loop over a sequence that carries a state and stops at the first exception.
\<close>

text \<open>
  The exceptions of the modelled packages. A \<open>ValidationError\<close> carries its code; one built from a
  dictionary of fields, as model validation builds it, has none. \<open>AuthorizationDenied\<close> carries the
  reason code of the decision.
\<close>

datatype maru_error =
    ValidationError "string option"
  | AuthorizationDenied string
  | RuntimeError
  | LeaseLostError
  | CancellationBoundaryPassedError
  | DoesNotExist
  | AttributeError
  | TypeError

abbreviation invalid :: "string \<Rightarrow> maru_error" where
  "invalid code \<equiv> ValidationError (Some code)"

fun bindE :: "'e + 'a \<Rightarrow> ('a \<Rightarrow> 'e + 'b) \<Rightarrow> 'e + 'b" where
  "bindE (Inl e) f = Inl e"
| "bindE (Inr x) f = f x"

definition guardE :: "bool \<Rightarrow> 'e \<Rightarrow> 'e + unit" where
  "guardE ok e = (if ok then Inr () else Inl e)"

fun foldE :: "('a \<Rightarrow> 's \<Rightarrow> 'e + 's) \<Rightarrow> 'a list \<Rightarrow> 's \<Rightarrow> 'e + 's" where
  "foldE f [] s = Inr s"
| "foldE f (x # xs) s = bindE (f x s) (foldE f xs)"

fun mapE :: "('a \<Rightarrow> 'e + 'b) \<Rightarrow> 'a list \<Rightarrow> 'e + 'b list" where
  "mapE f [] = Inr []"
| "mapE f (x # xs) = bindE (f x) (\<lambda>y. bindE (mapE f xs) (\<lambda>ys. Inr (y # ys)))"

definition is_ok :: "'e + 'a \<Rightarrow> bool" where
  "is_ok r = (case r of Inl _ \<Rightarrow> False | Inr _ \<Rightarrow> True)"

named_theorems result_simps \<open>inversion and evaluation of the error monad\<close>

lemma bindE_eq_Inr [result_simps]:
  "bindE m f = Inr y \<longleftrightarrow> (\<exists>x. m = Inr x \<and> f x = Inr y)"
  by (cases m) auto

lemma bindE_eq_Inl [result_simps]:
  "bindE m f = Inl e \<longleftrightarrow> m = Inl e \<or> (\<exists>x. m = Inr x \<and> f x = Inl e)"
  by (cases m) auto

lemma bindE_Inr_right [simp]: "bindE m Inr = m"
  by (cases m) auto

lemma bindE_assoc: "bindE (bindE m f) g = bindE m (\<lambda>x. bindE (f x) g)"
  by (cases m) auto

lemma guardE_eq_Inr [result_simps]: "guardE ok e = Inr u \<longleftrightarrow> ok"
  by (simp add: guardE_def)

lemma guardE_eq_Inl [result_simps]: "guardE ok e = Inl d \<longleftrightarrow> \<not> ok \<and> d = e"
  by (auto simp: guardE_def)

lemma guardE_simps [simp]: "guardE True e = Inr ()" "guardE False e = Inl e"
  by (simp_all add: guardE_def)

lemma is_ok_simps [simp]: "is_ok (Inr x)" "\<not> is_ok (Inl e)"
  by (simp_all add: is_ok_def)

lemma is_ok_iff: "is_ok r \<longleftrightarrow> (\<exists>x. r = Inr x)"
  by (cases r) auto

lemma foldE_Nil_fun [simp]: "foldE f [] = Inr"
  by (rule ext) simp

lemma foldE_append: "foldE f (xs @ ys) s = bindE (foldE f xs s) (foldE f ys)"
proof (induction xs arbitrary: s)
  case Nil
  then show ?case by simp
next
  case (Cons x xs)
  then show ?case by (cases "f x s") simp_all
qed

lemma foldE_cong [fundef_cong]:
  assumes "xs = ys" and "s = t" and "\<And>x u. x \<in> set ys \<Longrightarrow> f x u = g x u"
  shows "foldE f xs s = foldE g ys t"
  unfolding assms(1,2) using assms(3)
proof (induction ys arbitrary: t)
  case Nil
  then show ?case by simp
next
  case (Cons y ys)
  then have "f y t = g y t" and "\<And>u. foldE f ys u = foldE g ys u"
    by simp_all
  then show ?case
    by (cases "g y t") simp_all
qed

lemma foldE_invariant:
  assumes "foldE f xs s = Inr t" and "I s"
    and "\<And>x u v. x \<in> set xs \<Longrightarrow> I u \<Longrightarrow> f x u = Inr v \<Longrightarrow> I v"
  shows "I t"
  using assms
proof (induction xs arbitrary: s)
  case Nil
  then show ?case by simp
next
  case (Cons x xs)
  from Cons.prems(1) obtain u where u: "f x s = Inr u" and t: "foldE f xs u = Inr t"
    by (auto simp: bindE_eq_Inr)
  have "I u"
    using Cons.prems(3) [OF _ Cons.prems(2) u] by simp
  then show ?case
    by (rule Cons.IH [OF t]) (auto intro: Cons.prems(3))
qed

lemma mapE_eq_Inr [result_simps]:
  "mapE f xs = Inr ys \<longleftrightarrow> list_all2 (\<lambda>x y. f x = Inr y) xs ys"
proof (induction xs arbitrary: ys)
  case Nil
  then show ?case by auto
next
  case (Cons x xs)
  then show ?case
    by (cases ys) (auto simp: bindE_eq_Inr)
qed

section \<open>Model fields\<close>

text \<open>What \<open>full_clean\<close> checks of a required text column and of integer columns.\<close>

definition char_field :: "nat \<Rightarrow> string \<Rightarrow> bool" where
  "char_field max_length v \<longleftrightarrow> v \<noteq> [] \<and> length v \<le> max_length"

definition positive_small_integer :: "int \<Rightarrow> bool" where
  "positive_small_integer v \<longleftrightarrow> 0 \<le> v \<and> v \<le> 32767"

definition positive_integer :: "int \<Rightarrow> bool" where
  "positive_integer v \<longleftrightarrow> 0 \<le> v \<and> v \<le> 2147483647"

definition positive_big_integer :: "int \<Rightarrow> bool" where
  "positive_big_integer v \<longleftrightarrow> 0 \<le> v \<and> v \<le> 9223372036854775807"

section \<open>Sorting and orders\<close>

lemma insort_key_map:
  assumes "\<And>x. k (f x) = k x"
  shows "insort_key k (f x) (map f xs) = map f (insort_key k x xs)"
  by (induction xs) (simp_all add: assms)

lemma sort_key_map:
  assumes "\<And>x. k (f x) = k x"
  shows "sort_key k (map f xs) = map f (sort_key k xs)"
  by (induction xs) (simp_all add: insort_key_map [where f = f and k = k] assms)

lemma sorted_sort_key_id: "sorted (map k xs) \<Longrightarrow> sort_key k xs = xs"
  by (induction xs) (simp_all add: insort_is_Cons)


lemma sort_key_inj_unique:
  assumes "distinct xs" and "distinct ys" and "set xs = set ys" and "inj_on k (set xs)"
  shows "sort_key k xs = sort_key k ys"
proof (rule map_inj_on)
  show "inj_on k (set (sort_key k xs) \<union> set (sort_key k ys))"
    using assms by simp
  have "mset xs = mset ys"
    using assms by (simp add: set_eq_iff_mset_eq_distinct [symmetric])
  then have "mset (map k (sort_key k xs)) = mset (map k (sort_key k ys))"
    by simp
  moreover have "sorted (map k (sort_key k xs))" "sorted (map k (sort_key k ys))"
    by simp_all
  ultimately show "map k (sort_key k xs) = map k (sort_key k ys)"
    by (metis properties_for_sort)
qed

lemma length_hex_digits [simp]: "length (hex_digits n v) = n"
  by (induction n arbitrary: v) simp_all

lemma append_less_append:
  fixes xs ys zs ws :: "'a :: linorder list"
  assumes "length xs = length ys"
  shows "xs @ zs < ys @ ws \<longleftrightarrow> xs < ys \<or> xs = ys \<and> zs < ws"
  using assms by (induction xs ys rule: list_induct2) auto

lemma hex_char_less:
  assumes "a < 16" and "b < 16"
  shows "hex_char a < hex_char b \<longleftrightarrow> a < b"
  using assms by (auto simp: hex_char_def less_char_def)

lemma div_mod_less:
  "a div 16 < b div 16 \<or> a div 16 = b div 16 \<and> a mod 16 < b mod 16 \<longleftrightarrow> a < b" for a b :: nat
proof -
  have "a = 16 * (a div 16) + a mod 16" "b = 16 * (b div 16) + b mod 16"
    by simp_all
  moreover have "a mod 16 < 16" "b mod 16 < 16"
    by simp_all
  ultimately show ?thesis
    by linarith
qed

lemma hex_digits_less:
  assumes "a < 16 ^ n" and "b < 16 ^ n"
  shows "hex_digits n a < hex_digits n b \<longleftrightarrow> a < b"
  using assms
proof (induction n arbitrary: a b)
  case 0
  then show ?case by simp
next
  case (Suc n)
  have IH: "hex_digits n (a div 16) < hex_digits n (b div 16) \<longleftrightarrow> a div 16 < b div 16"
    and IH': "hex_digits n (b div 16) < hex_digits n (a div 16) \<longleftrightarrow> b div 16 < a div 16"
    using Suc.prems by (auto intro!: Suc.IH simp: less_mult_imp_div_less mult.commute)
  then have eq: "hex_digits n (a div 16) = hex_digits n (b div 16) \<longleftrightarrow> a div 16 = b div 16"
    by (metis less_irrefl linorder_less_linear)
  have c: "hex_char (a mod 16) < hex_char (b mod 16) \<longleftrightarrow> a mod 16 < b mod 16"
    by (rule hex_char_less) simp_all
  have "hex_digits (Suc n) a < hex_digits (Suc n) b \<longleftrightarrow>
      a div 16 < b div 16 \<or> a div 16 = b div 16 \<and> a mod 16 < b mod 16"
    by (simp add: append_less_append IH eq c)
  also have "\<dots> \<longleftrightarrow> a < b"
    by (rule div_mod_less)
  finally show ?case .
qed

lemma hyphenate_less:
  assumes "length g = 32" and "length h = 32"
  shows "hyphenate g < hyphenate h \<longleftrightarrow> g < h"
proof -
  have cut: "xs = take n xs @ drop n xs" for n and xs :: string
    by simp
  have less_cut: "xs < ys \<longleftrightarrow> take n xs < take n ys \<or> take n xs = take n ys \<and> drop n xs < drop n ys"
    if "length xs = length ys" for n and xs ys :: string
    by (subst cut [of xs n], subst cut [of ys n], rule append_less_append) (simp add: that)
  show ?thesis
    using assms less_cut [of g h 8] less_cut [of "drop 8 g" "drop 8 h" 4]
      less_cut [of "drop 12 g" "drop 12 h" 4] less_cut [of "drop 16 g" "drop 16 h" 4]
    by (simp add: hyphenate_def append_less_append)
qed

lemma uuid_str_less: "uuid_str a < uuid_str b \<longleftrightarrow> a < b"
proof -
  have "unat u < 16 ^ 32" for u :: uuid
    using unsigned_less [of u, where 'a = nat] by simp
  then show ?thesis
    by (simp add: uuid_str_def hyphenate_less hex_digits_less word_less_nat_alt)
qed

lemma uuid_str_eq [simp]: "uuid_str a = uuid_str b \<longleftrightarrow> a = b"
  by (metis less_irrefl linorder_less_linear uuid_str_less)

lemma uuid_str_le: "uuid_str a \<le> uuid_str b \<longleftrightarrow> a \<le> b"
  by (simp add: linorder_not_less [symmetric] uuid_str_less)

lemma inj_uuid_str: "inj uuid_str"
  by (rule injI) simp

lemma length_uuid_str: "length (uuid_str u) = 36"
  by (simp add: uuid_str_def hyphenate_def)

lemma opt_uuid_str_eq [simp]: "opt_uuid_str a = opt_uuid_str b \<longleftrightarrow> a = b"
proof -
  have "uuid_str u \<noteq> ''None''" for u
    using length_uuid_str [of u] by auto
  then show ?thesis
    by (auto simp: opt_uuid_str_def split: option.splits) metis
qed

section \<open>Transition systems\<close>

text \<open>
  The common shape of the stateful components: an initial state and a step relation. A property
  that holds initially and is kept by every step holds in every reachable state.
\<close>

locale transition_system =
  fixes initial :: "'s \<Rightarrow> bool"
    and step :: "'s \<Rightarrow> 's \<Rightarrow> bool"
begin

inductive reachable :: "'s \<Rightarrow> bool" where
  reach_initial: "initial s \<Longrightarrow> reachable s"
| reach_step: "reachable s \<Longrightarrow> step s t \<Longrightarrow> reachable t"

end

locale inductive_invariant = transition_system initial step
  for initial :: "'s \<Rightarrow> bool" and step :: "'s \<Rightarrow> 's \<Rightarrow> bool" +
  fixes inv :: "'s \<Rightarrow> bool"
  assumes inv_initial: "initial s \<Longrightarrow> inv s"
    and inv_step: "inv s \<Longrightarrow> step s t \<Longrightarrow> inv t"
begin

lemma reachable_inv: "reachable s \<Longrightarrow> inv s"
  by (induction rule: reachable.induct) (auto intro: inv_initial inv_step)

end

end
