(* ===== verification/Time_Rules.thy ===== *)
theory Time_Rules
  imports Maru_Prelude
begin

text \<open>
  The pure time contracts of Scheduling (\<open>src/src/maru/scheduling/time_rules.py\<close>): whole-minute
  instants, half-open windows, room work envelopes with preparation, delivery and teardown, host
  presences, the service-day grid and the two-clique occupancy rule SCH-009. The theorems give
  each check its meaning in terms of the instants a window or an envelope contains.
\<close>

section \<open>Values at the boundary\<close>

text \<open>
  A Python \<open>datetime\<close> has a wall-clock reading and, when it has a time zone, an offset; asking the
  time zone for it may raise. Boundary functions take any object, so an argument is a datetime or
  something else.
\<close>

datatype py_utcoffset = Naive | Offset duration | OffsetRaises

record py_datetime =
  dt_wall :: int
  dt_utcoffset :: py_utcoffset

datatype py_instant = Datetime py_datetime | NotDatetime

record 't SchedulingWindow =
  w_starts_at :: 't
  w_ends_at :: 't

record 't SchedulingEnvelope =
  setup_starts_at :: 't
  effective_starts_at :: 't
  effective_ends_at :: 't
  teardown_ends_at :: 't

record ('h, 't) SchedulingHostPresence =
  hp_host_id :: 'h
  hp_starts_at :: 't
  hp_ends_at :: 't

type_synonym window = "instant SchedulingWindow"
type_synonym envelope = "instant SchedulingEnvelope"
type_synonym presence = "(uuid, instant) SchedulingHostPresence"
type_synonym raw_presence = "(uuid typed, py_instant) SchedulingHostPresence"

datatype time_error =
    InstantInvalid string
  | IntervalUntyped
  | IntervalNotPositive
  | EnvelopeUntyped
  | EnvelopeUnordered
  | PrecisionInvalid
  | HostsUnbounded
  | HostNotOnce
  | HostOutsideEnvelope

abbreviation (input) window_of :: "'t \<Rightarrow> 't \<Rightarrow> 't SchedulingWindow" where
  "window_of s e \<equiv> \<lparr>w_starts_at = s, w_ends_at = e\<rparr>"

definition MINUTES_PER_HOUR :: int where
  "MINUTES_PER_HOUR = 60"

definition MAX_HOSTS_PER_OCCURRENCE :: nat where
  "MAX_HOSTS_PER_OCCURRENCE = 100"

section \<open>Normalization\<close>

text \<open>
  \<open>datetime.astimezone(UTC)\<close> subtracts the offset and raises \<open>OverflowError\<close> outside the years 1 to
  9999, whose length in microseconds is \<open>datetime_span_us\<close>.
\<close>

definition datetime_span_us :: duration where
  "datetime_span_us = 3652059 * day_us"

definition astimezone_utc :: "int \<Rightarrow> duration \<Rightarrow> instant option" where
  "astimezone_utc wall offset =
     (let u = wall - offset in if 0 \<le> u \<and> u < datetime_span_us then Some u else None)"

definition dt_second :: "instant \<Rightarrow> int" where
  "dt_second u = (u div second_us) mod 60"

definition dt_microsecond :: "instant \<Rightarrow> int" where
  "dt_microsecond u = u mod second_us"

definition normalize_scheduling_instant :: "py_instant \<Rightarrow> string \<Rightarrow> time_error + instant" where
  "normalize_scheduling_instant value field =
     (case value of
        NotDatetime \<Rightarrow> Inl (InstantInvalid field)
      | Datetime d \<Rightarrow>
          (case dt_utcoffset d of
             OffsetRaises \<Rightarrow> Inl (InstantInvalid field)
           | Naive \<Rightarrow> Inl (InstantInvalid field)
           | Offset offset \<Rightarrow>
               (case astimezone_utc (dt_wall d) offset of
                  None \<Rightarrow> Inl (InstantInvalid field)
                | Some normalized \<Rightarrow>
                    if dt_second normalized \<noteq> 0 \<or> dt_microsecond normalized \<noteq> 0
                    then Inl (InstantInvalid field)
                    else Inr normalized)))"

definition normalize_scheduling_window ::
    "py_instant SchedulingWindow typed \<Rightarrow> time_error + window" where
  "normalize_scheduling_window value =
     (case value of
        Untyped \<Rightarrow> Inl IntervalUntyped
      | Typed v \<Rightarrow>
          bindE (normalize_scheduling_instant (w_starts_at v) ''starts_at'') (\<lambda>start.
          bindE (normalize_scheduling_instant (w_ends_at v) ''ends_at'') (\<lambda>end.
          if end \<le> start then Inl IntervalNotPositive else Inr (window_of start end))))"

definition normalize_scheduling_envelope ::
    "py_instant SchedulingEnvelope typed \<Rightarrow> time_error + envelope" where
  "normalize_scheduling_envelope value =
     (case value of
        Untyped \<Rightarrow> Inl EnvelopeUntyped
      | Typed v \<Rightarrow>
          bindE (normalize_scheduling_instant (setup_starts_at v) ''setup_starts_at'') (\<lambda>setup.
          bindE (normalize_scheduling_instant (effective_starts_at v) ''effective_starts_at'')
            (\<lambda>start.
          bindE (normalize_scheduling_instant (effective_ends_at v) ''effective_ends_at'') (\<lambda>end.
          bindE (normalize_scheduling_instant (teardown_ends_at v) ''teardown_ends_at'')
            (\<lambda>teardown.
          if \<not> (setup \<le> start \<and> start < end \<and> end \<le> teardown) then Inl EnvelopeUnordered
          else Inr \<lparr>setup_starts_at = setup, effective_starts_at = start,
                     effective_ends_at = end, teardown_ends_at = teardown\<rparr>)))))"

definition require_scheduling_precision :: "py_number \<Rightarrow> time_error + int" where
  "require_scheduling_precision value =
     (case value of
        PyInt v \<Rightarrow>
          if \<not> (1 \<le> v \<and> v \<le> MINUTES_PER_HOUR) \<or> MINUTES_PER_HOUR mod v \<noteq> 0
          then Inl PrecisionInvalid else Inr v
      | _ \<Rightarrow> Inl PrecisionInvalid)"

text \<open>One iteration of the loop of \<open>normalize_host_presences\<close>: identifiers seen and results so far.\<close>

definition normalize_host_presence ::
    "envelope \<Rightarrow> raw_presence typed \<Rightarrow> uuid list \<times> presence list
      \<Rightarrow> time_error + uuid list \<times> presence list" where
  "normalize_host_presence env value state =
     (case value of
        Untyped \<Rightarrow> Inl HostNotOnce
      | Typed v \<Rightarrow>
          (case hp_host_id v of
             Untyped \<Rightarrow> Inl HostNotOnce
           | Typed host \<Rightarrow>
               if host \<in> set (fst state) then Inl HostNotOnce
               else bindE (normalize_scheduling_window
                             (Typed (window_of (hp_starts_at v) (hp_ends_at v)))) (\<lambda>window.
                 if w_starts_at window < setup_starts_at env
                    \<or> teardown_ends_at env < w_ends_at window
                 then Inl HostOutsideEnvelope
                 else Inr (host # fst state,
                           snd state @ [\<lparr>hp_host_id = host, hp_starts_at = w_starts_at window,
                                          hp_ends_at = w_ends_at window\<rparr>]))))"

definition normalize_host_presences ::
    "raw_presence typed list typed \<Rightarrow> py_instant SchedulingEnvelope typed
      \<Rightarrow> time_error + presence list" where
  "normalize_host_presences values env =
     bindE (normalize_scheduling_envelope env) (\<lambda>envelope.
     case values of
       Untyped \<Rightarrow> Inl HostsUnbounded
     | Typed vs \<Rightarrow>
         if MAX_HOSTS_PER_OCCURRENCE < length vs then Inl HostsUnbounded
         else bindE (foldE (normalize_host_presence envelope) vs ([], [])) (\<lambda>(identifiers, result).
           Inr (sort_key (\<lambda>v. uuid_str (hp_host_id v)) result)))"

section \<open>Placement on the grid and room occupancy\<close>

text \<open>
  \<open>total_seconds() % step == 0\<close> is taken on whole-second differences, where the floating-point
  quotient is exact.
\<close>

definition placement_fits_service_day ::
    "py_instant SchedulingEnvelope typed \<Rightarrow> py_instant SchedulingWindow typed \<Rightarrow> py_number
      \<Rightarrow> time_error + bool" where
  "placement_fits_service_day env win precision_minutes =
     bindE (normalize_scheduling_envelope env) (\<lambda>envelope.
     bindE (normalize_scheduling_window win) (\<lambda>window.
     bindE (require_scheduling_precision precision_minutes) (\<lambda>precision.
     let step = precision * 60 in
     Inr (w_starts_at window \<le> setup_starts_at envelope
        \<and> teardown_ends_at envelope \<le> w_ends_at window
        \<and> list_all (\<lambda>instant. (instant - w_starts_at window) mod (step * second_us) = 0)
            [setup_starts_at envelope, effective_starts_at envelope,
             effective_ends_at envelope, teardown_ends_at envelope]))))"

definition scheduling_windows_overlap :: "window \<Rightarrow> window \<Rightarrow> bool" where
  "scheduling_windows_overlap left right \<longleftrightarrow>
     w_starts_at left < w_ends_at right \<and> w_starts_at right < w_ends_at left"

definition room_envelopes_conflict :: "envelope \<Rightarrow> envelope \<Rightarrow> bool" where
  "room_envelopes_conflict left right \<longleftrightarrow>
     scheduling_windows_overlap
       (window_of (setup_starts_at left) (effective_ends_at left))
       (window_of (setup_starts_at right) (effective_ends_at right))
     \<or> scheduling_windows_overlap
       (window_of (effective_starts_at left) (teardown_ends_at left))
       (window_of (effective_starts_at right) (teardown_ends_at right))"

text \<open>Python's stable sort of a pair by a key: the two elements change places only if they must.\<close>

definition sorted_pair :: "('a \<Rightarrow> 'k :: linorder) \<Rightarrow> 'a \<Rightarrow> 'a \<Rightarrow> 'a \<times> 'a" where
  "sorted_pair key a b = (if key b < key a then (b, a) else (a, b))"

definition permitted_turnover_window :: "envelope \<Rightarrow> envelope \<Rightarrow> window option" where
  "permitted_turnover_window left right =
     (if room_envelopes_conflict left right then None
      else case sorted_pair effective_starts_at left right of (earlier, later) \<Rightarrow>
        let start = max (effective_ends_at earlier) (setup_starts_at later);
            end = min (teardown_ends_at earlier) (effective_starts_at later)
        in if start < end then Some (window_of start end) else None)"

section \<open>What the values mean\<close>

text \<open>
  The specification side: the instants a half-open window contains, the phase a room is in at an
  instant under an envelope, and the order every normalized envelope has. Two rooms' uses are
  compatible at an instant when one is tearing down while the other prepares, or one is vacant.
\<close>

definition in_window :: "window \<Rightarrow> instant \<Rightarrow> bool" where
  "in_window w t \<longleftrightarrow> w_starts_at w \<le> t \<and> t < w_ends_at w"

definition envelope_ordered :: "envelope \<Rightarrow> bool" where
  "envelope_ordered e \<longleftrightarrow> setup_starts_at e \<le> effective_starts_at e
     \<and> effective_starts_at e < effective_ends_at e \<and> effective_ends_at e \<le> teardown_ends_at e"

datatype room_phase = Vacant | Preparing | Delivering | TearingDown

definition room_phase_at :: "envelope \<Rightarrow> instant \<Rightarrow> room_phase" where
  "room_phase_at e t =
     (if t < setup_starts_at e \<or> teardown_ends_at e \<le> t then Vacant
      else if t < effective_starts_at e then Preparing
      else if t < effective_ends_at e then Delivering else TearingDown)"

fun phases_compatible :: "room_phase \<Rightarrow> room_phase \<Rightarrow> bool" where
  "phases_compatible Vacant q = True"
| "phases_compatible p Vacant = True"
| "phases_compatible Preparing TearingDown = True"
| "phases_compatible TearingDown Preparing = True"
| "phases_compatible p q = False"

text \<open>A UTC datetime as the boundary sees it, and the same for windows and envelopes.\<close>

definition utc_value :: "instant \<Rightarrow> py_instant" where
  "utc_value u = Datetime \<lparr>dt_wall = u, dt_utcoffset = Offset 0\<rparr>"

definition utc_window :: "window \<Rightarrow> py_instant SchedulingWindow typed" where
  "utc_window w = Typed (window_of (utc_value (w_starts_at w)) (utc_value (w_ends_at w)))"

definition utc_envelope :: "envelope \<Rightarrow> py_instant SchedulingEnvelope typed" where
  "utc_envelope e =
     Typed \<lparr>setup_starts_at = utc_value (setup_starts_at e),
            effective_starts_at = utc_value (effective_starts_at e),
            effective_ends_at = utc_value (effective_ends_at e),
            teardown_ends_at = utc_value (teardown_ends_at e)\<rparr>"

definition utc_presence :: "presence \<Rightarrow> raw_presence typed" where
  "utc_presence p = Typed \<lparr>hp_host_id = Typed (hp_host_id p),
     hp_starts_at = utc_value (hp_starts_at p), hp_ends_at = utc_value (hp_ends_at p)\<rparr>"

definition whole_minute :: "instant \<Rightarrow> bool" where
  "whole_minute u \<longleftrightarrow> 0 \<le> u \<and> u < datetime_span_us \<and> minute_us dvd u"

section \<open>Lemmas\<close>

named_theorems time_defs \<open>unfolding of the window and envelope predicates\<close>

declare in_window_def [time_defs] envelope_ordered_def [time_defs] room_phase_at_def [time_defs]
  scheduling_windows_overlap_def [time_defs] room_envelopes_conflict_def [time_defs]

lemma whole_second_minute_iff:
  "dt_second u = 0 \<and> dt_microsecond u = 0 \<longleftrightarrow> minute_us dvd u"
proof -
  have "u mod (second_us * 60) = second_us * (u div second_us mod 60) + u mod second_us"
    by (rule zmod_zmult2_eq) simp
  moreover have "0 \<le> u div second_us mod 60" "0 \<le> u mod second_us"
    by (simp_all add: second_us_def)
  ultimately show ?thesis
    by (simp add: dt_second_def dt_microsecond_def minute_us_def dvd_eq_mod_eq_0 mult.commute)
      (simp add: second_us_def add_nonneg_eq_0_iff)
qed

lemma astimezone_utc_Some [result_simps]:
  "astimezone_utc w off = Some u \<longleftrightarrow> u = w - off \<and> 0 \<le> u \<and> u < datetime_span_us"
  by (auto simp: astimezone_utc_def Let_def)

lemma normalize_instant_Inr:
  "normalize_scheduling_instant v f = Inr u \<longleftrightarrow>
     (\<exists>wall off. v = Datetime \<lparr>dt_wall = wall, dt_utcoffset = Offset off\<rparr>
        \<and> u = wall - off \<and> whole_minute u)"
proof (cases v)
  case NotDatetime
  then show ?thesis by (simp add: normalize_scheduling_instant_def)
next
  case (Datetime d)
  have second: "(dt_second x \<noteq> 0 \<or> dt_microsecond x \<noteq> 0) = (\<not> minute_us dvd x)" for x
    using whole_second_minute_iff [of x] by blast
  obtain wall tz where "d = \<lparr>dt_wall = wall, dt_utcoffset = tz\<rparr>"
    by (cases d)
  with Datetime show ?thesis
    unfolding normalize_scheduling_instant_def second astimezone_utc_def Let_def
    by (auto simp: whole_minute_def split: py_utcoffset.splits)
qed

lemma normalize_instant_utc [simp]:
  "normalize_scheduling_instant (utc_value u) f =
     (if whole_minute u then Inr u else Inl (InstantInvalid f))"
proof -
  have "normalize_scheduling_instant (utc_value u) f = Inr u \<longleftrightarrow> whole_minute u"
    by (simp add: normalize_instant_Inr utc_value_def)
  moreover have "normalize_scheduling_instant (utc_value u) f \<in> {Inr u, Inl (InstantInvalid f)}"
    by (auto simp: normalize_scheduling_instant_def utc_value_def astimezone_utc_def Let_def)
  ultimately show ?thesis by auto
qed

lemma normalize_window_Inr:
  "normalize_scheduling_window v = Inr w \<longleftrightarrow>
     (\<exists>r. v = Typed r \<and> normalize_scheduling_instant (w_starts_at r) ''starts_at'' = Inr (w_starts_at w)
        \<and> normalize_scheduling_instant (w_ends_at r) ''ends_at'' = Inr (w_ends_at w)
        \<and> w_starts_at w < w_ends_at w)"
  by (cases w) (auto simp: normalize_scheduling_window_def result_simps not_le
      split: typed.splits if_splits)

lemma normalize_envelope_Inr_ordered:
  "normalize_scheduling_envelope v = Inr e \<Longrightarrow> envelope_ordered e"
  by (auto simp: normalize_scheduling_envelope_def envelope_ordered_def result_simps
      split: typed.splits if_splits)

lemma normalize_envelope_utc:
  "normalize_scheduling_envelope (utc_envelope e) = Inr d \<longleftrightarrow>
     d = e \<and> envelope_ordered e \<and> whole_minute (setup_starts_at e)
     \<and> whole_minute (effective_starts_at e) \<and> whole_minute (effective_ends_at e)
     \<and> whole_minute (teardown_ends_at e)"
  by (cases e) (auto simp: normalize_scheduling_envelope_def utc_envelope_def envelope_ordered_def
      result_simps split: if_splits)

lemma normalize_window_utc:
  "normalize_scheduling_window (utc_window w) = Inr x \<longleftrightarrow>
     x = w \<and> w_starts_at w < w_ends_at w \<and> whole_minute (w_starts_at w)
     \<and> whole_minute (w_ends_at w)"
  by (cases w) (auto simp: normalize_scheduling_window_def utc_window_def result_simps
      split: if_splits)

lemma windows_overlap_iff_common_instant:
  assumes "w_starts_at l < w_ends_at l" and "w_starts_at r < w_ends_at r"
  shows "scheduling_windows_overlap l r \<longleftrightarrow> (\<exists>t. in_window l t \<and> in_window r t)"
proof
  assume "scheduling_windows_overlap l r"
  with assms have "in_window l (max (w_starts_at l) (w_starts_at r))"
    "in_window r (max (w_starts_at l) (w_starts_at r))"
    by (auto simp: time_defs)
  then show "\<exists>t. in_window l t \<and> in_window r t" by blast
qed (auto simp: time_defs)

lemma phases_incompatible_iff:
  assumes "envelope_ordered l" and "envelope_ordered r"
  shows "\<not> phases_compatible (room_phase_at l t) (room_phase_at r t) \<longleftrightarrow>
      in_window (window_of (setup_starts_at l) (effective_ends_at l)) t
        \<and> in_window (window_of (setup_starts_at r) (effective_ends_at r)) t
    \<or> in_window (window_of (effective_starts_at l) (teardown_ends_at l)) t
        \<and> in_window (window_of (effective_starts_at r) (teardown_ends_at r)) t"
  using assms by (auto simp: time_defs)

lemma conflict_pointwise:
  assumes l: "envelope_ordered l" and r: "envelope_ordered r"
  shows "room_envelopes_conflict l r \<longleftrightarrow>
    (\<exists>t. \<not> phases_compatible (room_phase_at l t) (room_phase_at r t))"
proof -
  have "room_envelopes_conflict l r \<longleftrightarrow>
      (\<exists>t. in_window (window_of (setup_starts_at l) (effective_ends_at l)) t
         \<and> in_window (window_of (setup_starts_at r) (effective_ends_at r)) t)
    \<or> (\<exists>t. in_window (window_of (effective_starts_at l) (teardown_ends_at l)) t
         \<and> in_window (window_of (effective_starts_at r) (teardown_ends_at r)) t)"
    using l r by (simp add: room_envelopes_conflict_def windows_overlap_iff_common_instant
        envelope_ordered_def)
  then show ?thesis
    by (auto simp: phases_incompatible_iff [OF l r])
qed

lemma conflict_sym: "room_envelopes_conflict l r = room_envelopes_conflict r l"
  by (auto simp: time_defs)

lemma conflict_implies_overlap:
  "room_envelopes_conflict l r \<Longrightarrow> envelope_ordered l \<Longrightarrow> envelope_ordered r \<Longrightarrow>
     setup_starts_at l < teardown_ends_at r \<and> setup_starts_at r < teardown_ends_at l"
  by (auto simp: time_defs)

lemma conflict_self: "envelope_ordered e \<Longrightarrow> room_envelopes_conflict e e"
  by (auto simp: time_defs)

lemma no_conflict_starts_differ:
  "\<not> room_envelopes_conflict l r \<Longrightarrow> envelope_ordered l \<Longrightarrow> envelope_ordered r \<Longrightarrow>
     effective_starts_at l \<noteq> effective_starts_at r"
  by (auto simp: time_defs)

lemma turnover_sym:
  assumes "envelope_ordered l" and "envelope_ordered r"
  shows "permitted_turnover_window l r = permitted_turnover_window r l"
proof (cases "room_envelopes_conflict l r")
  case True
  then show ?thesis
    using conflict_sym [of l r] by (simp add: permitted_turnover_window_def)
next
  case False
  then have "sorted_pair effective_starts_at l r = sorted_pair effective_starts_at r l"
    using no_conflict_starts_differ [OF False assms] by (auto simp: sorted_pair_def)
  then show ?thesis
    using False conflict_sym [of l r] by (simp add: permitted_turnover_window_def)
qed

lemma foldE_host_presence:
  assumes "foldE (normalize_host_presence env) vs (ids, acc) = Inr (ids', res)"
    and "set ids = hp_host_id ` set acc" and "distinct (map hp_host_id acc)"
  shows "\<exists>new. res = acc @ new \<and> length new = length vs
      \<and> distinct (map hp_host_id res)
      \<and> (\<forall>p \<in> set new. setup_starts_at env \<le> hp_starts_at p \<and> hp_starts_at p < hp_ends_at p
           \<and> hp_ends_at p \<le> teardown_ends_at env
           \<and> whole_minute (hp_starts_at p) \<and> whole_minute (hp_ends_at p))"
  using assms
proof (induction vs arbitrary: ids acc)
  case Nil
  then show ?case by simp
next
  case (Cons v vs)
  from Cons.prems(1) obtain st where st: "normalize_host_presence env v (ids, acc) = Inr st"
    and fold: "foldE (normalize_host_presence env) vs st = Inr (ids', res)"
    by (auto simp: bindE_eq_Inr)
  from st obtain x h w where
      v: "v = Typed x" "hp_host_id x = Typed h" and h: "h \<notin> set ids"
    and w: "normalize_scheduling_window (Typed (window_of (hp_starts_at x) (hp_ends_at x))) = Inr w"
      "setup_starts_at env \<le> w_starts_at w" "w_ends_at w \<le> teardown_ends_at env"
    and step: "st = (h # ids,
      acc @ [\<lparr>hp_host_id = h, hp_starts_at = w_starts_at w, hp_ends_at = w_ends_at w\<rparr>])"
      (is "_ = (_, acc @ [?p])")
    by (auto simp: normalize_host_presence_def result_simps split: typed.splits if_splits)
  have "set (h # ids) = hp_host_id ` set (acc @ [?p])"
    and "distinct (map hp_host_id (acc @ [?p]))"
    using Cons.prems(2,3) h by auto
  from Cons.IH [OF fold [unfolded step] this] obtain new where
      res: "res = (acc @ [?p]) @ new" "length new = length vs" "distinct (map hp_host_id res)"
    and new: "\<forall>p \<in> set new. setup_starts_at env \<le> hp_starts_at p \<and> hp_starts_at p < hp_ends_at p
        \<and> hp_ends_at p \<le> teardown_ends_at env
        \<and> whole_minute (hp_starts_at p) \<and> whole_minute (hp_ends_at p)"
    by blast
  have "w_starts_at w < w_ends_at w" "whole_minute (w_starts_at w)" "whole_minute (w_ends_at w)"
    using w(1) by (auto simp: normalize_window_Inr normalize_instant_Inr)
  with new w(2,3) res show ?case
    by (intro exI [where x = "?p # new"]) simp
qed

lemma foldE_host_presence_utc:
  assumes "\<forall>p \<in> set ps. setup_starts_at env \<le> hp_starts_at p \<and> hp_starts_at p < hp_ends_at p
      \<and> hp_ends_at p \<le> teardown_ends_at env
      \<and> whole_minute (hp_starts_at p) \<and> whole_minute (hp_ends_at p)"
    and "distinct (map hp_host_id ps)" and "set ids \<inter> hp_host_id ` set ps = {}"
  shows "foldE (normalize_host_presence env) (map utc_presence ps) (ids, acc)
      = Inr (rev (map hp_host_id ps) @ ids, acc @ ps)"
  using assms
proof (induction ps arbitrary: ids acc)
  case Nil
  then show ?case by simp
next
  case (Cons p ps)
  have "normalize_host_presence env (utc_presence p) (ids, acc) = Inr (hp_host_id p # ids, acc @ [p])"
    using Cons.prems
    by (cases p) (auto simp: normalize_host_presence_def utc_presence_def
        normalize_scheduling_window_def)
  moreover have "foldE (normalize_host_presence env) (map utc_presence ps)
      (hp_host_id p # ids, acc @ [p]) =
      Inr (rev (map hp_host_id ps) @ hp_host_id p # ids, (acc @ [p]) @ ps)"
    using Cons.prems by (intro Cons.IH) auto
  ultimately show ?case by simp
qed

lemma normalize_host_presences_result:
  assumes "normalize_host_presences (Typed vs) env = Inr ps"
    and "normalize_scheduling_envelope env = Inr e"
  shows "length ps = length vs \<and> length vs \<le> MAX_HOSTS_PER_OCCURRENCE
      \<and> sorted (map (\<lambda>p. uuid_str (hp_host_id p)) ps) \<and> distinct (map hp_host_id ps)
      \<and> (\<forall>p \<in> set ps. setup_starts_at e \<le> hp_starts_at p \<and> hp_starts_at p < hp_ends_at p
           \<and> hp_ends_at p \<le> teardown_ends_at e
           \<and> whole_minute (hp_starts_at p) \<and> whole_minute (hp_ends_at p))"
proof -
  from assms obtain ids res where
      fold: "foldE (normalize_host_presence e) vs ([], []) = Inr (ids, res)"
    and ps: "ps = sort_key (\<lambda>v. uuid_str (hp_host_id v)) res"
    and len: "length vs \<le> MAX_HOSTS_PER_OCCURRENCE"
    by (auto simp: normalize_host_presences_def result_simps not_less split: if_splits)
  from foldE_host_presence [OF fold]
  have "length res = length vs" "distinct (map hp_host_id res)"
    "\<forall>p \<in> set res. setup_starts_at e \<le> hp_starts_at p \<and> hp_starts_at p < hp_ends_at p
      \<and> hp_ends_at p \<le> teardown_ends_at e
      \<and> whole_minute (hp_starts_at p) \<and> whole_minute (hp_ends_at p)"
    by auto
  with len ps show ?thesis
    by (simp add: distinct_map)
qed

section \<open>Properties\<close>

text \<open>
  C4. The two-clique rule of \<open>room_envelopes_conflict\<close> is the intended occupancy rule: for two
  envelopes that passed normalization, it reports a conflict exactly when at some instant both
  uses occupy the room and the instant is not a turnover, one use tearing down while the other
  prepares.
\<close>

theorem room_conflict_pointwise:
  assumes "normalize_scheduling_envelope x = Inr l" and "normalize_scheduling_envelope y = Inr r"
  shows "room_envelopes_conflict l r \<longleftrightarrow>
    (\<exists>t. \<not> phases_compatible (room_phase_at l t) (room_phase_at r t))"
  using assms by (intro conflict_pointwise normalize_envelope_Inr_ordered)

definition sample_envelope :: "int \<Rightarrow> envelope" where
  "sample_envelope m = \<lparr>setup_starts_at = m * minute_us, effective_starts_at = (m + 30) * minute_us,
     effective_ends_at = (m + 90) * minute_us, teardown_ends_at = (m + 120) * minute_us\<rparr>"

lemma normalize_sample_envelope:
  "0 \<le> m \<Longrightarrow> m < 1000000 \<Longrightarrow>
     normalize_scheduling_envelope (utc_envelope (sample_envelope m)) = Inr (sample_envelope m)"
  by (simp add: normalize_envelope_utc sample_envelope_def envelope_ordered_def whole_minute_def
      datetime_span_us_def day_us_def minute_us_def second_us_def)

theorem room_conflict_pointwise_witness:
  "\<exists>t. \<not> phases_compatible (room_phase_at (sample_envelope 0) t)
         (room_phase_at (sample_envelope 60) t)"
  using room_conflict_pointwise
      [OF normalize_sample_envelope [of 0] normalize_sample_envelope [of 60]]
  by (simp add: time_defs sample_envelope_def minute_us_def second_us_def)

text \<open>
  \<open>permitted_turnover_window\<close> is exact and symmetric on normalized envelopes: it returns no
  window exactly when the uses conflict or never share an instant, and a returned window holds
  precisely the instants both uses occupy.
\<close>

theorem turnover_window_exact:
  assumes "normalize_scheduling_envelope x = Inr l" and "normalize_scheduling_envelope y = Inr r"
  shows "(permitted_turnover_window l r = None \<longleftrightarrow> room_envelopes_conflict l r
      \<or> (\<forall>t. room_phase_at l t = Vacant \<or> room_phase_at r t = Vacant))
    \<and> (\<forall>w t. permitted_turnover_window l r = Some w \<longrightarrow>
        in_window w t = (room_phase_at l t \<noteq> Vacant \<and> room_phase_at r t \<noteq> Vacant))
    \<and> permitted_turnover_window l r = permitted_turnover_window r l"
proof (cases "room_envelopes_conflict l r")
  case True
  then show ?thesis
    using conflict_sym [of l r] by (simp add: permitted_turnover_window_def)
next
  case False
  have l: "envelope_ordered l" and r: "envelope_ordered r"
    using assms by (auto dest: normalize_envelope_Inr_ordered)
  define w where "w = (case sorted_pair effective_starts_at l r of (a, b) \<Rightarrow>
    window_of (max (effective_ends_at a) (setup_starts_at b))
      (min (teardown_ends_at a) (effective_starts_at b)))"
  have ptw: "permitted_turnover_window l r = (if w_starts_at w < w_ends_at w then Some w else None)"
    using False by (simp add: permitted_turnover_window_def w_def Let_def split: prod.split)
  have shared: "in_window w t = (room_phase_at l t \<noteq> Vacant \<and> room_phase_at r t \<noteq> Vacant)" for t
    using False l r by (auto simp: w_def sorted_pair_def time_defs split: if_splits)
  have "(\<forall>t. \<not> in_window w t) \<longleftrightarrow> \<not> w_starts_at w < w_ends_at w"
    by (auto simp: in_window_def intro: leI)
  then have none: "permitted_turnover_window l r = None \<longleftrightarrow>
      (\<forall>t. room_phase_at l t = Vacant \<or> room_phase_at r t = Vacant)"
    by (simp add: ptw shared)
  have some: "v = w" if "permitted_turnover_window l r = Some v" for v
    using that by (simp add: ptw split: if_splits)
  show ?thesis
    using False none shared some turnover_sym [OF l r] by blast
qed

theorem turnover_window_exact_witness:
  "permitted_turnover_window (sample_envelope 0) (sample_envelope 100)
     = Some (window_of (100 * minute_us) (120 * minute_us))
   \<and> room_phase_at (sample_envelope 0) (110 * minute_us) \<noteq> Vacant"
proof -
  have turnover: "permitted_turnover_window (sample_envelope 0) (sample_envelope 100)
      = Some (window_of (100 * minute_us) (120 * minute_us))"
    by (simp add: permitted_turnover_window_def sorted_pair_def time_defs sample_envelope_def
        minute_us_def second_us_def)
  moreover have "in_window (window_of (100 * minute_us) (120 * minute_us)) (110 * minute_us)"
    by (simp add: in_window_def minute_us_def second_us_def)
  ultimately show ?thesis
    using turnover_window_exact
        [OF normalize_sample_envelope [of 0] normalize_sample_envelope [of 100]]
    by auto
qed

text \<open>
  C5. \<open>normalize_host_presences\<close> returns one presence per input, at most one hundred, each host
  once, in the order of the printed identifiers, every interval positive, on whole minutes and
  inside the normalized envelope; normalizing the result again changes nothing.
\<close>

theorem host_presences_normalized:
  assumes "normalize_host_presences (Typed vs) env = Inr ps"
    and "normalize_scheduling_envelope env = Inr e"
  shows "length ps = length vs \<and> length ps \<le> 100
      \<and> sorted (map (\<lambda>p. uuid_str (hp_host_id p)) ps) \<and> distinct (map hp_host_id ps)
      \<and> (\<forall>p \<in> set ps. setup_starts_at e \<le> hp_starts_at p \<and> hp_starts_at p < hp_ends_at p
           \<and> hp_ends_at p \<le> teardown_ends_at e
           \<and> minute_us dvd hp_starts_at p \<and> minute_us dvd hp_ends_at p)
      \<and> normalize_host_presences (Typed (map utc_presence ps)) env = Inr ps"
proof -
  note facts = normalize_host_presences_result [OF assms]
  have "foldE (normalize_host_presence e) (map utc_presence ps) ([], []) =
      Inr (rev (map hp_host_id ps) @ [], [] @ ps)"
    by (rule foldE_host_presence_utc) (use facts in auto)
  then have "normalize_host_presences (Typed (map utc_presence ps)) env = Inr ps"
    using facts assms(2) by (simp add: normalize_host_presences_def sort_key_id_if_sorted)
  then show ?thesis
    using facts by (auto simp: MAX_HOSTS_PER_OCCURRENCE_def whole_minute_def)
qed

definition sample_presence :: "uuid \<Rightarrow> presence" where
  "sample_presence h = \<lparr>hp_host_id = h, hp_starts_at = 30 * minute_us, hp_ends_at = 60 * minute_us\<rparr>"

theorem host_presences_normalized_witness:
  "normalize_host_presences (Typed (map utc_presence [sample_presence 2, sample_presence 1]))
     (utc_envelope (sample_envelope 0)) = Inr [sample_presence 1, sample_presence 2]
   \<and> distinct (map hp_host_id [sample_presence 1, sample_presence 2])"
proof -
  have "foldE (normalize_host_presence (sample_envelope 0))
      (map utc_presence [sample_presence 2, sample_presence 1]) ([], []) =
      Inr (rev (map hp_host_id [sample_presence 2, sample_presence 1]) @ [],
        [] @ [sample_presence 2, sample_presence 1])"
    by (rule foldE_host_presence_utc) (auto simp: sample_presence_def sample_envelope_def whole_minute_def
        datetime_span_us_def day_us_def minute_us_def second_us_def)
  moreover have "sort_key (\<lambda>v. uuid_str (hp_host_id v)) [sample_presence 2, sample_presence 1]
      = [sample_presence 1, sample_presence 2]"
    by (simp add: sample_presence_def uuid_str_le word_le_nat_alt)
  ultimately have run: "normalize_host_presences (Typed (map utc_presence [sample_presence 2, sample_presence 1]))
     (utc_envelope (sample_envelope 0)) = Inr [sample_presence 1, sample_presence 2]"
    by (simp add: normalize_host_presences_def normalize_sample_envelope MAX_HOSTS_PER_OCCURRENCE_def)
  from host_presences_normalized [OF this normalize_sample_envelope] run show ?thesis
    by simp
qed

text \<open>
  \<open>normalize_scheduling_instant\<close> accepts exactly the offset-aware datetimes whose UTC instant
  is representable and falls on a whole minute, and returns that instant unrounded; a UTC value
  it returned is accepted again unchanged.
\<close>

theorem scheduling_instant_exact:
  "(normalize_scheduling_instant v field = Inr u \<longleftrightarrow>
      (\<exists>wall off. v = Datetime \<lparr>dt_wall = wall, dt_utcoffset = Offset off\<rparr> \<and> u = wall - off
         \<and> 0 \<le> u \<and> u < datetime_span_us \<and> minute_us dvd u))
   \<and> bindE (normalize_scheduling_instant v field)
       (\<lambda>u. normalize_scheduling_instant (utc_value u) field) = normalize_scheduling_instant v field"
proof -
  have "bindE (normalize_scheduling_instant v field)
          (\<lambda>u. normalize_scheduling_instant (utc_value u) field)
        = normalize_scheduling_instant v field"
  proof (cases "normalize_scheduling_instant v field")
    case (Inr u)
    then have "whole_minute u"
      by (auto simp: normalize_instant_Inr)
    with Inr show ?thesis by simp
  qed simp
  then show ?thesis
    by (auto simp: normalize_instant_Inr whole_minute_def)
qed

text \<open>
  \<open>placement_fits_service_day\<close> answers yes exactly when the envelope, the day window and the
  precision are all valid and each of the four boundaries is a whole number of grid steps after
  the start of the day and not after its end.
\<close>

theorem service_day_grid_exact:
  "placement_fits_service_day env win prec = Inr True \<longleftrightarrow>
     (\<exists>e w p. normalize_scheduling_envelope env = Inr e \<and> normalize_scheduling_window win = Inr w
        \<and> prec = PyInt p \<and> 1 \<le> p \<and> p dvd 60
        \<and> list_all (\<lambda>b. b \<le> w_ends_at w \<and> (\<exists>k. b = w_starts_at w + int k * (p * minute_us)))
            [setup_starts_at e, effective_starts_at e, effective_ends_at e, teardown_ends_at e])"
    (is "_ \<longleftrightarrow> ?thesis_rhs")
proof -
  have prec: "require_scheduling_precision prec = Inr p \<longleftrightarrow> prec = PyInt p \<and> 1 \<le> p \<and> p dvd 60" for p
    using zdvd_imp_le [of p 60]
    by (auto simp: require_scheduling_precision_def MINUTES_PER_HOUR_def dvd_eq_mod_eq_0
        split: py_number.splits if_splits)
  have grid: "s \<le> b \<and> (b - s) mod (p * 60 * second_us) = 0 \<longleftrightarrow>
      (\<exists>k. b = s + int k * (p * minute_us))" if "1 \<le> p" for b s p
  proof
    assume "s \<le> b \<and> (b - s) mod (p * 60 * second_us) = 0"
    then have "p * minute_us dvd b - s" and "s \<le> b"
      by (simp_all add: minute_us_def mult.assoc dvd_eq_mod_eq_0)
    then obtain k where k: "b - s = p * minute_us * k"
      by (auto elim: dvdE)
    have "0 < p * minute_us"
      using that by (simp add: minute_us_def second_us_def)
    with k \<open>s \<le> b\<close> have "0 \<le> k"
      by (metis diff_ge_0_iff_ge zero_le_mult_iff not_less)
    with k have "b = s + int (nat k) * (p * minute_us)"
      by (simp add: algebra_simps)
    then show "\<exists>k. b = s + int k * (p * minute_us)" ..
  qed (use that in \<open>auto simp: minute_us_def second_us_def\<close>)
  have body: "(w_starts_at w \<le> setup_starts_at e \<and> teardown_ends_at e \<le> w_ends_at w
        \<and> list_all (\<lambda>i. (i - w_starts_at w) mod (p * 60 * second_us) = 0) bs) \<longleftrightarrow>
      list_all (\<lambda>b. b \<le> w_ends_at w \<and> (\<exists>k. b = w_starts_at w + int k * (p * minute_us))) bs"
    if "envelope_ordered e" "1 \<le> p"
      "bs = [setup_starts_at e, effective_starts_at e, effective_ends_at e, teardown_ends_at e]"
    for e w p bs
    using that by (auto simp: grid [OF that(2), symmetric] envelope_ordered_def)
  have "placement_fits_service_day env win prec = Inr True \<longleftrightarrow>
      (\<exists>e w p. normalize_scheduling_envelope env = Inr e \<and> normalize_scheduling_window win = Inr w
        \<and> prec = PyInt p \<and> 1 \<le> p \<and> p dvd 60
        \<and> (w_starts_at w \<le> setup_starts_at e \<and> teardown_ends_at e \<le> w_ends_at w
          \<and> list_all (\<lambda>i. (i - w_starts_at w) mod (p * 60 * second_us) = 0)
              [setup_starts_at e, effective_starts_at e, effective_ends_at e, teardown_ends_at e]))"
    unfolding placement_fits_service_day_def Let_def bindE_eq_Inr prec sum.inject eq_True
    by blast
  also have "\<dots> \<longleftrightarrow> ?thesis_rhs"
    by (intro ex_cong1 conj_cong refl)
      (rule body, erule normalize_envelope_Inr_ordered, assumption, rule refl)
  finally show ?thesis .
qed

end
