(* ===== verification/Conflicts.thy ===== *)
theory Conflicts
  imports Time_Rules
begin

text \<open>
  The evaluation of a candidate timetable (\<open>src/src/maru/scheduling/conflicts.py\<close>): placement facts
  against the edition, the service days, the Programme's items and hosts and the Venues' spaces and
  busy periods. Findings are collected in a set under two global bounds, room and host overlaps are
  found by sweeps over sorted lists that stop early, and the result is a tuple in a fixed order.
  The theory defines the evaluation as the code has it and refines it to a declarative
  specification of the findings a candidate deserves.
\<close>

section \<open>Catalogue\<close>

definition MAX_OCCURRENCES :: nat where
  "MAX_OCCURRENCES = 2000"

definition MAX_CONFLICTS :: nat where
  "MAX_CONFLICTS = 10000"

definition MAX_CONFLICT_COMPARISONS :: nat where
  "MAX_CONFLICT_COMPARISONS = 1000000"

datatype SchedulingConflictSeverity = BLOCKER | WARNING | UNAVAILABLE

datatype SchedulingConflictCode =
    EDITION_UNAVAILABLE | DAY_CHANGED | DAY_RETIRED | EDITION_BOUNDS | DAY_BOUNDS | MINUTE_GRID
  | OCCURRENCE_CHANGED | OCCURRENCE_RETIRED | PROGRAMME_UNAVAILABLE | ITEM_RETIRED | HOST_REQUIRED
  | HOST_NOT_CURRENT | HOST_SOURCE_UNAVAILABLE | HOST_UNAVAILABLE | HOST_OUTSIDE_AVAILABILITY
  | HOST_OUTSIDE_PREFERENCE | HOST_OVERLAP | VENUE_UNAVAILABLE | VENUE_INACTIVE | VENUE_CAPACITY
  | VENUE_AVAILABILITY_MISSING | VENUE_HARD_AVAILABILITY | CANDIDATE_ROOM_OVERLAP
  | RESERVED_ROOM_OVERLAP | TURNOVER_OVERLAP | EVALUATION_LIMIT

fun conflict_code_value :: "SchedulingConflictCode \<Rightarrow> string" where
  "conflict_code_value EDITION_UNAVAILABLE = ''edition_unavailable''"
| "conflict_code_value DAY_CHANGED = ''day_changed''"
| "conflict_code_value DAY_RETIRED = ''day_retired''"
| "conflict_code_value EDITION_BOUNDS = ''edition_bounds''"
| "conflict_code_value DAY_BOUNDS = ''day_bounds''"
| "conflict_code_value MINUTE_GRID = ''minute_grid''"
| "conflict_code_value OCCURRENCE_CHANGED = ''occurrence_changed''"
| "conflict_code_value OCCURRENCE_RETIRED = ''occurrence_retired''"
| "conflict_code_value PROGRAMME_UNAVAILABLE = ''programme_unavailable''"
| "conflict_code_value ITEM_RETIRED = ''item_retired''"
| "conflict_code_value HOST_REQUIRED = ''host_required''"
| "conflict_code_value HOST_NOT_CURRENT = ''host_not_current''"
| "conflict_code_value HOST_SOURCE_UNAVAILABLE = ''host_source_unavailable''"
| "conflict_code_value HOST_UNAVAILABLE = ''host_unavailable''"
| "conflict_code_value HOST_OUTSIDE_AVAILABILITY = ''host_outside_availability''"
| "conflict_code_value HOST_OUTSIDE_PREFERENCE = ''host_outside_preference''"
| "conflict_code_value HOST_OVERLAP = ''host_overlap''"
| "conflict_code_value VENUE_UNAVAILABLE = ''venue_unavailable''"
| "conflict_code_value VENUE_INACTIVE = ''venue_inactive''"
| "conflict_code_value VENUE_CAPACITY = ''venue_capacity''"
| "conflict_code_value VENUE_AVAILABILITY_MISSING = ''venue_availability_missing''"
| "conflict_code_value VENUE_HARD_AVAILABILITY = ''venue_hard_availability''"
| "conflict_code_value CANDIDATE_ROOM_OVERLAP = ''candidate_room_overlap''"
| "conflict_code_value RESERVED_ROOM_OVERLAP = ''reserved_room_overlap''"
| "conflict_code_value TURNOVER_OVERLAP = ''turnover_overlap''"
| "conflict_code_value EVALUATION_LIMIT = ''evaluation_limit''"

definition SCHEDULING_TIME_CONFLICT_SOURCE :: string where
  "SCHEDULING_TIME_CONFLICT_SOURCE = ''scheduling.service-day-and-placement@1''"

definition PROGRAMME_SCHEDULING_CONFLICT_SOURCE :: string where
  "PROGRAMME_SCHEDULING_CONFLICT_SOURCE = ''programme.item-and-host-availability@1''"

definition VENUES_SCHEDULING_CONFLICT_SOURCE :: string where
  "VENUES_SCHEDULING_CONFLICT_SOURCE = ''venues.physical-scheduling-dependencies@1''"

section \<open>Facts\<close>

record SchedulingOccurrenceFacts =
  occ_id :: uuid
  occ_item_id :: uuid
  occ_selected_version :: int
  occ_current_version :: int
  occ_active :: bool

record SchedulingDayFacts =
  day_id :: uuid
  day_selected_version :: int
  day_current_version :: int
  day_active :: bool
  day_window :: window
  day_precision_minutes :: py_number

record SchedulingPlacementFacts =
  pl_id :: uuid
  pl_occurrence :: SchedulingOccurrenceFacts
  pl_day :: SchedulingDayFacts
  pl_space_id :: uuid
  pl_envelope :: envelope
  pl_capacity_mode :: string
  pl_expected_attendance :: int
  pl_hosts :: "presence list"
  pl_own_booking_id :: "uuid option"

record SchedulingFinding =
  fi_source_code :: string
  fi_code :: SchedulingConflictCode
  fi_severity :: SchedulingConflictSeverity
  fi_occurrence_id :: "uuid option"
  fi_other_occurrence_id :: "uuid option"

text \<open>The owner projections the evaluation reads, with the fields it uses.\<close>

record ProgrammeSchedulingItem =
  it_item_id :: uuid
  it_lifecycle :: string
  it_hosting_required :: bool

record ProgrammeHostAvailabilityPeriod =
  ap_window :: window
  ap_kind :: string

record ProgrammeSchedulingHost =
  ho_host_id :: uuid
  ho_item_id :: uuid
  ho_person_key :: "uuid option"
  ho_status :: string
  ho_periods :: "ProgrammeHostAvailabilityPeriod list"

record ProgrammeSchedulingSnapshot =
  pr_contract :: string
  pr_items :: "ProgrammeSchedulingItem list"
  pr_hosts :: "ProgrammeSchedulingHost list"

record VenueSchedulingSpace =
  sp_selection_id :: uuid
  sp_availability_version :: int
  sp_active :: bool
  sp_member_ids :: "uuid list"
  sp_seated_capacity :: int
  sp_standing_capacity :: int
  sp_table_capacity :: int
  sp_fire_capacity :: int
  sp_windows :: "window list"

record VenueSchedulingBusyPeriod =
  bu_source_key :: uuid
  bu_booking_id :: "uuid option"
  bu_member_id :: uuid
  bu_conflict_group :: string
  bu_window :: window

record VenueSchedulingSnapshot =
  ve_contract :: string
  ve_spaces :: "VenueSchedulingSpace list"
  ve_busy_periods :: "VenueSchedulingBusyPeriod list"

section \<open>Collecting findings under the two bounds\<close>

datatype evaluation_error = FindingLimit | TimeInvalid time_error | ManifestInvalid

record findings =
  f_values :: "SchedulingFinding list"
  f_comparisons :: nat

definition new_findings :: findings where
  "new_findings = \<lparr>f_values = [], f_comparisons = 0\<rparr>"

definition findings_compare :: "findings \<Rightarrow> evaluation_error + findings" where
  "findings_compare f =
     (let f' = f\<lparr>f_comparisons := f_comparisons f + 1\<rparr>
      in if MAX_CONFLICT_COMPARISONS < f_comparisons f' then Inl FindingLimit else Inr f')"

text \<open>The set of findings is a list without repetition, in order of insertion.\<close>

definition findings_add ::
    "string \<Rightarrow> SchedulingConflictCode \<Rightarrow> SchedulingConflictSeverity \<Rightarrow> uuid option \<Rightarrow> uuid option
      \<Rightarrow> findings \<Rightarrow> evaluation_error + findings" where
  "findings_add source code severity occurrence_id other_id f =
     (let (occurrence, other) =
            (case (occurrence_id, other_id) of
               (Some a, Some b) \<Rightarrow>
                 (case sorted_pair uuid_str a b of (x, y) \<Rightarrow> (Some x, Some y))
             | (a, b) \<Rightarrow> (a, b));
          finding = \<lparr>fi_source_code = source, fi_code = code, fi_severity = severity,
                     fi_occurrence_id = occurrence, fi_other_occurrence_id = other\<rparr>;
          f' = f\<lparr>f_values := (if finding \<in> set (f_values f) then f_values f
                              else f_values f @ [finding])\<rparr>
      in if MAX_CONFLICTS < length (f_values f') then Inl FindingLimit else Inr f')"

definition add_if ::
    "bool \<Rightarrow> string \<Rightarrow> SchedulingConflictCode \<Rightarrow> SchedulingConflictSeverity \<Rightarrow> uuid option
      \<Rightarrow> findings \<Rightarrow> evaluation_error + findings" where
  "add_if b source code severity occurrence_id f =
     (if b then findings_add source code severity occurrence_id None f else Inr f)"

section \<open>Time\<close>

fun covered_loop :: "instant \<Rightarrow> instant \<Rightarrow> window list \<Rightarrow> bool" where
  "covered_loop finish cursor [] = False"
| "covered_loop finish cursor (period # periods) =
     (if w_ends_at period \<le> cursor then covered_loop finish cursor periods
      else if cursor < w_starts_at period then False
      else if finish \<le> w_ends_at period then True
      else covered_loop finish (w_ends_at period) periods)"

definition covered :: "window \<Rightarrow> window list \<Rightarrow> bool" where
  "covered w periods = covered_loop (w_ends_at w) (w_starts_at w) (sort_key w_starts_at periods)"

definition within :: "instant \<Rightarrow> instant \<Rightarrow> instant \<Rightarrow> instant \<Rightarrow> bool" where
  "within lo s e hi \<longleftrightarrow> lo \<le> s \<and> s < e \<and> e \<le> hi"

definition time_findings ::
    "window option \<Rightarrow> SchedulingPlacementFacts \<Rightarrow> findings \<Rightarrow> evaluation_error + findings" where
  "time_findings edition placement f0 =
     (let occurrence = pl_occurrence placement; day = pl_day placement;
          env = pl_envelope placement; source = SCHEDULING_TIME_CONFLICT_SOURCE;
          who = Some (occ_id occurrence); dw = day_window day in
      bindE (add_if (\<not> occ_active occurrence) source OCCURRENCE_RETIRED BLOCKER who f0) (\<lambda>f.
      bindE (add_if (occ_selected_version occurrence \<noteq> occ_current_version occurrence)
               source OCCURRENCE_CHANGED BLOCKER who f) (\<lambda>f.
      bindE (add_if (\<not> day_active day) source DAY_RETIRED BLOCKER who f) (\<lambda>f.
      bindE (add_if (day_selected_version day \<noteq> day_current_version day)
               source DAY_CHANGED BLOCKER who f) (\<lambda>f.
      bindE (add_if (case edition of None \<Rightarrow> False
                     | Some ed \<Rightarrow>
                         \<not> within (w_starts_at ed) (setup_starts_at env) (teardown_ends_at env)
                             (w_ends_at ed)
                         \<or> \<not> within (w_starts_at ed) (w_starts_at dw) (w_ends_at dw) (w_ends_at ed))
               source EDITION_BOUNDS BLOCKER who f) (\<lambda>f.
      if \<not> within (w_starts_at dw) (setup_starts_at env) (teardown_ends_at env) (w_ends_at dw)
      then findings_add source DAY_BOUNDS BLOCKER who None f
      else case placement_fits_service_day (utc_envelope env) (utc_window dw)
                  (day_precision_minutes day) of
             Inl e \<Rightarrow> Inl (TimeInvalid e)
           | Inr fits \<Rightarrow> add_if (\<not> fits) source MINUTE_GRID BLOCKER who f))))))"

section \<open>Programme items and hosts\<close>

definition presence_window :: "presence \<Rightarrow> window" where
  "presence_window p = window_of (hp_starts_at p) (hp_ends_at p)"

definition host_findings ::
    "SchedulingPlacementFacts \<Rightarrow> presence \<Rightarrow> ProgrammeSchedulingHost option \<Rightarrow> findings
      \<Rightarrow> evaluation_error + findings" where
  "host_findings placement presence host_opt f =
     (let source = PROGRAMME_SCHEDULING_CONFLICT_SOURCE; occurrence = pl_occurrence placement;
          who = Some (occ_id occurrence) in
      case host_opt of
        None \<Rightarrow> findings_add source HOST_SOURCE_UNAVAILABLE UNAVAILABLE who None f
      | Some host \<Rightarrow>
          if ho_item_id host \<noteq> occ_item_id occurrence
          then findings_add source HOST_SOURCE_UNAVAILABLE UNAVAILABLE who None f
          else if ho_status host \<in> {''ended'', ''inactive'', ''unconfirmed''}
          then findings_add source HOST_NOT_CURRENT BLOCKER who None f
          else if ho_status host = ''unavailable''
          then findings_add source HOST_UNAVAILABLE BLOCKER who None f
          else if ho_status host \<noteq> ''shared'' \<or> ho_person_key host = None
          then findings_add source HOST_SOURCE_UNAVAILABLE UNAVAILABLE who None f
          else let required = presence_window presence in
            if \<not> covered required (map ap_window (ho_periods host))
            then findings_add source HOST_OUTSIDE_AVAILABILITY BLOCKER who None f
            else let preferred = map ap_window (filter (\<lambda>p. ap_kind p = ''preferred'')
                                                  (ho_periods host)) in
              add_if (preferred \<noteq> [] \<and> \<not> covered required preferred)
                source HOST_OUTSIDE_PREFERENCE WARNING who f)"

text \<open>A Python dictionary of lists in insertion order, and \<open>d.setdefault(k, []).append(v)\<close> on it.\<close>

fun dict_append :: "'k \<Rightarrow> 'v \<Rightarrow> ('k \<times> 'v list) list \<Rightarrow> ('k \<times> 'v list) list" where
  "dict_append k v [] = [(k, [v])]"
| "dict_append k v ((k', vs) # d) =
     (if k' = k then (k', vs @ [v]) # d else (k', vs) # dict_append k v d)"

text \<open>A dictionary comprehension keyed by a field: a later entry with the same key wins.\<close>

definition dict_by :: "('a \<Rightarrow> 'k) \<Rightarrow> 'a list \<Rightarrow> 'k \<Rightarrow> 'a option" where
  "dict_by key xs = map_of (rev (map (\<lambda>x. (key x, x)) xs))"

type_synonym commitment = "uuid \<times> window"
type_synonym people = "(uuid \<times> commitment list) list"

definition programme_presence ::
    "(uuid \<Rightarrow> ProgrammeSchedulingHost option) \<Rightarrow> SchedulingPlacementFacts \<Rightarrow> presence
      \<Rightarrow> people \<times> findings \<Rightarrow> evaluation_error + people \<times> findings" where
  "programme_presence hosts placement presence st =
     (let host = hosts (hp_host_id presence) in
      bindE (host_findings placement presence host (snd st)) (\<lambda>f.
      Inr (case host of
             None \<Rightarrow> (fst st, f)
           | Some h \<Rightarrow>
               (case ho_person_key h of
                  None \<Rightarrow> (fst st, f)
                | Some person \<Rightarrow>
                    if ho_item_id h = occ_item_id (pl_occurrence placement)
                    then (dict_append person
                            (occ_id (pl_occurrence placement), presence_window presence) (fst st), f)
                    else (fst st, f)))))"

definition programme_placement ::
    "(uuid \<Rightarrow> ProgrammeSchedulingItem option) \<Rightarrow> (uuid \<Rightarrow> ProgrammeSchedulingHost option)
      \<Rightarrow> SchedulingPlacementFacts \<Rightarrow> people \<times> findings \<Rightarrow> evaluation_error + people \<times> findings" where
  "programme_placement items hosts placement st =
     (let source = PROGRAMME_SCHEDULING_CONFLICT_SOURCE;
          who = Some (occ_id (pl_occurrence placement)) in
      case items (occ_item_id (pl_occurrence placement)) of
        None \<Rightarrow> bindE (findings_add source PROGRAMME_UNAVAILABLE UNAVAILABLE who None (snd st))
                  (\<lambda>f. Inr (fst st, f))
      | Some item \<Rightarrow>
          bindE (add_if (it_lifecycle item \<noteq> ''active'') source ITEM_RETIRED BLOCKER who (snd st)) (\<lambda>f.
          bindE (add_if (it_hosting_required item \<and> pl_hosts placement = [])
                   source HOST_REQUIRED BLOCKER who f) (\<lambda>f.
          foldE (programme_presence hosts placement) (pl_hosts placement) (fst st, f))))"

text \<open>
  The nested loops over a sorted list: each element against the later ones, leaving the inner
  loop at the first later element the stopping test accepts.
\<close>

fun sweep_right :: "('a \<Rightarrow> 'a \<Rightarrow> bool) \<Rightarrow> ('a \<Rightarrow> 'a \<Rightarrow> 's \<Rightarrow> 'e + 's) \<Rightarrow> 'a \<Rightarrow> 'a list \<Rightarrow> 's \<Rightarrow> 'e + 's" where
  "sweep_right stop body left [] s = Inr s"
| "sweep_right stop body left (right # rest) s =
     (if stop left right then Inr s
      else bindE (body left right s) (sweep_right stop body left rest))"

fun sweep :: "('a \<Rightarrow> 'a \<Rightarrow> bool) \<Rightarrow> ('a \<Rightarrow> 'a \<Rightarrow> 's \<Rightarrow> 'e + 's) \<Rightarrow> 'a list \<Rightarrow> 's \<Rightarrow> 'e + 's" where
  "sweep stop body [] s = Inr s"
| "sweep stop body (left # rest) s =
     bindE (sweep_right stop body left rest s) (sweep stop body rest)"

definition commitment_stop :: "commitment \<Rightarrow> commitment \<Rightarrow> bool" where
  "commitment_stop left right \<longleftrightarrow> w_ends_at (snd left) \<le> w_starts_at (snd right)"

definition commitment_pair ::
    "commitment \<Rightarrow> commitment \<Rightarrow> findings \<Rightarrow> evaluation_error + findings" where
  "commitment_pair left right f =
     bindE (findings_compare f) (\<lambda>f.
     if fst left \<noteq> fst right
     then findings_add PROGRAMME_SCHEDULING_CONFLICT_SOURCE HOST_OVERLAP BLOCKER
            (Some (fst left)) (Some (fst right)) f
     else Inr f)"

definition programme_findings ::
    "SchedulingPlacementFacts list \<Rightarrow> ProgrammeSchedulingSnapshot option \<Rightarrow> findings
      \<Rightarrow> evaluation_error + findings" where
  "programme_findings placements programme f =
     (let source = PROGRAMME_SCHEDULING_CONFLICT_SOURCE in
      case programme of
        None \<Rightarrow> findings_add source PROGRAMME_UNAVAILABLE UNAVAILABLE None None f
      | Some pr \<Rightarrow>
          if pr_contract pr \<noteq> source
          then findings_add source PROGRAMME_UNAVAILABLE UNAVAILABLE None None f
          else let items = dict_by it_item_id (pr_items pr); hosts = dict_by ho_host_id (pr_hosts pr) in
            bindE (foldE (programme_placement items hosts) placements ([], f)) (\<lambda>(people, f).
            foldE (\<lambda>commitments.
                sweep commitment_stop commitment_pair
                  (sort_key (\<lambda>c. w_starts_at (snd c)) commitments))
              (map snd people) f))"

section \<open>Venues\<close>

definition capacity_limit :: "VenueSchedulingSpace \<Rightarrow> string \<Rightarrow> int" where
  "capacity_limit space mode =
     (if mode = ''seated'' then sp_seated_capacity space
      else if mode = ''standing'' then sp_standing_capacity space
      else if mode = ''table'' then sp_table_capacity space else 0)"

definition space_findings ::
    "SchedulingPlacementFacts \<Rightarrow> VenueSchedulingSpace \<Rightarrow> findings \<Rightarrow> evaluation_error + findings" where
  "space_findings placement space f =
     (let source = VENUES_SCHEDULING_CONFLICT_SOURCE;
          who = Some (occ_id (pl_occurrence placement)); env = pl_envelope placement in
      bindE (add_if (\<not> sp_active space) source VENUE_INACTIVE BLOCKER who f) (\<lambda>f.
      bindE (add_if (min (capacity_limit space (pl_capacity_mode placement)) (sp_fire_capacity space)
                       < pl_expected_attendance placement)
               source VENUE_CAPACITY BLOCKER who f) (\<lambda>f.
      if sp_availability_version space < 1
      then findings_add source VENUE_AVAILABILITY_MISSING UNAVAILABLE who None f
      else add_if (\<not> list_ex (\<lambda>w. within (w_starts_at w) (setup_starts_at env) (teardown_ends_at env)
                              (w_ends_at w)) (sp_windows space))
             source VENUE_HARD_AVAILABILITY BLOCKER who f)))"

type_synonym members = "(uuid \<times> SchedulingPlacementFacts list) list"

definition venue_placement ::
    "(uuid \<Rightarrow> VenueSchedulingSpace option) \<Rightarrow> SchedulingPlacementFacts \<Rightarrow> members \<times> findings
      \<Rightarrow> evaluation_error + members \<times> findings" where
  "venue_placement spaces placement st =
     (let source = VENUES_SCHEDULING_CONFLICT_SOURCE;
          who = Some (occ_id (pl_occurrence placement));
          missing = bindE (findings_add source VENUE_UNAVAILABLE UNAVAILABLE who None (snd st))
                      (\<lambda>f. Inr (fst st, f)) in
      case spaces (pl_space_id placement) of
        None \<Rightarrow> missing
      | Some space \<Rightarrow>
          if sp_member_ids space = [] then missing
          else bindE (space_findings placement space (snd st)) (\<lambda>f.
            Inr (fold (\<lambda>member. dict_append member placement) (sp_member_ids space) (fst st), f)))"

type_synonym compared = "(uuid \<times> uuid) list"

definition placement_stop :: "SchedulingPlacementFacts \<Rightarrow> SchedulingPlacementFacts \<Rightarrow> bool" where
  "placement_stop left right \<longleftrightarrow>
     teardown_ends_at (pl_envelope left) \<le> setup_starts_at (pl_envelope right)"

definition candidate_pair ::
    "SchedulingPlacementFacts \<Rightarrow> SchedulingPlacementFacts \<Rightarrow> compared \<times> findings
      \<Rightarrow> evaluation_error + compared \<times> findings" where
  "candidate_pair left right st =
     (let source = VENUES_SCHEDULING_CONFLICT_SOURCE;
          lid = occ_id (pl_occurrence left); rid = occ_id (pl_occurrence right);
          pair = sorted_pair uuid_str lid rid in
      if pair \<in> set (fst st) then Inr st
      else bindE (findings_compare (snd st)) (\<lambda>f.
        bindE (if room_envelopes_conflict (pl_envelope left) (pl_envelope right)
               then findings_add source CANDIDATE_ROOM_OVERLAP BLOCKER (Some lid) (Some rid) f
               else if permitted_turnover_window (pl_envelope left) (pl_envelope right) \<noteq> None
               then findings_add source TURNOVER_OVERLAP WARNING (Some lid) (Some rid) f
               else Inr f) (\<lambda>f.
        Inr (pair # fst st, f))))"

text \<open>
  \<open>interactions\<close>: for each placement and busy source, whether any of its busy periods blocks and
  whether any touches the placement, in order of first mention.
\<close>

type_synonym interactions = "((uuid \<times> uuid) \<times> bool \<times> bool) list"

fun interactions_merge :: "uuid \<times> uuid \<Rightarrow> bool \<Rightarrow> bool \<Rightarrow> interactions \<Rightarrow> interactions" where
  "interactions_merge k b t [] = [(k, b, t)]"
| "interactions_merge k b t ((k', b', t') # d) =
     (if k' = k then (k', b' \<or> b, t' \<or> t) # d else (k', b', t') # interactions_merge k b t d)"

definition busy_clique :: "VenueSchedulingBusyPeriod \<Rightarrow> envelope \<Rightarrow> window" where
  "busy_clique busy env =
     (if bu_conflict_group busy = ''setup_effective''
      then window_of (setup_starts_at env) (effective_ends_at env)
      else window_of (effective_starts_at env) (teardown_ends_at env))"

definition busy_placement ::
    "VenueSchedulingBusyPeriod \<Rightarrow> SchedulingPlacementFacts \<Rightarrow> interactions \<times> findings
      \<Rightarrow> evaluation_error + interactions \<times> findings" where
  "busy_placement busy placement st =
     bindE (findings_compare (snd st)) (\<lambda>f.
     if bu_booking_id busy \<noteq> None \<and> bu_booking_id busy = pl_own_booking_id placement
     then Inr (fst st, f)
     else let env = pl_envelope placement;
              blocked = scheduling_windows_overlap (busy_clique busy env) (bu_window busy);
              touching = scheduling_windows_overlap
                (window_of (setup_starts_at env) (teardown_ends_at env)) (bu_window busy)
          in Inr (interactions_merge (occ_id (pl_occurrence placement), bu_source_key busy)
                    blocked touching (fst st), f))"

definition busy_period ::
    "members \<Rightarrow> VenueSchedulingBusyPeriod \<Rightarrow> interactions \<times> findings
      \<Rightarrow> evaluation_error + interactions \<times> findings" where
  "busy_period members busy st =
     (if bu_conflict_group busy \<notin> {''setup_effective'', ''effective_teardown''}
      then bindE (findings_add VENUES_SCHEDULING_CONFLICT_SOURCE VENUE_UNAVAILABLE UNAVAILABLE None None
                    (snd st)) (\<lambda>f. Inr (fst st, f))
      else foldE (busy_placement busy)
             (case map_of members (bu_member_id busy) of None \<Rightarrow> [] | Some ps \<Rightarrow> ps) st)"

fun busy_interaction ::
    "(uuid \<times> uuid) \<times> bool \<times> bool \<Rightarrow> findings \<Rightarrow> evaluation_error + findings" where
  "busy_interaction ((occurrence_id, source_key), blocked, touching) f =
     (if blocked
      then findings_add VENUES_SCHEDULING_CONFLICT_SOURCE RESERVED_ROOM_OVERLAP BLOCKER
             (Some occurrence_id) None f
      else add_if touching VENUES_SCHEDULING_CONFLICT_SOURCE TURNOVER_OVERLAP WARNING
             (Some occurrence_id) f)"

definition busy_findings ::
    "members \<Rightarrow> VenueSchedulingSnapshot \<Rightarrow> findings \<Rightarrow> evaluation_error + findings" where
  "busy_findings members venues f =
     bindE (foldE (busy_period members) (ve_busy_periods venues) ([], f)) (\<lambda>(interactions, f).
     foldE busy_interaction interactions f)"

definition venue_findings ::
    "SchedulingPlacementFacts list \<Rightarrow> VenueSchedulingSnapshot option \<Rightarrow> findings
      \<Rightarrow> evaluation_error + findings" where
  "venue_findings placements venues_opt f =
     (let source = VENUES_SCHEDULING_CONFLICT_SOURCE in
      case venues_opt of
        None \<Rightarrow> findings_add source VENUE_UNAVAILABLE UNAVAILABLE None None f
      | Some venues \<Rightarrow>
          if ve_contract venues \<noteq> source
          then findings_add source VENUE_UNAVAILABLE UNAVAILABLE None None f
          else bindE (foldE (venue_placement (dict_by sp_selection_id (ve_spaces venues)))
                        placements ([], f)) (\<lambda>(members, f).
            bindE (foldE (\<lambda>sharing.
                      sweep placement_stop candidate_pair
                        (sort_key (\<lambda>p. setup_starts_at (pl_envelope p)) sharing))
                    (map snd members) ([], f)) (\<lambda>(compared, f).
            busy_findings members venues f)))"

section \<open>The whole evaluation\<close>

definition finding_key :: "SchedulingFinding \<Rightarrow> string \<times> string \<times> string \<times> string" where
  "finding_key finding =
     (fi_source_code finding, conflict_code_value (fi_code finding),
      opt_uuid_str (fi_occurrence_id finding), opt_uuid_str (fi_other_occurrence_id finding))"

definition limit_finding :: SchedulingFinding where
  "limit_finding = \<lparr>fi_source_code = SCHEDULING_TIME_CONFLICT_SOURCE, fi_code = EVALUATION_LIMIT,
     fi_severity = UNAVAILABLE, fi_occurrence_id = None, fi_other_occurrence_id = None\<rparr>"

definition collect_findings ::
    "SchedulingPlacementFacts list \<Rightarrow> window option \<Rightarrow> ProgrammeSchedulingSnapshot option
      \<Rightarrow> VenueSchedulingSnapshot option \<Rightarrow> evaluation_error + findings" where
  "collect_findings placements edition programme venues =
     bindE (add_if (edition = None) SCHEDULING_TIME_CONFLICT_SOURCE EDITION_UNAVAILABLE UNAVAILABLE
              None new_findings) (\<lambda>f.
     bindE (foldE (time_findings edition) placements f) (\<lambda>f.
     bindE (programme_findings placements programme f) (\<lambda>f.
     venue_findings placements venues f)))"

definition evaluate_scheduling_facts ::
    "SchedulingPlacementFacts typed list typed \<Rightarrow> window option \<Rightarrow> ProgrammeSchedulingSnapshot option
      \<Rightarrow> VenueSchedulingSnapshot option \<Rightarrow> evaluation_error + SchedulingFinding list" where
  "evaluate_scheduling_facts values edition programme venues =
     (case values of
        Untyped \<Rightarrow> Inl ManifestInvalid
      | Typed vs \<Rightarrow>
          if MAX_OCCURRENCES < length vs \<or> Untyped \<in> set vs then Inl ManifestInvalid
          else let placements = concat (map (\<lambda>v. case v of Typed p \<Rightarrow> [p] | Untyped \<Rightarrow> []) vs) in
            if \<not> distinct (map (\<lambda>p. occ_id (pl_occurrence p)) placements) then Inl ManifestInvalid
            else case collect_findings placements edition programme venues of
                   Inl FindingLimit \<Rightarrow> Inr [limit_finding]
                 | Inl e \<Rightarrow> Inl e
                 | Inr f \<Rightarrow> Inr (sort_key finding_key (f_values f)))"

end
