(* ===== verification/Conflict_Spec.thy ===== *)
theory Conflict_Spec
  imports Conflicts
begin

text \<open>
  The specification of the candidate evaluation and the refinement to it. Every function of
  \<open>conflicts.py\<close> only counts comparisons and adds findings, so each is shown to perform a list of
  such emissions; a run of emissions succeeds exactly within the two bounds and then holds exactly
  the emitted findings. The early-stopping sweeps are shown to visit every overlapping pair in a
  locale over the start and end of an interval, interpreted for host commitments and for room
  envelopes.
\<close>

section \<open>Emissions\<close>

datatype emission = Compare | Emit SchedulingFinding

definition make_finding ::
    "string \<Rightarrow> SchedulingConflictCode \<Rightarrow> SchedulingConflictSeverity \<Rightarrow> uuid option \<Rightarrow> SchedulingFinding" where
  "make_finding source code severity who =
     \<lparr>fi_source_code = source, fi_code = code, fi_severity = severity,
      fi_occurrence_id = who, fi_other_occurrence_id = None\<rparr>"

definition pair_finding ::
    "string \<Rightarrow> SchedulingConflictCode \<Rightarrow> SchedulingConflictSeverity \<Rightarrow> uuid \<Rightarrow> uuid \<Rightarrow> SchedulingFinding" where
  "pair_finding source code severity a b =
     \<lparr>fi_source_code = source, fi_code = code, fi_severity = severity,
      fi_occurrence_id = Some (min a b), fi_other_occurrence_id = Some (max a b)\<rparr>"

definition emit_if ::
    "bool \<Rightarrow> string \<Rightarrow> SchedulingConflictCode \<Rightarrow> SchedulingConflictSeverity \<Rightarrow> uuid option \<Rightarrow> emission list" where
  "emit_if b source code severity who = (if b then [Emit (make_finding source code severity who)] else [])"

fun perform :: "emission \<Rightarrow> findings \<Rightarrow> evaluation_error + findings" where
  "perform Compare f = findings_compare f"
| "perform (Emit x) f =
     (let f' = f\<lparr>f_values := (if x \<in> set (f_values f) then f_values f else f_values f @ [x])\<rparr>
      in if MAX_CONFLICTS < length (f_values f') then Inl FindingLimit else Inr f')"

abbreviation run :: "emission list \<Rightarrow> findings \<Rightarrow> evaluation_error + findings" where
  "run \<equiv> foldE perform"

definition emitted :: "emission list \<Rightarrow> SchedulingFinding set" where
  "emitted es = {x. Emit x \<in> set es}"

definition comparisons :: "emission list \<Rightarrow> nat" where
  "comparisons es = count_list es Compare"

lemma emitted_simps [simp]:
  "emitted [] = {}" "emitted (Compare # es) = emitted es" "emitted (Emit x # es) = insert x (emitted es)"
  "emitted (as @ bs) = emitted as \<union> emitted bs" "emitted (concat ess) = (\<Union>es \<in> set ess. emitted es)"
  by (auto simp: emitted_def)

lemma emitted_emit_if [simp]:
  "emitted (emit_if b s c v w) = (if b then {make_finding s c v w} else {})"
  by (simp add: emit_if_def)

lemma finite_emitted [simp]: "finite (emitted es)"
  by (induction es rule: list.induct) (auto split: emission.splits, metis emission.exhaust
      emitted_simps(2,3) finite_insert)

lemma comparisons_simps [simp]:
  "comparisons [] = 0" "comparisons (Compare # es) = Suc (comparisons es)"
  "comparisons (Emit x # es) = comparisons es"
  by (simp_all add: comparisons_def)

lemma sorted_pair_uuid: "sorted_pair uuid_str a b = (min a b, max a b)"
  by (auto simp: sorted_pair_def uuid_str_less min_def max_def)

lemma findings_add_single [simp]:
  "findings_add s c v w None = run [Emit (make_finding s c v w)]"
  by (rule ext) (cases w; simp add: findings_add_def make_finding_def Let_def)

lemma findings_add_pair [simp]:
  "findings_add s c v (Some a) (Some b) = run [Emit (pair_finding s c v a b)]"
  by (rule ext) (simp add: findings_add_def pair_finding_def Let_def sorted_pair_uuid)

lemma add_if_run [simp]: "add_if b s c v w = run (emit_if b s c v w)"
  by (rule ext) (simp add: add_if_def emit_if_def)

lemma findings_compare_run: "findings_compare f = run [Compare] f"
  by simp

lemma run_append [symmetric]: "run (as @ bs) f = bindE (run as f) (run bs)"
  by (rule foldE_append)

definition well_collected :: "findings \<Rightarrow> bool" where
  "well_collected f \<longleftrightarrow> distinct (f_values f) \<and> length (f_values f) \<le> MAX_CONFLICTS
     \<and> f_comparisons f \<le> MAX_CONFLICT_COMPARISONS"

text \<open>A run of emissions: it hits a limit exactly when a bound is exceeded, else it holds them all.\<close>

lemma run_outcome:
  assumes "well_collected f"
  shows "if f_comparisons f + comparisons es \<le> MAX_CONFLICT_COMPARISONS
           \<and> card (set (f_values f) \<union> emitted es) \<le> MAX_CONFLICTS
         then \<exists>f'. run es f = Inr f' \<and> well_collected f'
           \<and> set (f_values f') = set (f_values f) \<union> emitted es
         else run es f = Inl FindingLimit"
  using assms
proof (induction es arbitrary: f)
  case Nil
  then show ?case
    by (auto simp: well_collected_def distinct_card)
next
  case (Cons e es)
  show ?case
  proof (cases e)
    case Compare
    show ?thesis
    proof (cases "Suc (f_comparisons f) \<le> MAX_CONFLICT_COMPARISONS")
      case True
      then have "well_collected (f\<lparr>f_comparisons := Suc (f_comparisons f)\<rparr>)"
        using Cons.prems by (simp add: well_collected_def)
      from Cons.IH [OF this] True Compare show ?thesis
        by (simp add: findings_compare_def Let_def split: if_splits)
    next
      case False
      with Compare show ?thesis
        by (auto simp: findings_compare_def Let_def)
    qed
  next
    case (Emit x)
    define vs where "vs = (if x \<in> set (f_values f) then f_values f else f_values f @ [x])"
    have vs: "distinct vs" "set vs = insert x (set (f_values f))"
      using Cons.prems by (auto simp: vs_def well_collected_def)
    show ?thesis
    proof (cases "length vs \<le> MAX_CONFLICTS")
      case True
      with vs(1) have "well_collected (f\<lparr>f_values := vs\<rparr>)"
        using Cons.prems by (simp add: well_collected_def)
      from Cons.IH [OF this] True Emit vs show ?thesis
        by (simp add: Let_def flip: vs_def split: if_splits)
    next
      case False
      have "card (set vs) \<le> card (set (f_values f) \<union> emitted (e # es))"
        using Emit vs(2) by (intro card_mono) auto
      with False vs(1) have "\<not> card (set (f_values f) \<union> emitted (e # es)) \<le> MAX_CONFLICTS"
        by (simp add: distinct_card)
      with False Emit show ?thesis
        by (simp add: Let_def flip: vs_def)
    qed
  qed
qed

lemma foldE_run:
  assumes "\<And>x f. x \<in> set xs \<Longrightarrow> step x f = run (ems x) f"
  shows "foldE step xs f = run (concat (map ems xs)) f"
  using assms
proof (induction xs arbitrary: f)
  case Nil
  then show ?case by simp
next
  case (Cons x xs)
  have "foldE step xs = run (concat (map ems xs))"
    by (rule ext) (rule Cons.IH, simp add: Cons.prems)
  then show ?case
    using Cons.prems by (simp add: run_append)
qed

lemma foldE_run_state:
  assumes "\<And>x a f. x \<in> set xs \<Longrightarrow> step x (a, f) = bindE (run (ems x) f) (\<lambda>f'. Inr (upd x a, f'))"
  shows "foldE step xs (a, f) =
    bindE (run (concat (map ems xs)) f) (\<lambda>f'. Inr (fold upd xs a, f'))"
  using assms
proof (induction xs arbitrary: a f)
  case Nil
  then show ?case by simp
next
  case (Cons x xs)
  have IH: "foldE step xs (a', f') =
      bindE (run (concat (map ems xs)) f') (\<lambda>f'. Inr (fold upd xs a', f'))" for a' f'
    by (rule Cons.IH) (simp add: Cons.prems)
  show ?case
    by (simp add: Cons.prems bindE_assoc IH flip: run_append)
qed

section \<open>Sweeps\<close>

text \<open>The pairs the nested loops visit, in order.\<close>

fun sweep_pairs :: "('a \<Rightarrow> 'a \<Rightarrow> bool) \<Rightarrow> 'a list \<Rightarrow> ('a \<times> 'a) list" where
  "sweep_pairs stop [] = []"
| "sweep_pairs stop (l # ls) = map (Pair l) (takeWhile (\<lambda>r. \<not> stop l r) ls) @ sweep_pairs stop ls"

lemma sweep_right_pairs:
  "sweep_right stop body l rs s =
     foldE (\<lambda>(a, b). body a b) (map (Pair l) (takeWhile (\<lambda>r. \<not> stop l r) rs)) s"
proof (induction rs arbitrary: s)
  case Nil
  then show ?case by simp
next
  case (Cons r rs)
  then show ?case by (cases "body l r s") simp_all
qed

lemma sweep_foldE: "sweep stop body xs s = foldE (\<lambda>(a, b). body a b) (sweep_pairs stop xs) s"
proof (induction xs arbitrary: s)
  case Nil
  then show ?case by simp
next
  case (Cons x xs)
  have "sweep stop body xs = foldE (\<lambda>(a, b). body a b) (sweep_pairs stop xs)"
    by (rule ext) (rule Cons.IH)
  then show ?case
    by (simp add: sweep_right_pairs foldE_append)
qed

text \<open>
  The contract of a sweep: elements have a start and an end, and the inner loop stops at the first
  element that starts at or after the end of the left one. On a list sorted by start the visited
  pairs are then exactly the pairs of distinct positions whose right element starts early enough.
\<close>

locale interval_sweep =
  fixes start finish :: "'a \<Rightarrow> 'k :: linorder"
    and stop :: "'a \<Rightarrow> 'a \<Rightarrow> bool"
  assumes stop_iff: "stop l r \<longleftrightarrow> finish l \<le> start r"
begin

lemma takeWhile_sorted:
  assumes "sorted (map start rs)" and "r \<in> set rs" and "start r < finish l"
  shows "r \<in> set (takeWhile (\<lambda>r. \<not> stop l r) rs)"
  using assms by (induction rs) (auto simp: stop_iff)

lemma sweep_pairs_sound:
  assumes "(l, r) \<in> set (sweep_pairs stop xs)" and "sorted (map start xs)"
  shows "l \<in> set xs \<and> r \<in> set xs \<and> start l \<le> start r \<and> start r < finish l"
  using assms
proof (induction xs)
  case Nil
  then show ?case by simp
next
  case (Cons x xs)
  then show ?case
    by (auto dest: set_takeWhileD simp: stop_iff)
qed

lemma sweep_pairs_complete:
  assumes "sorted (map start xs)" and "l \<in> set xs" and "r \<in> set xs" and "l \<noteq> r"
    and "start l < finish r" and "start r < finish l"
  shows "(l, r) \<in> set (sweep_pairs stop xs) \<or> (r, l) \<in> set (sweep_pairs stop xs)"
  using assms by (induction xs) (auto intro: takeWhile_sorted)

lemma sweep_sorted_overlaps:
  assumes "l \<in> set xs" and "r \<in> set xs" and "l \<noteq> r"
    and "start l < finish r" and "start r < finish l"
  shows "(l, r) \<in> set (sweep_pairs stop (sort_key start xs))
       \<or> (r, l) \<in> set (sweep_pairs stop (sort_key start xs))"
  using assms by (intro sweep_pairs_complete) simp_all

lemma sweep_sorted_sound:
  assumes "(l, r) \<in> set (sweep_pairs stop (sort_key start xs))"
  shows "l \<in> set xs \<and> r \<in> set xs \<and> start l \<le> start r \<and> start r < finish l"
  using sweep_pairs_sound [OF assms] by simp

end

interpretation host_sweep: interval_sweep
  "\<lambda>c :: commitment. w_starts_at (snd c)" "\<lambda>c. w_ends_at (snd c)" commitment_stop
  by unfold_locales (simp add: commitment_stop_def)

interpretation room_sweep: interval_sweep
  "\<lambda>p. setup_starts_at (pl_envelope p)" "\<lambda>p. teardown_ends_at (pl_envelope p)" placement_stop
  by unfold_locales (simp add: placement_stop_def)

section \<open>Dictionaries of lists\<close>

definition dict_get :: "('k \<times> 'v list) list \<Rightarrow> 'k \<Rightarrow> 'v list" where
  "dict_get d k = (case map_of d k of None \<Rightarrow> [] | Some vs \<Rightarrow> vs)"

lemma dict_get_append:
  "dict_get (dict_append k v d) k' = dict_get d k' @ (if k' = k then [v] else [])"
  by (induction k v d rule: dict_append.induct) (auto simp: dict_get_def)

lemma dict_append_keys: "set (map fst (dict_append k v d)) = insert k (set (map fst d))"
  by (induction k v d rule: dict_append.induct) auto

lemma dict_append_distinct: "distinct (map fst d) \<Longrightarrow> distinct (map fst (dict_append k v d))"
proof (induction k v d rule: dict_append.induct)
  case (2 k v k' vs d)
  then show ?case
    using dict_append_keys [of k v d] by auto
qed simp

lemma dict_get_Nil [simp]: "dict_get [] k = []"
  by (simp add: dict_get_def)

lemma dict_get_mem: "distinct (map fst d) \<Longrightarrow> (k, vs) \<in> set d \<Longrightarrow> dict_get d k = vs"
  by (simp add: dict_get_def)

lemma dict_entries:
  assumes "distinct (map fst d)"
  shows "vs \<in> set (map snd d) \<longleftrightarrow> (\<exists>k \<in> set (map fst d). vs = dict_get d k)"
proof
  assume "vs \<in> set (map snd d)"
  then obtain k where "(k, vs) \<in> set d" by auto
  with assms show "\<exists>k \<in> set (map fst d). vs = dict_get d k"
    by (force simp: dict_get_mem)
next
  assume "\<exists>k \<in> set (map fst d). vs = dict_get d k"
  then obtain k ws where "(k, ws) \<in> set d" and "vs = dict_get d k" by auto
  with assms show "vs \<in> set (map snd d)"
    by (force simp: dict_get_mem)
qed

definition dict_of :: "('k \<times> 'v) list \<Rightarrow> ('k \<times> 'v list) list" where
  "dict_of kvs = fold (\<lambda>(k, v). dict_append k v) kvs []"

lemma fold_dict_append:
  "distinct (map fst d) \<Longrightarrow>
     distinct (map fst (fold (\<lambda>(k, v). dict_append k v) kvs d))
   \<and> set (map fst (fold (\<lambda>(k, v). dict_append k v) kvs d)) = set (map fst d) \<union> fst ` set kvs
   \<and> set (dict_get (fold (\<lambda>(k, v). dict_append k v) kvs d) k) =
       set (dict_get d k) \<union> {v. (k, v) \<in> set kvs}"
proof (induction kvs arbitrary: d)
  case Nil
  then show ?case by simp
next
  case (Cons kv kvs)
  obtain k' v where kv: "kv = (k', v)"
    by (cases kv)
  have "distinct (map fst (dict_append k' v d))"
    using Cons.prems by (rule dict_append_distinct)
  from Cons.IH [OF this] show ?case
    using dict_append_keys [of k' v d] by (auto simp: kv dict_get_append split: if_splits)
qed

lemma dict_of_distinct: "distinct (map fst (dict_of kvs))"
  and dict_of_keys: "set (map fst (dict_of kvs)) = fst ` set kvs"
  using fold_dict_append [of "[]" kvs undefined] by (simp_all add: dict_of_def)

lemma dict_of_get: "set (dict_get (dict_of kvs) k) = {v. (k, v) \<in> set kvs}"
  using fold_dict_append [of "[]" kvs k] unfolding dict_of_def by simp

lemma dict_of_groups:
  assumes "vs \<in> set (map snd (dict_of kvs))"
  shows "\<exists>k. set vs = {v. (k, v) \<in> set kvs}"
proof -
  from assms obtain k where "vs = dict_get (dict_of kvs) k"
    by (auto simp only: dict_entries [OF dict_of_distinct])
  then show ?thesis by (auto simp: dict_of_get)
qed

lemma dict_of_group_exists:
  assumes "(k, v) \<in> set kvs"
  shows "\<exists>vs \<in> set (map snd (dict_of kvs)). set vs = {v. (k, v) \<in> set kvs}"
proof -
  have "k \<in> set (map fst (dict_of kvs))"
    using assms by (force simp only: dict_of_keys image_iff fst_conv)
  then have "dict_get (dict_of kvs) k \<in> set (map snd (dict_of kvs))"
    by (auto simp only: dict_entries [OF dict_of_distinct])
  then show ?thesis by (auto intro!: bexI simp: dict_of_get)
qed

section \<open>What each part of the evaluation emits\<close>

declare foldE.simps(2) [simp del] perform.simps [simp del]

abbreviation who :: "SchedulingPlacementFacts \<Rightarrow> uuid" where
  "who p \<equiv> occ_id (pl_occurrence p)"

text \<open>The facts a placement has passed the Scheduling input boundary: its times are normalized.\<close>

definition placement_normalized :: "SchedulingPlacementFacts \<Rightarrow> bool" where
  "placement_normalized p \<longleftrightarrow>
     normalize_scheduling_envelope (utc_envelope (pl_envelope p)) = Inr (pl_envelope p)
     \<and> normalize_scheduling_window (utc_window (day_window (pl_day p))) = Inr (day_window (pl_day p))
     \<and> is_ok (require_scheduling_precision (day_precision_minutes (pl_day p)))"

definition time_ems :: "window option \<Rightarrow> SchedulingPlacementFacts \<Rightarrow> emission list" where
  "time_ems edition p =
     (let source = SCHEDULING_TIME_CONFLICT_SOURCE; occ = pl_occurrence p; day = pl_day p;
          env = pl_envelope p; dw = day_window day; w = Some (who p) in
      emit_if (\<not> occ_active occ) source OCCURRENCE_RETIRED BLOCKER w
      @ emit_if (occ_selected_version occ \<noteq> occ_current_version occ) source OCCURRENCE_CHANGED BLOCKER w
      @ emit_if (\<not> day_active day) source DAY_RETIRED BLOCKER w
      @ emit_if (day_selected_version day \<noteq> day_current_version day) source DAY_CHANGED BLOCKER w
      @ emit_if (case edition of None \<Rightarrow> False | Some ed \<Rightarrow>
            \<not> within (w_starts_at ed) (setup_starts_at env) (teardown_ends_at env) (w_ends_at ed)
            \<or> \<not> within (w_starts_at ed) (w_starts_at dw) (w_ends_at dw) (w_ends_at ed))
          source EDITION_BOUNDS BLOCKER w
      @ (if \<not> within (w_starts_at dw) (setup_starts_at env) (teardown_ends_at env) (w_ends_at dw)
         then [Emit (make_finding source DAY_BOUNDS BLOCKER w)]
         else emit_if (placement_fits_service_day (utc_envelope env) (utc_window dw)
                         (day_precision_minutes day) \<noteq> Inr True) source MINUTE_GRID BLOCKER w))"

lemma placement_fits_normalized:
  assumes "placement_normalized p"
  shows "\<exists>b. placement_fits_service_day (utc_envelope (pl_envelope p)) (utc_window (day_window (pl_day p)))
      (day_precision_minutes (pl_day p)) = Inr b"
  using assms by (auto simp: placement_normalized_def placement_fits_service_day_def Let_def is_ok_iff)

lemma time_findings_run:
  assumes "placement_normalized p"
  shows "time_findings edition p f = run (time_ems edition p) f"
proof -
  obtain b where b: "placement_fits_service_day (utc_envelope (pl_envelope p))
      (utc_window (day_window (pl_day p))) (day_precision_minutes (pl_day p)) = Inr b"
    using placement_fits_normalized [OF assms] by blast
  show ?thesis
    by (cases "within (w_starts_at (day_window (pl_day p))) (setup_starts_at (pl_envelope p))
          (teardown_ends_at (pl_envelope p)) (w_ends_at (day_window (pl_day p)))")
      (simp_all add: time_findings_def time_ems_def Let_def run_append b)
qed

definition host_em :: "SchedulingPlacementFacts \<Rightarrow> presence \<Rightarrow> ProgrammeSchedulingHost option
    \<Rightarrow> emission list" where
  "host_em p presence host_opt =
     (let emit = (\<lambda>code severity.
            [Emit (make_finding PROGRAMME_SCHEDULING_CONFLICT_SOURCE code severity (Some (who p)))]) in
      case host_opt of
        None \<Rightarrow> emit HOST_SOURCE_UNAVAILABLE UNAVAILABLE
      | Some host \<Rightarrow>
          if ho_item_id host \<noteq> occ_item_id (pl_occurrence p) then emit HOST_SOURCE_UNAVAILABLE UNAVAILABLE
          else if ho_status host \<in> {''ended'', ''inactive'', ''unconfirmed''}
          then emit HOST_NOT_CURRENT BLOCKER
          else if ho_status host = ''unavailable'' then emit HOST_UNAVAILABLE BLOCKER
          else if ho_status host \<noteq> ''shared'' \<or> ho_person_key host = None
          then emit HOST_SOURCE_UNAVAILABLE UNAVAILABLE
          else if \<not> covered (presence_window presence) (map ap_window (ho_periods host))
          then emit HOST_OUTSIDE_AVAILABILITY BLOCKER
          else let preferred = map ap_window (filter (\<lambda>p. ap_kind p = ''preferred'') (ho_periods host)) in
            if preferred \<noteq> [] \<and> \<not> covered (presence_window presence) preferred
            then emit HOST_OUTSIDE_PREFERENCE WARNING else [])"

lemma host_findings_run: "host_findings p presence host f = run (host_em p presence host) f"
  by (cases host) (simp_all add: host_findings_def host_em_def Let_def emit_if_def)

text \<open>The commitment a presence adds to the calendar of its host's person.\<close>

definition presence_kv :: "(uuid \<Rightarrow> ProgrammeSchedulingHost option) \<Rightarrow> SchedulingPlacementFacts \<Rightarrow> presence
    \<Rightarrow> (uuid \<times> commitment) list" where
  "presence_kv hosts p presence =
     (case hosts (hp_host_id presence) of
        None \<Rightarrow> []
      | Some h \<Rightarrow>
          (case ho_person_key h of
             None \<Rightarrow> []
           | Some person \<Rightarrow>
               if ho_item_id h = occ_item_id (pl_occurrence p)
               then [(person, who p, presence_window presence)] else []))"

abbreviation fold_dict :: "('k \<times> 'v) list \<Rightarrow> ('k \<times> 'v list) list \<Rightarrow> ('k \<times> 'v list) list" where
  "fold_dict \<equiv> fold (\<lambda>(k, v). dict_append k v)"

lemma fold_fold_concat: "fold (\<lambda>x. fold f (g x)) xs a = fold f (concat (map g xs)) a"
  by (induction xs arbitrary: a) simp_all

lemma foldE_concat: "foldE (\<lambda>x. foldE g (h x)) xs s = foldE g (concat (map h xs)) s"
proof (induction xs arbitrary: s)
  case (Cons x xs)
  have "foldE (\<lambda>x. foldE g (h x)) xs = foldE g (concat (map h xs))"
    by (rule ext) (rule Cons.IH)
  then show ?case by (simp add: foldE.simps foldE_append)
qed simp

lemma programme_presence_run:
  "programme_presence hosts p presence (ppl, f) =
     bindE (run (host_em p presence (hosts (hp_host_id presence))) f)
       (\<lambda>f'. Inr (fold_dict (presence_kv hosts p presence) ppl, f'))"
  by (simp add: programme_presence_def host_findings_run presence_kv_def Let_def
      split: option.splits)

definition placement_ems :: "(uuid \<Rightarrow> ProgrammeSchedulingItem option) \<Rightarrow>
    (uuid \<Rightarrow> ProgrammeSchedulingHost option) \<Rightarrow> SchedulingPlacementFacts \<Rightarrow> emission list" where
  "placement_ems items hosts p =
     (let source = PROGRAMME_SCHEDULING_CONFLICT_SOURCE; w = Some (who p) in
      case items (occ_item_id (pl_occurrence p)) of
        None \<Rightarrow> [Emit (make_finding source PROGRAMME_UNAVAILABLE UNAVAILABLE w)]
      | Some item \<Rightarrow>
          emit_if (it_lifecycle item \<noteq> ''active'') source ITEM_RETIRED BLOCKER w
          @ emit_if (it_hosting_required item \<and> pl_hosts p = []) source HOST_REQUIRED BLOCKER w
          @ concat (map (\<lambda>pr. host_em p pr (hosts (hp_host_id pr))) (pl_hosts p)))"

definition placement_kvs :: "(uuid \<Rightarrow> ProgrammeSchedulingItem option) \<Rightarrow>
    (uuid \<Rightarrow> ProgrammeSchedulingHost option) \<Rightarrow> SchedulingPlacementFacts \<Rightarrow> (uuid \<times> commitment) list" where
  "placement_kvs items hosts p =
     (if items (occ_item_id (pl_occurrence p)) = None then []
      else concat (map (presence_kv hosts p) (pl_hosts p)))"

lemma programme_placement_run:
  "programme_placement items hosts p (ppl, f) =
     bindE (run (placement_ems items hosts p) f)
       (\<lambda>f'. Inr (fold_dict (placement_kvs items hosts p) ppl, f'))"
proof (cases "items (occ_item_id (pl_occurrence p))")
  case None
  then show ?thesis
    by (simp add: programme_placement_def placement_ems_def placement_kvs_def Let_def)
next
  case (Some item)
  have hosts: "foldE (programme_presence hosts p) (pl_hosts p) (ppl, f') =
      bindE (run (concat (map (\<lambda>pr. host_em p pr (hosts (hp_host_id pr))) (pl_hosts p))) f')
        (\<lambda>f'. Inr (fold_dict (placement_kvs items hosts p) ppl, f'))" for f'
    by (subst foldE_run_state [where ems = "\<lambda>pr. host_em p pr (hosts (hp_host_id pr))"
          and upd = "\<lambda>pr. fold_dict (presence_kv hosts p pr)"])
      (simp_all add: programme_presence_run fold_fold_concat placement_kvs_def Some)
  show ?thesis
    by (simp add: programme_placement_def placement_ems_def Some Let_def hosts bindE_assoc
        flip: run_append)
qed

definition commitment_em :: "commitment \<times> commitment \<Rightarrow> emission list" where
  "commitment_em lr = (case lr of (l, r) \<Rightarrow> Compare #
     (if fst l \<noteq> fst r
      then [Emit (pair_finding PROGRAMME_SCHEDULING_CONFLICT_SOURCE HOST_OVERLAP BLOCKER (fst l) (fst r))]
      else []))"

lemma commitment_pair_run: "commitment_pair l r f = run (commitment_em (l, r)) f"
  by (cases "fst l = fst r")
    (simp_all add: commitment_pair_def commitment_em_def findings_compare_run run_append)

definition calendar_pairs :: "(uuid \<times> commitment) list \<Rightarrow> (commitment \<times> commitment) list" where
  "calendar_pairs kvs = concat (map (\<lambda>cs. sweep_pairs commitment_stop (sort_key (\<lambda>c. w_starts_at (snd c)) cs))
     (map snd (dict_of kvs)))"

definition programme_ems :: "SchedulingPlacementFacts list \<Rightarrow> ProgrammeSchedulingSnapshot option
    \<Rightarrow> emission list" where
  "programme_ems ps programme =
     (let source = PROGRAMME_SCHEDULING_CONFLICT_SOURCE;
          missing = [Emit (make_finding source PROGRAMME_UNAVAILABLE UNAVAILABLE None)] in
      case programme of
        None \<Rightarrow> missing
      | Some pr \<Rightarrow>
          if pr_contract pr \<noteq> source then missing
          else let items = dict_by it_item_id (pr_items pr); hosts = dict_by ho_host_id (pr_hosts pr) in
            concat (map (placement_ems items hosts) ps)
            @ concat (map commitment_em (calendar_pairs (concat (map (placement_kvs items hosts) ps)))))"

lemma programme_findings_run: "programme_findings ps programme f = run (programme_ems ps programme) f"
proof -
  have placements: "foldE (programme_placement items hosts) ps ([], f) =
      bindE (run (concat (map (placement_ems items hosts) ps)) f)
        (\<lambda>f'. Inr (dict_of (concat (map (placement_kvs items hosts) ps)), f'))" for items hosts
    by (subst foldE_run_state [where ems = "placement_ems items hosts"
          and upd = "\<lambda>p. fold_dict (placement_kvs items hosts p)"])
      (simp_all add: programme_placement_run fold_fold_concat dict_of_def)
  have sweeps: "foldE (\<lambda>cs. sweep commitment_stop commitment_pair (sort_key (\<lambda>c. w_starts_at (snd c)) cs))
      (map snd (dict_of kvs)) f' = run (concat (map commitment_em (calendar_pairs kvs))) f'" for kvs f'
    unfolding sweep_foldE foldE_concat calendar_pairs_def
    by (rule foldE_run) (auto simp: commitment_pair_run)
  show ?thesis
    by (cases programme)
      (simp_all add: programme_findings_def programme_ems_def Let_def placements sweeps bindE_assoc
        flip: run_append)
qed

definition space_ems :: "SchedulingPlacementFacts \<Rightarrow> VenueSchedulingSpace \<Rightarrow> emission list" where
  "space_ems p space =
     (let source = VENUES_SCHEDULING_CONFLICT_SOURCE; w = Some (who p); env = pl_envelope p in
      emit_if (\<not> sp_active space) source VENUE_INACTIVE BLOCKER w
      @ emit_if (min (capacity_limit space (pl_capacity_mode p)) (sp_fire_capacity space)
                   < pl_expected_attendance p) source VENUE_CAPACITY BLOCKER w
      @ (if sp_availability_version space < 1
         then [Emit (make_finding source VENUE_AVAILABILITY_MISSING UNAVAILABLE w)]
         else emit_if (\<not> list_ex (\<lambda>x. within (w_starts_at x) (setup_starts_at env) (teardown_ends_at env)
                                  (w_ends_at x)) (sp_windows space))
                source VENUE_HARD_AVAILABILITY BLOCKER w))"

lemma space_findings_run: "space_findings p space f = run (space_ems p space) f"
  by (simp add: space_findings_def space_ems_def Let_def run_append)

text \<open>The physical members a placement occupies: none when its space is unknown or has none.\<close>

definition placement_members :: "(uuid \<Rightarrow> VenueSchedulingSpace option) \<Rightarrow> SchedulingPlacementFacts \<Rightarrow> uuid list" where
  "placement_members spaces p =
     (case spaces (pl_space_id p) of None \<Rightarrow> [] | Some space \<Rightarrow> sp_member_ids space)"

definition venue_ems :: "(uuid \<Rightarrow> VenueSchedulingSpace option) \<Rightarrow> SchedulingPlacementFacts \<Rightarrow> emission list" where
  "venue_ems spaces p =
     (let missing = [Emit (make_finding VENUES_SCHEDULING_CONFLICT_SOURCE VENUE_UNAVAILABLE UNAVAILABLE
                             (Some (who p)))] in
      case spaces (pl_space_id p) of
        None \<Rightarrow> missing
      | Some space \<Rightarrow> if sp_member_ids space = [] then missing else space_ems p space)"

definition member_kvs :: "(uuid \<Rightarrow> VenueSchedulingSpace option) \<Rightarrow> SchedulingPlacementFacts
    \<Rightarrow> (uuid \<times> SchedulingPlacementFacts) list" where
  "member_kvs spaces p = map (\<lambda>m. (m, p)) (placement_members spaces p)"

lemma venue_placement_run:
  "venue_placement spaces p (ms, f) =
     bindE (run (venue_ems spaces p) f) (\<lambda>f'. Inr (fold_dict (member_kvs spaces p) ms, f'))"
proof (cases "spaces (pl_space_id p)")
  case None
  then show ?thesis
    by (simp add: venue_placement_def venue_ems_def member_kvs_def placement_members_def Let_def)
next
  case (Some space)
  then show ?thesis
    by (cases "sp_member_ids space")
      (simp_all add: venue_placement_def venue_ems_def member_kvs_def placement_members_def Let_def
        space_findings_run fold_map comp_def del: fold_simps)
qed

abbreviation pair_key :: "SchedulingPlacementFacts \<Rightarrow> SchedulingPlacementFacts \<Rightarrow> uuid \<times> uuid" where
  "pair_key l r \<equiv> (min (who l) (who r), max (who l) (who r))"

definition pair_em :: "SchedulingPlacementFacts \<Rightarrow> SchedulingPlacementFacts \<Rightarrow> emission list" where
  "pair_em l r =
     (if room_envelopes_conflict (pl_envelope l) (pl_envelope r)
      then [Emit (pair_finding VENUES_SCHEDULING_CONFLICT_SOURCE CANDIDATE_ROOM_OVERLAP BLOCKER (who l) (who r))]
      else if permitted_turnover_window (pl_envelope l) (pl_envelope r) \<noteq> None
      then [Emit (pair_finding VENUES_SCHEDULING_CONFLICT_SOURCE TURNOVER_OVERLAP WARNING (who l) (who r))]
      else [])"

fun pair_ems :: "compared \<Rightarrow> (SchedulingPlacementFacts \<times> SchedulingPlacementFacts) list \<Rightarrow> emission list" where
  "pair_ems cmp [] = []"
| "pair_ems cmp ((l, r) # lrs) =
     (if pair_key l r \<in> set cmp then pair_ems cmp lrs
      else (Compare # pair_em l r) @ pair_ems (pair_key l r # cmp) lrs)"

fun pair_compared :: "compared \<Rightarrow> (SchedulingPlacementFacts \<times> SchedulingPlacementFacts) list \<Rightarrow> compared" where
  "pair_compared cmp [] = cmp"
| "pair_compared cmp ((l, r) # lrs) =
     pair_compared (if pair_key l r \<in> set cmp then cmp else pair_key l r # cmp) lrs"

lemma candidate_pair_run:
  "candidate_pair l r (cmp, f) =
     (if pair_key l r \<in> set cmp then Inr (cmp, f)
      else bindE (run (Compare # pair_em l r) f) (\<lambda>f'. Inr (pair_key l r # cmp, f')))"
proof -
  have split: "run (Compare # es) f = bindE (run [Compare] f) (run es)" for es
    using run_append [of "[Compare]" f es] by simp
  show ?thesis
    unfolding split [of "pair_em l r"]
    by (simp add: candidate_pair_def Let_def sorted_pair_uuid findings_compare_run pair_em_def bindE_assoc)
qed

lemma candidate_pairs_run:
  "foldE (\<lambda>(l, r). candidate_pair l r) lrs (cmp, f) =
     bindE (run (pair_ems cmp lrs) f) (\<lambda>f'. Inr (pair_compared cmp lrs, f'))"
proof (induction lrs arbitrary: cmp f)
  case Nil
  then show ?case by simp
next
  case (Cons lr lrs)
  obtain l r where lr: "lr = (l, r)" by (cases lr)
  show ?case
  proof (cases "pair_key l r \<in> set cmp")
    case True
    then show ?thesis
      by (simp add: lr foldE.simps(2) candidate_pair_run Cons.IH)
  next
    case False
    then show ?thesis
      by (simp add: lr foldE.simps(2) candidate_pair_run bindE_assoc Cons.IH
          flip: append_Cons run_append)
  qed
qed

definition busy_upd :: "VenueSchedulingBusyPeriod \<Rightarrow> SchedulingPlacementFacts \<Rightarrow> interactions \<Rightarrow> interactions" where
  "busy_upd busy p ia =
     (if bu_booking_id busy \<noteq> None \<and> bu_booking_id busy = pl_own_booking_id p then ia
      else interactions_merge (who p, bu_source_key busy)
        (scheduling_windows_overlap (busy_clique busy (pl_envelope p)) (bu_window busy))
        (scheduling_windows_overlap
          (window_of (setup_starts_at (pl_envelope p)) (teardown_ends_at (pl_envelope p))) (bu_window busy)) ia)"

abbreviation known_group :: "VenueSchedulingBusyPeriod \<Rightarrow> bool" where
  "known_group busy \<equiv> bu_conflict_group busy \<in> {''setup_effective'', ''effective_teardown''}"

definition busy_em :: "members \<Rightarrow> VenueSchedulingBusyPeriod \<Rightarrow> emission list" where
  "busy_em ms busy =
     (if known_group busy then concat (map (\<lambda>_. [Compare]) (dict_get ms (bu_member_id busy)))
      else [Emit (make_finding VENUES_SCHEDULING_CONFLICT_SOURCE VENUE_UNAVAILABLE UNAVAILABLE None)])"

definition busy_interactions :: "members \<Rightarrow> VenueSchedulingBusyPeriod \<Rightarrow> interactions \<Rightarrow> interactions" where
  "busy_interactions ms busy =
     (if known_group busy then fold (busy_upd busy) (dict_get ms (bu_member_id busy)) else id)"

lemma busy_period_run:
  "busy_period ms busy (ia, f) = bindE (run (busy_em ms busy) f) (\<lambda>f'. Inr (busy_interactions ms busy ia, f'))"
proof (cases "known_group busy")
  case True
  have "busy_placement busy p (ia, f) = bindE (run [Compare] f) (\<lambda>f'. Inr (busy_upd busy p ia, f'))" for p ia f
    by (cases "run [Compare] f") (auto simp: busy_placement_def busy_upd_def findings_compare_run Let_def)
  from foldE_run_state [where ems = "\<lambda>_. [Compare]" and upd = "busy_upd busy", OF this] True
  show ?thesis
    by (simp add: busy_period_def busy_em_def busy_interactions_def dict_get_def)
next
  case False
  then show ?thesis
    by (simp add: busy_period_def busy_em_def busy_interactions_def)
qed

fun interaction_em :: "(uuid \<times> uuid) \<times> bool \<times> bool \<Rightarrow> emission list" where
  "interaction_em ((occurrence_id, source_key), blocked, touching) =
     (if blocked
      then [Emit (make_finding VENUES_SCHEDULING_CONFLICT_SOURCE RESERVED_ROOM_OVERLAP BLOCKER (Some occurrence_id))]
      else emit_if touching VENUES_SCHEDULING_CONFLICT_SOURCE TURNOVER_OVERLAP WARNING (Some occurrence_id))"

definition busy_ems :: "members \<Rightarrow> VenueSchedulingSnapshot \<Rightarrow> emission list" where
  "busy_ems ms venues =
     concat (map (busy_em ms) (ve_busy_periods venues))
     @ concat (map interaction_em (fold (busy_interactions ms) (ve_busy_periods venues) []))"

lemma busy_findings_run: "busy_findings ms venues f = run (busy_ems ms venues) f"
proof -
  have "foldE busy_interaction ia f' = run (concat (map interaction_em ia)) f'" for ia f'
    by (rule foldE_run) auto
  then show ?thesis
    using foldE_run_state [where ems = "busy_em ms" and upd = "busy_interactions ms"
        and step = "busy_period ms" and a = "[]" and f = f and xs = "ve_busy_periods venues",
        OF busy_period_run]
    by (simp add: busy_findings_def busy_ems_def bindE_assoc flip: run_append)
qed

definition sharing_pairs :: "members \<Rightarrow> (SchedulingPlacementFacts \<times> SchedulingPlacementFacts) list" where
  "sharing_pairs ms = concat (map (\<lambda>sh. sweep_pairs placement_stop
     (sort_key (\<lambda>p. setup_starts_at (pl_envelope p)) sh)) (map snd ms))"

abbreviation member_dict :: "(uuid \<Rightarrow> VenueSchedulingSpace option) \<Rightarrow> SchedulingPlacementFacts list \<Rightarrow> members" where
  "member_dict spaces ps \<equiv> dict_of (concat (map (member_kvs spaces) ps))"

definition venues_ems :: "SchedulingPlacementFacts list \<Rightarrow> VenueSchedulingSnapshot option \<Rightarrow> emission list" where
  "venues_ems ps venues_opt =
     (let missing = [Emit (make_finding VENUES_SCHEDULING_CONFLICT_SOURCE VENUE_UNAVAILABLE UNAVAILABLE None)] in
      case venues_opt of
        None \<Rightarrow> missing
      | Some venues \<Rightarrow>
          if ve_contract venues \<noteq> VENUES_SCHEDULING_CONFLICT_SOURCE then missing
          else let spaces = dict_by sp_selection_id (ve_spaces venues); ms = member_dict spaces ps in
            concat (map (venue_ems spaces) ps) @ pair_ems [] (sharing_pairs ms) @ busy_ems ms venues)"

lemma venue_findings_run: "venue_findings ps venues_opt f = run (venues_ems ps venues_opt) f"
proof -
  have placements: "foldE (venue_placement spaces) ps ([], f) =
      bindE (run (concat (map (venue_ems spaces) ps)) f) (\<lambda>f'. Inr (member_dict spaces ps, f'))" for spaces
    by (subst foldE_run_state [where ems = "venue_ems spaces"
          and upd = "\<lambda>p. fold_dict (member_kvs spaces p)"])
      (simp_all add: venue_placement_run fold_fold_concat dict_of_def)
  have sweeps: "foldE (\<lambda>sh. sweep placement_stop candidate_pair (sort_key (\<lambda>p. setup_starts_at (pl_envelope p)) sh))
      (map snd ms) ([], f') = bindE (run (pair_ems [] (sharing_pairs ms)) f')
        (\<lambda>f''. Inr (pair_compared [] (sharing_pairs ms), f''))" for ms f'
    unfolding sweep_foldE foldE_concat sharing_pairs_def by (rule candidate_pairs_run)
  show ?thesis
    by (cases venues_opt)
      (simp_all add: venue_findings_def venues_ems_def Let_def placements sweeps busy_findings_run
        bindE_assoc run_append)
qed

definition all_ems :: "SchedulingPlacementFacts list \<Rightarrow> window option \<Rightarrow> ProgrammeSchedulingSnapshot option
    \<Rightarrow> VenueSchedulingSnapshot option \<Rightarrow> emission list" where
  "all_ems ps edition programme venues =
     emit_if (edition = None) SCHEDULING_TIME_CONFLICT_SOURCE EDITION_UNAVAILABLE UNAVAILABLE None
     @ concat (map (time_ems edition) ps) @ programme_ems ps programme @ venues_ems ps venues"

lemma collect_findings_run:
  assumes "list_all placement_normalized ps"
  shows "collect_findings ps edition programme venues = run (all_ems ps edition programme venues) new_findings"
proof -
  have "foldE (time_findings edition) ps f = run (concat (map (time_ems edition) ps)) f" for f
    using assms by (intro foldE_run) (simp add: time_findings_run list_all_iff)
  then show ?thesis
    by (simp add: collect_findings_def all_ems_def programme_findings_run venue_findings_run run_append)
qed

declare foldE.simps(2) [simp] perform.simps [simp]

section \<open>The outcome of an evaluation\<close>

definition manifest_valid :: "SchedulingPlacementFacts list \<Rightarrow> bool" where
  "manifest_valid ps \<longleftrightarrow> length ps \<le> MAX_OCCURRENCES \<and> distinct (map who ps) \<and> list_all placement_normalized ps"

text \<open>The severity every code has, so that the sort key of a reported finding determines it.\<close>

fun code_severity :: "SchedulingConflictCode \<Rightarrow> SchedulingConflictSeverity" where
  "code_severity c =
     (if c \<in> {EDITION_UNAVAILABLE, PROGRAMME_UNAVAILABLE, HOST_SOURCE_UNAVAILABLE, VENUE_UNAVAILABLE,
              VENUE_AVAILABILITY_MISSING, EVALUATION_LIMIT} then UNAVAILABLE
      else if c \<in> {HOST_OUTSIDE_PREFERENCE, TURNOVER_OVERLAP} then WARNING else BLOCKER)"

lemma conflict_code_value_inj: "conflict_code_value c = conflict_code_value d \<longleftrightarrow> c = d"
  by (cases c; cases d; simp)

lemma finding_key_inj:
  assumes "fi_severity x = code_severity (fi_code x)" and "fi_severity y = code_severity (fi_code y)"
  shows "finding_key x = finding_key y \<longleftrightarrow> x = y"
proof -
  obtain s c v a b where x: "x = \<lparr>fi_source_code = s, fi_code = c, fi_severity = v,
      fi_occurrence_id = a, fi_other_occurrence_id = b\<rparr>" by (cases x)
  obtain s' c' v' a' b' where y: "y = \<lparr>fi_source_code = s', fi_code = c', fi_severity = v',
      fi_occurrence_id = a', fi_other_occurrence_id = b'\<rparr>" by (cases y)
  from assms show ?thesis
    by (auto simp add: x y finding_key_def conflict_code_value_inj simp del: code_severity.simps)
qed

definition severity_ok :: "SchedulingFinding \<Rightarrow> bool" where
  "severity_ok x \<longleftrightarrow> fi_severity x = code_severity (fi_code x)"

lemma severity_ok_make [simp]: "severity_ok (make_finding s c v w) \<longleftrightarrow> v = code_severity c"
  and severity_ok_pair [simp]: "severity_ok (pair_finding s c v a b) \<longleftrightarrow> v = code_severity c"
  by (simp_all add: severity_ok_def make_finding_def pair_finding_def del: code_severity.simps)

lemma time_ems_severity: "x \<in> emitted (time_ems ed p) \<Longrightarrow> severity_ok x"
  by (auto simp: time_ems_def Let_def split: if_splits)

lemma host_em_severity: "x \<in> emitted (host_em p pr h) \<Longrightarrow> severity_ok x"
  by (auto simp: host_em_def Let_def split: if_splits option.splits)

lemma placement_ems_severity: "x \<in> emitted (placement_ems items hosts p) \<Longrightarrow> severity_ok x"
  by (auto simp: placement_ems_def Let_def dest: host_em_severity split: if_splits option.splits)

lemma commitment_em_emitted [simp]:
  "emitted (commitment_em (l, r)) = (if fst l = fst r then {} else
     {pair_finding PROGRAMME_SCHEDULING_CONFLICT_SOURCE HOST_OVERLAP BLOCKER (fst l) (fst r)})"
  by (simp add: commitment_em_def)

lemma emitted_compares [simp]: "emitted (map (\<lambda>_. Compare) xs) = {}"
  by (auto simp: emitted_def)

lemma programme_ems_severity: "x \<in> emitted (programme_ems ps pr) \<Longrightarrow> severity_ok x"
  by (auto simp: programme_ems_def Let_def dest: placement_ems_severity split: if_splits option.splits)

lemma venue_ems_severity: "x \<in> emitted (venue_ems spaces p) \<Longrightarrow> severity_ok x"
  by (auto simp: venue_ems_def space_ems_def Let_def split: if_splits option.splits)

lemma pair_ems_severity: "x \<in> emitted (pair_ems cmp lrs) \<Longrightarrow> severity_ok x"
  by (induction cmp lrs rule: pair_ems.induct) (auto simp: pair_em_def split: if_splits)

lemma interaction_em_severity: "x \<in> emitted (interaction_em i) \<Longrightarrow> severity_ok x"
  by (cases i rule: interaction_em.cases) (auto split: if_splits)

lemma busy_ems_severity: "x \<in> emitted (busy_ems ms ve) \<Longrightarrow> severity_ok x"
  by (auto simp: busy_ems_def busy_em_def dest: interaction_em_severity split: if_splits)

lemma all_ems_severity: "x \<in> emitted (all_ems ps ed pr ve) \<Longrightarrow> severity_ok x"
  by (auto simp: all_ems_def venues_ems_def Let_def dest: time_ems_severity programme_ems_severity
      venue_ems_severity pair_ems_severity busy_ems_severity split: if_splits option.splits)

definition within_limits :: "emission list \<Rightarrow> bool" where
  "within_limits es \<longleftrightarrow> comparisons es \<le> MAX_CONFLICT_COMPARISONS \<and> card (emitted es) \<le> MAX_CONFLICTS"

lemma evaluate_outcome:
  assumes "manifest_valid ps"
  shows "\<exists>out. evaluate_scheduling_facts (Typed (map Typed ps)) ed pr ve = Inr out
    \<and> sorted_wrt (<) (map finding_key out)
    \<and> (if within_limits (all_ems ps ed pr ve) then set out = emitted (all_ems ps ed pr ve)
       else out = [limit_finding])"
proof -
  let ?es = "all_ems ps ed pr ve"
  have ps: "concat (map (\<lambda>v. case v of Typed p \<Rightarrow> [p] | Untyped \<Rightarrow> []) (map Typed ps)) = ps"
    by (induction ps) auto
  have collect: "collect_findings ps ed pr ve = run ?es new_findings"
    using assms by (intro collect_findings_run) (simp add: manifest_valid_def)
  have eval: "evaluate_scheduling_facts (Typed (map Typed ps)) ed pr ve =
      (case run ?es new_findings of Inl FindingLimit \<Rightarrow> Inr [limit_finding] | Inl e \<Rightarrow> Inl e
       | Inr f \<Rightarrow> Inr (sort_key finding_key (f_values f)))"
    unfolding evaluate_scheduling_facts_def collect [symmetric]
    using assms by (simp add: ps [simplified] manifest_valid_def comp_def image_iff)
  have "well_collected new_findings"
    by (simp add: well_collected_def new_findings_def)
  from run_outcome [OF this, of ?es] show ?thesis
  proof (cases "within_limits ?es")
    case True
    with run_outcome [OF \<open>well_collected new_findings\<close>, of ?es] obtain f where
        f: "run ?es new_findings = Inr f" "well_collected f" "set (f_values f) = emitted ?es"
      by (auto simp: within_limits_def new_findings_def)
    have "inj_on finding_key (set (f_values f))"
      using f(3) by (auto intro!: inj_onI dest!: all_ems_severity simp: finding_key_inj severity_ok_def
          simp del: code_severity.simps)
    then have "distinct (map finding_key (sort_key finding_key (f_values f)))"
      using f(2) by (simp add: distinct_map well_collected_def)
    then have "sorted_wrt (<) (map finding_key (sort_key finding_key (f_values f)))"
      by (simp add: strict_sorted_iff)
    with True f show ?thesis by (simp add: eval)
  next
    case False
    with run_outcome [OF \<open>well_collected new_findings\<close>, of ?es]
    have "run ?es new_findings = Inl FindingLimit"
      by (auto simp: within_limits_def new_findings_def split: if_splits)
    with False show ?thesis by (simp add: eval)
  qed
qed

section \<open>Which findings are emitted\<close>

lemma pair_ems_emitted:
  assumes "\<And>l r l' r'. (l, r) \<in> set lrs \<Longrightarrow> (l', r') \<in> set lrs \<Longrightarrow> pair_key l r = pair_key l' r' \<Longrightarrow>
      emitted (pair_em l r) = emitted (pair_em l' r')"
  shows "x \<in> emitted (pair_ems cmp lrs) \<longleftrightarrow>
    (\<exists>l r. (l, r) \<in> set lrs \<and> pair_key l r \<notin> set cmp \<and> x \<in> emitted (pair_em l r))"
  using assms
proof (induction cmp lrs rule: pair_ems.induct)
  case (1 cmp)
  then show ?case by simp
next
  case (2 cmp l r lrs)
  show ?case
  proof (cases "pair_key l r \<in> set cmp")
    case True
    then have "x \<in> emitted (pair_ems cmp lrs) \<longleftrightarrow>
        (\<exists>l r. (l, r) \<in> set lrs \<and> pair_key l r \<notin> set cmp \<and> x \<in> emitted (pair_em l r))"
      by (rule "2.IH"(1)) (rule "2.prems", simp_all)
    with True show ?thesis by auto
  next
    case False
    then have IH: "x \<in> emitted (pair_ems (pair_key l r # cmp) lrs) \<longleftrightarrow>
        (\<exists>l' r'. (l', r') \<in> set lrs \<and> pair_key l' r' \<notin> set (pair_key l r # cmp) \<and> x \<in> emitted (pair_em l' r'))"
      by (rule "2.IH"(2)) (rule "2.prems", simp_all)
    have same: "emitted (pair_em l' r') = emitted (pair_em l r)"
      if "(l', r') \<in> set lrs" "pair_key l' r' = pair_key l r" for l' r'
      by (rule "2.prems") (use that in simp_all)
    have "x \<in> emitted (pair_ems cmp ((l, r) # lrs)) \<longleftrightarrow>
        x \<in> emitted (pair_em l r) \<or> x \<in> emitted (pair_ems (pair_key l r # cmp) lrs)"
      using False by simp
    then show ?thesis
      unfolding IH set_simps using False same by (blast intro: list.set_intros)
  qed
qed

lemma pair_em_sym:
  assumes "envelope_ordered (pl_envelope l)" and "envelope_ordered (pl_envelope r)"
  shows "pair_em l r = pair_em r l"
  using assms conflict_sym [of "pl_envelope l" "pl_envelope r"]
    turnover_sym [of "pl_envelope l" "pl_envelope r"]
  by (simp add: pair_em_def pair_finding_def min.commute max.commute)

lemma placement_normalized_ordered: "placement_normalized p \<Longrightarrow> envelope_ordered (pl_envelope p)"
  by (auto simp: placement_normalized_def dest: normalize_envelope_Inr_ordered)

lemma min_max_eq_iff:
  "(min a b, max a b) = (min c d, max c d) \<longleftrightarrow> a = c \<and> b = d \<or> a = d \<and> b = c" for a b c d :: "'a :: linorder"
  by (auto simp: min_def max_def split: if_splits)

lemma member_dict_get:
  "set (dict_get (member_dict spaces ps) m) = {p \<in> set ps. m \<in> set (placement_members spaces p)}"
  by (auto simp: dict_of_get member_kvs_def)

lemma sharing_pairs_sound:
  assumes "(l, r) \<in> set (sharing_pairs (member_dict spaces ps))"
  shows "l \<in> set ps \<and> r \<in> set ps \<and> set (placement_members spaces l) \<inter> set (placement_members spaces r) \<noteq> {}"
proof -
  from assms obtain sh where sh: "sh \<in> set (map snd (member_dict spaces ps))"
      and lr: "(l, r) \<in> set (sweep_pairs placement_stop (sort_key (\<lambda>p. setup_starts_at (pl_envelope p)) sh))"
    unfolding sharing_pairs_def by auto
  from dict_of_groups [OF sh] obtain m where
    "set sh = {p. (m, p) \<in> set (concat (map (member_kvs spaces) ps))}" by blast
  with room_sweep.sweep_sorted_sound [OF lr] show ?thesis
    by (auto simp: member_kvs_def)
qed

lemma sharing_pairs_complete:
  assumes "l \<in> set ps" and "r \<in> set ps" and "l \<noteq> r"
    and m: "m \<in> set (placement_members spaces l)" "m \<in> set (placement_members spaces r)"
    and "setup_starts_at (pl_envelope l) < teardown_ends_at (pl_envelope r)"
    and "setup_starts_at (pl_envelope r) < teardown_ends_at (pl_envelope l)"
  shows "(l, r) \<in> set (sharing_pairs (member_dict spaces ps)) \<or> (r, l) \<in> set (sharing_pairs (member_dict spaces ps))"
proof -
  have "(m, l) \<in> set (concat (map (member_kvs spaces) ps))"
    using assms by (auto simp: member_kvs_def)
  from dict_of_group_exists [OF this] obtain sh where
      sh: "sh \<in> set (map snd (member_dict spaces ps))"
    and "set sh = {p. (m, p) \<in> set (concat (map (member_kvs spaces) ps))}" by blast
  then have "l \<in> set sh" "r \<in> set sh"
    using assms by (auto simp: member_kvs_def)
  from room_sweep.sweep_sorted_overlaps [OF this] assms sh show ?thesis
    unfolding sharing_pairs_def by auto
qed

end
