(* ===== verification/Conflict_Props.thy ===== *)
theory Conflict_Props
  imports Conflict_Spec
begin

text \<open>
  The properties of the candidate evaluation, stated on \<open>evaluate_scheduling_facts\<close>: what it reports
  exactly, which of its answers are safe to act on, and what it does at its bounds.
\<close>

section \<open>Coverage by availability periods\<close>

text \<open>
  \<open>_covered\<close> walks the periods in the order of their starts. On a sorted list a positive window is
  covered exactly when each of its instants lies in some period, even if periods overlap, repeat
  or are empty.
\<close>

lemma covered_loop_sound:
  assumes "covered_loop finish cursor ps" and "cursor \<le> t" and "t < finish"
  shows "\<exists>p \<in> set ps. in_window p t"
  using assms
proof (induction ps arbitrary: cursor)
  case Nil
  then show ?case by simp
next
  case (Cons p ps)
  show ?case
  proof (cases "in_window p t")
    case False
    with Cons.prems have "covered_loop finish (if w_ends_at p \<le> cursor then cursor else w_ends_at p) ps"
      and "(if w_ends_at p \<le> cursor then cursor else w_ends_at p) \<le> t"
      by (auto simp: in_window_def split: if_splits)
    from Cons.IH [OF this \<open>t < finish\<close>] show ?thesis by simp
  qed simp
qed

lemma covered_loop_complete:
  assumes "sorted (map w_starts_at ps)" and "cursor < finish"
    and "\<And>t. cursor \<le> t \<Longrightarrow> t < finish \<Longrightarrow> \<exists>p \<in> set ps. in_window p t"
  shows "covered_loop finish cursor ps"
  using assms
proof (induction ps arbitrary: cursor)
  case Nil
  from Nil.prems(3) [of cursor] Nil.prems(2) show ?case by simp
next
  case (Cons p ps)
  have sorted: "sorted (map w_starts_at ps)"
    using Cons.prems(1) by simp
  obtain q where q: "q \<in> set (p # ps)" "in_window q cursor"
    using Cons.prems(3) [of cursor] Cons.prems(2) by auto
  have first: "w_starts_at p \<le> cursor"
    using q Cons.prems(1) by (auto simp: in_window_def intro: order_trans)
  show ?case
  proof (cases "w_ends_at p \<le> cursor")
    case True
    have "covered_loop finish cursor ps"
    proof (rule Cons.IH [OF sorted Cons.prems(2)])
      fix t assume "cursor \<le> t" "t < finish"
      from Cons.prems(3) [OF this] True \<open>cursor \<le> t\<close> show "\<exists>p \<in> set ps. in_window p t"
        by (auto simp: in_window_def)
    qed
    with True show ?thesis by simp
  next
    case False
    have "covered_loop finish (w_ends_at p) ps" if "w_ends_at p < finish"
    proof (rule Cons.IH [OF sorted that])
      fix t assume "w_ends_at p \<le> t" "t < finish"
      with False Cons.prems(3) [of t] show "\<exists>p \<in> set ps. in_window p t"
        by (auto simp: in_window_def)
    qed
    with False first show ?thesis by auto
  qed
qed

lemma covered_iff:
  assumes "w_starts_at w < w_ends_at w"
  shows "covered w ps \<longleftrightarrow> (\<forall>t. in_window w t \<longrightarrow> (\<exists>p \<in> set ps. in_window p t))"
  using assms covered_loop_sound [of "w_ends_at w" "w_starts_at w" "sort_key w_starts_at ps"]
    covered_loop_complete [of "sort_key w_starts_at ps" "w_starts_at w" "w_ends_at w"]
  by (auto simp: covered_def in_window_def)

section \<open>Interactions with reserved periods\<close>

lemma interactions_merge_keys: "set (map fst (interactions_merge k b t d)) = insert k (set (map fst d))"
  by (induction k b t d rule: interactions_merge.induct) auto

lemma interactions_merge_distinct:
  "distinct (map fst d) \<Longrightarrow> distinct (map fst (interactions_merge k b t d))"
proof (induction k b t d rule: interactions_merge.induct)
  case (2 k b t k' b' t' d)
  then show ?case using interactions_merge_keys [of k b t d] by auto
qed simp

lemma interactions_merge_map_of:
  "map_of (interactions_merge k b t d) =
     (map_of d)(k \<mapsto> (case map_of d k of None \<Rightarrow> (b, t) | Some (b', t') \<Rightarrow> (b' \<or> b, t' \<or> t)))"
  by (induction k b t d rule: interactions_merge.induct) (auto split: option.splits)

text \<open>The record of a merge sequence: one entry per key, true when some merge of the key was.\<close>

lemma fold_merge:
  assumes "distinct (map fst d)"
    and "\<And>k b t. map_of d k = Some (b, t) \<longleftrightarrow>
      (\<exists>b t. (k, b, t) \<in> S) \<and> b = (\<exists>t. (k, True, t) \<in> S) \<and> t = (\<exists>b. (k, b, True) \<in> S)"
  shows "distinct (map fst (fold (\<lambda>(k, b, t). interactions_merge k b t) es d)) \<and>
    (map_of (fold (\<lambda>(k, b, t). interactions_merge k b t) es d) k = Some (b, t) \<longleftrightarrow>
      (\<exists>b t. (k, b, t) \<in> S \<union> set es) \<and> b = (\<exists>t. (k, True, t) \<in> S \<union> set es)
        \<and> t = (\<exists>b. (k, b, True) \<in> S \<union> set es))"
  using assms
proof (induction es arbitrary: d S)
  case Nil
  then show ?case by simp
next
  case (Cons e es)
  obtain ke be te where e: "e = (ke, be, te)" by (cases e)
  have dist: "distinct (map fst (interactions_merge ke be te d))"
    by (rule interactions_merge_distinct) (rule Cons.prems(1))
  have none: "map_of d k = None \<longleftrightarrow> (\<nexists>b t. (k, b, t) \<in> S)" for k
    using Cons.prems(2) [of k "\<exists>t. (k, True, t) \<in> S" "\<exists>b. (k, b, True) \<in> S"] Cons.prems(2) [of k]
    by (cases "map_of d k") auto
  have "map_of (interactions_merge ke be te d) k = Some (b, t) \<longleftrightarrow>
      (\<exists>b t. (k, b, t) \<in> insert e S) \<and> b = (\<exists>t. (k, True, t) \<in> insert e S)
        \<and> t = (\<exists>b. (k, b, True) \<in> insert e S)" for k b t
  proof (cases "map_of d k")
    case None
    with none [of k] show ?thesis
      by (auto simp: interactions_merge_map_of e)
  next
    case (Some bt)
    obtain b' t' where bt: "bt = (b', t')" by (cases bt)
    from Some Cons.prems(2) [of k b' t'] show ?thesis
      by (auto simp: interactions_merge_map_of e bt)
  qed
  from Cons.IH [OF dist this] show ?case
    by (simp add: e)
qed

abbreviation own_booking :: "VenueSchedulingBusyPeriod \<Rightarrow> SchedulingPlacementFacts \<Rightarrow> bool" where
  "own_booking busy p \<equiv> bu_booking_id busy \<noteq> None \<and> bu_booking_id busy = pl_own_booking_id p"

definition busy_events :: "members \<Rightarrow> VenueSchedulingBusyPeriod \<Rightarrow> ((uuid \<times> uuid) \<times> bool \<times> bool) list" where
  "busy_events ms busy =
     (if known_group busy
      then map (\<lambda>p. ((who p, bu_source_key busy),
               scheduling_windows_overlap (busy_clique busy (pl_envelope p)) (bu_window busy),
               scheduling_windows_overlap
                 (window_of (setup_starts_at (pl_envelope p)) (teardown_ends_at (pl_envelope p))) (bu_window busy)))
             (filter (\<lambda>p. \<not> own_booking busy p) (dict_get ms (bu_member_id busy)))
      else [])"

lemma fold_busy_upd:
  "fold (busy_upd busy) ps ia =
     fold (\<lambda>(k, b, t). interactions_merge k b t)
       (map (\<lambda>p. ((who p, bu_source_key busy),
               scheduling_windows_overlap (busy_clique busy (pl_envelope p)) (bu_window busy),
               scheduling_windows_overlap
                 (window_of (setup_starts_at (pl_envelope p)) (teardown_ends_at (pl_envelope p))) (bu_window busy)))
             (filter (\<lambda>p. \<not> own_booking busy p) ps)) ia"
  by (induction ps arbitrary: ia) (auto simp: busy_upd_def)

lemma fold_busy_interactions:
  "fold (busy_interactions ms) bs ia =
     fold (\<lambda>(k, b, t). interactions_merge k b t) (concat (map (busy_events ms) bs)) ia"
  by (induction bs arbitrary: ia) (auto simp: busy_interactions_def busy_events_def fold_busy_upd)

lemma interaction_entries:
  "(k, b, t) \<in> set (fold (busy_interactions ms) bs []) \<longleftrightarrow>
     (\<exists>b t. (k, b, t) \<in> set (concat (map (busy_events ms) bs)))
     \<and> b = (\<exists>t. (k, True, t) \<in> set (concat (map (busy_events ms) bs)))
     \<and> t = (\<exists>b. (k, b, True) \<in> set (concat (map (busy_events ms) bs)))"
proof -
  let ?d = "fold (\<lambda>(k, b, t). interactions_merge k b t) (concat (map (busy_events ms) bs)) []"
  note merge = fold_merge [of "[]" "{}" "concat (map (busy_events ms) bs)" k b t]
  then have "distinct (map fst ?d)" by simp
  then have "(k, b, t) \<in> set ?d \<longleftrightarrow> map_of ?d k = Some (b, t)"
    by (simp only: map_of_eq_Some_iff)
  with merge show ?thesis
    unfolding fold_busy_interactions by simp
qed

section \<open>Which part reports which code\<close>

lemma time_ems_codes: "x \<in> emitted (time_ems ed p) \<Longrightarrow>
    fi_code x \<in> {OCCURRENCE_RETIRED, OCCURRENCE_CHANGED, DAY_RETIRED, DAY_CHANGED, EDITION_BOUNDS,
      DAY_BOUNDS, MINUTE_GRID}"
  by (auto simp: time_ems_def Let_def make_finding_def split: if_splits)

lemma host_em_codes: "x \<in> emitted (host_em p pr h) \<Longrightarrow>
    fi_code x \<in> {HOST_NOT_CURRENT, HOST_SOURCE_UNAVAILABLE, HOST_UNAVAILABLE, HOST_OUTSIDE_AVAILABILITY,
      HOST_OUTSIDE_PREFERENCE}"
  by (auto simp: host_em_def Let_def make_finding_def split: if_splits option.splits)

lemma placement_ems_codes: "x \<in> emitted (placement_ems items hosts p) \<Longrightarrow>
    fi_code x \<in> {PROGRAMME_UNAVAILABLE, ITEM_RETIRED, HOST_REQUIRED, HOST_NOT_CURRENT, HOST_SOURCE_UNAVAILABLE,
      HOST_UNAVAILABLE, HOST_OUTSIDE_AVAILABILITY, HOST_OUTSIDE_PREFERENCE}"
  by (auto simp: placement_ems_def Let_def make_finding_def dest!: host_em_codes split: if_splits option.splits)

lemma programme_ems_codes: "x \<in> emitted (programme_ems ps pr) \<Longrightarrow>
    fi_code x \<in> {PROGRAMME_UNAVAILABLE, ITEM_RETIRED, HOST_REQUIRED, HOST_NOT_CURRENT, HOST_SOURCE_UNAVAILABLE,
      HOST_UNAVAILABLE, HOST_OUTSIDE_AVAILABILITY, HOST_OUTSIDE_PREFERENCE, HOST_OVERLAP}"
  by (auto simp: programme_ems_def Let_def make_finding_def pair_finding_def dest!: placement_ems_codes
      split: if_splits option.splits)

lemma venue_ems_codes: "x \<in> emitted (venue_ems spaces p) \<Longrightarrow>
    fi_code x \<in> {VENUE_UNAVAILABLE, VENUE_INACTIVE, VENUE_CAPACITY, VENUE_AVAILABILITY_MISSING,
      VENUE_HARD_AVAILABILITY}"
  by (auto simp: venue_ems_def space_ems_def Let_def make_finding_def split: if_splits option.splits)

lemma pair_ems_codes: "x \<in> emitted (pair_ems cmp lrs) \<Longrightarrow> fi_code x \<in> {CANDIDATE_ROOM_OVERLAP, TURNOVER_OVERLAP}"
  by (induction cmp lrs rule: pair_ems.induct) (auto simp: pair_em_def pair_finding_def split: if_splits)

lemma interaction_em_codes: "x \<in> emitted (interaction_em i) \<Longrightarrow> fi_code x \<in> {RESERVED_ROOM_OVERLAP, TURNOVER_OVERLAP}"
  by (cases i rule: interaction_em.cases) (auto simp: make_finding_def split: if_splits)

lemma busy_em_codes: "x \<in> emitted (busy_em ms busy) \<Longrightarrow> fi_code x = VENUE_UNAVAILABLE"
  by (auto simp: busy_em_def make_finding_def split: if_splits)

lemma busy_ems_codes: "x \<in> emitted (busy_ems ms ve) \<Longrightarrow>
    fi_code x \<in> {VENUE_UNAVAILABLE, RESERVED_ROOM_OVERLAP, TURNOVER_OVERLAP}"
  by (auto simp: busy_ems_def dest!: busy_em_codes interaction_em_codes)

lemma reserved_emitted:
  "make_finding VENUES_SCHEDULING_CONFLICT_SOURCE RESERVED_ROOM_OVERLAP BLOCKER (Some a)
      \<in> emitted (busy_ems ms ve) \<longleftrightarrow>
    (\<exists>busy \<in> set (ve_busy_periods ve). known_group busy \<and>
      (\<exists>p \<in> set (dict_get ms (bu_member_id busy)). who p = a \<and> \<not> own_booking busy p
        \<and> scheduling_windows_overlap (busy_clique busy (pl_envelope p)) (bu_window busy)))"
    (is "?x \<in> _ \<longleftrightarrow> ?rhs")
proof -
  let ?I = "fold (busy_interactions ms) (ve_busy_periods ve) []"
  have "?x \<in> emitted (busy_ems ms ve) \<longleftrightarrow> (\<exists>i \<in> set ?I. ?x \<in> emitted (interaction_em i))"
    unfolding busy_ems_def by (auto dest: busy_em_codes simp: make_finding_def)
  also have "\<dots> \<longleftrightarrow> (\<exists>s t. ((a, s), True, t) \<in> set ?I)"
  proof
    assume "\<exists>i \<in> set ?I. ?x \<in> emitted (interaction_em i)"
    then obtain c s b t where "((c, s), b, t) \<in> set ?I" "?x \<in> emitted (interaction_em ((c, s), b, t))"
      by (metis interaction_em.cases)
    then show "\<exists>s t. ((a, s), True, t) \<in> set ?I"
      by (cases b) (auto simp: make_finding_def split: if_splits)
  qed (force simp: make_finding_def)
  also have "\<dots> \<longleftrightarrow> (\<exists>s t. ((a, s), True, t) \<in> set (concat (map (busy_events ms) (ve_busy_periods ve))))"
    unfolding interaction_entries by blast
  also have "\<dots> \<longleftrightarrow> ?rhs"
    by (auto simp: busy_events_def split: if_splits)
  finally show ?thesis .
qed

lemma overlap_in_pair_em:
  "pair_finding VENUES_SCHEDULING_CONFLICT_SOURCE CANDIDATE_ROOM_OVERLAP BLOCKER a b \<in> emitted (pair_em l r) \<longleftrightarrow>
     room_envelopes_conflict (pl_envelope l) (pl_envelope r)
     \<and> (a = who l \<and> b = who r \<or> a = who r \<and> b = who l)"
  using min_max_eq_iff [of a b "who l" "who r"] by (simp add: pair_em_def pair_finding_def)

lemma candidate_overlap_emitted:
  assumes "manifest_valid ps" and "a \<noteq> b"
  shows "pair_finding VENUES_SCHEDULING_CONFLICT_SOURCE CANDIDATE_ROOM_OVERLAP BLOCKER a b
      \<in> emitted (pair_ems [] (sharing_pairs (member_dict spaces ps))) \<longleftrightarrow>
    (\<exists>p \<in> set ps. \<exists>q \<in> set ps. who p = a \<and> who q = b
      \<and> set (placement_members spaces p) \<inter> set (placement_members spaces q) \<noteq> {}
      \<and> room_envelopes_conflict (pl_envelope p) (pl_envelope q))" (is "?x \<in> emitted (pair_ems [] ?lrs) \<longleftrightarrow> ?rhs")
proof -
  have ordered: "envelope_ordered (pl_envelope p)" if "p \<in> set ps" for p
    using that assms(1) by (auto simp: manifest_valid_def list_all_iff placement_normalized_ordered)
  have unique: "p = q" if "p \<in> set ps" "q \<in> set ps" "who p = who q" for p q
    using that assms(1) by (auto simp: manifest_valid_def distinct_map dest: inj_onD)
  note sound = sharing_pairs_sound [of _ _ spaces ps]
  have "emitted (pair_em l r) = emitted (pair_em l' r')"
    if "(l, r) \<in> set ?lrs" "(l', r') \<in> set ?lrs" "pair_key l r = pair_key l' r'" for l r l' r'
  proof -
    have in_ps: "l \<in> set ps" "r \<in> set ps" "l' \<in> set ps" "r' \<in> set ps"
      using sound that by blast+
    from that(3) consider "who l = who l'" "who r = who r'" | "who l = who r'" "who r = who l'"
      unfolding min_max_eq_iff by blast
    then have "l = l' \<and> r = r' \<or> l = r' \<and> r = l'"
      using unique in_ps by cases blast+
    then show ?thesis
      using pair_em_sym [OF ordered ordered, of l r] in_ps by fastforce
  qed
  from pair_ems_emitted [of ?lrs ?x "[]", OF this]
  have "?x \<in> emitted (pair_ems [] ?lrs) \<longleftrightarrow> (\<exists>l r. (l, r) \<in> set ?lrs \<and> ?x \<in> emitted (pair_em l r))"
    by (simp only: list.set empty_iff not_False_eq_True simp_thms)
  also have "\<dots> \<longleftrightarrow> (\<exists>l r. (l, r) \<in> set ?lrs \<and> room_envelopes_conflict (pl_envelope l) (pl_envelope r)
      \<and> (a = who l \<and> b = who r \<or> a = who r \<and> b = who l))"
    by (simp only: overlap_in_pair_em)
  also have "\<dots> \<longleftrightarrow> ?rhs"
  proof
    assume "\<exists>l r. (l, r) \<in> set ?lrs \<and> room_envelopes_conflict (pl_envelope l) (pl_envelope r)
      \<and> (a = who l \<and> b = who r \<or> a = who r \<and> b = who l)"
    then show ?rhs
      using sound conflict_sym by (metis Int_commute)
  next
    assume ?rhs
    then obtain p q m where pq: "p \<in> set ps" "q \<in> set ps" "who p = a" "who q = b"
      and m: "m \<in> set (placement_members spaces p)" "m \<in> set (placement_members spaces q)"
      and conflict: "room_envelopes_conflict (pl_envelope p) (pl_envelope q)" by auto
    have "p \<noteq> q" using pq assms(2) by auto
    from sharing_pairs_complete [OF pq(1,2) this m] conflict_implies_overlap [OF conflict] ordered pq
    have "(p, q) \<in> set ?lrs \<or> (q, p) \<in> set ?lrs" by blast
    with pq conflict conflict_sym show "\<exists>l r. (l, r) \<in> set ?lrs
        \<and> room_envelopes_conflict (pl_envelope l) (pl_envelope r)
        \<and> (a = who l \<and> b = who r \<or> a = who r \<and> b = who l)" by metis
  qed
  finally show ?thesis .
qed

section \<open>Hosts\<close>

text \<open>A placement commits a person to a window: a presence of a host the Programme knows for the item.\<close>

definition committed :: "ProgrammeSchedulingSnapshot \<Rightarrow> SchedulingPlacementFacts \<Rightarrow> uuid \<Rightarrow> window \<Rightarrow> bool" where
  "committed pr p person w \<longleftrightarrow>
     dict_by it_item_id (pr_items pr) (occ_item_id (pl_occurrence p)) \<noteq> None
     \<and> (\<exists>presence \<in> set (pl_hosts p). \<exists>host.
          dict_by ho_host_id (pr_hosts pr) (hp_host_id presence) = Some host
          \<and> ho_person_key host = Some person \<and> ho_item_id host = occ_item_id (pl_occurrence p)
          \<and> w = presence_window presence)"

definition presences_positive :: "SchedulingPlacementFacts list \<Rightarrow> bool" where
  "presences_positive ps \<longleftrightarrow> list_all (\<lambda>p. list_all (\<lambda>h. hp_starts_at h < hp_ends_at h) (pl_hosts p)) ps"

abbreviation commitments :: "ProgrammeSchedulingSnapshot \<Rightarrow> SchedulingPlacementFacts list \<Rightarrow> (uuid \<times> commitment) list" where
  "commitments pr ps \<equiv> concat (map (placement_kvs (dict_by it_item_id (pr_items pr)) (dict_by ho_host_id (pr_hosts pr))) ps)"

lemma presence_kv_iff:
  "(person, a, w) \<in> set (presence_kv hosts p presence) \<longleftrightarrow>
     (\<exists>host. hosts (hp_host_id presence) = Some host \<and> ho_person_key host = Some person
       \<and> ho_item_id host = occ_item_id (pl_occurrence p)) \<and> a = who p \<and> w = presence_window presence"
  by (cases "hosts (hp_host_id presence)") (auto simp: presence_kv_def split: option.splits)

lemma commitments_iff:
  "(person, a, w) \<in> set (commitments pr ps) \<longleftrightarrow> (\<exists>p \<in> set ps. who p = a \<and> committed pr p person w)"
proof -
  have "(person, a, w) \<in> set (placement_kvs (dict_by it_item_id (pr_items pr)) (dict_by ho_host_id (pr_hosts pr)) p)
      \<longleftrightarrow> who p = a \<and> committed pr p person w" for p
    unfolding placement_kvs_def committed_def by (simp add: presence_kv_iff) blast
  then show ?thesis by simp
qed

lemma committed_positive:
  "presences_positive ps \<Longrightarrow> p \<in> set ps \<Longrightarrow> committed pr p person w \<Longrightarrow> w_starts_at w < w_ends_at w"
  by (auto simp: presences_positive_def committed_def list_all_iff presence_window_def)

lemma calendar_pairs_sound:
  assumes "(l, r) \<in> set (calendar_pairs kvs)"
  shows "\<exists>k. (k, l) \<in> set kvs \<and> (k, r) \<in> set kvs \<and> w_starts_at (snd l) \<le> w_starts_at (snd r)
    \<and> w_starts_at (snd r) < w_ends_at (snd l)"
proof -
  from assms obtain cs where cs: "cs \<in> set (map snd (dict_of kvs))"
      and lr: "(l, r) \<in> set (sweep_pairs commitment_stop (sort_key (\<lambda>c. w_starts_at (snd c)) cs))"
    unfolding calendar_pairs_def by auto
  from dict_of_groups [OF cs] obtain k where "set cs = {c. (k, c) \<in> set kvs}" by blast
  with host_sweep.sweep_sorted_sound [OF lr] show ?thesis by blast
qed

lemma calendar_pairs_complete:
  assumes "(k, l) \<in> set kvs" and "(k, r) \<in> set kvs" and "l \<noteq> r"
    and "w_starts_at (snd l) < w_ends_at (snd r)" and "w_starts_at (snd r) < w_ends_at (snd l)"
  shows "(l, r) \<in> set (calendar_pairs kvs) \<or> (r, l) \<in> set (calendar_pairs kvs)"
proof -
  from dict_of_group_exists [OF assms(1)] obtain cs where
      cs: "cs \<in> set (map snd (dict_of kvs))" and "set cs = {c. (k, c) \<in> set kvs}" by blast
  with assms have "l \<in> set cs" "r \<in> set cs" by auto
  from host_sweep.sweep_sorted_overlaps [OF this assms(3-5)] cs show ?thesis
    unfolding calendar_pairs_def by auto
qed

lemma host_overlap_emitted:
  assumes "presences_positive ps" and "a \<noteq> b"
  shows "pair_finding PROGRAMME_SCHEDULING_CONFLICT_SOURCE HOST_OVERLAP BLOCKER a b
      \<in> emitted (concat (map commitment_em (calendar_pairs (commitments pr ps)))) \<longleftrightarrow>
    (\<exists>p \<in> set ps. \<exists>q \<in> set ps. who p = a \<and> who q = b \<and> (\<exists>person v w t. committed pr p person v
      \<and> committed pr q person w \<and> in_window v t \<and> in_window w t))" (is "?x \<in> _ \<longleftrightarrow> ?rhs")
proof
  assume "?x \<in> emitted (concat (map commitment_em (calendar_pairs (commitments pr ps))))"
  then obtain l r where lr: "(l, r) \<in> set (calendar_pairs (commitments pr ps))"
    and ids: "a = fst l \<and> b = fst r \<or> a = fst r \<and> b = fst l"
    using min_max_eq_iff [of a b] by (fastforce simp: pair_finding_def split: if_splits)
  from calendar_pairs_sound [OF lr] obtain k where
      "(k, l) \<in> set (commitments pr ps)" "(k, r) \<in> set (commitments pr ps)"
    and start: "w_starts_at (snd l) \<le> w_starts_at (snd r)" "w_starts_at (snd r) < w_ends_at (snd l)" by blast
  then obtain p q where
      p: "p \<in> set ps" "who p = fst l" "committed pr p k (snd l)"
    and q: "q \<in> set ps" "who q = fst r" "committed pr q k (snd r)"
    using commitments_iff [of k _ _ pr ps] by (metis prod.collapse)
  have "in_window (snd l) (w_starts_at (snd r))" "in_window (snd r) (w_starts_at (snd r))"
    using start committed_positive [OF assms(1) q(1,3)] by (simp_all add: in_window_def)
  with ids p q show ?rhs by metis
next
  assume ?rhs
  then obtain p q k v w t where pq: "p \<in> set ps" "q \<in> set ps" "who p = a" "who q = b"
    and c: "committed pr p k v" "committed pr q k w" and t: "in_window v t" "in_window w t" by blast
  have "(k, a, v) \<in> set (commitments pr ps)" "(k, b, w) \<in> set (commitments pr ps)"
    using pq c commitments_iff by blast+
  from calendar_pairs_complete [OF this] assms(2) t
  have "((a, v), (b, w)) \<in> set (calendar_pairs (commitments pr ps))
      \<or> ((b, w), (a, v)) \<in> set (calendar_pairs (commitments pr ps))"
    by (auto simp: in_window_def)
  then show "?x \<in> emitted (concat (map commitment_em (calendar_pairs (commitments pr ps))))"
    using assms(2) by (force simp: pair_finding_def min.commute max.commute)
qed

section \<open>Reading a complete answer\<close>

lemma evaluate_complete:
  assumes "manifest_valid ps" and "evaluate_scheduling_facts (Typed (map Typed ps)) ed pr ve = Inr out"
    and "limit_finding \<notin> set out"
  shows "set out = emitted (all_ems ps ed pr ve)"
  using evaluate_outcome [OF assms(1), of ed pr ve] assms(2,3) by (auto split: if_splits)

lemma pair_code [simp]: "fi_code (pair_finding s c v a b) = c"
  and make_code [simp]: "fi_code (make_finding s c v w) = c"
  by (simp_all add: pair_finding_def make_finding_def)

lemma findings_eq [simp]:
  "make_finding s c v w = make_finding s' c' v' w' \<longleftrightarrow> s = s' \<and> c = c' \<and> v = v' \<and> w = w'"
  "pair_finding s c v a b \<noteq> make_finding s' c' v' w'" "make_finding s' c' v' w' \<noteq> pair_finding s c v a b"
  by (simp_all add: pair_finding_def make_finding_def)

lemma emitted_room_overlap:
  assumes "ve_contract ve = VENUES_SCHEDULING_CONFLICT_SOURCE"
  shows "pair_finding s CANDIDATE_ROOM_OVERLAP v a b \<in> emitted (all_ems ps ed pr (Some ve)) \<longleftrightarrow>
    pair_finding s CANDIDATE_ROOM_OVERLAP v a b
      \<in> emitted (pair_ems [] (sharing_pairs (member_dict (dict_by sp_selection_id (ve_spaces ve)) ps)))"
  using assms
  by (auto simp: all_ems_def venues_ems_def Let_def
      dest!: time_ems_codes programme_ems_codes venue_ems_codes busy_ems_codes)

lemma emitted_reserved_overlap:
  assumes "ve_contract ve = VENUES_SCHEDULING_CONFLICT_SOURCE"
  shows "make_finding s RESERVED_ROOM_OVERLAP v a \<in> emitted (all_ems ps ed pr (Some ve)) \<longleftrightarrow>
    make_finding s RESERVED_ROOM_OVERLAP v a
      \<in> emitted (busy_ems (member_dict (dict_by sp_selection_id (ve_spaces ve)) ps) ve)"
  using assms
  by (auto simp: all_ems_def venues_ems_def Let_def
      dest!: time_ems_codes programme_ems_codes venue_ems_codes pair_ems_codes)

lemma venues_ems_codes: "x \<in> emitted (venues_ems ps ve) \<Longrightarrow>
    fi_code x \<in> {VENUE_UNAVAILABLE, VENUE_INACTIVE, VENUE_CAPACITY, VENUE_AVAILABILITY_MISSING,
      VENUE_HARD_AVAILABILITY, CANDIDATE_ROOM_OVERLAP, TURNOVER_OVERLAP, RESERVED_ROOM_OVERLAP}"
  by (auto simp: venues_ems_def Let_def dest!: venue_ems_codes pair_ems_codes busy_ems_codes
      split: if_splits option.splits)

lemma emitted_host_overlap:
  assumes "pr_contract pr = PROGRAMME_SCHEDULING_CONFLICT_SOURCE"
  shows "pair_finding s HOST_OVERLAP v a b \<in> emitted (all_ems ps ed (Some pr) ve) \<longleftrightarrow>
    pair_finding s HOST_OVERLAP v a b \<in> emitted (concat (map commitment_em (calendar_pairs (commitments pr ps))))"
  using assms
  by (auto simp: all_ems_def programme_ems_def Let_def
      dest!: time_ems_codes placement_ems_codes venues_ems_codes)


section \<open>A clean answer\<close>

text \<open>
  What a placement without blocking or unavailable findings satisfies, given what the edition, the
  Programme and the Venues declared.
\<close>

definition time_safe :: "window \<Rightarrow> SchedulingPlacementFacts \<Rightarrow> bool" where
  "time_safe ed p \<longleftrightarrow>
     occ_active (pl_occurrence p) \<and> occ_selected_version (pl_occurrence p) = occ_current_version (pl_occurrence p)
     \<and> day_active (pl_day p) \<and> day_selected_version (pl_day p) = day_current_version (pl_day p)
     \<and> w_starts_at ed \<le> setup_starts_at (pl_envelope p) \<and> teardown_ends_at (pl_envelope p) \<le> w_ends_at ed
     \<and> placement_fits_service_day (utc_envelope (pl_envelope p)) (utc_window (day_window (pl_day p)))
         (day_precision_minutes (pl_day p)) = Inr True"

definition host_safe :: "ProgrammeSchedulingSnapshot \<Rightarrow> SchedulingPlacementFacts \<Rightarrow> bool" where
  "host_safe pr p \<longleftrightarrow>
     (\<exists>item. dict_by it_item_id (pr_items pr) (occ_item_id (pl_occurrence p)) = Some item
        \<and> it_lifecycle item = ''active'' \<and> (it_hosting_required item \<longrightarrow> pl_hosts p \<noteq> []))
     \<and> (\<forall>presence \<in> set (pl_hosts p). \<exists>host.
          dict_by ho_host_id (pr_hosts pr) (hp_host_id presence) = Some host
          \<and> ho_item_id host = occ_item_id (pl_occurrence p) \<and> ho_status host = ''shared''
          \<and> ho_person_key host \<noteq> None
          \<and> (\<forall>t. hp_starts_at presence \<le> t \<and> t < hp_ends_at presence \<longrightarrow>
               (\<exists>period \<in> set (ho_periods host). in_window (ap_window period) t)))"

definition space_safe :: "VenueSchedulingSnapshot \<Rightarrow> SchedulingPlacementFacts \<Rightarrow> bool" where
  "space_safe ve p \<longleftrightarrow>
     (\<exists>space. dict_by sp_selection_id (ve_spaces ve) (pl_space_id p) = Some space
        \<and> sp_active space \<and> sp_member_ids space \<noteq> []
        \<and> pl_expected_attendance p \<le> capacity_limit space (pl_capacity_mode p)
        \<and> pl_expected_attendance p \<le> sp_fire_capacity space
        \<and> (\<exists>w \<in> set (sp_windows space). w_starts_at w \<le> setup_starts_at (pl_envelope p)
             \<and> teardown_ends_at (pl_envelope p) \<le> w_ends_at w))"

definition only_warnings :: "SchedulingFinding set \<Rightarrow> bool" where
  "only_warnings fs \<longleftrightarrow> (\<forall>f \<in> fs. fi_severity f = WARNING)"

lemma only_warnings_simps [simp]:
  "only_warnings {}" "only_warnings (insert x F) \<longleftrightarrow> fi_severity x = WARNING \<and> only_warnings F"
  "only_warnings (F \<union> G) \<longleftrightarrow> only_warnings F \<and> only_warnings G"
  "only_warnings (\<Union>x \<in> A. H x) \<longleftrightarrow> (\<forall>x \<in> A. only_warnings (H x))"
  by (auto simp: only_warnings_def)

lemma finding_severities [simp]:
  "fi_severity (make_finding s c v w) = v" "fi_severity (pair_finding s c v a b) = v"
  by (simp_all add: make_finding_def pair_finding_def)

lemma time_clean:
  assumes "only_warnings (emitted (time_ems (Some ed) p))"
  shows "time_safe ed p"
  using assms by (auto simp: time_ems_def Let_def time_safe_def within_def split: if_splits)

lemma host_clean:
  assumes "only_warnings (emitted (host_em p presence host))" and "hp_starts_at presence < hp_ends_at presence"
  shows "\<exists>h. host = Some h \<and> ho_item_id h = occ_item_id (pl_occurrence p) \<and> ho_status h = ''shared''
    \<and> ho_person_key h \<noteq> None
    \<and> (\<forall>t. hp_starts_at presence \<le> t \<and> t < hp_ends_at presence \<longrightarrow>
         (\<exists>period \<in> set (ho_periods h). in_window (ap_window period) t))"
proof -
  from assms(1) obtain h where h: "host = Some h" "ho_item_id h = occ_item_id (pl_occurrence p)"
      "ho_status h = ''shared''" "ho_person_key h \<noteq> None"
      "covered (presence_window presence) (map ap_window (ho_periods h))"
    by (cases host) (auto simp: host_em_def Let_def split: if_splits)
  with covered_iff [of "presence_window presence"] assms(2) show ?thesis
    by (auto simp: presence_window_def in_window_def)
qed

lemma placement_clean:
  assumes "only_warnings (emitted (placement_ems (dict_by it_item_id (pr_items pr)) (dict_by ho_host_id (pr_hosts pr)) p))"
    and "\<forall>h \<in> set (pl_hosts p). hp_starts_at h < hp_ends_at h"
  shows "host_safe pr p"
proof (cases "dict_by it_item_id (pr_items pr) (occ_item_id (pl_occurrence p))")
  case None
  with assms(1) show ?thesis by (simp add: placement_ems_def Let_def)
next
  case (Some item)
  with assms(1) have "it_lifecycle item = ''active''" "it_hosting_required item \<longrightarrow> pl_hosts p \<noteq> []"
    and "\<forall>presence \<in> set (pl_hosts p). only_warnings (emitted (host_em p presence
        (dict_by ho_host_id (pr_hosts pr) (hp_host_id presence))))"
    by (auto simp: placement_ems_def Let_def split: if_splits)
  with Some assms(2) show ?thesis
    unfolding host_safe_def by (intro conjI ballI host_clean) auto
qed

lemma space_clean:
  assumes "only_warnings (emitted (venue_ems (dict_by sp_selection_id (ve_spaces ve)) p))"
  shows "space_safe ve p"
  using assms
  by (cases "dict_by sp_selection_id (ve_spaces ve) (pl_space_id p)")
    (auto simp: venue_ems_def space_ems_def Let_def space_safe_def within_def list_ex_iff not_less
      split: if_splits)

lemma all_clean:
  assumes "only_warnings (emitted (all_ems ps edition programme venues))" and "presences_positive ps"
  shows "\<exists>ed pr ve. edition = Some ed \<and> programme = Some pr \<and> venues = Some ve
    \<and> pr_contract pr = PROGRAMME_SCHEDULING_CONFLICT_SOURCE \<and> ve_contract ve = VENUES_SCHEDULING_CONFLICT_SOURCE
    \<and> (\<forall>p \<in> set ps. time_safe ed p \<and> host_safe pr p \<and> space_safe ve p)"
proof -
  from assms(1) obtain ed pr ve where src: "edition = Some ed" "programme = Some pr" "venues = Some ve"
      "pr_contract pr = PROGRAMME_SCHEDULING_CONFLICT_SOURCE" "ve_contract ve = VENUES_SCHEDULING_CONFLICT_SOURCE"
    by (cases edition; cases programme; cases venues)
      (auto simp: all_ems_def programme_ems_def venues_ems_def Let_def split: if_splits)
  with assms(1) have "\<forall>p \<in> set ps. only_warnings (emitted (time_ems (Some ed) p))
        \<and> only_warnings (emitted (placement_ems (dict_by it_item_id (pr_items pr)) (dict_by ho_host_id (pr_hosts pr)) p))
        \<and> only_warnings (emitted (venue_ems (dict_by sp_selection_id (ve_spaces ve)) p))"
    by (simp add: all_ems_def programme_ems_def venues_ems_def Let_def)
  moreover have "\<forall>h \<in> set (pl_hosts p). hp_starts_at h < hp_ends_at h" if "p \<in> set ps" for p
    using assms(2) that by (simp add: presences_positive_def list_all_iff)
  ultimately have "\<forall>p \<in> set ps. time_safe ed p \<and> host_safe pr p \<and> space_safe ve p"
    using time_clean placement_clean space_clean by blast
  with src show ?thesis by blast
qed

lemma manifest_ids: "manifest_valid ps \<Longrightarrow> p \<in> set ps \<Longrightarrow> q \<in> set ps \<Longrightarrow> p \<noteq> q \<Longrightarrow> who p \<noteq> who q"
  by (auto simp: manifest_valid_def distinct_map dest: inj_onD)

lemma manifest_ordered: "manifest_valid ps \<Longrightarrow> p \<in> set ps \<Longrightarrow> envelope_ordered (pl_envelope p)"
  by (auto simp: manifest_valid_def list_all_iff placement_normalized_ordered)

lemma not_blocked: "only_warnings F \<Longrightarrow> pair_finding s c BLOCKER a b \<notin> F"
  by (auto simp: only_warnings_def dest!: bspec)

lemma clean_rooms:
  assumes valid: "manifest_valid ps" and "only_warnings (emitted (all_ems ps ed pr (Some ve)))"
    and contract: "ve_contract ve = VENUES_SCHEDULING_CONFLICT_SOURCE"
    and pq: "p \<in> set ps" "q \<in> set ps" "p \<noteq> q"
    and "m \<in> set (placement_members (dict_by sp_selection_id (ve_spaces ve)) p)"
    and "m \<in> set (placement_members (dict_by sp_selection_id (ve_spaces ve)) q)"
  shows "phases_compatible (room_phase_at (pl_envelope p) t) (room_phase_at (pl_envelope q) t)"
proof (rule ccontr)
  assume "\<not> phases_compatible (room_phase_at (pl_envelope p) t) (room_phase_at (pl_envelope q) t)"
  then have "room_envelopes_conflict (pl_envelope p) (pl_envelope q)"
    using conflict_pointwise [OF manifest_ordered manifest_ordered] valid pq by blast
  with assms have "pair_finding VENUES_SCHEDULING_CONFLICT_SOURCE CANDIDATE_ROOM_OVERLAP BLOCKER (who p) (who q)
      \<in> emitted (all_ems ps ed pr (Some ve))"
    unfolding emitted_room_overlap [OF contract] candidate_overlap_emitted [OF valid manifest_ids [OF valid pq]]
    by blast
  with not_blocked [OF assms(2)] show False by blast
qed

lemma clean_hosts:
  assumes valid: "manifest_valid ps" and positive: "presences_positive ps"
    and "only_warnings (emitted (all_ems ps ed (Some pr) ve))"
    and contract: "pr_contract pr = PROGRAMME_SCHEDULING_CONFLICT_SOURCE"
    and pq: "p \<in> set ps" "q \<in> set ps" "p \<noteq> q"
  shows "\<nexists>person v w t. committed pr p person v \<and> committed pr q person w \<and> in_window v t \<and> in_window w t"
proof
  assume "\<exists>person v w t. committed pr p person v \<and> committed pr q person w \<and> in_window v t \<and> in_window w t"
  with pq have "pair_finding PROGRAMME_SCHEDULING_CONFLICT_SOURCE HOST_OVERLAP BLOCKER (who p) (who q)
      \<in> emitted (all_ems ps ed (Some pr) ve)"
    unfolding emitted_host_overlap [OF contract] host_overlap_emitted [OF positive manifest_ids [OF valid pq]]
    by blast
  with not_blocked [OF assms(3)] show False by blast
qed

section \<open>Sample facts\<close>

text \<open>One service day, one room with one member, one item with one host, as the witnesses use them.\<close>

definition sample_day :: window where
  "sample_day = window_of 0 (1000 * minute_us)"

definition sample_placement :: "uuid \<Rightarrow> int \<Rightarrow> SchedulingPlacementFacts" where
  "sample_placement k m =
     \<lparr>pl_id = k,
      pl_occurrence = \<lparr>occ_id = k, occ_item_id = 20, occ_selected_version = 1, occ_current_version = 1,
                       occ_active = True\<rparr>,
      pl_day = \<lparr>day_id = 5, day_selected_version = 1, day_current_version = 1, day_active = True,
                day_window = sample_day, day_precision_minutes = PyInt 15\<rparr>,
      pl_space_id = 10, pl_envelope = sample_envelope m, pl_capacity_mode = ''seated'',
      pl_expected_attendance = 40,
      pl_hosts = [\<lparr>hp_host_id = 30, hp_starts_at = (m + 30) * minute_us, hp_ends_at = (m + 90) * minute_us\<rparr>],
      pl_own_booking_id = None\<rparr>"

definition sample_programme :: ProgrammeSchedulingSnapshot where
  "sample_programme = \<lparr>pr_contract = PROGRAMME_SCHEDULING_CONFLICT_SOURCE,
     pr_items = [\<lparr>it_item_id = 20, it_lifecycle = ''active'', it_hosting_required = True\<rparr>],
     pr_hosts = [\<lparr>ho_host_id = 30, ho_item_id = 20, ho_person_key = Some 40, ho_status = ''shared'',
                   ho_periods = [\<lparr>ap_window = sample_day, ap_kind = ''available''\<rparr>]\<rparr>]\<rparr>"

definition sample_busy :: VenueSchedulingBusyPeriod where
  "sample_busy = \<lparr>bu_source_key = 60, bu_booking_id = Some 61, bu_member_id = 50,
     bu_conflict_group = ''setup_effective'', bu_window = window_of (300 * minute_us) (360 * minute_us)\<rparr>"

definition sample_venues :: VenueSchedulingSnapshot where
  "sample_venues = \<lparr>ve_contract = VENUES_SCHEDULING_CONFLICT_SOURCE,
     ve_spaces = [\<lparr>sp_selection_id = 10, sp_availability_version = 1, sp_active = True, sp_member_ids = [50],
                    sp_seated_capacity = 60, sp_standing_capacity = 90, sp_table_capacity = 30,
                    sp_fire_capacity = 80, sp_windows = [sample_day]\<rparr>],
     ve_busy_periods = [sample_busy]\<rparr>"

lemmas sample_defs = sample_placement_def sample_programme_def sample_venues_def sample_busy_def sample_day_def
  sample_envelope_def minute_us_def second_us_def

lemma sample_normalized:
  "0 \<le> m \<Longrightarrow> m < 1000 \<Longrightarrow> placement_normalized (sample_placement k m)"
  by (simp add: placement_normalized_def normalize_envelope_utc normalize_window_utc envelope_ordered_def
      whole_minute_def datetime_span_us_def day_us_def require_scheduling_precision_def MINUTES_PER_HOUR_def
      sample_defs)

lemma sample_time:
  "m \<in> {0, 45, 90, 240} \<Longrightarrow> time_ems (Some sample_day) (sample_placement k m) = []"
  using sample_normalized [of m k]
  by (auto simp: time_ems_def emit_if_def within_def placement_fits_service_day_def placement_normalized_def
      require_scheduling_precision_def MINUTES_PER_HOUR_def Let_def sample_defs)

lemmas sample_eval = all_ems_def programme_ems_def placement_ems_def host_em_def venues_ems_def venue_ems_def
  space_ems_def pair_em_def busy_ems_def busy_em_def emit_if_def within_def sample_time
  calendar_pairs_def sharing_pairs_def dict_of_def placement_kvs_def presence_kv_def member_kvs_def
  placement_members_def commitment_em_def commitment_stop_def placement_stop_def dict_by_def dict_get_def
  covered_def presence_window_def capacity_limit_def busy_interactions_def busy_upd_def busy_clique_def
  permitted_turnover_window_def sorted_pair_def time_defs

lemma sample_all_ems:
  "all_ems ps (Some sample_day) pr ve = concat (map (time_ems (Some sample_day)) ps) @ programme_ems ps pr @ venues_ems ps ve"
  by (simp add: all_ems_def emit_if_def)

lemma sample_overlap_ems:
  "all_ems [sample_placement 1 0, sample_placement 2 45] (Some sample_day) (Some sample_programme) (Some sample_venues) =
     [Compare, Emit (pair_finding PROGRAMME_SCHEDULING_CONFLICT_SOURCE HOST_OVERLAP BLOCKER 1 2),
      Compare, Emit (pair_finding VENUES_SCHEDULING_CONFLICT_SOURCE CANDIDATE_ROOM_OVERLAP BLOCKER 1 2),
      Compare, Compare]"
  unfolding sample_all_ems by (simp add: sample_time) (simp add: sample_eval Let_def sample_defs)

lemma sample_turnover_ems:
  "all_ems [sample_placement 1 0, sample_placement 2 90] (Some sample_day) (Some sample_programme) (Some sample_venues) =
     [Compare, Emit (pair_finding VENUES_SCHEDULING_CONFLICT_SOURCE TURNOVER_OVERLAP WARNING 1 2), Compare, Compare]"
  unfolding sample_all_ems by (simp add: sample_time) (simp add: sample_eval Let_def sample_defs)

lemma sample_reserved_ems:
  "all_ems [sample_placement 1 240] (Some sample_day) (Some sample_programme) (Some sample_venues) =
     [Compare, Emit (make_finding VENUES_SCHEDULING_CONFLICT_SOURCE RESERVED_ROOM_OVERLAP BLOCKER (Some 1))]"
  unfolding sample_all_ems by (simp add: sample_time) (simp add: sample_eval Let_def sample_defs)

lemma sample_valid:
  "manifest_valid [sample_placement 1 0, sample_placement 2 45]"
  "manifest_valid [sample_placement 1 0, sample_placement 2 90]"
  "manifest_valid [sample_placement 1 240]"
  "presences_positive [sample_placement 1 0, sample_placement 2 45]"
  "presences_positive [sample_placement 1 0, sample_placement 2 90]"
  using sample_normalized
  by (simp_all add: manifest_valid_def MAX_OCCURRENCES_def presences_positive_def)
    (simp_all add: sample_defs)

lemma sample_contracts:
  "ve_contract sample_venues = VENUES_SCHEDULING_CONFLICT_SOURCE"
  "pr_contract sample_programme = PROGRAMME_SCHEDULING_CONFLICT_SOURCE"
  by (simp_all add: sample_venues_def sample_programme_def)

lemma sample_evaluations:
  "\<exists>out. evaluate_scheduling_facts (Typed (map Typed [sample_placement 1 0, sample_placement 2 45]))
      (Some sample_day) (Some sample_programme) (Some sample_venues) = Inr out
    \<and> set out = {pair_finding PROGRAMME_SCHEDULING_CONFLICT_SOURCE HOST_OVERLAP BLOCKER 1 2,
         pair_finding VENUES_SCHEDULING_CONFLICT_SOURCE CANDIDATE_ROOM_OVERLAP BLOCKER 1 2}"
  "\<exists>out. evaluate_scheduling_facts (Typed (map Typed [sample_placement 1 0, sample_placement 2 90]))
      (Some sample_day) (Some sample_programme) (Some sample_venues) = Inr out
    \<and> set out = {pair_finding VENUES_SCHEDULING_CONFLICT_SOURCE TURNOVER_OVERLAP WARNING 1 2}"
  "\<exists>out. evaluate_scheduling_facts (Typed (map Typed [sample_placement 1 240]))
      (Some sample_day) (Some sample_programme) (Some sample_venues) = Inr out
    \<and> set out = {make_finding VENUES_SCHEDULING_CONFLICT_SOURCE RESERVED_ROOM_OVERLAP BLOCKER (Some 1)}"
  using evaluate_outcome [OF sample_valid(1), of "Some sample_day" "Some sample_programme" "Some sample_venues"]
    evaluate_outcome [OF sample_valid(2), of "Some sample_day" "Some sample_programme" "Some sample_venues"]
    evaluate_outcome [OF sample_valid(3), of "Some sample_day" "Some sample_programme" "Some sample_venues"]
  unfolding sample_overlap_ems sample_turnover_ems sample_reserved_ems
  by (auto simp: within_limits_def MAX_CONFLICTS_def MAX_CONFLICT_COMPARISONS_def card_insert_if)

section \<open>Properties\<close>

text \<open>
  C2. The evaluation refines the declarative list of findings: for a valid manifest it returns the
  emitted findings, each once, in the strict order of the reporting key, when the comparisons and
  the findings stay within the two bounds, and exactly the single limit finding otherwise.
\<close>

theorem evaluation_refines_emissions:
  assumes "manifest_valid ps"
  shows "\<exists>out. evaluate_scheduling_facts (Typed (map Typed ps)) ed pr ve = Inr out
    \<and> sorted_wrt (<) (map finding_key out)
    \<and> (if comparisons (all_ems ps ed pr ve) \<le> 1000000 \<and> card (emitted (all_ems ps ed pr ve)) \<le> 10000
       then set out = emitted (all_ems ps ed pr ve) else out = [limit_finding])"
  using evaluate_outcome [OF assms, of ed pr ve]
  by (simp add: within_limits_def MAX_CONFLICTS_def MAX_CONFLICT_COMPARISONS_def)

theorem evaluation_refines_emissions_witness:
  "\<exists>out. evaluate_scheduling_facts (Typed (map Typed [sample_placement 1 0, sample_placement 2 45]))
      (Some sample_day) (Some sample_programme) (Some sample_venues) = Inr out
    \<and> set out = {pair_finding PROGRAMME_SCHEDULING_CONFLICT_SOURCE HOST_OVERLAP BLOCKER 1 2,
         pair_finding VENUES_SCHEDULING_CONFLICT_SOURCE CANDIDATE_ROOM_OVERLAP BLOCKER 1 2}"
  using evaluation_refines_emissions [OF sample_valid(1), of "Some sample_day" "Some sample_programme" "Some sample_venues"]
  unfolding sample_overlap_ems by (auto simp: card_insert_if)

text \<open>
  C3. Room overlaps are reported exactly: in a complete answer two different occurrences carry a
  candidate room overlap if and only if their placements share a physical member and at some
  instant both occupy it other than in a turnover. The early exit of the sweep over sorted
  placements and the set of compared pairs lose none.
\<close>

theorem room_overlap_reported_exactly:
  assumes "manifest_valid ps" and "ve_contract ve = VENUES_SCHEDULING_CONFLICT_SOURCE"
    and "evaluate_scheduling_facts (Typed (map Typed ps)) ed pr (Some ve) = Inr out"
    and "limit_finding \<notin> set out" and "a \<noteq> b"
  shows "pair_finding VENUES_SCHEDULING_CONFLICT_SOURCE CANDIDATE_ROOM_OVERLAP BLOCKER a b \<in> set out \<longleftrightarrow>
    (\<exists>p \<in> set ps. \<exists>q \<in> set ps. who p = a \<and> who q = b
      \<and> (\<exists>m. m \<in> set (placement_members (dict_by sp_selection_id (ve_spaces ve)) p)
           \<and> m \<in> set (placement_members (dict_by sp_selection_id (ve_spaces ve)) q))
      \<and> (\<exists>t. \<not> phases_compatible (room_phase_at (pl_envelope p) t) (room_phase_at (pl_envelope q) t)))"
proof -
  have conflict: "room_envelopes_conflict (pl_envelope p) (pl_envelope q) \<longleftrightarrow>
      (\<exists>t. \<not> phases_compatible (room_phase_at (pl_envelope p) t) (room_phase_at (pl_envelope q) t))"
    if "p \<in> set ps" "q \<in> set ps" for p q
    using that assms(1) by (intro conflict_pointwise placement_normalized_ordered)
      (auto simp: manifest_valid_def list_all_iff)
  show ?thesis
    unfolding evaluate_complete [OF assms(1,3,4)] emitted_room_overlap [OF assms(2)]
      candidate_overlap_emitted [OF assms(1,5)]
    using conflict by (auto simp: disjoint_iff)
qed

theorem room_overlap_reported_exactly_witness:
  "\<exists>p \<in> {sample_placement 1 0, sample_placement 2 45}. \<exists>q \<in> {sample_placement 1 0, sample_placement 2 45}.
     who p = 1 \<and> who q = 2
     \<and> (\<exists>t. \<not> phases_compatible (room_phase_at (pl_envelope p) t) (room_phase_at (pl_envelope q) t))"
proof -
  obtain out where "evaluate_scheduling_facts (Typed (map Typed [sample_placement 1 0, sample_placement 2 45]))
      (Some sample_day) (Some sample_programme) (Some sample_venues) = Inr out"
    and out: "set out = {pair_finding PROGRAMME_SCHEDULING_CONFLICT_SOURCE HOST_OVERLAP BLOCKER 1 2,
         pair_finding VENUES_SCHEDULING_CONFLICT_SOURCE CANDIDATE_ROOM_OVERLAP BLOCKER 1 2}"
    using sample_evaluations(1) by blast
  from room_overlap_reported_exactly [OF sample_valid(1) sample_contracts(1) this(1), of 1 2] show ?thesis
    unfolding out by (auto simp: limit_finding_def pair_finding_def)
qed

text \<open>
  Host double bookings are reported exactly: in a complete answer two different occurrences
  carry a host overlap if and only if some person is committed to both at a common instant.
\<close>

theorem host_overlap_reported_exactly:
  assumes "manifest_valid ps" and "presences_positive ps"
    and "pr_contract pr = PROGRAMME_SCHEDULING_CONFLICT_SOURCE"
    and "evaluate_scheduling_facts (Typed (map Typed ps)) ed (Some pr) ve = Inr out"
    and "limit_finding \<notin> set out" and "a \<noteq> b"
  shows "pair_finding PROGRAMME_SCHEDULING_CONFLICT_SOURCE HOST_OVERLAP BLOCKER a b \<in> set out \<longleftrightarrow>
    (\<exists>p \<in> set ps. \<exists>q \<in> set ps. who p = a \<and> who q = b
      \<and> (\<exists>person v w t. committed pr p person v \<and> committed pr q person w \<and> in_window v t \<and> in_window w t))"
  unfolding evaluate_complete [OF assms(1,4,5)] emitted_host_overlap [OF assms(3)]
  by (rule host_overlap_emitted [OF assms(2,6)])

theorem host_overlap_reported_exactly_witness:
  "\<exists>p \<in> {sample_placement 1 0, sample_placement 2 45}. \<exists>q \<in> {sample_placement 1 0, sample_placement 2 45}.
     who p = 1 \<and> who q = 2 \<and> (\<exists>person v w t. committed sample_programme p person v
       \<and> committed sample_programme q person w \<and> in_window v t \<and> in_window w t)"
proof -
  obtain out where "evaluate_scheduling_facts (Typed (map Typed [sample_placement 1 0, sample_placement 2 45]))
      (Some sample_day) (Some sample_programme) (Some sample_venues) = Inr out"
    and out: "set out = {pair_finding PROGRAMME_SCHEDULING_CONFLICT_SOURCE HOST_OVERLAP BLOCKER 1 2,
         pair_finding VENUES_SCHEDULING_CONFLICT_SOURCE CANDIDATE_ROOM_OVERLAP BLOCKER 1 2}"
    using sample_evaluations(1) by blast
  from host_overlap_reported_exactly [OF sample_valid(1,4) sample_contracts(2) this(1), of 1 2] show ?thesis
    unfolding out by (simp add: limit_finding_def pair_finding_def)
qed

text \<open>
  Overlaps with reserved periods are reported exactly: an occurrence carries one if and only if
  a busy period of a known conflict group on a member of its space, other than its own booking,
  overlaps the part of the envelope that the group guards. Periods with an empty booking
  identifier are never taken for the own booking.
\<close>

theorem reserved_overlap_reported_exactly:
  assumes "manifest_valid ps" and "ve_contract ve = VENUES_SCHEDULING_CONFLICT_SOURCE"
    and "evaluate_scheduling_facts (Typed (map Typed ps)) ed pr (Some ve) = Inr out"
    and "limit_finding \<notin> set out"
  shows "make_finding VENUES_SCHEDULING_CONFLICT_SOURCE RESERVED_ROOM_OVERLAP BLOCKER (Some a) \<in> set out \<longleftrightarrow>
    (\<exists>p \<in> set ps. \<exists>busy \<in> set (ve_busy_periods ve). who p = a
      \<and> bu_member_id busy \<in> set (placement_members (dict_by sp_selection_id (ve_spaces ve)) p)
      \<and> (bu_booking_id busy = None \<or> bu_booking_id busy \<noteq> pl_own_booking_id p)
      \<and> (bu_conflict_group busy = ''setup_effective''
          \<and> setup_starts_at (pl_envelope p) < w_ends_at (bu_window busy)
          \<and> w_starts_at (bu_window busy) < effective_ends_at (pl_envelope p)
        \<or> bu_conflict_group busy = ''effective_teardown''
          \<and> effective_starts_at (pl_envelope p) < w_ends_at (bu_window busy)
          \<and> w_starts_at (bu_window busy) < teardown_ends_at (pl_envelope p)))" (is "_ \<longleftrightarrow> ?rhs")
proof -
  have guard: "known_group busy \<and> scheduling_windows_overlap (busy_clique busy (pl_envelope p)) (bu_window busy) \<longleftrightarrow>
      bu_conflict_group busy = ''setup_effective''
        \<and> setup_starts_at (pl_envelope p) < w_ends_at (bu_window busy)
        \<and> w_starts_at (bu_window busy) < effective_ends_at (pl_envelope p)
      \<or> bu_conflict_group busy = ''effective_teardown''
        \<and> effective_starts_at (pl_envelope p) < w_ends_at (bu_window busy)
        \<and> w_starts_at (bu_window busy) < teardown_ends_at (pl_envelope p)" for busy p
    by (auto simp: busy_clique_def scheduling_windows_overlap_def)
  show ?thesis
    unfolding evaluate_complete [OF assms(1,3,4)] emitted_reserved_overlap [OF assms(2)] reserved_emitted
      member_dict_get guard [symmetric] by (auto simp del: insert_iff)
qed

theorem reserved_overlap_reported_exactly_witness:
  "\<exists>p \<in> {sample_placement 1 240}. \<exists>busy \<in> {sample_busy}. who p = 1
     \<and> setup_starts_at (pl_envelope p) < w_ends_at (bu_window busy)
     \<and> w_starts_at (bu_window busy) < effective_ends_at (pl_envelope p)"
proof -
  obtain out where "evaluate_scheduling_facts (Typed (map Typed [sample_placement 1 240]))
      (Some sample_day) (Some sample_programme) (Some sample_venues) = Inr out"
    and out: "set out = {make_finding VENUES_SCHEDULING_CONFLICT_SOURCE RESERVED_ROOM_OVERLAP BLOCKER (Some 1)}"
    using sample_evaluations(3) by blast
  from reserved_overlap_reported_exactly [OF sample_valid(3) sample_contracts(1) this(1), of 1] show ?thesis
    unfolding out by (simp add: limit_finding_def make_finding_def sample_venues_def) (simp add: sample_busy_def)
qed

text \<open>
  \<open>_covered\<close> is exact for every positive window and any list of periods, sorted or not,
  overlapping or not: it holds if and only if each instant of the window lies in some period.
\<close>

theorem covered_exact:
  assumes "w_starts_at w < w_ends_at w"
  shows "covered w periods \<longleftrightarrow> (\<forall>t. in_window w t \<longrightarrow> (\<exists>p \<in> set periods. in_window p t))"
  using assms by (rule covered_iff)

theorem covered_exact_witness:
  "covered (window_of 1 9) [window_of 5 12, window_of 0 5]
   \<and> (\<exists>p \<in> {window_of 5 12, window_of 0 5}. in_window p 6)"
proof -
  have run: "covered (window_of 1 9) [window_of 5 12, window_of 0 5]"
    by (simp add: covered_def)
  then have "\<exists>p \<in> set [window_of 5 12, window_of 0 5]. in_window p 6"
    using covered_exact [of "window_of 1 9" "[window_of 5 12, window_of 0 5]"]
    by (simp del: list.set add: in_window_def)
  with run show ?thesis by simp
qed

text \<open>
  C1. A clean answer is safe to act on: when a valid manifest's evaluation reports nothing worse
  than warnings, the edition, Programme and Venue sources were all available; every placement is
  current, on the grid and inside its day and edition, its room is active, large enough and
  available, each of its hosts is available at every instant of the presence; no two placements
  that share a physical room use it incompatibly at any instant; no person is committed to two
  occurrences at once.
\<close>

theorem clean_evaluation_safe:
  assumes "manifest_valid ps" and "presences_positive ps"
    and "evaluate_scheduling_facts (Typed (map Typed ps)) edition programme venues = Inr out"
    and "\<forall>f \<in> set out. fi_severity f = WARNING"
  shows "\<exists>ed pr ve. edition = Some ed \<and> programme = Some pr \<and> venues = Some ve
    \<and> (\<forall>p \<in> set ps. time_safe ed p \<and> host_safe pr p \<and> space_safe ve p)
    \<and> (\<forall>p \<in> set ps. \<forall>q \<in> set ps. p \<noteq> q \<longrightarrow>
        (\<exists>m. m \<in> set (placement_members (dict_by sp_selection_id (ve_spaces ve)) p)
           \<and> m \<in> set (placement_members (dict_by sp_selection_id (ve_spaces ve)) q)) \<longrightarrow>
        (\<forall>t. phases_compatible (room_phase_at (pl_envelope p) t) (room_phase_at (pl_envelope q) t)))
    \<and> (\<forall>p \<in> set ps. \<forall>q \<in> set ps. p \<noteq> q \<longrightarrow> (\<nexists>person v w t. committed pr p person v
        \<and> committed pr q person w \<and> in_window v t \<and> in_window w t))"
proof -
  have nolimit: "limit_finding \<notin> set out"
    using assms(4) by (auto simp: limit_finding_def)
  have warnings: "only_warnings (emitted (all_ems ps edition programme venues))"
    using assms(4) evaluate_complete [OF assms(1,3) nolimit] by (simp add: only_warnings_def)
  from all_clean [OF this assms(2)] obtain ed pr ve where
      src: "edition = Some ed" "programme = Some pr" "venues = Some ve"
    and contracts: "pr_contract pr = PROGRAMME_SCHEDULING_CONFLICT_SOURCE"
      "ve_contract ve = VENUES_SCHEDULING_CONFLICT_SOURCE"
    and each: "\<forall>p \<in> set ps. time_safe ed p \<and> host_safe pr p \<and> space_safe ve p"
    by blast
  from src each clean_rooms [OF assms(1) warnings [unfolded src(3)] contracts(2)]
    clean_hosts [OF assms(1,2) warnings [unfolded src(2)] contracts(1)]
  show ?thesis by blast
qed

theorem clean_evaluation_safe_witness:
  "\<exists>out. evaluate_scheduling_facts (Typed (map Typed [sample_placement 1 0, sample_placement 2 90]))
      (Some sample_day) (Some sample_programme) (Some sample_venues) = Inr out
    \<and> time_safe sample_day (sample_placement 2 90) \<and> host_safe sample_programme (sample_placement 2 90)
    \<and> space_safe sample_venues (sample_placement 2 90)"
proof -
  obtain out where run: "evaluate_scheduling_facts (Typed (map Typed [sample_placement 1 0, sample_placement 2 90]))
      (Some sample_day) (Some sample_programme) (Some sample_venues) = Inr out"
    and out: "set out = {pair_finding VENUES_SCHEDULING_CONFLICT_SOURCE TURNOVER_OVERLAP WARNING 1 2}"
    using sample_evaluations(2) by blast
  have "\<forall>f \<in> set out. fi_severity f = WARNING"
    by (simp add: out)
  from clean_evaluation_safe [OF sample_valid(2,5) run this] run show ?thesis
    by auto
qed

end
