(* ===== verification/Json.thy ===== *)
theory Json
  imports Maru_Prelude "HOL-Library.Sublist"
begin

text \<open>
  JSON values as the program stores and hashes them, and the canonical encoding it hashes:
  \<open>json.dumps(value, ensure_ascii=False, sort_keys=True, separators=(",", ":")).encode()\<close>. The encoding
  is shown to be unambiguous: two values have the same bytes exactly when they are the same value up
  to the order of object keys. A character is a code point below 256.
\<close>

section \<open>Values\<close>

datatype json = JNull | JBool bool | JInt int | JStr string | JList "json list" | JObj "(string \<times> json) list"

text \<open>Truth of a value: \<open>None\<close>, \<open>False\<close>, zero and empty containers are false.\<close>

fun json_true :: "json \<Rightarrow> bool" where
  "json_true JNull = False"
| "json_true (JBool b) = b"
| "json_true (JInt n) = (n \<noteq> 0)"
| "json_true (JStr s) = (s \<noteq> [])"
| "json_true (JList vs) = (vs \<noteq> [])"
| "json_true (JObj fs) = (fs \<noteq> [])"

text \<open>\<open>sort_keys=True\<close>: the items of every object in the order of their keys.\<close>

fun json_sort :: "json \<Rightarrow> json" and json_sort_list :: "json list \<Rightarrow> json list"
  and json_sort_fields :: "(string \<times> json) list \<Rightarrow> (string \<times> json) list" where
  "json_sort (JList vs) = JList (json_sort_list vs)"
| "json_sort (JObj fs) = JObj (sort_key fst (json_sort_fields fs))"
| "json_sort JNull = JNull"
| "json_sort (JBool b) = JBool b"
| "json_sort (JInt n) = JInt n"
| "json_sort (JStr s) = JStr s"
| "json_sort_list [] = []"
| "json_sort_list (v # vs) = json_sort v # json_sort_list vs"
| "json_sort_fields [] = []"
| "json_sort_fields ((k, v) # fs) = (k, json_sort v) # json_sort_fields fs"

lemma json_sort_fields_map: "json_sort_fields fs = map (\<lambda>(k, v). (k, json_sort v)) fs"
  by (induction fs) auto

lemma json_sort_fields_snd: "map snd (json_sort_fields fs) = map json_sort (map snd fs)"
  by (simp add: json_sort_fields_map case_prod_unfold comp_def)

lemma json_sort_list_map: "json_sort_list vs = map json_sort vs"
  by (induction vs) auto

section \<open>Printing\<close>

definition digit_char :: "nat \<Rightarrow> char" where
  "digit_char d = char_of (48 + d)"

fun nat_str :: "nat \<Rightarrow> string" where
  "nat_str n = (if n < 10 then [digit_char n] else nat_str (n div 10) @ [digit_char (n mod 10)])"

declare nat_str.simps [simp del]

definition int_str :: "int \<Rightarrow> string" where
  "int_str n = (if n < 0 then CHR ''-'' # nat_str (nat (- n)) else nat_str (nat n))"

definition json_escape :: "char \<Rightarrow> string" where
  "json_escape c =
     (if c = CHR 0x22 then [CHR 0x5C, CHR 0x22]
      else if c = CHR 0x5C then [CHR 0x5C, CHR 0x5C]
      else if c = CHR 0x0A then [CHR 0x5C, CHR ''n'']
      else if c = CHR 0x0D then [CHR 0x5C, CHR ''r'']
      else if c = CHR 0x09 then [CHR 0x5C, CHR ''t'']
      else if c = CHR 0x0C then [CHR 0x5C, CHR ''f'']
      else if c = CHR 0x08 then [CHR 0x5C, CHR ''b'']
      else if of_char c < (32 :: nat) then [CHR 0x5C, CHR ''u''] @ hex_digits 4 (of_char c)
      else [c])"

text \<open>The characters after the opening quote of a string.\<close>

definition str_tail :: "string \<Rightarrow> string" where
  "str_tail s = concat (map json_escape s) @ [CHR 0x22]"

fun json_print :: "json \<Rightarrow> string" and items_tail :: "json list \<Rightarrow> string"
  and fields_tail :: "(string \<times> json) list \<Rightarrow> string" where
  "json_print JNull = ''null''"
| "json_print (JBool b) = (if b then ''true'' else ''false'')"
| "json_print (JInt n) = int_str n"
| "json_print (JStr s) = CHR 0x22 # str_tail s"
| "json_print (JList []) = ''[]''"
| "json_print (JList (v # vs)) = CHR ''['' # json_print v @ items_tail vs"
| "json_print (JObj []) = [CHR 0x7B, CHR 0x7D]"
| "json_print (JObj ((k, v) # fs)) = CHR 0x7B # CHR 0x22 # str_tail k @ CHR 0x3A # json_print v @ fields_tail fs"
| "items_tail [] = '']''"
| "items_tail (v # vs) = CHR 0x2C # json_print v @ items_tail vs"
| "fields_tail [] = [CHR 0x7D]"
| "fields_tail ((k, v) # fs) = CHR 0x2C # CHR 0x22 # str_tail k @ CHR 0x3A # json_print v @ fields_tail fs"

text \<open>\<open>str.encode()\<close>: UTF-8.\<close>

definition utf8_char :: "char \<Rightarrow> string" where
  "utf8_char c = (let n = (of_char c :: nat) in
     if n < 128 then [c] else [char_of (192 + n div 64), char_of (128 + n mod 64)])"

definition utf8 :: "string \<Rightarrow> string" where
  "utf8 s = concat (map utf8_char s)"

definition json_dumps :: "json \<Rightarrow> string" where
  "json_dumps v = utf8 (json_print (json_sort v))"

section \<open>The encoding is unambiguous\<close>

subsection \<open>Strings\<close>

lemma hex_digits_inject:
  assumes "hex_digits n a = hex_digits n b" and "a < 16 ^ n" and "b < 16 ^ n"
  shows "a = b"
  using hex_digits_less [OF assms(2,3)] hex_digits_less [OF assms(3,2)] assms(1)
  by (metis less_irrefl linorder_less_linear)

lemma escape_code: "json_escape c @ x = json_escape d @ y \<Longrightarrow> c = d \<and> x = y"
proof -
  assume eq: "json_escape c @ x = json_escape d @ y"
  have "of_char c = (of_char d :: nat)"
    if "hex_digits 4 (of_char c) @ x = hex_digits 4 (of_char d) @ y"
      "of_char c < (32 :: nat)" "of_char d < (32 :: nat)"
    using that hex_digits_inject [of 4 "of_char c" "of_char d"] by simp
  with eq have "c = d"
    unfolding json_escape_def by (simp split: if_splits)
  with eq show ?thesis by simp
qed

lemma escape_starts: "json_escape c @ x \<noteq> CHR 0x22 # y"
  by (simp add: json_escape_def)

lemma str_tail_simps:
  "str_tail [] = [CHR 0x22]" "str_tail (c # s) = json_escape c @ str_tail s"
  by (simp_all add: str_tail_def)

lemma str_tail_inject: "str_tail s @ x = str_tail t @ y \<Longrightarrow> s = t \<and> x = y"
proof (induction s arbitrary: t)
  case Nil
  then show ?case
    using escape_starts by (cases t) (auto simp: str_tail_simps dest: sym)
next
  case (Cons c s)
  then obtain d u where t: "t = d # u"
    using escape_starts by (cases t) (auto simp: str_tail_simps)
  with Cons.prems have "json_escape c @ (str_tail s @ x) = json_escape d @ (str_tail u @ y)"
    by (simp add: str_tail_simps)
  then have "c = d" and "str_tail s @ x = str_tail u @ y"
    using escape_code by blast+
  with Cons.IH t show ?case by blast
qed

lemma utf8_code: "utf8_char c @ x = utf8_char d @ y \<Longrightarrow> c = d \<and> x = y"
proof -
  assume eq: "utf8_char c @ x = utf8_char d @ y"
  have lead: "(192 + of_char e div 64) mod 256 = 192 + (of_char e :: nat) div 64" for e
  proof -
    have "192 + (of_char e :: nat) div 64 < 256" using nat_of_char_less_256 [of e] by linarith
    then show ?thesis by (rule mod_less)
  qed
  have follow: "(128 + n mod 64) mod 256 = 128 + n mod 64" for n :: nat
    by simp
  have heads: "of_char (hd (utf8_char e)) = (if of_char e < (128 :: nat) then of_char e else 192 + (of_char e :: nat) div 64)" for e
    by (simp add: utf8_char_def Let_def lead)
  have "hd (utf8_char c) = hd (utf8_char d)"
    using arg_cong [OF eq, of hd] by (simp add: utf8_char_def Let_def split: if_splits)
  then have hds: "(if of_char c < (128 :: nat) then of_char c else 192 + (of_char c :: nat) div 64) =
      (if of_char d < (128 :: nat) then of_char d else 192 + of_char d div 64)"
    using heads by metis
  have "c = d"
  proof (cases "of_char c < (128 :: nat) \<or> of_char d < (128 :: nat)")
    case True
    with hds have "of_char c = (of_char d :: nat)" by (auto split: if_splits)
    then show ?thesis by simp
  next
    case False
    with eq have "char_of (128 + of_char c mod 64 :: nat) = (char_of (128 + of_char d mod 64 :: nat) :: char)"
      by (simp add: utf8_char_def Let_def)
    then have "(of_char c :: nat) mod 64 = of_char d mod 64"
      by (metis add_left_cancel follow of_char_of)
    moreover from False hds have "(of_char c :: nat) div 64 = of_char d div 64" by simp
    ultimately have "(of_char c :: nat) = of_char d" by (metis div_mult_mod_eq)
    then show ?thesis by simp
  qed
  with eq show ?thesis by simp
qed

lemma utf8_inject [simp]: "utf8 s = utf8 t \<longleftrightarrow> s = t"
proof
  show "utf8 s = utf8 t \<Longrightarrow> s = t"
  proof (induction s arbitrary: t)
    case Nil
    then show ?case by (cases t) (auto simp: utf8_def utf8_char_def Let_def split: if_splits)
  next
    case (Cons c s)
    then obtain d u where t: "t = d # u"
      by (cases t) (auto simp: utf8_def utf8_char_def Let_def split: if_splits)
    with Cons.prems have "utf8_char c @ utf8 s = utf8_char d @ utf8 u" by (simp add: utf8_def)
    with Cons.IH t utf8_code show ?case by blast
  qed
qed simp

subsection \<open>Numbers\<close>

definition is_digit :: "char \<Rightarrow> bool" where
  "is_digit c \<longleftrightarrow> (48 :: nat) \<le> of_char c \<and> of_char c \<le> (57 :: nat)"

definition digits_val :: "string \<Rightarrow> nat" where
  "digits_val s = foldl (\<lambda>n c. 10 * n + (of_char c - 48)) 0 s"

lemma of_digit_char [simp]: "d < 10 \<Longrightarrow> of_char (digit_char d) = 48 + d"
  by (simp add: digit_char_def)

lemma nat_str_digits: "\<forall>c \<in> set (nat_str n). is_digit c"
proof (induction n rule: nat_str.induct)
  case (1 n)
  have "is_digit (digit_char (n mod 10))" by (simp add: is_digit_def)
  with 1 show ?case by (subst nat_str.simps) (auto simp: is_digit_def)
qed

lemma nat_str_val: "digits_val (nat_str n) = n"
proof (induction n rule: nat_str.induct)
  case (1 n)
  then show ?case by (subst nat_str.simps) (auto simp: digits_val_def)
qed

lemma nat_str_nonempty: "nat_str n \<noteq> []"
  by (subst nat_str.simps) simp

text \<open>What follows a number in the encoding never continues it.\<close>

definition delimited :: "string \<Rightarrow> bool" where
  "delimited s \<longleftrightarrow> (case s of [] \<Rightarrow> True | c # _ \<Rightarrow> \<not> is_digit c)"

lemma digits_split:
  assumes "\<forall>c \<in> set a. is_digit c" and "\<forall>c \<in> set b. is_digit c" and "delimited x" and "delimited y"
    and "a @ x = b @ y"
  shows "a = b \<and> x = y"
proof -
  have "takeWhile is_digit (a @ x) = a" "takeWhile is_digit (b @ y) = b"
    using assms(1-4) by (auto simp: takeWhile_append2 delimited_def split: list.splits)
  with assms(5) show ?thesis by auto
qed

lemma nat_str_inject:
  assumes "nat_str m @ x = nat_str n @ y" and "delimited x" and "delimited y"
  shows "m = n \<and> x = y"
  using digits_split [OF nat_str_digits nat_str_digits assms(2,3,1)] by (metis nat_str_val)

lemma nat_str_head: "\<exists>c r. nat_str n = c # r \<and> is_digit c"
  using nat_str_nonempty [of n] nat_str_digits [of n] by (cases "nat_str n") auto

lemma int_str_inject:
  assumes "int_str m @ x = int_str n @ y" and "delimited x" and "delimited y"
  shows "m = n \<and> x = y"
proof -
  have minus: "\<not> is_digit CHR ''-''" by (simp add: is_digit_def)
  obtain a r where a: "nat_str (nat m) = a # r" "is_digit a" using nat_str_head by blast
  obtain b q where b: "nat_str (nat n) = b # q" "is_digit b" using nat_str_head by blast
  show ?thesis
  proof (cases "m < 0 \<longleftrightarrow> n < 0")
    case True
    have "nat m = nat n \<and> x = y" if "\<not> m < 0"
      using nat_str_inject [of "nat m" x "nat n" y] that assms True by (simp add: int_str_def)
    moreover have "nat (- m) = nat (- n) \<and> x = y" if "m < 0"
      using nat_str_inject [of "nat (- m)" x "nat (- n)" y] that assms True by (simp add: int_str_def)
    ultimately show ?thesis using True by linarith
  next
    case False
    then show ?thesis using assms(1) a b minus by (auto simp: int_str_def split: if_splits)
  qed
qed

lemma int_str_head: "\<exists>c r. int_str n = c # r \<and> (is_digit c \<or> c = CHR ''-'')"
  using nat_str_head [of "nat n"] by (auto simp: int_str_def)

subsection \<open>Values\<close>

text \<open>The first character tells the kind of a value.\<close>

fun kind_of :: "json \<Rightarrow> nat" where
  "kind_of JNull = 0"
| "kind_of (JBool b) = (if b then 1 else 2)"
| "kind_of (JInt _) = 3"
| "kind_of (JStr _) = 4"
| "kind_of (JList _) = 5"
| "kind_of (JObj _) = 6"

definition head_kind :: "char \<Rightarrow> nat" where
  "head_kind c = (if c = CHR ''n'' then 0 else if c = CHR ''t'' then 1 else if c = CHR ''f'' then 2
     else if c = CHR 0x22 then 4 else if c = CHR ''['' then 5 else if c = CHR 0x7B then 6 else 3)"

lemma letters_no_digits [simp]:
  "\<not> is_digit CHR ''n''" "\<not> is_digit CHR ''t''" "\<not> is_digit CHR ''f''" "\<not> is_digit CHR 0x22"
  "\<not> is_digit CHR ''[''" "\<not> is_digit CHR '']''" "\<not> is_digit CHR 0x7B" "\<not> is_digit CHR 0x7D"
  "\<not> is_digit CHR 0x2C"
  by (simp_all add: is_digit_def)

lemma number_head:
  assumes "is_digit c \<or> c = CHR ''-''"
  shows "head_kind c = 3" and "c \<noteq> CHR '']''"
proof -
  have sep: "c \<noteq> d" if "\<not> is_digit d" and "d \<noteq> CHR ''-''" for d
    using assms that by blast
  note seps = sep [OF letters_no_digits(1)] sep [OF letters_no_digits(2)] sep [OF letters_no_digits(3)]
    sep [OF letters_no_digits(4)] sep [OF letters_no_digits(5)] sep [OF letters_no_digits(7)]
  show "head_kind c = 3" using seps by (simp add: head_kind_def)
  show "c \<noteq> CHR '']''" using sep [OF letters_no_digits(6)] by simp
qed

lemma json_print_head: "\<exists>c r. json_print v = c # r \<and> head_kind c = kind_of v \<and> c \<noteq> CHR '']''"
proof (cases v)
  case (JInt n)
  then show ?thesis using int_str_head [of n] number_head by fastforce
next
  case (JList vs)
  then show ?thesis by (cases vs) (auto simp: head_kind_def)
next
  case (JObj fs)
  then show ?thesis by (cases fs) (auto simp: head_kind_def)
qed (auto simp: head_kind_def)

lemma print_kinds: "json_print v @ x = json_print w @ y \<Longrightarrow> kind_of v = kind_of w"
  using json_print_head [of v] json_print_head [of w] by auto

lemma kind_of_cases:
  "kind_of w = 0 \<Longrightarrow> w = JNull" "kind_of w = 1 \<Longrightarrow> w = JBool True" "kind_of w = 2 \<Longrightarrow> w = JBool False"
  "kind_of w = 3 \<Longrightarrow> \<exists>n. w = JInt n" "kind_of w = 4 \<Longrightarrow> \<exists>s. w = JStr s"
  "kind_of w = 5 \<Longrightarrow> \<exists>vs. w = JList vs" "kind_of w = 6 \<Longrightarrow> \<exists>fs. w = JObj fs"
  by (cases w; simp split: if_splits)+

lemma tails_delimited [simp]: "delimited (items_tail vs @ x)" "delimited (fields_tail fs @ x)"
proof -
  show "delimited (items_tail vs @ x)"
    by (cases vs) (auto simp: delimited_def)
  show "delimited (fields_tail fs @ x)"
    by (cases fs) (auto simp: delimited_def)
qed

lemma print_inject:
  "json_print v @ x = json_print w @ y \<Longrightarrow> delimited x \<Longrightarrow> delimited y \<Longrightarrow> v = w \<and> x = y"
  "items_tail vs @ x = items_tail ws @ y \<Longrightarrow> vs = ws \<and> x = y"
  "fields_tail fs @ x = fields_tail gs @ y \<Longrightarrow> fs = gs \<and> x = y"
proof (induction v and vs and fs arbitrary: w x y and ws x y and gs x y
    rule: json_print_items_tail_fields_tail.induct)
  case (3 n)
  from print_kinds [OF 3(1)] obtain m where w: "w = JInt m" using kind_of_cases(4) by force
  with 3 show ?case using int_str_inject [of n x m y] by simp
next
  case (4 s)
  from print_kinds [OF 4(1)] obtain u where w: "w = JStr u" using kind_of_cases(5) by force
  with 4 show ?case using str_tail_inject [of s x u y] by simp
next
  case 5
  from print_kinds [OF 5(1)] obtain ws where w: "w = JList ws" using kind_of_cases(6) by force
  with 5 show ?case
  proof (cases ws)
    case (Cons u us)
    with 5 w json_print_head [of u] show ?thesis by auto
  qed simp
next
  case (6 v vs)
  from print_kinds [OF 6(3)] obtain ws where w: "w = JList ws" using kind_of_cases(6) by force
  show ?case
  proof (cases ws)
    case Nil
    with 6(3) w json_print_head [of v] show ?thesis by auto
  next
    case (Cons u us)
    with 6(3) w have "json_print v @ (items_tail vs @ x) = json_print u @ (items_tail us @ y)" by simp
    from 6(1) [OF this] have "v = u" and "items_tail vs @ x = items_tail us @ y" by simp_all
    with 6(2) w Cons show ?thesis by blast
  qed
next
  case 7
  from print_kinds [OF 7(1)] obtain gs where w: "w = JObj gs" using kind_of_cases(7) by force
  with 7 show ?case by (cases gs) auto
next
  case (8 k v fs)
  from print_kinds [OF 8(3)] obtain gs where w: "w = JObj gs" using kind_of_cases(7) by force
  with 8(3) obtain j u hs where gs: "gs = (j, u) # hs" by (cases gs) auto
  with 8(3) w have "str_tail k @ (CHR 0x3A # json_print v @ fields_tail fs @ x) =
      str_tail j @ (CHR 0x3A # json_print u @ fields_tail hs @ y)" by simp
  from str_tail_inject [OF this] have "k = j" and "json_print v @ (fields_tail fs @ x) = json_print u @ (fields_tail hs @ y)"
    by simp_all
  moreover from 8(1) [OF this(2)] have "v = u" and "fields_tail fs @ x = fields_tail hs @ y" by simp_all
  ultimately show ?case using 8(2) w gs by blast
next
  case 9
  then show ?case by (cases ws) auto
next
  case (10 v vs)
  from 10(3) obtain u us where ws: "ws = u # us" by (cases ws) auto
  with 10(3) have "json_print v @ (items_tail vs @ x) = json_print u @ (items_tail us @ y)" by simp
  from 10(1) [OF this] have "v = u" and "items_tail vs @ x = items_tail us @ y" by simp_all
  with 10(2) ws show ?case by blast
next
  case 11
  then show ?case by (cases gs) auto
next
  case (12 k v fs)
  from 12(3) obtain j u hs where gs: "gs = (j, u) # hs" by (cases gs) auto
  with 12(3) have "str_tail k @ (CHR 0x3A # json_print v @ fields_tail fs @ x) =
      str_tail j @ (CHR 0x3A # json_print u @ fields_tail hs @ y)" by simp
  from str_tail_inject [OF this] have "k = j" and "json_print v @ (fields_tail fs @ x) = json_print u @ (fields_tail hs @ y)"
    by simp_all
  moreover from 12(1) [OF this(2)] have "v = u" and "fields_tail fs @ x = fields_tail hs @ y" by simp_all
  ultimately show ?case using 12(2) gs by blast
next
  case 1
  from print_kinds [OF 1(1)] have "w = JNull" using kind_of_cases(1) by simp
  with 1(1) show ?case by simp
next
  case (2 b)
  from print_kinds [OF 2(1)] have "w = JBool b" using kind_of_cases(2,3) by (cases b) simp_all
  with 2(1) show ?case by simp
qed

lemma json_dumps_eq: "json_dumps v = json_dumps w \<longleftrightarrow> json_sort v = json_sort w"
  using print_inject(1) [of "json_sort v" "[]" "json_sort w" "[]"]
  by (auto simp: json_dumps_def delimited_def)

end
