(* ===== verification/Effect_Routes.thy ===== *)
theory Effect_Routes
  imports Json
begin

text \<open>
  Which durable effects may be delivered where (\<open>src/src/maru/effects/adoption.py\<close>) and the shape of
  the event registry (\<open>src/src/maru/effects/registry.py\<close>). The table of event definitions, the
  edition profiles and the retained guidance evidence are looked up in other packages; they are the
  fields of \<open>route_env\<close>, an argument of every function that reads them.
\<close>

section \<open>Payloads\<close>

text \<open>\<open>payload.get(key)\<close>: absent keys give \<open>None\<close>; a value that is no mapping has no such method.\<close>

fun payload_get :: "json \<Rightarrow> string \<Rightarrow> maru_error + json" where
  "payload_get (JObj fields) key = Inr (case map_of fields key of None \<Rightarrow> JNull | Some v \<Rightarrow> v)"
| "payload_get _ key = Inl AttributeError"

section \<open>Registry\<close>

record EventDefinition =
  ed_name :: string
  ed_schema_version :: int
  ed_validator :: "(string \<times> json) list \<Rightarrow> maru_error + unit"

type_synonym event_registry = "string \<Rightarrow> EventDefinition option"

definition validate_event_payload :: "event_registry \<Rightarrow> string \<Rightarrow> int \<Rightarrow> json \<Rightarrow> maru_error + unit" where
  "validate_event_payload event_definition event_name schema_version payload =
     (case event_definition event_name of
        None \<Rightarrow> Inl (invalid ''unknown_domain_event'')
      | Some d \<Rightarrow>
          if schema_version \<noteq> ed_schema_version d then Inl (invalid ''invalid_domain_event_version'')
          else case payload of
                 JObj obj \<Rightarrow> ed_validator d obj
               | _ \<Rightarrow> Inl (invalid ''invalid_domain_event_payload''))"

text \<open>Lists and objects are unhashable: testing one for membership of a \<open>frozenset\<close> raises.\<close>

fun is_container :: "json \<Rightarrow> bool" where
  "is_container (JList _) = True"
| "is_container (JObj _) = True"
| "is_container _ = False"

definition MAX_EVENT_PAYLOAD_TEXT_LENGTH :: nat where
  "MAX_EVENT_PAYLOAD_TEXT_LENGTH = 240"

fun is_text :: "json \<Rightarrow> bool" where
  "is_text (JStr s) = True"
| "is_text _ = False"

fun json_text :: "json \<Rightarrow> string" where
  "json_text (JStr s) = s"
| "json_text _ = []"

definition require_exact_string_fields :: "(string \<times> json) list \<Rightarrow> string list \<Rightarrow> maru_error + unit" where
  "require_exact_string_fields payload required =
     (if set (map fst payload) \<noteq> set required then Inl (invalid ''invalid_domain_event_payload'')
      else let values = map (\<lambda>f. the (map_of payload f)) required in
        if list_ex (\<lambda>v. \<not> is_text v \<or> json_text v = []) values
        then Inl (invalid ''invalid_domain_event_payload'')
        else if list_ex (\<lambda>v. MAX_EVENT_PAYLOAD_TEXT_LENGTH < length (json_text v)) values
        then Inl (invalid ''invalid_domain_event_payload'')
        else Inr ())"

section \<open>Delivery routes\<close>

definition EFFECT_PROFILE_NOT_ALLOWED :: string where
  "EFFECT_PROFILE_NOT_ALLOWED = ''effect_profile_not_allowed''"

definition PAYLOAD_SCOPED_AUTHORIZATION_EVENTS :: "string list" where
  "PAYLOAD_SCOPED_AUTHORIZATION_EVENTS =
     [''authorization.capability.delegated.v1'', ''authorization.capability.direct_granted.v1'',
      ''authorization.capability.revoked.v1'', ''authorization.role.assigned.v1'',
      ''authorization.role.revoked.v1'']"

definition EDITION_AUTHORIZATION_SCOPE_LEVELS :: "string list" where
  "EDITION_AUTHORIZATION_SCOPE_LEVELS = [''edition'', ''department'', ''resource'']"

type_synonym route = "string \<times> string"

text \<open>The import of the module fails with \<open>RuntimeError\<close> when a catalogue repeats a route.\<close>

definition validated_effect_route_catalog :: "route list \<Rightarrow> maru_error + route list" where
  "validated_effect_route_catalog routes = (if distinct routes then Inr routes else Inl RuntimeError)"

definition NON_EDITION_EFFECT_ROUTES :: "route list" where
  "NON_EDITION_EFFECT_ROUTES =
     [(''authorization.capability.delegated.v1'', ''internal''),
      (''authorization.capability.direct_granted.v1'', ''internal''),
      (''authorization.capability.revoked.v1'', ''internal''),
      (''authorization.role.assigned.v1'', ''internal''),
      (''authorization.role.revoked.v1'', ''internal''),
      (''authorization.role_bundle.version_created.v1'', ''internal''),
      (''charities.media.changed.v1'', ''internal''),
      (''charities.partner.changed.v1'', ''internal''),
      (''identity.account_restriction.applied.v1'', ''internal''),
      (''identity.account_restriction.applied.v1'', ''notifications''),
      (''logistics.record.changed.v1'', ''internal''),
      (''organizations.convention_series.created.v1'', ''internal''),
      (''organizations.convention_series.updated.v1'', ''internal''),
      (''organizations.representation.changed.v1'', ''internal''),
      (''system.effect.probe_requested.v1'', ''internal''),
      (''venues.record.changed.v1'', ''internal'')]"

definition TRANSITION_EFFECT_ROUTES :: "route list" where
  "TRANSITION_EFFECT_ROUTES = [(''events.guidance_adoption.changed.v1'', ''internal'')]"

record EffectEventIdentity =
  id_schema_version :: int
  id_aggregate_type :: string
  id_aggregate_id :: uuid
  id_aggregate_version :: int
  id_actor_kind :: string
  id_actor_id :: "uuid option"
  id_causation_id :: "uuid option"
  id_correlation_id :: uuid

record guidance_reference =
  gr_actor_id :: uuid
  gr_source_audit_id :: uuid
  gr_correlation_id :: uuid
  gr_operation :: string

text \<open>
  What other packages answer: the registered event definitions, the adoption profile of an edition
  (\<open>events.queries\<close>), the routes a profile pins (\<open>events.adoption\<close>) and the retained guidance
  evidence (\<open>events.guidance_effects\<close>).
\<close>

record route_env =
  re_event_definition :: event_registry
  re_profile :: "uuid \<Rightarrow> uuid \<Rightarrow> (string \<times> int) option"
  re_profile_allows_effect :: "string \<Rightarrow> int \<Rightarrow> string \<Rightarrow> string \<Rightarrow> bool"
  re_guidance_reference :: "uuid \<Rightarrow> uuid \<Rightarrow> string \<Rightarrow> uuid \<Rightarrow> guidance_reference option"

record delivery =
  de_organization_id :: uuid
  de_event_edition_id :: "uuid option"
  de_event_name :: string
  de_destination :: string
  de_payload :: json
  de_identity :: "EffectEventIdentity option"

text \<open>The retained transition route: the guidance adoption fact of an announcements edition.\<close>

definition transition_allowed :: "route_env \<Rightarrow> uuid \<Rightarrow> string \<times> int \<Rightarrow> delivery \<Rightarrow> bool" where
  "transition_allowed env edition profile d =
     (if (de_event_name d, de_destination d) \<notin> set TRANSITION_EFFECT_ROUTES
         \<or> profile \<notin> {(''announcements_only'', 1), (''announcements_guidance'', 1)} then False
      else case de_identity d of
        None \<Rightarrow> False
      | Some i \<Rightarrow>
          if id_schema_version i \<noteq> 1 \<or> id_aggregate_version i \<noteq> 1 \<or> id_actor_id i = None
             \<or> id_causation_id i = None then False
          else case re_guidance_reference env (de_organization_id d) edition (id_aggregate_type i)
                      (id_aggregate_id i) of
                 None \<Rightarrow> False
               | Some r \<Rightarrow> id_actor_kind i = ''account'' \<and> id_actor_id i = Some (gr_actor_id r)
                   \<and> id_causation_id i = Some (gr_source_audit_id r)
                   \<and> id_correlation_id i = gr_correlation_id r
                   \<and> de_payload d = JObj [(''operation'', JStr (gr_operation r))])"

definition edition_route_allowed :: "route_env \<Rightarrow> delivery \<Rightarrow> bool" where
  "edition_route_allowed env d =
     (case de_event_edition_id d of
        None \<Rightarrow> (de_event_name d, de_destination d) \<in> set NON_EDITION_EFFECT_ROUTES
      | Some edition \<Rightarrow>
          (case re_profile env (de_organization_id d) edition of
             None \<Rightarrow> False
           | Some profile \<Rightarrow>
               re_profile_allows_effect env (fst profile) (snd profile) (de_event_name d) (de_destination d)
               \<or> transition_allowed env edition profile d))"

definition effect_delivery_is_allowed :: "route_env \<Rightarrow> delivery \<Rightarrow> maru_error + bool" where
  "effect_delivery_is_allowed env d =
     (if de_event_name d \<in> set PAYLOAD_SCOPED_AUTHORIZATION_EVENTS
      then bindE (payload_get (de_payload d) ''scope_level'') (\<lambda>scope_level.
        case de_event_edition_id d of
          None \<Rightarrow> Inr (scope_level = JStr ''organization''
                    \<and> (de_event_name d, de_destination d) \<in> set NON_EDITION_EFFECT_ROUTES)
        | Some _ \<Rightarrow>
            if is_container scope_level then Inl TypeError
            else if \<not> (is_text scope_level \<and> json_text scope_level \<in> set EDITION_AUTHORIZATION_SCOPE_LEVELS)
            then Inr False else Inr (edition_route_allowed env d))
      else Inr (edition_route_allowed env d))"

definition require_effect_delivery_allowed :: "route_env \<Rightarrow> delivery \<Rightarrow> maru_error + unit" where
  "require_effect_delivery_allowed env d =
     bindE (effect_delivery_is_allowed env d) (\<lambda>allowed.
     if \<not> allowed then Inl (invalid EFFECT_PROFILE_NOT_ALLOWED) else Inr ())"

section \<open>Lemmas\<close>

lemma require_allowed_iff [result_simps]:
  "require_effect_delivery_allowed env d = Inr u \<longleftrightarrow> effect_delivery_is_allowed env d = Inr True"
  by (auto simp: require_effect_delivery_allowed_def result_simps split: if_splits)

text \<open>The route catalogues load: neither repeats a route.\<close>

lemma route_catalogs_load:
  "validated_effect_route_catalog NON_EDITION_EFFECT_ROUTES = Inr NON_EDITION_EFFECT_ROUTES
   \<and> validated_effect_route_catalog TRANSITION_EFFECT_ROUTES = Inr TRANSITION_EFFECT_ROUTES"
  by (simp add: validated_effect_route_catalog_def NON_EDITION_EFFECT_ROUTES_def TRANSITION_EFFECT_ROUTES_def)

section \<open>Properties\<close>

text \<open>
  Routes are closed: an allowed delivery without an edition is one of the sixteen declared
  non-edition routes, and an authorization event among them carries organization scope; with an
  edition, the edition has a resolved profile that pins the route, or the delivery is the one
  transition route of an announcements edition whose retained evidence names exactly the same
  actor, audit, correlation and operation. An authorization event is never delivered on an edition
  with a scope outside edition, department and resource.
\<close>

theorem effect_routes_closed:
  assumes "effect_delivery_is_allowed env d = Inr True"
  shows "(case de_event_edition_id d of
      None \<Rightarrow> (de_event_name d, de_destination d) \<in> set NON_EDITION_EFFECT_ROUTES
        \<and> (de_event_name d \<in> set PAYLOAD_SCOPED_AUTHORIZATION_EVENTS \<longrightarrow>
             payload_get (de_payload d) ''scope_level'' = Inr (JStr ''organization''))
    | Some edition \<Rightarrow>
        (\<exists>code ver. re_profile env (de_organization_id d) edition = Some (code, ver)
          \<and> (re_profile_allows_effect env code ver (de_event_name d) (de_destination d)
             \<or> (de_event_name d = ''events.guidance_adoption.changed.v1'' \<and> de_destination d = ''internal''
                \<and> code \<in> {''announcements_only'', ''announcements_guidance''} \<and> ver = 1
                \<and> (\<exists>i r. de_identity d = Some i
                     \<and> re_guidance_reference env (de_organization_id d) edition (id_aggregate_type i)
                         (id_aggregate_id i) = Some r
                     \<and> id_actor_id i = Some (gr_actor_id r) \<and> id_causation_id i = Some (gr_source_audit_id r)
                     \<and> id_correlation_id i = gr_correlation_id r
                     \<and> de_payload d = JObj [(''operation'', JStr (gr_operation r))]))))
        \<and> (de_event_name d \<in> set PAYLOAD_SCOPED_AUTHORIZATION_EVENTS \<longrightarrow>
             (\<exists>level \<in> {''edition'', ''department'', ''resource''}.
                payload_get (de_payload d) ''scope_level'' = Inr (JStr level))))"
proof -
  have scope: "\<exists>level. v = JStr level \<and> level \<in> set EDITION_AUTHORIZATION_SCOPE_LEVELS"
    if "is_text v" "json_text v \<in> set EDITION_AUTHORIZATION_SCOPE_LEVELS" for v
    using that by (cases v) auto
  show ?thesis
  proof (cases "de_event_edition_id d")
    case None
    with assms show ?thesis
      by (auto simp: effect_delivery_is_allowed_def edition_route_allowed_def result_simps split: if_splits)
  next
    case (Some edition)
    with assms have route: "edition_route_allowed env d"
      by (auto simp: effect_delivery_is_allowed_def result_simps split: if_splits)
    have levels: "\<exists>level \<in> {''edition'', ''department'', ''resource''}.
        payload_get (de_payload d) ''scope_level'' = Inr (JStr level)"
      if "de_event_name d \<in> set PAYLOAD_SCOPED_AUTHORIZATION_EVENTS"
      using assms that Some by (auto simp: effect_delivery_is_allowed_def result_simps
          EDITION_AUTHORIZATION_SCOPE_LEVELS_def dest!: scope split: if_splits)
    from route Some obtain code ver where
        profile: "re_profile env (de_organization_id d) edition = Some (code, ver)"
      and cases: "re_profile_allows_effect env code ver (de_event_name d) (de_destination d)
        \<or> transition_allowed env edition (code, ver) d"
      by (auto simp: edition_route_allowed_def split: option.splits)
    then show ?thesis
      using levels by (auto simp: Some transition_allowed_def TRANSITION_EFFECT_ROUTES_def
          split: if_splits option.splits)
  qed
qed

definition sample_routes :: route_env where
  "sample_routes = \<lparr>re_event_definition = (\<lambda>n. if n = ''announcements.changed.v1''
       then Some \<lparr>ed_name = n, ed_schema_version = 1, ed_validator = (\<lambda>_. Inr ())\<rparr> else None),
     re_profile = (\<lambda>org ed. if ed = 7 then Some (''announcements_only'', 1) else None),
     re_profile_allows_effect = (\<lambda>code ver n dest. n = ''announcements.changed.v1'' \<and> dest = ''internal''),
     re_guidance_reference = (\<lambda>_ _ _ _. None)\<rparr>"

theorem effect_routes_closed_witness:
  "re_profile sample_routes 1 7 = Some (''announcements_only'', 1)
   \<and> (\<exists>code ver. re_profile sample_routes 1 7 = Some (code, ver)
       \<and> re_profile_allows_effect sample_routes code ver ''announcements.changed.v1'' ''internal'')"
proof -
  let ?d = "\<lparr>de_organization_id = 1, de_event_edition_id = Some 7, de_event_name = ''announcements.changed.v1'',
    de_destination = ''internal'', de_payload = JObj [], de_identity = None\<rparr>"
  have "effect_delivery_is_allowed sample_routes ?d = Inr True"
    by (simp add: effect_delivery_is_allowed_def PAYLOAD_SCOPED_AUTHORIZATION_EVENTS_def
        edition_route_allowed_def sample_routes_def)
  from effect_routes_closed [OF this] show ?thesis
    by (simp add: sample_routes_def)
qed

end
