(* ===== verification/Outbox.thy ===== *)
theory Outbox
  imports Effect_Routes
begin

text \<open>
  The transactional outbox (\<open>src/src/maru/effects/models.py\<close>, \<open>services.py\<close>): durable domain events,
  delivery messages with leases, append-only attempts and replay receipts, and the services that
  publish, claim, finish, cancel and replay. A service takes the tables and returns them updated, or
  an error and nothing, which is what its database transaction does. Clock readings, fresh UUIDs and
  the rows other transactions hold locked are arguments.
\<close>

section \<open>Tables\<close>

definition MAX_EFFECT_REPLAY_REASON_LENGTH :: nat where
  "MAX_EFFECT_REPLAY_REASON_LENGTH = 240"

definition MAX_EFFECT_REPLAY_ADDITIONAL_ATTEMPTS :: int where
  "MAX_EFFECT_REPLAY_ADDITIONAL_ATTEMPTS = 20"

definition MAX_EFFECT_TOTAL_ATTEMPTS :: int where
  "MAX_EFFECT_TOTAL_ATTEMPTS = 100"

record DomainEvent =
  ev_id :: uuid
  ev_event_name :: string
  ev_schema_version :: int
  ev_occurred_at :: instant
  ev_organization_id :: uuid
  ev_event_edition_id :: "uuid option"
  ev_aggregate_type :: string
  ev_aggregate_id :: uuid
  ev_aggregate_version :: int
  ev_payload :: json
  ev_correlation_id :: uuid
  ev_causation_id :: "uuid option"
  ev_actor_kind :: string
  ev_actor_id :: "uuid option"
  ev_retention_class :: string

datatype Status = PENDING | PROCESSING | SUCCEEDED | QUARANTINED | CANCELLED

record OutboxMessage =
  om_id :: uuid
  om_event_id :: uuid
  om_organization_id :: uuid
  om_destination :: string
  om_workload_pool :: string
  om_status :: Status
  om_available_at :: instant
  om_claimed_at :: "instant option"
  om_lease_expires_at :: "instant option"
  om_lease_token :: "uuid option"
  om_attempt_count :: int
  om_max_attempts :: int
  om_completed_at :: "instant option"
  om_last_error_code :: string
  om_replay_count :: int
  om_created_at :: instant

record EffectReplayReceipt =
  rr_message_id :: uuid
  rr_organization_id :: uuid
  rr_actor_id :: uuid
  rr_reason :: string
  rr_additional_attempts :: int
  rr_previous_max_attempts :: int
  rr_new_max_attempts :: int
  rr_replay_count :: int
  rr_correlation_id :: uuid
  rr_created_at :: instant

datatype Outcome = OUT_SUCCEEDED | TRANSIENT_FAILURE | PERMANENT_FAILURE | EXHAUSTED

record EffectAttempt =
  at_message_id :: uuid
  at_attempt_number :: int
  at_lease_token :: uuid
  at_started_at :: instant
  at_finished_at :: instant
  at_outcome :: Outcome
  at_error_code :: string
  at_handler_code :: string

record effect_db =
  db_events :: "DomainEvent list"
  db_messages :: "OutboxMessage list"
  db_attempts :: "EffectAttempt list"
  db_receipts :: "EffectReplayReceipt list"

definition empty_db :: effect_db where
  "empty_db = \<lparr>db_events = [], db_messages = [], db_attempts = [], db_receipts = []\<rparr>"

subsection \<open>Model validation\<close>

text \<open>
  \<open>full_clean\<close> checks each field, runs \<open>clean\<close> and then the uniqueness and check constraints; every
  failure is a \<open>ValidationError\<close> over fields. Text is required unless \<open>blank\<close>, integers lie in the
  column's range.
\<close>

definition find_event :: "effect_db \<Rightarrow> uuid \<Rightarrow> DomainEvent option" where
  "find_event db i = find (\<lambda>e. ev_id e = i) (db_events db)"

definition find_message :: "effect_db \<Rightarrow> uuid \<Rightarrow> OutboxMessage option" where
  "find_message db i = find (\<lambda>m. om_id m = i) (db_messages db)"

definition event_full_clean :: "effect_db \<Rightarrow> DomainEvent \<Rightarrow> bool" where
  "event_full_clean db e \<longleftrightarrow>
     char_field 160 (ev_event_name e) \<and> positive_small_integer (ev_schema_version e)
     \<and> char_field 120 (ev_aggregate_type e) \<and> positive_big_integer (ev_aggregate_version e)
     \<and> ev_payload e \<notin> {JNull, JStr [], JList [], JObj []}
     \<and> char_field 40 (ev_actor_kind e) \<and> char_field 80 (ev_retention_class e)
     \<and> \<not> list_ex (\<lambda>x. ev_id x = ev_id e) (db_events db)
     \<and> \<not> list_ex (\<lambda>x. ev_aggregate_type x = ev_aggregate_type e \<and> ev_aggregate_id x = ev_aggregate_id e
                     \<and> ev_aggregate_version x = ev_aggregate_version e) (db_events db)"

definition event_create :: "effect_db \<Rightarrow> DomainEvent \<Rightarrow> maru_error + effect_db" where
  "event_create db e =
     (if event_full_clean db e then Inr (db\<lparr>db_events := db_events db @ [e]\<rparr>)
      else Inl (ValidationError None))"

definition lease_matches_status :: "OutboxMessage \<Rightarrow> bool" where
  "lease_matches_status m \<longleftrightarrow>
     (if om_status m = PROCESSING
      then om_claimed_at m \<noteq> None \<and> om_lease_expires_at m \<noteq> None \<and> om_lease_token m \<noteq> None
           \<and> om_completed_at m = None
      else om_lease_expires_at m = None \<and> om_lease_token m = None)"

definition completion_matches_status :: "OutboxMessage \<Rightarrow> bool" where
  "completion_matches_status m \<longleftrightarrow>
     (if om_status m \<in> {SUCCEEDED, QUARANTINED, CANCELLED} then om_completed_at m \<noteq> None
      else om_completed_at m = None)"

text \<open>The field and check constraints of one message, and its clean rule against its event.\<close>

definition message_valid :: "effect_db \<Rightarrow> OutboxMessage \<Rightarrow> bool" where
  "message_valid db m \<longleftrightarrow>
     char_field 120 (om_destination m) \<and> char_field 80 (om_workload_pool m)
     \<and> positive_integer (om_attempt_count m) \<and> positive_integer (om_max_attempts m)
     \<and> length (om_last_error_code m) \<le> 120 \<and> positive_integer (om_replay_count m)
     \<and> (case find_event db (om_event_id m) of None \<Rightarrow> False
        | Some e \<Rightarrow> ev_organization_id e = om_organization_id m)
     \<and> 1 \<le> om_max_attempts m \<and> om_max_attempts m \<le> MAX_EFFECT_TOTAL_ATTEMPTS
     \<and> om_attempt_count m \<le> om_max_attempts m
     \<and> lease_matches_status m \<and> completion_matches_status m"

definition message_unique :: "effect_db \<Rightarrow> OutboxMessage \<Rightarrow> bool" where
  "message_unique db m \<longleftrightarrow>
     \<not> list_ex (\<lambda>x. om_id x \<noteq> om_id m \<and> om_event_id x = om_event_id m \<and> om_destination x = om_destination m)
         (db_messages db)"

definition message_create :: "effect_db \<Rightarrow> OutboxMessage \<Rightarrow> maru_error + effect_db" where
  "message_create db m =
     (if message_valid db m \<and> message_unique db m \<and> find_message db (om_id m) = None
      then Inr (db\<lparr>db_messages := db_messages db @ [m]\<rparr>)
      else Inl (ValidationError None))"

definition put_message :: "effect_db \<Rightarrow> OutboxMessage \<Rightarrow> effect_db" where
  "put_message db m =
     db\<lparr>db_messages := map (\<lambda>x. if om_id x = om_id m then m else x) (db_messages db)\<rparr>"

definition message_save :: "effect_db \<Rightarrow> OutboxMessage \<Rightarrow> maru_error + effect_db" where
  "message_save db m =
     (if message_valid db m \<and> message_unique db m then Inr (put_message db m)
      else Inl (ValidationError None))"

definition attempt_full_clean :: "effect_db \<Rightarrow> EffectAttempt \<Rightarrow> bool" where
  "attempt_full_clean db a \<longleftrightarrow>
     find_message db (at_message_id a) \<noteq> None \<and> positive_integer (at_attempt_number a)
     \<and> length (at_error_code a) \<le> 120 \<and> char_field 160 (at_handler_code a)
     \<and> at_started_at a \<le> at_finished_at a
     \<and> \<not> list_ex (\<lambda>x. at_message_id x = at_message_id a \<and> at_attempt_number x = at_attempt_number a)
           (db_attempts db)"

definition attempt_create :: "effect_db \<Rightarrow> EffectAttempt \<Rightarrow> maru_error + effect_db" where
  "attempt_create db a =
     (if attempt_full_clean db a then Inr (db\<lparr>db_attempts := db_attempts db @ [a]\<rparr>)
      else Inl (ValidationError None))"

definition receipt_full_clean :: "effect_db \<Rightarrow> EffectReplayReceipt \<Rightarrow> bool" where
  "receipt_full_clean db r \<longleftrightarrow>
     (case find_message db (rr_message_id r) of
        None \<Rightarrow> False
      | Some m \<Rightarrow> om_organization_id m = rr_organization_id r \<and> om_status m = QUARANTINED
          \<and> om_max_attempts m = rr_previous_max_attempts r \<and> rr_replay_count r = om_replay_count m + 1)
     \<and> char_field MAX_EFFECT_REPLAY_REASON_LENGTH (rr_reason r) \<and> \<not> list_all is_space (rr_reason r)
     \<and> 1 \<le> rr_additional_attempts r \<and> rr_additional_attempts r \<le> MAX_EFFECT_REPLAY_ADDITIONAL_ATTEMPTS
     \<and> positive_integer (rr_previous_max_attempts r) \<and> positive_integer (rr_new_max_attempts r)
     \<and> positive_integer (rr_replay_count r)
     \<and> rr_new_max_attempts r = rr_previous_max_attempts r + rr_additional_attempts r
     \<and> rr_new_max_attempts r \<le> MAX_EFFECT_TOTAL_ATTEMPTS
     \<and> \<not> list_ex (\<lambda>x. rr_message_id x = rr_message_id r \<and> rr_replay_count x = rr_replay_count r) (db_receipts db)"

definition receipt_create :: "effect_db \<Rightarrow> EffectReplayReceipt \<Rightarrow> maru_error + effect_db" where
  "receipt_create db r =
     (if receipt_full_clean db r then Inr (db\<lparr>db_receipts := db_receipts db @ [r]\<rparr>)
      else Inl (ValidationError None))"

section \<open>Validation of service arguments\<close>

definition MAX_LEASE_DURATION :: duration where
  "MAX_LEASE_DURATION = 15 * minute_us"

definition MAX_RETRY_DELAY :: duration where
  "MAX_RETRY_DELAY = day_us"

definition MAX_EFFECT_ERROR_CODE_LENGTH :: nat where
  "MAX_EFFECT_ERROR_CODE_LENGTH = 120"

definition validate_effect_attempt_budget :: "py_number \<Rightarrow> maru_error + int" where
  "validate_effect_attempt_budget value =
     (case value of
        PyInt v \<Rightarrow> if \<not> (1 \<le> v \<and> v \<le> MAX_EFFECT_TOTAL_ATTEMPTS) then Inl (invalid ''invalid_max_attempts'')
                   else Inr v
      | _ \<Rightarrow> Inl (invalid ''invalid_max_attempts''))"

definition is_lower :: "char \<Rightarrow> bool" where
  "is_lower c \<longleftrightarrow> (of_char c :: nat) \<in> {97..122}"

definition is_code_char :: "char \<Rightarrow> bool" where
  "is_code_char c \<longleftrightarrow> is_lower c \<or> (of_char c :: nat) \<in> {48..57}"

text \<open>
  The pattern \<open>[a-z][a-z0-9]*(?:[._-][a-z0-9]+)*\<close>, matched in full: after a separator at least one
  code character follows.
\<close>

fun safe_code_rest :: "bool \<Rightarrow> string \<Rightarrow> bool" where
  "safe_code_rest after_separator [] = (\<not> after_separator)"
| "safe_code_rest after_separator (c # cs) =
     (if is_code_char c then safe_code_rest False cs
      else c \<in> set ''._-'' \<and> \<not> after_separator \<and> safe_code_rest True cs)"

fun safe_effect_code :: "string \<Rightarrow> bool" where
  "safe_effect_code [] = False"
| "safe_effect_code (c # cs) = (is_lower c \<and> safe_code_rest False cs)"

definition validate_effect_error_code :: "string \<Rightarrow> maru_error + unit" where
  "validate_effect_error_code value =
     (if MAX_EFFECT_ERROR_CODE_LENGTH < length value \<or> \<not> safe_effect_code value
      then Inl (invalid ''invalid_effect_error_code'') else Inr ())"

fun py_split :: "string \<Rightarrow> string list" where
  "py_split [] = []"
| "py_split (c # cs) =
     (if is_space c then py_split cs
      else case cs of
             [] \<Rightarrow> [[c]]
           | d # _ \<Rightarrow> if is_space d then [c] # py_split cs
                     else case py_split cs of [] \<Rightarrow> [[c]] | w # ws \<Rightarrow> (c # w) # ws)"

fun join_words :: "string list \<Rightarrow> string" where
  "join_words [] = []"
| "join_words [w] = w"
| "join_words (w # ws) = w @ '' '' @ join_words ws"

text \<open>\<open>unicodedata.normalize("NFC", \<dots>)\<close> is the argument \<open>nfc\<close>.\<close>

definition normalize_effect_replay_reason :: "(string \<Rightarrow> string) \<Rightarrow> string typed \<Rightarrow> maru_error + string" where
  "normalize_effect_replay_reason nfc value =
     (case value of
        Untyped \<Rightarrow> Inl (invalid ''reason_invalid'')
      | Typed v \<Rightarrow>
          let normalized = join_words (py_split (nfc v)) in
          if normalized = [] then Inl (invalid ''reason_required'')
          else if MAX_EFFECT_REPLAY_REASON_LENGTH < length normalized then Inl (invalid ''reason_too_long'')
          else Inr normalized)"

section \<open>Publishing\<close>

record DomainEventRecord =
  dr_event_name :: string
  dr_schema_version :: int
  dr_organization_id :: uuid
  dr_event_edition_id :: "uuid option"
  dr_aggregate_type :: string
  dr_aggregate_id :: uuid
  dr_aggregate_version :: int
  dr_payload :: json
  dr_correlation_id :: uuid
  dr_causation_id :: "uuid option"
  dr_actor_kind :: string
  dr_actor_id :: "uuid option"
  dr_retention_class :: string

definition event_of_record :: "uuid \<Rightarrow> instant \<Rightarrow> DomainEventRecord \<Rightarrow> DomainEvent" where
  "event_of_record i occurred r =
     \<lparr>ev_id = i, ev_event_name = dr_event_name r, ev_schema_version = dr_schema_version r,
      ev_occurred_at = occurred, ev_organization_id = dr_organization_id r,
      ev_event_edition_id = dr_event_edition_id r, ev_aggregate_type = dr_aggregate_type r,
      ev_aggregate_id = dr_aggregate_id r, ev_aggregate_version = dr_aggregate_version r,
      ev_payload = dr_payload r, ev_correlation_id = dr_correlation_id r,
      ev_causation_id = dr_causation_id r, ev_actor_kind = dr_actor_kind r,
      ev_actor_id = dr_actor_id r, ev_retention_class = dr_retention_class r\<rparr>"

definition event_delivery :: "DomainEvent \<Rightarrow> uuid \<Rightarrow> string \<Rightarrow> delivery" where
  "event_delivery e organization destination =
     \<lparr>de_organization_id = organization, de_event_edition_id = ev_event_edition_id e,
      de_event_name = ev_event_name e, de_destination = destination, de_payload = ev_payload e,
      de_identity = Some \<lparr>id_schema_version = ev_schema_version e, id_aggregate_type = ev_aggregate_type e,
        id_aggregate_id = ev_aggregate_id e, id_aggregate_version = ev_aggregate_version e,
        id_actor_kind = ev_actor_kind e, id_actor_id = ev_actor_id e,
        id_causation_id = ev_causation_id e, id_correlation_id = ev_correlation_id e\<rparr>\<rparr>"

definition new_message :: "uuid \<Rightarrow> DomainEvent \<Rightarrow> string \<Rightarrow> string \<Rightarrow> int \<Rightarrow> instant \<Rightarrow> instant \<Rightarrow> OutboxMessage" where
  "new_message i e destination pool max_attempts available created =
     \<lparr>om_id = i, om_event_id = ev_id e, om_organization_id = ev_organization_id e,
      om_destination = destination, om_workload_pool = pool, om_status = PENDING,
      om_available_at = available, om_claimed_at = None, om_lease_expires_at = None, om_lease_token = None,
      om_attempt_count = 0, om_max_attempts = max_attempts, om_completed_at = None,
      om_last_error_code = [], om_replay_count = 0, om_created_at = created\<rparr>"

text \<open>The values a call takes from its surroundings: fresh identifiers and successive clock readings.\<close>

record publish_context =
  pc_in_atomic_block :: bool
  pc_event_id :: uuid
  pc_message_id :: uuid
  pc_occurred_now :: instant
  pc_available_now :: instant
  pc_created_now :: instant

definition publish_domain_event ::
    "route_env \<Rightarrow> publish_context \<Rightarrow> DomainEventRecord \<Rightarrow> string \<Rightarrow> string \<Rightarrow> py_number \<Rightarrow> instant option
      \<Rightarrow> effect_db \<Rightarrow> maru_error + effect_db \<times> DomainEvent \<times> OutboxMessage" where
  "publish_domain_event env pc record destination workload_pool max_attempts occurred_at db =
     (if \<not> pc_in_atomic_block pc then Inl RuntimeError
      else bindE (validate_effect_attempt_budget max_attempts) (\<lambda>budget.
        bindE (validate_event_payload (re_event_definition env) (dr_event_name record)
                 (dr_schema_version record) (dr_payload record)) (\<lambda>_.
        let event = event_of_record (pc_event_id pc)
              (case occurred_at of Some t \<Rightarrow> t | None \<Rightarrow> pc_occurred_now pc) record in
        bindE (require_effect_delivery_allowed env (event_delivery event (dr_organization_id record) destination))
          (\<lambda>_.
        bindE (event_create db event) (\<lambda>db.
        let message = new_message (pc_message_id pc) event destination workload_pool budget
              (pc_available_now pc) (pc_created_now pc) in
        bindE (message_create db message) (\<lambda>db. Inr (db, event, message)))))))"

definition enqueue_event_delivery ::
    "route_env \<Rightarrow> publish_context \<Rightarrow> uuid \<Rightarrow> string \<Rightarrow> string \<Rightarrow> py_number \<Rightarrow> effect_db
      \<Rightarrow> maru_error + effect_db \<times> OutboxMessage" where
  "enqueue_event_delivery env pc event_pk destination workload_pool max_attempts db =
     (if \<not> pc_in_atomic_block pc then Inl RuntimeError
      else bindE (validate_effect_attempt_budget max_attempts) (\<lambda>budget.
        case find_event db event_pk of
          None \<Rightarrow> Inl (invalid ''domain_event_unavailable'')
        | Some persisted \<Rightarrow>
            bindE (require_effect_delivery_allowed env
                     (event_delivery persisted (ev_organization_id persisted) destination)) (\<lambda>_.
            let message = new_message (pc_message_id pc) persisted destination workload_pool budget
                  (pc_available_now pc) (pc_created_now pc) in
            bindE (message_create db message) (\<lambda>db. Inr (db, message)))))"

section \<open>Claiming\<close>

record ClaimedEffect =
  cl_message_id :: uuid
  cl_event_id :: uuid
  cl_lease_token :: uuid
  cl_attempt_number :: int
  cl_claimed_at :: instant
  cl_lease_expires_at :: instant

definition lease_expired :: "instant \<Rightarrow> OutboxMessage \<Rightarrow> bool" where
  "lease_expired now m \<longleftrightarrow> om_status m = PROCESSING
     \<and> (case om_lease_expires_at m of None \<Rightarrow> False | Some t \<Rightarrow> t \<le> now)"

definition ready :: "instant \<Rightarrow> OutboxMessage \<Rightarrow> bool" where
  "ready now m \<longleftrightarrow> om_status m = PENDING \<and> om_available_at m \<le> now"

definition claimable :: "uuid \<Rightarrow> string \<Rightarrow> instant \<Rightarrow> OutboxMessage \<Rightarrow> bool" where
  "claimable organization pool now m \<longleftrightarrow> (ready now m \<or> lease_expired now m)
     \<and> om_organization_id m = organization \<and> om_workload_pool m = pool
     \<and> om_attempt_count m < om_max_attempts m"

definition claim_order :: "OutboxMessage \<Rightarrow> instant \<times> instant \<times> uuid" where
  "claim_order m = (om_available_at m, om_created_at m, om_id m)"

definition exhausted_claim :: "uuid \<Rightarrow> string \<Rightarrow> instant \<Rightarrow> OutboxMessage \<Rightarrow> bool" where
  "exhausted_claim organization pool now m \<longleftrightarrow> om_organization_id m = organization
     \<and> om_workload_pool m = pool \<and> lease_expired now m \<and> om_max_attempts m \<le> om_attempt_count m"

definition quarantine_one :: "instant \<Rightarrow> OutboxMessage \<Rightarrow> effect_db \<Rightarrow> maru_error + effect_db" where
  "quarantine_one now message db =
     (case (om_lease_token message, om_claimed_at message) of
        (Some lease_token, Some claimed_at) \<Rightarrow>
          bindE (message_save db (message\<lparr>om_status := QUARANTINED, om_completed_at := Some now,
              om_lease_expires_at := None, om_lease_token := None,
              om_last_error_code := ''attempts_exhausted''\<rparr>)) (\<lambda>db.
          attempt_create db \<lparr>at_message_id = om_id message, at_attempt_number = om_attempt_count message,
            at_lease_token = lease_token, at_started_at = claimed_at, at_finished_at = now,
            at_outcome = EXHAUSTED, at_error_code = ''attempts_exhausted'',
            at_handler_code = om_destination message\<rparr>)
      | _ \<Rightarrow> Inr db)"

definition quarantine_exhausted ::
    "(uuid \<Rightarrow> bool) \<Rightarrow> uuid \<Rightarrow> string \<Rightarrow> instant \<Rightarrow> effect_db \<Rightarrow> maru_error + effect_db" where
  "quarantine_exhausted locked organization pool now db =
     foldE (quarantine_one now)
       (filter (\<lambda>m. \<not> locked (om_id m) \<and> exhausted_claim organization pool now m) (db_messages db)) db"

definition record_lease_expiry :: "instant \<Rightarrow> OutboxMessage \<Rightarrow> effect_db \<Rightarrow> maru_error + effect_db" where
  "record_lease_expiry now message db =
     (case (om_status message = PROCESSING, om_lease_token message, om_claimed_at message) of
        (True, Some lease_token, Some claimed_at) \<Rightarrow>
          attempt_create db \<lparr>at_message_id = om_id message, at_attempt_number = om_attempt_count message,
            at_lease_token = lease_token, at_started_at = claimed_at, at_finished_at = now,
            at_outcome = TRANSIENT_FAILURE, at_error_code = ''lease_expired'',
            at_handler_code = om_destination message\<rparr>
      | _ \<Rightarrow> Inr db)"

definition claim_candidates :: "(uuid \<Rightarrow> bool) \<Rightarrow> uuid \<Rightarrow> string \<Rightarrow> instant \<Rightarrow> effect_db \<Rightarrow> OutboxMessage list" where
  "claim_candidates locked organization pool now db =
     sort_key claim_order
       (filter (\<lambda>m. \<not> locked (om_id m) \<and> claimable organization pool now m) (db_messages db))"

definition claim_next_effect ::
    "(uuid \<Rightarrow> bool) \<Rightarrow> uuid \<Rightarrow> uuid \<Rightarrow> string \<Rightarrow> duration \<Rightarrow> instant \<Rightarrow> effect_db
      \<Rightarrow> maru_error + effect_db \<times> ClaimedEffect option" where
  "claim_next_effect locked fresh_token organization pool lease_duration now db =
     (if lease_duration \<le> 0 \<or> MAX_LEASE_DURATION < lease_duration then Inl (invalid ''invalid_lease_duration'')
      else case claim_candidates locked organization pool now db of
        [] \<Rightarrow> bindE (quarantine_exhausted locked organization pool now db) (\<lambda>db. Inr (db, None))
      | message # _ \<Rightarrow>
          bindE (record_lease_expiry now message db) (\<lambda>db.
          let message = message\<lparr>om_status := PROCESSING, om_claimed_at := Some now,
                om_lease_expires_at := Some (now + lease_duration), om_lease_token := Some fresh_token,
                om_attempt_count := om_attempt_count message + 1, om_completed_at := None\<rparr> in
          bindE (message_save db message) (\<lambda>db.
          Inr (db, Some \<lparr>cl_message_id = om_id message, cl_event_id = om_event_id message,
            cl_lease_token = fresh_token, cl_attempt_number = om_attempt_count message,
            cl_claimed_at = now, cl_lease_expires_at = now + lease_duration\<rparr>))))"

section \<open>Finishing, cancelling, replaying\<close>

datatype ClaimOutcome = CO_SUCCEEDED | RETRY_SCHEDULED | CO_QUARANTINED

definition claim_matches :: "ClaimedEffect \<Rightarrow> OutboxMessage \<Rightarrow> bool" where
  "claim_matches claim m \<longleftrightarrow> om_id m = cl_message_id claim \<and> om_event_id m = cl_event_id claim
     \<and> om_status m = PROCESSING \<and> om_lease_token m = Some (cl_lease_token claim)
     \<and> om_attempt_count m = cl_attempt_number claim"

definition locked_claim :: "ClaimedEffect \<Rightarrow> effect_db \<Rightarrow> maru_error + OutboxMessage" where
  "locked_claim claim db =
     (case find (claim_matches claim) (db_messages db) of None \<Rightarrow> Inl LeaseLostError | Some m \<Rightarrow> Inr m)"

definition claim_attempt :: "ClaimedEffect \<Rightarrow> OutboxMessage \<Rightarrow> instant \<Rightarrow> Outcome \<Rightarrow> string \<Rightarrow> EffectAttempt" where
  "claim_attempt claim message finished outcome error_code =
     \<lparr>at_message_id = om_id message, at_attempt_number = cl_attempt_number claim,
      at_lease_token = cl_lease_token claim, at_started_at = cl_claimed_at claim,
      at_finished_at = finished, at_outcome = outcome, at_error_code = error_code,
      at_handler_code = om_destination message\<rparr>"

definition finish_effect_success :: "ClaimedEffect \<Rightarrow> instant \<Rightarrow> effect_db \<Rightarrow> maru_error + effect_db" where
  "finish_effect_success claim finished db =
     bindE (locked_claim claim db) (\<lambda>message.
     bindE (message_save db (message\<lparr>om_status := SUCCEEDED, om_completed_at := Some finished,
         om_lease_expires_at := None, om_lease_token := None, om_last_error_code := []\<rparr>)) (\<lambda>db.
     attempt_create db (claim_attempt claim message finished OUT_SUCCEEDED [])))"

definition finish_effect_transient_failure ::
    "ClaimedEffect \<Rightarrow> string \<Rightarrow> duration \<Rightarrow> instant \<Rightarrow> effect_db \<Rightarrow> maru_error + effect_db \<times> ClaimOutcome" where
  "finish_effect_transient_failure claim error_code retry_after finished db =
     bindE (validate_effect_error_code error_code) (\<lambda>_.
     if retry_after < 0 \<or> MAX_RETRY_DELAY < retry_after then Inl (invalid ''invalid_retry_delay'')
     else bindE (locked_claim claim db) (\<lambda>message.
       let exhausted = om_max_attempts message \<le> om_attempt_count message in
       bindE (message_save db (message\<lparr>om_status := (if exhausted then QUARANTINED else PENDING),
           om_available_at := finished + retry_after,
           om_completed_at := (if exhausted then Some finished else None),
           om_lease_expires_at := None, om_lease_token := None, om_last_error_code := error_code\<rparr>)) (\<lambda>db.
       bindE (attempt_create db (claim_attempt claim message finished
                (if exhausted then EXHAUSTED else TRANSIENT_FAILURE) error_code)) (\<lambda>db.
       Inr (db, if exhausted then CO_QUARANTINED else RETRY_SCHEDULED)))))"

definition finish_effect_permanent_failure ::
    "ClaimedEffect \<Rightarrow> string \<Rightarrow> instant \<Rightarrow> effect_db \<Rightarrow> maru_error + effect_db" where
  "finish_effect_permanent_failure claim error_code finished db =
     bindE (validate_effect_error_code error_code) (\<lambda>_.
     bindE (locked_claim claim db) (\<lambda>message.
     bindE (message_save db (message\<lparr>om_status := QUARANTINED, om_completed_at := Some finished,
         om_lease_expires_at := None, om_lease_token := None, om_last_error_code := error_code\<rparr>)) (\<lambda>db.
     attempt_create db (claim_attempt claim message finished PERMANENT_FAILURE error_code))))"

definition cancel_pending_effect :: "uuid \<Rightarrow> string \<Rightarrow> instant \<Rightarrow> effect_db \<Rightarrow> maru_error + effect_db" where
  "cancel_pending_effect message_id reason_code now db =
     bindE (validate_effect_error_code reason_code) (\<lambda>_.
     case find_message db message_id of
       None \<Rightarrow> Inl DoesNotExist
     | Some message \<Rightarrow>
         if om_status message = PROCESSING then Inl CancellationBoundaryPassedError
         else if om_status message \<noteq> PENDING then Inr db
         else message_save db (message\<lparr>om_status := CANCELLED, om_completed_at := Some now,
                om_last_error_code := reason_code\<rparr>))"

definition replay_quarantined_effect ::
    "route_env \<Rightarrow> (string \<Rightarrow> string) \<Rightarrow> uuid \<Rightarrow> py_number \<Rightarrow> uuid \<Rightarrow> string typed \<Rightarrow> uuid \<Rightarrow> instant \<Rightarrow> instant
      \<Rightarrow> effect_db \<Rightarrow> maru_error + effect_db \<times> OutboxMessage" where
  "replay_quarantined_effect env nfc message_id additional_attempts actor_id reason correlation_id
       created_now now db =
     bindE (case additional_attempts of
              PyInt a \<Rightarrow> if \<not> (1 \<le> a \<and> a \<le> MAX_EFFECT_REPLAY_ADDITIONAL_ATTEMPTS)
                         then Inl (invalid ''invalid_replay_attempts'') else Inr a
            | _ \<Rightarrow> Inl (invalid ''invalid_replay_attempts'')) (\<lambda>additional.
     bindE (normalize_effect_replay_reason nfc reason) (\<lambda>normalized_reason.
     case find_message db message_id of
       None \<Rightarrow> Inl DoesNotExist
     | Some message \<Rightarrow>
         if om_status message \<noteq> QUARANTINED then Inl (invalid ''effect_not_quarantined'')
         else case find_event db (om_event_id message) of
           None \<Rightarrow> Inl DoesNotExist
         | Some event \<Rightarrow>
             if ev_organization_id event \<noteq> om_organization_id message
             then Inl (invalid ''effect_profile_not_allowed'')
             else bindE (require_effect_delivery_allowed env
                           (event_delivery event (om_organization_id message) (om_destination message))) (\<lambda>_.
               let new_max_attempts = om_max_attempts message + additional;
                   replay_count = om_replay_count message + 1 in
               if MAX_EFFECT_TOTAL_ATTEMPTS < new_max_attempts
               then Inl (invalid ''effect_replay_attempt_limit'')
               else bindE (receipt_create db \<lparr>rr_message_id = om_id message,
                        rr_organization_id = om_organization_id message, rr_actor_id = actor_id,
                        rr_reason = normalized_reason, rr_additional_attempts = additional,
                        rr_previous_max_attempts = om_max_attempts message,
                        rr_new_max_attempts = new_max_attempts, rr_replay_count = replay_count,
                        rr_correlation_id = correlation_id, rr_created_at = created_now\<rparr>) (\<lambda>db.
                 let replayed = message\<lparr>om_max_attempts := new_max_attempts, om_status := PENDING,
                       om_available_at := now, om_completed_at := None, om_last_error_code := [],
                       om_replay_count := replay_count\<rparr> in
                 bindE (message_save db replayed) (\<lambda>db. Inr (db, replayed))))))"

end
