(* ===== verification/Outbox_Inv.thy ===== *)
theory Outbox_Inv
  imports Outbox
begin

text \<open>
  The invariant of the outbox tables and that every service keeps it. Each service that changes a
  message replaces one row and appends the attempts and receipts of that row; the lemma
  \<open>advance_inv\<close> says once what such a change must respect.
\<close>

section \<open>The invariant\<close>

definition recorded :: "OutboxMessage \<Rightarrow> int" where
  "recorded m = (if om_status m = PROCESSING then om_attempt_count m - 1 else om_attempt_count m)"

text \<open>What the services keep beyond the row constraints: pending work has budget left, work in
  progress has started an attempt and its lease ends after it began.\<close>

definition message_pace :: "OutboxMessage \<Rightarrow> bool" where
  "message_pace m \<longleftrightarrow>
     (om_status m = PENDING \<longrightarrow> om_attempt_count m < om_max_attempts m)
     \<and> (om_status m = PROCESSING \<longrightarrow> 1 \<le> om_attempt_count m
          \<and> (\<exists>c l. om_claimed_at m = Some c \<and> om_lease_expires_at m = Some l \<and> c < l))"

definition attempt_numbers :: "effect_db \<Rightarrow> uuid \<Rightarrow> int list" where
  "attempt_numbers db i = map at_attempt_number (filter (\<lambda>a. at_message_id a = i) (db_attempts db))"

definition receipt_numbers :: "effect_db \<Rightarrow> uuid \<Rightarrow> int list" where
  "receipt_numbers db i = map rr_replay_count (filter (\<lambda>r. rr_message_id r = i) (db_receipts db))"

definition message_history :: "effect_db \<Rightarrow> OutboxMessage \<Rightarrow> bool" where
  "message_history db m \<longleftrightarrow>
     distinct (attempt_numbers db (om_id m)) \<and> set (attempt_numbers db (om_id m)) = {1..recorded m}
     \<and> distinct (receipt_numbers db (om_id m)) \<and> set (receipt_numbers db (om_id m)) = {1..om_replay_count m}"

definition outbox_inv :: "effect_db \<Rightarrow> bool" where
  "outbox_inv db \<longleftrightarrow>
     distinct (map ev_id (db_events db)) \<and> distinct (map om_id (db_messages db))
     \<and> distinct (map (\<lambda>m. (om_event_id m, om_destination m)) (db_messages db))
     \<and> (\<forall>m \<in> set (db_messages db). message_valid db m \<and> message_pace m \<and> message_history db m)
     \<and> (\<forall>a \<in> set (db_attempts db). at_message_id a \<in> om_id ` set (db_messages db))
     \<and> (\<forall>r \<in> set (db_receipts db). rr_message_id r \<in> om_id ` set (db_messages db))"

lemma outbox_invD:
  assumes "outbox_inv db"
  shows "distinct (map om_id (db_messages db))"
    and "distinct (map (\<lambda>m. (om_event_id m, om_destination m)) (db_messages db))"
    and "m \<in> set (db_messages db) \<Longrightarrow> message_valid db m"
    and "m \<in> set (db_messages db) \<Longrightarrow> message_pace m"
    and "m \<in> set (db_messages db) \<Longrightarrow> message_history db m"
  using assms by (simp_all add: outbox_inv_def)

section \<open>Rows\<close>

lemma find_unique:
  assumes "distinct (map key xs)" and "x \<in> set xs" and "P x" and unique: "\<And>y. P y \<Longrightarrow> key y = key x"
  shows "find P xs = Some x"
  using assms(1-3)
proof (induction xs)
  case (Cons y ys)
  show ?case
  proof (cases "y = x")
    case True
    then show ?thesis using \<open>P x\<close> by simp
  next
    case False
    with Cons.prems have x: "x \<in> set ys" and "key y \<noteq> key x"
      by (auto simp: image_iff)
    then have "\<not> P y" using unique by blast
    moreover have "find P ys = Some x"
      using Cons.IH Cons.prems x by simp
    ultimately show ?thesis by simp
  qed
qed simp

lemma find_SomeD: "find P xs = Some x \<Longrightarrow> x \<in> set xs \<and> P x"
  by (induction xs) (auto split: if_splits)

lemma find_message_mem: "find_message db i = Some m \<Longrightarrow> m \<in> set (db_messages db) \<and> om_id m = i"
  by (auto simp: find_message_def dest: find_SomeD)

lemma find_message_inv:
  assumes "outbox_inv db" and "m \<in> set (db_messages db)"
  shows "find_message db (om_id m) = Some m"
  unfolding find_message_def
  by (rule find_unique [OF outbox_invD(1) [OF assms(1)] assms(2)]) simp_all

lemma message_ids_unique:
  assumes "outbox_inv db" and "m \<in> set (db_messages db)" and "n \<in> set (db_messages db)" and "om_id m = om_id n"
  shows "m = n"
  using find_message_inv [OF assms(1,2)] find_message_inv [OF assms(1,3)] unfolding assms(4)
  by (metis option.inject)

lemma locked_claim_mem:
  "locked_claim claim db = Inr m \<Longrightarrow> m \<in> set (db_messages db) \<and> claim_matches claim m"
  by (auto simp: locked_claim_def dest: find_SomeD split: option.splits)

lemma message_valid_events: "db_events db' = db_events db \<Longrightarrow> message_valid db' m = message_valid db m"
  by (simp add: message_valid_def find_event_def)

lemma message_save_Inr [result_simps]:
  "message_save db m = Inr db' \<longleftrightarrow> message_valid db m \<and> message_unique db m \<and> db' = put_message db m"
  by (auto simp: message_save_def)

lemma attempt_create_Inr [result_simps]:
  "attempt_create db a = Inr db' \<longleftrightarrow> attempt_full_clean db a \<and> db' = db\<lparr>db_attempts := db_attempts db @ [a]\<rparr>"
  by (auto simp: attempt_create_def)

lemma receipt_create_Inr [result_simps]:
  "receipt_create db r = Inr db' \<longleftrightarrow> receipt_full_clean db r \<and> db' = db\<lparr>db_receipts := db_receipts db @ [r]\<rparr>"
  by (auto simp: receipt_create_def)

lemma message_create_Inr [result_simps]:
  "message_create db m = Inr db' \<longleftrightarrow> message_valid db m \<and> message_unique db m \<and> find_message db (om_id m) = None
     \<and> db' = db\<lparr>db_messages := db_messages db @ [m]\<rparr>"
  by (auto simp: message_create_def)

lemma event_create_Inr [result_simps]:
  "event_create db e = Inr db' \<longleftrightarrow> event_full_clean db e \<and> db' = db\<lparr>db_events := db_events db @ [e]\<rparr>"
  by (auto simp: event_create_def)

section \<open>One row advances\<close>

definition advance :: "effect_db \<Rightarrow> OutboxMessage \<Rightarrow> EffectAttempt list \<Rightarrow> EffectReplayReceipt list \<Rightarrow> effect_db" where
  "advance db m as rs = (put_message db m)\<lparr>db_attempts := db_attempts db @ as, db_receipts := db_receipts db @ rs\<rparr>"

lemma advance_fields [simp]:
  "db_events (advance db m as rs) = db_events db"
  "db_messages (advance db m as rs) = map (\<lambda>x. if om_id x = om_id m then m else x) (db_messages db)"
  "db_attempts (advance db m as rs) = db_attempts db @ as"
  "db_receipts (advance db m as rs) = db_receipts db @ rs"
  by (simp_all add: advance_def put_message_def)

text \<open>A row that keeps its identity, is valid and whose new attempts and receipts continue its history.\<close>

definition continues :: "effect_db \<Rightarrow> OutboxMessage \<Rightarrow> OutboxMessage \<Rightarrow> EffectAttempt list \<Rightarrow> EffectReplayReceipt list \<Rightarrow> bool" where
  "continues db m m' as rs \<longleftrightarrow>
     m \<in> set (db_messages db) \<and> om_id m' = om_id m \<and> om_event_id m' = om_event_id m
     \<and> om_destination m' = om_destination m \<and> message_valid db m' \<and> message_pace m'
     \<and> (\<forall>a \<in> set as. at_message_id a = om_id m) \<and> (\<forall>r \<in> set rs. rr_message_id r = om_id m)
     \<and> map at_attempt_number as = (if recorded m' = recorded m then [] else [recorded m + 1])
     \<and> recorded m \<le> recorded m' \<and> recorded m' \<le> recorded m + 1
     \<and> map rr_replay_count rs = (if om_replay_count m' = om_replay_count m then [] else [om_replay_count m + 1])
     \<and> om_replay_count m \<le> om_replay_count m' \<and> om_replay_count m' \<le> om_replay_count m + 1"

lemma map_update_keys:
  "(\<And>x. x \<in> set xs \<Longrightarrow> om_id x = om_id m \<Longrightarrow> key m = key x) \<Longrightarrow>
     map key (map (\<lambda>x. if om_id x = om_id m then m else x) xs) = map key xs"
  by (induction xs) auto

lemma interval_extend:
  "lo \<le> hi \<Longrightarrow> hi \<le> lo + 1 \<Longrightarrow> 0 \<le> lo \<Longrightarrow> {1..lo} \<union> set (if hi = lo then [] else [lo + 1]) = {1..hi}" for lo hi :: int
  by auto

lemma advance_history_same:
  assumes "continues db m m' as rs" and "message_history db m" and "message_valid db m" and "message_pace m"
  shows "message_history (advance db m' as rs) m'"
proof -
  have nonneg: "0 \<le> recorded m" "0 \<le> om_replay_count m"
    using assms(3,4) by (auto simp: recorded_def message_valid_def positive_integer_def message_pace_def)
  have "filter (\<lambda>a. at_message_id a = om_id m) as = as" "filter (\<lambda>r. rr_message_id r = om_id m) rs = rs"
    using assms(1) by (auto simp: continues_def intro: filter_True)
  then have numbers: "attempt_numbers (advance db m' as rs) (om_id m')
        = attempt_numbers db (om_id m) @ (if recorded m' = recorded m then [] else [recorded m + 1])"
      "receipt_numbers (advance db m' as rs) (om_id m')
        = receipt_numbers db (om_id m) @ (if om_replay_count m' = om_replay_count m then [] else [om_replay_count m + 1])"
    using assms(1) by (simp_all add: continues_def attempt_numbers_def receipt_numbers_def)
  have bounds: "recorded m \<le> recorded m'" "recorded m' \<le> recorded m + 1"
      "om_replay_count m \<le> om_replay_count m'" "om_replay_count m' \<le> om_replay_count m + 1"
    using assms(1) by (simp_all add: continues_def)
  have hist: "distinct (attempt_numbers db (om_id m))" "set (attempt_numbers db (om_id m)) = {1..recorded m}"
      "distinct (receipt_numbers db (om_id m))" "set (receipt_numbers db (om_id m)) = {1..om_replay_count m}"
    using assms(2) by (simp_all add: message_history_def)
  show ?thesis
    unfolding message_history_def numbers distinct_append set_append hist interval_extend [OF bounds(1,2) nonneg(1)]
      interval_extend [OF bounds(3,4) nonneg(2)]
    using hist by auto
qed

lemma advance_history_other:
  assumes "continues db m m' as rs" and "om_id x \<noteq> om_id m" and "message_history db x"
  shows "message_history (advance db m' as rs) x"
proof -
  have "filter (\<lambda>a. at_message_id a = om_id x) as = []" "filter (\<lambda>r. rr_message_id r = om_id x) rs = []"
    using assms(1,2) by (auto simp: continues_def filter_empty_conv)
  with assms(3) show ?thesis
    by (simp add: message_history_def attempt_numbers_def receipt_numbers_def)
qed

lemma advance_inv:
  assumes "outbox_inv db" and "continues db m m' as rs"
  shows "outbox_inv (advance db m' as rs)"
proof -
  have m: "m \<in> set (db_messages db)" and id: "om_id m' = om_id m"
    and keys: "om_event_id m' = om_event_id m" "om_destination m' = om_destination m"
    using assms(2) by (simp_all add: continues_def)
  have same: "x = m" if "x \<in> set (db_messages db)" "om_id x = om_id m'" for x
    using message_ids_unique [OF assms(1) that(1) m] that(2) id by simp
  have ids: "map om_id (db_messages (advance db m' as rs)) = map om_id (db_messages db)"
    unfolding advance_fields by (rule map_update_keys) simp
  have pairs: "map (\<lambda>m. (om_event_id m, om_destination m)) (db_messages (advance db m' as rs))
      = map (\<lambda>m. (om_event_id m, om_destination m)) (db_messages db)"
    unfolding advance_fields by (rule map_update_keys) (auto dest: same simp: keys)
  have idset: "om_id ` set (db_messages (advance db m' as rs)) = om_id ` set (db_messages db)"
    using arg_cong [OF ids, of set] by (simp only: list.set_map)
  have valid: "message_valid (advance db m' as rs) x = message_valid db x" for x
    by (rule message_valid_events) simp
  have rows: "message_valid (advance db m' as rs) x \<and> message_pace x \<and> message_history (advance db m' as rs) x"
    if "x \<in> set (db_messages (advance db m' as rs))" for x
  proof (cases "x = m'")
    case True
    moreover have "message_valid db m'" "message_pace m'"
      using assms(2) by (simp_all add: continues_def)
    ultimately show ?thesis
      using advance_history_same [OF assms(2)] outbox_invD(3-5) [OF assms(1) m] by (simp add: valid)
  next
    case False
    with that have x: "x \<in> set (db_messages db)" "om_id x \<noteq> om_id m" by (auto simp: id split: if_splits)
    then show ?thesis
      using outbox_invD(3-5) [OF assms(1) x(1)] advance_history_other [OF assms(2) x(2)] by (simp add: valid)
  qed
  show ?thesis
    unfolding outbox_inv_def ids pairs idset
    using assms rows m by (auto simp: outbox_inv_def continues_def simp del: advance_fields(2))
qed

end
