(* ===== verification/Outbox_Steps.thy ===== *)
theory Outbox_Steps
  imports Outbox_Inv
begin

text \<open>
  The outbox as a state machine: what each service does to the row it concerns, that it keeps the
  invariant, the step relation of all services and its reachable states, and the properties of
  claims, leases, retries, cancellation and replay.
\<close>

section \<open>Services advance one row\<close>

lemma message_unique_inv:
  assumes "outbox_inv db" and "m \<in> set (db_messages db)" and "om_id m' = om_id m"
    and "om_event_id m' = om_event_id m" and "om_destination m' = om_destination m"
  shows "message_unique db m'"
proof -
  have "x = m" if "x \<in> set (db_messages db)" "om_event_id x = om_event_id m" "om_destination x = om_destination m" for x
    using that outbox_invD(2) [OF assms(1)] assms(2) by (auto simp: distinct_map dest: inj_onD)
  then show ?thesis
    using assms(3-5) by (auto simp: message_unique_def list_ex_iff)
qed

lemma put_then_attempt:
  "(put_message db m)\<lparr>db_attempts := db_attempts (put_message db m) @ as\<rparr> = advance db m as []"
  by (simp add: advance_def put_message_def)

lemma attempt_then_put:
  "put_message (db\<lparr>db_attempts := db_attempts db @ as\<rparr>) m = advance db m as []"
  by (simp add: advance_def put_message_def)

lemma receipt_then_put:
  "put_message (db\<lparr>db_receipts := db_receipts db @ rs\<rparr>) m = advance db m [] rs"
  by (simp add: advance_def put_message_def)

lemma put_is_advance: "put_message db m = advance db m [] []"
  by (simp add: advance_def put_message_def)

lemma message_valid_updates [simp]:
  "message_valid (db\<lparr>db_attempts := x\<rparr>) m = message_valid db m"
  "message_valid (db\<lparr>db_receipts := y\<rparr>) m = message_valid db m"
  "message_unique (db\<lparr>db_attempts := x\<rparr>) m = message_unique db m"
  "message_unique (db\<lparr>db_receipts := y\<rparr>) m = message_unique db m"
  by (simp_all add: message_valid_def find_event_def message_unique_def)

text \<open>A finished claim: the row leaves processing and its attempt is recorded under its number.\<close>

lemma claim_continues:
  assumes "m \<in> set (db_messages db)" and "claim_matches claim m" and "message_valid db m'"
    and "om_status m' \<noteq> PROCESSING" and "om_status m' = PENDING \<Longrightarrow> om_attempt_count m < om_max_attempts m"
    and "om_id m' = om_id m" "om_event_id m' = om_event_id m" "om_destination m' = om_destination m"
      "om_attempt_count m' = om_attempt_count m" "om_max_attempts m' = om_max_attempts m"
      "om_replay_count m' = om_replay_count m"
  shows "continues db m m' [claim_attempt claim m finished outcome code] []"
  using assms by (auto simp: continues_def recorded_def message_pace_def claim_matches_def claim_attempt_def)

definition completed :: "Status \<Rightarrow> instant \<Rightarrow> string \<Rightarrow> OutboxMessage \<Rightarrow> OutboxMessage" where
  "completed st finished code m = m\<lparr>om_status := st, om_completed_at := Some finished,
     om_lease_expires_at := None, om_lease_token := None, om_last_error_code := code\<rparr>"

definition after_transient :: "string \<Rightarrow> duration \<Rightarrow> instant \<Rightarrow> OutboxMessage \<Rightarrow> OutboxMessage" where
  "after_transient code retry finished m =
     (if om_attempt_count m < om_max_attempts m
      then m\<lparr>om_status := PENDING, om_available_at := finished + retry, om_completed_at := None,
             om_lease_expires_at := None, om_lease_token := None, om_last_error_code := code\<rparr>
      else m\<lparr>om_status := QUARANTINED, om_available_at := finished + retry, om_completed_at := Some finished,
             om_lease_expires_at := None, om_lease_token := None, om_last_error_code := code\<rparr>)"

lemma finish_success_Inr:
  assumes "finish_effect_success claim finished db = Inr db'"
  obtains m where "m \<in> set (db_messages db)" "claim_matches claim m"
    "continues db m (completed SUCCEEDED finished [] m) [claim_attempt claim m finished OUT_SUCCEEDED []] []"
    "db' = advance db (completed SUCCEEDED finished [] m) [claim_attempt claim m finished OUT_SUCCEEDED []] []"
proof -
  from assms obtain m where lc: "locked_claim claim db = Inr m"
      and valid: "message_valid db (completed SUCCEEDED finished [] m)"
      and db': "db' = advance db (completed SUCCEEDED finished [] m) [claim_attempt claim m finished OUT_SUCCEEDED []] []"
    by (auto simp: finish_effect_success_def result_simps put_then_attempt completed_def)
  from locked_claim_mem [OF lc] have m: "m \<in> set (db_messages db)" "claim_matches claim m" by auto
  show thesis
    by (rule that [OF m claim_continues [OF m valid] db']) (simp_all add: completed_def)
qed

lemma finish_permanent_Inr:
  assumes "finish_effect_permanent_failure claim code finished db = Inr db'"
  obtains m where "m \<in> set (db_messages db)" "claim_matches claim m" "validate_effect_error_code code = Inr ()"
    "continues db m (completed QUARANTINED finished code m) [claim_attempt claim m finished PERMANENT_FAILURE code] []"
    "db' = advance db (completed QUARANTINED finished code m) [claim_attempt claim m finished PERMANENT_FAILURE code] []"
proof -
  from assms obtain m where lc: "locked_claim claim db = Inr m" and code: "validate_effect_error_code code = Inr ()"
      and valid: "message_valid db (completed QUARANTINED finished code m)"
      and db': "db' = advance db (completed QUARANTINED finished code m)
        [claim_attempt claim m finished PERMANENT_FAILURE code] []"
    by (auto simp: finish_effect_permanent_failure_def result_simps put_then_attempt completed_def)
  from locked_claim_mem [OF lc] have m: "m \<in> set (db_messages db)" "claim_matches claim m" by auto
  show thesis
    by (rule that [OF m code claim_continues [OF m valid] db']) (simp_all add: completed_def)
qed

lemma finish_transient_Inr:
  assumes "finish_effect_transient_failure claim code retry finished db = Inr (db', out)"
  obtains m outcome where "m \<in> set (db_messages db)" "claim_matches claim m"
    "validate_effect_error_code code = Inr ()" "0 \<le> retry" "retry \<le> MAX_RETRY_DELAY"
    "outcome = (if om_attempt_count m < om_max_attempts m then TRANSIENT_FAILURE else EXHAUSTED)"
    "out = (if om_attempt_count m < om_max_attempts m then RETRY_SCHEDULED else CO_QUARANTINED)"
    "continues db m (after_transient code retry finished m) [claim_attempt claim m finished outcome code] []"
    "db' = advance db (after_transient code retry finished m) [claim_attempt claim m finished outcome code] []"
proof -
  from assms obtain m where lc: "locked_claim claim db = Inr m" and code: "validate_effect_error_code code = Inr ()"
      and retry: "0 \<le> retry" "retry \<le> MAX_RETRY_DELAY"
      and valid: "message_valid db (after_transient code retry finished m)"
      and out: "out = (if om_attempt_count m < om_max_attempts m then RETRY_SCHEDULED else CO_QUARANTINED)"
      and db': "db' = advance db (after_transient code retry finished m) [claim_attempt claim m finished
           (if om_attempt_count m < om_max_attempts m then TRANSIENT_FAILURE else EXHAUSTED) code] []"
    by (auto simp: finish_effect_transient_failure_def result_simps put_then_attempt Let_def not_less not_le
        after_transient_def completed_def split: if_splits)
  from locked_claim_mem [OF lc] have m: "m \<in> set (db_messages db)" "claim_matches claim m" by auto
  show thesis
    by (rule that [OF m code retry refl out claim_continues [OF m valid] db'])
      (auto simp: after_transient_def completed_def split: if_splits)
qed

definition claimed :: "uuid \<Rightarrow> duration \<Rightarrow> instant \<Rightarrow> OutboxMessage \<Rightarrow> OutboxMessage" where
  "claimed token lease now m = m\<lparr>om_status := PROCESSING, om_claimed_at := Some now,
     om_lease_expires_at := Some (now + lease), om_lease_token := Some token,
     om_attempt_count := om_attempt_count m + 1, om_completed_at := None\<rparr>"

text \<open>The attempt a claim records for the previous holder whose lease expired.\<close>

definition expiry_attempts :: "instant \<Rightarrow> OutboxMessage \<Rightarrow> EffectAttempt list" where
  "expiry_attempts now m =
     (if om_status m = PROCESSING
      then [\<lparr>at_message_id = om_id m, at_attempt_number = om_attempt_count m,
             at_lease_token = the (om_lease_token m), at_started_at = the (om_claimed_at m),
             at_finished_at = now, at_outcome = TRANSIENT_FAILURE, at_error_code = ''lease_expired'',
             at_handler_code = om_destination m\<rparr>]
      else [])"

definition claim_of :: "uuid \<Rightarrow> duration \<Rightarrow> instant \<Rightarrow> OutboxMessage \<Rightarrow> ClaimedEffect" where
  "claim_of token lease now m =
     \<lparr>cl_message_id = om_id m, cl_event_id = om_event_id m, cl_lease_token = token,
      cl_attempt_number = om_attempt_count m + 1, cl_claimed_at = now, cl_lease_expires_at = now + lease\<rparr>"

lemma claimable_valid:
  assumes "outbox_inv db" and "m \<in> set (db_messages db)" and "claimable org pool now m" and "0 < lease"
  shows "message_valid db (claimed token lease now m)" and "message_unique db (claimed token lease now m)"
    and "continues db m (claimed token lease now m) (expiry_attempts now m) []"
proof -
  have valid: "message_valid db m" and pace: "message_pace m"
    using outbox_invD [OF assms(1)] assms(2) by auto
  show v: "message_valid db (claimed token lease now m)"
    using valid assms(3) by (auto simp: message_valid_def claimed_def claimable_def positive_integer_def
        lease_matches_status_def completion_matches_status_def MAX_EFFECT_TOTAL_ATTEMPTS_def split: option.splits)
  show "message_unique db (claimed token lease now m)"
    by (rule message_unique_inv [OF assms(1,2)]) (simp_all add: claimed_def)
  show "continues db m (claimed token lease now m) (expiry_attempts now m) []"
    using assms(2-4) valid pace v
    by (auto simp: continues_def claimed_def recorded_def expiry_attempts_def message_pace_def message_valid_def
        positive_integer_def)
qed

lemma attempt_fresh:
  assumes "message_history db m" and "om_status m = PROCESSING"
  shows "\<not> list_ex (\<lambda>x. at_message_id x = om_id m \<and> at_attempt_number x = om_attempt_count m) (db_attempts db)"
proof -
  have "om_attempt_count m \<notin> set (attempt_numbers db (om_id m))"
    using assms by (simp add: message_history_def recorded_def)
  then show ?thesis by (force simp: attempt_numbers_def list_ex_iff)
qed

lemma record_lease_expiry_ok:
  assumes "outbox_inv db" and "m \<in> set (db_messages db)" and "claimable org pool now m"
  shows "record_lease_expiry now m db = Inr (db\<lparr>db_attempts := db_attempts db @ expiry_attempts now m\<rparr>)"
proof (cases "om_status m = PROCESSING")
  case False
  then show ?thesis by (simp add: record_lease_expiry_def expiry_attempts_def)
next
  case True
  have valid: "message_valid db m" and pace: "message_pace m" and hist: "message_history db m"
    using outbox_invD [OF assms(1)] assms(2) by auto
  from pace True obtain c l where cl: "om_claimed_at m = Some c" "om_lease_expires_at m = Some l" "c < l"
    by (auto simp: message_pace_def)
  from valid True obtain token where token: "om_lease_token m = Some token"
    by (auto simp: message_valid_def lease_matches_status_def)
  have "l \<le> now"
    using assms(3) True cl by (auto simp: claimable_def ready_def lease_expired_def)
  then show ?thesis
    using True cl token valid find_message_inv [OF assms(1,2)] attempt_fresh [OF hist True]
    by (simp add: record_lease_expiry_def expiry_attempts_def attempt_create_def attempt_full_clean_def
        message_valid_def char_field_def)
qed

lemma claim_candidates_set:
  "set (claim_candidates locked org pool now db) = {m \<in> set (db_messages db). \<not> locked (om_id m) \<and> claimable org pool now m}"
  by (auto simp: claim_candidates_def)

text \<open>A claim on consistent tables never fails on valid lease durations: it takes the first candidate.\<close>

lemma claim_some:
  assumes "outbox_inv db" and "0 < lease" and "lease \<le> MAX_LEASE_DURATION"
    and "claim_candidates locked org pool now db = m # rest"
  shows "claim_next_effect locked token org pool lease now db =
      Inr (advance db (claimed token lease now m) (expiry_attempts now m) [], Some (claim_of token lease now m))"
    and "m \<in> set (db_messages db)" and "claimable org pool now m" and "\<not> locked (om_id m)"
    and "continues db m (claimed token lease now m) (expiry_attempts now m) []"
proof -
  have "m \<in> set (claim_candidates locked org pool now db)"
    using assms(4) by simp
  then show m: "m \<in> set (db_messages db)" "claimable org pool now m" "\<not> locked (om_id m)"
    by (auto simp: claim_candidates_set)
  note ok = claimable_valid [OF assms(1) m(1,2) assms(2)]
  show "continues db m (claimed token lease now m) (expiry_attempts now m) []"
    by (rule ok(3))
  have save: "message_save (db\<lparr>db_attempts := db_attempts db @ expiry_attempts now m\<rparr>) (claimed token lease now m)
      = Inr (advance db (claimed token lease now m) (expiry_attempts now m) [])"
    using ok(1,2) by (simp add: message_save_def attempt_then_put)
  show "claim_next_effect locked token org pool lease now db =
      Inr (advance db (claimed token lease now m) (expiry_attempts now m) [], Some (claim_of token lease now m))"
    using assms(2-4) save
    by (simp add: claim_next_effect_def record_lease_expiry_ok [OF assms(1) m(1,2)] Let_def claimed_def claim_of_def)
qed

definition exhaustion_attempt :: "instant \<Rightarrow> OutboxMessage \<Rightarrow> EffectAttempt" where
  "exhaustion_attempt now m =
     \<lparr>at_message_id = om_id m, at_attempt_number = om_attempt_count m,
      at_lease_token = the (om_lease_token m), at_started_at = the (om_claimed_at m),
      at_finished_at = now, at_outcome = EXHAUSTED, at_error_code = ''attempts_exhausted'',
      at_handler_code = om_destination m\<rparr>"

lemma quarantine_one_ok:
  assumes "outbox_inv db" and "m \<in> set (db_messages db)" and "exhausted_claim org pool now m"
  shows "quarantine_one now m db =
      Inr (advance db (completed QUARANTINED now ''attempts_exhausted'' m) [exhaustion_attempt now m] [])"
    and "continues db m (completed QUARANTINED now ''attempts_exhausted'' m) [exhaustion_attempt now m] []"
proof -
  have valid: "message_valid db m" and pace: "message_pace m" and hist: "message_history db m"
    using outbox_invD [OF assms(1)] assms(2) by auto
  have st: "om_status m = PROCESSING"
    using assms(3) by (auto simp: exhausted_claim_def lease_expired_def)
  from pace st obtain c l where cl: "om_claimed_at m = Some c" "om_lease_expires_at m = Some l" "c < l"
    by (auto simp: message_pace_def)
  from valid st obtain token where token: "om_lease_token m = Some token"
    by (auto simp: message_valid_def lease_matches_status_def)
  have "l \<le> now"
    using assms(3) cl by (auto simp: exhausted_claim_def lease_expired_def)
  have v: "message_valid db (completed QUARANTINED now ''attempts_exhausted'' m)"
    using valid by (auto simp: message_valid_def completed_def lease_matches_status_def completion_matches_status_def
        split: option.splits)
  show cont: "continues db m (completed QUARANTINED now ''attempts_exhausted'' m) [exhaustion_attempt now m] []"
    using assms(2) v st by (auto simp: continues_def completed_def recorded_def message_pace_def exhaustion_attempt_def)
  have u: "message_unique db (completed QUARANTINED now ''attempts_exhausted'' m)"
    by (rule message_unique_inv [OF assms(1,2)]) (simp_all add: completed_def)
  have "find_message (put_message db (completed QUARANTINED now ''attempts_exhausted'' m)) (om_id m) \<noteq> None"
    using assms(2) by (auto simp: find_message_def find_None_iff put_message_def completed_def)
  then have "attempt_full_clean (put_message db (completed QUARANTINED now ''attempts_exhausted'' m)) (exhaustion_attempt now m)"
    using valid cl \<open>l \<le> now\<close> attempt_fresh [OF hist st]
    by (auto simp: attempt_full_clean_def exhaustion_attempt_def message_valid_def char_field_def put_message_def)
  with v u show "quarantine_one now m db =
      Inr (advance db (completed QUARANTINED now ''attempts_exhausted'' m) [exhaustion_attempt now m] [])"
    by (simp add: quarantine_one_def message_save_def attempt_create_def cl token put_then_attempt
        completed_def exhaustion_attempt_def)
qed

lemma quarantine_fold:
  assumes "outbox_inv db" and "set ms \<subseteq> set (db_messages db)" and "distinct (map om_id ms)"
    and "\<forall>m \<in> set ms. exhausted_claim org pool now m"
  shows "\<exists>db'. foldE (quarantine_one now) ms db = Inr db' \<and> outbox_inv db'
    \<and> db_messages db' = map (\<lambda>x. if om_id x \<in> om_id ` set ms
         then completed QUARANTINED now ''attempts_exhausted'' x else x) (db_messages db)
    \<and> db_events db' = db_events db \<and> db_receipts db' = db_receipts db"
  using assms
proof (induction ms arbitrary: db)
  case Nil
  then show ?case by simp
next
  case (Cons m ms)
  let ?m' = "completed QUARANTINED now ''attempts_exhausted'' m"
  let ?db = "advance db ?m' [exhaustion_attempt now m] []"
  have m: "m \<in> set (db_messages db)" "exhausted_claim org pool now m"
    using Cons.prems by auto
  note one = quarantine_one_ok [OF Cons.prems(1) m]
  have inv: "outbox_inv ?db"
    by (rule advance_inv [OF Cons.prems(1) one(2)])
  have same: "x = m" if "x \<in> set (db_messages db)" "om_id x = om_id m" for x
    by (rule message_ids_unique [OF Cons.prems(1) that(1) m(1) that(2)])
  have rest: "set ms \<subseteq> set (db_messages ?db)"
    using Cons.prems(2,3) by (auto simp: completed_def image_iff)
  have keep: "om_id (completed QUARANTINED now c x) = om_id x" for c x
    by (simp add: completed_def)
  from Cons.IH [OF inv rest] Cons.prems(3,4) obtain db' where
      db': "foldE (quarantine_one now) ms ?db = Inr db'" "outbox_inv db'"
        "db_messages db' = map (\<lambda>x. if om_id x \<in> om_id ` set ms
           then completed QUARANTINED now ''attempts_exhausted'' x else x) (db_messages ?db)"
        "db_events db' = db_events db" "db_receipts db' = db_receipts db" by auto
  have "db_messages db' = map (\<lambda>x. if om_id x \<in> om_id ` set (m # ms)
           then completed QUARANTINED now ''attempts_exhausted'' x else x) (db_messages db)"
    unfolding db'(3) advance_fields map_map
    using Cons.prems(3) by (intro map_cong) (auto simp: keep dest: same)
  with db' one(1) show ?case by auto
qed

lemma claim_none:
  assumes "outbox_inv db" and "0 < lease" and "lease \<le> MAX_LEASE_DURATION"
    and "claim_candidates locked org pool now db = []"
  shows "\<exists>db'. claim_next_effect locked token org pool lease now db = Inr (db', None) \<and> outbox_inv db'
    \<and> db_messages db' = map (\<lambda>x. if \<not> locked (om_id x) \<and> exhausted_claim org pool now x
         then completed QUARANTINED now ''attempts_exhausted'' x else x) (db_messages db)
    \<and> db_events db' = db_events db \<and> db_receipts db' = db_receipts db"
proof -
  let ?ms = "filter (\<lambda>m. \<not> locked (om_id m) \<and> exhausted_claim org pool now m) (db_messages db)"
  have "distinct (map om_id ?ms)"
    using outbox_invD(1) [OF assms(1)] by (simp add: distinct_map_filter)
  then have
    "\<exists>db'. foldE (quarantine_one now) ?ms db = Inr db' \<and> outbox_inv db'
      \<and> db_messages db' = map (\<lambda>x. if om_id x \<in> om_id ` set ?ms
           then completed QUARANTINED now ''attempts_exhausted'' x else x) (db_messages db)
      \<and> db_events db' = db_events db \<and> db_receipts db' = db_receipts db"
    by (intro quarantine_fold [OF assms(1), of _ org pool]) auto
  then obtain db' where
      db': "foldE (quarantine_one now) ?ms db = Inr db'" "outbox_inv db'"
        "db_messages db' = map (\<lambda>x. if om_id x \<in> om_id ` set ?ms
           then completed QUARANTINED now ''attempts_exhausted'' x else x) (db_messages db)"
        "db_events db' = db_events db" "db_receipts db' = db_receipts db" by blast
  have "om_id x \<in> om_id ` set ?ms \<longleftrightarrow> \<not> locked (om_id x) \<and> exhausted_claim org pool now x"
    if "x \<in> set (db_messages db)" for x
  proof
    assume "om_id x \<in> om_id ` set ?ms"
    then obtain y where y: "y \<in> set (db_messages db)" "\<not> locked (om_id y) \<and> exhausted_claim org pool now y"
      and "om_id x = om_id y" by auto
    from message_ids_unique [OF assms(1) that y(1) this(3)] y(2) show "\<not> locked (om_id x) \<and> exhausted_claim org pool now x"
      by blast
  qed (use that in auto)
  then have "db_messages db' = map (\<lambda>x. if \<not> locked (om_id x) \<and> exhausted_claim org pool now x
         then completed QUARANTINED now ''attempts_exhausted'' x else x) (db_messages db)"
    unfolding db'(3) by (intro map_cong) auto
  with db' assms(2-4) show ?thesis
    by (simp add: claim_next_effect_def quarantine_exhausted_def)
qed

definition cancelled :: "string \<Rightarrow> instant \<Rightarrow> OutboxMessage \<Rightarrow> OutboxMessage" where
  "cancelled reason now m = m\<lparr>om_status := CANCELLED, om_completed_at := Some now, om_last_error_code := reason\<rparr>"

lemma cancel_Inr:
  assumes "cancel_pending_effect i reason now db = Inr db'"
  shows "db' = db \<or> (\<exists>m. find_message db i = Some m \<and> om_status m = PENDING
    \<and> message_valid db (cancelled reason now m) \<and> db' = advance db (cancelled reason now m) [] [])"
  using assms by (auto simp: cancel_pending_effect_def cancelled_def result_simps put_is_advance split: option.splits if_splits)

definition replay_receipt :: "OutboxMessage \<Rightarrow> int \<Rightarrow> uuid \<Rightarrow> string \<Rightarrow> uuid \<Rightarrow> instant \<Rightarrow> EffectReplayReceipt" where
  "replay_receipt m additional actor reason correlation created =
     \<lparr>rr_message_id = om_id m, rr_organization_id = om_organization_id m, rr_actor_id = actor,
      rr_reason = reason, rr_additional_attempts = additional, rr_previous_max_attempts = om_max_attempts m,
      rr_new_max_attempts = om_max_attempts m + additional, rr_replay_count = om_replay_count m + 1,
      rr_correlation_id = correlation, rr_created_at = created\<rparr>"

definition replayed :: "int \<Rightarrow> instant \<Rightarrow> OutboxMessage \<Rightarrow> OutboxMessage" where
  "replayed additional now m = m\<lparr>om_max_attempts := om_max_attempts m + additional, om_status := PENDING,
     om_available_at := now, om_completed_at := None, om_last_error_code := [],
     om_replay_count := om_replay_count m + 1\<rparr>"

lemma replay_Inr:
  assumes "replay_quarantined_effect env nfc i additional actor reason correlation created now db = Inr (db', m')"
  obtains m a why e where "additional = PyInt a" "1 \<le> a" "a \<le> 20"
    "normalize_effect_replay_reason nfc reason = Inr why"
    "find_message db i = Some m" "om_status m = QUARANTINED" "om_max_attempts m + a \<le> 100"
    "find_event db (om_event_id m) = Some e"
    "effect_delivery_is_allowed env (event_delivery e (om_organization_id m) (om_destination m)) = Inr True"
    "m' = replayed a now m" "message_valid db m'"
    "db' = advance db m' [] [replay_receipt m a actor why correlation created]"
proof -
  from assms obtain a why where a: "additional = PyInt a" "1 \<le> a" "a \<le> 20"
    and why: "normalize_effect_replay_reason nfc reason = Inr why"
    by (auto simp: replay_quarantined_effect_def bindE_eq_Inr MAX_EFFECT_REPLAY_ADDITIONAL_ATTEMPTS_def
        split: py_number.splits if_splits)
  with assms obtain m where m: "find_message db i = Some m" "om_status m = QUARANTINED"
    by (cases "find_message db i") (auto simp: replay_quarantined_effect_def
        MAX_EFFECT_REPLAY_ADDITIONAL_ATTEMPTS_def split: if_splits)
  with assms a why obtain e where e: "find_event db (om_event_id m) = Some e"
      "ev_organization_id e = om_organization_id m"
    by (cases "find_event db (om_event_id m)") (auto simp: replay_quarantined_effect_def
        MAX_EFFECT_REPLAY_ADDITIONAL_ATTEMPTS_def split: if_splits)
  have "effect_delivery_is_allowed env (event_delivery e (om_organization_id m) (om_destination m)) = Inr True"
    "om_max_attempts m + a \<le> 100" "m' = replayed a now m" "message_valid db m'"
    "db' = advance db m' [] [replay_receipt m a actor why correlation created]"
    using assms by (auto simp: replay_quarantined_effect_def a why m e result_simps Let_def not_less
        MAX_EFFECT_REPLAY_ADDITIONAL_ATTEMPTS_def MAX_EFFECT_TOTAL_ATTEMPTS_def receipt_then_put
        replayed_def replay_receipt_def split: if_splits)
  with a why m e(1) show thesis by (intro that)
qed

lemma find_append: "find P (xs @ ys) = (case find P xs of None \<Rightarrow> find P ys | Some x \<Rightarrow> Some x)"
  by (induction xs) auto

lemma event_create_inv:
  assumes "outbox_inv db" and "event_full_clean db e"
  shows "outbox_inv (db\<lparr>db_events := db_events db @ [e]\<rparr>)"
proof -
  have "message_valid (db\<lparr>db_events := db_events db @ [e]\<rparr>) m" if "message_valid db m" for m
    using that by (auto simp: message_valid_def find_event_def find_append split: option.splits)
  with assms show ?thesis
    by (auto simp: outbox_inv_def event_full_clean_def list_ex_iff message_history_def attempt_numbers_def
        receipt_numbers_def)
qed

lemma message_create_inv:
  assumes "outbox_inv db" and "message_create db (new_message i e destination pool budget available created) = Inr db'"
  shows "outbox_inv db'"
proof -
  let ?m = "new_message i e destination pool budget available created"
  from assms(2) have valid: "message_valid db ?m" and unique: "message_unique db ?m"
      and fresh: "find_message db i = None" and db': "db' = db\<lparr>db_messages := db_messages db @ [?m]\<rparr>"
    by (simp_all add: result_simps new_message_def)
  have ids: "om_id x \<noteq> i" if "x \<in> set (db_messages db)" for x
    using fresh that by (auto simp: find_message_def find_None_iff)
  then have "i \<notin> om_id ` set (db_messages db)" by auto
  then have "attempt_numbers db i = []" "receipt_numbers db i = []"
    using assms(1) by (auto simp: outbox_inv_def attempt_numbers_def receipt_numbers_def filter_empty_conv)
  then have "message_history db ?m"
    by (simp add: message_history_def new_message_def recorded_def)
  moreover have "message_pace ?m"
    using valid by (simp add: message_pace_def new_message_def message_valid_def)
  moreover have "(om_event_id ?m, om_destination ?m) \<notin> (\<lambda>m. (om_event_id m, om_destination m)) ` set (db_messages db)"
    using unique ids by (auto simp: message_unique_def list_ex_iff new_message_def)
  moreover have "message_valid db' x = message_valid db x" "message_history db' x = message_history db x" for x
    by (simp_all add: db' message_valid_def find_event_def message_history_def attempt_numbers_def receipt_numbers_def)
  moreover have "om_id ?m = i" by (simp add: new_message_def)
  ultimately show ?thesis
    using assms(1) valid ids unfolding outbox_inv_def by (auto simp: db')
qed

section \<open>Every service keeps the invariant\<close>

lemma publish_inv:
  assumes "outbox_inv db"
    and "publish_domain_event env pc rec destination pool budget occurred db = Inr (db', e, m)"
  shows "outbox_inv db'"
  using assms by (auto simp: publish_domain_event_def bindE_eq_Inr event_create_Inr Let_def
      intro: event_create_inv message_create_inv split: if_splits)

lemma enqueue_inv:
  assumes "outbox_inv db" and "enqueue_event_delivery env pc i destination pool budget db = Inr (db', m)"
  shows "outbox_inv db'"
  using assms by (auto simp: enqueue_event_delivery_def bindE_eq_Inr Let_def
      intro: message_create_inv split: if_splits option.splits)

lemma claim_inv:
  assumes "outbox_inv db" and "claim_next_effect locked token org pool lease now db = Inr (db', claim)"
  shows "outbox_inv db'"
proof -
  have lease: "0 < lease" "lease \<le> MAX_LEASE_DURATION"
    using assms(2) by (auto simp: claim_next_effect_def split: if_splits)
  show ?thesis
  proof (cases "claim_candidates locked org pool now db")
    case Nil
    from claim_none [OF assms(1) lease this, of token] assms(2) show ?thesis by auto
  next
    case (Cons m rest)
    have "db' = advance db (claimed token lease now m) (expiry_attempts now m) []"
      using claim_some(1) [OF assms(1) lease Cons, of token] assms(2) by simp
    then show ?thesis
      using advance_inv [OF assms(1) claim_some(5) [OF assms(1) lease Cons]] by simp
  qed
qed

lemma finish_success_inv:
  "outbox_inv db \<Longrightarrow> finish_effect_success claim finished db = Inr db' \<Longrightarrow> outbox_inv db'"
  by (elim finish_success_Inr) (auto intro: advance_inv)

lemma finish_permanent_inv:
  "outbox_inv db \<Longrightarrow> finish_effect_permanent_failure claim code finished db = Inr db' \<Longrightarrow> outbox_inv db'"
  by (elim finish_permanent_Inr) (auto intro: advance_inv)

lemma finish_transient_inv:
  "outbox_inv db \<Longrightarrow> finish_effect_transient_failure claim code retry finished db = Inr (db', out) \<Longrightarrow> outbox_inv db'"
  by (elim finish_transient_Inr) (auto intro: advance_inv)

lemma cancel_inv:
  assumes "outbox_inv db" and "cancel_pending_effect i reason now db = Inr db'"
  shows "outbox_inv db'"
  using cancel_Inr [OF assms(2)]
proof (elim disjE exE conjE)
  fix m assume m: "find_message db i = Some m" "om_status m = PENDING"
    and v: "message_valid db (cancelled reason now m)"
    and db': "db' = advance db (cancelled reason now m) [] []"
  have "continues db m (cancelled reason now m) [] []"
    using find_message_mem [OF m(1)] m(2) v by (auto simp: cancelled_def continues_def recorded_def message_pace_def)
  then show ?thesis
    unfolding db' by (rule advance_inv [OF assms(1)])
qed (use assms in simp)

lemma replay_continues:
  assumes "m \<in> set (db_messages db)" and "om_status m = QUARANTINED" and "message_valid db m" and "1 \<le> a"
    and "message_valid db (replayed a now m)"
  shows "continues db m (replayed a now m) [] [replay_receipt m a actor why correlation created]"
  using assms by (auto simp: continues_def replayed_def replay_receipt_def recorded_def message_pace_def message_valid_def)

lemma replay_inv:
  assumes "outbox_inv db"
    and "replay_quarantined_effect env nfc i additional actor reason correlation created now db = Inr (db', m')"
  shows "outbox_inv db'"
proof -
  from assms(2) obtain m a why where a: "1 \<le> a" and m: "find_message db i = Some m" "om_status m = QUARANTINED"
    and v: "message_valid db (replayed a now m)"
    and db': "db' = advance db (replayed a now m) [] [replay_receipt m a actor why correlation created]"
    by (elim replay_Inr) blast
  have mem: "m \<in> set (db_messages db)" using find_message_mem [OF m(1)] by simp
  show ?thesis
    unfolding db' using replay_continues [OF mem m(2) outbox_invD(3) [OF assms(1) mem] a v] assms(1)
    by (intro advance_inv)
qed

section \<open>The state machine\<close>

inductive outbox_step :: "effect_db \<Rightarrow> effect_db \<Rightarrow> bool" where
  step_publish: "publish_domain_event env pc rec destination pool budget occurred db = Inr (db', e, m) \<Longrightarrow> outbox_step db db'"
| step_enqueue: "enqueue_event_delivery env pc i destination pool budget db = Inr (db', m) \<Longrightarrow> outbox_step db db'"
| step_claim: "claim_next_effect locked token org pool lease now db = Inr (db', c) \<Longrightarrow> outbox_step db db'"
| step_success: "finish_effect_success claim finished db = Inr db' \<Longrightarrow> outbox_step db db'"
| step_transient: "finish_effect_transient_failure claim code retry finished db = Inr (db', out) \<Longrightarrow> outbox_step db db'"
| step_permanent: "finish_effect_permanent_failure claim code finished db = Inr db' \<Longrightarrow> outbox_step db db'"
| step_cancel: "cancel_pending_effect i reason now db = Inr db' \<Longrightarrow> outbox_step db db'"
| step_replay: "replay_quarantined_effect env nfc i additional actor reason corr created now db = Inr (db', m) \<Longrightarrow> outbox_step db db'"

lemma outbox_step_inv: "outbox_inv db \<Longrightarrow> outbox_step db db' \<Longrightarrow> outbox_inv db'"
  by (erule outbox_step.cases)
    (auto intro: publish_inv enqueue_inv claim_inv finish_success_inv finish_transient_inv finish_permanent_inv
      cancel_inv replay_inv)

interpretation outbox: inductive_invariant "\<lambda>db. db = empty_db" outbox_step outbox_inv
proof unfold_locales
  show "outbox_inv db" if "db = empty_db" for db
    using that by (simp add: outbox_inv_def empty_db_def)
qed (rule outbox_step_inv)

end
