(* ===== verification/Outbox_Props.thy ===== *)
theory Outbox_Props
  imports Outbox_Steps
begin

text \<open>
  The properties of the outbox: consistency of every reachable state, exclusive and earliest-first
  claims, leases that never come back, progress for every eligible tenant, and the exact effect of
  replay, cancellation and publication.
\<close>

section \<open>Progress of a row\<close>

text \<open>
  The level of a row counts its attempts twice and adds one when no attempt is running. No service
  lowers it, a claim raises it above every earlier claim, a finish raises it above its own claim.
\<close>

definition level :: "OutboxMessage \<Rightarrow> int" where
  "level m = 2 * om_attempt_count m + (if om_status m = PROCESSING then 0 else 1)"

lemma find_advance:
  assumes "outbox_inv db" and "m \<in> set (db_messages db)" and "om_id m' = om_id m"
  shows "find_message (advance db m' as rs) i =
    (if i = om_id m then Some m' else find_message db i)"
proof -
  have "find (\<lambda>x. om_id x = i) (map (\<lambda>x. if om_id x = om_id m' then m' else x) xs) =
      (if i = om_id m then (if om_id m \<in> om_id ` set xs then Some m' else None)
       else find (\<lambda>x. om_id x = i) xs)" for xs
    using assms(3) by (induction xs) auto
  with assms(2) show ?thesis
    by (auto simp: find_message_def)
qed

lemma find_map_same:
  "(\<And>x. om_id (g x) = om_id x) \<Longrightarrow> find (\<lambda>x. om_id x = i) (map g xs) = map_option g (find (\<lambda>x. om_id x = i) xs)"
  by (induction xs) auto

lemma find_append_message:
  "find_message db i = Some m \<Longrightarrow> find_message (db\<lparr>db_messages := db_messages db @ ms\<rparr>) i = Some m"
  by (simp add: find_message_def find_append)

lemma advance_level:
  assumes "outbox_inv db" and "n \<in> set (db_messages db)" and "om_id n' = om_id n" and "level n \<le> level n'"
    and "find_message db i = Some m"
  shows "\<exists>m'. find_message (advance db n' as rs) i = Some m' \<and> level m \<le> level m'"
  using assms find_message_inv [OF assms(1,2)] by (auto simp: find_advance [OF assms(1-3)])

lemma row_levels:
  "om_status m = PROCESSING \<Longrightarrow> st \<noteq> PROCESSING \<Longrightarrow> level m \<le> level (completed st t c m)"
  "om_status m = PROCESSING \<Longrightarrow> level m \<le> level (after_transient c r t m)"
  "level m \<le> level (claimed token lease now m)"
  "om_status m = PENDING \<Longrightarrow> level m \<le> level (cancelled reason now m)"
  "om_status m = QUARANTINED \<Longrightarrow> level m \<le> level (replayed a now m)"
  by (simp_all add: level_def completed_def after_transient_def claimed_def cancelled_def replayed_def)

lemma row_ids [simp]:
  "om_id (completed st t c m) = om_id m" "om_id (after_transient c r t m) = om_id m"
  "om_id (claimed token lease now m) = om_id m" "om_id (cancelled reason now m) = om_id m"
  "om_id (replayed a now m) = om_id m"
  by (simp_all add: completed_def after_transient_def claimed_def cancelled_def replayed_def)

lemma matches_processing: "claim_matches c m \<Longrightarrow> om_status m = PROCESSING"
  by (simp add: claim_matches_def)

lemma claim_level:
  assumes inv: "outbox_inv db" and run: "claim_next_effect locked token org pool lease now db = Inr (db', c)"
    and m: "find_message db i = Some m"
  shows "\<exists>m'. find_message db' i = Some m' \<and> level m \<le> level m'"
proof -
  have lease: "0 < lease" "lease \<le> MAX_LEASE_DURATION"
    using run by (auto simp: claim_next_effect_def split: if_splits)
  show ?thesis
  proof (cases "claim_candidates locked org pool now db")
    case (Cons n rest)
    have "db' = advance db (claimed token lease now n) (expiry_attempts now n) []"
      using claim_some(1) [OF inv lease Cons, of token] run by simp
    then show ?thesis
      using advance_level [OF inv claim_some(2) [OF inv lease Cons] _ row_levels(3) m] by simp
  next
    case Nil
    from claim_none [OF inv lease this, of token] run
    have "db_messages db' = map (\<lambda>x. if \<not> locked (om_id x) \<and> exhausted_claim org pool now x
         then completed QUARANTINED now ''attempts_exhausted'' x else x) (db_messages db)" by auto
    then have "find_message db' i = map_option (\<lambda>x. if \<not> locked (om_id x) \<and> exhausted_claim org pool now x
         then completed QUARANTINED now ''attempts_exhausted'' x else x) (find_message db i)"
      by (simp add: find_message_def find_map_same)
    with m row_levels(1) [of m QUARANTINED] show ?thesis
      by (auto simp: exhausted_claim_def lease_expired_def)
  qed
qed

lemma step_level:
  assumes inv: "outbox_inv db" and "outbox_step db db'" and m: "find_message db i = Some m"
  shows "\<exists>m'. find_message db' i = Some m' \<and> level m \<le> level m'"
  using assms(2)
proof cases
  case (step_publish env pc rec destination pool budget occurred e x)
  then have "\<exists>es ms. db' = db\<lparr>db_events := db_events db @ es, db_messages := db_messages db @ ms\<rparr>"
    by (auto simp: publish_domain_event_def result_simps Let_def split: if_splits)
  then show ?thesis
    using m by (auto simp: find_message_def find_append)
next
  case (step_enqueue env pc j destination pool budget x)
  then have "\<exists>ms. db' = db\<lparr>db_messages := db_messages db @ ms\<rparr>"
    by (auto simp: enqueue_event_delivery_def result_simps Let_def split: if_splits option.splits)
  then show ?thesis
    using m by (auto simp: find_append_message)
next
  case (step_claim locked token org pool lease now c)
  from claim_level [OF inv this m] show ?thesis .
next
  case (step_success claim finished)
  then show ?thesis
    by (elim finish_success_Inr) (auto intro!: advance_level [OF inv] row_levels m dest: matches_processing)
next
  case (step_transient claim code retry finished out)
  then show ?thesis
    by (elim finish_transient_Inr) (auto intro!: advance_level [OF inv] row_levels m dest: matches_processing)
next
  case (step_permanent claim code finished)
  then show ?thesis
    by (elim finish_permanent_Inr) (auto intro!: advance_level [OF inv] row_levels m dest: matches_processing)
next
  case (step_cancel j reason now)
  from cancel_Inr [OF this] show ?thesis
  proof (elim disjE exE conjE)
    fix n assume n: "find_message db j = Some n" "om_status n = PENDING"
      and db': "db' = advance db (cancelled reason now n) [] []"
    then have "n \<in> set (db_messages db)" by (auto dest: find_message_mem)
    from advance_level [OF inv this _ row_levels(4) [OF n(2)] m] show ?thesis
      by (simp add: db')
  qed (use m in simp)
next
  case (step_replay env nfc j additional actor reason corr created now x)
  then show ?thesis
    by (elim replay_Inr) (auto intro!: advance_level [OF inv] row_levels m dest: find_message_mem)
qed

text \<open>A claim is spent when its row has moved past the claim's attempt.\<close>

definition claim_spent :: "ClaimedEffect \<Rightarrow> effect_db \<Rightarrow> bool" where
  "claim_spent c db \<longleftrightarrow> (\<exists>m. find_message db (cl_message_id c) = Some m \<and> 2 * cl_attempt_number c < level m)"

lemma steps_inv: "outbox_step\<^sup>*\<^sup>* db db' \<Longrightarrow> outbox_inv db \<Longrightarrow> outbox_inv db'"
  by (induction rule: rtranclp_induct) (auto intro: outbox_step_inv)

lemma steps_level:
  assumes "outbox_step\<^sup>*\<^sup>* db db'" and "outbox_inv db" and "find_message db i = Some m"
  shows "\<exists>m'. find_message db' i = Some m' \<and> level m \<le> level m'"
  using assms(1)
proof (induction rule: rtranclp_induct)
  case base
  then show ?case using assms(3) by blast
next
  case (step d d')
  then obtain m' where m': "find_message d i = Some m'" "level m \<le> level m'" by blast
  from step_level [OF steps_inv [OF step.hyps(1) assms(2)] step.hyps(2) m'(1)] m'(2) show ?case
    by fastforce
qed

lemma spent_steps:
  assumes "claim_spent c db" and "outbox_inv db" and "outbox_step\<^sup>*\<^sup>* db db'"
  shows "claim_spent c db'"
proof -
  from assms(1) obtain m where m: "find_message db (cl_message_id c) = Some m" "2 * cl_attempt_number c < level m"
    by (auto simp: claim_spent_def)
  from steps_level [OF assms(3,2) m(1)] m(2) show ?thesis
    by (auto simp: claim_spent_def)
qed

lemma spent_lost:
  assumes "claim_spent c db" and "outbox_inv db"
  shows "locked_claim c db = Inl LeaseLostError"
proof (cases "locked_claim c db")
  case (Inl e)
  then show ?thesis by (auto simp: locked_claim_def split: option.splits)
next
  case (Inr n)
  from locked_claim_mem [OF this] have n: "n \<in> set (db_messages db)" "claim_matches c n" by auto
  then have "find_message db (cl_message_id c) = Some n"
    using find_message_inv [OF assms(2) n(1)] by (simp add: claim_matches_def)
  with assms(1) n(2) show ?thesis
    by (auto simp: claim_spent_def claim_matches_def level_def)
qed

lemma advance_spent:
  assumes "outbox_inv db" and "m \<in> set (db_messages db)" and "om_id m' = om_id m" and "claim_matches c m"
    and "level m < level m'"
  shows "claim_spent c (advance db m' as rs)"
  using assms by (auto simp: claim_spent_def find_advance claim_matches_def level_def)

lemma finish_spends:
  assumes "outbox_inv db"
  shows "finish_effect_success c t db = Inr db' \<Longrightarrow> claim_spent c db'"
    and "finish_effect_permanent_failure c code t db = Inr db' \<Longrightarrow> claim_spent c db'"
    and "finish_effect_transient_failure c code retry t db = Inr (db', out) \<Longrightarrow> claim_spent c db'"
  by (elim finish_success_Inr finish_permanent_Inr finish_transient_Inr;
      auto intro!: advance_spent [OF assms] simp: level_def completed_def after_transient_def claim_matches_def)+

lemma claim_takes_first_eligible_row:
  assumes "outbox.reachable db" and "claim_next_effect locked token org pool lease now db = Inr (db', Some c)"
  shows "\<exists>m rest. claim_candidates locked org pool now db = m # rest \<and> m \<in> set (db_messages db)
    \<and> c = claim_of token lease now m
    \<and> db' = advance db (claimed token lease now m) (expiry_attempts now m) []
    \<and> locked_claim c db' = Inr (claimed token lease now m)"
proof -
  have inv: "outbox_inv db" using assms(1) by (rule outbox.reachable_inv)
  have lease: "0 < lease" "lease \<le> MAX_LEASE_DURATION"
    using assms(2) by (auto simp: claim_next_effect_def split: if_splits)
  obtain m rest where Cons: "claim_candidates locked org pool now db = m # rest"
    using assms(2) claim_none [OF inv lease, of locked org pool now token]
    by (cases "claim_candidates locked org pool now db") auto
  note some = claim_some [OF inv lease Cons]
  have db': "db' = advance db (claimed token lease now m) (expiry_attempts now m) []"
    and c: "c = claim_of token lease now m"
    using some(1) [of token] assms(2) by simp_all
  have inv': "outbox_inv db'"
    unfolding db' by (rule advance_inv [OF inv some(5)])
  have "find_message db' (om_id m) = Some (claimed token lease now m)"
    unfolding db' by (subst find_advance [OF inv some(2)]) simp_all
  then have row: "claimed token lease now m \<in> set (db_messages db')"
    using find_message_mem by blast
  have "find (claim_matches c) (db_messages db') = Some (claimed token lease now m)"
    by (rule find_unique [OF outbox_invD(1) [OF inv'] row])
      (auto simp: c claim_of_def claim_matches_def claimed_def)
  then show ?thesis
    using Cons some(2) db' c by (simp add: locked_claim_def)
qed

section \<open>Finishing a live claim succeeds\<close>

lemma safe_code_length: "validate_effect_error_code code = Inr u \<Longrightarrow> length code \<le> 120"
  by (auto simp: validate_effect_error_code_def MAX_EFFECT_ERROR_CODE_LENGTH_def split: if_splits)

lemma finish_saves:
  assumes inv: "outbox_inv db" and m: "m \<in> set (db_messages db)" and c: "claim_matches c m"
    and t: "cl_claimed_at c \<le> t" and len: "length code \<le> 120"
    and m': "m' = completed st t code m \<and> st \<in> {SUCCEEDED, QUARANTINED} \<or> m' = after_transient code r t m"
  shows "message_save db m' = Inr (put_message db m')"
    and "attempt_create (put_message db m') (claim_attempt c m t out code) =
      Inr (advance db m' [claim_attempt c m t out code] [])"
proof -
  have valid: "message_valid db m" and hist: "message_history db m"
    using outbox_invD [OF inv] m by auto
  have st: "om_status m = PROCESSING" using c by (rule matches_processing)
  have "message_valid db (completed st t code m)" if "st \<in> {SUCCEEDED, QUARANTINED}"
    using valid len that by (cases "find_event db (om_event_id m)")
      (auto simp: message_valid_def completed_def lease_matches_status_def completion_matches_status_def)
  moreover have "message_valid db (after_transient code r t m)"
    using valid len by (cases "find_event db (om_event_id m)")
      (auto simp: message_valid_def after_transient_def lease_matches_status_def completion_matches_status_def)
  ultimately have "message_valid db m'" using m' by blast
  moreover have "message_unique db m'"
    using m' by (intro message_unique_inv [OF inv m]) (auto simp: completed_def after_transient_def)
  ultimately show "message_save db m' = Inr (put_message db m')"
    by (simp add: message_save_def)
  have "om_id m' = om_id m" using m' by auto
  then have "find_message (put_message db m') (om_id m) \<noteq> None"
    using m by (auto simp: find_message_def find_None_iff put_message_def)
  then have "attempt_full_clean (put_message db m') (claim_attempt c m t out code)"
    using valid t len attempt_fresh [OF hist st] c
    by (auto simp: attempt_full_clean_def claim_attempt_def message_valid_def char_field_def put_message_def
        claim_matches_def)
  then show "attempt_create (put_message db m') (claim_attempt c m t out code) =
      Inr (advance db m' [claim_attempt c m t out code] [])"
    by (simp add: attempt_create_def put_then_attempt)
qed

lemmas complete_saves = finish_saves [OF _ _ _ _ _ disjI1 [OF conjI [OF refl]]]
lemmas retry_saves = finish_saves [OF _ _ _ _ _ disjI2 [OF refl]]

lemma finish_success_ok:
  assumes "outbox_inv db" and "locked_claim c db = Inr m" and "cl_claimed_at c \<le> t"
  shows "finish_effect_success c t db =
    Inr (advance db (completed SUCCEEDED t [] m) [claim_attempt c m t OUT_SUCCEEDED []] [])"
  using assms locked_claim_mem [OF assms(2)] complete_saves [OF assms(1) _ _ assms(3), of m "[]" SUCCEEDED]
  by (simp add: finish_effect_success_def flip: completed_def)

lemma finish_permanent_ok:
  assumes "outbox_inv db" and "locked_claim c db = Inr m" and "cl_claimed_at c \<le> t"
    and "validate_effect_error_code code = Inr ()"
  shows "finish_effect_permanent_failure c code t db =
    Inr (advance db (completed QUARANTINED t code m) [claim_attempt c m t PERMANENT_FAILURE code] [])"
  using assms locked_claim_mem [OF assms(2)] complete_saves [OF assms(1) _ _ assms(3) safe_code_length [OF assms(4)], of m QUARANTINED]
  by (simp add: finish_effect_permanent_failure_def flip: completed_def)

lemma finish_transient_ok:
  assumes "outbox_inv db" and "locked_claim c db = Inr m" and "cl_claimed_at c \<le> t"
    and "validate_effect_error_code code = Inr ()" and "0 \<le> r" and "r \<le> MAX_RETRY_DELAY"
  shows "finish_effect_transient_failure c code r t db =
    Inr (advance db (after_transient code r t m)
      [claim_attempt c m t (if om_attempt_count m < om_max_attempts m then TRANSIENT_FAILURE else EXHAUSTED) code] [],
      if om_attempt_count m < om_max_attempts m then RETRY_SCHEDULED else CO_QUARANTINED)"
proof -
  have row: "m\<lparr>om_status := (if om_max_attempts m \<le> om_attempt_count m then QUARANTINED else PENDING),
           om_available_at := t + r,
           om_completed_at := (if om_max_attempts m \<le> om_attempt_count m then Some t else None),
           om_lease_expires_at := None, om_lease_token := None, om_last_error_code := code\<rparr> = after_transient code r t m"
    by (simp add: after_transient_def)
  show ?thesis
    using assms locked_claim_mem [OF assms(2)] retry_saves [OF assms(1) _ _ assms(3) safe_code_length [OF assms(4)], of m]
    unfolding finish_effect_transient_failure_def Let_def row by (auto simp: Let_def row)
qed

section \<open>Replay reasons\<close>

lemma py_split_words: "\<forall>w \<in> set (py_split s). w \<noteq> [] \<and> list_all (\<lambda>c. \<not> is_space c) w"
proof (induction s)
  case (Cons c cs)
  show ?case
  proof (cases "is_space c")
    case False
    show ?thesis
    proof (cases cs)
      case (Cons d ds)
      show ?thesis
      proof (cases "is_space d")
        case True
        then show ?thesis
          using \<open>\<not> is_space c\<close> Cons.IH Cons by (simp del: py_split.simps(2) add: py_split.simps(2) [of c])
      next
        case False
        then show ?thesis
          using \<open>\<not> is_space c\<close> Cons.IH Cons
          by (cases "py_split cs") (simp_all del: py_split.simps(2) add: py_split.simps(2) [of c])
      qed
    qed (use False in simp)
  qed (use Cons.IH in simp)
qed simp

lemma join_words_mem: "ws \<noteq> [] \<Longrightarrow> set (hd ws) \<subseteq> set (join_words ws)"
  by (cases ws rule: join_words.cases) auto

lemma reason_visible:
  assumes "normalize_effect_replay_reason nfc v = Inr why"
  shows "char_field 240 why \<and> \<not> list_all is_space why"
proof -
  from assms obtain s where why: "why = join_words (py_split (nfc s))" "why \<noteq> []" "length why \<le> 240"
    by (auto simp: normalize_effect_replay_reason_def Let_def MAX_EFFECT_REPLAY_REASON_LENGTH_def
        split: typed.splits if_splits)
  then have ne: "py_split (nfc s) \<noteq> []" by auto
  then have "hd (py_split (nfc s)) \<in> set (py_split (nfc s))" by simp
  with py_split_words [of "nfc s"] obtain c where "c \<in> set (hd (py_split (nfc s)))" "\<not> is_space c"
    by (cases "hd (py_split (nfc s))") fastforce+
  with join_words_mem [OF ne] have "\<not> list_all is_space why"
    by (auto simp: why(1) list_all_iff)
  with why show ?thesis by (simp add: char_field_def)
qed

lemma receipt_fresh:
  assumes "message_history db m"
  shows "\<not> list_ex (\<lambda>x. rr_message_id x = om_id m \<and> rr_replay_count x = om_replay_count m + 1) (db_receipts db)"
proof -
  have "om_replay_count m + 1 \<notin> set (receipt_numbers db (om_id m))"
    using assms by (simp add: message_history_def)
  then show ?thesis by (force simp: receipt_numbers_def list_ex_iff)
qed

lemma replay_accepts:
  assumes inv: "outbox_inv db" and m: "find_message db i = Some m" and room: "om_replay_count m < 2147483647"
    and a: "1 \<le> a" "a \<le> 20" and why: "normalize_effect_replay_reason nfc reason = Inr why"
    and st: "om_status m = QUARANTINED" and e: "find_event db (om_event_id m) = Some e"
    and route: "effect_delivery_is_allowed env (event_delivery e (om_organization_id m) (om_destination m)) = Inr True"
    and limit: "om_max_attempts m + a \<le> 100"
  shows "\<exists>r. replay_quarantined_effect env nfc i (PyInt a) actor reason corr created now db = Inr r"
proof -
  have mem: "m \<in> set (db_messages db)" and id: "om_id m = i"
    using find_message_mem [OF m] by auto
  have valid: "message_valid db m" and hist: "message_history db m"
    using outbox_invD [OF inv] mem by auto
  have org: "ev_organization_id e = om_organization_id m"
    using valid e by (simp add: message_valid_def)
  have receipt: "receipt_full_clean db (replay_receipt m a actor why corr created)"
    using m id st valid room a limit receipt_fresh [OF hist] reason_visible [OF why]
    by (simp add: receipt_full_clean_def replay_receipt_def message_valid_def positive_integer_def
        MAX_EFFECT_REPLAY_ADDITIONAL_ATTEMPTS_def MAX_EFFECT_TOTAL_ATTEMPTS_def MAX_EFFECT_REPLAY_REASON_LENGTH_def)
  have v: "message_valid db (replayed a now m)"
    using valid e st room a limit by (auto simp: message_valid_def replayed_def positive_integer_def
        lease_matches_status_def completion_matches_status_def MAX_EFFECT_TOTAL_ATTEMPTS_def)
  have u: "message_unique db (replayed a now m)"
    by (rule message_unique_inv [OF inv mem]) (simp_all add: replayed_def)
  show ?thesis
    using a why m st e org route limit receipt v u
    by (simp add: replay_quarantined_effect_def MAX_EFFECT_REPLAY_ADDITIONAL_ATTEMPTS_def
        require_effect_delivery_allowed_def MAX_EFFECT_TOTAL_ATTEMPTS_def Let_def receipt_create_def
        message_save_def replay_receipt_def replayed_def)
qed

section \<open>Terminal rows\<close>

lemma advance_other:
  assumes "outbox_inv db" and "n \<in> set (db_messages db)" and "om_id n' = om_id n" and "n \<noteq> m"
    and "find_message db i = Some m"
  shows "find_message (advance db n' as rs) i = Some m"
  using assms find_message_inv [OF assms(1,2)] by (auto simp: find_advance [OF assms(1-3)])

lemma claim_terminal:
  assumes inv: "outbox_inv db" and run: "claim_next_effect locked token org pool lease now db = Inr (db', c)"
    and m: "find_message db i = Some m" "om_status m \<in> {SUCCEEDED, CANCELLED}"
  shows "find_message db' i = Some m"
proof -
  have lease: "0 < lease" "lease \<le> MAX_LEASE_DURATION"
    using run by (auto simp: claim_next_effect_def split: if_splits)
  show ?thesis
  proof (cases "claim_candidates locked org pool now db")
    case (Cons n rest)
    have db': "db' = advance db (claimed token lease now n) (expiry_attempts now n) []"
      using claim_some(1) [OF inv lease Cons, of token] run by simp
    have "n \<noteq> m"
      using claim_some(3) [OF inv lease Cons] m(2) by (auto simp: claimable_def ready_def lease_expired_def)
    then show ?thesis
      unfolding db' using advance_other [OF inv claim_some(2) [OF inv lease Cons] row_ids(3) _ m(1)] by blast
  next
    case Nil
    from claim_none [OF inv lease this, of token] run
    have "db_messages db' = map (\<lambda>x. if \<not> locked (om_id x) \<and> exhausted_claim org pool now x
         then completed QUARANTINED now ''attempts_exhausted'' x else x) (db_messages db)" by auto
    then have "find_message db' i = map_option (\<lambda>x. if \<not> locked (om_id x) \<and> exhausted_claim org pool now x
         then completed QUARANTINED now ''attempts_exhausted'' x else x) (find_message db i)"
      by (simp add: find_message_def find_map_same)
    with m show ?thesis
      by (auto simp: exhausted_claim_def lease_expired_def)
  qed
qed

lemma step_terminal:
  assumes inv: "outbox_inv db" and "outbox_step db db'"
    and m: "find_message db i = Some m" and st: "om_status m \<in> {SUCCEEDED, CANCELLED}"
  shows "find_message db' i = Some m"
  using assms(2)
proof cases
  case (step_publish env pc rec destination pool budget occurred e x)
  then have "\<exists>es ms. db' = db\<lparr>db_events := db_events db @ es, db_messages := db_messages db @ ms\<rparr>"
    by (auto simp: publish_domain_event_def result_simps Let_def split: if_splits)
  then show ?thesis
    using m by (auto simp: find_message_def find_append)
next
  case (step_enqueue env pc j destination pool budget x)
  then have "\<exists>ms. db' = db\<lparr>db_messages := db_messages db @ ms\<rparr>"
    by (auto simp: enqueue_event_delivery_def result_simps Let_def split: if_splits option.splits)
  then show ?thesis
    using m by (auto simp: find_append_message)
next
  case (step_claim locked token org pool lease now c)
  from claim_terminal [OF inv this m st] show ?thesis .
next
  case (step_success claim finished)
  then show ?thesis
    using st by (elim finish_success_Inr) (auto intro!: advance_other [OF inv _ _ _ m] simp: claim_matches_def)
next
  case (step_transient claim code retry finished out)
  then show ?thesis
    using st by (elim finish_transient_Inr) (auto intro!: advance_other [OF inv _ _ _ m] simp: claim_matches_def)
next
  case (step_permanent claim code finished)
  then show ?thesis
    using st by (elim finish_permanent_Inr) (auto intro!: advance_other [OF inv _ _ _ m] simp: claim_matches_def)
next
  case (step_cancel j reason now)
  from cancel_Inr [OF this] show ?thesis
  proof (elim disjE exE conjE)
    fix n assume n: "find_message db j = Some n" "om_status n = PENDING"
      and db': "db' = advance db (cancelled reason now n) [] []"
    then have "n \<in> set (db_messages db)" "n \<noteq> m" using st by (auto dest: find_message_mem)
    from advance_other [OF inv this(1) row_ids(4) this(2) m] show ?thesis
      by (simp add: db')
  qed (use m in simp)
next
  case (step_replay env nfc j additional actor reason corr created now x)
  then show ?thesis
    using st by (elim replay_Inr) (auto intro!: advance_other [OF inv _ _ _ m] dest: find_message_mem)
qed

section \<open>A sample run\<close>

definition sample_record :: DomainEventRecord where
  "sample_record = \<lparr>dr_event_name = ''announcements.changed.v1'', dr_schema_version = 1,
     dr_organization_id = 1, dr_event_edition_id = Some 7, dr_aggregate_type = ''announcement'',
     dr_aggregate_id = 3, dr_aggregate_version = 1, dr_payload = JObj [(''operation'', JStr ''create'')],
     dr_correlation_id = 4, dr_causation_id = Some 5, dr_actor_kind = ''account'', dr_actor_id = Some 6,
     dr_retention_class = ''domain-standard''\<rparr>"

definition sample_context :: publish_context where
  "sample_context = \<lparr>pc_in_atomic_block = True, pc_event_id = 10, pc_message_id = 20,
     pc_occurred_now = 100, pc_available_now = 100, pc_created_now = 100\<rparr>"

definition sample_event :: DomainEvent where
  "sample_event = event_of_record 10 100 sample_record"

definition sample_message :: OutboxMessage where
  "sample_message = new_message 20 sample_event ''internal'' ''default'' 2 100 100"

definition sample_db :: effect_db where
  "sample_db = \<lparr>db_events = [sample_event], db_messages = [sample_message], db_attempts = [], db_receipts = []\<rparr>"

lemmas sample_rows = sample_record_def sample_context_def sample_event_def sample_message_def
  event_of_record_def new_message_def

lemma sample_valid_message: "message_valid \<lparr>db_events = [sample_event], db_messages = ms, db_attempts = as, db_receipts = rs\<rparr> sample_message"
  by (simp add: sample_rows message_valid_def char_field_def positive_integer_def find_event_def
      MAX_EFFECT_TOTAL_ATTEMPTS_def lease_matches_status_def completion_matches_status_def)

lemma sample_publish:
  "publish_domain_event sample_routes sample_context sample_record ''internal'' ''default'' (PyInt 2) None empty_db
     = Inr (sample_db, sample_event, sample_message)"
proof -
  have route: "effect_delivery_is_allowed sample_routes (event_delivery sample_event 1 ''internal'') = Inr True"
    by (simp add: sample_rows event_delivery_def sample_routes_def effect_delivery_is_allowed_def
        PAYLOAD_SCOPED_AUTHORIZATION_EVENTS_def edition_route_allowed_def)
  have event: "event_full_clean empty_db sample_event"
    by (simp add: sample_rows event_full_clean_def char_field_def positive_small_integer_def
        positive_big_integer_def empty_db_def)
  have unique: "message_unique (empty_db\<lparr>db_events := [sample_event]\<rparr>) sample_message"
      "find_message (empty_db\<lparr>db_events := [sample_event]\<rparr>) 20 = None"
    by (simp_all add: message_unique_def find_message_def empty_db_def)
  show ?thesis
    using route event unique sample_valid_message [of "[]" "[]" "[]"]
    by (simp add: publish_domain_event_def sample_context_def validate_effect_attempt_budget_def
        MAX_EFFECT_TOTAL_ATTEMPTS_def validate_event_payload_def sample_routes_def sample_record_def Let_def
        sample_event_def require_effect_delivery_allowed_def event_create_def message_create_def empty_db_def
        sample_message_def sample_db_def new_message_def)
qed

lemma sample_reachable: "outbox.reachable sample_db"
  by (rule outbox.reach_step [OF outbox.reach_initial [OF refl] step_publish [OF sample_publish]])

lemma sample_candidates: "claim_candidates (\<lambda>_. False) 1 ''default'' 100 sample_db = [sample_message]"
  by (simp add: claim_candidates_def claimable_def ready_def sample_db_def sample_rows)

lemma sample_claim:
  "claim_next_effect (\<lambda>_. False) 30 1 ''default'' 60 100 sample_db =
     Inr (advance sample_db (claimed 30 60 100 sample_message) [] [], Some (claim_of 30 60 100 sample_message))"
  using claim_some(1) [OF outbox.reachable_inv [OF sample_reachable] _ _ sample_candidates, of 60 30]
  by (simp add: MAX_LEASE_DURATION_def minute_us_def second_us_def expiry_attempts_def sample_rows)
definition sample_claimed_db :: effect_db where
  "sample_claimed_db = advance sample_db (claimed 30 60 100 sample_message) [] []"

lemma sample_claimed_reachable: "outbox.reachable sample_claimed_db"
  unfolding sample_claimed_db_def by (rule outbox.reach_step [OF sample_reachable step_claim [OF sample_claim]])

lemma sample_claimed_row: "locked_claim (claim_of 30 60 100 sample_message) sample_claimed_db = Inr (claimed 30 60 100 sample_message)"
  using claim_takes_first_eligible_row [OF sample_reachable sample_claim]
  by (auto simp: sample_claimed_db_def sample_candidates)

section \<open>Properties\<close>

text \<open>
  C6. In every reachable state of the outbox each message satisfies its row constraints and its
  history is complete: the attempts recorded for it are exactly the numbers from one up to its
  attempt count, without the running one, each once; the replay receipts are exactly the numbers up
  to its replay count; it has a lease exactly while processing and a completion time exactly when
  it is succeeded, quarantined or cancelled; pending work has attempts left; and no message ever has
  more than one hundred recorded attempts.
\<close>

theorem outbox_consistent:
  assumes "outbox.reachable db" and "m \<in> set (db_messages db)"
  shows "set (attempt_numbers db (om_id m)) = {1..(if om_status m = PROCESSING then om_attempt_count m - 1 else om_attempt_count m)}
    \<and> distinct (attempt_numbers db (om_id m))
    \<and> set (receipt_numbers db (om_id m)) = {1..om_replay_count m} \<and> distinct (receipt_numbers db (om_id m))
    \<and> (om_lease_token m \<noteq> None \<longleftrightarrow> om_status m = PROCESSING)
    \<and> (om_completed_at m \<noteq> None \<longleftrightarrow> om_status m \<in> {SUCCEEDED, QUARANTINED, CANCELLED})
    \<and> (om_status m = PENDING \<longrightarrow> om_attempt_count m < om_max_attempts m)
    \<and> om_attempt_count m \<le> om_max_attempts m \<and> om_max_attempts m \<le> 100
    \<and> length (attempt_numbers db (om_id m)) \<le> 100"
proof -
  have inv: "outbox_inv db" using assms(1) by (rule outbox.reachable_inv)
  note row = outbox_invD(3-5) [OF inv assms(2)]
  have "length (attempt_numbers db (om_id m)) = card {1..recorded m}"
    using row(3) by (metis distinct_card message_history_def)
  also have "\<dots> \<le> 100"
    using row(1) by (auto simp: recorded_def message_valid_def MAX_EFFECT_TOTAL_ATTEMPTS_def)
  finally have "length (attempt_numbers db (om_id m)) \<le> 100" .
  then show ?thesis
    using row by (auto simp: message_valid_def message_pace_def message_history_def recorded_def
        lease_matches_status_def completion_matches_status_def MAX_EFFECT_TOTAL_ATTEMPTS_def split: if_splits)
qed

theorem outbox_consistent_witness:
  "sample_message \<in> set (db_messages sample_db) \<and> om_attempt_count sample_message < om_max_attempts sample_message
   \<and> attempt_numbers sample_db 20 = []"
proof -
  have row: "sample_message \<in> set (db_messages sample_db)" by (simp add: sample_db_def)
  from outbox_consistent [OF sample_reachable row] row show ?thesis
    by (simp add: sample_rows)
qed

text \<open>
  A claim is exclusive and in order: on reachable tables a successful claim takes, among the
  unlocked messages of the tenant and pool that are ready or whose lease expired and that have
  attempts left, the first by availability, creation and identifier; it never takes a message whose
  lease is live; the row then carries the new lease and the next attempt number, and no other row
  changes.
\<close>

theorem claim_takes_first_eligible:
  assumes "outbox.reachable db" and "claim_next_effect locked token org pool lease now db = Inr (db', Some c)"
  shows "\<exists>m \<in> set (db_messages db). claimable org pool now m \<and> \<not> locked (om_id m)
    \<and> (\<forall>n \<in> set (db_messages db). claimable org pool now n \<and> \<not> locked (om_id n) \<longrightarrow> claim_order m \<le> claim_order n)
    \<and> (om_status m = PROCESSING \<longrightarrow> (\<exists>l. om_lease_expires_at m = Some l \<and> l \<le> now))
    \<and> c = \<lparr>cl_message_id = om_id m, cl_event_id = om_event_id m, cl_lease_token = token,
           cl_attempt_number = om_attempt_count m + 1, cl_claimed_at = now, cl_lease_expires_at = now + lease\<rparr>
    \<and> locked_claim c db' = Inr (m\<lparr>om_status := PROCESSING, om_claimed_at := Some now,
           om_lease_expires_at := Some (now + lease), om_lease_token := Some token,
           om_attempt_count := om_attempt_count m + 1, om_completed_at := None\<rparr>)
    \<and> (\<forall>i. i \<noteq> om_id m \<longrightarrow> find_message db' i = find_message db i)"
proof -
  obtain m rest where Cons: "claim_candidates locked org pool now db = m # rest" and m: "m \<in> set (db_messages db)"
    and c: "c = claim_of token lease now m"
    and db': "db' = advance db (claimed token lease now m) (expiry_attempts now m) []"
    and row: "locked_claim c db' = Inr (claimed token lease now m)"
    using claim_takes_first_eligible_row [OF assms] by blast
  have "m \<in> set (claim_candidates locked org pool now db)" by (simp add: Cons)
  then have eligible: "claimable org pool now m" "\<not> locked (om_id m)"
    by (simp_all add: claim_candidates_set)
  have first: "claim_order m \<le> claim_order n"
    if "n \<in> set (db_messages db)" "claimable org pool now n" "\<not> locked (om_id n)" for n
  proof -
    have "n \<in> set (m # rest)"
      using that claim_candidates_set [of locked org pool now db] Cons by auto
    moreover have "sorted (map claim_order (m # rest))"
      unfolding Cons [symmetric] claim_candidates_def by simp
    ultimately show ?thesis by auto
  qed
  have expired: "\<exists>l. om_lease_expires_at m = Some l \<and> l \<le> now" if "om_status m = PROCESSING"
    using eligible that by (auto simp: claimable_def ready_def lease_expired_def split: option.splits)
  have find: "find_message db' i = (if i = om_id m then Some (claimed token lease now m) else find_message db i)" for i
    unfolding db' by (rule find_advance [OF outbox.reachable_inv [OF assms(1)] m]) simp
  show ?thesis
    using m eligible first expired row find by (intro bexI [OF _ m]) (auto simp: c claim_of_def claimed_def)
qed

theorem claim_takes_first_eligible_witness:
  "\<exists>db' c. claim_next_effect (\<lambda>_. False) 30 1 ''default'' 60 100 sample_db = Inr (db', Some c)
     \<and> cl_message_id c = 20 \<and> cl_attempt_number c = 1"
  using claim_takes_first_eligible [OF sample_reachable sample_claim] sample_claim
  by (auto simp: sample_db_def sample_rows)

text \<open>
  C7. A claim is finished at most once: after any of the three outcomes of a claim was recorded, the
  same claim is refused as a lost lease for ever, whatever services run in between; a second outcome
  can never be recorded for it.
\<close>

theorem claim_finishes_at_most_once:
  assumes "outbox.reachable db"
    and "finish_effect_success c t db = Inr d
      \<or> (\<exists>code. finish_effect_permanent_failure c code t db = Inr d)
      \<or> (\<exists>code retry out. finish_effect_transient_failure c code retry t db = Inr (d, out))"
    and "outbox_step\<^sup>*\<^sup>* d d'"
  shows "finish_effect_success c t' d' = Inl LeaseLostError
    \<and> finish_effect_permanent_failure c code' t' d' = bindE (validate_effect_error_code code') (\<lambda>_. Inl LeaseLostError)
    \<and> \<not> is_ok (finish_effect_transient_failure c code' retry' t' d')"
proof -
  have inv: "outbox_inv db" using assms(1) by (rule outbox.reachable_inv)
  have spent: "claim_spent c d"
    using assms(2) finish_spends [OF inv] by blast
  have inv_d: "outbox_inv d"
    using assms(2) inv by (auto intro: finish_success_inv finish_permanent_inv finish_transient_inv)
  have "locked_claim c d' = Inl LeaseLostError"
    by (rule spent_lost [OF spent_steps [OF spent inv_d assms(3)] steps_inv [OF assms(3) inv_d]])
  then show ?thesis
    by (simp add: finish_effect_success_def finish_effect_permanent_failure_def finish_effect_transient_failure_def
        is_ok_iff result_simps)
qed

theorem claim_finishes_at_most_once_witness:
  "\<exists>d. finish_effect_success (claim_of 30 60 100 sample_message) 120 sample_claimed_db = Inr d
     \<and> finish_effect_success (claim_of 30 60 100 sample_message) 130 d = Inl LeaseLostError"
proof -
  have "finish_effect_success (claim_of 30 60 100 sample_message) 120 sample_claimed_db =
      Inr (advance sample_claimed_db (completed SUCCEEDED 120 [] (claimed 30 60 100 sample_message))
        [claim_attempt (claim_of 30 60 100 sample_message) (claimed 30 60 100 sample_message) 120 OUT_SUCCEEDED []] [])"
    using finish_success_ok [OF outbox.reachable_inv [OF sample_claimed_reachable] sample_claimed_row]
    by (simp add: claim_of_def)
  with claim_finishes_at_most_once [OF sample_claimed_reachable disjI1 [OF this]] show ?thesis
    by blast
qed

text \<open>
  A superseded worker can do nothing: once a message was claimed again after its lease expired,
  the earlier claim on it is a lost lease in every later state, so of two holders of the same message
  only the newer one can record an outcome.
\<close>

theorem superseded_claim_lost:
  assumes "outbox.reachable db0"
    and "claim_next_effect l1 token1 org1 pool1 lease1 now1 db0 = Inr (db1, Some c1)"
    and "outbox_step\<^sup>*\<^sup>* db1 db2"
    and "claim_next_effect l2 token2 org2 pool2 lease2 now2 db2 = Inr (db3, Some c2)"
    and "cl_message_id c2 = cl_message_id c1" and "outbox_step\<^sup>*\<^sup>* db3 db4"
  shows "locked_claim c1 db4 = Inl LeaseLostError \<and> cl_attempt_number c1 < cl_attempt_number c2"
proof -
  have r1: "outbox.reachable db1"
    by (rule outbox.reach_step [OF assms(1) step_claim [OF assms(2)]])
  have r2: "outbox.reachable db2"
    using assms(3) r1 by (induction rule: rtranclp_induct) (auto intro: outbox.reach_step)
  obtain m1 where m1: "c1 = claim_of token1 lease1 now1 m1" "locked_claim c1 db1 = Inr (claimed token1 lease1 now1 m1)"
    using claim_takes_first_eligible_row [OF assms(1,2)] by blast
  obtain m2 where m2: "c2 = claim_of token2 lease2 now2 m2" "m2 \<in> set (db_messages db2)"
      "locked_claim c2 db3 = Inr (claimed token2 lease2 now2 m2)"
    using claim_takes_first_eligible_row [OF r2 assms(4)] by blast
  have inv: "outbox_inv db1" "outbox_inv db2" "outbox_inv db3"
    using r1 r2 outbox.reachable_inv claim_inv [OF _ assms(4)] by blast+
  have id: "om_id m2 = om_id m1" using assms(5) m1(1) m2(1) by (simp add: claim_of_def)
  have "find_message db1 (om_id m1) = Some (claimed token1 lease1 now1 m1)"
    using find_message_inv [OF inv(1), of "claimed token1 lease1 now1 m1"] locked_claim_mem [OF m1(2)] by simp
  from steps_level [OF assms(3) inv(1) this] find_message_inv [OF inv(2) m2(2)] id
  have "level (claimed token1 lease1 now1 m1) \<le> level m2" by simp
  then have less: "om_attempt_count m1 + 1 \<le> om_attempt_count m2"
    by (simp add: level_def claimed_def split: if_splits)
  have "find_message db3 (om_id m2) = Some (claimed token2 lease2 now2 m2)"
    using find_message_inv [OF inv(3), of "claimed token2 lease2 now2 m2"] locked_claim_mem [OF m2(3)] by simp
  then have "claim_spent c1 db3"
    using less id by (auto simp: claim_spent_def m1(1) claim_of_def level_def claimed_def)
  then show ?thesis
    using spent_lost [OF spent_steps [OF _ inv(3) assms(6)] steps_inv [OF assms(6) inv(3)]] less
    by (simp add: m1(1) m2(1) claim_of_def)
qed

theorem superseded_claim_lost_witness:
  "\<exists>db c. claim_next_effect (\<lambda>_. False) 31 1 ''default'' 60 160 sample_claimed_db = Inr (db, Some c)
     \<and> locked_claim (claim_of 30 60 100 sample_message) db = Inl LeaseLostError"
proof -
  have "claim_candidates (\<lambda>_. False) 1 ''default'' 160 sample_claimed_db = [claimed 30 60 100 sample_message]"
    by (simp add: claim_candidates_def claimable_def lease_expired_def sample_claimed_db_def sample_db_def
        claimed_def sample_rows)
  from claim_some(1) [OF outbox.reachable_inv [OF sample_claimed_reachable] _ _ this, of 60 31]
  have again: "claim_next_effect (\<lambda>_. False) 31 1 ''default'' 60 160 sample_claimed_db =
      Inr (advance sample_claimed_db (claimed 31 60 160 (claimed 30 60 100 sample_message))
             (expiry_attempts 160 (claimed 30 60 100 sample_message)) [],
           Some (claim_of 31 60 160 (claimed 30 60 100 sample_message)))"
    by (simp add: MAX_LEASE_DURATION_def minute_us_def second_us_def)
  have "cl_message_id (claim_of 31 60 160 (claimed 30 60 100 sample_message))
      = cl_message_id (claim_of 30 60 100 sample_message)"
    by (simp add: claim_of_def)
  from superseded_claim_lost [OF sample_reachable sample_claim rtranclp.rtrancl_refl again [unfolded sample_claimed_db_def] this
      rtranclp.rtrancl_refl] again
  show ?thesis unfolding sample_claimed_db_def by blast
qed

text \<open>
  C8. Replay is exact and accounted: on reachable tables a replay with room in the replay counter
  succeeds if and only if the requested increase is an integer from 1 to 20, the reason is non-blank
  text of at most 240 characters after normalization, the message exists and is quarantined, its
  route is still allowed, and the raised limit stays within one hundred. It then makes the message
  pending with attempts left, keeps its attempt history, and appends exactly one receipt with the
  next replay number and the old and new limits.
\<close>

theorem replay_exact:
  assumes "outbox.reachable db" and "find_message db i = Some m" and "om_replay_count m < 2147483647"
  shows "(is_ok (replay_quarantined_effect env nfc i additional actor reason corr created now db) \<longleftrightarrow>
      (\<exists>a why e. additional = PyInt a \<and> 1 \<le> a \<and> a \<le> 20 \<and> normalize_effect_replay_reason nfc reason = Inr why
        \<and> om_status m = QUARANTINED \<and> find_event db (om_event_id m) = Some e
        \<and> effect_delivery_is_allowed env (event_delivery e (om_organization_id m) (om_destination m)) = Inr True
        \<and> om_max_attempts m + a \<le> 100))
    \<and> (\<forall>db' m'. replay_quarantined_effect env nfc i additional actor reason corr created now db = Inr (db', m') \<longrightarrow>
      find_message db' i = Some m' \<and> om_status m' = PENDING \<and> om_attempt_count m' < om_max_attempts m'
      \<and> om_attempt_count m' = om_attempt_count m \<and> db_attempts db' = db_attempts db
      \<and> (\<exists>r. db_receipts db' = db_receipts db @ [r] \<and> rr_message_id r = i \<and> rr_actor_id r = actor
          \<and> rr_replay_count r = om_replay_count m + 1 \<and> rr_previous_max_attempts r = om_max_attempts m
          \<and> rr_new_max_attempts r = om_max_attempts m'))" (is "(?ok \<longleftrightarrow> ?cond) \<and> ?effect")
proof (intro conjI iffI)
  have inv: "outbox_inv db" using assms(1) by (rule outbox.reachable_inv)
  have mem: "m \<in> set (db_messages db)" "om_id m = i" using find_message_mem [OF assms(2)] by auto
  show ?effect
  proof (intro allI impI)
    fix db' m'
    assume "replay_quarantined_effect env nfc i additional actor reason corr created now db = Inr (db', m')"
    then obtain a why where a: "1 \<le> a" and m': "m' = replayed a now m"
      and db': "db' = advance db m' [] [replay_receipt m a actor why corr created]"
      using assms(2) by (elim replay_Inr) auto
    have "om_attempt_count m \<le> om_max_attempts m"
      using outbox_invD(3) [OF inv mem(1)] by (simp add: message_valid_def)
    then show "find_message db' i = Some m' \<and> om_status m' = PENDING \<and> om_attempt_count m' < om_max_attempts m'
      \<and> om_attempt_count m' = om_attempt_count m \<and> db_attempts db' = db_attempts db
      \<and> (\<exists>r. db_receipts db' = db_receipts db @ [r] \<and> rr_message_id r = i \<and> rr_actor_id r = actor
          \<and> rr_replay_count r = om_replay_count m + 1 \<and> rr_previous_max_attempts r = om_max_attempts m
          \<and> rr_new_max_attempts r = om_max_attempts m')"
      using a mem find_advance [OF inv mem(1), of m' "[]" "[replay_receipt m a actor why corr created]" i]
      by (simp add: db' m' replay_receipt_def) (simp add: replayed_def)
  qed
  show ?cond if ?ok
  proof -
    from that obtain db' m' where
      "replay_quarantined_effect env nfc i additional actor reason corr created now db = Inr (db', m')"
      by (auto simp: is_ok_iff)
    with assms(2) show ?cond by (elim replay_Inr) auto
  qed
  show ?ok if ?cond
    using that replay_accepts [OF inv assms(2,3)] by (auto simp: is_ok_iff)
qed

definition sample_quarantined_db :: effect_db where
  "sample_quarantined_db = advance sample_claimed_db
     (completed QUARANTINED 120 ''broken'' (claimed 30 60 100 sample_message))
     [claim_attempt (claim_of 30 60 100 sample_message) (claimed 30 60 100 sample_message) 120 PERMANENT_FAILURE ''broken''] []"

lemma sample_quarantined:
  "outbox.reachable sample_quarantined_db"
  "find_message sample_quarantined_db 20 = Some (completed QUARANTINED 120 ''broken'' (claimed 30 60 100 sample_message))"
proof -
  have "finish_effect_permanent_failure (claim_of 30 60 100 sample_message) ''broken'' 120 sample_claimed_db
      = Inr sample_quarantined_db"
    unfolding sample_quarantined_db_def
    by (rule finish_permanent_ok [OF outbox.reachable_inv [OF sample_claimed_reachable] sample_claimed_row])
      (simp_all add: claim_of_def validate_effect_error_code_def MAX_EFFECT_ERROR_CODE_LENGTH_def is_lower_def
        is_code_char_def)
  then show "outbox.reachable sample_quarantined_db"
    by (rule outbox.reach_step [OF sample_claimed_reachable step_permanent])
  show "find_message sample_quarantined_db 20 = Some (completed QUARANTINED 120 ''broken'' (claimed 30 60 100 sample_message))"
    unfolding sample_quarantined_db_def using locked_claim_mem [OF sample_claimed_row]
    by (subst find_advance [OF outbox.reachable_inv [OF sample_claimed_reachable]]) (auto simp: sample_rows claimed_def)
qed

theorem replay_exact_witness:
  "is_ok (replay_quarantined_effect sample_routes (\<lambda>s. s) 20 (PyInt 3) 6 (Typed '' retry  now '') 8 200 200 sample_quarantined_db)"
proof -
  have event: "find_event sample_quarantined_db 10 = Some sample_event"
    by (simp add: find_event_def sample_quarantined_db_def sample_claimed_db_def sample_db_def sample_rows)
  have route: "effect_delivery_is_allowed sample_routes (event_delivery sample_event 1 ''internal'') = Inr True"
    by (simp add: sample_rows event_delivery_def sample_routes_def effect_delivery_is_allowed_def
        PAYLOAD_SCOPED_AUTHORIZATION_EVENTS_def edition_route_allowed_def)
  have reason: "normalize_effect_replay_reason (\<lambda>s. s) (Typed '' retry  now '') = Inr ''retry now''"
    by (simp add: normalize_effect_replay_reason_def is_space_def MAX_EFFECT_REPLAY_REASON_LENGTH_def)
  have row: "om_replay_count (completed QUARANTINED 120 ''broken'' (claimed 30 60 100 sample_message)) = 0"
    by (simp add: completed_def claimed_def sample_rows)
  show ?thesis
    using replay_exact [OF sample_quarantined, of sample_routes "\<lambda>s. s" "PyInt 3" 6 "Typed '' retry  now ''" 8 200 200]
      event route reason row by (simp add: completed_def claimed_def sample_message_def new_message_def sample_event_def
        event_of_record_def sample_record_def)
qed

text \<open>
  Succeeded and cancelled messages are final: whatever services run afterwards, the row of a
  message that succeeded or was cancelled never changes again, so a delivered effect is never
  delivered anew and a cancelled one is never started.
\<close>

theorem terminal_messages_final:
  assumes "outbox.reachable db" and "find_message db i = Some m" and "om_status m \<in> {SUCCEEDED, CANCELLED}"
    and "outbox_step\<^sup>*\<^sup>* db db'"
  shows "find_message db' i = Some m"
  using assms(4)
proof (induction rule: rtranclp_induct)
  case base
  then show ?case using assms(2) by blast
next
  case (step d d')
  from step_terminal [OF steps_inv [OF step.hyps(1) outbox.reachable_inv [OF assms(1)]] step.hyps(2) step.IH assms(3)]
  show ?case .
qed

definition sample_cancelled_db :: effect_db where
  "sample_cancelled_db = advance sample_db (cancelled ''withdrawn'' 110 sample_message) [] []"

lemma sample_cancel: "cancel_pending_effect 20 ''withdrawn'' 110 sample_db = Inr sample_cancelled_db"
proof -
  have row: "find_message sample_db 20 = Some sample_message" "om_status sample_message = PENDING"
    by (simp_all add: find_message_def sample_db_def sample_rows)
  have "validate_effect_error_code ''withdrawn'' = Inr ()"
    by (simp add: validate_effect_error_code_def MAX_EFFECT_ERROR_CODE_LENGTH_def is_lower_def is_code_char_def)
  moreover have "message_valid sample_db (cancelled ''withdrawn'' 110 sample_message)"
      "message_unique sample_db (cancelled ''withdrawn'' 110 sample_message)"
    by (simp_all add: sample_db_def sample_rows cancelled_def message_valid_def char_field_def positive_integer_def
        find_event_def MAX_EFFECT_TOTAL_ATTEMPTS_def lease_matches_status_def completion_matches_status_def
        message_unique_def)
  ultimately show ?thesis
    using row by (simp add: cancel_pending_effect_def message_save_def put_is_advance sample_cancelled_db_def
        cancelled_def)
qed

theorem terminal_messages_final_witness:
  "find_message sample_cancelled_db 20 = Some (cancelled ''withdrawn'' 110 sample_message)"
proof -
  have "find_message sample_cancelled_db 20 = Some (cancelled ''withdrawn'' 110 sample_message)"
    by (simp add: sample_cancelled_db_def find_message_def sample_db_def sample_rows cancelled_def)
  from terminal_messages_final [OF outbox.reach_step [OF sample_reachable step_cancel [OF sample_cancel]] this
      _ rtranclp.rtrancl_refl] show ?thesis
    by (simp add: cancelled_def)
qed

end
