(* ===== verification/Effect_Worker.thy ===== *)
theory Effect_Worker
  imports Outbox_Props
begin

text \<open>
  The effect worker (\<open>src/src/maru/effects/worker.py\<close>) and its supervisor (\<open>supervisor.py\<close>): running a
  handler under a claim, recording its outcome, and choosing the next tenant. A handler is a
  function of its event and context; what it and other transactions do to the tables while it runs
  is the argument \<open>during\<close>, and the clock readings are arguments.
\<close>

section \<open>Running a claimed effect\<close>

definition DEFAULT_RETRY_DELAY :: duration where
  "DEFAULT_RETRY_DELAY = 30 * second_us"

record EffectContext =
  cx_event_id :: uuid
  cx_idempotency_key :: string
  cx_organization_id :: uuid
  cx_correlation_id :: uuid
  cx_attempt_number :: int
  cx_deadline :: instant

text \<open>
  How a handler ends. The constructors of both error classes validate the code and raise a
  \<open>ValidationError\<close>, an unexpected exception for the worker, when it is unsafe.
\<close>

datatype handler_result =
    Returned | RaisedPermanent string | RaisedTransient string duration | RaisedUnexpected

definition PermanentEffectError :: "string \<Rightarrow> handler_result" where
  "PermanentEffectError code =
     (case validate_effect_error_code code of Inl _ \<Rightarrow> RaisedUnexpected | Inr _ \<Rightarrow> RaisedPermanent code)"

definition TransientEffectError :: "string \<Rightarrow> duration \<Rightarrow> handler_result" where
  "TransientEffectError code retry_after =
     (case validate_effect_error_code code of Inl _ \<Rightarrow> RaisedUnexpected | Inr _ \<Rightarrow> RaisedTransient code retry_after)"

definition EffectTimeoutError :: handler_result where
  "EffectTimeoutError = TransientEffectError ''handler_timeout'' DEFAULT_RETRY_DELAY"

type_synonym effect_handler = "DomainEvent \<Rightarrow> EffectContext \<Rightarrow> handler_result"
type_synonym handler_registry = "string \<times> string \<Rightarrow> effect_handler option"

definition register :: "event_registry \<Rightarrow> string \<Rightarrow> string \<Rightarrow> effect_handler \<Rightarrow> handler_registry
    \<Rightarrow> maru_error + handler_registry" where
  "register event_definition event_name destination handler handlers =
     (if event_definition event_name = None then Inl (invalid ''unknown_domain_event'')
      else if handlers (event_name, destination) \<noteq> None then Inl (invalid ''duplicate_effect_handler'')
      else Inr (handlers((event_name, destination) \<mapsto> handler)))"

datatype RunOutcome = RO_SUCCEEDED | RO_RETRY_SCHEDULED | RO_QUARANTINED | RO_LEASE_LOST

record RunResult =
  rs_outcome :: RunOutcome
  rs_error_code :: string

definition lease_lost_result :: RunResult where
  "lease_lost_result = \<lparr>rs_outcome = RO_LEASE_LOST, rs_error_code = ''lease_lost''\<rparr>"

definition active_message :: "ClaimedEffect \<Rightarrow> instant \<Rightarrow> effect_db \<Rightarrow> OutboxMessage option" where
  "active_message claim now db =
     (if cl_lease_expires_at claim \<le> now then None
      else find (\<lambda>m. claim_matches claim m
                  \<and> (case om_lease_expires_at m of None \<Rightarrow> False | Some t \<Rightarrow> now < t)) (db_messages db))"

definition mark_permanent :: "ClaimedEffect \<Rightarrow> string \<Rightarrow> instant \<Rightarrow> effect_db
    \<Rightarrow> maru_error + effect_db \<times> RunResult" where
  "mark_permanent claim error_code finished db =
     (case finish_effect_permanent_failure claim error_code finished db of
        Inl LeaseLostError \<Rightarrow> Inr (db, lease_lost_result)
      | Inl e \<Rightarrow> Inl e
      | Inr db' \<Rightarrow> Inr (db', \<lparr>rs_outcome = RO_QUARANTINED, rs_error_code = error_code\<rparr>))"

definition mark_transient :: "ClaimedEffect \<Rightarrow> string \<Rightarrow> duration \<Rightarrow> instant \<Rightarrow> effect_db
    \<Rightarrow> maru_error + effect_db \<times> RunResult" where
  "mark_transient claim error_code retry_after finished db =
     (case finish_effect_transient_failure claim error_code retry_after finished db of
        Inl LeaseLostError \<Rightarrow> Inr (db, lease_lost_result)
      | Inl e \<Rightarrow> Inl e
      | Inr (db', outcome) \<Rightarrow>
          Inr (db', \<lparr>rs_outcome = (if outcome = CO_QUARANTINED then RO_QUARANTINED else RO_RETRY_SCHEDULED),
                     rs_error_code = error_code\<rparr>))"

definition mark_success :: "ClaimedEffect \<Rightarrow> instant \<Rightarrow> effect_db \<Rightarrow> maru_error + effect_db \<times> RunResult" where
  "mark_success claim finished db =
     (case finish_effect_success claim finished db of
        Inl LeaseLostError \<Rightarrow> Inr (db, lease_lost_result)
      | Inl e \<Rightarrow> Inl e
      | Inr db' \<Rightarrow> Inr (db', \<lparr>rs_outcome = RO_SUCCEEDED, rs_error_code = []\<rparr>))"

text \<open>The handler call and the deadline check after it: a late return counts as a timeout.\<close>

definition handler_outcome :: "effect_handler \<Rightarrow> DomainEvent \<Rightarrow> EffectContext \<Rightarrow> instant \<Rightarrow> handler_result" where
  "handler_outcome handler event cx now =
     (case handler event cx of
        Returned \<Rightarrow> if cx_deadline cx \<le> now then EffectTimeoutError else Returned
      | r \<Rightarrow> r)"

definition record_outcome :: "ClaimedEffect \<Rightarrow> handler_result \<Rightarrow> instant \<Rightarrow> effect_db
    \<Rightarrow> maru_error + effect_db \<times> RunResult" where
  "record_outcome claim result finished db =
     (case result of
        RaisedPermanent code \<Rightarrow> mark_permanent claim code finished db
      | RaisedTransient code retry_after \<Rightarrow> mark_transient claim code retry_after finished db
      | RaisedUnexpected \<Rightarrow> mark_transient claim ''unhandled_handler_error'' DEFAULT_RETRY_DELAY finished db
      | Returned \<Rightarrow> mark_success claim finished db)"

record run_clock =
  rc_started :: instant
  rc_returned :: instant
  rc_finished :: instant

definition effect_context :: "ClaimedEffect \<Rightarrow> OutboxMessage \<Rightarrow> DomainEvent \<Rightarrow> instant \<Rightarrow> duration \<Rightarrow> EffectContext" where
  "effect_context claim message event started_at execution_timeout =
     \<lparr>cx_event_id = om_event_id message, cx_idempotency_key = uuid_str (om_event_id message),
      cx_organization_id = om_organization_id message, cx_correlation_id = ev_correlation_id event,
      cx_attempt_number = cl_attempt_number claim,
      cx_deadline = min (cl_lease_expires_at claim) (started_at + execution_timeout)\<rparr>"

definition run_claimed_effect ::
    "route_env \<Rightarrow> handler_registry \<Rightarrow> duration \<Rightarrow> run_clock \<Rightarrow> (effect_db \<Rightarrow> effect_db) \<Rightarrow> ClaimedEffect \<Rightarrow> effect_db
      \<Rightarrow> maru_error + effect_db \<times> RunResult" where
  "run_claimed_effect env handlers execution_timeout clock during claim db =
     (if execution_timeout \<le> 0 \<or> MAX_LEASE_DURATION < execution_timeout
      then Inl (invalid ''invalid_execution_timeout'')
      else case active_message claim (rc_started clock) db of
        None \<Rightarrow> Inr (db, lease_lost_result)
      | Some message \<Rightarrow>
          (case find_event db (om_event_id message) of
             None \<Rightarrow> Inl DoesNotExist
           | Some event \<Rightarrow>
               (case validate_event_payload (re_event_definition env) (ev_event_name event)
                       (ev_schema_version event) (ev_payload event) of
                  Inl (ValidationError _) \<Rightarrow>
                    mark_permanent claim ''invalid_event_payload'' (rc_finished clock) (during db)
                | Inl e \<Rightarrow> Inl e
                | Inr _ \<Rightarrow>
                    bindE (effect_delivery_is_allowed env
                             (event_delivery event (om_organization_id message) (om_destination message)))
                      (\<lambda>allowed.
                    if \<not> allowed
                    then mark_permanent claim EFFECT_PROFILE_NOT_ALLOWED (rc_finished clock) (during db)
                    else case handlers (ev_event_name event, om_destination message) of
                      None \<Rightarrow> mark_permanent claim ''handler_not_registered'' (rc_finished clock) (during db)
                    | Some handler \<Rightarrow>
                        record_outcome claim
                          (handler_outcome handler event
                             (effect_context claim message event (rc_started clock) execution_timeout)
                             (rc_returned clock))
                          (rc_finished clock) (during db)))))"

section \<open>The supervisor\<close>

text \<open>\<open>ordered.index(x)\<close>: the first position of an element that is present.\<close>

definition index_of :: "'a list \<Rightarrow> 'a \<Rightarrow> nat" where
  "index_of xs x = length (takeWhile (\<lambda>y. y \<noteq> x) xs)"

definition select :: "uuid option \<Rightarrow> uuid list \<Rightarrow> uuid option \<times> uuid option" where
  "select last_served candidates =
     (let ordered = sort_key uuid_str (remdups candidates) in
      case ordered of
        [] \<Rightarrow> (last_served, None)
      | first # _ \<Rightarrow>
          let selected = (case last_served of
                None \<Rightarrow> first
              | Some l \<Rightarrow> if l \<notin> set ordered then first
                          else ordered ! ((index_of ordered l + 1) mod length ordered))
          in (Some selected, Some selected))"

definition eligible_tenant_ids :: "string \<Rightarrow> instant \<Rightarrow> effect_db \<Rightarrow> uuid list" where
  "eligible_tenant_ids pool now db =
     sort (remdups (map om_organization_id
       (filter (\<lambda>m. (ready now m \<and> om_attempt_count m < om_max_attempts m \<or> lease_expired now m)
                   \<and> om_workload_pool m = pool) (db_messages db))))"

datatype ChildOutcome = COMPLETED | FAILED | TIMED_OUT

text \<open>A child process ends with a return code, or the hard timeout ends it.\<close>

definition run_effect_child :: "int option \<Rightarrow> ChildOutcome \<times> int option" where
  "run_effect_child process =
     (case process of
        None \<Rightarrow> (TIMED_OUT, None)
      | Some returncode \<Rightarrow> if returncode \<noteq> 0 then (FAILED, Some returncode) else (COMPLETED, Some returncode))"

text \<open>Successive choices of one scheduler over the candidate lists of successive cycles.\<close>

fun selections :: "uuid option \<Rightarrow> uuid list list \<Rightarrow> uuid option list" where
  "selections last_served [] = []"
| "selections last_served (candidates # rest) =
     (case select last_served candidates of (last', chosen) \<Rightarrow> chosen # selections last' rest)"

section \<open>Lemmas\<close>

text \<open>What a recorded outcome leaves behind: one attempt under the claim's number, on its row.\<close>

definition outcome_recorded :: "ClaimedEffect \<Rightarrow> instant \<Rightarrow> effect_db \<Rightarrow> effect_db \<Rightarrow> RunResult \<Rightarrow> bool" where
  "outcome_recorded claim finished d db' res \<longleftrightarrow>
     (if rs_outcome res = RO_LEASE_LOST then db' = d
      else \<exists>m' a. find_message db' (cl_message_id claim) = Some m'
        \<and> db_attempts db' = db_attempts d @ [a]
        \<and> at_message_id a = cl_message_id claim \<and> at_attempt_number a = cl_attempt_number claim
        \<and> at_lease_token a = cl_lease_token claim \<and> at_error_code a = rs_error_code res
        \<and> om_lease_token m' = None
        \<and> (case rs_outcome res of
             RO_SUCCEEDED \<Rightarrow> om_status m' = SUCCEEDED \<and> at_outcome a = OUT_SUCCEEDED
           | RO_RETRY_SCHEDULED \<Rightarrow> om_status m' = PENDING \<and> at_outcome a = TRANSIENT_FAILURE
               \<and> om_attempt_count m' < om_max_attempts m'
               \<and> finished \<le> om_available_at m' \<and> om_available_at m' \<le> finished + MAX_RETRY_DELAY
           | RO_QUARANTINED \<Rightarrow> om_status m' = QUARANTINED \<and> at_outcome a \<in> {PERMANENT_FAILURE, EXHAUSTED}
           | RO_LEASE_LOST \<Rightarrow> False))"

lemma advance_recorded:
  assumes "outbox_inv d" and "m \<in> set (db_messages d)" and "claim_matches claim m" and "om_id m' = om_id m"
    and "a = claim_attempt claim m finished out code"
    and "rs_outcome res \<noteq> RO_LEASE_LOST" and "rs_error_code res = code" and "om_lease_token m' = None"
    and "case rs_outcome res of
             RO_SUCCEEDED \<Rightarrow> om_status m' = SUCCEEDED \<and> out = OUT_SUCCEEDED
           | RO_RETRY_SCHEDULED \<Rightarrow> om_status m' = PENDING \<and> out = TRANSIENT_FAILURE
               \<and> om_attempt_count m' < om_max_attempts m'
               \<and> finished \<le> om_available_at m' \<and> om_available_at m' \<le> finished + MAX_RETRY_DELAY
           | RO_QUARANTINED \<Rightarrow> om_status m' = QUARANTINED \<and> out \<in> {PERMANENT_FAILURE, EXHAUSTED}
           | RO_LEASE_LOST \<Rightarrow> False"
  shows "outcome_recorded claim finished d (advance d m' [a] []) res"
proof -
  have "find_message (advance d m' [a] []) (cl_message_id claim) = Some m'"
    using assms(3,4) by (subst find_advance [OF assms(1,2,4)]) (simp add: claim_matches_def)
  with assms show ?thesis
    unfolding outcome_recorded_def by (auto simp: claim_attempt_def claim_matches_def split: RunOutcome.splits)
qed

lemma mark_permanent_recorded:
  assumes "outbox_inv d" and "mark_permanent claim code finished d = Inr (db', res)"
  shows "outcome_recorded claim finished d db' res"
proof (cases "finish_effect_permanent_failure claim code finished d")
  case (Inl e)
  with assms(2) show ?thesis
    by (cases e) (auto simp: mark_permanent_def outcome_recorded_def lease_lost_result_def)
next
  case (Inr x)
  with assms(2) have res: "db' = x" "res = \<lparr>rs_outcome = RO_QUARANTINED, rs_error_code = code\<rparr>"
    by (auto simp: mark_permanent_def)
  from Inr show ?thesis
    by (elim finish_permanent_Inr)
      (auto simp: res completed_def intro!: advance_recorded [OF assms(1)])
qed

lemma mark_success_recorded:
  assumes "outbox_inv d" and "mark_success claim finished d = Inr (db', res)"
  shows "outcome_recorded claim finished d db' res"
proof (cases "finish_effect_success claim finished d")
  case (Inl e)
  with assms(2) show ?thesis
    by (cases e) (auto simp: mark_success_def outcome_recorded_def lease_lost_result_def)
next
  case (Inr x)
  with assms(2) have res: "db' = x" "res = \<lparr>rs_outcome = RO_SUCCEEDED, rs_error_code = []\<rparr>"
    by (auto simp: mark_success_def)
  from Inr show ?thesis
    by (elim finish_success_Inr)
      (auto simp: res completed_def intro!: advance_recorded [OF assms(1)])
qed

lemma mark_transient_recorded:
  assumes "outbox_inv d" and "mark_transient claim code retry finished d = Inr (db', res)"
  shows "outcome_recorded claim finished d db' res"
proof (cases "finish_effect_transient_failure claim code retry finished d")
  case (Inl e)
  with assms(2) show ?thesis
    by (cases e) (auto simp: mark_transient_def outcome_recorded_def lease_lost_result_def)
next
  case (Inr x)
  obtain y out where x: "x = (y, out)" by (cases x)
  with assms(2) Inr have res: "db' = y"
      "res = \<lparr>rs_outcome = (if out = CO_QUARANTINED then RO_QUARANTINED else RO_RETRY_SCHEDULED), rs_error_code = code\<rparr>"
    by (auto simp: mark_transient_def)
  from Inr [unfolded x] show ?thesis
    by (elim finish_transient_Inr)
      (auto simp: res after_transient_def intro!: advance_recorded [OF assms(1)])
qed

lemma record_outcome_recorded:
  assumes "outbox_inv d" and "record_outcome claim result finished d = Inr (db', res)"
  shows "outcome_recorded claim finished d db' res"
  using assms mark_permanent_recorded mark_transient_recorded mark_success_recorded
  by (cases result) (auto simp: record_outcome_def)

lemma index_of_nth: "distinct xs \<Longrightarrow> k < length xs \<Longrightarrow> index_of xs (xs ! k) = k"
proof (induction xs arbitrary: k)
  case (Cons x xs)
  then show ?case
    by (cases k) (auto simp: index_of_def)
qed simp

lemma select_next:
  assumes "queue = sort_key uuid_str (remdups candidates)" and "k < length queue"
  shows "select (Some (queue ! k)) candidates =
    (Some (queue ! (Suc k mod length queue)), Some (queue ! (Suc k mod length queue)))"
proof -
  have "distinct queue" using assms(1) by simp
  then have "index_of queue (queue ! k) = k" using assms(2) by (rule index_of_nth)
  moreover have "queue ! k \<in> set queue" using assms(2) by simp
  moreover have "queue \<noteq> []" using assms(2) by (cases queue) simp_all
  then obtain x xs where "queue = x # xs" by (meson neq_Nil_conv)
  ultimately show ?thesis
    unfolding select_def assms(1) [symmetric] Let_def by simp
qed

lemma selections_run:
  assumes "queue = sort_key uuid_str (remdups candidates)" and "k < length queue"
  shows "selections (Some (queue ! k)) (replicate n candidates) =
    map (\<lambda>i. Some (queue ! (Suc (k + i) mod length queue))) [0..<n]"
  using assms(2)
proof (induction n arbitrary: k)
  case (Suc n)
  have pos: "0 < length queue" using Suc.prems by linarith
  have "selections (Some (queue ! (Suc k mod length queue))) (replicate n candidates) =
      map (\<lambda>i. Some (queue ! (Suc (Suc k mod length queue + i) mod length queue))) [0..<n]"
    using pos by (intro Suc.IH) simp
  moreover have "Suc (Suc k mod length queue + i) mod length queue = Suc (k + Suc i) mod length queue" for i
    by (metis add_Suc add_Suc_right mod_add_left_eq)
  ultimately show ?case
    using select_next [OF assms(1) Suc.prems] by (simp add: upt_conv_Cons map_Suc_upt [symmetric] del: upt_Suc)
qed simp

lemma rotation_permutes:
  assumes "distinct xs" and "xs \<noteq> []"
  shows "set (map (\<lambda>i. xs ! ((k + i) mod length xs)) [0..<length xs]) = set xs"
    and "distinct (map (\<lambda>i. xs ! ((k + i) mod length xs)) [0..<length xs])"
proof -
  have "map (\<lambda>i. xs ! ((k + i) mod length xs)) [0..<length xs] = rotate k xs"
    by (rule nth_equalityI) (simp_all add: nth_rotate)
  then show "set (map (\<lambda>i. xs ! ((k + i) mod length xs)) [0..<length xs]) = set xs"
    and "distinct (map (\<lambda>i. xs ! ((k + i) mod length xs)) [0..<length xs])"
    using assms by simp_all
qed

lemma select_start:
  assumes "queue = sort_key uuid_str (remdups candidates)" and "queue \<noteq> []"
  shows "\<exists>k < length queue. select served candidates = (Some (queue ! k), Some (queue ! k))"
proof -
  obtain x xs where ord: "queue = x # xs" using assms(2) by (meson neq_Nil_conv)
  have "\<exists>y \<in> set queue. select served candidates = (Some y, Some y)"
    unfolding select_def assms(1) [symmetric] Let_def
    using nth_mem [of "(index_of queue l + 1) mod length queue" queue for l] by (cases served) (auto simp: ord)
  then show ?thesis
    by (metis in_set_conv_nth)
qed

lemma selections_round:
  assumes "candidates \<noteq> []"
  shows "\<exists>k. selections served (replicate n candidates) =
    map (\<lambda>i. Some (sort_key uuid_str (remdups candidates) ! ((k + i) mod length (remdups candidates)))) [0..<n]"
proof (cases n)
  case 0
  then show ?thesis by simp
next
  case (Suc n')
  define queue where "queue = sort_key uuid_str (remdups candidates)"
  have "set queue = set candidates" by (simp add: queue_def)
  then have "queue \<noteq> []" using assms by auto
  from select_start [OF queue_def this, of served] obtain k where
    k: "k < length queue" "select served candidates = (Some (queue ! k), Some (queue ! k))" by blast
  have "selections served (replicate n candidates) =
      Some (queue ! k) # map (\<lambda>i. Some (queue ! (Suc (k + i) mod length queue))) [0..<n']"
    using k selections_run [OF queue_def k(1), of n'] by (simp add: Suc)
  also have "\<dots> = map (\<lambda>i. Some (queue ! ((k + i) mod length queue))) [0..<n]"
    using k(1) by (simp add: Suc upt_conv_Cons map_Suc_upt [symmetric] del: upt_Suc)
  finally show ?thesis
    by (auto simp: queue_def)
qed

subsection \<open>A sample run\<close>

abbreviation sample_claim_held :: ClaimedEffect where
  "sample_claim_held \<equiv> claim_of 30 60 100 sample_message"

definition sample_handlers :: "handler_result \<Rightarrow> handler_registry" where
  "sample_handlers r = [(''announcements.changed.v1'', ''internal'') \<mapsto> (\<lambda>_ _. r)]"

definition sample_clock :: run_clock where
  "sample_clock = \<lparr>rc_started = 110, rc_returned = 115, rc_finished = 120\<rparr>"

lemma sample_active: "active_message sample_claim_held 110 sample_claimed_db = Some (claimed 30 60 100 sample_message)"
  by (simp add: active_message_def claim_of_def claim_matches_def claimed_def sample_claimed_db_def sample_db_def
      sample_rows)

lemma sample_facts:
  "find_event sample_claimed_db 10 = Some sample_event"
  "validate_event_payload (re_event_definition sample_routes) (ev_event_name sample_event)
     (ev_schema_version sample_event) (ev_payload sample_event) = Inr ()"
  "effect_delivery_is_allowed sample_routes (event_delivery sample_event 1 ''internal'') = Inr True"
  "sample_handlers r (ev_event_name sample_event, ''internal'') = Some (\<lambda>_ _. r)"
  by (simp_all add: find_event_def sample_claimed_db_def sample_db_def sample_rows validate_event_payload_def
      sample_routes_def event_delivery_def effect_delivery_is_allowed_def PAYLOAD_SCOPED_AUTHORIZATION_EVENTS_def
      edition_route_allowed_def sample_handlers_def)

lemma sample_row_fields:
  "om_event_id (claimed 30 60 100 sample_message) = 10"
  "om_organization_id (claimed 30 60 100 sample_message) = 1"
  "om_destination (claimed 30 60 100 sample_message) = ''internal''"
  by (simp_all add: claimed_def sample_rows)

lemma sample_run:
  "run_claimed_effect sample_routes (sample_handlers Returned) 30 sample_clock id sample_claim_held sample_claimed_db =
     Inr (advance sample_claimed_db (completed SUCCEEDED 120 [] (claimed 30 60 100 sample_message))
       [claim_attempt sample_claim_held (claimed 30 60 100 sample_message) 120 OUT_SUCCEEDED []] [],
      \<lparr>rs_outcome = RO_SUCCEEDED, rs_error_code = []\<rparr>)"
proof -
  have "finish_effect_success sample_claim_held 120 sample_claimed_db =
      Inr (advance sample_claimed_db (completed SUCCEEDED 120 [] (claimed 30 60 100 sample_message))
        [claim_attempt sample_claim_held (claimed 30 60 100 sample_message) 120 OUT_SUCCEEDED []] [])"
    using finish_success_ok [OF outbox.reachable_inv [OF sample_claimed_reachable] sample_claimed_row]
    by (simp add: claim_of_def)
  moreover have "cl_lease_expires_at sample_claim_held = 160" by (simp add: claim_of_def)
  ultimately show ?thesis
    by (simp add: run_claimed_effect_def sample_clock_def sample_active sample_row_fields sample_facts
        MAX_LEASE_DURATION_def minute_us_def second_us_def handler_outcome_def effect_context_def
        record_outcome_def mark_success_def)
qed

section \<open>Properties\<close>

text \<open>
  C9. A worker's report is what it recorded: when running a claim returns, either the lease was lost
  and the worker changed nothing, or exactly one attempt was appended under the claim's number and
  token with the reported error code, the row gave up its lease, and its status is the reported one:
  succeeded, pending with attempts left and a delay of at most one day, or quarantined.
\<close>

theorem run_reports_recorded_outcome:
  assumes "outbox.reachable (during db)"
    and "run_claimed_effect env handlers timeout clock during claim db = Inr (db', res)"
  shows "db' = db \<and> rs_outcome res = RO_LEASE_LOST
    \<or> outcome_recorded claim (rc_finished clock) (during db) db' res"
proof (cases "active_message claim (rc_started clock) db")
  case None
  with assms(2) show ?thesis
    by (auto simp: run_claimed_effect_def lease_lost_result_def split: if_splits)
next
  case (Some m)
  have inv: "outbox_inv (during db)" using assms(1) by (rule outbox.reachable_inv)
  note recorded = mark_permanent_recorded [OF inv] record_outcome_recorded [OF inv]
  from assms(2) Some show ?thesis
    by (auto simp: run_claimed_effect_def bindE_eq_Inr dest!: recorded
        split: if_splits option.splits sum.splits maru_error.splits)
qed

theorem run_reports_recorded_outcome_witness:
  "\<exists>db' res. run_claimed_effect sample_routes (sample_handlers Returned) 30 sample_clock id sample_claim_held
       sample_claimed_db = Inr (db', res)
     \<and> rs_outcome res = RO_SUCCEEDED \<and> outcome_recorded sample_claim_held 120 sample_claimed_db db' res"
  using run_reports_recorded_outcome [OF _ sample_run] sample_claimed_reachable sample_run
  by (simp add: sample_clock_def)

text \<open>
  C10. Success means delivery in time: a run reports success only if the lease was live when it
  started, the stored payload still satisfies its registered schema, the route is allowed now, the
  registered handler of exactly this event and destination returned, and it returned before both the
  lease expiry and the execution timeout. The idempotency key it was given is the event identifier.
\<close>

theorem success_means_delivered_in_time:
  assumes "run_claimed_effect env handlers timeout clock during claim db = Inr (db', res)"
    and "rs_outcome res = RO_SUCCEEDED"
  shows "\<exists>m e h cx. active_message claim (rc_started clock) db = Some m
    \<and> find_event db (om_event_id m) = Some e
    \<and> validate_event_payload (re_event_definition env) (ev_event_name e) (ev_schema_version e) (ev_payload e) = Inr ()
    \<and> effect_delivery_is_allowed env (event_delivery e (om_organization_id m) (om_destination m)) = Inr True
    \<and> handlers (ev_event_name e, om_destination m) = Some h \<and> h e cx = Returned
    \<and> cx_idempotency_key cx = uuid_str (ev_id e) \<and> cx_attempt_number cx = cl_attempt_number claim
    \<and> rc_started clock < cl_lease_expires_at claim
    \<and> rc_returned clock < cl_lease_expires_at claim \<and> rc_returned clock < rc_started clock + timeout"
proof -
  have perm: "rs_outcome r \<noteq> RO_SUCCEEDED" if "mark_permanent c code t d = Inr (d', r)" for c code t d d' r
    using that by (auto simp: mark_permanent_def lease_lost_result_def split: sum.splits maru_error.splits)
  have trans: "rs_outcome r \<noteq> RO_SUCCEEDED" if "mark_transient c code q t d = Inr (d', r)" for c code q t d d' r
    using that by (auto simp: mark_transient_def lease_lost_result_def split: sum.splits maru_error.splits if_splits)
  have returned: "result = Returned" if "record_outcome c result t d = Inr (d', r)" "rs_outcome r = RO_SUCCEEDED"
    for c result t d d' r
    using that perm trans by (cases result) (auto simp: record_outcome_def)
  obtain m where m: "active_message claim (rc_started clock) db = Some m"
    using assms by (auto simp: run_claimed_effect_def lease_lost_result_def split: if_splits option.splits)
  obtain e where e: "find_event db (om_event_id m) = Some e"
    using assms m by (auto simp: run_claimed_effect_def split: if_splits option.splits)
  have valid: "validate_event_payload (re_event_definition env) (ev_event_name e) (ev_schema_version e) (ev_payload e) = Inr ()"
    using assms m e perm by (auto simp: run_claimed_effect_def split: if_splits sum.splits maru_error.splits)
  have allowed: "effect_delivery_is_allowed env (event_delivery e (om_organization_id m) (om_destination m)) = Inr True"
    using assms m e valid perm by (auto simp: run_claimed_effect_def bindE_eq_Inr split: if_splits)
  let ?cx = "effect_context claim m e (rc_started clock) timeout"
  obtain h where h: "handlers (ev_event_name e, om_destination m) = Some h"
      "handler_outcome h e ?cx (rc_returned clock) = Returned"
    using assms m e valid allowed perm returned
    by (auto simp: run_claimed_effect_def split: if_splits option.splits)
  have "h e ?cx = Returned" "rc_returned clock < cx_deadline ?cx"
    using h(2) by (auto simp: handler_outcome_def EffectTimeoutError_def TransientEffectError_def
        split: handler_result.splits if_splits sum.splits)
  moreover have "ev_id e = om_event_id m"
    using e by (auto simp: find_event_def dest: find_SomeD)
  moreover have "rc_started clock < cl_lease_expires_at claim"
    using m by (auto simp: active_message_def split: if_splits)
  ultimately show ?thesis
    using m e valid allowed h by (intro exI [of _ m] exI [of _ e] exI [of _ h] exI [of _ ?cx])
      (simp add: effect_context_def)
qed

theorem success_means_delivered_in_time_witness:
  "\<exists>m e. active_message sample_claim_held 110 sample_claimed_db = Some m
     \<and> find_event sample_claimed_db (om_event_id m) = Some e
     \<and> (\<exists>h. sample_handlers Returned (ev_event_name e, om_destination m) = Some h)"
  using success_means_delivered_in_time [OF sample_run] by (auto simp: sample_clock_def)

text \<open>
  C11. A retry delay outside its bounds escapes the worker: when the handler signals a transient
  failure with a negative delay or one of more than a day, running the claim raises the validation
  error of the finishing service instead of recording any outcome, so the message stays processing
  until its lease expires.
\<close>

theorem unbounded_retry_escapes:
  assumes "0 < timeout" and "timeout \<le> MAX_LEASE_DURATION"
    and "active_message claim (rc_started clock) db = Some m" and "find_event db (om_event_id m) = Some e"
    and "validate_event_payload (re_event_definition env) (ev_event_name e) (ev_schema_version e) (ev_payload e) = Inr ()"
    and "effect_delivery_is_allowed env (event_delivery e (om_organization_id m) (om_destination m)) = Inr True"
    and "handlers (ev_event_name e, om_destination m) = Some (\<lambda>_ _. TransientEffectError code retry)"
    and "validate_effect_error_code code = Inr ()" and "retry < 0 \<or> day_us < retry"
  shows "run_claimed_effect env handlers timeout clock during claim db = Inl (invalid ''invalid_retry_delay'')"
  using assms by (auto simp: run_claimed_effect_def handler_outcome_def TransientEffectError_def record_outcome_def
      mark_transient_def finish_effect_transient_failure_def MAX_RETRY_DELAY_def)

theorem unbounded_retry_escapes_witness:
  "run_claimed_effect sample_routes (sample_handlers (TransientEffectError ''busy'' (2 * day_us))) 30 sample_clock id
     sample_claim_held sample_claimed_db = Inl (invalid ''invalid_retry_delay'')"
proof -
  have code: "validate_effect_error_code ''busy'' = Inr ()"
    by (simp add: validate_effect_error_code_def MAX_EFFECT_ERROR_CODE_LENGTH_def is_lower_def is_code_char_def)
  have "day_us < 2 * day_us" by (simp add: day_us_def minute_us_def second_us_def)
  then have "2 * day_us < 0 \<or> day_us < 2 * day_us" by blast
  from unbounded_retry_escapes [OF _ _ _ _ _ _ _ code this, where m = "claimed 30 60 100 sample_message" and e = sample_event]
  show ?thesis
    by (simp add: sample_clock_def sample_active sample_row_fields sample_facts MAX_LEASE_DURATION_def
        minute_us_def second_us_def)
qed

text \<open>
  The scheduler rotates: while the set of eligible tenants does not change, as many consecutive
  cycles as there are tenants serve each of them exactly once, from any previous state.
\<close>

theorem scheduler_round_robin:
  assumes "candidates \<noteq> []"
  shows "distinct (selections served (replicate (card (set candidates)) candidates))
    \<and> set (selections served (replicate (card (set candidates)) candidates)) = Some ` set candidates"
proof -
  let ?ordered = "sort_key uuid_str (remdups candidates)"
  have len: "card (set candidates) = length ?ordered" by (simp add: length_remdups_card_conv)
  obtain k where k: "selections served (replicate (card (set candidates)) candidates) =
      map Some (map (\<lambda>i. ?ordered ! ((k + i) mod length ?ordered)) [0..<length ?ordered])" (is "_ = map Some ?round")
    using selections_round [OF assms, of served "card (set candidates)"] by (auto simp: len comp_def)
  have "set ?ordered = set candidates" by simp
  then have "distinct ?ordered" "?ordered \<noteq> []"
    using assms by (simp, metis set_empty)
  note round = rotation_permutes [OF this, of k]
  have "set (map Some ?round) = Some ` set candidates"
    using round(1) by (simp only: list.set_map [of Some]) simp
  moreover have "distinct (map Some ?round)"
    using round(2) by (simp only: distinct_map) simp
  ultimately show ?thesis unfolding k by blast
qed

theorem scheduler_round_robin_witness:
  "set (selections (Some 9) (replicate (card (set [3, 1, 2 :: uuid])) [3, 1, 2])) = {Some 1, Some 2, Some 3}"
proof -
  have "set (selections (Some 9) (replicate (card (set [3, 1, 2 :: uuid])) [3, 1, 2])) = Some ` set [3, 1, 2]"
    using scheduler_round_robin [of "[3, 1, 2]" "Some 9"] by blast
  also have "\<dots> = {Some 1, Some 2, Some 3}" by auto
  finally show ?thesis .
qed

text \<open>
  C12. The rotation is not fair to a tenant when the others come and go: if the most recently served
  tenant has no work left in the next cycle, the scheduler starts again at the smallest identifier. A
  tenant that is eligible in every cycle is then never served, for any number of cycles, as long as
  two smaller tenants have work in turns.
\<close>

theorem scheduler_starves_waiting_tenant:
  assumes "a < waiting" and "b < waiting" and "a \<noteq> b"
  shows "(\<forall>candidates \<in> set (concat (replicate n [[a, waiting], [b, waiting]])). waiting \<in> set candidates)
    \<and> Some waiting \<notin> set (selections None (concat (replicate n [[a, waiting], [b, waiting]])))"
proof -
  have "Some waiting \<notin> set (selections served (concat (replicate n [[a, waiting], [b, waiting]])))"
    if "served \<in> {None, Some b}" for served
    using that
  proof (induction n arbitrary: served)
    case (Suc n)
    have sort: "sort_key uuid_str (remdups [c, waiting]) = [c, waiting]" if "c < waiting" for c
      using that by (auto simp: uuid_str_le)
    have "select served [a, waiting] = (Some a, Some a)"
      using Suc.prems assms unfolding select_def sort [OF assms(1)] by (auto simp: Let_def)
    moreover have "select (Some a) [b, waiting] = (Some b, Some b)"
      using assms unfolding select_def sort [OF assms(2)] by (auto simp: Let_def)
    ultimately show ?case
      using Suc.IH [of "Some b"] assms by auto
  qed simp
  then show ?thesis by auto
qed

theorem scheduler_starves_waiting_tenant_witness:
  "Some 3 \<notin> set (selections None (concat (replicate 1000 [[1, 3], [2, 3]])))"
  using scheduler_starves_waiting_tenant [of 1 3 2 1000] by (simp add: word_less_nat_alt)

text \<open>
  Eligibility is progress: on reachable tables without locked rows, a tenant is listed as
  eligible if and only if a claim for it changes the tables, by taking a message or by quarantining
  messages whose attempts are exhausted; such a claim never fails.
\<close>

theorem eligible_tenants_progress:
  assumes "outbox.reachable db" and "0 < lease" and "lease \<le> MAX_LEASE_DURATION"
  shows "\<exists>db' claim. claim_next_effect (\<lambda>_. False) token org pool lease now db = Inr (db', claim)
    \<and> (org \<in> set (eligible_tenant_ids pool now db) \<longleftrightarrow> db' \<noteq> db)
    \<and> (claim = None \<longrightarrow> (\<forall>m \<in> set (db_messages db'). \<not> exhausted_claim org pool now m))"
proof -
  have inv: "outbox_inv db" using assms(1) by (rule outbox.reachable_inv)
  have elig: "org \<in> set (eligible_tenant_ids pool now db) \<longleftrightarrow>
      (\<exists>m \<in> set (db_messages db). claimable org pool now m \<or> exhausted_claim org pool now m)"
    by (auto simp: eligible_tenant_ids_def claimable_def exhausted_claim_def not_le)
  show ?thesis
  proof (cases "claim_candidates (\<lambda>_. False) org pool now db")
    case (Cons m rest)
    note some = claim_some [OF inv assms(2,3) Cons]
    have "find_message (advance db (claimed token lease now m) (expiry_attempts now m) []) (om_id m)
        = Some (claimed token lease now m)"
      by (subst find_advance [OF inv some(2)]) simp_all
    moreover have "claimed token lease now m \<noteq> m"
      by (auto simp: claimed_def dest!: arg_cong [where f = om_attempt_count])
    ultimately have "advance db (claimed token lease now m) (expiry_attempts now m) [] \<noteq> db"
      using find_message_inv [OF inv some(2)] by auto
    then show ?thesis
      using some(1) [of token] some(2,3) elig by auto
  next
    case Nil
    then have none: "\<not> claimable org pool now m" if "m \<in> set (db_messages db)" for m
      using that claim_candidates_set [of "\<lambda>_. False" org pool now db] by auto
    show ?thesis
    proof (cases "\<exists>m \<in> set (db_messages db). exhausted_claim org pool now m")
      case False
      then have "quarantine_exhausted (\<lambda>_. False) org pool now db = Inr db"
        by (simp add: quarantine_exhausted_def filter_empty_conv cong: conj_cong)
      then have "claim_next_effect (\<lambda>_. False) token org pool lease now db = Inr (db, None)"
        using assms(2,3) Nil by (simp add: claim_next_effect_def)
      with False none elig show ?thesis by blast
    next
      case True
      let ?q = "\<lambda>x. if exhausted_claim org pool now x then completed QUARANTINED now ''attempts_exhausted'' x else x"
      from claim_none [OF inv assms(2,3) Nil, of token] obtain db' where
          run: "claim_next_effect (\<lambda>_. False) token org pool lease now db = Inr (db', None)"
        and rows: "db_messages db' = map ?q (db_messages db)" by auto
      have clean: "\<not> exhausted_claim org pool now (?q x)" for x
        by (simp add: exhausted_claim_def lease_expired_def completed_def)
      have "db' \<noteq> db"
      proof
        assume "db' = db"
        with True rows obtain m where "m \<in> set (map ?q (db_messages db))" "exhausted_claim org pool now m" by metis
        then obtain x where "exhausted_claim org pool now (?q x)" unfolding list.set_map by blast
        with clean show False by blast
      qed
      moreover have "\<forall>m \<in> set (db_messages db'). \<not> exhausted_claim org pool now m"
        unfolding rows list.set_map using clean by blast
      ultimately show ?thesis
        using run True elig by blast
    qed
  qed
qed

theorem eligible_tenants_progress_witness:
  "1 \<in> set (eligible_tenant_ids ''default'' 100 sample_db)
   \<and> (\<exists>db' claim. claim_next_effect (\<lambda>_. False) 30 1 ''default'' 60 100 sample_db = Inr (db', claim) \<and> db' \<noteq> sample_db)"
proof -
  have listed: "1 \<in> set (eligible_tenant_ids ''default'' 100 sample_db)"
    by (simp add: eligible_tenant_ids_def sample_db_def ready_def sample_rows)
  have "60 \<le> MAX_LEASE_DURATION" by (simp add: MAX_LEASE_DURATION_def minute_us_def second_us_def)
  from eligible_tenants_progress [OF sample_reachable _ this, of 30 1 "''default''" 100] listed show ?thesis
    by auto
qed

end
