(* ===== verification/Iso_Datetime.thy ===== *)
theory Iso_Datetime
  imports Json
begin

text \<open>
  \<open>datetime.isoformat()\<close> of a UTC datetime, as Python computes it: the proleptic Gregorian date of a
  day number, the time of day, the microseconds when there are any, and the offset. Distinct instants
  of the years 1 to 9999, the range of \<open>datetime\<close>, have distinct texts.
\<close>

section \<open>Calendar\<close>

definition days_in_month :: "bool \<Rightarrow> int \<Rightarrow> int" where
  "days_in_month leap m = (if m = 2 then (if leap then 29 else 28) else if m \<in> {4, 6, 9, 11} then 30 else 31)"

definition days_before_month :: "bool \<Rightarrow> int \<Rightarrow> int" where
  "days_before_month leap m =
     [0, 0, 31, 59, 90, 120, 151, 181, 212, 243, 273, 304, 334] ! nat m + (if 2 < m \<and> leap then 1 else 0)"

text \<open>Month and day of a zero-based day of the year: the estimate is exact or one month too far.\<close>

definition month_day :: "bool \<Rightarrow> int \<Rightarrow> int \<times> int" where
  "month_day leap n =
     (let month = (n + 50) div 32; preceding = days_before_month leap month
      in if n < preceding then (month - 1, n - (preceding - days_in_month leap (month - 1)) + 1)
         else (month, n - preceding + 1))"

definition ord2ymd :: "int \<Rightarrow> int \<times> int \<times> int" where
  "ord2ymd n =
     (let n400 = n div 146097; r400 = n mod 146097;
          n100 = r400 div 36524; r100 = r400 mod 36524;
          n4 = r100 div 1461; r4 = r100 mod 1461;
          n1 = r4 div 365; r1 = r4 mod 365;
          year = n400 * 400 + 1 + n100 * 100 + n4 * 4 + n1
      in if n1 = 4 \<or> n100 = 4 then (year - 1, 12, 31)
         else (year, month_day (n1 = 3 \<and> (n4 \<noteq> 24 \<or> n100 = 3)) r1))"

section \<open>Text\<close>

fun dec_digits :: "nat \<Rightarrow> int \<Rightarrow> string" where
  "dec_digits 0 v = []"
| "dec_digits (Suc n) v = dec_digits n (v div 10) @ [digit_char (nat (v mod 10))]"

definition iso_date :: "int \<times> int \<times> int \<Rightarrow> string" where
  "iso_date ymd = (case ymd of (y, m, d) \<Rightarrow> dec_digits 4 y @ ''-'' @ dec_digits 2 m @ ''-'' @ dec_digits 2 d)"

definition iso_time :: "int \<Rightarrow> string" where
  "iso_time s = dec_digits 2 (s div 3600) @ '':'' @ dec_digits 2 (s div 60 mod 60) @ '':'' @ dec_digits 2 (s mod 60)"

definition iso_fraction :: "int \<Rightarrow> string" where
  "iso_fraction us = (if us = 0 then [] else ''.'' @ dec_digits 6 us)"

definition isoformat :: "instant \<Rightarrow> string" where
  "isoformat t = iso_date (ord2ymd (t div day_us)) @ ''T'' @ iso_time (t mod day_us div second_us)
     @ iso_fraction (t mod second_us) @ ''+00:00''"

definition valid_instant :: "instant \<Rightarrow> bool" where
  "valid_instant t \<longleftrightarrow> 0 \<le> t \<and> t < 3652059 * day_us"

section \<open>Distinct instants have distinct texts\<close>

definition is_leap :: "int \<Rightarrow> bool" where
  "is_leap y \<longleftrightarrow> y mod 4 = 0 \<and> (y mod 100 \<noteq> 0 \<or> y mod 400 = 0)"

definition days_before_year :: "int \<Rightarrow> int" where
  "days_before_year y = (let z = y - 1 in z * 365 + z div 4 - z div 100 + z div 400)"

definition ymd2ord :: "int \<times> int \<times> int \<Rightarrow> int" where
  "ymd2ord ymd = (case ymd of (y, m, d) \<Rightarrow> days_before_year y + days_before_month (is_leap y) m + d - 1)"

definition month_day_ok :: "bool \<Rightarrow> int \<Rightarrow> bool" where
  "month_day_ok leap n = (case month_day leap n of (m, d) \<Rightarrow>
     days_before_month leap m + d - 1 = n \<and> 1 \<le> m \<and> m \<le> 12 \<and> 1 \<le> d \<and> d \<le> 31)"

lemma month_day_table: "list_all (month_day_ok False) [0..364]" "list_all (month_day_ok True) [0..365]"
  by code_simp+

lemma month_day_correct:
  assumes "0 \<le> n" and "n \<le> (if leap then 365 else 364)"
  shows "month_day_ok leap n"
  using month_day_table assms by (cases leap) (auto simp: list_all_iff)

lemma year_digits:
  fixes a b c d :: int
  assumes "0 \<le> b" "b \<le> 3" "0 \<le> c" "c \<le> 24" "0 \<le> d" "d \<le> 3"
  defines "z \<equiv> 400 * a + 100 * b + 4 * c + d"
  shows "z div 4 = 100 * a + 25 * b + c" and "z div 100 = 4 * a + b" and "z div 400 = a"
    and "is_leap (z + 1) \<longleftrightarrow> d = 3 \<and> (c \<noteq> 24 \<or> b = 3)"
proof -
  show "z div 4 = 100 * a + 25 * b + c" and "z div 100 = 4 * a + b" and "z div 400 = a"
    using assms by (simp_all add: z_def)
  show "is_leap (z + 1) \<longleftrightarrow> d = 3 \<and> (c \<noteq> 24 \<or> b = 3)"
  proof -
    have "z + 1 = (d + 1) + 4 * (100 * a + 25 * b + c)" by (simp add: z_def)
    then have m4: "(z + 1) mod 4 = (d + 1) mod 4" by (metis mod_mult_self2)
    have m100: "(z + 1) mod 100 = 4 * (c + 1) mod 100" if "d = 3"
    proof -
      have "z + 1 = 4 * (c + 1) + 100 * (4 * a + b)" using that by (simp add: z_def)
      then show ?thesis by (metis mod_mult_self2)
    qed
    have m400: "(z + 1) mod 400 = 100 * (b + 1) mod 400" if "d = 3" "c = 24"
    proof -
      have "z + 1 = 100 * (b + 1) + 400 * a" using that by (simp add: z_def)
      then show ?thesis by (metis mod_mult_self2)
    qed
    have "c = 24 \<or> 4 * (c + 1) mod 100 = 4 * (c + 1)"
      using assms(3,4) by (cases "c = 24") (simp_all add: mod_pos_pos_trivial)
    moreover have "b = 3 \<or> 100 * (b + 1) mod 400 = 100 * (b + 1)"
      using assms(1,2) by (cases "b = 3") (simp_all add: mod_pos_pos_trivial)
    moreover have "d = 3 \<or> (d + 1) mod 4 = d + 1"
      using assms(5,6) by (cases "d = 3") (simp_all add: mod_pos_pos_trivial)
    ultimately have "(z + 1) mod 4 = 0 \<longleftrightarrow> d = 3" "d = 3 \<Longrightarrow> (z + 1) mod 100 = 0 \<longleftrightarrow> c = 24"
        "d = 3 \<Longrightarrow> c = 24 \<Longrightarrow> (z + 1) mod 400 = 0 \<longleftrightarrow> b = 3"
      unfolding m4 using m100 m400 assms(1,3,5) by auto
    then show ?thesis unfolding is_leap_def by metis
  qed
qed

lemma digit_bounds:
  fixes n :: int
  defines "r400 \<equiv> n mod 146097"
  defines "r100 \<equiv> r400 mod 36524"
  defines "r4 \<equiv> r100 mod 1461"
  shows "0 \<le> r400 div 36524" "r400 div 36524 \<le> 4" "0 \<le> r100 div 1461" "r100 div 1461 \<le> 24"
    "0 \<le> r4 div 365" "r4 div 365 \<le> 4" "0 \<le> r4 mod 365" "r4 mod 365 \<le> 364"
    "n = 146097 * (n div 146097) + 36524 * (r400 div 36524) + 1461 * (r100 div 1461) + 365 * (r4 div 365) + r4 mod 365"
    "r4 div 365 = 4 \<Longrightarrow> r4 mod 365 = 0" "r400 div 36524 = 4 \<Longrightarrow> r100 = 0"
    "r4 div 365 = 4 \<Longrightarrow> r100 div 1461 \<noteq> 24 \<or> r400 div 36524 = 3"
proof -
  have b: "0 \<le> r400" "r400 < 146097" "0 \<le> r100" "r100 < 36524" "0 \<le> r4" "r4 < 1461"
    by (simp_all add: r400_def r100_def r4_def)
  then show "0 \<le> r400 div 36524" "r400 div 36524 \<le> 4" "0 \<le> r100 div 1461" "r100 div 1461 \<le> 24"
    "0 \<le> r4 div 365" "r4 div 365 \<le> 4" "0 \<le> r4 mod 365" "r4 mod 365 \<le> 364"
    by linarith+
  show "n = 146097 * (n div 146097) + 36524 * (r400 div 36524) + 1461 * (r100 div 1461) + 365 * (r4 div 365) + r4 mod 365"
    unfolding r4_def r100_def r400_def by simp
  have e: "r4 = 365 * (r4 div 365) + r4 mod 365" "r400 = 36524 * (r400 div 36524) + r100"
    "r100 = 1461 * (r100 div 1461) + r4" "0 \<le> r4 mod 365"
    by (simp_all add: r4_def r100_def)
  show "r4 div 365 = 4 \<Longrightarrow> r4 mod 365 = 0" using b(6) e(1,4) by linarith
  show "r400 div 36524 = 4 \<Longrightarrow> r100 = 0" using b(2,3) e(2) by linarith
  show "r4 div 365 = 4 \<Longrightarrow> r100 div 1461 \<noteq> 24 \<or> r400 div 36524 = 3" using b(4) e(1,3,4) by linarith
qed

text \<open>The year of the calendar, its zero-based day and whether it is a leap year.\<close>

lemma ord2ymd_correct:
  obtains y m d where "ord2ymd n = (y, m, d)" "ymd2ord (y, m, d) = n"
    "1 \<le> m" "m \<le> 12" "1 \<le> d" "d \<le> 31" "days_before_year y \<le> n" "0 \<le> n \<longrightarrow> 1 \<le> y"
proof -
  define n400 r400 n100 r100 n4 r4 n1 r1 where defs: "n400 = n div 146097" "r400 = n mod 146097"
    "n100 = r400 div 36524" "r100 = r400 mod 36524" "n4 = r100 div 1461" "r4 = r100 mod 1461"
    "n1 = r4 div 365" "r1 = r4 mod 365"
  define leap where "leap \<longleftrightarrow> n1 = 3 \<and> (n4 \<noteq> 24 \<or> n100 = 3)"
  note b = digit_bounds [of n, folded defs]
  note unf = ord2ymd_def Let_def
  have o: "ord2ymd n = (if n1 = 4 \<or> n100 = 4 then (n400 * 400 + 1 + n100 * 100 + n4 * 4 + n1 - 1, 12, 31)
      else (n400 * 400 + 1 + n100 * 100 + n4 * 4 + n1, month_day leap r1))"
    by (simp add: unf leap_def flip: defs)
  show thesis
  proof (cases "n1 = 4 \<or> n100 = 4")
    case False
    then have d: "n100 \<le> 3" "n1 \<le> 3" using b by linarith+
    define z where "z = 400 * n400 + 100 * n100 + 4 * n4 + n1"
    note y = year_digits [of n100 n4 n1 n400, OF b(1) d(1) b(3,4,5) d(2), folded z_def]
    have ord: "days_before_year (z + 1) + r1 = n"
      using y b(9) by (simp add: days_before_year_def z_def)
    have leap: "is_leap (z + 1) \<longleftrightarrow> leap" using y(4) by (simp add: leap_def)
    obtain m dd where md: "month_day leap r1 = (m, dd)" by fastforce
    have "month_day_ok leap r1" using b(7,8) by (intro month_day_correct) simp_all
    then have mo: "days_before_month leap m + dd - 1 = r1" "1 \<le> m" "m \<le> 12" "1 \<le> dd" "dd \<le> 31"
      by (simp_all add: month_day_ok_def md)
    show thesis
    proof (rule that [of "z + 1" m dd])
      show "ord2ymd n = (z + 1, m, dd)" using o False md by (simp add: z_def)
      show "ymd2ord (z + 1, m, dd) = n" using ord mo(1) by (simp add: ymd2ord_def leap)
      show "days_before_year (z + 1) \<le> n" using ord b(7) by linarith
      show "0 \<le> n \<longrightarrow> 1 \<le> z + 1"
        using b(1,3,5) defs(1) by (simp add: z_def)
    qed (use mo in simp_all)
  next
    case True
    \<comment> \<open>the last day of a leap year\<close>
    define c where "c = (if n100 = 4 then 3 else n100)"
    define e where "e = (if n100 = 4 then 24 else n4)"
    define z where "z = 400 * n400 + 100 * c + 4 * e + 3"
    have four: "n4 = 0" "n1 = 0" "r1 = 0" if "n100 = 4"
      using b(11) [OF that] by (simp_all add: defs(5-8))
    have ce: "0 \<le> c" "c \<le> 3" "0 \<le> e" "e \<le> 24" "e \<noteq> 24 \<or> c = 3"
      using b(1-4) True b(12) by (auto simp: c_def e_def)
    note y = year_digits [of c e 3 n400, folded z_def, OF ce(1-4)]
    have z: "z + 1 = n400 * 400 + 1 + n100 * 100 + n4 * 4 + n1 - 1"
      using True four by (auto simp: z_def c_def e_def)
    have ord: "days_before_year (z + 1) + 365 = n"
    proof -
      have dby: "days_before_year (z + 1) = 146097 * n400 + 36524 * c + 1461 * e + 1095"
      proof -
        have "days_before_year (z + 1) = z * 365 + (100 * n400 + 25 * c + e) - (4 * n400 + c) + n400"
          unfolding days_before_year_def Let_def by (simp add: y(1-3))
        also have "\<dots> = 146097 * n400 + 36524 * c + 1461 * e + 1095" by (simp add: z_def)
        finally show ?thesis .
      qed
      show ?thesis
      proof (cases "n100 = 4")
        case c4: True
        with dby four b(9) show ?thesis by (simp add: c_def e_def)
      next
        case c3: False
        with True b(10) have "n1 = 4" "r1 = 0" by simp_all
        with c3 dby b(9) show ?thesis by (simp add: c_def e_def)
      qed
    qed
    have leap: "is_leap (z + 1)" using y(4) ce(5) by simp
    show thesis
    proof (rule that [of "z + 1" 12 31])
      show "ord2ymd n = (z + 1, 12, 31)" using o True z by simp
      show "ymd2ord (z + 1, 12, 31) = n" using ord by (simp add: ymd2ord_def leap days_before_month_def)
      show "days_before_year (z + 1) \<le> n" using ord by linarith
      show "0 \<le> n \<longrightarrow> 1 \<le> z + 1" using ce defs(1) by (simp add: z_def)
    qed simp_all
  qed
qed

lemma leap_days_bound:
  fixes z q4 q100 q400 :: int
  assumes "9999 \<le> z" "z - 3 \<le> 4 * q4" "100 * q100 \<le> z" "24 \<le> q400"
  shows "3652059 \<le> z * 365 + q4 - q100 + q400"
  using assms by linarith

lemma year_bound:
  assumes "days_before_year y \<le> n" and "n < 3652059"
  shows "y \<le> 9999"
proof (rule ccontr)
  assume "\<not> y \<le> 9999"
  then have "9999 \<le> y - 1" by simp
  moreover from this have "y - 1 - 3 \<le> 4 * ((y - 1) div 4)" "100 * ((y - 1) div 100) \<le> y - 1" "24 \<le> (y - 1) div 400"
    by linarith+
  ultimately have "3652059 \<le> days_before_year y"
    unfolding days_before_year_def Let_def by (rule leap_days_bound)
  with assms show False by linarith
qed

lemma digit_char_inject: "a < 10 \<Longrightarrow> b < 10 \<Longrightarrow> digit_char a = digit_char b \<Longrightarrow> a = b"
  by (metis add_left_cancel of_digit_char)

lemma dec_digits_inject:
  assumes "dec_digits n v = dec_digits n w" and "0 \<le> v" "v < 10 ^ n" "0 \<le> w" "w < 10 ^ n"
  shows "v = w"
  using assms
proof (induction n arbitrary: v w)
  case 0
  then show ?case by simp
next
  case (Suc n)
  from Suc.prems have "v div 10 = w div 10" by (intro Suc.IH) simp_all
  moreover have "nat (v mod 10) = nat (w mod 10)"
    using Suc.prems(1) by (intro digit_char_inject) simp_all
  then have "v mod 10 = w mod 10" by (simp add: nat_eq_iff)
  ultimately show ?case by (metis div_mult_mod_eq)
qed

lemma length_dec_digits [simp]: "length (dec_digits n v) = n"
  by (induction n arbitrary: v) simp_all

lemma iso_date_inject:
  assumes "iso_date (y, m, d) @ s = iso_date (y', m', d') @ s'"
    and "0 \<le> y" "y \<le> 9999" "0 \<le> m" "m \<le> 12" "0 \<le> d" "d \<le> 31" "0 \<le> y'" "y' \<le> 9999" "0 \<le> m'" "m' \<le> 12" "0 \<le> d'" "d' \<le> 31"
  shows "y = y' \<and> m = m' \<and> d = d' \<and> s = s'"
  using assms by (auto simp: iso_date_def intro: dec_digits_inject)

lemma iso_time_inject:
  assumes "iso_time a @ s = iso_time b @ s'" and "0 \<le> a" "a < 86400" "0 \<le> b" "b < 86400"
  shows "a = b \<and> s = s'"
proof -
  from assms(1) have e: "dec_digits 2 (a div 3600) = dec_digits 2 (b div 3600)"
      "dec_digits 2 (a div 60 mod 60) = dec_digits 2 (b div 60 mod 60)"
      "dec_digits 2 (a mod 60) = dec_digits 2 (b mod 60)" "s = s'"
    by (simp_all add: iso_time_def)
  have two: "x < 60 \<Longrightarrow> x < 10 ^ 2" for x :: int by simp
  have "a div 3600 = b div 3600" using assms(2-) by (intro dec_digits_inject [OF e(1)]) (simp_all; linarith)+
  moreover have "a div 60 mod 60 = b div 60 mod 60" by (intro dec_digits_inject [OF e(2)] two) simp_all
  moreover have "a mod 60 = b mod 60" by (intro dec_digits_inject [OF e(3)] two) simp_all
  moreover have "x = 3600 * (x div 3600) + 60 * (x div 60 mod 60) + x mod 60" for x :: int
  proof -
    have "x div 3600 = x div 60 div 60" by (simp add: zdiv_zmult2_eq [symmetric])
    then have "60 * (x div 3600) + x div 60 mod 60 = x div 60" by (metis mult_div_mod_eq)
    moreover have "60 * (x div 60) + x mod 60 = x" by simp
    ultimately show ?thesis by linarith
  qed
  ultimately show ?thesis using e(4) by metis
qed

lemma iso_fraction_inject:
  assumes "iso_fraction a @ ''+00:00'' = iso_fraction b @ ''+00:00''" and "0 \<le> a" "a < 1000000" "0 \<le> b" "b < 1000000"
  shows "a = b"
  using assms by (auto simp: iso_fraction_def split: if_splits intro: dec_digits_inject)

lemma isoformat_inject:
  assumes "isoformat s = isoformat t" and "valid_instant s" and "valid_instant t"
  shows "s = t"
proof -
  have days: "0 \<le> u div day_us" "u div day_us < 3652059" if "valid_instant u" for u
    using that by (simp_all add: valid_instant_def day_us_def minute_us_def second_us_def pos_imp_zdiv_nonneg_iff)
      linarith
  obtain y m d where o: "ord2ymd (s div day_us) = (y, m, d)" "ymd2ord (y, m, d) = s div day_us"
      "1 \<le> m" "m \<le> 12" "1 \<le> d" "d \<le> 31" "days_before_year y \<le> s div day_us" "0 \<le> s div day_us \<longrightarrow> 1 \<le> y"
    by (rule ord2ymd_correct [of "s div day_us"])
  obtain y' m' d' where o': "ord2ymd (t div day_us) = (y', m', d')" "ymd2ord (y', m', d') = t div day_us"
      "1 \<le> m'" "m' \<le> 12" "1 \<le> d'" "d' \<le> 31" "days_before_year y' \<le> t div day_us" "0 \<le> t div day_us \<longrightarrow> 1 \<le> y'"
    by (rule ord2ymd_correct [of "t div day_us"])
  have y: "1 \<le> y" "y \<le> 9999" using days [OF assms(2)] o(7,8) year_bound by blast+
  have y': "1 \<le> y'" "y' \<le> 9999" using days [OF assms(3)] o'(7,8) year_bound by blast+
  have "iso_date (y, m, d) @ (''T'' @ iso_time (s mod day_us div second_us) @ iso_fraction (s mod second_us) @ ''+00:00'') =
      iso_date (y', m', d') @ (''T'' @ iso_time (t mod day_us div second_us) @ iso_fraction (t mod second_us) @ ''+00:00'')"
    using assms(1) by (simp add: isoformat_def o(1) o'(1))
  from iso_date_inject [OF this] o(3-6) o'(3-6) y y'
  have ymd: "(y, m, d) = (y', m', d')" and rest: "iso_time (s mod day_us div second_us) @ (iso_fraction (s mod second_us) @ ''+00:00'') =
      iso_time (t mod day_us div second_us) @ (iso_fraction (t mod second_us) @ ''+00:00'')"
    by simp_all
  have secs: "0 \<le> u mod day_us div second_us" "u mod day_us div second_us < 86400" for u
    by (simp_all add: day_us_def minute_us_def second_us_def pos_imp_zdiv_nonneg_iff)
  from iso_time_inject [OF rest secs secs] have time: "s mod day_us div second_us = t mod day_us div second_us"
    and frac: "iso_fraction (s mod second_us) @ ''+00:00'' = iso_fraction (t mod second_us) @ ''+00:00''" by simp_all
  have us: "s mod second_us = t mod second_us"
    by (rule iso_fraction_inject [OF frac]) (simp_all add: second_us_def)
  have "u = day_us * (u div day_us) + second_us * (u mod day_us div second_us) + u mod second_us" for u
  proof -
    have "second_us * (u mod day_us div second_us) + u mod day_us mod second_us = u mod day_us" by simp
    moreover have "u mod day_us mod second_us = u mod second_us"
      by (rule mod_mod_cancel) (simp add: day_us_def minute_us_def)
    moreover have "day_us * (u div day_us) + u mod day_us = u" by simp
    ultimately show ?thesis by linarith
  qed
  then show ?thesis using ymd o(2) o'(2) time us by metis
qed

end
