(* ===== verification/Sha256.thy ===== *)
theory Sha256
  imports Maru_Prelude
begin

text \<open>
  \<open>hashlib.sha256(data).hexdigest()\<close>: the hash function of FIPS 180-4 on byte strings, printed as 64
  lower-case hexadecimal digits. Bytes are characters, words are \<open>32 word\<close>.
\<close>

unbundle bit_operations_syntax

type_synonym w32 = "32 word"

text \<open>
  The round constants and the initial state are the first 32 bits of the fractional parts of the cube
  and square roots of the first primes, computed here rather than tabulated.
\<close>

definition small_primes :: "nat list" where
  "small_primes = filter (\<lambda>p. list_all (\<lambda>d. p mod d \<noteq> 0) [2..<p]) [2..<312]"

text \<open>The largest number of at most \<open>b\<close> bits above \<open>acc\<close> whose \<open>k\<close>-th power does not exceed \<open>n\<close>.\<close>

fun root_bits :: "nat \<Rightarrow> nat \<Rightarrow> nat \<Rightarrow> nat \<Rightarrow> nat" where
  "root_bits k n 0 acc = acc"
| "root_bits k n (Suc b) acc = root_bits k n b (if (acc + 2 ^ b) ^ k \<le> n then acc + 2 ^ b else acc)"

definition root_fraction :: "nat \<Rightarrow> nat \<Rightarrow> w32" where
  "root_fraction k p = of_nat (root_bits k (p * 2 ^ (32 * k)) 37 0)"

definition sha_K :: "w32 list" where
  "sha_K = map (root_fraction 3) small_primes"

definition sha_H0 :: "w32 list" where
  "sha_H0 = map (root_fraction 2) (take 8 small_primes)"

definition be_word :: "string \<Rightarrow> w32" where
  "be_word bs = foldl (\<lambda>a b. 256 * a + of_char b) 0 bs"

definition byte_of :: "nat \<Rightarrow> char" where
  "byte_of n = char_of n"

fun be_bytes :: "nat \<Rightarrow> nat \<Rightarrow> string" where
  "be_bytes 0 v = []"
| "be_bytes (Suc n) v = be_bytes n (v div 256) @ [byte_of v]"

text \<open>A one bit, zeros up to 56 bytes modulo 64 and the length in bits as eight bytes.\<close>

definition sha_pad :: "string \<Rightarrow> string" where
  "sha_pad msg = msg @ [byte_of 128] @ replicate ((119 - length msg mod 64) mod 64) (byte_of 0)
     @ be_bytes 8 (8 * length msg)"

fun chunks :: "nat \<Rightarrow> nat \<Rightarrow> 'a list \<Rightarrow> 'a list list" where
  "chunks 0 n xs = []"
| "chunks (Suc k) n xs = take n xs # chunks k n (drop n xs)"

definition ssig0 :: "w32 \<Rightarrow> w32" where
  "ssig0 x = word_rotr 7 x XOR word_rotr 18 x XOR drop_bit 3 x"

definition ssig1 :: "w32 \<Rightarrow> w32" where
  "ssig1 x = word_rotr 17 x XOR word_rotr 19 x XOR drop_bit 10 x"

definition bsig0 :: "w32 \<Rightarrow> w32" where
  "bsig0 x = word_rotr 2 x XOR word_rotr 13 x XOR word_rotr 22 x"

definition bsig1 :: "w32 \<Rightarrow> w32" where
  "bsig1 x = word_rotr 6 x XOR word_rotr 11 x XOR word_rotr 25 x"

definition sha_ch :: "w32 \<Rightarrow> w32 \<Rightarrow> w32 \<Rightarrow> w32" where
  "sha_ch x y z = (x AND y) XOR (NOT x AND z)"

definition sha_maj :: "w32 \<Rightarrow> w32 \<Rightarrow> w32 \<Rightarrow> w32" where
  "sha_maj x y z = (x AND y) XOR (x AND z) XOR (y AND z)"

fun sha_extend :: "nat \<Rightarrow> w32 list \<Rightarrow> w32 list" where
  "sha_extend 0 ws = ws"
| "sha_extend (Suc n) ws = (let t = length ws in
     sha_extend n (ws @ [ssig1 (ws ! (t - 2)) + ws ! (t - 7) + ssig0 (ws ! (t - 15)) + ws ! (t - 16)]))"

fun sha_round :: "w32 list \<Rightarrow> w32 \<times> w32 \<Rightarrow> w32 list" where
  "sha_round [a, b, c, d, e, f, g, h] (k, w) =
     (let t1 = h + bsig1 e + sha_ch e f g + k + w; t2 = bsig0 a + sha_maj a b c in
      [t1 + t2, a, b, c, d + t1, e, f, g])"
| "sha_round hs _ = hs"

definition sha_block :: "w32 list \<Rightarrow> string \<Rightarrow> w32 list" where
  "sha_block hs block =
     (let ws = sha_extend 48 (map be_word (chunks 16 4 block))
      in map2 (+) hs (foldl sha_round hs (zip sha_K ws)))"

definition sha256_hex :: "string \<Rightarrow> string" where
  "sha256_hex msg =
     (let padded = sha_pad msg
      in concat (map (\<lambda>w. hex_digits 8 (unat w))
           (foldl sha_block sha_H0 (chunks (length padded div 64) 64 padded))))"

section \<open>The printed digest\<close>

definition lower_hex :: "char \<Rightarrow> bool" where
  "lower_hex c \<longleftrightarrow> CHR ''0'' \<le> c \<and> c \<le> CHR ''9'' \<or> CHR ''a'' \<le> c \<and> c \<le> CHR ''f''"

text \<open>The regular expression \<open>^[0-9a-f]{64}$\<close> on a field of at most 64 characters.\<close>

definition hex64 :: "string \<Rightarrow> bool" where
  "hex64 s \<longleftrightarrow> length s = 64 \<and> list_all lower_hex s"

lemma lower_hex_char [simp]: "d < 16 \<Longrightarrow> lower_hex (hex_char d)"
  by (auto simp: hex_char_def lower_hex_def less_eq_char_def)

lemma hex_digits_lower: "list_all lower_hex (hex_digits n v)"
  by (induction n arbitrary: v) simp_all

lemma length_sha_round: "length hs = 8 \<Longrightarrow> length (sha_round hs p) = 8"
  by (cases "(hs, p)" rule: sha_round.cases) (auto simp: Let_def)

lemma length_sha_rounds: "length hs = 8 \<Longrightarrow> length (foldl sha_round hs ps) = 8"
  by (induction ps arbitrary: hs) (simp_all add: length_sha_round)

lemma length_sha_blocks: "length hs = 8 \<Longrightarrow> length (foldl sha_block hs bs) = 8"
  by (induction bs arbitrary: hs) (simp_all add: sha_block_def Let_def length_sha_rounds)

lemma concat_hex: "length (concat (map (\<lambda>w. hex_digits 8 (f w)) ws)) = 8 * length ws"
    "list_all lower_hex (concat (map (\<lambda>w. hex_digits 8 (f w)) ws))"
  by (induction ws) (simp_all add: hex_digits_lower)

lemma length_sha_H0: "length sha_H0 = 8"
proof -
  have "[2..<312] = [2..<20] @ [20..<312::nat]" using upt_add_eq_append [of 2 20 292] by simp
  moreover have "length (filter (\<lambda>p. list_all (\<lambda>d. p mod d \<noteq> 0) [2..<p]) [2..<20::nat]) = 8" by code_simp
  ultimately have "8 \<le> length small_primes" by (simp only: small_primes_def filter_append length_append)
  then show ?thesis by (simp add: sha_H0_def)
qed

lemma hex64_sha256 [simp]: "hex64 (sha256_hex msg)"
  by (simp add: hex64_def sha256_hex_def Let_def concat_hex length_sha_blocks length_sha_H0)

end
