(* ===== verification/Audit_Trail.thy ===== *)
theory Audit_Trail
  imports Iso_Datetime Sha256
begin

text \<open>
  The security audit trail (\<open>src/src/maru/audit/models.py\<close>, \<open>services.py\<close>): append-only events with
  validated metadata, and integrity batches that seal pending events into a chain of SHA-256 digests.
  The tables are lists in insertion order. A service takes them and returns them updated, or an
  error, in which case its transaction leaves them unchanged. The clock, fresh UUIDs and the rows
  locked by other transactions are arguments; the columns \<open>created_at\<close> and \<open>updated_at\<close>, which no
  service reads and no digest covers, are left out.
\<close>

section \<open>Safe metadata\<close>

definition MAX_SAFE_METADATA_TEXT_LENGTH :: nat where
  "MAX_SAFE_METADATA_TEXT_LENGTH = 160"

definition SHA256_HEX_LENGTH :: nat where
  "SHA256_HEX_LENGTH = 64"

datatype metadata_type = MetadataStr | MetadataInt

definition SAFE_METADATA_TYPES :: "(string \<times> metadata_type) list" where
  "SAFE_METADATA_TYPES =
     [(''access_purpose'', MetadataStr), (''client_kind'', MetadataStr), (''contract_version'', MetadataStr),
      (''export_classification'', MetadataStr), (''http_method'', MetadataStr), (''policy_digest'', MetadataStr),
      (''policy_version'', MetadataStr), (''remote_provider'', MetadataStr), (''route_name'', MetadataStr),
      (''target_count'', MetadataInt)]"

definition SAFE_METADATA_KEYS :: "string list" where
  "SAFE_METADATA_KEYS = map fst SAFE_METADATA_TYPES"

text \<open>\<open>isinstance(item, expected_type)\<close>, with \<open>bool\<close>, a subclass of \<open>int\<close>, refused by name.\<close>

fun metadata_type_ok :: "metadata_type \<Rightarrow> json \<Rightarrow> bool" where
  "metadata_type_ok MetadataStr (JStr _) = True"
| "metadata_type_ok MetadataInt (JInt _) = True"
| "metadata_type_ok _ _ = False"

definition unsafe_metadata :: maru_error where
  "unsafe_metadata = invalid ''unsafe_audit_metadata''"

definition safe_metadata_item :: "string \<Rightarrow> json \<Rightarrow> maru_error + unit" where
  "safe_metadata_item key item =
     bindE (guardE (metadata_type_ok (the (map_of SAFE_METADATA_TYPES key)) item) unsafe_metadata) (\<lambda>_.
     bindE (guardE (case item of JStr s \<Rightarrow> length s \<le> MAX_SAFE_METADATA_TEXT_LENGTH | _ \<Rightarrow> True) unsafe_metadata) (\<lambda>_.
     bindE (guardE (case item of
                      JStr s \<Rightarrow> key \<noteq> ''policy_digest'' \<or> length s = SHA256_HEX_LENGTH \<and> list_all lower_hex s
                    | _ \<Rightarrow> True) unsafe_metadata) (\<lambda>_.
       guardE (case item of JInt n \<Rightarrow> key \<noteq> ''target_count'' \<or> 0 \<le> n | _ \<Rightarrow> True) unsafe_metadata)))"

definition validate_safe_metadata :: "json \<Rightarrow> maru_error + unit" where
  "validate_safe_metadata v =
     (case v of
        JObj items \<Rightarrow>
          if \<not> set (map fst items) \<subseteq> set SAFE_METADATA_KEYS then Inl unsafe_metadata
          else foldE (\<lambda>(key, item) _. safe_metadata_item key item) items ()
      | _ \<Rightarrow> Inl unsafe_metadata)"

section \<open>Tables\<close>

record AuditIntegrityBatch =
  ab_id :: uuid
  ab_sequence :: int
  ab_previous_digest :: string
  ab_digest :: string
  ab_event_count :: int

record AuditEvent =
  ae_id :: uuid
  ae_schema_version :: int
  ae_occurred_at :: instant
  ae_principal_kind :: string
  ae_principal_id :: "uuid option"
  ae_principal_context_id :: "uuid option"
  ae_organization_id :: "uuid option"
  ae_event_edition_id :: "uuid option"
  ae_capability_code :: string
  ae_operation :: string
  ae_target_type :: string
  ae_target_id :: "uuid option"
  ae_outcome :: string
  ae_reason_code :: string
  ae_obligations :: "string list"
  ae_changed_fields :: "string list"
  ae_correlation_id :: uuid
  ae_causation_id :: "uuid option"
  ae_request_id :: "uuid option"
  ae_idempotency_key_hash :: string
  ae_source_channel :: string
  ae_delegated :: bool
  ae_elevated :: bool
  ae_break_glass :: bool
  ae_safe_metadata :: json
  ae_retention_class :: string
  ae_integrity_batch :: "uuid option"

record audit_db =
  au_events :: "AuditEvent list"
  au_batches :: "AuditIntegrityBatch list"

definition empty_audit :: audit_db where
  "empty_audit = \<lparr>au_events = [], au_batches = []\<rparr>"

definition ALLOW :: string where "ALLOW = ''allow''"
definition DENY :: string where "DENY = ''deny''"
definition ERROR :: string where "ERROR = ''error''"

subsection \<open>Validation of a new row\<close>

definition batch_full_clean :: "audit_db \<Rightarrow> AuditIntegrityBatch \<Rightarrow> bool" where
  "batch_full_clean db b \<longleftrightarrow>
     positive_big_integer (ab_sequence b) \<and> hex64 (ab_previous_digest b) \<and> hex64 (ab_digest b)
     \<and> positive_integer (ab_event_count b)
     \<and> \<not> list_ex (\<lambda>x. ab_id x = ab_id b \<or> ab_sequence x = ab_sequence b) (au_batches db)"

definition batch_create :: "audit_db \<Rightarrow> AuditIntegrityBatch \<Rightarrow> maru_error + audit_db" where
  "batch_create db b =
     (if batch_full_clean db b then Inr (db\<lparr>au_batches := au_batches db @ [b]\<rparr>) else Inl (ValidationError None))"

text \<open>The two conditional unique constraints; a null column never violates one.\<close>

definition reconcile_retry :: "AuditEvent \<Rightarrow> bool" where
  "reconcile_retry e \<longleftrightarrow> ae_capability_code e = ''identity.reconcile_account_invitation_delivery''
     \<and> ae_operation e = ''identity.account_invitation.delivery_reconcile'' \<and> ae_idempotency_key_hash e \<noteq> []"

definition retention_action :: "AuditEvent \<Rightarrow> bool" where
  "retention_action e \<longleftrightarrow>
     ae_operation e \<in> {''identity.account_invitation.retention_apply'',
       ''identity.account_invitation.retention_hold.place'', ''identity.account_invitation.retention_hold.release''}
     \<and> ae_target_id e \<noteq> None"

definition event_constraints :: "audit_db \<Rightarrow> AuditEvent \<Rightarrow> bool" where
  "event_constraints db e \<longleftrightarrow>
     \<not> (reconcile_retry e \<and> ae_principal_id e \<noteq> None
        \<and> list_ex (\<lambda>x. reconcile_retry x \<and> ae_principal_id x = ae_principal_id e
            \<and> ae_idempotency_key_hash x = ae_idempotency_key_hash e) (au_events db))
     \<and> \<not> (retention_action e
        \<and> list_ex (\<lambda>x. retention_action x \<and> ae_operation x = ae_operation e \<and> ae_target_id x = ae_target_id e)
            (au_events db))"

definition audit_event_full_clean :: "audit_db \<Rightarrow> AuditEvent \<Rightarrow> bool" where
  "audit_event_full_clean db e \<longleftrightarrow>
     positive_small_integer (ae_schema_version e) \<and> char_field 40 (ae_principal_kind e)
     \<and> char_field 120 (ae_capability_code e) \<and> char_field 160 (ae_operation e)
     \<and> char_field 120 (ae_target_type e) \<and> ae_outcome e \<in> {ALLOW, DENY, ERROR}
     \<and> char_field 120 (ae_reason_code e)
     \<and> list_all (char_field 120) (ae_obligations e) \<and> list_all (char_field 120) (ae_changed_fields e)
     \<and> (ae_idempotency_key_hash e = [] \<or> hex64 (ae_idempotency_key_hash e))
     \<and> char_field 40 (ae_source_channel e)
     \<and> (ae_safe_metadata e = JObj [] \<or> is_ok (validate_safe_metadata (ae_safe_metadata e)))
     \<and> char_field 80 (ae_retention_class e)
     \<and> \<not> list_ex (\<lambda>x. ae_id x = ae_id e) (au_events db)
     \<and> event_constraints db e"

definition audit_event_create :: "audit_db \<Rightarrow> AuditEvent \<Rightarrow> maru_error + audit_db" where
  "audit_event_create db e =
     (if audit_event_full_clean db e then Inr (db\<lparr>au_events := au_events db @ [e]\<rparr>)
      else Inl (ValidationError None))"

section \<open>Append\<close>

record AuditRecord =
  ar_principal_kind :: string
  ar_principal_id :: "uuid option"
  ar_principal_context_id :: "uuid option"
  ar_organization_id :: "uuid option"
  ar_event_edition_id :: "uuid option"
  ar_capability_code :: string
  ar_operation :: string
  ar_target_type :: string
  ar_target_id :: "uuid option"
  ar_outcome :: string
  ar_reason_code :: string
  ar_correlation_id :: uuid
  ar_source_channel :: string
  ar_obligations :: "string list"
  ar_changed_fields :: "string list"
  ar_causation_id :: "uuid option"
  ar_request_id :: "uuid option"
  ar_idempotency_key_hash :: string
  ar_delegated :: bool
  ar_elevated :: bool
  ar_break_glass :: bool
  ar_safe_metadata :: json
  ar_retention_class :: string

text \<open>The row of a record; metadata that is \<open>None\<close> or empty becomes an empty object.\<close>

definition event_of_audit_record :: "uuid \<Rightarrow> instant \<Rightarrow> AuditRecord \<Rightarrow> AuditEvent" where
  "event_of_audit_record i occurred r = \<lparr>
     ae_id = i, ae_schema_version = 1, ae_occurred_at = occurred, ae_principal_kind = ar_principal_kind r,
     ae_principal_id = ar_principal_id r, ae_principal_context_id = ar_principal_context_id r,
     ae_organization_id = ar_organization_id r, ae_event_edition_id = ar_event_edition_id r,
     ae_capability_code = ar_capability_code r, ae_operation = ar_operation r, ae_target_type = ar_target_type r,
     ae_target_id = ar_target_id r, ae_outcome = ar_outcome r, ae_reason_code = ar_reason_code r,
     ae_obligations = ar_obligations r, ae_changed_fields = ar_changed_fields r,
     ae_correlation_id = ar_correlation_id r, ae_causation_id = ar_causation_id r,
     ae_request_id = ar_request_id r, ae_idempotency_key_hash = ar_idempotency_key_hash r,
     ae_source_channel = ar_source_channel r, ae_delegated = ar_delegated r, ae_elevated = ar_elevated r,
     ae_break_glass = ar_break_glass r,
     ae_safe_metadata = (if json_true (ar_safe_metadata r) then ar_safe_metadata r else JObj []),
     ae_retention_class = ar_retention_class r, ae_integrity_batch = None\<rparr>"

definition append_audit ::
    "uuid \<Rightarrow> instant \<Rightarrow> AuditRecord \<Rightarrow> instant option \<Rightarrow> uuid option \<Rightarrow> audit_db
     \<Rightarrow> maru_error + audit_db \<times> AuditEvent" where
  "append_audit fresh now record occurred_at event_id db =
     (let e = event_of_audit_record (case event_id of None \<Rightarrow> fresh | Some i \<Rightarrow> i)
                (case occurred_at of None \<Rightarrow> now | Some t \<Rightarrow> t) record
      in bindE (audit_event_create db e) (\<lambda>db'. Inr (db', e)))"

section \<open>Digests\<close>

definition GENESIS_DIGEST :: string where
  "GENESIS_DIGEST = replicate 64 CHR ''0''"

definition MAX_BATCH_SIZE :: int where
  "MAX_BATCH_SIZE = 10000"

definition json_uuid :: "uuid option \<Rightarrow> json" where
  "json_uuid v = (case v of None \<Rightarrow> JNull | Some u \<Rightarrow> JStr (uuid_str u))"

definition canonical_event :: "AuditEvent \<Rightarrow> json" where
  "canonical_event e = JObj [
     (''id'', JStr (uuid_str (ae_id e))),
     (''schema_version'', JInt (ae_schema_version e)),
     (''occurred_at'', JStr (isoformat (ae_occurred_at e))),
     (''principal_kind'', JStr (ae_principal_kind e)),
     (''principal_id'', json_uuid (ae_principal_id e)),
     (''principal_context_id'', json_uuid (ae_principal_context_id e)),
     (''organization_id'', json_uuid (ae_organization_id e)),
     (''event_edition_id'', json_uuid (ae_event_edition_id e)),
     (''capability_code'', JStr (ae_capability_code e)),
     (''operation'', JStr (ae_operation e)),
     (''target_type'', JStr (ae_target_type e)),
     (''target_id'', json_uuid (ae_target_id e)),
     (''outcome'', JStr (ae_outcome e)),
     (''reason_code'', JStr (ae_reason_code e)),
     (''obligations'', JList (map JStr (ae_obligations e))),
     (''changed_fields'', JList (map JStr (ae_changed_fields e))),
     (''correlation_id'', JStr (uuid_str (ae_correlation_id e))),
     (''causation_id'', json_uuid (ae_causation_id e)),
     (''request_id'', json_uuid (ae_request_id e)),
     (''idempotency_key_hash'', JStr (ae_idempotency_key_hash e)),
     (''source_channel'', JStr (ae_source_channel e)),
     (''delegated'', JBool (ae_delegated e)),
     (''elevated'', JBool (ae_elevated e)),
     (''break_glass'', JBool (ae_break_glass e)),
     (''safe_metadata'', ae_safe_metadata e),
     (''retention_class'', JStr (ae_retention_class e))]"

definition digest_input :: "string \<Rightarrow> AuditEvent list \<Rightarrow> string" where
  "digest_input previous_digest events =
     json_dumps (JObj [(''previous_digest'', JStr previous_digest), (''events'', JList (map canonical_event events))])"

definition audit_digest :: "string \<Rightarrow> AuditEvent list \<Rightarrow> string" where
  "audit_digest previous_digest events = sha256_hex (digest_input previous_digest events)"

section \<open>Seal and verify\<close>

definition event_order :: "AuditEvent \<Rightarrow> instant \<times> uuid" where
  "event_order e = (ae_occurred_at e, ae_id e)"

definition last_batch :: "audit_db \<Rightarrow> AuditIntegrityBatch option" where
  "last_batch db = (case rev (sort_key ab_sequence (au_batches db)) of [] \<Rightarrow> None | b # _ \<Rightarrow> Some b)"

definition pending_events :: "uuid list \<Rightarrow> audit_db \<Rightarrow> AuditEvent list" where
  "pending_events locked db = sort_key event_order
     (filter (\<lambda>e. ae_integrity_batch e = None \<and> ae_id e \<notin> set locked) (au_events db))"

definition seal_into :: "uuid \<Rightarrow> uuid list \<Rightarrow> AuditEvent \<Rightarrow> AuditEvent" where
  "seal_into batch ids e = (if ae_id e \<in> set ids then e\<lparr>ae_integrity_batch := Some batch\<rparr> else e)"

definition next_batch :: "uuid \<Rightarrow> AuditEvent list \<Rightarrow> audit_db \<Rightarrow> AuditIntegrityBatch" where
  "next_batch fresh events db =
     (let previous_digest = (case last_batch db of None \<Rightarrow> GENESIS_DIGEST | Some b \<Rightarrow> ab_digest b)
      in \<lparr>ab_id = fresh, ab_sequence = (case last_batch db of None \<Rightarrow> 1 | Some b \<Rightarrow> ab_sequence b + 1),
          ab_previous_digest = previous_digest, ab_digest = audit_digest previous_digest events,
          ab_event_count = int (length events)\<rparr>)"

definition seal_pending_audit_events ::
    "uuid list \<Rightarrow> uuid \<Rightarrow> int \<Rightarrow> audit_db \<Rightarrow> maru_error + audit_db \<times> AuditIntegrityBatch option" where
  "seal_pending_audit_events locked fresh limit db =
     (if limit < 1 \<or> MAX_BATCH_SIZE < limit then Inl (invalid ''invalid_audit_batch_size'')
      else let events = take (nat limit) (pending_events locked db) in
        if events = [] then Inr (db, None)
        else let batch = next_batch fresh events db in
          bindE (batch_create db batch) (\<lambda>db'.
            Inr (db'\<lparr>au_events := map (seal_into (ab_id batch) (map ae_id events)) (au_events db')\<rparr>, Some batch)))"

definition batch_events :: "audit_db \<Rightarrow> AuditIntegrityBatch \<Rightarrow> AuditEvent list" where
  "batch_events db b = sort_key event_order (filter (\<lambda>e. ae_integrity_batch e = Some (ab_id b)) (au_events db))"

fun verify_from :: "audit_db \<Rightarrow> string \<Rightarrow> int \<Rightarrow> AuditIntegrityBatch list \<Rightarrow> bool" where
  "verify_from db expected_previous expected_sequence [] = True"
| "verify_from db expected_previous expected_sequence (batch # batches) =
     (let events = batch_events db batch in
      if ab_sequence batch \<noteq> expected_sequence then False
      else if ab_previous_digest batch \<noteq> expected_previous then False
      else if ab_event_count batch \<noteq> int (length events) then False
      else if ab_digest batch \<noteq> audit_digest expected_previous events then False
      else verify_from db (ab_digest batch) (expected_sequence + 1) batches)"

definition verify_audit_integrity :: "audit_db \<Rightarrow> bool" where
  "verify_audit_integrity db = verify_from db GENESIS_DIGEST 1 (sort_key ab_sequence (au_batches db))"

section \<open>Management command\<close>

text \<open>
  \<open>manage.py audit_integrity [--seal] [--limit n]\<close>: seals at most one batch, then verifies and reports. The
  command fails after reporting when the report is not valid; what it sealed stays sealed.
\<close>

record integrity_report =
  ir_valid :: bool
  ir_sealed_batch :: "uuid option"
  ir_batch_count :: nat
  ir_pending_event_count :: nat

definition audit_integrity_command ::
    "uuid list \<Rightarrow> uuid \<Rightarrow> bool \<Rightarrow> int \<Rightarrow> audit_db \<Rightarrow> maru_error + audit_db \<times> integrity_report" where
  "audit_integrity_command locked fresh seal limit db =
     bindE (if seal then seal_pending_audit_events locked fresh limit db else Inr (db, None)) (\<lambda>(db', sealed).
       Inr (db', \<lparr>ir_valid = verify_audit_integrity db', ir_sealed_batch = map_option ab_id sealed,
                   ir_batch_count = length (au_batches db'),
                   ir_pending_event_count = length (filter (\<lambda>e. ae_integrity_batch e = None) (au_events db'))\<rparr>))"

end
