(* ===== verification/Audit_Inv.thy ===== *)
theory Audit_Inv
  imports Audit_Trail
begin

text \<open>
  The invariant of the audit trail and that appending and sealing keep it; what the digest of a batch
  determines; the trail as a transition system.
\<close>

section \<open>The digest input determines the events\<close>

lemma json_object_eq:
  assumes "json_sort (JObj fs) = json_sort (JObj gs)" and "map fst fs = map fst gs" and "distinct (map fst fs)"
  shows "json_sort_fields fs = json_sort_fields gs"
proof -
  let ?f = "json_sort_fields fs" and ?g = "json_sort_fields gs"
  have keys: "map fst ?f = map fst fs" "map fst ?g = map fst gs"
    by (simp_all add: json_sort_fields_map case_prod_unfold comp_def)
  have "set ?f = set ?g"
    using assms(1) by simp (metis set_sort)
  then show ?thesis
  proof (intro map_inj_on [where f = fst])
    have "inj_on fst (set ?f)" using assms(3) keys(1) by (metis distinct_map)
    with \<open>set ?f = set ?g\<close> show "inj_on fst (set ?f \<union> set ?g)" by simp
  qed (use assms(2) keys in simp)
qed

lemma json_uuid_sort [simp]: "json_sort (json_uuid v) = json_uuid v"
  by (cases v) (simp_all add: json_uuid_def)

lemma json_uuid_eq [simp]: "json_uuid v = json_uuid w \<longleftrightarrow> v = w"
  by (cases v; cases w) (simp_all add: json_uuid_def)

lemma json_strings_sort [simp]: "json_sort_list (map JStr ss) = map JStr ss"
  by (induction ss) simp_all

lemma map_JStr_eq [simp]: "map JStr ss = map JStr ts \<longleftrightarrow> ss = ts"
  by (rule inj_map_eq_map) (rule injI, simp)

text \<open>
  The content of an event: every column but the batch it was sealed into, with metadata compared as an
  object, whatever the order of its keys.
\<close>

definition event_content :: "AuditEvent \<Rightarrow> AuditEvent" where
  "event_content e = e\<lparr>ae_integrity_batch := None, ae_safe_metadata := json_sort (ae_safe_metadata e)\<rparr>"

definition canonical_keys :: "string list" where
  "canonical_keys = [''id'', ''schema_version'', ''occurred_at'', ''principal_kind'', ''principal_id'',
     ''principal_context_id'', ''organization_id'', ''event_edition_id'', ''capability_code'', ''operation'',
     ''target_type'', ''target_id'', ''outcome'', ''reason_code'', ''obligations'', ''changed_fields'',
     ''correlation_id'', ''causation_id'', ''request_id'', ''idempotency_key_hash'', ''source_channel'',
     ''delegated'', ''elevated'', ''break_glass'', ''safe_metadata'', ''retention_class'']"

lemma distinct_canonical_keys: "distinct canonical_keys"
  by code_simp

definition canonical_fields :: "AuditEvent \<Rightarrow> (string \<times> json) list" where
  "canonical_fields e = (case canonical_event e of JObj fs \<Rightarrow> fs | _ \<Rightarrow> [])"

lemma canonical_fields: "canonical_event e = JObj (canonical_fields e)" "map fst (canonical_fields e) = canonical_keys"
  by (simp_all add: canonical_fields_def canonical_event_def canonical_keys_def)

lemma canonical_values:
  "map snd (canonical_fields e) = [
     JStr (uuid_str (ae_id e)), JInt (ae_schema_version e), JStr (isoformat (ae_occurred_at e)),
     JStr (ae_principal_kind e), json_uuid (ae_principal_id e), json_uuid (ae_principal_context_id e),
     json_uuid (ae_organization_id e), json_uuid (ae_event_edition_id e), JStr (ae_capability_code e),
     JStr (ae_operation e), JStr (ae_target_type e), json_uuid (ae_target_id e), JStr (ae_outcome e),
     JStr (ae_reason_code e), JList (map JStr (ae_obligations e)),
     JList (map JStr (ae_changed_fields e)), JStr (uuid_str (ae_correlation_id e)),
     json_uuid (ae_causation_id e), json_uuid (ae_request_id e), JStr (ae_idempotency_key_hash e),
     JStr (ae_source_channel e), JBool (ae_delegated e), JBool (ae_elevated e), JBool (ae_break_glass e),
     ae_safe_metadata e, JStr (ae_retention_class e)]"
  by (simp add: canonical_fields_def canonical_event_def)

lemma canonical_event_eq:
  assumes "json_sort (canonical_event e) = json_sort (canonical_event f)"
    and "valid_instant (ae_occurred_at e)" and "valid_instant (ae_occurred_at f)"
  shows "event_content e = event_content f"
proof -
  have "json_sort_fields (canonical_fields e) = json_sort_fields (canonical_fields f)"
    by (rule json_object_eq)
      (use assms(1) in \<open>simp_all add: canonical_fields distinct_canonical_keys del: json_sort.simps\<close>)
  then have vals: "map json_sort (map snd (canonical_fields e)) = map json_sort (map snd (canonical_fields f))"
    by (metis json_sort_fields_snd)
  have "uuid_str (ae_id e) = uuid_str (ae_id f)" "ae_schema_version e = ae_schema_version f"
    "isoformat (ae_occurred_at e) = isoformat (ae_occurred_at f)" "ae_principal_kind e = ae_principal_kind f"
    "ae_principal_id e = ae_principal_id f" "ae_principal_context_id e = ae_principal_context_id f"
    "ae_organization_id e = ae_organization_id f" "ae_event_edition_id e = ae_event_edition_id f"
    "ae_capability_code e = ae_capability_code f" "ae_operation e = ae_operation f"
    "ae_target_type e = ae_target_type f" "ae_target_id e = ae_target_id f" "ae_outcome e = ae_outcome f"
    "ae_reason_code e = ae_reason_code f" "ae_obligations e = ae_obligations f"
    "ae_changed_fields e = ae_changed_fields f" "ae_correlation_id e = ae_correlation_id f"
    "ae_causation_id e = ae_causation_id f" "ae_request_id e = ae_request_id f"
    "ae_idempotency_key_hash e = ae_idempotency_key_hash f" "ae_source_channel e = ae_source_channel f"
    "ae_delegated e = ae_delegated f" "ae_elevated e = ae_elevated f" "ae_break_glass e = ae_break_glass f"
    "json_sort (ae_safe_metadata e) = json_sort (ae_safe_metadata f)" "ae_retention_class e = ae_retention_class f"
    using vals [unfolded canonical_values] by simp_all
  with isoformat_inject [OF _ assms(2,3)] show ?thesis
    by (intro AuditEvent.equality) (simp_all add: event_content_def)
qed

lemma digest_input_eq:
  assumes "digest_input p es = digest_input q fs"
    and "\<forall>e \<in> set es. valid_instant (ae_occurred_at e)" and "\<forall>f \<in> set fs. valid_instant (ae_occurred_at f)"
  shows "p = q \<and> map event_content es = map event_content fs"
proof -
  let ?o = "\<lambda>p es. [(''previous_digest'', JStr p), (''events'', JList (map canonical_event es))]"
  from assms(1) have "json_sort (JObj (?o p es)) = json_sort (JObj (?o q fs))"
    by (simp add: digest_input_def json_dumps_eq)
  then have "json_sort_fields (?o p es) = json_sort_fields (?o q fs)" by (rule json_object_eq) simp_all
  then have pq: "p = q" and eq: "map (json_sort \<circ> canonical_event) es = map (json_sort \<circ> canonical_event) fs"
    by (simp_all add: json_sort_list_map)
  have "map event_content es = map event_content fs"
  proof (rule nth_equalityI)
    show len: "length (map event_content es) = length (map event_content fs)"
      using map_eq_imp_length_eq [OF eq] by simp
    fix i assume "i < length (map event_content es)"
    then have i: "i < length es" "i < length fs" using len by simp_all
    with arg_cong [OF eq, of "\<lambda>xs. xs ! i"] have "json_sort (canonical_event (es ! i)) = json_sort (canonical_event (fs ! i))"
      by simp
    then have "event_content (es ! i) = event_content (fs ! i)"
      by (rule canonical_event_eq) (use i assms(2,3) in simp_all)
    with i show "map event_content es ! i = map event_content fs ! i" by simp
  qed
  with pq show ?thesis ..
qed

section \<open>The chain\<close>

text \<open>What a digest reads of an event does not include the batch.\<close>

definition unsealed :: "AuditEvent \<Rightarrow> AuditEvent" where
  "unsealed e = e\<lparr>ae_integrity_batch := None\<rparr>"

lemma unsealed_simps [simp]:
  "canonical_event (unsealed e) = canonical_event e" "event_order (unsealed e) = event_order e"
  "ae_id (unsealed e) = ae_id e" "unsealed (unsealed e) = unsealed e" "unsealed (seal_into b ids e) = unsealed e"
  by (simp_all add: unsealed_def canonical_event_def event_order_def seal_into_def)

lemma seal_into_batch [simp]:
  "ae_integrity_batch (seal_into i ids e) = (if ae_id e \<in> set ids then Some i else ae_integrity_batch e)"
  by (simp add: seal_into_def)

lemma seal_into_simps [simp]: "ae_id (seal_into b ids e) = ae_id e" "event_order (seal_into b ids e) = event_order e"
  by (simp_all add: seal_into_def event_order_def)

lemma audit_digest_unsealed:
  assumes "map unsealed es = map unsealed fs"
  shows "audit_digest p es = audit_digest p fs"
proof -
  have "map canonical_event es = map (canonical_event \<circ> unsealed) es" by simp
  also have "\<dots> = map (canonical_event \<circ> unsealed) fs" by (metis assms list.map_comp)
  also have "\<dots> = map canonical_event fs" by simp
  finally show ?thesis by (simp add: audit_digest_def digest_input_def)
qed

lemma verify_from_cong:
  assumes "\<And>b. b \<in> set bs \<Longrightarrow> map unsealed (batch_events db b) = map unsealed (batch_events db' b)"
  shows "verify_from db p s bs = verify_from db' p s bs"
  using assms
proof (induction bs arbitrary: p s)
  case Nil
  then show ?case by simp
next
  case (Cons b bs)
  then have "map unsealed (batch_events db b) = map unsealed (batch_events db' b)" by simp
  then have "length (batch_events db b) = length (batch_events db' b)"
    "audit_digest p (batch_events db b) = audit_digest p (batch_events db' b)"
    by (auto dest: map_eq_imp_length_eq intro: audit_digest_unsealed)
  with Cons show ?case by (simp add: Let_def)
qed

definition chain_end :: "string \<Rightarrow> AuditIntegrityBatch list \<Rightarrow> string" where
  "chain_end p bs = (if bs = [] then p else ab_digest (last bs))"

lemma verify_from_append:
  "verify_from db p s (bs @ cs) \<longleftrightarrow>
     verify_from db p s bs \<and> verify_from db (chain_end p bs) (s + int (length bs)) cs"
  by (induction bs arbitrary: p s) (auto simp: Let_def chain_end_def add.assoc add.commute)

lemma verify_from_sequences:
  "verify_from db p s bs \<Longrightarrow> i < length bs \<Longrightarrow> ab_sequence (bs ! i) = s + int i"
  by (induction bs arbitrary: p s i) (auto simp: Let_def nth_Cons split: nat.splits if_splits)

lemma verify_from_sorted: "verify_from db p s bs \<Longrightarrow> sorted (map ab_sequence bs)"
  by (auto simp: sorted_iff_nth_mono verify_from_sequences)

lemma verify_from_hex: "verify_from db p s bs \<Longrightarrow> hex64 p \<Longrightarrow> hex64 (chain_end p bs)"
proof (induction bs arbitrary: p s)
  case (Cons b bs)
  then have "hex64 (chain_end (ab_digest b) bs)"
    by (intro Cons.IH) (auto simp: Let_def audit_digest_def split: if_splits)
  then show ?case by (simp add: chain_end_def split: if_splits)
qed (simp add: chain_end_def)

section \<open>Invariant\<close>

definition audit_inv :: "audit_db \<Rightarrow> bool" where
  "audit_inv db \<longleftrightarrow>
     distinct (map ae_id (au_events db)) \<and> distinct (map ab_id (au_batches db))
     \<and> verify_from db GENESIS_DIGEST 1 (au_batches db)
     \<and> (\<forall>e \<in> set (au_events db). \<forall>b. ae_integrity_batch e = Some b \<longrightarrow> b \<in> ab_id ` set (au_batches db))"

lemma audit_inv_verifies: "audit_inv db \<Longrightarrow> verify_audit_integrity db"
  using verify_from_sorted [THEN sorted_sort_key_id, of db GENESIS_DIGEST 1 "au_batches db"]
  by (simp add: audit_inv_def verify_audit_integrity_def)

lemma last_batch_inv:
  assumes "audit_inv db"
  shows "last_batch db = (if au_batches db = [] then None else Some (last (au_batches db)))"
proof -
  have "sort_key ab_sequence (au_batches db) = au_batches db"
    using assms by (auto simp: audit_inv_def intro: sorted_sort_key_id verify_from_sorted)
  then show ?thesis
    by (cases "au_batches db" rule: rev_cases) (simp_all add: last_batch_def)
qed

lemma hex64_genesis: "hex64 GENESIS_DIGEST"
  by (simp add: hex64_def GENESIS_DIGEST_def lower_hex_def list_all_iff)

lemma next_batch_inv:
  assumes "audit_inv db"
  shows "ab_sequence (next_batch i es db) = 1 + int (length (au_batches db))"
    and "ab_previous_digest (next_batch i es db) = chain_end GENESIS_DIGEST (au_batches db)"
    and "ab_digest (next_batch i es db) = audit_digest (chain_end GENESIS_DIGEST (au_batches db)) es"
    and "ab_event_count (next_batch i es db) = int (length es)" and "ab_id (next_batch i es db) = i"
proof -
  have v: "verify_from db GENESIS_DIGEST 1 (au_batches db)" using assms by (simp add: audit_inv_def)
  have "ab_sequence (last (au_batches db)) = int (length (au_batches db))" if "au_batches db \<noteq> []"
    using verify_from_sequences [OF v, of "length (au_batches db) - 1"] that
    by (cases "au_batches db" rule: rev_cases) (simp_all add: last_conv_nth)
  then show "ab_sequence (next_batch i es db) = 1 + int (length (au_batches db))"
    by (simp add: next_batch_def Let_def last_batch_inv [OF assms])
qed (simp_all add: next_batch_def Let_def last_batch_inv [OF assms] chain_end_def)

section \<open>Sealing\<close>

lemma pending_events_facts:
  assumes "audit_inv db"
  shows "distinct (map ae_id (pending_events locked db))" and "sorted (map event_order (pending_events locked db))"
    and "\<forall>e \<in> set (pending_events locked db). e \<in> set (au_events db) \<and> ae_integrity_batch e = None"
proof -
  have "distinct (map ae_id (filter P (au_events db)))" for P
    using assms by (simp add: audit_inv_def distinct_map_filter)
  then show "distinct (map ae_id (pending_events locked db))"
    by (simp add: pending_events_def distinct_map)
qed (auto simp: pending_events_def)

text \<open>Reading one batch back: the selected events in their order, whatever the order of the table.\<close>

lemma select_by_id:
  assumes "distinct (map ae_id evs)" and "set es \<subseteq> set evs" and "distinct es" and "sorted (map event_order es)"
  shows "sort_key event_order (filter (\<lambda>e. ae_id e \<in> ae_id ` set es) evs) = es"
proof -
  have inj: "inj_on ae_id (set evs)" and d: "distinct evs" using assms(1) by (simp_all add: distinct_map)
  have eq: "set (filter (\<lambda>e. ae_id e \<in> ae_id ` set es) evs) = set es"
    using assms(2) inj_onD [OF inj] by (auto dest: subsetD)
  have "inj_on event_order (set es)"
    using inj_on_subset [OF inj assms(2)] by (auto simp: inj_on_def event_order_def)
  then have "sort_key event_order (filter (\<lambda>e. ae_id e \<in> ae_id ` set es) evs) = sort_key event_order es"
    using assms(3) d eq by (intro sort_key_inj_unique) simp_all
  also have "\<dots> = es" by (rule sorted_sort_key_id [OF assms(4)])
  finally show ?thesis .
qed

text \<open>The state after a batch of events was sealed.\<close>

definition sealed :: "AuditIntegrityBatch \<Rightarrow> AuditEvent list \<Rightarrow> audit_db \<Rightarrow> audit_db" where
  "sealed b es db = \<lparr>au_events = map (seal_into (ab_id b) (map ae_id es)) (au_events db), au_batches = au_batches db @ [b]\<rparr>"

lemma seal_Inr:
  assumes "seal_pending_audit_events locked fresh limit db = Inr (db', r)"
  obtains "pending_events locked db = []" "db' = db" "r = None" "1 \<le> limit"
  | es where "es = take (nat limit) (pending_events locked db)" "es \<noteq> []" "r = Some (next_batch fresh es db)"
      "batch_full_clean db (next_batch fresh es db)" "db' = sealed (next_batch fresh es db) es db" "1 \<le> limit"
proof -
  define es where es: "es = take (nat limit) (pending_events locked db)"
  have lim: "1 \<le> limit"
    using assms by (simp add: seal_pending_audit_events_def split: if_splits)
  show thesis
  proof (cases "es = []")
    case True
    with assms es lim that(1) show ?thesis
      by (simp add: seal_pending_audit_events_def split: if_splits)
  next
    case False
    with assms es that(2) [OF es] lim show ?thesis
      by (auto simp: seal_pending_audit_events_def Let_def batch_create_def sealed_def result_simps split: if_splits)
  qed
qed

lemma batch_events_unchanged:
  assumes "\<And>e. e \<in> set (au_events db) \<Longrightarrow> ae_id e \<in> set ids \<Longrightarrow> ae_integrity_batch e \<noteq> Some (ab_id b)" and "ab_id b \<noteq> i"
    and "au_events db' = map (seal_into i ids) (au_events db)"
  shows "batch_events db' b = batch_events db b"
proof -
  have "filter (\<lambda>e. ae_integrity_batch e = Some (ab_id b)) (map (seal_into i ids) evs) =
      filter (\<lambda>e. ae_integrity_batch e = Some (ab_id b)) evs"
    if "\<And>e. e \<in> set evs \<Longrightarrow> ae_id e \<in> set ids \<Longrightarrow> ae_integrity_batch e \<noteq> Some (ab_id b)" for evs
    using that
  proof (induction evs)
    case (Cons e evs)
    then have "ae_id e \<in> set ids \<longrightarrow> ae_integrity_batch e \<noteq> Some (ab_id b)" by simp
    moreover have "seal_into i ids e = e" if "ae_id e \<notin> set ids" using that by (simp add: seal_into_def)
    ultimately show ?case using Cons assms(2) by simp
  qed simp
  with assms(1,3) show ?thesis by (simp add: batch_events_def)
qed

lemma filter_seal_into:
  assumes "\<And>e. e \<in> set evs \<Longrightarrow> ae_integrity_batch e \<noteq> Some i"
  shows "filter (\<lambda>e. ae_integrity_batch e = Some i) (map (seal_into i ids) evs) =
    map (seal_into i ids) (filter (\<lambda>e. ae_id e \<in> set ids) evs)"
  using assms by (induction evs) simp_all

text \<open>Facts of one sealing under the invariant.\<close>

lemma sealed_facts:
  assumes inv: "audit_inv db" and es: "es = take n (pending_events locked db)"
    and clean: "batch_full_clean db b"
  shows "batch_events (sealed b es db) b = map (\<lambda>e. e\<lparr>ae_integrity_batch := Some (ab_id b)\<rparr>) es"
    and "\<And>c. c \<in> set (au_batches db) \<Longrightarrow> batch_events (sealed b es db) c = batch_events db c"
proof -
  note p = pending_events_facts [OF inv, of locked]
  have sub: "set es \<subseteq> set (pending_events locked db)" by (simp add: es set_take_subset)
  have fresh: "ab_id b \<notin> ab_id ` set (au_batches db)"
    using clean by (auto simp: batch_full_clean_def list_ex_iff)
  then have unused: "\<And>e. e \<in> set (au_events db) \<Longrightarrow> ae_integrity_batch e \<noteq> Some (ab_id b)"
    using inv by (auto simp: audit_inv_def)
  have ids: "distinct (map ae_id (au_events db))" using inv by (simp add: audit_inv_def)
  have "sort_key event_order (filter (\<lambda>e. ae_id e \<in> ae_id ` set es) (au_events db)) = es"
  proof (rule select_by_id [OF ids])
    show "set es \<subseteq> set (au_events db)" using sub p(3) by auto
    show "distinct es" using p(1) by (auto simp: es distinct_map)
    show "sorted (map event_order es)" using p(2) by (simp add: es take_map [symmetric] sorted_wrt_take)
  qed
  then show "batch_events (sealed b es db) b = map (\<lambda>e. e\<lparr>ae_integrity_batch := Some (ab_id b)\<rparr>) es"
    using sort_key_map [of event_order "seal_into (ab_id b) (map ae_id es)"]
    by (simp add: batch_events_def sealed_def filter_seal_into [OF unused]) (simp add: seal_into_def)
  show "batch_events (sealed b es db) c = batch_events db c" if "c \<in> set (au_batches db)" for c
  proof (rule batch_events_unchanged)
    show "ae_integrity_batch e \<noteq> Some (ab_id c)" if "e \<in> set (au_events db)" "ae_id e \<in> set (map ae_id es)" for e
    proof -
      from that(2) obtain f where f: "f \<in> set es" "ae_id f = ae_id e" by auto
      with sub p(3) have "f \<in> set (au_events db)" "ae_integrity_batch f = None" by auto
      moreover from this(1) that(1) f(2) ids have "f = e" by (auto simp: distinct_map dest: inj_onD)
      ultimately show ?thesis by simp
    qed
    show "ab_id c \<noteq> ab_id b" using fresh that by (metis imageI)
  qed (simp add: sealed_def)
qed

lemma sealed_inv:
  assumes inv: "audit_inv db" and es: "es = take n (pending_events locked db)"
    and clean: "batch_full_clean db (next_batch i es db)"
  shows "audit_inv (sealed (next_batch i es db) es db)"
proof -
  let ?b = "next_batch i es db" and ?db = "sealed (next_batch i es db) es db"
  note s = sealed_facts [OF inv es clean] and n = next_batch_inv [OF inv]
  have "verify_from ?db GENESIS_DIGEST 1 (au_batches db)"
    using inv s(2) by (subst verify_from_cong [where db' = db]) (simp_all add: audit_inv_def)
  moreover have "audit_digest p (map (\<lambda>e. e\<lparr>ae_integrity_batch := Some i\<rparr>) es) = audit_digest p es" for p
    by (rule audit_digest_unsealed) (simp add: unsealed_def)
  ultimately have "verify_from ?db GENESIS_DIGEST 1 (au_batches ?db)"
    using s(1) n by (simp add: sealed_def [of ?b] verify_from_append Let_def)
  moreover have "map ae_id (au_events ?db) = map ae_id (au_events db)" by (simp add: sealed_def comp_def)
  moreover have "\<forall>e \<in> set (au_events ?db). \<forall>c. ae_integrity_batch e = Some c \<longrightarrow> c \<in> ab_id ` set (au_batches ?db)"
    using inv by (simp add: sealed_def audit_inv_def)
  moreover have "distinct (map ab_id (au_batches ?db))"
    using inv clean by (auto simp: audit_inv_def sealed_def batch_full_clean_def list_ex_iff)
  ultimately show ?thesis using inv by (simp only: audit_inv_def)
qed

lemma seal_inv:
  assumes "audit_inv db" and "seal_pending_audit_events locked fresh limit db = Inr (db', r)"
  shows "audit_inv db'"
  using assms(2) by (rule seal_Inr) (use assms(1) sealed_inv in auto)

section \<open>Appending\<close>

lemma append_Inr:
  assumes "append_audit fresh now record occurred i db = Inr (db', e)"
  shows "db' = db\<lparr>au_events := au_events db @ [e]\<rparr>" and "ae_integrity_batch e = None"
    and "audit_event_full_clean db e"
    and "e = event_of_audit_record (case i of None \<Rightarrow> fresh | Some j \<Rightarrow> j) (case occurred of None \<Rightarrow> now | Some t \<Rightarrow> t) record"
  using assms
  by (auto simp: append_audit_def audit_event_create_def Let_def result_simps event_of_audit_record_def split: if_splits)

lemma append_inv:
  assumes inv: "audit_inv db" and app: "append_audit fresh now record occurred i db = Inr (db', e)"
  shows "audit_inv db'"
proof -
  note a = append_Inr [OF app]
  have "verify_from db' GENESIS_DIGEST 1 (au_batches db)"
    using inv a(1,2) by (subst verify_from_cong [where db' = db]) (simp_all add: audit_inv_def batch_events_def)
  with inv a show ?thesis
    by (auto simp: audit_inv_def audit_event_full_clean_def list_ex_iff)
qed

section \<open>The trail as a transition system\<close>

inductive audit_step :: "audit_db \<Rightarrow> audit_db \<Rightarrow> bool" where
  step_append: "append_audit fresh now record occurred i db = Inr (db', e) \<Longrightarrow> audit_step db db'"
| step_seal: "seal_pending_audit_events locked fresh limit db = Inr (db', r) \<Longrightarrow> audit_step db db'"

interpretation audit: inductive_invariant "\<lambda>db. db = empty_audit" audit_step audit_inv
proof unfold_locales
  show "audit_inv db" if "db = empty_audit" for db
    using that by (simp add: audit_inv_def empty_audit_def)
  show "audit_inv t" if "audit_inv s" "audit_step s t" for s t
    using that(2,1) by cases (auto intro: append_inv seal_inv)
qed

end
