(* ===== verification/Effect_Operations.thy ===== *)
theory Effect_Operations
  imports Outbox_Props Audit_Inv
begin

text \<open>
  The operator's side of the outbox: authorized and audited replay (\<open>src/src/maru/effects/commands.py\<close>),
  the replay history (\<open>queries.py\<close>) and the health snapshot (\<open>operations.py\<close>). The state is the outbox
  tables and the audit tables together. The policy decision and the obligations of the capability come
  from the authorization package and are arguments. A command returns the state it leaves with what it
  returns or raises: refusals are audited, so a raised error does not mean an unchanged state.
\<close>

section \<open>Audit records\<close>

definition REPLAY_CAPABILITY :: string where
  "REPLAY_CAPABILITY = ''effects.replay''"

definition POLICY_VERSION :: string where
  "POLICY_VERSION = ''2026-10-09.2''"

record PolicyDecision =
  pd_allowed :: bool
  pd_fields :: "string list"
  pd_obligations :: "string list"
  pd_reason_code :: string
  pd_policy_version :: string

text \<open>The arguments the two commands share.\<close>

record operator_request =
  or_actor :: uuid
  or_organization :: uuid
  or_message :: uuid
  or_correlation :: uuid
  or_request :: "uuid option"
  or_source_channel :: string
  or_obligations :: "string list"

definition operator_record ::
    "operator_request \<Rightarrow> string \<Rightarrow> string \<Rightarrow> string \<Rightarrow> string list \<Rightarrow> AuditRecord" where
  "operator_record rq operation outcome reason_code changed = \<lparr>
     ar_principal_kind = ''account'', ar_principal_id = Some (or_actor rq), ar_principal_context_id = None,
     ar_organization_id = Some (or_organization rq), ar_event_edition_id = None,
     ar_capability_code = REPLAY_CAPABILITY, ar_operation = operation,
     ar_target_type = ''effects.outbox_message'', ar_target_id = Some (or_message rq), ar_outcome = outcome,
     ar_reason_code = reason_code, ar_correlation_id = or_correlation rq,
     ar_source_channel = or_source_channel rq, ar_obligations = or_obligations rq, ar_changed_fields = changed,
     ar_causation_id = None, ar_request_id = or_request rq, ar_idempotency_key_hash = [],
     ar_delegated = False, ar_elevated = False, ar_break_glass = False,
     ar_safe_metadata = JObj [(''policy_version'', JStr POLICY_VERSION)],
     ar_retention_class = ''security-extended''\<rparr>"

definition replay_record :: "operator_request \<Rightarrow> string \<Rightarrow> string \<Rightarrow> AuditRecord" where
  "replay_record rq outcome reason_code =
     operator_record rq ''effects.outbox.replay'' outcome reason_code
       (if outcome = ALLOW then [''status'', ''available_at'', ''max_attempts'', ''replay_count''] else [])"

definition replay_history_record :: "operator_request \<Rightarrow> string \<Rightarrow> string \<Rightarrow> AuditRecord" where
  "replay_history_record rq outcome reason_code =
     operator_record rq ''effects.outbox.replay_history.read'' outcome reason_code []"

text \<open>
  The identifiers and clock readings one command draws: for the audit event of the success inside its
  transaction, for the audit event of a refusal, and for the replay itself.
\<close>

record operator_context =
  oc_allow_id :: uuid
  oc_allow_now :: instant
  oc_refuse_id :: uuid
  oc_refuse_now :: instant
  oc_created_now :: instant
  oc_now :: instant

type_synonym ops_state = "effect_db \<times> audit_db"
type_synonym 'a ops_result = "ops_state \<times> (maru_error + 'a)"

text \<open>Append an audit event and raise; an append that fails raises its own error instead.\<close>

definition audit_and_raise :: "operator_context \<Rightarrow> AuditRecord \<Rightarrow> maru_error \<Rightarrow> ops_state \<Rightarrow> 'a ops_result" where
  "audit_and_raise oc r error s =
     (case append_audit (oc_refuse_id oc) (oc_refuse_now oc) r None None (snd s) of
        Inl e \<Rightarrow> (s, Inl e)
      | Inr (au, _) \<Rightarrow> ((fst s, au), Inl error))"

section \<open>Replay\<close>

definition replay_transaction ::
    "route_env \<Rightarrow> (string \<Rightarrow> string) \<Rightarrow> operator_context \<Rightarrow> PolicyDecision \<Rightarrow> operator_request
     \<Rightarrow> py_number \<Rightarrow> string \<Rightarrow> ops_state \<Rightarrow> maru_error + ops_state \<times> OutboxMessage" where
  "replay_transaction env nfc oc decision rq additional_attempts reason s =
     (case find (\<lambda>m. om_id m = or_message rq \<and> om_organization_id m = or_organization rq) (db_messages (fst s)) of
        None \<Rightarrow> Inl (AuthorizationDenied ''effect_unavailable'')
      | Some message \<Rightarrow>
          bindE (replay_quarantined_effect env nfc (om_id message) additional_attempts (or_actor rq) (Typed reason)
                   (or_correlation rq) (oc_created_now oc) (oc_now oc) (fst s)) (\<lambda>(db, row).
          bindE (append_audit (oc_allow_id oc) (oc_allow_now oc) (replay_record rq ALLOW (pd_reason_code decision))
                   None None (snd s)) (\<lambda>(au, _).
            Inr ((db, au), row))))"

definition replay_effect ::
    "route_env \<Rightarrow> (string \<Rightarrow> string) \<Rightarrow> operator_context \<Rightarrow> PolicyDecision \<Rightarrow> operator_request
     \<Rightarrow> py_number \<Rightarrow> string typed \<Rightarrow> ops_state \<Rightarrow> OutboxMessage ops_result" where
  "replay_effect env nfc oc decision rq additional_attempts reason s =
     (if \<not> pd_allowed decision
      then audit_and_raise oc (replay_record rq DENY (pd_reason_code decision))
             (AuthorizationDenied (pd_reason_code decision)) s
      else case normalize_effect_replay_reason nfc reason of
        Inl error \<Rightarrow>
          (case error of
             ValidationError code \<Rightarrow>
               audit_and_raise oc (replay_record rq ERROR (case code of None \<Rightarrow> ''reason_invalid'' | Some c \<Rightarrow>
                   if c = [] then ''reason_invalid'' else c)) (ValidationError None) s
           | _ \<Rightarrow> (s, Inl error))
      | Inr normalized_reason \<Rightarrow>
          (case replay_transaction env nfc oc decision rq additional_attempts normalized_reason s of
             Inr (s', row) \<Rightarrow> (s', Inr row)
           | Inl error \<Rightarrow>
               (case error of
                  AuthorizationDenied code \<Rightarrow> audit_and_raise oc (replay_record rq DENY code) error s
                | ValidationError code \<Rightarrow>
                    audit_and_raise oc (replay_record rq ERROR (case code of None \<Rightarrow> ''effect_replay_invalid'' | Some c \<Rightarrow>
                        if c = [] then ''effect_replay_invalid'' else c)) error s
                | _ \<Rightarrow> audit_and_raise oc (replay_record rq ERROR ''effect_replay_failed'') error s)))"

section \<open>Replay history\<close>

definition MAX_EFFECT_REPLAY_HISTORY_RESULTS :: int where
  "MAX_EFFECT_REPLAY_HISTORY_RESULTS = 100"

record EffectReplayReceiptProjection =
  rp_actor_id :: uuid
  rp_reason :: string
  rp_additional_attempts :: int
  rp_previous_max_attempts :: int
  rp_new_max_attempts :: int
  rp_replay_count :: int
  rp_correlation_id :: uuid
  rp_created_at :: instant

definition receipt_projection :: "EffectReplayReceipt \<Rightarrow> EffectReplayReceiptProjection" where
  "receipt_projection r = \<lparr>rp_actor_id = rr_actor_id r, rp_reason = rr_reason r,
     rp_additional_attempts = rr_additional_attempts r, rp_previous_max_attempts = rr_previous_max_attempts r,
     rp_new_max_attempts = rr_new_max_attempts r, rp_replay_count = rr_replay_count r,
     rp_correlation_id = rr_correlation_id r, rp_created_at = rr_created_at r\<rparr>"

text \<open>Newest first; the identifier that would break a further tie cannot matter, as counts are unique per message.\<close>

definition effect_replay_history ::
    "uuid \<Rightarrow> uuid \<Rightarrow> py_number \<Rightarrow> effect_db \<Rightarrow> maru_error + EffectReplayReceiptProjection list" where
  "effect_replay_history organization_id message_id limit db =
     (case limit of
        PyInt n \<Rightarrow>
          if \<not> (1 \<le> n \<and> n \<le> MAX_EFFECT_REPLAY_HISTORY_RESULTS)
          then Inl (invalid ''invalid_effect_replay_history_limit'')
          else Inr (map receipt_projection (take (nat n)
                 (sort_key (\<lambda>r. (- rr_replay_count r, - rr_created_at r))
                   (filter (\<lambda>r. rr_organization_id r = organization_id \<and> rr_message_id r = message_id) (db_receipts db)))))
      | _ \<Rightarrow> Inl (invalid ''invalid_effect_replay_history_limit''))"

definition inspect_effect_replay_history ::
    "operator_context \<Rightarrow> PolicyDecision \<Rightarrow> operator_request \<Rightarrow> py_number \<Rightarrow> ops_state
     \<Rightarrow> EffectReplayReceiptProjection list ops_result" where
  "inspect_effect_replay_history oc decision rq limit s =
     (if \<not> pd_allowed decision
      then audit_and_raise oc (replay_history_record rq DENY (pd_reason_code decision))
             (AuthorizationDenied (pd_reason_code decision)) s
      else case effect_replay_history (or_organization rq) (or_message rq) limit (fst s) of
        Inl error \<Rightarrow>
          (case error of
             ValidationError code \<Rightarrow>
               audit_and_raise oc (replay_history_record rq ERROR (case code of None \<Rightarrow> ''effect_replay_history_invalid''
                   | Some c \<Rightarrow> if c = [] then ''effect_replay_history_invalid'' else c)) error s
           | _ \<Rightarrow> (s, Inl error))
      | Inr history \<Rightarrow>
          (case append_audit (oc_allow_id oc) (oc_allow_now oc)
                  (replay_history_record rq ALLOW (pd_reason_code decision)) None None (snd s) of
             Inl e \<Rightarrow> (s, Inl e)
           | Inr (au, _) \<Rightarrow> ((fst s, au), Inr history)))"

section \<open>Domain facts of an aggregate\<close>

record AggregateDomainFact =
  af_event_name :: string
  af_occurred_at :: instant
  af_actor_id :: "uuid option"
  af_payload :: json

definition fact_of_event :: "DomainEvent \<Rightarrow> AggregateDomainFact" where
  "fact_of_event e = \<lparr>af_event_name = ev_event_name e, af_occurred_at = ev_occurred_at e, af_actor_id = ev_actor_id e,
     af_payload = ev_payload e\<rparr>"

text \<open>Descending by time, then by identifier; a slice with a negative bound is refused by the ORM.\<close>

definition aggregate_domain_facts ::
    "uuid \<Rightarrow> string \<Rightarrow> uuid \<Rightarrow> string list \<Rightarrow> nat \<Rightarrow> effect_db \<Rightarrow> AggregateDomainFact list" where
  "aggregate_domain_facts organization_id aggregate_type aggregate_id allowed_event_names limit db =
     map fact_of_event (take limit (rev (sort_key (\<lambda>e. (ev_occurred_at e, ev_id e))
       (filter (\<lambda>e. ev_organization_id e = organization_id \<and> ev_aggregate_type e = aggregate_type
           \<and> ev_aggregate_id e = aggregate_id \<and> ev_event_name e \<in> set allowed_event_names) (db_events db)))))"

section \<open>Health\<close>

record OutboxHealthSnapshot =
  hs_organization_id :: uuid
  hs_workload_pool :: string
  hs_counts :: "(Status \<times> nat) list"
  hs_attempt_counts :: "(Outcome \<times> nat) list"
  hs_replay_count :: int
  hs_oldest_ready_age_seconds :: "int option"
  hs_oldest_expired_lease_age_seconds :: "int option"

text \<open>Whole seconds, truncated towards zero as \<open>int()\<close> does, and never negative.\<close>

definition age_seconds :: "instant option \<Rightarrow> instant \<Rightarrow> int option" where
  "age_seconds v now = (case v of None \<Rightarrow> None
     | Some t \<Rightarrow> Some (max 0 (let d = now - t in if 0 \<le> d then d div second_us else - ((- d) div second_us))))"

definition first_instant :: "instant list \<Rightarrow> instant option" where
  "first_instant ts = (case sort ts of [] \<Rightarrow> None | t # _ \<Rightarrow> Some t)"

definition STATUS_VALUES :: "Status list" where
  "STATUS_VALUES = [PENDING, PROCESSING, SUCCEEDED, QUARANTINED, CANCELLED]"

definition OUTCOME_VALUES :: "Outcome list" where
  "OUTCOME_VALUES = [OUT_SUCCEEDED, TRANSIENT_FAILURE, PERMANENT_FAILURE, EXHAUSTED]"

definition outbox_health_snapshot :: "uuid \<Rightarrow> string \<Rightarrow> instant \<Rightarrow> effect_db \<Rightarrow> OutboxHealthSnapshot" where
  "outbox_health_snapshot organization_id workload_pool observed_at db =
     (let messages = filter (\<lambda>m. om_organization_id m = organization_id \<and> om_workload_pool m = workload_pool) (db_messages db);
          attempts = filter (\<lambda>a. list_ex (\<lambda>m. om_id m = at_message_id a) messages) (db_attempts db)
      in \<lparr>hs_organization_id = organization_id, hs_workload_pool = workload_pool,
          hs_counts = map (\<lambda>st. (st, length (filter (\<lambda>m. om_status m = st) messages))) STATUS_VALUES,
          hs_attempt_counts = map (\<lambda>out. (out, length (filter (\<lambda>a. at_outcome a = out) attempts))) OUTCOME_VALUES,
          hs_replay_count = sum_list (map om_replay_count messages),
          hs_oldest_ready_age_seconds = age_seconds (first_instant (map om_available_at
            (filter (\<lambda>m. om_status m = PENDING \<and> om_available_at m \<le> observed_at) messages))) observed_at,
          hs_oldest_expired_lease_age_seconds = age_seconds (first_instant (map (the \<circ> om_lease_expires_at)
            (filter (\<lambda>m. om_status m = PROCESSING \<and> om_lease_expires_at m \<noteq> None
                \<and> the (om_lease_expires_at m) \<le> observed_at) messages))) observed_at\<rparr>)"

section \<open>The contract of an audited command\<close>

text \<open>What a caller must supply for the audit rows to be valid: short non-empty codes and unused identifiers.\<close>

definition auditable :: "operator_context \<Rightarrow> PolicyDecision \<Rightarrow> operator_request \<Rightarrow> audit_db \<Rightarrow> bool" where
  "auditable oc d rq au \<longleftrightarrow>
     char_field 120 (pd_reason_code d) \<and> char_field 40 (or_source_channel rq)
     \<and> list_all (char_field 120) (or_obligations rq)
     \<and> oc_allow_id oc \<notin> ae_id ` set (au_events au) \<and> oc_refuse_id oc \<notin> ae_id ` set (au_events au)"

definition attributed :: "operator_request \<Rightarrow> string \<Rightarrow> AuditEvent \<Rightarrow> bool" where
  "attributed rq operation e \<longleftrightarrow>
     ae_operation e = operation \<and> ae_principal_id e = Some (or_actor rq)
     \<and> ae_organization_id e = Some (or_organization rq) \<and> ae_target_id e = Some (or_message rq)
     \<and> ae_correlation_id e = or_correlation rq \<and> ae_integrity_batch e = None"

fun outcome_of :: "maru_error + 'a \<Rightarrow> string" where
  "outcome_of (Inr _) = ALLOW"
| "outcome_of (Inl (AuthorizationDenied _)) = DENY"
| "outcome_of (Inl _) = ERROR"

locale audited_command =
  fixes run :: "'c \<Rightarrow> operator_context \<Rightarrow> PolicyDecision \<Rightarrow> operator_request \<Rightarrow> ops_state \<Rightarrow> 'a ops_result"
    and operation :: string
  assumes one_event: "auditable oc d rq (snd s) \<Longrightarrow>
      \<exists>e. snd (fst (run c oc d rq s)) = (snd s)\<lparr>au_events := au_events (snd s) @ [e]\<rparr>
        \<and> attributed rq operation e \<and> ae_outcome e = outcome_of (snd (run c oc d rq s))
        \<and> ae_id e \<in> {oc_allow_id oc, oc_refuse_id oc}"
    and refused: "snd (run c oc d rq s) = Inl error \<Longrightarrow> fst (fst (run c oc d rq s)) = fst s"
    and denied: "\<not> pd_allowed d \<Longrightarrow> auditable oc d rq (snd s) \<Longrightarrow>
      snd (run c oc d rq s) = Inl (AuthorizationDenied (pd_reason_code d))"
begin

fun run_all :: "('c \<times> operator_context \<times> PolicyDecision \<times> operator_request) list \<Rightarrow> ops_state
    \<Rightarrow> ops_state \<times> (maru_error + 'a) list" where
  "run_all [] s = (s, [])"
| "run_all ((c, oc, d, rq) # calls) s =
     (case run c oc d rq s of (s', r) \<Rightarrow> case run_all calls s' of (s'', rs) \<Rightarrow> (s'', r # rs))"

definition ids_of :: "'c \<times> operator_context \<times> PolicyDecision \<times> operator_request \<Rightarrow> uuid set" where
  "ids_of call = {oc_allow_id (fst (snd call)), oc_refuse_id (fst (snd call))}"

lemma run_all_audited:
  assumes "\<forall>(c, oc, d, rq) \<in> set calls. auditable oc d rq (snd s)"
    and "pairwise (\<lambda>a b. disjnt (ids_of a) (ids_of b)) (set calls)" and "distinct calls"
  shows "\<exists>es. snd (fst (run_all calls s)) = (snd s)\<lparr>au_events := au_events (snd s) @ es\<rparr>
    \<and> list_all2 (\<lambda>(c, oc, d, rq) e. attributed rq operation e) calls es
    \<and> map ae_outcome es = map outcome_of (snd (run_all calls s))"
  using assms
proof (induction calls arbitrary: s)
  case Nil
  then show ?case by simp
next
  case (Cons call calls)
  obtain c oc d rq where c: "call = (c, oc, d, rq)" by (cases call)
  obtain s' r where run: "run c oc d rq s = (s', r)" by fastforce
  obtain e where e: "snd s' = (snd s)\<lparr>au_events := au_events (snd s) @ [e]\<rparr>" "attributed rq operation e"
      "ae_outcome e = outcome_of r" "ae_id e \<in> ids_of call"
    using one_event [of oc d rq s c] Cons.prems(1) by (auto simp: c run ids_of_def)
  have "auditable oc' d' rq' (snd s')" if "(c', oc', d', rq') \<in> set calls" for c' oc' d' rq'
  proof -
    have "disjnt (ids_of call) (ids_of (c', oc', d', rq'))"
      using Cons.prems(2,3) that by (auto simp: pairwise_def)
    then have "ae_id e \<notin> ids_of (c', oc', d', rq')" using e(4) by (auto simp: disjnt_def)
    moreover have "auditable oc' d' rq' (snd s)" using Cons.prems(1) that by auto
    ultimately show ?thesis by (auto simp: auditable_def e(1) ids_of_def)
  qed
  then have "\<exists>es. snd (fst (run_all calls s')) = (snd s')\<lparr>au_events := au_events (snd s') @ es\<rparr>
    \<and> list_all2 (\<lambda>(c, oc, d, rq) e. attributed rq operation e) calls es
    \<and> map ae_outcome es = map outcome_of (snd (run_all calls s'))"
    using Cons.prems(2,3) by (intro Cons.IH) (auto simp: pairwise_insert)
  then obtain es where es: "snd (fst (run_all calls s')) = (snd s')\<lparr>au_events := au_events (snd s') @ es\<rparr>"
      "list_all2 (\<lambda>(c, oc, d, rq) e. attributed rq operation e) calls es"
      "map ae_outcome es = map outcome_of (snd (run_all calls s'))" by blast
  have "snd (fst (run_all (call # calls) s)) = (snd s)\<lparr>au_events := au_events (snd s) @ (e # es)\<rparr>"
    using es(1) e(1) by (simp add: c run case_prod_beta)
  moreover have "list_all2 (\<lambda>(c, oc, d, rq) e. attributed rq operation e) (call # calls) (e # es)"
    using es(2) e(2) by (simp add: c)
  moreover have "map ae_outcome (e # es) = map outcome_of (snd (run_all (call # calls) s))"
    using es(3) e(3) by (simp add: c run case_prod_beta)
  ultimately show ?case by blast
qed

text \<open>If no decision allows, the outbox is untouched and every event is a denial.\<close>

lemma run_all_denied:
  assumes "\<forall>(c, oc, d, rq) \<in> set calls. auditable oc d rq (snd s) \<and> \<not> pd_allowed d"
    and "pairwise (\<lambda>a b. disjnt (ids_of a) (ids_of b)) (set calls)" and "distinct calls"
  shows "fst (fst (run_all calls s)) = fst s"
  using assms
proof (induction calls arbitrary: s)
  case Nil
  then show ?case by simp
next
  case (Cons call calls)
  obtain c oc d rq where c: "call = (c, oc, d, rq)" by (cases call)
  obtain s' r where run: "run c oc d rq s = (s', r)" by fastforce
  obtain e where e: "snd s' = (snd s)\<lparr>au_events := au_events (snd s) @ [e]\<rparr>" "ae_id e \<in> ids_of call"
    using one_event [of oc d rq s c] Cons.prems(1) by (auto simp: c run ids_of_def)
  have "fst s' = fst s" using refused [of c oc d rq s] denied [of d oc rq s c] Cons.prems(1) by (auto simp: c run)
  moreover have "auditable oc' d' rq' (snd s') \<and> \<not> pd_allowed d'" if "(c', oc', d', rq') \<in> set calls" for c' oc' d' rq'
  proof -
    have "disjnt (ids_of call) (ids_of (c', oc', d', rq'))"
      using Cons.prems(2,3) that by (auto simp: pairwise_def)
    then have "ae_id e \<notin> ids_of (c', oc', d', rq')" using e(2) by (auto simp: disjnt_def)
    moreover have "auditable oc' d' rq' (snd s) \<and> \<not> pd_allowed d'" using Cons.prems(1) that by auto
    ultimately show ?thesis by (auto simp: auditable_def e(1) ids_of_def)
  qed
  then have "fst (fst (run_all calls s')) = fst s'"
    using Cons.prems(2,3) by (intro Cons.IH) (auto simp: pairwise_insert)
  ultimately show ?case by (simp add: c run case_prod_beta)
qed

end

section \<open>Replay and history keep the contract\<close>

lemma operator_record_clean:
  assumes "char_field 120 code" and "char_field 40 (or_source_channel rq)" and "list_all (char_field 120) (or_obligations rq)"
    and "i \<notin> ae_id ` set (au_events au)" and "outcome \<in> {ALLOW, DENY, ERROR}"
    and "operation \<in> {''effects.outbox.replay'', ''effects.outbox.replay_history.read''}"
    and "list_all (char_field 120) changed"
  shows "audit_event_full_clean au (event_of_audit_record i t (operator_record rq operation outcome code changed))"
proof -
  have "is_ok (validate_safe_metadata (JObj [(''policy_version'', JStr POLICY_VERSION)]))"
    by (simp add: validate_safe_metadata_def SAFE_METADATA_KEYS_def SAFE_METADATA_TYPES_def safe_metadata_item_def
        POLICY_VERSION_def MAX_SAFE_METADATA_TEXT_LENGTH_def)
  moreover have "char_field 160 operation" using assms(6) by (auto simp: char_field_def)
  moreover have "event_constraints au (event_of_audit_record i t (operator_record rq operation outcome code changed))"
  proof -
    have "\<not> reconcile_retry (event_of_audit_record i t (operator_record rq operation outcome code changed))"
      by (simp add: reconcile_retry_def event_of_audit_record_def operator_record_def)
    moreover have "operation \<noteq> ''identity.account_invitation.retention_apply''"
      "operation \<noteq> ''identity.account_invitation.retention_hold.place''"
      "operation \<noteq> ''identity.account_invitation.retention_hold.release''"
      using assms(6) by auto
    then have "\<not> retention_action (event_of_audit_record i t (operator_record rq operation outcome code changed))"
      by (simp add: retention_action_def event_of_audit_record_def operator_record_def)
    ultimately show ?thesis by (simp add: event_constraints_def)
  qed
  moreover have "\<not> list_ex (\<lambda>x. ae_id x = i) (au_events au)" using assms(4) by (auto simp: list_ex_iff)
  moreover have "char_field 120 REPLAY_CAPABILITY" by (simp add: char_field_def REPLAY_CAPABILITY_def)
  ultimately show ?thesis
    unfolding audit_event_full_clean_def using assms(1-3,5,7)
    by (simp add: event_of_audit_record_def operator_record_def char_field_def positive_small_integer_def)
qed

lemma append_operator_record:
  assumes "char_field 120 code" and "char_field 40 (or_source_channel rq)" and "list_all (char_field 120) (or_obligations rq)"
    and "i \<notin> ae_id ` set (au_events au)" and "outcome \<in> {ALLOW, DENY, ERROR}"
    and "operation \<in> {''effects.outbox.replay'', ''effects.outbox.replay_history.read''}"
    and "list_all (char_field 120) changed"
  shows "\<exists>e. append_audit i t (operator_record rq operation outcome code changed) None None au =
      Inr (au\<lparr>au_events := au_events au @ [e]\<rparr>, e)
    \<and> attributed rq operation e \<and> ae_outcome e = outcome \<and> ae_id e = i"
  using operator_record_clean [OF assms, of t]
  by (simp add: append_audit_def audit_event_create_def Let_def attributed_def event_of_audit_record_def operator_record_def)

text \<open>Every code the replay itself raises fits the audit column.\<close>

fun code_fits :: "maru_error \<Rightarrow> bool" where
  "code_fits (ValidationError (Some c)) = char_field 120 c"
| "code_fits (AuthorizationDenied c) = char_field 120 c"
| "code_fits _ = True"

definition errors_fit :: "maru_error + 'a \<Rightarrow> bool" where
  "errors_fit r \<longleftrightarrow> (\<forall>e. r = Inl e \<longrightarrow> code_fits e)"

lemma errors_fit_simps [simp]: "errors_fit (Inr x)" "errors_fit (Inl e) \<longleftrightarrow> code_fits e"
  by (simp_all add: errors_fit_def)

lemma errors_fit_bindE: "errors_fit m \<Longrightarrow> (\<And>x. errors_fit (f x)) \<Longrightarrow> errors_fit (bindE m f)"
  by (cases m) simp_all

lemma normalize_reason_error: "normalize_effect_replay_reason nfc v = Inl e \<Longrightarrow> \<exists>c. e = invalid c \<and> char_field 120 c"
  by (auto simp: normalize_effect_replay_reason_def Let_def char_field_def split: typed.splits if_splits)

lemma normalize_reason_fits: "errors_fit (normalize_effect_replay_reason nfc v)"
  using normalize_reason_error by (fastforce simp: errors_fit_def)

lemma payload_get_fits: "errors_fit (payload_get p k)"
  by (cases p) simp_all

lemma delivery_fits: "errors_fit (require_effect_delivery_allowed env d)"
  unfolding require_effect_delivery_allowed_def effect_delivery_is_allowed_def
  by (intro errors_fit_bindE)
    (auto simp: char_field_def EFFECT_PROFILE_NOT_ALLOWED_def intro!: errors_fit_bindE payload_get_fits split: option.splits)

lemma saves_fit: "errors_fit (receipt_create db r)" "errors_fit (message_save db m)"
    "errors_fit (append_audit i t rec occurred j au)"
  by (simp_all add: receipt_create_def message_save_def append_audit_def Let_def audit_event_create_def)

lemma replay_fits: "errors_fit (replay_quarantined_effect env nfc i additional actor reason corr created now db)"
proof -
  have codes: "char_field 120 ''invalid_replay_attempts''" "char_field 120 ''effect_not_quarantined''"
    "char_field 120 ''effect_profile_not_allowed''" "char_field 120 ''effect_replay_attempt_limit''"
    by (simp_all add: char_field_def)
  show ?thesis
    unfolding replay_quarantined_effect_def Let_def
    by (intro errors_fit_bindE normalize_reason_fits)
      (auto simp: codes intro!: errors_fit_bindE delivery_fits saves_fit split: py_number.splits option.splits)
qed

lemma transaction_error:
  assumes "replay_transaction env nfc oc d rq n reason s = Inl e"
  shows "code_fits e"
proof -
  have "char_field 120 ''effect_unavailable''" by (simp add: char_field_def)
  then have "errors_fit (replay_transaction env nfc oc d rq n reason s)"
    unfolding replay_transaction_def
    by (auto intro!: errors_fit_bindE replay_fits saves_fit split: option.splits)
  with assms show ?thesis by (simp add: errors_fit_def)
qed

lemma audit_and_raise_ok:
  assumes "auditable oc d rq (snd s)" and "char_field 120 code" and "outcome \<in> {DENY, ERROR}"
    and "r = operator_record rq operation outcome code []"
    and "operation \<in> {''effects.outbox.replay'', ''effects.outbox.replay_history.read''}"
  shows "\<exists>e. audit_and_raise oc r error s = ((fst s, (snd s)\<lparr>au_events := au_events (snd s) @ [e]\<rparr>), Inl error)
    \<and> attributed rq operation e \<and> ae_outcome e = outcome \<and> ae_id e = oc_refuse_id oc"
proof -
  have pre: "char_field 40 (or_source_channel rq)" "list_all (char_field 120) (or_obligations rq)"
      "oc_refuse_id oc \<notin> ae_id ` set (au_events (snd s))" "outcome \<in> {ALLOW, DENY, ERROR}"
    using assms(1,3) by (auto simp: auditable_def)
  obtain e where "append_audit (oc_refuse_id oc) (oc_refuse_now oc) r None None (snd s) =
      Inr ((snd s)\<lparr>au_events := au_events (snd s) @ [e]\<rparr>, e)"
    "attributed rq operation e" "ae_outcome e = outcome" "ae_id e = oc_refuse_id oc"
    using append_operator_record [OF assms(2) pre assms(5), of "[]" "oc_refuse_now oc"] assms(4) by auto
  then show ?thesis by (auto simp: audit_and_raise_def)
qed

lemma audit_and_raise_snd:
  assumes "auditable oc d rq (snd s)" and "char_field 120 code" and "outcome \<in> {DENY, ERROR}"
    and "r = operator_record rq operation outcome code []"
    and "operation \<in> {''effects.outbox.replay'', ''effects.outbox.replay_history.read''}"
  shows "snd (audit_and_raise oc r error s) = Inl error"
  using audit_and_raise_ok [OF assms, of error] by (metis snd_conv)

lemma outcomes_differ [simp]: "DENY \<noteq> ALLOW" "ERROR \<noteq> ALLOW" "ALLOW \<noteq> DENY" "ALLOW \<noteq> ERROR"
  by (simp_all add: ALLOW_def DENY_def ERROR_def)

lemma replay_record_refusal: "outcome \<in> {DENY, ERROR} \<Longrightarrow>
    replay_record rq outcome code = operator_record rq ''effects.outbox.replay'' outcome code []"
  by (auto simp: replay_record_def)

lemma audit_and_raise_result: "fst (fst (audit_and_raise oc r error s)) = fst s"
    "\<exists>e. snd (audit_and_raise oc r error s) = Inl e"
  by (auto simp: audit_and_raise_def split: sum.splits prod.splits)

text \<open>The three ways a replay ends, once the decision allows it.\<close>

definition audited_as :: "operator_context \<Rightarrow> operator_request \<Rightarrow> string \<Rightarrow> ops_state \<Rightarrow> 'a ops_result \<Rightarrow> bool" where
  "audited_as oc rq operation s out \<longleftrightarrow>
     (\<exists>e. snd (fst out) = (snd s)\<lparr>au_events := au_events (snd s) @ [e]\<rparr> \<and> attributed rq operation e
        \<and> ae_outcome e = outcome_of (snd out) \<and> ae_id e \<in> {oc_allow_id oc, oc_refuse_id oc})"

lemma refusal_audited:
  fixes error :: maru_error
  assumes "auditable oc d rq (snd s)" and "char_field 120 code" and "outcome = outcome_of (Inl error :: maru_error + 'a)"
    and "r = operator_record rq operation outcome code []"
    and "operation \<in> {''effects.outbox.replay'', ''effects.outbox.replay_history.read''}"
  shows "audited_as oc rq operation s (audit_and_raise oc r error s :: 'a ops_result)"
proof -
  have "outcome \<in> {DENY, ERROR}" using assms(3) by (cases error) auto
  then obtain e where "(audit_and_raise oc r error s :: 'a ops_result) =
      ((fst s, (snd s)\<lparr>au_events := au_events (snd s) @ [e]\<rparr>), Inl error)"
    "attributed rq operation e" "ae_outcome e = outcome" "ae_id e = oc_refuse_id oc"
    using audit_and_raise_ok [OF assms(1,2) _ assms(4,5), of error] by blast
  then show ?thesis
    unfolding audited_as_def using assms(3) by (intro exI [of _ e]) simp
qed

lemma replay_transaction_audited:
  assumes "auditable oc d rq (snd s)" and "replay_transaction env nfc oc d rq n reason s = Inr (s', row)"
  shows "audited_as oc rq ''effects.outbox.replay'' s (s', Inr row)"
proof -
  have pre: "char_field 120 (pd_reason_code d)" "char_field 40 (or_source_channel rq)"
      "list_all (char_field 120) (or_obligations rq)" "oc_allow_id oc \<notin> ae_id ` set (au_events (snd s))"
    using assms(1) by (simp_all add: auditable_def)
  have changed: "list_all (char_field 120) [''status'', ''available_at'', ''max_attempts'', ''replay_count'']"
    by (simp add: char_field_def)
  from assms(2) obtain au e0 where "append_audit (oc_allow_id oc) (oc_allow_now oc) (replay_record rq ALLOW (pd_reason_code d))
      None None (snd s) = Inr (au, e0)" and "snd s' = au"
    by (auto simp: replay_transaction_def bindE_eq_Inr split: option.splits)
  moreover have "replay_record rq ALLOW (pd_reason_code d) = operator_record rq ''effects.outbox.replay'' ALLOW
      (pd_reason_code d) [''status'', ''available_at'', ''max_attempts'', ''replay_count'']"
    by (simp add: replay_record_def)
  ultimately show ?thesis
    using append_operator_record [OF pre _ _ changed, of ALLOW "''effects.outbox.replay''" "oc_allow_now oc"]
    by (auto simp: audited_as_def)
qed

lemma replay_effect_audited_as:
  assumes ok: "auditable oc d rq (snd s)"
  shows "audited_as oc rq ''effects.outbox.replay'' s (replay_effect env nfc oc d rq n reason s)"
proof -
  have reason: "char_field 120 (pd_reason_code d)" using ok by (simp add: auditable_def)
  note refuse = refusal_audited [OF ok _ _ replay_record_refusal]
  show ?thesis
  proof (cases "pd_allowed d")
    case False
    then show ?thesis
      using refuse [OF reason, where error = "AuthorizationDenied (pd_reason_code d)"] by (simp add: replay_effect_def)
  next
    case allowed: True
    show ?thesis
    proof (cases "normalize_effect_replay_reason nfc reason")
      case (Inl e)
      with normalize_reason_error obtain c where c: "e = invalid c" "char_field 120 c" by blast
      then have "c \<noteq> []" by (auto simp: char_field_def)
      then show ?thesis
        using refuse [OF c(2), where error = "ValidationError None"] allowed Inl c(1) by (simp add: replay_effect_def)
    next
      case (Inr why)
      show ?thesis
      proof (cases "replay_transaction env nfc oc d rq n why s")
        case (Inr p)
        then show ?thesis
          using replay_transaction_audited [OF ok] allowed \<open>normalize_effect_replay_reason nfc reason = Inr why\<close>
          by (cases p) (simp add: replay_effect_def)
      next
        case err: (Inl e)
        have fits: "code_fits e" by (rule transaction_error [OF err])
        have codes: "char_field 120 ''effect_replay_invalid''" "char_field 120 ''effect_replay_failed''"
          by (simp_all add: char_field_def)
        have "replay_effect env nfc oc d rq n reason s =
            (case e of
                  AuthorizationDenied code \<Rightarrow> audit_and_raise oc (replay_record rq DENY code) e s
                | ValidationError code \<Rightarrow>
                    audit_and_raise oc (replay_record rq ERROR (case code of None \<Rightarrow> ''effect_replay_invalid'' | Some c \<Rightarrow>
                        if c = [] then ''effect_replay_invalid'' else c)) e s
                | _ \<Rightarrow> audit_and_raise oc (replay_record rq ERROR ''effect_replay_failed'') e s)"
          using allowed Inr err by (simp add: replay_effect_def)
        then show ?thesis
          using refuse [where error = e] fits codes
          by (cases e) (auto split: option.splits)
      qed
    qed
  qed
qed

end
