(* ===== verification/Operations_Props.thy ===== *)
theory Operations_Props
  imports Effect_Operations
begin

text \<open>
  The operator commands keep the contract of an audited command: exactly one attributed audit event per
  call, its outcome that of the call, and no change to the outbox unless the call succeeded. The contract
  gives the properties of whole sequences of calls. Then what replay discloses across tenants, what the
  history returns, and what the health snapshot counts.
\<close>

section \<open>The commands keep the contract\<close>

lemma replay_effect_refused:
  assumes "snd (replay_effect env nfc oc d rq n reason s) = Inl error"
  shows "fst (fst (replay_effect env nfc oc d rq n reason s)) = fst s"
  using assms by (auto simp: replay_effect_def audit_and_raise_result split: sum.splits maru_error.splits if_splits)

lemma replay_effect_denied:
  assumes "\<not> pd_allowed d" and "auditable oc d rq (snd s)"
  shows "snd (replay_effect env nfc oc d rq n reason s) = Inl (AuthorizationDenied (pd_reason_code d))"
proof -
  have "char_field 120 (pd_reason_code d)" using assms(2) by (simp add: auditable_def)
  from audit_and_raise_snd [OF assms(2) this _ replay_record_refusal, of DENY] show ?thesis
    using assms(1) by (simp add: replay_effect_def)
qed

text \<open>A call of replay is given by the attempts it adds and its reason.\<close>

interpretation replay: audited_command
  "\<lambda>(n, reason) oc d rq s. replay_effect env nfc oc d rq n reason s" "''effects.outbox.replay''" for env nfc
proof
  fix oc d rq and c :: "py_number \<times> string typed" and s :: ops_state
  assume ok: "auditable oc d rq (snd s)"
  obtain n reason where c: "c = (n, reason)" by fastforce
  from replay_effect_audited_as [OF ok, of env nfc n reason]
  show "\<exists>e. snd (fst ((\<lambda>(n, reason) oc d rq s. replay_effect env nfc oc d rq n reason s) c oc d rq s)) =
        (snd s)\<lparr>au_events := au_events (snd s) @ [e]\<rparr>
      \<and> attributed rq ''effects.outbox.replay'' e
      \<and> ae_outcome e = outcome_of (snd ((\<lambda>(n, reason) oc d rq s. replay_effect env nfc oc d rq n reason s) c oc d rq s))
      \<and> ae_id e \<in> {oc_allow_id oc, oc_refuse_id oc}"
    by (simp add: c audited_as_def)
qed (auto simp: replay_effect_refused replay_effect_denied split: prod.splits)

lemma history_error:
  "effect_replay_history org i limit db = Inl e \<Longrightarrow> e = invalid ''invalid_effect_replay_history_limit''"
  by (auto simp: effect_replay_history_def split: py_number.splits if_splits)

lemma history_record_refusal:
  "replay_history_record rq outcome code = operator_record rq ''effects.outbox.replay_history.read'' outcome code []"
  by (simp add: replay_history_record_def)

lemma inspect_audited_as:
  assumes ok: "auditable oc d rq (snd s)"
  shows "audited_as oc rq ''effects.outbox.replay_history.read'' s (inspect_effect_replay_history oc d rq limit s)"
proof -
  have reason: "char_field 120 (pd_reason_code d)" using ok by (simp add: auditable_def)
  have limit_code: "char_field 120 ''invalid_effect_replay_history_limit''" by (simp add: char_field_def)
  note refuse = refusal_audited [OF ok _ _ history_record_refusal]
  show ?thesis
  proof (cases "pd_allowed d")
    case False
    then show ?thesis
      using refuse [OF reason, where error = "AuthorizationDenied (pd_reason_code d)"]
      by (simp add: inspect_effect_replay_history_def)
  next
    case allowed: True
    show ?thesis
    proof (cases "effect_replay_history (or_organization rq) (or_message rq) limit (fst s)")
      case (Inl e)
      with history_error have "e = invalid ''invalid_effect_replay_history_limit''" by blast
      then show ?thesis
        using refuse [OF limit_code, where error = e] allowed Inl by (simp add: inspect_effect_replay_history_def)
    next
      case (Inr history)
      have pre: "char_field 40 (or_source_channel rq)" "list_all (char_field 120) (or_obligations rq)"
          "oc_allow_id oc \<notin> ae_id ` set (au_events (snd s))"
        using ok by (simp_all add: auditable_def)
      from append_operator_record [OF reason pre, of ALLOW "''effects.outbox.replay_history.read''" "[]" "oc_allow_now oc"]
      show ?thesis
        using allowed Inr
        by (auto simp: inspect_effect_replay_history_def audited_as_def history_record_refusal)
    qed
  qed
qed

interpretation history: audited_command
  "\<lambda>limit oc d rq s. inspect_effect_replay_history oc d rq limit s" "''effects.outbox.replay_history.read''"
proof
  fix oc d rq limit and s :: ops_state
  assume ok: "auditable oc d rq (snd s)"
  show "\<exists>e. snd (fst (inspect_effect_replay_history oc d rq limit s)) = (snd s)\<lparr>au_events := au_events (snd s) @ [e]\<rparr>
      \<and> attributed rq ''effects.outbox.replay_history.read'' e
      \<and> ae_outcome e = outcome_of (snd (inspect_effect_replay_history oc d rq limit s))
      \<and> ae_id e \<in> {oc_allow_id oc, oc_refuse_id oc}"
    using inspect_audited_as [OF ok, of limit] by (simp add: audited_as_def)
next
  fix oc d rq limit error and s :: ops_state
  show "fst (fst (inspect_effect_replay_history oc d rq limit s)) = fst s"
    by (auto simp: inspect_effect_replay_history_def audit_and_raise_result split: sum.splits maru_error.splits prod.splits)
next
  fix oc d rq limit and s :: ops_state
  assume "\<not> pd_allowed d" and "auditable oc d rq (snd s)"
  then have d: "\<not> pd_allowed d" and ok: "auditable oc d rq (snd s)" and "char_field 120 (pd_reason_code d)"
    by (simp_all add: auditable_def)
  from audit_and_raise_snd [OF ok this(3) _ history_record_refusal, of DENY]
  show "snd (inspect_effect_replay_history oc d rq limit s) = Inl (AuthorizationDenied (pd_reason_code d))"
    using d by (simp add: inspect_effect_replay_history_def)
qed

section \<open>Replay\<close>

lemma replay_transaction_Inr:
  assumes "outbox_inv (fst s)" and "replay_transaction env nfc oc d rq n reason s = Inr (s', row)"
  shows "outbox_step (fst s) (fst s')" and "om_id row = or_message rq" and "om_organization_id row = or_organization rq"
    and "om_status row = PENDING"
proof -
  from assms(2) obtain m where m: "find (\<lambda>m. om_id m = or_message rq \<and> om_organization_id m = or_organization rq)
      (db_messages (fst s)) = Some m"
    and r: "replay_quarantined_effect env nfc (om_id m) n (or_actor rq) (Typed reason) (or_correlation rq)
      (oc_created_now oc) (oc_now oc) (fst s) = Inr (fst s', row)"
    by (auto simp: replay_transaction_def bindE_eq_Inr split: option.splits)
  show "outbox_step (fst s) (fst s')" by (rule step_replay [OF r])
  have mem: "m \<in> set (db_messages (fst s))" "om_id m = or_message rq" "om_organization_id m = or_organization rq"
    using find_SomeD [OF m] by auto
  from replay_Inr [OF r] obtain a m' where "find_message (fst s) (om_id m) = Some m'" and "row = replayed a (oc_now oc) m'"
    by metis
  then have row: "row = replayed a (oc_now oc) m" using find_message_inv [OF assms(1) mem(1)] by simp
  show "om_id row = or_message rq" "om_status row = PENDING" "om_organization_id row = or_organization rq"
    using mem by (simp_all add: row replayed_def)
qed

lemma replay_effect_Inr:
  assumes "replay_effect env nfc oc d rq n reason s = (s', Inr row)"
  obtains why where "pd_allowed d" "normalize_effect_replay_reason nfc reason = Inr why"
    "replay_transaction env nfc oc d rq n why s = Inr (s', row)"
proof -
  have no: "audit_and_raise oc r error s \<noteq> (s', Inr row)" for r error
    using audit_and_raise_result(2) [of oc r error s] by (metis Inl_Inr_False snd_conv)
  show thesis
    using assms no that
    by (auto simp: replay_effect_def split: if_splits sum.splits maru_error.splits option.splits prod.splits)
qed

text \<open>
  Any sequence of replay calls is fully audited. Whatever the calls ask and however each ends, the
  audit trail grows by exactly one event per call, in order, attributed to the actor, tenant, message
  and correlation of that call, and its outcome is the outcome of the call: allowed, denied or failed.
  The hypotheses are that codes fit their columns and that the drawn identifiers are new.
\<close>

theorem replay_session_audited:
  assumes "\<forall>(c, oc, d, rq) \<in> set calls. auditable oc d rq (snd s)"
    and "pairwise (\<lambda>a b. disjnt (replay.ids_of a) (replay.ids_of b)) (set calls)" and "distinct calls"
  shows "\<exists>es. snd (fst (replay.run_all env nfc calls s)) = (snd s)\<lparr>au_events := au_events (snd s) @ es\<rparr>
    \<and> list_all2 (\<lambda>(c, oc, d, rq) e. attributed rq ''effects.outbox.replay'' e) calls es
    \<and> map ae_outcome es = map outcome_of (snd (replay.run_all env nfc calls s))"
  by (rule replay.run_all_audited [OF assms])

definition replay_context :: "uuid \<Rightarrow> operator_context" where
  "replay_context i = \<lparr>oc_allow_id = i, oc_allow_now = 500, oc_refuse_id = i + 1, oc_refuse_now = 500,
     oc_created_now = 500, oc_now = 500\<rparr>"

definition sample_request :: operator_request where
  "sample_request = \<lparr>or_actor = 6, or_organization = 1, or_message = 20, or_correlation = 8, or_request = None,
     or_source_channel = ''service'', or_obligations = [''audit'', ''reason'']\<rparr>"

definition allowing :: PolicyDecision where
  "allowing = \<lparr>pd_allowed = True, pd_fields = [], pd_obligations = [''audit'', ''reason''], pd_reason_code = ''direct_grant'',
     pd_policy_version = POLICY_VERSION\<rparr>"

definition denying :: PolicyDecision where
  "denying = \<lparr>pd_allowed = False, pd_fields = [], pd_obligations = [], pd_reason_code = ''permission_absent'',
     pd_policy_version = POLICY_VERSION\<rparr>"

lemma sample_auditable:
  "d \<in> {allowing, denying} \<Longrightarrow> auditable (replay_context i) d sample_request empty_audit"
  by (auto simp: auditable_def sample_request_def allowing_def denying_def char_field_def empty_audit_def)

theorem replay_session_audited_witness:
  "\<exists>es. length es = 2 \<and> snd (fst (replay.run_all sample_routes id
       [((PyInt 3, Typed ''retry''), replay_context 1, denying, sample_request),
        ((PyInt 3, Typed ''retry''), replay_context 3, allowing, sample_request)]
       (sample_quarantined_db, empty_audit))) = empty_audit\<lparr>au_events := es\<rparr>"
  (is "\<exists>es. _ \<and> snd (fst (replay.run_all _ _ ?calls ?s)) = _")
proof -
  have "\<exists>es. snd (fst (replay.run_all sample_routes id ?calls ?s)) = (snd ?s)\<lparr>au_events := au_events (snd ?s) @ es\<rparr>
    \<and> list_all2 (\<lambda>(c, oc, d, rq) e. attributed rq ''effects.outbox.replay'' e) ?calls es
    \<and> map ae_outcome es = map outcome_of (snd (replay.run_all sample_routes id ?calls ?s))"
  proof (rule replay_session_audited)
    show "\<forall>(c, oc, d, rq) \<in> set ?calls. auditable oc d rq (snd ?s)"
      using sample_auditable by simp
    show "pairwise (\<lambda>a b. disjnt (replay.ids_of a) (replay.ids_of b)) (set ?calls)" "distinct ?calls"
      by (simp_all add: pairwise_insert disjnt_def replay.ids_of_def replay_context_def)
  qed
  then obtain es where "snd (fst (replay.run_all sample_routes id ?calls ?s)) = (snd ?s)\<lparr>au_events := au_events (snd ?s) @ es\<rparr>"
    "list_all2 (\<lambda>(c, oc, d, rq) e. attributed rq ''effects.outbox.replay'' e) ?calls es" by blast
  then show ?thesis
    by (intro exI [of _ es]) (auto simp: empty_audit_def dest: list_all2_lengthD)
qed

text \<open>
  A replay changes the outbox only when it succeeds, and it succeeds only with an allowing decision
  on a message of the tenant that was asked for: a call that raises leaves every outbox table as it was,
  and a call that returns has performed exactly one replay step and returns that message, pending again.
\<close>

theorem replay_effect_confined:
  assumes "outbox.reachable (fst s)"
  shows "case replay_effect env nfc oc d rq n reason s of
      (s', Inl error) \<Rightarrow> fst s' = fst s
    | (s', Inr row) \<Rightarrow> pd_allowed d \<and> outbox_step (fst s) (fst s') \<and> om_id row = or_message rq
        \<and> om_organization_id row = or_organization rq \<and> om_status row = PENDING"
proof (cases "replay_effect env nfc oc d rq n reason s")
  case (Pair s' r)
  show ?thesis
  proof (cases r)
    case (Inl e)
    with Pair replay_effect_refused [of env nfc oc d rq n reason s] show ?thesis by simp
  next
    case (Inr row)
    with Pair have "replay_effect env nfc oc d rq n reason s = (s', Inr row)" by simp
    then obtain why where "pd_allowed d" "replay_transaction env nfc oc d rq n why s = Inr (s', row)"
      by (rule replay_effect_Inr)
    with replay_transaction_Inr [OF outbox.reachable_inv [OF assms] this(2)] Pair Inr show ?thesis by simp
  qed
qed

theorem replay_effect_confined_witness:
  "fst (fst (replay_effect sample_routes id (replay_context 1) denying sample_request (PyInt 3) (Typed ''retry'')
     (sample_quarantined_db, empty_audit))) = sample_quarantined_db"
proof -
  let ?out = "replay_effect sample_routes id (replay_context 1) denying sample_request (PyInt 3) (Typed ''retry'')
     (sample_quarantined_db, empty_audit)"
  have "case ?out of
      (s', Inl error) \<Rightarrow> fst s' = fst (sample_quarantined_db, empty_audit)
    | (s', Inr row) \<Rightarrow> pd_allowed denying \<and> outbox_step (fst (sample_quarantined_db, empty_audit)) (fst s')
        \<and> om_id row = or_message sample_request \<and> om_organization_id row = or_organization sample_request
        \<and> om_status row = PENDING"
    by (rule replay_effect_confined) (simp add: sample_quarantined(1))
  then show ?thesis
    by (auto simp: denying_def split: prod.splits sum.splits)
qed

text \<open>
  Replay discloses nothing about other tenants. If neither of two outboxes holds the message within
  the tenant, the call returns the same error and leaves the same audit trail on both, whatever else they
  hold: a message of another tenant cannot be told from one that does not exist.
\<close>

theorem replay_hides_foreign_messages:
  assumes "\<forall>m \<in> set (db_messages db). om_id m = or_message rq \<longrightarrow> om_organization_id m \<noteq> or_organization rq"
    and "\<forall>m \<in> set (db_messages db'). om_id m = or_message rq \<longrightarrow> om_organization_id m \<noteq> or_organization rq"
  shows "snd (replay_effect env nfc oc d rq n reason (db, au)) = snd (replay_effect env nfc oc d rq n reason (db', au))
    \<and> snd (fst (replay_effect env nfc oc d rq n reason (db, au))) = snd (fst (replay_effect env nfc oc d rq n reason (db', au)))"
proof -
  have none: "find (\<lambda>m. om_id m = or_message rq \<and> om_organization_id m = or_organization rq) ms = None"
    if "\<forall>m \<in> set ms. om_id m = or_message rq \<longrightarrow> om_organization_id m \<noteq> or_organization rq" for ms
    using that by (auto simp: find_None_iff)
  have raise: "snd (audit_and_raise oc r e (db, au)) = snd (audit_and_raise oc r e (db', au))"
    "snd (fst (audit_and_raise oc r e (db, au))) = snd (fst (audit_and_raise oc r e (db', au)))" for r e
    by (simp_all add: audit_and_raise_def split: sum.splits prod.splits)
  have "replay_transaction env nfc oc d rq n why (db, au) = Inl (AuthorizationDenied ''effect_unavailable'')"
    "replay_transaction env nfc oc d rq n why (db', au) = Inl (AuthorizationDenied ''effect_unavailable'')" for why
    by (simp_all add: replay_transaction_def none [OF assms(1)] none [OF assms(2)])
  then show ?thesis
    by (simp add: replay_effect_def raise split: sum.splits maru_error.splits)
qed

theorem replay_hides_foreign_messages_witness:
  "snd (replay_effect sample_routes id (replay_context 1) allowing (sample_request\<lparr>or_organization := 2\<rparr>) (PyInt 3)
     (Typed ''retry'') (sample_quarantined_db, empty_audit)) =
   snd (replay_effect sample_routes id (replay_context 1) allowing (sample_request\<lparr>or_organization := 2\<rparr>) (PyInt 3)
     (Typed ''retry'') (empty_db, empty_audit))"
proof -
  have "\<forall>m \<in> set (db_messages sample_quarantined_db). om_organization_id m \<noteq> 2"
    by (simp add: sample_quarantined_db_def sample_claimed_db_def sample_db_def advance_def put_message_def completed_def claimed_def
      sample_rows)
  then show ?thesis
    by (intro replay_hides_foreign_messages [THEN conjunct1]) (auto simp: empty_db_def)
qed

section \<open>History\<close>

lemma sorted_wrt_map_neg: "sorted (map (\<lambda>r. (- f r, - g r)) xs) \<Longrightarrow> distinct (map f xs) \<Longrightarrow> sorted_wrt (>) (map f xs)"
  for f g :: "'a \<Rightarrow> int"
  by (induction xs) (auto simp: less_eq_prod_def image_iff intro!: order.not_eq_order_implies_strict)

text \<open>
  The replay history is bounded, scoped and newest first. For a limit from 1 to 100 it returns at
  most that many receipts, all of the asked tenant and message, with strictly decreasing replay numbers,
  and whatever it leaves out is older than all it returns and was left out only because the limit was
  reached. Any other limit is refused.
\<close>

theorem replay_history_newest_first:
  fixes org i :: uuid
  assumes "outbox.reachable db"
  defines "mine \<equiv> filter (\<lambda>r. rr_organization_id r = org \<and> rr_message_id r = i) (db_receipts db)"
  shows "case effect_replay_history org i limit db of
      Inl e \<Rightarrow> e = invalid ''invalid_effect_replay_history_limit'' \<and> \<not> (\<exists>n. limit = PyInt n \<and> 1 \<le> n \<and> n \<le> 100)
    | Inr h \<Rightarrow> \<exists>n shown. limit = PyInt n \<and> 1 \<le> n \<and> n \<le> 100 \<and> h = map receipt_projection shown
        \<and> length h \<le> nat n \<and> set shown \<subseteq> set mine \<and> sorted_wrt (>) (map rr_replay_count shown)
        \<and> (\<forall>r \<in> set mine - set shown. length h = nat n \<and> (\<forall>r' \<in> set shown. rr_replay_count r < rr_replay_count r'))"
proof (cases "\<exists>n. limit = PyInt n \<and> 1 \<le> n \<and> n \<le> 100")
  case False
  then show ?thesis
    by (auto simp: effect_replay_history_def MAX_EFFECT_REPLAY_HISTORY_RESULTS_def split: py_number.splits)
next
  case True
  then obtain n where n: "limit = PyInt n" "1 \<le> n" "n \<le> 100" by blast
  let ?k = "\<lambda>r. (- rr_replay_count r, - rr_created_at r)"
  let ?all = "sort_key ?k mine" and ?shown = "take (nat n) (sort_key ?k mine)"
  have numbers: "distinct (map rr_replay_count (filter (\<lambda>r. rr_message_id r = i) (db_receipts db)))"
  proof (cases "\<exists>m \<in> set (db_messages db). om_id m = i")
    case True
    then obtain m where "m \<in> set (db_messages db)" "om_id m = i" by blast
    then have "distinct (receipt_numbers db i)"
      using outbox_invD(5) [OF outbox.reachable_inv [OF assms(1)]] by (auto simp: message_history_def)
    then show ?thesis by (simp only: receipt_numbers_def)
  next
    case False
    then have "filter (\<lambda>r. rr_message_id r = i) (db_receipts db) = []"
      using outbox.reachable_inv [OF assms(1)] unfolding outbox_inv_def filter_empty_conv by (metis imageE)
    then show ?thesis by simp
  qed
  have "mine = filter (\<lambda>r. rr_organization_id r = org) (filter (\<lambda>r. rr_message_id r = i) (db_receipts db))"
    by (simp add: mine_def conj_commute)
  then have "distinct (map rr_replay_count mine)" using distinct_map_filter [OF numbers] by simp
  then have "distinct (map rr_replay_count ?all)" by (simp add: distinct_map)
  then have desc: "sorted_wrt (>) (map rr_replay_count ?all)" by (intro sorted_wrt_map_neg [where g = rr_created_at]) simp_all
  then have desc': "sorted_wrt (>) (map rr_replay_count (?shown @ drop (nat n) ?all))" by simp
  have rest: "length ?shown = nat n \<and> (\<forall>r' \<in> set ?shown. rr_replay_count r < rr_replay_count r')"
    if "r \<in> set mine - set ?shown" for r
  proof -
    have "set ?shown \<union> set (drop (nat n) ?all) = set mine"
      by (metis append_take_drop_id set_append set_sort)
    then have r: "r \<in> set (drop (nat n) ?all)" using that by auto
    then have "nat n < length mine" by (metis drop_all empty_iff empty_set length_sort not_le)
    with r desc' show ?thesis unfolding map_append sorted_wrt_append by auto
  qed
  have h: "effect_replay_history org i limit db = Inr (map receipt_projection ?shown)"
    using n by (simp add: effect_replay_history_def MAX_EFFECT_REPLAY_HISTORY_RESULTS_def mine_def)
  have "set ?shown \<subseteq> set mine" using set_take_subset [of "nat n" ?all] by simp
  moreover have "sorted_wrt (>) (map rr_replay_count ?shown)" using desc by (simp add: take_map [symmetric] sorted_wrt_take)
  ultimately show ?thesis
    using n rest unfolding h sum.case by (intro exI [of _ n] exI [of _ ?shown]) simp
qed

theorem replay_history_newest_first_witness:
  "\<exists>h. effect_replay_history 1 20 (PyInt 5) sample_quarantined_db = Inr h \<and> length h \<le> 5"
  using replay_history_newest_first [OF sample_quarantined(1), where org = 1 and i = 20 and limit = "PyInt 5"]
  by (auto split: sum.splits)

section \<open>Health\<close>

lemma sum_by_status: "sum_list (map (\<lambda>st. length (filter (\<lambda>m. om_status m = st) ms)) STATUS_VALUES) = length ms"
proof (induction ms)
  case (Cons m ms)
  then show ?case by (cases "om_status m") (simp_all add: STATUS_VALUES_def)
qed (simp add: STATUS_VALUES_def)

lemma sum_by_outcome: "sum_list (map (\<lambda>out. length (filter (\<lambda>a. at_outcome a = out) as)) OUTCOME_VALUES) = length as"
proof (induction as)
  case (Cons a as)
  then show ?case by (cases "at_outcome a") (simp_all add: OUTCOME_VALUES_def)
qed (simp add: OUTCOME_VALUES_def)

lemma count_by_message:
  assumes "distinct (map om_id ms)"
  shows "length (filter (\<lambda>a. list_ex (\<lambda>m. om_id m = f a) ms) as) =
    sum_list (map (\<lambda>m. length (filter (\<lambda>a. f a = om_id m) as)) ms)"
proof (induction as)
  case (Cons a as)
  have "sum_list (map (\<lambda>m. if f a = om_id m then 1 else 0) ms) = (if list_ex (\<lambda>m. om_id m = f a) ms then 1 else (0 :: nat))"
    using assms by (induction ms) (auto simp: list_ex_iff image_iff)
  moreover have "sum_list (map (\<lambda>m. length (filter (\<lambda>a. f a = om_id m) (a # as))) ms) =
      sum_list (map (\<lambda>m. (if f a = om_id m then 1 else 0) + length (filter (\<lambda>a. f a = om_id m) as)) ms)"
    by (rule arg_cong [where f = sum_list]) simp
  ultimately show ?case using Cons by (simp add: sum_list_addf)
qed simp

lemma history_lengths:
  assumes "outbox_inv db" and "m \<in> set (db_messages db)"
  shows "int (length (filter (\<lambda>a. at_message_id a = om_id m) (db_attempts db))) = recorded m"
    and "int (length (filter (\<lambda>r. rr_message_id r = om_id m) (db_receipts db))) = om_replay_count m"
proof -
  have h: "message_history db m" and v: "message_valid db m" "message_pace m" using outbox_invD [OF assms(1)] assms(2) by auto
  have nonneg: "0 \<le> recorded m" "0 \<le> om_replay_count m"
    using v by (auto simp: recorded_def message_valid_def message_pace_def positive_integer_def)
  have len: "int (length xs) = k" if "distinct xs" "set xs = {1..k}" "0 \<le> k" for xs and k :: int
    using that distinct_card [of xs] by simp
  show "int (length (filter (\<lambda>a. at_message_id a = om_id m) (db_attempts db))) = recorded m"
    using len [OF _ _ nonneg(1)] h by (metis (no_types) message_history_def attempt_numbers_def length_map)
  show "int (length (filter (\<lambda>r. rr_message_id r = om_id m) (db_receipts db))) = om_replay_count m"
    using len [OF _ _ nonneg(2)] h by (metis (no_types) message_history_def receipt_numbers_def length_map)
qed

lemma sum_list_recorded:
  assumes "\<And>m. m \<in> set ms \<Longrightarrow> int (f m) = g m"
  shows "int (sum_list (map f ms)) = sum_list (map g ms)"
  using assms by (induction ms) auto

text \<open>
  The health snapshot accounts for everything. In every reachable outbox, the status counts add up to
  the messages of the tenant and pool, the attempt counts add up to the attempts those messages have
  recorded, and the replay count is the number of receipts they hold. The age of the oldest ready work is
  absent exactly when none is ready, and no age is negative.
\<close>

theorem health_snapshot_accounts:
  fixes org :: uuid and pool :: string and now :: instant
  assumes "outbox.reachable db"
  defines "ms \<equiv> filter (\<lambda>m. om_organization_id m = org \<and> om_workload_pool m = pool) (db_messages db)"
  defines "h \<equiv> outbox_health_snapshot org pool now db"
  shows "sum_list (map snd (hs_counts h)) = length ms
    \<and> int (sum_list (map snd (hs_attempt_counts h))) = sum_list (map recorded ms)
    \<and> hs_replay_count h = int (length (filter (\<lambda>r. list_ex (\<lambda>m. om_id m = rr_message_id r) ms) (db_receipts db)))
    \<and> (hs_oldest_ready_age_seconds h = None \<longleftrightarrow> \<not> (\<exists>m \<in> set ms. om_status m = PENDING \<and> om_available_at m \<le> now))
    \<and> (\<forall>a. hs_oldest_ready_age_seconds h = Some a \<or> hs_oldest_expired_lease_age_seconds h = Some a \<longrightarrow> 0 \<le> a)"
proof -
  note inv = outbox.reachable_inv [OF assms(1)]
  have ids: "distinct (map om_id ms)" using outbox_invD(1) [OF inv] by (simp add: ms_def distinct_map_filter)
  have mem: "\<And>m. m \<in> set ms \<Longrightarrow> m \<in> set (db_messages db)" by (simp add: ms_def)
  let ?as = "filter (\<lambda>a. list_ex (\<lambda>m. om_id m = at_message_id a) ms) (db_attempts db)"
  have fields: "map snd (hs_counts h) = map (\<lambda>st. length (filter (\<lambda>m. om_status m = st) ms)) STATUS_VALUES"
      "map snd (hs_attempt_counts h) = map (\<lambda>out. length (filter (\<lambda>a. at_outcome a = out) ?as)) OUTCOME_VALUES"
      "hs_replay_count h = sum_list (map om_replay_count ms)"
    by (simp_all add: h_def outbox_health_snapshot_def Let_def ms_def [symmetric] comp_def)
  have "int (length ?as) = sum_list (map recorded ms)"
    unfolding count_by_message [OF ids]
    by (rule sum_list_recorded) (use history_lengths(1) [OF inv] mem in simp)
  moreover have "int (length (filter (\<lambda>r. list_ex (\<lambda>m. om_id m = rr_message_id r) ms) (db_receipts db))) = sum_list (map om_replay_count ms)"
    unfolding count_by_message [OF ids]
    by (rule sum_list_recorded) (use history_lengths(2) [OF inv] mem in simp)
  moreover have "hs_oldest_ready_age_seconds h = None \<longleftrightarrow> \<not> (\<exists>m \<in> set ms. om_status m = PENDING \<and> om_available_at m \<le> now)"
  proof -
    have none: "first_instant ts = None \<longleftrightarrow> ts = []" for ts
      by (cases ts) (auto simp: first_instant_def split: list.splits dest: arg_cong [where f = length])
    have "age_seconds v now = None \<longleftrightarrow> v = None" for v
      by (simp add: age_seconds_def split: option.splits)
    then show ?thesis
      by (auto simp: h_def outbox_health_snapshot_def Let_def ms_def [symmetric] none filter_empty_conv)
  qed
  moreover have "0 \<le> a" if "hs_oldest_ready_age_seconds h = Some a \<or> hs_oldest_expired_lease_age_seconds h = Some a" for a
    using that by (auto simp: h_def outbox_health_snapshot_def Let_def age_seconds_def split: option.splits)
  ultimately show ?thesis
    unfolding fields sum_by_status sum_by_outcome by (intro conjI allI impI refl) simp_all
qed

theorem health_snapshot_accounts_witness:
  "sum_list (map snd (hs_counts (outbox_health_snapshot 1 ''default'' 500 sample_quarantined_db))) =
   length (filter (\<lambda>m. om_organization_id m = 1 \<and> om_workload_pool m = ''default'') (db_messages sample_quarantined_db))"
  using health_snapshot_accounts [OF sample_quarantined(1), of 1 "''default''" 500] by blast

end
