(* ===== verification/Audit_Props.thy ===== *)
theory Audit_Props
  imports Audit_Inv
begin

text \<open>
  Properties of the audit trail: every reachable trail verifies, sealed history is tamper-evident,
  nothing is ever rewritten, sealing takes exactly the oldest pending events and drains the backlog,
  and stored metadata keeps to the allowlist.
\<close>

section \<open>Sample trail\<close>

definition trail_record :: AuditRecord where
  "trail_record = \<lparr>ar_principal_kind = ''user'', ar_principal_id = Some 7, ar_principal_context_id = None,
     ar_organization_id = Some 3, ar_event_edition_id = None, ar_capability_code = ''effects.replay'',
     ar_operation = ''effects.replay.apply'', ar_target_type = ''effects.message'', ar_target_id = Some 5,
     ar_outcome = ''allow'', ar_reason_code = ''ok'', ar_correlation_id = 11, ar_source_channel = ''api'',
     ar_obligations = [], ar_changed_fields = [''status''], ar_causation_id = None, ar_request_id = None,
     ar_idempotency_key_hash = [], ar_delegated = False, ar_elevated = False, ar_break_glass = False,
     ar_safe_metadata = JObj [(''target_count'', JInt 2)], ar_retention_class = ''security-standard''\<rparr>"

definition trail_event :: "uuid \<Rightarrow> AuditEvent" where
  "trail_event i = event_of_audit_record i 1000 trail_record"

definition trail_pending :: audit_db where
  "trail_pending = \<lparr>au_events = [trail_event 1], au_batches = []\<rparr>"

definition trail_sealed :: audit_db where
  "trail_sealed = sealed (next_batch 9 [trail_event 1] trail_pending) [trail_event 1] trail_pending"

definition trail_longer :: audit_db where
  "trail_longer = trail_sealed\<lparr>au_events := au_events trail_sealed @ [trail_event 2]\<rparr>"

lemma trail_clean: "au_events db = map (seal_into b ids) [] \<Longrightarrow> audit_event_full_clean db (trail_event i)"
  by (simp add: audit_event_full_clean_def trail_event_def event_of_audit_record_def trail_record_def char_field_def
      positive_small_integer_def ALLOW_def validate_safe_metadata_def SAFE_METADATA_KEYS_def SAFE_METADATA_TYPES_def
      safe_metadata_item_def event_constraints_def retention_action_def)

lemma trail_clean_after: "ae_id e \<noteq> i \<Longrightarrow> au_events db = [e] \<Longrightarrow> audit_event_full_clean db (trail_event i)"
  by (simp add: audit_event_full_clean_def trail_event_def event_of_audit_record_def trail_record_def char_field_def
      positive_small_integer_def ALLOW_def validate_safe_metadata_def SAFE_METADATA_KEYS_def SAFE_METADATA_TYPES_def
      safe_metadata_item_def event_constraints_def retention_action_def reconcile_retry_def)

lemma trail_event_simps [simp]:
  "ae_id (trail_event i) = i" "ae_integrity_batch (trail_event i) = None" "ae_occurred_at (trail_event i) = 1000"
  by (simp_all add: trail_event_def event_of_audit_record_def)

lemma trail_append: "append_audit 1 1000 trail_record None None empty_audit = Inr (trail_pending, trail_event 1)"
  using trail_clean [of empty_audit 0 "[]" 1]
  by (simp add: append_audit_def audit_event_create_def empty_audit_def trail_pending_def Let_def flip: trail_event_def)

lemma trail_pending_rows: "pending_events [] trail_pending = [trail_event 1]"
  by (simp add: pending_events_def trail_pending_def)

lemma trail_seal: "seal_pending_audit_events [] 9 1000 trail_pending =
    Inr (trail_sealed, Some (next_batch 9 [trail_event 1] trail_pending))"
proof -
  have "batch_full_clean trail_pending (next_batch 9 [trail_event 1] trail_pending)"
    by (simp add: batch_full_clean_def next_batch_def trail_pending_def last_batch_def Let_def positive_big_integer_def
        positive_integer_def hex64_genesis audit_digest_def)
  then show ?thesis
    by (simp add: seal_pending_audit_events_def MAX_BATCH_SIZE_def trail_pending_rows Let_def batch_create_def trail_sealed_def
        sealed_def)
qed

lemma trail_append_after: "append_audit 2 1000 trail_record None None trail_sealed = Inr (trail_longer, trail_event 2)"
proof -
  have "audit_event_full_clean trail_sealed (trail_event 2)"
    by (rule trail_clean_after [of "seal_into 9 [1] (trail_event 1)"])
      (simp_all add: trail_sealed_def sealed_def trail_pending_def next_batch_def Let_def)
  then show ?thesis
    by (simp add: append_audit_def audit_event_create_def trail_longer_def Let_def flip: trail_event_def)
qed

lemma trail_reachable: "audit.reachable trail_pending" "audit.reachable trail_sealed" "audit.reachable trail_longer"
proof -
  have "audit.reachable empty_audit" by (rule audit.reach_initial) simp
  then show p: "audit.reachable trail_pending" by (rule audit.reach_step) (rule step_append [OF trail_append])
  show s: "audit.reachable trail_sealed" by (rule audit.reach_step [OF p]) (rule step_seal [OF trail_seal])
  show "audit.reachable trail_longer" by (rule audit.reach_step [OF s]) (rule step_append [OF trail_append_after])
qed

section \<open>Verification\<close>

text \<open>
  C14. Whatever was appended and sealed, in whatever order, with any locks and batch sizes, the
  integrity verification of the trail succeeds.
\<close>

theorem audit_trail_verifies:
  assumes "audit.reachable db"
  shows "verify_audit_integrity db"
  using audit.reachable_inv [OF assms] by (rule audit_inv_verifies)

theorem audit_trail_verifies_witness:
  "audit.reachable trail_longer \<and> length (au_batches trail_longer) = 1 \<and> length (au_events trail_longer) = 2
   \<and> verify_audit_integrity trail_longer"
  using audit_trail_verifies [OF trail_reachable(3)] trail_reachable(3)
  by (simp add: trail_longer_def trail_sealed_def sealed_def trail_pending_def)

section \<open>Tamper evidence\<close>

definition digest_inputs :: "audit_db \<Rightarrow> string set" where
  "digest_inputs db = (\<lambda>b. digest_input (ab_previous_digest b) (batch_events db b)) ` set (au_batches db)"

definition chain_tip :: "audit_db \<Rightarrow> (int \<times> string) option" where
  "chain_tip db = map_option (\<lambda>b. (ab_sequence b, ab_digest b)) (last_batch db)"

type_synonym sealed_batch = "int \<times> string \<times> string \<times> int \<times> AuditEvent list"

definition sealed_batch :: "audit_db \<Rightarrow> AuditIntegrityBatch \<Rightarrow> sealed_batch" where
  "sealed_batch db b = (ab_sequence b, ab_previous_digest b, ab_digest b, ab_event_count b,
     map event_content (batch_events db b))"

definition sealed_history :: "audit_db \<Rightarrow> sealed_batch list" where
  "sealed_history db = map (sealed_batch db) (sort_key ab_sequence (au_batches db))"

lemma batch_events_valid:
  "\<forall>e \<in> set (au_events db). valid_instant (ae_occurred_at e) \<Longrightarrow> \<forall>e \<in> set (batch_events db b). valid_instant (ae_occurred_at e)"
  by (simp add: batch_events_def)

lemma chain_unique:
  assumes "verify_from db p s bs" and "verify_from db' p s cs" and "length bs = length cs"
    and "chain_end p bs = chain_end p cs" and "inj_on sha256_hex (I \<union> I')"
    and "\<And>b. b \<in> set bs \<Longrightarrow> digest_input (ab_previous_digest b) (batch_events db b) \<in> I"
    and "\<And>c. c \<in> set cs \<Longrightarrow> digest_input (ab_previous_digest c) (batch_events db' c) \<in> I'"
    and "\<forall>e \<in> set (au_events db). valid_instant (ae_occurred_at e)"
    and "\<forall>e \<in> set (au_events db'). valid_instant (ae_occurred_at e)"
  shows "map (sealed_batch db) bs = map (sealed_batch db') cs"
  using assms(3,1,2,4,6,7)
proof (induction bs cs rule: rev_induct2)
  case (4 b bs c cs)
  have len: "length bs = length cs" using "4.prems"(1) by simp
  let ?P = "chain_end p bs" and ?Q = "chain_end p cs"
  have b: "verify_from db p s bs" "ab_sequence b = s + int (length bs)" "ab_previous_digest b = ?P"
      "ab_event_count b = int (length (batch_events db b))" "ab_digest b = audit_digest ?P (batch_events db b)"
    using "4.prems"(2) by (simp_all add: verify_from_append Let_def split: if_splits)
  have c: "verify_from db' p s cs" "ab_sequence c = s + int (length cs)" "ab_previous_digest c = ?Q"
      "ab_event_count c = int (length (batch_events db' c))" "ab_digest c = audit_digest ?Q (batch_events db' c)"
    using "4.prems"(3) by (simp_all add: verify_from_append Let_def split: if_splits)
  have "sha256_hex (digest_input ?P (batch_events db b)) = sha256_hex (digest_input ?Q (batch_events db' c))"
    using "4.prems"(4) b(5) c(5) by (simp add: chain_end_def audit_digest_def)
  moreover have "digest_input ?P (batch_events db b) \<in> I \<union> I'" "digest_input ?Q (batch_events db' c) \<in> I \<union> I'"
    using "4.prems"(5) [of b] "4.prems"(6) [of c] b(3) c(3) by simp_all
  ultimately have "digest_input ?P (batch_events db b) = digest_input ?Q (batch_events db' c)"
    by (rule inj_onD [OF assms(5)])
  from digest_input_eq [OF this batch_events_valid [OF assms(8)] batch_events_valid [OF assms(9)]]
  have PQ: "?P = ?Q" and ev: "map event_content (batch_events db b) = map event_content (batch_events db' c)" by simp_all
  have "map (sealed_batch db) bs = map (sealed_batch db') cs"
    using "4.prems"(5,6) by (intro "4.IH" len b(1) c(1) PQ) simp_all
  moreover have "sealed_batch db b = sealed_batch db' c"
    using b c PQ ev len "4.prems"(4) map_eq_imp_length_eq [OF ev] by (simp add: sealed_batch_def chain_end_def)
  ultimately show ?case by simp
qed simp_all

lemma verified_tip:
  assumes "verify_audit_integrity db"
  defines "bs \<equiv> sort_key ab_sequence (au_batches db)"
  shows "chain_tip db = (if bs = [] then None else Some (int (length bs), chain_end GENESIS_DIGEST bs))"
proof (cases bs rule: rev_cases)
  case Nil
  then show ?thesis by (simp add: chain_tip_def last_batch_def bs_def)
next
  case (snoc cs b)
  have v: "verify_from db GENESIS_DIGEST 1 bs" using assms by (simp add: verify_audit_integrity_def)
  have "ab_sequence b = int (length bs)"
    using verify_from_sequences [OF v, of "length cs"] snoc by simp
  with snoc show ?thesis by (simp add: chain_tip_def last_batch_def bs_def [symmetric] chain_end_def)
qed

text \<open>
  C13. Sealed history is tamper-evident. Two trails that both verify and end in the same batch number
  and digest have the same sealed history: the same batches, in the same order, with the same events in
  every column but the bookkeeping of the batch itself, unless SHA-256 collides on two of the encodings
  that were hashed. In particular no sealed event can be changed, added, dropped or moved without
  changing the tip of the chain.
\<close>

theorem sealed_history_tamper_evident:
  assumes "verify_audit_integrity db" and "verify_audit_integrity db'" and "chain_tip db = chain_tip db'"
    and "inj_on sha256_hex (digest_inputs db \<union> digest_inputs db')"
    and "\<forall>e \<in> set (au_events db). valid_instant (ae_occurred_at e)"
    and "\<forall>e \<in> set (au_events db'). valid_instant (ae_occurred_at e)"
  shows "sealed_history db = sealed_history db'"
proof -
  let ?bs = "sort_key ab_sequence (au_batches db)" and ?cs = "sort_key ab_sequence (au_batches db')"
  have "length ?bs = length ?cs \<and> chain_end GENESIS_DIGEST ?bs = chain_end GENESIS_DIGEST ?cs"
    using assms(3) unfolding verified_tip [OF assms(1)] verified_tip [OF assms(2)]
    by (auto simp: chain_end_def split: if_splits) (metis length_sort)+
  then show ?thesis
    using assms(1,2) unfolding sealed_history_def verify_audit_integrity_def
    by (intro chain_unique [OF _ _ _ _ assms(4) _ _ assms(5,6)]) (auto simp: digest_inputs_def)
qed

lemma trail_longer_facts:
  "au_batches trail_longer = au_batches trail_sealed" "batch_events trail_longer b = batch_events trail_sealed b"
  by (simp_all add: trail_longer_def batch_events_def)

lemma trail_valid: "\<forall>e \<in> set (au_events trail_longer). valid_instant (ae_occurred_at e)"
    "\<forall>e \<in> set (au_events trail_sealed). valid_instant (ae_occurred_at e)"
  by (simp_all add: trail_longer_def trail_sealed_def sealed_def trail_pending_def seal_into_def valid_instant_def
      day_us_def minute_us_def second_us_def)

theorem sealed_history_tamper_evident_witness:
  "trail_longer \<noteq> trail_sealed \<and> length (sealed_history trail_sealed) = 1
   \<and> sealed_history trail_longer = sealed_history trail_sealed"
proof -
  have "verify_audit_integrity trail_longer" "verify_audit_integrity trail_sealed"
    using trail_reachable(2,3) audit.reachable_inv audit_inv_verifies by blast+
  moreover have "chain_tip trail_longer = chain_tip trail_sealed"
    by (simp add: chain_tip_def last_batch_def trail_longer_facts)
  moreover have "inj_on sha256_hex (digest_inputs trail_longer \<union> digest_inputs trail_sealed)"
    unfolding digest_inputs_def trail_longer_facts by (simp add: trail_sealed_def sealed_def trail_pending_def)
  ultimately have "sealed_history trail_longer = sealed_history trail_sealed"
    by (intro sealed_history_tamper_evident trail_valid)
  moreover have "au_events trail_longer \<noteq> au_events trail_sealed" by (simp add: trail_longer_def)
  then have "trail_longer \<noteq> trail_sealed" by metis
  moreover have "length (sealed_history trail_sealed) = 1"
    by (simp add: sealed_history_def trail_sealed_def sealed_def trail_pending_def)
  ultimately show ?thesis by blast
qed

section \<open>Sealing\<close>

lemma filter_notin_take:
  assumes "distinct (map f xs)"
  shows "filter (\<lambda>x. f x \<notin> f ` set (take n xs)) xs = drop n xs"
proof -
  have split: "xs = take n xs @ drop n xs" by simp
  have "distinct (map f (take n xs) @ map f (drop n xs))"
    using assms by (simp flip: map_append)
  then have "f x \<notin> f ` set (take n xs)" if "x \<in> set (drop n xs)" for x
    using that by auto
  then have "filter (\<lambda>x. f x \<notin> f ` set (take n xs)) (take n xs @ drop n xs) = drop n xs"
    by (simp only: filter_append) (simp add: filter_empty_conv filter_id_conv)
  then show ?thesis by simp
qed

lemma filter_pending_sealed:
  "filter (\<lambda>e. ae_integrity_batch e = None \<and> P (ae_id e)) (map (seal_into i ids) evs) =
   filter (\<lambda>e. ae_id e \<notin> set ids) (filter (\<lambda>e. ae_integrity_batch e = None \<and> P (ae_id e)) evs)"
proof (induction evs)
  case (Cons e evs)
  have "seal_into i ids e = e" if "ae_id e \<notin> set ids" using that by (simp add: seal_into_def)
  with Cons show ?case by simp
qed simp

lemma pending_after_seal:
  assumes "audit_inv db" and "es = take n (pending_events locked db)"
  shows "pending_events locked (sealed b es db) = drop n (pending_events locked db)"
proof -
  have "pending_events locked (sealed b es db) = filter (\<lambda>e. ae_id e \<notin> ae_id ` set es) (pending_events locked db)"
    by (simp add: pending_events_def sealed_def filter_sort filter_pending_sealed [where P = "\<lambda>i. i \<notin> set locked"])
  also have "\<dots> = drop n (pending_events locked db)"
    unfolding assms(2) by (rule filter_notin_take [OF pending_events_facts(1) [OF assms(1)]])
  finally show ?thesis .
qed

lemma unsealed_pending: "map unsealed (pending_events locked db) = pending_events locked db"
  by (rule map_idI) (simp add: pending_events_def unsealed_def)

lemma next_batch_clean:
  assumes "audit_inv db" and "fresh \<notin> ab_id ` set (au_batches db)" and "length es \<le> nat MAX_BATCH_SIZE"
    and "int (length (au_batches db)) < 9223372036854775807"
  shows "batch_full_clean db (next_batch fresh es db)"
proof -
  note n = next_batch_inv [OF assms(1)]
  have v: "verify_from db GENESIS_DIGEST 1 (au_batches db)" using assms(1) by (simp add: audit_inv_def)
  have "ab_sequence b \<noteq> 1 + int (length (au_batches db))" if "b \<in> set (au_batches db)" for b
    using that verify_from_sequences [OF v] by (fastforce simp: in_set_conv_nth)
  then show ?thesis
    using assms(2-4) verify_from_hex [OF v hex64_genesis]
    by (auto simp: batch_full_clean_def n list_ex_iff audit_digest_def positive_big_integer_def positive_integer_def
        MAX_BATCH_SIZE_def)
qed

lemma seal_succeeds:
  fixes locked :: "uuid list"
  assumes inv: "audit_inv db" and "1 \<le> limit" and "limit \<le> MAX_BATCH_SIZE" and "fresh \<notin> ab_id ` set (au_batches db)"
    and "int (length (au_batches db)) < 9223372036854775807"
  defines "es \<equiv> take (nat limit) (pending_events locked db)"
  shows "seal_pending_audit_events locked fresh limit db =
    (if pending_events locked db = [] then Inr (db, None)
     else Inr (sealed (next_batch fresh es db) es db, Some (next_batch fresh es db)))"
proof -
  have "length es \<le> nat MAX_BATCH_SIZE" using assms(3) by (simp add: es_def nat_mono min.coboundedI2)
  from next_batch_clean [OF inv assms(4) this assms(5)] show ?thesis
    using assms(2,3) by (auto simp: seal_pending_audit_events_def es_def Let_def batch_create_def sealed_def)
qed

text \<open>
  Sealing with a batch size in range always returns. With nothing pending it changes nothing;
  otherwise it appends one batch, numbered next, that holds exactly the first pending events in order of
  time and identifier, up to the size, leaves the rest pending, and alters no column of any event but
  the batch of the events it sealed.
\<close>

theorem seal_takes_oldest:
  assumes "audit.reachable db" and "1 \<le> limit" and "limit \<le> MAX_BATCH_SIZE" and "fresh \<notin> ab_id ` set (au_batches db)"
    and "int (length (au_batches db)) < 9223372036854775807"
  shows "\<exists>db' r. seal_pending_audit_events locked fresh limit db = Inr (db', r)
    \<and> map unsealed (au_events db') = map unsealed (au_events db)
    \<and> (case r of
         None \<Rightarrow> pending_events locked db = [] \<and> db' = db
       | Some b \<Rightarrow> pending_events locked db \<noteq> [] \<and> au_batches db' = au_batches db @ [b]
           \<and> ab_id b = fresh \<and> ab_sequence b = int (length (au_batches db)) + 1
           \<and> map unsealed (batch_events db' b) = take (nat limit) (pending_events locked db)
           \<and> pending_events locked db' = drop (nat limit) (pending_events locked db))"
proof (cases "pending_events locked db = []")
  case True
  with seal_succeeds [OF audit.reachable_inv [OF assms(1)] assms(2-5)] show ?thesis by simp
next
  case False
  let ?es = "take (nat limit) (pending_events locked db)"
  let ?b = "next_batch fresh ?es db"
  note inv = audit.reachable_inv [OF assms(1)]
  have "length ?es \<le> nat MAX_BATCH_SIZE" using assms(3) by (simp add: nat_mono min.coboundedI2)
  note clean = next_batch_clean [OF inv assms(4) this assms(5)]
  have "map unsealed (batch_events (sealed ?b ?es db) ?b) = map unsealed ?es"
    by (simp add: sealed_facts(1) [OF inv refl clean] unsealed_def)
  then have "map unsealed (batch_events (sealed ?b ?es db) ?b) = ?es"
    by (simp add: take_map [symmetric] unsealed_pending)
  moreover have "map unsealed (au_events (sealed ?b ?es db)) = map unsealed (au_events db)"
    by (simp add: sealed_def)
  ultimately show ?thesis
    using False seal_succeeds [OF inv assms(2-5), of locked] pending_after_seal [OF inv refl, of locked ?b "nat limit"]
      next_batch_inv(1,5) [OF inv, of fresh ?es]
    by (simp add: sealed_def [of ?b])
qed

theorem seal_takes_oldest_witness:
  "\<exists>db'. seal_pending_audit_events [] 9 1000 trail_pending =
     Inr (db', Some (next_batch 9 [trail_event 1] trail_pending)) \<and> pending_events [] db' = []"
proof -
  have "\<exists>db' r. seal_pending_audit_events [] 9 1000 trail_pending = Inr (db', r)
    \<and> map unsealed (au_events db') = map unsealed (au_events trail_pending)
    \<and> (case r of
         None \<Rightarrow> pending_events [] trail_pending = [] \<and> db' = trail_pending
       | Some b \<Rightarrow> pending_events [] trail_pending \<noteq> [] \<and> au_batches db' = au_batches trail_pending @ [b]
           \<and> ab_id b = 9 \<and> ab_sequence b = int (length (au_batches trail_pending)) + 1
           \<and> map unsealed (batch_events db' b) = take (nat 1000) (pending_events [] trail_pending)
           \<and> pending_events [] db' = drop (nat 1000) (pending_events [] trail_pending))"
    by (rule seal_takes_oldest [OF trail_reachable(1)]) (simp_all add: MAX_BATCH_SIZE_def trail_pending_def)
  then show ?thesis by (simp add: trail_seal trail_pending_rows)
qed

section \<open>The management command\<close>

text \<open>Running the command with \<open>--seal\<close> once per fresh batch identifier.\<close>

fun seal_runs :: "uuid list \<Rightarrow> int \<Rightarrow> audit_db \<Rightarrow> maru_error + audit_db \<times> integrity_report list" where
  "seal_runs [] limit db = Inr (db, [])"
| "seal_runs (i # is) limit db =
     bindE (audit_integrity_command [] i True limit db) (\<lambda>(db', r).
       bindE (seal_runs is limit db') (\<lambda>(db'', rs). Inr (db'', r # rs)))"

lemma pending_count:
  "length (filter (\<lambda>e. ae_integrity_batch e = None) (au_events db)) = length (pending_events [] db)"
  by (simp add: pending_events_def)

lemma seal_step:
  assumes inv: "audit_inv db" and lim: "1 \<le> limit" "limit \<le> MAX_BATCH_SIZE" and "fresh \<notin> ab_id ` set (au_batches db)"
    and "int (length (au_batches db)) < 9223372036854775807"
  obtains db' r where "audit_integrity_command [] fresh True limit db = Inr (db', r)" "audit_inv db'"
    "ir_valid r" "ir_pending_event_count r = length (pending_events [] db')"
    "pending_events [] db' = drop (nat limit) (pending_events [] db)"
    "map unsealed (au_events db') = map unsealed (au_events db)"
    "ab_id ` set (au_batches db') \<subseteq> insert fresh (ab_id ` set (au_batches db))"
    "length (au_batches db') \<le> Suc (length (au_batches db))"
proof -
  let ?es = "take (nat limit) (pending_events [] db)"
  let ?b = "next_batch fresh ?es db"
  define db' where "db' = (if pending_events [] db = [] then db else sealed ?b ?es db)"
  from seal_succeeds [OF assms, of "[]"] obtain r where s: "seal_pending_audit_events [] fresh limit db = Inr (db', r)"
    by (auto simp: db'_def split: if_splits)
  have inv': "audit_inv db'" by (rule seal_inv [OF inv s])
  show thesis
  proof (rule that [of db'])
    show "audit_integrity_command [] fresh True limit db = Inr (db', \<lparr>ir_valid = True, ir_sealed_batch = map_option ab_id r,
        ir_batch_count = length (au_batches db'), ir_pending_event_count = length (pending_events [] db')\<rparr>)"
      by (simp add: audit_integrity_command_def s audit_inv_verifies [OF inv'] pending_count)
    show "pending_events [] db' = drop (nat limit) (pending_events [] db)"
      using pending_after_seal [OF inv refl] by (simp add: db'_def)
    show "ab_id ` set (au_batches db') \<subseteq> insert fresh (ab_id ` set (au_batches db))"
      using next_batch_inv(5) [OF inv] by (auto simp: db'_def sealed_def)
  qed (use inv' in \<open>simp_all add: db'_def sealed_def\<close>)
qed

lemma seal_runs_drain:
  assumes "audit_inv db" and "1 \<le> limit" and "limit \<le> MAX_BATCH_SIZE" and "distinct is"
    and "set is \<inter> ab_id ` set (au_batches db) = {}"
    and "int (length (au_batches db) + length is) \<le> 9223372036854775807"
  shows "\<exists>db' rs. seal_runs is limit db = Inr (db', rs) \<and> list_all ir_valid rs
    \<and> pending_events [] db' = drop (nat limit * length is) (pending_events [] db)
    \<and> map unsealed (au_events db') = map unsealed (au_events db)"
  using assms
proof (induction "is" arbitrary: db)
  case Nil
  then show ?case by simp
next
  case (Cons i "is")
  have pre: "i \<notin> ab_id ` set (au_batches db)" "int (length (au_batches db)) < 9223372036854775807"
    using Cons.prems(5,6) by auto
  obtain db' r where s: "audit_integrity_command [] i True limit db = Inr (db', r)" "audit_inv db'" "ir_valid r"
      "pending_events [] db' = drop (nat limit) (pending_events [] db)"
      "map unsealed (au_events db') = map unsealed (au_events db)"
      "ab_id ` set (au_batches db') \<subseteq> insert i (ab_id ` set (au_batches db))"
      "length (au_batches db') \<le> Suc (length (au_batches db))"
    by (rule seal_step [OF Cons.prems(1-3) pre])
  have "\<exists>db'' rs. seal_runs is limit db' = Inr (db'', rs) \<and> list_all ir_valid rs
      \<and> pending_events [] db'' = drop (nat limit * length is) (pending_events [] db')
      \<and> map unsealed (au_events db'') = map unsealed (au_events db')"
    using Cons.prems(2-6) s(6,7) by (intro Cons.IH s(2)) auto
  with s(1,3-5) show ?case by (auto simp: add.commute)
qed

text \<open>
  C15. The backlog drains. Running the command with a batch size as often as the backlog divided by the
  size, with nothing appended meanwhile, succeeds each time, reports a valid trail each time, leaves no
  event pending and loses none.
\<close>

theorem sealing_drains_backlog:
  assumes "audit.reachable db" and "1 \<le> limit" and "limit \<le> MAX_BATCH_SIZE" and "distinct is"
    and "set is \<inter> ab_id ` set (au_batches db) = {}"
    and "int (length (au_batches db) + length is) \<le> 9223372036854775807"
    and "length (pending_events [] db) \<le> nat limit * length is"
  shows "\<exists>db' reports. seal_runs is limit db = Inr (db', reports) \<and> list_all ir_valid reports
    \<and> pending_events [] db' = [] \<and> map unsealed (au_events db') = map unsealed (au_events db)"
  using seal_runs_drain [OF audit.reachable_inv [OF assms(1)] assms(2-6)] assms(7) by auto

theorem sealing_drains_backlog_witness:
  "pending_events [] trail_pending \<noteq> [] \<and> (\<exists>db' reports. seal_runs [9, 10] 1 trail_pending = Inr (db', reports)
     \<and> pending_events [] db' = [])"
proof -
  have "\<exists>db' reports. seal_runs [9, 10] 1 trail_pending = Inr (db', reports) \<and> list_all ir_valid reports
    \<and> pending_events [] db' = [] \<and> map unsealed (au_events db') = map unsealed (au_events trail_pending)"
    by (rule sealing_drains_backlog [OF trail_reachable(1)])
      (simp_all add: MAX_BATCH_SIZE_def trail_pending_rows, simp_all add: trail_pending_def)
  then show ?thesis by (auto simp: trail_pending_rows)
qed

section \<open>Append-only\<close>

definition extends_trail :: "audit_db \<Rightarrow> audit_db \<Rightarrow> bool" where
  "extends_trail db db' \<longleftrightarrow> prefix (map unsealed (au_events db)) (map unsealed (au_events db'))
     \<and> prefix (au_batches db) (au_batches db')
     \<and> (\<forall>b \<in> set (au_batches db). batch_events db' b = batch_events db b)"

lemma extends_trail_trans: "extends_trail a b \<Longrightarrow> extends_trail b c \<Longrightarrow> extends_trail a c"
proof -
  assume ab: "extends_trail a b" and bc: "extends_trail b c"
  then have "set (au_batches a) \<subseteq> set (au_batches b)"
    by (simp add: extends_trail_def set_mono_prefix)
  with ab bc show ?thesis
    unfolding extends_trail_def by (auto intro: prefix_order.trans)
qed

lemma audit_step_extends:
  assumes "audit_inv db" and "audit_step db db'"
  shows "extends_trail db db'"
  using assms(2)
proof cases
  case (step_append fresh now r occurred i e)
  note a = append_Inr [OF step_append(1)]
  show ?thesis by (simp add: extends_trail_def a(1,2) batch_events_def)
next
  case (step_seal locked fresh limit r)
  from step_seal(1) show ?thesis
  proof (rule seal_Inr)
    assume "db' = db" then show ?thesis by (simp add: extends_trail_def)
  next
    fix es
    assume es: "es = take (nat limit) (pending_events locked db)" and clean: "batch_full_clean db (next_batch fresh es db)"
      and db': "db' = sealed (next_batch fresh es db) es db"
    have "au_batches db' = au_batches db @ [next_batch fresh es db]" "map unsealed (au_events db') = map unsealed (au_events db)"
      by (simp_all add: db' sealed_def)
    moreover have "\<forall>b \<in> set (au_batches db). batch_events db' b = batch_events db b"
      using sealed_facts(2) [OF assms(1) es clean] by (simp add: db')
    ultimately show ?thesis by (simp add: extends_trail_def)
  qed
qed

text \<open>
  The trail is append-only. Whatever is appended and sealed after a reachable state, every event
  keeps its place and all its columns, no batch is changed or removed, and the events of a sealed batch
  stay exactly what they were.
\<close>

theorem audit_trail_append_only:
  assumes "audit.reachable db" and "audit_step\<^sup>*\<^sup>* db db'"
  shows "extends_trail db db'"
  using assms(2)
proof (induction rule: rtranclp_induct)
  case base
  then show ?case by (simp add: extends_trail_def)
next
  case (step y z)
  have "audit.reachable y" using step.hyps(1) assms(1)
    by (induction rule: rtranclp_induct) (auto intro: audit.reach_step)
  then have "extends_trail y z" using audit_step_extends audit.reachable_inv step.hyps(2) by blast
  with step.IH show ?case by (rule extends_trail_trans)
qed

theorem audit_trail_append_only_witness:
  "audit_step\<^sup>*\<^sup>* trail_pending trail_longer \<and> extends_trail trail_pending trail_longer"
proof -
  have steps: "audit_step\<^sup>*\<^sup>* trail_pending trail_longer"
    using step_seal [OF trail_seal] step_append [OF trail_append_after]
    by (meson converse_rtranclp_into_rtranclp r_into_rtranclp)
  with audit_trail_append_only [OF trail_reachable(1) steps] show ?thesis by blast
qed

section \<open>Metadata\<close>

text \<open>What the allowlist lets into an event.\<close>

definition allowlisted :: "string \<times> json \<Rightarrow> bool" where
  "allowlisted item = (case item of
       (key, JInt n) \<Rightarrow> key = ''target_count'' \<and> 0 \<le> n
     | (key, JStr s) \<Rightarrow> key \<in> set SAFE_METADATA_KEYS \<and> key \<noteq> ''target_count'' \<and> length s \<le> 160
         \<and> (key = ''policy_digest'' \<longrightarrow> hex64 s)
     | _ \<Rightarrow> False)"

lemma metadata_types:
  "key \<in> set SAFE_METADATA_KEYS \<Longrightarrow>
     map_of SAFE_METADATA_TYPES key = Some (if key = ''target_count'' then MetadataInt else MetadataStr)"
  by (auto simp: SAFE_METADATA_KEYS_def SAFE_METADATA_TYPES_def)

lemma safe_metadata_item_iff:
  assumes "key \<in> set SAFE_METADATA_KEYS"
  shows "safe_metadata_item key item = Inr () \<longleftrightarrow> allowlisted (key, item)"
proof (cases item)
  case (JStr s)
  then show ?thesis
    using assms by (auto simp: safe_metadata_item_def allowlisted_def metadata_types result_simps
        MAX_SAFE_METADATA_TEXT_LENGTH_def SHA256_HEX_LENGTH_def hex64_def)
qed (use assms in \<open>auto simp: safe_metadata_item_def allowlisted_def metadata_types result_simps\<close>)

lemma foldE_unit: "foldE (\<lambda>(k, v) _. f k v) items () = Inr () \<longleftrightarrow> (\<forall>(k, v) \<in> set items. f k v = Inr ())"
  by (induction items) (auto simp: bindE_eq_Inr)

lemma allowlisted_key: "allowlisted (k, v) \<Longrightarrow> k \<in> set SAFE_METADATA_KEYS"
  by (auto simp: allowlisted_def SAFE_METADATA_KEYS_def SAFE_METADATA_TYPES_def split: json.splits)

text \<open>
  The metadata check accepts exactly objects whose items are all allowlisted: the ten known keys,
  a non-negative integer (never a boolean) for the count, text of at most 160 characters for the others,
  64 lower-case hexadecimal digits for the policy digest. Everything else is refused with one code.
\<close>

theorem safe_metadata_exact:
  "validate_safe_metadata v =
     (case v of
        JObj items \<Rightarrow> if list_all allowlisted items then Inr () else Inl (invalid ''unsafe_audit_metadata'')
      | _ \<Rightarrow> Inl (invalid ''unsafe_audit_metadata''))"
proof -
  have ok: "validate_safe_metadata v = Inr () \<longleftrightarrow> (\<exists>items. v = JObj items \<and> list_all allowlisted items)"
  proof (cases v)
    case (JObj items)
    have "(\<forall>(k, i) \<in> set items. safe_metadata_item k i = Inr ()) \<longleftrightarrow> list_all allowlisted items"
      if "set (map fst items) \<subseteq> set SAFE_METADATA_KEYS"
      using that safe_metadata_item_iff by (fastforce simp: list_all_iff)
    moreover have "set (map fst items) \<subseteq> set SAFE_METADATA_KEYS" if "list_all allowlisted items"
      using that allowlisted_key by (fastforce simp: list_all_iff)
    ultimately show ?thesis by (auto simp: JObj validate_safe_metadata_def foldE_unit)
  qed (auto simp: validate_safe_metadata_def)
  have item_err: "safe_metadata_item k i = Inl e \<Longrightarrow> e = invalid ''unsafe_audit_metadata''" for k i e
    by (auto simp: safe_metadata_item_def result_simps unsafe_metadata_def)
  have fold_err: "foldE (\<lambda>(k, v) _. safe_metadata_item k v) items u = Inl e \<Longrightarrow> e = invalid ''unsafe_audit_metadata''" for items u e
    by (induction items arbitrary: u) (auto simp: bindE_eq_Inl dest: item_err)
  have "validate_safe_metadata v = Inl e \<Longrightarrow> e = invalid ''unsafe_audit_metadata''" for e
    by (auto simp: validate_safe_metadata_def unsafe_metadata_def split: json.splits if_splits dest: fold_err)
  with ok show ?thesis
    by (cases "validate_safe_metadata v") (auto split: json.splits)
qed

end
