(* ===== verification/Announcement_Inputs.thy ===== *)
theory Announcement_Inputs
  imports Outbox Iso_Datetime Sha256
begin

text \<open>
  The inputs of announcement commands (\<open>src/src/maru/announcements/inputs.py\<close>, \<open>contracts.py\<close>,
  \<open>catalog.py\<close>, \<open>errors.py\<close>): limits, errors, normalization of identifiers, versions, text, links,
  channels, settings and drafts, and the canonical digest of an intent. NFC normalization and Django's
  URL syntax check are arguments. A value that a caller may give the wrong type is \<open>typed\<close>; a
  normalized value is not.
\<close>

section \<open>Catalogue\<close>

definition MAX_CHANNELS :: nat where "MAX_CHANNELS = 16"
definition MAX_VARIANTS :: nat where "MAX_VARIANTS = 32"
definition MAX_REVISIONS :: int where "MAX_REVISIONS = 256"
definition MAX_REPORTS :: nat where "MAX_REPORTS = 2048"
definition MAX_HISTORY :: int where "MAX_HISTORY = 4096"
definition MAX_HEADLINE :: nat where "MAX_HEADLINE = 200"
definition MAX_BODY :: nat where "MAX_BODY = 8000"
definition MAX_NOTE :: nat where "MAX_NOTE = 1000"
definition MAX_STORED_TEXT_BYTES :: int where "MAX_STORED_TEXT_BYTES = 8 * 1024 * 1024"

definition OPERATIONS :: "string list" where
  "OPERATIONS = [''settings_update'', ''stop'', ''resume'', ''create'', ''revise'', ''request_review'', ''approve'',
     ''changes_requested'', ''record_publication'', ''correct_publication'', ''withdraw_report'', ''cancel'']"

definition OPERATION_CAPABILITIES :: "(string \<times> string) list" where
  "OPERATION_CAPABILITIES =
     [(''settings_update'', ''announcements.manage_settings''), (''stop'', ''announcements.manage_settings''),
      (''resume'', ''announcements.manage_settings''), (''create'', ''announcements.compose''),
      (''revise'', ''announcements.compose''), (''request_review'', ''announcements.compose''),
      (''approve'', ''announcements.review''), (''changes_requested'', ''announcements.review''),
      (''record_publication'', ''announcements.record_publication''),
      (''correct_publication'', ''announcements.record_publication''),
      (''withdraw_report'', ''announcements.record_publication''), (''cancel'', ''announcements.compose'')]"

definition CAPABILITY_FIELDS :: "(string \<times> string list) list" where
  "CAPABILITY_FIELDS =
     [(''announcements.view'', [''announcement'']), (''announcements.compose'', [''announcement'']),
      (''announcements.review'', [''announcement'', ''review'']),
      (''announcements.record_publication'', [''publication'']),
      (''announcements.manage_settings'', [''settings'']), (''announcements.export_evidence'', [''evidence''])]"

definition EVENT_NAME :: string where "EVENT_NAME = ''announcements.changed.v1''"
definition RETENTION_CLASS :: string where "RETENTION_CLASS = ''announcement-evidence''"

section \<open>Errors\<close>

text \<open>The announcement errors, a database constraint that fails, and errors of other packages.\<close>

datatype announcement_error =
    AnnouncementError
  | AnnouncementDeniedError
  | AnnouncementVersionConflictError
  | AnnouncementIdempotencyConflictError
  | AnnouncementStateConflictError
  | AnnouncementSettingsRequiredError
  | AnnouncementLimitError
  | IntegrityError
  | Raised maru_error

fun error_reason_code :: "announcement_error \<Rightarrow> string" where
  "error_reason_code AnnouncementError = ''announcement_unavailable''"
| "error_reason_code AnnouncementDeniedError = ''announcement_denied''"
| "error_reason_code AnnouncementVersionConflictError = ''announcement_version_conflict''"
| "error_reason_code AnnouncementIdempotencyConflictError = ''announcement_retry_conflict''"
| "error_reason_code AnnouncementStateConflictError = ''announcement_state_conflict''"
| "error_reason_code AnnouncementSettingsRequiredError = ''announcement_settings_required''"
| "error_reason_code AnnouncementLimitError = ''announcement_limit_reached''"
| "error_reason_code (Raised (AuthorizationDenied c)) = c"
| "error_reason_code _ = ''announcement_command_failed''"

abbreviation ann_invalid :: "string \<Rightarrow> announcement_error" where
  "ann_invalid code \<equiv> Raised (invalid code)"

definition raising :: "maru_error + 'a \<Rightarrow> announcement_error + 'a" where
  "raising r = (case r of Inl e \<Rightarrow> Inl (Raised e) | Inr x \<Rightarrow> Inr x)"

section \<open>Scalars\<close>

definition uuid_identifier :: "uuid typed \<Rightarrow> announcement_error + uuid" where
  "uuid_identifier v = (case v of Untyped \<Rightarrow> Inl (ann_invalid ''invalid_identifier'')
     | Typed u \<Rightarrow> if u = 0 then Inl (ann_invalid ''invalid_identifier'') else Inr u)"

definition version :: "bool \<Rightarrow> py_number \<Rightarrow> announcement_error + int" where
  "version initial v = (case v of
       PyInt n \<Rightarrow> if (if initial then 0 else 1) \<le> n \<and> n < 2 ^ 63 - 1 then Inr n else Inl (ann_invalid ''invalid_version'')
     | _ \<Rightarrow> Inl (ann_invalid ''invalid_version''))"

fun crlf_to_lf :: "string \<Rightarrow> string" where
  "crlf_to_lf (c # d # s) = (if c = CHR 0x0D \<and> d = CHR 0x0A then CHR 0x0A # crlf_to_lf s else c # crlf_to_lf (d # s))"
| "crlf_to_lf s = s"

definition py_strip :: "string \<Rightarrow> string" where
  "py_strip s = rev (dropWhile is_space (rev (dropWhile is_space s)))"

text \<open>Category \<open>Cc\<close>; the surrogates of category \<open>Cs\<close> lie outside the modelled characters.\<close>

definition is_control :: "char \<Rightarrow> bool" where
  "is_control c = (let n = (of_char c :: nat) in n < 32 \<or> 127 \<le> n \<and> n \<le> 159)"

definition plain_text :: "(string \<Rightarrow> string) \<Rightarrow> nat \<Rightarrow> bool \<Rightarrow> string typed \<Rightarrow> announcement_error + string" where
  "plain_text nfc maximum required v =
     (case v of
        Untyped \<Rightarrow> Inl (ann_invalid ''invalid_text'')
      | Typed s \<Rightarrow>
          let normalized = py_strip (nfc (crlf_to_lf s)) in
          if required \<and> normalized = [] \<or> maximum < length normalized then Inl (ann_invalid ''invalid_text'')
          else if list_ex (\<lambda>c. is_control c \<and> c \<noteq> CHR 0x0A \<and> c \<noteq> CHR 0x09) normalized
          then Inl (ann_invalid ''invalid_text'')
          else Inr normalized)"

text \<open>\<open>urlsplit\<close>: the network location runs to the first slash, question mark or hash, the user
  information to its last at sign, the name to the first colon of that.\<close>

fun after_scheme :: "string \<Rightarrow> string" where
  "after_scheme (a # b # c # s) = (if [a, b, c] = ''://'' then s else after_scheme (b # c # s))"
| "after_scheme _ = []"

definition url_netloc :: "string \<Rightarrow> string" where
  "url_netloc u = takeWhile (\<lambda>c. c \<notin> set ''/?#'') (after_scheme u)"

definition url_userinfo :: "string \<Rightarrow> string" where
  "url_userinfo u = (let n = url_netloc u in rev (drop 1 (dropWhile (\<lambda>c. c \<noteq> CHR ''@'') (rev n))))"

definition url_has_login :: "string \<Rightarrow> bool" where
  "url_has_login u = (let i = url_userinfo u in
     takeWhile (\<lambda>c. c \<noteq> CHR '':'') i \<noteq> [] \<or> drop 1 (dropWhile (\<lambda>c. c \<noteq> CHR '':'') i) \<noteq> [])"

text \<open>\<open>URLValidator\<close> raises its own \<open>ValidationError\<close> with the code \<open>invalid\<close>.\<close>

definition safe_url :: "(string \<Rightarrow> string) \<Rightarrow> (string \<Rightarrow> bool) \<Rightarrow> string typed \<Rightarrow> announcement_error + string" where
  "safe_url nfc https_url v =
     bindE (plain_text nfc 2000 False v) (\<lambda>result.
       if result \<noteq> [] \<and> \<not> https_url result then Inl (ann_invalid ''invalid'')
       else if result \<noteq> [] \<and> url_has_login result then Inl (ann_invalid ''invalid_url'')
       else Inr result)"

definition channel_char :: "char \<Rightarrow> bool" where
  "channel_char c \<longleftrightarrow> CHR ''a'' \<le> c \<and> c \<le> CHR ''z'' \<or> CHR ''0'' \<le> c \<and> c \<le> CHR ''9'' \<or> c = CHR ''_'' \<or> c = CHR ''-''"

definition channel_code :: "string typed \<Rightarrow> announcement_error + string" where
  "channel_code v = (case v of
       Typed (c # s) \<Rightarrow> if CHR ''a'' \<le> c \<and> c \<le> CHR ''z'' \<and> length s \<le> 39 \<and> list_all channel_char s
                        then Inr (c # s) else Inl (ann_invalid ''invalid_channel'')
     | _ \<Rightarrow> Inl (ann_invalid ''invalid_channel''))"

section \<open>Settings and drafts\<close>

text \<open>The fields of a contract are raw before normalization and plain afterwards.\<close>

record 's ManualChannel =
  mc_code :: 's
  mc_label :: 's
  mc_url :: 's

record ('s, 'd, 'v) AnnouncementSettingsInput =
  si_policy_name :: 's
  si_record_owner :: 's
  si_review_on :: 'd
  si_confirmed :: bool
  si_channels :: 'v
  si_policy_url :: 's
  si_policy_description :: 's

type_synonym date = int
type_synonym channel = "string ManualChannel"
type_synonym settings = "(string, date, channel list) AnnouncementSettingsInput"
type_synonym raw_settings =
  "(string typed, date typed, string typed ManualChannel typed list typed) AnnouncementSettingsInput"

record 's AnnouncementVariantInput =
  vi_channel_code :: 's
  vi_language_code :: 's
  vi_headline :: 's
  vi_body :: 's

record ('s, 'v) AnnouncementDraftInput =
  di_headline :: 's
  di_body :: 's
  di_language_code :: 's
  di_variants :: 'v

type_synonym variant_input = "string AnnouncementVariantInput"
type_synonym draft = "(string, variant_input list) AnnouncementDraftInput"
type_synonym raw_draft = "(string typed, string typed AnnouncementVariantInput typed list typed) AnnouncementDraftInput"

definition normalize_channel ::
    "(string \<Rightarrow> string) \<Rightarrow> (string \<Rightarrow> bool) \<Rightarrow> string typed ManualChannel typed \<Rightarrow> announcement_error + channel" where
  "normalize_channel nfc https_url v =
     (case v of
        Untyped \<Rightarrow> Inl (ann_invalid ''invalid_channel'')
      | Typed item \<Rightarrow>
          bindE (channel_code (mc_code item)) (\<lambda>code.
          bindE (plain_text nfc 100 True (mc_label item)) (\<lambda>label.
          bindE (safe_url nfc https_url (mc_url item)) (\<lambda>url.
            Inr \<lparr>mc_code = code, mc_label = label, mc_url = url\<rparr>))))"

definition normalize_settings ::
    "(string \<Rightarrow> string) \<Rightarrow> (string \<Rightarrow> bool) \<Rightarrow> raw_settings typed \<Rightarrow> announcement_error + settings" where
  "normalize_settings nfc https_url v =
     (case v of
        Untyped \<Rightarrow> Inl (ann_invalid ''rules_unconfirmed'')
      | Typed raw \<Rightarrow>
          if \<not> si_confirmed raw then Inl (ann_invalid ''rules_unconfirmed'')
          else case si_review_on raw of
            Untyped \<Rightarrow> Inl (ann_invalid ''invalid_review_date'')
          | Typed review_on \<Rightarrow>
              (case si_channels raw of
                 Untyped \<Rightarrow> Inl (ann_invalid ''invalid_channels'')
               | Typed items \<Rightarrow>
                   if \<not> (1 \<le> length items \<and> length items \<le> MAX_CHANNELS) then Inl (ann_invalid ''invalid_channels'')
                   else bindE (mapE (normalize_channel nfc https_url) items) (\<lambda>channels.
                     if \<not> distinct (map mc_code channels) then Inl (ann_invalid ''duplicate_channel'')
                     else
                       bindE (safe_url nfc https_url (si_policy_url raw)) (\<lambda>url.
                       bindE (plain_text nfc 2000 False (si_policy_description raw)) (\<lambda>description.
                       if url = [] \<and> description = [] then Inl (ann_invalid ''rules_missing'')
                       else
                         bindE (plain_text nfc 200 True (si_policy_name raw)) (\<lambda>policy_name.
                         bindE (plain_text nfc 200 True (si_record_owner raw)) (\<lambda>record_owner.
                           Inr \<lparr>si_policy_name = policy_name, si_record_owner = record_owner, si_review_on = review_on,
                                si_confirmed = True, si_channels = sort_key mc_code channels, si_policy_url = url,
                                si_policy_description = description\<rparr>)))))))"

definition normalize_variant ::
    "(string \<Rightarrow> string) \<Rightarrow> string typed AnnouncementVariantInput typed \<Rightarrow> announcement_error + variant_input" where
  "normalize_variant nfc v =
     (case v of
        Untyped \<Rightarrow> Inl (ann_invalid ''invalid_variant'')
      | Typed item \<Rightarrow>
          bindE (channel_code (vi_channel_code item)) (\<lambda>code.
          bindE (plain_text nfc 35 True (vi_language_code item)) (\<lambda>language.
          bindE (plain_text nfc MAX_HEADLINE True (vi_headline item)) (\<lambda>headline.
          bindE (plain_text nfc MAX_BODY True (vi_body item)) (\<lambda>body.
            Inr \<lparr>vi_channel_code = code, vi_language_code = language, vi_headline = headline, vi_body = body\<rparr>)))))"

definition variant_key :: "variant_input \<Rightarrow> string \<times> string" where
  "variant_key v = (vi_channel_code v, vi_language_code v)"

definition normalize_draft :: "(string \<Rightarrow> string) \<Rightarrow> raw_draft typed \<Rightarrow> announcement_error + draft" where
  "normalize_draft nfc v =
     (case v of
        Untyped \<Rightarrow> Inl (ann_invalid ''invalid_draft'')
      | Typed raw \<Rightarrow>
          (case di_variants raw of
             Untyped \<Rightarrow> Inl (ann_invalid ''invalid_variants'')
           | Typed items \<Rightarrow>
               if \<not> (1 \<le> length items \<and> length items \<le> MAX_VARIANTS) then Inl (ann_invalid ''invalid_variants'')
               else bindE (mapE (normalize_variant nfc) items) (\<lambda>variants.
                 if \<not> distinct (map variant_key variants) then Inl (ann_invalid ''duplicate_variant'')
                 else
                   bindE (plain_text nfc MAX_HEADLINE True (di_headline raw)) (\<lambda>headline.
                   bindE (plain_text nfc MAX_BODY True (di_body raw)) (\<lambda>body.
                   bindE (plain_text nfc 35 True (di_language_code raw)) (\<lambda>language.
                     Inr \<lparr>di_headline = headline, di_body = body, di_language_code = language,
                          di_variants = sort_key variant_key variants\<rparr>))))))"

section \<open>Intents and their digest\<close>

definition canonical_json :: "json \<Rightarrow> string" where
  "canonical_json v = json_dumps v"

definition intent_digest :: "json \<Rightarrow> string" where
  "intent_digest v = sha256_hex (canonical_json v)"

definition draft_payload :: "draft \<Rightarrow> json" where
  "draft_payload d = JObj
     [(''headline'', JStr (di_headline d)), (''body'', JStr (di_body d)), (''language_code'', JStr (di_language_code d)),
      (''variants'', JList (map (\<lambda>v. JObj
         [(''channel_code'', JStr (vi_channel_code v)), (''language_code'', JStr (vi_language_code v)),
          (''headline'', JStr (vi_headline v)), (''body'', JStr (vi_body v))]) (di_variants d)))]"

text \<open>Dates are day numbers from 0001-01-01; \<open>default=str\<close> prints dates, datetimes and UUIDs.\<close>

definition str_date :: "date \<Rightarrow> string" where
  "str_date d = iso_date (ord2ymd d)"

definition settings_payload :: "settings \<Rightarrow> json" where
  "settings_payload s = JObj
     [(''policy_name'', JStr (si_policy_name s)), (''record_owner'', JStr (si_record_owner s)),
      (''review_on'', JStr (str_date (si_review_on s))), (''confirmed'', JBool (si_confirmed s)),
      (''channels'', JList (map (\<lambda>c. JObj [(''code'', JStr (mc_code c)), (''label'', JStr (mc_label c)),
         (''url'', JStr (mc_url c))]) (si_channels s))),
      (''policy_url'', JStr (si_policy_url s)), (''policy_description'', JStr (si_policy_description s))]"

text \<open>An aware datetime is its instant and its offset from UTC, both in microseconds.\<close>

datatype py_datetime = Aware instant duration | Naive instant | NotDatetime

definition offset_text :: "duration \<Rightarrow> string" where
  "offset_text off =
     (let a = abs off; us = a mod second_us; s = a div second_us in
      (if off < 0 then ''-'' else ''+'') @ dec_digits 2 (s div 3600) @ '':'' @ dec_digits 2 (s div 60 mod 60)
      @ (if s mod 60 = 0 \<and> us = 0 then [] else '':'' @ dec_digits 2 (s mod 60))
      @ (if us = 0 then [] else ''.'' @ dec_digits 6 us))"

definition str_datetime :: "instant \<Rightarrow> duration \<Rightarrow> string" where
  "str_datetime t off =
     (let l = t + off in iso_date (ord2ymd (l div day_us)) @ '' '' @ iso_time (l mod day_us div second_us)
        @ iso_fraction (l mod second_us) @ offset_text off)"

definition publication_time :: "instant \<Rightarrow> py_datetime option \<Rightarrow> announcement_error + (instant \<times> duration) option" where
  "publication_time now v =
     (case v of
        None \<Rightarrow> Inr None
      | Some (Aware t off) \<Rightarrow> if now < t then Inl (ann_invalid ''invalid_publication_time'') else Inr (Some (t, off))
      | Some _ \<Rightarrow> Inl (ann_invalid ''invalid_publication_time''))"

definition json_time :: "(instant \<times> duration) option \<Rightarrow> json" where
  "json_time v = (case v of None \<Rightarrow> JNull | Some (t, off) \<Rightarrow> JStr (str_datetime t off))"

end
