(* ===== verification/Announcement_Scope.thy ===== *)
theory Announcement_Scope
  imports Announcement_Inputs Effect_Operations
begin

text \<open>
  The scope of an announcement command and the right to act in it:
  \<open>src/src/maru/events/announcements_scope.py\<close> with the lookups it makes
  (\<open>events/queries.py\<close>, \<open>organizations/write_references.py\<close>, \<open>identity/queries.py\<close>) and
  \<open>src/src/maru/announcements/authorization.py\<close>. The policy engine is an argument. A command reads
  the scope and asks the engine several times; the arguments are indexed by the reading, so that the
  answers may differ from one reading to the next.
\<close>

section \<open>Editions\<close>

text \<open>One row of the editions with its organization and series joined, as the queries read it.\<close>

record edition_row =
  er_id :: uuid
  er_organization_id :: uuid
  er_series_id :: uuid
  er_series_organization_id :: uuid
  er_adoption_profile_code :: string
  er_adoption_profile_version :: int
  er_aggregate_version :: int
  er_lifecycle :: string
  er_language_codes :: "string list"
  er_time_zone :: string
  er_organization_lifecycle :: string
  er_series_is_active :: bool

record scope_db =
  sd_organizations :: "uuid list"
  sd_series :: "(uuid \<times> uuid) list"
  sd_editions :: "edition_row list"

record AnnouncementsEditionScope =
  es_organization_id :: uuid
  es_series_id :: uuid
  es_edition_id :: uuid
  es_adoption_profile_code :: string
  es_adoption_profile_version :: int
  es_edition_version :: int
  es_lifecycle :: string
  es_language_codes :: "string list"
  es_time_zone :: string
  es_accepts_writes :: bool

definition resolve_edition_series_identity :: "scope_db \<Rightarrow> uuid \<Rightarrow> uuid \<Rightarrow> uuid option" where
  "resolve_edition_series_identity sd organization edition =
     map_option er_series_id (find (\<lambda>e. er_id e = edition \<and> er_organization_id e = organization
       \<and> er_series_organization_id e = organization) (sd_editions sd))"

definition lock_organization_ownership :: "scope_db \<Rightarrow> bool \<Rightarrow> uuid \<Rightarrow> bool" where
  "lock_organization_ownership sd in_atomic_block organization \<longleftrightarrow>
     in_atomic_block \<and> List.member (sd_organizations sd) organization"

definition lock_series_ownership :: "scope_db \<Rightarrow> bool \<Rightarrow> uuid \<Rightarrow> uuid \<Rightarrow> bool" where
  "lock_series_ownership sd in_atomic_block organization series \<longleftrightarrow>
     lock_organization_ownership sd in_atomic_block organization
     \<and> List.member (sd_series sd) (series, organization)"

definition accepts_writes :: "edition_row \<Rightarrow> bool" where
  "accepts_writes e \<longleftrightarrow> er_organization_lifecycle e = ''active'' \<and> er_series_is_active e
     \<and> er_lifecycle e \<in> {''draft'', ''preparing'', ''ready'', ''live''}"

definition adopted_edition :: "uuid \<Rightarrow> uuid \<Rightarrow> uuid \<Rightarrow> edition_row \<Rightarrow> bool" where
  "adopted_edition organization series edition e \<longleftrightarrow>
     (er_adoption_profile_code e = ''announcements_only'' \<and> er_adoption_profile_version e = 1
      \<or> er_adoption_profile_code e = ''announcements_guidance'' \<and> er_adoption_profile_version e = 1)
     \<and> er_id e = edition \<and> er_organization_id e = organization \<and> er_series_id e = series
     \<and> er_series_organization_id e = organization"

definition resolve_announcements_edition_scope ::
    "scope_db \<Rightarrow> bool \<Rightarrow> bool \<Rightarrow> uuid \<Rightarrow> uuid \<Rightarrow> AnnouncementsEditionScope option" where
  "resolve_announcements_edition_scope sd in_atomic_block for_update organization edition =
     (if organization = 0 \<or> edition = 0 then None
      else if for_update \<and> \<not> in_atomic_block then None
      else case resolve_edition_series_identity sd organization edition of
        None \<Rightarrow> None
      | Some series \<Rightarrow>
          if for_update \<and> \<not> lock_series_ownership sd in_atomic_block organization series then None
          else map_option (\<lambda>e. \<lparr>es_organization_id = organization, es_series_id = series, es_edition_id = edition,
                 es_adoption_profile_code = er_adoption_profile_code e,
                 es_adoption_profile_version = er_adoption_profile_version e,
                 es_edition_version = er_aggregate_version e, es_lifecycle = er_lifecycle e,
                 es_language_codes = er_language_codes e, es_time_zone = er_time_zone e,
                 es_accepts_writes = accepts_writes e\<rparr>)
                 (find (adopted_edition organization series edition) (sd_editions sd)))"

definition MAX_PERSON_REFERENCE_BATCH :: nat where "MAX_PERSON_REFERENCE_BATCH = 2000"

definition lock_account_references_for_evidence :: "uuid list \<Rightarrow> uuid list \<Rightarrow> uuid list option" where
  "lock_account_references_for_evidence accounts account_ids =
     (let identifiers = sort (remdups account_ids);
          locked = filter (List.member accounts) identifiers
      in if MAX_PERSON_REFERENCE_BATCH < length account_ids then None else if locked = identifiers then Some locked else None)"

section \<open>Authorization\<close>

record AnnouncementCommandRequest =
  rq_actor_id :: uuid
  rq_organization_id :: uuid
  rq_edition_id :: uuid
  rq_correlation_id :: uuid
  rq_idempotency_key :: uuid
  rq_source_channel :: string

record AuthorizedAnnouncementScope =
  as_edition :: AnnouncementsEditionScope
  as_decision :: PolicyDecision

type_synonym policy = "uuid \<Rightarrow> uuid \<Rightarrow> uuid \<Rightarrow> string \<Rightarrow> string list \<Rightarrow> PolicyDecision"

definition authorize_announcements_scope ::
    "policy \<Rightarrow> scope_db \<Rightarrow> AnnouncementCommandRequest \<Rightarrow> string \<Rightarrow> string list
     \<Rightarrow> announcement_error + AuthorizedAnnouncementScope" where
  "authorize_announcements_scope policy sd rq capability requested =
     bindE (uuid_identifier (Typed (rq_actor_id rq))) (\<lambda>_.
     bindE (uuid_identifier (Typed (rq_organization_id rq))) (\<lambda>_.
     bindE (uuid_identifier (Typed (rq_edition_id rq))) (\<lambda>_.
     bindE (uuid_identifier (Typed (rq_correlation_id rq))) (\<lambda>_.
     case map_of CAPABILITY_FIELDS capability of
       None \<Rightarrow> Inl AnnouncementDeniedError
     | Some capability_fields \<Rightarrow>
         let required = if requested = [] then capability_fields else requested;
             decision = policy (rq_actor_id rq) (rq_organization_id rq) (rq_edition_id rq) capability required
         in if \<not> pd_allowed decision \<or> \<not> set required \<subseteq> set (pd_fields decision) then Inl AnnouncementDeniedError
            else case resolve_announcements_edition_scope sd False False (rq_organization_id rq) (rq_edition_id rq) of
              None \<Rightarrow> Inl AnnouncementDeniedError
            | Some edition \<Rightarrow> Inr \<lparr>as_edition = edition, as_decision = decision\<rparr>))))"

definition can_use :: "policy \<Rightarrow> scope_db \<Rightarrow> AnnouncementCommandRequest \<Rightarrow> string \<Rightarrow> announcement_error + bool" where
  "can_use policy sd rq capability =
     (case authorize_announcements_scope policy sd rq capability [] of
        Inl AnnouncementDeniedError \<Rightarrow> Inr False
      | Inl e \<Rightarrow> Inl e
      | Inr _ \<Rightarrow> Inr True)"

section \<open>Lemmas\<close>

lemma uuid_identifier_Typed [result_simps]: "uuid_identifier (Typed u) = Inr v \<longleftrightarrow> u \<noteq> 0 \<and> v = u"
  by (auto simp: uuid_identifier_def)

lemma resolved_scope:
  assumes "resolve_announcements_edition_scope sd in_atomic for_update organization edition = Some s"
  shows "es_organization_id s = organization" "es_edition_id s = edition"
    "\<exists>e \<in> set (sd_editions sd). er_id e = edition \<and> er_organization_id e = organization
       \<and> er_adoption_profile_code e \<in> {''announcements_only'', ''announcements_guidance''}
       \<and> es_accepts_writes s = accepts_writes e"
proof -
  from assms obtain e where e: "find (adopted_edition organization (es_series_id s) edition) (sd_editions sd) = Some e"
      "es_organization_id s = organization" "es_edition_id s = edition" "es_accepts_writes s = accepts_writes e"
    by (auto simp: resolve_announcements_edition_scope_def split: if_splits option.splits)
  then show "es_organization_id s = organization" "es_edition_id s = edition" by simp_all
  show "\<exists>e \<in> set (sd_editions sd). er_id e = edition \<and> er_organization_id e = organization
       \<and> er_adoption_profile_code e \<in> {''announcements_only'', ''announcements_guidance''}
       \<and> es_accepts_writes s = accepts_writes e"
    using e(1,4) by (intro bexI [of _ e]) (auto simp: find_Some_iff adopted_edition_def)
qed

lemma authorized_scope:
  assumes "authorize_announcements_scope policy sd rq capability requested = Inr scope"
  shows "rq_actor_id rq \<noteq> 0" "rq_organization_id rq \<noteq> 0" "rq_edition_id rq \<noteq> 0" "rq_correlation_id rq \<noteq> 0"
    "pd_allowed (as_decision scope)"
    "\<exists>fs. map_of CAPABILITY_FIELDS capability = Some fs
       \<and> as_decision scope = policy (rq_actor_id rq) (rq_organization_id rq) (rq_edition_id rq) capability
           (if requested = [] then fs else requested)
       \<and> set (if requested = [] then fs else requested) \<subseteq> set (pd_fields (as_decision scope))"
    "resolve_announcements_edition_scope sd False False (rq_organization_id rq) (rq_edition_id rq) = Some (as_edition scope)"
  using assms by (auto simp: authorize_announcements_scope_def result_simps Let_def
      split: option.splits if_splits)

end
