(* ===== verification/Announcement_Store.thy ===== *)
theory Announcement_Store
  imports Announcement_Scope
begin

text \<open>
  The tables of announcements (\<open>src/src/maru/announcements/models.py\<close>). A row of the model classes is
  a record; \<open>save\<close> validates the plain columns and then the database checks the primary key, the
  unique constraints and the check constraints. Evidence rows and receipts are only ever inserted;
  the control of an edition and an announcement are also updated. The columns \<open>created_at\<close> and
  \<open>updated_at\<close> are never read by the package and are left out. A foreign key is the identifier it
  stores; \<open>PROTECT\<close> and the absence of deletion keep its target.
\<close>

section \<open>Rows\<close>

text \<open>The columns of \<open>_Evidence\<close>, as \<open>CommandContext.evidence\<close> fills them.\<close>

record command_evidence =
  ce_organization_id :: uuid
  ce_edition_id :: uuid
  ce_actor_id :: uuid
  ce_occurred_at :: instant
  ce_command_receipt :: uuid

record AnnouncementControl =
  ct_id :: uuid
  ct_organization_id :: uuid
  ct_edition_id :: uuid
  ct_sequence :: int
  ct_settings_version :: int
  ct_current_settings :: "uuid option"
  ct_stopped :: bool

record AnnouncementSettingsRevision =
  sr_id :: uuid
  sr_evidence :: command_evidence
  sr_number :: int
  sr_policy_name :: string
  sr_policy_description :: string
  sr_policy_url :: string
  sr_record_owner :: string
  sr_review_on :: date
  sr_channels :: "channel list"

datatype AnnouncementStatus = ANN_DRAFT | ANN_IN_REVIEW | ANN_CHANGES_REQUESTED | ANN_APPROVED | ANN_CANCELLED

record Announcement =
  an_id :: uuid
  an_organization_id :: uuid
  an_edition_id :: uuid
  an_version :: int
  an_status :: AnnouncementStatus
  an_current_revision :: "uuid option"
  an_approved_revision :: "uuid option"

record AnnouncementRevision =
  rv_id :: uuid
  rv_evidence :: command_evidence
  rv_announcement :: uuid
  rv_number :: int
  rv_previous_revision :: "uuid option"
  rv_base_approved_revision :: "uuid option"
  rv_round_id :: uuid
  rv_settings_revision :: uuid
  rv_headline :: string
  rv_body :: string
  rv_language_code :: string
  rv_text_bytes :: int

record AnnouncementVariant =
  va_id :: uuid
  va_evidence :: command_evidence
  va_revision :: uuid
  va_channel_code :: string
  va_channel_label :: string
  va_channel_url :: string
  va_language_code :: string
  va_headline :: string
  va_body :: string
  va_copy_digest :: string

record AnnouncementReview =
  rw_id :: uuid
  rw_evidence :: command_evidence
  rw_revision :: uuid
  rw_decision :: string
  rw_note :: string

record AnnouncementPublicationReport =
  pr_id :: uuid
  pr_evidence :: command_evidence
  pr_variant :: uuid
  pr_supersedes_report :: "uuid option"
  pr_withdrawn :: bool
  pr_publication_url :: string
  pr_published_at :: "instant option"
  pr_reason :: string

record AnnouncementCommandReceipt =
  cr_id :: uuid
  cr_organization_id :: uuid
  cr_edition_id :: uuid
  cr_actor_id :: uuid
  cr_operation :: string
  cr_idempotency_key :: uuid
  cr_request_digest :: string
  cr_control_sequence :: int
  cr_announcement :: "uuid option"
  cr_object_id :: uuid
  cr_resulting_version :: int
  cr_occurred_at :: instant
  cr_reason :: string
  cr_correlation_id :: uuid
  cr_source_channel :: string

record announcement_db =
  an_controls :: "AnnouncementControl list"
  an_settings :: "AnnouncementSettingsRevision list"
  an_items :: "Announcement list"
  an_revisions :: "AnnouncementRevision list"
  an_variants :: "AnnouncementVariant list"
  an_reviews :: "AnnouncementReview list"
  an_reports :: "AnnouncementPublicationReport list"
  an_receipts :: "AnnouncementCommandReceipt list"

definition empty_announcements :: announcement_db where
  "empty_announcements = \<lparr>an_controls = [], an_settings = [], an_items = [], an_revisions = [], an_variants = [],
     an_reviews = [], an_reports = [], an_receipts = []\<rparr>"

section \<open>Writing a row\<close>

text \<open>\<open>_Owned.save\<close>: field validation, then the constraints of the table.\<close>

definition saving :: "bool \<Rightarrow> bool \<Rightarrow> 'a \<Rightarrow> announcement_error + 'a" where
  "saving clean constraints result =
     (if \<not> clean then Inl (Raised (ValidationError None)) else if \<not> constraints then Inl IntegrityError else Inr result)"

definition control_create :: "AnnouncementControl \<Rightarrow> announcement_db \<Rightarrow> announcement_error + announcement_db" where
  "control_create c db = saving True
     (\<not> list_ex (\<lambda>x. ct_id x = ct_id c \<or> ct_edition_id x = ct_edition_id c) (an_controls db))
     (db\<lparr>an_controls := an_controls db @ [c]\<rparr>)"

definition control_save :: "AnnouncementControl \<Rightarrow> announcement_db \<Rightarrow> announcement_error + announcement_db" where
  "control_save c db = saving
     (positive_big_integer (ct_sequence c) \<and> positive_big_integer (ct_settings_version c))
     (\<not> list_ex (\<lambda>x. ct_id x \<noteq> ct_id c \<and> ct_edition_id x = ct_edition_id c) (an_controls db))
     (db\<lparr>an_controls := map (\<lambda>x. if ct_id x = ct_id c then c else x) (an_controls db)\<rparr>)"

definition settings_create :: "AnnouncementSettingsRevision \<Rightarrow> announcement_db \<Rightarrow> announcement_error + announcement_db" where
  "settings_create s db = saving
     (positive_big_integer (sr_number s) \<and> char_field 200 (sr_policy_name s) \<and> length (sr_policy_url s) \<le> 2000
      \<and> char_field 200 (sr_record_owner s) \<and> sr_channels s \<noteq> [])
     (\<not> list_ex (\<lambda>x. sr_id x = sr_id s \<or> ce_edition_id (sr_evidence x) = ce_edition_id (sr_evidence s)
         \<and> sr_number x = sr_number s) (an_settings db)
      \<and> 0 < sr_number s \<and> (sr_policy_url s \<noteq> [] \<or> sr_policy_description s \<noteq> []))
     (db\<lparr>an_settings := an_settings db @ [s]\<rparr>)"

definition announcement_create :: "Announcement \<Rightarrow> announcement_db \<Rightarrow> announcement_error + announcement_db" where
  "announcement_create a db = saving (positive_big_integer (an_version a))
     (\<not> list_ex (\<lambda>x. an_id x = an_id a) (an_items db) \<and> 0 < an_version a)
     (db\<lparr>an_items := an_items db @ [a]\<rparr>)"

definition announcement_save :: "Announcement \<Rightarrow> announcement_db \<Rightarrow> announcement_error + announcement_db" where
  "announcement_save a db = saving (positive_big_integer (an_version a)) (0 < an_version a)
     (db\<lparr>an_items := map (\<lambda>x. if an_id x = an_id a then a else x) (an_items db)\<rparr>)"

definition revision_create :: "AnnouncementRevision \<Rightarrow> announcement_db \<Rightarrow> announcement_error + announcement_db" where
  "revision_create r db = saving
     (positive_big_integer (rv_number r) \<and> char_field MAX_HEADLINE (rv_headline r) \<and> rv_body r \<noteq> []
      \<and> char_field 35 (rv_language_code r) \<and> positive_integer (rv_text_bytes r))
     (\<not> list_ex (\<lambda>x. rv_id x = rv_id r
         \<or> rv_announcement x = rv_announcement r \<and> rv_number x = rv_number r
         \<or> rv_previous_revision r \<noteq> None \<and> rv_previous_revision x = rv_previous_revision r) (an_revisions db)
      \<and> 0 < rv_number r \<and> 0 < rv_text_bytes r)
     (db\<lparr>an_revisions := an_revisions db @ [r]\<rparr>)"

definition variant_create :: "AnnouncementVariant \<Rightarrow> announcement_db \<Rightarrow> announcement_error + announcement_db" where
  "variant_create v db = saving
     (char_field 40 (va_channel_code v) \<and> char_field 100 (va_channel_label v) \<and> length (va_channel_url v) \<le> 2000
      \<and> char_field 35 (va_language_code v) \<and> char_field MAX_HEADLINE (va_headline v) \<and> va_body v \<noteq> []
      \<and> char_field 64 (va_copy_digest v))
     (\<not> list_ex (\<lambda>x. va_id x = va_id v
         \<or> va_revision x = va_revision v \<and> va_channel_code x = va_channel_code v
           \<and> va_language_code x = va_language_code v) (an_variants db)
      \<and> hex64 (va_copy_digest v))
     (db\<lparr>an_variants := an_variants db @ [v]\<rparr>)"

definition review_create :: "AnnouncementReview \<Rightarrow> announcement_db \<Rightarrow> announcement_error + announcement_db" where
  "review_create r db = saving
     (rw_decision r \<in> {''approve'', ''changes_requested''} \<and> length (rw_note r) \<le> MAX_NOTE)
     (\<not> list_ex (\<lambda>x. rw_id x = rw_id r \<or> rw_revision x = rw_revision r) (an_reviews db)
      \<and> (rw_decision r = ''approve'' \<or> rw_decision r = ''changes_requested'' \<and> rw_note r \<noteq> []))
     (db\<lparr>an_reviews := an_reviews db @ [r]\<rparr>)"

definition report_create :: "AnnouncementPublicationReport \<Rightarrow> announcement_db \<Rightarrow> announcement_error + announcement_db" where
  "report_create r db = saving
     (length (pr_publication_url r) \<le> 2000 \<and> length (pr_reason r) \<le> MAX_NOTE)
     (\<not> list_ex (\<lambda>x. pr_id x = pr_id r
         \<or> pr_supersedes_report r = None \<and> pr_supersedes_report x = None \<and> pr_variant x = pr_variant r
         \<or> pr_supersedes_report r \<noteq> None \<and> pr_supersedes_report x = pr_supersedes_report r) (an_reports db)
      \<and> (if pr_supersedes_report r = None then \<not> pr_withdrawn r else pr_reason r \<noteq> []))
     (db\<lparr>an_reports := an_reports db @ [r]\<rparr>)"

definition command_receipt_create :: "AnnouncementCommandReceipt \<Rightarrow> announcement_db \<Rightarrow> announcement_error + announcement_db" where
  "command_receipt_create r db = saving
     (length (cr_operation r) \<le> 24 \<and> List.member OPERATIONS (cr_operation r) \<and> char_field 64 (cr_request_digest r)
      \<and> positive_big_integer (cr_control_sequence r) \<and> positive_big_integer (cr_resulting_version r)
      \<and> length (cr_reason r) \<le> MAX_NOTE \<and> char_field 80 (cr_source_channel r))
     (\<not> list_ex (\<lambda>x. cr_id x = cr_id r
         \<or> cr_edition_id x = cr_edition_id r \<and> cr_actor_id x = cr_actor_id r
           \<and> cr_idempotency_key x = cr_idempotency_key r
         \<or> cr_edition_id x = cr_edition_id r \<and> cr_control_sequence x = cr_control_sequence r
         \<or> cr_announcement r \<noteq> None \<and> cr_announcement x = cr_announcement r
           \<and> cr_resulting_version x = cr_resulting_version r) (an_receipts db)
      \<and> 0 < cr_control_sequence r \<and> 0 < cr_resulting_version r \<and> hex64 (cr_request_digest r))
     (db\<lparr>an_receipts := an_receipts db @ [r]\<rparr>)"

section \<open>Looking up rows\<close>

definition find_settings :: "announcement_db \<Rightarrow> uuid \<Rightarrow> AnnouncementSettingsRevision option" where
  "find_settings db i = find (\<lambda>s. sr_id s = i) (an_settings db)"

definition find_item :: "announcement_db \<Rightarrow> uuid \<Rightarrow> Announcement option" where
  "find_item db i = find (\<lambda>a. an_id a = i) (an_items db)"

definition find_revision :: "announcement_db \<Rightarrow> uuid \<Rightarrow> AnnouncementRevision option" where
  "find_revision db i = find (\<lambda>r. rv_id r = i) (an_revisions db)"

definition find_variant :: "announcement_db \<Rightarrow> uuid \<Rightarrow> AnnouncementVariant option" where
  "find_variant db i = find (\<lambda>v. va_id v = i) (an_variants db)"

text \<open>Reading a nullable foreign key.\<close>

definition dereference :: "('i \<Rightarrow> 'r option) \<Rightarrow> 'i option \<Rightarrow> announcement_error + 'r option" where
  "dereference lookup key = (case key of None \<Rightarrow> Inr None
     | Some i \<Rightarrow> (case lookup i of None \<Rightarrow> Inl (Raised DoesNotExist) | Some r \<Rightarrow> Inr (Some r)))"

text \<open>The joins of the queries: the announcement of a variant, and whether its copy was approved.\<close>

definition variant_of_item :: "announcement_db \<Rightarrow> uuid \<Rightarrow> uuid \<Rightarrow> bool" where
  "variant_of_item db variant item \<longleftrightarrow>
     list_ex (\<lambda>v. va_id v = variant \<and> list_ex (\<lambda>r. rv_id r = va_revision v \<and> rv_announcement r = item) (an_revisions db))
       (an_variants db)"

definition approved_in :: "announcement_db \<Rightarrow> uuid \<Rightarrow> bool" where
  "approved_in db revision \<longleftrightarrow> list_ex (\<lambda>w. rw_revision w = revision \<and> rw_decision w = ''approve'') (an_reviews db)"

definition reports_of :: "announcement_db \<Rightarrow> uuid \<Rightarrow> AnnouncementPublicationReport list" where
  "reports_of db item = filter (\<lambda>p. variant_of_item db (pr_variant p) item) (an_reports db)"

section \<open>Lemmas\<close>

lemma saving_eq_Inr [result_simps]: "saving clean constraints result = Inr r \<longleftrightarrow> clean \<and> constraints \<and> r = result"
  by (auto simp: saving_def)

lemmas store_defs = control_create_def control_save_def settings_create_def announcement_create_def
  announcement_save_def revision_create_def variant_create_def review_create_def report_create_def
  command_receipt_create_def

lemma dereference_eq_Inr [result_simps]:
  "dereference lookup key = Inr v \<longleftrightarrow> (case key of None \<Rightarrow> v = None | Some i \<Rightarrow> \<exists>r. lookup i = Some r \<and> v = Some r)"
  by (auto simp: dereference_def split: option.splits)

end
