(* ===== verification/Announcements.thy ===== *)
theory Announcements
  imports Announcement_Store
begin

text \<open>
  The announcement commands: \<open>src/src/maru/announcements/commands.py\<close> and the transaction around
  them, \<open>command_support.py\<close>. A command checks its inputs, then \<open>execute\<close> authorizes, locks, finds an
  earlier receipt or runs the command's \<open>write\<close>, and commits the written rows together with a
  receipt, an audit event and a domain event. Every exception rolls the transaction back.

  The locks on the edition and the account serialize the commands of an edition, so a command is one
  function on the three stores. What it reads from other packages is \<open>announcement_env\<close>; the
  identifiers and clock readings it draws are \<open>draw\<close>. \<open>nv_evidence_bytes\<close> stands for the size in bytes
  that PostgreSQL reports for the printed records of an announcement, \<open>nv_local_date\<close> for the time
  zone database.
\<close>

section \<open>Surroundings\<close>

record announcement_world =
  wd_announcements :: announcement_db
  wd_effects :: effect_db
  wd_audit :: audit_db

record announcement_env =
  nv_policy :: "nat \<Rightarrow> policy"
  nv_scope :: "nat \<Rightarrow> scope_db"
  nv_accounts :: "uuid list"
  nv_integrity_ready :: bool
  nv_local_date :: "string \<Rightarrow> instant \<Rightarrow> date"
  nv_evidence_bytes :: "announcement_db \<Rightarrow> uuid \<Rightarrow> int"
  nv_routes :: route_env
  nv_nfc :: "string \<Rightarrow> string"
  nv_https_url :: "string \<Rightarrow> bool"

record draw =
  dw_receipt :: uuid
  dw_control :: uuid
  dw_object :: uuid
  dw_revision :: uuid
  dw_round :: uuid
  dw_variant :: "nat \<Rightarrow> uuid"
  dw_audit :: uuid
  dw_publish :: publish_context
  dw_now :: instant
  dw_clock :: instant
  dw_refused :: uuid
  dw_refused_now :: instant

record command_context =
  cx_request :: AnnouncementCommandRequest
  cx_scope :: AuthorizedAnnouncementScope
  cx_control :: AnnouncementControl
  cx_receipt_id :: uuid
  cx_occurred_at :: instant

definition evidence_of :: "command_context \<Rightarrow> command_evidence" where
  "evidence_of cx = \<lparr>ce_organization_id = rq_organization_id (cx_request cx), ce_edition_id = rq_edition_id (cx_request cx),
     ce_actor_id = rq_actor_id (cx_request cx), ce_occurred_at = cx_occurred_at cx,
     ce_command_receipt = cx_receipt_id cx\<rparr>"

record AnnouncementCommandResult =
  res_receipt_id :: uuid
  res_object_id :: uuid
  res_version :: int
  res_announcement_id :: "uuid option"
  res_replayed :: bool

definition result_of :: "bool \<Rightarrow> AnnouncementCommandReceipt \<Rightarrow> AnnouncementCommandResult" where
  "result_of replay r = \<lparr>res_receipt_id = cr_id r, res_object_id = cr_object_id r, res_version = cr_resulting_version r,
     res_announcement_id = cr_announcement r, res_replayed = replay\<rparr>"

text \<open>
  What a \<open>write\<close> leaves: the rows, the control it changed in memory, the object, the announcement and
  the version it reports.
\<close>

type_synonym written = "announcement_db \<times> AnnouncementControl \<times> uuid \<times> uuid option \<times> int"
type_synonym writer = "command_context \<Rightarrow> announcement_db \<Rightarrow> announcement_error + written"
type_synonym plan = "string \<times> json \<times> string \<times> writer"
type_synonym command_result = "announcement_world \<times> (announcement_error + AnnouncementCommandResult)"

section \<open>The transaction\<close>

definition operation_capability :: "string \<Rightarrow> string" where
  "operation_capability operation = the (map_of OPERATION_CAPABILITIES operation)"

definition audit_record ::
    "AnnouncementCommandRequest \<Rightarrow> string \<Rightarrow> string \<Rightarrow> string \<Rightarrow> uuid option \<Rightarrow> AuditRecord" where
  "audit_record rq operation outcome reason_code target = \<lparr>
     ar_principal_kind = ''account'', ar_principal_id = Some (rq_actor_id rq), ar_principal_context_id = None,
     ar_organization_id = Some (rq_organization_id rq), ar_event_edition_id = Some (rq_edition_id rq),
     ar_capability_code = operation_capability operation, ar_operation = ''announcements.command.'' @ operation,
     ar_target_type = ''announcements.record'', ar_target_id = target, ar_outcome = outcome,
     ar_reason_code = reason_code, ar_correlation_id = rq_correlation_id rq,
     ar_source_channel = rq_source_channel rq, ar_obligations = [''audit''], ar_changed_fields = [],
     ar_causation_id = None, ar_request_id = Some (rq_correlation_id rq),
     ar_idempotency_key_hash = sha256_hex (uuid_str (rq_idempotency_key rq)),
     ar_delegated = False, ar_elevated = False, ar_break_glass = False, ar_safe_metadata = JNull,
     ar_retention_class = RETENTION_CLASS\<rparr>"

definition domain_record ::
    "AnnouncementCommandRequest \<Rightarrow> string \<Rightarrow> int \<Rightarrow> uuid \<Rightarrow> DomainEventRecord" where
  "domain_record rq operation sequence audit_id = \<lparr>
     dr_event_name = EVENT_NAME, dr_schema_version = 1, dr_organization_id = rq_organization_id rq,
     dr_event_edition_id = Some (rq_edition_id rq), dr_aggregate_type = ''announcements.edition'',
     dr_aggregate_id = rq_edition_id rq, dr_aggregate_version = sequence,
     dr_payload = JObj [(''operation'', JStr operation)], dr_correlation_id = rq_correlation_id rq,
     dr_causation_id = Some audit_id, dr_actor_kind = ''account'', dr_actor_id = Some (rq_actor_id rq),
     dr_retention_class = RETENTION_CLASS\<rparr>"

definition request_digest :: "AnnouncementCommandRequest \<Rightarrow> string \<Rightarrow> json \<Rightarrow> string \<Rightarrow> string" where
  "request_digest rq operation intent reason = intent_digest (JObj
     [(''operation'', JStr operation), (''intent'', intent), (''reason'', JStr reason),
      (''source_channel'', JStr (rq_source_channel rq))])"

definition authorize :: "announcement_env \<Rightarrow> nat \<Rightarrow> AnnouncementCommandRequest \<Rightarrow> string
    \<Rightarrow> announcement_error + AuthorizedAnnouncementScope" where
  "authorize env reading rq capability =
     authorize_announcements_scope (nv_policy env reading) (nv_scope env reading) rq capability []"

definition require_announcements_integrity :: "announcement_env \<Rightarrow> announcement_error + unit" where
  "require_announcements_integrity env = guardE (nv_integrity_ready env) AnnouncementError"

definition lock_scope :: "announcement_env \<Rightarrow> AnnouncementCommandRequest \<Rightarrow> announcement_error + unit" where
  "lock_scope env rq =
     guardE (resolve_announcements_edition_scope (nv_scope env 2) True True (rq_organization_id rq) (rq_edition_id rq) \<noteq> None
       \<and> lock_account_references_for_evidence (nv_accounts env) [rq_actor_id rq] \<noteq> None) AnnouncementDeniedError"

definition find_receipt :: "AnnouncementCommandRequest \<Rightarrow> announcement_db \<Rightarrow> AnnouncementCommandReceipt option" where
  "find_receipt rq db = find (\<lambda>r. cr_organization_id r = rq_organization_id rq \<and> cr_edition_id r = rq_edition_id rq
     \<and> cr_actor_id r = rq_actor_id rq \<and> cr_idempotency_key r = rq_idempotency_key rq) (an_receipts db)"

definition find_control :: "AnnouncementCommandRequest \<Rightarrow> announcement_db \<Rightarrow> AnnouncementControl option" where
  "find_control rq db = find (\<lambda>c. ct_organization_id c = rq_organization_id rq \<and> ct_edition_id c = rq_edition_id rq)
     (an_controls db)"

definition new_control :: "uuid \<Rightarrow> AnnouncementCommandRequest \<Rightarrow> AnnouncementControl" where
  "new_control i rq = \<lparr>ct_id = i, ct_organization_id = rq_organization_id rq, ct_edition_id = rq_edition_id rq,
     ct_sequence = 0, ct_settings_version = 0, ct_current_settings = None, ct_stopped = False\<rparr>"

definition locked_control :: "uuid \<Rightarrow> AnnouncementCommandRequest \<Rightarrow> announcement_db
    \<Rightarrow> announcement_error + announcement_db \<times> AnnouncementControl" where
  "locked_control i rq db =
     (case find_control rq db of
        Some c \<Rightarrow> Inr (db, c)
      | None \<Rightarrow> bindE (control_create (new_control i rq) db) (\<lambda>db. Inr (db, new_control i rq)))"

definition new_receipt :: "uuid \<Rightarrow> instant \<Rightarrow> AnnouncementCommandRequest \<Rightarrow> string \<Rightarrow> string \<Rightarrow> string
    \<Rightarrow> int \<Rightarrow> uuid option \<Rightarrow> uuid \<Rightarrow> int \<Rightarrow> AnnouncementCommandReceipt" where
  "new_receipt i occurred rq operation digest reason sequence announcement object result_version =
     \<lparr>cr_id = i, cr_organization_id = rq_organization_id rq, cr_edition_id = rq_edition_id rq,
      cr_actor_id = rq_actor_id rq, cr_operation = operation, cr_idempotency_key = rq_idempotency_key rq,
      cr_request_digest = digest, cr_control_sequence = sequence, cr_announcement = announcement,
      cr_object_id = object, cr_resulting_version = result_version, cr_occurred_at = occurred, cr_reason = reason,
      cr_correlation_id = rq_correlation_id rq, cr_source_channel = rq_source_channel rq\<rparr>"

definition require_complete_evidence_bound ::
    "announcement_env \<Rightarrow> announcement_db \<Rightarrow> uuid option \<Rightarrow> announcement_error + unit" where
  "require_complete_evidence_bound env db announcement =
     (case announcement of None \<Rightarrow> Inr ()
      | Some i \<Rightarrow> guardE (nv_evidence_bytes env db i \<le> MAX_STORED_TEXT_BYTES) AnnouncementLimitError)"

text \<open>
  \<open>audited_mutation\<close> runs inside the transaction with an allowed outcome, so it appends the audit
  event under the identifier it draws; the event published in its scope names that identifier.
\<close>

definition record_evidence ::
    "announcement_env \<Rightarrow> draw \<Rightarrow> AnnouncementCommandRequest \<Rightarrow> AuthorizedAnnouncementScope
     \<Rightarrow> AnnouncementCommandReceipt \<Rightarrow> announcement_world \<Rightarrow> announcement_error + announcement_world" where
  "record_evidence env dw rq scope receipt w =
     raising (bindE (append_audit (dw_audit dw) (cr_occurred_at receipt)
         (audit_record rq (cr_operation receipt) ALLOW (pd_reason_code (as_decision scope)) (Some (cr_object_id receipt)))
         (Some (cr_occurred_at receipt)) (Some (dw_audit dw)) (wd_audit w)) (\<lambda>(au, e).
       bindE (publish_domain_event (nv_routes env) ((dw_publish dw)\<lparr>pc_in_atomic_block := True\<rparr>)
         (domain_record rq (cr_operation receipt) (cr_control_sequence receipt) (ae_id e)) ''internal'' ''default'' (PyInt 8)
         (Some (cr_occurred_at receipt)) (wd_effects w)) (\<lambda>(db, _).
       Inr (w\<lparr>wd_effects := db, wd_audit := au\<rparr>))))"

text \<open>The part of the transaction that runs for a command without an earlier receipt.\<close>

definition commit_command ::
    "announcement_env \<Rightarrow> draw \<Rightarrow> AnnouncementCommandRequest \<Rightarrow> plan \<Rightarrow> AuthorizedAnnouncementScope
     \<Rightarrow> announcement_world \<Rightarrow> announcement_error + announcement_world \<times> AnnouncementCommandReceipt" where
  "commit_command env dw rq plan scope w = (case plan of (operation, intent, reason, write) \<Rightarrow>
     bindE (locked_control (dw_control dw) rq (wd_announcements w)) (\<lambda>(db, control).
     if 2 ^ 63 - 2 \<le> ct_sequence control then Inl AnnouncementLimitError
     else bindE (write \<lparr>cx_request = rq, cx_scope = scope, cx_control = control, cx_receipt_id = dw_receipt dw,
                   cx_occurred_at = dw_now dw\<rparr> db) (\<lambda>(db, control, object, announcement, result_version).
     let control = control\<lparr>ct_sequence := ct_sequence control + 1\<rparr> in
     bindE (control_save control db) (\<lambda>db.
     bindE (authorize env 3 rq (operation_capability operation)) (\<lambda>scope.
     let receipt = new_receipt (dw_receipt dw) (dw_now dw) rq operation (request_digest rq operation intent reason) reason
           (ct_sequence control) announcement object result_version in
     bindE (command_receipt_create receipt db) (\<lambda>db.
     bindE (require_complete_evidence_bound env db announcement) (\<lambda>_.
     bindE (record_evidence env dw rq scope receipt (w\<lparr>wd_announcements := db\<rparr>)) (\<lambda>w.
     Inr (w, receipt)))))))))"

definition apply_command ::
    "announcement_env \<Rightarrow> draw \<Rightarrow> AnnouncementCommandRequest \<Rightarrow> plan
     \<Rightarrow> announcement_world \<Rightarrow> announcement_error + announcement_world \<times> AnnouncementCommandResult" where
  "apply_command env dw rq plan w = (case plan of (operation, intent, reason, write) \<Rightarrow>
     bindE (authorize env 1 rq (operation_capability operation)) (\<lambda>_.
     bindE (require_announcements_integrity env) (\<lambda>_.
     bindE (lock_scope env rq) (\<lambda>_.
     bindE (authorize env 2 rq (operation_capability operation)) (\<lambda>scope.
     case find_receipt rq (wd_announcements w) of
       Some receipt \<Rightarrow>
         if cr_request_digest receipt \<noteq> request_digest rq operation intent reason \<or> cr_operation receipt \<noteq> operation
         then Inl AnnouncementIdempotencyConflictError
         else Inr (w, result_of True receipt)
     | None \<Rightarrow> bindE (commit_command env dw rq plan scope w) (\<lambda>(w, receipt). Inr (w, result_of False receipt)))))))"

text \<open>A rolled-back transaction leaves the stores; the audit of the refusal may itself fail silently.\<close>

definition audit_refusal ::
    "draw \<Rightarrow> AnnouncementCommandRequest \<Rightarrow> string \<Rightarrow> announcement_error \<Rightarrow> announcement_world \<Rightarrow> announcement_world" where
  "audit_refusal dw rq operation error w =
     (case append_audit (dw_refused dw) (dw_refused_now dw)
         (audit_record rq operation (if error = AnnouncementDeniedError then DENY else ERROR) (error_reason_code error) None)
         None None (wd_audit w) of
        Inl _ \<Rightarrow> w
      | Inr (au, _) \<Rightarrow> w\<lparr>wd_audit := au\<rparr>)"

definition check_request :: "announcement_env \<Rightarrow> AnnouncementCommandRequest \<Rightarrow> announcement_error + unit" where
  "check_request env rq =
     bindE (uuid_identifier (Typed (rq_idempotency_key rq))) (\<lambda>_.
     bindE (plain_text (nv_nfc env) 80 True (Typed (rq_source_channel rq))) (\<lambda>source.
     guardE (source = rq_source_channel rq) AnnouncementIdempotencyConflictError))"

definition execute :: "announcement_env \<Rightarrow> draw \<Rightarrow> AnnouncementCommandRequest \<Rightarrow> plan \<Rightarrow> announcement_world \<Rightarrow> command_result" where
  "execute env dw rq plan w =
     (case check_request env rq of
        Inl e \<Rightarrow> (w, Inl e)
      | Inr _ \<Rightarrow>
          (case apply_command env dw rq plan w of
             Inr (w', result) \<Rightarrow> (w', Inr result)
           | Inl e \<Rightarrow> (audit_refusal dw rq (fst plan) e w, Inl e)))"

text \<open>A command whose inputs are refused raises before \<open>execute\<close>.\<close>

definition perform :: "announcement_env \<Rightarrow> draw \<Rightarrow> AnnouncementCommandRequest \<Rightarrow> (announcement_error + plan)
    \<Rightarrow> announcement_world \<Rightarrow> command_result" where
  "perform env dw rq inputs w = (case inputs of Inl e \<Rightarrow> (w, Inl e) | Inr plan \<Rightarrow> execute env dw rq plan w)"

section \<open>Steps the writes share\<close>

definition writes_open :: "command_context \<Rightarrow> bool \<Rightarrow> announcement_error + unit" where
  "writes_open cx stopped_ok =
     guardE (es_accepts_writes (as_edition (cx_scope cx)) \<and> (\<not> ct_stopped (cx_control cx) \<or> stopped_ok))
       AnnouncementStateConflictError"

definition today_of :: "announcement_env \<Rightarrow> command_context \<Rightarrow> date" where
  "today_of env cx = nv_local_date env (es_time_zone (as_edition (cx_scope cx))) (cx_occurred_at cx)"

definition current_rules ::
    "announcement_env \<Rightarrow> command_context \<Rightarrow> announcement_db \<Rightarrow> announcement_error + AnnouncementSettingsRevision" where
  "current_rules env cx db =
     bindE (writes_open cx False) (\<lambda>_.
     bindE (dereference (find_settings db) (ct_current_settings (cx_control cx))) (\<lambda>row.
     case row of
       None \<Rightarrow> Inl AnnouncementSettingsRequiredError
     | Some s \<Rightarrow> if sr_review_on s < today_of env cx then Inl AnnouncementSettingsRequiredError else Inr s))"

definition locked_item :: "command_context \<Rightarrow> uuid \<Rightarrow> int \<Rightarrow> announcement_db \<Rightarrow> announcement_error + Announcement" where
  "locked_item cx announcement expected_version db =
     (case find (\<lambda>a. an_id a = announcement \<and> an_organization_id a = rq_organization_id (cx_request cx)
            \<and> an_edition_id a = rq_edition_id (cx_request cx)) (an_items db) of
        None \<Rightarrow> Inl AnnouncementError
      | Some row \<Rightarrow> if an_version row \<noteq> expected_version then Inl AnnouncementVersionConflictError else Inr row)"

definition advance :: "Announcement \<Rightarrow> announcement_db \<Rightarrow> announcement_error + announcement_db \<times> Announcement" where
  "advance item db =
     (if MAX_HISTORY \<le> an_version item then Inl AnnouncementLimitError
      else let item = item\<lparr>an_version := an_version item + 1\<rparr>
           in bindE (announcement_save item db) (\<lambda>db. Inr (db, item)))"

text \<open>The channels of a settings revision by code; a later entry replaces an earlier one.\<close>

definition channel_table :: "channel list \<Rightarrow> string \<Rightarrow> channel option" where
  "channel_table channels = map_of (rev (map (\<lambda>c. (mc_code c, c)) channels))"

definition copy_digest :: "variant_input \<Rightarrow> string" where
  "copy_digest v = intent_digest (JObj [(''headline'', JStr (vi_headline v)), (''body'', JStr (vi_body v))])"

definition new_variant :: "uuid \<Rightarrow> command_context \<Rightarrow> uuid \<Rightarrow> channel \<Rightarrow> variant_input \<Rightarrow> AnnouncementVariant" where
  "new_variant i cx revision channel v =
     \<lparr>va_id = i, va_evidence = evidence_of cx, va_revision = revision, va_channel_code = vi_channel_code v,
      va_channel_label = mc_label channel, va_channel_url = mc_url channel, va_language_code = vi_language_code v,
      va_headline = vi_headline v, va_body = vi_body v, va_copy_digest = copy_digest v\<rparr>"

text \<open>The channel of each copy is in the table: \<open>write_revision\<close> has just checked it.\<close>

definition write_variant :: "draw \<Rightarrow> command_context \<Rightarrow> uuid \<Rightarrow> (string \<Rightarrow> channel option) \<Rightarrow> nat \<times> variant_input
    \<Rightarrow> announcement_db \<Rightarrow> announcement_error + announcement_db" where
  "write_variant dw cx revision channels = (\<lambda>(k, v) db.
     case channels (vi_channel_code v) of
       None \<Rightarrow> Inl (ann_invalid ''unavailable_selection'')
     | Some channel \<Rightarrow> variant_create (new_variant (dw_variant dw k) cx revision channel v) db)"

definition write_revision ::
    "draw \<Rightarrow> command_context \<Rightarrow> Announcement \<Rightarrow> draft \<Rightarrow> AnnouncementSettingsRevision \<Rightarrow> announcement_db
     \<Rightarrow> announcement_error + announcement_db \<times> Announcement \<times> AnnouncementRevision" where
  "write_revision dw cx item draft rules db =
     bindE (dereference (find_revision db) (an_current_revision item)) (\<lambda>previous.
     let number = (case previous of None \<Rightarrow> 1 | Some p \<Rightarrow> rv_number p + 1);
         text_bytes = int (length (canonical_json (draft_payload draft)));
         retained = sum_list (map rv_text_bytes (filter (\<lambda>r. rv_announcement r = an_id item) (an_revisions db)))
     in if MAX_REVISIONS < number \<or> MAX_STORED_TEXT_BYTES < retained + text_bytes then Inl AnnouncementLimitError
     else let channels = channel_table (sr_channels rules);
              languages = es_language_codes (as_edition (cx_scope cx))
     in if \<not> List.member languages (di_language_code draft)
          \<or> list_ex (\<lambda>v. \<not> List.member languages (vi_language_code v) \<or> channels (vi_channel_code v) = None) (di_variants draft)
     then Inl (ann_invalid ''unavailable_selection'')
     else
       let (base_approved, round_id) =
             (case previous of
                None \<Rightarrow> (an_approved_revision item, dw_round dw)
              | Some p \<Rightarrow> if an_current_revision item = an_approved_revision item
                          then (an_approved_revision item, dw_round dw)
                          else (rv_base_approved_revision p, rv_round_id p));
           revision = \<lparr>rv_id = dw_revision dw, rv_evidence = evidence_of cx, rv_announcement = an_id item, rv_number = number,
             rv_previous_revision = map_option rv_id previous, rv_base_approved_revision = base_approved,
             rv_round_id = round_id, rv_settings_revision = sr_id rules, rv_headline = di_headline draft,
             rv_body = di_body draft, rv_language_code = di_language_code draft, rv_text_bytes = text_bytes\<rparr>
       in bindE (revision_create revision db) (\<lambda>db.
          bindE (foldE (write_variant dw cx (rv_id revision) channels) (List.enumerate 0 (di_variants draft)) db) (\<lambda>db.
            Inr (db, item\<lparr>an_current_revision := Some (rv_id revision), an_status := ANN_DRAFT\<rparr>, revision))))"

section \<open>Settings\<close>

definition channel_identity_changed :: "channel list \<Rightarrow> channel list \<Rightarrow> bool" where
  "channel_identity_changed old new =
     list_ex (\<lambda>c. case channel_table old (mc_code c) of None \<Rightarrow> False
                  | Some o' \<Rightarrow> mc_url o' = [] \<and> mc_label o' \<noteq> mc_label c) new"

definition new_settings :: "uuid \<Rightarrow> command_evidence \<Rightarrow> int \<Rightarrow> settings \<Rightarrow> AnnouncementSettingsRevision" where
  "new_settings i e number value' = \<lparr>sr_id = i, sr_evidence = e, sr_number = number,
     sr_policy_name = si_policy_name value', sr_policy_description = si_policy_description value',
     sr_policy_url = si_policy_url value', sr_record_owner = si_record_owner value',
     sr_review_on = si_review_on value', sr_channels = si_channels value'\<rparr>"

definition update_settings_write :: "announcement_env \<Rightarrow> draw \<Rightarrow> settings \<Rightarrow> int \<Rightarrow> writer" where
  "update_settings_write env dw value' expected cx db =
     bindE (writes_open cx True) (\<lambda>_.
     if ct_settings_version (cx_control cx) \<noteq> expected then Inl AnnouncementVersionConflictError
     else if list_ex (\<lambda>s. ce_organization_id (sr_evidence s) = rq_organization_id (cx_request cx)
            \<and> ce_edition_id (sr_evidence s) = rq_edition_id (cx_request cx)
            \<and> channel_identity_changed (sr_channels s) (si_channels value')) (an_settings db)
     then Inl (ann_invalid ''channel_identity_changed'')
     else if si_review_on value' < today_of env cx then Inl (ann_invalid ''rules_review_overdue'')
     else
       let control = (cx_control cx)\<lparr>ct_settings_version := ct_settings_version (cx_control cx) + 1,
             ct_current_settings := Some (dw_object dw)\<rparr>
       in bindE (settings_create (new_settings (dw_object dw) (evidence_of cx) (expected + 1) value') db) (\<lambda>db.
            Inr (db, control, dw_object dw, None, ct_settings_version control)))"

definition admit :: "announcement_env \<Rightarrow> AnnouncementCommandRequest \<Rightarrow> string \<Rightarrow> announcement_error + AuthorizedAnnouncementScope" where
  "admit env rq capability = authorize env 0 rq (''announcements.'' @ capability)"

definition update_announcement_settings ::
    "announcement_env \<Rightarrow> draw \<Rightarrow> AnnouncementCommandRequest \<Rightarrow> raw_settings typed \<Rightarrow> py_number
     \<Rightarrow> announcement_world \<Rightarrow> command_result" where
  "update_announcement_settings env dw rq settings expected_version = perform env dw rq
     (bindE (admit env rq ''manage_settings'') (\<lambda>_.
      bindE (normalize_settings (nv_nfc env) (nv_https_url env) settings) (\<lambda>value'.
      bindE (version True expected_version) (\<lambda>expected.
        Inr (''settings_update'',
             JObj [(''settings'', settings_payload value'), (''expected_version'', JInt expected)],
             [], update_settings_write env dw value' expected)))))"

definition set_stopped_write :: "announcement_env \<Rightarrow> bool \<Rightarrow> int \<Rightarrow> writer" where
  "set_stopped_write env stopped expected cx db =
     bindE (writes_open cx True) (\<lambda>_.
     if ct_settings_version (cx_control cx) \<noteq> expected then Inl AnnouncementVersionConflictError
     else if ct_stopped (cx_control cx) = stopped then Inl AnnouncementStateConflictError
     else
       let cx = cx\<lparr>cx_control := (cx_control cx)\<lparr>ct_stopped := stopped\<rparr>\<rparr> in
       bindE (if stopped then Inr () else bindE (current_rules env cx db) (\<lambda>_. Inr ())) (\<lambda>_.
       let control = (cx_control cx)\<lparr>ct_settings_version := ct_settings_version (cx_control cx) + 1\<rparr> in
       Inr (db, control, ct_id control, None, ct_settings_version control)))"

definition set_announcements_stopped ::
    "announcement_env \<Rightarrow> draw \<Rightarrow> AnnouncementCommandRequest \<Rightarrow> bool typed \<Rightarrow> py_number \<Rightarrow> string typed
     \<Rightarrow> announcement_world \<Rightarrow> command_result" where
  "set_announcements_stopped env dw rq stopped expected_version reason = perform env dw rq
     (bindE (admit env rq ''manage_settings'') (\<lambda>_.
      case stopped of
        Untyped \<Rightarrow> Inl (ann_invalid ''invalid_state'')
      | Typed stop \<Rightarrow>
          bindE (version False expected_version) (\<lambda>expected.
          bindE (plain_text (nv_nfc env) MAX_NOTE True reason) (\<lambda>note.
            Inr (if stop then ''stop'' else ''resume'',
                 JObj [(''stopped'', JBool stop), (''expected_version'', JInt expected)],
                 note, set_stopped_write env stop expected)))))"

section \<open>Copy\<close>

definition new_announcement :: "uuid \<Rightarrow> AnnouncementCommandRequest \<Rightarrow> Announcement" where
  "new_announcement i rq = \<lparr>an_id = i, an_organization_id = rq_organization_id rq, an_edition_id = rq_edition_id rq,
     an_version = 1, an_status = ANN_DRAFT, an_current_revision = None, an_approved_revision = None\<rparr>"

definition create_write :: "announcement_env \<Rightarrow> draw \<Rightarrow> draft \<Rightarrow> int \<Rightarrow> writer" where
  "create_write env dw value' expected cx db =
     bindE (current_rules env cx db) (\<lambda>rules.
     if ct_settings_version (cx_control cx) \<noteq> expected then Inl AnnouncementVersionConflictError
     else bindE (announcement_create (new_announcement (dw_object dw) (cx_request cx)) db) (\<lambda>db.
       bindE (write_revision dw cx (new_announcement (dw_object dw) (cx_request cx)) value' rules db) (\<lambda>(db, item, _).
       bindE (announcement_save item db) (\<lambda>db.
         Inr (db, cx_control cx, an_id item, Some (an_id item), an_version item)))))"

definition create_announcement ::
    "announcement_env \<Rightarrow> draw \<Rightarrow> AnnouncementCommandRequest \<Rightarrow> raw_draft typed \<Rightarrow> py_number
     \<Rightarrow> announcement_world \<Rightarrow> command_result" where
  "create_announcement env dw rq draft expected_settings_version = perform env dw rq
     (bindE (admit env rq ''compose'') (\<lambda>_.
      bindE (normalize_draft (nv_nfc env) draft) (\<lambda>value'.
      bindE (version False expected_settings_version) (\<lambda>expected.
        Inr (''create'',
             JObj [(''draft'', draft_payload value'), (''expected_settings_version'', JInt expected)],
             [], create_write env dw value' expected)))))"

definition revise_write :: "announcement_env \<Rightarrow> draw \<Rightarrow> uuid \<Rightarrow> draft \<Rightarrow> int \<Rightarrow> int \<Rightarrow> writer" where
  "revise_write env dw selected value' expected expected_settings cx db =
     bindE (current_rules env cx db) (\<lambda>rules.
     if ct_settings_version (cx_control cx) \<noteq> expected_settings then Inl AnnouncementVersionConflictError
     else bindE (locked_item cx selected expected db) (\<lambda>item.
       if an_status item = ANN_CANCELLED then Inl AnnouncementStateConflictError
       else bindE (write_revision dw cx item value' rules db) (\<lambda>(db, item, row).
         bindE (advance item db) (\<lambda>(db, item).
           Inr (db, cx_control cx, rv_id row, Some (an_id item), an_version item)))))"

definition revise_announcement ::
    "announcement_env \<Rightarrow> draw \<Rightarrow> AnnouncementCommandRequest \<Rightarrow> uuid typed \<Rightarrow> raw_draft typed \<Rightarrow> py_number \<Rightarrow> py_number
     \<Rightarrow> string typed \<Rightarrow> announcement_world \<Rightarrow> command_result" where
  "revise_announcement env dw rq announcement_id draft expected_version expected_settings_version reason =
     perform env dw rq
     (bindE (admit env rq ''compose'') (\<lambda>_.
      bindE (uuid_identifier announcement_id) (\<lambda>selected.
      bindE (version False expected_version) (\<lambda>expected.
      bindE (version False expected_settings_version) (\<lambda>expected_settings.
      bindE (normalize_draft (nv_nfc env) draft) (\<lambda>value'.
      bindE (plain_text (nv_nfc env) MAX_NOTE True reason) (\<lambda>note.
        Inr (''revise'',
             JObj [(''announcement_id'', JStr (uuid_str selected)), (''draft'', draft_payload value'),
               (''expected_version'', JInt expected), (''expected_settings_version'', JInt expected_settings)],
             note, revise_write env dw selected value' expected expected_settings))))))))"

section \<open>Review\<close>

definition request_review_write :: "announcement_env \<Rightarrow> uuid \<Rightarrow> int \<Rightarrow> writer" where
  "request_review_write env selected expected cx db =
     bindE (current_rules env cx db) (\<lambda>_.
     bindE (locked_item cx selected expected db) (\<lambda>item.
     case an_current_revision item of
       None \<Rightarrow> Inl AnnouncementStateConflictError
     | Some current \<Rightarrow>
         if an_status item \<noteq> ANN_DRAFT \<or> list_ex (\<lambda>w. rw_revision w = current) (an_reviews db)
         then Inl AnnouncementStateConflictError
         else bindE (advance (item\<lparr>an_status := ANN_IN_REVIEW\<rparr>) db) (\<lambda>(db, item).
           Inr (db, cx_control cx, current, Some (an_id item), an_version item))))"

definition request_announcement_review ::
    "announcement_env \<Rightarrow> draw \<Rightarrow> AnnouncementCommandRequest \<Rightarrow> uuid typed \<Rightarrow> py_number
     \<Rightarrow> announcement_world \<Rightarrow> command_result" where
  "request_announcement_review env dw rq announcement_id expected_version = perform env dw rq
     (bindE (admit env rq ''compose'') (\<lambda>_.
      bindE (uuid_identifier announcement_id) (\<lambda>selected.
      bindE (version False expected_version) (\<lambda>expected.
        Inr (''request_review'',
             JObj [(''announcement_id'', JStr (uuid_str selected)), (''expected_version'', JInt expected)],
             [], request_review_write env selected expected)))))"

definition new_review :: "uuid \<Rightarrow> command_evidence \<Rightarrow> uuid \<Rightarrow> string \<Rightarrow> string \<Rightarrow> AnnouncementReview" where
  "new_review i e revision decision note =
     \<lparr>rw_id = i, rw_evidence = e, rw_revision = revision, rw_decision = decision, rw_note = note\<rparr>"

definition review_write :: "announcement_env \<Rightarrow> draw \<Rightarrow> uuid \<Rightarrow> uuid \<Rightarrow> int \<Rightarrow> string \<Rightarrow> string \<Rightarrow> writer" where
  "review_write env dw selected revision expected decision reason cx db =
     bindE (current_rules env cx db) (\<lambda>_.
     bindE (locked_item cx selected expected db) (\<lambda>item.
     bindE (dereference (find_revision db) (an_current_revision item)) (\<lambda>current.
     case current of
       None \<Rightarrow> Inl AnnouncementStateConflictError
     | Some current \<Rightarrow>
         if an_status item \<noteq> ANN_IN_REVIEW \<or> rv_id current \<noteq> revision then Inl AnnouncementStateConflictError
         else if list_ex (\<lambda>r. rv_announcement r = an_id item \<and> rv_round_id r = rv_round_id current
                \<and> ce_actor_id (rv_evidence r) = rq_actor_id (cx_request cx)) (an_revisions db)
         then Inl AnnouncementDeniedError
         else
           let item = (if decision = ''approve'' then item\<lparr>an_status := ANN_APPROVED, an_approved_revision := Some revision\<rparr>
                       else item\<lparr>an_status := ANN_CHANGES_REQUESTED\<rparr>)
           in bindE (review_create (new_review (dw_object dw) (evidence_of cx) revision decision reason) db) (\<lambda>db.
              bindE (advance item db) (\<lambda>(db, item).
                Inr (db, cx_control cx, dw_object dw, Some (an_id item), an_version item))))))"

definition review_announcement ::
    "announcement_env \<Rightarrow> draw \<Rightarrow> AnnouncementCommandRequest \<Rightarrow> uuid typed \<Rightarrow> uuid typed \<Rightarrow> py_number \<Rightarrow> string
     \<Rightarrow> string typed \<Rightarrow> announcement_world \<Rightarrow> command_result" where
  "review_announcement env dw rq announcement_id revision_id expected_version decision note = perform env dw rq
     (bindE (admit env rq ''review'') (\<lambda>_.
      bindE (uuid_identifier announcement_id) (\<lambda>selected.
      bindE (uuid_identifier revision_id) (\<lambda>revision.
      bindE (version False expected_version) (\<lambda>expected.
      if decision \<noteq> ''approve'' \<and> decision \<noteq> ''changes_requested'' then Inl (ann_invalid ''invalid_decision'')
      else bindE (plain_text (nv_nfc env) MAX_NOTE (decision = ''changes_requested'') note) (\<lambda>reason.
        Inr (decision,
             JObj [(''announcement_id'', JStr (uuid_str selected)), (''revision_id'', JStr (uuid_str revision)),
               (''expected_version'', JInt expected), (''decision'', JStr decision), (''note'', JStr reason)],
             reason, review_write env dw selected revision expected decision reason)))))))"

section \<open>Publication reports\<close>

definition approved_variant :: "command_context \<Rightarrow> Announcement \<Rightarrow> uuid \<Rightarrow> announcement_db
    \<Rightarrow> announcement_error + AnnouncementVariant" where
  "approved_variant cx item variant db =
     (case find (\<lambda>v. va_id v = variant \<and> ce_organization_id (va_evidence v) = rq_organization_id (cx_request cx)
            \<and> ce_edition_id (va_evidence v) = rq_edition_id (cx_request cx)
            \<and> list_ex (\<lambda>r. rv_id r = va_revision v \<and> rv_announcement r = an_id item) (an_revisions db)
            \<and> approved_in db (va_revision v)) (an_variants db) of
        None \<Rightarrow> Inl AnnouncementError
      | Some v \<Rightarrow> Inr v)"

definition report_limit :: "Announcement \<Rightarrow> announcement_db \<Rightarrow> announcement_error + unit" where
  "report_limit item db = guardE (length (reports_of db (an_id item)) < MAX_REPORTS) AnnouncementLimitError"

definition new_report :: "uuid \<Rightarrow> command_evidence \<Rightarrow> uuid \<Rightarrow> uuid option \<Rightarrow> bool \<Rightarrow> string \<Rightarrow> instant option \<Rightarrow> string
    \<Rightarrow> AnnouncementPublicationReport" where
  "new_report i e variant supersedes withdrawn url occurred reason =
     \<lparr>pr_id = i, pr_evidence = e, pr_variant = variant, pr_supersedes_report = supersedes, pr_withdrawn = withdrawn,
      pr_publication_url = url, pr_published_at = occurred, pr_reason = reason\<rparr>"

definition record_write :: "draw \<Rightarrow> uuid \<Rightarrow> uuid \<Rightarrow> int \<Rightarrow> string \<Rightarrow> instant option \<Rightarrow> writer" where
  "record_write dw selected variant expected url occurred cx db =
     bindE (writes_open cx True) (\<lambda>_.
     bindE (locked_item cx selected expected db) (\<lambda>item.
     bindE (approved_variant cx item variant db) (\<lambda>copy.
     if list_ex (\<lambda>p. pr_variant p = va_id copy) (an_reports db) then Inl AnnouncementStateConflictError
     else bindE (report_limit item db) (\<lambda>_.
       bindE (report_create (new_report (dw_object dw) (evidence_of cx) (va_id copy) None False url occurred []) db) (\<lambda>db.
       bindE (advance item db) (\<lambda>(db, item).
         Inr (db, cx_control cx, dw_object dw, Some (an_id item), an_version item)))))))"

definition record_announcement_publication ::
    "announcement_env \<Rightarrow> draw \<Rightarrow> AnnouncementCommandRequest \<Rightarrow> uuid typed \<Rightarrow> uuid typed \<Rightarrow> py_number \<Rightarrow> string typed
     \<Rightarrow> py_datetime option \<Rightarrow> announcement_world \<Rightarrow> command_result" where
  "record_announcement_publication env dw rq announcement_id variant_id expected_version publication_url published_at =
     perform env dw rq
     (bindE (admit env rq ''record_publication'') (\<lambda>_.
      bindE (uuid_identifier announcement_id) (\<lambda>selected.
      bindE (uuid_identifier variant_id) (\<lambda>variant.
      bindE (version False expected_version) (\<lambda>expected.
      bindE (safe_url (nv_nfc env) (nv_https_url env) publication_url) (\<lambda>url.
      bindE (publication_time (dw_clock dw) published_at) (\<lambda>occurred.
        Inr (''record_publication'',
             JObj [(''announcement_id'', JStr (uuid_str selected)), (''variant_id'', JStr (uuid_str variant)),
               (''expected_version'', JInt expected), (''publication_url'', JStr url),
               (''published_at'', json_time occurred)],
             [], record_write dw selected variant expected url (map_option fst occurred)))))))))"

definition correct_write :: "draw \<Rightarrow> uuid \<Rightarrow> uuid \<Rightarrow> int \<Rightarrow> bool \<Rightarrow> string \<Rightarrow> instant option \<Rightarrow> string \<Rightarrow> writer" where
  "correct_write dw selected report expected withdrawn url occurred note cx db =
     bindE (writes_open cx True) (\<lambda>_.
     bindE (locked_item cx selected expected db) (\<lambda>item.
     case find (\<lambda>p. pr_id p = report \<and> ce_organization_id (pr_evidence p) = rq_organization_id (cx_request cx)
              \<and> ce_edition_id (pr_evidence p) = rq_edition_id (cx_request cx)
              \<and> variant_of_item db (pr_variant p) (an_id item)
              \<and> \<not> list_ex (\<lambda>n. pr_supersedes_report n = Some (pr_id p)) (an_reports db)) (an_reports db) of
       None \<Rightarrow> Inl AnnouncementStateConflictError
     | Some previous \<Rightarrow>
         bindE (report_limit item db) (\<lambda>_.
         bindE (report_create (new_report (dw_object dw) (evidence_of cx) (pr_variant previous) (Some (pr_id previous))
                  withdrawn url occurred note) db) (\<lambda>db.
         bindE (advance item db) (\<lambda>(db, item).
           Inr (db, cx_control cx, dw_object dw, Some (an_id item), an_version item))))))"

definition correct_announcement_publication ::
    "announcement_env \<Rightarrow> draw \<Rightarrow> AnnouncementCommandRequest \<Rightarrow> uuid typed \<Rightarrow> uuid typed \<Rightarrow> py_number \<Rightarrow> bool typed
     \<Rightarrow> string typed \<Rightarrow> string typed \<Rightarrow> py_datetime option \<Rightarrow> announcement_world \<Rightarrow> command_result" where
  "correct_announcement_publication env dw rq announcement_id report_id expected_version withdrawn reason
     publication_url published_at = perform env dw rq
     (bindE (admit env rq ''record_publication'') (\<lambda>_.
      bindE (uuid_identifier announcement_id) (\<lambda>selected.
      bindE (uuid_identifier report_id) (\<lambda>report.
      bindE (version False expected_version) (\<lambda>expected.
      case withdrawn of
        Untyped \<Rightarrow> Inl (ann_invalid ''invalid_report'')
      | Typed gone \<Rightarrow>
          bindE (safe_url (nv_nfc env) (nv_https_url env) publication_url) (\<lambda>url.
          bindE (publication_time (dw_clock dw) published_at) (\<lambda>occurred.
          bindE (plain_text (nv_nfc env) MAX_NOTE True reason) (\<lambda>note.
          if gone \<and> (url \<noteq> [] \<or> occurred \<noteq> None) then Inl (ann_invalid ''invalid_report'')
          else
            Inr (if gone then ''withdraw_report'' else ''correct_publication'',
                 JObj [(''announcement_id'', JStr (uuid_str selected)), (''report_id'', JStr (uuid_str report)),
                   (''expected_version'', JInt expected), (''withdrawn'', JBool gone), (''publication_url'', JStr url),
                   (''published_at'', json_time occurred)],
                 note, correct_write dw selected report expected gone url (map_option fst occurred) note)))))))))"

section \<open>Cancellation\<close>

definition cancel_write :: "uuid \<Rightarrow> int \<Rightarrow> writer" where
  "cancel_write selected expected cx db =
     bindE (writes_open cx True) (\<lambda>_.
     bindE (locked_item cx selected expected db) (\<lambda>item.
     if an_status item = ANN_CANCELLED then Inl AnnouncementStateConflictError
     else bindE (advance (item\<lparr>an_status := ANN_CANCELLED\<rparr>) db) (\<lambda>(db, item).
       Inr (db, cx_control cx, an_id item, Some (an_id item), an_version item))))"

definition cancel_announcement ::
    "announcement_env \<Rightarrow> draw \<Rightarrow> AnnouncementCommandRequest \<Rightarrow> uuid typed \<Rightarrow> py_number \<Rightarrow> string typed
     \<Rightarrow> announcement_world \<Rightarrow> command_result" where
  "cancel_announcement env dw rq announcement_id expected_version reason = perform env dw rq
     (bindE (admit env rq ''compose'') (\<lambda>_.
      bindE (uuid_identifier announcement_id) (\<lambda>selected.
      bindE (version False expected_version) (\<lambda>expected.
      bindE (plain_text (nv_nfc env) MAX_NOTE True reason) (\<lambda>note.
        Inr (''cancel'',
             JObj [(''announcement_id'', JStr (uuid_str selected)), (''expected_version'', JInt expected)],
             note, cancel_write selected expected))))))"

end
