(* ===== verification/Announcement_Commits.thy ===== *)
theory Announcement_Commits
  imports Announcements
begin

text \<open>
  What a committed announcement command leaves behind. The commands of \<open>Announcements\<close> are one value
  each of \<open>announcement_command\<close>; \<open>commits\<close> describes, operation by operation, the rows that a
  committed command adds or replaces and the conditions under which it does. The refinement lemma
  \<open>commit_command_commits\<close> shows that the transaction does exactly that.
\<close>

section \<open>Commands as values\<close>

datatype announcement_command =
    UpdateSettings "raw_settings typed" py_number
  | SetStopped "bool typed" py_number "string typed"
  | Create "raw_draft typed" py_number
  | Revise "uuid typed" "raw_draft typed" py_number py_number "string typed"
  | RequestReview "uuid typed" py_number
  | Review "uuid typed" "uuid typed" py_number string "string typed"
  | RecordPublication "uuid typed" "uuid typed" py_number "string typed" "py_datetime option"
  | CorrectPublication "uuid typed" "uuid typed" py_number "bool typed" "string typed" "string typed" "py_datetime option"
  | Cancel "uuid typed" py_number "string typed"

fun run_command :: "announcement_env \<Rightarrow> draw \<Rightarrow> AnnouncementCommandRequest \<Rightarrow> announcement_command
    \<Rightarrow> announcement_world \<Rightarrow> command_result" where
  "run_command env dw rq (UpdateSettings s v) = update_announcement_settings env dw rq s v"
| "run_command env dw rq (SetStopped s v n) = set_announcements_stopped env dw rq s v n"
| "run_command env dw rq (Create d v) = create_announcement env dw rq d v"
| "run_command env dw rq (Revise a d v sv n) = revise_announcement env dw rq a d v sv n"
| "run_command env dw rq (RequestReview a v) = request_announcement_review env dw rq a v"
| "run_command env dw rq (Review a r v d n) = review_announcement env dw rq a r v d n"
| "run_command env dw rq (RecordPublication a x v u t) = record_announcement_publication env dw rq a x v u t"
| "run_command env dw rq (CorrectPublication a p v g n u t) = correct_announcement_publication env dw rq a p v g n u t"
| "run_command env dw rq (Cancel a v n) = cancel_announcement env dw rq a v n"

text \<open>The plans that survive the input checks, with what the checks establish.\<close>

inductive legal_plan :: "announcement_env \<Rightarrow> draw \<Rightarrow> plan \<Rightarrow> bool" for env dw where
  plan_settings: "normalize_settings (nv_nfc env) (nv_https_url env) raw = Inr s
    \<Longrightarrow> legal_plan env dw (''settings_update'', i, n, update_settings_write env dw s e)"
| plan_stopped: "1 \<le> e \<Longrightarrow> legal_plan env dw (if stop then ''stop'' else ''resume'', i, n, set_stopped_write env stop e)"
| plan_create: "normalize_draft (nv_nfc env) raw = Inr d
    \<Longrightarrow> legal_plan env dw (''create'', i, n, create_write env dw d e)"
| plan_revise: "normalize_draft (nv_nfc env) raw = Inr d
    \<Longrightarrow> legal_plan env dw (''revise'', i, n, revise_write env dw a d e es)"
| plan_request: "legal_plan env dw (''request_review'', i, n, request_review_write env a e)"
| plan_review: "decision = ''approve'' \<or> decision = ''changes_requested''
    \<Longrightarrow> legal_plan env dw (decision, i, n, review_write env dw a r e decision n)"
| plan_record: "(\<And>t. at = Some t \<Longrightarrow> t \<le> dw_clock dw)
    \<Longrightarrow> legal_plan env dw (''record_publication'', i, n, record_write dw a v e url at)"
| plan_correct: "(\<And>t. at = Some t \<Longrightarrow> t \<le> dw_clock dw) \<Longrightarrow> (gone \<Longrightarrow> url = [] \<and> at = None)
    \<Longrightarrow> legal_plan env dw (if gone then ''withdraw_report'' else ''correct_publication'', i, n,
          correct_write dw a p e gone url at n)"
| plan_cancel: "legal_plan env dw (''cancel'', i, n, cancel_write a e)"

lemma publication_time_past:
  "publication_time now v = Inr r \<Longrightarrow> map_option fst r = Some t \<Longrightarrow> t \<le> now"
  by (auto simp: publication_time_def split: option.splits py_datetime.splits if_splits)

lemma version_positive: "version False v = Inr e \<Longrightarrow> 1 \<le> e"
  by (auto simp: version_def split: py_number.splits if_splits)

lemma performI:
  "(\<And>plan. inputs = Inr plan \<Longrightarrow> legal_plan env dw plan)
   \<Longrightarrow> \<exists>i. perform env dw rq inputs = perform env dw rq i \<and> (\<forall>plan. i = Inr plan \<longrightarrow> legal_plan env dw plan)"
  by blast

lemma run_command_perform:
  "\<exists>inputs. run_command env dw rq cmd = perform env dw rq inputs \<and> (\<forall>plan. inputs = Inr plan \<longrightarrow> legal_plan env dw plan)"
proof (cases cmd)
  case (UpdateSettings s v)
  show ?thesis
    unfolding run_command.simps update_announcement_settings_def UpdateSettings
    by (rule performI) (auto simp: result_simps intro: plan_settings)
next
  case (SetStopped s v n)
  show ?thesis
    unfolding run_command.simps set_announcements_stopped_def SetStopped
    by (rule performI)
      (auto simp: result_simps split: typed.splits intro: version_positive
        intro!: plan_stopped [where stop = True, unfolded if_True] plan_stopped [where stop = False, unfolded if_False])
next
  case (Create d v)
  show ?thesis
    unfolding run_command.simps create_announcement_def Create
    by (rule performI) (auto simp: result_simps intro: plan_create)
next
  case (Revise a d v sv n)
  show ?thesis
    unfolding run_command.simps revise_announcement_def Revise
    by (rule performI) (auto simp: result_simps intro: plan_revise)
next
  case (RequestReview a v)
  show ?thesis
    unfolding run_command.simps request_announcement_review_def RequestReview
    by (rule performI) (auto simp: result_simps intro: plan_request)
next
  case (Review a r v d n)
  show ?thesis
    unfolding run_command.simps review_announcement_def Review
    by (rule performI) (auto simp: result_simps split: if_splits intro: plan_review)
next
  case (RecordPublication a x v u t)
  show ?thesis
    unfolding run_command.simps record_announcement_publication_def RecordPublication
    by (rule performI) (auto simp: result_simps intro!: plan_record dest: publication_time_past)
next
  case (CorrectPublication a p v g n u t)
  show ?thesis
    unfolding run_command.simps correct_announcement_publication_def CorrectPublication
  proof (rule performI, goal_cases)
    case (1 plan)
    then show ?case
      by (cases g; cases "g = Typed True")
        (auto simp: result_simps simp del: not_None_eq split: if_splits dest: publication_time_past
          intro!: plan_correct [of _ _ True, simplified] plan_correct [of _ _ False, simplified])
  qed
next
  case (Cancel a v n)
  show ?thesis
    unfolding run_command.simps cancel_announcement_def Cancel
    by (rule performI) (auto simp: result_simps intro: plan_cancel)
qed

section \<open>Replacing or adding a row\<close>

definition upsert :: "('r \<Rightarrow> 'k) \<Rightarrow> 'r \<Rightarrow> 'r list \<Rightarrow> 'r list" where
  "upsert key x xs = (if \<exists>y \<in> set xs. key y = key x then map (\<lambda>y. if key y = key x then x else y) xs else xs @ [x])"

lemma set_upsert [simp]: "set (upsert key x xs) = insert x {y \<in> set xs. key y \<noteq> key x}"
  by (auto simp: upsert_def)

lemma distinct_upsert [simp]: "distinct (map key (upsert key x xs)) \<longleftrightarrow> distinct (map key xs)"
proof -
  have "map key (map (\<lambda>y. if key y = key x then x else y) xs) = map key xs" by simp
  then show ?thesis by (auto simp: upsert_def simp del: map_map)
qed

lemma upsert_append: "\<forall>y \<in> set xs. key y \<noteq> key x \<Longrightarrow> upsert key x xs = xs @ [x]"
  by (auto simp: upsert_def)

lemma upsert_replace: "y \<in> set xs \<Longrightarrow> key y = key x \<Longrightarrow> upsert key x xs = map (\<lambda>y. if key y = key x then x else y) xs"
  by (auto simp: upsert_def)

lemma replace_appended:
  "\<forall>y \<in> set xs. key y \<noteq> key x \<Longrightarrow> key x' = key x
   \<Longrightarrow> map (\<lambda>y. if key y = key x' then x' else y) (xs @ [x]) = upsert key x' xs"
  by (auto simp: upsert_append intro: map_idI)

section \<open>Committed changes\<close>

text \<open>The stores after a commit: the control and at most one announcement replaced or added, rows appended.\<close>

definition after :: "announcement_db \<Rightarrow> AnnouncementControl \<Rightarrow> Announcement option \<Rightarrow> AnnouncementSettingsRevision list
    \<Rightarrow> AnnouncementRevision list \<Rightarrow> AnnouncementVariant list \<Rightarrow> AnnouncementReview list
    \<Rightarrow> AnnouncementPublicationReport list \<Rightarrow> AnnouncementCommandReceipt \<Rightarrow> announcement_db" where
  "after db c a ss rs vs ws ps r = \<lparr>an_controls = upsert ct_id c (an_controls db), an_settings = an_settings db @ ss,
     an_items = (case a of None \<Rightarrow> an_items db | Some a \<Rightarrow> upsert an_id a (an_items db)),
     an_revisions = an_revisions db @ rs, an_variants = an_variants db @ vs, an_reviews = an_reviews db @ ws,
     an_reports = an_reports db @ ps, an_receipts = an_receipts db @ [r]\<rparr>"

lemma after_simps [simp]:
  "an_controls (after db c a ss rs vs ws ps r) = upsert ct_id c (an_controls db)"
  "an_settings (after db c a ss rs vs ws ps r) = an_settings db @ ss"
  "an_items (after db c a ss rs vs ws ps r) = (case a of None \<Rightarrow> an_items db | Some a \<Rightarrow> upsert an_id a (an_items db))"
  "an_revisions (after db c a ss rs vs ws ps r) = an_revisions db @ rs"
  "an_variants (after db c a ss rs vs ws ps r) = an_variants db @ vs"
  "an_reviews (after db c a ss rs vs ws ps r) = an_reviews db @ ws"
  "an_reports (after db c a ss rs vs ws ps r) = an_reports db @ ps"
  "an_receipts (after db c a ss rs vs ws ps r) = an_receipts db @ [r]"
  by (simp_all add: after_def)

definition prior_control :: "draw \<Rightarrow> AnnouncementCommandRequest \<Rightarrow> announcement_db \<Rightarrow> AnnouncementControl" where
  "prior_control dw rq db = (case find_control rq db of Some c \<Rightarrow> c | None \<Rightarrow> new_control (dw_control dw) rq)"

definition context_of :: "draw \<Rightarrow> AnnouncementCommandRequest \<Rightarrow> AuthorizedAnnouncementScope \<Rightarrow> announcement_db
    \<Rightarrow> command_context" where
  "context_of dw rq scope db = \<lparr>cx_request = rq, cx_scope = scope, cx_control = prior_control dw rq db,
     cx_receipt_id = dw_receipt dw, cx_occurred_at = dw_now dw\<rparr>"

definition evidence_in :: "draw \<Rightarrow> AnnouncementCommandRequest \<Rightarrow> command_evidence" where
  "evidence_in dw rq = \<lparr>ce_organization_id = rq_organization_id rq, ce_edition_id = rq_edition_id rq,
     ce_actor_id = rq_actor_id rq, ce_occurred_at = dw_now dw, ce_command_receipt = dw_receipt dw\<rparr>"

text \<open>
  What holds of every commit: the control of the edition advances by one and is the only one of its
  edition; the receipt carries the request, the new sequence and fresh keys.
\<close>

definition closing :: "draw \<Rightarrow> AnnouncementCommandRequest \<Rightarrow> announcement_db \<Rightarrow> AnnouncementControl
    \<Rightarrow> AnnouncementCommandReceipt \<Rightarrow> bool" where
  "closing dw rq db c r \<longleftrightarrow>
     ct_id c = ct_id (prior_control dw rq db) \<and> ct_organization_id c = rq_organization_id rq
     \<and> ct_edition_id c = rq_edition_id rq \<and> ct_sequence c = ct_sequence (prior_control dw rq db) + 1
     \<and> (prior_control dw rq db \<in> set (an_controls db)
        \<or> prior_control dw rq db = new_control (dw_control dw) rq
          \<and> (\<forall>x \<in> set (an_controls db). ct_id x \<noteq> ct_id c \<and> ct_edition_id x \<noteq> rq_edition_id rq))
     \<and> cr_id r = dw_receipt dw \<and> cr_organization_id r = rq_organization_id rq \<and> cr_edition_id r = rq_edition_id rq
     \<and> cr_actor_id r = rq_actor_id rq \<and> cr_idempotency_key r = rq_idempotency_key rq
     \<and> cr_correlation_id r = rq_correlation_id rq \<and> cr_source_channel r = rq_source_channel rq
     \<and> cr_occurred_at r = dw_now dw \<and> cr_control_sequence r = ct_sequence c
     \<and> (\<forall>x \<in> set (an_receipts db). cr_id x \<noteq> cr_id r)"

text \<open>The head of an announcement after an operation on it.\<close>

fun status_after :: "string \<Rightarrow> AnnouncementStatus option" where
  "status_after operation =
     (if operation = ''create'' \<or> operation = ''revise'' then Some ANN_DRAFT
      else if operation = ''request_review'' then Some ANN_IN_REVIEW
      else if operation = ''approve'' then Some ANN_APPROVED
      else if operation = ''changes_requested'' then Some ANN_CHANGES_REQUESTED
      else if operation = ''cancel'' then Some ANN_CANCELLED else None)"

declare status_after.simps [simp del]

definition head_after :: "string \<Rightarrow> uuid \<Rightarrow> Announcement \<Rightarrow> Announcement" where
  "head_after operation object a = a\<lparr>an_version := an_version a + 1,
     an_status := (case status_after operation of None \<Rightarrow> an_status a | Some s \<Rightarrow> s),
     an_current_revision := (if operation = ''revise'' then Some object else an_current_revision a),
     an_approved_revision := (if operation = ''approve'' then an_current_revision a else an_approved_revision a)\<rparr>"

definition rules_current :: "announcement_env \<Rightarrow> command_context \<Rightarrow> announcement_db \<Rightarrow> AnnouncementSettingsRevision \<Rightarrow> bool" where
  "rules_current env cx db s \<longleftrightarrow>
     es_accepts_writes (as_edition (cx_scope cx)) \<and> \<not> ct_stopped (cx_control cx)
     \<and> ct_current_settings (cx_control cx) = Some (sr_id s) \<and> s \<in> set (an_settings db) \<and> today_of env cx \<le> sr_review_on s"

definition variant_written :: "command_evidence \<Rightarrow> uuid \<Rightarrow> string set \<Rightarrow> channel list \<Rightarrow> AnnouncementVariant \<Rightarrow> bool" where
  "variant_written e revision languages channels v \<longleftrightarrow>
     va_evidence v = e \<and> va_revision v = revision \<and> va_language_code v \<in> languages
     \<and> va_copy_digest v = intent_digest (JObj [(''headline'', JStr (va_headline v)), (''body'', JStr (va_body v))])
     \<and> (\<exists>c \<in> set channels. mc_code c = va_channel_code v \<and> mc_label c = va_channel_label v \<and> mc_url c = va_channel_url v)"

text \<open>A revision and its variants as one copy of an announcement under given rules.\<close>

definition copy_written :: "command_evidence \<Rightarrow> announcement_db \<Rightarrow> AnnouncementSettingsRevision \<Rightarrow> string list
    \<Rightarrow> AnnouncementRevision \<Rightarrow> AnnouncementVariant list \<Rightarrow> bool" where
  "copy_written e db s languages v vs \<longleftrightarrow>
     rv_evidence v = e \<and> rv_settings_revision v = sr_id s \<and> (\<forall>x \<in> set (an_revisions db). rv_id x \<noteq> rv_id v)
     \<and> rv_number v \<le> MAX_REVISIONS \<and> rv_language_code v \<in> set languages \<and> 0 < rv_text_bytes v
     \<and> sum_list (map rv_text_bytes (filter (\<lambda>x. rv_announcement x = rv_announcement v) (an_revisions db))) + rv_text_bytes v
         \<le> MAX_STORED_TEXT_BYTES
     \<and> 1 \<le> length vs \<and> length vs \<le> MAX_VARIANTS
     \<and> (\<forall>x \<in> set vs. variant_written e (rv_id v) (set languages) (sr_channels s) x)
     \<and> (distinct (map va_id (an_variants db)) \<longrightarrow> distinct (map va_id (an_variants db @ vs)))"

definition next_round :: "draw \<Rightarrow> Announcement \<Rightarrow> AnnouncementRevision \<Rightarrow> uuid option \<times> uuid" where
  "next_round dw a p = (if an_current_revision a = an_approved_revision a then (an_approved_revision a, dw_round dw)
     else (rv_base_approved_revision p, rv_round_id p))"

text \<open>How a new revision is numbered and linked to the current one.\<close>

definition linked :: "draw \<Rightarrow> announcement_db \<Rightarrow> Announcement \<Rightarrow> AnnouncementRevision \<Rightarrow> bool" where
  "linked dw db a v \<longleftrightarrow> (case an_current_revision a of
      None \<Rightarrow> rv_number v = 1 \<and> rv_previous_revision v = None
        \<and> (rv_base_approved_revision v, rv_round_id v) = (an_approved_revision a, dw_round dw)
    | Some i \<Rightarrow> \<exists>p \<in> set (an_revisions db). rv_id p = i \<and> rv_number v = rv_number p + 1
        \<and> rv_previous_revision v = Some i \<and> (rv_base_approved_revision v, rv_round_id v) = next_round dw a p)"

text \<open>A first report is of an approved copy without reports; a correction follows the latest report.\<close>

definition reportable :: "AnnouncementCommandRequest \<Rightarrow> announcement_db \<Rightarrow> Announcement \<Rightarrow> AnnouncementPublicationReport \<Rightarrow> bool" where
  "reportable rq db a p \<longleftrightarrow> (case pr_supersedes_report p of
      None \<Rightarrow> \<not> pr_withdrawn p \<and> (\<exists>v \<in> set (an_variants db). va_id v = pr_variant p \<and> approved_in db (va_revision v)
          \<and> list_ex (\<lambda>x. rv_id x = va_revision v \<and> rv_announcement x = an_id a) (an_revisions db))
        \<and> (\<forall>q \<in> set (an_reports db). pr_variant q \<noteq> pr_variant p)
    | Some i \<Rightarrow> pr_reason p \<noteq> [] \<and> (\<exists>q \<in> set (an_reports db). pr_id q = i \<and> pr_variant q = pr_variant p
          \<and> ce_edition_id (pr_evidence q) = rq_edition_id rq)
        \<and> (\<forall>q \<in> set (an_reports db). pr_supersedes_report q \<noteq> Some i))"

section \<open>What each write does\<close>

lemma writes_open_Inr [result_simps]:
  "writes_open cx ok = Inr u \<longleftrightarrow> es_accepts_writes (as_edition (cx_scope cx)) \<and> (\<not> ct_stopped (cx_control cx) \<or> ok)"
  by (simp add: writes_open_def result_simps)

lemma current_rules_Inr:
  assumes "current_rules env cx db = Inr s"
  shows "rules_current env cx db s"
  using assms
  by (auto simp: current_rules_def rules_current_def result_simps find_settings_def find_Some_iff
      split: option.splits if_splits)

lemma locked_item_Inr:
  assumes "locked_item cx i e db = Inr a"
  shows "a \<in> set (an_items db)" "an_id a = i" "an_organization_id a = rq_organization_id (cx_request cx)"
    "an_edition_id a = rq_edition_id (cx_request cx)" "an_version a = e"
  using assms by (auto simp: locked_item_def find_Some_iff split: option.splits if_splits)

lemma advance_Inr [result_simps]:
  "advance a db = Inr (db', a') \<longleftrightarrow> an_version a < MAX_HISTORY \<and> 0 < an_version a + 1
     \<and> a' = a\<lparr>an_version := an_version a + 1\<rparr>
     \<and> db' = db\<lparr>an_items := map (\<lambda>x. if an_id x = an_id a then a\<lparr>an_version := an_version a + 1\<rparr> else x) (an_items db)\<rparr>"
proof -
  have "an_version a < MAX_HISTORY \<Longrightarrow> 0 < an_version a + 1 \<Longrightarrow> positive_big_integer (an_version a + 1)"
    by (simp add: MAX_HISTORY_def positive_big_integer_def)
  then show ?thesis
    by (auto simp: advance_def announcement_save_def result_simps Let_def)
qed

lemma channel_table_Some: "channel_table cs code = Some c \<Longrightarrow> c \<in> set cs \<and> mc_code c = code"
  by (auto simp: channel_table_def dest!: map_of_SomeD)

lemma channel_table_None: "channel_table cs code = None \<longleftrightarrow> code \<notin> mc_code ` set cs"
  by (auto simp: channel_table_def map_of_eq_None_iff image_iff)

lemma variant_written_mono: "variant_written e i ls cs v \<Longrightarrow> ls \<subseteq> ms \<Longrightarrow> variant_written e i ms cs v"
  by (auto simp: variant_written_def)

lemma new_variant_written:
  assumes "channel_table cs (vi_channel_code x) = Some ch"
  shows "variant_written (evidence_of cx) i (insert (vi_language_code x) ls) cs (new_variant u cx i ch x)"
  using channel_table_Some [OF assms] by (auto simp: variant_written_def new_variant_def copy_digest_def)

lemma write_variants:
  assumes "foldE (write_variant dw cx i (channel_table cs)) (List.enumerate n xs) db = Inr db'"
  shows "\<exists>vs. db' = db\<lparr>an_variants := an_variants db @ vs\<rparr> \<and> length vs = length xs
    \<and> (distinct (map va_id (an_variants db)) \<longrightarrow> distinct (map va_id (an_variants db @ vs)))
    \<and> (\<forall>v \<in> set vs. variant_written (evidence_of cx) i (vi_language_code ` set xs) cs v)"
  using assms
proof (induction xs arbitrary: n db)
  case Nil
  then show ?case by (auto intro: exI [of _ "[]"])
next
  case (Cons x xs)
  from Cons.prems obtain ch db1 where ch: "channel_table cs (vi_channel_code x) = Some ch"
      and db1: "db1 = db\<lparr>an_variants := an_variants db @ [new_variant (dw_variant dw n) cx i ch x]\<rparr>"
      and new: "\<forall>v \<in> set (an_variants db). va_id v \<noteq> dw_variant dw n"
      and rest: "foldE (write_variant dw cx i (channel_table cs)) (List.enumerate (Suc n) xs) db1 = Inr db'"
    by (auto simp: bindE_eq_Inr write_variant_def variant_create_def saving_eq_Inr list_ex_iff new_variant_def
        split: option.splits)
  define v where "v = new_variant (dw_variant dw n) cx i ch x"
  from Cons.IH [OF rest] obtain vs where vs: "db' = db1\<lparr>an_variants := an_variants db1 @ vs\<rparr>" "length vs = length xs"
      "distinct (map va_id (an_variants db1)) \<longrightarrow> distinct (map va_id (an_variants db1 @ vs))"
      "\<forall>v \<in> set vs. variant_written (evidence_of cx) i (vi_language_code ` set xs) cs v"
    by blast
  have "db' = db\<lparr>an_variants := an_variants db @ v # vs\<rparr>" using vs(1) by (simp add: db1 v_def)
  moreover have "distinct (map va_id (an_variants db)) \<longrightarrow> distinct (map va_id (an_variants db @ v # vs))"
    using vs(3) new by (auto simp: db1 v_def new_variant_def)
  moreover have "\<forall>v \<in> set (v # vs). variant_written (evidence_of cx) i (vi_language_code ` set (x # xs)) cs v"
    using vs(4) new_variant_written [OF ch] by (auto simp: v_def intro: variant_written_mono)
  ultimately show ?case
    using vs(2) by (intro exI [of _ "v # vs"]) simp
qed

text \<open>Recording a revision adds one copy, numbered after the current one.\<close>

lemma write_revision_Inr:
  assumes "write_revision dw cx a d s db = Inr (db', a', v)" and "1 \<le> length (di_variants d)"
    and "length (di_variants d) \<le> MAX_VARIANTS"
  shows "\<exists>vs. db' = db\<lparr>an_revisions := an_revisions db @ [v], an_variants := an_variants db @ vs\<rparr>
    \<and> a' = a\<lparr>an_current_revision := Some (rv_id v), an_status := ANN_DRAFT\<rparr> \<and> rv_announcement v = an_id a
    \<and> copy_written (evidence_of cx) db s (es_language_codes (as_edition (cx_scope cx))) v vs
    \<and> linked dw db a v"
proof -
  define languages where "languages = es_language_codes (as_edition (cx_scope cx))"
  from assms(1) obtain prev where prev: "dereference (find_revision db) (an_current_revision a) = Inr prev"
      and v: "rv_evidence v = evidence_of cx" "rv_settings_revision v = sr_id s" "rv_announcement v = an_id a"
        "rv_number v = (case prev of None \<Rightarrow> 1 | Some p \<Rightarrow> rv_number p + 1)" "rv_previous_revision v = map_option rv_id prev"
        "(rv_base_approved_revision v, rv_round_id v) = (case prev of None \<Rightarrow> (an_approved_revision a, dw_round dw)
           | Some p \<Rightarrow> next_round dw a p)"
        "rv_number v \<le> MAX_REVISIONS" "rv_language_code v = di_language_code d"
        "sum_list (map rv_text_bytes (filter (\<lambda>x. rv_announcement x = an_id a) (an_revisions db))) + rv_text_bytes v
          \<le> MAX_STORED_TEXT_BYTES"
      and ok: "di_language_code d \<in> set languages" "\<forall>x \<in> set (di_variants d). vi_language_code x \<in> set languages"
      and new: "\<forall>x \<in> set (an_revisions db). rv_id x \<noteq> rv_id v" "0 < rv_text_bytes v"
      and fold: "foldE (write_variant dw cx (rv_id v) (channel_table (sr_channels s))) (List.enumerate 0 (di_variants d))
            (db\<lparr>an_revisions := an_revisions db @ [v]\<rparr>) = Inr db'"
      and a': "a' = a\<lparr>an_current_revision := Some (rv_id v), an_status := ANN_DRAFT\<rparr>"
    by (auto simp: write_revision_def revision_create_def result_simps Let_def list_ex_iff languages_def next_round_def
        split: if_splits option.splits prod.splits)
  from write_variants [OF fold] obtain vs where
      vs: "db' = db\<lparr>an_revisions := an_revisions db @ [v], an_variants := an_variants db @ vs\<rparr>"
        "length vs = length (di_variants d)"
        "distinct (map va_id (an_variants db)) \<longrightarrow> distinct (map va_id (an_variants db @ vs))"
        "\<forall>x \<in> set vs. variant_written (evidence_of cx) (rv_id v) (vi_language_code ` set (di_variants d)) (sr_channels s) x"
    by auto
  have "copy_written (evidence_of cx) db s languages v vs"
    using v ok new vs assms(2,3) unfolding copy_written_def
    by (auto intro: variant_written_mono)
  moreover have "linked dw db a v"
    using prev v(4-6) by (auto simp: linked_def result_simps find_revision_def find_Some_iff split: option.splits) 
  ultimately show ?thesis using vs(1) a' v(3) by (auto simp: languages_def)
qed

lemma normalize_draft_variants:
  assumes "normalize_draft nfc raw = Inr d"
  shows "1 \<le> length (di_variants d)" "length (di_variants d) \<le> MAX_VARIANTS"
  using assms by (auto simp: normalize_draft_def result_simps split: typed.splits if_splits dest: list_all2_lengthD)

definition channels_normal :: "channel list \<Rightarrow> bool" where
  "channels_normal cs \<longleftrightarrow> 1 \<le> length cs \<and> length cs \<le> MAX_CHANNELS \<and> distinct (map mc_code cs)
     \<and> (\<forall>c \<in> set cs. is_ok (channel_code (Typed (mc_code c))) \<and> 1 \<le> length (mc_label c) \<and> length (mc_label c) \<le> 100
          \<and> length (mc_url c) \<le> 2000)"

lemma plain_text_Inr:
  assumes "plain_text nfc m required v = Inr s"
  shows "length s \<le> m" "required \<Longrightarrow> s \<noteq> []"
  using assms by (auto simp: plain_text_def Let_def split: typed.splits if_splits)

lemma channel_code_Inr: "channel_code v = Inr s \<Longrightarrow> v = Typed s"
  by (auto simp: channel_code_def split: typed.splits list.splits if_splits)

lemma normalize_channel_Inr:
  assumes "normalize_channel nfc https v = Inr c"
  shows "is_ok (channel_code (Typed (mc_code c))) \<and> 1 \<le> length (mc_label c) \<and> length (mc_label c) \<le> 100
    \<and> length (mc_url c) \<le> 2000"
proof -
  from assms obtain item :: "string typed ManualChannel" where i: "channel_code (mc_code item) = Inr (mc_code c)"
      "plain_text nfc 100 True (mc_label item) = Inr (mc_label c)" "safe_url nfc https (mc_url item) = Inr (mc_url c)"
    by (auto simp: normalize_channel_def result_simps split: typed.splits)
  have "is_ok (channel_code (Typed (mc_code c)))" using channel_code_Inr [OF i(1)] i(1) by simp
  moreover have "length (mc_url c) \<le> 2000"
    using i(3) by (auto simp: safe_url_def result_simps split: if_splits dest: plain_text_Inr)
  moreover have "mc_label c \<noteq> []" "length (mc_label c) \<le> 100" using plain_text_Inr [OF i(2)] by simp_all
  ultimately show ?thesis by (simp add: Suc_le_eq)
qed

lemma normalize_settings_channels:
  assumes "normalize_settings nfc https raw = Inr s"
  shows "channels_normal (si_channels s)"
proof -
  from assms obtain items cs where cs: "mapE (normalize_channel nfc https) items = Inr cs" "distinct (map mc_code cs)"
      "1 \<le> length items" "length items \<le> MAX_CHANNELS" "si_channels s = sort_key mc_code cs"
    by (auto simp: normalize_settings_def bindE_eq_Inr split: typed.splits if_splits)
  have "length cs = length items" using cs(1) by (auto simp: mapE_eq_Inr dest: list_all2_lengthD)
  moreover have "is_ok (channel_code (Typed (mc_code c))) \<and> 1 \<le> length (mc_label c) \<and> length (mc_label c) \<le> 100
      \<and> length (mc_url c) \<le> 2000" if "c \<in> set cs" for c
  proof -
    from that cs(1) obtain x where "normalize_channel nfc https x = Inr c"
      by (auto simp: mapE_eq_Inr list_all2_conv_all_nth in_set_conv_nth)
    then show ?thesis by (rule normalize_channel_Inr)
  qed
  moreover have "distinct (map mc_code (sort_key mc_code cs))"
    using cs(2) by (simp add: distinct_map)
  ultimately show ?thesis using cs(3-5) by (simp add: channels_normal_def)
qed

section \<open>The changes of a committed command\<close>

inductive commits :: "announcement_env \<Rightarrow> draw \<Rightarrow> AnnouncementCommandRequest \<Rightarrow> AuthorizedAnnouncementScope \<Rightarrow> announcement_db
    \<Rightarrow> announcement_db \<Rightarrow> AnnouncementCommandReceipt \<Rightarrow> bool" for env dw rq scope db where
  commit_settings:
    "closing dw rq db c r \<Longrightarrow> es_accepts_writes (as_edition scope)
     \<Longrightarrow> c = (prior_control dw rq db)\<lparr>ct_sequence := ct_sequence (prior_control dw rq db) + 1,
           ct_settings_version := ct_settings_version (prior_control dw rq db) + 1, ct_current_settings := Some (sr_id s)\<rparr>
     \<Longrightarrow> sr_evidence s = evidence_in dw rq \<Longrightarrow> sr_number s = ct_settings_version c \<Longrightarrow> channels_normal (sr_channels s)
     \<Longrightarrow> \<forall>x \<in> set (an_settings db). sr_id x \<noteq> sr_id s
           \<and> (ce_organization_id (sr_evidence x) = rq_organization_id rq \<and> ce_edition_id (sr_evidence x) = rq_edition_id rq
              \<longrightarrow> \<not> channel_identity_changed (sr_channels x) (sr_channels s))
     \<Longrightarrow> today_of env (context_of dw rq scope db) \<le> sr_review_on s
     \<Longrightarrow> cr_operation r = ''settings_update'' \<Longrightarrow> cr_announcement r = None \<Longrightarrow> cr_object_id r = sr_id s
     \<Longrightarrow> cr_resulting_version r = sr_number s
     \<Longrightarrow> commits env dw rq scope db (after db c None [s] [] [] [] [] r) r"
| commit_stopped:
    "closing dw rq db c r \<Longrightarrow> es_accepts_writes (as_edition scope)
     \<Longrightarrow> c = (prior_control dw rq db)\<lparr>ct_sequence := ct_sequence (prior_control dw rq db) + 1,
           ct_settings_version := ct_settings_version (prior_control dw rq db) + 1, ct_stopped := stop\<rparr>
     \<Longrightarrow> ct_stopped (prior_control dw rq db) \<noteq> stop \<Longrightarrow> 1 \<le> ct_settings_version (prior_control dw rq db)
     \<Longrightarrow> (\<not> stop \<Longrightarrow> rules_current env ((context_of dw rq scope db)\<lparr>cx_control := c\<rparr>) db s)
     \<Longrightarrow> cr_operation r = (if stop then ''stop'' else ''resume'') \<Longrightarrow> cr_announcement r = None
     \<Longrightarrow> cr_object_id r = ct_id c \<Longrightarrow> cr_resulting_version r = ct_settings_version c
     \<Longrightarrow> commits env dw rq scope db (after db c None [] [] [] [] [] r) r"
| commit_create:
    "closing dw rq db c r \<Longrightarrow> rules_current env (context_of dw rq scope db) db s
     \<Longrightarrow> c = (prior_control dw rq db)\<lparr>ct_sequence := ct_sequence (prior_control dw rq db) + 1\<rparr>
     \<Longrightarrow> a = (new_announcement i rq)\<lparr>an_current_revision := Some (rv_id v)\<rparr> \<Longrightarrow> \<forall>x \<in> set (an_items db). an_id x \<noteq> i
     \<Longrightarrow> copy_written (evidence_in dw rq) db s (es_language_codes (as_edition scope)) v vs \<Longrightarrow> rv_announcement v = i
     \<Longrightarrow> rv_number v = 1 \<Longrightarrow> rv_previous_revision v = None \<Longrightarrow> rv_base_approved_revision v = None
     \<Longrightarrow> rv_round_id v = dw_round dw
     \<Longrightarrow> cr_operation r = ''create'' \<Longrightarrow> cr_announcement r = Some i \<Longrightarrow> cr_object_id r = i \<Longrightarrow> cr_resulting_version r = 1
     \<Longrightarrow> commits env dw rq scope db (after db c (Some a) [] [v] vs [] [] r) r"
| commit_revise:
    "closing dw rq db c r \<Longrightarrow> rules_current env (context_of dw rq scope db) db s
     \<Longrightarrow> c = (prior_control dw rq db)\<lparr>ct_sequence := ct_sequence (prior_control dw rq db) + 1\<rparr>
     \<Longrightarrow> a \<in> set (an_items db) \<Longrightarrow> an_organization_id a = rq_organization_id rq \<Longrightarrow> an_edition_id a = rq_edition_id rq
     \<Longrightarrow> an_version a < MAX_HISTORY \<Longrightarrow> an_status a \<noteq> ANN_CANCELLED
     \<Longrightarrow> copy_written (evidence_in dw rq) db s (es_language_codes (as_edition scope)) v vs \<Longrightarrow> rv_announcement v = an_id a
     \<Longrightarrow> linked dw db a v
     \<Longrightarrow> cr_operation r = ''revise'' \<Longrightarrow> cr_announcement r = Some (an_id a) \<Longrightarrow> cr_object_id r = rv_id v
     \<Longrightarrow> cr_resulting_version r = an_version a + 1
     \<Longrightarrow> commits env dw rq scope db (after db c (Some (head_after ''revise'' (rv_id v) a)) [] [v] vs [] [] r) r"
| commit_request:
    "closing dw rq db c r \<Longrightarrow> rules_current env (context_of dw rq scope db) db s
     \<Longrightarrow> c = (prior_control dw rq db)\<lparr>ct_sequence := ct_sequence (prior_control dw rq db) + 1\<rparr>
     \<Longrightarrow> a \<in> set (an_items db) \<Longrightarrow> an_organization_id a = rq_organization_id rq \<Longrightarrow> an_edition_id a = rq_edition_id rq
     \<Longrightarrow> an_version a < MAX_HISTORY \<Longrightarrow> an_status a = ANN_DRAFT \<Longrightarrow> an_current_revision a = Some i
     \<Longrightarrow> \<forall>w \<in> set (an_reviews db). rw_revision w \<noteq> i
     \<Longrightarrow> cr_operation r = ''request_review'' \<Longrightarrow> cr_announcement r = Some (an_id a) \<Longrightarrow> cr_object_id r = i
     \<Longrightarrow> cr_resulting_version r = an_version a + 1
     \<Longrightarrow> commits env dw rq scope db (after db c (Some (head_after ''request_review'' i a)) [] [] [] [] [] r) r"
| commit_review:
    "closing dw rq db c r \<Longrightarrow> rules_current env (context_of dw rq scope db) db s
     \<Longrightarrow> c = (prior_control dw rq db)\<lparr>ct_sequence := ct_sequence (prior_control dw rq db) + 1\<rparr>
     \<Longrightarrow> a \<in> set (an_items db) \<Longrightarrow> an_organization_id a = rq_organization_id rq \<Longrightarrow> an_edition_id a = rq_edition_id rq
     \<Longrightarrow> an_version a < MAX_HISTORY \<Longrightarrow> an_status a = ANN_IN_REVIEW
     \<Longrightarrow> p \<in> set (an_revisions db) \<Longrightarrow> an_current_revision a = Some (rv_id p)
     \<Longrightarrow> \<forall>x \<in> set (an_revisions db). rv_announcement x = an_id a \<and> rv_round_id x = rv_round_id p
           \<longrightarrow> ce_actor_id (rv_evidence x) \<noteq> rq_actor_id rq
     \<Longrightarrow> rw_evidence w = evidence_in dw rq \<Longrightarrow> rw_revision w = rv_id p
     \<Longrightarrow> rw_decision w = ''approve'' \<or> rw_decision w = ''changes_requested'' \<and> rw_note w \<noteq> []
     \<Longrightarrow> \<forall>x \<in> set (an_reviews db). rw_id x \<noteq> rw_id w \<and> rw_revision x \<noteq> rv_id p
     \<Longrightarrow> cr_operation r = rw_decision w \<Longrightarrow> cr_announcement r = Some (an_id a) \<Longrightarrow> cr_object_id r = rw_id w
     \<Longrightarrow> cr_resulting_version r = an_version a + 1
     \<Longrightarrow> commits env dw rq scope db (after db c (Some (head_after (rw_decision w) (rv_id p) a)) [] [] [] [w] [] r) r"
| commit_report:
    "closing dw rq db c r \<Longrightarrow> es_accepts_writes (as_edition scope)
     \<Longrightarrow> c = (prior_control dw rq db)\<lparr>ct_sequence := ct_sequence (prior_control dw rq db) + 1\<rparr>
     \<Longrightarrow> a \<in> set (an_items db) \<Longrightarrow> an_organization_id a = rq_organization_id rq \<Longrightarrow> an_edition_id a = rq_edition_id rq
     \<Longrightarrow> an_version a < MAX_HISTORY \<Longrightarrow> length (reports_of db (an_id a)) < MAX_REPORTS
     \<Longrightarrow> pr_evidence p = evidence_in dw rq \<Longrightarrow> variant_of_item db (pr_variant p) (an_id a)
     \<Longrightarrow> reportable rq db a p
     \<Longrightarrow> (\<And>t. pr_published_at p = Some t \<Longrightarrow> t \<le> dw_clock dw)
     \<Longrightarrow> (pr_withdrawn p \<Longrightarrow> pr_publication_url p = [] \<and> pr_published_at p = None)
     \<Longrightarrow> \<forall>x \<in> set (an_reports db). pr_id x \<noteq> pr_id p
     \<Longrightarrow> cr_operation r = (if pr_supersedes_report p = None then ''record_publication''
           else if pr_withdrawn p then ''withdraw_report'' else ''correct_publication'')
     \<Longrightarrow> cr_announcement r = Some (an_id a) \<Longrightarrow> cr_object_id r = pr_id p \<Longrightarrow> cr_resulting_version r = an_version a + 1
     \<Longrightarrow> commits env dw rq scope db (after db c (Some (head_after (cr_operation r) (pr_id p) a)) [] [] [] [] [p] r) r"
| commit_cancel:
    "closing dw rq db c r \<Longrightarrow> es_accepts_writes (as_edition scope)
     \<Longrightarrow> c = (prior_control dw rq db)\<lparr>ct_sequence := ct_sequence (prior_control dw rq db) + 1\<rparr>
     \<Longrightarrow> a \<in> set (an_items db) \<Longrightarrow> an_organization_id a = rq_organization_id rq \<Longrightarrow> an_edition_id a = rq_edition_id rq
     \<Longrightarrow> an_version a < MAX_HISTORY \<Longrightarrow> an_status a \<noteq> ANN_CANCELLED
     \<Longrightarrow> cr_operation r = ''cancel'' \<Longrightarrow> cr_announcement r = Some (an_id a) \<Longrightarrow> cr_object_id r = an_id a
     \<Longrightarrow> cr_resulting_version r = an_version a + 1
     \<Longrightarrow> commits env dw rq scope db (after db c (Some (head_after ''cancel'' (an_id a) a)) [] [] [] [] [] r) r"

section \<open>The transaction commits those changes\<close>

lemma locked_control_Inr:
  assumes "locked_control (dw_control dw) rq db = Inr (db0, c)"
  shows "c = prior_control dw rq db" "ct_organization_id c = rq_organization_id rq" "ct_edition_id c = rq_edition_id rq"
    "db0 = db\<lparr>an_controls := an_controls db0\<rparr>"
    "c \<in> set (an_controls db) \<and> an_controls db0 = an_controls db
     \<or> c = new_control (dw_control dw) rq \<and> an_controls db0 = an_controls db @ [c]
       \<and> (\<forall>x \<in> set (an_controls db). ct_id x \<noteq> ct_id c \<and> ct_edition_id x \<noteq> rq_edition_id rq)"
proof -
  have "c = prior_control dw rq db \<and> ct_organization_id c = rq_organization_id rq \<and> ct_edition_id c = rq_edition_id rq
     \<and> db0 = db\<lparr>an_controls := an_controls db0\<rparr>
     \<and> (c \<in> set (an_controls db) \<and> an_controls db0 = an_controls db
     \<or> c = new_control (dw_control dw) rq \<and> an_controls db0 = an_controls db @ [c]
       \<and> (\<forall>x \<in> set (an_controls db). ct_id x \<noteq> ct_id c \<and> ct_edition_id x \<noteq> rq_edition_id rq))"
  proof (cases "find_control rq db")
    case None
    then show ?thesis
      using assms by (auto simp: locked_control_def prior_control_def control_create_def new_control_def result_simps list_ex_iff)
  next
    case (Some x)
    then have "x \<in> set (an_controls db)" "ct_organization_id x = rq_organization_id rq" "ct_edition_id x = rq_edition_id rq"
      by (auto simp: find_control_def find_Some_iff)
    then show ?thesis
      using assms Some by (auto simp: locked_control_def prior_control_def)
  qed
  then show "c = prior_control dw rq db" "ct_organization_id c = rq_organization_id rq" "ct_edition_id c = rq_edition_id rq"
    "db0 = db\<lparr>an_controls := an_controls db0\<rparr>"
    "c \<in> set (an_controls db) \<and> an_controls db0 = an_controls db
     \<or> c = new_control (dw_control dw) rq \<and> an_controls db0 = an_controls db @ [c]
       \<and> (\<forall>x \<in> set (an_controls db). ct_id x \<noteq> ct_id c \<and> ct_edition_id x \<noteq> rq_edition_id rq)"
    by blast+
qed

lemma transaction_frame:
  assumes lc: "locked_control (dw_control dw) rq db = Inr (db0, c)"
    and same: "an_controls db1 = an_controls db0" "an_receipts db1 = an_receipts db0"
    and c1: "ct_id c1 = ct_id c" "ct_organization_id c1 = ct_organization_id c" "ct_edition_id c1 = ct_edition_id c"
      "ct_sequence c1 = ct_sequence c + 1"
    and save: "control_save c1 db1 = Inr db2"
    and r: "r = new_receipt (dw_receipt dw) (dw_now dw) rq operation digest reason (ct_sequence c1) announcement object ver"
    and create: "command_receipt_create r db2 = Inr db3"
  shows "db3 = db1\<lparr>an_controls := upsert ct_id c1 (an_controls db), an_receipts := an_receipts db @ [r]\<rparr>"
    "closing dw rq db c1 r"
proof -
  note lc' = locked_control_Inr [OF lc]
  have "an_controls db2 = upsert ct_id c1 (an_controls db)"
  proof -
    have "an_controls db2 = map (\<lambda>x. if ct_id x = ct_id c1 then c1 else x) (an_controls db0)"
      using save same by (auto simp: control_save_def result_simps)
    then show ?thesis
      using lc'(5) c1(1) replace_appended [of "an_controls db" ct_id c c1] upsert_replace [of c "an_controls db" ct_id c1]
      by auto
  qed
  moreover have "db2 = db1\<lparr>an_controls := an_controls db2\<rparr>"
    using save by (auto simp: control_save_def result_simps)
  moreover have db3: "db3 = db2\<lparr>an_receipts := an_receipts db2 @ [r]\<rparr>" "\<forall>x \<in> set (an_receipts db2). cr_id x \<noteq> cr_id r"
    using create by (auto simp: command_receipt_create_def result_simps list_ex_iff)
  moreover have "an_receipts db2 = an_receipts db"
    using save same(2) arg_cong [OF lc'(4), of an_receipts] by (auto simp: control_save_def result_simps)
  ultimately show "db3 = db1\<lparr>an_controls := upsert ct_id c1 (an_controls db), an_receipts := an_receipts db @ [r]\<rparr>"
    by (metis (no_types, lifting) announcement_db.update_convs(1,8) announcement_db.surjective)
  show "closing dw rq db c1 r"
    using lc' c1 db3(2) \<open>an_receipts db2 = an_receipts db\<close> unfolding closing_def
    by (auto simp: r new_receipt_def)
qed

definition transacts :: "draw \<Rightarrow> AnnouncementCommandRequest \<Rightarrow> AuthorizedAnnouncementScope \<Rightarrow> string \<Rightarrow> writer
    \<Rightarrow> announcement_db \<Rightarrow> announcement_db \<Rightarrow> AnnouncementCommandReceipt \<Rightarrow> bool" where
  "transacts dw rq scope operation write db db' r \<longleftrightarrow>
     (\<exists>db0 db1 db2 c1 object announcement ver digest reason.
        locked_control (dw_control dw) rq db = Inr (db0, prior_control dw rq db)
        \<and> write (context_of dw rq scope db) db0 = Inr (db1, c1, object, announcement, ver)
        \<and> control_save (c1\<lparr>ct_sequence := ct_sequence c1 + 1\<rparr>) db1 = Inr db2
        \<and> r = new_receipt (dw_receipt dw) (dw_now dw) rq operation digest reason (ct_sequence c1 + 1) announcement object ver
        \<and> command_receipt_create r db2 = Inr db')"

lemma commit_command_transacts:
  assumes "commit_command env dw rq (operation, intent, reason, write) scope w = Inr (w', r)"
  shows "transacts dw rq scope operation write (wd_announcements w) (wd_announcements w') r"
proof -
  from assms obtain db0 c db1 c1 object announcement ver db2 db3 scope3 where
      lc: "locked_control (dw_control dw) rq (wd_announcements w) = Inr (db0, c)"
      and wr: "write \<lparr>cx_request = rq, cx_scope = scope, cx_control = c, cx_receipt_id = dw_receipt dw, cx_occurred_at = dw_now dw\<rparr>
         db0 = Inr (db1, c1, object, announcement, ver)"
      and save: "control_save (c1\<lparr>ct_sequence := ct_sequence c1 + 1\<rparr>) db1 = Inr db2"
      and r: "r = new_receipt (dw_receipt dw) (dw_now dw) rq operation (request_digest rq operation intent reason) reason
         (ct_sequence c1 + 1) announcement object ver"
      and create: "command_receipt_create r db2 = Inr db3"
      and w': "record_evidence env dw rq scope3 r (w\<lparr>wd_announcements := db3\<rparr>) = Inr w'"
    by (auto simp: commit_command_def bindE_eq_Inr Let_def split: if_splits prod.splits)
  have "c = prior_control dw rq (wd_announcements w)" by (rule locked_control_Inr(1) [OF lc])
  moreover have "wd_announcements w' = db3"
    using w' by (auto simp: record_evidence_def raising_def result_simps split: sum.splits prod.splits)
  ultimately show ?thesis
    using lc wr save r create unfolding transacts_def context_of_def by blast
qed

text \<open>The shape that a write must give for the commit to be described by \<open>after\<close>.\<close>

lemma transactsE:
  assumes "transacts dw rq scope operation write db db' r"
  obtains cs db1 c1 object announcement ver where
    "write (context_of dw rq scope db) (db\<lparr>an_controls := cs\<rparr>) = Inr (db1, c1, object, announcement, ver)"
    "cr_operation r = operation" "cr_announcement r = announcement" "cr_object_id r = object" "cr_resulting_version r = ver"
    "\<And>c a ss rs vs ws ps. ct_id c1 = ct_id (prior_control dw rq db)
       \<Longrightarrow> ct_organization_id c1 = ct_organization_id (prior_control dw rq db)
       \<Longrightarrow> ct_edition_id c1 = ct_edition_id (prior_control dw rq db) \<Longrightarrow> ct_sequence c1 = ct_sequence (prior_control dw rq db)
       \<Longrightarrow> an_controls db1 = cs \<Longrightarrow> an_settings db1 = an_settings db @ ss
       \<Longrightarrow> an_items db1 = (case a of None \<Rightarrow> an_items db | Some a \<Rightarrow> upsert an_id a (an_items db))
       \<Longrightarrow> an_revisions db1 = an_revisions db @ rs \<Longrightarrow> an_variants db1 = an_variants db @ vs
       \<Longrightarrow> an_reviews db1 = an_reviews db @ ws \<Longrightarrow> an_reports db1 = an_reports db @ ps \<Longrightarrow> an_receipts db1 = an_receipts db
       \<Longrightarrow> c = c1\<lparr>ct_sequence := ct_sequence c1 + 1\<rparr>
       \<Longrightarrow> db' = after db c a ss rs vs ws ps r \<and> closing dw rq db c r"
proof -
  from assms obtain db0 db1 db2 c1 object announcement ver digest reason where
      lc: "locked_control (dw_control dw) rq db = Inr (db0, prior_control dw rq db)"
      and wr: "write (context_of dw rq scope db) db0 = Inr (db1, c1, object, announcement, ver)"
      and save: "control_save (c1\<lparr>ct_sequence := ct_sequence c1 + 1\<rparr>) db1 = Inr db2"
      and r: "r = new_receipt (dw_receipt dw) (dw_now dw) rq operation digest reason (ct_sequence c1 + 1) announcement object ver"
      and create: "command_receipt_create r db2 = Inr db'"
    unfolding transacts_def by blast
  define cs where "cs = an_controls db0"
  have db0: "db0 = db\<lparr>an_controls := cs\<rparr>" using locked_control_Inr(4) [OF lc] by (simp add: cs_def)
  show thesis
  proof (rule that)
    show "write (context_of dw rq scope db) (db\<lparr>an_controls := cs\<rparr>) = Inr (db1, c1, object, announcement, ver)"
      using wr db0 by simp
    fix c a ss rs vs ws ps
    assume c1: "ct_id c1 = ct_id (prior_control dw rq db)"
        "ct_organization_id c1 = ct_organization_id (prior_control dw rq db)"
        "ct_edition_id c1 = ct_edition_id (prior_control dw rq db)" "ct_sequence c1 = ct_sequence (prior_control dw rq db)"
      and c: "c = c1\<lparr>ct_sequence := ct_sequence c1 + 1\<rparr>"
      and db1: "an_controls db1 = cs" "an_settings db1 = an_settings db @ ss"
        "an_items db1 = (case a of None \<Rightarrow> an_items db | Some a \<Rightarrow> upsert an_id a (an_items db))"
        "an_revisions db1 = an_revisions db @ rs" "an_variants db1 = an_variants db @ vs"
        "an_reviews db1 = an_reviews db @ ws" "an_reports db1 = an_reports db @ ps" "an_receipts db1 = an_receipts db"
    have same: "an_controls db1 = an_controls db0" "an_receipts db1 = an_receipts db0" "ct_id c = ct_id (prior_control dw rq db)"
        "ct_organization_id c = ct_organization_id (prior_control dw rq db)"
        "ct_edition_id c = ct_edition_id (prior_control dw rq db)" "ct_sequence c = ct_sequence (prior_control dw rq db) + 1"
      using c1 db1(1,8) by (simp_all add: c db0)
    have "control_save c db1 = Inr db2" using save by (simp add: c)
    moreover have "r = new_receipt (dw_receipt dw) (dw_now dw) rq operation digest reason (ct_sequence c) announcement object ver"
      using r by (simp add: c)
    ultimately have "db' = db1\<lparr>an_controls := upsert ct_id c (an_controls db), an_receipts := an_receipts db @ [r]\<rparr>"
        "closing dw rq db c r"
      using transaction_frame [OF lc same _ _ create] by blast+
    then show "db' = after db c a ss rs vs ws ps r \<and> closing dw rq db c r"
      by (simp add: after_def db1)
  qed (simp_all add: r new_receipt_def)
qed

lemma context_of_simps [simp]:
  "cx_request (context_of dw rq scope db) = rq" "cx_scope (context_of dw rq scope db) = scope"
  "cx_control (context_of dw rq scope db) = prior_control dw rq db"
  by (simp_all add: context_of_def)

lemma evidence_of_context [simp]: "evidence_of (context_of dw rq scope db) = evidence_in dw rq"
  by (simp add: context_of_def evidence_of_def evidence_in_def)

lemma rules_current_controls [simp]: "rules_current env cx (db\<lparr>an_controls := cs\<rparr>) s = rules_current env cx db s"
  by (simp add: rules_current_def)

lemma copy_written_controls [simp]: "copy_written e (db\<lparr>an_controls := cs\<rparr>) s ls v vs = copy_written e db s ls v vs"
  by (simp add: copy_written_def)

lemma head_after_other:
  assumes "operation \<noteq> ''revise''" and "operation \<noteq> ''approve''"
  shows "head_after operation object a = a\<lparr>an_version := an_version a + 1,
     an_status := (case status_after operation of None \<Rightarrow> an_status a | Some s \<Rightarrow> s)\<rparr>"
  using assms by (simp add: head_after_def)

lemma advance_upsert:
  assumes "a \<in> set xs" and "an_id a' = an_id a"
  shows "map (\<lambda>x. if an_id x = an_id a then a' else x) xs = upsert an_id a' xs"
  using upsert_replace [OF assms(1), of an_id a'] assms(2) by simp

end
