(* ===== verification/Announcement_Writes.thy ===== *)
theory Announcement_Writes
  imports Announcement_Commits
begin

text \<open>
  The refinement of the announcement transaction: every write of \<open>commands.py\<close> that succeeds inside
  \<open>execute\<close> makes one of the changes that \<open>commits\<close> describes.
\<close>

section \<open>Settings\<close>

lemma update_settings_write_Inr:
  assumes "update_settings_write env dw v e cx db = Inr (db1, c1, object, announcement, ver)"
  shows "es_accepts_writes (as_edition (cx_scope cx))" "ct_settings_version (cx_control cx) = e"
    "\<forall>x \<in> set (an_settings db). ce_organization_id (sr_evidence x) = rq_organization_id (cx_request cx)
       \<and> ce_edition_id (sr_evidence x) = rq_edition_id (cx_request cx) \<longrightarrow> \<not> channel_identity_changed (sr_channels x) (si_channels v)"
    "today_of env cx \<le> si_review_on v" "\<forall>x \<in> set (an_settings db). sr_id x \<noteq> dw_object dw"
    "db1 = db\<lparr>an_settings := an_settings db @ [new_settings (dw_object dw) (evidence_of cx) (e + 1) v]\<rparr>"
    "c1 = (cx_control cx)\<lparr>ct_settings_version := e + 1, ct_current_settings := Some (dw_object dw)\<rparr>"
    "object = dw_object dw" "announcement = None" "ver = e + 1"
proof -
  note 1 = assms [unfolded update_settings_write_def Let_def]
  from 1 have ok: "es_accepts_writes (as_edition (cx_scope cx))" "ct_settings_version (cx_control cx) = e"
      "\<not> si_review_on v < today_of env cx"
      "\<not> list_ex (\<lambda>s. ce_organization_id (sr_evidence s) = rq_organization_id (cx_request cx)
            \<and> ce_edition_id (sr_evidence s) = rq_edition_id (cx_request cx)
            \<and> channel_identity_changed (sr_channels s) (si_channels v)) (an_settings db)"
    by (simp_all add: result_simps split: if_splits)
  from 1 ok obtain db2 where s: "settings_create (new_settings (dw_object dw) (evidence_of cx) (e + 1) v) db = Inr db2"
      and out: "(db2, (cx_control cx)\<lparr>ct_settings_version := e + 1, ct_current_settings := Some (dw_object dw)\<rparr>,
        dw_object dw, None, e + 1) = (db1, c1, object, announcement, ver)"
    by (auto simp: bindE_eq_Inr writes_open_Inr)
  show "es_accepts_writes (as_edition (cx_scope cx))" "ct_settings_version (cx_control cx) = e"
    "today_of env cx \<le> si_review_on v" using ok by simp_all
  show "\<forall>x \<in> set (an_settings db). ce_organization_id (sr_evidence x) = rq_organization_id (cx_request cx)
       \<and> ce_edition_id (sr_evidence x) = rq_edition_id (cx_request cx) \<longrightarrow> \<not> channel_identity_changed (sr_channels x) (si_channels v)"
    using ok(4) by (auto simp: list_ex_iff)
  show "\<forall>x \<in> set (an_settings db). sr_id x \<noteq> dw_object dw"
    "db1 = db\<lparr>an_settings := an_settings db @ [new_settings (dw_object dw) (evidence_of cx) (e + 1) v]\<rparr>"
    using s out by (auto simp: settings_create_def saving_eq_Inr list_ex_iff new_settings_def)
  show "c1 = (cx_control cx)\<lparr>ct_settings_version := e + 1, ct_current_settings := Some (dw_object dw)\<rparr>"
    "object = dw_object dw" "announcement = None" "ver = e + 1" using out by auto
qed

lemma update_settings_commits:
  assumes "transacts dw rq scope ''settings_update'' (update_settings_write env dw v e) db db' r"
    and "channels_normal (si_channels v)"
  shows "commits env dw rq scope db db' r"
  using assms(1)
proof (cases rule: transactsE)
  case (1 cs db1 c1 object announcement ver)
  define s where "s = new_settings (dw_object dw) (evidence_in dw rq) (e + 1) v"
  note w = update_settings_write_Inr [OF 1(1)]
  define c where "c = c1\<lparr>ct_sequence := ct_sequence c1 + 1\<rparr>"
  have s: "sr_id s = dw_object dw" "sr_evidence s = evidence_in dw rq" "sr_number s = e + 1"
      "sr_channels s = si_channels v" "sr_review_on s = si_review_on v"
    by (simp_all add: s_def new_settings_def)
  have "db' = after db c None [s] [] [] [] [] r \<and> closing dw rq db c r"
    by (rule 1(6)) (simp_all add: c_def w(6,7) s_def)
  then show ?thesis
    using commit_settings [of dw rq db c r scope s env] w(1-5,7-10) s 1(2-5) assms(2)
    by (simp add: c_def)
qed

lemma set_stopped_write_Inr:
  assumes "set_stopped_write env stop e cx db = Inr (db1, c1, object, announcement, ver)"
  shows "es_accepts_writes (as_edition (cx_scope cx))" "ct_settings_version (cx_control cx) = e"
    "ct_stopped (cx_control cx) \<noteq> stop" "db1 = db"
    "c1 = (cx_control cx)\<lparr>ct_settings_version := e + 1, ct_stopped := stop\<rparr>"
    "object = ct_id (cx_control cx)" "announcement = None" "ver = e + 1"
    "\<exists>s. \<not> stop \<longrightarrow> rules_current env (cx\<lparr>cx_control := (cx_control cx)\<lparr>ct_stopped := False\<rparr>\<rparr>) db s"
proof -
  note 1 = assms [unfolded set_stopped_write_def Let_def]
  from 1 have ok: "es_accepts_writes (as_edition (cx_scope cx))" "ct_settings_version (cx_control cx) = e"
      "ct_stopped (cx_control cx) \<noteq> stop"
    by (simp_all add: result_simps split: if_splits)
  then show "es_accepts_writes (as_edition (cx_scope cx))" "ct_settings_version (cx_control cx) = e"
    "ct_stopped (cx_control cx) \<noteq> stop" by simp_all
  from 1 ok show "db1 = db" "c1 = (cx_control cx)\<lparr>ct_settings_version := e + 1, ct_stopped := stop\<rparr>"
    "object = ct_id (cx_control cx)" "announcement = None" "ver = e + 1"
    by (auto simp: bindE_eq_Inr split: if_splits)
  show "\<exists>s. \<not> stop \<longrightarrow> rules_current env (cx\<lparr>cx_control := (cx_control cx)\<lparr>ct_stopped := False\<rparr>\<rparr>) db s"
  proof (cases stop)
    case False
    then obtain s where "current_rules env (cx\<lparr>cx_control := (cx_control cx)\<lparr>ct_stopped := False\<rparr>\<rparr>) db = Inr s"
      using 1 ok by (auto simp: bindE_eq_Inr)
    then show ?thesis using current_rules_Inr by blast
  qed simp
qed

lemma set_stopped_commits:
  assumes "transacts dw rq scope (if stop then ''stop'' else ''resume'') (set_stopped_write env stop e) db db' r" and "1 \<le> e"
  shows "commits env dw rq scope db db' r"
  using assms(1)
proof (cases rule: transactsE)
  case (1 cs db1 c1 object announcement ver)
  note w = set_stopped_write_Inr [OF 1(1)]
  define c where "c = c1\<lparr>ct_sequence := ct_sequence c1 + 1\<rparr>"
  from w(9) obtain s where s: "\<not> stop \<longrightarrow> rules_current env
      ((context_of dw rq scope db)\<lparr>cx_control := (prior_control dw rq db)\<lparr>ct_stopped := False\<rparr>\<rparr>) db s"
    by auto
  then have "\<not> stop \<Longrightarrow> rules_current env ((context_of dw rq scope db)\<lparr>cx_control := c\<rparr>) db s"
    by (simp add: rules_current_def c_def w(5) today_of_def)
  moreover have "db' = after db c None [] [] [] [] [] r \<and> closing dw rq db c r"
    by (rule 1(6)) (simp_all add: c_def w(4,5))
  ultimately show ?thesis
    using commit_stopped [of dw rq db c r scope stop env s] w(1-3,5-8) assms(2) 1(2-5)
    by (simp add: c_def)
qed

section \<open>Copy\<close>

lemma announcement_create_Inr:
  "announcement_create a db = Inr db' \<Longrightarrow> (\<forall>x \<in> set (an_items db). an_id x \<noteq> an_id a) \<and> db' = db\<lparr>an_items := an_items db @ [a]\<rparr>"
  by (auto simp: announcement_create_def saving_eq_Inr list_ex_iff)

lemma announcement_save_Inr:
  "announcement_save a db = Inr db' \<Longrightarrow> db' = db\<lparr>an_items := map (\<lambda>x. if an_id x = an_id a then a else x) (an_items db)\<rparr>"
  by (simp add: announcement_save_def saving_eq_Inr)

lemma create_write_Inr:
  assumes "create_write env dw d e cx db = Inr (db1, c1, object, announcement, ver)"
  shows "\<exists>s db0 db2 a v. rules_current env cx db s
    \<and> announcement_create (new_announcement (dw_object dw) (cx_request cx)) db = Inr db0
    \<and> write_revision dw cx (new_announcement (dw_object dw) (cx_request cx)) d s db0 = Inr (db2, a, v)
    \<and> announcement_save a db2 = Inr db1
    \<and> c1 = cx_control cx \<and> object = an_id a \<and> announcement = Some (an_id a) \<and> ver = an_version a"
  using assms unfolding create_write_def
  by (auto simp: bindE_eq_Inr split: if_splits prod.splits dest!: current_rules_Inr)

lemma create_commits:
  assumes "transacts dw rq scope ''create'' (create_write env dw d e) db db' r"
    and d: "1 \<le> length (di_variants d)" "length (di_variants d) \<le> MAX_VARIANTS"
  shows "commits env dw rq scope db db' r"
  using assms(1)
proof (cases rule: transactsE)
  case (1 cs db1 c1 object announcement ver)
  define i :: uuid where "i = dw_object dw"
  define n where "n = new_announcement i rq"
  define db0 where "db0 = db\<lparr>an_controls := cs, an_items := an_items db @ [n]\<rparr>"
  from create_write_Inr [OF 1(1)] obtain s db2 a v where s: "rules_current env (context_of dw rq scope db) db s"
      and new: "\<forall>x \<in> set (an_items db). an_id x \<noteq> an_id n"
      and wr: "write_revision dw (context_of dw rq scope db) n d s db0 = Inr (db2, a, v)"
      and db1: "db1 = db2\<lparr>an_items := map (\<lambda>x. if an_id x = an_id a then a else x) (an_items db2)\<rparr>"
      and out: "c1 = prior_control dw rq db" "object = an_id a" "announcement = Some (an_id a)" "ver = an_version a"
    by (auto simp: n_def i_def db0_def dest!: announcement_create_Inr announcement_save_Inr)
  have n: "an_id n = i" "an_version n = 1" "an_current_revision n = None" "an_approved_revision n = None" "an_status n = ANN_DRAFT"
    by (simp_all add: n_def new_announcement_def)
  from write_revision_Inr [OF wr d] obtain vs where
      db2: "db2 = db0\<lparr>an_revisions := an_revisions db0 @ [v], an_variants := an_variants db0 @ vs\<rparr>"
      and a: "a = n\<lparr>an_current_revision := Some (rv_id v), an_status := ANN_DRAFT\<rparr>"
      and v: "rv_announcement v = i" "rv_number v = 1" "rv_previous_revision v = None" "rv_base_approved_revision v = None"
        "rv_round_id v = dw_round dw"
      and copy: "copy_written (evidence_in dw rq) db0 s (es_language_codes (as_edition scope)) v vs"
    by (auto simp: n linked_def)
  have a': "a = (new_announcement i rq)\<lparr>an_current_revision := Some (rv_id v)\<rparr>"
    by (simp add: a n_def new_announcement_def)
  have items: "map (\<lambda>x. if an_id x = an_id a then a else x) (an_items db @ [n]) = upsert an_id a (an_items db)"
    using new by (intro replace_appended) (auto simp: a)
  have copy': "copy_written (evidence_in dw rq) db s (es_language_codes (as_edition scope)) v vs"
    using copy by (simp add: copy_written_def db0_def)
  define c where "c = c1\<lparr>ct_sequence := ct_sequence c1 + 1\<rparr>"
  have "db' = after db c (Some a) [] [v] vs [] [] r \<and> closing dw rq db c r"
    using items by (intro 1(6)) (simp_all add: c_def out db1 db2 db0_def)
  moreover have "an_id a = i" "an_version a = 1" by (simp_all add: a n)
  ultimately show ?thesis
    using commit_create [of dw rq db c r env scope s a v i vs] s new a' v copy' 1(2-5) out
    by (simp add: c_def n)
qed

lemma revise_write_Inr:
  assumes "revise_write env dw i d e es cx db = Inr (db1, c1, object, announcement, ver)"
  shows "\<exists>s a db2 a2 v a3. rules_current env cx db s \<and> locked_item cx i e db = Inr a \<and> an_status a \<noteq> ANN_CANCELLED
    \<and> write_revision dw cx a d s db = Inr (db2, a2, v) \<and> advance a2 db2 = Inr (db1, a3)
    \<and> c1 = cx_control cx \<and> object = rv_id v \<and> announcement = Some (an_id a3) \<and> ver = an_version a3"
  using assms unfolding revise_write_def
  by (auto simp: bindE_eq_Inr split: if_splits prod.splits dest!: current_rules_Inr)

text \<open>Saving the advanced head replaces the row of the announcement.\<close>

lemma advance_head:
  assumes "advance a2 db2 = Inr (db1, a3)" and "a \<in> set (an_items db2)" and "an_id a2 = an_id a"
    and "a2\<lparr>an_version := an_version a2 + 1\<rparr> = head_after operation object a"
  shows "db1 = db2\<lparr>an_items := upsert an_id (head_after operation object a) (an_items db2)\<rparr>"
    "a3 = head_after operation object a" "an_version a2 < MAX_HISTORY"
  using assms by (simp_all add: advance_Inr advance_upsert head_after_def)

lemma head_after_keys [simp]:
  "an_id (head_after operation object a) = an_id a" "an_version (head_after operation object a) = an_version a + 1"
  "an_organization_id (head_after operation object a) = an_organization_id a"
  "an_edition_id (head_after operation object a) = an_edition_id a"
  by (simp_all add: head_after_def)

lemma locked_item_controls [simp]: "locked_item cx i e (db\<lparr>an_controls := cs\<rparr>) = locked_item cx i e db"
  by (simp add: locked_item_def)

lemma revise_commits:
  assumes "transacts dw rq scope ''revise'' (revise_write env dw i d e es) db db' r"
    and d: "1 \<le> length (di_variants d)" "length (di_variants d) \<le> MAX_VARIANTS"
  shows "commits env dw rq scope db db' r"
  using assms(1)
proof (cases rule: transactsE)
  case (1 cs db1 c1 object announcement ver)
  define db0 where "db0 = db\<lparr>an_controls := cs\<rparr>"
  from revise_write_Inr [OF 1(1)] obtain s a db2 a2 v a3 where s: "rules_current env (context_of dw rq scope db) db s"
      and li: "locked_item (context_of dw rq scope db) i e db = Inr a" and live: "an_status a \<noteq> ANN_CANCELLED"
      and wr: "write_revision dw (context_of dw rq scope db) a d s db0 = Inr (db2, a2, v)"
      and adv: "advance a2 db2 = Inr (db1, a3)"
      and out: "c1 = prior_control dw rq db" "object = rv_id v" "announcement = Some (an_id a3)" "ver = an_version a3"
    by (auto simp: db0_def)
  note a = locked_item_Inr [OF li]
  define h where "h = head_after ''revise'' (rv_id v) a"
  from write_revision_Inr [OF wr d] obtain vs where
      db2: "db2 = db0\<lparr>an_revisions := an_revisions db0 @ [v], an_variants := an_variants db0 @ vs\<rparr>"
      and a2: "a2 = a\<lparr>an_current_revision := Some (rv_id v), an_status := ANN_DRAFT\<rparr>"
      and v: "rv_announcement v = an_id a"
      and copy: "copy_written (evidence_in dw rq) db0 s (es_language_codes (as_edition scope)) v vs"
      and link: "linked dw db0 a v"
    unfolding context_of_simps evidence_of_context by blast
  have "a2\<lparr>an_version := an_version a2 + 1\<rparr> = h"
    by (simp add: a2 h_def head_after_def status_after.simps)
  moreover have "a \<in> set (an_items db2)" "an_id a2 = an_id a" using a(1) by (simp_all add: db2 db0_def a2)
  ultimately have head: "db1 = db2\<lparr>an_items := upsert an_id h (an_items db2)\<rparr>" "a3 = h" "an_version a2 < MAX_HISTORY"
    unfolding h_def by (rule advance_head [OF adv, rotated -1]; assumption?)+
  define c where "c = c1\<lparr>ct_sequence := ct_sequence c1 + 1\<rparr>"
  have "db' = after db c (Some h) [] [v] vs [] [] r \<and> closing dw rq db c r"
    by (rule 1(6)) (simp_all add: c_def out head db2 db0_def)
  moreover have "linked dw db a v" using link by (simp add: linked_def db0_def split: option.splits)
  ultimately show ?thesis
    using commit_revise [of dw rq db c r env scope s a v vs] s a live head(2,3) v copy 1(2-5) out
    by (simp add: c_def a2 db0_def h_def)
qed

section \<open>Review\<close>

lemma request_review_write_Inr:
  assumes "request_review_write env i e cx db = Inr (db1, c1, object, announcement, ver)"
  shows "\<exists>s a a3. rules_current env cx db s \<and> locked_item cx i e db = Inr a \<and> an_status a = ANN_DRAFT
    \<and> an_current_revision a = Some object \<and> (\<forall>w \<in> set (an_reviews db). rw_revision w \<noteq> object)
    \<and> advance (a\<lparr>an_status := ANN_IN_REVIEW\<rparr>) db = Inr (db1, a3)
    \<and> c1 = cx_control cx \<and> announcement = Some (an_id a3) \<and> ver = an_version a3"
  using assms unfolding request_review_write_def
  by (auto simp: bindE_eq_Inr list_ex_iff split: if_splits option.splits prod.splits dest!: current_rules_Inr)

lemma request_review_commits:
  assumes "transacts dw rq scope ''request_review'' (request_review_write env i e) db db' r"
  shows "commits env dw rq scope db db' r"
  using assms
proof (cases rule: transactsE)
  case (1 cs db1 c1 object announcement ver)
  from request_review_write_Inr [OF 1(1)] obtain s a a3 where s: "rules_current env (context_of dw rq scope db) db s"
      and li: "locked_item (context_of dw rq scope db) i e db = Inr a" and st: "an_status a = ANN_DRAFT"
      and cur: "an_current_revision a = Some object" and free: "\<forall>w \<in> set (an_reviews db). rw_revision w \<noteq> object"
      and adv: "advance (a\<lparr>an_status := ANN_IN_REVIEW\<rparr>) (db\<lparr>an_controls := cs\<rparr>) = Inr (db1, a3)"
      and out: "c1 = prior_control dw rq db" "announcement = Some (an_id a3)" "ver = an_version a3"
    by auto
  note a = locked_item_Inr [OF li]
  define h where "h = head_after ''request_review'' object a"
  have head: "db1 = db\<lparr>an_controls := cs, an_items := upsert an_id h (an_items db)\<rparr>" "a3 = h" "an_version a < MAX_HISTORY"
    using advance_head [OF adv, of a "''request_review''" object] a(1)
    by (simp_all add: h_def head_after_def status_after.simps)
  define c where "c = c1\<lparr>ct_sequence := ct_sequence c1 + 1\<rparr>"
  have "db' = after db c (Some h) [] [] [] [] [] r \<and> closing dw rq db c r"
    by (rule 1(6)) (simp_all add: c_def out head)
  then show ?thesis
    using commit_request [of dw rq db c r env scope s a object] s a st cur free head(2,3) 1(2-5) out
    by (simp add: c_def h_def)
qed

lemma review_write_Inr:
  assumes "review_write env dw i u e decision n cx db = Inr (db1, c1, object, announcement, ver)"
  shows "\<exists>s a p db2 a3. rules_current env cx db s \<and> locked_item cx i e db = Inr a \<and> an_status a = ANN_IN_REVIEW
    \<and> p \<in> set (an_revisions db) \<and> an_current_revision a = Some (rv_id p) \<and> rv_id p = u
    \<and> (\<forall>x \<in> set (an_revisions db). rv_announcement x = an_id a \<and> rv_round_id x = rv_round_id p
         \<longrightarrow> ce_actor_id (rv_evidence x) \<noteq> rq_actor_id (cx_request cx))
    \<and> review_create (new_review (dw_object dw) (evidence_of cx) u decision n) db = Inr db2
    \<and> advance (if decision = ''approve'' then a\<lparr>an_status := ANN_APPROVED, an_approved_revision := Some u\<rparr>
         else a\<lparr>an_status := ANN_CHANGES_REQUESTED\<rparr>) db2 = Inr (db1, a3)
    \<and> c1 = cx_control cx \<and> object = dw_object dw \<and> announcement = Some (an_id a3) \<and> ver = an_version a3"
proof -
  from assms obtain s a p where s: "rules_current env cx db s" and li: "locked_item cx i e db = Inr a"
      and p: "dereference (find_revision db) (an_current_revision a) = Inr (Some p)"
      and st: "an_status a = ANN_IN_REVIEW" "rv_id p = u"
      and free: "\<not> list_ex (\<lambda>r. rv_announcement r = an_id a \<and> rv_round_id r = rv_round_id p
                \<and> ce_actor_id (rv_evidence r) = rq_actor_id (cx_request cx)) (an_revisions db)"
      and rest: "bindE (review_create (new_review (dw_object dw) (evidence_of cx) u decision n) db) (\<lambda>db.
              bindE (advance (if decision = ''approve'' then a\<lparr>an_status := ANN_APPROVED, an_approved_revision := Some u\<rparr>
                else a\<lparr>an_status := ANN_CHANGES_REQUESTED\<rparr>) db) (\<lambda>(db, item).
                Inr (db, cx_control cx, dw_object dw, Some (an_id item), an_version item)))
           = Inr (db1, c1, object, announcement, ver)"
    unfolding review_write_def Let_def
    by (fastforce simp: bindE_eq_Inr [of "current_rules env cx db"] bindE_eq_Inr [of "locked_item cx i e db"]
        bindE_eq_Inr [of "dereference f k" for f k] split: if_splits option.splits dest!: current_rules_Inr)
  from p have "p \<in> set (an_revisions db)" "an_current_revision a = Some (rv_id p)"
    by (auto simp: dereference_eq_Inr find_revision_def find_Some_iff split: option.splits)
  then show ?thesis
    using s li st free rest by (auto simp: bindE_eq_Inr list_ex_iff)
qed

lemma review_create_Inr:
  "review_create w db = Inr db' \<Longrightarrow> (\<forall>x \<in> set (an_reviews db). rw_id x \<noteq> rw_id w \<and> rw_revision x \<noteq> rw_revision w)
   \<and> (rw_decision w = ''approve'' \<or> rw_decision w = ''changes_requested'' \<and> rw_note w \<noteq> [])
   \<and> db' = db\<lparr>an_reviews := an_reviews db @ [w]\<rparr>"
  by (auto simp: review_create_def saving_eq_Inr list_ex_iff)

lemma review_commits:
  assumes "transacts dw rq scope decision (review_write env dw i u e decision n) db db' r"
    and "decision = ''approve'' \<or> decision = ''changes_requested''"
  shows "commits env dw rq scope db db' r"
  using assms(1)
proof (cases rule: transactsE)
  case (1 cs db1 c1 object announcement ver)
  define w where "w = new_review (dw_object dw) (evidence_in dw rq) u decision n"
  have w: "rw_id w = dw_object dw" "rw_evidence w = evidence_in dw rq" "rw_revision w = u" "rw_decision w = decision"
    by (simp_all add: w_def new_review_def)
  from review_write_Inr [OF 1(1)] obtain s a p db2 a3 where s: "rules_current env (context_of dw rq scope db) db s"
      and li: "locked_item (context_of dw rq scope db) i e db = Inr a" and st: "an_status a = ANN_IN_REVIEW"
      and p: "p \<in> set (an_revisions db)" "an_current_revision a = Some (rv_id p)" "rv_id p = u"
      and free: "\<forall>x \<in> set (an_revisions db). rv_announcement x = an_id a \<and> rv_round_id x = rv_round_id p
         \<longrightarrow> ce_actor_id (rv_evidence x) \<noteq> rq_actor_id rq"
      and rc: "review_create w (db\<lparr>an_controls := cs\<rparr>) = Inr db2"
      and adv: "advance (if decision = ''approve'' then a\<lparr>an_status := ANN_APPROVED, an_approved_revision := Some u\<rparr>
         else a\<lparr>an_status := ANN_CHANGES_REQUESTED\<rparr>) db2 = Inr (db1, a3)"
      and out: "c1 = prior_control dw rq db" "object = dw_object dw" "announcement = Some (an_id a3)" "ver = an_version a3"
    unfolding w_def by auto
  note a = locked_item_Inr [OF li]
  have new: "\<forall>x \<in> set (an_reviews db). rw_id x \<noteq> rw_id w \<and> rw_revision x \<noteq> rv_id p"
      "rw_decision w = ''approve'' \<or> rw_decision w = ''changes_requested'' \<and> rw_note w \<noteq> []"
      and db2: "db2 = db\<lparr>an_controls := cs, an_reviews := an_reviews db @ [w]\<rparr>"
    using review_create_Inr [OF rc] w(3) p(3) by auto
  define h where "h = head_after decision (rv_id p) a"
  have head: "db1 = db\<lparr>an_controls := cs, an_reviews := an_reviews db @ [w], an_items := upsert an_id h (an_items db)\<rparr>" "a3 = h"
      "an_version a < MAX_HISTORY"
  proof -
    define m where "m = (if decision = ''approve'' then a\<lparr>an_status := ANN_APPROVED, an_approved_revision := Some u\<rparr>
         else a\<lparr>an_status := ANN_CHANGES_REQUESTED\<rparr>)"
    have m: "an_id m = an_id a" "an_version m = an_version a" by (simp_all add: m_def)
    have "m\<lparr>an_version := an_version m + 1\<rparr> = head_after decision (rv_id p) a"
      using assms(2) p(2,3) by (elim disjE) (simp_all add: m_def head_after_def status_after.simps)
    moreover have "a \<in> set (an_items db2)" using a(1) by (simp add: db2)
    ultimately show "db1 = db\<lparr>an_controls := cs, an_reviews := an_reviews db @ [w], an_items := upsert an_id h (an_items db)\<rparr>"
        "a3 = h" "an_version a < MAX_HISTORY"
      using advance_head [OF adv [folded m_def] _ m(1), of decision "rv_id p"] by (simp_all add: h_def m db2)
  qed
  define c where "c = c1\<lparr>ct_sequence := ct_sequence c1 + 1\<rparr>"
  have "db' = after db c (Some h) [] [] [] [w] [] r \<and> closing dw rq db c r"
    by (rule 1(6)) (simp_all add: c_def out head)
  then show ?thesis
    using commit_review [of dw rq db c r env scope s a p w] s a st p free w new head(2,3) 1(2-5) out
    by (simp add: c_def h_def)
qed

section \<open>Publication reports and cancellation\<close>

lemma report_create_Inr:
  assumes "report_create p db = Inr db'"
  shows "\<forall>x \<in> set (an_reports db). pr_id x \<noteq> pr_id p"
    "pr_supersedes_report p = None \<Longrightarrow> x \<in> set (an_reports db) \<Longrightarrow> pr_supersedes_report x = None \<Longrightarrow> pr_variant x \<noteq> pr_variant p"
    "pr_supersedes_report p \<noteq> None \<Longrightarrow> pr_reason p \<noteq> [] \<and> (\<forall>x \<in> set (an_reports db). pr_supersedes_report x \<noteq> pr_supersedes_report p)"
    "db' = db\<lparr>an_reports := an_reports db @ [p]\<rparr>"
  using assms by (auto simp: report_create_def saving_eq_Inr list_ex_iff split: if_splits)

lemma advance_report:
  assumes "advance a db2 = Inr (db1, a3)" and "a \<in> set (an_items db2)"
    and "operation \<in> {''record_publication'', ''withdraw_report'', ''correct_publication''}"
  shows "db1 = db2\<lparr>an_items := upsert an_id (head_after operation object a) (an_items db2)\<rparr>
    \<and> a3 = head_after operation object a \<and> an_version a < MAX_HISTORY"
proof -
  have "a\<lparr>an_version := an_version a + 1\<rparr> = head_after operation object a"
    using assms(3) by (elim insertE) (simp_all add: head_after_def status_after.simps)
  from advance_head [OF assms(1,2) refl this] show ?thesis by blast
qed

lemma record_write_Inr:
  assumes "record_write dw i v e url at cx db = Inr (db1, c1, object, announcement, ver)"
  shows "\<exists>a x db2 a3. es_accepts_writes (as_edition (cx_scope cx)) \<and> locked_item cx i e db = Inr a
    \<and> approved_variant cx a v db = Inr x \<and> (\<forall>q \<in> set (an_reports db). pr_variant q \<noteq> va_id x)
    \<and> length (reports_of db (an_id a)) < MAX_REPORTS
    \<and> report_create (new_report (dw_object dw) (evidence_of cx) (va_id x) None False url at []) db = Inr db2
    \<and> advance a db2 = Inr (db1, a3)
    \<and> c1 = cx_control cx \<and> object = dw_object dw \<and> announcement = Some (an_id a3) \<and> ver = an_version a3"
  using assms unfolding record_write_def report_limit_def
  by (auto simp: bindE_eq_Inr writes_open_Inr guardE_eq_Inr list_ex_iff split: if_splits prod.splits)

lemma record_commits:
  assumes "transacts dw rq scope ''record_publication'' (record_write dw i v e url at) db db' r"
    and "\<And>t. at = Some t \<Longrightarrow> t \<le> dw_clock dw"
  shows "commits env dw rq scope db db' r"
  using assms(1)
proof (cases rule: transactsE)
  case (1 cs db1 c1 object announcement ver)
  define db0 where "db0 = db\<lparr>an_controls := cs\<rparr>"
  from record_write_Inr [OF 1(1)] obtain a x db2 a3 where ok: "es_accepts_writes (as_edition scope)"
      and li: "locked_item (context_of dw rq scope db) i e db = Inr a"
      and av: "approved_variant (context_of dw rq scope db) a v db0 = Inr x"
      and first: "\<forall>q \<in> set (an_reports db). pr_variant q \<noteq> va_id x" and limit: "length (reports_of db0 (an_id a)) < MAX_REPORTS"
      and rc: "report_create (new_report (dw_object dw) (evidence_in dw rq) (va_id x) None False url at []) db0 = Inr db2"
      and adv: "advance a db2 = Inr (db1, a3)"
      and out: "c1 = prior_control dw rq db" "object = dw_object dw" "announcement = Some (an_id a3)" "ver = an_version a3"
    unfolding db0_def by auto
  define p where "p = new_report (dw_object dw) (evidence_in dw rq) (va_id x) None False url at []"
  have p: "pr_id p = dw_object dw" "pr_evidence p = evidence_in dw rq" "pr_variant p = va_id x" "pr_supersedes_report p = None"
      "\<not> pr_withdrawn p" "pr_published_at p = at"
    by (simp_all add: p_def new_report_def)
  note a = locked_item_Inr [OF li] and rc' = report_create_Inr [OF rc [folded p_def]]
  have x: "x \<in> set (an_variants db)" "list_ex (\<lambda>r. rv_id r = va_revision x \<and> rv_announcement r = an_id a) (an_revisions db)"
      "approved_in db (va_revision x)"
    using av by (auto simp: approved_variant_def find_Some_iff db0_def approved_in_def split: option.splits)
  define h where "h = head_after ''record_publication'' (pr_id p) a"
  have head: "db1 = db2\<lparr>an_items := upsert an_id h (an_items db2)\<rparr>" "a3 = h" "an_version a < MAX_HISTORY"
    using advance_report [OF adv, of "''record_publication''" "pr_id p"] a(1) by (simp_all add: h_def rc'(4) db0_def)
  define c where "c = c1\<lparr>ct_sequence := ct_sequence c1 + 1\<rparr>"
  have "db' = after db c (Some h) [] [] [] [] [p] r \<and> closing dw rq db c r"
    by (rule 1(6)) (simp_all add: c_def out head rc'(4) db0_def)
  moreover have "variant_of_item db (pr_variant p) (an_id a)"
    using x by (auto simp: variant_of_item_def list_ex_iff p)
  moreover have "reportable rq db a p"
    using x first by (auto simp: reportable_def p)
  moreover have "length (reports_of db (an_id a)) < MAX_REPORTS"
    using limit by (simp add: reports_of_def variant_of_item_def db0_def)
  moreover have "\<forall>x \<in> set (an_reports db). pr_id x \<noteq> pr_id p" using rc'(1) by (simp add: db0_def)
  ultimately show ?thesis
    using commit_report [of dw rq db c r scope a p env] ok a p head(2,3) 1(2-5) out assms(2)
    by (simp add: c_def h_def)
qed

lemma correct_write_Inr:
  assumes "correct_write dw i u e gone url at n cx db = Inr (db1, c1, object, announcement, ver)"
  shows "\<exists>a q db2 a3. es_accepts_writes (as_edition (cx_scope cx)) \<and> locked_item cx i e db = Inr a
    \<and> q \<in> set (an_reports db) \<and> ce_edition_id (pr_evidence q) = rq_edition_id (cx_request cx)
    \<and> variant_of_item db (pr_variant q) (an_id a)
    \<and> length (reports_of db (an_id a)) < MAX_REPORTS
    \<and> report_create (new_report (dw_object dw) (evidence_of cx) (pr_variant q) (Some (pr_id q)) gone url at n) db = Inr db2
    \<and> advance a db2 = Inr (db1, a3)
    \<and> c1 = cx_control cx \<and> object = dw_object dw \<and> announcement = Some (an_id a3) \<and> ver = an_version a3"
proof -
  from assms obtain a q where ok: "es_accepts_writes (as_edition (cx_scope cx))" "locked_item cx i e db = Inr a"
      and q: "find (\<lambda>p. pr_id p = u \<and> ce_organization_id (pr_evidence p) = rq_organization_id (cx_request cx)
              \<and> ce_edition_id (pr_evidence p) = rq_edition_id (cx_request cx)
              \<and> variant_of_item db (pr_variant p) (an_id a)
              \<and> \<not> list_ex (\<lambda>n. pr_supersedes_report n = Some (pr_id p)) (an_reports db)) (an_reports db) = Some q"
      and rest: "bindE (report_limit a db) (\<lambda>_.
         bindE (report_create (new_report (dw_object dw) (evidence_of cx) (pr_variant q) (Some (pr_id q)) gone url at n) db) (\<lambda>db.
         bindE (advance a db) (\<lambda>(db, item).
           Inr (db, cx_control cx, dw_object dw, Some (an_id item), an_version item)))) = Inr (db1, c1, object, announcement, ver)"
    unfolding correct_write_def
    by (auto simp: bindE_eq_Inr [of "writes_open cx True"] bindE_eq_Inr [of "locked_item cx i e db"] writes_open_Inr
        split: option.splits)
  from q have "q \<in> set (an_reports db)" "ce_edition_id (pr_evidence q) = rq_edition_id (cx_request cx)"
      "variant_of_item db (pr_variant q) (an_id a)"
    by (auto simp: find_Some_iff)
  then show ?thesis
    using ok rest by (auto simp: bindE_eq_Inr report_limit_def guardE_eq_Inr)
qed

lemma correct_commits:
  assumes "transacts dw rq scope (if gone then ''withdraw_report'' else ''correct_publication'')
      (correct_write dw i u e gone url at n) db db' r"
    and "\<And>t. at = Some t \<Longrightarrow> t \<le> dw_clock dw" and "gone \<Longrightarrow> url = [] \<and> at = None"
  shows "commits env dw rq scope db db' r"
  using assms(1)
proof (cases rule: transactsE)
  case (1 cs db1 c1 object announcement ver)
  define db0 where "db0 = db\<lparr>an_controls := cs\<rparr>"
  define operation where "operation = (if gone then ''withdraw_report'' else ''correct_publication'')"
  from correct_write_Inr [OF 1(1)] obtain a q db2 a3 where ok: "es_accepts_writes (as_edition scope)"
      and li: "locked_item (context_of dw rq scope db) i e db = Inr a"
      and q: "q \<in> set (an_reports db)" "ce_edition_id (pr_evidence q) = rq_edition_id rq"
        "variant_of_item db0 (pr_variant q) (an_id a)"
      and limit: "length (reports_of db0 (an_id a)) < MAX_REPORTS"
      and rc: "report_create (new_report (dw_object dw) (evidence_in dw rq) (pr_variant q) (Some (pr_id q)) gone url at n) db0 = Inr db2"
      and adv: "advance a db2 = Inr (db1, a3)"
      and out: "c1 = prior_control dw rq db" "object = dw_object dw" "announcement = Some (an_id a3)" "ver = an_version a3"
    unfolding db0_def by auto
  define p where "p = new_report (dw_object dw) (evidence_in dw rq) (pr_variant q) (Some (pr_id q)) gone url at n"
  have p: "pr_id p = dw_object dw" "pr_evidence p = evidence_in dw rq" "pr_variant p = pr_variant q"
      "pr_supersedes_report p = Some (pr_id q)" "pr_withdrawn p = gone" "pr_published_at p = at" "pr_publication_url p = url"
    by (simp_all add: p_def new_report_def)
  note a = locked_item_Inr [OF li] and rc' = report_create_Inr [OF rc [folded p_def]]
  define h where "h = head_after operation (pr_id p) a"
  have head: "db1 = db2\<lparr>an_items := upsert an_id h (an_items db2)\<rparr>" "a3 = h" "an_version a < MAX_HISTORY"
    using advance_report [OF adv, of operation "pr_id p"] a(1) by (simp_all add: h_def rc'(4) db0_def operation_def)
  define c where "c = c1\<lparr>ct_sequence := ct_sequence c1 + 1\<rparr>"
  have "db' = after db c (Some h) [] [] [] [] [p] r \<and> closing dw rq db c r"
    by (rule 1(6)) (simp_all add: c_def out head rc'(4) db0_def)
  moreover have "variant_of_item db (pr_variant p) (an_id a)"
    using q(3) by (simp add: variant_of_item_def p db0_def)
  moreover have "reportable rq db a p"
    using q(1,2) rc'(3) by (auto simp: reportable_def p db0_def)
  moreover have "length (reports_of db (an_id a)) < MAX_REPORTS"
    using limit by (simp add: reports_of_def variant_of_item_def db0_def)
  moreover have "\<forall>x \<in> set (an_reports db). pr_id x \<noteq> pr_id p" using rc'(1) by (simp add: db0_def)
  ultimately show ?thesis
    using commit_report [of dw rq db c r scope a p env] ok a p head(2,3) 1(2-5) [folded operation_def] out assms(2,3)
    by (simp add: c_def h_def operation_def)
qed

lemma cancel_write_Inr:
  assumes "cancel_write i e cx db = Inr (db1, c1, object, announcement, ver)"
  shows "\<exists>a a3. es_accepts_writes (as_edition (cx_scope cx)) \<and> locked_item cx i e db = Inr a \<and> an_status a \<noteq> ANN_CANCELLED
    \<and> advance (a\<lparr>an_status := ANN_CANCELLED\<rparr>) db = Inr (db1, a3)
    \<and> c1 = cx_control cx \<and> object = an_id a3 \<and> announcement = Some (an_id a3) \<and> ver = an_version a3"
  using assms unfolding cancel_write_def
  by (auto simp: bindE_eq_Inr writes_open_Inr split: if_splits prod.splits)

lemma cancel_commits:
  assumes "transacts dw rq scope ''cancel'' (cancel_write i e) db db' r"
  shows "commits env dw rq scope db db' r"
  using assms
proof (cases rule: transactsE)
  case (1 cs db1 c1 object announcement ver)
  from cancel_write_Inr [OF 1(1)] obtain a a3 where ok: "es_accepts_writes (as_edition scope)"
      and li: "locked_item (context_of dw rq scope db) i e db = Inr a" and st: "an_status a \<noteq> ANN_CANCELLED"
      and adv: "advance (a\<lparr>an_status := ANN_CANCELLED\<rparr>) (db\<lparr>an_controls := cs\<rparr>) = Inr (db1, a3)"
      and out: "c1 = prior_control dw rq db" "object = an_id a3" "announcement = Some (an_id a3)" "ver = an_version a3"
    by auto
  note a = locked_item_Inr [OF li]
  define h where "h = head_after ''cancel'' (an_id a) a"
  have head: "db1 = db\<lparr>an_controls := cs, an_items := upsert an_id h (an_items db)\<rparr>" "a3 = h" "an_version a < MAX_HISTORY"
    using advance_head [OF adv, of a "''cancel''" "an_id a"] a(1)
    by (simp_all add: h_def head_after_def status_after.simps)
  define c where "c = c1\<lparr>ct_sequence := ct_sequence c1 + 1\<rparr>"
  have "db' = after db c (Some h) [] [] [] [] [] r \<and> closing dw rq db c r"
    by (rule 1(6)) (simp_all add: c_def out head)
  then show ?thesis
    using commit_cancel [of dw rq db c r scope a env] ok a st head(2,3) 1(2-5) out
    by (simp add: c_def h_def)
qed

section \<open>The refinement\<close>

theorem commit_command_commits:
  assumes "commit_command env dw rq plan scope w = Inr (w', r)" and "legal_plan env dw plan"
  shows "commits env dw rq scope (wd_announcements w) (wd_announcements w') r"
proof -
  obtain operation intent reason wr where plan: "plan = (operation, intent, reason, wr)" by (cases plan)
  have t: "transacts dw rq scope operation wr (wd_announcements w) (wd_announcements w') r"
    using commit_command_transacts assms(1) plan by blast
  from assms(2) show ?thesis
  proof cases
    case (plan_settings raw s i n e)
    with t plan show ?thesis using update_settings_commits normalize_settings_channels by auto
  next
    case (plan_stopped e stop i n)
    with t plan show ?thesis using set_stopped_commits by auto
  next
    case (plan_create raw d i n e)
    with t plan show ?thesis using create_commits normalize_draft_variants [OF plan_create(2)] by auto
  next
    case (plan_revise raw d i n a e es)
    with t plan show ?thesis using revise_commits normalize_draft_variants [OF plan_revise(2)] by auto
  next
    case (plan_request i n a e)
    with t plan show ?thesis using request_review_commits by auto
  next
    case (plan_review decision i n a r e)
    with t plan show ?thesis using review_commits by auto
  next
    case (plan_record at i n a v e url)
    with t plan show ?thesis using record_commits by auto
  next
    case (plan_correct at gone url i n a p e)
    with t plan show ?thesis using correct_commits by auto
  next
    case (plan_cancel i n a e)
    with t plan show ?thesis using cancel_commits by auto
  qed
qed

end
