(* ===== verification/Announcement_Guard.thy ===== *)
theory Announcement_Guard
  imports Announcement_Writes
begin

text \<open>
  The native evidence guard of announcements
  (\<open>src/src/maru/announcements/migrations/0002_integrity.py\<close>, the deferred trigger
  \<open>maru_announcements_graph_guard\<close>) as predicates on the tables, and the invariant of the announcement
  commands. The conditions of the trigger that read tables of other packages (accounts, editions,
  audit, outbox) and the printed size of the records are left out here.
\<close>

section \<open>The guard\<close>

text \<open>\<open>ORDER BY key DESC LIMIT 1\<close>.\<close>

definition latest :: "('a \<Rightarrow> int) \<Rightarrow> 'a list \<Rightarrow> 'a option" where
  "latest key xs = (if xs = [] then None else Some (last (sort_key key xs)))"

definition edition_receipts :: "announcement_db \<Rightarrow> uuid \<Rightarrow> AnnouncementCommandReceipt list" where
  "edition_receipts db e = filter (\<lambda>r. cr_edition_id r = e) (an_receipts db)"

definition item_receipts :: "announcement_db \<Rightarrow> uuid \<Rightarrow> AnnouncementCommandReceipt list" where
  "item_receipts db i = filter (\<lambda>r. cr_announcement r = Some i) (an_receipts db)"

definition settings_operation :: "string \<Rightarrow> bool" where
  "settings_operation operation \<longleftrightarrow> operation = ''settings_update'' \<or> operation = ''stop'' \<or> operation = ''resume''"

text \<open>The persisted head of an edition.\<close>

definition control_head :: "announcement_db \<Rightarrow> AnnouncementControl \<Rightarrow> bool" where
  "control_head db c \<longleftrightarrow> (let rs = edition_receipts db (ct_edition_id c) in
     map_option cr_control_sequence (latest cr_control_sequence rs) = Some (ct_sequence c)
     \<and> ct_settings_version c = int (length (filter (\<lambda>r. settings_operation (cr_operation r)) rs))
     \<and> ct_current_settings c =
         map_option cr_object_id (latest cr_control_sequence (filter (\<lambda>r. cr_operation r = ''settings_update'') rs))
     \<and> ct_stopped c = (case latest cr_control_sequence
           (filter (\<lambda>r. cr_operation r = ''stop'' \<or> cr_operation r = ''resume'') rs) of
         None \<Rightarrow> False | Some r \<Rightarrow> cr_operation r = ''stop''))"

text \<open>The copies and the approvals of an announcement with the version of the receipt that proves each.\<close>

definition copy_proofs :: "announcement_db \<Rightarrow> uuid \<Rightarrow> (int \<times> uuid) list" where
  "copy_proofs db i = concat (map (\<lambda>s. map (\<lambda>p. (cr_resulting_version p, rv_id s))
     (filter (\<lambda>p. cr_id p = ce_command_receipt (rv_evidence s) \<and> (cr_operation p = ''create'' \<or> cr_operation p = ''revise''))
        (an_receipts db)))
     (filter (\<lambda>s. rv_announcement s = i) (an_revisions db)))"

definition approval_proofs :: "announcement_db \<Rightarrow> uuid \<Rightarrow> (int \<times> uuid) list" where
  "approval_proofs db i = concat (map (\<lambda>w. map (\<lambda>p. (cr_resulting_version p, rw_revision w))
     (filter (\<lambda>p. cr_id p = ce_command_receipt (rw_evidence w) \<and> cr_announcement p = Some i \<and> cr_operation p = ''approve'')
        (an_receipts db)))
     (an_reviews db))"

text \<open>The persisted head of an announcement.\<close>

definition item_head :: "announcement_db \<Rightarrow> Announcement \<Rightarrow> bool" where
  "item_head db a \<longleftrightarrow> (let rs = item_receipts db (an_id a) in
     map_option cr_resulting_version (latest cr_resulting_version rs) = Some (an_version a)
     \<and> (case latest cr_resulting_version (filter (\<lambda>r. status_after (cr_operation r) \<noteq> None) rs) of
          None \<Rightarrow> False | Some s \<Rightarrow> status_after (cr_operation s) = Some (an_status a))
     \<and> an_current_revision a = map_option snd (latest fst (copy_proofs db (an_id a)))
     \<and> an_approved_revision a = map_option snd (latest fst (approval_proofs db (an_id a))))"

text \<open>The record that a receipt names as its result.\<close>

definition result_recorded :: "announcement_db \<Rightarrow> AnnouncementCommandReceipt \<Rightarrow> bool" where
  "result_recorded db r \<longleftrightarrow>
     (if cr_operation r = ''settings_update'' then
        list_ex (\<lambda>s. sr_id s = cr_object_id r \<and> ce_command_receipt (sr_evidence s) = cr_id r
          \<and> sr_number s = cr_resulting_version r) (an_settings db)
      else if cr_operation r = ''stop'' \<or> cr_operation r = ''resume'' then
        list_ex (\<lambda>c. ct_id c = cr_object_id r \<and> ct_edition_id c = cr_edition_id r) (an_controls db)
      else if cr_operation r = ''create'' then
        list_ex (\<lambda>a. an_id a = cr_object_id r \<and> cr_announcement r = Some (an_id a)
          \<and> list_ex (\<lambda>s. rv_announcement s = an_id a \<and> rv_number s = 1 \<and> ce_command_receipt (rv_evidence s) = cr_id r)
              (an_revisions db)) (an_items db) \<and> cr_resulting_version r = 1
      else if cr_operation r = ''cancel'' then
        list_ex (\<lambda>a. an_id a = cr_object_id r \<and> cr_announcement r = Some (an_id a)) (an_items db)
      else if cr_operation r = ''revise'' then
        list_ex (\<lambda>s. rv_id s = cr_object_id r \<and> cr_announcement r = Some (rv_announcement s)
          \<and> ce_command_receipt (rv_evidence s) = cr_id r) (an_revisions db)
      else if cr_operation r = ''request_review'' then
        list_ex (\<lambda>s. rv_id s = cr_object_id r \<and> cr_announcement r = Some (rv_announcement s)) (an_revisions db)
      else if cr_operation r = ''approve'' \<or> cr_operation r = ''changes_requested'' then
        list_ex (\<lambda>w. rw_id w = cr_object_id r \<and> ce_command_receipt (rw_evidence w) = cr_id r
          \<and> list_ex (\<lambda>s. rv_id s = rw_revision w \<and> cr_announcement r = Some (rv_announcement s)) (an_revisions db)) (an_reviews db)
      else
        list_ex (\<lambda>p. pr_id p = cr_object_id r \<and> ce_command_receipt (pr_evidence p) = cr_id r
          \<and> (case cr_announcement r of None \<Rightarrow> False | Some i \<Rightarrow> variant_of_item db (pr_variant p) i)) (an_reports db))"

definition receipt_guard :: "announcement_db \<Rightarrow> AnnouncementCommandReceipt \<Rightarrow> bool" where
  "receipt_guard db r \<longleftrightarrow>
     settings_operation (cr_operation r) = (cr_announcement r = None)
     \<and> int (length (filter (\<lambda>x. cr_control_sequence x \<le> cr_control_sequence r) (edition_receipts db (cr_edition_id r))))
         = cr_control_sequence r
     \<and> list_ex (\<lambda>c. ct_edition_id c = cr_edition_id r \<and> ct_organization_id c = cr_organization_id r \<and> control_head db c)
         (an_controls db)
     \<and> result_recorded db r
     \<and> (case cr_announcement r of None \<Rightarrow> True
        | Some i \<Rightarrow>
            list_ex (\<lambda>a. an_id a = i \<and> an_edition_id a = cr_edition_id r \<and> an_organization_id a = cr_organization_id r
              \<and> item_head db a) (an_items db)
            \<and> int (length (filter (\<lambda>x. cr_resulting_version x \<le> cr_resulting_version r) (item_receipts db i)))
                = cr_resulting_version r
            \<and> cr_resulting_version r \<le> 4096)"

section \<open>The latest row\<close>

lemma insort_key_append:
  "key y \<le> key x \<Longrightarrow> insort_key key y (zs @ [x]) = insort_key key y zs @ [x]" for key :: "'a \<Rightarrow> int"
  by (induction zs) auto

lemma sort_key_append_max:
  "\<forall>y \<in> set xs. key y \<le> key x \<Longrightarrow> sort_key key (xs @ [x]) = sort_key key xs @ [x]" for key :: "'a \<Rightarrow> int"
  by (induction xs) (auto simp: insort_key_append)

lemma latest_append:
  assumes "\<forall>y \<in> set xs. key y \<le> key x"
  shows "latest key (xs @ [x]) = Some x"
  using sort_key_append_max [OF assms] by (simp add: latest_def)

lemma latest_Nil [simp]: "latest key [] = None"
  by (simp add: latest_def)

lemma latest_SomeD: "latest key xs = Some x \<Longrightarrow> x \<in> set xs"
proof -
  assume "latest key xs = Some x"
  then have "xs \<noteq> []" "x = last (sort_key key xs)" by (auto simp: latest_def split: if_splits)
  moreover from this have "sort_key key xs \<noteq> []" by (metis length_0_conv length_sort)
  ultimately show ?thesis using last_in_set [of "sort_key key xs"] by simp
qed

lemma latest_filter_append:
  assumes "\<forall>y \<in> set xs. key y \<le> key x"
  shows "latest key (filter P (xs @ [x])) = (if P x then Some x else latest key (filter P xs))"
  using latest_append [of "filter P xs" key x] assms by auto

end
