(* ===== verification/Announcement_Inv.thy ===== *)
theory Announcement_Inv
  imports Announcement_Guard
begin

text \<open>
  The invariant of the announcement tables: keys are unique, the control of an edition and every
  announcement agree with their receipts, evidence names its receipt, and an approval is by somebody
  who wrote nothing in its round. Every committed command keeps it.
\<close>

section \<open>What every commit has in common\<close>

definition control_step :: "AnnouncementControl \<Rightarrow> AnnouncementControl \<Rightarrow> AnnouncementCommandReceipt \<Rightarrow> bool" where
  "control_step c c' r \<longleftrightarrow>
     ct_settings_version c' = ct_settings_version c + (if settings_operation (cr_operation r) then 1 else 0)
     \<and> ct_current_settings c' = (if cr_operation r = ''settings_update'' then Some (cr_object_id r) else ct_current_settings c)
     \<and> ct_stopped c' = (if cr_operation r = ''stop'' then True else if cr_operation r = ''resume'' then False else ct_stopped c)"

definition item_step :: "AnnouncementCommandRequest \<Rightarrow> announcement_db \<Rightarrow> Announcement \<Rightarrow> AnnouncementCommandReceipt \<Rightarrow> bool" where
  "item_step rq db a r \<longleftrightarrow>
     an_organization_id a = rq_organization_id rq \<and> an_edition_id a = rq_edition_id rq
     \<and> cr_resulting_version r = an_version a \<and> an_version a \<le> MAX_HISTORY
     \<and> (if cr_operation r = ''create''
        then (\<forall>x \<in> set (an_items db). an_id x \<noteq> an_id a) \<and> an_version a = 1 \<and> an_status a = ANN_DRAFT
          \<and> an_approved_revision a = None
        else \<exists>b \<in> set (an_items db). a = head_after (cr_operation r) (cr_object_id r) b)"

definition copy_operation :: "string \<Rightarrow> bool" where
  "copy_operation operation \<longleftrightarrow> operation = ''create'' \<or> operation = ''revise''"

definition review_operation :: "string \<Rightarrow> bool" where
  "review_operation operation \<longleftrightarrow> operation = ''approve'' \<or> operation = ''changes_requested''"

definition summary :: "draw \<Rightarrow> AnnouncementCommandRequest \<Rightarrow> announcement_db \<Rightarrow> AnnouncementControl \<Rightarrow> Announcement option
    \<Rightarrow> AnnouncementSettingsRevision list \<Rightarrow> AnnouncementRevision list \<Rightarrow> AnnouncementVariant list \<Rightarrow> AnnouncementReview list
    \<Rightarrow> AnnouncementPublicationReport list \<Rightarrow> AnnouncementCommandReceipt \<Rightarrow> bool" where
  "summary dw rq db c a ss rs vs ws ps r \<longleftrightarrow>
     closing dw rq db c r \<and> control_step (prior_control dw rq db) c r
     \<and> settings_operation (cr_operation r) = (a = None) \<and> cr_announcement r = map_option an_id a
     \<and> (\<forall>x. a = Some x \<longrightarrow> item_step rq db x r)
     \<and> (\<forall>s \<in> set ss. sr_evidence s = evidence_in dw rq) \<and> (\<forall>v \<in> set vs. va_evidence v = evidence_in dw rq)
     \<and> (\<forall>p \<in> set ps. pr_evidence p = evidence_in dw rq)
     \<and> (if copy_operation (cr_operation r)
        then \<exists>v x. rs = [v] \<and> a = Some x \<and> rv_evidence v = evidence_in dw rq \<and> rv_announcement v = an_id x
          \<and> an_current_revision x = Some (rv_id v) \<and> (\<forall>y \<in> set (an_revisions db). rv_id y \<noteq> rv_id v)
        else rs = [])
     \<and> (if review_operation (cr_operation r)
        then \<exists>w x s. ws = [w] \<and> a = Some x \<and> rw_evidence w = evidence_in dw rq \<and> rw_decision w = cr_operation r
          \<and> an_current_revision x = Some (rw_revision w) \<and> (\<forall>y \<in> set (an_reviews db). rw_revision y \<noteq> rw_revision w)
          \<and> s \<in> set (an_revisions db) \<and> rv_id s = rw_revision w
        else ws = [])"

lemma head_after_fields:
  "an_status (head_after operation object a) = (case status_after operation of None \<Rightarrow> an_status a | Some s \<Rightarrow> s)"
  "an_current_revision (head_after operation object a) =
     (if operation = ''revise'' then Some object else an_current_revision a)"
  "an_approved_revision (head_after operation object a) =
     (if operation = ''approve'' then an_current_revision a else an_approved_revision a)"
  by (simp_all add: head_after_def)

lemma item_step_head:
  assumes "b \<in> set (an_items db)" and "an_organization_id b = rq_organization_id rq" and "an_edition_id b = rq_edition_id rq"
    and "an_version b < MAX_HISTORY" and "cr_resulting_version r = an_version b + 1" and "cr_operation r \<noteq> ''create''"
    and "a = head_after (cr_operation r) object b" and "cr_operation r = ''revise'' \<Longrightarrow> object = cr_object_id r"
  shows "item_step rq db a r"
proof -
  have "head_after (cr_operation r) object b = head_after (cr_operation r) (cr_object_id r) b"
    using assms(8) by (cases "cr_operation r = ''revise''") (auto simp: head_after_def)
  then have "\<exists>x \<in> set (an_items db). a = head_after (cr_operation r) (cr_object_id r) x"
    using assms(1,7) by auto
  then show ?thesis
    using assms(2-7) by (simp add: item_step_def)
qed

lemmas operation_defs = settings_operation_def copy_operation_def review_operation_def

lemma commits_summary:
  assumes "commits env dw rq scope db db' r"
  shows "\<exists>c a ss rs vs ws ps. db' = after db c a ss rs vs ws ps r \<and> summary dw rq db c a ss rs vs ws ps r"
  using assms
proof cases
  case (commit_settings c s)
  then have "summary dw rq db c None [s] [] [] [] [] r"
    by (simp add: summary_def control_step_def operation_defs)
  then show ?thesis using commit_settings(1) by blast
next
  case (commit_stopped c stop s)
  then have "summary dw rq db c None [] [] [] [] [] r"
    by (cases stop) (simp_all add: summary_def control_step_def operation_defs)
  then show ?thesis using commit_stopped(1) by blast
next
  case (commit_create c s a v i vs)
  have "item_step rq db a r"
    using commit_create by (simp add: item_step_def new_announcement_def MAX_HISTORY_def)
  then have "summary dw rq db c (Some a) [] [v] vs [] [] r"
    using commit_create
    by (simp add: summary_def control_step_def operation_defs copy_written_def variant_written_def new_announcement_def)
  then show ?thesis using commit_create(1) by blast
next
  case (commit_revise c s a v vs)
  define h where "h = head_after ''revise'' (rv_id v) a"
  have "item_step rq db h r"
    by (rule item_step_head [of a]) (use commit_revise in \<open>simp_all add: h_def\<close>)
  then have "summary dw rq db c (Some h) [] [v] vs [] [] r"
    using commit_revise
    by (simp add: summary_def control_step_def operation_defs copy_written_def variant_written_def h_def head_after_fields)
  then show ?thesis using commit_revise(1) unfolding h_def by blast
next
  case (commit_request c s a i)
  define h where "h = head_after ''request_review'' i a"
  have "item_step rq db h r"
    by (rule item_step_head [of a]) (use commit_request in \<open>simp_all add: h_def\<close>)
  then have "summary dw rq db c (Some h) [] [] [] [] [] r"
    using commit_request by (simp add: summary_def control_step_def operation_defs h_def)
  then show ?thesis using commit_request(1) unfolding h_def by blast
next
  case (commit_review c s a p w)
  define h where "h = head_after (rw_decision w) (rv_id p) a"
  have op: "cr_operation r = ''approve'' \<or> cr_operation r = ''changes_requested''" using commit_review by auto
  have "item_step rq db h r"
    by (rule item_step_head [of a]) (use commit_review op in \<open>auto simp: h_def\<close>)
  moreover have "an_current_revision h = Some (rv_id p)" "an_id h = an_id a"
    using commit_review op by (auto simp: h_def head_after_fields)
  ultimately have "summary dw rq db c (Some h) [] [] [] [w] [] r"
    using commit_review op by (auto simp: summary_def control_step_def operation_defs)
  then show ?thesis using commit_review(1) unfolding h_def by blast
next
  case (commit_report c a p)
  define h where "h = head_after (cr_operation r) (pr_id p) a"
  have op: "cr_operation r \<in> {''record_publication'', ''withdraw_report'', ''correct_publication''}" using commit_report by simp
  have "item_step rq db h r"
    by (rule item_step_head [of a]) (use commit_report op in \<open>auto simp: h_def\<close>)
  then have "summary dw rq db c (Some h) [] [] [] [] [p] r"
    using commit_report op by (auto simp: summary_def control_step_def operation_defs h_def)
  then show ?thesis using commit_report(1) unfolding h_def by blast
next
  case (commit_cancel c a)
  define h where "h = head_after ''cancel'' (an_id a) a"
  have "item_step rq db h r"
    by (rule item_step_head [of a]) (use commit_cancel in \<open>simp_all add: h_def\<close>)
  then have "summary dw rq db c (Some h) [] [] [] [] [] r"
    using commit_cancel by (simp add: summary_def control_step_def operation_defs h_def)
  then show ?thesis using commit_cancel(1) unfolding h_def by blast
qed

section \<open>The invariant\<close>

definition keys_inv :: "announcement_db \<Rightarrow> bool" where
  "keys_inv db \<longleftrightarrow> distinct (map ct_id (an_controls db)) \<and> distinct (map ct_edition_id (an_controls db))
     \<and> distinct (map an_id (an_items db)) \<and> distinct (map rv_id (an_revisions db)) \<and> distinct (map cr_id (an_receipts db))"

definition control_inv :: "announcement_db \<Rightarrow> bool" where
  "control_inv db \<longleftrightarrow> (\<forall>c \<in> set (an_controls db). control_head db c
     \<and> int (length (edition_receipts db (ct_edition_id c))) = ct_sequence c
     \<and> (\<forall>r \<in> set (edition_receipts db (ct_edition_id c)). cr_control_sequence r \<le> ct_sequence c))"

definition scope_inv :: "announcement_db \<Rightarrow> bool" where
  "scope_inv db \<longleftrightarrow> (\<forall>r \<in> set (an_receipts db).
     (\<exists>c \<in> set (an_controls db). ct_edition_id c = cr_edition_id r \<and> ct_organization_id c = cr_organization_id r)
     \<and> (\<forall>i. cr_announcement r = Some i \<longrightarrow> (\<exists>a \<in> set (an_items db). an_id a = i \<and> an_edition_id a = cr_edition_id r
          \<and> an_organization_id a = cr_organization_id r)))"

definition proved_by :: "announcement_db \<Rightarrow> command_evidence \<Rightarrow> (AnnouncementCommandReceipt \<Rightarrow> bool) \<Rightarrow> bool" where
  "proved_by db e P \<longleftrightarrow> (\<exists>p \<in> set (an_receipts db). cr_id p = ce_command_receipt e \<and> cr_edition_id p = ce_edition_id e
     \<and> cr_organization_id p = ce_organization_id e \<and> cr_actor_id p = ce_actor_id e \<and> cr_occurred_at p = ce_occurred_at e \<and> P p)"

definition copies_inv :: "announcement_db \<Rightarrow> bool" where
  "copies_inv db \<longleftrightarrow> (\<forall>s \<in> set (an_revisions db).
     proved_by db (rv_evidence s) (\<lambda>p. cr_announcement p = Some (rv_announcement s) \<and> copy_operation (cr_operation p))
     \<and> (\<exists>a \<in> set (an_items db). an_id a = rv_announcement s \<and> an_edition_id a = ce_edition_id (rv_evidence s)
          \<and> an_organization_id a = ce_organization_id (rv_evidence s)))"

definition reviews_inv :: "announcement_db \<Rightarrow> bool" where
  "reviews_inv db \<longleftrightarrow> (\<forall>w \<in> set (an_reviews db). review_operation (rw_decision w)
     \<and> (\<exists>s \<in> set (an_revisions db). rv_id s = rw_revision w
        \<and> proved_by db (rw_evidence w) (\<lambda>p. cr_announcement p = Some (rv_announcement s) \<and> cr_operation p = rw_decision w)))"

definition item_inv :: "announcement_db \<Rightarrow> bool" where
  "item_inv db \<longleftrightarrow> (\<forall>a \<in> set (an_items db). item_head db a
     \<and> int (length (item_receipts db (an_id a))) = an_version a
     \<and> (\<forall>r \<in> set (item_receipts db (an_id a)). cr_resulting_version r \<le> an_version a)
     \<and> an_version a \<le> MAX_HISTORY)"

definition heads_inv :: "announcement_db \<Rightarrow> bool" where
  "heads_inv db \<longleftrightarrow> keys_inv db \<and> control_inv db \<and> scope_inv db \<and> copies_inv db \<and> reviews_inv db \<and> item_inv db"

section \<open>Preservation\<close>

lemma evidence_in_simps [simp]:
  "ce_organization_id (evidence_in dw rq) = rq_organization_id rq" "ce_edition_id (evidence_in dw rq) = rq_edition_id rq"
  "ce_actor_id (evidence_in dw rq) = rq_actor_id rq" "ce_occurred_at (evidence_in dw rq) = dw_now dw"
  "ce_command_receipt (evidence_in dw rq) = dw_receipt dw"
  by (simp_all add: evidence_in_def)

lemma closingD:
  assumes "closing dw rq db c r"
  shows "ct_id c = ct_id (prior_control dw rq db)" "ct_organization_id c = rq_organization_id rq"
    "ct_edition_id c = rq_edition_id rq" "ct_sequence c = ct_sequence (prior_control dw rq db) + 1"
    "cr_id r = dw_receipt dw" "cr_organization_id r = rq_organization_id rq" "cr_edition_id r = rq_edition_id rq"
    "cr_actor_id r = rq_actor_id rq" "cr_occurred_at r = dw_now dw" "cr_control_sequence r = ct_sequence c"
    "\<forall>x \<in> set (an_receipts db). cr_id x \<noteq> cr_id r"
    "prior_control dw rq db \<in> set (an_controls db)
     \<or> prior_control dw rq db = new_control (dw_control dw) rq
       \<and> (\<forall>x \<in> set (an_controls db). ct_id x \<noteq> ct_id c \<and> ct_edition_id x \<noteq> rq_edition_id rq)"
  using assms unfolding closing_def by blast+

lemma prior_control_scope:
  "ct_edition_id (prior_control dw rq db) = rq_edition_id rq"
  "ct_organization_id (prior_control dw rq db) = rq_organization_id rq"
  by (auto simp: prior_control_def new_control_def find_control_def find_Some_iff split: option.splits)

lemma proved_by_after:
  "proved_by db e P \<Longrightarrow> proved_by (after db c a ss rs vs ws ps r) e P"
  by (auto simp: proved_by_def)

lemma proved_by_new:
  assumes "closing dw rq db c r" and "P r"
  shows "proved_by (after db c a ss rs vs ws ps r) (evidence_in dw rq) P"
  using closingD [OF assms(1)] assms(2) by (auto simp: proved_by_def)

lemma keys_inv_after:
  assumes "keys_inv db" and s: "summary dw rq db c a ss rs vs ws ps r"
  shows "keys_inv (after db c a ss rs vs ws ps r)"
proof -
  have cl: "closing dw rq db c r" using s by (simp add: summary_def)
  have "distinct (map ct_edition_id (upsert ct_id c (an_controls db)))"
  proof (cases "prior_control dw rq db \<in> set (an_controls db)")
    case True
    have "map ct_edition_id (upsert ct_id c (an_controls db)) = map ct_edition_id (an_controls db)"
    proof -
      have "ct_edition_id y = ct_edition_id c" if "y \<in> set (an_controls db)" "ct_id y = ct_id c" for y
      proof -
        have "y = prior_control dw rq db"
          using assms(1) that True closingD(1) [OF cl] by (auto simp: keys_inv_def distinct_map inj_on_def)
        then show ?thesis using prior_control_scope(1) closingD(3) [OF cl] by simp
      qed
      then show ?thesis using upsert_replace [OF True, of ct_id c] closingD(1) [OF cl] by auto
    qed
    then show ?thesis using assms(1) by (simp add: keys_inv_def)
  next
    case False
    then have "\<forall>x \<in> set (an_controls db). ct_id x \<noteq> ct_id c \<and> ct_edition_id x \<noteq> ct_edition_id c"
      using closingD(3,12) [OF cl] by simp
    then show ?thesis using assms(1) by (auto simp: keys_inv_def upsert_append)
  qed
  moreover have "distinct (map rv_id (an_revisions db @ rs))"
    using assms(1) s by (auto simp: keys_inv_def summary_def split: if_splits)
  moreover have "distinct (map cr_id (an_receipts db @ [r]))"
    using assms(1) closingD(11) [OF cl] by (auto simp: keys_inv_def)
  ultimately show ?thesis
    using assms(1) by (simp add: keys_inv_def split: option.splits)
qed

lemma edition_receipts_after:
  "edition_receipts (after db c a ss rs vs ws ps r) e = edition_receipts db e @ (if cr_edition_id r = e then [r] else [])"
  by (simp add: edition_receipts_def)

lemma item_receipts_after:
  "item_receipts (after db c a ss rs vs ws ps r) i = item_receipts db i @ (if cr_announcement r = Some i then [r] else [])"
  by (simp add: item_receipts_def)

text \<open>The control before the command agrees with the receipts, also when it is only being created.\<close>

lemma prior_control_agrees:
  assumes "control_inv db" and "scope_inv db" and cl: "closing dw rq db c r"
  defines "rs \<equiv> edition_receipts db (rq_edition_id rq)" and "C \<equiv> prior_control dw rq db"
  shows "int (length rs) = ct_sequence C" "\<forall>r \<in> set rs. cr_control_sequence r \<le> ct_sequence C"
    "ct_settings_version C = int (length (filter (\<lambda>r. settings_operation (cr_operation r)) rs))"
    "ct_current_settings C =
       map_option cr_object_id (latest cr_control_sequence (filter (\<lambda>r. cr_operation r = ''settings_update'') rs))"
    "ct_stopped C = (case latest cr_control_sequence
       (filter (\<lambda>r. cr_operation r = ''stop'' \<or> cr_operation r = ''resume'') rs) of
         None \<Rightarrow> False | Some r \<Rightarrow> cr_operation r = ''stop'')"
proof -
  have e: "ct_edition_id C = rq_edition_id rq" by (simp add: C_def prior_control_scope)
  have "rs = []" if "\<forall>x \<in> set (an_controls db). ct_edition_id x \<noteq> rq_edition_id rq"
    using assms(2) that by (fastforce simp: rs_def scope_inv_def edition_receipts_def filter_empty_conv)
  then consider "C \<in> set (an_controls db)" | "rs = []" "C = new_control (dw_control dw) rq"
    using closingD(12) [OF cl] by (auto simp: C_def)
  then have "int (length rs) = ct_sequence C \<and> (\<forall>r \<in> set rs. cr_control_sequence r \<le> ct_sequence C)
    \<and> ct_settings_version C = int (length (filter (\<lambda>r. settings_operation (cr_operation r)) rs))
    \<and> ct_current_settings C =
       map_option cr_object_id (latest cr_control_sequence (filter (\<lambda>r. cr_operation r = ''settings_update'') rs))
    \<and> ct_stopped C = (case latest cr_control_sequence
       (filter (\<lambda>r. cr_operation r = ''stop'' \<or> cr_operation r = ''resume'') rs) of
         None \<Rightarrow> False | Some r \<Rightarrow> cr_operation r = ''stop'')"
  proof cases
    case 1
    then show ?thesis using assms(1) e by (auto simp: control_inv_def control_head_def rs_def Let_def)
  next
    case 2
    then show ?thesis by (simp add: new_control_def)
  qed
  then show "int (length rs) = ct_sequence C" "\<forall>r \<in> set rs. cr_control_sequence r \<le> ct_sequence C"
    "ct_settings_version C = int (length (filter (\<lambda>r. settings_operation (cr_operation r)) rs))"
    "ct_current_settings C =
       map_option cr_object_id (latest cr_control_sequence (filter (\<lambda>r. cr_operation r = ''settings_update'') rs))"
    "ct_stopped C = (case latest cr_control_sequence
       (filter (\<lambda>r. cr_operation r = ''stop'' \<or> cr_operation r = ''resume'') rs) of
         None \<Rightarrow> False | Some r \<Rightarrow> cr_operation r = ''stop'')"
    by blast+
qed

lemma control_inv_after:
  assumes inv: "heads_inv db" and s: "summary dw rq db c a ss rs vs ws ps r"
  shows "control_inv (after db c a ss rs vs ws ps r)"
proof -
  define db' where "db' = after db c a ss rs vs ws ps r"
  define xs where "xs = edition_receipts db (rq_edition_id rq)"
  have cl: "closing dw rq db c r" and st: "control_step (prior_control dw rq db) c r" using s by (simp_all add: summary_def)
  note k = closingD [OF cl]
  have ci: "control_inv db" and si: "scope_inv db" and ki: "keys_inv db" using inv by (simp_all add: heads_inv_def)
  note C = prior_control_agrees [OF ci si cl, folded xs_def]
  have xs': "edition_receipts db' (ct_edition_id c) = xs @ [r]"
    using k(3,7) by (simp add: db'_def edition_receipts_after xs_def)
  have max: "\<forall>y \<in> set xs. cr_control_sequence y \<le> cr_control_sequence r"
    using C(2) k(4,10) by fastforce
  have head: "control_head db' c"
  proof -
    define P where "P = (\<lambda>r :: AnnouncementCommandReceipt. cr_operation r = ''stop'' \<or> cr_operation r = ''resume'')"
    have "map_option cr_control_sequence (latest cr_control_sequence (xs @ [r])) = Some (ct_sequence c)"
      using k(10) latest_append [OF max] by simp
    moreover have "ct_settings_version c = int (length (filter (\<lambda>r. settings_operation (cr_operation r)) (xs @ [r])))"
      using C(3) st by (simp add: control_step_def)
    moreover have "ct_current_settings c = map_option cr_object_id
        (latest cr_control_sequence (filter (\<lambda>r. cr_operation r = ''settings_update'') (xs @ [r])))"
      using C(4) st unfolding latest_filter_append [OF max] by (simp add: control_step_def)
    moreover have "ct_stopped c = (case latest cr_control_sequence (filter P (xs @ [r])) of
         None \<Rightarrow> False | Some r \<Rightarrow> cr_operation r = ''stop'')"
      using C(5) st unfolding latest_filter_append [OF max] P_def [symmetric] by (auto simp: control_step_def P_def)
    ultimately show ?thesis unfolding control_head_def Let_def xs' P_def by blast
  qed
  have "control_head db' c \<and> int (length (edition_receipts db' (ct_edition_id c))) = ct_sequence c
     \<and> (\<forall>r \<in> set (edition_receipts db' (ct_edition_id c)). cr_control_sequence r \<le> ct_sequence c)"
    using head C(1) max k(4,10) by (auto simp: xs')
  moreover have "control_head db' x \<and> int (length (edition_receipts db' (ct_edition_id x))) = ct_sequence x
     \<and> (\<forall>r \<in> set (edition_receipts db' (ct_edition_id x)). cr_control_sequence r \<le> ct_sequence x)"
    if x: "x \<in> set (an_controls db)" "ct_id x \<noteq> ct_id c" for x
  proof -
    have "ct_edition_id x \<noteq> rq_edition_id rq"
    proof
      assume e: "ct_edition_id x = rq_edition_id rq"
      then have "prior_control dw rq db \<in> set (an_controls db)" using k(12) x by auto
      then have "x = prior_control dw rq db"
        using ki x(1) e prior_control_scope(1) [of dw rq db] by (auto simp: keys_inv_def distinct_map inj_on_def)
      then show False using x(2) k(1) by simp
    qed
    then have "edition_receipts db' (ct_edition_id x) = edition_receipts db (ct_edition_id x)"
      using k(7) by (simp add: db'_def edition_receipts_after)
    then show ?thesis using ci x(1) by (simp add: control_inv_def control_head_def)
  qed
  ultimately show ?thesis
    by (simp add: control_inv_def db'_def [symmetric]) (auto simp: db'_def)
qed

text \<open>An announcement keeps its identity and scope.\<close>

lemma item_persists:
  assumes "keys_inv db" and s: "summary dw rq db c a ss rs vs ws ps r" and x: "x \<in> set (an_items db)"
  shows "\<exists>y \<in> set (an_items (after db c a ss rs vs ws ps r)). an_id y = an_id x \<and> an_edition_id y = an_edition_id x
      \<and> an_organization_id y = an_organization_id x"
proof (cases "map_option an_id a = Some (an_id x)")
  case True
  then obtain h where h: "a = Some h" "an_id h = an_id x" by auto
  then have "cr_operation r \<noteq> ''create''" using s x by (auto simp: summary_def item_step_def)
  then obtain b where "b \<in> set (an_items db)" "h = head_after (cr_operation r) (cr_object_id r) b"
    using s h by (auto simp: summary_def item_step_def)
  moreover from this have "b = x"
    using assms(1) x h(2) by (auto simp: keys_inv_def distinct_map inj_on_def)
  ultimately show ?thesis using h(1) by auto
next
  case False
  then show ?thesis using x by (auto split: option.splits)
qed

lemma scope_inv_after:
  assumes inv: "heads_inv db" and s: "summary dw rq db c a ss rs vs ws ps r"
  shows "scope_inv (after db c a ss rs vs ws ps r)"
proof -
  have cl: "closing dw rq db c r" using s by (simp add: summary_def)
  note k = closingD [OF cl]
  have si: "scope_inv db" and ki: "keys_inv db" using inv by (simp_all add: heads_inv_def)
  have controls: "\<exists>y \<in> set (an_controls (after db c a ss rs vs ws ps r)). ct_edition_id y = ct_edition_id x
      \<and> ct_organization_id y = ct_organization_id x" if x: "x \<in> set (an_controls db)" for x
  proof (cases "ct_id x = ct_id c")
    case True
    then have "prior_control dw rq db \<in> set (an_controls db)" using k(12) x by auto
    then have "x = prior_control dw rq db" using ki x True k(1) by (auto simp: keys_inv_def distinct_map inj_on_def)
    then show ?thesis using k(2,3) prior_control_scope [of dw rq db] by auto
  qed (use x in auto)
  have "(\<exists>y \<in> set (an_controls (after db c a ss rs vs ws ps r)). ct_edition_id y = cr_edition_id r
      \<and> ct_organization_id y = cr_organization_id r)" using k(2,3,6,7) by auto
  moreover have "\<forall>i. cr_announcement r = Some i \<longrightarrow> (\<exists>y \<in> set (an_items (after db c a ss rs vs ws ps r)). an_id y = i
      \<and> an_edition_id y = cr_edition_id r \<and> an_organization_id y = cr_organization_id r)"
    using s k(6,7) by (auto simp: summary_def item_step_def)
  ultimately show ?thesis
    using si item_persists [OF ki s] controls unfolding scope_inv_def after_simps(8)
    by (metis (no_types, lifting) Un_iff list.set(1,2) set_append singletonD insertE empty_iff)
qed

lemma copies_inv_after:
  assumes inv: "heads_inv db" and s: "summary dw rq db c a ss rs vs ws ps r"
  shows "copies_inv (after db c a ss rs vs ws ps r)"
proof -
  define db' where "db' = after db c a ss rs vs ws ps r"
  have ki: "keys_inv db" and ci: "copies_inv db" using inv by (simp_all add: heads_inv_def)
  have old: "proved_by db' (rv_evidence x) (\<lambda>p. cr_announcement p = Some (rv_announcement x) \<and> copy_operation (cr_operation p))
     \<and> (\<exists>a \<in> set (an_items db'). an_id a = rv_announcement x \<and> an_edition_id a = ce_edition_id (rv_evidence x)
          \<and> an_organization_id a = ce_organization_id (rv_evidence x))" if x: "x \<in> set (an_revisions db)" for x
  proof -
    from ci x obtain b where b: "b \<in> set (an_items db)" "an_id b = rv_announcement x"
        "an_edition_id b = ce_edition_id (rv_evidence x)" "an_organization_id b = ce_organization_id (rv_evidence x)"
        and p: "proved_by db (rv_evidence x) (\<lambda>p. cr_announcement p = Some (rv_announcement x) \<and> copy_operation (cr_operation p))"
      by (auto simp: copies_inv_def)
    have "proved_by db' (rv_evidence x) (\<lambda>p. cr_announcement p = Some (rv_announcement x) \<and> copy_operation (cr_operation p))"
      unfolding db'_def by (rule proved_by_after [OF p])
    then show ?thesis
      using item_persists [OF ki s b(1)] b(2-4) by (auto simp: db'_def)
  qed
  have new: "proved_by db' (rv_evidence v) (\<lambda>p. cr_announcement p = Some (rv_announcement v) \<and> copy_operation (cr_operation p))
     \<and> (\<exists>a \<in> set (an_items db'). an_id a = rv_announcement v \<and> an_edition_id a = ce_edition_id (rv_evidence v)
          \<and> an_organization_id a = ce_organization_id (rv_evidence v))" if v: "v \<in> set rs" for v
  proof -
    from v s obtain h where h: "a = Some h" "rv_evidence v = evidence_in dw rq" "rv_announcement v = an_id h"
        and op: "copy_operation (cr_operation r)"
      by (auto simp: summary_def split: if_splits)
    have "cr_announcement r = Some (an_id h)" "item_step rq db h r" "closing dw rq db c r"
      using s h(1) by (simp_all add: summary_def)
    then show ?thesis
      using proved_by_new [of dw rq db c r "\<lambda>p. cr_announcement p = Some (an_id h) \<and> copy_operation (cr_operation p)"] h op
      by (auto simp: db'_def item_step_def)
  qed
  show ?thesis
    unfolding copies_inv_def db'_def [symmetric] using old new by (auto simp: db'_def)
qed

text \<open>The proofs of copies and approvals grow by those of the new receipt.\<close>

lemma receipt_id_unique:
  assumes "keys_inv db" and "p \<in> set (an_receipts db)" and "q \<in> set (an_receipts db)" and "cr_id p = cr_id q"
  shows "p = q"
  using assms by (auto simp: keys_inv_def distinct_map inj_on_def)

lemma filter_new_receipt:
  assumes "closing dw rq db c r"
  shows "filter (\<lambda>p. cr_id p = ce_command_receipt (evidence_in dw rq) \<and> P p) (an_receipts db @ [r]) = (if P r then [r] else [])"
  using closingD(5,11) [OF assms] by (auto simp: filter_empty_conv)

lemma old_evidence: "closing dw rq db c r \<Longrightarrow> proved_by db e P \<Longrightarrow> cr_id r \<noteq> ce_command_receipt e"
  using closingD(11) by (fastforce simp: proved_by_def)

lemma copy_proofs_after:
  assumes "copies_inv db" and s: "summary dw rq db c a ss rs vs ws ps r"
  shows "copy_proofs (after db c a ss rs vs ws ps r) i = copy_proofs db i
    @ (if copy_operation (cr_operation r) \<and> cr_announcement r = Some i
       then [(cr_resulting_version r, the (an_current_revision (the a)))] else [])"
proof -
  have cl: "closing dw rq db c r" using s by (simp add: summary_def)
  have "copy_proofs (after db c a ss rs vs ws ps r) i = copy_proofs db i
    @ concat (map (\<lambda>s. map (\<lambda>p. (cr_resulting_version p, rv_id s))
     (filter (\<lambda>p. cr_id p = ce_command_receipt (rv_evidence s) \<and> (cr_operation p = ''create'' \<or> cr_operation p = ''revise''))
        (an_receipts db @ [r]))) (filter (\<lambda>s. rv_announcement s = i) rs))"
  proof -
    have "cr_id r \<noteq> ce_command_receipt (rv_evidence x)" if "x \<in> set (an_revisions db)" for x
      using assms(1) that old_evidence [OF cl] by (fastforce simp: copies_inv_def)
    then show ?thesis
      unfolding copy_proofs_def after_simps filter_append [of "\<lambda>s. rv_announcement s = i"] map_append concat_append
      by (intro arg_cong2 [where f = append] arg_cong [where f = concat] map_cong refl) auto
  qed
  also have "concat (map (\<lambda>s. map (\<lambda>p. (cr_resulting_version p, rv_id s))
     (filter (\<lambda>p. cr_id p = ce_command_receipt (rv_evidence s) \<and> (cr_operation p = ''create'' \<or> cr_operation p = ''revise''))
        (an_receipts db @ [r]))) (filter (\<lambda>s. rv_announcement s = i) rs))
    = (if copy_operation (cr_operation r) \<and> cr_announcement r = Some i
       then [(cr_resulting_version r, the (an_current_revision (the a)))] else [])"
  proof (cases "copy_operation (cr_operation r)")
    case True
    then obtain v h where v: "rs = [v]" "a = Some h" "rv_evidence v = evidence_in dw rq" "rv_announcement v = an_id h"
        "an_current_revision h = Some (rv_id v)" "cr_announcement r = Some (an_id h)"
      using s by (auto simp: summary_def)
    have "filter (\<lambda>p. cr_id p = ce_command_receipt (rv_evidence v) \<and> (cr_operation p = ''create'' \<or> cr_operation p = ''revise''))
        (an_receipts db @ [r]) = [r]"
      unfolding v(3) filter_new_receipt [OF cl] using True by (simp add: copy_operation_def)
    then show ?thesis using True v by (auto simp del: filter_append)
  next
    case False
    then have "rs = []" using s by (simp add: summary_def)
    then show ?thesis using False by simp
  qed
  finally show ?thesis .
qed

lemma approval_proofs_after:
  assumes "reviews_inv db" and s: "summary dw rq db c a ss rs vs ws ps r"
  shows "approval_proofs (after db c a ss rs vs ws ps r) i = approval_proofs db i
    @ (if cr_operation r = ''approve'' \<and> cr_announcement r = Some i
       then [(cr_resulting_version r, the (an_current_revision (the a)))] else [])"
proof -
  have cl: "closing dw rq db c r" using s by (simp add: summary_def)
  have "approval_proofs (after db c a ss rs vs ws ps r) i = approval_proofs db i
    @ concat (map (\<lambda>w. map (\<lambda>p. (cr_resulting_version p, rw_revision w))
     (filter (\<lambda>p. cr_id p = ce_command_receipt (rw_evidence w) \<and> cr_announcement p = Some i \<and> cr_operation p = ''approve'')
        (an_receipts db @ [r]))) ws)"
  proof -
    have "cr_id r \<noteq> ce_command_receipt (rw_evidence x)" if "x \<in> set (an_reviews db)" for x
      using assms(1) that old_evidence [OF cl] by (fastforce simp: reviews_inv_def)
    then show ?thesis
      unfolding approval_proofs_def after_simps map_append concat_append
      by (intro arg_cong2 [where f = append] arg_cong [where f = concat] map_cong refl) auto
  qed
  also have "concat (map (\<lambda>w. map (\<lambda>p. (cr_resulting_version p, rw_revision w))
     (filter (\<lambda>p. cr_id p = ce_command_receipt (rw_evidence w) \<and> cr_announcement p = Some i \<and> cr_operation p = ''approve'')
        (an_receipts db @ [r]))) ws)
    = (if cr_operation r = ''approve'' \<and> cr_announcement r = Some i
       then [(cr_resulting_version r, the (an_current_revision (the a)))] else [])"
  proof (cases "review_operation (cr_operation r)")
    case True
    then obtain w h where w: "ws = [w]" "a = Some h" "rw_evidence w = evidence_in dw rq" "an_current_revision h = Some (rw_revision w)"
      using s by (auto simp: summary_def)
    have "filter (\<lambda>p. cr_id p = ce_command_receipt (rw_evidence w) \<and> cr_announcement p = Some i \<and> cr_operation p = ''approve'')
        (an_receipts db @ [r]) = (if cr_announcement r = Some i \<and> cr_operation r = ''approve'' then [r] else [])"
      unfolding w(3) filter_new_receipt [OF cl] by simp
    then show ?thesis using w by (auto simp del: filter_append)
  next
    case False
    then have "ws = []" using s by (simp add: summary_def)
    then show ?thesis using False by (auto simp: review_operation_def)
  qed
  finally show ?thesis .
qed

text \<open>The copy that an announcement names as current or approved is one of its own.\<close>

lemma copy_proofsD:
  assumes "(v, i) \<in> set (copy_proofs db a)"
  shows "\<exists>s \<in> set (an_revisions db). rv_id s = i \<and> rv_announcement s = a
    \<and> (\<exists>p \<in> set (an_receipts db). cr_id p = ce_command_receipt (rv_evidence s) \<and> cr_resulting_version p = v)"
  using assms by (auto simp: copy_proofs_def)

lemma approval_proofsD:
  assumes "(v, i) \<in> set (approval_proofs db a)"
  shows "\<exists>w \<in> set (an_reviews db). rw_revision w = i
    \<and> (\<exists>p \<in> set (an_receipts db). cr_id p = ce_command_receipt (rw_evidence w) \<and> cr_resulting_version p = v
        \<and> cr_announcement p = Some a \<and> cr_operation p = ''approve'')"
  using assms by (auto simp: approval_proofs_def)

lemma current_revision_owned:
  assumes "item_inv db" and "a \<in> set (an_items db)" and "an_current_revision a = Some i"
  shows "\<exists>s \<in> set (an_revisions db). rv_id s = i \<and> rv_announcement s = an_id a"
proof -
  have "map_option snd (latest fst (copy_proofs db (an_id a))) = Some i"
    using assms by (auto simp: item_inv_def item_head_def Let_def)
  then obtain v where "(v, i) \<in> set (copy_proofs db (an_id a))"
    by (auto dest!: latest_SomeD)
  then show ?thesis by (auto dest: copy_proofsD)
qed

lemma reviews_inv_after:
  assumes inv: "heads_inv db" and s: "summary dw rq db c a ss rs vs ws ps r"
  shows "reviews_inv (after db c a ss rs vs ws ps r)"
proof -
  define db' where "db' = after db c a ss rs vs ws ps r"
  have ki: "keys_inv db" and ri: "reviews_inv db" and ii: "item_inv db" using inv by (simp_all add: heads_inv_def)
  have cl: "closing dw rq db c r" using s by (simp add: summary_def)
  have old: "review_operation (rw_decision w) \<and> (\<exists>s \<in> set (an_revisions db'). rv_id s = rw_revision w
      \<and> proved_by db' (rw_evidence w) (\<lambda>p. cr_announcement p = Some (rv_announcement s) \<and> cr_operation p = rw_decision w))"
    if "w \<in> set (an_reviews db)" for w
    using ri that unfolding reviews_inv_def db'_def by (auto intro: proved_by_after)
  have new: "review_operation (rw_decision w) \<and> (\<exists>s \<in> set (an_revisions db'). rv_id s = rw_revision w
      \<and> proved_by db' (rw_evidence w) (\<lambda>p. cr_announcement p = Some (rv_announcement s) \<and> cr_operation p = rw_decision w))"
    if "w \<in> set ws" for w
  proof -
    from that s obtain h x where h: "a = Some h" "rw_evidence w = evidence_in dw rq" "rw_decision w = cr_operation r"
        "an_current_revision h = Some (rw_revision w)" "x \<in> set (an_revisions db)" "rv_id x = rw_revision w"
        and op: "review_operation (cr_operation r)"
      by (auto simp: summary_def split: if_splits)
    have st: "item_step rq db h r" and an: "cr_announcement r = Some (an_id h)" using s h(1) by (simp_all add: summary_def)
    from st op obtain b where b: "b \<in> set (an_items db)" "h = head_after (cr_operation r) (cr_object_id r) b"
      by (auto simp: item_step_def review_operation_def)
    then have "an_current_revision b = Some (rw_revision w)" "an_id b = an_id h"
      using h(4) op by (auto simp: head_after_fields review_operation_def)
    then obtain y where y: "y \<in> set (an_revisions db)" "rv_id y = rw_revision w" "rv_announcement y = an_id h"
      using current_revision_owned [OF ii b(1)] by auto
    then have "proved_by db' (rw_evidence w) (\<lambda>p. cr_announcement p = Some (rv_announcement y) \<and> cr_operation p = rw_decision w)"
      using proved_by_new [OF cl, of "\<lambda>p. cr_announcement p = Some (rv_announcement y) \<and> cr_operation p = rw_decision w"] h an
      by (simp add: db'_def)
    then show ?thesis using y op h(3) by (auto simp: db'_def)
  qed
  show ?thesis
    unfolding reviews_inv_def db'_def [symmetric] using old new by (auto simp: db'_def)
qed

text \<open>The versions that prove copies and approvals do not exceed the version of the announcement.\<close>

lemma proof_versions:
  assumes "keys_inv db" and "copies_inv db" and "\<forall>r \<in> set (item_receipts db i). cr_resulting_version r \<le> n"
  shows "\<forall>x \<in> set (copy_proofs db i). fst x \<le> n" "\<forall>x \<in> set (approval_proofs db i). fst x \<le> n"
proof -
  show "\<forall>x \<in> set (copy_proofs db i). fst x \<le> n"
  proof safe
    fix v j assume "(v, j) \<in> set (copy_proofs db i)"
    then obtain s p where s: "s \<in> set (an_revisions db)" "rv_announcement s = i"
        "p \<in> set (an_receipts db)" "cr_id p = ce_command_receipt (rv_evidence s)" "cr_resulting_version p = v"
      by (auto dest: copy_proofsD)
    from assms(2) s(1) obtain q where "q \<in> set (an_receipts db)" "cr_id q = ce_command_receipt (rv_evidence s)"
        "cr_announcement q = Some i"
      using s(2) by (auto simp: copies_inv_def proved_by_def)
    moreover from this have "p = q" using receipt_id_unique [OF assms(1)] s by auto
    ultimately show "fst (v, j) \<le> n" using assms(3) s(5) by (auto simp: item_receipts_def)
  qed
  show "\<forall>x \<in> set (approval_proofs db i). fst x \<le> n"
    using assms(3) by (auto simp: item_receipts_def dest!: approval_proofsD)
qed

lemma item_inv_after:
  assumes inv: "heads_inv db" and s: "summary dw rq db c a ss rs vs ws ps r"
  shows "item_inv (after db c a ss rs vs ws ps r)"
proof -
  define db' where "db' = after db c a ss rs vs ws ps r"
  have ki: "keys_inv db" and ri: "reviews_inv db" and ii: "item_inv db" and ci: "copies_inv db" and si: "scope_inv db"
    using inv by (simp_all add: heads_inv_def)
  define good where "good = (\<lambda>db a. item_head db a \<and> int (length (item_receipts db (an_id a))) = an_version a
     \<and> (\<forall>r \<in> set (item_receipts db (an_id a)). cr_resulting_version r \<le> an_version a) \<and> an_version a \<le> MAX_HISTORY)"
  have other: "good db' x" if x: "x \<in> set (an_items db)" "cr_announcement r \<noteq> Some (an_id x)" for x
  proof -
    have "good db x" using ii x(1) by (simp add: item_inv_def good_def)
    moreover have "item_receipts db' (an_id x) = item_receipts db (an_id x)"
        "copy_proofs db' (an_id x) = copy_proofs db (an_id x)" "approval_proofs db' (an_id x) = approval_proofs db (an_id x)"
      using x(2) copy_proofs_after [OF ci s] approval_proofs_after [OF ri s] by (simp_all add: db'_def item_receipts_after)
    ultimately show ?thesis by (simp add: good_def item_head_def)
  qed
  have mine: "good db' h" if h: "a = Some h" for h
  proof -
    define xs where "xs = item_receipts db (an_id h)"
    have st: "item_step rq db h r" and an: "cr_announcement r = Some (an_id h)" using s h by (simp_all add: summary_def)
    have new: "item_receipts db' (an_id h) = xs @ [r]"
        "copy_proofs db' (an_id h) = copy_proofs db (an_id h)
          @ (if copy_operation (cr_operation r) then [(an_version h, the (an_current_revision h))] else [])"
        "approval_proofs db' (an_id h) = approval_proofs db (an_id h)
          @ (if cr_operation r = ''approve'' then [(an_version h, the (an_current_revision h))] else [])"
      using an st copy_proofs_after [OF ci s] approval_proofs_after [OF ri s]
      by (simp_all add: db'_def item_receipts_after xs_def h item_step_def)
    show ?thesis
    proof (cases "cr_operation r = ''create''")
      case True
      then have fresh: "\<forall>x \<in> set (an_items db). an_id x \<noteq> an_id h" and hv: "an_version h = 1" "an_status h = ANN_DRAFT"
          "an_approved_revision h = None" using st by (auto simp: item_step_def)
      have "xs = []" using fresh si by (fastforce simp: xs_def item_receipts_def filter_empty_conv scope_inv_def)
      moreover have "copy_proofs db (an_id h) = []"
        using fresh ci by (fastforce simp: copy_proofs_def filter_empty_conv copies_inv_def)
      moreover have "approval_proofs db (an_id h) = []"
        using \<open>xs = []\<close> by (auto simp: approval_proofs_def xs_def item_receipts_def filter_empty_conv)
      moreover have "an_current_revision h \<noteq> None" using s h True by (auto simp: summary_def copy_operation_def)
      moreover have "cr_resulting_version r = 1" using st hv(1) by (simp add: item_step_def)
      ultimately show ?thesis
        using hv True by (auto simp: good_def item_head_def new Let_def latest_def copy_operation_def status_after.simps MAX_HISTORY_def)
    next
      case False
      then obtain b where b: "b \<in> set (an_items db)" "h = head_after (cr_operation r) (cr_object_id r) b"
        using st by (auto simp: item_step_def)
      have id: "an_id b = an_id h" "an_version h = an_version b + 1" by (simp_all add: b(2))
      have gb: "good db b" using ii b(1) by (simp add: item_inv_def good_def)
      have bound: "\<forall>y \<in> set xs. cr_resulting_version y \<le> an_version b" using gb by (simp add: good_def id xs_def)
      have rv: "cr_resulting_version r = an_version h" using st by (simp add: item_step_def)
      have max: "\<forall>y \<in> set xs. cr_resulting_version y \<le> cr_resulting_version r" using bound rv id(2) by fastforce
      note pv = proof_versions [OF ki ci bound [unfolded xs_def]]
      have "latest cr_resulting_version (filter (\<lambda>r. status_after (cr_operation r) \<noteq> None) (xs @ [r]))
          = (if status_after (cr_operation r) \<noteq> None then Some r
             else latest cr_resulting_version (filter (\<lambda>r. status_after (cr_operation r) \<noteq> None) xs))"
        by (rule latest_filter_append [OF max])
      moreover have "an_status h = (case status_after (cr_operation r) of None \<Rightarrow> an_status b | Some s \<Rightarrow> s)"
        by (simp add: b(2) head_after_fields)
      ultimately have status: "case latest cr_resulting_version (filter (\<lambda>r. status_after (cr_operation r) \<noteq> None) (xs @ [r])) of
          None \<Rightarrow> False | Some s \<Rightarrow> status_after (cr_operation s) = Some (an_status h)"
        using gb by (cases "status_after (cr_operation r)")
          (simp_all add: good_def item_head_def Let_def id xs_def split: option.splits)
      have current: "an_current_revision h = map_option snd (latest fst (copy_proofs db' (an_id h)))"
      proof (cases "cr_operation r = ''revise''")
        case True
        then have "an_current_revision h \<noteq> None" by (simp add: b(2) head_after_fields)
        then show ?thesis
          using latest_append [of "copy_proofs db (an_id h)" fst "(an_version h, the (an_current_revision h))"] pv(1) True id(2)
          by (fastforce simp: new copy_operation_def)
      next
        case no: False
        then show ?thesis
          using gb False by (simp add: new copy_operation_def good_def item_head_def Let_def id) (simp add: b(2) head_after_fields)
      qed
      have approved: "an_approved_revision h = map_option snd (latest fst (approval_proofs db' (an_id h)))"
      proof (cases "cr_operation r = ''approve''")
        case True
        then have "an_approved_revision h = an_current_revision h" "an_current_revision h \<noteq> None"
          using s h by (auto simp: b(2) head_after_fields summary_def review_operation_def)
        then show ?thesis
          using latest_append [of "approval_proofs db (an_id h)" fst "(an_version h, the (an_current_revision h))"] pv(2) True id(2)
          by (fastforce simp: new)
      next
        case no: False
        then show ?thesis
          using gb by (simp add: new good_def item_head_def Let_def id) (simp add: b(2) head_after_fields)
      qed
      have "item_head db' h"
        unfolding item_head_def Let_def new(1) using status current approved latest_append [OF max] rv by simp
      moreover have "an_version h \<le> MAX_HISTORY" using st by (simp add: item_step_def)
      ultimately show ?thesis
        using gb max rv id(2) by (auto simp: good_def new(1) id xs_def)
    qed
  qed
  have "good db' x" if "x \<in> set (an_items db')" for x
    using that other mine s by (auto simp: db'_def summary_def split: option.splits)
  then show ?thesis
    unfolding item_inv_def db'_def [symmetric] good_def by blast
qed

lemma heads_inv_commits:
  assumes "heads_inv db" and "commits env dw rq scope db db' r"
  shows "heads_inv db'"
proof -
  from commits_summary [OF assms(2)] obtain c a ss rs vs ws ps where
      db': "db' = after db c a ss rs vs ws ps r" and s: "summary dw rq db c a ss rs vs ws ps r"
    by blast
  have "keys_inv db" using assms(1) by (simp add: heads_inv_def)
  then show ?thesis
    using keys_inv_after [OF _ s] control_inv_after [OF assms(1) s] scope_inv_after [OF assms(1) s]
      copies_inv_after [OF assms(1) s] reviews_inv_after [OF assms(1) s] item_inv_after [OF assms(1) s]
    by (simp add: heads_inv_def db')
qed

lemma heads_inv_empty: "heads_inv empty_announcements"
  by (simp add: heads_inv_def keys_inv_def control_inv_def scope_inv_def copies_inv_def reviews_inv_def item_inv_def
      empty_announcements_def)

end
