(* ===== verification/Announcement_Safety.thy ===== *)
theory Announcement_Safety
  imports Announcement_Inv
begin

text \<open>
  Three more invariants of the announcement tables on top of \<open>heads_inv\<close>: every receipt satisfies
  the native guard, review rounds keep authors and approvers apart, and the announced limits hold.
\<close>

section \<open>Receipts satisfy the guard\<close>

definition receipts_inv :: "announcement_db \<Rightarrow> bool" where
  "receipts_inv db \<longleftrightarrow> (\<forall>r \<in> set (an_receipts db).
     settings_operation (cr_operation r) = (cr_announcement r = None) \<and> result_recorded db r
     \<and> int (length (filter (\<lambda>x. cr_control_sequence x \<le> cr_control_sequence r) (edition_receipts db (cr_edition_id r))))
         = cr_control_sequence r
     \<and> (\<forall>i. cr_announcement r = Some i \<longrightarrow>
         int (length (filter (\<lambda>x. cr_resulting_version x \<le> cr_resulting_version r) (item_receipts db i)))
           = cr_resulting_version r))"

lemma receipts_guarded:
  assumes "heads_inv db" and "receipts_inv db" and r: "r \<in> set (an_receipts db)"
  shows "receipt_guard db r"
proof -
  from assms(1) r obtain c where "c \<in> set (an_controls db)" "ct_edition_id c = cr_edition_id r"
      "ct_organization_id c = cr_organization_id r"
    by (auto simp: heads_inv_def scope_inv_def)
  then have "list_ex (\<lambda>c. ct_edition_id c = cr_edition_id r \<and> ct_organization_id c = cr_organization_id r \<and> control_head db c)
      (an_controls db)"
    using assms(1) by (auto simp: list_ex_iff heads_inv_def control_inv_def)
  moreover have "list_ex (\<lambda>a. an_id a = i \<and> an_edition_id a = cr_edition_id r \<and> an_organization_id a = cr_organization_id r
      \<and> item_head db a) (an_items db)" "cr_resulting_version r \<le> 4096" if i: "cr_announcement r = Some i" for i
  proof -
    from assms(1) r i obtain a where a: "a \<in> set (an_items db)" "an_id a = i" "an_edition_id a = cr_edition_id r"
        "an_organization_id a = cr_organization_id r"
      by (auto simp: heads_inv_def scope_inv_def)
    then show "list_ex (\<lambda>a. an_id a = i \<and> an_edition_id a = cr_edition_id r \<and> an_organization_id a = cr_organization_id r
      \<and> item_head db a) (an_items db)"
      using assms(1) by (auto simp: list_ex_iff heads_inv_def item_inv_def)
    have "r \<in> set (item_receipts db (an_id a))" using r i a(2) by (simp add: item_receipts_def)
    then show "cr_resulting_version r \<le> 4096"
      using assms(1) a(1) by (fastforce simp: heads_inv_def item_inv_def MAX_HISTORY_def)
  qed
  ultimately show ?thesis
    using assms(2) r unfolding receipt_guard_def receipts_inv_def by (auto split: option.splits)
qed

lemma control_persists:
  assumes "keys_inv db" and s: "summary dw rq db c a ss rs vs ws ps r" and x: "x \<in> set (an_controls db)"
  shows "\<exists>y \<in> set (an_controls (after db c a ss rs vs ws ps r)). ct_id y = ct_id x \<and> ct_edition_id y = ct_edition_id x"
proof (cases "ct_id x = ct_id c")
  case True
  have cl: "closing dw rq db c r" using s by (simp add: summary_def)
  note k = closingD [OF cl]
  from True have "prior_control dw rq db \<in> set (an_controls db)" using k(12) x by auto
  then have "x = prior_control dw rq db" using assms(1) x True k(1) by (auto simp: keys_inv_def distinct_map inj_on_def)
  then show ?thesis using True k(3) prior_control_scope [of dw rq db] by auto
qed (use x in auto)

lemma variant_of_item_after: "variant_of_item db v i \<Longrightarrow> variant_of_item (after db c a ss rs vs ws ps r) v i"
  by (auto simp: variant_of_item_def list_ex_iff)

lemma if_mono: "(P \<Longrightarrow> A \<Longrightarrow> A') \<Longrightarrow> (\<not> P \<Longrightarrow> B \<Longrightarrow> B') \<Longrightarrow> (if P then A else B) \<Longrightarrow> (if P then A' else B')"
  by simp

lemma result_recorded_after:
  assumes "keys_inv db" and s: "summary dw rq db c a ss rs vs ws ps r" and "result_recorded db x"
  shows "result_recorded (after db c a ss rs vs ws ps r) x"
proof -
  define db' where "db' = after db c a ss rs vs ws ps r"
  have items: "\<exists>y \<in> set (an_items db'). an_id y = an_id x" if "x \<in> set (an_items db)" for x
    using item_persists [OF assms(1) s that] by (auto simp only: db'_def)
  have controls: "\<exists>y \<in> set (an_controls db'). ct_id y = ct_id x \<and> ct_edition_id y = ct_edition_id x"
    if "x \<in> set (an_controls db)" for x
    using control_persists [OF assms(1) s that] by (simp only: db'_def)
  have sub: "set (an_settings db) \<subseteq> set (an_settings db')" "set (an_revisions db) \<subseteq> set (an_revisions db')"
      "set (an_reviews db) \<subseteq> set (an_reviews db')" "set (an_reports db) \<subseteq> set (an_reports db')"
    by (auto simp: db'_def)
  have rep: "variant_of_item db v i \<Longrightarrow> variant_of_item db' v i" for v i
    unfolding db'_def by (rule variant_of_item_after)
  show ?thesis
    using assms(3) unfolding result_recorded_def list_ex_iff db'_def [symmetric]
    apply (elim if_mono [rotated 2])
    subgoal using sub by blast
    subgoal using controls by metis
    subgoal using items sub by (metis subsetD)
    subgoal using items by metis
    subgoal using sub by blast
    subgoal using sub by blast
    subgoal using sub by blast
    subgoal using sub rep by (fastforce split: option.splits)
    done
qed

text \<open>The receipt of a commit names the record that the commit wrote.\<close>

lemma new_result_recorded:
  assumes inv: "heads_inv db" and "commits env dw rq scope db db' r"
  shows "result_recorded db' r"
  using assms(2)
proof cases
  case (commit_settings c s)
  then show ?thesis using closingD(5) [OF commit_settings(2)] by (simp add: result_recorded_def)
next
  case (commit_stopped c stop s)
  then show ?thesis using closingD(3,7) [OF commit_stopped(2)] by (simp add: result_recorded_def list_ex_iff)
next
  case (commit_create c s a v i vs)
  then show ?thesis
    using closingD(5) [OF commit_create(2)]
    by (simp add: result_recorded_def list_ex_iff copy_written_def new_announcement_def)
next
  case (commit_revise c s a v vs)
  then show ?thesis
    using closingD(5) [OF commit_revise(2)] by (simp add: result_recorded_def list_ex_iff copy_written_def)
next
  case (commit_request c s a i)
  have "\<exists>s \<in> set (an_revisions db). rv_id s = i \<and> rv_announcement s = an_id a"
    using current_revision_owned inv commit_request by (auto simp: heads_inv_def)
  then show ?thesis using commit_request by (auto simp: result_recorded_def list_ex_iff)
next
  case (commit_review c s a p w)
  have "\<exists>s \<in> set (an_revisions db). rv_id s = rv_id p \<and> rv_announcement s = an_id a"
    using current_revision_owned inv commit_review by (auto simp: heads_inv_def)
  then show ?thesis
    using commit_review closingD(5) [OF commit_review(2)] by (auto simp: result_recorded_def list_ex_iff)
next
  case (commit_report c a p)
  have "variant_of_item db' (pr_variant p) (an_id a)"
    unfolding commit_report(1) by (rule variant_of_item_after) (rule commit_report)
  moreover have "p \<in> set (an_reports db')" by (simp add: commit_report(1))
  moreover have "cr_operation r \<in> {''record_publication'', ''withdraw_report'', ''correct_publication''}"
      "cr_announcement r = Some (an_id a)" "cr_object_id r = pr_id p" "ce_command_receipt (pr_evidence p) = cr_id r"
    using commit_report closingD(5) [OF commit_report(2)] by simp_all
  ultimately show ?thesis by (auto simp: result_recorded_def list_ex_iff)
next
  case (commit_cancel c a)
  then show ?thesis by (simp add: result_recorded_def list_ex_iff)
qed

lemma count_below_append:
  fixes key :: "'a \<Rightarrow> int"
  assumes "\<forall>y \<in> set xs. key y \<le> n" and "n < key x" and "key z \<le> n"
  shows "filter (\<lambda>y. key y \<le> key z) (xs @ [x]) = filter (\<lambda>y. key y \<le> key z) xs"
  using assms by auto

lemma receipts_inv_commits:
  assumes inv: "heads_inv db" and ri: "receipts_inv db" and cm: "commits env dw rq scope db db' r"
  shows "receipts_inv db'"
proof -
  from commits_summary [OF cm] obtain c a ss rs vs ws ps where
      db': "db' = after db c a ss rs vs ws ps r" and s: "summary dw rq db c a ss rs vs ws ps r"
    by blast
  have ki: "keys_inv db" and ci: "control_inv db" and si: "scope_inv db" and ii: "item_inv db"
    using inv by (simp_all add: heads_inv_def)
  have cl: "closing dw rq db c r" using s by (simp add: summary_def)
  note k = closingD [OF cl]
  define e where "e = rq_edition_id rq"
  note C = prior_control_agrees(1,2) [OF ci si cl, folded e_def]
  have er': "edition_receipts db' f = edition_receipts db f" if "f \<noteq> e" for f
    using k(7) that by (simp add: db' edition_receipts_after e_def)
  have er: "edition_receipts db' e = edition_receipts db e @ [r]"
    using k(7) by (simp add: db' edition_receipts_after e_def)
  have seq: "cr_control_sequence r = ct_sequence (prior_control dw rq db) + 1" using k(4,10) by simp
  have inv': "heads_inv db'" by (rule heads_inv_commits [OF inv cm])
  have old_seq: "int (length (filter (\<lambda>x. cr_control_sequence x \<le> cr_control_sequence y) (edition_receipts db' (cr_edition_id y))))
      = cr_control_sequence y" if y: "y \<in> set (an_receipts db)" for y
  proof (cases "cr_edition_id y = e")
    case True
    then have "cr_control_sequence y \<le> ct_sequence (prior_control dw rq db)" using C(2) y by (auto simp: edition_receipts_def)
    moreover have "int (length (filter (\<lambda>x. cr_control_sequence x \<le> cr_control_sequence y) (edition_receipts db e)))
        = cr_control_sequence y"
      using ri y by (auto simp: receipts_inv_def True [symmetric])
    ultimately show ?thesis
      using count_below_append [OF C(2), of r y] seq unfolding True er by (simp del: filter_append)
  next
    case False
    then show ?thesis using ri y er' by (simp add: receipts_inv_def)
  qed
  have new_seq: "int (length (filter (\<lambda>x. cr_control_sequence x \<le> cr_control_sequence r) (edition_receipts db' (cr_edition_id r))))
      = cr_control_sequence r"
  proof -
    have "filter (\<lambda>x. cr_control_sequence x \<le> cr_control_sequence r) (edition_receipts db e @ [r]) = edition_receipts db e @ [r]"
      using C(2) seq by (fastforce intro: filter_True)
    then show ?thesis using C(1) seq k(7) er by (simp add: e_def del: filter_append)
  qed
  have old_ver: "int (length (filter (\<lambda>x. cr_resulting_version x \<le> cr_resulting_version y) (item_receipts db' i)))
      = cr_resulting_version y" if y: "y \<in> set (an_receipts db)" "cr_announcement y = Some i" for y i
  proof (cases "cr_announcement r = Some i")
    case True
    then obtain h where h: "a = Some h" "an_id h = i" using s by (auto simp: summary_def)
    have st: "item_step rq db h r" using s h by (simp add: summary_def)
    obtain x where x: "x \<in> set (an_items db)" "an_id x = i" using si y by (auto simp: scope_inv_def)
    then have "cr_operation r \<noteq> ''create''" using st h by (auto simp: item_step_def)
    then obtain b where b: "b \<in> set (an_items db)" "h = head_after (cr_operation r) (cr_object_id r) b" "cr_resulting_version r = an_version h"
      using st by (auto simp: item_step_def)
    have "\<forall>z \<in> set (item_receipts db i). cr_resulting_version z \<le> an_version b" using ii b h(2) by (auto simp: item_inv_def)
    moreover have "y \<in> set (item_receipts db i)" using y by (simp add: item_receipts_def)
    ultimately show ?thesis
      using count_below_append [of "item_receipts db i" cr_resulting_version "an_version b" r y] True b ri y
      by (simp add: db' item_receipts_after receipts_inv_def del: filter_append)
  next
    case False
    then show ?thesis using ri y by (simp add: db' item_receipts_after receipts_inv_def)
  qed
  have new_ver: "int (length (filter (\<lambda>x. cr_resulting_version x \<le> cr_resulting_version r) (item_receipts db' i)))
      = cr_resulting_version r" if i: "cr_announcement r = Some i" for i
  proof -
    obtain h where h: "a = Some h" "an_id h = i" using s i by (auto simp: summary_def)
    then have "h \<in> set (an_items db')" "cr_resulting_version r = an_version h"
      using s by (auto simp: db' summary_def item_step_def)
    then have "int (length (item_receipts db' i)) = cr_resulting_version r"
        "\<forall>x \<in> set (item_receipts db' i). cr_resulting_version x \<le> cr_resulting_version r"
      using inv' h(2) by (auto simp: heads_inv_def item_inv_def)
    then show ?thesis by simp
  qed
  have "receipts_inv db' \<longleftrightarrow> (\<forall>y \<in> set (an_receipts db @ [r]).
     settings_operation (cr_operation y) = (cr_announcement y = None) \<and> result_recorded db' y
     \<and> int (length (filter (\<lambda>x. cr_control_sequence x \<le> cr_control_sequence y) (edition_receipts db' (cr_edition_id y))))
         = cr_control_sequence y
     \<and> (\<forall>i. cr_announcement y = Some i \<longrightarrow>
         int (length (filter (\<lambda>x. cr_resulting_version x \<le> cr_resulting_version y) (item_receipts db' i)))
           = cr_resulting_version y))"
    by (simp only: receipts_inv_def db' after_simps)
  moreover have "settings_operation (cr_operation y) = (cr_announcement y = None) \<and> result_recorded db' y"
    if "y \<in> set (an_receipts db)" for y
    using ri that result_recorded_after [OF ki s, of y] by (simp add: receipts_inv_def db')
  moreover have "settings_operation (cr_operation r) = (cr_announcement r = None) \<and> result_recorded db' r"
    using s new_result_recorded [OF inv cm] by (auto simp: summary_def)
  ultimately show ?thesis
    using old_seq new_seq old_ver new_ver by (auto simp del: filter_append)
qed

section \<open>Review rounds\<close>

text \<open>
  \<open>closed_rounds\<close>: as soon as a copy of the round of the current copy is approved, it is the current
  and the approved one, so that the next revision opens a new round. \<open>independent\<close>: nobody approves a
  copy of a round in which they wrote one, before or after the approval.
\<close>

definition closed_rounds :: "announcement_db \<Rightarrow> bool" where
  "closed_rounds db \<longleftrightarrow> (\<forall>a \<in> set (an_items db). \<forall>s \<in> set (an_revisions db). \<forall>v \<in> set (an_revisions db).
     rv_announcement s = an_id a \<and> rv_announcement v = an_id a \<and> an_current_revision a = Some (rv_id s)
     \<and> approved_in db (rv_id v) \<and> rv_round_id s = rv_round_id v
     \<longrightarrow> v = s \<and> an_approved_revision a = an_current_revision a)"

definition independent :: "announcement_db \<Rightarrow> bool" where
  "independent db \<longleftrightarrow> list_all (\<lambda>w. rw_decision w = ''approve'' \<longrightarrow> list_all (\<lambda>v. rv_id v = rw_revision w \<longrightarrow>
     list_all (\<lambda>x. rv_announcement x = rv_announcement v \<and> rv_round_id x = rv_round_id v
       \<longrightarrow> ce_actor_id (rv_evidence x) \<noteq> ce_actor_id (rw_evidence w)) (an_revisions db)) (an_revisions db)) (an_reviews db)"

lemma independentI:
  assumes "\<And>w v x. w \<in> set (an_reviews db) \<Longrightarrow> rw_decision w = ''approve'' \<Longrightarrow> v \<in> set (an_revisions db)
    \<Longrightarrow> rv_id v = rw_revision w \<Longrightarrow> x \<in> set (an_revisions db) \<Longrightarrow> rv_announcement x = rv_announcement v
    \<Longrightarrow> rv_round_id x = rv_round_id v \<Longrightarrow> ce_actor_id (rv_evidence x) \<noteq> ce_actor_id (rw_evidence w)"
  shows "independent db"
  using assms by (auto simp: independent_def list_all_iff)

lemma independentD:
  assumes "independent db" and "w \<in> set (an_reviews db)" and "rw_decision w = ''approve''" and "v \<in> set (an_revisions db)"
    and "rv_id v = rw_revision w" and "x \<in> set (an_revisions db)" and "rv_announcement x = rv_announcement v"
    and "rv_round_id x = rv_round_id v"
  shows "ce_actor_id (rv_evidence x) \<noteq> ce_actor_id (rw_evidence w)"
  using assms by (auto simp: independent_def list_all_iff)

definition rounds_inv :: "announcement_db \<Rightarrow> bool" where
  "rounds_inv db \<longleftrightarrow> closed_rounds db \<and> independent db"

definition fresh_round :: "draw \<Rightarrow> announcement_db \<Rightarrow> bool" where
  "fresh_round dw db \<longleftrightarrow> dw_round dw \<notin> rv_round_id ` set (an_revisions db)"

lemma revision_unique:
  assumes "heads_inv db" and "s \<in> set (an_revisions db)" and "v \<in> set (an_revisions db)" and "rv_id s = rv_id v"
  shows "s = v"
  using assms by (auto simp: heads_inv_def keys_inv_def distinct_map inj_on_def)

lemma item_unique:
  assumes "heads_inv db" and "a \<in> set (an_items db)" and "b \<in> set (an_items db)" and "an_id a = an_id b"
  shows "a = b"
  using assms by (auto simp: heads_inv_def keys_inv_def distinct_map inj_on_def)

lemma approved_revision_exists:
  assumes "heads_inv db" and "approved_in db i"
  shows "\<exists>s \<in> set (an_revisions db). rv_id s = i"
  using assms by (auto simp: approved_in_def list_ex_iff heads_inv_def reviews_inv_def)

lemma revision_item_exists:
  "heads_inv db \<Longrightarrow> s \<in> set (an_revisions db) \<Longrightarrow> \<exists>a \<in> set (an_items db). an_id a = rv_announcement s"
  by (auto simp: heads_inv_def copies_inv_def)

lemma current_is_own:
  assumes "heads_inv db" and "a \<in> set (an_items db)" and "an_current_revision a = Some (rv_id p)" and "p \<in> set (an_revisions db)"
  shows "rv_announcement p = an_id a"
  using current_revision_owned [of db a "rv_id p"] revision_unique [OF assms(1) _ assms(4)] assms by (auto simp: heads_inv_def)

lemma approved_in_after:
  "approved_in (after db c a ss rs vs ws ps r) i \<longleftrightarrow> approved_in db i \<or> (\<exists>w \<in> set ws. rw_revision w = i \<and> rw_decision w = ''approve'')"
  by (auto simp: approved_in_def list_ex_iff)

text \<open>A commit that neither writes a copy nor reviews one leaves the rounds alone.\<close>

lemma rounds_inv_same:
  assumes "heads_inv db" and "rounds_inv db"
    and "\<And>h. a = Some h \<Longrightarrow> \<exists>b \<in> set (an_items db). an_id h = an_id b \<and> an_current_revision h = an_current_revision b
      \<and> an_approved_revision h = an_approved_revision b"
  shows "rounds_inv (after db c a ss [] vs [] ps r)"
proof -
  have "independent (after db c a ss [] vs [] ps r)" using assms(2) by (simp add: rounds_inv_def independent_def)
  moreover have "closed_rounds (after db c a ss [] vs [] ps r)"
    unfolding closed_rounds_def
  proof (intro ballI impI)
    fix y s v
    assume y: "y \<in> set (an_items (after db c a ss [] vs [] ps r))"
      and sv: "s \<in> set (an_revisions (after db c a ss [] vs [] ps r))" "v \<in> set (an_revisions (after db c a ss [] vs [] ps r))"
      and *: "rv_announcement s = an_id y \<and> rv_announcement v = an_id y \<and> an_current_revision y = Some (rv_id s)
       \<and> approved_in (after db c a ss [] vs [] ps r) (rv_id v) \<and> rv_round_id s = rv_round_id v"
    from y obtain b where "b \<in> set (an_items db)" "an_id y = an_id b" "an_current_revision y = an_current_revision b"
        "an_approved_revision y = an_approved_revision b"
      using assms(3) by (auto split: option.splits)
    then show "v = s \<and> an_approved_revision y = an_current_revision y"
      using assms(2) sv * unfolding rounds_inv_def closed_rounds_def by (simp add: approved_in_after)
  qed
  ultimately show ?thesis by (simp add: rounds_inv_def)
qed

text \<open>A new copy never falls into a round with an approved copy.\<close>

lemma new_copy_round:
  assumes inv: "heads_inv db" and cr: "closed_rounds db" and fresh: "fresh_round dw db"
    and a: "a \<in> set (an_items db)" and l: "linked dw db a v"
    and x: "x \<in> set (an_revisions db)" "rv_announcement x = an_id a" "approved_in db (rv_id x)"
  shows "rv_round_id v \<noteq> rv_round_id x"
proof (cases "an_current_revision a")
  case None
  then show ?thesis using l x fresh by (auto simp: linked_def fresh_round_def)
next
  case (Some i)
  then obtain p where p: "p \<in> set (an_revisions db)" "rv_id p = i"
      "(rv_base_approved_revision v, rv_round_id v) = next_round dw a p"
    using l by (auto simp: linked_def)
  show ?thesis
  proof (cases "an_current_revision a = an_approved_revision a")
    case True
    then show ?thesis using p(3) x(1) fresh by (auto simp: next_round_def fresh_round_def)
  next
    case False
    have "rv_announcement p = an_id a" using current_is_own [OF inv a] Some p by auto
    then have "rv_round_id p \<noteq> rv_round_id x"
      using cr a p x Some False unfolding closed_rounds_def by metis
    then show ?thesis using p(3) False by (simp add: next_round_def)
  qed
qed

lemma rounds_inv_copy:
  assumes inv: "heads_inv db" and ri: "rounds_inv db" and new: "\<forall>x \<in> set (an_revisions db). rv_id x \<noteq> rv_id v"
    and h: "an_current_revision h = Some (rv_id v)" "rv_announcement v = an_id h"
    and apart: "\<And>x. x \<in> set (an_revisions db) \<Longrightarrow> rv_announcement x = an_id h \<Longrightarrow> approved_in db (rv_id x)
      \<Longrightarrow> rv_round_id v \<noteq> rv_round_id x"
  shows "rounds_inv (after db c (Some h) ss [v] vs [] ps r)"
proof -
  define db' where "db' = after db c (Some h) ss [v] vs [] ps r"
  have ap: "approved_in db' i = approved_in db i" for i by (simp add: db'_def approved_in_after)
  have unapproved: "\<not> approved_in db (rv_id v)" using approved_revision_exists [OF inv] new by metis
  have "independent db'"
  proof (rule independentI)
    fix w u x
    assume w: "w \<in> set (an_reviews db')" "rw_decision w = ''approve''"
      and u: "u \<in> set (an_revisions db')" "rv_id u = rw_revision w" and x: "x \<in> set (an_revisions db')"
      and same: "rv_announcement x = rv_announcement u" "rv_round_id x = rv_round_id u"
    have w': "w \<in> set (an_reviews db)" using w by (simp add: db'_def)
    then have au: "approved_in db (rv_id u)" using w u by (auto simp: approved_in_def list_ex_iff)
    then have u': "u \<in> set (an_revisions db)" using u(1) unapproved by (auto simp: db'_def)
    have "x \<noteq> v"
    proof
      assume "x = v"
      then have "rv_round_id v \<noteq> rv_round_id u" using apart [OF u' _ au] same h(2) by simp
      then show False using same \<open>x = v\<close> by simp
    qed
    then have "x \<in> set (an_revisions db)" using x by (simp add: db'_def)
    then show "ce_actor_id (rv_evidence x) \<noteq> ce_actor_id (rw_evidence w)"
      using ri w' w(2) u' u(2) same by (intro independentD [of db w u x]) (auto simp: rounds_inv_def)
  qed
  moreover have "closed_rounds db'"
    unfolding closed_rounds_def
  proof (intro ballI impI)
    fix y s u
    assume y: "y \<in> set (an_items db')" and s: "s \<in> set (an_revisions db')" and u: "u \<in> set (an_revisions db')"
      and *: "rv_announcement s = an_id y \<and> rv_announcement u = an_id y \<and> an_current_revision y = Some (rv_id s)
       \<and> approved_in db' (rv_id u) \<and> rv_round_id s = rv_round_id u"
    have u': "u \<in> set (an_revisions db)" using u * unapproved by (auto simp: db'_def ap [unfolded db'_def])
    show "u = s \<and> an_approved_revision y = an_current_revision y"
    proof (cases "y = h")
      case True
      then have "rv_id s = rv_id v" using * h(1) by simp
      then have "s = v" using s new by (auto simp: db'_def)
      then show ?thesis using apart [OF u'] * True by (simp add: ap)
    next
      case False
      then have y': "y \<in> set (an_items db)" "an_id y \<noteq> an_id h" using y by (auto simp: db'_def)
      then have "s \<in> set (an_revisions db)" using s * h(2) by (auto simp: db'_def)
      then show ?thesis using ri y'(1) u' * unfolding rounds_inv_def closed_rounds_def by (simp add: ap)
    qed
  qed
  ultimately show ?thesis by (simp add: rounds_inv_def db'_def)
qed

lemma rounds_inv_review:
  assumes inv: "heads_inv db" and ri: "rounds_inv db" and a: "a \<in> set (an_items db)" and p: "p \<in> set (an_revisions db)"
    and cur: "an_current_revision a = Some (rv_id p)"
    and apart: "\<forall>x \<in> set (an_revisions db). rv_announcement x = an_id a \<and> rv_round_id x = rv_round_id p
           \<longrightarrow> ce_actor_id (rv_evidence x) \<noteq> ce_actor_id (rw_evidence w)"
    and w: "rw_revision w = rv_id p" "rw_decision w = ''approve'' \<or> rw_decision w = ''changes_requested''"
      "\<forall>x \<in> set (an_reviews db). rw_revision x \<noteq> rv_id p"
  shows "rounds_inv (after db c (Some (head_after (rw_decision w) (rv_id p) a)) ss [] vs [w] ps r)"
proof -
  define h where "h = head_after (rw_decision w) (rv_id p) a"
  define db' where "db' = after db c (Some h) ss [] vs [w] ps r"
  have own: "rv_announcement p = an_id a" by (rule current_is_own [OF inv a cur p])
  have open_round: "\<not> approved_in db (rv_id p)" using w(3) by (auto simp: approved_in_def list_ex_iff)
  have "independent db'"
  proof (rule independentI)
    fix z u x
    assume z: "z \<in> set (an_reviews db')" "rw_decision z = ''approve''"
      and u: "u \<in> set (an_revisions db')" "rv_id u = rw_revision z" and x: "x \<in> set (an_revisions db')"
      and same: "rv_announcement x = rv_announcement u" "rv_round_id x = rv_round_id u"
    have u': "u \<in> set (an_revisions db)" "x \<in> set (an_revisions db)" using u x by (simp_all add: db'_def)
    show "ce_actor_id (rv_evidence x) \<noteq> ce_actor_id (rw_evidence z)"
    proof (cases "z = w")
      case True
      then have "u = p" using u revision_unique [OF inv u'(1) p] w(1) by simp
      then show ?thesis using apart u'(2) same own True by simp
    next
      case False
      then have "z \<in> set (an_reviews db)" using z by (simp add: db'_def)
      then show ?thesis using ri z(2) u' u(2) same by (intro independentD [of db z u x]) (auto simp: rounds_inv_def)
    qed
  qed
  moreover have "closed_rounds db'"
    unfolding closed_rounds_def
  proof (intro ballI impI)
    fix y s u
    assume y: "y \<in> set (an_items db')" and s: "s \<in> set (an_revisions db')" and u: "u \<in> set (an_revisions db')"
      and *: "rv_announcement s = an_id y \<and> rv_announcement u = an_id y \<and> an_current_revision y = Some (rv_id s)
       \<and> approved_in db' (rv_id u) \<and> rv_round_id s = rv_round_id u"
    have su: "s \<in> set (an_revisions db)" "u \<in> set (an_revisions db)" using s u by (simp_all add: db'_def)
    have ap: "approved_in db (rv_id u) \<or> u = p \<and> rw_decision w = ''approve''"
      using * w(1) revision_unique [OF inv p su(2)] by (auto simp: db'_def approved_in_after)
    show "u = s \<and> an_approved_revision y = an_current_revision y"
    proof (cases "y = h")
      case True
      have id: "an_id h = an_id a" "an_current_revision h = an_current_revision a"
        using w(2) by (auto simp: h_def head_after_fields)
      have "an_current_revision y = Some (rv_id s)" using * by blast
      then have "rv_id s = rv_id p" using True id(2) cur by simp
      then have "s = p" by (rule revision_unique [OF inv su(1) p])
      have "\<not> approved_in db (rv_id u)"
      proof
        assume "approved_in db (rv_id u)"
        then have "u = s \<and> an_approved_revision a = an_current_revision a"
          using ri a su * True id unfolding rounds_inv_def closed_rounds_def by metis
        then show False using \<open>s = p\<close> \<open>approved_in db (rv_id u)\<close> open_round by simp
      qed
      then show ?thesis using ap True \<open>s = p\<close> by (auto simp: h_def head_after_fields)
    next
      case False
      then have y': "y \<in> set (an_items db)" "an_id y \<noteq> an_id a" using y by (auto simp: db'_def h_def)
      then have "u \<noteq> p" using * own by auto
      then show ?thesis using ri y'(1) su * ap unfolding rounds_inv_def closed_rounds_def by blast
    qed
  qed
  ultimately show ?thesis by (simp add: rounds_inv_def db'_def h_def)
qed

lemma rounds_inv_commits:
  assumes inv: "heads_inv db" and ri: "rounds_inv db" and fresh: "fresh_round dw db"
    and cm: "commits env dw rq scope db db' r"
  shows "rounds_inv db'"
  using cm
proof cases
  case (commit_settings c s)
  then show ?thesis using rounds_inv_same [OF inv ri, of None] by simp
next
  case (commit_stopped c stop s)
  then show ?thesis using rounds_inv_same [OF inv ri, of None] by simp
next
  case (commit_create c s a v i vs)
  have "\<forall>x \<in> set (an_revisions db). rv_announcement x \<noteq> i"
    using commit_create(6) revision_item_exists [OF inv] by blast
  moreover have "an_id a = i" using commit_create by (simp add: new_announcement_def)
  ultimately show ?thesis
    unfolding commit_create(1) using commit_create
    by (intro rounds_inv_copy [OF inv ri]) (auto simp: copy_written_def)
next
  case (commit_revise c s a v vs)
  have "rv_round_id v \<noteq> rv_round_id x"
    if "x \<in> set (an_revisions db)" "rv_announcement x = an_id a" "approved_in db (rv_id x)" for x
    by (rule new_copy_round [OF inv _ fresh commit_revise(5) commit_revise(12) that]) (use ri in \<open>simp add: rounds_inv_def\<close>)
  then show ?thesis
    unfolding commit_revise(1) using commit_revise
    by (intro rounds_inv_copy [OF inv ri]) (auto simp: copy_written_def head_after_fields)
next
  case (commit_request c s a i)
  show ?thesis
    unfolding commit_request(1) using commit_request(5)
    by (intro rounds_inv_same [OF inv ri]) (auto simp: head_after_fields)
next
  case (commit_review c s a p w)
  show ?thesis
    unfolding commit_review(1) using commit_review
    by (intro rounds_inv_review [OF inv ri]) auto
next
  case (commit_report c a p)
  have "cr_operation r \<noteq> ''revise''" "cr_operation r \<noteq> ''approve''" using commit_report by simp_all
  then show ?thesis
    unfolding commit_report(1) using commit_report(5)
    by (intro rounds_inv_same [OF inv ri]) (auto simp: head_after_fields)
next
  case (commit_cancel c a)
  show ?thesis
    unfolding commit_cancel(1) using commit_cancel(5)
    by (intro rounds_inv_same [OF inv ri]) (auto simp: head_after_fields)
qed

section \<open>Limits\<close>

definition references_inv :: "announcement_db \<Rightarrow> bool" where
  "references_inv db \<longleftrightarrow> distinct (map va_id (an_variants db)) \<and> va_revision ` set (an_variants db) \<subseteq> rv_id ` set (an_revisions db)
     \<and> pr_variant ` set (an_reports db) \<subseteq> va_id ` set (an_variants db)"

definition limits_inv :: "announcement_db \<Rightarrow> bool" where
  "limits_inv db \<longleftrightarrow> references_inv db \<and> (\<forall>s \<in> set (an_revisions db). rv_number s \<le> MAX_REVISIONS)
     \<and> (\<forall>i. sum_list (map rv_text_bytes (filter (\<lambda>s. rv_announcement s = i) (an_revisions db))) \<le> MAX_STORED_TEXT_BYTES
          \<and> length (reports_of db i) \<le> MAX_REPORTS)"

lemma sum_filter_append:
  "sum_list (map f (filter P (xs @ ys))) = sum_list (map f (filter P xs)) + sum_list (map f (filter P ys))" for f :: "'a \<Rightarrow> int"
  by simp

text \<open>The announcement of a retained variant does not change.\<close>

lemma variant_of_item_stable:
  assumes "references_inv db" and "v \<in> va_id ` set (an_variants db)"
    and "distinct (map va_id (an_variants db @ vs))" and "\<forall>s \<in> set rs. \<forall>x \<in> set (an_revisions db). rv_id x \<noteq> rv_id s"
  shows "variant_of_item (after db c a ss rs vs ws ps r) v i = variant_of_item db v i"
proof -
  define Q where "Q = (\<lambda>sl x. list_ex (\<lambda>s. rv_id s = va_revision (x :: AnnouncementVariant)
      \<and> rv_announcement (s :: AnnouncementRevision) = i) sl)"
  have "Q (an_revisions db @ rs) x = Q (an_revisions db) x" if "x \<in> set (an_variants db)" for x
  proof -
    from assms(1) that obtain s where "s \<in> set (an_revisions db)" "rv_id s = va_revision x"
      unfolding references_inv_def by (metis image_subset_iff imageE)
    then show ?thesis using assms(4) by (auto simp: Q_def list_ex_iff)
  qed
  moreover have "va_id x \<noteq> v" if "x \<in> set vs" for x
    using assms(2,3) that by auto
  moreover have "variant_of_item d v i \<longleftrightarrow> (\<exists>x \<in> set (an_variants d). va_id x = v \<and> Q (an_revisions d) x)" for d
    by (simp add: variant_of_item_def Q_def list_ex_iff)
  ultimately show ?thesis by auto
qed

lemma reports_of_after:
  assumes "references_inv db" and "distinct (map va_id (an_variants db @ vs))"
    and "\<forall>s \<in> set rs. \<forall>x \<in> set (an_revisions db). rv_id x \<noteq> rv_id s"
    and "pr_variant ` set ps \<subseteq> va_id ` set (an_variants db)"
  shows "reports_of (after db c a ss rs vs ws ps r) i
    = reports_of db i @ filter (\<lambda>p. variant_of_item db (pr_variant p) i) ps"
proof -
  have "variant_of_item (after db c a ss rs vs ws ps r) (pr_variant p) i = variant_of_item db (pr_variant p) i"
    if "p \<in> set (an_reports db @ ps)" for p
    using that assms(1,4) unfolding references_inv_def
    by (intro variant_of_item_stable [OF assms(1) _ assms(2,3)]) auto
  then show ?thesis
    by (auto simp: reports_of_def intro!: filter_cong arg_cong2 [where f = append])
qed

lemma variant_of_item_exists: "variant_of_item db v i \<Longrightarrow> v \<in> va_id ` set (an_variants db)"
  by (auto simp: variant_of_item_def list_ex_iff)

lemma variant_of_item_unique:
  assumes "heads_inv db" and "references_inv db" and "variant_of_item db v i" and "variant_of_item db v j"
  shows "i = j"
proof -
  from assms(3,4) obtain x y s t where x: "x \<in> set (an_variants db)" "va_id x = v" "s \<in> set (an_revisions db)"
      "rv_id s = va_revision x" "rv_announcement s = i"
    and y: "y \<in> set (an_variants db)" "va_id y = v" "t \<in> set (an_revisions db)" "rv_id t = va_revision y" "rv_announcement t = j"
    by (auto simp: variant_of_item_def list_ex_iff)
  have "x = y" using assms(2) x y by (auto simp: references_inv_def distinct_map inj_on_def)
  then show ?thesis using revision_unique [OF assms(1) x(3) y(3)] x y by simp
qed

text \<open>What the limits need to know of a commit.\<close>

lemma commits_rows:
  assumes "commits env dw rq scope db db' r"
  shows "\<exists>c a ss rs vs ws ps. db' = after db c a ss rs vs ws ps r
    \<and> (rs = [] \<and> vs = [] \<or> (\<exists>v s ls. rs = [v] \<and> copy_written (evidence_in dw rq) db s ls v vs))
    \<and> (ps = [] \<or> (\<exists>p b. ps = [p] \<and> variant_of_item db (pr_variant p) b \<and> length (reports_of db b) < MAX_REPORTS))"
  using assms
proof cases
  case (commit_create c s a v i vs)
  then show ?thesis by blast
next
  case (commit_revise c s a v vs)
  then show ?thesis by blast
next
  case (commit_report c a p)
  then show ?thesis by blast
qed blast+

lemma limits_inv_commits:
  assumes inv: "heads_inv db" and li: "limits_inv db" and cm: "commits env dw rq scope db db' r"
  shows "limits_inv db'"
proof -
  from commits_rows [OF cm] obtain c a ss rs vs ws ps where db': "db' = after db c a ss rs vs ws ps r"
      and copy: "rs = [] \<and> vs = [] \<or> (\<exists>v s ls. rs = [v] \<and> copy_written (evidence_in dw rq) db s ls v vs)"
      and report: "ps = [] \<or> (\<exists>p b. ps = [p] \<and> variant_of_item db (pr_variant p) b \<and> length (reports_of db b) < MAX_REPORTS)"
    by blast
  have ref: "references_inv db" using li by (simp add: limits_inv_def)
  have dis: "distinct (map va_id (an_variants db @ vs))"
    using copy ref by (auto simp: references_inv_def copy_written_def simp del: map_append)
  have fresh: "\<forall>s \<in> set rs. \<forall>x \<in> set (an_revisions db). rv_id x \<noteq> rv_id s"
    using copy by (auto simp: copy_written_def)
  have ps: "pr_variant ` set ps \<subseteq> va_id ` set (an_variants db)"
    using report by (auto dest: variant_of_item_exists)
  have vr: "va_revision ` set vs \<subseteq> rv_id ` set rs"
    using copy by (auto simp: copy_written_def variant_written_def)
  have "references_inv db'"
  proof -
    have "va_revision ` set (an_variants db) \<subseteq> rv_id ` set (an_revisions db)"
        "pr_variant ` set (an_reports db) \<subseteq> va_id ` set (an_variants db)"
      using ref by (simp_all only: references_inv_def)
    then have "va_revision ` set (an_variants db @ vs) \<subseteq> rv_id ` set (an_revisions db @ rs)"
        "pr_variant ` set (an_reports db @ ps) \<subseteq> va_id ` set (an_variants db @ vs)"
      using vr ps unfolding set_append image_Un by (simp_all only: Un_mono le_supI1 le_supI2 Un_least)
    then show ?thesis unfolding references_inv_def db' after_simps using dis by (simp only: simp_thms)
  qed
  moreover have "length (reports_of db' i) \<le> MAX_REPORTS" for i
  proof -
    have "length (reports_of db i) + length (filter (\<lambda>p. variant_of_item db (pr_variant p) i) ps) \<le> MAX_REPORTS"
      using report li variant_of_item_unique [OF inv ref] by (fastforce simp: limits_inv_def)
    then show ?thesis using reports_of_after [OF ref dis fresh ps] by (simp add: db')
  qed
  moreover have "sum_list (map rv_text_bytes (filter (\<lambda>s. rv_announcement s = i) (an_revisions db'))) \<le> MAX_STORED_TEXT_BYTES" for i
    using copy li by (auto simp: limits_inv_def db' copy_written_def)
  moreover have "\<forall>s \<in> set (an_revisions db'). rv_number s \<le> MAX_REVISIONS"
    using copy li by (auto simp: limits_inv_def db' copy_written_def)
  ultimately show ?thesis by (simp add: limits_inv_def)
qed

section \<open>Reachable states\<close>

text \<open>
  The stores change by announcement commands with fresh round identifiers, and outside the tables of
  announcements by anything else.
\<close>

inductive announcement_step :: "announcement_world \<Rightarrow> announcement_world \<Rightarrow> bool" where
  step_command: "fresh_round dw (wd_announcements w) \<Longrightarrow> announcement_step w (fst (run_command env dw rq cmd w))"
| step_elsewhere: "wd_announcements w' = wd_announcements w \<Longrightarrow> announcement_step w w'"

definition no_announcements :: "announcement_world \<Rightarrow> bool" where
  "no_announcements w \<longleftrightarrow> wd_announcements w = empty_announcements"

definition announcement_inv :: "announcement_world \<Rightarrow> bool" where
  "announcement_inv w \<longleftrightarrow> heads_inv (wd_announcements w) \<and> receipts_inv (wd_announcements w)
     \<and> rounds_inv (wd_announcements w) \<and> limits_inv (wd_announcements w)"

lemma audit_refusal_announcements [simp]: "wd_announcements (audit_refusal dw rq operation e w) = wd_announcements w"
  "wd_effects (audit_refusal dw rq operation e w) = wd_effects w"
  by (simp_all add: audit_refusal_def split: sum.splits prod.splits)

lemma apply_command_Inr:
  assumes "apply_command env dw rq plan w = Inr (w', res)"
  shows "(\<exists>r. w' = w \<and> find_receipt rq (wd_announcements w) = Some r \<and> res = result_of True r)
    \<or> (\<exists>scope r. find_receipt rq (wd_announcements w) = None \<and> commit_command env dw rq plan scope w = Inr (w', r)
        \<and> authorize env 2 rq (operation_capability (fst plan)) = Inr scope \<and> res = result_of False r)"
proof -
  obtain operation intent reason wr where plan: "plan = (operation, intent, reason, wr)" by (cases plan)
  from assms obtain scope where auth: "authorize env 2 rq (operation_capability operation) = Inr scope" and *: "(case find_receipt rq (wd_announcements w) of
       Some receipt \<Rightarrow>
         if cr_request_digest receipt \<noteq> request_digest rq operation intent reason \<or> cr_operation receipt \<noteq> operation
         then Inl AnnouncementIdempotencyConflictError
         else Inr (w, result_of True receipt)
     | None \<Rightarrow> bindE (commit_command env dw rq plan scope w) (\<lambda>(w, receipt). Inr (w, result_of False receipt))) = Inr (w', res)"
    unfolding apply_command_def plan by (auto simp: bindE_eq_Inr [of "authorize env n rq c" for n c]
        bindE_eq_Inr [of "require_announcements_integrity env"] bindE_eq_Inr [of "lock_scope env rq"])
  show ?thesis
  proof (cases "find_receipt rq (wd_announcements w)")
    case None
    then show ?thesis using * auth plan by (auto simp: bindE_eq_Inr split: prod.splits)
  next
    case (Some r)
    then show ?thesis using * by (auto split: if_splits)
  qed
qed

lemma perform_cases:
  obtains (refused_input) e where "inputs = Inl e" "perform env dw rq inputs w = (w, Inl e)"
  | (refused) plan e where "inputs = Inr plan" "perform env dw rq inputs w = (w, Inl e)"
      "check_request env rq = Inl e"
  | (failed) plan e where "inputs = Inr plan" "check_request env rq = Inr ()" "apply_command env dw rq plan w = Inl e"
      "perform env dw rq inputs w = (audit_refusal dw rq (fst plan) e w, Inl e)"
  | (replayed) plan r where "inputs = Inr plan" "find_receipt rq (wd_announcements w) = Some r"
      "perform env dw rq inputs w = (w, Inr (result_of True r))"
  | (committed) plan scope w' r where "inputs = Inr plan" "find_receipt rq (wd_announcements w) = None"
      "commit_command env dw rq plan scope w = Inr (w', r)" "perform env dw rq inputs w = (w', Inr (result_of False r))"
      "authorize env 2 rq (operation_capability (fst plan)) = Inr scope"
proof (cases inputs)
  case (Inl e)
  then show thesis using refused_input by (simp add: perform_def)
next
  case (Inr plan)
  show thesis
  proof (cases "check_request env rq")
    case (Inl e)
    then show thesis using refused Inr by (simp add: perform_def execute_def)
  next
    case c: (Inr u)
    show thesis
    proof (cases "apply_command env dw rq plan w")
      case (Inl e)
      then show thesis using failed Inr c by (simp add: perform_def execute_def)
    next
      case a: (Inr x)
      obtain w' res where x: "x = (w', res)" by (cases x)
      then have p: "perform env dw rq inputs w = (w', Inr res)" using Inr c a by (simp add: perform_def execute_def)
      from apply_command_Inr [OF a [unfolded x]] show thesis
      proof (elim disjE exE conjE)
        fix r assume "w' = w" "find_receipt rq (wd_announcements w) = Some r" "res = result_of True r"
        then show thesis using replayed [OF Inr] p by simp
      next
        fix scope r assume "find_receipt rq (wd_announcements w) = None" "res = result_of False r"
          "commit_command env dw rq plan scope w = Inr (w', r)"
          "authorize env 2 rq (operation_capability (fst plan)) = Inr scope"
        then show thesis using committed [OF Inr] p by simp
      qed
    qed
  qed
qed

lemma run_command_cases:
  obtains (unchanged) "wd_announcements (fst (run_command env dw rq cmd w)) = wd_announcements w"
  | (committed) plan scope r where "legal_plan env dw plan"
      "commit_command env dw rq plan scope w = Inr (fst (run_command env dw rq cmd w), r)"
      "snd (run_command env dw rq cmd w) = Inr (result_of False r)"
      "commits env dw rq scope (wd_announcements w) (wd_announcements (fst (run_command env dw rq cmd w))) r"
      "authorize env 2 rq (operation_capability (cr_operation r)) = Inr scope"
proof -
  obtain inputs where inputs: "run_command env dw rq cmd = perform env dw rq inputs"
      "\<forall>plan. inputs = Inr plan \<longrightarrow> legal_plan env dw plan"
    using run_command_perform by blast
  show thesis
  proof (cases rule: perform_cases [of inputs env dw rq w])
    case (committed plan scope w' r)
    have "cr_operation r = fst plan"
      using committed(3) commit_command_transacts by (cases plan) (fastforce simp: transacts_def new_receipt_def)
    with committed show thesis using that(2) [of plan scope r] inputs commit_command_commits by simp
  qed (use that(1) inputs(1) in simp_all)
qed

lemma announcement_inv_step: "announcement_step w w' \<Longrightarrow> announcement_inv w \<Longrightarrow> announcement_inv w'"
proof (induction rule: announcement_step.induct)
  case (step_command dw w env rq cmd)
  show ?case
  proof (cases rule: run_command_cases [of env dw rq cmd w])
    case unchanged
    then show ?thesis using step_command(2) by (simp add: announcement_inv_def)
  next
    case (committed plan scope r)
    then show ?thesis
      using step_command heads_inv_commits [OF _ committed(4)] receipts_inv_commits [OF _ _ committed(4)]
        rounds_inv_commits [OF _ _ _ committed(4)] limits_inv_commits [OF _ _ committed(4)]
      by (simp add: announcement_inv_def)
  qed
next
  case (step_elsewhere w' w)
  then show ?case by (simp add: announcement_inv_def)
qed

lemma announcement_inv_initial: "no_announcements w \<Longrightarrow> announcement_inv w"
  by (simp add: announcement_inv_def no_announcements_def heads_inv_empty)
    (simp add: receipts_inv_def rounds_inv_def closed_rounds_def independent_def limits_inv_def references_inv_def
      reports_of_def empty_announcements_def MAX_STORED_TEXT_BYTES_def)

interpretation announcements: inductive_invariant no_announcements announcement_step announcement_inv
  by unfold_locales (auto intro: announcement_inv_initial announcement_inv_step)

end
