(* ===== verification/Announcement_Samples.thy ===== *)
theory Announcement_Samples
  imports Announcement_Safety
begin

text \<open>
  A sample run of the announcement commands on concrete values: account 3 saves the rules of edition 7,
  writes a copy and submits it, account 4 approves it. The properties are applied to these states.
\<close>

section \<open>Surroundings\<close>

definition trial_edition :: edition_row where
  "trial_edition = \<lparr>er_id = 7, er_organization_id = 1, er_series_id = 2, er_series_organization_id = 1,
     er_adoption_profile_code = ''announcements_only'', er_adoption_profile_version = 1, er_aggregate_version = 1,
     er_lifecycle = ''live'', er_language_codes = [''en''], er_time_zone = ''UTC'',
     er_organization_lifecycle = ''active'', er_series_is_active = True\<rparr>"

definition trial_env :: announcement_env where
  "trial_env = \<lparr>
     nv_policy = (\<lambda>_ _ _ _ _ requested. \<lparr>pd_allowed = True, pd_fields = requested, pd_obligations = [''audit''],
       pd_reason_code = ''allowed'', pd_policy_version = ''1''\<rparr>),
     nv_scope = (\<lambda>_. \<lparr>sd_organizations = [1], sd_series = [(2, 1)], sd_editions = [trial_edition]\<rparr>),
     nv_accounts = [3, 4], nv_integrity_ready = True, nv_local_date = (\<lambda>_ _. 10), nv_evidence_bytes = (\<lambda>_ _. 0),
     nv_routes = sample_routes, nv_nfc = (\<lambda>s. s), nv_https_url = (\<lambda>_. True)\<rparr>"

definition trial_request :: "uuid \<Rightarrow> uuid \<Rightarrow> AnnouncementCommandRequest" where
  "trial_request actor key = \<lparr>rq_actor_id = actor, rq_organization_id = 1, rq_edition_id = 7, rq_correlation_id = 5,
     rq_idempotency_key = key, rq_source_channel = ''web''\<rparr>"

definition trial_draw :: "uuid \<Rightarrow> draw" where
  "trial_draw n = \<lparr>dw_receipt = n, dw_control = 20, dw_object = 30 + n, dw_revision = 40 + n, dw_round = 50 + n,
     dw_variant = (\<lambda>k. 60 + n + of_nat k), dw_audit = 6,
     dw_publish = \<lparr>pc_in_atomic_block = False, pc_event_id = 8, pc_message_id = 9, pc_occurred_now = 100,
       pc_available_now = 100, pc_created_now = 100\<rparr>,
     dw_now = 100, dw_clock = 100, dw_refused = 11, dw_refused_now = 101\<rparr>"

definition trial_scope :: "string list \<Rightarrow> AuthorizedAnnouncementScope" where
  "trial_scope fs = \<lparr>as_edition = \<lparr>es_organization_id = 1, es_series_id = 2, es_edition_id = 7,
       es_adoption_profile_code = ''announcements_only'', es_adoption_profile_version = 1, es_edition_version = 1,
       es_lifecycle = ''live'', es_language_codes = [''en''], es_time_zone = ''UTC'', es_accepts_writes = True\<rparr>,
     as_decision = \<lparr>pd_allowed = True, pd_fields = fs, pd_obligations = [''audit''], pd_reason_code = ''allowed'',
       pd_policy_version = ''1''\<rparr>\<rparr>"

definition trial_world :: "announcement_db \<Rightarrow> announcement_world" where
  "trial_world db = \<lparr>wd_announcements = db, wd_effects = empty_db, wd_audit = empty_audit\<rparr>"

lemma trial_resolved:
  "resolve_announcements_edition_scope (nv_scope trial_env n) b b 1 7 = Some (as_edition (trial_scope fs))"
  by (cases b) (simp_all add: resolve_announcements_edition_scope_def trial_env_def resolve_edition_series_identity_def
      lock_series_ownership_def lock_organization_ownership_def adopted_edition_def trial_edition_def trial_scope_def
      accepts_writes_def)

lemma trial_authorize:
  assumes "map_of CAPABILITY_FIELDS capability = Some fs" and "actor \<noteq> 0"
  shows "authorize trial_env n (trial_request actor key) capability = Inr (trial_scope fs)"
proof -
  have "resolve_announcements_edition_scope (nv_scope trial_env n) False False 1 7 = Some (as_edition (trial_scope fs))"
    by (rule trial_resolved)
  then show ?thesis
    using assms
    by (simp add: authorize_def authorize_announcements_scope_def uuid_identifier_def trial_request_def)
      (simp add: trial_env_def trial_scope_def)
qed

lemma trial_lock: "actor \<in> {3, 4} \<Longrightarrow> lock_scope trial_env (trial_request actor key) = Inr ()"
  using trial_resolved [of 2 True "[]"]
  by (auto simp: lock_scope_def trial_request_def guardE_def)
    (auto simp: lock_account_references_for_evidence_def trial_env_def MAX_PERSON_REFERENCE_BATCH_def)

lemma trial_check: "key \<noteq> 0 \<Longrightarrow> check_request trial_env (trial_request actor key) = Inr ()"
proof -
  have "plain_text (\<lambda>s. s) 80 True (Typed ''web'') = Inr ''web''" by code_simp
  then show "key \<noteq> 0 \<Longrightarrow> ?thesis"
    by (simp add: check_request_def uuid_identifier_def trial_request_def trial_env_def guardE_def)
qed

lemma trial_audit:
  assumes "operation \<in> set OPERATIONS"
  shows "\<exists>au e. append_audit 6 t (audit_record (trial_request actor key) operation ALLOW ''allowed'' (Some i)) (Some t) (Some 6)
      empty_audit = Inr (au, e) \<and> ae_id e = 6"
proof -
  define e where "e = event_of_audit_record 6 t (audit_record (trial_request actor key) operation ALLOW ''allowed'' (Some i))"
  have "char_field 120 (operation_capability operation) \<and> char_field 160 (''announcements.command.'' @ operation)"
    using assms
    by (auto simp: OPERATIONS_def operation_capability_def OPERATION_CAPABILITIES_def char_field_def)
  then have "audit_event_full_clean empty_audit e"
    by (simp add: audit_event_full_clean_def e_def event_of_audit_record_def audit_record_def trial_request_def
        event_constraints_def empty_audit_def positive_small_integer_def char_field_def RETENTION_CLASS_def json_true.simps
        ALLOW_def)
  then show ?thesis
    by (simp add: append_audit_def audit_event_create_def flip: e_def) (simp add: e_def event_of_audit_record_def)
qed

lemma trial_publish:
  assumes "operation \<in> set OPERATIONS" and "0 \<le> n" and "n \<le> 9"
  shows "\<exists>x. publish_domain_event sample_routes ((dw_publish (trial_draw k))\<lparr>pc_in_atomic_block := True\<rparr>)
      (domain_record (trial_request actor key) operation n 6) ''internal'' ''default'' (PyInt 8) (Some t) empty_db = Inr x"
proof -
  define v where "v = event_of_record 8 t (domain_record (trial_request actor key) operation n 6)"
  define m where "m = new_message 9 v ''internal'' ''default'' 8 100 100"
  note rows = v_def event_of_record_def domain_record_def trial_request_def EVENT_NAME_def RETENTION_CLASS_def
  have route: "effect_delivery_is_allowed sample_routes (event_delivery v 1 ''internal'') = Inr True"
    by (simp add: rows event_delivery_def sample_routes_def effect_delivery_is_allowed_def
        PAYLOAD_SCOPED_AUTHORIZATION_EVENTS_def edition_route_allowed_def)
  have event: "event_full_clean empty_db v"
    using assms(2,3)
    by (simp add: rows event_full_clean_def char_field_def positive_small_integer_def
        positive_big_integer_def empty_db_def)
  have "message_valid (empty_db\<lparr>db_events := [v]\<rparr>) m"
    by (simp add: m_def rows new_message_def message_valid_def char_field_def positive_integer_def find_event_def
        MAX_EFFECT_TOTAL_ATTEMPTS_def lease_matches_status_def completion_matches_status_def)
  moreover have "message_unique (empty_db\<lparr>db_events := [v]\<rparr>) m" "find_message (empty_db\<lparr>db_events := [v]\<rparr>) 9 = None"
    by (simp_all add: message_unique_def find_message_def empty_db_def)
  moreover have "om_id m = 9" by (simp add: m_def new_message_def)
  ultimately have "message_create (empty_db\<lparr>db_events := [v]\<rparr>) m = Inr (empty_db\<lparr>db_events := [v], db_messages := [m]\<rparr>)"
    by (simp add: message_create_def empty_db_def)
  moreover have "event_create empty_db v = Inr (empty_db\<lparr>db_events := [v]\<rparr>)"
    using event by (simp add: event_create_def empty_db_def)
  moreover have "validate_event_payload (re_event_definition sample_routes) (dr_event_name (domain_record (trial_request actor key) operation n 6))
      (dr_schema_version (domain_record (trial_request actor key) operation n 6))
      (dr_payload (domain_record (trial_request actor key) operation n 6)) = Inr ()"
    by (simp add: validate_event_payload_def sample_routes_def domain_record_def EVENT_NAME_def)
  moreover have "dr_organization_id (domain_record (trial_request actor key) operation n 6) = 1"
    by (simp add: domain_record_def trial_request_def)
  ultimately show ?thesis
    using route
    by (simp add: publish_domain_event_def trial_draw_def validate_effect_attempt_budget_def
        MAX_EFFECT_TOTAL_ATTEMPTS_def require_effect_delivery_allowed_def flip: v_def m_def)
qed

lemma trial_evidence:
  assumes "operation \<in> set OPERATIONS" and "cr_operation r = operation" and "0 \<le> cr_control_sequence r" "cr_control_sequence r \<le> 9"
  shows "\<exists>w'. record_evidence trial_env (trial_draw n) (trial_request actor key) (trial_scope fs) r (trial_world db) = Inr w'
    \<and> wd_announcements w' = db"
proof -
  obtain au e where a: "append_audit 6 (cr_occurred_at r) (audit_record (trial_request actor key) operation ALLOW ''allowed''
      (Some (cr_object_id r))) (Some (cr_occurred_at r)) (Some 6) empty_audit = Inr (au, e)" "ae_id e = 6"
    using trial_audit [OF assms(1)] by blast
  obtain ef v where p: "publish_domain_event sample_routes ((dw_publish (trial_draw n))\<lparr>pc_in_atomic_block := True\<rparr>)
      (domain_record (trial_request actor key) operation (cr_control_sequence r) 6) ''internal'' ''default'' (PyInt 8)
      (Some (cr_occurred_at r)) empty_db = Inr (ef, v)"
    using trial_publish [OF assms(1,3,4)] by (metis surj_pair)
  have "pd_reason_code (as_decision (trial_scope fs)) = ''allowed''" "dw_audit (trial_draw n) = 6" "nv_routes trial_env = sample_routes"
    by (simp_all add: trial_scope_def trial_draw_def trial_env_def)
  then show ?thesis
    using a p assms(2) by (cases v) (simp add: record_evidence_def raising_def trial_world_def)
qed

section \<open>A command on the sample world\<close>

lemma trial_commit:
  assumes "operation \<in> set OPERATIONS" and capability: "map_of CAPABILITY_FIELDS (operation_capability operation) = Some fs"
    and actor: "actor \<in> {3, 4}" and "key \<noteq> 0"
    and "find_receipt (trial_request actor key) db = None"
    and "locked_control 20 (trial_request actor key) db = Inr (dba, c)" and "0 \<le> ct_sequence c" and "ct_sequence c \<le> 8"
    and "wr \<lparr>cx_request = trial_request actor key, cx_scope = trial_scope fs, cx_control = c, cx_receipt_id = n,
          cx_occurred_at = 100\<rparr> dba = Inr (dbw, c', object, announcement, ver)"
    and "ct_sequence c' = ct_sequence c"
    and "control_save (c'\<lparr>ct_sequence := ct_sequence c' + 1\<rparr>) dbw = Inr dbs"
    and r_def: "r = new_receipt n 100 (trial_request actor key) operation
          (request_digest (trial_request actor key) operation intent reason) reason (ct_sequence c' + 1) announcement object ver"
    and "command_receipt_create r dbs = Inr db'"
  shows "\<exists>w'. perform trial_env (trial_draw n) (trial_request actor key) (Inr (operation, intent, reason, wr)) (trial_world db)
      = (w', Inr (result_of False r)) \<and> wd_announcements w' = db'"
proof -
  have auth: "authorize trial_env k (trial_request actor key) (operation_capability operation) = Inr (trial_scope fs)" for k
    using trial_authorize [OF capability] actor by auto
  have "cr_operation r = operation" "0 \<le> cr_control_sequence r" "cr_control_sequence r \<le> 9"
    using assms(7,8,10) by (simp_all add: r_def new_receipt_def)
  then obtain w' where w': "record_evidence trial_env (trial_draw n) (trial_request actor key) (trial_scope fs) r (trial_world db') = Inr w'"
      "wd_announcements w' = db'"
    using trial_evidence [OF assms(1)] by blast
  have draw: "dw_control (trial_draw n) = 20" "dw_receipt (trial_draw n) = n" "dw_now (trial_draw n) = 100"
    by (simp_all add: trial_draw_def)
  have world: "wd_announcements (trial_world db) = db" "(trial_world db)\<lparr>wd_announcements := db'\<rparr> = trial_world db'"
    by (simp_all add: trial_world_def)
  have "require_complete_evidence_bound trial_env db' announcement = Inr ()"
    by (cases announcement) (simp_all add: require_complete_evidence_bound_def trial_env_def guardE_def MAX_STORED_TEXT_BYTES_def)
  then have "commit_command trial_env (trial_draw n) (trial_request actor key) (operation, intent, reason, wr) (trial_scope fs)
      (trial_world db) = Inr (w', r)"
    using assms(6,8,9,11,13) auth w'(1) by (simp add: commit_command_def draw world Let_def flip: r_def)
  moreover have "require_announcements_integrity trial_env = Inr ()"
    by (simp add: require_announcements_integrity_def trial_env_def guardE_def)
  ultimately have "apply_command trial_env (trial_draw n) (trial_request actor key) (operation, intent, reason, wr) (trial_world db)
      = Inr (w', result_of False r)"
    using assms(5) trial_lock [OF actor] auth by (simp add: apply_command_def world)
  then show ?thesis
    using trial_check [OF assms(4)] w'(2) by (simp add: perform_def execute_def)
qed

lemma trial_admit:
  assumes "map_of CAPABILITY_FIELDS (''announcements.'' @ c) = Some fs" and "actor \<in> {3, 4}"
  shows "admit trial_env (trial_request actor key) c = Inr (trial_scope fs)"
  using trial_authorize [OF assms(1)] assms(2) by (auto simp: admit_def)

lemma operation_capabilities:
  "operation_capability ''settings_update'' = ''announcements.'' @ ''manage_settings''"
  "operation_capability ''stop'' = ''announcements.'' @ ''manage_settings''"
  "operation_capability ''resume'' = ''announcements.'' @ ''manage_settings''"
  "operation_capability ''create'' = ''announcements.'' @ ''compose''"
  "operation_capability ''revise'' = ''announcements.'' @ ''compose''"
  "operation_capability ''request_review'' = ''announcements.'' @ ''compose''"
  "operation_capability ''cancel'' = ''announcements.'' @ ''compose''"
  "operation_capability ''approve'' = ''announcements.'' @ ''review''"
  "operation_capability ''changes_requested'' = ''announcements.'' @ ''review''"
  "operation_capability ''record_publication'' = ''announcements.'' @ ''record_publication''"
  "operation_capability ''correct_publication'' = ''announcements.'' @ ''record_publication''"
  "operation_capability ''withdraw_report'' = ''announcements.'' @ ''record_publication''"
  by (simp_all add: operation_capability_def OPERATION_CAPABILITIES_def)

section \<open>Saving the rules\<close>

definition trial_settings :: settings where
  "trial_settings = \<lparr>si_policy_name = ''p'', si_record_owner = ''o'', si_review_on = 10, si_confirmed = True,
     si_channels = [\<lparr>mc_code = ''w'', mc_label = ''W'', mc_url = []\<rparr>], si_policy_url = [], si_policy_description = ''d''\<rparr>"

definition trial_raw_settings :: raw_settings where
  "trial_raw_settings = \<lparr>si_policy_name = Typed ''p'', si_record_owner = Typed ''o'', si_review_on = Typed 10, si_confirmed = True,
     si_channels = Typed [Typed \<lparr>mc_code = Typed ''w'', mc_label = Typed ''W'', mc_url = Typed []\<rparr>],
     si_policy_url = Typed [], si_policy_description = Typed ''d''\<rparr>"

lemma trial_normalize_settings:
  "normalize_settings (\<lambda>s. s) (\<lambda>_. True) (Typed trial_raw_settings) = Inr trial_settings"
  by code_simp

lemma trial_env_inputs: "nv_nfc trial_env = (\<lambda>s. s)" "nv_https_url trial_env = (\<lambda>_. True)"
  by (simp_all add: trial_env_def)

definition trial_evidence_of :: "uuid \<Rightarrow> uuid \<Rightarrow> command_evidence" where
  "trial_evidence_of actor n = \<lparr>ce_organization_id = 1, ce_edition_id = 7, ce_actor_id = actor, ce_occurred_at = 100,
     ce_command_receipt = n\<rparr>"

definition trial_control :: "int \<Rightarrow> AnnouncementControl" where
  "trial_control n = \<lparr>ct_id = 20, ct_organization_id = 1, ct_edition_id = 7, ct_sequence = n, ct_settings_version = 1,
     ct_current_settings = Some 31, ct_stopped = False\<rparr>"

definition trial_receipt1 :: AnnouncementCommandReceipt where
  "trial_receipt1 = new_receipt 1 100 (trial_request 3 21) ''settings_update'' (request_digest (trial_request 3 21) ''settings_update''
     (JObj [(''settings'', settings_payload trial_settings), (''expected_version'', JInt 0)]) []) [] 1 None 31 1"

definition trial_db1 :: announcement_db where
  "trial_db1 = empty_announcements\<lparr>an_controls := [trial_control 1],
     an_settings := [new_settings 31 (trial_evidence_of 3 1) 1 trial_settings], an_receipts := [trial_receipt1]\<rparr>"

lemmas trial_row_defs = new_receipt_def trial_request_def trial_control_def new_settings_def trial_evidence_of_def evidence_of_def

lemma trial_digest [simp]: "hex64 (request_digest rq operation intent reason)" "char_field 64 (request_digest rq operation intent reason)"
proof -
  show h: "hex64 (request_digest rq operation intent reason)" by (simp add: request_digest_def intent_digest_def)
  then show "char_field 64 (request_digest rq operation intent reason)" by (auto simp: hex64_def char_field_def)
qed

lemma trial_char_fields [simp]: "char_field 80 ''web''" "char_field 200 ''p''" "char_field 200 ''o''" "char_field 200 ''h''"
  "char_field 35 ''en''" "char_field 40 ''w''" "char_field 100 ''W''"
  by (simp_all add: char_field_def)

lemmas trial_step_defs = OPERATIONS_def operation_capabilities CAPABILITY_FIELDS_def find_receipt_def empty_announcements_def
  locked_control_def find_control_def control_create_def saving_def new_control_def trial_row_defs control_save_def
  positive_big_integer_def command_receipt_create_def MAX_NOTE_def

lemma trial_update_settings:
  "\<exists>w. run_command trial_env (trial_draw 1) (trial_request 3 21) (UpdateSettings (Typed trial_raw_settings) (PyInt 0))
      (trial_world empty_announcements) = (w, Inr (result_of False trial_receipt1)) \<and> wd_announcements w = trial_db1"
proof -
  have "admit trial_env (trial_request 3 21) ''manage_settings'' = Inr (trial_scope [''settings''])"
    by (rule trial_admit) (simp_all add: CAPABILITY_FIELDS_def)
  then have run: "run_command trial_env (trial_draw 1) (trial_request 3 21) (UpdateSettings (Typed trial_raw_settings) (PyInt 0))
      = perform trial_env (trial_draw 1) (trial_request 3 21) (Inr (''settings_update'',
          JObj [(''settings'', settings_payload trial_settings), (''expected_version'', JInt 0)], [],
          update_settings_write trial_env (trial_draw 1) trial_settings 0))"
    by (simp add: update_announcement_settings_def trial_env_inputs trial_normalize_settings version_def)
  show ?thesis
    unfolding run
  proof (rule trial_commit [where fs = "[''settings'']" and c = "new_control 20 (trial_request 3 21)" and c' = "trial_control 0"
        and object = 31 and announcement = None and ver = 1,
      where dba = "empty_announcements\<lparr>an_controls := [new_control 20 (trial_request 3 21)]\<rparr>",
      where dbw = "empty_announcements\<lparr>an_controls := [new_control 20 (trial_request 3 21)],
        an_settings := [new_settings 31 (trial_evidence_of 3 1) 1 trial_settings]\<rparr>",
      where dbs = "empty_announcements\<lparr>an_controls := [trial_control 1],
        an_settings := [new_settings 31 (trial_evidence_of 3 1) 1 trial_settings]\<rparr>"], goal_cases)
    case 9
    show ?case by code_simp
  qed (simp_all add: trial_step_defs trial_receipt1_def trial_db1_def)
qed

section \<open>Writing a copy\<close>

definition trial_draft :: draft where
  "trial_draft = \<lparr>di_headline = ''h'', di_body = ''b'', di_language_code = ''en'',
     di_variants = [\<lparr>vi_channel_code = ''w'', vi_language_code = ''en'', vi_headline = ''h'', vi_body = ''b''\<rparr>]\<rparr>"

definition trial_raw_draft :: raw_draft where
  "trial_raw_draft = \<lparr>di_headline = Typed ''h'', di_body = Typed ''b'', di_language_code = Typed ''en'',
     di_variants = Typed [Typed \<lparr>vi_channel_code = Typed ''w'', vi_language_code = Typed ''en'', vi_headline = Typed ''h'',
       vi_body = Typed ''b''\<rparr>]\<rparr>"

lemma trial_normalize_draft: "normalize_draft (\<lambda>s. s) (Typed trial_raw_draft) = Inr trial_draft"
  by code_simp

lemma trial_text_bytes: "length (canonical_json (draft_payload trial_draft)) = 129"
  by code_simp

definition trial_item :: "int \<Rightarrow> AnnouncementStatus \<Rightarrow> uuid option \<Rightarrow> Announcement" where
  "trial_item n s approved = \<lparr>an_id = 32, an_organization_id = 1, an_edition_id = 7, an_version = n, an_status = s,
     an_current_revision = Some 42, an_approved_revision = approved\<rparr>"

definition trial_revision :: AnnouncementRevision where
  "trial_revision = \<lparr>rv_id = 42, rv_evidence = trial_evidence_of 3 2, rv_announcement = 32, rv_number = 1,
     rv_previous_revision = None, rv_base_approved_revision = None, rv_round_id = 52, rv_settings_revision = 31,
     rv_headline = ''h'', rv_body = ''b'', rv_language_code = ''en'', rv_text_bytes = 129\<rparr>"

definition trial_variant :: AnnouncementVariant where
  "trial_variant = \<lparr>va_id = 62, va_evidence = trial_evidence_of 3 2, va_revision = 42, va_channel_code = ''w'',
     va_channel_label = ''W'', va_channel_url = [], va_language_code = ''en'', va_headline = ''h'', va_body = ''b'',
     va_copy_digest = copy_digest \<lparr>vi_channel_code = ''w'', vi_language_code = ''en'', vi_headline = ''h'', vi_body = ''b''\<rparr>\<rparr>"

definition trial_receipt2 :: AnnouncementCommandReceipt where
  "trial_receipt2 = new_receipt 2 100 (trial_request 3 22) ''create'' (request_digest (trial_request 3 22) ''create''
     (JObj [(''draft'', draft_payload trial_draft), (''expected_settings_version'', JInt 1)]) []) [] 2 (Some 32) 32 1"

definition trial_db2 :: announcement_db where
  "trial_db2 = trial_db1\<lparr>an_controls := [trial_control 2], an_items := [trial_item 1 ANN_DRAFT None],
     an_revisions := [trial_revision], an_variants := [trial_variant], an_receipts := [trial_receipt1, trial_receipt2]\<rparr>"

lemma trial_copy_digest [simp]: "hex64 (copy_digest v)" "char_field 64 (copy_digest v)"
proof -
  show h: "hex64 (copy_digest v)" by (simp add: copy_digest_def intent_digest_def)
  then show "char_field 64 (copy_digest v)" by (auto simp: hex64_def char_field_def)
qed

lemma trial_create_write:
  "create_write trial_env (trial_draw 2) trial_draft 1 \<lparr>cx_request = trial_request 3 22, cx_scope = trial_scope [''announcement''],
      cx_control = trial_control 1, cx_receipt_id = 2, cx_occurred_at = 100\<rparr> trial_db1
   = Inr (trial_db1\<lparr>an_items := [trial_item 1 ANN_DRAFT None], an_revisions := [trial_revision], an_variants := [trial_variant]\<rparr>,
       trial_control 1, 32, Some 32, 1)"
  by (simp add: create_write_def current_rules_def writes_open_def guardE_def trial_scope_def trial_control_def dereference_def
      find_settings_def trial_db1_def empty_announcements_def trial_settings_def new_settings_def today_of_def,
     simp add: trial_env_def trial_draw_def announcement_create_def new_announcement_def trial_request_def saving_def
        positive_big_integer_def write_revision_def trial_draft_def Let_def MAX_REVISIONS_def trial_text_bytes [unfolded trial_draft_def]
        MAX_STORED_TEXT_BYTES_def channel_table_def revision_create_def MAX_HEADLINE_def positive_integer_def trial_evidence_of_def
        evidence_of_def dereference_def,
     simp add: write_variant_def new_variant_def variant_create_def saving_def MAX_HEADLINE_def announcement_save_def positive_big_integer_def
        trial_item_def trial_revision_def trial_variant_def trial_evidence_of_def evidence_of_def)

lemma trial_create:
  "\<exists>w. run_command trial_env (trial_draw 2) (trial_request 3 22) (Create (Typed trial_raw_draft) (PyInt 1))
      (trial_world trial_db1) = (w, Inr (result_of False trial_receipt2)) \<and> wd_announcements w = trial_db2"
proof -
  have "admit trial_env (trial_request 3 22) ''compose'' = Inr (trial_scope [''announcement''])"
    by (rule trial_admit) (simp_all add: CAPABILITY_FIELDS_def)
  then have run: "run_command trial_env (trial_draw 2) (trial_request 3 22) (Create (Typed trial_raw_draft) (PyInt 1))
      = perform trial_env (trial_draw 2) (trial_request 3 22) (Inr (''create'',
          JObj [(''draft'', draft_payload trial_draft), (''expected_settings_version'', JInt 1)], [],
          create_write trial_env (trial_draw 2) trial_draft 1))"
    by (simp add: create_announcement_def trial_env_inputs trial_normalize_draft version_def)
  show ?thesis
    unfolding run
    by (rule trial_commit [where wr = "create_write trial_env (trial_draw 2) trial_draft 1" and fs = "[''announcement'']",
      OF _ _ _ _ _ _ _ _ trial_create_write, where dbs = "trial_db2\<lparr>an_receipts := [trial_receipt1]\<rparr>"])
      (simp_all add: trial_step_defs trial_receipt1_def trial_receipt2_def trial_db1_def trial_db2_def)
qed

section \<open>Review\<close>

definition trial_receipt3 :: AnnouncementCommandReceipt where
  "trial_receipt3 = new_receipt 3 100 (trial_request 3 23) ''request_review'' (request_digest (trial_request 3 23) ''request_review''
     (JObj [(''announcement_id'', JStr (uuid_str 32)), (''expected_version'', JInt 1)]) []) [] 3 (Some 32) 42 2"

definition trial_db3 :: announcement_db where
  "trial_db3 = trial_db2\<lparr>an_controls := [trial_control 3], an_items := [trial_item 2 ANN_IN_REVIEW None],
     an_receipts := [trial_receipt1, trial_receipt2, trial_receipt3]\<rparr>"

lemma trial_rules:
  "cx_scope cx = trial_scope fs \<Longrightarrow> cx_control cx = trial_control n \<Longrightarrow> an_settings db = an_settings trial_db1
   \<Longrightarrow> current_rules trial_env cx db = Inr (new_settings 31 (trial_evidence_of 3 1) 1 trial_settings)"
  by (simp add: current_rules_def writes_open_def guardE_def trial_scope_def trial_control_def dereference_def
      find_settings_def trial_db1_def trial_settings_def new_settings_def today_of_def trial_env_def)

lemma trial_request_write:
  "request_review_write trial_env 32 1 \<lparr>cx_request = trial_request 3 23, cx_scope = trial_scope [''announcement''],
      cx_control = trial_control 2, cx_receipt_id = 3, cx_occurred_at = 100\<rparr> trial_db2
   = Inr (trial_db2\<lparr>an_items := [trial_item 2 ANN_IN_REVIEW None]\<rparr>, trial_control 2, 42, Some 32, 2)"
proof -
  have "an_settings trial_db2 = an_settings trial_db1" by (simp add: trial_db2_def)
  then show ?thesis
    by (simp add: request_review_write_def trial_rules)
      (simp add: locked_item_def trial_db2_def trial_item_def trial_request_def trial_db1_def empty_announcements_def advance_def
        MAX_HISTORY_def announcement_save_def saving_def positive_big_integer_def Let_def)
qed

lemma trial_request_review:
  "\<exists>w. run_command trial_env (trial_draw 3) (trial_request 3 23) (RequestReview (Typed 32) (PyInt 1))
      (trial_world trial_db2) = (w, Inr (result_of False trial_receipt3)) \<and> wd_announcements w = trial_db3"
proof -
  have "admit trial_env (trial_request 3 23) ''compose'' = Inr (trial_scope [''announcement''])"
    by (rule trial_admit) (simp_all add: CAPABILITY_FIELDS_def)
  then have run: "run_command trial_env (trial_draw 3) (trial_request 3 23) (RequestReview (Typed 32) (PyInt 1))
      = perform trial_env (trial_draw 3) (trial_request 3 23) (Inr (''request_review'',
          JObj [(''announcement_id'', JStr (uuid_str 32)), (''expected_version'', JInt 1)], [],
          request_review_write trial_env 32 1))"
    by (simp add: request_announcement_review_def version_def uuid_identifier_def)
  show ?thesis
    unfolding run
    by (rule trial_commit [where wr = "request_review_write trial_env 32 1" and fs = "[''announcement'']",
      OF _ _ _ _ _ _ _ _ trial_request_write, where dbs = "trial_db3\<lparr>an_receipts := [trial_receipt1, trial_receipt2]\<rparr>"])
      (simp_all add: trial_step_defs trial_receipt1_def trial_receipt2_def trial_receipt3_def trial_db1_def trial_db2_def
        trial_db3_def)
qed

definition trial_review :: AnnouncementReview where
  "trial_review = new_review 34 (trial_evidence_of 4 4) 42 ''approve'' []"

definition trial_receipt4 :: AnnouncementCommandReceipt where
  "trial_receipt4 = new_receipt 4 100 (trial_request 4 24) ''approve'' (request_digest (trial_request 4 24) ''approve''
     (JObj [(''announcement_id'', JStr (uuid_str 32)), (''revision_id'', JStr (uuid_str 42)), (''expected_version'', JInt 2),
       (''decision'', JStr ''approve''), (''note'', JStr [])]) []) [] 4 (Some 32) 34 3"

definition trial_db4 :: announcement_db where
  "trial_db4 = trial_db3\<lparr>an_controls := [trial_control 4], an_items := [trial_item 3 ANN_APPROVED (Some 42)],
     an_reviews := [trial_review], an_receipts := [trial_receipt1, trial_receipt2, trial_receipt3, trial_receipt4]\<rparr>"

lemma trial_review_write:
  "review_write trial_env (trial_draw 4) 32 42 2 ''approve'' [] \<lparr>cx_request = trial_request 4 24,
      cx_scope = trial_scope [''announcement'', ''review''], cx_control = trial_control 3, cx_receipt_id = 4, cx_occurred_at = 100\<rparr> trial_db3
   = Inr (trial_db3\<lparr>an_items := [trial_item 3 ANN_APPROVED (Some 42)], an_reviews := [trial_review]\<rparr>, trial_control 3, 34, Some 32, 3)"
proof -
  have "an_settings trial_db3 = an_settings trial_db1" by (simp add: trial_db3_def trial_db2_def)
  then show ?thesis
    by (simp add: review_write_def trial_rules)
      (simp add: locked_item_def trial_db3_def trial_db2_def trial_item_def trial_request_def trial_db1_def
        empty_announcements_def advance_def MAX_HISTORY_def announcement_save_def saving_def positive_big_integer_def
        dereference_def find_revision_def trial_revision_def review_create_def trial_evidence_of_def evidence_of_def
        trial_draw_def trial_review_def new_review_def MAX_NOTE_def Let_def)
qed

lemma trial_approve:
  "\<exists>w. run_command trial_env (trial_draw 4) (trial_request 4 24)
        (Review (Typed 32) (Typed 42) (PyInt 2) ''approve'' (Typed [])) (trial_world trial_db3)
      = (w, Inr (result_of False trial_receipt4)) \<and> wd_announcements w = trial_db4"
proof -
  have "admit trial_env (trial_request 4 24) ''review'' = Inr (trial_scope [''announcement'', ''review''])"
    by (rule trial_admit) (simp_all add: CAPABILITY_FIELDS_def)
  moreover have "plain_text (\<lambda>s. s) MAX_NOTE False (Typed []) = Inr []" by code_simp
  ultimately have run: "run_command trial_env (trial_draw 4) (trial_request 4 24)
        (Review (Typed 32) (Typed 42) (PyInt 2) ''approve'' (Typed []))
      = perform trial_env (trial_draw 4) (trial_request 4 24) (Inr (''approve'',
          JObj [(''announcement_id'', JStr (uuid_str 32)), (''revision_id'', JStr (uuid_str 42)), (''expected_version'', JInt 2),
            (''decision'', JStr ''approve''), (''note'', JStr [])], [],
          review_write trial_env (trial_draw 4) 32 42 2 ''approve'' []))"
    by (simp add: review_announcement_def version_def uuid_identifier_def trial_env_inputs)
  show ?thesis
    unfolding run
    by (rule trial_commit [where wr = "review_write trial_env (trial_draw 4) 32 42 2 ''approve'' []"
        and fs = "[''announcement'', ''review'']", OF _ _ _ _ _ _ _ _ trial_review_write,
      where dbs = "trial_db4\<lparr>an_receipts := [trial_receipt1, trial_receipt2, trial_receipt3]\<rparr>"])
      (simp_all add: trial_step_defs trial_receipt1_def trial_receipt2_def trial_receipt3_def trial_receipt4_def
        trial_db1_def trial_db2_def trial_db3_def trial_db4_def)
qed

section \<open>The sample states are reachable\<close>

lemma trial_step:
  assumes "\<exists>w. run_command env dw rq cmd (trial_world db) = (w, x) \<and> wd_announcements w = db'" and "fresh_round dw db"
  shows "announcement_step\<^sup>*\<^sup>* (trial_world db) (trial_world db')"
proof -
  from assms(1) obtain w where w: "fst (run_command env dw rq cmd (trial_world db)) = w" "wd_announcements w = db'" by force
  then have "announcement_step (trial_world db) w"
    using step_command [of dw "trial_world db" env rq cmd] assms(2) by (simp add: trial_world_def)
  moreover have "announcement_step w (trial_world db')" using w(2) by (intro step_elsewhere) (simp add: trial_world_def)
  ultimately show ?thesis by (blast intro: rtranclp.rtrancl_into_rtrancl)
qed

lemma trial_round:
  "fresh_round (trial_draw 1) empty_announcements" "fresh_round (trial_draw 2) trial_db1"
  "fresh_round (trial_draw 3) trial_db2" "fresh_round (trial_draw 4) trial_db3"
  by (simp_all add: fresh_round_def trial_db3_def trial_db2_def trial_db1_def empty_announcements_def trial_revision_def trial_draw_def)

lemma trial_history:
  "announcement_step\<^sup>*\<^sup>* (trial_world empty_announcements) (trial_world trial_db1)"
  "announcement_step\<^sup>*\<^sup>* (trial_world trial_db1) (trial_world trial_db2)"
  "announcement_step\<^sup>*\<^sup>* (trial_world trial_db2) (trial_world trial_db3)"
  "announcement_step\<^sup>*\<^sup>* (trial_world trial_db3) (trial_world trial_db4)"
  by (rule trial_step [OF trial_update_settings trial_round(1)] trial_step [OF trial_create trial_round(2)]
      trial_step [OF trial_request_review trial_round(3)] trial_step [OF trial_approve trial_round(4)])+

lemma trial_reachable:
  "announcements.reachable (trial_world trial_db1)" "announcements.reachable (trial_world trial_db2)"
  "announcements.reachable (trial_world trial_db4)"
proof -
  have go: "announcements.reachable w'" if "announcement_step\<^sup>*\<^sup>* w w'" "announcements.reachable w" for w w'
    using that by (induction rule: rtranclp_induct) (auto intro: announcements.reach_step)
  have "announcements.reachable (trial_world empty_announcements)"
    by (rule announcements.reach_initial) (simp add: no_announcements_def trial_world_def)
  from go [OF trial_history(1) this] show 1: "announcements.reachable (trial_world trial_db1)" .
  from go [OF trial_history(2) this] show 2: "announcements.reachable (trial_world trial_db2)" .
  from go [OF trial_history(4) go [OF trial_history(3) this]] show "announcements.reachable (trial_world trial_db4)" .
qed

text \<open>A command with a stale version is refused.\<close>

lemma trial_conflict:
  "\<exists>w. run_command trial_env (trial_draw 1) (trial_request 3 21) (UpdateSettings (Typed trial_raw_settings) (PyInt 5))
      (trial_world empty_announcements) = (w, Inl AnnouncementVersionConflictError)"
proof -
  have cap: "map_of CAPABILITY_FIELDS (operation_capability ''settings_update'') = Some [''settings'']"
    by (simp add: CAPABILITY_FIELDS_def operation_capabilities)
  have auth: "authorize trial_env k (trial_request 3 21) (operation_capability ''settings_update'') = Inr (trial_scope [''settings''])" for k
    using trial_authorize [OF cap] by simp
  have "update_settings_write trial_env (trial_draw 1) trial_settings 5 \<lparr>cx_request = trial_request 3 21,
      cx_scope = trial_scope [''settings''], cx_control = new_control 20 (trial_request 3 21), cx_receipt_id = 1, cx_occurred_at = 100\<rparr> db
    = Inl AnnouncementVersionConflictError" for db
    by (simp add: update_settings_write_def writes_open_def guardE_def trial_scope_def new_control_def)
  moreover have "locked_control 20 (trial_request 3 21) empty_announcements
      = Inr (empty_announcements\<lparr>an_controls := [new_control 20 (trial_request 3 21)]\<rparr>, new_control 20 (trial_request 3 21))"
    by (simp add: trial_step_defs)
  moreover have "ct_sequence (new_control 20 (trial_request 3 21)) = 0" by (simp add: new_control_def)
  ultimately have "commit_command trial_env (trial_draw 1) (trial_request 3 21) (''settings_update'', i, n,
      update_settings_write trial_env (trial_draw 1) trial_settings 5) (trial_scope [''settings'']) (trial_world empty_announcements)
      = Inl AnnouncementVersionConflictError" for i n
    by (simp add: commit_command_def trial_world_def) (simp add: trial_draw_def)
  moreover have "find_receipt (trial_request 3 21) (wd_announcements (trial_world empty_announcements)) = None"
    by (simp add: find_receipt_def trial_world_def empty_announcements_def)
  moreover have "require_announcements_integrity trial_env = Inr ()"
    by (simp add: require_announcements_integrity_def trial_env_def guardE_def)
  ultimately have "apply_command trial_env (trial_draw 1) (trial_request 3 21) (''settings_update'', i, n,
      update_settings_write trial_env (trial_draw 1) trial_settings 5) (trial_world empty_announcements)
      = Inl AnnouncementVersionConflictError" for i n
    using trial_lock [of 3 21] auth by (simp add: apply_command_def)
  moreover have "admit trial_env (trial_request 3 21) ''manage_settings'' = Inr (trial_scope [''settings''])"
    by (rule trial_admit) (simp_all add: CAPABILITY_FIELDS_def)
  ultimately show ?thesis
    using trial_check [of 21 3]
    by (simp add: update_announcement_settings_def trial_env_inputs trial_normalize_settings version_def perform_def execute_def)
qed

end
