(* ===== verification/Announcement_Props.thy ===== *)
theory Announcement_Props
  imports Announcement_Samples
begin

text \<open>
  The properties of announcements: the native guard is never tripped, approvals are independent,
  failures are atomic, retries return the retained receipt, evidence is joined and only appended,
  limits hold, and stopped or expired work admits no new copy.
\<close>

section \<open>Histories\<close>

definition announcement_history :: "announcement_world \<Rightarrow> announcement_world \<Rightarrow> bool" where
  "announcement_history = announcement_step\<^sup>*\<^sup>*"

lemma step_prefix:
  assumes "announcement_step w w'"
  shows "\<exists>ss rs vs ws ps xs. an_settings (wd_announcements w') = an_settings (wd_announcements w) @ ss
    \<and> an_revisions (wd_announcements w') = an_revisions (wd_announcements w) @ rs
    \<and> an_variants (wd_announcements w') = an_variants (wd_announcements w) @ vs
    \<and> an_reviews (wd_announcements w') = an_reviews (wd_announcements w) @ ws
    \<and> an_reports (wd_announcements w') = an_reports (wd_announcements w) @ ps
    \<and> an_receipts (wd_announcements w') = an_receipts (wd_announcements w) @ xs"
  using assms
proof cases
  case (step_command dw env rq cmd)
  then show ?thesis
    by (cases rule: run_command_cases [of env dw rq cmd w]) (auto dest: commits_summary)
qed simp

lemma history_prefix:
  assumes "announcement_history w w'"
  shows "prefix (an_settings (wd_announcements w)) (an_settings (wd_announcements w'))
    \<and> prefix (an_revisions (wd_announcements w)) (an_revisions (wd_announcements w'))
    \<and> prefix (an_variants (wd_announcements w)) (an_variants (wd_announcements w'))
    \<and> prefix (an_reviews (wd_announcements w)) (an_reviews (wd_announcements w'))
    \<and> prefix (an_reports (wd_announcements w)) (an_reports (wd_announcements w'))
    \<and> prefix (an_receipts (wd_announcements w)) (an_receipts (wd_announcements w'))"
  using assms unfolding announcement_history_def
proof (induction rule: rtranclp_induct)
  case base
  then show ?case by simp
next
  case (step y z)
  then show ?case using step_prefix [OF step(2)] by (auto intro: prefix_order.order_trans)
qed

lemma history_reachable: "announcement_history w w' \<Longrightarrow> announcements.reachable w \<Longrightarrow> announcements.reachable w'"
  unfolding announcement_history_def by (induction rule: rtranclp_induct) (auto intro: announcements.reach_step)

text \<open>What every command leaves of an announcement it finds.\<close>

definition retains :: "announcement_db \<Rightarrow> Announcement \<Rightarrow> Announcement \<Rightarrow> bool" where
  "retains db a b \<longleftrightarrow> an_id b = an_id a \<and> an_organization_id b = an_organization_id a \<and> an_edition_id b = an_edition_id a
     \<and> an_version a \<le> an_version b \<and> (an_status a = ANN_CANCELLED \<longrightarrow> an_status b = ANN_CANCELLED)
     \<and> (an_approved_revision a \<noteq> None \<longrightarrow> an_approved_revision b \<noteq> None)"

lemma commits_retain:
  assumes inv: "heads_inv db" and cm: "commits env dw rq scope db db' r" and a: "a \<in> set (an_items db)"
  shows "\<exists>b \<in> set (an_items db'). retains db a b"
proof -
  have keep: "\<exists>b \<in> set (an_items (after db c (Some h) ss rs vs ws ps r)). retains db a b"
    if x: "x \<in> set (an_items db)" "an_id h = an_id x" and h: "retains db x h" for c h ss rs vs ws ps x
  proof (cases "an_id a = an_id x")
    case True
    then have "a = x" by (rule item_unique [OF inv a x(1)])
    then show ?thesis using h by auto
  next
    case False
    then show ?thesis using a x by (auto simp: retains_def)
  qed
  show ?thesis
    using cm
  proof cases
    case (commit_create c s y v i vs)
    then have "a \<in> set (an_items db')" using a by (auto simp: new_announcement_def)
    then show ?thesis by (intro bexI [of _ a]) (simp_all add: retains_def)
  next
    case (commit_revise c s x v vs)
    then show ?thesis unfolding commit_revise(1)
      by (intro keep [of x]) (auto simp: retains_def head_after_fields)
  next
    case (commit_request c s x i)
    then show ?thesis unfolding commit_request(1)
      by (intro keep [of x]) (auto simp: retains_def head_after_fields)
  next
    case (commit_review c s x p w)
    then show ?thesis unfolding commit_review(1)
      by (intro keep [of x]) (auto simp: retains_def head_after_fields)
  next
    case (commit_report c x p)
    then have "cr_operation r \<noteq> ''approve''" "status_after (cr_operation r) = None"
      by (simp_all add: status_after.simps)
    then show ?thesis unfolding commit_report(1) using commit_report
      by (intro keep [of x]) (auto simp: retains_def head_after_fields)
  next
    case (commit_cancel c x)
    then show ?thesis unfolding commit_cancel(1)
      by (intro keep [of x]) (auto simp: retains_def head_after_fields status_after.simps)
  qed (use a in \<open>auto simp: retains_def\<close>)
qed

lemma history_retains:
  assumes "announcement_history w w'" and "announcements.reachable w" and "a \<in> set (an_items (wd_announcements w))"
  shows "\<exists>b \<in> set (an_items (wd_announcements w')). retains (wd_announcements w) a b"
  using assms unfolding announcement_history_def
proof (induction rule: rtranclp_induct)
  case base
  then show ?case by (auto simp: retains_def)
next
  case (step y z)
  then obtain b where b: "b \<in> set (an_items (wd_announcements y))" "retains (wd_announcements w) a b" by blast
  have "announcements.reachable y"
    using step(1) assms(2) history_reachable by (simp add: announcement_history_def)
  then have inv: "heads_inv (wd_announcements y)"
    using announcements.reachable_inv by (auto simp: announcement_inv_def)
  have "\<exists>c \<in> set (an_items (wd_announcements z)). retains (wd_announcements y) b c"
    using step(2)
  proof cases
    case (step_command dw env rq cmd)
    then show ?thesis
      using b(1) commits_retain [OF inv] by (cases rule: run_command_cases [of env dw rq cmd y]) (auto simp: retains_def)
  next
    case step_elsewhere
    then show ?thesis using b(1) by (auto simp: retains_def)
  qed
  then show ?case using b(2) by (fastforce simp: retains_def)
qed

section \<open>Properties\<close>

text \<open>
  C18. The commands never trip the native evidence guard: in every reachable state each receipt
  satisfies the guard of receipts (contiguous sequence and versions, the recorded result, the
  persisted heads of its edition and announcement), and every control and announcement is the head
  that the guard derives from the receipts alone.
\<close>

theorem native_guard_satisfied:
  assumes "announcements.reachable w"
  defines "db \<equiv> wd_announcements w"
  shows "(\<forall>r \<in> set (an_receipts db). receipt_guard db r) \<and> (\<forall>c \<in> set (an_controls db). control_head db c)
    \<and> (\<forall>a \<in> set (an_items db). item_head db a)"
  using announcements.reachable_inv [OF assms(1)] receipts_guarded [of db]
  by (simp add: announcement_inv_def db_def heads_inv_def control_inv_def item_inv_def)

theorem native_guard_satisfied_witness:
  "receipt_guard trial_db4 trial_receipt4 \<and> control_head trial_db4 (trial_control 4)
    \<and> item_head trial_db4 (trial_item 3 ANN_APPROVED (Some 42))"
proof -
  have "trial_receipt4 \<in> set (an_receipts trial_db4)" "trial_control 4 \<in> set (an_controls trial_db4)"
      "trial_item 3 ANN_APPROVED (Some 42) \<in> set (an_items trial_db4)"
    by (simp_all add: trial_db4_def)
  then show ?thesis
    using native_guard_satisfied [OF trial_reachable(3)] by (simp add: trial_world_def)
qed

text \<open>
  C16. Review is independent: in every reachable state nobody who approved a copy wrote any revision
  of that announcement in the same round, neither before the approval nor after it, and once the
  current copy's round holds an approval the current copy is the approved one, so that a correction
  opens a new round.
\<close>

theorem approvals_independent:
  assumes "announcements.reachable w"
  shows "independent (wd_announcements w) \<and> closed_rounds (wd_announcements w)"
  using announcements.reachable_inv [OF assms] by (simp add: announcement_inv_def rounds_inv_def)

theorem approvals_independent_witness:
  "independent trial_db4 \<and> closed_rounds trial_db4 \<and> approved_in trial_db4 42"
  using approvals_independent [OF trial_reachable(3)]
  by (simp add: trial_world_def) (simp add: approved_in_def trial_db4_def trial_review_def new_review_def)

text \<open>
  C21. Retained evidence is only appended to: along any history the settings, revisions, variants,
  reviews, reports and receipts keep their rows in place, every announcement keeps its identity and
  scope, its version never falls, a cancelled one stays cancelled, and one with an approved copy keeps
  having one.
\<close>

theorem announcement_history_retained:
  assumes "announcements.reachable w" and "announcement_history w w'"
  shows "prefix (an_settings (wd_announcements w)) (an_settings (wd_announcements w'))
    \<and> prefix (an_revisions (wd_announcements w)) (an_revisions (wd_announcements w'))
    \<and> prefix (an_variants (wd_announcements w)) (an_variants (wd_announcements w'))
    \<and> prefix (an_reviews (wd_announcements w)) (an_reviews (wd_announcements w'))
    \<and> prefix (an_reports (wd_announcements w)) (an_reports (wd_announcements w'))
    \<and> prefix (an_receipts (wd_announcements w)) (an_receipts (wd_announcements w'))
    \<and> (\<forall>a \<in> set (an_items (wd_announcements w)). \<exists>b \<in> set (an_items (wd_announcements w')). retains (wd_announcements w) a b)"
  using history_prefix [OF assms(2)] history_retains [OF assms(2,1)] by blast

theorem announcement_history_retained_witness:
  "prefix (an_receipts trial_db2) (an_receipts trial_db4)
    \<and> retains trial_db2 (trial_item 1 ANN_DRAFT None) (trial_item 3 ANN_APPROVED (Some 42))"
proof -
  have "announcement_history (trial_world trial_db2) (trial_world trial_db4)"
    unfolding announcement_history_def using trial_history(3,4) by (rule rtranclp_trans)
  moreover have "an_items trial_db2 = [trial_item 1 ANN_DRAFT None]" "an_items trial_db4 = [trial_item 3 ANN_APPROVED (Some 42)]"
    by (simp_all add: trial_db4_def trial_db2_def)
  ultimately show ?thesis
    using announcement_history_retained [OF trial_reachable(2), of "trial_world trial_db4"] by (simp add: trial_world_def)
qed

text \<open>
  The announced limits hold in every reachable state: versions up to 4096, revisions numbered up
  to 256, retained text up to eight MiB and at most 2048 publication reports per announcement.
\<close>

theorem announcement_limits:
  assumes "announcements.reachable w"
  defines "db \<equiv> wd_announcements w"
  shows "(\<forall>a \<in> set (an_items db). an_version a \<le> 4096 \<and> length (reports_of db (an_id a)) \<le> 2048
      \<and> sum_list (map rv_text_bytes (filter (\<lambda>s. rv_announcement s = an_id a) (an_revisions db))) \<le> 8388608)
    \<and> (\<forall>s \<in> set (an_revisions db). rv_number s \<le> 256)"
  using announcements.reachable_inv [OF assms(1)]
  by (auto simp: announcement_inv_def db_def heads_inv_def item_inv_def limits_inv_def MAX_HISTORY_def MAX_REPORTS_def
      MAX_STORED_TEXT_BYTES_def MAX_REVISIONS_def)

theorem announcement_limits_witness:
  "an_version (trial_item 3 ANN_APPROVED (Some 42)) \<le> 4096 \<and> length (reports_of trial_db4 32) \<le> 2048
    \<and> rv_number trial_revision \<le> 256"
proof -
  have "trial_item 3 ANN_APPROVED (Some 42) \<in> set (an_items trial_db4)" "trial_revision \<in> set (an_revisions trial_db4)"
      "an_id (trial_item 3 ANN_APPROVED (Some 42)) = 32"
    by (simp_all add: trial_db4_def trial_db3_def trial_db2_def trial_item_def)
  then show ?thesis
    using announcement_limits [OF trial_reachable(3)] by (auto simp: trial_world_def simp del: length_filter_le)
qed

section \<open>Outcomes of one command\<close>

lemma append_audit_Inr:
  assumes "append_audit fresh now rec at i au = Inr (au', e)"
  shows "e = event_of_audit_record (case i of None \<Rightarrow> fresh | Some i \<Rightarrow> i) (case at of None \<Rightarrow> now | Some t \<Rightarrow> t) rec"
    "au' = au\<lparr>au_events := au_events au @ [e]\<rparr>" "audit_event_full_clean au e"
  using assms by (auto simp: append_audit_def Let_def bindE_eq_Inr audit_event_create_def split: if_splits)

text \<open>
  C20. A failed command is atomic and attributed: whatever it raised, the tables of announcements and
  the outbox are as before, and the audit trail is as before or has one more event, a denial for a
  denied command and an error otherwise, with the actor, the scope, the operation's capability, the
  reason code of the error and no target.
\<close>

theorem announcement_failure_atomic:
  assumes "run_command env dw rq cmd w = (w', Inl e)"
  shows "wd_announcements w' = wd_announcements w \<and> wd_effects w' = wd_effects w
    \<and> (wd_audit w' = wd_audit w \<or> (\<exists>r. wd_audit w' = (wd_audit w)\<lparr>au_events := au_events (wd_audit w) @ [r]\<rparr>
        \<and> ae_outcome r = (if e = AnnouncementDeniedError then DENY else ERROR) \<and> ae_reason_code r = error_reason_code e
        \<and> ae_principal_id r = Some (rq_actor_id rq) \<and> ae_organization_id r = Some (rq_organization_id rq)
        \<and> ae_event_edition_id r = Some (rq_edition_id rq) \<and> ae_target_id r = None
        \<and> ae_capability_code r \<in> snd ` set OPERATION_CAPABILITIES))"
proof -
  obtain inputs where inputs: "run_command env dw rq cmd = perform env dw rq inputs"
      "\<forall>plan. inputs = Inr plan \<longrightarrow> legal_plan env dw plan"
    using run_command_perform by blast
  show ?thesis
  proof (cases rule: perform_cases [of inputs env dw rq w])
    case (failed plan f)
    have "legal_plan env dw plan" using inputs(2) failed(1) by blast
    then have "operation_capability (fst plan) \<in> snd ` set OPERATION_CAPABILITIES"
      by cases (auto simp: operation_capability_def OPERATION_CAPABILITIES_def)
    moreover have w': "w' = audit_refusal dw rq (fst plan) e w" using failed inputs(1) assms by auto
    define rec where "rec = audit_record rq (fst plan) (if e = AnnouncementDeniedError then DENY else ERROR)
      (error_reason_code e) None"
    show ?thesis
    proof (cases "append_audit (dw_refused dw) (dw_refused_now dw) rec None None (wd_audit w)")
      case (Inl x)
      then show ?thesis using w' by (simp add: audit_refusal_def rec_def)
    next
      case (Inr x)
      obtain au r where x: "x = (au, r)" by (cases x)
      note a = append_audit_Inr [OF Inr [unfolded x]]
      have "w' = w\<lparr>wd_audit := au\<rparr>" using w' Inr by (simp add: audit_refusal_def rec_def x)
      moreover have "ae_outcome r = (if e = AnnouncementDeniedError then DENY else ERROR)"
          "ae_reason_code r = error_reason_code e" "ae_principal_id r = Some (rq_actor_id rq)"
          "ae_organization_id r = Some (rq_organization_id rq)" "ae_event_edition_id r = Some (rq_edition_id rq)"
          "ae_target_id r = None" "ae_capability_code r = operation_capability (fst plan)"
        by (simp_all add: a(1) event_of_audit_record_def rec_def audit_record_def)
      ultimately show ?thesis
        using a(2) \<open>operation_capability (fst plan) \<in> snd ` set OPERATION_CAPABILITIES\<close>
        by (intro conjI disjI2 exI [of _ r]) (simp_all split del: if_split)
    qed
  qed (use assms inputs(1) in auto)
qed

theorem announcement_failure_atomic_witness:
  "\<exists>w. run_command trial_env (trial_draw 1) (trial_request 3 21) (UpdateSettings (Typed trial_raw_settings) (PyInt 5))
      (trial_world empty_announcements) = (w, Inl AnnouncementVersionConflictError)
    \<and> wd_announcements w = empty_announcements \<and> wd_effects w = empty_db"
proof -
  obtain w where w: "run_command trial_env (trial_draw 1) (trial_request 3 21) (UpdateSettings (Typed trial_raw_settings) (PyInt 5))
      (trial_world empty_announcements) = (w, Inl AnnouncementVersionConflictError)"
    using trial_conflict by blast
  then show ?thesis using announcement_failure_atomic [OF w] by (auto simp: trial_world_def)
qed

text \<open>The guard's join of a receipt with its audit event, domain event and outbox message.\<close>

definition evidence_joined :: "AnnouncementCommandReceipt \<Rightarrow> AuditEvent \<Rightarrow> DomainEvent \<Rightarrow> OutboxMessage \<Rightarrow> bool" where
  "evidence_joined r e v m \<longleftrightarrow>
     ae_principal_kind e = ''account'' \<and> ae_principal_id e = Some (cr_actor_id r)
     \<and> ae_organization_id e = Some (cr_organization_id r) \<and> ae_event_edition_id e = Some (cr_edition_id r)
     \<and> ae_operation e = ''announcements.command.'' @ cr_operation r
     \<and> ae_capability_code e = operation_capability (cr_operation r) \<and> ae_outcome e = ALLOW
     \<and> ae_target_type e = ''announcements.record'' \<and> ae_target_id e = Some (cr_object_id r)
     \<and> ae_occurred_at e = cr_occurred_at r \<and> ae_correlation_id e = cr_correlation_id r
     \<and> ae_source_channel e = cr_source_channel r
     \<and> ae_idempotency_key_hash e = sha256_hex (uuid_str (cr_idempotency_key r))
     \<and> ev_causation_id v = Some (ae_id e) \<and> ev_event_name v = ''announcements.changed.v1'' \<and> ev_schema_version v = 1
     \<and> ev_organization_id v = cr_organization_id r \<and> ev_event_edition_id v = Some (cr_edition_id r)
     \<and> ev_aggregate_type v = ''announcements.edition'' \<and> ev_aggregate_id v = cr_edition_id r
     \<and> ev_aggregate_version v = cr_control_sequence r \<and> ev_actor_id v = Some (cr_actor_id r)
     \<and> ev_occurred_at v = cr_occurred_at r \<and> ev_correlation_id v = cr_correlation_id r
     \<and> ev_payload v = JObj [(''operation'', JStr (cr_operation r))]
     \<and> om_event_id m = ev_id v \<and> om_destination m = ''internal''"

lemma publish_Inr:
  assumes "publish_domain_event env pc rec destination pool budget at db = Inr (db', v, m)"
  shows "v = event_of_record (pc_event_id pc) (case at of Some t \<Rightarrow> t | None \<Rightarrow> pc_occurred_now pc) rec"
    "om_event_id m = ev_id v" "om_destination m = destination" "om_status m = PENDING"
    "db_events db' = db_events db @ [v]" "db_messages db' = db_messages db @ [m]"
  using assms
  by (auto simp: publish_domain_event_def bindE_eq_Inr Let_def event_create_def message_create_def new_message_def
      split: if_splits)

lemma record_evidence_joined:
  assumes "record_evidence env dw rq scope r w = Inr w'"
    and "cr_actor_id r = rq_actor_id rq" "cr_organization_id r = rq_organization_id rq" "cr_edition_id r = rq_edition_id rq"
      "cr_correlation_id r = rq_correlation_id rq" "cr_source_channel r = rq_source_channel rq"
      "cr_idempotency_key r = rq_idempotency_key rq"
  shows "wd_announcements w' = wd_announcements w \<and> (\<exists>e v m. evidence_joined r e v m \<and> om_status m = PENDING
    \<and> au_events (wd_audit w') = au_events (wd_audit w) @ [e]
    \<and> db_events (wd_effects w') = db_events (wd_effects w) @ [v]
    \<and> db_messages (wd_effects w') = db_messages (wd_effects w) @ [m])"
proof -
  from assms(1) obtain au e db v m where
      a: "append_audit (dw_audit dw) (cr_occurred_at r)
         (audit_record rq (cr_operation r) ALLOW (pd_reason_code (as_decision scope)) (Some (cr_object_id r)))
         (Some (cr_occurred_at r)) (Some (dw_audit dw)) (wd_audit w) = Inr (au, e)"
      and p: "publish_domain_event (nv_routes env) ((dw_publish dw)\<lparr>pc_in_atomic_block := True\<rparr>)
         (domain_record rq (cr_operation r) (cr_control_sequence r) (ae_id e)) ''internal'' ''default'' (PyInt 8)
         (Some (cr_occurred_at r)) (wd_effects w) = Inr (db, v, m)"
      and w': "w' = w\<lparr>wd_effects := db, wd_audit := au\<rparr>"
    by (auto simp: record_evidence_def raising_def bindE_eq_Inr split: sum.splits prod.splits)
  note a' = append_audit_Inr [OF a] and p' = publish_Inr [OF p]
  have "evidence_joined r e v m"
    using assms(2-) a'(1) p'(1-3)
    by (simp add: evidence_joined_def event_of_audit_record_def audit_record_def event_of_record_def domain_record_def EVENT_NAME_def)
  then show ?thesis using a'(2) p'(4-6) by (auto simp: w')
qed

text \<open>A command that reports a fresh result has committed exactly one receipt.\<close>

lemma perform_committed:
  assumes "perform env dw rq inputs w = (w', Inr res)" and "\<not> res_replayed res"
  obtains plan scope r where "inputs = Inr plan" "commit_command env dw rq plan scope w = Inr (w', r)"
    "res = result_of False r" "authorize env 2 rq (operation_capability (cr_operation r)) = Inr scope"
    "find_receipt rq (wd_announcements w) = None" "check_request env rq = Inr ()" "cr_operation r = fst plan"
    "last (an_receipts (wd_announcements w')) = r"
proof -
  obtain plan scope r where c: "inputs = Inr plan" "find_receipt rq (wd_announcements w) = None"
      "commit_command env dw rq plan scope w = Inr (w', r)" "res = result_of False r"
      "authorize env 2 rq (operation_capability (fst plan)) = Inr scope"
    using assms by (cases rule: perform_cases [of inputs env dw rq w]) (auto simp: result_of_def)
  have "transacts dw rq scope (fst plan) (snd (snd (snd plan))) (wd_announcements w) (wd_announcements w') r"
    using c(3) commit_command_transacts by (cases plan) simp
  then have "cr_operation r = fst plan" "last (an_receipts (wd_announcements w')) = r"
    by (auto simp: transacts_def new_receipt_def command_receipt_create_def result_simps)
  moreover have "check_request env rq = Inr ()"
    using assms(1) c(1) by (cases "check_request env rq") (auto simp: perform_def execute_def)
  ultimately show thesis using that [of plan scope r] c by simp
qed

lemma committed_command:
  assumes "run_command env dw rq cmd w = (w', Inr res)" and "\<not> res_replayed res"
  obtains plan scope r where "commit_command env dw rq plan scope w = Inr (w', r)" "res = result_of False r"
    "commits env dw rq scope (wd_announcements w) (wd_announcements w') r"
    "authorize env 2 rq (operation_capability (cr_operation r)) = Inr scope"
    "an_receipts (wd_announcements w') = an_receipts (wd_announcements w) @ [r]"
proof -
  obtain inputs where inputs: "run_command env dw rq cmd = perform env dw rq inputs"
      "\<forall>plan. inputs = Inr plan \<longrightarrow> legal_plan env dw plan"
    using run_command_perform by blast
  from perform_committed [OF assms [unfolded inputs(1)]] obtain plan scope r where c: "inputs = Inr plan"
      "commit_command env dw rq plan scope w = Inr (w', r)" "res = result_of False r"
      "authorize env 2 rq (operation_capability (cr_operation r)) = Inr scope"
    by metis
  have cm: "commits env dw rq scope (wd_announcements w) (wd_announcements w') r"
    using commit_command_commits [OF c(2)] inputs(2) c(1) by blast
  then have "an_receipts (wd_announcements w') = an_receipts (wd_announcements w) @ [r]"
    using commits_summary [OF cm] by auto
  then show thesis using that [of plan scope r] c cm by simp
qed

text \<open>
  C19. A committed command leaves its whole evidence in one step: exactly one receipt, one allowing
  audit event, one domain event and one pending internal outbox message, joined as the guard demands;
  the result reports that receipt.
\<close>

theorem announcement_evidence_complete:
  assumes "run_command env dw rq cmd w = (w', Inr res)" and "\<not> res_replayed res"
  shows "\<exists>r e v m. an_receipts (wd_announcements w') = an_receipts (wd_announcements w) @ [r] \<and> res = result_of False r
    \<and> au_events (wd_audit w') = au_events (wd_audit w) @ [e]
    \<and> db_events (wd_effects w') = db_events (wd_effects w) @ [v]
    \<and> db_messages (wd_effects w') = db_messages (wd_effects w) @ [m]
    \<and> evidence_joined r e v m \<and> om_status m = PENDING"
proof -
  from assms obtain plan scope r where c: "commit_command env dw rq plan scope w = Inr (w', r)"
      and res: "res = result_of False r" and rs: "an_receipts (wd_announcements w') = an_receipts (wd_announcements w) @ [r]"
    by (rule committed_command)
  obtain scope3 db where "record_evidence env dw rq scope3 r (w\<lparr>wd_announcements := db\<rparr>) = Inr w'"
      "cr_actor_id r = rq_actor_id rq" "cr_organization_id r = rq_organization_id rq" "cr_edition_id r = rq_edition_id rq"
      "cr_correlation_id r = rq_correlation_id rq" "cr_source_channel r = rq_source_channel rq"
      "cr_idempotency_key r = rq_idempotency_key rq"
    using c unfolding commit_command_def
    by (auto simp: bindE_eq_Inr Let_def new_receipt_def split: prod.splits if_splits)
  then show ?thesis using record_evidence_joined [of env dw rq scope3 r] res rs by fastforce
qed

theorem announcement_evidence_complete_witness:
  "\<exists>w e v m. run_command trial_env (trial_draw 1) (trial_request 3 21) (UpdateSettings (Typed trial_raw_settings) (PyInt 0))
      (trial_world empty_announcements) = (w, Inr (result_of False trial_receipt1))
    \<and> au_events (wd_audit w) = [e] \<and> db_events (wd_effects w) = [v] \<and> db_messages (wd_effects w) = [m]
    \<and> evidence_joined trial_receipt1 e v m"
proof -
  obtain w where w: "run_command trial_env (trial_draw 1) (trial_request 3 21) (UpdateSettings (Typed trial_raw_settings) (PyInt 0))
      (trial_world empty_announcements) = (w, Inr (result_of False trial_receipt1))" "wd_announcements w = trial_db1"
    using trial_update_settings by blast
  have "an_receipts trial_db1 = [trial_receipt1]" by (simp add: trial_db1_def)
  then show ?thesis
    using announcement_evidence_complete [OF w(1)] w
    by (auto simp: trial_world_def empty_announcements_def empty_db_def empty_audit_def result_of_def)
qed

definition work_admitted :: "announcement_env \<Rightarrow> draw \<Rightarrow> AnnouncementsEditionScope \<Rightarrow> announcement_db \<Rightarrow> announcement_db \<Rightarrow> bool" where
  "work_admitted env dw edition db db' \<longleftrightarrow> es_accepts_writes edition
     \<and> list_ex (\<lambda>c. ct_edition_id c = es_edition_id edition \<and> \<not> ct_stopped c
         \<and> list_ex (\<lambda>s. ct_current_settings c = Some (sr_id s)
             \<and> nv_local_date env (es_time_zone edition) (dw_now dw) \<le> sr_review_on s) (an_settings db)) (an_controls db')"

lemma work_admittedI:
  assumes "rules_current env cx db s" and "cx_scope cx = scope" and "cx_occurred_at cx = dw_now dw"
    and "c \<in> set (an_controls db')" and "ct_edition_id c = es_edition_id (as_edition scope)"
    and "ct_stopped c = ct_stopped (cx_control cx)" and "ct_current_settings c = ct_current_settings (cx_control cx)"
  shows "work_admitted env dw (as_edition scope) db db'"
  using assms unfolding work_admitted_def rules_current_def today_of_def list_ex_iff by (intro conjI bexI [of _ c]) auto

text \<open>
  New work needs open writing and current rules: whenever a command that writes, submits or
  reviews copy, or resumes work, is committed, the edition accepts writes, the edition's work is not
  stopped (or is being resumed), and the rules in force name a review date that is not past in the
  time zone of the edition.
\<close>

theorem new_work_needs_current_rules:
  assumes "run_command env dw rq cmd w = (w', Inr res)" and "\<not> res_replayed res"
    and "cr_operation (last (an_receipts (wd_announcements w'))) \<in>
      {''create'', ''revise'', ''request_review'', ''approve'', ''changes_requested'', ''resume''}"
  shows "\<exists>edition. resolve_announcements_edition_scope (nv_scope env 2) False False (rq_organization_id rq) (rq_edition_id rq)
      = Some edition \<and> work_admitted env dw edition (wd_announcements w) (wd_announcements w')"
proof -
  from assms(1,2) obtain plan scope r where
      cm: "commits env dw rq scope (wd_announcements w) (wd_announcements w') r"
      and auth: "authorize env 2 rq (operation_capability (cr_operation r)) = Inr scope"
      and rs: "an_receipts (wd_announcements w') = an_receipts (wd_announcements w) @ [r]"
    by (rule committed_command)
  have op: "cr_operation r \<in> {''create'', ''revise'', ''request_review'', ''approve'', ''changes_requested'', ''resume''}"
    using assms(3) rs by simp
  note edition = authorized_scope(7) [OF auth [unfolded authorize_def]]
  have current: "work_admitted env dw (as_edition scope) (wd_announcements w) (wd_announcements w')"
    if "rules_current env cx (wd_announcements w) s" "closing dw rq (wd_announcements w) c r"
      "wd_announcements w' = after (wd_announcements w) c a ss rs vs ws ps r" "cx_scope cx = scope"
      "cx_occurred_at cx = dw_now dw" "ct_stopped c = ct_stopped (cx_control cx)"
      "ct_current_settings c = ct_current_settings (cx_control cx)" for cx s c a ss rs vs ws ps
    using that resolved_scope(2) [OF edition] closingD(3) [OF that(2)]
    by (intro work_admittedI [OF that(1), where c = c]) simp_all
  have "work_admitted env dw (as_edition scope) (wd_announcements w) (wd_announcements w')"
    using cm
  proof cases
    case (commit_stopped c stop s)
    have "\<not> stop" using op commit_stopped by (simp split: if_splits)
    from commit_stopped(7) [OF this] show ?thesis
      by (rule current [OF _ commit_stopped(2,1)]) (simp_all add: context_of_def)
  next
    case (commit_create c s a v i vs)
    then show ?thesis by (intro current [OF commit_create(3,2,1)]) (simp_all add: context_of_def)
  next
    case (commit_revise c s a v vs)
    then show ?thesis by (intro current [OF commit_revise(3,2,1)]) (simp_all add: context_of_def)
  next
    case (commit_request c s a i)
    then show ?thesis by (intro current [OF commit_request(3,2,1)]) (simp_all add: context_of_def)
  next
    case (commit_review c s a p w)
    then show ?thesis by (intro current [OF commit_review(3,2,1)]) (simp_all add: context_of_def)
  qed (use op in \<open>simp_all split: if_splits\<close>)
  then show ?thesis using edition by blast
qed

theorem new_work_needs_current_rules_witness:
  "\<exists>w edition. run_command trial_env (trial_draw 2) (trial_request 3 22) (Create (Typed trial_raw_draft) (PyInt 1))
      (trial_world trial_db1) = (w, Inr (result_of False trial_receipt2))
    \<and> work_admitted trial_env (trial_draw 2) edition trial_db1 trial_db2"
proof -
  obtain w where w: "run_command trial_env (trial_draw 2) (trial_request 3 22) (Create (Typed trial_raw_draft) (PyInt 1))
      (trial_world trial_db1) = (w, Inr (result_of False trial_receipt2))" "wd_announcements w = trial_db2"
    using trial_create by blast
  have "cr_operation (last (an_receipts (wd_announcements w))) = ''create''"
    using w(2) by (simp add: trial_db2_def trial_receipt2_def new_receipt_def)
  then show ?thesis
    using new_work_needs_current_rules [OF w(1)] w by (auto simp: result_of_def trial_world_def)
qed

section \<open>Retries\<close>

lemma publication_time_later:
  "publication_time now v = Inr r \<Longrightarrow> now \<le> later \<Longrightarrow> publication_time later v = Inr r"
  by (auto simp: publication_time_def split: option.splits py_datetime.splits if_splits)

text \<open>A command is admitted when the policy readings, the integrity check and the locks let it through.\<close>

definition admitted :: "announcement_env \<Rightarrow> AnnouncementCommandRequest \<Rightarrow> string \<Rightarrow> bool" where
  "admitted env rq operation \<longleftrightarrow> list_all (\<lambda>n. \<not> isl (authorize env n rq (operation_capability operation))) [0, 1, 2]
     \<and> nv_integrity_ready env \<and> lock_scope env rq = Inr ()"

lemma admitted_admit:
  "admitted env rq operation \<Longrightarrow> operation_capability operation = ''announcements.'' @ c \<Longrightarrow> \<exists>s. admit env rq c = Inr s"
  by (cases "authorize env 0 rq (operation_capability operation)") (auto simp: admitted_def admit_def)

text \<open>A repeated command makes the same plan: operation, intent and reason, up to the identifiers drawn.\<close>

lemma perform_planI:
  "(\<And>operation intent reason wr. inputs = Inr (operation, intent, reason, wr) \<Longrightarrow> admitted env' rq operation
      \<Longrightarrow> \<exists>wr'. inputs' = Inr (operation, intent, reason, wr'))
   \<Longrightarrow> \<exists>i i'. perform env dw rq inputs = perform env dw rq i \<and> perform env' dw' rq inputs' = perform env' dw' rq i'
      \<and> (\<forall>operation intent reason wr. i = Inr (operation, intent, reason, wr) \<longrightarrow> admitted env' rq operation
          \<longrightarrow> (\<exists>wr'. i' = Inr (operation, intent, reason, wr')))"
  by blast

lemma run_command_plan:
  assumes same: "nv_nfc env' = nv_nfc env" "nv_https_url env' = nv_https_url env" and later: "dw_clock dw \<le> dw_clock dw'"
  shows "\<exists>i i'. run_command env dw rq cmd = perform env dw rq i \<and> run_command env' dw' rq cmd = perform env' dw' rq i'
      \<and> (\<forall>operation intent reason wr. i = Inr (operation, intent, reason, wr) \<longrightarrow> admitted env' rq operation
          \<longrightarrow> (\<exists>wr'. i' = Inr (operation, intent, reason, wr')))"
proof (cases cmd)
  case (UpdateSettings s v)
  show ?thesis
    unfolding run_command.simps update_announcement_settings_def UpdateSettings same
    by (rule perform_planI) (auto simp: result_simps operation_capabilities dest!: admitted_admit [where c = "''manage_settings''"])
next
  case (SetStopped s v n)
  show ?thesis
    unfolding run_command.simps set_announcements_stopped_def SetStopped same
    by (rule perform_planI) (auto simp: result_simps operation_capabilities split: typed.splits
        dest!: admitted_admit [where c = "''manage_settings''"])
next
  case (Create d v)
  show ?thesis
    unfolding run_command.simps create_announcement_def Create same
    by (rule perform_planI) (auto simp: result_simps operation_capabilities dest!: admitted_admit [where c = "''compose''"])
next
  case (Revise a d v sv n)
  show ?thesis
    unfolding run_command.simps revise_announcement_def Revise same
    by (rule perform_planI) (auto simp: result_simps operation_capabilities dest!: admitted_admit [where c = "''compose''"])
next
  case (RequestReview a v)
  show ?thesis
    unfolding run_command.simps request_announcement_review_def RequestReview same
    by (rule perform_planI) (auto simp: result_simps operation_capabilities dest!: admitted_admit [where c = "''compose''"])
next
  case (Review a r v d n)
  show ?thesis
    unfolding run_command.simps review_announcement_def Review same
    by (rule perform_planI) (auto simp: result_simps operation_capabilities split: if_splits
        dest!: admitted_admit [where c = "''review''"])
next
  case (RecordPublication a x v u t)
  show ?thesis
    unfolding run_command.simps record_announcement_publication_def RecordPublication same
    by (rule perform_planI) (auto simp: result_simps operation_capabilities
        dest!: admitted_admit [where c = "''record_publication''"] publication_time_later [OF _ later])
next
  case (CorrectPublication a p v g n u t)
  show ?thesis
    unfolding run_command.simps correct_announcement_publication_def CorrectPublication same
  proof (rule perform_planI, goal_cases)
    case (1 operation intent reason wr)
    show ?case
    proof (cases g)
      case (Typed gone)
      then show ?thesis
        using 1 publication_time_later [OF _ later]
        by (cases gone) (auto simp: result_simps operation_capabilities simp del: not_None_eq split: if_splits
            dest!: admitted_admit [where c = "''record_publication''"])
    qed (use 1 in \<open>auto simp: result_simps\<close>)
  qed
next
  case (Cancel a v n)
  show ?thesis
    unfolding run_command.simps cancel_announcement_def Cancel same
    by (rule perform_planI) (auto simp: result_simps operation_capabilities dest!: admitted_admit [where c = "''compose''"])
qed

lemma check_request_same: "nv_nfc env' = nv_nfc env \<Longrightarrow> check_request env' rq = check_request env rq"
  by (simp add: check_request_def)

lemma apply_command_replays:
  assumes "admitted env rq operation" and "find_receipt rq (wd_announcements w) = Some r"
    and "cr_request_digest r = request_digest rq operation intent reason" and "cr_operation r = operation"
  shows "apply_command env dw rq (operation, intent, reason, wr) w = Inr (w, result_of True r)"
proof -
  have "\<exists>s. authorize env n rq (operation_capability operation) = Inr s" if "n \<in> {0, 1, 2}" for n
    using assms(1) that by (cases "authorize env n rq (operation_capability operation)") (auto simp: admitted_def)
  then obtain s1 s2 where "authorize env 1 rq (operation_capability operation) = Inr s1"
      "authorize env 2 rq (operation_capability operation) = Inr s2"
    by (metis insertI1 insertI2)
  then show ?thesis
    using assms by (simp add: apply_command_def admitted_def require_announcements_integrity_def guardE_def)
qed

text \<open>
  C17. An exact retry returns the retained receipt and changes nothing: once a command has committed,
  repeating the same request at a later time, after any further history, while it is still admitted,
  leaves every store as it is and reports the same receipt, object, version and announcement, marked as
  replayed, whatever the current state of the announcement is.
\<close>

theorem exact_retry_returns_receipt:
  assumes "run_command env dw rq cmd w = (w1, Inr res)" and "\<not> res_replayed res"
    and "announcement_history w1 w2"
    and "nv_nfc env' = nv_nfc env" and "nv_https_url env' = nv_https_url env" and "dw_clock dw \<le> dw_clock dw'"
    and "admitted env' rq (cr_operation (last (an_receipts (wd_announcements w1))))"
  shows "run_command env' dw' rq cmd w2 = (w2, Inr (res\<lparr>res_replayed := True\<rparr>))"
proof -
  obtain i i' where i: "run_command env dw rq cmd = perform env dw rq i" "run_command env' dw' rq cmd = perform env' dw' rq i'"
      "\<forall>operation intent reason wr. i = Inr (operation, intent, reason, wr) \<longrightarrow> admitted env' rq operation
        \<longrightarrow> (\<exists>wr'. i' = Inr (operation, intent, reason, wr'))"
    using run_command_plan [OF assms(4-6)] by blast
  from perform_committed [OF assms(1,2) [unfolded i(1)]] obtain plan scope r where c: "i = Inr plan"
      "commit_command env dw rq plan scope w = Inr (w1, r)" and res: "res = result_of False r"
      and none: "find_receipt rq (wd_announcements w) = None" and checked: "check_request env rq = Inr ()"
      and r1: "last (an_receipts (wd_announcements w1)) = r"
    by metis
  have rs: "an_receipts (wd_announcements w1) = an_receipts (wd_announcements w) @ [r]"
    by (rule committed_command [OF assms(1,2)]) (use r1 in \<open>metis last_snoc\<close>)
  obtain operation intent reason wr where plan: "plan = (operation, intent, reason, wr)" by (cases plan)
  have r: "cr_request_digest r = request_digest rq operation intent reason" "cr_operation r = operation"
      "cr_organization_id r = rq_organization_id rq" "cr_edition_id r = rq_edition_id rq"
      "cr_actor_id r = rq_actor_id rq" "cr_idempotency_key r = rq_idempotency_key rq"
    using c(2) by (auto simp: commit_command_def plan bindE_eq_Inr Let_def new_receipt_def split: prod.splits if_splits)
  obtain xs where "an_receipts (wd_announcements w2) = an_receipts (wd_announcements w1) @ xs"
    using history_prefix [OF assms(3)] by (auto simp: prefix_def)
  then have "find_receipt rq (wd_announcements w2) = Some r"
    using none rs r by (auto simp: find_receipt_def find_append)
  moreover have "admitted env' rq operation" using assms(7) rs r(2) by simp
  ultimately have again: "apply_command env' dw' rq (operation, intent, reason, wr') w2 = Inr (w2, result_of True r)" for wr'
    using r(1,2) by (intro apply_command_replays)
  obtain wr' where "i' = Inr (operation, intent, reason, wr')"
    using i(3) c(1) plan \<open>admitted env' rq operation\<close> by blast
  then show ?thesis
    using again checked check_request_same [OF assms(4)] i(2) res by (simp add: perform_def execute_def result_of_def)
qed

theorem exact_retry_returns_receipt_witness:
  "run_command trial_env (trial_draw 9) (trial_request 3 21) (UpdateSettings (Typed trial_raw_settings) (PyInt 0))
      (trial_world trial_db4) = (trial_world trial_db4, Inr (result_of True trial_receipt1))"
proof -
  obtain w where w: "run_command trial_env (trial_draw 1) (trial_request 3 21) (UpdateSettings (Typed trial_raw_settings) (PyInt 0))
      (trial_world empty_announcements) = (w, Inr (result_of False trial_receipt1))" "wd_announcements w = trial_db1"
    using trial_update_settings by blast
  have "announcement_step w (trial_world trial_db1)" using w(2) by (intro step_elsewhere) (simp add: trial_world_def)
  then have "announcement_history w (trial_world trial_db4)"
    unfolding announcement_history_def using trial_history(2-4) by (meson converse_rtranclp_into_rtranclp rtranclp_trans)
  moreover have "cr_operation (last (an_receipts (wd_announcements w))) = ''settings_update''"
    using w(2) by (simp add: trial_db1_def trial_receipt1_def new_receipt_def)
  moreover have "admitted trial_env (trial_request 3 21) ''settings_update''"
    using trial_authorize [of "''announcements.manage_settings''" "[''settings'']" 3] trial_lock [of 3]
    by (simp add: admitted_def operation_capabilities CAPABILITY_FIELDS_def) (simp add: trial_env_def)
  ultimately show ?thesis
    using exact_retry_returns_receipt [OF w(1), of "trial_world trial_db4" trial_env "trial_draw 9"]
    by (simp add: result_of_def trial_draw_def)
qed

section \<open>Source channels\<close>

lemma append_audit_channel:
  "40 < length (ar_source_channel rec) \<Longrightarrow> append_audit fresh now rec at i au \<noteq> Inr x"
  by (simp add: append_audit_def audit_event_create_def audit_event_full_clean_def event_of_audit_record_def char_field_def Let_def)

text \<open>A text that the input check returns as it is, were it short enough.\<close>

definition settled_text :: "(string \<Rightarrow> string) \<Rightarrow> string \<Rightarrow> bool" where
  "settled_text nfc s \<longleftrightarrow> s \<noteq> [] \<and> py_strip (nfc (crlf_to_lf s)) = s \<and> \<not> list_ex is_control s"

lemma settled_plain_text:
  assumes "settled_text nfc s"
  shows "plain_text nfc n True (Typed s) = (if length s \<le> n then Inr s else Inl (ann_invalid ''invalid_text''))"
  using assms by (auto simp: settled_text_def plain_text_def Let_def list_ex_iff)

lemma settled_check_request:
  assumes "settled_text (nv_nfc env) (rq_source_channel rq)" "rq_idempotency_key rq \<noteq> 0"
  shows "check_request env rq = Inr () \<longleftrightarrow> length (rq_source_channel rq) \<le> 80"
  using assms by (simp add: check_request_def uuid_identifier_def settled_plain_text guardE_def)

text \<open>
  C22. The input check and the audit column disagree about source channels. The check accepts every
  channel of up to 80 characters that is normalized and free of control characters. With a channel of more than
  40, which the audit column takes, a command that is not a retry always fails, and since the audit of
  the refusal fails silently for the same reason, nothing at all changes: with 41 to 80 characters the request
  is accepted, refused and left without evidence.
\<close>

theorem overlong_channel_unaudited:
  assumes "settled_text (nv_nfc env) (rq_source_channel rq)" "rq_idempotency_key rq \<noteq> 0"
    and "40 < length (rq_source_channel rq)"
  shows "(check_request env rq = Inr () \<longleftrightarrow> length (rq_source_channel rq) \<le> 80)
    \<and> fst (run_command env dw rq cmd w) = w
    \<and> (isl (snd (run_command env dw rq cmd w)) \<or> res_replayed (projr (snd (run_command env dw rq cmd w))))"
proof -
  have audit: "append_audit fresh now (audit_record rq operation outcome reason target) at i au \<noteq> Inr x"
    for fresh now operation outcome reason target at i au x
    using assms(3) by (intro append_audit_channel) (simp add: audit_record_def)
  have refused: "audit_refusal dw rq operation e w = w" for operation e
    by (simp add: audit_refusal_def audit split: sum.splits)
  have "record_evidence env dw rq scope r x \<noteq> Inr y" for scope r x y
    by (auto simp: record_evidence_def raising_def bindE_eq_Inr audit split: sum.splits)
  then have no_commit: "commit_command env dw rq plan scope w \<noteq> Inr x" for plan scope x
    by (auto simp: commit_command_def bindE_eq_Inr Let_def split: prod.splits if_splits)
  obtain inputs where "run_command env dw rq cmd = perform env dw rq inputs"
    using run_command_perform by blast
  then have "fst (run_command env dw rq cmd w) = w
      \<and> (isl (snd (run_command env dw rq cmd w)) \<or> res_replayed (projr (snd (run_command env dw rq cmd w))))"
    using refused no_commit by (cases rule: perform_cases [of inputs env dw rq w]) (auto simp: result_of_def)
  with settled_check_request [OF assms(1,2)] show ?thesis by blast
qed

theorem overlong_channel_unaudited_witness:
  "check_request trial_env ((trial_request 3 21)\<lparr>rq_source_channel := replicate 41 CHR ''a''\<rparr>) = Inr ()
   \<and> fst (run_command trial_env (trial_draw 1) ((trial_request 3 21)\<lparr>rq_source_channel := replicate 41 CHR ''a''\<rparr>)
       (UpdateSettings (Typed trial_raw_settings) (PyInt 0)) (trial_world empty_announcements)) = trial_world empty_announcements"
proof -
  let ?rq = "(trial_request 3 21)\<lparr>rq_source_channel := replicate 41 CHR ''a''\<rparr>"
  have "settled_text (\<lambda>s. s) (replicate 41 CHR ''a'')" by code_simp
  then have settled: "settled_text (nv_nfc trial_env) (rq_source_channel ?rq)" by (simp add: trial_env_def)
  have key: "rq_idempotency_key ?rq \<noteq> 0" by (simp add: trial_request_def)
  have long: "40 < length (rq_source_channel ?rq)" and short: "length (rq_source_channel ?rq) \<le> 80" by simp_all
  from overlong_channel_unaudited [OF settled key long] short show ?thesis by blast
qed

end
