(* ===== verification/Json_Text.thy ===== *)
theory Json_Text
  imports Json
begin

text \<open>
  Reading JSON: \<open>json.loads(data, object_pairs_hook=...)\<close> with a hook that refuses repeated keys, as
  the continuity packages use it. The reader follows the scanner of the standard library: white space
  between tokens, the two-character escapes and \<open>\u\<close>, integers without leading zeros, no control
  character inside a string. A number with a fraction or an exponent is no value of the model and is
  refused here; every reader refuses it by its type. \<open>json_loads\<close> recurses on a bound that the length
  of the text supplies, since every nested call reads at least one character.

  The round trip shows that what \<open>json_dumps\<close> prints is read back as the same value.
\<close>

section \<open>Tokens\<close>

definition is_json_space :: "char \<Rightarrow> bool" where
  "is_json_space c \<longleftrightarrow> c \<in> {CHR '' '', CHR 0x09, CHR 0x0A, CHR 0x0D}"

abbreviation skip_space :: "string \<Rightarrow> string" where
  "skip_space s \<equiv> dropWhile is_json_space s"

definition hex_val :: "char \<Rightarrow> nat option" where
  "hex_val c = (let n = (of_char c :: nat) in
     if 48 \<le> n \<and> n \<le> 57 then Some (n - 48)
     else if 97 \<le> n \<and> n \<le> 102 then Some (n - 87)
     else if 65 \<le> n \<and> n \<le> 70 then Some (n - 55) else None)"

fun hex_number :: "nat \<Rightarrow> string \<Rightarrow> nat option" where
  "hex_number acc [] = Some acc"
| "hex_number acc (c # s) = (case hex_val c of None \<Rightarrow> None | Some d \<Rightarrow> hex_number (16 * acc + d) s)"

text \<open>The character of an escape; code points above the modelled characters are refused.\<close>

definition unescape :: "char \<Rightarrow> char option" where
  "unescape c = map_of [(CHR 0x22, CHR 0x22), (CHR 0x5C, CHR 0x5C), (CHR ''/'', CHR ''/''), (CHR ''b'', CHR 0x08),
     (CHR ''f'', CHR 0x0C), (CHR ''n'', CHR 0x0A), (CHR ''r'', CHR 0x0D), (CHR ''t'', CHR 0x09)] c"

definition unicode_escape :: "string \<Rightarrow> char option" where
  "unicode_escape s = (if length s < 4 then None else
     case hex_number 0 (take 4 s) of None \<Rightarrow> None | Some n \<Rightarrow> if n < 256 then Some (char_of n) else None)"

fun read_str :: "string \<Rightarrow> (string \<times> string) option" where
  "read_str [] = None"
| "read_str (c # s) =
     (if c = CHR 0x22 then Some ([], s)
      else if c = CHR 0x5C then
        (case s of
           [] \<Rightarrow> None
         | e # s' \<Rightarrow>
             if e = CHR ''u'' then
               (case unicode_escape s' of
                  None \<Rightarrow> None
                | Some d \<Rightarrow> map_option (apfst ((#) d)) (read_str (drop 4 s')))
             else
               (case unescape e of
                  None \<Rightarrow> None
                | Some d \<Rightarrow> map_option (apfst ((#) d)) (read_str s')))
      else if of_char c < (32 :: nat) then None
      else map_option (apfst ((#) c)) (read_str s))"

definition read_nat :: "string \<Rightarrow> (nat \<times> string) option" where
  "read_nat s = (let ds = takeWhile is_digit s; r = dropWhile is_digit s in
     if ds = [] \<or> (hd ds = CHR ''0'' \<and> ds \<noteq> ''0'') \<or> (r \<noteq> [] \<and> hd r \<in> {CHR ''.'', CHR ''e'', CHR ''E''}) then None
     else Some (digits_val ds, r))"

definition read_int :: "string \<Rightarrow> (int \<times> string) option" where
  "read_int s = (case s of
       c # r \<Rightarrow> if c = CHR ''-'' then map_option (apfst (\<lambda>n. - int n)) (read_nat r)
                else map_option (apfst int) (read_nat s)
     | [] \<Rightarrow> None)"

definition read_word :: "string \<Rightarrow> json \<Rightarrow> string \<Rightarrow> (json \<times> string) option" where
  "read_word w v s = (if take (length w) s = w then Some (v, drop (length w) s) else None)"

section \<open>Values\<close>

text \<open>The hook \<open>_pairs\<close>: the items of an object, refused as a whole when a key comes back.\<close>

fun pairs_into :: "(string \<times> json) list \<Rightarrow> (string \<times> json) list \<Rightarrow> (string \<times> json) list option" where
  "pairs_into result [] = Some result"
| "pairs_into result ((key, value) # pairs) =
     (if key \<in> set (map fst result) then None else pairs_into (result @ [(key, value)]) pairs)"

lemma pairs_into: "distinct (map fst result) \<Longrightarrow>
  pairs_into result pairs = (if distinct (map fst (result @ pairs)) then Some (result @ pairs) else None)"
  by (induction result pairs rule: pairs_into.induct) auto

lemma pairs_into_Nil [simp]: "pairs_into [] pairs = (if distinct (map fst pairs) then Some pairs else None)"
  using pairs_into [of "[]" pairs] by simp

declare pairs_into.simps [simp del]

fun read_value :: "nat \<Rightarrow> string \<Rightarrow> (json \<times> string) option"
  and read_items :: "nat \<Rightarrow> string \<Rightarrow> (json list \<times> string) option"
  and read_fields :: "nat \<Rightarrow> string \<Rightarrow> ((string \<times> json) list \<times> string) option" where
  "read_value 0 s = None"
| "read_value (Suc n) [] = None"
| "read_value (Suc n) (c # r) =
     (if c = CHR 0x22 then map_option (apfst JStr) (read_str r)
      else if c = CHR 0x7B then
        (case skip_space r of
           [] \<Rightarrow> None
         | d # r' \<Rightarrow> if d = CHR 0x7D then Some (JObj [], r')
                   else (case read_fields n (d # r') of
                           None \<Rightarrow> None
                         | Some (fs, r'') \<Rightarrow> map_option (\<lambda>fs. (JObj fs, r'')) (pairs_into [] fs)))
      else if c = CHR ''['' then
        (case skip_space r of
           [] \<Rightarrow> None
         | d # r' \<Rightarrow> if d = CHR '']'' then Some (JList [], r')
                   else map_option (apfst JList) (read_items n (d # r')))
      else if c = CHR ''n'' then read_word ''null'' JNull (c # r)
      else if c = CHR ''t'' then read_word ''true'' (JBool True) (c # r)
      else if c = CHR ''f'' then read_word ''false'' (JBool False) (c # r)
      else map_option (apfst JInt) (read_int (c # r)))"
| "read_items 0 s = None"
| "read_items (Suc n) s =
     (case read_value n s of
        None \<Rightarrow> None
      | Some (v, r) \<Rightarrow>
          (case skip_space r of
             [] \<Rightarrow> None
           | c # r' \<Rightarrow>
               if c = CHR '']'' then Some ([v], r')
               else if c = CHR 0x2C then map_option (apfst ((#) v)) (read_items n (skip_space r'))
               else None))"
| "read_fields 0 s = None"
| "read_fields (Suc n) [] = None"
| "read_fields (Suc n) (q # s) =
     (if q \<noteq> CHR 0x22 then None
      else case read_str s of
        None \<Rightarrow> None
      | Some (k, r) \<Rightarrow>
          (case skip_space r of
             [] \<Rightarrow> None
           | c # r' \<Rightarrow>
               if c \<noteq> CHR 0x3A then None
               else case read_value n (skip_space r') of
                 None \<Rightarrow> None
               | Some (v, t) \<Rightarrow>
                   (case skip_space t of
                      [] \<Rightarrow> None
                    | d # t' \<Rightarrow>
                        if d = CHR 0x7D then Some ([(k, v)], t')
                        else if d = CHR 0x2C then map_option (apfst ((#) (k, v))) (read_fields n (skip_space t'))
                        else None)))"

text \<open>UTF-8 for the modelled characters: one byte below 128, two bytes led by 194 or 195 above.\<close>

fun utf8_decode :: "string \<Rightarrow> string option" where
  "utf8_decode [] = Some []"
| "utf8_decode (c # s) =
     (if of_char c < (128 :: nat) then map_option ((#) c) (utf8_decode s)
      else case s of
        [] \<Rightarrow> None
      | d # s' \<Rightarrow>
          if (of_char c = (194 :: nat) \<or> of_char c = (195 :: nat)) \<and> (128 :: nat) \<le> of_char d \<and> of_char d < (192 :: nat)
          then map_option ((#) (char_of ((of_char c - 192) * 64 + (of_char d - (128 :: nat))))) (utf8_decode s')
          else None)"

definition json_loads :: "string \<Rightarrow> json option" where
  "json_loads data =
     (case utf8_decode data of
        None \<Rightarrow> None
      | Some s \<Rightarrow>
          (case read_value (Suc (length s)) (skip_space s) of
             None \<Rightarrow> None
           | Some (v, r) \<Rightarrow> if skip_space r = [] then Some v else None))"

section \<open>Round trip\<close>

subsection \<open>Characters\<close>

lemma utf8_decode_char: "utf8_decode (utf8_char c @ s) = map_option ((#) c) (utf8_decode s)"
proof (cases "of_char c < (128 :: nat)")
  case False
  define n :: nat where "n = of_char c"
  have n: "128 \<le> n" "n < 256" "char_of n = c" using False by (simp_all add: n_def)
  then have "192 + n div 64 = 194 \<or> 192 + n div 64 = 195" "(192 + n div 64 - 192) * 64 + (128 + n mod 64 - 128) = n"
    by auto
  moreover have "of_char (char_of (192 + n div 64) :: char) = 192 + n div 64"
      "of_char (char_of (128 + n mod 64) :: char) = 128 + n mod 64"
    using n by simp_all
  ultimately show ?thesis
    using n by (auto simp: utf8_char_def Let_def n_def [symmetric])
qed (simp add: utf8_char_def Let_def)

lemma utf8_decode_utf8: "utf8_decode (utf8 s) = Some s"
  by (induction s) (simp_all add: utf8_def utf8_decode_char)

subsection \<open>Strings\<close>

lemma hex_val_char: "d < 16 \<Longrightarrow> hex_val (hex_char d) = Some d"
  by (auto simp: hex_val_def hex_char_def Let_def)

lemma hex_number_append:
  "hex_number acc (s @ t) = (case hex_number acc s of None \<Rightarrow> None | Some n \<Rightarrow> hex_number n t)"
  by (induction s arbitrary: acc) (auto split: option.splits)

lemma hex_number_digits: "hex_number acc (hex_digits n v) = Some (acc * 16 ^ n + v mod 16 ^ n)"
proof (induction n arbitrary: v)
  case (Suc n)
  have "v mod 16 ^ Suc n = 16 * (v div 16 mod 16 ^ n) + v mod 16"
    by (simp add: mod_mult2_eq)
  with Suc show ?case by (simp add: hex_number_append hex_val_char)
qed simp

lemma unicode_escape_control:
  assumes "of_char c < (32 :: nat)"
  shows "unicode_escape (hex_digits 4 (of_char c) @ r) = Some c" "drop 4 (hex_digits 4 (of_char c) @ r) = r"
proof -
  have "length (hex_digits 4 (of_char c)) = 4" "hex_number 0 (hex_digits 4 (of_char c)) = Some (of_char c :: nat)"
    using assms by (simp_all add: hex_number_digits)
  then show "unicode_escape (hex_digits 4 (of_char c) @ r) = Some c" "drop 4 (hex_digits 4 (of_char c) @ r) = r"
    using assms by (simp_all add: unicode_escape_def)
qed

lemma read_escape: "read_str (json_escape c @ s) = map_option (apfst ((#) c)) (read_str s)"
proof -
  consider (known) "c \<in> {CHR 0x22, CHR 0x5C, CHR 0x0A, CHR 0x0D, CHR 0x09, CHR 0x0C, CHR 0x08}"
    | (control) "c \<notin> {CHR 0x22, CHR 0x5C, CHR 0x0A, CHR 0x0D, CHR 0x09, CHR 0x0C, CHR 0x08}" "of_char c < (32 :: nat)"
    | (plain) "c \<notin> {CHR 0x22, CHR 0x5C, CHR 0x0A, CHR 0x0D, CHR 0x09, CHR 0x0C, CHR 0x08}" "\<not> of_char c < (32 :: nat)"
    by blast
  then show ?thesis
  proof cases
    case known
    then show ?thesis by (elim insertE) (simp_all add: json_escape_def unescape_def)
  next
    case control
    then have "json_escape c = CHR 0x5C # CHR ''u'' # hex_digits 4 (of_char c)" by (simp add: json_escape_def)
    then show ?thesis using unicode_escape_control [OF control(2)] by simp
  next
    case plain
    then have "json_escape c = [c]" by (simp add: json_escape_def)
    then show ?thesis using plain by simp
  qed
qed

lemma read_str_tail: "read_str (str_tail s @ r) = Some (s, r)"
proof (induction s)
  case Nil
  then show ?case by (simp add: str_tail_simps)
next
  case (Cons c s)
  then show ?case by (simp add: str_tail_simps read_escape)
qed

subsection \<open>Numbers\<close>

text \<open>What follows a printed value: the end, a comma or a closing bracket.\<close>

definition stopped :: "string \<Rightarrow> bool" where
  "stopped r \<longleftrightarrow> (case r of [] \<Rightarrow> True | c # _ \<Rightarrow> c \<in> {CHR 0x2C, CHR '']'', CHR 0x7D})"

lemma stopped_delimited: "stopped r \<Longrightarrow> delimited r"
  by (auto simp: stopped_def delimited_def is_digit_def split: list.splits)

lemma nat_str_zero: "hd (nat_str n) = CHR ''0'' \<Longrightarrow> nat_str n = ''0''"
proof (induction n rule: nat_str.induct)
  case (1 n)
  show ?case
  proof (cases "n < 10")
    case True
    then have "nat_str n = [digit_char n]" by (subst nat_str.simps) simp
    then show ?thesis using 1(2) by simp
  next
    case False
    then have s: "nat_str n = nat_str (n div 10) @ [digit_char (n mod 10)]" by (subst nat_str.simps) simp
    then have "hd (nat_str (n div 10)) = CHR ''0''" using 1(2) nat_str_nonempty [of "n div 10"] by simp
    then have "nat_str (n div 10) = ''0''" using 1(1) False by simp
    then have "n div 10 = 0" using nat_str_val [of "n div 10"] by (simp add: digits_val_def)
    then show ?thesis using False by simp
  qed
qed

lemma read_nat_str:
  assumes "stopped r"
  shows "read_nat (nat_str n @ r) = Some (n, r)"
proof -
  have "takeWhile is_digit (nat_str n @ r) = nat_str n" "dropWhile is_digit (nat_str n @ r) = r"
    using nat_str_digits [of n] stopped_delimited [OF assms]
    by (auto simp: takeWhile_append2 dropWhile_append2 delimited_def split: list.splits)
  moreover have "r = [] \<or> hd r \<notin> {CHR ''.'', CHR ''e'', CHR ''E''}"
    using assms by (auto simp: stopped_def split: list.splits)
  ultimately show ?thesis
    using nat_str_nonempty [of n] nat_str_zero [of n] by (auto simp: read_nat_def Let_def nat_str_val)
qed

lemma read_int_str:
  assumes "stopped r"
  shows "read_int (int_str n @ r) = Some (n, r)"
proof (cases "n < 0")
  case True
  then show ?thesis using read_nat_str [OF assms] by (simp add: read_int_def int_str_def)
next
  case False
  obtain c s where c: "nat_str (nat n) = c # s" "is_digit c" using nat_str_head by blast
  then have "c \<noteq> CHR ''-''" by (auto simp: is_digit_def)
  then show ?thesis using False c read_nat_str [OF assms, of "nat n"] by (simp add: read_int_def int_str_def)
qed

subsection \<open>Values\<close>

fun json_keys :: "json \<Rightarrow> bool" and json_keys_list :: "json list \<Rightarrow> bool" and json_keys_fields :: "(string \<times> json) list \<Rightarrow> bool" where
  "json_keys (JList vs) = json_keys_list vs"
| "json_keys (JObj fs) = (distinct (map fst fs) \<and> json_keys_fields fs)"
| "json_keys _ = True"
| "json_keys_list [] = True"
| "json_keys_list (v # vs) = (json_keys v \<and> json_keys_list vs)"
| "json_keys_fields [] = True"
| "json_keys_fields ((k, v) # fs) = (json_keys v \<and> json_keys_fields fs)"

lemma print_starts: "\<exists>c s. json_print v = c # s \<and> \<not> is_json_space c"
proof (cases v)
  case (JInt n)
  obtain c r where c: "int_str n = c # r" "is_digit c \<or> c = CHR ''-''" using int_str_head by blast
  then have "\<not> is_json_space c" by (auto simp: is_json_space_def is_digit_def)
  then show ?thesis using c JInt by simp
next
  case (JList vs)
  then show ?thesis by (cases vs) (auto simp: is_json_space_def)
next
  case (JObj fs)
  then show ?thesis by (cases fs) (auto simp: is_json_space_def)
qed (auto simp: is_json_space_def)

lemma skip_print [simp]: "skip_space (json_print v @ r) = json_print v @ r"
  using print_starts [of v] by auto

lemma print_positive: "0 < length (json_print v)"
  using print_starts [of v] by auto

lemma stopped_tails [simp]: "stopped (items_tail vs @ r)" "stopped (fields_tail fs @ r)"
  by (cases vs; simp add: stopped_def) (cases fs; auto simp: stopped_def)

lemma tails_positive: "0 < length (items_tail vs)" "0 < length (fields_tail fs)"
  by (cases vs; simp) (cases fs; auto)

text \<open>What the readers of items and fields do after a value.\<close>

definition more_items :: "nat \<Rightarrow> json \<Rightarrow> string \<Rightarrow> (json list \<times> string) option" where
  "more_items n v r = (case skip_space r of
       [] \<Rightarrow> None
     | c # r' \<Rightarrow> if c = CHR '']'' then Some ([v], r')
               else if c = CHR 0x2C then map_option (apfst ((#) v)) (read_items n (skip_space r')) else None)"

definition more_fields :: "nat \<Rightarrow> string \<Rightarrow> json \<Rightarrow> string \<Rightarrow> ((string \<times> json) list \<times> string) option" where
  "more_fields n k v t = (case skip_space t of
       [] \<Rightarrow> None
     | d # t' \<Rightarrow> if d = CHR 0x7D then Some ([(k, v)], t')
               else if d = CHR 0x2C then map_option (apfst ((#) (k, v))) (read_fields n (skip_space t')) else None)"

lemma read_items_Suc:
  "read_items (Suc n) s = (case read_value n s of None \<Rightarrow> None | Some (v, r) \<Rightarrow> more_items n v r)"
  by (simp add: more_items_def split: option.split prod.split)

lemma read_fields_key:
  "read_fields (Suc n) (CHR 0x22 # str_tail k @ CHR 0x3A # json_print v @ s)
   = (case read_value n (json_print v @ s) of None \<Rightarrow> None | Some (v, t) \<Rightarrow> more_fields n k v t)"
proof -
  have "read_str (str_tail k @ CHR 0x3A # json_print v @ s) = Some (k, CHR 0x3A # json_print v @ s)"
    by (rule read_str_tail)
  moreover have "skip_space (CHR 0x3A # json_print v @ s) = CHR 0x3A # json_print v @ s" by (simp add: is_json_space_def)
  ultimately show ?thesis by (simp add: more_fields_def split: option.split prod.split)
qed

lemma read_print:
  "length (json_print v) \<le> n \<Longrightarrow> json_keys v \<Longrightarrow> stopped r \<Longrightarrow> read_value n (json_print v @ r) = Some (v, r)"
  "length (items_tail vs) \<le> n \<Longrightarrow> json_keys_list vs \<Longrightarrow> more_items n x (items_tail vs @ r) = Some (x # vs, r)"
  "length (fields_tail fs) \<le> n \<Longrightarrow> json_keys_fields fs \<Longrightarrow> more_fields n k x (fields_tail fs @ r) = Some ((k, x) # fs, r)"
proof (induction v and vs and fs arbitrary: n r and n x r and n k x r rule: json_print_items_tail_fields_tail.induct)
  case 1
  then show ?case by (cases n) (simp_all add: read_word_def)
next
  case (2 b)
  then show ?case by (cases n; cases b) (simp_all add: read_word_def)
next
  case (3 i)
  obtain c s where c: "int_str i = c # s" "is_digit c \<or> c = CHR ''-''" using int_str_head by blast
  then have "c \<notin> {CHR 0x22, CHR 0x7B, CHR ''['', CHR ''n'', CHR ''t'', CHR ''f''}" by (auto simp: is_digit_def)
  then show ?case using 3 c read_int_str [of r i] by (cases n) auto
next
  case (4 s)
  then show ?case by (cases n) (simp_all add: read_str_tail)
next
  case 5
  then show ?case by (cases n) (simp_all add: is_json_space_def)
next
  case (6 v vs)
  then obtain m where n: "n = Suc m" by (cases n) auto
  obtain l where m: "m = Suc l" using 6(3) tails_positive(1) [of vs] by (cases m) (auto simp: n simp del: length_greater_0_conv)
  have "read_value l (json_print v @ (items_tail vs @ r)) = Some (v, items_tail vs @ r)"
    using 6 tails_positive(1) [of vs] by (intro 6(1)) (simp_all add: n m del: length_greater_0_conv)
  moreover have "more_items l v (items_tail vs @ r) = Some (v # vs, r)"
    using 6 print_positive [of v] by (intro 6(2)) (simp_all add: n m del: length_greater_0_conv)
  ultimately have "read_items m (json_print v @ items_tail vs @ r) = Some (v # vs, r)"
    unfolding m read_items_Suc by simp
  moreover obtain c s where "json_print v = c # s" "c \<noteq> CHR '']''" using json_print_head by blast
  moreover have "skip_space (json_print v @ items_tail vs @ r) = json_print v @ items_tail vs @ r" by simp
  ultimately show ?case by (simp add: n del: read_items.simps)
next
  case 7
  then show ?case by (cases n) (simp_all add: is_json_space_def)
next
  case (8 k v fs)
  then obtain m where n: "n = Suc m" by (cases n) auto
  obtain l where m: "m = Suc l" using 8(3) tails_positive(2) [of fs] by (cases m) (auto simp: n simp del: length_greater_0_conv)
  have "read_value l (json_print v @ (fields_tail fs @ r)) = Some (v, fields_tail fs @ r)"
    using 8 tails_positive(2) [of fs] by (intro 8(1)) (simp_all add: n m del: length_greater_0_conv)
  moreover have "more_fields l k v (fields_tail fs @ r) = Some ((k, v) # fs, r)"
    using 8 print_positive [of v] by (intro 8(2)) (simp_all add: n m del: length_greater_0_conv)
  ultimately have "read_fields m (CHR 0x22 # str_tail k @ CHR 0x3A # json_print v @ fields_tail fs @ r) = Some ((k, v) # fs, r)"
    unfolding m read_fields_key by simp
  moreover have "skip_space (CHR 0x22 # s) = CHR 0x22 # s" for s by (simp add: is_json_space_def)
  ultimately show ?case using 8 by (simp add: n del: read_fields.simps)
next
  case 9
  then show ?case by (simp add: more_items_def is_json_space_def)
next
  case (10 v vs)
  obtain m where n: "n = Suc m" using 10(3) by (cases n) auto
  have "read_value m (json_print v @ (items_tail vs @ r)) = Some (v, items_tail vs @ r)"
    using 10 tails_positive(1) [of vs] by (intro 10(1)) (simp_all add: n del: length_greater_0_conv)
  moreover have "more_items m v (items_tail vs @ r) = Some (v # vs, r)"
    using 10 print_positive [of v] by (intro 10(2)) (simp_all add: n del: length_greater_0_conv)
  ultimately have "read_items n (json_print v @ items_tail vs @ r) = Some (v # vs, r)"
    unfolding n read_items_Suc by simp
  then show ?case by (simp add: more_items_def [of n x] is_json_space_def)
next
  case 11
  then show ?case by (simp add: more_fields_def is_json_space_def)
next
  case (12 j v fs)
  obtain m where n: "n = Suc m" using 12(3) by (cases n) auto
  have "read_value m (json_print v @ (fields_tail fs @ r)) = Some (v, fields_tail fs @ r)"
    using 12 tails_positive(2) [of fs] by (intro 12(1)) (simp_all add: n del: length_greater_0_conv)
  moreover have "more_fields m j v (fields_tail fs @ r) = Some ((j, v) # fs, r)"
    using 12 print_positive [of v] by (intro 12(2)) (simp_all add: n del: length_greater_0_conv)
  ultimately have "read_fields n (CHR 0x22 # str_tail j @ CHR 0x3A # json_print v @ fields_tail fs @ r) = Some ((j, v) # fs, r)"
    unfolding n read_fields_key by simp
  then show ?case by (simp add: more_fields_def [of n k x] is_json_space_def)
qed

text \<open>Reading what was printed gives the value in the order of its keys.\<close>

lemma json_keys_fields_iff: "json_keys_fields fs \<longleftrightarrow> (\<forall>p \<in> set fs. json_keys (snd p))"
  by (induction fs) auto

lemma json_keys_sort:
  "json_keys v \<Longrightarrow> json_keys (json_sort v)"
  "json_keys_list vs \<Longrightarrow> json_keys_list (json_sort_list vs)"
  "json_keys_fields fs \<Longrightarrow> json_keys_fields (json_sort_fields fs)"
proof (induction v and vs and fs rule: json_sort_json_sort_list_json_sort_fields.induct)
  case (2 fs)
  have keys: "map fst (json_sort_fields fs) = map fst fs" by (induction fs) auto
  have "distinct (map fst (sort_key fst (json_sort_fields fs))) = distinct (map fst (json_sort_fields fs))"
    by (rule mset_eq_imp_distinct_iff) simp
  then show ?case using 2 keys by (auto simp: json_keys_fields_iff)
qed auto

lemma json_loads_dumps: "json_keys v \<Longrightarrow> json_loads (json_dumps v) = Some (json_sort v)"
  using read_print(1) [of "json_sort v" "Suc (length (json_print (json_sort v)))" "[]"] json_keys_sort(1) [of v]
    skip_print [of "json_sort v" "[]"]
  by (simp add: json_loads_def json_dumps_def utf8_decode_utf8 stopped_def del: read_value.simps skip_print)

text \<open>A value that was read has no key twice in any object.\<close>

lemma read_keys:
  "read_value n s = Some (v, r) \<Longrightarrow> json_keys v"
  "read_items n s = Some (vs, r) \<Longrightarrow> json_keys_list vs"
  "read_fields n s = Some (fs, r) \<Longrightarrow> json_keys_fields fs"
proof (induction n s and n s and n s arbitrary: v r and vs r and fs r rule: read_value_read_items_read_fields.induct)
  case (3 n c t)
  then show ?case
    by (auto split: if_splits option.splits list.splits prod.splits simp: read_word_def)
next
  case (5 n s)
  then show ?case by (auto split: if_splits option.splits list.splits prod.splits)
next
  case (8 n q s)
  then show ?case by (auto split: if_splits option.splits list.splits prod.splits)
qed auto

lemma json_loads_keys: "json_loads data = Some v \<Longrightarrow> json_keys v"
  using read_keys(1) by (auto simp: json_loads_def split: option.splits if_splits)

end
