(* ===== verification/Wire_Text.thy ===== *)
theory Wire_Text
  imports Json_Text Iso_Datetime
begin

text \<open>
  The texts inside a package and how they are read back: base64, identifiers and UTC instants. Each
  reader returns the one value whose printed form the text can be; a caller that accepts only the
  printed form compares afterwards, so any other form that Python's readers know (URNs and braces of
  a UUID, other ISO 8601 forms, base64 with stray trailing bits) is refused there.
\<close>

section \<open>Base64\<close>

definition base64_char :: "nat \<Rightarrow> char" where
  "base64_char n = (if n < 26 then char_of (65 + n) else if n < 52 then char_of (71 + n)
     else if n < 62 then char_of (n - 4) else if n = 62 then CHR ''+'' else CHR ''/'')"

definition base64_val :: "char \<Rightarrow> nat option" where
  "base64_val c = (let n = (of_char c :: nat) in
     if 65 \<le> n \<and> n \<le> 90 then Some (n - 65) else if 97 \<le> n \<and> n \<le> 122 then Some (n - 71)
     else if 48 \<le> n \<and> n \<le> 57 then Some (n + 4) else if c = CHR ''+'' then Some 62
     else if c = CHR ''/'' then Some 63 else None)"

abbreviation byte_val :: "char \<Rightarrow> nat" where
  "byte_val c \<equiv> of_char c"

fun b64encode :: "string \<Rightarrow> string" where
  "b64encode [] = []"
| "b64encode [a] = [base64_char (byte_val a div 4), base64_char (byte_val a mod 4 * 16), CHR ''='', CHR ''='']"
| "b64encode [a, b] = [base64_char (byte_val a div 4), base64_char (byte_val a mod 4 * 16 + byte_val b div 16),
     base64_char (byte_val b mod 16 * 4), CHR ''='']"
| "b64encode (a # b # c # s) = base64_char (byte_val a div 4) # base64_char (byte_val a mod 4 * 16 + byte_val b div 16)
     # base64_char (byte_val b mod 16 * 4 + byte_val c div 64) # base64_char (byte_val c mod 64) # b64encode s"

fun b64decode :: "string \<Rightarrow> string option" where
  "b64decode [] = Some []"
| "b64decode (w # x # y # z # s) =
     (case (base64_val w, base64_val x) of
        (Some p, Some q) \<Rightarrow>
          if z = CHR ''='' then
            if s \<noteq> [] then None
            else if y = CHR ''='' then Some [char_of (p * 4 + q div 16)]
            else (case base64_val y of None \<Rightarrow> None
                  | Some r \<Rightarrow> Some [char_of (p * 4 + q div 16), char_of (q mod 16 * 16 + r div 4)])
          else
            (case (base64_val y, base64_val z, b64decode s) of
               (Some r, Some t, Some d) \<Rightarrow>
                 Some (char_of (p * 4 + q div 16) # char_of (q mod 16 * 16 + r div 4) # char_of (r mod 4 * 64 + t) # d)
             | _ \<Rightarrow> None)
      | _ \<Rightarrow> None)"
| "b64decode _ = None"

lemma base64_val_char: "n < 64 \<Longrightarrow> base64_val (base64_char n) = Some n"
  by (auto simp: base64_val_def base64_char_def Let_def)

lemma byte_less [simp]: "byte_val c < 256"
  by (metis of_char_of mod_less_divisor of_char_mod_256 zero_less_numeral)

lemma char_of_eq_byte: "n < 256 \<Longrightarrow> char_of n = c \<longleftrightarrow> n = byte_val c"
  by (metis char_of_char mod_less of_char_of)

lemma byte_eq_char_of: "n < 256 \<Longrightarrow> c = char_of n \<longleftrightarrow> n = byte_val c"
  by (metis char_of_eq_byte)

lemma base64_char_pad: "n < 64 \<Longrightarrow> base64_char n \<noteq> CHR ''=''"
  by (auto simp: base64_char_def char_of_eq_byte)

lemma six_bits:
  fixes a b c :: nat
  assumes "a < 256" "b < 256" "c < 256"
  shows "a div 4 < 64" "a mod 4 * 16 + b div 16 < 64" "b mod 16 * 4 + c div 64 < 64" "c mod 64 < 64"
    "a mod 4 * 16 < 64" "b mod 16 * 4 < 64"
proof -
  have "b div 16 < 16" "c div 64 < 4" "a mod 4 < 4" "b mod 16 < 16" using assms by (simp_all add: less_mult_imp_div_less)
  then show "a mod 4 * 16 + b div 16 < 64" "b mod 16 * 4 + c div 64 < 64" "a mod 4 * 16 < 64" "b mod 16 * 4 < 64" by linarith+
qed (use assms in simp_all)

lemmas byte_parts = six_bits [OF byte_less byte_less byte_less]

lemma byte_high: "byte_val b div 16 div 16 = 0" "byte_val b div 16 mod 16 = byte_val b div 16"
  "byte_val c div 64 div 4 = 0" "byte_val c div 64 mod 4 = byte_val c div 64"
  using byte_less [of b] byte_less [of c] by (simp_all del: byte_less)

lemma b64decode_encode: "b64decode (b64encode s) = Some s"
  by (induction s rule: b64encode.induct) (simp_all add: base64_val_char base64_char_pad byte_parts byte_high)

lemma length_b64encode: "length (b64encode s) = 4 * ((length s + 2) div 3)"
proof (induction s rule: b64encode.induct)
  case (4 a b c s)
  have "(length (a # b # c # s) + 2) div 3 = Suc ((length s + 2) div 3)"
    using div_add_self2 [of 3 "length s + 2"] by (simp add: algebra_simps)
  then show ?case using 4 by simp
qed simp_all

section \<open>Identifiers\<close>

definition uuid_of_str :: "string \<Rightarrow> uuid option" where
  "uuid_of_str s = (let h = filter (\<lambda>c. c \<noteq> CHR ''-'') s in
     if length h \<noteq> 32 then None else map_option of_nat (hex_number 0 h))"

lemma hex_digits_plain: "c \<in> set (hex_digits n v) \<Longrightarrow> c \<noteq> CHR ''-''"
  by (induction n arbitrary: v) (auto simp: hex_char_def byte_eq_char_of split: if_splits)

lemma uuid_of_uuid_str: "uuid_of_str (uuid_str u) = Some u"
proof -
  define h where "h = hex_digits 32 (unat u)"
  have len: "length h = 32" by (simp add: h_def)
  have split: "take n (drop k h) @ drop (k + n) h = drop k h" for n k
    by (metis append_take_drop_id drop_drop add.commute)
  have "take 8 h @ take 4 (drop 8 h) @ take 4 (drop 12 h) @ take 4 (drop 16 h) @ drop 20 h = h"
    using split [where n = 4 and k = 8] split [where n = 4 and k = 12] split [where n = 4 and k = 16] by simp
  moreover have "\<forall>c \<in> set h. c \<noteq> CHR ''-''" using hex_digits_plain by (auto simp: h_def)
  then have "filter (\<lambda>c. c \<noteq> CHR ''-'') (take n (drop k h)) = take n (drop k h)"
      "filter (\<lambda>c. c \<noteq> CHR ''-'') (take n h) = take n h" "filter (\<lambda>c. c \<noteq> CHR ''-'') (drop k h) = drop k h" for n k
    by (auto simp: filter_id_conv dest: in_set_takeD in_set_dropD)
  ultimately have "filter (\<lambda>c. c \<noteq> CHR ''-'') (hyphenate h) = h"
    by (simp add: hyphenate_def)
  then show ?thesis
    using len hex_number_digits [of 0 32 "unat u"] unsigned_less [of u, where ?'a = nat]
    by (simp add: uuid_of_str_def uuid_str_def h_def)
qed

section \<open>Instants\<close>

definition dec_val :: "string \<Rightarrow> int" where
  "dec_val s = int (digits_val s)"

text \<open>The fields of a text at the places where \<open>isoformat\<close> prints them.\<close>

definition iso_fields :: "string \<Rightarrow> instant option" where
  "iso_fields s =
     (if length s \<noteq> 25 \<and> length s \<noteq> 32 then None
      else Some (ymd2ord (dec_val (take 4 s), dec_val (take 2 (drop 5 s)), dec_val (take 2 (drop 8 s))) * day_us
        + (dec_val (take 2 (drop 11 s)) * 3600 + dec_val (take 2 (drop 14 s)) * 60 + dec_val (take 2 (drop 17 s))) * second_us
        + (if length s = 32 then dec_val (take 6 (drop 20 s)) else 0)))"

lemma digits_val_snoc: "digits_val (xs @ [digit_char (nat (v mod 10))]) = 10 * digits_val xs + nat (v mod 10)"
proof -
  have "nat (v mod 10) < 10" by (simp add: nat_less_iff)
  then show ?thesis by (simp add: digits_val_def digit_char_def)
qed

lemma dec_val_digits: "0 \<le> v \<Longrightarrow> dec_val (dec_digits n v) = v mod 10 ^ n"
proof (induction n arbitrary: v)
  case (Suc n)
  have "v mod 10 ^ Suc n = 10 * (v div 10 mod 10 ^ n) + v mod 10"
    by (simp add: zmod_zmult2_eq)
  then show ?case using Suc by (simp add: dec_val_def digits_val_snoc pos_imp_zdiv_nonneg_iff)
qed (simp add: dec_val_def digits_val_def)

lemma iso_slices:
  assumes "length a = 4" "length b = 2" "length c = 2" "length d = 2" "length e = 2" "length f = 2"
    and s: "s = a @ [x1] @ b @ [x2] @ c @ [x3] @ d @ [x4] @ e @ [x5] @ f @ g"
  shows "take 4 s = a" "take 2 (drop 5 s) = b" "take 2 (drop 8 s) = c" "take 2 (drop 11 s) = d"
    "take 2 (drop 14 s) = e" "take 2 (drop 17 s) = f" "drop 19 s = g" "length s = 19 + length g"
  unfolding s using assms(1-6) by simp_all

lemma iso_fields_isoformat:
  assumes "valid_instant t"
  shows "iso_fields (isoformat t) = Some t"
proof -
  have days: "0 \<le> t div day_us" "t div day_us < 3652059"
    using assms by (simp_all add: valid_instant_def day_us_def minute_us_def second_us_def pos_imp_zdiv_nonneg_iff)
      linarith
  obtain y m d where o: "ord2ymd (t div day_us) = (y, m, d)" "ymd2ord (y, m, d) = t div day_us"
      "1 \<le> m" "m \<le> 12" "1 \<le> d" "d \<le> 31" "days_before_year y \<le> t div day_us" "0 \<le> t div day_us \<longrightarrow> 1 \<le> y"
    by (rule ord2ymd_correct [of "t div day_us"])
  have y: "1 \<le> y" "y \<le> 9999" using days o(7,8) year_bound by blast+
  define s us where "s = t mod day_us div second_us" and "us = t mod second_us"
  have s: "0 \<le> s" "s < 86400"
    by (simp_all add: s_def day_us_def minute_us_def second_us_def pos_imp_zdiv_nonneg_iff)
  have us: "0 \<le> us" "us < 1000000" by (simp_all add: us_def second_us_def)
  have clock: "s div 3600 mod 100 * 3600 + s div 60 mod 60 mod 100 * 60 + s mod 60 mod 100 = s"
  proof -
    have "s div 3600 = s div 60 div 60" using zdiv_zmult2_eq [of 60 s 60] by simp
    moreover have "s div 60 = 60 * (s div 60 div 60) + s div 60 mod 60" "s = 60 * (s div 60) + s mod 60" by simp_all
    moreover have "0 \<le> s div 3600" "s div 3600 < 100" using s by (simp_all add: pos_imp_zdiv_nonneg_iff)
    moreover have "0 \<le> s div 60 mod 60" "s div 60 mod 60 < 100" "0 \<le> s mod 60" "s mod 60 < 100" by simp_all
    ultimately show ?thesis by (simp only: mod_pos_pos_trivial)
  qed
  have whole: "t div day_us * day_us + s * second_us + us = t"
  proof -
    have "t mod second_us = t mod day_us mod second_us"
      by (rule mod_mod_cancel [symmetric]) (simp add: day_us_def minute_us_def)
    then show ?thesis by (simp add: s_def us_def)
  qed
  have shape: "isoformat t = dec_digits 4 y @ ''-'' @ dec_digits 2 m @ ''-'' @ dec_digits 2 d @ ''T''
      @ dec_digits 2 (s div 3600) @ '':'' @ dec_digits 2 (s div 60 mod 60) @ '':'' @ dec_digits 2 (s mod 60)
      @ iso_fraction us @ ''+00:00''"
    by (simp add: isoformat_def iso_date_def iso_time_def o(1) s_def us_def)
  have vals: "dec_val (dec_digits 4 y) = y" "dec_val (dec_digits 2 m) = m" "dec_val (dec_digits 2 d) = d"
      "dec_val (dec_digits 2 (s div 3600)) = s div 3600 mod 100"
      "dec_val (dec_digits 2 (s div 60 mod 60)) = s div 60 mod 60 mod 100"
      "dec_val (dec_digits 2 (s mod 60)) = s mod 60 mod 100" "dec_val (dec_digits 6 us) = us"
    using y o s us by (simp_all add: dec_val_digits pos_imp_zdiv_nonneg_iff)
  define g where "g = iso_fraction us @ ''+00:00''"
  have shape': "isoformat t = dec_digits 4 y @ [CHR ''-''] @ dec_digits 2 m @ [CHR ''-''] @ dec_digits 2 d @ [CHR ''T'']
      @ dec_digits 2 (s div 3600) @ [CHR '':''] @ dec_digits 2 (s div 60 mod 60) @ [CHR '':''] @ dec_digits 2 (s mod 60) @ g"
    by (simp add: shape g_def)
  note parts = iso_slices [OF length_dec_digits length_dec_digits length_dec_digits length_dec_digits length_dec_digits
      length_dec_digits shape']
  have "length g = (if us = 0 then 6 else 13)" by (simp add: g_def iso_fraction_def)
  moreover have "take 6 (drop 20 (isoformat t)) = dec_digits 6 us" if "us \<noteq> 0"
  proof -
    have "drop 20 (isoformat t) = drop 1 (drop 19 (isoformat t))" by (simp only: drop_drop) simp
    also have "\<dots> = drop 1 g" by (simp only: parts(7))
    finally show ?thesis using that by (simp add: g_def iso_fraction_def)
  qed
  ultimately have frac: "length (isoformat t) = 25 \<or> length (isoformat t) = 32"
      "(if length (isoformat t) = 32 then dec_val (take 6 (drop 20 (isoformat t))) else 0) = us"
    using vals(7) parts(8) by (simp_all split: if_splits)
  have "iso_fields (isoformat t) = Some (t div day_us * day_us
      + (s div 3600 mod 100 * 3600 + s div 60 mod 60 mod 100 * 60 + s mod 60 mod 100) * second_us + us)"
    unfolding iso_fields_def frac(2) using frac(1) by (simp only: parts(1-6) vals o(2)) auto
  then show ?thesis by (simp only: clock whole)
qed

end
