(* ===== verification/Continuity_Protocol.thy ===== *)
theory Continuity_Protocol
  imports Wire_Text Time_Rules Sha256
begin

text \<open>
  The signed read-only Programme snapshots of Scheduling
  (\<open>src/src/maru/scheduling/continuity_protocol.py\<close>): scope, manifest and trust keys, the closed
  canonical encoding, signing and verification. Ed25519 and the zone database are arguments, gathered
  in \<open>continuity_env\<close>. Records and tuples have their type; a scalar field of one may hold anything, as
  the code checks. Bytes and text are both character lists, a character being a code point below 256.
\<close>

section \<open>Contract\<close>

definition CONTINUITY_CONTRACT :: string where
  "CONTINUITY_CONTRACT = ''scheduling.programme-continuity@1''"

definition MAX_CONTINUITY_PAYLOAD_BYTES :: nat where
  "MAX_CONTINUITY_PAYLOAD_BYTES = 8 * 1024 * 1024"

definition MAX_CONTINUITY_PACKAGE_BYTES :: nat where
  "MAX_CONTINUITY_PACKAGE_BYTES = 12 * 1024 * 1024"

definition MAX_CONTINUITY_AGE :: duration where
  "MAX_CONTINUITY_AGE = 4 * 60 * minute_us"

definition MAX_CONTINUITY_TRUST_KEYS :: nat where
  "MAX_CONTINUITY_TRUST_KEYS = 8"

definition MAX_CONTINUITY_CHECKPOINT_BYTES :: nat where
  "MAX_CONTINUITY_CHECKPOINT_BYTES = 4096"

definition MAX_DATE_TEXT :: nat where "MAX_DATE_TEXT = 40"
definition MAX_ZONE_TEXT :: nat where "MAX_ZONE_TEXT = 100"
definition ED25519_PUBLIC_BYTES :: nat where "ED25519_PUBLIC_BYTES = 32"
definition ED25519_SIGNATURE_BYTES :: nat where "ED25519_SIGNATURE_BYTES = 64"

definition SIGNATURE_DOMAIN :: string where
  "SIGNATURE_DOMAIN = ''Maru Programme read-only continuity v1'' @ [CHR 0x00]"

text \<open>The regular expressions \<open>[A-Za-z0-9_-]{1,64}\Z\<close> and \<open>[0-9a-f]{64}\Z\<close>.\<close>

definition key_char :: "char \<Rightarrow> bool" where
  "key_char c \<longleftrightarrow> CHR ''A'' \<le> c \<and> c \<le> CHR ''Z'' \<or> CHR ''a'' \<le> c \<and> c \<le> CHR ''z'' \<or> CHR ''0'' \<le> c \<and> c \<le> CHR ''9''
     \<or> c = CHR ''_'' \<or> c = CHR ''-''"

definition KEY_ID :: "string \<Rightarrow> bool" where
  "KEY_ID s \<longleftrightarrow> 1 \<le> length s \<and> length s \<le> 64 \<and> list_all key_char s"

definition LAYERS :: "string list" where
  "LAYERS = [''technical'', ''accessibility'', ''media'', ''staffing'']"

definition STATES :: "string list" where
  "STATES = [''available'', ''absent'', ''withdrawn'', ''invalidated'', ''unobserved'', ''unadopted'']"

text \<open>The two errors, and whatever the time zone of a foreign datetime raises when asked its offset.\<close>

datatype continuity_error = ContinuityInvalidError | ContinuitySupersededError | TzinfoRaised

section \<open>Records\<close>

record ContinuityScope =
  sc_organization_id :: "uuid typed"
  sc_edition_id :: "uuid typed"
  sc_audience :: "string typed"
  sc_actor_id :: "uuid typed option"
  sc_kind :: "string typed"
  sc_target_id :: "uuid typed option"
  sc_layers :: "string typed list"

record ContinuityManifest =
  mf_scope :: ContinuityScope
  mf_key_id :: "string typed"
  mf_observed_at :: py_instant
  mf_issued_at :: py_instant
  mf_expires_at :: py_instant
  mf_zone_name :: "string typed"
  mf_release_state :: "string typed"
  mf_pointer_version :: "py_number option"
  mf_release_id :: "uuid typed option"
  mf_payload_sha256 :: "string typed"

record ContinuityTrustKey =
  tk_organization_id :: "uuid typed"
  tk_edition_id :: "uuid typed"
  tk_key_id :: "string typed"
  tk_public_key :: "string typed"
  tk_not_before :: py_instant
  tk_not_after :: py_instant

record VerifiedContinuityPackage =
  vp_manifest :: ContinuityManifest
  vp_payload :: string
  vp_checkpoint :: string

text \<open>
  What the code takes from elsewhere: Ed25519 signing (\<open>None\<close> when it raises), the public key of a
  private key, verification of a signature of a message under a public key, and whether
  \<open>ZoneInfo(name)\<close> finds a zone.
\<close>

record 'sk continuity_env =
  cv_sign :: "'sk \<Rightarrow> string \<Rightarrow> string option"
  cv_public :: "'sk \<Rightarrow> string"
  cv_verify :: "string \<Rightarrow> string \<Rightarrow> string \<Rightarrow> bool"
  cv_zone :: "string \<Rightarrow> bool"

section \<open>Scalars\<close>

definition requireE :: "bool \<Rightarrow> continuity_error + unit" where
  "requireE ok = guardE ok ContinuityInvalidError"

definition continuity_utc :: "py_instant \<Rightarrow> continuity_error + instant" where
  "continuity_utc value =
     (case value of
        NotDatetime \<Rightarrow> Inl ContinuityInvalidError
      | Datetime d \<Rightarrow>
          (case dt_utcoffset d of
             Naive \<Rightarrow> Inl ContinuityInvalidError
           | OffsetRaises \<Rightarrow> Inl TzinfoRaised
           | Offset offset \<Rightarrow>
               (case astimezone_utc (dt_wall d) offset of
                  None \<Rightarrow> Inl ContinuityInvalidError
                | Some u \<Rightarrow> Inr u)))"

text \<open>A UTC datetime.\<close>

definition utc_datetime :: "instant \<Rightarrow> py_instant" where
  "utc_datetime u = Datetime \<lparr>dt_wall = u, dt_utcoffset = Offset 0\<rparr>"

definition continuity_uuid :: "bool \<Rightarrow> json \<Rightarrow> continuity_error + uuid option" where
  "continuity_uuid optional value =
     (if optional \<and> value = JNull then Inr None
      else case value of
        JStr s \<Rightarrow>
          (case uuid_of_str s of
             None \<Rightarrow> Inl ContinuityInvalidError
           | Some result \<Rightarrow>
               if uuid_str result \<noteq> s \<or> result = 0 then Inl ContinuityInvalidError else Inr (Some result))
      | _ \<Rightarrow> Inl ContinuityInvalidError)"

definition continuity_date :: "json \<Rightarrow> continuity_error + instant" where
  "continuity_date value =
     (case value of
        JStr s \<Rightarrow>
          if MAX_DATE_TEXT < length s then Inl ContinuityInvalidError
          else (case iso_fields s of
             None \<Rightarrow> Inl ContinuityInvalidError
           | Some result \<Rightarrow>
               if \<not> valid_instant result \<or> isoformat result \<noteq> s then Inl ContinuityInvalidError else Inr result)
      | _ \<Rightarrow> Inl ContinuityInvalidError)"

definition continuity_base64 :: "nat \<Rightarrow> json \<Rightarrow> continuity_error + string" where
  "continuity_base64 maximum value =
     (case value of
        JStr s \<Rightarrow>
          if 4 * ((maximum + 2) div 3) < length s then Inl ContinuityInvalidError
          else (case b64decode s of
             None \<Rightarrow> Inl ContinuityInvalidError
           | Some decoded \<Rightarrow>
               if maximum < length decoded \<or> b64encode decoded \<noteq> s then Inl ContinuityInvalidError else Inr decoded)
      | _ \<Rightarrow> Inl ContinuityInvalidError)"

section \<open>Closed canonical JSON\<close>

text \<open>
  \<open>_canonical\<close> is \<open>json_dumps\<close>: a value of the model has no other type, no infinite number and no
  surrogate to raise for. \<open>item\<close> is \<open>value[key]\<close> on a document whose keys were checked.
\<close>

definition item :: "(string \<times> json) list \<Rightarrow> string \<Rightarrow> json" where
  "item fs k = (case map_of fs k of None \<Rightarrow> JNull | Some v \<Rightarrow> v)"

definition closed_json :: "string list \<Rightarrow> nat \<Rightarrow> string \<Rightarrow> continuity_error + (string \<times> json) list" where
  "closed_json names maximum data =
     (if \<not> (0 < length data \<and> length data \<le> maximum) then Inl ContinuityInvalidError
      else case json_loads data of
        Some (JObj result) \<Rightarrow>
          if set (map fst result) \<noteq> set names then Inl ContinuityInvalidError
          else if json_dumps (JObj result) \<noteq> data then Inl ContinuityInvalidError
          else Inr result
      | _ \<Rightarrow> Inl ContinuityInvalidError)"

definition json_str :: "json \<Rightarrow> string typed" where
  "json_str v = (case v of JStr s \<Rightarrow> Typed s | _ \<Rightarrow> Untyped)"

definition json_number :: "json \<Rightarrow> py_number option" where
  "json_number v = (case v of JNull \<Rightarrow> None | JInt n \<Rightarrow> Some (PyInt n) | JBool b \<Rightarrow> Some (PyBool b)
     | _ \<Rightarrow> Some PyNotNumber)"

section \<open>Manifests\<close>

definition opt_uuid_json :: "uuid typed option \<Rightarrow> json" where
  "opt_uuid_json v = (case v of Some (Typed u) \<Rightarrow> JStr (uuid_str u) | _ \<Rightarrow> JNull)"

definition is_uuid :: "uuid typed option \<Rightarrow> bool" where
  "is_uuid v = (case v of Some (Typed u) \<Rightarrow> True | _ \<Rightarrow> False)"

fun all_typed :: "'a typed list \<Rightarrow> 'a list option" where
  "all_typed [] = Some []"
| "all_typed (Untyped # vs) = None"
| "all_typed (Typed v # vs) = map_option ((#) v) (all_typed vs)"

definition scope_purpose :: "string \<Rightarrow> string \<Rightarrow> uuid typed option \<Rightarrow> uuid typed option \<Rightarrow> uuid \<Rightarrow> bool" where
  "scope_purpose audience kind actor target edition =
     (if audience = ''public'' then kind = ''public'' \<and> actor = None \<and> target = None
      else if audience = ''exact_person'' then kind = ''personal'' \<and> is_uuid actor \<and> target = None
      else if audience = ''private_operator'' then
        kind \<in> {''room'', ''department'', ''edition''} \<and> is_uuid actor \<and> is_uuid target
        \<and> (kind \<noteq> ''edition'' \<or> target = Some (Typed edition))
      else False)"

definition scope_layers :: "string list \<Rightarrow> bool" where
  "scope_layers layers \<longleftrightarrow>
     length layers \<le> length LAYERS \<and> sort (remdups layers) = layers \<and> set layers \<subseteq> set LAYERS"

definition scope_fields :: "uuid \<Rightarrow> uuid \<Rightarrow> string \<Rightarrow> uuid typed option \<Rightarrow> string \<Rightarrow> uuid typed option \<Rightarrow> string list \<Rightarrow> json" where
  "scope_fields organization edition audience actor kind target layers = JObj
     [(''organization_id'', JStr (uuid_str organization)),
      (''edition_id'', JStr (uuid_str edition)),
      (''audience'', JStr audience),
      (''actor_id'', opt_uuid_json actor),
      (''kind'', JStr kind),
      (''target_id'', opt_uuid_json target),
      (''layers'', JList (map JStr layers))]"

definition scope_document :: "ContinuityScope \<Rightarrow> continuity_error + json" where
  "scope_document scope =
     (case (sc_audience scope, sc_kind scope, sc_organization_id scope, sc_edition_id scope, all_typed (sc_layers scope)) of
        (Typed audience, Typed kind, Typed organization, Typed edition, Some layers) \<Rightarrow>
          if organization = 0 \<or> edition = 0 then Inl ContinuityInvalidError
          else if \<not> scope_layers layers then Inl ContinuityInvalidError
          else if \<not> scope_purpose audience kind (sc_actor_id scope) (sc_target_id scope) edition
            \<or> (audience \<noteq> ''private_operator'' \<and> layers \<noteq> [])
            \<or> sc_actor_id scope = Some (Typed 0) \<or> sc_target_id scope = Some (Typed 0)
          then Inl ContinuityInvalidError
          else Inr (scope_fields organization edition audience (sc_actor_id scope) kind (sc_target_id scope) layers)
      | _ \<Rightarrow> Inl ContinuityInvalidError)"

definition validate_release_state :: "string typed \<Rightarrow> string typed \<Rightarrow> py_number option \<Rightarrow> uuid typed option \<Rightarrow> continuity_error + unit" where
  "validate_release_state audience state pointer release =
     (case state of
        Untyped \<Rightarrow> Inl ContinuityInvalidError
      | Typed state \<Rightarrow>
          if state \<notin> set STATES then Inl ContinuityInvalidError
          else if state \<in> {''unobserved'', ''unadopted''} then
            requireE (audience = Typed ''exact_person'' \<and> pointer = None \<and> release = None)
          else (case pointer of
            Some (PyInt n) \<Rightarrow>
              requireE (0 \<le> n \<and> n \<le> 2 ^ 63 - 1 \<and>
                (if state = ''absent'' then n = 0 \<and> release = None
                 else if state = ''withdrawn'' then 0 < n \<and> release = None
                 else 0 < n \<and> is_uuid release \<and> release \<noteq> Some (Typed 0)))
          | _ \<Rightarrow> Inl ContinuityInvalidError))"

definition pointer_json :: "py_number option \<Rightarrow> json" where
  "pointer_json v = (case v of Some (PyInt n) \<Rightarrow> JInt n | _ \<Rightarrow> JNull)"

definition manifest_fields :: "json \<Rightarrow> string \<Rightarrow> instant \<Rightarrow> instant \<Rightarrow> instant \<Rightarrow> string \<Rightarrow> string typed \<Rightarrow> py_number option
     \<Rightarrow> uuid typed option \<Rightarrow> string \<Rightarrow> json" where
  "manifest_fields scope key_id observed issued expires zone_name state pointer release sha = JObj
     [(''contract'', JStr CONTINUITY_CONTRACT),
      (''scope'', scope),
      (''key_id'', JStr key_id),
      (''observed_at'', JStr (isoformat observed)),
      (''issued_at'', JStr (isoformat issued)),
      (''expires_at'', JStr (isoformat expires)),
      (''zone_name'', JStr zone_name),
      (''release_state'', case state of Typed s \<Rightarrow> JStr s | Untyped \<Rightarrow> JNull),
      (''pointer_version'', pointer_json pointer),
      (''release_id'', opt_uuid_json release),
      (''payload_sha256'', JStr sha)]"

text \<open>\<open>observed + MAX_CONTINUITY_AGE\<close> raises past the last representable instant.\<close>

definition manifest_document :: "'sk continuity_env \<Rightarrow> ContinuityManifest \<Rightarrow> continuity_error + json" where
  "manifest_document env m =
     bindE (scope_document (mf_scope m)) (\<lambda>scope.
     bindE (continuity_utc (mf_observed_at m)) (\<lambda>observed.
     bindE (continuity_utc (mf_issued_at m)) (\<lambda>issued.
     bindE (continuity_utc (mf_expires_at m)) (\<lambda>expires.
     bindE (requireE (observed \<le> issued \<and> issued < expires \<and> observed + MAX_CONTINUITY_AGE < datetime_span_us
       \<and> expires \<le> observed + MAX_CONTINUITY_AGE)) (\<lambda>_.
     bindE (requireE (issued - observed \<le> 5 * minute_us)) (\<lambda>_.
     (case (mf_key_id m, mf_payload_sha256 m, mf_zone_name m) of
        (Typed key_id, Typed sha, Typed zone) \<Rightarrow>
          bindE (requireE (KEY_ID key_id)) (\<lambda>_.
          bindE (requireE (hex64 sha)) (\<lambda>_.
          bindE (requireE (1 \<le> length zone \<and> length zone \<le> MAX_ZONE_TEXT)) (\<lambda>_.
          bindE (requireE (cv_zone env zone)) (\<lambda>_.
          bindE (validate_release_state (sc_audience (mf_scope m)) (mf_release_state m) (mf_pointer_version m)
            (mf_release_id m)) (\<lambda>_.
          Inr (manifest_fields scope key_id observed issued expires zone (mf_release_state m) (mf_pointer_version m)
            (mf_release_id m) sha))))))
      | _ \<Rightarrow> Inl ContinuityInvalidError)))))))"

definition MANIFEST_KEYS :: "string list" where
  "MANIFEST_KEYS = [''contract'', ''scope'', ''key_id'', ''observed_at'', ''issued_at'', ''expires_at'', ''zone_name'',
     ''release_state'', ''pointer_version'', ''release_id'', ''payload_sha256'']"

definition SCOPE_KEYS :: "string list" where
  "SCOPE_KEYS = [''organization_id'', ''edition_id'', ''audience'', ''actor_id'', ''kind'', ''target_id'', ''layers'']"

definition decode_scope :: "(string \<times> json) list \<Rightarrow> json list \<Rightarrow> continuity_error + ContinuityScope" where
  "decode_scope scope layers =
     bindE (continuity_uuid False (item scope ''organization_id'')) (\<lambda>organization_id.
     bindE (continuity_uuid False (item scope ''edition_id'')) (\<lambda>edition_id.
     bindE (continuity_uuid True (item scope ''actor_id'')) (\<lambda>actor_id.
     bindE (continuity_uuid True (item scope ''target_id'')) (\<lambda>target_id.
     (case (organization_id, edition_id) of
        (Some organization_id, Some edition_id) \<Rightarrow>
          Inr \<lparr>sc_organization_id = Typed organization_id, sc_edition_id = Typed edition_id,
            sc_audience = json_str (item scope ''audience''), sc_actor_id = map_option Typed actor_id,
            sc_kind = json_str (item scope ''kind''), sc_target_id = map_option Typed target_id,
            sc_layers = map json_str layers\<rparr>
      | _ \<Rightarrow> Inl ContinuityInvalidError)))))"

definition decode_manifest :: "'sk continuity_env \<Rightarrow> json \<Rightarrow> continuity_error + ContinuityManifest" where
  "decode_manifest env value =
     (case value of
        JObj fs \<Rightarrow>
          if set (map fst fs) \<noteq> set MANIFEST_KEYS \<or> item fs ''contract'' \<noteq> JStr CONTINUITY_CONTRACT
          then Inl ContinuityInvalidError
          else (case item fs ''scope'' of
            JObj scope \<Rightarrow>
              (case item scope ''layers'' of
                 JList layers \<Rightarrow>
                   if set (map fst scope) \<noteq> set SCOPE_KEYS then Inl ContinuityInvalidError
                   else
                     bindE (decode_scope scope layers) (\<lambda>decoded_scope.
                     bindE (continuity_date (item fs ''observed_at'')) (\<lambda>observed_at.
                     bindE (continuity_date (item fs ''issued_at'')) (\<lambda>issued_at.
                     bindE (continuity_date (item fs ''expires_at'')) (\<lambda>expires_at.
                     bindE (continuity_uuid True (item fs ''release_id'')) (\<lambda>release_id.
                     let result = \<lparr>mf_scope = decoded_scope, mf_key_id = json_str (item fs ''key_id''),
                       mf_observed_at = utc_datetime observed_at, mf_issued_at = utc_datetime issued_at,
                       mf_expires_at = utc_datetime expires_at, mf_zone_name = json_str (item fs ''zone_name''),
                       mf_release_state = json_str (item fs ''release_state''),
                       mf_pointer_version = json_number (item fs ''pointer_version''),
                       mf_release_id = map_option Typed release_id,
                       mf_payload_sha256 = json_str (item fs ''payload_sha256'')\<rparr> in
                     bindE (manifest_document env result) (\<lambda>document.
                     if json_sort document \<noteq> json_sort value then Inl ContinuityInvalidError else Inr result))))))
               | _ \<Rightarrow> Inl ContinuityInvalidError)
          | _ \<Rightarrow> Inl ContinuityInvalidError)
      | _ \<Rightarrow> Inl ContinuityInvalidError)"

section \<open>Signatures\<close>

type_synonym trust_identity = "uuid typed \<times> uuid typed \<times> string typed"

definition key_identity :: "ContinuityTrustKey \<Rightarrow> trust_identity" where
  "key_identity key = (tk_organization_id key, tk_edition_id key, tk_key_id key)"

definition manifest_identity :: "ContinuityManifest \<Rightarrow> trust_identity" where
  "manifest_identity m = (sc_organization_id (mf_scope m), sc_edition_id (mf_scope m), mf_key_id m)"

definition nonzero_uuid :: "uuid typed \<Rightarrow> bool" where
  "nonzero_uuid v = (case v of Typed u \<Rightarrow> u \<noteq> 0 | Untyped \<Rightarrow> False)"

definition public_bytes :: "ContinuityTrustKey \<Rightarrow> bool" where
  "public_bytes key = (case tk_public_key key of Typed b \<Rightarrow> length b = ED25519_PUBLIC_BYTES | Untyped \<Rightarrow> False)"

definition trust_key_shape :: "ContinuityTrustKey \<Rightarrow> bool" where
  "trust_key_shape key \<longleftrightarrow> nonzero_uuid (tk_organization_id key) \<and> nonzero_uuid (tk_edition_id key)
     \<and> (case tk_key_id key of Typed s \<Rightarrow> KEY_ID s | Untyped \<Rightarrow> False) \<and> public_bytes key"

text \<open>The loop over the trusted keys, with \<open>seen\<close> and \<open>matches\<close>.\<close>

fun trust_matches :: "trust_identity \<Rightarrow> ContinuityTrustKey list \<Rightarrow> trust_identity list \<Rightarrow> ContinuityTrustKey list
     \<Rightarrow> continuity_error + ContinuityTrustKey list" where
  "trust_matches wanted [] seen matches = Inr matches"
| "trust_matches wanted (key # keys) seen matches =
     (if \<not> trust_key_shape key then Inl ContinuityInvalidError else
      bindE (continuity_utc (tk_not_before key)) (\<lambda>not_before.
      bindE (continuity_utc (tk_not_after key)) (\<lambda>not_after.
      if \<not> not_before < not_after then Inl ContinuityInvalidError
      else if key_identity key \<in> set seen then Inl ContinuityInvalidError
      else trust_matches wanted keys (key_identity key # seen)
        (if key_identity key = wanted then matches @ [key] else matches))))"

definition signed_message :: "json \<Rightarrow> string" where
  "signed_message document = SIGNATURE_DOMAIN @ json_dumps document"

definition key_signature :: "'sk continuity_env \<Rightarrow> ContinuityManifest \<Rightarrow> string \<Rightarrow> ContinuityTrustKey \<Rightarrow> continuity_error + unit" where
  "key_signature env manifest signature key =
     (if \<not> public_bytes key then Inl ContinuityInvalidError else
      bindE (continuity_utc (tk_not_before key)) (\<lambda>not_before.
      bindE (continuity_utc (mf_issued_at manifest)) (\<lambda>issued.
      bindE (continuity_utc (tk_not_after key)) (\<lambda>not_after.
      bindE (continuity_utc (mf_expires_at manifest)) (\<lambda>expires.
      if \<not> (not_before \<le> issued \<and> issued < not_after) \<or> not_after < expires then Inl ContinuityInvalidError
      else
        bindE (manifest_document env manifest) (\<lambda>document.
        requireE (case tk_public_key key of
          Typed public \<Rightarrow> cv_verify env public signature (signed_message document) | Untyped \<Rightarrow> False)))))))"

definition trusted_signature :: "'sk continuity_env \<Rightarrow> ContinuityManifest \<Rightarrow> string \<Rightarrow> ContinuityTrustKey list \<Rightarrow> continuity_error + unit" where
  "trusted_signature env manifest signature trust =
     (if \<not> (1 \<le> length trust \<and> length trust \<le> MAX_CONTINUITY_TRUST_KEYS) then Inl ContinuityInvalidError else
      bindE (trust_matches (manifest_identity manifest) trust [] []) (\<lambda>matches.
      (case matches of
         [key] \<Rightarrow>
           if length signature \<noteq> ED25519_SIGNATURE_BYTES then Inl ContinuityInvalidError
           else key_signature env manifest signature key
       | _ \<Rightarrow> Inl ContinuityInvalidError)))"

section \<open>Signing and verifying\<close>

definition package_json :: "json \<Rightarrow> string \<Rightarrow> string \<Rightarrow> json" where
  "package_json document payload signature = JObj
     [(''manifest'', document), (''payload'', JStr (b64encode payload)), (''signature'', JStr (b64encode signature))]"

definition sign_continuity_package :: "'sk continuity_env \<Rightarrow> string typed \<Rightarrow> ContinuityManifest \<Rightarrow> 'sk typed \<Rightarrow> continuity_error + string" where
  "sign_continuity_package env payload manifest key =
     bindE (manifest_document env manifest) (\<lambda>document.
     (case (payload, key) of
        (Typed payload, Typed key) \<Rightarrow>
          if \<not> (0 < length payload \<and> length payload \<le> MAX_CONTINUITY_PAYLOAD_BYTES)
            \<or> Typed (sha256_hex payload) \<noteq> mf_payload_sha256 manifest then Inl ContinuityInvalidError
          else (case cv_sign env key (signed_message document) of
            None \<Rightarrow> Inl ContinuityInvalidError
          | Some signature \<Rightarrow> Inr (json_dumps (package_json document payload signature)))
      | _ \<Rightarrow> Inl ContinuityInvalidError))"

definition verify_continuity_package :: "'sk continuity_env \<Rightarrow> string \<Rightarrow> ContinuityScope \<Rightarrow> ContinuityTrustKey list \<Rightarrow> py_instant
     \<Rightarrow> continuity_error + VerifiedContinuityPackage" where
  "verify_continuity_package env package expected_scope trust now =
     bindE (scope_document expected_scope) (\<lambda>_.
     bindE (closed_json [''manifest'', ''payload'', ''signature''] MAX_CONTINUITY_PACKAGE_BYTES package) (\<lambda>document.
     bindE (decode_manifest env (item document ''manifest'')) (\<lambda>manifest.
     if mf_scope manifest \<noteq> expected_scope then Inl ContinuityInvalidError else
     bindE (continuity_base64 ED25519_SIGNATURE_BYTES (item document ''signature'')) (\<lambda>signature.
     bindE (trusted_signature env manifest signature trust) (\<lambda>_.
     bindE (continuity_utc (mf_issued_at manifest)) (\<lambda>issued.
     bindE (continuity_utc now) (\<lambda>now.
     bindE (continuity_utc (mf_expires_at manifest)) (\<lambda>expires.
     if \<not> (issued \<le> now \<and> now < expires) then Inl ContinuityInvalidError else
     bindE (continuity_base64 MAX_CONTINUITY_PAYLOAD_BYTES (item document ''payload'')) (\<lambda>payload.
     if payload = [] \<or> Typed (sha256_hex payload) \<noteq> mf_payload_sha256 manifest then Inl ContinuityInvalidError
     else Inr \<lparr>vp_manifest = manifest, vp_payload = payload,
       vp_checkpoint = json_dumps (JObj [(''manifest'', item document ''manifest''), (''signature'', item document ''signature'')])\<rparr>)))))))))"

end
