(* ===== verification/Continuity_Facts.thy ===== *)
theory Continuity_Facts
  imports Continuity_Protocol
begin

text \<open>
  What the parts of the continuity protocol do: readers accept exactly what the printers print, a
  document read back is the document signed, and a decoded manifest is its own normal form.
\<close>

section \<open>Canonical readers\<close>

text \<open>
  A reader that refuses whatever does not print back as it was: it accepts exactly the printed forms.
\<close>

locale closed_reader =
  fixes valid :: "'a \<Rightarrow> bool" and print :: "'a \<Rightarrow> string" and scan :: "string \<Rightarrow> 'a option"
  assumes scan_print: "valid x \<Longrightarrow> scan (print x) = Some x"
begin

text \<open>What a closed reader does with a text: a value it prints back, or a refusal.\<close>

lemma closed_cases:
  obtains x where "s = print x" "valid x" "scan s = Some x"
  | "\<And>x. scan s = Some x \<Longrightarrow> valid x \<Longrightarrow> print x \<noteq> s" "\<And>x. valid x \<Longrightarrow> s \<noteq> print x"
  using scan_print by blast

lemma printed_inject: "valid x \<Longrightarrow> valid y \<Longrightarrow> print x = print y \<longleftrightarrow> x = y"
  using scan_print by (metis option.inject)

end

interpretation uuid_text: closed_reader "\<lambda>u. True" uuid_str uuid_of_str
  by unfold_locales (rule uuid_of_uuid_str)

interpretation instant_text: closed_reader valid_instant isoformat iso_fields
  by unfold_locales (rule iso_fields_isoformat)

interpretation base64_text: closed_reader "\<lambda>s. True" b64encode b64decode
  by unfold_locales (rule b64decode_encode)

interpretation json_text: closed_reader "\<lambda>v. json_keys v \<and> json_sort v = v" json_dumps json_loads
  by unfold_locales (simp add: json_loads_dumps)

lemma continuity_uuid_JStr: "continuity_uuid optional (JStr s) = Inr r \<longleftrightarrow> (\<exists>u. s = uuid_str u \<and> u \<noteq> 0 \<and> r = Some u)"
proof (cases s rule: uuid_text.closed_cases)
  case (1 x)
  then show ?thesis by (auto simp: continuity_uuid_def uuid_text.printed_inject)
next
  case 2
  then show ?thesis by (auto simp: continuity_uuid_def split: option.splits)
qed

lemma continuity_uuid_iff:
  "continuity_uuid optional v = Inr r \<longleftrightarrow> (\<exists>u. v = JStr (uuid_str u) \<and> u \<noteq> 0 \<and> r = Some u) \<or> (optional \<and> v = JNull \<and> r = None)"
  by (cases v) (simp_all add: continuity_uuid_JStr, auto simp: continuity_uuid_def)

lemma length_isoformat: "length (isoformat u) \<le> 32"
  by (simp add: isoformat_def iso_date_def iso_time_def iso_fraction_def split: prod.splits)

lemma continuity_date_JStr: "continuity_date (JStr s) = Inr u \<longleftrightarrow> s = isoformat u \<and> valid_instant u"
proof (cases s rule: instant_text.closed_cases)
  case (1 x)
  moreover have "\<not> MAX_DATE_TEXT < length (isoformat x)" using length_isoformat [of x] by (simp add: MAX_DATE_TEXT_def)
  ultimately show ?thesis using instant_text.printed_inject [of x u] by (auto simp: continuity_date_def)
next
  case 2
  then show ?thesis by (auto simp: continuity_date_def split: option.splits)
qed

lemma continuity_date_iff: "continuity_date v = Inr u \<longleftrightarrow> v = JStr (isoformat u) \<and> valid_instant u"
  by (cases v) (simp_all add: continuity_date_JStr, simp_all add: continuity_date_def)

lemma continuity_base64_JStr: "continuity_base64 n (JStr s) = Inr d \<longleftrightarrow> s = b64encode d \<and> length d \<le> n"
proof (cases s rule: base64_text.closed_cases)
  case (1 x)
  moreover have "\<not> 4 * ((n + 2) div 3) < length (b64encode x)" if "length x \<le> n"
    using that by (simp add: length_b64encode div_le_mono not_less)
  ultimately show ?thesis by (auto simp: continuity_base64_def base64_text.printed_inject)
next
  case 2
  then show ?thesis by (auto simp: continuity_base64_def split: option.splits)
qed

lemma continuity_base64_iff: "continuity_base64 n v = Inr d \<longleftrightarrow> v = JStr (b64encode d) \<and> length d \<le> n"
  by (cases v) (simp_all add: continuity_base64_JStr, simp_all add: continuity_base64_def)

lemma continuity_utc_datetime [simp]: "valid_instant u \<Longrightarrow> continuity_utc (utc_datetime u) = Inr u"
  by (simp add: continuity_utc_def utc_datetime_def astimezone_utc_def valid_instant_def datetime_span_us_def)

lemma continuity_utc_valid: "continuity_utc t = Inr u \<Longrightarrow> valid_instant u"
  by (auto simp: continuity_utc_def astimezone_utc_def valid_instant_def datetime_span_us_def Let_def
      split: py_instant.splits py_utcoffset.splits option.splits if_splits)

section \<open>Documents\<close>

lemma json_sort_fields_prod: "json_sort_fields fs = map (map_prod id json_sort) fs"
  by (induction fs) auto

lemma keys_json_sort_fields [simp]: "map fst (json_sort_fields fs) = map fst fs"
  by (induction fs) auto

lemma sort_fields_map:
  fixes f :: "json \<Rightarrow> json"
  shows "sort_key fst (map (map_prod id f) fs) = map (map_prod id f) (sort_key fst fs)"
  using sort_key_map [of fst "map_prod id f" fs] by simp

lemma sort_key_idem: "sort_key k (sort_key k xs) = sort_key k xs"
  by (rule sorted_sort_key_id) simp

lemma json_sort_idem:
  "json_sort (json_sort v) = json_sort v"
  "json_sort_list (json_sort_list vs) = json_sort_list vs"
  "json_sort_fields (json_sort_fields fs) = json_sort_fields fs"
proof (induction v and vs and fs rule: json_sort_json_sort_list_json_sort_fields.induct)
  case (2 fs)
  then have "map (map_prod id json_sort \<circ> map_prod id json_sort) fs = map (map_prod id json_sort) fs"
    by (simp add: json_sort_fields_prod)
  then have "map (map_prod id json_sort \<circ> map_prod id json_sort) (sort_key fst fs) = map (map_prod id json_sort) (sort_key fst fs)"
    by (simp add: map_eq_conv)
  then show ?case by (simp add: json_sort_fields_prod sort_fields_map sort_key_idem del: map_map) simp
qed auto

lemma map_of_sort_key: "distinct (map fst fs) \<Longrightarrow> map_of (sort_key fst fs) = map_of fs"
proof (rule map_of_eqI)
  assume d: "distinct (map fst fs)"
  have "distinct (map fst (sort_key fst fs))"
    using mset_eq_imp_distinct_iff [of "map fst (sort_key fst fs)" "map fst fs"] d by simp
  then show "\<forall>k \<in> set (map fst (sort_key fst fs)). map_of (sort_key fst fs) k = map_of fs k"
    using d by (auto simp: map_of_is_SomeI)
qed simp

lemma item_sort:
  assumes "distinct (map fst fs)"
  shows "item (sort_key fst (json_sort_fields fs)) k = json_sort (item fs k)"
proof -
  have "map_of (sort_key fst (json_sort_fields fs)) k = map_of (json_sort_fields fs) k"
    using assms by (simp add: map_of_sort_key)
  also have "\<dots> = map_option json_sort (map_of fs k)"
    by (induction fs) auto
  finally show ?thesis by (simp add: item_def split: option.splits)
qed

lemma closed_json_iff:
  "closed_json names n data = Inr fs \<longleftrightarrow> json_loads data = Some (JObj fs) \<and> 0 < length data \<and> length data \<le> n
     \<and> set (map fst fs) = set names \<and> json_dumps (JObj fs) = data"
  by (auto simp: closed_json_def split: option.splits json.splits if_splits)

section \<open>Scopes\<close>

text \<open>An optional identifier of a checked record: none, or one that is not zero.\<close>

definition plain_uuid :: "uuid typed option \<Rightarrow> bool" where
  "plain_uuid v \<longleftrightarrow> v = None \<or> (\<exists>u. v = Some (Typed u) \<and> u \<noteq> 0)"

lemma is_uuid_plain: "is_uuid v \<Longrightarrow> v \<noteq> Some (Typed 0) \<Longrightarrow> plain_uuid v"
  by (auto simp: is_uuid_def plain_uuid_def split: option.splits typed.splits)

lemma read_plain_uuid:
  assumes "plain_uuid v"
  obtains r where "continuity_uuid True (opt_uuid_json v) = Inr r" "map_option Typed r = v"
proof (cases v)
  case None
  then show ?thesis using that [of None] by (simp add: opt_uuid_json_def continuity_uuid_def)
next
  case (Some w)
  then obtain u where v: "v = Some (Typed u)" "u \<noteq> 0" using assms by (auto simp: plain_uuid_def)
  then have "continuity_uuid True (JStr (uuid_str u)) = Inr (Some u)" by (auto simp: continuity_uuid_JStr)
  then show ?thesis using that [of "Some u"] v by (simp add: opt_uuid_json_def)
qed

lemma opt_uuid_json_leaf [simp]: "json_sort (opt_uuid_json v) = opt_uuid_json v"
  by (simp add: opt_uuid_json_def split: option.splits typed.splits)

lemma json_sort_map_JStr [simp]: "json_sort_list (map JStr xs) = map JStr xs"
  by (induction xs) simp_all

lemma all_typed_Some: "all_typed vs = Some xs \<longleftrightarrow> vs = map Typed xs"
  by (induction vs arbitrary: xs rule: all_typed.induct) auto

lemma json_str_map [simp]: "map (json_str \<circ> JStr) xs = map Typed xs"
  by (simp add: json_str_def comp_def)

lemma scope_document_Inr:
  assumes "scope_document scope = Inr d"
  obtains organization edition audience actor kind target layers where
    "scope = \<lparr>sc_organization_id = Typed organization, sc_edition_id = Typed edition, sc_audience = Typed audience,
      sc_actor_id = actor, sc_kind = Typed kind, sc_target_id = target, sc_layers = map Typed layers\<rparr>"
    "d = scope_fields organization edition audience actor kind target layers" "organization \<noteq> 0" "edition \<noteq> 0"
    "plain_uuid actor" "plain_uuid target" "scope_layers layers" "scope_purpose audience kind actor target edition"
proof -
  obtain organization edition audience kind layers where s: "sc_organization_id scope = Typed organization"
      "sc_edition_id scope = Typed edition" "sc_audience scope = Typed audience" "sc_kind scope = Typed kind"
      "sc_layers scope = map Typed layers"
    using assms by (auto simp: scope_document_def all_typed_Some split: typed.splits option.splits)
  have typed: "all_typed (sc_layers scope) = Some layers" using s by (simp add: all_typed_Some)
  note d = assms [unfolded scope_document_def s(1-4) typed]
  have p: "scope_purpose audience kind (sc_actor_id scope) (sc_target_id scope) edition" "organization \<noteq> 0" "edition \<noteq> 0"
      "scope_layers layers" "sc_actor_id scope \<noteq> Some (Typed 0)" "sc_target_id scope \<noteq> Some (Typed 0)"
      "d = scope_fields organization edition audience (sc_actor_id scope) kind (sc_target_id scope) layers"
    using d by (auto split: if_splits)
  have "plain_uuid (sc_actor_id scope)" "plain_uuid (sc_target_id scope)"
    using p(1,5,6) is_uuid_plain by (auto simp: scope_purpose_def plain_uuid_def split: if_splits)
  moreover have "scope = \<lparr>sc_organization_id = Typed organization, sc_edition_id = Typed edition, sc_audience = Typed audience,
      sc_actor_id = sc_actor_id scope, sc_kind = Typed kind, sc_target_id = sc_target_id scope, sc_layers = map Typed layers\<rparr>"
    using s by simp
  ultimately show ?thesis using that p by blast
qed

lemma decode_scope_fields:
  assumes "scope_document scope = Inr (JObj sfs)" and "\<And>k. item fs k = json_sort (item sfs k)"
  shows "\<exists>layers. item fs ''layers'' = JList layers \<and> decode_scope fs layers = Inr scope"
proof -
  obtain organization edition audience actor kind target layers where
    s: "scope = \<lparr>sc_organization_id = Typed organization, sc_edition_id = Typed edition, sc_audience = Typed audience,
      sc_actor_id = actor, sc_kind = Typed kind, sc_target_id = target, sc_layers = map Typed layers\<rparr>"
    and d: "JObj sfs = scope_fields organization edition audience actor kind target layers"
    and ok: "organization \<noteq> 0" "edition \<noteq> 0" "plain_uuid actor" "plain_uuid target"
    by (rule scope_document_Inr [OF assms(1)])
  obtain a where a: "continuity_uuid True (opt_uuid_json actor) = Inr a" "map_option Typed a = actor"
    using ok(3) by (rule read_plain_uuid)
  obtain b where b: "continuity_uuid True (opt_uuid_json target) = Inr b" "map_option Typed b = target"
    using ok(4) by (rule read_plain_uuid)
  have items: "item fs ''organization_id'' = JStr (uuid_str organization)" "item fs ''edition_id'' = JStr (uuid_str edition)"
      "item fs ''audience'' = JStr audience" "item fs ''actor_id'' = opt_uuid_json actor" "item fs ''kind'' = JStr kind"
      "item fs ''target_id'' = opt_uuid_json target" "item fs ''layers'' = JList (map JStr layers)"
    using d unfolding scope_fields_def assms(2) by (simp_all add: item_def)
  have read: "continuity_uuid False (JStr (uuid_str organization)) = Inr (Some organization)"
      "continuity_uuid False (JStr (uuid_str edition)) = Inr (Some edition)"
    using ok(1,2) by (auto simp: continuity_uuid_JStr)
  have "decode_scope fs (map JStr layers) = Inr scope"
    unfolding decode_scope_def items read a(1) b(1) by (simp add: s a(2) b(2) json_str_def comp_def)
  then show ?thesis using items(7) by blast
qed

section \<open>Manifests\<close>

lemma requireE_iff [simp]: "requireE b = Inr x \<longleftrightarrow> b" "requireE True = Inr ()"
  by (simp_all add: requireE_def guardE_def)

text \<open>A manifest in the form a reader gives it: every datetime in UTC.\<close>

definition utc_of :: "py_instant \<Rightarrow> instant" where
  "utc_of t = (case continuity_utc t of Inr u \<Rightarrow> u | Inl _ \<Rightarrow> 0)"

definition normal_manifest :: "ContinuityManifest \<Rightarrow> ContinuityManifest" where
  "normal_manifest m = m\<lparr>mf_observed_at := utc_datetime (utc_of (mf_observed_at m)),
     mf_issued_at := utc_datetime (utc_of (mf_issued_at m)), mf_expires_at := utc_datetime (utc_of (mf_expires_at m))\<rparr>"

lemma utc_of_datetime [simp]: "valid_instant u \<Longrightarrow> utc_of (utc_datetime u) = u"
  by (simp add: utc_of_def)

lemma not_Untyped: "v \<noteq> Untyped \<longleftrightarrow> (\<exists>u. v = Typed u)"
  by (cases v) simp_all

lemma release_state_Inr:
  assumes "validate_release_state audience state pointer release = Inr u"
  shows "\<exists>s. state = Typed s \<and> s \<in> set STATES" "json_number (pointer_json pointer) = pointer" "plain_uuid release"
    "pointer = None \<or> (\<exists>n. pointer = Some (PyInt n) \<and> 0 \<le> n \<and> n \<le> 2 ^ 63 - 1)"
  using assms
  by (auto simp: validate_release_state_def pointer_json_def json_number_def plain_uuid_def is_uuid_def not_Untyped
      split: typed.splits if_splits option.splits py_number.splits)

definition manifest_values :: "'sk continuity_env \<Rightarrow> ContinuityManifest \<Rightarrow> string \<Rightarrow> string \<Rightarrow> string \<Rightarrow> instant \<Rightarrow> instant \<Rightarrow> instant \<Rightarrow> bool" where
  "manifest_values env m key_id sha zone observed issued expires \<longleftrightarrow>
     continuity_utc (mf_observed_at m) = Inr observed \<and> continuity_utc (mf_issued_at m) = Inr issued
     \<and> continuity_utc (mf_expires_at m) = Inr expires \<and> observed \<le> issued \<and> issued < expires
     \<and> observed + MAX_CONTINUITY_AGE < datetime_span_us \<and> expires \<le> observed + MAX_CONTINUITY_AGE
     \<and> issued - observed \<le> 5 * minute_us \<and> mf_key_id m = Typed key_id \<and> mf_payload_sha256 m = Typed sha
     \<and> mf_zone_name m = Typed zone \<and> KEY_ID key_id \<and> hex64 sha \<and> 1 \<le> length zone \<and> length zone \<le> MAX_ZONE_TEXT
     \<and> cv_zone env zone
     \<and> validate_release_state (sc_audience (mf_scope m)) (mf_release_state m) (mf_pointer_version m) (mf_release_id m) = Inr ()"

lemma manifest_document_Inr:
  "manifest_document env m = Inr d \<longleftrightarrow>
     (\<exists>scope key_id sha zone observed issued expires. scope_document (mf_scope m) = Inr scope
       \<and> manifest_values env m key_id sha zone observed issued expires
       \<and> d = manifest_fields scope key_id observed issued expires zone (mf_release_state m) (mf_pointer_version m)
           (mf_release_id m) sha)" (is "?l \<longleftrightarrow> ?r")
proof
  show "?l \<Longrightarrow> ?r"
    by (cases "mf_key_id m"; cases "mf_payload_sha256 m"; cases "mf_zone_name m")
      (auto simp: manifest_document_def manifest_values_def bindE_eq_Inr)
  show "?r \<Longrightarrow> ?l"
    by (auto simp: manifest_document_def manifest_values_def)
qed

lemma manifest_values_normal:
  "manifest_values env m key_id sha zone observed issued expires \<Longrightarrow>
     normal_manifest m = m\<lparr>mf_observed_at := utc_datetime observed, mf_issued_at := utc_datetime issued,
       mf_expires_at := utc_datetime expires\<rparr>
     \<and> manifest_values env (normal_manifest m) key_id sha zone observed issued expires"
  using continuity_utc_valid
  by (auto simp: manifest_values_def normal_manifest_def utc_of_def)

lemma manifest_document_normal: "manifest_document env m = Inr d \<Longrightarrow> manifest_document env (normal_manifest m) = Inr d"
  unfolding manifest_document_Inr using manifest_values_normal by (fastforce simp: normal_manifest_def)

lemma distinct_keys: "distinct MANIFEST_KEYS" "distinct SCOPE_KEYS"
  by (simp_all add: MANIFEST_KEYS_def SCOPE_KEYS_def)

lemma scope_document_keys:
  "scope_document scope = Inr d \<Longrightarrow> \<exists>sfs. d = JObj sfs \<and> map fst sfs = SCOPE_KEYS"
  by (erule scope_document_Inr) (simp add: scope_fields_def SCOPE_KEYS_def)

lemma manifest_fields_keys:
  "\<exists>fs. manifest_fields scope key_id observed issued expires zone state pointer release sha = JObj fs \<and> map fst fs = MANIFEST_KEYS"
  by (simp add: manifest_fields_def MANIFEST_KEYS_def)

lemma set_keys_sorted: "set (map fst (sort_key fst (json_sort_fields fs))) = set (map fst fs)"
  by (metis keys_json_sort_fields set_map set_sort)

lemma item_sorted: "map fst fs = ks \<Longrightarrow> distinct ks \<Longrightarrow> item (sort_key fst (json_sort_fields fs)) k = json_sort (item fs k)"
  by (rule item_sort) simp

lemma decode_manifest_document:
  assumes "manifest_document env m = Inr d"
  shows "decode_manifest env (json_sort d) = Inr (normal_manifest m)"
proof -
  obtain scope key_id sha zone observed issued expires where
    scope: "scope_document (mf_scope m) = Inr scope" and
    v: "manifest_values env m key_id sha zone observed issued expires" and
    d: "d = manifest_fields scope key_id observed issued expires zone (mf_release_state m) (mf_pointer_version m) (mf_release_id m) sha"
    using assms unfolding manifest_document_Inr by blast
  obtain fs where fs: "d = JObj fs" "map fst fs = MANIFEST_KEYS" using d manifest_fields_keys by metis
  obtain sfs where sfs: "scope = JObj sfs" "map fst sfs = SCOPE_KEYS" using scope_document_keys [OF scope] by blast
  define fs' where "fs' = sort_key fst (json_sort_fields fs)"
  define sfs' where "sfs' = sort_key fst (json_sort_fields sfs)"
  have keys: "set (map fst fs') = set MANIFEST_KEYS" "set (map fst sfs') = set SCOPE_KEYS"
    unfolding fs'_def sfs'_def set_keys_sorted fs(2) sfs(2) by simp_all
  have it: "item fs' k = json_sort (item fs k)" "item sfs' k = json_sort (item sfs k)" for k
    unfolding fs'_def sfs'_def using item_sorted fs(2) sfs(2) distinct_keys by blast+
  obtain layers where layers: "item sfs' ''layers'' = JList layers" "decode_scope sfs' layers = Inr (mf_scope m)"
    using decode_scope_fields [OF scope [unfolded sfs(1)] it(2)] by blast
  have rs: "validate_release_state (sc_audience (mf_scope m)) (mf_release_state m) (mf_pointer_version m) (mf_release_id m) = Inr ()"
    using v by (simp add: manifest_values_def)
  obtain s where s: "mf_release_state m = Typed s" using release_state_Inr(1) [OF rs] by blast
  have p: "json_number (pointer_json (mf_pointer_version m)) = mf_pointer_version m" by (rule release_state_Inr(2) [OF rs])
  have leaf: "json_sort (pointer_json v) = pointer_json v" for v by (simp add: pointer_json_def split: option.splits py_number.splits)
  obtain r where r: "continuity_uuid True (opt_uuid_json (mf_release_id m)) = Inr r" "map_option Typed r = mf_release_id m"
    using release_state_Inr(3) [OF rs] by (rule read_plain_uuid)
  have items: "item fs' ''contract'' = JStr CONTINUITY_CONTRACT" "item fs' ''scope'' = JObj sfs'" "item fs' ''key_id'' = JStr key_id"
      "item fs' ''observed_at'' = JStr (isoformat observed)" "item fs' ''issued_at'' = JStr (isoformat issued)"
      "item fs' ''expires_at'' = JStr (isoformat expires)" "item fs' ''zone_name'' = JStr zone" "item fs' ''release_state'' = JStr s"
      "item fs' ''pointer_version'' = pointer_json (mf_pointer_version m)"
      "item fs' ''release_id'' = opt_uuid_json (mf_release_id m)" "item fs' ''payload_sha256'' = JStr sha"
    using d fs(1) unfolding it(1) manifest_fields_def s sfs(1) by (simp_all add: item_def leaf sfs'_def)
  have valid: "valid_instant observed" "valid_instant issued" "valid_instant expires"
    using v continuity_utc_valid by (auto simp: manifest_values_def)
  then have dates: "continuity_date (JStr (isoformat observed)) = Inr observed" "continuity_date (JStr (isoformat issued)) = Inr issued"
      "continuity_date (JStr (isoformat expires)) = Inr expires"
    by (simp_all add: continuity_date_iff)
  have norm: "normal_manifest m = \<lparr>mf_scope = mf_scope m, mf_key_id = json_str (JStr key_id),
      mf_observed_at = utc_datetime observed, mf_issued_at = utc_datetime issued, mf_expires_at = utc_datetime expires,
      mf_zone_name = json_str (JStr zone), mf_release_state = json_str (JStr s),
      mf_pointer_version = json_number (pointer_json (mf_pointer_version m)), mf_release_id = map_option Typed r,
      mf_payload_sha256 = json_str (JStr sha)\<rparr>"
    unfolding r(2) p using manifest_values_normal [OF v] v s by (simp add: json_str_def manifest_values_def)
  have doc: "manifest_document env (normal_manifest m) = Inr d" using manifest_document_normal [OF assms] .
  have sorted: "json_sort d = JObj fs'" by (simp add: fs(1) fs'_def)
  have same: "json_sort (JObj fs') = JObj fs'" using json_sort_idem(1) [of d] by (simp only: sorted)
  show ?thesis
    unfolding sorted decode_manifest_def using layers(1) keys
    by (simp only: json.case items layers dates r(1) bindE.simps Let_def norm [symmetric] doc same sorted if_False
        HOL.simp_thms not_not de_Morgan_disj)
qed

text \<open>What a decoded manifest is: the one whose document has these keys and values.\<close>

lemma decode_manifest_Inr:
  assumes "decode_manifest env v = Inr m"
  obtains d where "manifest_document env m = Inr d" "json_sort d = json_sort v" "normal_manifest m = m"
proof -
  obtain fs where fs: "v = JObj fs" using assms by (auto simp: decode_manifest_def split: json.splits)
  obtain scope layers where s: "item fs ''scope'' = JObj scope" "item scope ''layers'' = JList layers"
    using assms by (auto simp: decode_manifest_def fs split: json.splits if_splits)
  obtain ds ob i e r where parts: "continuity_date (item fs ''observed_at'') = Inr ob" "continuity_date (item fs ''issued_at'') = Inr i"
      "continuity_date (item fs ''expires_at'') = Inr e"
    and m: "m = \<lparr>mf_scope = ds, mf_key_id = json_str (item fs ''key_id''),
        mf_observed_at = utc_datetime ob, mf_issued_at = utc_datetime i, mf_expires_at = utc_datetime e,
        mf_zone_name = json_str (item fs ''zone_name''), mf_release_state = json_str (item fs ''release_state''),
        mf_pointer_version = json_number (item fs ''pointer_version''), mf_release_id = map_option Typed r,
        mf_payload_sha256 = json_str (item fs ''payload_sha256'')\<rparr>"
    and d: "\<exists>d. manifest_document env m = Inr d \<and> json_sort d = json_sort v"
    using assms unfolding decode_manifest_def fs s json.case Let_def by (auto simp: bindE_eq_Inr split: if_splits)
  then have "normal_manifest m = m" by (simp add: normal_manifest_def continuity_date_iff)
  then show ?thesis using that d by blast
qed

section \<open>Sizes\<close>

text \<open>The bytes a text takes inside a JSON string, and a bound on those of a value.\<close>

definition text_bytes :: "string \<Rightarrow> nat" where
  "text_bytes s = length (utf8 (concat (map json_escape s)))"

fun json_bytes :: "json \<Rightarrow> nat" and items_bytes :: "json list \<Rightarrow> nat" and fields_bytes :: "(string \<times> json) list \<Rightarrow> nat" where
  "json_bytes JNull = 4"
| "json_bytes (JBool b) = 5"
| "json_bytes (JInt n) = length (int_str n)"
| "json_bytes (JStr s) = text_bytes s + 2"
| "json_bytes (JList vs) = items_bytes vs + 2"
| "json_bytes (JObj fs) = fields_bytes fs + 2"
| "items_bytes [] = 0"
| "items_bytes (v # vs) = json_bytes v + 1 + items_bytes vs"
| "fields_bytes [] = 0"
| "fields_bytes ((k, v) # fs) = text_bytes k + json_bytes v + 4 + fields_bytes fs"

lemma utf8_simps [simp]: "utf8 [] = []" "utf8 (c # s) = utf8_char c @ utf8 s" "utf8 (s @ t) = utf8 s @ utf8 t"
  by (simp_all add: utf8_def)

lemma utf8_ascii: "list_all (\<lambda>c. byte_val c < 128) s \<Longrightarrow> utf8 s = s"
  by (induction s) (simp_all add: utf8_char_def Let_def)

lemma int_str_ascii: "list_all (\<lambda>c. byte_val c < 128) (int_str n)"
proof -
  have "list_all (\<lambda>c. byte_val c < 128) (nat_str m)" for m
    using nat_str_digits [of m] by (auto simp: list_all_iff is_digit_def less_eq_char_def)
  then show ?thesis by (simp add: int_str_def)
qed

lemma length_print:
  "length (utf8 (json_print v)) \<le> json_bytes v"
  "length (utf8 (items_tail vs)) \<le> items_bytes vs + 1"
  "length (utf8 (fields_tail fs)) \<le> fields_bytes fs + 1"
  by (induction v and vs and fs rule: json_print_items_tail_fields_tail.induct)
    (auto simp: utf8_ascii int_str_ascii text_bytes_def str_tail_def utf8_char_def)

lemma fields_bytes_sum: "fields_bytes fs = sum_list (map (\<lambda>(k, v). text_bytes k + json_bytes v + 4) fs)"
  by (induction fs) auto

lemma json_bytes_sort:
  "json_bytes (json_sort v) = json_bytes v" "items_bytes (json_sort_list vs) = items_bytes vs"
  "fields_bytes (json_sort_fields fs) = fields_bytes fs"
proof (induction v and vs and fs rule: json_sort_json_sort_list_json_sort_fields.induct)
  case (2 fs)
  have "sum_list (map f (sort_key fst gs)) = sum_list (map f gs)" for f :: "string \<times> json \<Rightarrow> nat" and gs
    by (metis mset_map mset_sort sum_mset_sum_list)
  then show ?case using 2 by (simp add: fields_bytes_sum)
qed auto

lemma length_json_dumps: "length (json_dumps v) \<le> json_bytes v"
  using length_print(1) [of "json_sort v"] by (simp add: json_dumps_def json_bytes_sort)

text \<open>Characters that are printed as they are, in one byte.\<close>

definition plain_char :: "char \<Rightarrow> bool" where
  "plain_char c \<longleftrightarrow> 32 \<le> byte_val c \<and> byte_val c < 127 \<and> c \<noteq> CHR 0x22 \<and> c \<noteq> CHR 0x5C"

lemma text_bytes_append [simp]: "text_bytes (s @ t) = text_bytes s + text_bytes t"
  by (simp add: text_bytes_def)

lemma text_bytes_Nil [simp]: "text_bytes [] = 0"
  by (simp add: text_bytes_def)

lemma text_bytes_Cons: "text_bytes (c # s) = length (utf8 (json_escape c)) + text_bytes s"
  by (simp add: text_bytes_def)

lemma plain_escape: "plain_char c \<Longrightarrow> length (utf8 (json_escape c)) = 1"
  by (auto simp: json_escape_def plain_char_def utf8_char_def Let_def)

lemma length_utf8: "length (utf8 s) \<le> 2 * length s"
  by (induction s) (auto simp: utf8_char_def Let_def)

lemma hex_char_ascii: "byte_val (hex_char (n mod 16)) < 128"
proof -
  have "n mod 16 < 16" by simp
  then show ?thesis by (auto simp: hex_char_def)
qed

lemma hex_digits_ascii: "list_all (\<lambda>c. byte_val c < 128) (hex_digits n v)"
  by (induction n arbitrary: v) (simp_all add: hex_char_ascii)

lemma escape_le: "length (utf8 (json_escape c)) \<le> 6"
  using length_utf8 [of "[c]"] utf8_ascii [OF hex_digits_ascii, of 4 "byte_val c"]
  by (auto simp: json_escape_def utf8_char_def Let_def)

lemma text_bytes_plain: "list_all plain_char s \<Longrightarrow> text_bytes s = length s"
  by (induction s) (simp_all add: text_bytes_Cons plain_escape)

lemma text_bytes_le: "text_bytes s \<le> 6 * length s"
proof (induction s)
  case (Cons c s)
  then show ?case using escape_le [of c] by (simp add: text_bytes_Cons)
qed simp

lemma lower_hex_plain: "lower_hex c \<Longrightarrow> plain_char c"
  by (auto simp: lower_hex_def plain_char_def less_eq_char_def)

lemma key_char_plain: "key_char c \<Longrightarrow> plain_char c"
  by (auto simp: key_char_def plain_char_def less_eq_char_def)

lemma list_all_slice: "list_all P s \<Longrightarrow> list_all P (take n s)" "list_all P s \<Longrightarrow> list_all P (drop n s)"
  by (auto simp: list_all_iff dest: in_set_takeD in_set_dropD)

lemma uuid_str_bytes: "text_bytes (uuid_str u) = 36"
proof -
  have "list_all plain_char (hex_digits 32 (unat u))"
    using hex_digits_lower [of 32 "unat u"] lower_hex_plain by (auto simp: list_all_iff)
  then have "list_all plain_char (uuid_str u)"
    by (simp add: uuid_str_def hyphenate_def list_all_slice plain_char_def)
  then show ?thesis by (simp add: text_bytes_plain) (simp add: uuid_str_def hyphenate_def)
qed

lemma dec_digits_plain: "list_all plain_char (dec_digits n v)"
proof (induction n arbitrary: v)
  case (Suc n)
  have "nat (v mod 10) < 10" by (simp add: nat_less_iff)
  then show ?case using Suc by (auto simp: plain_char_def digit_char_def char_of_eq_byte)
qed simp

lemma isoformat_bytes: "text_bytes (isoformat t) \<le> 32"
proof -
  have "list_all plain_char (isoformat t)"
    by (simp add: isoformat_def iso_date_def iso_time_def iso_fraction_def dec_digits_plain split: prod.splits)
      (simp add: plain_char_def)
  then show ?thesis using length_isoformat [of t] by (simp add: text_bytes_plain)
qed

lemma key_id_bytes: "KEY_ID s \<Longrightarrow> text_bytes s \<le> 64"
  using key_char_plain by (simp add: KEY_ID_def text_bytes_plain list_all_iff)

lemma sha_bytes: "hex64 s \<Longrightarrow> text_bytes s = 64"
  using lower_hex_plain by (simp add: hex64_def text_bytes_plain list_all_iff)

lemma length_nat_str: "n < 10 ^ k \<Longrightarrow> 0 < k \<Longrightarrow> length (nat_str n) \<le> k"
proof (induction k arbitrary: n)
  case (Suc k)
  show ?case
  proof (cases "n < 10")
    case True
    then show ?thesis by (subst nat_str.simps) simp
  next
    case False
    then have "0 < k" using Suc.prems(1) by (cases k) simp_all
    moreover have "n div 10 < 10 ^ k" using Suc.prems(1) by (simp add: less_mult_imp_div_less mult.commute)
    ultimately show ?thesis using Suc.IH [of "n div 10"] False by (subst nat_str.simps) simp
  qed
qed simp

lemma pointer_bytes:
  assumes "p = None \<or> (\<exists>n. p = Some (PyInt n) \<and> 0 \<le> n \<and> n \<le> 2 ^ 63 - 1)"
  shows "json_bytes (pointer_json p) \<le> 19"
proof (cases p)
  case (Some w)
  then obtain n where n: "p = Some (PyInt n)" "0 \<le> n" "n \<le> 2 ^ 63 - 1" using assms by auto
  then have "nat n < 10 ^ 19" by (simp add: nat_less_iff)
  then show ?thesis using length_nat_str [of "nat n" 19] n by (simp add: pointer_json_def int_str_def)
qed (simp add: pointer_json_def)

lemma opt_uuid_bytes: "json_bytes (opt_uuid_json v) \<le> 38"
  by (simp add: opt_uuid_json_def uuid_str_bytes split: option.splits typed.splits)

lemma layers_bytes:
  assumes "scope_layers layers"
  shows "items_bytes (map JStr layers) \<le> 64"
proof -
  have "items_bytes (map JStr xs) \<le> 16 * length xs" if "set xs \<subseteq> set LAYERS" for xs
    using that by (induction xs) (auto simp: LAYERS_def text_bytes_plain plain_char_def)
  then show ?thesis using assms by (fastforce simp: scope_layers_def LAYERS_def)
qed

lemma literal_bytes: "text_bytes ''organization_id'' = 15" "text_bytes ''edition_id'' = 10" "text_bytes ''audience'' = 8"
  "text_bytes ''actor_id'' = 8" "text_bytes ''kind'' = 4" "text_bytes ''target_id'' = 9" "text_bytes ''layers'' = 6"
  "text_bytes ''contract'' = 8" "text_bytes ''scope'' = 5" "text_bytes ''key_id'' = 6" "text_bytes ''observed_at'' = 11"
  "text_bytes ''issued_at'' = 9" "text_bytes ''expires_at'' = 10" "text_bytes ''zone_name'' = 9"
  "text_bytes ''release_state'' = 13" "text_bytes ''pointer_version'' = 15" "text_bytes ''release_id'' = 10"
  "text_bytes ''payload_sha256'' = 14" "text_bytes ''manifest'' = 8" "text_bytes ''payload'' = 7"
  "text_bytes ''signature'' = 9" "text_bytes CONTINUITY_CONTRACT = 33"
  by (simp_all add: text_bytes_plain plain_char_def CONTINUITY_CONTRACT_def)

lemma scope_bytes: "scope_document scope = Inr d \<Longrightarrow> json_bytes d \<le> 340"
proof (erule scope_document_Inr)
  fix organization edition audience actor kind target layers
  assume d: "d = scope_fields organization edition audience actor kind target layers" and "scope_layers layers"
    and p: "scope_purpose audience kind actor target edition"
  have "text_bytes audience \<le> 16" "text_bytes kind \<le> 10"
    using p by (auto simp: scope_purpose_def text_bytes_plain plain_char_def split: if_splits)
  then show "json_bytes d \<le> 340"
    using opt_uuid_bytes [of actor] opt_uuid_bytes [of target] layers_bytes [OF \<open>scope_layers layers\<close>]
    by (simp add: d scope_fields_def uuid_str_bytes literal_bytes)
qed

lemma manifest_bytes:
  assumes "manifest_document env m = Inr d"
  shows "json_bytes d \<le> 1500"
proof -
  obtain scope key_id sha zone observed issued expires where
    scope: "scope_document (mf_scope m) = Inr scope" and
    v: "manifest_values env m key_id sha zone observed issued expires" and
    d: "d = manifest_fields scope key_id observed issued expires zone (mf_release_state m) (mf_pointer_version m) (mf_release_id m) sha"
    using assms unfolding manifest_document_Inr by blast
  have rs: "validate_release_state (sc_audience (mf_scope m)) (mf_release_state m) (mf_pointer_version m) (mf_release_id m) = Inr ()"
    using v by (simp add: manifest_values_def)
  obtain s where s: "mf_release_state m = Typed s" "s \<in> set STATES" using release_state_Inr(1) [OF rs] by blast
  have "text_bytes s \<le> 11" using s(2) by (auto simp: STATES_def text_bytes_plain plain_char_def)
  moreover have "text_bytes zone \<le> 600" using v text_bytes_le [of zone] by (simp add: manifest_values_def MAX_ZONE_TEXT_def)
  moreover have "text_bytes key_id \<le> 64" "text_bytes sha = 64" using v by (simp_all add: manifest_values_def key_id_bytes sha_bytes)
  ultimately show ?thesis
    using scope_bytes [OF scope] isoformat_bytes [of observed] isoformat_bytes [of issued] isoformat_bytes [of expires]
      pointer_bytes [OF release_state_Inr(4) [OF rs]] opt_uuid_bytes [of "mf_release_id m"] s(1)
    by (simp add: d manifest_fields_def literal_bytes)
qed

lemma base64_char_plain: "n < 64 \<Longrightarrow> plain_char (base64_char n)"
  by (auto simp: base64_char_def plain_char_def char_of_eq_byte)

lemma b64encode_plain: "list_all plain_char (b64encode s)"
  by (induction s rule: b64encode.induct) (simp_all add: base64_char_plain byte_parts, simp_all add: plain_char_def)

lemma b64encode_bytes: "text_bytes (b64encode s) = 4 * ((length s + 2) div 3)"
  by (simp add: text_bytes_plain b64encode_plain length_b64encode)

lemma package_bytes:
  assumes "manifest_document env m = Inr d" and "length payload \<le> MAX_CONTINUITY_PAYLOAD_BYTES"
    and "length signature \<le> ED25519_SIGNATURE_BYTES"
  shows "length (json_dumps (package_json d payload signature)) \<le> MAX_CONTINUITY_PACKAGE_BYTES"
proof -
  have "(length payload + 2) div 3 \<le> (MAX_CONTINUITY_PAYLOAD_BYTES + 2) div 3"
      "(length signature + 2) div 3 \<le> (ED25519_SIGNATURE_BYTES + 2) div 3"
    using assms(2,3) by (simp_all add: div_le_mono)
  then have "json_bytes (package_json d payload signature) \<le> MAX_CONTINUITY_PACKAGE_BYTES"
    using manifest_bytes [OF assms(1)]
    by (simp add: package_json_def literal_bytes b64encode_bytes MAX_CONTINUITY_PAYLOAD_BYTES_def
        ED25519_SIGNATURE_BYTES_def MAX_CONTINUITY_PACKAGE_BYTES_def)
  then show ?thesis using length_json_dumps order_trans by blast
qed

section \<open>Closed documents\<close>

lemma json_sort_items:
  assumes "distinct (map fst fs)" and "distinct ks" and "set (map fst fs) = set ks"
  shows "json_sort (JObj fs) = json_sort (JObj (map (\<lambda>k. (k, item fs k)) ks))"
proof -
  have in_set: "(k, v) \<in> set fs \<longleftrightarrow> k \<in> set (map fst fs) \<and> v = item fs k" for k v
  proof
    assume "(k, v) \<in> set fs"
    moreover from this have "map_of fs k = Some v" using assms(1) by (rule map_of_is_SomeI [rotated])
    ultimately show "k \<in> set (map fst fs) \<and> v = item fs k" by (force simp: item_def)
  next
    assume kv: "k \<in> set (map fst fs) \<and> v = item fs k"
    then obtain w where "(k, w) \<in> set fs" by auto
    moreover from this have "map_of fs k = Some w" using assms(1) by (rule map_of_is_SomeI [rotated])
    ultimately show "(k, v) \<in> set fs" using kv by (simp add: item_def)
  qed
  have "set fs = set (map (\<lambda>k. (k, item fs k)) ks)"
    using assms(3) in_set by auto
  then have "set (json_sort_fields fs) = set (json_sort_fields (map (\<lambda>k. (k, item fs k)) ks))"
    unfolding json_sort_fields_prod by (simp only: set_map)
  moreover have keys: "distinct (map fst (json_sort_fields fs))"
      "distinct (map fst (json_sort_fields (map (\<lambda>k. (k, item fs k)) ks)))"
    using assms(1,2) by (simp_all add: comp_def)
  ultimately have "sort_key fst (json_sort_fields fs) = sort_key fst (json_sort_fields (map (\<lambda>k. (k, item fs k)) ks))"
    by (intro sort_key_inj_unique) (simp_all only: distinct_map)
  then show ?thesis by simp
qed

lemma closed_json_Inr:
  assumes "closed_json names n data = Inr fs" and "distinct names"
  shows "data = json_dumps (JObj (map (\<lambda>k. (k, item fs k)) names))" "0 < length data" "length data \<le> n"
    "json_sort (item fs k) = item fs k"
proof -
  have fs: "json_loads data = Some (JObj fs)" "set (map fst fs) = set names" "json_dumps (JObj fs) = data"
    using assms(1) by (simp_all add: closed_json_iff)
  have keys: "json_keys (JObj fs)" using fs(1) by (rule json_loads_keys)
  then have d: "distinct (map fst fs)" by simp
  show "data = json_dumps (JObj (map (\<lambda>k. (k, item fs k)) names))"
    using json_sort_items [OF d assms(2) fs(2)] fs(3) json_dumps_eq by blast
  show "0 < length data" "length data \<le> n" using assms(1) by (simp_all only: closed_json_iff)
  have "json_sort (JObj fs) = JObj fs" using json_loads_dumps [OF keys] fs(1,3) by simp
  then have "sort_key fst (json_sort_fields fs) = fs" by simp
  then show "json_sort (item fs k) = item fs k" using item_sort [OF d, of k] by simp
qed

lemma closed_json_dumps:
  assumes "json_keys (JObj fs)" and "length (json_dumps (JObj fs)) \<le> n" and "set (map fst fs) = set names"
  shows "closed_json names n (json_dumps (JObj fs)) = Inr (sort_key fst (json_sort_fields fs))"
proof -
  have "json_dumps (json_sort (JObj fs)) = json_dumps (JObj fs)"
    unfolding json_dumps_eq by (rule json_sort_idem)
  moreover have "json_dumps (JObj fs) \<noteq> []"
    using json_loads_dumps [OF assms(1)] by (auto simp: json_loads_def)
  ultimately show ?thesis
    using json_loads_dumps [OF assms(1)] assms(2,3) set_keys_sorted [of fs] by (simp add: closed_json_iff)
qed

lemma scope_json_keys: "scope_document scope = Inr d \<Longrightarrow> json_keys d"
proof (erule scope_document_Inr)
  fix organization edition audience actor kind target layers
  assume "d = scope_fields organization edition audience actor kind target layers"
  moreover have "json_keys_list (map JStr xs)" for xs by (induction xs) simp_all
  moreover have "json_keys (opt_uuid_json v)" for v by (simp add: opt_uuid_json_def split: option.splits typed.splits)
  ultimately show "json_keys d" by (simp add: scope_fields_def)
qed

lemma manifest_json_keys:
  assumes "manifest_document env m = Inr d"
  shows "json_keys d"
proof -
  obtain scope key_id sha zone observed issued expires where
    scope: "scope_document (mf_scope m) = Inr scope" and
    d: "d = manifest_fields scope key_id observed issued expires zone (mf_release_state m) (mf_pointer_version m) (mf_release_id m) sha"
    using assms unfolding manifest_document_Inr by blast
  have "json_keys (opt_uuid_json v)" "json_keys (pointer_json p)" for v p
    by (simp_all add: opt_uuid_json_def pointer_json_def split: option.splits typed.splits py_number.splits)
  then show ?thesis using scope_json_keys [OF scope] by (simp add: d manifest_fields_def split: typed.splits)
qed

section \<open>Packages\<close>

definition checkpoint_json :: "json \<Rightarrow> string \<Rightarrow> json" where
  "checkpoint_json document signature = JObj [(''manifest'', document), (''signature'', JStr (b64encode signature))]"

text \<open>
  What an accepted package is: the canonical encoding of one manifest, payload and signature, of the
  expected scope, with a trusted signature, inside its lifetime, with the payload the manifest names.
\<close>

definition genuine_package :: "'sk continuity_env \<Rightarrow> string \<Rightarrow> ContinuityScope \<Rightarrow> ContinuityTrustKey list \<Rightarrow> instant
     \<Rightarrow> VerifiedContinuityPackage \<Rightarrow> json \<Rightarrow> string \<Rightarrow> bool" where
  "genuine_package env package scope trust now r document signature \<longleftrightarrow>
     manifest_document env (vp_manifest r) = Inr document \<and> normal_manifest (vp_manifest r) = vp_manifest r
     \<and> mf_scope (vp_manifest r) = scope
     \<and> package = json_dumps (package_json document (vp_payload r) signature)
     \<and> trusted_signature env (vp_manifest r) signature trust = Inr ()
     \<and> utc_of (mf_issued_at (vp_manifest r)) \<le> now \<and> now < utc_of (mf_expires_at (vp_manifest r))
     \<and> vp_payload r \<noteq> [] \<and> length (vp_payload r) \<le> MAX_CONTINUITY_PAYLOAD_BYTES
     \<and> mf_payload_sha256 (vp_manifest r) = Typed (sha256_hex (vp_payload r))
     \<and> vp_checkpoint r = json_dumps (checkpoint_json document signature)"

lemma trusted_length: "trusted_signature env m signature trust = Inr u \<Longrightarrow> length signature = ED25519_SIGNATURE_BYTES"
proof -
  assume "trusted_signature env m signature trust = Inr u"
  then obtain ms where ms: "(case ms of [key] \<Rightarrow> if length signature \<noteq> ED25519_SIGNATURE_BYTES then Inl ContinuityInvalidError
      else key_signature env m signature key | _ \<Rightarrow> Inl ContinuityInvalidError) = Inr u"
    by (auto simp: trusted_signature_def bindE_eq_Inr split: if_splits)
  then show ?thesis by (cases ms; cases "tl ms") (auto split: if_splits)
qed

lemma document_dates:
  assumes "manifest_document env m = Inr d"
  shows "continuity_utc (mf_observed_at m) = Inr (utc_of (mf_observed_at m))" "continuity_utc (mf_issued_at m) = Inr (utc_of (mf_issued_at m))"
    "continuity_utc (mf_expires_at m) = Inr (utc_of (mf_expires_at m))"
  using assms unfolding manifest_document_Inr manifest_values_def by (auto simp: utc_of_def)

lemma sort_checkpoint: "json_sort d = json_sort d' \<Longrightarrow> json_dumps (checkpoint_json d s) = json_dumps (checkpoint_json d' s)"
  by (simp add: checkpoint_json_def json_dumps_eq)

lemma sort_package: "json_sort d = json_sort d' \<Longrightarrow> json_dumps (package_json d p s) = json_dumps (package_json d' p s)"
  by (simp add: package_json_def json_dumps_eq)

lemma verify_genuine:
  assumes "verify_continuity_package env package scope trust now = Inr r"
  shows "\<exists>t document signature. continuity_utc now = Inr t \<and> genuine_package env package scope trust t r document signature"
proof -
  obtain fs m signature issued t expires payload where
    fs: "closed_json [''manifest'', ''payload'', ''signature''] MAX_CONTINUITY_PACKAGE_BYTES package = Inr fs" and
    m: "decode_manifest env (item fs ''manifest'') = Inr m" "mf_scope m = scope" and
    signature: "continuity_base64 ED25519_SIGNATURE_BYTES (item fs ''signature'') = Inr signature"
      "trusted_signature env m signature trust = Inr ()" and
    times: "continuity_utc (mf_issued_at m) = Inr issued" "continuity_utc now = Inr t" "continuity_utc (mf_expires_at m) = Inr expires"
      "issued \<le> t" "t < expires" and
    payload: "continuity_base64 MAX_CONTINUITY_PAYLOAD_BYTES (item fs ''payload'') = Inr payload" "payload \<noteq> []"
      "mf_payload_sha256 m = Typed (sha256_hex payload)" and
    r: "r = \<lparr>vp_manifest = m, vp_payload = payload,
       vp_checkpoint = json_dumps (JObj [(''manifest'', item fs ''manifest''), (''signature'', item fs ''signature'')])\<rparr>"
    using assms by (auto simp: verify_continuity_package_def bindE_eq_Inr split: if_splits)
  obtain d where d: "manifest_document env m = Inr d" "json_sort d = json_sort (item fs ''manifest'')" "normal_manifest m = m"
    by (rule decode_manifest_Inr [OF m(1)])
  have items: "item fs ''signature'' = JStr (b64encode signature)" "item fs ''payload'' = JStr (b64encode payload)"
      "length payload \<le> MAX_CONTINUITY_PAYLOAD_BYTES"
    using signature(1) payload(1) by (simp_all add: continuity_base64_iff)
  have "package = json_dumps (JObj (map (\<lambda>k. (k, item fs k)) [''manifest'', ''payload'', ''signature'']))"
    by (rule closed_json_Inr(1) [OF fs]) simp
  then have "package = json_dumps (package_json (item fs ''manifest'') payload signature)"
    by (simp add: package_json_def items)
  then have "package = json_dumps (package_json d payload signature)"
    using sort_package [OF d(2)] by simp
  moreover have "vp_checkpoint r = json_dumps (checkpoint_json d signature)"
    using sort_checkpoint [OF d(2)] by (simp add: r items checkpoint_json_def)
  moreover have "utc_of (mf_issued_at m) = issued" "utc_of (mf_expires_at m) = expires"
    using times by (simp_all add: utc_of_def)
  ultimately have "genuine_package env package scope trust t r d signature"
    using d(1,3) m(2) signature(2) times(4,5) payload(2,3) items(3) by (simp add: genuine_package_def r)
  then show ?thesis using times(2) by blast
qed

lemma genuine_verify:
  assumes "continuity_utc now = Inr t" and "genuine_package env package scope trust t r d signature"
  shows "verify_continuity_package env package scope trust now = Inr r"
proof -
  note g = assms(2) [unfolded genuine_package_def]
  have doc: "manifest_document env (vp_manifest r) = Inr d" using g by blast
  obtain sd where sd: "scope_document scope = Inr sd" using doc g unfolding manifest_document_Inr by blast
  have len: "length signature = ED25519_SIGNATURE_BYTES" using g trusted_length by blast
  define fs where "fs = [(''manifest'', d), (''payload'', JStr (b64encode (vp_payload r))), (''signature'', JStr (b64encode signature))]"
  have package: "package = json_dumps (JObj fs)" using g by (simp add: package_json_def fs_def)
  have keys: "json_keys (JObj fs)" using manifest_json_keys [OF doc] by (simp add: fs_def)
  define fs' where "fs' = sort_key fst (json_sort_fields fs)"
  have closed: "closed_json [''manifest'', ''payload'', ''signature''] MAX_CONTINUITY_PACKAGE_BYTES package = Inr fs'"
    unfolding package fs'_def
  proof (rule closed_json_dumps [OF keys])
    show "length (json_dumps (JObj fs)) \<le> MAX_CONTINUITY_PACKAGE_BYTES"
      using package_bytes [OF doc, of "vp_payload r" signature] g len by (simp add: package_json_def fs_def)
  qed (simp add: fs_def)
  have it: "item fs' k = json_sort (item fs k)" for k
    unfolding fs'_def using item_sort [of fs k] keys by simp
  have items: "item fs' ''manifest'' = json_sort d" "item fs' ''payload'' = JStr (b64encode (vp_payload r))"
      "item fs' ''signature'' = JStr (b64encode signature)"
    unfolding it by (simp_all add: fs_def item_def)
  have decoded: "decode_manifest env (json_sort d) = Inr (vp_manifest r)"
    using decode_manifest_document [OF doc] g by simp
  have b64: "continuity_base64 ED25519_SIGNATURE_BYTES (JStr (b64encode signature)) = Inr signature"
      "continuity_base64 MAX_CONTINUITY_PAYLOAD_BYTES (JStr (b64encode (vp_payload r))) = Inr (vp_payload r)"
    using len g by (simp_all add: continuity_base64_iff)
  have check: "json_dumps (JObj [(''manifest'', json_sort d), (''signature'', JStr (b64encode signature))]) = vp_checkpoint r"
    using sort_checkpoint [of "json_sort d" d signature] json_sort_idem(1) [of d] g by (simp add: checkpoint_json_def)
  show ?thesis
    unfolding verify_continuity_package_def sd closed bindE.simps items decoded b64 document_dates(2,3) [OF doc] assms(1) check
    using g by simp
qed

lemma verify_iff:
  "verify_continuity_package env package scope trust now = Inr r \<longleftrightarrow>
     (\<exists>t document signature. continuity_utc now = Inr t \<and> genuine_package env package scope trust t r document signature)"
  using verify_genuine genuine_verify by blast

end
