(* ===== verification/Continuity_Known.thy ===== *)
theory Continuity_Known
  imports Continuity_Facts
begin

text \<open>
  The protected history of an offline host (\<open>src/src/maru/scheduling/continuity_known_state.py\<close>): the
  latest accepted checkpoint, the last checkpoint that named a release pointer, and the time of the
  last verification. A package older than this history is refused; an accepted one becomes its latest
  entry.
\<close>

section \<open>Reading the history\<close>

definition CONTINUITY_KNOWN_STATE_CONTRACT :: string where
  "CONTINUITY_KNOWN_STATE_CONTRACT = ''scheduling.programme-continuity-known-state@1''"

definition MAX_KNOWN_STATE_BYTES :: nat where
  "MAX_KNOWN_STATE_BYTES = 2 * MAX_CONTINUITY_CHECKPOINT_BYTES + 1024"

definition known_checkpoint :: "'sk continuity_env \<Rightarrow> ContinuityScope \<Rightarrow> ContinuityTrustKey list \<Rightarrow> json
     \<Rightarrow> continuity_error + ContinuityManifest" where
  "known_checkpoint env expected_scope trust value =
     bindE (closed_json [''manifest'', ''signature''] MAX_CONTINUITY_CHECKPOINT_BYTES (json_dumps value)) (\<lambda>data.
     bindE (decode_manifest env (item data ''manifest'')) (\<lambda>manifest.
     if (mf_scope manifest)\<lparr>sc_layers := []\<rparr> \<noteq> expected_scope\<lparr>sc_layers := []\<rparr> then Inl ContinuityInvalidError
     else
       bindE (continuity_base64 ED25519_SIGNATURE_BYTES (item data ''signature'')) (\<lambda>signature.
       bindE (trusted_signature env manifest signature trust) (\<lambda>_. Inr manifest))))"

definition high_water_fits :: "ContinuityManifest \<Rightarrow> ContinuityManifest option \<Rightarrow> continuity_error + unit" where
  "high_water_fits latest high_water =
     (case high_water of
        None \<Rightarrow> requireE (mf_pointer_version latest = None)
      | Some high \<Rightarrow>
          if mf_pointer_version high = None then Inl ContinuityInvalidError else
          bindE (continuity_utc (mf_observed_at high)) (\<lambda>high_observed.
          bindE (continuity_utc (mf_observed_at latest)) (\<lambda>observed.
          bindE (continuity_utc (mf_issued_at high)) (\<lambda>high_issued.
          bindE (continuity_utc (mf_issued_at latest)) (\<lambda>issued.
          requireE (\<not> observed < high_observed \<and> \<not> issued < high_issued
            \<and> (mf_pointer_version latest = None \<or> mf_pointer_version latest = mf_pointer_version high)))))))"

definition known_history :: "'sk continuity_env \<Rightarrow> ContinuityScope \<Rightarrow> ContinuityTrustKey list \<Rightarrow> string
     \<Rightarrow> continuity_error + ((string \<times> json) list \<times> ContinuityManifest \<times> ContinuityManifest option)" where
  "known_history env expected_scope trust data =
     bindE (closed_json [''contract'', ''latest'', ''release_high_water'', ''last_verified_at''] MAX_KNOWN_STATE_BYTES data) (\<lambda>document.
     if item document ''contract'' \<noteq> JStr CONTINUITY_KNOWN_STATE_CONTRACT then Inl ContinuityInvalidError else
     bindE (known_checkpoint env expected_scope trust (item document ''latest'')) (\<lambda>latest.
     bindE (continuity_utc (mf_issued_at latest)) (\<lambda>issued.
     bindE (continuity_date (item document ''last_verified_at'')) (\<lambda>last_verified.
     bindE (continuity_utc (mf_expires_at latest)) (\<lambda>expires.
     if \<not> (issued \<le> last_verified \<and> last_verified < expires) then Inl ContinuityInvalidError else
     bindE (if item document ''release_high_water'' = JNull then Inr None
            else bindE (known_checkpoint env expected_scope trust (item document ''release_high_water'')) (\<lambda>m. Inr (Some m)))
       (\<lambda>high_water.
     bindE (high_water_fits latest high_water) (\<lambda>_. Inr (document, latest, high_water))))))))"

section \<open>Comparing\<close>

text \<open>A pointer of a checked manifest is none or an integer.\<close>

definition pointer_less :: "py_number option \<Rightarrow> py_number option \<Rightarrow> bool" where
  "pointer_less a b = (case (a, b) of (Some (PyInt m), Some (PyInt n)) \<Rightarrow> m < n | _ \<Rightarrow> False)"

definition not_older :: "ContinuityManifest \<Rightarrow> ContinuityManifest \<Rightarrow> ContinuityManifest option \<Rightarrow> continuity_error + unit" where
  "not_older current latest high_water =
     bindE (continuity_utc (mf_observed_at current)) (\<lambda>observed.
     bindE (continuity_utc (mf_issued_at current)) (\<lambda>issued.
     bindE (continuity_utc (mf_observed_at latest)) (\<lambda>old_observed.
     bindE (continuity_utc (mf_issued_at latest)) (\<lambda>old_issued.
     if observed < old_observed \<or> issued < old_issued then Inl ContinuitySupersededError
     else if observed = old_observed \<and> current \<noteq> latest then Inl ContinuityInvalidError
     else if (case high_water of None \<Rightarrow> False | Some high \<Rightarrow> pointer_less (mf_pointer_version current) (mf_pointer_version high))
     then Inl ContinuitySupersededError
     else Inr ()))))"

section \<open>Verifying against the history\<close>

definition known_json :: "json \<Rightarrow> json \<Rightarrow> instant \<Rightarrow> json" where
  "known_json checkpoint high_checkpoint now = JObj
     [(''contract'', JStr CONTINUITY_KNOWN_STATE_CONTRACT),
      (''latest'', checkpoint),
      (''release_high_water'', high_checkpoint),
      (''last_verified_at'', JStr (isoformat now))]"

text \<open>\<open>json.loads(verified.checkpoint)\<close> reads what \<open>verify_continuity_package\<close> printed and never raises.\<close>

definition verify_continuity_with_known_state :: "'sk continuity_env \<Rightarrow> string \<Rightarrow> ContinuityScope \<Rightarrow> ContinuityTrustKey list
     \<Rightarrow> py_instant \<Rightarrow> string option \<Rightarrow> bool typed \<Rightarrow> continuity_error + (VerifiedContinuityPackage \<times> string)" where
  "verify_continuity_with_known_state env package expected_scope trust now known_state initialize =
     bindE (scope_document expected_scope) (\<lambda>_.
     if initialize = Untyped \<or> (initialize = Typed True \<and> known_state \<noteq> None) then Inl ContinuityInvalidError else
     bindE (verify_continuity_package env package expected_scope trust now) (\<lambda>verified.
     (case json_loads (vp_checkpoint verified) of
        None \<Rightarrow> Inl ContinuityInvalidError
      | Some checkpoint \<Rightarrow>
          bindE (case known_state of
              None \<Rightarrow>
                if initialize \<noteq> Typed True then Inl ContinuityInvalidError
                else Inr (if mf_pointer_version (vp_manifest verified) \<noteq> None then checkpoint else JNull)
            | Some known_state \<Rightarrow>
                bindE (known_history env expected_scope trust known_state) (\<lambda>(document, latest, high_water).
                bindE (continuity_utc now) (\<lambda>t.
                bindE (continuity_date (item document ''last_verified_at'')) (\<lambda>last_verified.
                if t < last_verified then Inl ContinuityInvalidError else
                bindE (not_older (vp_manifest verified) latest high_water) (\<lambda>_.
                Inr (if mf_pointer_version (vp_manifest verified) \<noteq> None then checkpoint
                     else item document ''release_high_water'')))))) (\<lambda>high_checkpoint.
          bindE (continuity_utc now) (\<lambda>t.
          let result = json_dumps (known_json checkpoint high_checkpoint t) in
          if MAX_KNOWN_STATE_BYTES < length result then Inl ContinuityInvalidError
          else Inr (verified, result))))))"

section \<open>Checkpoints\<close>

text \<open>A manifest that the trust accepts with a signature, for the purpose of a scope.\<close>

definition trusted_checkpoint :: "'sk continuity_env \<Rightarrow> ContinuityScope \<Rightarrow> ContinuityTrustKey list \<Rightarrow> ContinuityManifest \<Rightarrow> json \<Rightarrow> bool" where
  "trusted_checkpoint env scope trust m value \<longleftrightarrow>
     (\<exists>d signature. value = json_sort (checkpoint_json d signature) \<and> manifest_document env m = Inr d \<and> normal_manifest m = m
       \<and> (mf_scope m)\<lparr>sc_layers := []\<rparr> = scope\<lparr>sc_layers := []\<rparr> \<and> trusted_signature env m signature trust = Inr ())"

lemma checkpoint_bytes:
  assumes "manifest_document env m = Inr d" and "length signature = ED25519_SIGNATURE_BYTES"
  shows "json_bytes (checkpoint_json d signature) \<le> MAX_CONTINUITY_CHECKPOINT_BYTES"
  using manifest_bytes [OF assms(1)] assms(2)
  by (simp add: checkpoint_json_def literal_bytes b64encode_bytes ED25519_SIGNATURE_BYTES_def MAX_CONTINUITY_CHECKPOINT_BYTES_def)

lemma checkpoint_keys: "manifest_document env m = Inr d \<Longrightarrow> json_keys (checkpoint_json d signature)"
  using manifest_json_keys by (simp add: checkpoint_json_def)

lemma trusted_checkpoint_facts:
  assumes "trusted_checkpoint env scope trust m value"
  shows "json_keys value" "json_sort value = value" "json_bytes value \<le> MAX_CONTINUITY_CHECKPOINT_BYTES" "value \<noteq> JNull"
proof -
  obtain d signature where v: "value = json_sort (checkpoint_json d signature)" "manifest_document env m = Inr d"
      "trusted_signature env m signature trust = Inr ()"
    using assms by (auto simp: trusted_checkpoint_def)
  show "json_keys value" using v(1) checkpoint_keys [OF v(2)] by (simp add: json_keys_sort)
  show "json_sort value = value" by (simp add: v(1) json_sort_idem)
  show "json_bytes value \<le> MAX_CONTINUITY_CHECKPOINT_BYTES"
    using checkpoint_bytes [OF v(2) trusted_length [OF v(3)]] by (simp add: v(1) json_bytes_sort)
  show "value \<noteq> JNull" by (simp add: v(1) checkpoint_json_def)
qed

lemma known_checkpoint_reads:
  assumes "trusted_checkpoint env scope trust m value"
  shows "known_checkpoint env scope trust value = Inr m"
proof -
  obtain d signature where v: "value = json_sort (checkpoint_json d signature)" "manifest_document env m = Inr d" "normal_manifest m = m"
      "(mf_scope m)\<lparr>sc_layers := []\<rparr> = scope\<lparr>sc_layers := []\<rparr>" "trusted_signature env m signature trust = Inr ()"
    using assms by (auto simp: trusted_checkpoint_def)
  define fs where "fs = [(''manifest'', d), (''signature'', JStr (b64encode signature))]"
  have fs: "checkpoint_json d signature = JObj fs" by (simp add: checkpoint_json_def fs_def)
  have same: "json_dumps value = json_dumps (JObj fs)" by (simp only: v(1) fs json_dumps_eq json_sort_idem)
  have keys: "json_keys (JObj fs)" using checkpoint_keys [OF v(2)] fs by metis
  define fs' where "fs' = sort_key fst (json_sort_fields fs)"
  have closed: "closed_json [''manifest'', ''signature''] MAX_CONTINUITY_CHECKPOINT_BYTES (json_dumps value) = Inr fs'"
    unfolding same fs'_def
  proof (rule closed_json_dumps [OF keys])
    show "length (json_dumps (JObj fs)) \<le> MAX_CONTINUITY_CHECKPOINT_BYTES"
      using length_json_dumps [of "JObj fs"] checkpoint_bytes [OF v(2) trusted_length [OF v(5)]] fs by simp
  qed (simp add: fs_def)
  have it: "item fs' k = json_sort (item fs k)" for k
    unfolding fs'_def using item_sort [of fs k] keys by simp
  have items: "item fs' ''manifest'' = json_sort d" "item fs' ''signature'' = JStr (b64encode signature)"
    unfolding it by (simp_all add: fs_def item_def)
  have "continuity_base64 ED25519_SIGNATURE_BYTES (JStr (b64encode signature)) = Inr signature"
    using trusted_length [OF v(5)] by (simp add: continuity_base64_iff)
  moreover have "decode_manifest env (json_sort d) = Inr m" using decode_manifest_document [OF v(2)] v(3) by simp
  ultimately show ?thesis
    unfolding known_checkpoint_def closed by (simp add: items v(4,5))
qed

section \<open>Histories\<close>

text \<open>What a well-formed history records, and that it reads back as recorded.\<close>

definition high_checkpoint :: "'sk continuity_env \<Rightarrow> ContinuityScope \<Rightarrow> ContinuityTrustKey list \<Rightarrow> ContinuityManifest option \<Rightarrow> json \<Rightarrow> bool" where
  "high_checkpoint env scope trust high value =
     (case high of None \<Rightarrow> value = JNull | Some m \<Rightarrow> trusted_checkpoint env scope trust m value)"

definition records_history :: "'sk continuity_env \<Rightarrow> ContinuityScope \<Rightarrow> ContinuityTrustKey list \<Rightarrow> ContinuityManifest
     \<Rightarrow> ContinuityManifest option \<Rightarrow> instant \<Rightarrow> json \<Rightarrow> json \<Rightarrow> bool" where
  "records_history env scope trust latest high t lv hv \<longleftrightarrow>
     trusted_checkpoint env scope trust latest lv \<and> high_checkpoint env scope trust high hv
     \<and> high_water_fits latest high = Inr () \<and> valid_instant t
     \<and> utc_of (mf_issued_at latest) \<le> t \<and> t < utc_of (mf_expires_at latest)"

lemma high_checkpoint_facts:
  assumes "high_checkpoint env scope trust high value"
  shows "json_keys value" "json_sort value = value" "json_bytes value \<le> MAX_CONTINUITY_CHECKPOINT_BYTES"
  using assms trusted_checkpoint_facts
  by (auto simp: high_checkpoint_def MAX_CONTINUITY_CHECKPOINT_BYTES_def split: option.splits)

lemma known_literal_bytes: "text_bytes ''latest'' = 6" "text_bytes ''release_high_water'' = 18" "text_bytes ''last_verified_at'' = 16"
  "text_bytes CONTINUITY_KNOWN_STATE_CONTRACT = 45"
  by (simp_all add: text_bytes_plain plain_char_def CONTINUITY_KNOWN_STATE_CONTRACT_def)

lemma known_bytes:
  assumes "json_bytes lv \<le> MAX_CONTINUITY_CHECKPOINT_BYTES" and "json_bytes hv \<le> MAX_CONTINUITY_CHECKPOINT_BYTES"
  shows "length (json_dumps (known_json lv hv t)) \<le> MAX_KNOWN_STATE_BYTES"
proof -
  have "json_bytes (known_json lv hv t) \<le> MAX_KNOWN_STATE_BYTES"
    using assms isoformat_bytes [of t]
    by (simp add: known_json_def literal_bytes known_literal_bytes MAX_KNOWN_STATE_BYTES_def)
  then show ?thesis using length_json_dumps order_trans by blast
qed

lemma known_history_reads:
  assumes "records_history env scope trust latest high t lv hv"
  shows "\<exists>document. known_history env scope trust (json_dumps (known_json lv hv t)) = Inr (document, latest, high)
    \<and> item document ''release_high_water'' = hv \<and> item document ''last_verified_at'' = JStr (isoformat t)"
proof -
  note r = assms [unfolded records_history_def]
  have lv: "trusted_checkpoint env scope trust latest lv" and hv: "high_checkpoint env scope trust high hv" using r by blast+
  define fs where "fs = [(''contract'', JStr CONTINUITY_KNOWN_STATE_CONTRACT), (''latest'', lv), (''release_high_water'', hv),
      (''last_verified_at'', JStr (isoformat t))]"
  have fs: "known_json lv hv t = JObj fs" by (simp add: known_json_def fs_def)
  have keys: "json_keys (JObj fs)" using trusted_checkpoint_facts(1) [OF lv] high_checkpoint_facts(1) [OF hv] by (simp add: fs_def)
  define fs' where "fs' = sort_key fst (json_sort_fields fs)"
  have closed: "closed_json [''contract'', ''latest'', ''release_high_water'', ''last_verified_at''] MAX_KNOWN_STATE_BYTES
      (json_dumps (JObj fs)) = Inr fs'"
    unfolding fs'_def
    using known_bytes [OF trusted_checkpoint_facts(3) [OF lv] high_checkpoint_facts(3) [OF hv], of t, unfolded fs]
    by (rule closed_json_dumps [OF keys]) (simp add: fs_def)
  have it: "item fs' k = json_sort (item fs k)" for k
    unfolding fs'_def using item_sort [of fs k] keys by simp
  have items: "item fs' ''contract'' = JStr CONTINUITY_KNOWN_STATE_CONTRACT" "item fs' ''latest'' = lv"
      "item fs' ''release_high_water'' = hv" "item fs' ''last_verified_at'' = JStr (isoformat t)"
    unfolding it by (simp_all add: fs_def item_def trusted_checkpoint_facts(2) [OF lv] high_checkpoint_facts(2) [OF hv])
  obtain d where d: "manifest_document env latest = Inr d" using lv by (auto simp: trusted_checkpoint_def)
  have high: "(if hv = JNull then Inr None else bindE (known_checkpoint env scope trust hv) (\<lambda>m. Inr (Some m))) = Inr high"
    using hv known_checkpoint_reads trusted_checkpoint_facts(4) by (fastforce simp: high_checkpoint_def split: option.splits)
  have date: "continuity_date (JStr (isoformat t)) = Inr t" using r by (simp add: continuity_date_iff)
  have "known_history env scope trust (json_dumps (known_json lv hv t)) = Inr (fs', latest, high)"
    unfolding known_history_def fs closed bindE.simps items known_checkpoint_reads [OF lv] document_dates(2,3) [OF d] date high
    using r by simp
  then show ?thesis using items by blast
qed

text \<open>Conversely, a history that is read is the canonical record of what it was read as.\<close>

lemma known_checkpoint_Inr:
  assumes "known_checkpoint env scope trust value = Inr m" and "json_sort value = value"
  shows "trusted_checkpoint env scope trust m value"
proof -
  obtain data signature where data: "closed_json [''manifest'', ''signature''] MAX_CONTINUITY_CHECKPOINT_BYTES (json_dumps value) = Inr data"
    and m: "decode_manifest env (item data ''manifest'') = Inr m" "(mf_scope m)\<lparr>sc_layers := []\<rparr> = scope\<lparr>sc_layers := []\<rparr>"
    and signature: "item data ''signature'' = JStr (b64encode signature)" "trusted_signature env m signature trust = Inr ()"
    using assms(1) by (auto simp: known_checkpoint_def bindE_eq_Inr continuity_base64_iff split: if_splits)
  obtain d where d: "manifest_document env m = Inr d" "json_sort d = json_sort (item data ''manifest'')" "normal_manifest m = m"
    by (rule decode_manifest_Inr [OF m(1)])
  have "json_dumps value = json_dumps (JObj (map (\<lambda>k. (k, item data k)) [''manifest'', ''signature'']))"
    by (rule closed_json_Inr(1) [OF data]) simp
  also have "\<dots> = json_dumps (checkpoint_json d signature)"
    using sort_checkpoint [OF d(2), of signature] by (simp add: checkpoint_json_def signature(1))
  finally have "value = json_sort (checkpoint_json d signature)" using assms(2) by (simp add: json_dumps_eq)
  then show ?thesis using d(1,3) m(2) signature(2) by (auto simp: trusted_checkpoint_def)
qed

lemma known_history_Inr:
  assumes "known_history env scope trust data = Inr (document, latest, high)"
  obtains t lv hv where "records_history env scope trust latest high t lv hv" "data = json_dumps (known_json lv hv t)"
    "continuity_date (item document ''last_verified_at'') = Inr t"
proof -
  obtain issued t expires where
    closed: "closed_json [''contract'', ''latest'', ''release_high_water'', ''last_verified_at''] MAX_KNOWN_STATE_BYTES data = Inr document" and
    c: "item document ''contract'' = JStr CONTINUITY_KNOWN_STATE_CONTRACT" and
    l: "known_checkpoint env scope trust (item document ''latest'') = Inr latest" and
    times: "continuity_utc (mf_issued_at latest) = Inr issued" "continuity_date (item document ''last_verified_at'') = Inr t"
      "continuity_utc (mf_expires_at latest) = Inr expires" "issued \<le> t" "t < expires" and
    h: "(if item document ''release_high_water'' = JNull then Inr None
       else bindE (known_checkpoint env scope trust (item document ''release_high_water'')) (\<lambda>m. Inr (Some m))) = Inr high" and
    fits: "high_water_fits latest high = Inr ()"
    using assms by (auto simp: known_history_def bindE_eq_Inr split: if_splits)
  have leaf: "json_sort (item document k) = item document k" for k
    by (rule closed_json_Inr(4) [OF closed]) simp
  have date: "item document ''last_verified_at'' = JStr (isoformat t)" "valid_instant t"
    using times(2) by (simp_all add: continuity_date_iff)
  have "data = json_dumps (JObj (map (\<lambda>k. (k, item document k)) [''contract'', ''latest'', ''release_high_water'', ''last_verified_at'']))"
    by (rule closed_json_Inr(1) [OF closed]) simp
  then have data: "data = json_dumps (known_json (item document ''latest'') (item document ''release_high_water'') t)"
    by (simp add: known_json_def c date)
  have "high_checkpoint env scope trust high (item document ''release_high_water'')"
    using h known_checkpoint_Inr [OF _ leaf] by (auto simp: high_checkpoint_def bindE_eq_Inr split: if_splits)
  then have "records_history env scope trust latest high t (item document ''latest'') (item document ''release_high_water'')"
    using known_checkpoint_Inr [OF l leaf] fits times date(2) by (simp add: records_history_def utc_of_def)
  then show ?thesis using that data times(2) by blast
qed

section \<open>One step\<close>

text \<open>A verification that succeeds leaves a history that records the accepted manifest.\<close>

definition next_high :: "ContinuityManifest \<Rightarrow> ContinuityManifest option \<Rightarrow> ContinuityManifest option" where
  "next_high m high = (if mf_pointer_version m \<noteq> None then Some m else high)"

lemma accepted_checkpoint:
  assumes "verify_continuity_package env package scope trust now = Inr v"
  obtains lv t where "json_loads (vp_checkpoint v) = Some lv" "trusted_checkpoint env scope trust (vp_manifest v) lv"
    "continuity_utc now = Inr t" "valid_instant t" "utc_of (mf_issued_at (vp_manifest v)) \<le> t" "t < utc_of (mf_expires_at (vp_manifest v))"
    "scope_document scope \<noteq> Inl e"
proof -
  obtain t d signature where g: "continuity_utc now = Inr t" "genuine_package env package scope trust t v d signature"
    using verify_genuine [OF assms] by blast
  note g' = g(2) [unfolded genuine_package_def]
  have doc: "manifest_document env (vp_manifest v) = Inr d" using g' by blast
  have "json_loads (vp_checkpoint v) = Some (json_sort (checkpoint_json d signature))"
    using json_loads_dumps [OF checkpoint_keys [OF doc]] g' by simp
  moreover have "trusted_checkpoint env scope trust (vp_manifest v) (json_sort (checkpoint_json d signature))"
    using g' by (auto simp: trusted_checkpoint_def)
  moreover have "scope_document scope \<noteq> Inl e" using doc g' unfolding manifest_document_Inr by auto
  ultimately show ?thesis using that g(1) continuity_utc_valid [OF g(1)] g' by blast
qed

lemma trusted_dates:
  assumes "trusted_checkpoint env scope trust m value"
  shows "continuity_utc (mf_observed_at m) = Inr (utc_of (mf_observed_at m))" "continuity_utc (mf_issued_at m) = Inr (utc_of (mf_issued_at m))"
  using assms document_dates by (auto simp: trusted_checkpoint_def)

lemma not_older_Inr:
  assumes "trusted_checkpoint env scope trust m mv" and "trusted_checkpoint env scope trust latest lv"
  shows "not_older m latest high = Inr u \<longleftrightarrow> utc_of (mf_observed_at latest) \<le> utc_of (mf_observed_at m)
    \<and> utc_of (mf_issued_at latest) \<le> utc_of (mf_issued_at m)
    \<and> (utc_of (mf_observed_at m) = utc_of (mf_observed_at latest) \<longrightarrow> m = latest)
    \<and> (\<forall>h. high = Some h \<longrightarrow> \<not> pointer_less (mf_pointer_version m) (mf_pointer_version h))"
  using trusted_dates [OF assms(1)] trusted_dates [OF assms(2)] by (auto simp: not_older_def split: option.splits)

lemma high_water_next:
  assumes m: "trusted_checkpoint env scope trust m mv" and latest: "trusted_checkpoint env scope trust latest lv"
    and high: "high_checkpoint env scope trust high hv" and "high_water_fits latest high = Inr ()"
    and "not_older m latest high = Inr ()"
  shows "high_water_fits m (next_high m high) = Inr ()"
proof (cases "mf_pointer_version m = None")
  case True
  show ?thesis
  proof (cases high)
    case (Some h)
    then have "trusted_checkpoint env scope trust h hv" using high by (simp add: high_checkpoint_def)
    from trusted_dates [OF this] show ?thesis
      using assms(4,5) True unfolding not_older_Inr [OF m latest]
      by (auto simp: high_water_fits_def next_high_def Some trusted_dates [OF m] trusted_dates [OF latest] split: if_splits)
  qed (simp add: high_water_fits_def next_high_def True)
next
  case False
  then show ?thesis by (auto simp: high_water_fits_def next_high_def trusted_dates [OF m])
qed

lemma first_step:
  assumes "verify_continuity_with_known_state env package scope trust now None initialize = Inr (v, s)"
  obtains t lv hv where "initialize = Typed True" "verify_continuity_package env package scope trust now = Inr v"
    "records_history env scope trust (vp_manifest v) (next_high (vp_manifest v) None) t lv hv"
    "s = json_dumps (known_json lv hv t)" "continuity_utc now = Inr t"
proof -
  have v: "verify_continuity_package env package scope trust now = Inr v"
    using assms by (auto simp: verify_continuity_with_known_state_def bindE_eq_Inr Let_def split: if_splits option.splits)
  obtain lv t where a: "json_loads (vp_checkpoint v) = Some lv" "trusted_checkpoint env scope trust (vp_manifest v) lv"
    "continuity_utc now = Inr t" "valid_instant t" "utc_of (mf_issued_at (vp_manifest v)) \<le> t" "t < utc_of (mf_expires_at (vp_manifest v))"
    by (rule accepted_checkpoint [OF v])
  define hv where "hv = (if mf_pointer_version (vp_manifest v) \<noteq> None then lv else JNull)"
  have s: "initialize = Typed True" "s = json_dumps (known_json lv hv t)"
    using assms by (auto simp: verify_continuity_with_known_state_def bindE_eq_Inr Let_def v a(1,3) hv_def split: if_splits)
  have "high_checkpoint env scope trust (next_high (vp_manifest v) None) hv"
    using a(2) by (simp add: high_checkpoint_def next_high_def hv_def)
  moreover have "high_water_fits (vp_manifest v) (next_high (vp_manifest v) None) = Inr ()"
    by (auto simp: high_water_fits_def next_high_def trusted_dates [OF a(2)])
  ultimately have "records_history env scope trust (vp_manifest v) (next_high (vp_manifest v) None) t lv hv"
    using a by (simp add: records_history_def)
  then show ?thesis using that s v a(3) by blast
qed

lemma next_step:
  assumes h: "records_history env scope trust latest high t0 lv0 hv0"
    and step: "verify_continuity_with_known_state env package scope trust now (Some (json_dumps (known_json lv0 hv0 t0))) initialize = Inr (v, s)"
  obtains t lv hv where "verify_continuity_package env package scope trust now = Inr v" "continuity_utc now = Inr t" "t0 \<le> t"
    "not_older (vp_manifest v) latest high = Inr ()" "trusted_checkpoint env scope trust (vp_manifest v) lv"
    "records_history env scope trust (vp_manifest v) (next_high (vp_manifest v) high) t lv hv"
    "s = json_dumps (known_json lv hv t)"
proof -
  obtain document where known: "known_history env scope trust (json_dumps (known_json lv0 hv0 t0)) = Inr (document, latest, high)"
      "item document ''release_high_water'' = hv0" "item document ''last_verified_at'' = JStr (isoformat t0)"
    using known_history_reads [OF h] by blast
  note r = h [unfolded records_history_def]
  have v: "verify_continuity_package env package scope trust now = Inr v"
    using step by (auto simp: verify_continuity_with_known_state_def bindE_eq_Inr Let_def split: if_splits option.splits)
  obtain lv t where a: "json_loads (vp_checkpoint v) = Some lv" "trusted_checkpoint env scope trust (vp_manifest v) lv"
    "continuity_utc now = Inr t" "valid_instant t" "utc_of (mf_issued_at (vp_manifest v)) \<le> t" "t < utc_of (mf_expires_at (vp_manifest v))"
    by (rule accepted_checkpoint [OF v])
  have date: "continuity_date (JStr (isoformat t0)) = Inr t0" using r by (simp add: continuity_date_iff)
  define hv where "hv = (if mf_pointer_version (vp_manifest v) \<noteq> None then lv else hv0)"
  have s: "t0 \<le> t" "not_older (vp_manifest v) latest high = Inr ()" "s = json_dumps (known_json lv hv t)"
    using step by (auto simp: verify_continuity_with_known_state_def bindE_eq_Inr Let_def v a(1,3) known date hv_def split: if_splits)
  have "high_checkpoint env scope trust (next_high (vp_manifest v) high) hv"
    using a(2) r by (cases "mf_pointer_version (vp_manifest v)") (auto simp: high_checkpoint_def next_high_def hv_def)
  moreover have "high_water_fits (vp_manifest v) (next_high (vp_manifest v) high) = Inr ()"
    using high_water_next a(2) r s(2) by blast
  ultimately have "records_history env scope trust (vp_manifest v) (next_high (vp_manifest v) high) t lv hv"
    using a by (simp add: records_history_def)
  then show ?thesis using that s v a(2,3) by blast
qed

text \<open>Everything a step needs: an acceptable package that is not older than the history.\<close>

lemma step_accepts:
  assumes h: "records_history env scope trust latest high t0 lv0 hv0"
    and v: "verify_continuity_package env package scope trust now = Inr v" and "continuity_utc now = Inr t" "t0 \<le> t"
    and older: "not_older (vp_manifest v) latest high = Inr ()"
  shows "\<exists>s. verify_continuity_with_known_state env package scope trust now (Some (json_dumps (known_json lv0 hv0 t0))) (Typed False) = Inr (v, s)"
proof -
  obtain document where known: "known_history env scope trust (json_dumps (known_json lv0 hv0 t0)) = Inr (document, latest, high)"
      "item document ''release_high_water'' = hv0" "item document ''last_verified_at'' = JStr (isoformat t0)"
    using known_history_reads [OF h] by blast
  note r = h [unfolded records_history_def]
  obtain lv where a: "json_loads (vp_checkpoint v) = Some lv" "trusted_checkpoint env scope trust (vp_manifest v) lv"
    using accepted_checkpoint [OF v] by metis
  obtain sd where sd: "scope_document scope = Inr sd"
    using v by (auto simp: verify_continuity_package_def bindE_eq_Inr)
  have date: "continuity_date (JStr (isoformat t0)) = Inr t0" using r by (simp add: continuity_date_iff)
  have "json_bytes (if mf_pointer_version (vp_manifest v) \<noteq> None then lv else hv0) \<le> MAX_CONTINUITY_CHECKPOINT_BYTES"
    using trusted_checkpoint_facts(3) [OF a(2)] high_checkpoint_facts(3) r by auto
  from known_bytes [OF trusted_checkpoint_facts(3) [OF a(2)] this, of t] show ?thesis
    using assms(3,4) older
    by (auto simp: verify_continuity_with_known_state_def sd v a(1) known date Let_def not_less)
qed

lemma first_accepts:
  assumes v: "verify_continuity_package env package scope trust now = Inr v"
  shows "\<exists>s. verify_continuity_with_known_state env package scope trust now None (Typed True) = Inr (v, s)"
proof -
  obtain lv t where a: "json_loads (vp_checkpoint v) = Some lv" "trusted_checkpoint env scope trust (vp_manifest v) lv" "continuity_utc now = Inr t"
    by (rule accepted_checkpoint [OF v])
  obtain sd where sd: "scope_document scope = Inr sd"
    using v by (auto simp: verify_continuity_package_def bindE_eq_Inr)
  have "json_bytes (if mf_pointer_version (vp_manifest v) \<noteq> None then lv else JNull) \<le> MAX_CONTINUITY_CHECKPOINT_BYTES"
    using trusted_checkpoint_facts(3) [OF a(2)] by (simp add: MAX_CONTINUITY_CHECKPOINT_BYTES_def)
  from known_bytes [OF trusted_checkpoint_facts(3) [OF a(2)] this, of t] show ?thesis
    by (auto simp: verify_continuity_with_known_state_def sd v a Let_def not_less)
qed

text \<open>Whatever the history was, a verification that succeeds leaves one that records its manifest.\<close>

lemma verified_step:
  assumes "verify_continuity_with_known_state env package scope trust now known initialize = Inr (v, s)"
  obtains t high lv hv where "verify_continuity_package env package scope trust now = Inr v" "continuity_utc now = Inr t"
    "records_history env scope trust (vp_manifest v) (next_high (vp_manifest v) high) t lv hv" "s = json_dumps (known_json lv hv t)"
proof (cases known)
  case None
  show ?thesis
    by (rule first_step [OF assms [unfolded None]]) (rule that)
next
  case (Some data)
  then obtain document latest high where "known_history env scope trust data = Inr (document, latest, high)"
    using assms by (auto simp: verify_continuity_with_known_state_def bindE_eq_Inr split: if_splits option.splits)
  then obtain t0 lv0 hv0 where h: "records_history env scope trust latest high t0 lv0 hv0" "data = json_dumps (known_json lv0 hv0 t0)"
    by (rule known_history_Inr)
  show ?thesis
    by (rule next_step [OF h(1) assms [unfolded Some h(2)]]) (rule that)
qed

section \<open>Runs\<close>

text \<open>
  A host that keeps the history and tries one package after the other: a refused package changes
  nothing, an accepted one is shown and its history kept.
\<close>

fun shown_packages :: "'sk continuity_env \<Rightarrow> ContinuityScope \<Rightarrow> ContinuityTrustKey list \<Rightarrow> string \<Rightarrow> (string \<times> py_instant) list
     \<Rightarrow> VerifiedContinuityPackage list" where
  "shown_packages env scope trust known [] = []"
| "shown_packages env scope trust known ((package, now) # rest) =
     (case verify_continuity_with_known_state env package scope trust now (Some known) (Typed False) of
        Inl e \<Rightarrow> shown_packages env scope trust known rest
      | Inr (v, next) \<Rightarrow> v # shown_packages env scope trust next rest)"

definition pointer_value :: "ContinuityManifest \<Rightarrow> int option" where
  "pointer_value m = (case mf_pointer_version m of Some (PyInt n) \<Rightarrow> Some n | _ \<Rightarrow> None)"

text \<open>\<open>b\<close> may follow \<open>a\<close>: observed and issued no earlier, no lower release pointer, and no other facts
  at one instant of observation.\<close>

definition no_rollback :: "ContinuityManifest \<Rightarrow> ContinuityManifest \<Rightarrow> bool" where
  "no_rollback a b \<longleftrightarrow> utc_of (mf_observed_at a) \<le> utc_of (mf_observed_at b) \<and> utc_of (mf_issued_at a) \<le> utc_of (mf_issued_at b)
     \<and> (utc_of (mf_observed_at a) = utc_of (mf_observed_at b) \<longrightarrow> a = b)
     \<and> (\<forall>p q. pointer_value a = Some p \<longrightarrow> pointer_value b = Some q \<longrightarrow> p \<le> q)"

definition covered_by :: "ContinuityManifest \<Rightarrow> ContinuityManifest option \<Rightarrow> ContinuityManifest \<Rightarrow> bool" where
  "covered_by latest high a \<longleftrightarrow> utc_of (mf_observed_at a) \<le> utc_of (mf_observed_at latest) \<and> utc_of (mf_issued_at a) \<le> utc_of (mf_issued_at latest)
     \<and> (utc_of (mf_observed_at a) = utc_of (mf_observed_at latest) \<longrightarrow> a = latest)
     \<and> (\<forall>p. pointer_value a = Some p \<longrightarrow> (\<exists>h q. high = Some h \<and> pointer_value h = Some q \<and> p \<le> q))"

lemma pointer_less_iff: "\<not> pointer_less (mf_pointer_version a) (mf_pointer_version b) \<longleftrightarrow>
   (\<forall>p q. pointer_value a = Some p \<longrightarrow> pointer_value b = Some q \<longrightarrow> q \<le> p)"
  by (auto simp: pointer_less_def pointer_value_def split: option.splits py_number.splits)

lemma trusted_pointer:
  assumes "trusted_checkpoint env scope trust m value"
  shows "mf_pointer_version m = None \<longleftrightarrow> pointer_value m = None"
proof -
  obtain d where "manifest_document env m = Inr d" using assms by (auto simp: trusted_checkpoint_def)
  then show ?thesis
    unfolding manifest_document_Inr manifest_values_def using release_state_Inr(4) by (force simp: pointer_value_def)
qed

lemma covered_step:
  assumes "covered_by latest high a" and m: "trusted_checkpoint env scope trust m mv" and latest: "trusted_checkpoint env scope trust latest lv"
    and older: "not_older m latest high = Inr ()"
  shows "no_rollback a m" "covered_by m (next_high m high) a"
proof -
  note o = older [unfolded not_older_Inr [OF m latest] pointer_less_iff]
  note a = assms(1) [unfolded covered_by_def]
  have eq: "a = m" if "utc_of (mf_observed_at a) = utc_of (mf_observed_at m)"
    using that a o by (metis order_antisym)
  have le: "p \<le> q" if "pointer_value a = Some p" "pointer_value m = Some q" for p q
    using that a o by fastforce
  show "no_rollback a m" using a o eq le by (auto simp: no_rollback_def)
  have "\<exists>h q. next_high m high = Some h \<and> pointer_value h = Some q \<and> p \<le> q" if p: "pointer_value a = Some p" for p
    using a p le trusted_pointer [OF m] by (auto simp: next_high_def)
  then show "covered_by m (next_high m high) a" using a o eq by (auto simp: covered_by_def)
qed

lemma covered_self: "trusted_checkpoint env scope trust m mv \<Longrightarrow> covered_by m (next_high m high) m"
  using trusted_pointer [of env scope trust m mv] by (auto simp: covered_by_def next_high_def)

lemma shown_no_rollback:
  assumes "records_history env scope trust latest high t lv hv" and "\<forall>a \<in> set shown. covered_by latest high a"
    and "sorted_wrt no_rollback shown"
  shows "sorted_wrt no_rollback (shown @ map vp_manifest (shown_packages env scope trust (json_dumps (known_json lv hv t)) rest))"
  using assms
proof (induction rest arbitrary: latest high t lv hv shown)
  case (Cons pn rest)
  obtain package now where pn: "pn = (package, now)" by force
  show ?case
  proof (cases "verify_continuity_with_known_state env package scope trust now (Some (json_dumps (known_json lv hv t))) (Typed False)")
    case (Inl e)
    then show ?thesis using Cons by (simp add: pn)
  next
    case (Inr r)
    obtain v s where r: "r = (v, s)" by force
    obtain t' lv' hv' where n: "not_older (vp_manifest v) latest high = Inr ()" "trusted_checkpoint env scope trust (vp_manifest v) lv'"
      "records_history env scope trust (vp_manifest v) (next_high (vp_manifest v) high) t' lv' hv'" "s = json_dumps (known_json lv' hv' t')"
      by (rule next_step [OF Cons.prems(1) Inr [unfolded r]]) blast
    have latest: "trusted_checkpoint env scope trust latest lv" using Cons.prems(1) by (simp add: records_history_def)
    have "\<forall>a \<in> set (shown @ [vp_manifest v]). covered_by (vp_manifest v) (next_high (vp_manifest v) high) a"
      using covered_step(2) [OF _ n(2) latest n(1)] covered_self [OF n(2)] Cons.prems(2) by auto
    moreover have "sorted_wrt no_rollback (shown @ [vp_manifest v])"
      using covered_step(1) [OF _ n(2) latest n(1)] Cons.prems(2,3) by (simp add: sorted_wrt_append)
    ultimately have "sorted_wrt no_rollback ((shown @ [vp_manifest v]) @ map vp_manifest (shown_packages env scope trust s rest))"
      unfolding n(4) by (rule Cons.IH [OF n(3)])
    then show ?thesis by (simp add: pn Inr r)
  qed
qed simp

end
