(* ===== verification/Continuity_Props.thy ===== *)
theory Continuity_Props
  imports Continuity_Known
begin

text \<open>
  Properties of the continuity packages: what is signed is verified, what is verified was signed for
  the expected scope and is the one canonical encoding of its content, an offline host never shows
  older content than it has shown, and it can show again what it accepted.
\<close>

section \<open>Trust\<close>

text \<open>What signing relies on: signatures have 64 bytes and verify under the public key.\<close>

definition ed25519_contract :: "'sk continuity_env \<Rightarrow> bool" where
  "ed25519_contract env \<longleftrightarrow> (\<forall>key message signature. cv_sign env key message = Some signature \<longrightarrow>
     length signature = ED25519_SIGNATURE_BYTES \<and> cv_verify env (cv_public env key) signature message)"

definition trust_key_usable :: "ContinuityTrustKey \<Rightarrow> bool" where
  "trust_key_usable key \<longleftrightarrow> trust_key_shape key \<and>
     (case (continuity_utc (tk_not_before key), continuity_utc (tk_not_after key)) of
        (Inr not_before, Inr not_after) \<Rightarrow> not_before < not_after | _ \<Rightarrow> False)"

text \<open>A policy that \<open>_trusted_signature\<close> does not refuse whatever the manifest.\<close>

definition trust_policy :: "ContinuityTrustKey list \<Rightarrow> bool" where
  "trust_policy trust \<longleftrightarrow> 1 \<le> length trust \<and> length trust \<le> MAX_CONTINUITY_TRUST_KEYS \<and> list_all trust_key_usable trust
     \<and> distinct (map key_identity trust)"

lemma trust_matches_iff:
  "trust_matches wanted trust seen matches = Inr ms \<longleftrightarrow>
     list_all trust_key_usable trust \<and> distinct (map key_identity trust) \<and> set seen \<inter> key_identity ` set trust = {}
     \<and> ms = matches @ filter (\<lambda>k. key_identity k = wanted) trust"
proof (induction trust arbitrary: seen matches)
  case (Cons key keys)
  show ?case
  proof (cases "trust_key_usable key \<and> key_identity key \<notin> set seen")
    case True
    then obtain a b where "trust_key_shape key" "continuity_utc (tk_not_before key) = Inr a" "continuity_utc (tk_not_after key) = Inr b" "a < b"
      by (auto simp: trust_key_usable_def split: sum.splits)
    then show ?thesis using True by (auto simp: Cons)
  next
    case False
    then show ?thesis by (auto simp: trust_key_usable_def bindE_eq_Inr split: if_splits sum.splits)
  qed
qed auto

text \<open>The one key of a policy that a manifest names, when it is valid for the manifest's lifetime.\<close>

definition signing_key :: "ContinuityTrustKey list \<Rightarrow> ContinuityManifest \<Rightarrow> string \<Rightarrow> bool" where
  "signing_key trust m public \<longleftrightarrow> (\<exists>key \<in> set trust. key_identity key = manifest_identity m \<and> tk_public_key key = Typed public
     \<and> utc_of (tk_not_before key) \<le> utc_of (mf_issued_at m) \<and> utc_of (mf_issued_at m) < utc_of (tk_not_after key)
     \<and> utc_of (mf_expires_at m) \<le> utc_of (tk_not_after key))"

lemma usable_dates:
  assumes "trust_key_usable key"
  shows "continuity_utc (tk_not_before key) = Inr (utc_of (tk_not_before key))" "continuity_utc (tk_not_after key) = Inr (utc_of (tk_not_after key))"
  using assms by (auto simp: trust_key_usable_def utc_of_def split: sum.splits)

lemma filter_singleton:
  assumes "distinct (map f xs)" and "x \<in> set xs"
  shows "filter (\<lambda>y. f y = f x) xs = [x]"
  using assms by (induction xs) (auto simp: filter_empty_conv image_iff)

lemma trusted_signature_Inr:
  assumes doc: "manifest_document env m = Inr d"
  shows "trusted_signature env m signature trust = Inr u \<longleftrightarrow> trust_policy trust \<and> length signature = ED25519_SIGNATURE_BYTES
    \<and> (\<exists>public. signing_key trust m public \<and> cv_verify env public signature (signed_message d))" (is "?l \<longleftrightarrow> ?r")
proof
  assume l: ?l
  have len: "length signature = ED25519_SIGNATURE_BYTES" by (rule trusted_length [OF l])
  obtain ms where ms: "trust_matches (manifest_identity m) trust [] [] = Inr ms" and policy: "trust_policy trust"
    using l by (auto simp: trusted_signature_def trust_policy_def bindE_eq_Inr trust_matches_iff split: if_splits)
  obtain key where key: "ms = [key]" "key_signature env m signature key = Inr u"
    using l ms by (cases ms; cases "tl ms") (auto simp: trusted_signature_def len split: if_splits)
  have "filter (\<lambda>k. key_identity k = manifest_identity m) trust = [key]" using ms key(1) by (simp add: trust_matches_iff)
  then have "key \<in> set (filter (\<lambda>k. key_identity k = manifest_identity m) trust)" by (metis list.set_intros(1))
  then have k: "key \<in> set trust" "key_identity key = manifest_identity m" "trust_key_usable key"
    using policy by (auto simp: trust_policy_def list_all_iff)
  obtain public where "tk_public_key key = Typed public" "cv_verify env public signature (signed_message d)"
    "utc_of (tk_not_before key) \<le> utc_of (mf_issued_at m)" "utc_of (mf_issued_at m) < utc_of (tk_not_after key)"
    "utc_of (mf_expires_at m) \<le> utc_of (tk_not_after key)"
    using key(2) unfolding key_signature_def usable_dates [OF k(3)] document_dates [OF doc] doc
    by (auto simp: not_less not_le split: if_splits typed.splits)
  then show ?r using policy len k by (auto simp: signing_key_def)
next
  assume r: ?r
  then obtain public key where p: "trust_policy trust" "length signature = ED25519_SIGNATURE_BYTES"
    "cv_verify env public signature (signed_message d)"
    and k: "key \<in> set trust" "key_identity key = manifest_identity m" "tk_public_key key = Typed public"
    "utc_of (tk_not_before key) \<le> utc_of (mf_issued_at m)" "utc_of (mf_issued_at m) < utc_of (tk_not_after key)"
    "utc_of (mf_expires_at m) \<le> utc_of (tk_not_after key)"
    by (auto simp: signing_key_def)
  have usable: "trust_key_usable key" using p(1) k(1) by (auto simp: trust_policy_def list_all_iff)
  then have "public_bytes key" by (simp add: trust_key_usable_def trust_key_shape_def)
  then have "key_signature env m signature key = Inr ()"
    unfolding key_signature_def usable_dates [OF usable] document_dates [OF doc] doc using k p(3) by simp
  moreover have "trust_matches (manifest_identity m) trust [] [] = Inr [key]"
    using p(1) filter_singleton [of key_identity trust key] k(1,2) by (simp add: trust_matches_iff trust_policy_def)
  ultimately show ?l using p(1,2) by (simp add: trusted_signature_def trust_policy_def)
qed

section \<open>A sample scheme\<close>

text \<open>
  A scheme that meets the contract, for the witnesses only: private and public key are one text of 32
  bytes, and a signature is the first 64 bytes of key and message.
\<close>

definition sample_signature :: "string \<Rightarrow> string \<Rightarrow> string" where
  "sample_signature key message = take 64 (take 32 (key @ replicate 32 CHR ''k'') @ message @ replicate 64 CHR ''s'')"

definition sample_env :: "string continuity_env" where
  "sample_env = \<lparr>cv_sign = \<lambda>key message. Some (sample_signature key message),
     cv_public = \<lambda>key. take 32 (key @ replicate 32 CHR ''k''),
     cv_verify = \<lambda>public signature message. signature = take 64 (public @ message @ replicate 64 CHR ''s''),
     cv_zone = \<lambda>name. name = ''UTC''\<rparr>"

lemma sample_contract: "ed25519_contract sample_env"
proof -
  have "length (sample_signature key message) = 64" for key message
    unfolding sample_signature_def append_assoc [symmetric] by (simp only: length_take length_append length_replicate)
  then show ?thesis
    by (simp add: ed25519_contract_def sample_env_def ED25519_SIGNATURE_BYTES_def) (simp add: sample_signature_def)
qed

definition sample_scope :: ContinuityScope where
  "sample_scope = \<lparr>sc_organization_id = Typed 1, sc_edition_id = Typed 2, sc_audience = Typed ''public'', sc_actor_id = None,
     sc_kind = Typed ''public'', sc_target_id = None, sc_layers = []\<rparr>"

definition sample_manifest :: ContinuityManifest where
  "sample_manifest = \<lparr>mf_scope = sample_scope, mf_key_id = Typed ''stage-1'', mf_observed_at = utc_datetime 0,
     mf_issued_at = utc_datetime minute_us, mf_expires_at = utc_datetime (60 * minute_us), mf_zone_name = Typed ''UTC'',
     mf_release_state = Typed ''available'', mf_pointer_version = Some (PyInt 5), mf_release_id = Some (Typed 3),
     mf_payload_sha256 = Typed (sha256_hex ''{}'')\<rparr>"

definition sample_trust :: "ContinuityTrustKey list" where
  "sample_trust = [\<lparr>tk_organization_id = Typed 1, tk_edition_id = Typed 2, tk_key_id = Typed ''stage-1'',
     tk_public_key = Typed (replicate 32 CHR ''k''), tk_not_before = utc_datetime 0, tk_not_after = utc_datetime day_us\<rparr>]"

definition sample_document :: json where
  "sample_document = manifest_fields (scope_fields 1 2 ''public'' None ''public'' None []) ''stage-1'' 0 minute_us (60 * minute_us)
     ''UTC'' (Typed ''available'') (Some (PyInt 5)) (Some (Typed 3)) (sha256_hex ''{}'')"

definition sample_package :: string where
  "sample_package = json_dumps (package_json sample_document ''{}'' (sample_signature [] (signed_message sample_document)))"

lemma sample_scope_document: "scope_document sample_scope = Inr (scope_fields 1 2 ''public'' None ''public'' None [])"
  by (simp add: scope_document_def sample_scope_def scope_layers_def scope_purpose_def)

lemma sample_manifest_document: "manifest_document sample_env sample_manifest = Inr sample_document"
proof -
  have "validate_release_state (Typed ''public'') (Typed ''available'') (Some (PyInt 5)) (Some (Typed 3)) = Inr ()"
    by (simp add: validate_release_state_def STATES_def is_uuid_def)
  moreover have "KEY_ID ''stage-1''" by (simp add: KEY_ID_def key_char_def less_eq_char_def)
  ultimately show ?thesis
    using sample_scope_document
    by (simp add: manifest_document_def sample_manifest_def valid_instant_def sample_document_def sample_env_def MAX_ZONE_TEXT_def
        MAX_CONTINUITY_AGE_def datetime_span_us_def day_us_def minute_us_def second_us_def sample_scope_def)
qed

lemma sample_signed: "sign_continuity_package sample_env (Typed ''{}'') sample_manifest (Typed []) = Inr sample_package"
proof -
  have "cv_sign sample_env [] (signed_message sample_document) = Some (sample_signature [] (signed_message sample_document))"
    "mf_payload_sha256 sample_manifest = Typed (sha256_hex ''{}'')"
    by (simp_all add: sample_env_def sample_manifest_def)
  then show ?thesis
    by (simp add: sign_continuity_package_def sample_manifest_document sample_package_def MAX_CONTINUITY_PAYLOAD_BYTES_def)
qed

lemma sample_trust_policy: "trust_policy sample_trust" "signing_key sample_trust sample_manifest (cv_public sample_env [])"
  by (simp_all add: trust_policy_def sample_trust_def MAX_CONTINUITY_TRUST_KEYS_def trust_key_usable_def trust_key_shape_def
      nonzero_uuid_def public_bytes_def ED25519_PUBLIC_BYTES_def KEY_ID_def key_char_def less_eq_char_def valid_instant_def
      signing_key_def key_identity_def manifest_identity_def sample_manifest_def sample_scope_def sample_env_def utc_of_def
      day_us_def minute_us_def second_us_def)

lemma signed_verifies:
  assumes "ed25519_contract env"
    and "sign_continuity_package env (Typed payload) manifest (Typed key) = Inr package"
    and "trust_policy trust" and "signing_key trust manifest (cv_public env key)"
    and "continuity_utc now = Inr t" and "utc_of (mf_issued_at manifest) \<le> t" and "t < utc_of (mf_expires_at manifest)"
  shows "\<exists>checkpoint. verify_continuity_package env package (mf_scope manifest) trust now =
    Inr \<lparr>vp_manifest = normal_manifest manifest, vp_payload = payload, vp_checkpoint = checkpoint\<rparr>"
proof -
  obtain d signature where d: "manifest_document env manifest = Inr d" and
    signature: "cv_sign env key (signed_message d) = Some signature" and
    package: "package = json_dumps (package_json d payload signature)" and
    payload: "0 < length payload" "length payload \<le> MAX_CONTINUITY_PAYLOAD_BYTES"
      "mf_payload_sha256 manifest = Typed (sha256_hex payload)"
    using assms(2) by (auto simp: sign_continuity_package_def bindE_eq_Inr split: if_splits option.splits)
  have doc: "manifest_document env (normal_manifest manifest) = Inr d" by (rule manifest_document_normal [OF d])
  note dates = document_dates [OF d]
  have normal: "utc_of (mf_issued_at (normal_manifest manifest)) = utc_of (mf_issued_at manifest)"
      "utc_of (mf_expires_at (normal_manifest manifest)) = utc_of (mf_expires_at manifest)"
      "normal_manifest (normal_manifest manifest) = normal_manifest manifest"
    using continuity_utc_valid [OF dates(1)] continuity_utc_valid [OF dates(2)] continuity_utc_valid [OF dates(3)]
    by (simp_all add: normal_manifest_def)
  have "signing_key trust (normal_manifest manifest) (cv_public env key)"
    using assms(4) by (simp add: signing_key_def normal) (simp add: manifest_identity_def normal_manifest_def)
  then have "trusted_signature env (normal_manifest manifest) signature trust = Inr ()"
    using assms(1,3) signature by (auto simp: trusted_signature_Inr [OF doc] ed25519_contract_def)
  then have "genuine_package env package (mf_scope manifest) trust t
      \<lparr>vp_manifest = normal_manifest manifest, vp_payload = payload, vp_checkpoint = json_dumps (checkpoint_json d signature)\<rparr>
      d signature"
    using assms(6,7) payload doc by (simp add: genuine_package_def normal package) (simp add: normal_manifest_def)
  then show ?thesis using genuine_verify [OF assms(5)] by blast
qed

lemma sample_times: "continuity_utc (utc_datetime (2 * minute_us)) = Inr (2 * minute_us)"
  "continuity_utc (utc_datetime (3 * minute_us)) = Inr (3 * minute_us)"
  "utc_of (mf_issued_at sample_manifest) = minute_us" "utc_of (mf_expires_at sample_manifest) = 60 * minute_us"
  "utc_of (mf_observed_at sample_manifest) = 0"
  "normal_manifest sample_manifest = sample_manifest" "mf_scope sample_manifest = sample_scope"
  by (simp_all add: sample_manifest_def normal_manifest_def utc_of_def valid_instant_def day_us_def minute_us_def second_us_def)

lemma sample_verified:
  "\<exists>v. verify_continuity_package sample_env sample_package sample_scope sample_trust (utc_datetime (2 * minute_us)) = Inr v
    \<and> vp_manifest v = sample_manifest"
  using signed_verifies [OF sample_contract sample_signed sample_trust_policy sample_times(1)]
  by (auto simp: sample_times(3-7)) (auto simp: minute_us_def second_us_def)

section \<open>Packages\<close>

text \<open>C23. Under the documented behaviour of Ed25519 a package that was signed is accepted by every
  verifier that trusts the signing key for the manifest's lifetime, expects the manifest's scope and
  looks inside the lifetime; it gets the signed payload and the signed manifest with its times in UTC.
  In particular no package is signed that is too large to verify.\<close>

theorem signed_package_verifies:
  assumes "ed25519_contract env"
    and "sign_continuity_package env (Typed payload) manifest (Typed key) = Inr package"
    and "trust_policy trust" and "signing_key trust manifest (cv_public env key)"
    and "continuity_utc now = Inr t" and "utc_of (mf_issued_at manifest) \<le> t" and "t < utc_of (mf_expires_at manifest)"
  shows "\<exists>checkpoint. verify_continuity_package env package (mf_scope manifest) trust now =
    Inr \<lparr>vp_manifest = normal_manifest manifest, vp_payload = payload, vp_checkpoint = checkpoint\<rparr>"
  using assms by (rule signed_verifies)

theorem signed_package_verifies_witness:
  "\<exists>checkpoint. verify_continuity_package sample_env sample_package sample_scope sample_trust (utc_datetime (2 * minute_us)) =
    Inr \<lparr>vp_manifest = sample_manifest, vp_payload = ''{}'', vp_checkpoint = checkpoint\<rparr>"
  using signed_package_verifies [OF sample_contract sample_signed sample_trust_policy sample_times(1)]
  by (simp add: sample_times(3-7)) (simp add: minute_us_def second_us_def)

text \<open>C24. A package is accepted only if its bytes are the canonical encoding of the manifest, the
  payload and the signature it is taken for, the manifest is valid and of the expected scope, one key
  of the policy is trusted for it during its whole lifetime and verifies the signature of exactly that
  manifest, the clock is inside the lifetime and the payload is the one whose digest was signed.\<close>

theorem accepted_package_genuine:
  assumes "verify_continuity_package env package scope trust now = Inr v"
  shows "\<exists>t document signature public. continuity_utc now = Inr t
    \<and> package = json_dumps (package_json document (vp_payload v) signature)
    \<and> manifest_document env (vp_manifest v) = Inr document \<and> mf_scope (vp_manifest v) = scope
    \<and> signing_key trust (vp_manifest v) public \<and> cv_verify env public signature (signed_message document)
    \<and> utc_of (mf_issued_at (vp_manifest v)) \<le> t \<and> t < utc_of (mf_expires_at (vp_manifest v))
    \<and> vp_payload v \<noteq> [] \<and> mf_payload_sha256 (vp_manifest v) = Typed (sha256_hex (vp_payload v))"
proof -
  obtain t d signature where g: "continuity_utc now = Inr t" "genuine_package env package scope trust t v d signature"
    using verify_genuine [OF assms] by blast
  note g' = g(2) [unfolded genuine_package_def]
  have doc: "manifest_document env (vp_manifest v) = Inr d" using g' by blast
  then have "\<exists>public. signing_key trust (vp_manifest v) public \<and> cv_verify env public signature (signed_message d)"
    using g' trusted_signature_Inr [OF doc] by blast
  then show ?thesis using g(1) g' by blast
qed

theorem accepted_package_genuine_witness:
  "\<exists>v t document signature public. verify_continuity_package sample_env sample_package sample_scope sample_trust
      (utc_datetime (2 * minute_us)) = Inr v
    \<and> sample_package = json_dumps (package_json document (vp_payload v) signature)
    \<and> cv_verify sample_env public signature (signed_message document) \<and> t < utc_of (mf_expires_at (vp_manifest v))"
  using sample_verified accepted_package_genuine by blast

section \<open>Histories\<close>

text \<open>C25. An offline host that starts from one accepted package and keeps its history shows packages,
  whatever is put before it, only in an order in which no later one was observed or issued earlier,
  names a lower release pointer, or tells other facts about the same instant of observation.\<close>

theorem offline_never_rolls_back:
  assumes "verify_continuity_with_known_state env package scope trust now None initialize = Inr (v, known)"
  shows "sorted_wrt no_rollback (map vp_manifest (v # shown_packages env scope trust known rest))"
proof -
  obtain t lv hv where r: "records_history env scope trust (vp_manifest v) (next_high (vp_manifest v) None) t lv hv"
      "known = json_dumps (known_json lv hv t)"
    by (rule first_step [OF assms]) blast
  then have "covered_by (vp_manifest v) (next_high (vp_manifest v) None) (vp_manifest v)"
    using covered_self by (auto simp: records_history_def)
  then show ?thesis using shown_no_rollback [OF r(1), of "[vp_manifest v]" rest] r(2) by simp
qed

lemma sample_history:
  obtains v known where "verify_continuity_with_known_state sample_env sample_package sample_scope sample_trust
    (utc_datetime (2 * minute_us)) None (Typed True) = Inr (v, known)" "vp_manifest v = sample_manifest"
  using sample_verified first_accepts by blast

theorem offline_never_rolls_back_witness:
  "\<exists>v known. verify_continuity_with_known_state sample_env sample_package sample_scope sample_trust
      (utc_datetime (2 * minute_us)) None (Typed True) = Inr (v, known)
    \<and> sorted_wrt no_rollback (map vp_manifest (v # shown_packages sample_env sample_scope sample_trust known
        [(sample_package, utc_datetime (3 * minute_us))]))"
  by (rule sample_history) (blast intro: offline_never_rolls_back)

text \<open>What a host accepted it can show again: the history that is left reads back, and the same
  package is accepted against it at every later time until it expires.\<close>

theorem accepted_package_shown_again:
  assumes "verify_continuity_with_known_state env package scope trust now known initialize = Inr (v, next)"
    and "continuity_utc now = Inr t" and "continuity_utc later = Inr u" and "t \<le> u"
    and "u < utc_of (mf_expires_at (vp_manifest v))"
  shows "\<exists>next'. verify_continuity_with_known_state env package scope trust later (Some next) (Typed False) = Inr (v, next')"
proof -
  obtain high lv hv where v: "verify_continuity_package env package scope trust now = Inr v"
    and r: "records_history env scope trust (vp_manifest v) (next_high (vp_manifest v) high) t lv hv" "next = json_dumps (known_json lv hv t)"
    by (rule verified_step [OF assms(1)]) (use assms(2) in simp)
  obtain d signature where g: "genuine_package env package scope trust t v d signature"
    using verify_genuine [OF v] assms(2) by auto
  then have "genuine_package env package scope trust u v d signature"
    using assms(4,5) by (simp add: genuine_package_def)
  then have "verify_continuity_package env package scope trust later = Inr v" by (rule genuine_verify [OF assms(3)])
  moreover have m: "trusted_checkpoint env scope trust (vp_manifest v) lv" using r(1) by (simp add: records_history_def)
  have "not_older (vp_manifest v) (vp_manifest v) (next_high (vp_manifest v) high) = Inr ()"
    unfolding not_older_Inr [OF m m] by (auto simp: next_high_def pointer_less_def split: option.splits py_number.splits)
  ultimately show ?thesis using step_accepts [OF r(1) _ assms(3,4)] r(2) by blast
qed

theorem accepted_package_shown_again_witness:
  "\<exists>v known next'. verify_continuity_with_known_state sample_env sample_package sample_scope sample_trust
      (utc_datetime (2 * minute_us)) None (Typed True) = Inr (v, known)
    \<and> verify_continuity_with_known_state sample_env sample_package sample_scope sample_trust
      (utc_datetime (3 * minute_us)) (Some known) (Typed False) = Inr (v, next')"
proof (rule sample_history)
  fix v known
  assume s: "verify_continuity_with_known_state sample_env sample_package sample_scope sample_trust
    (utc_datetime (2 * minute_us)) None (Typed True) = Inr (v, known)" "vp_manifest v = sample_manifest"
  have "2 * minute_us \<le> 3 * minute_us" "3 * minute_us < utc_of (mf_expires_at (vp_manifest v))"
    by (simp_all add: s(2) sample_times(4) minute_us_def second_us_def)
  then show ?thesis using accepted_package_shown_again [OF s(1) sample_times(1,2)] s(1) by blast
qed

text \<open>Against a readable history a verified package is refused as superseded exactly when it was
  observed or issued earlier than the latest one, or names a lower release pointer than the highest
  known one, unless it already contradicts the latest one at the same instant of observation.\<close>

theorem superseded_exactly:
  assumes "verify_continuity_package env package scope trust now = Inr v"
    and "known_history env scope trust known = Inr (document, latest, high)"
    and "continuity_date (item document ''last_verified_at'') = Inr t0" and "continuity_utc now = Inr t" and "t0 \<le> t"
  shows "verify_continuity_with_known_state env package scope trust now (Some known) (Typed False) = Inl ContinuitySupersededError \<longleftrightarrow>
    (let m = vp_manifest v in
      utc_of (mf_observed_at m) < utc_of (mf_observed_at latest) \<or> utc_of (mf_issued_at m) < utc_of (mf_issued_at latest)
      \<or> (utc_of (mf_observed_at m) = utc_of (mf_observed_at latest) \<longrightarrow> m = latest)
        \<and> (\<exists>h p q. high = Some h \<and> pointer_value m = Some p \<and> pointer_value h = Some q \<and> p < q))"
proof -
  obtain lv where a: "json_loads (vp_checkpoint v) = Some lv" "trusted_checkpoint env scope trust (vp_manifest v) lv"
    using accepted_checkpoint [OF assms(1)] by metis
  obtain t1 kv hv where h: "records_history env scope trust latest high t1 kv hv"
    by (rule known_history_Inr [OF assms(2)])
  obtain sd where sd: "scope_document scope = Inr sd"
    using assms(1) by (auto simp: verify_continuity_package_def bindE_eq_Inr)
  have l: "trusted_checkpoint env scope trust latest kv" using h by (simp add: records_history_def)
  have "verify_continuity_with_known_state env package scope trust now (Some known) (Typed False) = Inl ContinuitySupersededError
      \<longleftrightarrow> not_older (vp_manifest v) latest high = Inl ContinuitySupersededError"
    using assms(3-5) by (auto simp: verify_continuity_with_known_state_def sd assms(1,2) a(1) bindE_eq_Inl Let_def split: if_splits)
  moreover have "pointer_less (mf_pointer_version (vp_manifest v)) (mf_pointer_version h) \<longleftrightarrow>
      (\<exists>p q. pointer_value (vp_manifest v) = Some p \<and> pointer_value h = Some q \<and> p < q)" for h
    using pointer_less_iff [of "vp_manifest v" h] by (meson not_le)
  ultimately show ?thesis
    by (auto simp: not_older_def trusted_dates [OF a(2)] trusted_dates [OF l] Let_def split: option.splits)
qed

theorem superseded_exactly_witness:
  "\<exists>known document latest high. known_history sample_env sample_scope sample_trust known = Inr (document, latest, high)
    \<and> verify_continuity_with_known_state sample_env sample_package sample_scope sample_trust
      (utc_datetime (3 * minute_us)) (Some known) (Typed False) \<noteq> Inl ContinuitySupersededError"
proof (rule sample_history)
  fix v known
  assume s: "verify_continuity_with_known_state sample_env sample_package sample_scope sample_trust
    (utc_datetime (2 * minute_us)) None (Typed True) = Inr (v, known)" "vp_manifest v = sample_manifest"
  obtain lv hv where h: "records_history sample_env sample_scope sample_trust (vp_manifest v) (next_high (vp_manifest v) None) (2 * minute_us) lv hv"
      "known = json_dumps (known_json lv hv (2 * minute_us))"
    by (rule first_step [OF s(1)]) (use sample_times(1) in simp)
  from known_history_reads [OF h(1)] obtain document where
    k: "known_history sample_env sample_scope sample_trust known = Inr (document, vp_manifest v, next_high (vp_manifest v) None)"
      "item document ''last_verified_at'' = JStr (isoformat (2 * minute_us))"
    by (auto simp: h(2))
  have date: "continuity_date (item document ''last_verified_at'') = Inr (2 * minute_us)"
    by (simp add: k(2) continuity_date_iff valid_instant_def day_us_def minute_us_def second_us_def)
  obtain t d signature where "continuity_utc (utc_datetime (2 * minute_us)) = Inr t"
      and g: "genuine_package sample_env sample_package sample_scope sample_trust t v d signature"
    using verify_genuine first_step [OF s(1)] by metis
  then have g': "genuine_package sample_env sample_package sample_scope sample_trust (3 * minute_us) v d signature"
    by (simp add: genuine_package_def s(2) sample_times)
  have "2 * minute_us \<le> 3 * minute_us" by (simp add: minute_us_def second_us_def)
  from superseded_exactly [OF genuine_verify [OF sample_times(2) g'] k(1) date sample_times(2) this]
  have "verify_continuity_with_known_state sample_env sample_package sample_scope sample_trust
      (utc_datetime (3 * minute_us)) (Some known) (Typed False) \<noteq> Inl ContinuitySupersededError"
    by (auto simp: Let_def next_high_def split: if_splits)
  then show ?thesis using k(1) by blast
qed

text \<open>A host without a history accepts nothing unless it is told to initialize, a host with one is
  never initialized again, and a history that does not read back is never replaced.\<close>

theorem history_never_reset:
  assumes "verify_continuity_with_known_state env package scope trust now known initialize = Inr r"
  shows "(case known of None \<Rightarrow> initialize = Typed True
    | Some data \<Rightarrow> initialize = Typed False \<and> is_ok (known_history env scope trust data))"
proof (cases known)
  case None
  then show ?thesis
    using assms by (auto simp: verify_continuity_with_known_state_def bindE_eq_Inr Let_def split: if_splits option.splits)
next
  case (Some data)
  then have "initialize \<noteq> Typed True" "initialize \<noteq> Untyped"
    using assms by (auto simp: verify_continuity_with_known_state_def bindE_eq_Inr split: if_splits)
  then have "initialize = Typed False" by (cases initialize) auto
  moreover have "is_ok (known_history env scope trust data)"
    using assms Some by (auto simp: verify_continuity_with_known_state_def bindE_eq_Inr is_ok_iff split: if_splits option.splits)
  ultimately show ?thesis using Some by simp
qed

theorem history_never_reset_witness:
  "\<exists>r. verify_continuity_with_known_state sample_env sample_package sample_scope sample_trust
      (utc_datetime (2 * minute_us)) None (Typed True) = Inr r
    \<and> (case None of None \<Rightarrow> Typed True = Typed True | Some data \<Rightarrow> is_ok (known_history sample_env sample_scope sample_trust data))"
proof (rule sample_history)
  fix v known
  assume s: "verify_continuity_with_known_state sample_env sample_package sample_scope sample_trust
    (utc_datetime (2 * minute_us)) None (Typed True) = Inr (v, known)"
  then show ?thesis using history_never_reset [OF s] by auto
qed

end
