(* ===== verification/Continuity_Payload.thy ===== *)
theory Continuity_Payload
  imports Continuity_Facts
begin

text \<open>
  The content of a continuity package (\<open>src/src/maru/scheduling/continuity_payload.py\<close>): the closed
  on-site cards of one audience, their encoding, the decoder that holds them against a verified
  manifest, and the grouping into what runs now and what comes next. Identifiers of rooms and days have
  their type; every other scalar may hold anything, as the code checks.
\<close>

section \<open>Contract\<close>

definition CONTINUITY_PAYLOAD_CONTRACT :: string where
  "CONTINUITY_PAYLOAD_CONTRACT = ''scheduling.programme-onsite@1''"

definition MAX_CONTINUITY_ENTRIES :: nat where "MAX_CONTINUITY_ENTRIES = 7120"
definition MAX_CONTINUITY_FACTS :: nat where "MAX_CONTINUITY_FACTS = 65536"
definition MAX_CONTINUITY_FACT_TEXT :: nat where "MAX_CONTINUITY_FACT_TEXT = 5000"
definition TITLE_LENGTH :: nat where "TITLE_LENGTH = 240"

definition SOURCE_CONTRACTS :: "(string \<times> string) list" where
  "SOURCE_CONTRACTS = [(''public'', ''scheduling.public-timetable@1''), (''exact_person'', ''scheduling.personal-timetable@1''),
     (''private_operator'', ''scheduling.operator-run-sheet@1'')]"

definition PUBLIC_FACTS :: "string list" where
  "PUBLIC_FACTS = [''summary'', ''content_note'', ''room'', ''venue'', ''reviewed_copy'', ''wayfinding_version'', ''service_day'']"

definition HOST_FACTS :: "string list" where
  "HOST_FACTS = [''role'', ''briefing'', ''host_version'', ''room'', ''venue'', ''wayfinding_version'', ''service_day'']"

definition WORK_FACTS :: "string list" where
  "WORK_FACTS = [''status'', ''location'', ''briefing'', ''supervision'', ''department'', ''position'', ''commitment_version'',
     ''demand_version'', ''demand_status'', ''rest_until'']"

definition STAFFING_FACTS :: "string list" where
  "STAFFING_FACTS = [''status'', ''location'', ''briefing'', ''supervision'', ''demand_version'', ''required_headcount'',
     ''retained_work'', ''programme_link'']"

definition KINDS :: "(string \<times> string list) list" where
  "KINDS = [(''public'', [''public_event'']),
     (''exact_person'', [''host_presence'', ''work_claimed'', ''work_confirmed'', ''work_removed'', ''work_completed'']),
     (''private_operator'', [''operator_event'', ''staffing_demand''])]"

definition KEY_PREFIXES :: "(string \<times> string) list" where
  "KEY_PREFIXES = [(''public_event'', ''public''), (''operator_event'', ''operator''), (''host_presence'', ''host''),
     (''work_claimed'', ''work''), (''work_confirmed'', ''work''), (''work_removed'', ''work''), (''work_completed'', ''work''),
     (''staffing_demand'', ''demand'')]"

definition PHASE_FIELDS :: "string list" where
  "PHASE_FIELDS = [''setup'', ''delivery_start'', ''delivery_end'', ''teardown'']"

definition PAYLOAD_FIELDS :: "string list" where
  "PAYLOAD_FIELDS = [''contract'', ''scope'', ''source_contract'', ''source_sha256'', ''observed_at'', ''zone_name'', ''release_state'',
     ''pointer_version'', ''release_id'', ''published_at'', ''hosting_status'', ''work_status'', ''entries'']"

section \<open>Records\<close>

record ContinuityFact =
  cf_code :: "string typed"
  cf_value :: "string typed"

record ContinuityEntry =
  en_key :: "string typed"
  en_kind :: "string typed"
  en_title :: "string typed"
  en_starts_at :: py_instant
  en_ends_at :: py_instant
  en_space_id :: "uuid option"
  en_day_id :: "uuid option"
  en_context :: "py_instant list option"
  en_facts :: "ContinuityFact list"

record ContinuityProjection =
  pj_scope :: ContinuityScope
  pj_source_contract :: "string typed"
  pj_source_sha256 :: "string typed"
  pj_observed_at :: py_instant
  pj_zone_name :: "string typed"
  pj_release_state :: "string typed"
  pj_pointer_version :: "py_number option"
  pj_release_id :: "uuid typed option"
  pj_published_at :: "py_instant option"
  pj_hosting_status :: "string typed"
  pj_work_status :: "string typed"
  pj_entries :: "ContinuityEntry list"

section \<open>Encoding an entry\<close>

definition payload_text :: "string typed \<Rightarrow> nat \<Rightarrow> bool \<Rightarrow> continuity_error + string" where
  "payload_text value maximum required =
     (case value of
        Untyped \<Rightarrow> Inl ContinuityInvalidError
      | Typed s \<Rightarrow>
          if maximum < length s \<or> (required \<and> list_all is_space s)
            \<or> list_ex (\<lambda>c. (of_char c < (32 :: nat) \<and> c \<notin> {CHR 0x09, CHR 0x0A, CHR 0x0D}) \<or> of_char c = (127 :: nat)) s
          then Inl ContinuityInvalidError else Inr s)"

definition fact_codes :: "string \<Rightarrow> string list \<Rightarrow> continuity_error + string list" where
  "fact_codes kind layers =
     (if kind = ''public_event'' then Inr PUBLIC_FACTS
      else if kind = ''host_presence'' then Inr HOST_FACTS
      else if take 5 kind = ''work_'' then Inr WORK_FACTS
      else if kind = ''staffing_demand'' then
        if ''staffing'' \<notin> set layers then Inl ContinuityInvalidError else Inr STAFFING_FACTS
      else
        Inr (PUBLIC_FACTS @ filter (\<lambda>l. l \<noteq> ''staffing'') layers
          @ (if filter (\<lambda>l. l \<noteq> ''staffing'') layers \<noteq> [] then [''delivery_version''] else [])
          @ (if ''staffing'' \<in> set layers then [''programme_link''] else [])))"

definition context_json :: "instant list \<Rightarrow> json" where
  "context_json phases = JObj (zip PHASE_FIELDS (map (\<lambda>u. JStr (isoformat u)) phases))"

text \<open>\<open>_entry_times\<close>: start, end and the four phases.\<close>

definition entry_times :: "ContinuityEntry \<Rightarrow> continuity_error + (instant \<times> instant \<times> instant list option)" where
  "entry_times e =
     bindE (continuity_utc (en_starts_at e)) (\<lambda>start.
     bindE (continuity_utc (en_ends_at e)) (\<lambda>end.
     bindE (requireE (start < end)) (\<lambda>_.
     (case en_context e of
        Some context \<Rightarrow>
          bindE (requireE (length context = length PHASE_FIELDS
            \<and> (en_kind e = Typed ''operator_event'' \<or> en_kind e = Typed ''host_presence''))) (\<lambda>_.
          bindE (mapE continuity_utc context) (\<lambda>phases.
          bindE (requireE (phases ! 0 \<le> phases ! 1 \<and> phases ! 1 < phases ! 2 \<and> phases ! 2 \<le> phases ! 3
            \<and> phases ! 0 \<le> start \<and> start < end \<and> end \<le> phases ! 3)) (\<lambda>_.
          bindE (requireE (\<not> (en_kind e = Typed ''operator_event'' \<and> (start \<noteq> phases ! 0 \<or> end \<noteq> phases ! 3)))) (\<lambda>_.
          Inr (start, end, Some phases)))))
      | None \<Rightarrow>
          bindE (requireE (\<not> (en_kind e = Typed ''operator_event'' \<or> en_kind e = Typed ''host_presence''))) (\<lambda>_.
          Inr (start, end, None))))))"

fun split_text :: "char \<Rightarrow> string \<Rightarrow> string list" where
  "split_text c [] = [[]]"
| "split_text c (x # xs) =
     (if x = c then [] # split_text c xs else (case split_text c xs of [] \<Rightarrow> [[x]] | w # ws \<Rightarrow> (x # w) # ws))"

definition key_checks :: "string \<Rightarrow> string \<Rightarrow> continuity_error + unit" where
  "key_checks kind key =
     (let parts = split_text CHR '':'' key in
      bindE (requireE (map_of KEY_PREFIXES kind = Some (hd parts) \<and> length parts = (if kind = ''host_presence'' then 3 else 2))) (\<lambda>_.
      bindE (mapE (\<lambda>identifier. continuity_uuid False (JStr identifier)) (tl parts)) (\<lambda>_. Inr ())))"

fun fact_documents :: "string list \<Rightarrow> string list \<Rightarrow> ContinuityFact list \<Rightarrow> continuity_error + json list" where
  "fact_documents allowed seen [] = Inr []"
| "fact_documents allowed seen (f # fs) =
     (case cf_code f of
        Untyped \<Rightarrow> Inl ContinuityInvalidError
      | Typed code \<Rightarrow>
          if code \<notin> set allowed then Inl ContinuityInvalidError
          else if code \<in> set seen \<and> code \<noteq> ''retained_work'' \<and> code \<noteq> ''programme_link'' then Inl ContinuityInvalidError
          else
            bindE (payload_text (cf_value f) MAX_CONTINUITY_FACT_TEXT False) (\<lambda>value.
            bindE (fact_documents allowed (code # seen) fs) (\<lambda>rest.
            Inr (JObj [(''code'', JStr code), (''value'', JStr value)] # rest))))"

definition opt_id_json :: "uuid option \<Rightarrow> json" where
  "opt_id_json v = (case v of None \<Rightarrow> JNull | Some u \<Rightarrow> JStr (uuid_str u))"

definition entry_fields :: "string \<Rightarrow> string \<Rightarrow> string \<Rightarrow> instant \<times> instant \<times> instant list option \<Rightarrow> uuid option \<Rightarrow> uuid option
     \<Rightarrow> json list \<Rightarrow> json" where
  "entry_fields key kind title span space day facts =
     (case span of (start, end, context) \<Rightarrow> JObj
        [(''key'', JStr key),
         (''kind'', JStr kind),
         (''title'', JStr title),
         (''starts_at'', JStr (isoformat start)),
         (''ends_at'', JStr (isoformat end)),
         (''context'', case context of None \<Rightarrow> JNull | Some phases \<Rightarrow> context_json phases),
         (''space_id'', opt_id_json space),
         (''day_id'', opt_id_json day),
         (''facts'', JList facts)])"

definition entry_document :: "string \<Rightarrow> string list \<Rightarrow> ContinuityEntry \<Rightarrow> continuity_error + json" where
  "entry_document audience layers e =
     (case (en_kind e, en_key e) of
        (Typed kind, Typed key) \<Rightarrow>
          bindE (requireE (case map_of KINDS audience of None \<Rightarrow> False | Some kinds \<Rightarrow> kind \<in> set kinds)) (\<lambda>_.
          bindE (key_checks kind key) (\<lambda>_.
          bindE (entry_times e) (\<lambda>span.
          bindE (requireE (en_space_id e \<noteq> Some 0 \<and> en_day_id e \<noteq> Some 0)) (\<lambda>_.
          bindE (requireE (if kind \<in> {''public_event'', ''operator_event'', ''host_presence''}
            then en_space_id e \<noteq> None \<and> en_day_id e \<noteq> None else en_space_id e = None \<and> en_day_id e = None)) (\<lambda>_.
          bindE (requireE (length (en_facts e) \<le> MAX_CONTINUITY_FACTS)) (\<lambda>_.
          bindE (fact_codes kind layers) (\<lambda>allowed.
          bindE (fact_documents allowed [] (en_facts e)) (\<lambda>facts.
          bindE (payload_text (en_title e) TITLE_LENGTH True) (\<lambda>title.
          Inr (entry_fields key kind title span (en_space_id e) (en_day_id e) facts))))))))))
      | _ \<Rightarrow> Inl ContinuityInvalidError)"

section \<open>Encoding a projection\<close>

definition layer_states :: "string \<Rightarrow> string list \<Rightarrow> string typed \<Rightarrow> string typed \<Rightarrow> string typed \<Rightarrow> continuity_error + unit" where
  "layer_states audience layers release_state hosting_status work_status =
     (case (hosting_status, work_status) of
        (Typed hosting, Typed work) \<Rightarrow>
          requireE
            (if audience = ''public'' then hosting = ''not_applicable'' \<and> work = ''not_applicable''
             else if audience = ''private_operator'' then hosting = ''not_applicable'' \<and>
               (if ''staffing'' \<in> set layers then work \<in> {''available'', ''unadopted''} else work = ''unrequested'')
             else Typed hosting = release_state \<and> work \<in> {''available'', ''unadopted''})
      | _ \<Rightarrow> Inl ContinuityInvalidError)"

definition source_metadata :: "'sk continuity_env \<Rightarrow> ContinuityProjection \<Rightarrow> continuity_error + unit" where
  "source_metadata env p =
     bindE (validate_release_state (sc_audience (pj_scope p)) (pj_release_state p) (pj_pointer_version p) (pj_release_id p)) (\<lambda>_.
     (case pj_zone_name p of
        Untyped \<Rightarrow> Inl ContinuityInvalidError
      | Typed zone \<Rightarrow>
          bindE (requireE (1 \<le> length zone \<and> length zone \<le> MAX_ZONE_TEXT)) (\<lambda>_.
          bindE (requireE (cv_zone env zone)) (\<lambda>_.
          if pj_release_state p = Typed ''available'' \<or> pj_release_state p = Typed ''invalidated'' then
            (case pj_published_at p of
               None \<Rightarrow> Inl ContinuityInvalidError
             | Some published_at \<Rightarrow>
                 bindE (continuity_utc published_at) (\<lambda>published.
                 bindE (continuity_utc (pj_observed_at p)) (\<lambda>observed.
                 requireE (\<not> observed < published))))
          else requireE (pj_published_at p = None)))))"

text \<open>The loop over the entries, with \<open>seen\<close> and \<open>facts_count\<close>.\<close>

fun entry_documents :: "string \<Rightarrow> string list \<Rightarrow> string typed \<Rightarrow> string typed \<Rightarrow> ContinuityEntry list \<Rightarrow> string typed list \<Rightarrow> nat
     \<Rightarrow> continuity_error + json list" where
  "entry_documents audience layers release_state work_status [] seen facts_count = Inr []"
| "entry_documents audience layers release_state work_status (row # rows) seen facts_count =
     bindE (entry_document audience layers row) (\<lambda>entry.
     if en_key row \<in> set seen then Inl ContinuityInvalidError
     else if MAX_CONTINUITY_FACTS < facts_count + length (en_facts row) then Inl ContinuityInvalidError
     else if en_kind row \<in> {Typed ''public_event'', Typed ''operator_event'', Typed ''host_presence''} \<and> release_state \<noteq> Typed ''available''
     then Inl ContinuityInvalidError
     else if (case en_kind row of Typed kind \<Rightarrow> take 5 kind = ''work_'' \<or> kind = ''staffing_demand'' | Untyped \<Rightarrow> False)
       \<and> work_status \<noteq> Typed ''available'' then Inl ContinuityInvalidError
     else
       bindE (entry_documents audience layers release_state work_status rows (en_key row # seen) (facts_count + length (en_facts row)))
         (\<lambda>entries. Inr (entry # entries)))"

text \<open>\<open>str(row["starts_at"]), str(row["key"])\<close>.\<close>

definition row_text :: "json \<Rightarrow> string \<Rightarrow> string" where
  "row_text row k = (case row of JObj fs \<Rightarrow> (case item fs k of JStr s \<Rightarrow> s | _ \<Rightarrow> []) | _ \<Rightarrow> [])"

definition row_order :: "json \<Rightarrow> string \<times> string" where
  "row_order row = (row_text row ''starts_at'', row_text row ''key'')"

definition json_typed :: "string typed \<Rightarrow> json" where
  "json_typed v = (case v of Typed s \<Rightarrow> JStr s | Untyped \<Rightarrow> JNull)"

definition projection_fields :: "ContinuityProjection \<Rightarrow> json \<Rightarrow> instant \<Rightarrow> instant option \<Rightarrow> json list \<Rightarrow> json" where
  "projection_fields p scope observed published entries = JObj
     [(''contract'', JStr CONTINUITY_PAYLOAD_CONTRACT),
      (''scope'', scope),
      (''source_contract'', json_typed (pj_source_contract p)),
      (''source_sha256'', json_typed (pj_source_sha256 p)),
      (''observed_at'', JStr (isoformat observed)),
      (''zone_name'', json_typed (pj_zone_name p)),
      (''release_state'', json_typed (pj_release_state p)),
      (''pointer_version'', pointer_json (pj_pointer_version p)),
      (''release_id'', opt_uuid_json (pj_release_id p)),
      (''published_at'', case published of None \<Rightarrow> JNull | Some u \<Rightarrow> JStr (isoformat u)),
      (''hosting_status'', json_typed (pj_hosting_status p)),
      (''work_status'', json_typed (pj_work_status p)),
      (''entries'', JList (sort_key row_order entries))]"

definition projection_document :: "'sk continuity_env \<Rightarrow> ContinuityProjection \<Rightarrow> continuity_error + json" where
  "projection_document env p =
     bindE (scope_document (pj_scope p)) (\<lambda>scope.
     bindE (source_metadata env p) (\<lambda>_.
     (case (sc_audience (pj_scope p), all_typed (sc_layers (pj_scope p))) of
        (Typed audience, Some layers) \<Rightarrow>
          bindE (requireE (map_option Typed (map_of SOURCE_CONTRACTS audience) = Some (pj_source_contract p))) (\<lambda>_.
          bindE (requireE (case pj_source_sha256 p of Typed s \<Rightarrow> hex64 s | Untyped \<Rightarrow> False)) (\<lambda>_.
          bindE (requireE (length (pj_entries p) \<le> MAX_CONTINUITY_ENTRIES)) (\<lambda>_.
          bindE (layer_states audience layers (pj_release_state p) (pj_hosting_status p) (pj_work_status p)) (\<lambda>_.
          bindE (entry_documents audience layers (pj_release_state p) (pj_work_status p) (pj_entries p) [] 0) (\<lambda>entries.
          bindE (continuity_utc (pj_observed_at p)) (\<lambda>observed.
          bindE (case pj_published_at p of None \<Rightarrow> Inr None | Some t \<Rightarrow> bindE (continuity_utc t) (\<lambda>u. Inr (Some u))) (\<lambda>published.
          Inr (projection_fields p scope observed published entries))))))))
      | _ \<Rightarrow> Inl ContinuityInvalidError)))"

definition encode_continuity_payload :: "'sk continuity_env \<Rightarrow> ContinuityProjection \<Rightarrow> continuity_error + string" where
  "encode_continuity_payload env p =
     bindE (projection_document env p) (\<lambda>document.
     let encoded = json_dumps document in
     if MAX_CONTINUITY_PAYLOAD_BYTES < length encoded then Inl ContinuityInvalidError else Inr encoded)"

section \<open>Decoding\<close>

text \<open>\<open>optional\<close> fields of a document, and lists read item by item.\<close>

definition opt_date :: "json \<Rightarrow> continuity_error + py_instant option" where
  "opt_date v = (if v = JNull then Inr None else bindE (continuity_date v) (\<lambda>u. Inr (Some (utc_datetime u))))"

definition decoded_fact :: "json \<Rightarrow> continuity_error + ContinuityFact" where
  "decoded_fact v =
     (case v of
        JObj fs \<Rightarrow>
          if set (map fst fs) \<noteq> {''code'', ''value''} then Inl ContinuityInvalidError
          else Inr \<lparr>cf_code = json_str (item fs ''code''), cf_value = json_str (item fs ''value'')\<rparr>
      | _ \<Rightarrow> Inl ContinuityInvalidError)"

definition decoded_context :: "json \<Rightarrow> continuity_error + py_instant list option" where
  "decoded_context v =
     (case v of
        JNull \<Rightarrow> Inr None
      | JObj fs \<Rightarrow>
          if set (map fst fs) \<noteq> set PHASE_FIELDS then Inl ContinuityInvalidError
          else bindE (mapE (\<lambda>k. continuity_date (item fs k)) PHASE_FIELDS) (\<lambda>us. Inr (Some (map utc_datetime us)))
      | _ \<Rightarrow> Inl ContinuityInvalidError)"

definition ENTRY_KEYS :: "string list" where
  "ENTRY_KEYS = [''key'', ''kind'', ''title'', ''starts_at'', ''ends_at'', ''space_id'', ''day_id'', ''context'', ''facts'']"

definition decoded_entry :: "json \<Rightarrow> continuity_error + ContinuityEntry" where
  "decoded_entry v =
     (case v of
        JObj fs \<Rightarrow>
          if set (map fst fs) \<noteq> set ENTRY_KEYS then Inl ContinuityInvalidError
          else (case item fs ''facts'' of
            JList facts \<Rightarrow>
              if MAX_CONTINUITY_FACTS < length facts then Inl ContinuityInvalidError else
              bindE (mapE decoded_fact facts) (\<lambda>facts.
              bindE (continuity_date (item fs ''starts_at'')) (\<lambda>starts_at.
              bindE (continuity_date (item fs ''ends_at'')) (\<lambda>ends_at.
              bindE (continuity_uuid True (item fs ''space_id'')) (\<lambda>space_id.
              bindE (continuity_uuid True (item fs ''day_id'')) (\<lambda>day_id.
              bindE (decoded_context (item fs ''context'')) (\<lambda>context.
              Inr \<lparr>en_key = json_str (item fs ''key''), en_kind = json_str (item fs ''kind''), en_title = json_str (item fs ''title''),
                en_starts_at = utc_datetime starts_at, en_ends_at = utc_datetime ends_at, en_space_id = space_id, en_day_id = day_id,
                en_context = context, en_facts = facts\<rparr>))))))
          | _ \<Rightarrow> Inl ContinuityInvalidError)
      | _ \<Rightarrow> Inl ContinuityInvalidError)"

definition manifest_ceiling :: "ContinuityManifest \<Rightarrow> json \<Rightarrow> instant \<Rightarrow> (string \<times> json) list \<Rightarrow> bool" where
  "manifest_ceiling m scope observed data \<longleftrightarrow>
     item data ''contract'' = JStr CONTINUITY_PAYLOAD_CONTRACT \<and> json_sort (item data ''scope'') = json_sort scope
     \<and> item data ''observed_at'' = JStr (isoformat observed) \<and> json_str (item data ''zone_name'') = mf_zone_name m
     \<and> json_str (item data ''release_state'') = mf_release_state m
     \<and> json_number (item data ''pointer_version'') = mf_pointer_version m \<and> item data ''release_id'' = opt_uuid_json (mf_release_id m)"

definition decode_continuity_payload :: "'sk continuity_env \<Rightarrow> string \<Rightarrow> ContinuityManifest \<Rightarrow> continuity_error + ContinuityProjection" where
  "decode_continuity_payload env payload m =
     bindE (closed_json PAYLOAD_FIELDS MAX_CONTINUITY_PAYLOAD_BYTES payload) (\<lambda>data.
     bindE (scope_document (mf_scope m)) (\<lambda>scope.
     bindE (continuity_utc (mf_observed_at m)) (\<lambda>observed.
     bindE (requireE (manifest_ceiling m scope observed data)) (\<lambda>_.
     (case (item data ''entries'', item data ''source_contract'', item data ''source_sha256'', item data ''hosting_status'',
         item data ''work_status'') of
        (JList entries, JStr source_contract, JStr source_sha256, JStr hosting_status, JStr work_status) \<Rightarrow>
          bindE (requireE (length entries \<le> MAX_CONTINUITY_ENTRIES)) (\<lambda>_.
          bindE (opt_date (item data ''published_at'')) (\<lambda>published_at.
          bindE (mapE decoded_entry entries) (\<lambda>rows.
          let projection = \<lparr>pj_scope = mf_scope m, pj_source_contract = Typed source_contract, pj_source_sha256 = Typed source_sha256,
            pj_observed_at = mf_observed_at m, pj_zone_name = mf_zone_name m, pj_release_state = mf_release_state m,
            pj_pointer_version = mf_pointer_version m, pj_release_id = mf_release_id m, pj_published_at = published_at,
            pj_hosting_status = Typed hosting_status, pj_work_status = Typed work_status, pj_entries = rows\<rparr> in
          bindE (encode_continuity_payload env projection) (\<lambda>encoded.
          if encoded \<noteq> payload then Inl ContinuityInvalidError else Inr projection))))
      | _ \<Rightarrow> Inl ContinuityInvalidError)))))"

section \<open>Now and next\<close>

record ContinuityNowNext =
  nn_at :: instant
  nn_now :: "ContinuityEntry list"
  nn_next :: "ContinuityEntry list"

definition operative :: "ContinuityEntry \<Rightarrow> bool" where
  "operative e =
     (if en_kind e = Typed ''work_removed'' \<or> en_kind e = Typed ''work_completed'' then False
      else if en_kind e = Typed ''staffing_demand'' then
        list_ex (\<lambda>f. cf_code f = Typed ''status'' \<and> (cf_value f = Typed ''open'' \<or> cf_value f = Typed ''locked'')) (en_facts e)
      else True)"

text \<open>
  The sort key \<open>(_utc(starts_at), key)\<close>. On an encodable projection every start is an instant and every
  key a text.
\<close>

definition entry_order :: "ContinuityEntry \<Rightarrow> instant \<times> string" where
  "entry_order e = (utc_of (en_starts_at e), case en_key e of Typed k \<Rightarrow> k | Untyped \<Rightarrow> [])"

definition programme_now_next :: "'sk continuity_env \<Rightarrow> ContinuityProjection \<Rightarrow> py_instant \<Rightarrow> continuity_error + ContinuityNowNext" where
  "programme_now_next env p at =
     bindE (encode_continuity_payload env p) (\<lambda>_.
     bindE (continuity_utc at) (\<lambda>at.
     let entries = sort_key entry_order (filter operative (pj_entries p));
       following = filter (\<lambda>e. at < utc_of (en_starts_at e)) entries in
     Inr \<lparr>nn_at = at,
       nn_now = filter (\<lambda>e. utc_of (en_starts_at e) \<le> at \<and> at < utc_of (en_ends_at e)) entries,
       nn_next = (case following of [] \<Rightarrow> []
         | first # _ \<Rightarrow> filter (\<lambda>e. utc_of (en_starts_at e) = utc_of (en_starts_at first)) following)\<rparr>))"

end
