(* ===== verification/Continuity_Cards.thy ===== *)
theory Continuity_Cards
  imports Continuity_Payload Continuity_Props
begin

text \<open>
  The encoding of the cards of a package is read back: each card, the list of cards in their printed
  order, and the projection, whose normal form has its times in UTC and its cards in that order.
\<close>

section \<open>Objects\<close>

lemma sorted_object:
  assumes "distinct (map fst fs)"
  obtains fs' where "json_sort (JObj fs) = JObj fs'" "set (map fst fs') = set (map fst fs)" "\<And>k. item fs' k = json_sort (item fs k)"
proof -
  have "json_sort (JObj fs) = JObj (sort_key fst (json_sort_fields fs))" by simp
  then show ?thesis using that [OF _ set_keys_sorted item_sort [OF assms]] by blast
qed

section \<open>Normal cards\<close>

definition normal_time :: "py_instant \<Rightarrow> py_instant" where
  "normal_time t = utc_datetime (utc_of t)"

definition normal_entry :: "ContinuityEntry \<Rightarrow> ContinuityEntry" where
  "normal_entry e = e\<lparr>en_starts_at := normal_time (en_starts_at e), en_ends_at := normal_time (en_ends_at e),
     en_context := map_option (map normal_time) (en_context e)\<rparr>"

lemma continuity_utc_utc_of: "continuity_utc t = Inr u \<Longrightarrow> utc_of t = u"
  by (simp add: utc_of_def)

lemma normal_time_utc: "continuity_utc t = Inr u \<Longrightarrow> continuity_utc (normal_time t) = Inr u"
  by (simp add: normal_time_def continuity_utc_utc_of continuity_utc_valid)

lemma mapE_utc: "mapE continuity_utc ts = Inr us \<Longrightarrow> us = map utc_of ts \<and> list_all valid_instant us
    \<and> mapE continuity_utc (map normal_time ts) = Inr us"
  unfolding mapE_eq_Inr
  by (induction rule: list_all2_induct) (simp_all add: continuity_utc_utc_of continuity_utc_valid normal_time_utc)

lemma mapE_utc_values: "mapE continuity_utc ts = Inr us \<Longrightarrow> us = map utc_of ts \<and> list_all valid_instant us"
  using mapE_utc by blast

lemma entry_times_Inr:
  assumes "entry_times e = Inr (s, n, context)"
  shows "continuity_utc (en_starts_at e) = Inr s" "continuity_utc (en_ends_at e) = Inr n" "s < n"
    "context = map_option (map utc_of) (en_context e)"
    "\<forall>us. context = Some us \<longrightarrow> length us = 4 \<and> list_all valid_instant us"
    "entry_times (normal_entry e) = Inr (s, n, context)"
proof -
  from assms show t: "continuity_utc (en_starts_at e) = Inr s" "continuity_utc (en_ends_at e) = Inr n" "s < n"
    by (auto simp: entry_times_def bindE_eq_Inr split: option.splits)
  show "context = map_option (map utc_of) (en_context e)" "\<forall>us. context = Some us \<longrightarrow> length us = 4 \<and> list_all valid_instant us"
    using assms
    by (auto simp: entry_times_def bindE_eq_Inr PHASE_FIELDS_def split: option.splits dest!: mapE_utc_values)
  show "entry_times (normal_entry e) = Inr (s, n, context)"
    using assms mapE_utc
    by (auto simp: entry_times_def normal_entry_def normal_time_utc bindE_eq_Inr split: option.splits)
qed

section \<open>Facts\<close>

lemma payload_text_Inr: "payload_text v n r = Inr s \<Longrightarrow> v = Typed s"
  by (auto simp: payload_text_def split: typed.splits if_splits)

lemma decoded_fact_sort:
  "decoded_fact (json_sort (JObj [(''code'', JStr c), (''value'', JStr v)])) = Inr \<lparr>cf_code = Typed c, cf_value = Typed v\<rparr>"
  by (simp add: decoded_fact_def item_def json_str_def)

lemma fact_documents_read:
  "fact_documents allowed seen fs = Inr js \<Longrightarrow> mapE decoded_fact (json_sort_list js) = Inr fs \<and> length js = length fs
    \<and> json_keys_list js \<and> list_all (\<lambda>f. \<exists>c. cf_code f = Typed c \<and> c \<in> set allowed) fs"
proof (induction allowed seen fs arbitrary: js rule: fact_documents.induct)
  case (2 allowed seen f fs)
  then obtain code val rest where f: "cf_code f = Typed code" "payload_text (cf_value f) MAX_CONTINUITY_FACT_TEXT False = Inr val"
    "code \<in> set allowed" "\<not> (code \<in> set seen \<and> code \<noteq> ''retained_work'' \<and> code \<noteq> ''programme_link'')"
    "fact_documents allowed (code # seen) fs = Inr rest" "js = JObj [(''code'', JStr code), (''value'', JStr val)] # rest"
    by (auto simp: bindE_eq_Inr split: typed.splits if_splits)
  from 2(1) [OF f(1) _ f(4,5)] f(3) have "mapE decoded_fact (json_sort_list rest) = Inr fs" "length rest = length fs" "json_keys_list rest"
    "list_all (\<lambda>f. \<exists>c. cf_code f = Typed c \<and> c \<in> set allowed) fs"
    by simp_all
  moreover have "f = \<lparr>cf_code = Typed code, cf_value = Typed val\<rparr>" using f(1) payload_text_Inr [OF f(2)] by simp
  ultimately show ?case using f(1,3) decoded_fact_sort [of code val] by (simp add: f(6) del: json_sort.simps)
qed simp

section \<open>Cards\<close>

text \<open>What an encodable card is, apart from its times.\<close>

definition card_ok :: "string \<Rightarrow> string list \<Rightarrow> ContinuityEntry \<Rightarrow> string \<Rightarrow> string \<Rightarrow> string \<Rightarrow> json list \<Rightarrow> bool" where
  "card_ok audience layers e key kind title facts \<longleftrightarrow>
     en_key e = Typed key \<and> en_kind e = Typed kind
     \<and> (\<exists>kinds. map_of KINDS audience = Some kinds \<and> kind \<in> set kinds) \<and> key_checks kind key = Inr ()
     \<and> en_space_id e \<noteq> Some 0 \<and> en_day_id e \<noteq> Some 0
     \<and> (if kind \<in> {''public_event'', ''operator_event'', ''host_presence''}
        then en_space_id e \<noteq> None \<and> en_day_id e \<noteq> None else en_space_id e = None \<and> en_day_id e = None)
     \<and> length (en_facts e) \<le> MAX_CONTINUITY_FACTS
     \<and> (\<exists>allowed. fact_codes kind layers = Inr allowed \<and> fact_documents allowed [] (en_facts e) = Inr facts)
     \<and> payload_text (en_title e) TITLE_LENGTH True = Inr title"

lemma entry_document_Inr:
  "entry_document audience layers e = Inr j \<longleftrightarrow>
     (\<exists>key kind title facts span. card_ok audience layers e key kind title facts \<and> entry_times e = Inr span
       \<and> j = entry_fields key kind title span (en_space_id e) (en_day_id e) facts)" (is "?l \<longleftrightarrow> ?r")
proof
  show "?l \<Longrightarrow> ?r"
    by (cases "en_kind e"; cases "en_key e") (auto simp: entry_document_def card_ok_def bindE_eq_Inr split: option.splits)
  show "?r \<Longrightarrow> ?l"
    unfolding card_ok_def by (auto simp: entry_document_def)
qed

lemma read_opt_id: "v \<noteq> Some 0 \<Longrightarrow> continuity_uuid True (opt_id_json v) = Inr v"
  by (cases v) (auto simp: opt_id_json_def continuity_uuid_JStr, simp add: continuity_uuid_def)

lemma opt_id_leaf [simp]: "json_sort (opt_id_json v) = opt_id_json v" "json_keys (opt_id_json v)"
  by (simp_all add: opt_id_json_def split: option.splits)

lemma context_keys: "length us = 4 \<Longrightarrow> \<exists>fs. context_json us = JObj fs \<and> map fst fs = PHASE_FIELDS"
  by (simp add: context_json_def PHASE_FIELDS_def)

lemma continuity_date_isoformat: "valid_instant u \<Longrightarrow> continuity_date (JStr (isoformat u)) = Inr u"
  by (simp add: continuity_date_iff)

lemma decoded_context_sort:
  assumes "length us = 4" and "list_all valid_instant us"
  shows "decoded_context (json_sort (context_json us)) = Inr (Some (map utc_datetime us))"
proof -
  obtain a b c d where us: "us = [a, b, c, d]"
    using assms(1) by (auto simp: numeral_eq_Suc length_Suc_conv)
  have p: "distinct PHASE_FIELDS" by (simp add: PHASE_FIELDS_def)
  obtain fs where fs: "context_json us = JObj fs" "map fst fs = PHASE_FIELDS" using context_keys [OF assms(1)] by blast
  obtain fs' where f: "json_sort (context_json us) = JObj fs'" "set (map fst fs') = set PHASE_FIELDS" "\<And>k. item fs' k = json_sort (item fs k)"
    using sorted_object [of fs] fs p by metis
  have "mapE (\<lambda>k. continuity_date (item fs' k)) PHASE_FIELDS = Inr us"
    using fs assms(2) unfolding f(3) by (auto simp: us PHASE_FIELDS_def context_json_def item_def continuity_date_isoformat)
  then show ?thesis unfolding f(1) decoded_context_def by (simp only: json.case f(2) if_False HOL.simp_thms bindE.simps)
qed

lemma decoded_entry_document:
  assumes "entry_document audience layers e = Inr j"
  shows "decoded_entry (json_sort j) = Inr (normal_entry e)"
proof -
  obtain key kind title facts s n phases where c: "card_ok audience layers e key kind title facts"
    and span: "entry_times e = Inr (s, n, phases)"
    and j: "j = entry_fields key kind title (s, n, phases) (en_space_id e) (en_day_id e) facts"
    using assms unfolding entry_document_Inr by (metis prod_cases3)
  note ok = c [unfolded card_ok_def]
  note times = entry_times_Inr [OF span]
  have "\<exists>fs. j = JObj fs \<and> distinct (map fst fs) \<and> set (map fst fs) = set ENTRY_KEYS"
    by (simp add: j entry_fields_def ENTRY_KEYS_def insert_commute)
  then obtain fs where fs: "j = JObj fs" "distinct (map fst fs)" "set (map fst fs) = set ENTRY_KEYS" by blast
  obtain fs' where f: "json_sort j = JObj fs'" "set (map fst fs') = set ENTRY_KEYS" "\<And>k. item fs' k = json_sort (item fs k)"
    using sorted_object [OF fs(2)] fs(1,3) by metis
  have items: "item fs' ''key'' = JStr key" "item fs' ''kind'' = JStr kind" "item fs' ''title'' = JStr title"
    "item fs' ''starts_at'' = JStr (isoformat s)" "item fs' ''ends_at'' = JStr (isoformat n)"
    "item fs' ''context'' = json_sort (case phases of None \<Rightarrow> JNull | Some us \<Rightarrow> context_json us)"
    "item fs' ''space_id'' = opt_id_json (en_space_id e)" "item fs' ''day_id'' = opt_id_json (en_day_id e)"
    "item fs' ''facts'' = JList (json_sort_list facts)"
    using j fs(1) unfolding f(3) entry_fields_def by (simp_all add: item_def)
  obtain allowed where fd: "fact_documents allowed [] (en_facts e) = Inr facts" using ok by blast
  note facts = fact_documents_read [OF fd]
  have len: "length (json_sort_list facts) = length (en_facts e)"
    using facts by (metis (no_types) json_sort_list_map length_map)
  have dates: "continuity_date (JStr (isoformat s)) = Inr s" "continuity_date (JStr (isoformat n)) = Inr n"
    using times(1,2) continuity_utc_valid by (simp_all add: continuity_date_iff)
  have ids: "continuity_uuid True (opt_id_json (en_space_id e)) = Inr (en_space_id e)"
    "continuity_uuid True (opt_id_json (en_day_id e)) = Inr (en_day_id e)"
    using ok by (simp_all add: read_opt_id)
  have ctx: "decoded_context (json_sort (case phases of None \<Rightarrow> JNull | Some us \<Rightarrow> context_json us)) =
      Inr (map_option (map normal_time) (en_context e))"
  proof (cases phases)
    case None
    then show ?thesis using times(4) by (simp add: decoded_context_def)
  next
    case (Some us)
    then have "decoded_context (json_sort (context_json us)) = Inr (Some (map utc_datetime us))"
      using times(5) by (intro decoded_context_sort) simp_all
    then show ?thesis using Some times(4) by (auto simp: normal_time_def comp_def)
  qed
  have e: "normal_entry e = \<lparr>en_key = json_str (JStr key), en_kind = json_str (JStr kind), en_title = json_str (JStr title),
      en_starts_at = utc_datetime s, en_ends_at = utc_datetime n, en_space_id = en_space_id e, en_day_id = en_day_id e,
      en_context = map_option (map normal_time) (en_context e), en_facts = en_facts e\<rparr>"
    using ok times(1,2) payload_text_Inr by (auto simp: normal_entry_def json_str_def normal_time_def continuity_utc_utc_of)
  show ?thesis
    unfolding f(1) decoded_entry_def json.case f(2) items len dates ids ctx using facts ok e by simp
qed

text \<open>The place of a card among the rows: its printed start and its key.\<close>

definition card_order :: "ContinuityEntry \<Rightarrow> string \<times> string" where
  "card_order e = (isoformat (utc_of (en_starts_at e)), case en_key e of Typed k \<Rightarrow> k | Untyped \<Rightarrow> [])"

lemma entry_row:
  assumes "entry_document audience layers e = Inr j"
  shows "row_order j = card_order e" "json_keys j" "entry_document audience layers (normal_entry e) = Inr j"
proof -
  obtain key kind title facts s n phases where c: "card_ok audience layers e key kind title facts"
    and span: "entry_times e = Inr (s, n, phases)"
    and j: "j = entry_fields key kind title (s, n, phases) (en_space_id e) (en_day_id e) facts"
    using assms unfolding entry_document_Inr by (metis prod_cases3)
  note times = entry_times_Inr [OF span]
  show "row_order j = card_order e"
    using c times(1) by (simp add: j entry_fields_def row_order_def row_text_def item_def card_order_def card_ok_def continuity_utc_utc_of)
  have "json_keys_list facts" using c fact_documents_read by (auto simp: card_ok_def)
  moreover have "json_keys (context_json us)" if "phases = Some us" for us
  proof -
    have "length us = 4" using that times(5) by blast
    then obtain a b c d where "us = [a, b, c, d]" by (auto simp: numeral_eq_Suc length_Suc_conv)
    then show ?thesis by (simp add: context_json_def PHASE_FIELDS_def)
  qed
  ultimately show "json_keys j" by (simp add: j entry_fields_def split: option.splits)
  have "card_ok audience layers (normal_entry e) key kind title facts" using c by (simp add: card_ok_def normal_entry_def)
  moreover have "en_space_id (normal_entry e) = en_space_id e" "en_day_id (normal_entry e) = en_day_id e" by (simp_all add: normal_entry_def)
  ultimately show "entry_document audience layers (normal_entry e) = Inr j"
    unfolding entry_document_Inr using times(6) j by metis
qed

section \<open>Lists of cards\<close>

definition card_admitted :: "string typed \<Rightarrow> string typed \<Rightarrow> ContinuityEntry \<Rightarrow> bool" where
  "card_admitted release_state work_status e \<longleftrightarrow>
     (en_kind e \<in> {Typed ''public_event'', Typed ''operator_event'', Typed ''host_presence''} \<longrightarrow> release_state = Typed ''available'')
     \<and> ((case en_kind e of Typed kind \<Rightarrow> take 5 kind = ''work_'' \<or> kind = ''staffing_demand'' | Untyped \<Rightarrow> False)
       \<longrightarrow> work_status = Typed ''available'')"

definition fact_total :: "ContinuityEntry list \<Rightarrow> nat" where
  "fact_total es = sum_list (map (\<lambda>e. length (en_facts e)) es)"

lemma entry_documents_Inr:
  "entry_documents audience layers rs ws es seen n = Inr js \<longleftrightarrow>
     list_all2 (\<lambda>e j. entry_document audience layers e = Inr j) es js \<and> distinct (map en_key es)
     \<and> set (map en_key es) \<inter> set seen = {} \<and> (es \<noteq> [] \<longrightarrow> n + fact_total es \<le> MAX_CONTINUITY_FACTS)
     \<and> list_all (card_admitted rs ws) es"
proof (induction es arbitrary: seen n js)
  case Nil
  then show ?case by auto
next
  case (Cons e es)
  let ?ok = "en_key e \<notin> set seen \<and> n + length (en_facts e) \<le> MAX_CONTINUITY_FACTS \<and> card_admitted rs ws e"
  have "entry_documents audience layers rs ws (e # es) seen n = Inr js \<longleftrightarrow>
      (\<exists>j ks. entry_document audience layers e = Inr j \<and> ?ok \<and> js = j # ks
        \<and> entry_documents audience layers rs ws es (en_key e # seen) (n + length (en_facts e)) = Inr ks)"
    by (auto simp: bindE_eq_Inr card_admitted_def not_less split: if_splits)
  then show ?case
    unfolding Cons.IH by (cases js) (auto simp: fact_total_def)
qed

lemma sum_list_sort_key:
  fixes f :: "'a \<Rightarrow> nat"
  shows "sum_list (map f (sort_key k xs)) = sum_list (map f xs)"
  by (metis mset_map mset_sort sum_mset_sum_list)

lemma insort_key_map_on:
  "\<forall>y \<in> set (x # ys). k (f y) = k' y \<Longrightarrow> insort_key k (f x) (map f ys) = map f (insort_key k' x ys)"
  by (induction ys) auto

lemma sort_key_map_on: "\<forall>x \<in> set xs. k (f x) = k' x \<Longrightarrow> sort_key k (map f xs) = map f (sort_key k' xs)"
proof (induction xs)
  case (Cons x xs)
  then show ?case using insort_key_map_on [of x "sort_key k' xs" k f k'] by simp
qed simp

text \<open>The cards of a projection in the order of their rows, and their normal forms.\<close>

definition normal_entries :: "ContinuityEntry list \<Rightarrow> ContinuityEntry list" where
  "normal_entries es = map normal_entry (sort_key card_order es)"

lemma normal_entries_documents:
  assumes "entry_documents audience layers rs ws es [] 0 = Inr js"
  shows "entry_documents audience layers rs ws (normal_entries es) [] 0 = Inr (sort_key row_order js)"
    "mapE decoded_entry (json_sort_list (sort_key row_order js)) = Inr (normal_entries es)"
    "length js = length es" "json_keys_list (sort_key row_order js)"
proof -
  note docs = assms [unfolded entry_documents_Inr]
  define doc where "doc = (\<lambda>e. case entry_document audience layers e of Inr j \<Rightarrow> j | Inl _ \<Rightarrow> JNull)"
  have "list_all2 (\<lambda>e j. entry_document audience layers e = Inr j) es js" using docs by blast
  then have js: "js = map doc es \<and> (\<forall>e \<in> set es. entry_document audience layers e = Inr (doc e))"
    by (induction rule: list_all2_induct) (simp_all add: doc_def)
  then have each: "\<forall>e \<in> set es. entry_document audience layers e = Inr (doc e)" by blast
  have sorted: "sort_key row_order js = map doc (sort_key card_order es)"
    using js entry_row(1) sort_key_map_on [of es row_order doc card_order] by metis
  show "length js = length es" by (simp add: js)
  have all: "list_all2 (\<lambda>e j. entry_document audience layers e = Inr j) (normal_entries es) (sort_key row_order js)"
    unfolding sorted normal_entries_def using each entry_row(3) by (simp add: list_all2_map1 list_all2_map2 list_all2_same)
  show "entry_documents audience layers rs ws (normal_entries es) [] 0 = Inr (sort_key row_order js)"
    unfolding entry_documents_Inr
  proof (intro conjI all)
    have keys: "map en_key (normal_entries es) = map en_key (sort_key card_order es)" by (simp add: normal_entries_def normal_entry_def)
    show "distinct (map en_key (normal_entries es))"
      unfolding keys using docs mset_eq_imp_distinct_iff [of "map en_key (sort_key card_order es)" "map en_key es"] by simp
    have "fact_total (normal_entries es) = sum_list (map (\<lambda>e. length (en_facts e)) (sort_key card_order es))"
      by (simp add: fact_total_def normal_entries_def comp_def normal_entry_def)
    also have "\<dots> = fact_total es" unfolding fact_total_def by (rule sum_list_sort_key)
    finally show "normal_entries es \<noteq> [] \<longrightarrow> 0 + fact_total (normal_entries es) \<le> MAX_CONTINUITY_FACTS"
      using docs by (cases es) (simp_all add: normal_entries_def)
    have "card_admitted rs ws (normal_entry e) = card_admitted rs ws e" for e
      by (simp add: card_admitted_def normal_entry_def)
    then show "list_all (card_admitted rs ws) (normal_entries es)"
      using docs by (simp add: list_all_iff normal_entries_def)
  qed simp
  show "mapE decoded_entry (json_sort_list (sort_key row_order js)) = Inr (normal_entries es)"
    unfolding mapE_eq_Inr json_sort_list_map sorted normal_entries_def
    using each by (simp add: list_all2_map1 list_all2_map2 list_all2_same) (blast intro: decoded_entry_document)
  have "json_keys_list xs = list_all json_keys xs" for xs by (induction xs) simp_all
  then show "json_keys_list (sort_key row_order js)"
    unfolding sorted using each entry_row(2) by (auto simp: list_all_iff)
qed

section \<open>Projections\<close>

definition normal_projection :: "ContinuityProjection \<Rightarrow> ContinuityProjection" where
  "normal_projection p = p\<lparr>pj_observed_at := normal_time (pj_observed_at p),
     pj_published_at := map_option normal_time (pj_published_at p), pj_entries := normal_entries (pj_entries p)\<rparr>"

definition opt_utc :: "py_instant option \<Rightarrow> continuity_error + instant option" where
  "opt_utc v = (case v of None \<Rightarrow> Inr None | Some t \<Rightarrow> bindE (continuity_utc t) (\<lambda>u. Inr (Some u)))"

definition projection_ok :: "'sk continuity_env \<Rightarrow> ContinuityProjection \<Rightarrow> json \<Rightarrow> instant \<Rightarrow> instant option \<Rightarrow> json list \<Rightarrow> bool" where
  "projection_ok env p scope observed published js \<longleftrightarrow>
     scope_document (pj_scope p) = Inr scope \<and> source_metadata env p = Inr ()
     \<and> (\<exists>audience layers. sc_audience (pj_scope p) = Typed audience \<and> all_typed (sc_layers (pj_scope p)) = Some layers
       \<and> map_option Typed (map_of SOURCE_CONTRACTS audience) = Some (pj_source_contract p)
       \<and> layer_states audience layers (pj_release_state p) (pj_hosting_status p) (pj_work_status p) = Inr ()
       \<and> entry_documents audience layers (pj_release_state p) (pj_work_status p) (pj_entries p) [] 0 = Inr js)
     \<and> (\<exists>s. pj_source_sha256 p = Typed s \<and> hex64 s) \<and> length (pj_entries p) \<le> MAX_CONTINUITY_ENTRIES
     \<and> continuity_utc (pj_observed_at p) = Inr observed \<and> opt_utc (pj_published_at p) = Inr published"

lemma projection_document_Inr:
  "projection_document env p = Inr d \<longleftrightarrow>
     (\<exists>scope observed published js. projection_ok env p scope observed published js
       \<and> d = projection_fields p scope observed published js)" (is "?l \<longleftrightarrow> ?r")
proof
  show "?l \<Longrightarrow> ?r"
    unfolding projection_document_def opt_utc_def [symmetric]
    by (cases "sc_audience (pj_scope p)"; cases "all_typed (sc_layers (pj_scope p))"; cases "pj_source_sha256 p")
      (auto simp: projection_ok_def bindE_eq_Inr)
  show "?r \<Longrightarrow> ?l"
    unfolding projection_document_def opt_utc_def [symmetric] projection_ok_def by auto
qed

lemma normal_opt_utc: "opt_utc v = Inr r \<Longrightarrow> opt_utc (map_option normal_time v) = Inr r \<and> r = map_option utc_of v
    \<and> (\<forall>u. r = Some u \<longrightarrow> valid_instant u)"
  by (cases v) (auto simp: opt_utc_def bindE_eq_Inr normal_time_utc continuity_utc_utc_of continuity_utc_valid)

lemma source_metadata_normal:
  assumes "source_metadata env p = Inr ()" and "continuity_utc (pj_observed_at p) = Inr observed"
  shows "source_metadata env (normal_projection p) = Inr ()"
proof -
  have same: "pj_scope (normal_projection p) = pj_scope p" "pj_release_state (normal_projection p) = pj_release_state p"
    "pj_pointer_version (normal_projection p) = pj_pointer_version p" "pj_release_id (normal_projection p) = pj_release_id p"
    "pj_zone_name (normal_projection p) = pj_zone_name p"
    "pj_published_at (normal_projection p) = map_option normal_time (pj_published_at p)"
    "pj_observed_at (normal_projection p) = normal_time (pj_observed_at p)"
    by (simp_all add: normal_projection_def)
  have obs: "continuity_utc (normal_time (pj_observed_at p)) = Inr observed" using assms(2) by (rule normal_time_utc)
  show ?thesis
    using assms(1) unfolding source_metadata_def same obs assms(2)
    by (cases "pj_zone_name p"; cases "pj_published_at p") (auto simp: bindE_eq_Inr normal_time_utc split: if_splits)
qed

lemma projection_normal:
  assumes "projection_ok env p scope observed published js"
  shows "projection_ok env (normal_projection p) scope observed published (sort_key row_order js)"
    "projection_fields (normal_projection p) scope observed published (sort_key row_order js) = projection_fields p scope observed published js"
proof -
  note ok = assms [unfolded projection_ok_def]
  have same: "pj_scope (normal_projection p) = pj_scope p" "pj_release_state (normal_projection p) = pj_release_state p"
    "pj_source_contract (normal_projection p) = pj_source_contract p" "pj_source_sha256 (normal_projection p) = pj_source_sha256 p"
    "pj_hosting_status (normal_projection p) = pj_hosting_status p" "pj_work_status (normal_projection p) = pj_work_status p"
    "pj_published_at (normal_projection p) = map_option normal_time (pj_published_at p)"
    "pj_observed_at (normal_projection p) = normal_time (pj_observed_at p)" "pj_entries (normal_projection p) = normal_entries (pj_entries p)"
    "length (normal_entries (pj_entries p)) = length (pj_entries p)"
    by (simp_all add: normal_projection_def normal_entries_def)
  have "source_metadata env (normal_projection p) = Inr ()" using source_metadata_normal ok by blast
  moreover have "continuity_utc (normal_time (pj_observed_at p)) = Inr observed" using normal_time_utc ok by blast
  moreover have "opt_utc (map_option normal_time (pj_published_at p)) = Inr published" using normal_opt_utc ok by blast
  ultimately show "projection_ok env (normal_projection p) scope observed published (sort_key row_order js)"
    unfolding projection_ok_def same using ok normal_entries_documents(1) by blast
  show "projection_fields (normal_projection p) scope observed published (sort_key row_order js) = projection_fields p scope observed published js"
    unfolding projection_fields_def sort_key_idem by (simp add: normal_projection_def)
qed

section \<open>Decoding\<close>

text \<open>A manifest that describes a projection, as the signer builds it.\<close>

definition describes :: "ContinuityManifest \<Rightarrow> ContinuityProjection \<Rightarrow> bool" where
  "describes m p \<longleftrightarrow> mf_scope m = pj_scope p \<and> mf_observed_at m = normal_time (pj_observed_at p) \<and> mf_zone_name m = pj_zone_name p
     \<and> mf_release_state m = pj_release_state p \<and> mf_pointer_version m = pj_pointer_version p \<and> mf_release_id m = pj_release_id p"

lemma encode_Inr:
  "encode_continuity_payload env p = Inr payload \<longleftrightarrow> (\<exists>scope observed published js. projection_ok env p scope observed published js
     \<and> payload = json_dumps (projection_fields p scope observed published js) \<and> length payload \<le> MAX_CONTINUITY_PAYLOAD_BYTES)"
proof -
  have "encode_continuity_payload env p = Inr payload \<longleftrightarrow>
      (\<exists>d. projection_document env p = Inr d \<and> payload = json_dumps d \<and> length payload \<le> MAX_CONTINUITY_PAYLOAD_BYTES)"
    by (auto simp: encode_continuity_payload_def bindE_eq_Inr Let_def not_less split: if_splits)
  then show ?thesis unfolding projection_document_Inr by blast
qed

lemma encode_normal:
  assumes "encode_continuity_payload env p = Inr payload"
  shows "encode_continuity_payload env (normal_projection p) = Inr payload"
  using assms projection_normal unfolding encode_Inr by metis

lemma projection_keys: "\<exists>fs. projection_fields p scope observed published js = JObj fs \<and> map fst fs = PAYLOAD_FIELDS"
  by (simp add: projection_fields_def PAYLOAD_FIELDS_def)

lemma decode_encoded:
  assumes "encode_continuity_payload env p = Inr payload" and "describes m p"
  shows "decode_continuity_payload env payload m = Inr (normal_projection p)"
proof -
  obtain scope observed published js where ok: "projection_ok env p scope observed published js"
    and payload: "payload = json_dumps (projection_fields p scope observed published js)" "length payload \<le> MAX_CONTINUITY_PAYLOAD_BYTES"
    using assms(1) unfolding encode_Inr by blast
  note o = ok [unfolded projection_ok_def]
  note m = assms(2) [unfolded describes_def]
  obtain audience layers where docs: "entry_documents audience layers (pj_release_state p) (pj_work_status p) (pj_entries p) [] 0 = Inr js"
    and typed: "map_option Typed (map_of SOURCE_CONTRACTS audience) = Some (pj_source_contract p)"
      "layer_states audience layers (pj_release_state p) (pj_hosting_status p) (pj_work_status p) = Inr ()"
    using o by blast
  note rows = normal_entries_documents [OF docs]
  have rs: "validate_release_state (sc_audience (pj_scope p)) (pj_release_state p) (pj_pointer_version p) (pj_release_id p) = Inr ()"
    using o by (auto simp: source_metadata_def bindE_eq_Inr)
  obtain contract where c: "pj_source_contract p = Typed contract" using typed(1) by (cases "pj_source_contract p") auto
  obtain hosting work where hw: "pj_hosting_status p = Typed hosting" "pj_work_status p = Typed work"
    using typed(2) by (auto simp: layer_states_def split: typed.splits)
  obtain zone where z: "pj_zone_name p = Typed zone" using o by (auto simp: source_metadata_def bindE_eq_Inr split: typed.splits)
  obtain state where st: "pj_release_state p = Typed state" using release_state_Inr(1) [OF rs] by blast
  obtain sha where sha: "pj_source_sha256 p = Typed sha" using o by blast
  note s = st z c hw sha
  have pointer: "json_number (pointer_json (pj_pointer_version p)) = pj_pointer_version p" by (rule release_state_Inr(2) [OF rs])
  have leaf: "json_sort (pointer_json v) = pointer_json v" "json_keys (pointer_json v)" for v
    by (simp_all add: pointer_json_def split: option.splits py_number.splits)
  obtain fs where fs: "projection_fields p scope observed published js = JObj fs" "map fst fs = PAYLOAD_FIELDS" using projection_keys by blast
  have distinct: "distinct PAYLOAD_FIELDS" by (simp add: PAYLOAD_FIELDS_def)
  have scope: "scope_document (pj_scope p) = Inr scope" using o by blast
  have "json_keys (opt_uuid_json (pj_release_id p))" by (simp add: opt_uuid_json_def split: option.splits typed.splits)
  then have keys: "json_keys (JObj fs)"
    using scope_json_keys [OF scope] rows(4) leaf(2)
    unfolding fs(1) [symmetric] projection_fields_def s json_typed_def by (simp split: option.splits)
  define fs' where "fs' = sort_key fst (json_sort_fields fs)"
  have closed: "closed_json PAYLOAD_FIELDS MAX_CONTINUITY_PAYLOAD_BYTES payload = Inr fs'"
    using payload closed_json_dumps [OF keys, of MAX_CONTINUITY_PAYLOAD_BYTES PAYLOAD_FIELDS] fs(2) by (simp add: fs(1) fs'_def)
  have it: "item fs' k = json_sort (item fs k)" for k
    unfolding fs'_def using item_sorted fs(2) distinct by blast
  have items: "item fs' ''contract'' = JStr CONTINUITY_PAYLOAD_CONTRACT" "item fs' ''scope'' = json_sort scope"
    "item fs' ''source_contract'' = JStr contract" "item fs' ''source_sha256'' = JStr sha" "item fs' ''observed_at'' = JStr (isoformat observed)"
    "item fs' ''zone_name'' = JStr zone" "item fs' ''release_state'' = JStr state"
    "item fs' ''pointer_version'' = pointer_json (pj_pointer_version p)" "item fs' ''release_id'' = opt_uuid_json (pj_release_id p)"
    "item fs' ''published_at'' = (case published of None \<Rightarrow> JNull | Some u \<Rightarrow> JStr (isoformat u))"
    "item fs' ''hosting_status'' = JStr hosting" "item fs' ''work_status'' = JStr work"
    "item fs' ''entries'' = JList (json_sort_list (sort_key row_order js))"
    using fs(1) [symmetric] unfolding it projection_fields_def s json_typed_def by (cases published; simp add: item_def leaf)+
  have obs: "continuity_utc (mf_observed_at m) = Inr observed" using o m normal_time_utc by simp
  have ceiling: "manifest_ceiling m scope observed fs'"
    using m unfolding manifest_ceiling_def items s pointer by (simp add: json_sort_idem json_str_def)
  have len: "length (json_sort_list (sort_key row_order js)) \<le> MAX_CONTINUITY_ENTRIES"
    using rows(3) o by (simp add: json_sort_list_map)
  note pub = normal_opt_utc [of "pj_published_at p" published]
  have published: "opt_date (case published of None \<Rightarrow> JNull | Some u \<Rightarrow> JStr (isoformat u)) = Inr (map_option normal_time (pj_published_at p))"
    using pub o by (auto simp: opt_date_def continuity_date_isoformat normal_time_def split: option.splits)
  have projection: "normal_projection p = \<lparr>pj_scope = mf_scope m, pj_source_contract = Typed contract, pj_source_sha256 = Typed sha,
      pj_observed_at = mf_observed_at m, pj_zone_name = mf_zone_name m, pj_release_state = mf_release_state m,
      pj_pointer_version = mf_pointer_version m, pj_release_id = mf_release_id m, pj_published_at = map_option normal_time (pj_published_at p),
      pj_hosting_status = Typed hosting, pj_work_status = Typed work, pj_entries = normal_entries (pj_entries p)\<rparr>"
    using m s by (simp add: normal_projection_def)
  have scope': "scope_document (mf_scope m) = Inr scope" using scope m by simp
  have same: "encode_continuity_payload env (normal_projection p) = Inr payload" by (rule encode_normal [OF assms(1)])
  show ?thesis
    unfolding decode_continuity_payload_def closed scope' obs bindE.simps items using ceiling len
    by (simp add: published rows(2) Let_def projection [symmetric] same del: json_sort_list.simps)
qed

end
