(* ===== verification/Continuity_Signing.thy ===== *)
theory Continuity_Signing
  imports Continuity_Cards
begin

text \<open>
  Issuing continuity packages (\<open>src/src/maru/scheduling/continuity_signing.py\<close>): the signing policy read
  from the process environment and the signature of a fresh projection under its one active key.
  Building a private key from 32 bytes is an argument; what the environment holds under the policy's
  name is the argument \<open>raw\<close>.
\<close>

definition SIGNING_POLICY_CONTRACT :: string where
  "SIGNING_POLICY_CONTRACT = ''scheduling.programme-continuity-signing-policy@1''"

definition MAX_SIGNING_POLICY_BYTES :: nat where "MAX_SIGNING_POLICY_BYTES = 32768"
definition PRIVATE_KEY_BYTES :: nat where "PRIVATE_KEY_BYTES = 32"

text \<open>\<open>MAX_CONTINUITY_AGE.total_seconds()\<close>.\<close>

definition max_age_seconds :: int where
  "max_age_seconds = MAX_CONTINUITY_AGE div second_us"

datatype signing_error = ContinuitySigningUnavailableError | TzinfoEscaped

record 'sk ContinuitySigningKey =
  sk_trust :: ContinuityTrustKey
  sk_private_key :: "'sk typed"

record 'sk ContinuitySigningPolicy =
  sp_keys :: "'sk ContinuitySigningKey list"
  sp_lifetime_seconds :: py_number

text \<open>\<open>except (ValueError, TypeError, OverflowError, UnsupportedAlgorithm)\<close>: both continuity errors are
  value errors.\<close>

definition unavailable :: "continuity_error + 'a \<Rightarrow> signing_error + 'a" where
  "unavailable r = (case r of Inr x \<Rightarrow> Inr x | Inl TzinfoRaised \<Rightarrow> Inl TzinfoEscaped | Inl e \<Rightarrow> Inl ContinuitySigningUnavailableError)"

section \<open>The policy\<close>

definition POLICY_KEY_FIELDS :: "string list" where
  "POLICY_KEY_FIELDS = [''organization_id'', ''edition_id'', ''key_id'', ''private_key_b64'', ''not_before'', ''not_after'']"

definition policy_key :: "'sk continuity_env \<Rightarrow> (string \<Rightarrow> 'sk option) \<Rightarrow> json \<Rightarrow> continuity_error + 'sk ContinuitySigningKey" where
  "policy_key env from_private_bytes v =
     (case v of
        JObj fs \<Rightarrow>
          if set (map fst fs) \<noteq> set POLICY_KEY_FIELDS then Inl ContinuityInvalidError else
          bindE (continuity_uuid False (item fs ''organization_id'')) (\<lambda>organization_id.
          bindE (continuity_uuid False (item fs ''edition_id'')) (\<lambda>edition_id.
          (case (organization_id, edition_id, item fs ''key_id'') of
             (Some organization_id, Some edition_id, JStr key_id) \<Rightarrow>
               bindE (continuity_base64 PRIVATE_KEY_BYTES (item fs ''private_key_b64'')) (\<lambda>private.
               (case from_private_bytes private of
                  None \<Rightarrow> Inl ContinuityInvalidError
                | Some key \<Rightarrow>
                    bindE (continuity_date (item fs ''not_before'')) (\<lambda>not_before.
                    bindE (continuity_date (item fs ''not_after'')) (\<lambda>not_after.
                    Inr \<lparr>sk_trust = \<lparr>tk_organization_id = Typed organization_id, tk_edition_id = Typed edition_id,
                        tk_key_id = Typed key_id, tk_public_key = Typed (cv_public env key),
                        tk_not_before = utc_datetime not_before, tk_not_after = utc_datetime not_after\<rparr>,
                      sk_private_key = Typed key\<rparr>))))
           | _ \<Rightarrow> Inl ContinuityInvalidError)))
      | _ \<Rightarrow> Inl ContinuityInvalidError)"

definition lifetime_ok :: "py_number \<Rightarrow> bool" where
  "lifetime_ok v = (case v of PyInt n \<Rightarrow> 1 \<le> n \<and> n \<le> max_age_seconds | _ \<Rightarrow> False)"

definition load_continuity_signing_policy :: "'sk continuity_env \<Rightarrow> (string \<Rightarrow> 'sk option) \<Rightarrow> string typed
     \<Rightarrow> signing_error + 'sk ContinuitySigningPolicy" where
  "load_continuity_signing_policy env from_private_bytes raw =
     (case raw of
        Untyped \<Rightarrow> Inl ContinuitySigningUnavailableError
      | Typed text \<Rightarrow>
          if MAX_SIGNING_POLICY_BYTES < length text then Inl ContinuitySigningUnavailableError else
          unavailable
            (bindE (closed_json [''contract'', ''keys'', ''lifetime_seconds''] MAX_SIGNING_POLICY_BYTES (utf8 text)) (\<lambda>data.
             (case (item data ''keys'', item data ''lifetime_seconds'') of
                (JList keys, JInt lifetime) \<Rightarrow>
                  if item data ''contract'' \<noteq> JStr SIGNING_POLICY_CONTRACT
                    \<or> \<not> (1 \<le> length keys \<and> length keys \<le> MAX_CONTINUITY_TRUST_KEYS)
                    \<or> \<not> lifetime_ok (PyInt lifetime) then Inl ContinuityInvalidError
                  else bindE (mapE (policy_key env from_private_bytes) keys) (\<lambda>keys.
                    Inr \<lparr>sp_keys = keys, sp_lifetime_seconds = PyInt lifetime\<rparr>)
              | _ \<Rightarrow> Inl ContinuityInvalidError))))"

section \<open>Signing a projection\<close>

definition key_active :: "instant \<Rightarrow> ContinuityScope \<Rightarrow> ContinuityTrustKey \<Rightarrow> continuity_error + bool" where
  "key_active now scope key =
     (if \<not> (tk_organization_id key = sc_organization_id scope \<and> tk_edition_id key = sc_edition_id scope) then Inr False else
      bindE (continuity_utc (tk_not_before key)) (\<lambda>not_before.
      if \<not> not_before \<le> now then Inr False
      else bindE (continuity_utc (tk_not_after key)) (\<lambda>not_after. Inr (now < not_after))))"

fun active_keys :: "instant \<Rightarrow> ContinuityScope \<Rightarrow> 'sk ContinuitySigningKey list \<Rightarrow> continuity_error + 'sk ContinuitySigningKey list" where
  "active_keys now scope [] = Inr []"
| "active_keys now scope (key # keys) =
     bindE (key_active now scope (sk_trust key)) (\<lambda>active.
     bindE (active_keys now scope keys) (\<lambda>rest. Inr (if active then key # rest else rest)))"

definition projection_manifest :: "ContinuityProjection \<Rightarrow> string typed \<Rightarrow> instant \<Rightarrow> instant \<Rightarrow> string \<Rightarrow> ContinuityManifest" where
  "projection_manifest p key_id now expires payload =
     \<lparr>mf_scope = pj_scope p, mf_key_id = key_id, mf_observed_at = pj_observed_at p, mf_issued_at = utc_datetime now,
      mf_expires_at = utc_datetime expires, mf_zone_name = pj_zone_name p, mf_release_state = pj_release_state p,
      mf_pointer_version = pj_pointer_version p, mf_release_id = pj_release_id p, mf_payload_sha256 = Typed (sha256_hex payload)\<rparr>"

definition sign_continuity_projection :: "'sk continuity_env \<Rightarrow> ContinuityProjection \<Rightarrow> 'sk ContinuitySigningPolicy \<Rightarrow> py_instant
     \<Rightarrow> signing_error + string" where
  "sign_continuity_projection env p policy issued_at =
     unavailable
       (bindE (encode_continuity_payload env p) (\<lambda>payload.
        bindE (continuity_utc issued_at) (\<lambda>now.
        (case sp_lifetime_seconds policy of
           PyInt lifetime \<Rightarrow>
             bindE (requireE (1 \<le> length (sp_keys policy) \<and> length (sp_keys policy) \<le> MAX_CONTINUITY_TRUST_KEYS
               \<and> lifetime_ok (PyInt lifetime) \<and> list_all (\<lambda>key. sk_private_key key \<noteq> Untyped) (sp_keys policy))) (\<lambda>_.
             bindE (active_keys now (pj_scope p) (sp_keys policy)) (\<lambda>selected.
             (case selected of
                [key] \<Rightarrow>
                  bindE (continuity_utc (pj_observed_at p)) (\<lambda>observed.
                  let expires = observed + lifetime * second_us in
                  bindE (requireE (expires < datetime_span_us)) (\<lambda>_.
                  let manifest = projection_manifest p (tk_key_id (sk_trust key)) now expires payload in
                  bindE (sign_continuity_package env (Typed payload) manifest (sk_private_key key)) (\<lambda>package.
                  bindE (verify_continuity_package env package (pj_scope p) (map sk_trust (sp_keys policy)) (utc_datetime now)) (\<lambda>_.
                  Inr package))))
              | _ \<Rightarrow> Inl ContinuityInvalidError)))
         | _ \<Rightarrow> Inl ContinuityInvalidError))))"

section \<open>What was issued\<close>

lemma unavailable_Inr: "unavailable r = Inr x \<longleftrightarrow> r = Inr x"
  by (auto simp: unavailable_def split: sum.splits continuity_error.splits)

text \<open>The bytes of a package determine its payload and its manifest.\<close>

lemma package_inject:
  assumes "json_dumps (package_json d p s) = json_dumps (package_json d' p' s')"
  shows "json_sort d = json_sort d'" "p = p'" "s = s'"
proof -
  have "json_sort (package_json d p s) = json_sort (package_json d' p' s')" using assms by (simp only: json_dumps_eq)
  then have "json_sort d = json_sort d' \<and> b64encode p = b64encode p' \<and> b64encode s = b64encode s'"
    by (simp add: package_json_def)
  then show "json_sort d = json_sort d'" "p = p'" "s = s'" using base64_text.printed_inject by simp_all
qed

lemma sign_Inr:
  assumes "sign_continuity_package env (Typed payload) m key = Inr package"
  obtains d signature where "manifest_document env m = Inr d" "package = json_dumps (package_json d payload signature)"
  using assms by (cases key) (auto simp: sign_continuity_package_def bindE_eq_Inr split: if_splits option.splits)

lemma sign_projection_Inr:
  assumes "sign_continuity_projection env p policy issued_at = Inr package"
  obtains payload now key expires v where "encode_continuity_payload env p = Inr payload" "continuity_utc issued_at = Inr now"
    "sign_continuity_package env (Typed payload) (projection_manifest p (tk_key_id (sk_trust key)) now expires payload)
      (sk_private_key key) = Inr package"
    "verify_continuity_package env package (pj_scope p) (map sk_trust (sp_keys policy)) (utc_datetime now) = Inr v"
    "active_keys now (pj_scope p) (sp_keys policy) = Inr [key]"
proof -
  obtain lifetime where l: "sp_lifetime_seconds policy = PyInt lifetime"
    using assms by (cases "sp_lifetime_seconds policy") (auto simp: sign_continuity_projection_def unavailable_Inr bindE_eq_Inr)
  obtain payload now selected where s: "encode_continuity_payload env p = Inr payload" "continuity_utc issued_at = Inr now"
    "active_keys now (pj_scope p) (sp_keys policy) = Inr selected"
    using assms by (auto simp: sign_continuity_projection_def unavailable_Inr bindE_eq_Inr l)
  note r = assms [unfolded sign_continuity_projection_def unavailable_Inr s l bindE.simps py_number.case bindE_eq_Inr]
  obtain key where key: "selected = [key]"
    using r s(3) by (cases selected; cases "tl selected") auto
  show ?thesis
    using r that [OF s(1,2)] s(3) unfolding key by (auto simp: bindE_eq_Inr Let_def)
qed

text \<open>Whoever accepts a signed package takes it for the manifest and the payload that were signed.\<close>

lemma accepted_is_signed:
  assumes "sign_continuity_package env (Typed payload) m key = Inr package"
    and "verify_continuity_package env package scope trust now = Inr v"
  shows "vp_payload v = payload" "vp_manifest v = normal_manifest m" "scope = mf_scope m"
proof -
  obtain d signature where s: "manifest_document env m = Inr d" "package = json_dumps (package_json d payload signature)"
    by (rule sign_Inr [OF assms(1)])
  obtain t d' signature' where g: "genuine_package env package scope trust t v d' signature'"
    using verify_genuine [OF assms(2)] by blast
  note g' = g [unfolded genuine_package_def]
  have same: "json_sort d = json_sort d'" "payload = vp_payload v"
    using package_inject [of d payload signature d' "vp_payload v" signature'] s(2) g' by metis+
  show "vp_payload v = payload" using same(2) by simp
  have "decode_manifest env (json_sort d') = Inr (normal_manifest (vp_manifest v))" using decode_manifest_document g' by blast
  moreover have "decode_manifest env (json_sort d) = Inr (normal_manifest m)" by (rule decode_manifest_document [OF s(1)])
  ultimately have "normal_manifest (vp_manifest v) = normal_manifest m" using same(1) by simp
  then show m: "vp_manifest v = normal_manifest m" using g' by simp
  show "scope = mf_scope m" using g' m by (simp add: normal_manifest_def)
qed

lemma manifest_describes: "describes (normal_manifest (projection_manifest p k n e b)) p"
  by (simp add: describes_def normal_manifest_def projection_manifest_def normal_time_def)

end
