(* ===== verification/Continuity_Payload_Props.thy ===== *)
theory Continuity_Payload_Props
  imports Continuity_Signing
begin

text \<open>
  Properties of the content of continuity packages: what was encoded is decoded, a card discloses only
  the facts its audience and layers admit, the grouping into now and next is exact, and an issued
  package shows the projection it was issued for to everybody who accepts it.
\<close>

section \<open>A sample projection\<close>

definition sample_card :: ContinuityEntry where
  "sample_card = \<lparr>en_key = Typed (''public:'' @ uuid_str 7), en_kind = Typed ''public_event'', en_title = Typed ''Opening'',
     en_starts_at = utc_datetime (10 * minute_us), en_ends_at = utc_datetime (40 * minute_us), en_space_id = Some 5, en_day_id = Some 6,
     en_context = None, en_facts = [\<lparr>cf_code = Typed ''room'', cf_value = Typed ''Hall''\<rparr>]\<rparr>"

definition sample_projection :: ContinuityProjection where
  "sample_projection = \<lparr>pj_scope = sample_scope, pj_source_contract = Typed ''scheduling.public-timetable@1'',
     pj_source_sha256 = Typed (replicate 64 CHR ''0''), pj_observed_at = utc_datetime 0, pj_zone_name = Typed ''UTC'',
     pj_release_state = Typed ''available'', pj_pointer_version = Some (PyInt 5), pj_release_id = Some (Typed 3),
     pj_published_at = Some (utc_datetime 0), pj_hosting_status = Typed ''not_applicable'', pj_work_status = Typed ''not_applicable'',
     pj_entries = [sample_card]\<rparr>"

lemma split_text_plain: "CHR '':'' \<notin> set s \<Longrightarrow> split_text CHR '':'' s = [s]"
  by (induction s) auto

lemma uuid_str_no_colon: "CHR '':'' \<notin> set (uuid_str u)"
proof -
  have "list_all lower_hex (hex_digits 32 (unat u))" by (rule hex_digits_lower)
  then have "\<forall>c \<in> set (hex_digits 32 (unat u)). c \<noteq> CHR '':''" by (auto simp: list_all_iff lower_hex_def less_eq_char_def)
  then show ?thesis by (auto simp: uuid_str_def hyphenate_def dest: in_set_takeD in_set_dropD)
qed

definition sample_row :: json where
  "sample_row = entry_fields (''public:'' @ uuid_str 7) ''public_event'' ''Opening'' (10 * minute_us, 40 * minute_us, None) (Some 5) (Some 6)
     [JObj [(''code'', JStr ''room''), (''value'', JStr ''Hall'')]]"

lemma sample_card_document: "entry_document ''public'' [] sample_card = Inr sample_row"
proof -
  have "split_text CHR '':'' (''public:'' @ uuid_str 7) = [''public'', uuid_str 7]"
    using split_text_plain [OF uuid_str_no_colon, of 7] by simp
  moreover have "continuity_uuid False (JStr (uuid_str 7)) = Inr (Some 7)" by (auto simp: continuity_uuid_JStr)
  ultimately have "key_checks ''public_event'' (''public:'' @ uuid_str 7) = Inr ()"
    by (simp add: key_checks_def KEY_PREFIXES_def Let_def)
  moreover have "entry_times sample_card = Inr (10 * minute_us, 40 * minute_us, None)"
    by (simp add: entry_times_def sample_card_def valid_instant_def day_us_def minute_us_def second_us_def)
  moreover have "payload_text (Typed ''Opening'') TITLE_LENGTH True = Inr ''Opening''"
      "payload_text (Typed ''Hall'') MAX_CONTINUITY_FACT_TEXT False = Inr ''Hall''"
    by (simp_all add: payload_text_def TITLE_LENGTH_def MAX_CONTINUITY_FACT_TEXT_def is_space_def)
  ultimately show ?thesis
    by (simp add: entry_document_def sample_card_def KINDS_def fact_codes_def PUBLIC_FACTS_def MAX_CONTINUITY_FACTS_def sample_row_def)
qed

lemma sample_projection_ok:
  "projection_ok sample_env sample_projection (scope_fields 1 2 ''public'' None ''public'' None []) 0 (Some 0) [sample_row]"
proof -
  have "validate_release_state (Typed ''public'') (Typed ''available'') (Some (PyInt 5)) (Some (Typed 3)) = Inr ()"
    by (simp add: validate_release_state_def STATES_def is_uuid_def)
  then have "source_metadata sample_env sample_projection = Inr ()"
    by (simp add: source_metadata_def sample_projection_def sample_scope_def sample_env_def MAX_ZONE_TEXT_def valid_instant_def
        day_us_def minute_us_def second_us_def)
  moreover have "entry_documents ''public'' [] (Typed ''available'') (Typed ''not_applicable'') [sample_card] [] 0 = Inr [sample_row]"
    by (simp add: sample_card_document, simp add: sample_card_def MAX_CONTINUITY_FACTS_def)
  moreover have "layer_states ''public'' [] (Typed ''available'') (Typed ''not_applicable'') (Typed ''not_applicable'') = Inr ()"
    by (simp add: layer_states_def)
  moreover have "hex64 (replicate 64 CHR ''0'')" by (simp add: hex64_def lower_hex_def less_eq_char_def list_all_iff)
  ultimately show ?thesis
    using sample_scope_document
    by (simp add: projection_ok_def sample_projection_def SOURCE_CONTRACTS_def MAX_CONTINUITY_ENTRIES_def opt_utc_def valid_instant_def
        day_us_def minute_us_def second_us_def sample_scope_def)
qed

lemma sample_key_bytes: "text_bytes (''public:'' @ uuid_str 7) = 43"
  unfolding text_bytes_append uuid_str_bytes by (simp add: text_bytes_plain plain_char_def)

lemma sample_row_bytes: "json_bytes sample_row \<le> 600"
  using sample_key_bytes isoformat_bytes [of "10 * minute_us"] isoformat_bytes [of "40 * minute_us"]
  by (simp add: sample_row_def entry_fields_def opt_id_json_def uuid_str_bytes text_bytes_plain plain_char_def)

definition sample_payload :: string where
  "sample_payload = json_dumps (projection_fields sample_projection (scope_fields 1 2 ''public'' None ''public'' None []) 0 (Some 0) [sample_row])"

lemma sample_encoded: "encode_continuity_payload sample_env sample_projection = Inr sample_payload"
proof -
  have "json_bytes (scope_fields 1 2 ''public'' None ''public'' None []) \<le> 340" using scope_bytes sample_scope_document by blast
  moreover have "json_bytes (pointer_json (Some (PyInt 5))) \<le> 19" by (rule pointer_bytes) simp
  moreover have "text_bytes (replicate 64 CHR ''0'') = 64" by (rule sha_bytes) (simp add: hex64_def lower_hex_def less_eq_char_def list_all_iff)
  ultimately have "json_bytes (projection_fields sample_projection (scope_fields 1 2 ''public'' None ''public'' None []) 0 (Some 0) [sample_row]) \<le> 4000"
    using sample_row_bytes isoformat_bytes [of 0] opt_uuid_bytes [of "Some (Typed 3)"]
    by (simp add: projection_fields_def sample_projection_def json_typed_def text_bytes_plain plain_char_def CONTINUITY_PAYLOAD_CONTRACT_def)
  then have "length sample_payload \<le> MAX_CONTINUITY_PAYLOAD_BYTES"
    using length_json_dumps order_trans unfolding sample_payload_def MAX_CONTINUITY_PAYLOAD_BYTES_def by fastforce
  then show ?thesis unfolding encode_Inr sample_payload_def using sample_projection_ok by blast
qed

section \<open>Payloads\<close>

text \<open>C27. What was encoded is decoded: under a manifest that describes it, the encoding of a projection
  reads back as the same projection with its times in UTC and its cards in their printed order, and
  that projection has the same encoding.\<close>

theorem payload_round_trip:
  assumes "encode_continuity_payload env p = Inr payload" and "describes m p"
  shows "decode_continuity_payload env payload m = Inr (normal_projection p)
    \<and> encode_continuity_payload env (normal_projection p) = Inr payload"
  using decode_encoded [OF assms] encode_normal [OF assms(1)] by (rule conjI)

theorem payload_round_trip_witness:
  "decode_continuity_payload sample_env sample_payload (normal_manifest sample_manifest) = Inr (normal_projection sample_projection)"
proof -
  have "describes (normal_manifest sample_manifest) sample_projection"
    by (simp add: describes_def sample_projection_def sample_manifest_def normal_manifest_def normal_time_def)
  then show ?thesis using payload_round_trip [OF sample_encoded] by blast
qed

lemma decode_Inr:
  assumes "decode_continuity_payload env payload m = Inr p"
  shows "encode_continuity_payload env p = Inr payload \<and> pj_scope p = mf_scope m"
proof -
  obtain data where d: "(case (item data ''entries'', item data ''source_contract'', item data ''source_sha256'', item data ''hosting_status'',
         item data ''work_status'') of
        (JList entries, JStr source_contract, JStr source_sha256, JStr hosting_status, JStr work_status) \<Rightarrow>
          bindE (requireE (length entries \<le> MAX_CONTINUITY_ENTRIES)) (\<lambda>_.
          bindE (opt_date (item data ''published_at'')) (\<lambda>published_at.
          bindE (mapE decoded_entry entries) (\<lambda>rows.
          let projection = \<lparr>pj_scope = mf_scope m, pj_source_contract = Typed source_contract, pj_source_sha256 = Typed source_sha256,
            pj_observed_at = mf_observed_at m, pj_zone_name = mf_zone_name m, pj_release_state = mf_release_state m,
            pj_pointer_version = mf_pointer_version m, pj_release_id = mf_release_id m, pj_published_at = published_at,
            pj_hosting_status = Typed hosting_status, pj_work_status = Typed work_status, pj_entries = rows\<rparr> in
          bindE (encode_continuity_payload env projection) (\<lambda>encoded.
          if encoded \<noteq> payload then Inl ContinuityInvalidError else Inr projection))))
      | _ \<Rightarrow> Inl ContinuityInvalidError) = Inr p"
    using assms unfolding decode_continuity_payload_def bindE_eq_Inr by blast
  obtain a where a: "item data ''entries'' = JList a" using d by (cases "item data ''entries''") simp_all
  obtain b where b: "item data ''source_contract'' = JStr b" using d unfolding a by (cases "item data ''source_contract''") simp_all
  obtain c where c: "item data ''source_sha256'' = JStr c" using d unfolding a b by (cases "item data ''source_sha256''") simp_all
  obtain h where h: "item data ''hosting_status'' = JStr h" using d unfolding a b c by (cases "item data ''hosting_status''") simp_all
  obtain w where w: "item data ''work_status'' = JStr w" using d unfolding a b c h by (cases "item data ''work_status''") simp_all
  show ?thesis using d unfolding a b c h w by (auto simp: bindE_eq_Inr Let_def split: if_splits)
qed

text \<open>A decoded payload stays under its manifest's ceiling: it is of the manifest's scope and source,
  every card is of a kind of that audience with facts among the codes that the kind and the layers
  admit, room and day are named exactly for cards of the programme, and no two cards share a key.\<close>

theorem decoded_payload_disclosure:
  assumes "decode_continuity_payload env payload m = Inr p"
  shows "pj_scope p = mf_scope m \<and> distinct (map en_key (pj_entries p)) \<and>
    (\<forall>e \<in> set (pj_entries p). \<exists>audience layers kind kinds allowed.
      sc_audience (mf_scope m) = Typed audience \<and> all_typed (sc_layers (mf_scope m)) = Some layers \<and> en_kind e = Typed kind
      \<and> map_of KINDS audience = Some kinds \<and> kind \<in> set kinds \<and> fact_codes kind layers = Inr allowed
      \<and> (\<forall>f \<in> set (en_facts e). \<exists>c \<in> set allowed. cf_code f = Typed c)
      \<and> (en_space_id e \<noteq> None \<longleftrightarrow> kind \<in> {''public_event'', ''operator_event'', ''host_presence''})
      \<and> (en_space_id e = None \<longleftrightarrow> en_day_id e = None))"
proof -
  have p: "encode_continuity_payload env p = Inr payload" "pj_scope p = mf_scope m"
    using decode_Inr [OF assms] by simp_all
  obtain scope observed published js where ok: "projection_ok env p scope observed published js"
    using p(1) unfolding encode_Inr by blast
  then obtain audience layers where a: "sc_audience (mf_scope m) = Typed audience" "all_typed (sc_layers (mf_scope m)) = Some layers"
    and docs: "entry_documents audience layers (pj_release_state p) (pj_work_status p) (pj_entries p) [] 0 = Inr js"
    using p(2) by (auto simp: projection_ok_def)
  note d = docs [unfolded entry_documents_Inr]
  have cards: "\<exists>kind kinds allowed. en_kind e = Typed kind \<and> map_of KINDS audience = Some kinds \<and> kind \<in> set kinds \<and> fact_codes kind layers = Inr allowed
      \<and> (\<forall>f \<in> set (en_facts e). \<exists>c \<in> set allowed. cf_code f = Typed c)
      \<and> (en_space_id e \<noteq> None \<longleftrightarrow> kind \<in> {''public_event'', ''operator_event'', ''host_presence''})
      \<and> (en_space_id e = None \<longleftrightarrow> en_day_id e = None)" if e: "e \<in> set (pj_entries p)" for e
  proof -
    obtain j where "entry_document audience layers e = Inr j"
      using d e by (auto simp: list_all2_conv_all_nth in_set_conv_nth)
    then obtain key kind title facts where c: "card_ok audience layers e key kind title facts" unfolding entry_document_Inr by blast
    note ok = c [unfolded card_ok_def]
    obtain allowed where "fact_codes kind layers = Inr allowed" "fact_documents allowed [] (en_facts e) = Inr facts" using ok by blast
    moreover from this have "\<forall>f \<in> set (en_facts e). \<exists>c \<in> set allowed. cf_code f = Typed c"
      using fact_documents_read by (fastforce simp: list_all_iff)
    ultimately show ?thesis using ok by (metis (no_types, lifting))
  qed
  show ?thesis
  proof (intro conjI ballI)
    show "pj_scope p = mf_scope m" by (rule p(2))
    show "distinct (map en_key (pj_entries p))" using d by blast
    fix e assume e: "e \<in> set (pj_entries p)"
    show "\<exists>audience layers kind kinds allowed.
      sc_audience (mf_scope m) = Typed audience \<and> all_typed (sc_layers (mf_scope m)) = Some layers \<and> en_kind e = Typed kind
      \<and> map_of KINDS audience = Some kinds \<and> kind \<in> set kinds \<and> fact_codes kind layers = Inr allowed
      \<and> (\<forall>f \<in> set (en_facts e). \<exists>c \<in> set allowed. cf_code f = Typed c)
      \<and> (en_space_id e \<noteq> None \<longleftrightarrow> kind \<in> {''public_event'', ''operator_event'', ''host_presence''})
      \<and> (en_space_id e = None \<longleftrightarrow> en_day_id e = None)"
      unfolding a using cards [OF e] by simp
  qed
qed

theorem decoded_payload_disclosure_witness:
  "\<exists>p. decode_continuity_payload sample_env sample_payload (normal_manifest sample_manifest) = Inr p \<and> pj_scope p = sample_scope
    \<and> distinct (map en_key (pj_entries p))"
proof -
  have "describes (normal_manifest sample_manifest) sample_projection"
    by (simp add: describes_def sample_projection_def sample_manifest_def normal_manifest_def normal_time_def)
  from decode_encoded [OF sample_encoded this]
  have d: "decode_continuity_payload sample_env sample_payload (normal_manifest sample_manifest) = Inr (normal_projection sample_projection)" .
  have "mf_scope (normal_manifest sample_manifest) = sample_scope" by (simp add: normal_manifest_def sample_manifest_def)
  then show ?thesis using decoded_payload_disclosure [OF d] by (simp add: d)
qed

section \<open>Now and next\<close>

text \<open>The grouping is exact: now are the operative cards whose half-open interval holds the instant,
  next are all operative cards that start at the earliest start after it, both in the order of start
  and key and without the cards of removed or completed work and of demand that is not open.\<close>

theorem now_next_exact:
  assumes "programme_now_next env p at = Inr r" and "continuity_utc at = Inr t"
  shows "nn_at r = t
    \<and> set (nn_now r) = {e \<in> set (pj_entries p). operative e \<and> utc_of (en_starts_at e) \<le> t \<and> t < utc_of (en_ends_at e)}
    \<and> set (nn_next r) = {e \<in> set (pj_entries p). operative e \<and> t < utc_of (en_starts_at e)
        \<and> (\<forall>f \<in> set (pj_entries p). operative f \<longrightarrow> t < utc_of (en_starts_at f) \<longrightarrow> utc_of (en_starts_at e) \<le> utc_of (en_starts_at f))}
    \<and> sorted (map entry_order (nn_now r)) \<and> sorted (map entry_order (nn_next r))"
proof -
  define entries where "entries = sort_key entry_order (filter operative (pj_entries p))"
  define following where "following = filter (\<lambda>e. t < utc_of (en_starts_at e)) entries"
  have r: "r = \<lparr>nn_at = t, nn_now = filter (\<lambda>e. utc_of (en_starts_at e) \<le> t \<and> t < utc_of (en_ends_at e)) entries,
       nn_next = (case following of [] \<Rightarrow> []
         | first # _ \<Rightarrow> filter (\<lambda>e. utc_of (en_starts_at e) = utc_of (en_starts_at first)) following)\<rparr>"
    using assms(1) unfolding programme_now_next_def Let_def assms(2) bindE.simps bindE_eq_Inr entries_def following_def by simp
  have sorted: "sorted (map entry_order (filter P entries))" for P
    unfolding entries_def by (rule sorted_filter) simp
  have order: "utc_of (en_starts_at e) \<le> utc_of (en_starts_at f)" if "entry_order e \<le> entry_order f" for e f
    using that by (auto simp: entry_order_def)
  have mem: "e \<in> set entries \<longleftrightarrow> e \<in> set (pj_entries p) \<and> operative e" for e by (auto simp: entries_def)
  have in_following: "e \<in> set following \<longleftrightarrow> e \<in> set entries \<and> t < utc_of (en_starts_at e)" for e
    by (simp add: following_def)
  show ?thesis
  proof (cases following)
    case Nil
    then have "\<not> t < utc_of (en_starts_at e)" if "e \<in> set entries" for e
      using that unfolding following_def by (simp add: filter_empty_conv)
    then show ?thesis using sorted mem by (auto simp: r Nil)
  next
    case (Cons first rest)
    have first: "first \<in> set entries" "t < utc_of (en_starts_at first)"
      using in_following [of first] by (simp_all add: Cons)
    have least: "utc_of (en_starts_at first) \<le> utc_of (en_starts_at f)" if "f \<in> set entries" "t < utc_of (en_starts_at f)" for f
    proof -
      have "f \<in> set (first # rest)" using that in_following [of f] by (simp add: Cons)
      moreover have "sorted (map entry_order (first # rest))" using sorted Cons following_def by metis
      ultimately show ?thesis using order by auto
    qed
    have "nn_next r = filter (\<lambda>e. utc_of (en_starts_at e) = utc_of (en_starts_at first)) following" by (simp add: r Cons)
    then have nx: "nn_next r = filter (\<lambda>e. utc_of (en_starts_at e) = utc_of (en_starts_at first) \<and> t < utc_of (en_starts_at e)) entries"
      by (simp add: following_def conj_commute)
    then have next_set: "set (nn_next r) = {e \<in> set entries. t < utc_of (en_starts_at e) \<and> utc_of (en_starts_at e) = utc_of (en_starts_at first)}"
      by auto
    have "sorted (map entry_order (nn_next r))"
      unfolding nx by (rule sorted)
    then show ?thesis
      using sorted mem first least unfolding next_set by (auto simp: r intro: order_antisym)
  qed
qed

theorem now_next_exact_witness:
  "\<exists>r. programme_now_next sample_env sample_projection (utc_datetime (3 * minute_us)) = Inr r \<and> nn_at r = 3 * minute_us
    \<and> set (nn_next r) = {sample_card}"
proof -
  obtain r where r: "programme_now_next sample_env sample_projection (utc_datetime (3 * minute_us)) = Inr r"
    by (simp add: programme_now_next_def sample_encoded sample_times(2) Let_def)
  have starts: "utc_of (en_starts_at sample_card) = 10 * minute_us" "operative sample_card" "pj_entries sample_projection = [sample_card]"
    by (simp_all add: sample_card_def sample_projection_def operative_def valid_instant_def day_us_def minute_us_def second_us_def utc_of_def)
  have "3 * minute_us < 10 * minute_us" by (simp add: minute_us_def second_us_def)
  then show ?thesis using now_next_exact [OF r sample_times(2)] r starts by auto
qed

section \<open>Issued packages\<close>

text \<open>C28. A package that the server issues for a projection verifies at once under the server's own
  policy, and whoever accepts it, with whatever policy, scope and clock, has the projection's scope and
  decodes exactly that projection, its times in UTC and its cards in order.\<close>

theorem issued_package_shows_projection:
  fixes env :: "'sk continuity_env"
  assumes "sign_continuity_projection env p policy issued_at = Inr package"
  shows "(\<exists>now v. continuity_utc issued_at = Inr now
      \<and> verify_continuity_package env package (pj_scope p) (map sk_trust (sp_keys policy)) (utc_datetime now) = Inr v)
    \<and> (\<forall>scope trust at v. verify_continuity_package env package scope trust at = Inr v \<longrightarrow> scope = pj_scope p
      \<and> decode_continuity_payload env (vp_payload v) (vp_manifest v) = Inr (normal_projection p))"
proof -
  obtain payload now expires v and key :: "'sk ContinuitySigningKey" where payload: "encode_continuity_payload env p = Inr payload"
    and now: "continuity_utc issued_at = Inr now"
    and signed: "sign_continuity_package env (Typed payload) (projection_manifest p (tk_key_id (sk_trust key)) now expires payload)
      (sk_private_key key) = Inr package"
    and verified: "verify_continuity_package env package (pj_scope p) (map sk_trust (sp_keys policy)) (utc_datetime now) = Inr v"
    by (rule sign_projection_Inr [OF assms]) blast
  have "scope = pj_scope p \<and> decode_continuity_payload env (vp_payload w) (vp_manifest w) = Inr (normal_projection p)"
    if "verify_continuity_package env package scope trust at = Inr w" for scope trust at w
    using accepted_is_signed [OF signed that] decode_encoded [OF payload manifest_describes] by (simp add: projection_manifest_def)
  then show ?thesis using now verified by blast
qed

definition sample_policy :: "string ContinuitySigningPolicy" where
  "sample_policy = \<lparr>sp_keys = [\<lparr>sk_trust = hd sample_trust, sk_private_key = Typed []\<rparr>], sp_lifetime_seconds = PyInt 3540\<rparr>"

lemma sample_sign: "cv_sign sample_env key x = Some (sample_signature key x)"
  by (simp add: sample_env_def)

lemma sample_issued: "\<exists>package. sign_continuity_projection sample_env sample_projection sample_policy (utc_datetime minute_us) = Inr package"
proof -
  define m where "m = projection_manifest sample_projection (Typed ''stage-1'') minute_us (3540 * second_us) sample_payload"
  have "validate_release_state (Typed ''public'') (Typed ''available'') (Some (PyInt 5)) (Some (Typed 3)) = Inr ()"
    by (simp add: validate_release_state_def STATES_def is_uuid_def)
  moreover have "KEY_ID ''stage-1''" by (simp add: KEY_ID_def key_char_def less_eq_char_def)
  ultimately obtain d where d: "manifest_document sample_env m = Inr d"
    using sample_scope_document
    by (simp add: manifest_document_def m_def projection_manifest_def sample_projection_def sample_env_def MAX_ZONE_TEXT_def valid_instant_def
        MAX_CONTINUITY_AGE_def datetime_span_us_def day_us_def minute_us_def second_us_def sample_scope_def)
  have payload: "0 < length sample_payload" "length sample_payload \<le> MAX_CONTINUITY_PAYLOAD_BYTES"
    using sample_encoded decode_encoded [OF sample_encoded, of m]
    by (auto simp: encode_Inr decode_continuity_payload_def closed_json_def describes_def m_def projection_manifest_def
        sample_projection_def normal_time_def valid_instant_def day_us_def minute_us_def second_us_def)
  have "mf_payload_sha256 m = Typed (sha256_hex sample_payload)" by (simp add: m_def projection_manifest_def)
  then obtain package where package: "sign_continuity_package sample_env (Typed sample_payload) m (Typed []) = Inr package"
    using payload by (simp add: sign_continuity_package_def d sample_sign)
  have trust: "signing_key sample_trust m (cv_public sample_env [])"
    by (simp add: m_def projection_manifest_def sample_projection_def sample_trust_def valid_instant_def signing_key_def key_identity_def
        manifest_identity_def sample_scope_def sample_env_def utc_of_def day_us_def minute_us_def second_us_def)
  have now: "continuity_utc (utc_datetime minute_us) = Inr minute_us" "utc_of (mf_issued_at m) \<le> minute_us" "minute_us < utc_of (mf_expires_at m)"
    by (simp_all add: m_def projection_manifest_def valid_instant_def utc_of_def day_us_def minute_us_def second_us_def)
  have scope: "mf_scope m = pj_scope sample_projection" by (simp add: m_def projection_manifest_def)
  obtain v where v: "verify_continuity_package sample_env package (pj_scope sample_projection) sample_trust (utc_datetime minute_us) = Inr v"
    using signed_verifies [OF sample_contract package sample_trust_policy(1) trust now] by (auto simp: scope)
  have key: "sample_trust = [hd sample_trust]" "tk_key_id (hd sample_trust) = Typed ''stage-1''"
    "active_keys minute_us (pj_scope sample_projection) [\<lparr>sk_trust = hd sample_trust, sk_private_key = Typed []\<rparr>]
      = Inr [\<lparr>sk_trust = hd sample_trust, sk_private_key = Typed ([] :: string)\<rparr>]"
    by (simp_all add: sample_trust_def key_active_def sample_projection_def sample_scope_def valid_instant_def
        day_us_def minute_us_def second_us_def)
  have times: "continuity_utc (pj_observed_at sample_projection) = Inr 0" "3540 * second_us < datetime_span_us"
    by (simp_all add: sample_projection_def valid_instant_def datetime_span_us_def day_us_def minute_us_def second_us_def)
  have "lifetime_ok (PyInt 3540)" by (simp add: lifetime_ok_def max_age_seconds_def MAX_CONTINUITY_AGE_def minute_us_def second_us_def)
  then have "sign_continuity_projection sample_env sample_projection sample_policy (utc_datetime minute_us) = Inr package"
    using package v key times now(1)
    by (simp add: sign_continuity_projection_def unavailable_Inr sample_encoded sample_policy_def MAX_CONTINUITY_TRUST_KEYS_def Let_def
        m_def [symmetric])
  then show ?thesis by blast
qed

theorem issued_package_shows_projection_witness:
  "\<exists>package now v. sign_continuity_projection sample_env sample_projection sample_policy (utc_datetime minute_us) = Inr package
    \<and> verify_continuity_package sample_env package sample_scope (map sk_trust (sp_keys sample_policy)) (utc_datetime now) = Inr v
    \<and> decode_continuity_payload sample_env (vp_payload v) (vp_manifest v) = Inr (normal_projection sample_projection)"
proof -
  obtain package where p: "sign_continuity_projection sample_env sample_projection sample_policy (utc_datetime minute_us) = Inr package"
    using sample_issued by blast
  have "pj_scope sample_projection = sample_scope" by (simp add: sample_projection_def)
  then show ?thesis using issued_package_shows_projection [OF p] p by metis
qed

end
