(* ===== verification/Change_Notice.thy ===== *)
theory Change_Notice
  imports Maru_Prelude
begin

text \<open>
  The evidence of one Programme change notice (\<open>src/src/maru/scheduling/change_lifecycle.py\<close> and the
  vocabularies of \<open>change_catalogs.py\<close>): preparation, one independent review, one manual handoff and
  one acknowledgement by the recipient. The theorems characterize the transition exactly and follow a
  notice through any sequence of attempts.
\<close>

section \<open>State\<close>

definition MAX_CHANGE_NOTICE_FACTS :: int where
  "MAX_CHANGE_NOTICE_FACTS = 3"

datatype ChangeNoticeAction = APPROVE | REJECT | HANDOFF | ACKNOWLEDGE
datatype ChangeNoticeReview = APPROVED | REJECTED

datatype change_error = SchedulingLifecycleConflictError | SchedulingVersionConflictError

record ChangeNoticeState =
  cn_preparer_id :: "uuid typed"
  cn_recipient_id :: "uuid typed"
  cn_version :: py_number
  cn_review :: "ChangeNoticeReview typed option"
  cn_reviewer_id :: "uuid typed option"
  cn_handed_off_by_id :: "uuid typed option"
  cn_acknowledged_by_id :: "uuid typed option"

definition person :: "uuid typed \<Rightarrow> bool" where
  "person v = (case v of Typed u \<Rightarrow> u \<noteq> 0 | Untyped \<Rightarrow> False)"

definition opt_person :: "uuid typed option \<Rightarrow> bool" where
  "opt_person v = (case v of None \<Rightarrow> True | Some u \<Rightarrow> person u)"

definition fact_count :: "ChangeNoticeState \<Rightarrow> int" where
  "fact_count s = of_bool (cn_review s \<noteq> None) + of_bool (cn_handed_off_by_id s \<noteq> None) + of_bool (cn_acknowledged_by_id s \<noteq> None)"

definition validate_state :: "ChangeNoticeState \<Rightarrow> change_error + unit" where
  "validate_state s =
     bindE (guardE (person (cn_preparer_id s) \<and> person (cn_recipient_id s)) SchedulingLifecycleConflictError) (\<lambda>_.
     bindE (guardE (opt_person (cn_reviewer_id s) \<and> opt_person (cn_handed_off_by_id s) \<and> opt_person (cn_acknowledged_by_id s))
       SchedulingLifecycleConflictError) (\<lambda>_.
     bindE (guardE (\<not> ((cn_review s = None) \<noteq> (cn_reviewer_id s = None)
         \<or> cn_review s = Some Untyped
         \<or> cn_reviewer_id s = Some (cn_preparer_id s)
         \<or> (cn_acknowledged_by_id s \<noteq> None \<and> cn_acknowledged_by_id s \<noteq> Some (cn_recipient_id s))
         \<or> (cn_review s \<noteq> Some (Typed APPROVED) \<and> (cn_handed_off_by_id s \<noteq> None \<or> cn_acknowledged_by_id s \<noteq> None))))
       SchedulingLifecycleConflictError) (\<lambda>_.
     guardE (cn_version s = PyInt (1 + fact_count s)) SchedulingLifecycleConflictError)))"

text \<open>\<open>state.version + 1\<close> on a version that was checked.\<close>

definition next_version :: "py_number \<Rightarrow> py_number" where
  "next_version v = (case v of PyInt n \<Rightarrow> PyInt (n + 1) | _ \<Rightarrow> v)"

definition advance_change_notice :: "ChangeNoticeState \<Rightarrow> uuid typed \<Rightarrow> ChangeNoticeAction typed \<Rightarrow> py_number
     \<Rightarrow> change_error + ChangeNoticeState" where
  "advance_change_notice s actor_id action expected_version =
     bindE (validate_state s) (\<lambda>_.
     bindE (guardE (person actor_id) SchedulingLifecycleConflictError) (\<lambda>_.
     (case action of
        Untyped \<Rightarrow> Inl SchedulingLifecycleConflictError
      | Typed action \<Rightarrow>
          (case expected_version of
             PyInt expected \<Rightarrow>
               if PyInt expected \<noteq> cn_version s then Inl SchedulingVersionConflictError else
               bindE
                 (if action \<in> {APPROVE, REJECT} then
                    if cn_review s \<noteq> None \<or> actor_id = cn_preparer_id s then Inl SchedulingLifecycleConflictError
                    else Inr (s\<lparr>cn_review := Some (Typed (if action = APPROVE then APPROVED else REJECTED)),
                      cn_reviewer_id := Some actor_id, cn_version := next_version (cn_version s)\<rparr>)
                  else if cn_review s \<noteq> Some (Typed APPROVED) then Inl SchedulingLifecycleConflictError
                  else if action = HANDOFF then
                    if cn_handed_off_by_id s \<noteq> None then Inl SchedulingLifecycleConflictError
                    else Inr (s\<lparr>cn_handed_off_by_id := Some actor_id, cn_version := next_version (cn_version s)\<rparr>)
                  else
                    if actor_id \<noteq> cn_recipient_id s \<or> cn_acknowledged_by_id s \<noteq> None then Inl SchedulingLifecycleConflictError
                    else Inr (s\<lparr>cn_acknowledged_by_id := Some actor_id, cn_version := next_version (cn_version s)\<rparr>))
                 (\<lambda>result. bindE (validate_state result) (\<lambda>_. Inr result))
           | _ \<Rightarrow> Inl SchedulingVersionConflictError))))"

text \<open>A notice as \<open>ChangeNoticeState(preparer_id, recipient_id)\<close> builds it.\<close>

definition prepared_notice :: "uuid \<Rightarrow> uuid \<Rightarrow> ChangeNoticeState" where
  "prepared_notice preparer recipient = \<lparr>cn_preparer_id = Typed preparer, cn_recipient_id = Typed recipient, cn_version = PyInt 1,
     cn_review = None, cn_reviewer_id = None, cn_handed_off_by_id = None, cn_acknowledged_by_id = None\<rparr>"

section \<open>The transition, exactly\<close>

text \<open>What one action asks of a notice, and what it records.\<close>

fun action_allowed :: "ChangeNoticeAction \<Rightarrow> uuid typed \<Rightarrow> ChangeNoticeState \<Rightarrow> bool" where
  "action_allowed APPROVE actor s \<longleftrightarrow> cn_review s = None \<and> actor \<noteq> cn_preparer_id s"
| "action_allowed REJECT actor s \<longleftrightarrow> cn_review s = None \<and> actor \<noteq> cn_preparer_id s"
| "action_allowed HANDOFF actor s \<longleftrightarrow> cn_review s = Some (Typed APPROVED) \<and> cn_handed_off_by_id s = None"
| "action_allowed ACKNOWLEDGE actor s \<longleftrightarrow>
     cn_review s = Some (Typed APPROVED) \<and> cn_acknowledged_by_id s = None \<and> actor = cn_recipient_id s"

fun record_fact :: "ChangeNoticeAction \<Rightarrow> uuid typed \<Rightarrow> ChangeNoticeState \<Rightarrow> ChangeNoticeState" where
  "record_fact APPROVE actor s = s\<lparr>cn_review := Some (Typed APPROVED), cn_reviewer_id := Some actor\<rparr>"
| "record_fact REJECT actor s = s\<lparr>cn_review := Some (Typed REJECTED), cn_reviewer_id := Some actor\<rparr>"
| "record_fact HANDOFF actor s = s\<lparr>cn_handed_off_by_id := Some actor\<rparr>"
| "record_fact ACKNOWLEDGE actor s = s\<lparr>cn_acknowledged_by_id := Some actor\<rparr>"

definition valid_notice :: "ChangeNoticeState \<Rightarrow> bool" where
  "valid_notice s \<longleftrightarrow> validate_state s = Inr ()"

lemma valid_notice_iff: "valid_notice s \<longleftrightarrow>
   person (cn_preparer_id s) \<and> person (cn_recipient_id s)
   \<and> opt_person (cn_reviewer_id s) \<and> opt_person (cn_handed_off_by_id s) \<and> opt_person (cn_acknowledged_by_id s)
   \<and> (cn_review s = None \<longleftrightarrow> cn_reviewer_id s = None) \<and> cn_review s \<noteq> Some Untyped
   \<and> cn_reviewer_id s \<noteq> Some (cn_preparer_id s)
   \<and> (cn_acknowledged_by_id s = None \<or> cn_acknowledged_by_id s = Some (cn_recipient_id s))
   \<and> (cn_review s = Some (Typed APPROVED) \<or> cn_handed_off_by_id s = None \<and> cn_acknowledged_by_id s = None)
   \<and> cn_version s = PyInt (1 + fact_count s)"
  unfolding valid_notice_def validate_state_def by (simp add: result_simps)

lemma record_fact_valid:
  assumes "valid_notice s" and "person actor" and "action_allowed action actor s"
  shows "valid_notice (record_fact action actor s\<lparr>cn_version := PyInt (2 + fact_count s)\<rparr>)"
  using assms by (cases action) (auto simp: valid_notice_iff fact_count_def opt_person_def)

lemma advance_valid:
  assumes "valid_notice s" and "person actor"
  shows "advance_change_notice s actor (Typed a) (cn_version s) =
    (if action_allowed a actor s then Inr (record_fact a actor s\<lparr>cn_version := PyInt (2 + fact_count s)\<rparr>)
     else Inl SchedulingLifecycleConflictError)"
proof -
  have v: "validate_state s = Inr ()" "cn_version s = PyInt (1 + fact_count s)"
    using assms(1) by (simp add: valid_notice_def, simp add: valid_notice_iff)
  have ok: "validate_state (record_fact a actor s\<lparr>cn_version := PyInt (2 + fact_count s)\<rparr>) = Inr ()" if "action_allowed a actor s"
    using record_fact_valid [OF assms that] by (simp add: valid_notice_def)
  show ?thesis
    using ok by (cases a) (simp_all add: advance_change_notice_def v assms(2) next_version_def add.commute)
qed

lemma advance_iff:
  "advance_change_notice s actor action expected = Inr r \<longleftrightarrow>
     valid_notice s \<and> person actor \<and> expected = cn_version s
     \<and> (\<exists>a. action = Typed a \<and> action_allowed a actor s \<and> r = record_fact a actor s\<lparr>cn_version := PyInt (2 + fact_count s)\<rparr>)"
proof (cases "valid_notice s \<and> person actor \<and> expected = cn_version s \<and> action \<noteq> Untyped")
  case True
  then obtain a where "action = Typed a" by (cases action) auto
  then show ?thesis using True advance_valid [of s actor a] by auto
next
  case False
  then show ?thesis
    by (auto simp: advance_change_notice_def valid_notice_def bindE_eq_Inr result_simps split: typed.splits py_number.splits if_splits)
qed

section \<open>Properties\<close>

text \<open>A transition of a notice is exact: on a valid notice with the observed version and a real
  actor each action succeeds precisely when its fact is still missing and the actor may state it, then
  records that one fact and the next version and nothing else, and is a lifecycle conflict otherwise;
  an unobserved version is a version conflict. The closing check never refuses what the guards allow.\<close>

theorem change_notice_transition:
  assumes "valid_notice s" and "person actor"
  shows "advance_change_notice s actor (Typed a) expected =
    (if expected \<noteq> cn_version s then Inl SchedulingVersionConflictError
     else if action_allowed a actor s then Inr (record_fact a actor s\<lparr>cn_version := PyInt (2 + fact_count s)\<rparr>)
     else Inl SchedulingLifecycleConflictError)"
proof (cases "expected = cn_version s")
  case True
  then show ?thesis using advance_valid [OF assms] by simp
next
  case False
  have "validate_state s = Inr ()" using assms(1) by (simp add: valid_notice_def)
  then show ?thesis
    using assms(2) False by (auto simp: advance_change_notice_def split: py_number.splits)
qed

theorem change_notice_transition_witness:
  "advance_change_notice (prepared_notice 7 9) (Typed 8) (Typed APPROVE) (PyInt 1) =
     Inr (prepared_notice 7 9\<lparr>cn_review := Some (Typed APPROVED), cn_reviewer_id := Some (Typed 8), cn_version := PyInt 2\<rparr>)
   \<and> advance_change_notice (prepared_notice 7 9) (Typed 7) (Typed APPROVE) (PyInt 1) = Inl SchedulingLifecycleConflictError"
proof -
  have "valid_notice (prepared_notice 7 9)" "person (Typed 8)" "person (Typed 7)"
    by (simp_all add: valid_notice_iff prepared_notice_def person_def opt_person_def fact_count_def)
  from change_notice_transition [OF this(1,2), of APPROVE "PyInt 1"] change_notice_transition [OF this(1,3), of APPROVE "PyInt 1"]
  show ?thesis by (simp add: prepared_notice_def fact_count_def)
qed

text \<open>The attempts of any people in any order; a refused attempt changes nothing.\<close>

definition attempt :: "ChangeNoticeState \<Rightarrow> uuid typed \<times> ChangeNoticeAction typed \<times> py_number \<Rightarrow> ChangeNoticeState" where
  "attempt s r = (case r of (actor, action, expected) \<Rightarrow>
     (case advance_change_notice s actor action expected of Inl e \<Rightarrow> s | Inr s' \<Rightarrow> s'))"

text \<open>The later state keeps every fact of the earlier one.\<close>

definition keeps_facts :: "ChangeNoticeState \<Rightarrow> ChangeNoticeState \<Rightarrow> bool" where
  "keeps_facts s t \<longleftrightarrow> cn_preparer_id t = cn_preparer_id s \<and> cn_recipient_id t = cn_recipient_id s
     \<and> (cn_review s \<noteq> None \<longrightarrow> cn_review t = cn_review s \<and> cn_reviewer_id t = cn_reviewer_id s)
     \<and> (cn_handed_off_by_id s \<noteq> None \<longrightarrow> cn_handed_off_by_id t = cn_handed_off_by_id s)
     \<and> (cn_acknowledged_by_id s \<noteq> None \<longrightarrow> cn_acknowledged_by_id t = cn_acknowledged_by_id s)"

lemma keeps_facts_refl: "keeps_facts s s"
  by (simp add: keeps_facts_def)

lemma keeps_facts_trans: "keeps_facts s t \<Longrightarrow> keeps_facts t u \<Longrightarrow> keeps_facts s u"
  by (auto simp: keeps_facts_def)

lemma attempt_cases:
  obtains "attempt s r = s"
  | actor a where "valid_notice s" "person actor" "action_allowed a actor s"
    "attempt s r = record_fact a actor s\<lparr>cn_version := PyInt (2 + fact_count s)\<rparr>"
proof -
  obtain actor action expected where r: "r = (actor, action, expected)" by (cases r) auto
  show ?thesis
  proof (cases "advance_change_notice s actor action expected")
    case (Inl e)
    then show ?thesis using that(1) by (simp add: attempt_def r)
  next
    case (Inr t)
    then obtain a where a: "valid_notice s" "person actor" "action_allowed a actor s"
      "t = record_fact a actor s\<lparr>cn_version := PyInt (2 + fact_count s)\<rparr>"
      by (auto simp: advance_iff)
    moreover have "attempt s r = t" by (simp add: attempt_def r Inr)
    ultimately show ?thesis using that(2) by blast
  qed
qed

lemma attempt_step:
  assumes "valid_notice s"
  shows "valid_notice (attempt s r)" "keeps_facts s (attempt s r)" "cn_review s = Some (Typed REJECTED) \<Longrightarrow> attempt s r = s"
proof -
  show "valid_notice (attempt s r)" by (cases rule: attempt_cases [of s r]) (simp_all add: assms record_fact_valid)
  show "keeps_facts s (attempt s r)"
  proof (cases rule: attempt_cases [of s r])
    case (2 actor a)
    then show ?thesis by (cases a) (auto simp: keeps_facts_def)
  qed (simp add: keeps_facts_refl)
  show "attempt s r = s" if "cn_review s = Some (Typed REJECTED)"
  proof (cases rule: attempt_cases [of s r])
    case (2 actor a)
    then show ?thesis using that by (cases a) auto
  qed
qed

lemma attempts_run:
  assumes "valid_notice s"
  shows "valid_notice (foldl attempt s rs) \<and> keeps_facts s (foldl attempt s rs)
    \<and> (cn_review s = Some (Typed REJECTED) \<longrightarrow> foldl attempt s rs = s)"
  using assms
proof (induction rs arbitrary: s)
  case (Cons r rs)
  note step = attempt_step [OF Cons.prems, of r]
  from Cons.IH [OF step(1)] step(2,3) show ?case
    by (metis foldl_Cons keeps_facts_trans)
qed (simp add: keeps_facts_refl)

text \<open>C26. Whatever sequence of people attempts whatever actions on a prepared notice, it stays valid, no
  recorded fact ever changes or disappears, there are at most three of them and the version counts
  them; the preparer is never the reviewer, an acknowledgement is the recipient's own and follows an
  approval, as a handoff does, and a rejected notice never changes again.\<close>

theorem change_notice_lifecycle:
  assumes "preparer \<noteq> 0" and "recipient \<noteq> 0"
  shows "(let s = foldl attempt (prepared_notice preparer recipient) past; t = foldl attempt s future in
    valid_notice t \<and> keeps_facts s t
    \<and> cn_version t = PyInt (1 + fact_count t) \<and> fact_count t \<le> MAX_CHANGE_NOTICE_FACTS
    \<and> cn_reviewer_id t \<noteq> Some (Typed preparer)
    \<and> cn_acknowledged_by_id t \<in> {None, Some (Typed recipient)}
    \<and> (cn_review t = Some (Typed APPROVED) \<or> cn_handed_off_by_id t = None \<and> cn_acknowledged_by_id t = None)
    \<and> (cn_review s = Some (Typed REJECTED) \<longrightarrow> t = s))"
proof -
  have "valid_notice (prepared_notice preparer recipient)"
    using assms by (simp add: valid_notice_iff prepared_notice_def person_def opt_person_def fact_count_def)
  from attempts_run [OF this, of past]
  have s: "valid_notice (foldl attempt (prepared_notice preparer recipient) past)"
    "keeps_facts (prepared_notice preparer recipient) (foldl attempt (prepared_notice preparer recipient) past)" by simp_all
  note t = attempts_run [OF s(1), of future]
  have "cn_preparer_id (foldl attempt (foldl attempt (prepared_notice preparer recipient) past) future) = Typed preparer"
    "cn_recipient_id (foldl attempt (foldl attempt (prepared_notice preparer recipient) past) future) = Typed recipient"
    using s(2) t by (simp_all add: keeps_facts_def prepared_notice_def)
  moreover have "fact_count u \<le> MAX_CHANGE_NOTICE_FACTS" for u by (simp add: fact_count_def MAX_CHANGE_NOTICE_FACTS_def)
  ultimately show ?thesis using t by (auto simp: Let_def valid_notice_iff)
qed

theorem change_notice_lifecycle_witness:
  "(let s = foldl attempt (prepared_notice 7 9) [(Typed 7, Typed APPROVE, PyInt 1), (Typed 8, Typed REJECT, PyInt 1)];
        t = foldl attempt s [(Typed 9, Typed ACKNOWLEDGE, PyInt 2)] in
    valid_notice t \<and> cn_reviewer_id t \<noteq> Some (Typed 7) \<and> fact_count t \<le> MAX_CHANGE_NOTICE_FACTS)"
  using change_notice_lifecycle [of 7 9 "[(Typed 7, Typed APPROVE, PyInt 1), (Typed 8, Typed REJECT, PyInt 1)]"
      "[(Typed 9, Typed ACKNOWLEDGE, PyInt 2)]"]
  by (simp add: Let_def)

end
