(* ===== verification/Adoption_Profiles.thy ===== *)
theory Adoption_Profiles
  imports Effect_Routes
begin

text \<open>
  What an edition has adopted: \<open>src/src/maru/events/adoption.py\<close>. A profile is an exact version of a
  manifest that pins modules, capabilities, destinations, effect routes, catalogue entries, adapters,
  conflict sources and root roles; every question about an edition is a question about its pinned
  manifest. The literal tables are the source's, entry by entry; a \<open>frozenset\<close> is a list without
  repetitions, whose order nothing reads.
\<close>

section \<open>Manifests\<close>

datatype AdoptionProfileCode =
    FULL_CONVENTION | WORKFORCE_ONLY | ANNOUNCEMENTS_ONLY | GUIDANCE_ONLY | ANNOUNCEMENTS_GUIDANCE

fun profile_code_value :: "AdoptionProfileCode \<Rightarrow> string" where
  "profile_code_value FULL_CONVENTION = ''full_convention''"
| "profile_code_value WORKFORCE_ONLY = ''workforce_only''"
| "profile_code_value ANNOUNCEMENTS_ONLY = ''announcements_only''"
| "profile_code_value GUIDANCE_ONLY = ''guidance_only''"
| "profile_code_value ANNOUNCEMENTS_GUIDANCE = ''announcements_guidance''"

text \<open>\<open>AdoptionProfileCode(code)\<close>: the member with that value, or a \<open>ValueError\<close>.\<close>

definition profile_code_of :: "string \<Rightarrow> AdoptionProfileCode option" where
  "profile_code_of code = find (\<lambda>c. profile_code_value c = code)
     [FULL_CONVENTION, WORKFORCE_ONLY, ANNOUNCEMENTS_ONLY, GUIDANCE_ONLY, ANNOUNCEMENTS_GUIDANCE]"

record AdoptionProfile =
  ap_code :: AdoptionProfileCode
  ap_version :: int
  ap_label :: string
  ap_description :: string
  ap_modules :: "string list"
  ap_capability_codes :: "string list"
  ap_destination_codes :: "string list"
  ap_shell_destination_kinds :: "string list"
  ap_effect_routes :: "route list"
  ap_catalog_entries :: "string list"
  ap_adapter_codes :: "string list"
  ap_conflict_source_codes :: "string list"
  ap_root_role_codes :: "string list"
  ap_primary_module :: string

definition profile_key :: "AdoptionProfile \<Rightarrow> string \<times> int" where
  "profile_key p = (profile_code_value (ap_code p), ap_version p)"

text \<open>
  \<open>_build_effect_routes\<close> pairs every event with its destination and raises when a route repeats; the
  routes of a manifest are the pairs, and \<open>effect_routes_load\<close> is the check.
\<close>

definition effect_routes_of :: "string list \<Rightarrow> string list \<Rightarrow> route list" where
  "effect_routes_of internal_events notification_events =
     map (\<lambda>e. (e, ''internal'')) internal_events @ map (\<lambda>e. (e, ''notifications'')) notification_events"

definition build_effect_routes :: "string list \<Rightarrow> string list \<Rightarrow> maru_error + route list" where
  "build_effect_routes internal_events notification_events =
     (let routes = effect_routes_of internal_events notification_events
      in if distinct routes then Inr routes else Inl RuntimeError)"

text \<open>\<open>_freeze_unique\<close> and \<open>_build_unique_tuple\<close>: a declaration that repeats a member fails the import.\<close>

definition freeze_unique :: "string list \<Rightarrow> maru_error + string list" where
  "freeze_unique declared = (if distinct declared then Inr declared else Inl RuntimeError)"

section \<open>Declarations\<close>

definition FULL_CONVENTION_MODULES :: "string list" where
  "FULL_CONVENTION_MODULES =
     [''audit'', ''authorization'', ''effects'', ''events'', ''identity'', ''organizations'', ''privacy'',
      ''accreditation'', ''applications'', ''catalog'', ''charities'', ''communications'', ''logistics'',
      ''participation'', ''registration'', ''venues'', ''workforce'']"

definition WORKFORCE_ONLY_MODULES :: "string list" where
  "WORKFORCE_ONLY_MODULES =
     [''audit'', ''authorization'', ''effects'', ''events'', ''identity'', ''organizations'', ''privacy'',
      ''workforce'']"

definition FULL_CONVENTION_CAPABILITY_CODES :: "string list" where
  "FULL_CONVENTION_CAPABILITY_CODES =
     [''accreditation.issue'', ''accreditation.manage_offline'', ''accreditation.revoke'',
      ''applications.apply_self'', ''applications.manage_definitions'', ''applications.review'',
      ''applications.review_sensitive'', ''applications.view_self'', ''audit.view_security'',
      ''authorization.delegate'', ''authorization.grant_direct'', ''authorization.manage_roles'',
      ''authorization.revoke'', ''catalog.manage'', ''catalog.manage_payments'', ''catalog.manage_stock'',
      ''catalog.order_self'', ''catalog.view_activity'', ''catalog.view_self'',
      ''charities.comment_selection'', ''charities.manage_partners'', ''charities.propose_selection'',
      ''charities.publish_selection'', ''charities.review_selection'', ''charities.view_partners'',
      ''charities.view_review_queue'', ''charities.view_selection'', ''effects.replay'',
      ''events.change_profile'', ''events.create'', ''events.transition'', ''events.view_basic'',
      ''identity.manage_restrictions'', ''logistics.manage_catalog'', ''logistics.manage_manifest'',
      ''logistics.manage_operations'', ''logistics.offer_self'', ''logistics.reconcile_offline'',
      ''logistics.review_offers'', ''logistics.view_manifest'', ''logistics.view_restricted_contacts'',
      ''logistics.view_workspace'', ''organizations.change_profile'', ''organizations.change_series'',
      ''organizations.create_series'', ''organizations.manage_representation'', ''organizations.view_basic'',
      ''participation.view_self'', ''participation.view_staff_summary'', ''privacy.manage_requests'',
      ''registration.check_in'', ''registration.manage_configuration'', ''registration.manage_exceptions'',
      ''registration.manage_finance'', ''registration.manage_self_profile'',
      ''registration.moderate_public_profile'', ''registration.register_on_behalf'',
      ''registration.register_self'', ''registration.update_profile_extensions'',
      ''registration.view_attendee_reporting'', ''registration.view_payment_summary'',
      ''registration.view_profile_extensions'', ''registration.view_self'',
      ''registration.view_self_profile'', ''registration.view_service_summary'',
      ''venues.manage_accommodation'', ''venues.manage_properties'', ''venues.manage_space_schedule'',
      ''venues.publish_space_schedule'', ''venues.select_for_edition'', ''venues.view_properties'',
      ''venues.view_space_schedule'', ''venues.view_workspace'', ''workforce.apply_self'',
      ''workforce.manage_applications'', ''workforce.manage_assignments'', ''workforce.manage_documents'',
      ''workforce.manage_self_availability'', ''workforce.manage_self_shifts'', ''workforce.manage_shifts'',
      ''workforce.manage_structure'', ''workforce.view_availability'', ''workforce.view_self'',
      ''workforce.view_shifts'', ''workforce.view_structure'']"

definition WORKFORCE_ONLY_CAPABILITY_CODES :: "string list" where
  "WORKFORCE_ONLY_CAPABILITY_CODES =
     [''audit.view_security'', ''authorization.delegate'', ''authorization.grant_direct'',
      ''authorization.manage_roles'', ''authorization.revoke'', ''effects.replay'',
      ''events.change_profile'', ''events.create'', ''events.transition'', ''events.view_basic'',
      ''identity.manage_restrictions'', ''organizations.change_profile'', ''organizations.change_series'',
      ''organizations.create_series'', ''organizations.manage_representation'', ''organizations.view_basic'',
      ''privacy.manage_requests'', ''workforce.apply_self'', ''workforce.manage_applications'',
      ''workforce.manage_assignments'', ''workforce.manage_documents'',
      ''workforce.manage_self_availability'', ''workforce.manage_self_shifts'', ''workforce.manage_shifts'',
      ''workforce.manage_structure'', ''workforce.view_availability'', ''workforce.view_self'',
      ''workforce.view_shifts'', ''workforce.view_structure'']"

definition STAFF_CONSOLE_DESTINATION_CATALOG :: "string list" where
  "STAFF_CONSOLE_DESTINATION_CATALOG =
     [''today'', ''my-registration'', ''people'', ''workforce'', ''commerce'', ''reports'', ''setup'',
      ''security'']"

definition FULL_CONVENTION_DESTINATIONS :: "string list" where
  "FULL_CONVENTION_DESTINATIONS =
     [''today'', ''my-registration'', ''people'', ''workforce'', ''commerce'', ''reports'', ''setup'',
      ''security'']"

definition WORKFORCE_ONLY_DESTINATIONS :: "string list" where
  "WORKFORCE_ONLY_DESTINATIONS =
     [''today'', ''workforce'', ''setup'', ''security'']"

definition SHELL_DESTINATION_KIND_CATALOG :: "string list" where
  "SHELL_DESTINATION_KIND_CATALOG =
     [''edition.guidance'', ''edition.guidance_access'', ''edition.announcements'',
      ''edition.application-review'', ''edition.application-studio'', ''edition.catalog'',
      ''edition.charities'', ''edition.logistics'', ''edition.overview'', ''edition.programme-access'',
      ''edition.programme-applications'', ''edition.programme-items'', ''edition.programme-notices'',
      ''edition.programme-operators'', ''edition.programme-release'', ''edition.programme-timetable'',
      ''edition.registration'', ''edition.registration-commerce'', ''edition.structure'', ''edition.venues'',
      ''my.applications'', ''my.catalog'', ''my.equipment-offers'', ''my.registrations'', ''my.schedule'',
      ''my.workforce'', ''work.attendee-service'', ''work.people'', ''work.reports'', ''work.security'',
      ''work.setup'', ''work.today'', ''work.workforce'']"

definition FULL_CONVENTION_SHELL_DESTINATION_KINDS :: "string list" where
  "FULL_CONVENTION_SHELL_DESTINATION_KINDS =
     [''edition.application-review'', ''edition.application-studio'', ''edition.catalog'',
      ''edition.charities'', ''edition.logistics'', ''edition.overview'', ''edition.registration'',
      ''edition.registration-commerce'', ''edition.structure'', ''edition.venues'', ''my.applications'',
      ''my.catalog'', ''my.equipment-offers'', ''my.registrations'', ''my.schedule'', ''my.workforce'',
      ''work.attendee-service'', ''work.people'', ''work.reports'', ''work.security'', ''work.setup'',
      ''work.today'', ''work.workforce'']"

definition WORKFORCE_ONLY_SHELL_DESTINATION_KINDS :: "string list" where
  "WORKFORCE_ONLY_SHELL_DESTINATION_KINDS =
     [''edition.overview'', ''edition.structure'', ''my.workforce'', ''work.security'', ''work.setup'',
      ''work.today'', ''work.workforce'']"

definition FULL_INTERNAL_EFFECT_EVENT_NAMES :: "string list" where
  "FULL_INTERNAL_EFFECT_EVENT_NAMES =
     [''applications.definition.changed.v1'', ''applications.submission.changed.v1'',
      ''authorization.capability.delegated.v1'', ''authorization.capability.direct_granted.v1'',
      ''authorization.capability.revoked.v1'', ''authorization.role.assigned.v1'',
      ''authorization.role.revoked.v1'', ''authorization.role_bundle.version_created.v1'',
      ''catalog.definition.changed.v1'', ''catalog.order.changed.v1'', ''catalog.stock.adjusted.v1'',
      ''charities.media.changed.v1'', ''charities.partner.changed.v1'', ''charities.selection.changed.v1'',
      ''events.edition.created.v1'', ''events.edition.details_updated.v1'',
      ''events.edition.lifecycle_transitioned.v1'', ''identity.account_restriction.applied.v1'',
      ''logistics.record.changed.v1'', ''organizations.convention_series.created.v1'',
      ''organizations.convention_series.updated.v1'', ''organizations.representation.changed.v1'',
      ''registration.admission_tier_replacement.completed.v1'',
      ''registration.admission_tier_replacement.expired.v1'',
      ''registration.admission_tier_replacement.reserved.v1'', ''registration.cancelled.v1'',
      ''registration.capacity.adjusted.v1'', ''registration.checked_in.v1'',
      ''registration.configuration.activated.v1'', ''registration.configuration.draft_changed.v1'',
      ''registration.configuration.draft_created.v1'', ''registration.guardian.accepted.v1'',
      ''registration.payment.deadline_changed.v1'', ''registration.payment.expired.v1'',
      ''registration.payment.reconciled.v1'', ''registration.payment.waived.v1'',
      ''registration.profile.media_reviewed.v1'', ''registration.profile.updated.v1'',
      ''registration.profile_extension.value_appended.v1'', ''registration.submitted.v1'',
      ''registration.template.published.v1'', ''registration.waitlist.batch_offered.v1'',
      ''registration.waitlist.offered.v1'', ''system.effect.probe_requested.v1'',
      ''venues.record.changed.v1'', ''workforce.application.submitted.v1'',
      ''workforce.document.reviewed.v1'', ''workforce.person_availability.changed.v1'',
      ''workforce.position_assignment.activated.v1'', ''workforce.position_assignment.ended.v1'',
      ''workforce.position_assignment.proposed.v1'', ''workforce.position_assignment.rejected.v1'',
      ''workforce.shift_commitment.changed.v1'', ''workforce.shift_demand.changed.v1'',
      ''workforce.structure.changed.v1'']"

definition FULL_NOTIFICATION_EFFECT_EVENT_NAMES :: "string list" where
  "FULL_NOTIFICATION_EFFECT_EVENT_NAMES =
     [''identity.account_restriction.applied.v1'', ''registration.cancelled.v1'',
      ''registration.checked_in.v1'', ''registration.guardian.accepted.v1'',
      ''registration.payment.deadline_changed.v1'', ''registration.payment.expired.v1'',
      ''registration.payment.reconciled.v1'', ''registration.payment.waived.v1'',
      ''registration.submitted.v1'', ''registration.waitlist.offered.v1'']"

definition WORKFORCE_ONLY_INTERNAL_EFFECT_EVENT_NAMES :: "string list" where
  "WORKFORCE_ONLY_INTERNAL_EFFECT_EVENT_NAMES =
     [''authorization.capability.delegated.v1'', ''authorization.capability.direct_granted.v1'',
      ''authorization.capability.revoked.v1'', ''authorization.role.assigned.v1'',
      ''authorization.role.revoked.v1'', ''authorization.role_bundle.version_created.v1'',
      ''events.edition.created.v1'', ''events.edition.details_updated.v1'',
      ''events.edition.lifecycle_transitioned.v1'', ''identity.account_restriction.applied.v1'',
      ''organizations.convention_series.created.v1'', ''organizations.convention_series.updated.v1'',
      ''organizations.representation.changed.v1'', ''system.effect.probe_requested.v1'',
      ''workforce.application.submitted.v1'', ''workforce.document.reviewed.v1'',
      ''workforce.person_availability.changed.v1'', ''workforce.position_assignment.activated.v1'',
      ''workforce.position_assignment.ended.v1'', ''workforce.position_assignment.proposed.v1'',
      ''workforce.position_assignment.rejected.v1'', ''workforce.shift_commitment.changed.v1'',
      ''workforce.shift_demand.changed.v1'', ''workforce.structure.changed.v1'']"

definition FULL_CONVENTION_CATALOG_ENTRIES :: "string list" where
  "FULL_CONVENTION_CATALOG_ENTRIES =
     [''applications.starter.adult-fursuit-striptease@1'', ''applications.starter.damage-report@1'',
      ''applications.starter.dj-application@1'', ''applications.starter.feedback@1'',
      ''applications.starter.fursuit-dance-competition@1'', ''applications.starter.helper-application@1'',
      ''applications.starter.idea-submission@1'', ''applications.starter.maid-cafe@1'',
      ''applications.starter.merch-submission@1'', ''applications.starter.registration@1'',
      ''applications.starter.volunteer-application@1'', ''registration.starter.convention-registration@1'',
      ''workforce.position-template.workforce-volunteer@1'',
      ''workforce.structure-template.marucon-reference@1'']"

definition WORKFORCE_ONLY_CATALOG_ENTRIES :: "string list" where
  "WORKFORCE_ONLY_CATALOG_ENTRIES =
     [''workforce.position-template.workforce-volunteer@1'',
      ''workforce.structure-template.marucon-reference@1'']"

definition FULL_CONVENTION_ADAPTER_CODES :: "string list" where
  "FULL_CONVENTION_ADAPTER_CODES =
     [''accreditation.identity-restriction-consequence@1'', ''accreditation.offline-check-in-relay@1'',
      ''applications.eligibility.active_volunteer@1'', ''applications.eligibility.authenticated_person@1'',
      ''applications.eligibility.confirmed_attendee@1'', ''applications.eligibility.edition_participant@1'',
      ''applications.eligibility.registered_attendee@1'', ''applications.source.account.display_name@1'',
      ''applications.source.registration.telegram@1'', ''applications.self@1'',
      ''applications.target.adult_fursuit_striptease@1'', ''applications.target.damage_report@1'',
      ''applications.target.dj_set@1'', ''applications.target.feedback@1'',
      ''applications.target.fursuit_dance_competition@1'', ''applications.target.helper@1'',
      ''applications.target.idea@1'', ''applications.target.maid_cafe@1'',
      ''applications.target.merch_submission@1'', ''applications.target.volunteer@1'',
      ''participation.attendee@1'', ''registration.identity-restriction-consequence@1'',
      ''venues.attendee-schedule@1'', ''workforce.assignment.participation-required@1'', ''workforce.self@1'']"

definition WORKFORCE_ONLY_ADAPTER_CODES :: "string list" where
  "WORKFORCE_ONLY_ADAPTER_CODES =
     [''workforce.assignment.participation-excluded@1'', ''workforce.self@1'']"

definition FULL_CONVENTION_CONFLICT_SOURCE_CODES :: "string list" where
  "FULL_CONVENTION_CONFLICT_SOURCE_CODES =
     []"

definition WORKFORCE_ONLY_CONFLICT_SOURCE_CODES :: "string list" where
  "WORKFORCE_ONLY_CONFLICT_SOURCE_CODES =
     []"

definition FULL_CONVENTION_ROOT_ROLE_CODES :: "string list" where
  "FULL_CONVENTION_ROOT_ROLE_CODES =
     [''executive-board'']"

definition WORKFORCE_ONLY_ROOT_ROLE_CODES :: "string list" where
  "WORKFORCE_ONLY_ROOT_ROLE_CODES =
     [''executive-board'', ''maru-operators'']"

definition FULL_CONVENTION_PROFILE :: AdoptionProfile where
  "FULL_CONVENTION_PROFILE = \<lparr>ap_code = FULL_CONVENTION,
     ap_version = 1,
     ap_label = ''Full convention'',
     ap_description = ''Use Maru as the convention-wide operating platform. This exact version pins every currently adopted capability and destination.'',
     ap_modules = FULL_CONVENTION_MODULES,
     ap_capability_codes = FULL_CONVENTION_CAPABILITY_CODES,
     ap_destination_codes = FULL_CONVENTION_DESTINATIONS,
     ap_shell_destination_kinds = FULL_CONVENTION_SHELL_DESTINATION_KINDS,
     ap_effect_routes = effect_routes_of FULL_INTERNAL_EFFECT_EVENT_NAMES FULL_NOTIFICATION_EFFECT_EVENT_NAMES,
     ap_catalog_entries = FULL_CONVENTION_CATALOG_ENTRIES,
     ap_adapter_codes = FULL_CONVENTION_ADAPTER_CODES,
     ap_conflict_source_codes = FULL_CONVENTION_CONFLICT_SOURCE_CODES,
     ap_root_role_codes = FULL_CONVENTION_ROOT_ROLE_CODES,
     ap_primary_module = ''events''\<rparr>"

definition WORKFORCE_ONLY_PROFILE :: AdoptionProfile where
  "WORKFORCE_ONLY_PROFILE = \<lparr>ap_code = WORKFORCE_ONLY,
     ap_version = 1,
     ap_label = ''Workforce only'',
     ap_description = ''Use Maru for volunteer structure, Positions, assignments, Availability, and Shifts without adopting attendee registration, payments, or unrelated convention modules.'',
     ap_modules = WORKFORCE_ONLY_MODULES,
     ap_capability_codes = WORKFORCE_ONLY_CAPABILITY_CODES,
     ap_destination_codes = WORKFORCE_ONLY_DESTINATIONS,
     ap_shell_destination_kinds = WORKFORCE_ONLY_SHELL_DESTINATION_KINDS,
     ap_effect_routes = effect_routes_of WORKFORCE_ONLY_INTERNAL_EFFECT_EVENT_NAMES [],
     ap_catalog_entries = WORKFORCE_ONLY_CATALOG_ENTRIES,
     ap_adapter_codes = WORKFORCE_ONLY_ADAPTER_CODES,
     ap_conflict_source_codes = WORKFORCE_ONLY_CONFLICT_SOURCE_CODES,
     ap_root_role_codes = WORKFORCE_ONLY_ROOT_ROLE_CODES,
     ap_primary_module = ''workforce''\<rparr>"

definition ANNOUNCEMENTS_ONLY_PROFILE :: AdoptionProfile where
  "ANNOUNCEMENTS_ONLY_PROFILE = \<lparr>ap_code = ANNOUNCEMENTS_ONLY,
     ap_version = 1,
     ap_label = ''Announcements only'',
     ap_description = ''Prepare approved announcements and record manual publication through your existing channels.'',
     ap_modules = 
       [''audit'', ''authorization'', ''effects'', ''events'', ''identity'', ''organizations'', ''privacy'',
        ''announcements''],
     ap_capability_codes = 
       [''organizations.view_basic'', ''organizations.change_profile'', ''organizations.create_series'',
        ''organizations.change_series'', ''organizations.manage_representation'', ''events.view_basic'',
        ''events.create'', ''events.change_profile'', ''events.transition'', ''authorization.delegate'',
        ''authorization.grant_direct'', ''authorization.revoke'', ''authorization.manage_roles'',
        ''audit.view_security'', ''announcements.view'', ''announcements.compose'', ''announcements.review'',
        ''announcements.record_publication'', ''announcements.manage_settings'',
        ''announcements.export_evidence''],
     ap_destination_codes = [''security''],
     ap_shell_destination_kinds = [''edition.overview'', ''edition.announcements'', ''work.security''],
     ap_effect_routes = effect_routes_of
       [''authorization.capability.delegated.v1'', ''authorization.capability.direct_granted.v1'',
        ''authorization.capability.revoked.v1'', ''authorization.role.assigned.v1'',
        ''authorization.role.revoked.v1'', ''authorization.role_bundle.version_created.v1'',
        ''events.edition.created.v1'', ''events.edition.details_updated.v1'',
        ''events.edition.lifecycle_transitioned.v1'', ''identity.account_restriction.applied.v1'',
        ''organizations.convention_series.created.v1'', ''organizations.convention_series.updated.v1'',
        ''organizations.representation.changed.v1'', ''announcements.changed.v1''] [],
     ap_catalog_entries = [],
     ap_adapter_codes = [],
     ap_conflict_source_codes = [],
     ap_root_role_codes = [''executive-board'', ''announcements-operators''],
     ap_primary_module = ''announcements''\<rparr>"

definition GUIDANCE_ONLY_PROFILE :: AdoptionProfile where
  "GUIDANCE_ONLY_PROFILE = \<lparr>ap_code = GUIDANCE_ONLY,
     ap_version = 1,
     ap_label = ''Guides only'',
     ap_description = ''Write, review and share approved internal guides.'',
     ap_modules = 
       [''audit'', ''authorization'', ''effects'', ''events'', ''identity'', ''organizations'', ''privacy'',
        ''knowledge''],
     ap_capability_codes = 
       [''organizations.view_basic'', ''organizations.change_profile'', ''organizations.create_series'',
        ''organizations.change_series'', ''organizations.manage_representation'', ''events.view_basic'',
        ''events.create'', ''events.change_profile'', ''events.transition'', ''audit.view_security'',
        ''authorization.manage_guidance_access'', ''knowledge.view_current'', ''knowledge.view_working'',
        ''knowledge.compose'', ''knowledge.review'', ''knowledge.withdraw'', ''knowledge.manage_settings'',
        ''knowledge.export_evidence''],
     ap_destination_codes = [''security''],
     ap_shell_destination_kinds = 
       [''edition.overview'', ''edition.guidance'', ''edition.guidance_access'', ''work.security''],
     ap_effect_routes = effect_routes_of
       [''authorization.capability.direct_granted.v1'', ''authorization.capability.revoked.v1'',
        ''authorization.role.assigned.v1'', ''authorization.role.revoked.v1'',
        ''authorization.role_bundle.version_created.v1'', ''events.edition.created.v1'',
        ''events.edition.details_updated.v1'', ''events.edition.lifecycle_transitioned.v1'',
        ''identity.account_restriction.applied.v1'', ''organizations.convention_series.created.v1'',
        ''organizations.convention_series.updated.v1'', ''organizations.representation.changed.v1'',
        ''events.guidance_adoption.changed.v1'', ''authorization.guidance_access.changed.v1'',
        ''knowledge.changed.v1''] [],
     ap_catalog_entries = [],
     ap_adapter_codes = [],
     ap_conflict_source_codes = [],
     ap_root_role_codes = [''executive-board'', ''workspace-operators''],
     ap_primary_module = ''knowledge''\<rparr>"

definition ANNOUNCEMENTS_GUIDANCE_PROFILE :: AdoptionProfile where
  "ANNOUNCEMENTS_GUIDANCE_PROFILE = \<lparr>ap_code = ANNOUNCEMENTS_GUIDANCE,
     ap_version = 1,
     ap_label = ''Announcements and Guides'',
     ap_description = ''Keep approved announcements and internal guides together.'',
     ap_modules = 
       [''audit'', ''authorization'', ''effects'', ''events'', ''identity'', ''organizations'', ''privacy'',
        ''knowledge'', ''announcements''],
     ap_capability_codes = 
       [''organizations.view_basic'', ''organizations.change_profile'', ''organizations.create_series'',
        ''organizations.change_series'', ''organizations.manage_representation'', ''events.view_basic'',
        ''events.create'', ''events.change_profile'', ''events.transition'', ''audit.view_security'',
        ''authorization.manage_guidance_access'', ''knowledge.view_current'', ''knowledge.view_working'',
        ''knowledge.compose'', ''knowledge.review'', ''knowledge.withdraw'', ''knowledge.manage_settings'',
        ''knowledge.export_evidence'', ''authorization.delegate'', ''authorization.grant_direct'',
        ''authorization.revoke'', ''authorization.manage_roles'', ''announcements.view'',
        ''announcements.compose'', ''announcements.review'', ''announcements.record_publication'',
        ''announcements.manage_settings'', ''announcements.export_evidence''],
     ap_destination_codes = [''security''],
     ap_shell_destination_kinds = 
       [''edition.overview'', ''edition.guidance'', ''edition.guidance_access'', ''work.security'',
        ''edition.announcements''],
     ap_effect_routes = effect_routes_of
       [''authorization.capability.direct_granted.v1'', ''authorization.capability.revoked.v1'',
        ''authorization.role.assigned.v1'', ''authorization.role.revoked.v1'',
        ''authorization.role_bundle.version_created.v1'', ''events.edition.created.v1'',
        ''events.edition.details_updated.v1'', ''events.edition.lifecycle_transitioned.v1'',
        ''identity.account_restriction.applied.v1'', ''organizations.convention_series.created.v1'',
        ''organizations.convention_series.updated.v1'', ''organizations.representation.changed.v1'',
        ''events.guidance_adoption.changed.v1'', ''authorization.guidance_access.changed.v1'',
        ''knowledge.changed.v1'', ''announcements.changed.v1'', ''authorization.capability.delegated.v1''] [],
     ap_catalog_entries = [],
     ap_adapter_codes = [],
     ap_conflict_source_codes = [],
     ap_root_role_codes = [''executive-board'', ''announcements-operators''],
     ap_primary_module = ''knowledge''\<rparr>"

definition ADOPTION_PROFILES :: "((string \<times> int) \<times> AdoptionProfile) list" where
  "ADOPTION_PROFILES =
     [((profile_code_value FULL_CONVENTION, 1), FULL_CONVENTION_PROFILE),
      ((profile_code_value WORKFORCE_ONLY, 1), WORKFORCE_ONLY_PROFILE),
      ((profile_code_value ANNOUNCEMENTS_ONLY, 1), ANNOUNCEMENTS_ONLY_PROFILE),
      ((profile_code_value GUIDANCE_ONLY, 1), GUIDANCE_ONLY_PROFILE),
      ((profile_code_value ANNOUNCEMENTS_GUIDANCE, 1), ANNOUNCEMENTS_GUIDANCE_PROFILE)]"

definition SELECTABLE_ADOPTION_PROFILE_KEYS :: "(AdoptionProfileCode \<times> string \<times> int) list" where
  "SELECTABLE_ADOPTION_PROFILE_KEYS =
     [(FULL_CONVENTION, profile_code_value FULL_CONVENTION, 1),
      (WORKFORCE_ONLY, profile_code_value WORKFORCE_ONLY, 1),
      (ANNOUNCEMENTS_ONLY, ''announcements_only'', 1),
      (GUIDANCE_ONLY, ''guidance_only'', 1)]"

section \<open>The check at import\<close>

text \<open>\<open>text.partition(".")[0]\<close>\<close>

definition module_of_code :: "string \<Rightarrow> string" where
  "module_of_code code = takeWhile (\<lambda>c. c \<noteq> CHR ''.'') code"

definition validate_manifest :: "AdoptionProfile \<Rightarrow> maru_error + unit" where
  "validate_manifest p =
     bindE (guardE (1 \<le> ap_version p \<and> ap_primary_module p \<in> set (ap_modules p)) RuntimeError) (\<lambda>_.
     bindE (guardE (ap_capability_codes p \<noteq> [] \<and> ap_destination_codes p \<noteq> []) RuntimeError) (\<lambda>_.
     bindE (guardE (distinct (ap_destination_codes p)) RuntimeError) (\<lambda>_.
     bindE (guardE (set (ap_destination_codes p) \<subseteq> set STAFF_CONSOLE_DESTINATION_CATALOG) RuntimeError) (\<lambda>_.
     bindE (guardE (set (ap_shell_destination_kinds p) \<subseteq> set SHELL_DESTINATION_KIND_CATALOG) RuntimeError) (\<lambda>_.
     bindE (guardE (list_all (\<lambda>c. module_of_code c \<in> set (ap_modules p)) (ap_capability_codes p)) RuntimeError) (\<lambda>_.
     bindE (guardE (list_all (\<lambda>c. module_of_code c \<in> set (ap_modules p))
       (ap_catalog_entries p @ ap_adapter_codes p @ ap_conflict_source_codes p)) RuntimeError) (\<lambda>_.
     guardE (list_all (\<lambda>r. module_of_code (fst r) \<in> set (''system'' # ap_modules p) \<and> snd r \<noteq> [])
       (ap_effect_routes p)) RuntimeError)))))))"

definition load_adoption_profiles :: "((string \<times> int) \<times> AdoptionProfile) list \<Rightarrow> maru_error + unit" where
  "load_adoption_profiles entries =
     bindE (guardE (distinct (map fst entries)) RuntimeError) (\<lambda>_.
     foldE (\<lambda>(key, p) _. bindE (guardE (key = profile_key p) RuntimeError) (\<lambda>_. validate_manifest p)) entries ())"

section \<open>Questions to a manifest\<close>

definition adoption_profile :: "string \<Rightarrow> int \<Rightarrow> AdoptionProfile option" where
  "adoption_profile code version =
     (if version < 1 then None
      else case profile_code_of code of
        None \<Rightarrow> None
      | Some normalized \<Rightarrow> map_of ADOPTION_PROFILES (profile_code_value normalized, version))"

text \<open>The same question, without a look at the other manifests.\<close>

lemma adoption_profile_by_code [code]:
  "adoption_profile code version =
     (if version \<noteq> 1 then None
      else case profile_code_of code of
        None \<Rightarrow> None
      | Some FULL_CONVENTION \<Rightarrow> Some FULL_CONVENTION_PROFILE
      | Some WORKFORCE_ONLY \<Rightarrow> Some WORKFORCE_ONLY_PROFILE
      | Some ANNOUNCEMENTS_ONLY \<Rightarrow> Some ANNOUNCEMENTS_ONLY_PROFILE
      | Some GUIDANCE_ONLY \<Rightarrow> Some GUIDANCE_ONLY_PROFILE
      | Some ANNOUNCEMENTS_GUIDANCE \<Rightarrow> Some ANNOUNCEMENTS_GUIDANCE_PROFILE)"
  by (auto simp: adoption_profile_def ADOPTION_PROFILES_def split: option.splits AdoptionProfileCode.splits)

definition selectable_adoption_profile :: "string \<Rightarrow> AdoptionProfile option" where
  "selectable_adoption_profile code =
     (case profile_code_of code of
        None \<Rightarrow> None
      | Some normalized \<Rightarrow>
          (case map_of SELECTABLE_ADOPTION_PROFILE_KEYS normalized of
             None \<Rightarrow> None
           | Some key \<Rightarrow> map_of ADOPTION_PROFILES key))"

definition profile_has :: "(AdoptionProfile \<Rightarrow> 'a list) \<Rightarrow> string \<Rightarrow> int \<Rightarrow> 'a \<Rightarrow> bool" where
  "profile_has part code version x =
     (case adoption_profile code version of None \<Rightarrow> False | Some p \<Rightarrow> x \<in> set (part p))"

definition profile_adopts_module :: "string \<Rightarrow> int \<Rightarrow> string \<Rightarrow> bool" where
  "profile_adopts_module = profile_has ap_modules"

definition profile_allows_capability :: "string \<Rightarrow> int \<Rightarrow> string \<Rightarrow> bool" where
  "profile_allows_capability = profile_has ap_capability_codes"

definition profile_allows_capabilities :: "string \<Rightarrow> int \<Rightarrow> string list \<Rightarrow> bool" where
  "profile_allows_capabilities code version capability_codes =
     (case adoption_profile code version of
        None \<Rightarrow> False
      | Some p \<Rightarrow> capability_codes \<noteq> [] \<and> set capability_codes \<subseteq> set (ap_capability_codes p))"

definition profile_destination_codes :: "string \<Rightarrow> int \<Rightarrow> string list" where
  "profile_destination_codes code version =
     (case adoption_profile code version of None \<Rightarrow> [] | Some p \<Rightarrow> ap_destination_codes p)"

definition profile_allows_destination :: "string \<Rightarrow> int \<Rightarrow> string \<Rightarrow> bool" where
  "profile_allows_destination code version destination \<longleftrightarrow>
     destination \<in> set (profile_destination_codes code version)"

definition profile_allows_shell_destination :: "string \<Rightarrow> int \<Rightarrow> string \<Rightarrow> bool" where
  "profile_allows_shell_destination = profile_has ap_shell_destination_kinds"

definition profile_allows_effect :: "string \<Rightarrow> int \<Rightarrow> string \<Rightarrow> string \<Rightarrow> bool" where
  "profile_allows_effect code version event_name destination =
     profile_has ap_effect_routes code version (event_name, destination)"

definition profile_allows_catalog_entry :: "string \<Rightarrow> int \<Rightarrow> string \<Rightarrow> bool" where
  "profile_allows_catalog_entry = profile_has ap_catalog_entries"

definition profile_allows_adapter :: "string \<Rightarrow> int \<Rightarrow> string \<Rightarrow> bool" where
  "profile_allows_adapter = profile_has ap_adapter_codes"

definition profile_allows_conflict_source :: "string \<Rightarrow> int \<Rightarrow> string \<Rightarrow> bool" where
  "profile_allows_conflict_source = profile_has ap_conflict_source_codes"

definition profile_allows_role :: "string \<Rightarrow> int \<Rightarrow> string \<Rightarrow> bool" where
  "profile_allows_role = profile_has ap_root_role_codes"

definition profile_keys_for_module :: "string \<Rightarrow> (string \<times> int) list" where
  "profile_keys_for_module module_code =
     map (\<lambda>e. profile_key (snd e)) (filter (\<lambda>e. module_code \<in> set (ap_modules (snd e))) ADOPTION_PROFILES)"

end
