(* ===== verification/Authority_Catalog.thy ===== *)
theory Authority_Catalog
  imports Effect_Operations Adoption_Profiles
begin

text \<open>
  The closed catalogues of authorization: the capabilities (\<open>src/src/maru/authorization/catalog.py\<close>),
  the protected capabilities and recipes of Guidance (\<open>guidance_catalog.py\<close>) and the accountable
  representations of an organization (\<open>src/src/maru/organizations/representation_catalog.py\<close>). A
  \<open>frozenset\<close> is a list without repetitions.
\<close>

section \<open>Capabilities\<close>

datatype ScopeLevel = ORGANIZATION | EDITION | DEPARTMENT | RESOURCE

fun scope_level_value :: "ScopeLevel \<Rightarrow> string" where
  "scope_level_value ORGANIZATION = ''organization''"
| "scope_level_value EDITION = ''edition''"
| "scope_level_value DEPARTMENT = ''department''"
| "scope_level_value RESOURCE = ''resource''"

datatype Sensitivity = C0_PUBLIC | C1_INTERNAL | C2_PERSONAL | C3_RESTRICTED | C4_SECURITY_CRITICAL

record Capability =
  cap_code :: string
  cap_description :: string
  cap_maximum_scope :: ScopeLevel
  cap_persistable :: bool
  cap_field_ceiling :: "string list"
  cap_sensitivity_ceiling :: Sensitivity
  cap_delegable :: bool
  cap_allow_self :: bool
  cap_requires_break_glass :: bool
  cap_obligations :: "string list"

text \<open>A capability with the defaults of the data class.\<close>

definition CAPABILITY :: "string \<Rightarrow> string \<Rightarrow> ScopeLevel \<Rightarrow> Capability" where
  "CAPABILITY code description scope = \<lparr>cap_code = code, cap_description = description,
     cap_maximum_scope = scope, cap_persistable = True, cap_field_ceiling = [],
     cap_sensitivity_ceiling = C1_INTERNAL, cap_delegable = False, cap_allow_self = False,
     cap_requires_break_glass = False, cap_obligations = []\<rparr>"

definition EDITION_BASIC_FIELD_CEILING :: "string list" where
  "EDITION_BASIC_FIELD_CEILING =
     [''id'', ''organization_id'', ''series_id'', ''slug'', ''name'', ''lifecycle'', ''aggregate_version'',
      ''adoption_profile_code'', ''adoption_profile_version'', ''time_zone'', ''language_codes'',
      ''currency_codes'', ''starts_on'', ''ends_on'']"

definition CAPABILITY_DEFINITIONS_1 :: "Capability list" where
  "CAPABILITY_DEFINITIONS_1 =
     [(CAPABILITY ''organizations.view_basic''
        ''View the organizer profile and its recurring convention brands.'' ORGANIZATION)
        \<lparr>cap_delegable := True,
          cap_field_ceiling := [''id'', ''slug'', ''name'', ''lifecycle'', ''description'', ''legal_name'', ''legal_address'',
           ''legal_representative'', ''registration_authority'', ''registration_identifier'', ''tax_identifier'',
           ''imprint_text'', ''website_url'', ''contact_email'', ''contact_phone'', ''country_code'',
           ''default_language_codes'', ''default_time_zone'']\<rparr>,
      (CAPABILITY ''organizations.change_profile''
        ''Change the bounded legal and operational organizer profile.'' ORGANIZATION)
        \<lparr>cap_obligations := [''audit'']\<rparr>,
      (CAPABILITY ''organizations.create_series''
        ''Create a recurring convention brand for an organizer.'' ORGANIZATION)
        \<lparr>cap_obligations := [''audit'']\<rparr>,
      (CAPABILITY ''organizations.change_series''
        ''Change a recurring convention brand owned by an organizer.'' ORGANIZATION)
        \<lparr>cap_obligations := [''audit'']\<rparr>,
      (CAPABILITY ''organizations.manage_representation''
        ''Invite, activate, replace, or end accountable Executive Board terms.'' ORGANIZATION)
        \<lparr>cap_sensitivity_ceiling := C4_SECURITY_CRITICAL,
          cap_obligations := [''reason'', ''audit'', ''approval'']\<rparr>,
      (CAPABILITY ''events.view_basic''
        ''View non-public basic metadata for an authorized event edition.'' ORGANIZATION)
        \<lparr>cap_delegable := True,
          cap_field_ceiling := EDITION_BASIC_FIELD_CEILING\<rparr>,
      (CAPABILITY ''events.create''
        ''Create a Draft event edition beneath an authorized series.'' ORGANIZATION)
        \<lparr>cap_field_ceiling := EDITION_BASIC_FIELD_CEILING,
          cap_obligations := [''audit'']\<rparr>,
      (CAPABILITY ''events.change_profile''
        ''Change bounded Draft or Preparing edition identity, dates, and locale.'' EDITION)
        \<lparr>cap_field_ceiling := EDITION_BASIC_FIELD_CEILING,
          cap_obligations := [''audit'']\<rparr>,
      (CAPABILITY ''events.transition''
        ''Move an edition through an authorized lifecycle transition.'' EDITION)
        \<lparr>cap_obligations := [''reason'', ''audit'']\<rparr>,
      (CAPABILITY ''participation.view_self''
        (''View one'' @ [CHR 0x27] @ ''s own edition participation and safe history.'') RESOURCE)
        \<lparr>cap_persistable := False,
          cap_allow_self := True,
          cap_sensitivity_ceiling := C2_PERSONAL,
          cap_field_ceiling := [''edition'', ''status'', ''capacities'', ''public_history_visible'']\<rparr>,
      (CAPABILITY ''participation.view_staff_summary''
        ''View a minimized participant summary for assigned staff work.'' EDITION)
        \<lparr>cap_delegable := True,
          cap_sensitivity_ceiling := C2_PERSONAL,
          cap_field_ceiling := [''account_id'', ''display_name'', ''participation_status'', ''capacity_labels''],
          cap_obligations := [''audit_sensitive_read'']\<rparr>,
      (CAPABILITY ''authorization.delegate''
        ''Delegate capabilities already held within a narrower scope.'' ORGANIZATION)
        \<lparr>cap_obligations := [''audit'']\<rparr>,
      (CAPABILITY ''authorization.grant_direct''
        (''Create root capability grants under an independent approver'' @ [CHR 0x27] @ ''s control.'') ORGANIZATION)
        \<lparr>cap_sensitivity_ceiling := C4_SECURITY_CRITICAL,
          cap_obligations := [''reason'', ''audit'', ''approval'']\<rparr>]"

definition CAPABILITY_DEFINITIONS_2 :: "Capability list" where
  "CAPABILITY_DEFINITIONS_2 =
     [(CAPABILITY ''authorization.revoke''
        ''Immediately revoke capability grants and role assignments in scope.'' ORGANIZATION)
        \<lparr>cap_sensitivity_ceiling := C4_SECURITY_CRITICAL,
          cap_obligations := [''reason'', ''audit'']\<rparr>,
      (CAPABILITY ''authorization.manage_roles''
        ''Version role bundles and assign them under independent approval.'' ORGANIZATION)
        \<lparr>cap_sensitivity_ceiling := C4_SECURITY_CRITICAL,
          cap_obligations := [''reason'', ''audit'', ''approval'']\<rparr>,
      (CAPABILITY ''effects.replay''
        ''Replay quarantined asynchronous work for one organization.'' ORGANIZATION)
        \<lparr>cap_sensitivity_ceiling := C4_SECURITY_CRITICAL,
          cap_obligations := [''reason'', ''audit'']\<rparr>,
      (CAPABILITY ''identity.manage_restrictions''
        ''Issue, revoke, and review organizer- or edition-scoped account restrictions without exposing sensitive case detail.'' EDITION)
        \<lparr>cap_sensitivity_ceiling := C3_RESTRICTED,
          cap_obligations := [''reason'', ''audit'', ''approval'']\<rparr>,
      (CAPABILITY ''privacy.manage_requests''
        ''Verify and route subject-rights, post-edition corrections, exports, and retention decisions.'' ORGANIZATION)
        \<lparr>cap_sensitivity_ceiling := C3_RESTRICTED,
          cap_obligations := [''reason'', ''audit'']\<rparr>,
      (CAPABILITY ''audit.view_security''
        ''View minimized security audit metadata.'' ORGANIZATION)
        \<lparr>cap_sensitivity_ceiling := C3_RESTRICTED,
          cap_field_ceiling := [''id'', ''occurred_at'', ''principal_kind'', ''principal_id'', ''event_edition_id'',
           ''capability_code'', ''operation'', ''target_type'', ''target_id'', ''outcome'', ''reason_code'',
           ''correlation_id'', ''source_channel'', ''delegated'', ''elevated'', ''break_glass''],
          cap_obligations := [''reason'', ''audit_sensitive_read'']\<rparr>,
      (CAPABILITY ''registration.manage_configuration''
        ''Create, inherit, review, activate, and template edition registration configuration.'' EDITION)
        \<lparr>cap_delegable := True,
          cap_field_ceiling := [''id'', ''name'', ''version'', ''status'', ''source_summary'', ''review_required'', ''review_note'',
           ''opens_at'', ''closes_at'', ''capacity'', ''currency'', ''minimum_age'',
           ''default_payment_window_minutes'', ''waitlist_enabled'', ''automatic_waitlist_promotion'',
           ''questions'', ''products''],
          cap_obligations := [''reason'', ''audit'']\<rparr>,
      (CAPABILITY ''registration.view_profile_extensions''
        ''View purpose-limited post-submission profile-extension values for registrations in one event edition.'' EDITION)
        \<lparr>cap_delegable := True,
          cap_sensitivity_ceiling := C2_PERSONAL,
          cap_field_ceiling := [''registration_id'', ''field_id'', ''field_key'', ''field_version'', ''label'', ''help_text'',
           ''field_type'', ''options'', ''purpose'', ''classification'', ''required'', ''writer_policy'',
           ''current_value'', ''current_sequence'', ''updated_at''],
          cap_obligations := [''audit_sensitive_read'']\<rparr>]"

definition CAPABILITY_DEFINITIONS_3 :: "Capability list" where
  "CAPABILITY_DEFINITIONS_3 =
     [(CAPABILITY ''registration.update_profile_extensions''
        ''Append reasoned staff-permitted profile-extension value revisions for registrations in one event edition.'' EDITION)
        \<lparr>cap_delegable := True,
          cap_sensitivity_ceiling := C2_PERSONAL,
          cap_obligations := [''reason'', ''audit'']\<rparr>,
      (CAPABILITY ''registration.view_service_summary''
        ''View the purpose-limited registration service queue and operational timeline.'' EDITION)
        \<lparr>cap_delegable := True,
          cap_sensitivity_ceiling := C2_PERSONAL,
          cap_field_ceiling := [''id'', ''reference'', ''account_id'', ''display_name'', ''state'', ''product_name'', ''amount_minor'',
           ''currency'', ''submitted_at'', ''waitlisted_at'', ''offered_at'', ''payment_due_at'',
           ''confirmed_at'', ''checked_in_at'', ''expired_at'', ''cancelled_at'', ''confirmation_basis'',
           ''submission_source'', ''submitted_by_id'', ''staff_submission_reason'', ''entitlements'', ''timeline''],
          cap_obligations := [''audit_sensitive_read'']\<rparr>,
      (CAPABILITY ''registration.view_attendee_reporting''
        ''View minimized edition attendance metrics and prepare a badge-data export without exposing payment or address detail.'' EDITION)
        \<lparr>cap_delegable := True,
          cap_sensitivity_ceiling := C2_PERSONAL,
          cap_field_ceiling := [''generated_at'', ''status_scope'', ''summary'', ''count'', ''page'', ''page_size'', ''has_next'',
           ''has_previous'', ''results'', ''badge_export''],
          cap_obligations := [''audit_sensitive_read'']\<rparr>,
      (CAPABILITY ''registration.view_payment_summary''
        ''View edition registration payment state, confirmation basis, and reconciliation totals.'' EDITION)
        \<lparr>cap_delegable := True,
          cap_sensitivity_ceiling := C2_PERSONAL,
          cap_field_ceiling := [''reference'', ''account_id'', ''display_name'', ''state'', ''product_name'', ''amount_minor'',
           ''currency'', ''payment_due_at'', ''confirmed_at'', ''confirmation_basis'', ''reconciliation''],
          cap_obligations := [''audit_sensitive_read'']\<rparr>,
      (CAPABILITY ''registration.manage_exceptions''
        ''Apply reasoned payment-deadline and payment-waiver exceptions to edition registrations.'' EDITION)
        \<lparr>cap_sensitivity_ceiling := C2_PERSONAL,
          cap_obligations := [''reason'', ''audit'']\<rparr>,
      (CAPABILITY ''registration.register_on_behalf''
        ''Create a reasoned registration for a known account outside public sale windows without bypassing policy, capacity, or payment.'' EDITION)
        \<lparr>cap_sensitivity_ceiling := C3_RESTRICTED,
          cap_obligations := [''reason'', ''audit'', ''audit_sensitive_read'']\<rparr>,
      (CAPABILITY ''registration.manage_finance''
        ''Propose, independently approve, reconcile, and resolve registration financial operations and provider exceptions.'' EDITION)
        \<lparr>cap_sensitivity_ceiling := C3_RESTRICTED,
          cap_obligations := [''reason'', ''audit'', ''approval'']\<rparr>,
      (CAPABILITY ''registration.check_in''
        ''Check in a confirmed attendee and issue arrival evidence.'' EDITION)
        \<lparr>cap_delegable := True,
          cap_sensitivity_ceiling := C2_PERSONAL,
          cap_obligations := [''reason'', ''audit'']\<rparr>,
      (CAPABILITY ''accreditation.issue''
        ''Issue and reprint edition credentials from active entitlements.'' EDITION)
        \<lparr>cap_delegable := True,
          cap_sensitivity_ceiling := C2_PERSONAL,
          cap_obligations := [''reason'', ''audit'']\<rparr>]"

definition CAPABILITY_DEFINITIONS_4 :: "Capability list" where
  "CAPABILITY_DEFINITIONS_4 =
     [(CAPABILITY ''accreditation.revoke''
        ''Revoke an issued credential and propagate revocation.'' EDITION)
        \<lparr>cap_sensitivity_ceiling := C2_PERSONAL,
          cap_obligations := [''reason'', ''audit'']\<rparr>,
      (CAPABILITY ''accreditation.manage_offline''
        ''Generate signed manifests and reconcile offline operations.'' EDITION)
        \<lparr>cap_sensitivity_ceiling := C4_SECURITY_CRITICAL,
          cap_obligations := [''reason'', ''audit'']\<rparr>,
      (CAPABILITY ''registration.view_self''
        (''View one'' @ [CHR 0x27] @ ''s own registration, entitlements, and timeline.'') RESOURCE)
        \<lparr>cap_persistable := False,
          cap_allow_self := True,
          cap_sensitivity_ceiling := C2_PERSONAL,
          cap_field_ceiling := [''id'', ''reference'', ''state'', ''product_name'', ''amount_minor'', ''currency'', ''submitted_at'',
           ''waitlisted_at'', ''offered_at'', ''payment_due_at'', ''confirmed_at'', ''checked_in_at'',
           ''expired_at'', ''cancelled_at'', ''confirmation_basis'', ''entitlements'', ''timeline'']\<rparr>,
      (CAPABILITY ''registration.register_self''
        (''Start and pay one'' @ [CHR 0x27] @ ''s own registration in an open edition.'') RESOURCE)
        \<lparr>cap_persistable := False,
          cap_allow_self := True,
          cap_sensitivity_ceiling := C2_PERSONAL,
          cap_obligations := [''audit'']\<rparr>,
      (CAPABILITY ''registration.manage_self_profile''
        (''View and update one'' @ [CHR 0x27] @ ''s mutable current-edition attendee profile without changing the immutable registration submission.'') RESOURCE)
        \<lparr>cap_persistable := False,
          cap_allow_self := True,
          cap_sensitivity_ceiling := C3_RESTRICTED,
          cap_obligations := [''audit'']\<rparr>,
      (CAPABILITY ''registration.view_self_profile''
        (''View one'' @ [CHR 0x27] @ ''s own edition profile or a prior profile offered as an explicit registration suggestion.'') RESOURCE)
        \<lparr>cap_persistable := False,
          cap_allow_self := True,
          cap_sensitivity_ceiling := C3_RESTRICTED,
          cap_field_ceiling := [''source_profile_id'', ''source_edition_id'', ''source_edition_name'', ''notice'',
           ''registration_identity'', ''address'', ''emergency_contact'', ''contact'', ''pronouns'', ''bio'',
           ''spoken_languages'', ''profile_media'', ''fursuits'', ''directory_visible'', ''directory_country''],
          cap_obligations := [''audit_sensitive_read'']\<rparr>,
      (CAPABILITY ''registration.moderate_public_profile''
        ''Review profile and fursuit images before they may appear in a public attendee rendition.'' EDITION)
        \<lparr>cap_delegable := True,
          cap_sensitivity_ceiling := C2_PERSONAL,
          cap_field_ceiling := [''id'', ''account_id'', ''display_name'', ''media_kind'', ''image'', ''review_status'', ''submitted_at''],
          cap_obligations := [''audit_sensitive_read'']\<rparr>]"

definition CAPABILITY_DEFINITIONS_5 :: "Capability list" where
  "CAPABILITY_DEFINITIONS_5 =
     [(CAPABILITY ''charities.view_partners''
        ''View organizer-owned charity partner profiles and governed media.'' ORGANIZATION)
        \<lparr>cap_delegable := True,
          cap_requires_break_glass := True,
          cap_sensitivity_ceiling := C3_RESTRICTED,
          cap_field_ceiling := [''id'', ''slug'', ''legal_name'', ''imprint_name'', ''public_name'', ''short_description'',
           ''description'', ''location_name'', ''postal_address'', ''country_code'', ''website_url'',
           ''contact_email'', ''contact_phone'', ''lifecycle'', ''aggregate_version'', ''media_references''],
          cap_obligations := [''audit_sensitive_read'']\<rparr>,
      (CAPABILITY ''charities.manage_partners''
        ''Create, change, retire, and govern media for charity partners.'' ORGANIZATION)
        \<lparr>cap_requires_break_glass := True,
          cap_sensitivity_ceiling := C3_RESTRICTED,
          cap_obligations := [''reason'', ''audit'']\<rparr>,
      (CAPABILITY ''charities.view_review_queue''
        ''View minimized charity selection state for one edition.'' EDITION)
        \<lparr>cap_delegable := True,
          cap_requires_break_glass := True,
          cap_field_ceiling := [''id'', ''partner_id'', ''partner_name'', ''responsible_department_id'',
           ''responsible_department_name'', ''status'', ''publication_state'', ''aggregate_version'']\<rparr>,
      (CAPABILITY ''charities.propose_selection''
        ''Propose and submit organizer charity partners for one edition.'' EDITION)
        \<lparr>cap_delegable := True,
          cap_requires_break_glass := True,
          cap_obligations := [''reason'', ''audit'']\<rparr>,
      (CAPABILITY ''charities.view_selection''
        ''View one purpose-scoped charity selection review timeline.'' RESOURCE)
        \<lparr>cap_delegable := True,
          cap_requires_break_glass := True,
          cap_sensitivity_ceiling := C3_RESTRICTED,
          cap_field_ceiling := [''summary'', ''timeline'', ''reason'', ''private_comment'', ''actor_id'', ''occurred_at''],
          cap_obligations := [''audit_sensitive_read'']\<rparr>,
      (CAPABILITY ''charities.review_selection''
        ''Confirm or reject one submitted edition charity selection.'' RESOURCE)
        \<lparr>cap_delegable := True,
          cap_requires_break_glass := True,
          cap_sensitivity_ceiling := C3_RESTRICTED,
          cap_obligations := [''reason'', ''audit'']\<rparr>,
      (CAPABILITY ''charities.comment_selection''
        ''Append a private purpose-scoped comment to one selection.'' RESOURCE)
        \<lparr>cap_delegable := True,
          cap_requires_break_glass := True,
          cap_sensitivity_ceiling := C3_RESTRICTED,
          cap_obligations := [''audit'']\<rparr>,
      (CAPABILITY ''charities.publish_selection''
        ''Independently publish or withdraw one confirmed charity selection.'' RESOURCE)
        \<lparr>cap_requires_break_glass := True,
          cap_sensitivity_ceiling := C3_RESTRICTED,
          cap_obligations := [''reason'', ''audit'', ''approval'']\<rparr>,
      (CAPABILITY ''venues.view_properties''
        ''View organizer-owned venue, layout, and provider records.'' ORGANIZATION)
        \<lparr>cap_delegable := True,
          cap_requires_break_glass := True,
          cap_sensitivity_ceiling := C3_RESTRICTED,
          cap_field_ceiling := [''property'', ''sites'', ''buildings'', ''spaces'', ''configurations'', ''combinations'', ''layouts'',
           ''media'', ''provider_contact''],
          cap_obligations := [''audit_sensitive_read'']\<rparr>,
      (CAPABILITY ''venues.manage_properties''
        ''Create and govern reusable venue facts, media, and layouts.'' ORGANIZATION)
        \<lparr>cap_requires_break_glass := True,
          cap_sensitivity_ceiling := C3_RESTRICTED,
          cap_obligations := [''reason'', ''audit'']\<rparr>]"

definition CAPABILITY_DEFINITIONS_6 :: "Capability list" where
  "CAPABILITY_DEFINITIONS_6 =
     [(CAPABILITY ''venues.manage_accommodation''
        ''Manage bounded room-type and nightly hotel inventory catalogs.'' ORGANIZATION)
        \<lparr>cap_requires_break_glass := True,
          cap_sensitivity_ceiling := C3_RESTRICTED,
          cap_obligations := [''reason'', ''audit'']\<rparr>,
      (CAPABILITY ''venues.view_workspace''
        ''View selected venues, spaces, availability, and booking summaries.'' EDITION)
        \<lparr>cap_delegable := True,
          cap_requires_break_glass := True,
          cap_field_ceiling := [''venue_selections'', ''space_selections'', ''availability'', ''booking_summaries'']\<rparr>,
      (CAPABILITY ''venues.select_for_edition''
        ''Select reusable venues and spaces with edition-owned overrides.'' EDITION)
        \<lparr>cap_delegable := True,
          cap_requires_break_glass := True,
          cap_obligations := [''reason'', ''audit'']\<rparr>,
      (CAPABILITY ''venues.view_space_schedule''
        (''View one exact edition space'' @ [CHR 0x27] @ ''s operational booking layers.'') RESOURCE)
        \<lparr>cap_delegable := True,
          cap_requires_break_glass := True,
          cap_sensitivity_ceiling := C3_RESTRICTED,
          cap_field_ceiling := [''space'', ''availability'', ''bookings'', ''setup_interval'', ''effective_interval'',
           ''teardown_interval'', ''internal_layout''],
          cap_obligations := [''audit_sensitive_read'']\<rparr>,
      (CAPABILITY ''venues.manage_space_schedule''
        ''Create, move, and cancel bookings in one exact edition space.'' RESOURCE)
        \<lparr>cap_delegable := True,
          cap_requires_break_glass := True,
          cap_sensitivity_ceiling := C3_RESTRICTED,
          cap_obligations := [''reason'', ''audit'']\<rparr>,
      (CAPABILITY ''venues.publish_space_schedule''
        ''Approve, publish, or withdraw one exact space schedule item.'' RESOURCE)
        \<lparr>cap_requires_break_glass := True,
          cap_sensitivity_ceiling := C3_RESTRICTED,
          cap_obligations := [''reason'', ''audit'', ''approval'']\<rparr>,
      (CAPABILITY ''catalog.manage''
        ''Configure and activate an edition merchandise and donation catalog.'' EDITION)
        \<lparr>cap_sensitivity_ceiling := C3_RESTRICTED,
          cap_obligations := [''reason'', ''audit'']\<rparr>,
      (CAPABILITY ''catalog.manage_stock''
        ''Append reasoned stock changes within configured hard ceilings.'' EDITION)
        \<lparr>cap_delegable := True,
          cap_sensitivity_ceiling := C3_RESTRICTED,
          cap_obligations := [''reason'', ''audit'']\<rparr>,
      (CAPABILITY ''catalog.manage_payments''
        ''Reconcile hosted catalog payment outcomes for one edition.'' EDITION)
        \<lparr>cap_sensitivity_ceiling := C3_RESTRICTED,
          cap_obligations := [''reason'', ''audit'']\<rparr>,
      (CAPABILITY ''catalog.view_activity''
        ''View purpose-scoped catalog configuration, stock, and order activity.'' EDITION)
        \<lparr>cap_delegable := True,
          cap_sensitivity_ceiling := C2_PERSONAL,
          cap_field_ceiling := [''action'', ''actor_label'', ''occurred_at'', ''target_count''],
          cap_obligations := [''audit_sensitive_read'']\<rparr>,
      (CAPABILITY ''catalog.order_self''
        (''Place and pay one'' @ [CHR 0x27] @ ''s own edition catalog orders.'') RESOURCE)
        \<lparr>cap_persistable := False,
          cap_allow_self := True,
          cap_sensitivity_ceiling := C2_PERSONAL,
          cap_obligations := [''audit'']\<rparr>,
      (CAPABILITY ''catalog.view_self''
        (''View one'' @ [CHR 0x27] @ ''s own catalog order history and fulfilment state.'') RESOURCE)
        \<lparr>cap_persistable := False,
          cap_allow_self := True,
          cap_sensitivity_ceiling := C2_PERSONAL,
          cap_field_ceiling := [''reference'', ''status'', ''total'', ''lines'', ''payment'', ''fulfilment''],
          cap_obligations := [''audit_sensitive_read'']\<rparr>,
      (CAPABILITY ''logistics.offer_self''
        (''Offer and withdraw one'' @ [CHR 0x27] @ ''s own equipment for an eligible edition.'') RESOURCE)
        \<lparr>cap_persistable := False,
          cap_allow_self := True,
          cap_sensitivity_ceiling := C2_PERSONAL,
          cap_obligations := [''audit'']\<rparr>]"

definition CAPABILITY_DEFINITIONS_7 :: "Capability list" where
  "CAPABILITY_DEFINITIONS_7 =
     [(CAPABILITY ''logistics.manage_catalog''
        ''Register reusable Logistics parties, locations, assets, stock, keys, agreements, kits, and labels.'' ORGANIZATION)
        \<lparr>cap_requires_break_glass := True,
          cap_sensitivity_ceiling := C3_RESTRICTED,
          cap_obligations := [''reason'', ''audit'']\<rparr>,
      (CAPABILITY ''logistics.view_restricted_contacts''
        ''Read one purpose- and retention-limited Logistics pickup, storage, provider, or return contact.'' EDITION)
        \<lparr>cap_requires_break_glass := True,
          cap_sensitivity_ceiling := C3_RESTRICTED,
          cap_obligations := [''reason'', ''audit_sensitive_read'']\<rparr>,
      (CAPABILITY ''logistics.view_workspace''
        (''View an edition'' @ [CHR 0x27] @ ''s minimized Logistics inventory, custody, manifest, return, and Stage Tech receiving workspace.'') EDITION)
        \<lparr>cap_delegable := True,
          cap_requires_break_glass := True,
          cap_sensitivity_ceiling := C2_PERSONAL,
          cap_obligations := [''audit_sensitive_read'']\<rparr>,
      (CAPABILITY ''logistics.manage_operations''
        ''Append receive, pack, move, custody, count, condition, damage, and return operations in one edition.'' EDITION)
        \<lparr>cap_delegable := True,
          cap_requires_break_glass := True,
          cap_sensitivity_ceiling := C3_RESTRICTED,
          cap_obligations := [''reason'', ''audit'']\<rparr>,
      (CAPABILITY ''logistics.review_offers''
        ''Accept or reject authenticated equipment offers for one edition.'' EDITION)
        \<lparr>cap_delegable := True,
          cap_requires_break_glass := True,
          cap_sensitivity_ceiling := C2_PERSONAL,
          cap_obligations := [''reason'', ''audit'', ''audit_sensitive_read'']\<rparr>,
      (CAPABILITY ''logistics.reconcile_offline''
        ''Review and reconcile bounded offline Logistics scan batches.'' EDITION)
        \<lparr>cap_requires_break_glass := True,
          cap_sensitivity_ceiling := C3_RESTRICTED,
          cap_obligations := [''reason'', ''audit'']\<rparr>,
      (CAPABILITY ''logistics.view_manifest''
        ''View one exact edition Logistics manifest and receiving status.'' RESOURCE)
        \<lparr>cap_delegable := True,
          cap_requires_break_glass := True,
          cap_sensitivity_ceiling := C2_PERSONAL,
          cap_obligations := [''audit_sensitive_read'']\<rparr>,
      (CAPABILITY ''logistics.manage_manifest''
        ''Add lines to and transition one exact Logistics manifest.'' RESOURCE)
        \<lparr>cap_delegable := True,
          cap_requires_break_glass := True,
          cap_sensitivity_ceiling := C3_RESTRICTED,
          cap_obligations := [''reason'', ''audit'']\<rparr>,
      (CAPABILITY ''applications.manage_definitions''
        ''Create, version, configure, activate, and retire edition-owned typed application definitions.'' EDITION)
        \<lparr>cap_sensitivity_ceiling := C3_RESTRICTED,
          cap_obligations := [''reason'', ''audit'']\<rparr>,
      (CAPABILITY ''applications.review''
        ''Review assigned C1/C2 typed applications in one edition.'' EDITION)
        \<lparr>cap_delegable := True,
          cap_sensitivity_ceiling := C2_PERSONAL,
          cap_obligations := [''reason'', ''audit'', ''audit_sensitive_read'']\<rparr>,
      (CAPABILITY ''applications.review_sensitive''
        ''Review assigned C3/C4, adult, or case application material in one edition under an explicit audience policy.'' EDITION)
        \<lparr>cap_sensitivity_ceiling := C4_SECURITY_CRITICAL,
          cap_obligations := [''reason'', ''audit'', ''audit_sensitive_read'']\<rparr>,
      (CAPABILITY ''applications.view_self''
        (''View one'' @ [CHR 0x27] @ ''s own typed application drafts, answers, and decisions.'') RESOURCE)
        \<lparr>cap_persistable := False,
          cap_allow_self := True,
          cap_sensitivity_ceiling := C3_RESTRICTED,
          cap_field_ceiling := [''available'', ''submissions'', ''answers'', ''decisions'', ''typed_target''],
          cap_obligations := [''audit_sensitive_read'']\<rparr>,
      (CAPABILITY ''applications.apply_self''
        (''Create and submit one'' @ [CHR 0x27] @ ''s own eligible typed applications.'') RESOURCE)
        \<lparr>cap_persistable := False,
          cap_allow_self := True,
          cap_sensitivity_ceiling := C3_RESTRICTED,
          cap_obligations := [''audit'']\<rparr>]"

definition CAPABILITY_DEFINITIONS_8 :: "Capability list" where
  "CAPABILITY_DEFINITIONS_8 =
     [(CAPABILITY ''applications.manage_programme_calls''
        ''Configure, activate, retire, and succeed Applications-owned Programme calls for one exact Department.'' DEPARTMENT)
        \<lparr>cap_delegable := True,
          cap_sensitivity_ceiling := C3_RESTRICTED,
          cap_obligations := [''reason'', ''audit'']\<rparr>,
      (CAPABILITY ''applications.manage_programme_review''
        ''Configure policies, open exact-revision cases, and manage named Programme reviewers.'' DEPARTMENT)
        \<lparr>cap_delegable := True,
          cap_sensitivity_ceiling := C3_RESTRICTED,
          cap_field_ceiling := [''review_context'', ''review_setup''],
          cap_obligations := [''reason'', ''audit'', ''audit_sensitive_read'']\<rparr>,
      (CAPABILITY ''applications.review_programme''
        ''Review exact assigned Programme revisions after a personal conflict declaration.'' DEPARTMENT)
        \<lparr>cap_delegable := True,
          cap_sensitivity_ceiling := C3_RESTRICTED,
          cap_field_ceiling := [''review_context'', ''review_answers'', ''review_evidence''],
          cap_obligations := [''reason'', ''audit'', ''audit_sensitive_read'']\<rparr>,
      (CAPABILITY ''applications.moderate_programme_review''
        ''Moderate and explicitly advance or reopen Programme review stages independently.'' DEPARTMENT)
        \<lparr>cap_delegable := True,
          cap_sensitivity_ceiling := C3_RESTRICTED,
          cap_field_ceiling := [''review_context'', ''review_answers'', ''review_evidence''],
          cap_obligations := [''reason'', ''audit'', ''audit_sensitive_read'']\<rparr>,
      (CAPABILITY ''applications.decide_programme''
        ''Record accountable Programme decisions independently of contributors and reviewers.'' DEPARTMENT)
        \<lparr>cap_sensitivity_ceiling := C3_RESTRICTED,
          cap_field_ceiling := [''review_context'', ''review_answers'', ''review_evidence''],
          cap_obligations := [''reason'', ''audit'', ''audit_sensitive_read'']\<rparr>,
      (CAPABILITY ''applications.convert_programme_acceptance''
        ''Convert effective acceptance owned by one exact Department.'' DEPARTMENT)
        \<lparr>cap_sensitivity_ceiling := C3_RESTRICTED,
          cap_obligations := [''reason'', ''audit'']\<rparr>,
      (CAPABILITY ''applications.view_programme_decision_self''
        (''Read only decisions addressed to one'' @ [CHR 0x27] @ ''s exact reviewed contributor snapshot.'') RESOURCE)
        \<lparr>cap_persistable := False,
          cap_allow_self := True,
          cap_sensitivity_ceiling := C3_RESTRICTED,
          cap_field_ceiling := [''decision_message'', ''own_acknowledgement''],
          cap_obligations := [''audit_sensitive_read'']\<rparr>,
      (CAPABILITY ''applications.acknowledge_programme_decision_self''
        ''Acknowledge receipt only of a decision addressed to oneself.'' RESOURCE)
        \<lparr>cap_persistable := False,
          cap_allow_self := True,
          cap_sensitivity_ceiling := C3_RESTRICTED,
          cap_obligations := [''audit'']\<rparr>,
      (CAPABILITY ''applications.import_programme''
        ''Stage, preview, and apply Programme imports owned by one exact Department.'' DEPARTMENT)
        \<lparr>cap_delegable := True,
          cap_sensitivity_ceiling := C3_RESTRICTED,
          cap_obligations := [''reason'', ''audit'', ''audit_sensitive_read'']\<rparr>,
      (CAPABILITY ''applications.dispose_programme_import''
        ''Dispose expired or explicitly abandoned Programme-import payloads for one edition without granting read authority.'' EDITION)
        \<lparr>cap_delegable := True,
          cap_sensitivity_ceiling := C3_RESTRICTED,
          cap_obligations := [''reason'', ''audit'']\<rparr>,
      (CAPABILITY ''applications.recover_programme_department_ownership''
        ''Recover one exact orphaned Programme call after its owning Department was historically retired.'' EDITION)
        \<lparr>cap_requires_break_glass := True,
          cap_sensitivity_ceiling := C3_RESTRICTED,
          cap_obligations := [''reason'', ''audit'']\<rparr>]"

definition CAPABILITY_DEFINITIONS_9 :: "Capability list" where
  "CAPABILITY_DEFINITIONS_9 =
     [(CAPABILITY ''applications.view_programme_proposal_self''
        (''View a Programme proposal through one'' @ [CHR 0x27] @ ''s current lead, invitation, or collaborator relationship.'') RESOURCE)
        \<lparr>cap_persistable := False,
          cap_allow_self := True,
          cap_sensitivity_ceiling := C3_RESTRICTED,
          cap_field_ceiling := [''proposal_summary'', ''selection'', ''answers'', ''contributors'', ''contributor_profiles'',
           ''revision_history'', ''revision_responses'', ''own_invitation'', ''available_calls'',
           ''programme_import_claim'', ''workflow_context'', ''frozen_revision''],
          cap_obligations := [''audit_sensitive_read'']\<rparr>,
      (CAPABILITY ''applications.edit_programme_proposal_self''
        (''Start a Programme proposal, revise shared draft answers and one'' @ [CHR 0x27] @ ''s own proposal-scoped contributor profile; lead-only commands govern selection.'') RESOURCE)
        \<lparr>cap_persistable := False,
          cap_allow_self := True,
          cap_sensitivity_ceiling := C3_RESTRICTED,
          cap_obligations := [''audit'']\<rparr>,
      (CAPABILITY ''applications.respond_programme_invitation_self''
        (''Accept or decline one'' @ [CHR 0x27] @ ''s own current Programme proposal invitation.'') RESOURCE)
        \<lparr>cap_persistable := False,
          cap_allow_self := True,
          cap_sensitivity_ceiling := C3_RESTRICTED,
          cap_obligations := [''audit'']\<rparr>,
      (CAPABILITY ''applications.manage_programme_proposal_self''
        ''Manage collaborators and immutable proposal revisions as a Programme proposal lead.'' RESOURCE)
        \<lparr>cap_persistable := False,
          cap_allow_self := True,
          cap_sensitivity_ceiling := C3_RESTRICTED,
          cap_obligations := [''audit'']\<rparr>,
      (CAPABILITY ''applications.submit_programme_proposal_self''
        (''Submit or withdraw one'' @ [CHR 0x27] @ ''s own Programme proposal at an exact immutable revision.'') RESOURCE)
        \<lparr>cap_persistable := False,
          cap_allow_self := True,
          cap_sensitivity_ceiling := C3_RESTRICTED,
          cap_obligations := [''audit'']\<rparr>,
      (CAPABILITY ''programme.manage_hosts''
        ''Invite or remove exact Programme hosts with retained organizer rationale.'' EDITION)
        \<lparr>cap_delegable := True,
          cap_sensitivity_ceiling := C3_RESTRICTED,
          cap_obligations := [''reason'', ''audit'']\<rparr>,
      (CAPABILITY ''programme.manage_staffing''
        ''Revise explicit Programme staffing needs without accepting volunteer work.'' EDITION)
        \<lparr>cap_delegable := True,
          cap_sensitivity_ceiling := C3_RESTRICTED,
          cap_obligations := [''reason'', ''audit'']\<rparr>,
      (CAPABILITY ''programme.view_staffing''
        ''Read Programme staffing terms and retained requirement history, not personnel.'' EDITION)
        \<lparr>cap_delegable := True,
          cap_sensitivity_ceiling := C3_RESTRICTED,
          cap_field_ceiling := [''staffing_requirements'', ''staffing_history'', ''placement_decisions''],
          cap_obligations := [''audit_sensitive_read'']\<rparr>,
      (CAPABILITY ''programme.view_scheduling_dependencies''
        ''Read minimized Programme and host consequences for an edition timetable.'' EDITION)
        \<lparr>cap_delegable := True,
          cap_sensitivity_ceiling := C3_RESTRICTED,
          cap_field_ceiling := [''item_scheduling_facts'', ''host_conflict_keys'', ''current_shared_host_periods'',
           ''release_person_references''],
          cap_obligations := [''audit_sensitive_read'']\<rparr>,
      (CAPABILITY ''venues.view_scheduling_dependencies''
        (''Read one exact Venue space'' @ [CHR 0x27] @ ''s minimized physical constraints.'') RESOURCE)
        \<lparr>cap_delegable := True,
          cap_requires_break_glass := True,
          cap_sensitivity_ceiling := C3_RESTRICTED,
          cap_field_ceiling := [''physical_dependencies'', ''accessibility_configuration''],
          cap_obligations := [''audit_sensitive_read'']\<rparr>,
      (CAPABILITY ''scheduling.view_change_recipients''
        ''Resolve one eligible operator recipient for Programme changes.'' EDITION)
        \<lparr>cap_delegable := True,
          cap_sensitivity_ceiling := C3_RESTRICTED,
          cap_field_ceiling := [''operator_recipients''],
          cap_obligations := [''audit_sensitive_read'']\<rparr>]"

definition CAPABILITY_DEFINITIONS_10 :: "Capability list" where
  "CAPABILITY_DEFINITIONS_10 =
     [(CAPABILITY ''scheduling.view_change_notices''
        ''Read independently authorized exact Programme change notices.'' EDITION)
        \<lparr>cap_delegable := True,
          cap_sensitivity_ceiling := C3_RESTRICTED,
          cap_field_ceiling := [''change_notices''],
          cap_obligations := [''audit_sensitive_read'']\<rparr>,
      (CAPABILITY ''scheduling.prepare_change_notices''
        ''Prepare one exact-source Programme change for one recipient.'' EDITION)
        \<lparr>cap_delegable := True,
          cap_sensitivity_ceiling := C3_RESTRICTED,
          cap_obligations := [''reason'', ''audit'']\<rparr>,
      (CAPABILITY ''scheduling.review_change_notices''
        ''Independently approve or reject an exact Programme change notice.'' EDITION)
        \<lparr>cap_delegable := True,
          cap_sensitivity_ceiling := C3_RESTRICTED,
          cap_obligations := [''reason'', ''audit'']\<rparr>,
      (CAPABILITY ''scheduling.handoff_change_notices''
        ''Record an explicit manual Programme notice handoff claim.'' EDITION)
        \<lparr>cap_delegable := True,
          cap_sensitivity_ceiling := C3_RESTRICTED,
          cap_obligations := [''reason'', ''audit'']\<rparr>,
      (CAPABILITY ''scheduling.view_change_self''
        (''Read only one'' @ [CHR 0x27] @ ''s own approved, currently eligible change notices.'') RESOURCE)
        \<lparr>cap_persistable := False,
          cap_allow_self := True,
          cap_sensitivity_ceiling := C3_RESTRICTED,
          cap_field_ceiling := [''own_change_notices''],
          cap_obligations := [''audit_sensitive_read'']\<rparr>,
      (CAPABILITY ''scheduling.acknowledge_change_self''
        ''Acknowledge an exact approved change only as its own recipient.'' RESOURCE)
        \<lparr>cap_persistable := False,
          cap_allow_self := True,
          cap_sensitivity_ceiling := C3_RESTRICTED,
          cap_obligations := [''audit'']\<rparr>,
      (CAPABILITY ''scheduling.view_operator_output''
        ''Read approved geometry for an exact operator purpose target.'' EDITION)
        \<lparr>cap_delegable := True,
          cap_sensitivity_ceiling := C3_RESTRICTED,
          cap_field_ceiling := [''released_geometry''],
          cap_obligations := [''audit_sensitive_read'']\<rparr>,
      (CAPABILITY ''programme.view_operator_copy''
        ''Read exact released reviewed copy for an operator purpose.'' EDITION)
        \<lparr>cap_delegable := True,
          cap_sensitivity_ceiling := C3_RESTRICTED,
          cap_field_ceiling := [''reviewed_copy''],
          cap_obligations := [''audit_sensitive_read'']\<rparr>,
      (CAPABILITY ''programme.view_operator_delivery''
        ''Read explicitly requested current operator delivery layers.'' EDITION)
        \<lparr>cap_delegable := True,
          cap_sensitivity_ceiling := C3_RESTRICTED,
          cap_field_ceiling := [''technical'', ''accessibility'', ''media''],
          cap_obligations := [''audit_sensitive_read'']\<rparr>,
      (CAPABILITY ''venues.view_operator_wayfinding''
        ''Read current room membership and operator wayfinding.'' EDITION)
        \<lparr>cap_delegable := True,
          cap_sensitivity_ceiling := C3_RESTRICTED,
          cap_field_ceiling := [''scope_links'', ''wayfinding''],
          cap_obligations := [''audit_sensitive_read'']\<rparr>,
      (CAPABILITY ''workforce.view_operator_staffing''
        ''Read Programme-linked operator work without a person roster.'' EDITION)
        \<lparr>cap_delegable := True,
          cap_sensitivity_ceiling := C3_RESTRICTED,
          cap_field_ceiling := [''scope_links'', ''work_instructions'', ''coverage''],
          cap_obligations := [''audit_sensitive_read'']\<rparr>,
      (CAPABILITY ''scheduling.view_host_self''
        (''View only one'' @ [CHR 0x27] @ ''s own confirmed hosting in the checked Programme release.'') RESOURCE)
        \<lparr>cap_persistable := False,
          cap_allow_self := True,
          cap_sensitivity_ceiling := C3_RESTRICTED,
          cap_field_ceiling := [''own_host_schedule''],
          cap_obligations := [''audit_sensitive_read'']\<rparr>,
      (CAPABILITY ''scheduling.view_work_self''
        (''View Programme release context for one'' @ [CHR 0x27] @ ''s own operative work.'') RESOURCE)
        \<lparr>cap_persistable := False,
          cap_allow_self := True,
          cap_sensitivity_ceiling := C3_RESTRICTED,
          cap_field_ceiling := [''own_work_schedule''],
          cap_obligations := [''audit_sensitive_read'']\<rparr>,
      (CAPABILITY ''scheduling.view_planning''
        ''Read private service days, occurrences and candidate placement times.'' EDITION)
        \<lparr>cap_delegable := True,
          cap_sensitivity_ceiling := C3_RESTRICTED,
          cap_field_ceiling := [''service_days'', ''occurrences'', ''candidates'', ''placement_times'', ''release_manifest''],
          cap_obligations := [''audit_sensitive_read'']\<rparr>,
      (CAPABILITY ''scheduling.view_history''
        ''Read immutable planning-change evidence and rationale.'' EDITION)
        \<lparr>cap_delegable := True,
          cap_sensitivity_ceiling := C3_RESTRICTED,
          cap_field_ceiling := [''planning_history'', ''release_manifest''],
          cap_obligations := [''audit_sensitive_read'']\<rparr>]"

definition CAPABILITY_DEFINITIONS_11 :: "Capability list" where
  "CAPABILITY_DEFINITIONS_11 =
     [(CAPABILITY ''scheduling.view_conflicts''
        ''Read candidate conflicts and minimized source-version evidence.'' EDITION)
        \<lparr>cap_delegable := True,
          cap_sensitivity_ceiling := C3_RESTRICTED,
          cap_field_ceiling := [''conflicts'', ''dependency_versions'', ''release_preflight''],
          cap_obligations := [''audit_sensitive_read'']\<rparr>,
      (CAPABILITY ''scheduling.manage_service_days''
        ''Manage exact-edition service-day windows and precision.'' EDITION)
        \<lparr>cap_delegable := True,
          cap_sensitivity_ceiling := C3_RESTRICTED,
          cap_obligations := [''reason'', ''audit'']\<rparr>,
      (CAPABILITY ''scheduling.manage_occurrences''
        ''Create, group and retire Programme occurrences without reserving rooms.'' EDITION)
        \<lparr>cap_delegable := True,
          cap_sensitivity_ceiling := C3_RESTRICTED,
          cap_obligations := [''reason'', ''audit'']\<rparr>,
      (CAPABILITY ''scheduling.manage_candidates''
        ''Manage private timetable alternatives without approval or publication.'' EDITION)
        \<lparr>cap_delegable := True,
          cap_sensitivity_ceiling := C3_RESTRICTED,
          cap_obligations := [''audit'']\<rparr>,
      (CAPABILITY ''scheduling.evaluate_candidates''
        ''Record candidate conflicts through independently authorized owner sources.'' EDITION)
        \<lparr>cap_delegable := True,
          cap_sensitivity_ceiling := C3_RESTRICTED,
          cap_obligations := [''audit'']\<rparr>,
      (CAPABILITY ''scheduling.acknowledge_warnings''
        ''Acknowledge one current warning, never a hard constraint.'' EDITION)
        \<lparr>cap_delegable := True,
          cap_sensitivity_ceiling := C3_RESTRICTED,
          cap_obligations := [''reason'', ''audit'']\<rparr>,
      (CAPABILITY ''scheduling.manage_reservations''
        ''Request occurrence reservations with independent exact-space authority.'' EDITION)
        \<lparr>cap_delegable := True,
          cap_sensitivity_ceiling := C3_RESTRICTED,
          cap_obligations := [''reason'', ''audit'']\<rparr>,
      (CAPABILITY ''scheduling.acknowledge_release_warnings''
        ''Acknowledge one exact current release warning with a reason.'' EDITION)
        \<lparr>cap_delegable := True,
          cap_sensitivity_ceiling := C3_RESTRICTED,
          cap_obligations := [''reason'', ''audit'']\<rparr>,
      (CAPABILITY ''scheduling.approve_release''
        ''Independently approve a complete exact timetable release snapshot.'' EDITION)
        \<lparr>cap_delegable := True,
          cap_sensitivity_ceiling := C3_RESTRICTED,
          cap_obligations := [''reason'', ''audit'']\<rparr>,
      (CAPABILITY ''scheduling.publish_release''
        ''Publish one independently approved exact Programme timetable.'' EDITION)
        \<lparr>cap_delegable := True,
          cap_sensitivity_ceiling := C3_RESTRICTED,
          cap_obligations := [''reason'', ''audit'']\<rparr>,
      (CAPABILITY ''scheduling.withdraw_release''
        ''Withdraw the active Programme release with an accountable reason.'' EDITION)
        \<lparr>cap_delegable := True,
          cap_sensitivity_ceiling := C3_RESTRICTED,
          cap_obligations := [''reason'', ''audit'']\<rparr>,
      (CAPABILITY ''programme.view_hosts''
        ''View the exact Programme roster and deliberately shared host availability.'' EDITION)
        \<lparr>cap_delegable := True,
          cap_sensitivity_ceiling := C3_RESTRICTED,
          cap_field_ceiling := [''host_roster'', ''host_history'', ''shared_host_availability''],
          cap_obligations := [''audit_sensitive_read'']\<rparr>,
      (CAPABILITY ''programme.view_host_self''
        (''View one'' @ [CHR 0x27] @ ''s own exact Programme invitation, response and host availability.'') RESOURCE)
        \<lparr>cap_persistable := False,
          cap_allow_self := True,
          cap_sensitivity_ceiling := C3_RESTRICTED,
          cap_field_ceiling := [''own_host_relationship'', ''own_host_invitation'', ''own_host_availability''],
          cap_obligations := [''audit_sensitive_read'']\<rparr>,
      (CAPABILITY ''programme.respond_host_self''
        (''Confirm, decline or withdraw one'' @ [CHR 0x27] @ ''s own exact Programme hosting relationship.'') RESOURCE)
        \<lparr>cap_persistable := False,
          cap_allow_self := True,
          cap_sensitivity_ceiling := C3_RESTRICTED,
          cap_obligations := [''audit'']\<rparr>,
      (CAPABILITY ''programme.manage_host_availability_self''
        (''Save, share or withdraw one'' @ [CHR 0x27] @ ''s own exact-item host availability.'') RESOURCE)
        \<lparr>cap_persistable := False,
          cap_allow_self := True,
          cap_sensitivity_ceiling := C3_RESTRICTED,
          cap_obligations := [''audit'']\<rparr>]"

definition CAPABILITY_DEFINITIONS_12 :: "Capability list" where
  "CAPABILITY_DEFINITIONS_12 =
     [(CAPABILITY ''programme.view_private''
        ''View private working information for Programme items in one edition.'' EDITION)
        \<lparr>cap_delegable := True,
          cap_sensitivity_ceiling := C3_RESTRICTED,
          cap_field_ceiling := [''item_summaries'', ''working_information'', ''working_history'', ''public_copy_review_history''],
          cap_obligations := [''audit_sensitive_read'']\<rparr>,
      (CAPABILITY ''programme.export_archive''
        ''Request a restricted Programme exit archive and inspect its declared lineage with independent source permissions.'' EDITION)
        \<lparr>cap_delegable := True,
          cap_sensitivity_ceiling := C3_RESTRICTED,
          cap_field_ceiling := [''archive_requests'', ''source_lineage''],
          cap_obligations := [''reason'', ''audit'', ''audit_sensitive_read'']\<rparr>,
      (CAPABILITY ''programme.manage_items''
        ''Create and revise private Programme items and Department discussion.'' EDITION)
        \<lparr>cap_delegable := True,
          cap_sensitivity_ceiling := C3_RESTRICTED,
          cap_obligations := [''reason'', ''audit'']\<rparr>,
      (CAPABILITY ''programme.view_readiness''
        ''View evidence-backed Programme readiness for one edition.'' EDITION)
        \<lparr>cap_delegable := True,
          cap_sensitivity_ceiling := C3_RESTRICTED,
          cap_field_ceiling := [''readiness_summary'', ''readiness_history''],
          cap_obligations := [''audit_sensitive_read'']\<rparr>,
      (CAPABILITY ''programme.manage_readiness''
        ''Configure and evidence Programme readiness for one edition.'' EDITION)
        \<lparr>cap_delegable := True,
          cap_sensitivity_ceiling := C3_RESTRICTED,
          cap_obligations := [''reason'', ''audit'']\<rparr>,
      (CAPABILITY ''programme.view_delivery''
        ''View technical, accessibility-delivery, and media-consent Programme facts.'' EDITION)
        \<lparr>cap_delegable := True,
          cap_sensitivity_ceiling := C3_RESTRICTED,
          cap_field_ceiling := [''delivery_information'', ''delivery_history'', ''placement_decisions''],
          cap_obligations := [''audit_sensitive_read'']\<rparr>,
      (CAPABILITY ''programme.manage_delivery''
        ''Revise bounded Programme delivery information for one edition.'' EDITION)
        \<lparr>cap_delegable := True,
          cap_sensitivity_ceiling := C3_RESTRICTED,
          cap_obligations := [''reason'', ''audit'']\<rparr>,
      (CAPABILITY ''programme.view_discussion''
        ''View retained Programme Department discussion for one edition.'' EDITION)
        \<lparr>cap_delegable := True,
          cap_sensitivity_ceiling := C3_RESTRICTED,
          cap_field_ceiling := [''discussion_entries''],
          cap_obligations := [''audit_sensitive_read'']\<rparr>,
      (CAPABILITY ''programme.view_public_copy''
        ''View approved Programme public-copy renditions for one edition.'' EDITION)
        \<lparr>cap_delegable := True,
          cap_field_ceiling := [''latest_public_rendition'', ''release_copy_consequences'']\<rparr>,
      (CAPABILITY ''programme.approve_public_copy''
        ''Approve an immutable Programme public-copy rendition.'' EDITION)
        \<lparr>cap_sensitivity_ceiling := C3_RESTRICTED,
          cap_obligations := [''reason'', ''audit'']\<rparr>,
      (CAPABILITY ''workforce.view_structure''
        ''View edition departments, positions, reporting lines, minimized holder labels, and application status.'' EDITION)
        \<lparr>cap_delegable := True,
          cap_field_ceiling := [''structure_control'', ''departments'', ''positions'', ''opportunities'', ''assignment_counts'',
           ''holder_display_labels'']\<rparr>,
      (CAPABILITY ''workforce.manage_structure''
        ''Create edition departments, positions, requirements, and application publication settings.'' EDITION)
        \<lparr>cap_obligations := [''reason'', ''audit'']\<rparr>,
      (CAPABILITY ''workforce.manage_applications''
        ''Review volunteer applications within one edition.'' EDITION)
        \<lparr>cap_delegable := True,
          cap_sensitivity_ceiling := C2_PERSONAL,
          cap_obligations := [''reason'', ''audit'', ''audit_sensitive_read'']\<rparr>]"

definition CAPABILITY_DEFINITIONS_13 :: "Capability list" where
  "CAPABILITY_DEFINITIONS_13 =
     [(CAPABILITY ''workforce.manage_documents''
        ''Request and review private onboarding agreement evidence for one edition.'' EDITION)
        \<lparr>cap_sensitivity_ceiling := C3_RESTRICTED,
          cap_obligations := [''reason'', ''audit'', ''audit_sensitive_read'']\<rparr>,
      (CAPABILITY ''workforce.manage_assignments''
        ''Activate or end edition positions after prerequisites and independent approval.'' EDITION)
        \<lparr>cap_sensitivity_ceiling := C3_RESTRICTED,
          cap_obligations := [''reason'', ''audit'', ''approval'']\<rparr>,
      (CAPABILITY ''workforce.view_availability''
        ''View deliberately shared current availability for people with open assignments in one edition.'' EDITION)
        \<lparr>cap_delegable := True,
          cap_sensitivity_ceiling := C2_PERSONAL,
          cap_field_ceiling := [''availability_consequences'', ''availability_windows'', ''holder_display_labels''],
          cap_obligations := [''audit_sensitive_read'']\<rparr>,
      (CAPABILITY ''workforce.view_shifts''
        ''View edition Shift demand, coverage state, holder labels, and current suitability consequences.'' EDITION)
        \<lparr>cap_delegable := True,
          cap_sensitivity_ceiling := C2_PERSONAL,
          cap_field_ceiling := [''shift_demands'', ''coverage_states'', ''holder_display_labels'', ''suitability_consequences'',
           ''programme_release_consequences'', ''release_dependency_references''],
          cap_obligations := [''audit_sensitive_read'']\<rparr>,
      (CAPABILITY ''workforce.manage_shifts''
        ''Plan edition Shift demand and confirm, remove, lock, cancel, or complete retained coverage.'' EDITION)
        \<lparr>cap_delegable := True,
          cap_sensitivity_ceiling := C3_RESTRICTED,
          cap_obligations := [''reason'', ''audit'']\<rparr>,
      (CAPABILITY ''workforce.view_self''
        (''View one'' @ [CHR 0x27] @ ''s own applications, requested documents, positions, and availability or Shift commitments.'') RESOURCE)
        \<lparr>cap_persistable := False,
          cap_allow_self := True,
          cap_sensitivity_ceiling := C3_RESTRICTED,
          cap_field_ceiling := [''applications'', ''document_requests'', ''assignments'', ''availability'', ''shifts'']\<rparr>,
      (CAPABILITY ''workforce.manage_self_availability''
        (''Save, share, replace, or withdraw one'' @ [CHR 0x27] @ ''s own edition availability.'') RESOURCE)
        \<lparr>cap_persistable := False,
          cap_allow_self := True,
          cap_sensitivity_ceiling := C2_PERSONAL,
          cap_field_ceiling := [''availability''],
          cap_obligations := [''audit'']\<rparr>,
      (CAPABILITY ''workforce.manage_self_shifts''
        (''Claim or withdraw one'' @ [CHR 0x27] @ ''s own suitable edition Shift work.'') RESOURCE)
        \<lparr>cap_persistable := False,
          cap_allow_self := True,
          cap_sensitivity_ceiling := C2_PERSONAL,
          cap_field_ceiling := [''shifts''],
          cap_obligations := [''audit'']\<rparr>,
      (CAPABILITY ''workforce.apply_self''
        ''Apply to a published edition volunteer opportunity.'' RESOURCE)
        \<lparr>cap_persistable := False,
          cap_allow_self := True,
          cap_sensitivity_ceiling := C2_PERSONAL,
          cap_obligations := [''audit'']\<rparr>,
      (CAPABILITY ''announcements.view''
        ''Read announcements and approved publishing copy.'' EDITION)
        \<lparr>cap_field_ceiling := [''announcement'', ''approved_copy'', ''history''],
          cap_sensitivity_ceiling := C2_PERSONAL,
          cap_delegable := True,
          cap_obligations := [''audit'']\<rparr>,
      (CAPABILITY ''announcements.compose''
        ''Write announcements and prepare corrections.'' EDITION)
        \<lparr>cap_field_ceiling := [''announcement''],
          cap_sensitivity_ceiling := C2_PERSONAL,
          cap_delegable := True,
          cap_obligations := [''audit'']\<rparr>]"

definition CAPABILITY_DEFINITIONS_14 :: "Capability list" where
  "CAPABILITY_DEFINITIONS_14 =
     [(CAPABILITY ''announcements.review''
        ''Independently review exact announcement copy.'' EDITION)
        \<lparr>cap_field_ceiling := [''announcement'', ''review''],
          cap_sensitivity_ceiling := C2_PERSONAL,
          cap_delegable := True,
          cap_obligations := [''audit'']\<rparr>,
      (CAPABILITY ''announcements.record_publication''
        ''Record an operator report of external publication.'' EDITION)
        \<lparr>cap_field_ceiling := [''publication''],
          cap_sensitivity_ceiling := C2_PERSONAL,
          cap_delegable := True,
          cap_obligations := [''audit'']\<rparr>,
      (CAPABILITY ''announcements.manage_settings''
        ''Confirm announcement channel and record-keeping settings.'' EDITION)
        \<lparr>cap_field_ceiling := [''settings''],
          cap_sensitivity_ceiling := C2_PERSONAL,
          cap_delegable := True,
          cap_obligations := [''audit'']\<rparr>,
      (CAPABILITY ''announcements.export_evidence''
        ''Export privileged announcement handover evidence.'' EDITION)
        \<lparr>cap_field_ceiling := [''evidence''],
          cap_sensitivity_ceiling := C2_PERSONAL,
          cap_delegable := True,
          cap_obligations := [''audit'']\<rparr>,
      (CAPABILITY ''knowledge.view_current''
        ''Read current approved internal guidance.'' EDITION)
        \<lparr>cap_field_ceiling := [''current_summary'', ''current_copy''],
          cap_sensitivity_ceiling := C3_RESTRICTED,
          cap_obligations := [''audit'']\<rparr>,
      (CAPABILITY ''knowledge.view_working''
        ''Read Guidance drafts and private review history.'' EDITION)
        \<lparr>cap_field_ceiling := [''draft'', ''review_notes'', ''history''],
          cap_sensitivity_ceiling := C3_RESTRICTED,
          cap_obligations := [''audit'']\<rparr>,
      (CAPABILITY ''knowledge.compose''
        ''Write and revise internal guidance.'' EDITION)
        \<lparr>cap_field_ceiling := [''draft''],
          cap_sensitivity_ceiling := C3_RESTRICTED,
          cap_obligations := [''audit'']\<rparr>,
      (CAPABILITY ''knowledge.review''
        ''Independently review exact Guidance versions.'' EDITION)
        \<lparr>cap_field_ceiling := [''review''],
          cap_sensitivity_ceiling := C3_RESTRICTED,
          cap_obligations := [''audit'']\<rparr>,
      (CAPABILITY ''knowledge.withdraw''
        ''Withdraw approved Guidance from current availability.'' EDITION)
        \<lparr>cap_field_ceiling := [''availability''],
          cap_sensitivity_ceiling := C3_RESTRICTED,
          cap_obligations := [''audit'']\<rparr>,
      (CAPABILITY ''knowledge.manage_settings''
        ''Confirm Guidance collection and retention settings.'' EDITION)
        \<lparr>cap_field_ceiling := [''settings''],
          cap_sensitivity_ceiling := C3_RESTRICTED,
          cap_obligations := [''audit'']\<rparr>,
      (CAPABILITY ''knowledge.export_evidence''
        ''Download private Guidance handover evidence.'' EDITION)
        \<lparr>cap_field_ceiling := [''evidence''],
          cap_sensitivity_ceiling := C3_RESTRICTED,
          cap_obligations := [''audit'']\<rparr>,
      (CAPABILITY ''authorization.manage_guidance_access''
        ''Manage independently approved Guidance access in one edition.'' EDITION)
        \<lparr>cap_field_ceiling := [''guidance_access''],
          cap_sensitivity_ceiling := C4_SECURITY_CRITICAL,
          cap_obligations := [''reason'', ''audit'']\<rparr>]"

definition CAPABILITY_DEFINITIONS :: "Capability list" where
  "CAPABILITY_DEFINITIONS =
     CAPABILITY_DEFINITIONS_1 @ CAPABILITY_DEFINITIONS_2 @ CAPABILITY_DEFINITIONS_3 @ CAPABILITY_DEFINITIONS_4 @ CAPABILITY_DEFINITIONS_5 @ CAPABILITY_DEFINITIONS_6
       @ CAPABILITY_DEFINITIONS_7 @ CAPABILITY_DEFINITIONS_8 @ CAPABILITY_DEFINITIONS_9 @ CAPABILITY_DEFINITIONS_10 @ CAPABILITY_DEFINITIONS_11 @ CAPABILITY_DEFINITIONS_12 @ CAPABILITY_DEFINITIONS_13 @ CAPABILITY_DEFINITIONS_14"

definition capability :: "string \<Rightarrow> Capability option" where
  "capability code = find (\<lambda>c. cap_code c = code) CAPABILITY_DEFINITIONS"

text \<open>The same lookup, one part of the catalogue after the other, so that evaluation stops at the part that has the code.\<close>

lemma capability_by_parts [code]: "capability code =
  (case find (\<lambda>c. cap_code c = code) CAPABILITY_DEFINITIONS_1 of Some d \<Rightarrow> Some d
      | None \<Rightarrow> (case find (\<lambda>c. cap_code c = code) CAPABILITY_DEFINITIONS_2 of Some d \<Rightarrow> Some d
      | None \<Rightarrow> (case find (\<lambda>c. cap_code c = code) CAPABILITY_DEFINITIONS_3 of Some d \<Rightarrow> Some d
      | None \<Rightarrow> (case find (\<lambda>c. cap_code c = code) CAPABILITY_DEFINITIONS_4 of Some d \<Rightarrow> Some d
      | None \<Rightarrow> (case find (\<lambda>c. cap_code c = code) CAPABILITY_DEFINITIONS_5 of Some d \<Rightarrow> Some d
      | None \<Rightarrow> (case find (\<lambda>c. cap_code c = code) CAPABILITY_DEFINITIONS_6 of Some d \<Rightarrow> Some d
      | None \<Rightarrow> (case find (\<lambda>c. cap_code c = code) CAPABILITY_DEFINITIONS_7 of Some d \<Rightarrow> Some d
      | None \<Rightarrow> (case find (\<lambda>c. cap_code c = code) CAPABILITY_DEFINITIONS_8 of Some d \<Rightarrow> Some d
      | None \<Rightarrow> (case find (\<lambda>c. cap_code c = code) CAPABILITY_DEFINITIONS_9 of Some d \<Rightarrow> Some d
      | None \<Rightarrow> (case find (\<lambda>c. cap_code c = code) CAPABILITY_DEFINITIONS_10 of Some d \<Rightarrow> Some d
      | None \<Rightarrow> (case find (\<lambda>c. cap_code c = code) CAPABILITY_DEFINITIONS_11 of Some d \<Rightarrow> Some d
      | None \<Rightarrow> (case find (\<lambda>c. cap_code c = code) CAPABILITY_DEFINITIONS_12 of Some d \<Rightarrow> Some d
      | None \<Rightarrow> (case find (\<lambda>c. cap_code c = code) CAPABILITY_DEFINITIONS_13 of Some d \<Rightarrow> Some d
      | None \<Rightarrow> find (\<lambda>c. cap_code c = code) CAPABILITY_DEFINITIONS_14)))))))))))))"
  by (simp only: capability_def CAPABILITY_DEFINITIONS_def find_append)

definition require_capability :: "string \<Rightarrow> string + Capability" where
  "require_capability code =
     (case capability code of None \<Rightarrow> Inl (''Unknown capability: '' @ code) | Some c \<Rightarrow> Inr c)"

section \<open>Guidance\<close>

definition GUIDANCE_CONTROL_CAPABILITY :: string where
  "GUIDANCE_CONTROL_CAPABILITY = ''authorization.manage_guidance_access''"

definition GUIDANCE_CONTENT_CAPABILITIES :: "string list" where
  "GUIDANCE_CONTENT_CAPABILITIES =
     [''knowledge.view_current'', ''knowledge.view_working'', ''knowledge.compose'', ''knowledge.review'',
      ''knowledge.withdraw'', ''knowledge.manage_settings'', ''knowledge.export_evidence'']"

definition GUIDANCE_PROTECTED_CAPABILITIES :: "string list" where
  "GUIDANCE_PROTECTED_CAPABILITIES = GUIDANCE_CONTENT_CAPABILITIES @ [GUIDANCE_CONTROL_CAPABILITY]"

definition GUIDANCE_BOOTSTRAP_CAPABILITY :: string where
  "GUIDANCE_BOOTSTRAP_CAPABILITY = ''organizations.manage_representation''"

definition GUIDANCE_CONTROLLER_ROLE_CODE :: string where
  "GUIDANCE_CONTROLLER_ROLE_CODE = ''guidance-access-controller''"

definition GUIDANCE_OPERATOR_ROLE_CODE :: string where
  "GUIDANCE_OPERATOR_ROLE_CODE = ''guidance-operator''"

record GuidanceRoleRecipe =
  gq_code :: string
  gq_name :: string
  gq_capability_codes :: "string list"
  gq_version :: int

definition guidance_recipe :: "string \<Rightarrow> string \<Rightarrow> string list \<Rightarrow> string \<times> GuidanceRoleRecipe" where
  "guidance_recipe code name codes =
     (code, \<lparr>gq_code = code, gq_name = name, gq_capability_codes = codes, gq_version = 1\<rparr>)"

definition GUIDANCE_ROLE_RECIPES :: "(string \<times> GuidanceRoleRecipe) list" where
  "GUIDANCE_ROLE_RECIPES =
     [guidance_recipe ''guidance-access-controller'' ''Manage Guidance access'' [GUIDANCE_CONTROL_CAPABILITY],
      guidance_recipe ''guidance-operator'' ''Guidance operator'' GUIDANCE_CONTENT_CAPABILITIES,
      guidance_recipe ''guidance-reader'' ''Read approved Guidance'' [''knowledge.view_current''],
      guidance_recipe ''guidance-editor'' ''Write Guidance''
        [''knowledge.view_current'', ''knowledge.view_working'', ''knowledge.compose''],
      guidance_recipe ''guidance-reviewer'' ''Review Guidance''
        [''knowledge.view_current'', ''knowledge.view_working'', ''knowledge.review'']]"

section \<open>Representations\<close>

record RepresentationDefinition =
  rd_code :: string
  rd_name :: string
  rd_controller_label :: string
  rd_membership_label :: string
  rd_role_code :: string
  rd_role_name :: string
  rd_role_version :: int
  rd_capability_codes :: "string list"
  rd_purpose :: string

definition EXECUTIVE_BOARD_CAPABILITIES :: "string list" where
  "EXECUTIVE_BOARD_CAPABILITIES =
     [''organizations.view_basic'', ''organizations.change_profile'', ''organizations.create_series'',
      ''organizations.change_series'', ''organizations.manage_representation'', ''events.view_basic'',
      ''events.create'', ''authorization.delegate'', ''authorization.grant_direct'',
      ''authorization.revoke'', ''authorization.manage_roles'', ''audit.view_security'']"

definition MARU_OPERATOR_CAPABILITIES :: "string list" where
  "MARU_OPERATOR_CAPABILITIES =
     EXECUTIVE_BOARD_CAPABILITIES @
     [''events.change_profile'', ''events.transition'', ''workforce.view_structure'',
      ''workforce.manage_structure'', ''workforce.manage_applications'', ''workforce.manage_documents'',
      ''workforce.manage_assignments'', ''workforce.view_availability'', ''workforce.view_shifts'',
      ''workforce.manage_shifts'']"

definition ANNOUNCEMENTS_OPERATOR_CAPABILITIES :: "string list" where
  "ANNOUNCEMENTS_OPERATOR_CAPABILITIES =
     [''organizations.view_basic'', ''organizations.change_profile'', ''organizations.create_series'',
      ''organizations.change_series'', ''organizations.manage_representation'', ''events.view_basic'',
      ''events.create'', ''authorization.delegate'', ''authorization.grant_direct'',
      ''authorization.revoke'', ''authorization.manage_roles'', ''audit.view_security'',
      ''events.change_profile'', ''events.transition'', ''announcements.view'', ''announcements.compose'',
      ''announcements.review'', ''announcements.record_publication'', ''announcements.manage_settings'',
      ''announcements.export_evidence'']"

definition WORKSPACE_OPERATOR_CAPABILITIES :: "string list" where
  "WORKSPACE_OPERATOR_CAPABILITIES =
     [''organizations.view_basic'', ''organizations.change_profile'', ''organizations.create_series'',
      ''organizations.change_series'', ''organizations.manage_representation'', ''events.view_basic'',
      ''events.create'', ''events.change_profile'', ''events.transition'', ''audit.view_security'']"

definition EXECUTIVE_BOARD :: RepresentationDefinition where
  "EXECUTIVE_BOARD = \<lparr>rd_code = ''executive_board'',
     rd_name = ''Executive Board'',
     rd_controller_label = ''Executive Board controller'',
     rd_membership_label = ''Executive Board controller'',
     rd_role_code = ''executive-board'',
     rd_role_name = ''Executive Board'',
     rd_role_version = 1,
     rd_capability_codes = EXECUTIVE_BOARD_CAPABILITIES,
     rd_purpose = (''Represents the organization'' @ [CHR 0x27] @ ''s real accountable Executive Board and controls delegated Maru authority.'')\<rparr>"

definition MARU_OPERATORS :: RepresentationDefinition where
  "MARU_OPERATORS = \<lparr>rd_code = ''maru_operators'',
     rd_name = ''Maru operators'',
     rd_controller_label = ''Maru operator'',
     rd_membership_label = ''Maru operator'',
     rd_role_code = ''maru-operators'',
     rd_role_name = ''Maru operators'',
     rd_role_version = 1,
     rd_capability_codes = MARU_OPERATOR_CAPABILITIES,
     rd_purpose = ''Identifies the people accountable for operating Maru and Workforce. It does not claim that they hold a legal or constitutional office in the organization.''\<rparr>"

definition ANNOUNCEMENTS_OPERATORS :: RepresentationDefinition where
  "ANNOUNCEMENTS_OPERATORS = \<lparr>rd_code = ''announcements_operators'',
     rd_name = ''Announcements operators'',
     rd_controller_label = ''Announcements operator'',
     rd_membership_label = ''Announcements operator'',
     rd_role_code = ''announcements-operators'',
     rd_role_name = ''Announcements operators'',
     rd_role_version = 1,
     rd_capability_codes = ANNOUNCEMENTS_OPERATOR_CAPABILITIES,
     rd_purpose = (''Identifies the people accountable for operating Maru'' @ [CHR 0x27] @ ''s Announcements workflow. It does not claim a legal or executive office or authority over other convention tools.'')\<rparr>"

definition WORKSPACE_OPERATORS :: RepresentationDefinition where
  "WORKSPACE_OPERATORS = \<lparr>rd_code = ''workspace_operators'',
     rd_name = ''Workspace operators'',
     rd_controller_label = ''Workspace operator'',
     rd_membership_label = ''Workspace operator'',
     rd_role_code = ''workspace-operators'',
     rd_role_name = ''Workspace operators'',
     rd_role_version = 1,
     rd_capability_codes = WORKSPACE_OPERATOR_CAPABILITIES,
     rd_purpose = ''Identifies the people responsible for the shared Maru workspace. Workflow access requires separately accepted edition responsibilities; this does not claim an executive office or grant content access.''\<rparr>"

definition REPRESENTATION_DEFINITIONS :: "RepresentationDefinition list" where
  "REPRESENTATION_DEFINITIONS = [EXECUTIVE_BOARD, MARU_OPERATORS, ANNOUNCEMENTS_OPERATORS, WORKSPACE_OPERATORS]"

definition representation_definition :: "string \<Rightarrow> RepresentationDefinition option" where
  "representation_definition code = find (\<lambda>d. rd_code d = code) REPRESENTATION_DEFINITIONS"

definition representation_definition_for_role :: "string \<Rightarrow> RepresentationDefinition option" where
  "representation_definition_for_role role_code =
     find (\<lambda>d. rd_role_code d = role_code) REPRESENTATION_DEFINITIONS"

end
