(* ===== verification/Authority_Store.thy ===== *)
theory Authority_Store
  imports Authority_Catalog
begin

text \<open>
  The rows that decide who may do what: accounts, the tenant chain (organization, edition, department,
  typed resource binding), grants, role bundles and assignments, their issuances and controls, the
  representation of an organization, and the retained evidence of Guidance access. They are the models
  of \<open>src/src/maru/authorization/models.py\<close>, \<open>guidance_authority_models.py\<close>,
  \<open>src/src/maru/organizations/models.py\<close> and \<open>src/src/maru/identity/models.py\<close>, with the columns that
  authorization reads. A table is the list of its rows in its default order; \<open>.first()\<close> of a query is
  \<open>find\<close>. The theory ends with the targets of a decision, which only the resolvers of
  \<open>src/src/maru/authorization/policy.py\<close> can seal.
\<close>

section \<open>People and tenants\<close>

datatype AccountKind = PERSON | PLATFORM_ADMINISTRATOR

record Account =
  ac_id :: uuid
  ac_account_kind :: AccountKind
  ac_is_active :: bool
  ac_email_verified_at :: "instant option"

definition is_platform_administrator :: "Account \<Rightarrow> bool" where
  "is_platform_administrator a \<longleftrightarrow> ac_account_kind a = PLATFORM_ADMINISTRATOR"

definition has_verified_email :: "Account \<Rightarrow> bool" where
  "has_verified_email a \<longleftrightarrow> ac_email_verified_at a \<noteq> None"

datatype OrganizationLifecycle = ORG_DRAFT | ORG_ACTIVE | ORG_SUSPENDED | ORG_CLOSED

record Organization =
  og_id :: uuid
  og_lifecycle :: OrganizationLifecycle

text \<open>An edition with the organization of its series joined.\<close>

record EventEdition =
  ed_id :: uuid
  ed_organization_id :: uuid
  ed_series_organization_id :: uuid
  ed_adoption_profile_code :: string
  ed_adoption_profile_version :: int

record Department =
  dp_id :: uuid
  dp_organization_id :: uuid
  dp_edition_id :: uuid
  dp_retired_at :: "instant option"

datatype ResourceKind = WORKFORCE_POSITION | CHARITY_SELECTION | VENUE_EDITION_SPACE | LOGISTICS_MANIFEST

record ScopedResourceBinding =
  rb_id :: uuid
  rb_organization_id :: uuid
  rb_edition_id :: uuid
  rb_department_id :: uuid
  rb_resource_kind :: ResourceKind
  rb_resource_id :: uuid

text \<open>
  What a binding may point to: a position, a charity selection, an edition space or a logistics
  manifest, each with the department that is responsible for it.
\<close>

record bound_resource =
  br_kind :: ResourceKind
  br_id :: uuid
  br_organization_id :: uuid
  br_edition_id :: uuid
  br_department_id :: uuid

section \<open>Authority\<close>

text \<open>The columns that grants and role assignments share.\<close>

record authority_row =
  aw_id :: uuid
  aw_organization_id :: uuid
  aw_edition_id :: "uuid option"
  aw_department_id :: "uuid option"
  aw_resource_binding_id :: "uuid option"
  aw_principal_id :: uuid
  aw_effective_from :: instant
  aw_expires_at :: "instant option"
  aw_revoked_at :: "instant option"
  aw_granted_by_id :: uuid
  aw_approved_by_id :: "uuid option"
  aw_reason :: string

record CapabilityGrant = authority_row +
  cg_capability_code :: string
  cg_delegated_from_id :: "uuid option"

record RoleBundle =
  bn_id :: uuid
  bn_organization_id :: uuid
  bn_code :: string
  bn_name :: string
  bn_version :: int
  bn_capability_codes :: "string list"
  bn_created_by_id :: "uuid option"
  bn_approved_by_id :: "uuid option"
  bn_reason :: string

record RoleAssignment = authority_row +
  ra_role_bundle_id :: uuid

record AuthorityIssuance =
  is_ordinal :: int
  is_policy_version :: string
  is_evaluated_at :: instant
  is_capability_grant_id :: "uuid option"
  is_role_bundle_id :: "uuid option"
  is_role_assignment_id :: "uuid option"

datatype ControlRole = ACTOR | APPROVER

datatype ControlBasis = PERSISTENT_AUTHORITY | PLATFORM_REPRESENTATION_BOOTSTRAP | REPRESENTATION_ACCEPTANCE

record AuthorityControl =
  ct_issuance_id :: int
  ct_role :: ControlRole
  ct_principal_id :: uuid
  ct_basis :: ControlBasis
  ct_source_issuance_id :: "int option"
  ct_representation_id :: "uuid option"
  ct_appointment_id :: "uuid option"
  ct_policy_version :: string
  ct_evaluated_at :: instant

section \<open>Representation of an organization\<close>

datatype RepresentationState = REP_PROVISIONING | REP_ACTIVE | REP_SUSPENDED

record OrganizationRepresentation =
  rp_id :: uuid
  rp_organization_id :: uuid
  rp_code :: string
  rp_name :: string
  rp_state :: RepresentationState
  rp_activated_by_id :: "uuid option"
  rp_activated_at :: "instant option"
  rp_activation_reason :: string

datatype AppointmentState = APP_INVITED | APP_ACCEPTED | APP_ACTIVE | APP_DECLINED | APP_ENDED

datatype AppointmentRole = CONTROLLER

record RepresentationAppointment =
  pt_id :: uuid
  pt_representation_id :: uuid
  pt_account_id :: uuid
  pt_role :: AppointmentRole
  pt_state :: AppointmentState
  pt_responded_at :: "instant option"
  pt_activated_at :: "instant option"
  pt_ended_at :: "instant option"
  pt_role_assignment_id :: "uuid option"

datatype MembershipState = MEM_INVITED | MEM_ACTIVE | MEM_SUSPENDED | MEM_ENDED

record OrganizationMembership =
  mb_organization_id :: uuid
  mb_account_id :: uuid
  mb_state :: MembershipState
  mb_relationship_label :: string
  mb_started_at :: "instant option"
  mb_ended_at :: "instant option"

section \<open>Retained Guidance evidence\<close>

record GuidanceAuthoritySetupReceipt =
  gs_id :: uuid
  gs_activation_id :: uuid
  gs_team_organization_id :: uuid
  gs_team_edition_id :: uuid
  gs_root_a_id :: int
  gs_root_b_id :: int
  gs_controller_a_id :: uuid
  gs_controller_b_id :: uuid
  gs_content_a_id :: uuid
  gs_content_b_id :: uuid

record GuidanceRecipeQualification =
  gp_setup_id :: uuid
  gp_role_bundle_id :: uuid

record GuidanceAccessRequest =
  gx_organization_id :: uuid
  gx_edition_id :: uuid
  gx_requested_by_id :: uuid
  gx_approver_id :: uuid
  gx_recipient_id :: uuid
  gx_role_bundle_id :: uuid
  gx_actor_source_id :: int
  gx_approver_source_id :: int
  gx_effective_from :: instant
  gx_expires_at :: "instant option"
  gx_decision_deadline :: instant
  gx_request_digest :: string
  gx_reason :: string

text \<open>A decision with its request joined.\<close>

record GuidanceAccessDecision =
  gd_request :: GuidanceAccessRequest
  gd_actor_id :: uuid
  gd_accepted :: bool
  gd_request_digest :: string
  gd_assignment_id :: "uuid option"
  gd_created_at :: instant

text \<open>
  \<open>GuidanceActivationQualification\<close> of \<open>events/guidance_activation_references.py\<close>: the accepted
  activation that a setup rests on. The lookup itself belongs to Events and is a column of the state.
\<close>

record GuidanceActivationQualification =
  ga_organization_id :: uuid
  ga_edition_id :: uuid
  ga_operator_a_id :: uuid
  ga_operator_b_id :: uuid

text \<open>The request that an activation receipt answers, as \<open>events/guidance_activation_models.py\<close> stores it.\<close>

record GuidanceActivationRequest =
  gn_organization_id :: uuid
  gn_edition_id :: uuid
  gn_operator_a_id :: uuid
  gn_operator_b_id :: uuid

section \<open>State\<close>

record authority_db =
  db_accounts :: "Account list"
  db_organizations :: "Organization list"
  db_editions :: "EventEdition list"
  db_departments :: "Department list"
  db_bindings :: "ScopedResourceBinding list"
  db_resources :: "bound_resource list"
  db_grants :: "CapabilityGrant list"
  db_bundles :: "RoleBundle list"
  db_assignments :: "RoleAssignment list"
  db_issuances :: "AuthorityIssuance list"
  db_controls :: "AuthorityControl list"
  db_representations :: "OrganizationRepresentation list"
  db_appointments :: "RepresentationAppointment list"
  db_memberships :: "OrganizationMembership list"
  db_guidance_setups :: "GuidanceAuthoritySetupReceipt list"
  db_guidance_recipes :: "GuidanceRecipeQualification list"
  db_guidance_decisions :: "GuidanceAccessDecision list"
  db_guidance_activation :: "uuid \<Rightarrow> GuidanceActivationQualification option"
  db_guidance_plans :: "uuid \<Rightarrow> GuidanceActivationRequest option"
  db_latch_generation :: "int option"
  db_activation_marker :: "(string \<times> string) option"

definition empty_authority :: authority_db where
  "empty_authority = \<lparr>db_accounts = [], db_organizations = [], db_editions = [], db_departments = [],
     db_bindings = [], db_resources = [], db_grants = [], db_bundles = [], db_assignments = [],
     db_issuances = [], db_controls = [], db_representations = [], db_appointments = [],
     db_memberships = [], db_guidance_setups = [], db_guidance_recipes = [], db_guidance_decisions = [],
     db_guidance_activation = (\<lambda>_. None), db_guidance_plans = (\<lambda>_. None),
     db_latch_generation = None, db_activation_marker = None\<rparr>"

text \<open>The row with a primary key.\<close>

definition find_account :: "authority_db \<Rightarrow> uuid \<Rightarrow> Account option" where
  "find_account db i = find (\<lambda>a. ac_id a = i) (db_accounts db)"

definition find_grant :: "authority_db \<Rightarrow> uuid \<Rightarrow> CapabilityGrant option" where
  "find_grant db i = find (\<lambda>g. aw_id g = i) (db_grants db)"

definition find_bundle :: "authority_db \<Rightarrow> uuid \<Rightarrow> RoleBundle option" where
  "find_bundle db i = find (\<lambda>b. bn_id b = i) (db_bundles db)"

definition find_issuance :: "authority_db \<Rightarrow> int \<Rightarrow> AuthorityIssuance option" where
  "find_issuance db n = find (\<lambda>i. is_ordinal i = n) (db_issuances db)"

definition issuance_for_grant :: "authority_db \<Rightarrow> uuid \<Rightarrow> AuthorityIssuance option" where
  "issuance_for_grant db g = find (\<lambda>i. is_capability_grant_id i = Some g) (db_issuances db)"

definition issuance_for_bundle :: "authority_db \<Rightarrow> uuid \<Rightarrow> AuthorityIssuance option" where
  "issuance_for_bundle db b = find (\<lambda>i. is_role_bundle_id i = Some b) (db_issuances db)"

definition issuance_controls :: "authority_db \<Rightarrow> int \<Rightarrow> AuthorityControl list" where
  "issuance_controls db n = filter (\<lambda>c. ct_issuance_id c = n) (db_controls db)"

text \<open>A role assignment is read with its bundle joined.\<close>

datatype authority = Grant CapabilityGrant | Assignment RoleAssignment RoleBundle

definition find_assignment :: "authority_db \<Rightarrow> uuid \<Rightarrow> (RoleAssignment \<times> RoleBundle) option" where
  "find_assignment db i =
     (case find (\<lambda>a. aw_id a = i) (db_assignments db) of
        None \<Rightarrow> None
      | Some a \<Rightarrow> map_option (\<lambda>b. (a, b)) (find_bundle db (ra_role_bundle_id a)))"

fun authority_base :: "authority \<Rightarrow> authority_row" where
  "authority_base (Grant g) = authority_row.truncate g"
| "authority_base (Assignment a b) = authority_row.truncate a"

section \<open>Scopes\<close>

record scope =
  sc_organization_id :: uuid
  sc_edition_id :: "uuid option"
  sc_department_id :: "uuid option"
  sc_resource_binding_id :: "uuid option"

definition level_of :: "uuid option \<Rightarrow> uuid option \<Rightarrow> uuid option \<Rightarrow> ScopeLevel" where
  "level_of edition department binding =
     (if binding \<noteq> None then RESOURCE else if department \<noteq> None then DEPARTMENT
      else if edition \<noteq> None then EDITION else ORGANIZATION)"

definition scope_level :: "scope \<Rightarrow> ScopeLevel" where
  "scope_level s = level_of (sc_edition_id s) (sc_department_id s) (sc_resource_binding_id s)"

fun level_rank :: "ScopeLevel \<Rightarrow> nat" where
  "level_rank ORGANIZATION = 0"
| "level_rank EDITION = 1"
| "level_rank DEPARTMENT = 2"
| "level_rank RESOURCE = 3"

definition scope_from_authority :: "'a authority_row_scheme \<Rightarrow> scope" where
  "scope_from_authority w = \<lparr>sc_organization_id = aw_organization_id w, sc_edition_id = aw_edition_id w,
     sc_department_id = aw_department_id w, sc_resource_binding_id = aw_resource_binding_id w\<rparr>"

definition scope_shape_is_valid :: "scope \<Rightarrow> bool" where
  "scope_shape_is_valid s \<longleftrightarrow>
     \<not> (sc_department_id s \<noteq> None \<and> sc_edition_id s = None)
     \<and> \<not> (sc_resource_binding_id s \<noteq> None \<and> sc_department_id s = None)"

text \<open>The containment that policy, provenance and delegation all write out, below the shape checks.\<close>

definition scope_covers :: "scope \<Rightarrow> scope \<Rightarrow> bool" where
  "scope_covers source target \<longleftrightarrow>
     (if sc_organization_id source \<noteq> sc_organization_id target then False
      else if sc_resource_binding_id source \<noteq> None
      then sc_resource_binding_id source = sc_resource_binding_id target
      else if sc_department_id source \<noteq> None
      then sc_edition_id source = sc_edition_id target \<and> sc_department_id source = sc_department_id target
      else if sc_edition_id source \<noteq> None then sc_edition_id source = sc_edition_id target
      else True)"

definition scope_contains :: "scope \<Rightarrow> scope \<Rightarrow> bool" where
  "scope_contains source target \<longleftrightarrow>
     scope_shape_is_valid source \<and> scope_shape_is_valid target \<and> scope_covers source target"

end
