(* ===== verification/Authority_Targets.thy ===== *)
theory Authority_Targets
  imports Authority_Store
begin

text \<open>
  What a decision is about. A target is sealed by one of the resolvers of
  \<open>src/src/maru/authorization/policy.py\<close>, which prove the persisted chain from the organization down;
  the check of a typed binding is \<open>resource_binding_target_exists\<close> of \<open>bindings.py\<close>. A caller's value
  is \<open>Typed\<close> when it carries the seal and \<open>Untyped\<close> when it is anything else, \<open>None\<close> included.
\<close>

section \<open>Targets\<close>

record ResolvedAuthorizationTarget =
  tg_organization_id :: uuid
  tg_edition_id :: "uuid option"
  tg_department_id :: "uuid option"
  tg_resource_binding_id :: "uuid option"
  tg_owner_account_id :: "uuid option"
  tg_adoption_profile_code :: "string option"
  tg_adoption_profile_version :: "int option"

definition target_scope_level :: "ResolvedAuthorizationTarget \<Rightarrow> ScopeLevel" where
  "target_scope_level t = level_of (tg_edition_id t) (tg_department_id t) (tg_resource_binding_id t)"

definition scope_of_target :: "ResolvedAuthorizationTarget \<Rightarrow> scope" where
  "scope_of_target t = \<lparr>sc_organization_id = tg_organization_id t, sc_edition_id = tg_edition_id t,
     sc_department_id = tg_department_id t, sc_resource_binding_id = tg_resource_binding_id t\<rparr>"

definition scope_from_target :: "ResolvedAuthorizationTarget \<Rightarrow> scope option" where
  "scope_from_target t = (if scope_shape_is_valid (scope_of_target t) then Some (scope_of_target t) else None)"

text \<open>\<open>_seal_target\<close>; \<open>None\<close> stands for its \<open>ValueError\<close>, which no resolver meets.\<close>

definition seal_target :: "ResolvedAuthorizationTarget \<Rightarrow> ResolvedAuthorizationTarget option" where
  "seal_target t =
     (if tg_department_id t \<noteq> None \<and> tg_edition_id t = None then None
      else if tg_resource_binding_id t \<noteq> None \<and> tg_department_id t = None then None
      else if tg_edition_id t = None
        \<and> (tg_adoption_profile_code t \<noteq> None \<or> tg_adoption_profile_version t \<noteq> None) then None
      else if tg_edition_id t \<noteq> None
        \<and> (tg_adoption_profile_code t = None \<or> tg_adoption_profile_version t = None) then None
      else Some t)"

definition organization_target :: "uuid \<Rightarrow> ResolvedAuthorizationTarget" where
  "organization_target organization = \<lparr>tg_organization_id = organization, tg_edition_id = None,
     tg_department_id = None, tg_resource_binding_id = None, tg_owner_account_id = None,
     tg_adoption_profile_code = None, tg_adoption_profile_version = None\<rparr>"

text \<open>A target inside an edition, with the profile of that edition.\<close>

definition edition_target :: "EventEdition \<Rightarrow> uuid \<Rightarrow> uuid option \<Rightarrow> uuid option \<Rightarrow> ResolvedAuthorizationTarget" where
  "edition_target e organization department binding =
     (organization_target organization)\<lparr>tg_edition_id := Some (ed_id e), tg_department_id := department,
       tg_resource_binding_id := binding,
       tg_adoption_profile_code := Some (ed_adoption_profile_code e),
       tg_adoption_profile_version := Some (ed_adoption_profile_version e)\<rparr>"

section \<open>Resolvers\<close>

definition resolve_organization_target :: "authority_db \<Rightarrow> uuid \<Rightarrow> ResolvedAuthorizationTarget option" where
  "resolve_organization_target db organization =
     Option.bind (find (\<lambda>r. og_id r = organization) (db_organizations db)) (\<lambda>row.
       seal_target (organization_target (og_id row)))"

definition resolve_edition_target :: "authority_db \<Rightarrow> uuid \<Rightarrow> uuid \<Rightarrow> ResolvedAuthorizationTarget option" where
  "resolve_edition_target db organization edition =
     Option.bind (find (\<lambda>e. ed_id e = edition \<and> ed_organization_id e = organization
         \<and> ed_series_organization_id e = organization) (db_editions db)) (\<lambda>row.
       seal_target (edition_target row (ed_organization_id row) None None))"

text \<open>The edition that a foreign key joins.\<close>

definition joined_edition :: "authority_db \<Rightarrow> uuid \<Rightarrow> EventEdition option" where
  "joined_edition db edition = find (\<lambda>e. ed_id e = edition) (db_editions db)"

definition find_department :: "authority_db \<Rightarrow> uuid \<Rightarrow> uuid \<Rightarrow> uuid \<Rightarrow> Department option" where
  "find_department db organization edition department =
     find (\<lambda>d. dp_id d = department \<and> dp_organization_id d = organization \<and> dp_edition_id d = edition
       \<and> dp_retired_at d = None) (db_departments db)"

definition resolve_department_target ::
    "authority_db \<Rightarrow> uuid \<Rightarrow> uuid \<Rightarrow> uuid \<Rightarrow> ResolvedAuthorizationTarget option" where
  "resolve_department_target db organization edition department =
     Option.bind (find_department db organization edition department) (\<lambda>row.
     Option.bind (joined_edition db (dp_edition_id row)) (\<lambda>e.
       seal_target (edition_target e (dp_organization_id row) (Some (dp_id row)) None)))"

definition resource_binding_target_exists :: "authority_db \<Rightarrow> ScopedResourceBinding \<Rightarrow> bool" where
  "resource_binding_target_exists db b \<longleftrightarrow>
     list_ex (\<lambda>r. br_kind r = rb_resource_kind b \<and> br_id r = rb_resource_id b
       \<and> br_organization_id r = rb_organization_id b \<and> br_edition_id r = rb_edition_id b
       \<and> br_department_id r = rb_department_id b) (db_resources db)"

definition department_is_current :: "authority_db \<Rightarrow> uuid \<Rightarrow> bool" where
  "department_is_current db department \<longleftrightarrow>
     list_ex (\<lambda>d. dp_id d = department \<and> dp_retired_at d = None) (db_departments db)"

definition resolve_resource_target ::
    "authority_db \<Rightarrow> uuid \<Rightarrow> uuid \<Rightarrow> uuid \<Rightarrow> uuid \<Rightarrow> ResolvedAuthorizationTarget option" where
  "resolve_resource_target db organization edition department binding =
     Option.bind (find (\<lambda>b. rb_id b = binding \<and> rb_organization_id b = organization
         \<and> rb_edition_id b = edition \<and> rb_department_id b = department
         \<and> department_is_current db (rb_department_id b)) (db_bindings db)) (\<lambda>row.
     Option.bind (joined_edition db (rb_edition_id row)) (\<lambda>e.
       if \<not> resource_binding_target_exists db row then None
       else seal_target (edition_target e (rb_organization_id row) (Some (rb_department_id row)) (Some (rb_id row)))))"

definition person_account_exists :: "authority_db \<Rightarrow> uuid \<Rightarrow> bool" where
  "person_account_exists db account \<longleftrightarrow>
     list_ex (\<lambda>a. ac_id a = account \<and> ac_account_kind a = PERSON) (db_accounts db)"

text \<open>A target of the organization or of one edition, with an owner.\<close>

definition owned_target ::
    "authority_db \<Rightarrow> uuid \<Rightarrow> uuid option \<Rightarrow> uuid \<Rightarrow> ResolvedAuthorizationTarget option" where
  "owned_target db organization edition owner =
     Option.bind (case edition of None \<Rightarrow> resolve_organization_target db organization
                  | Some e \<Rightarrow> resolve_edition_target db organization e) (\<lambda>base.
       seal_target ((organization_target (tg_organization_id base))\<lparr>tg_edition_id := tg_edition_id base,
         tg_owner_account_id := Some owner, tg_adoption_profile_code := tg_adoption_profile_code base,
         tg_adoption_profile_version := tg_adoption_profile_version base\<rparr>))"

text \<open>
  \<open>resolve_owned_target\<close> re-reads the owning record; the argument is what that query returns: the
  organization, the edition if the record has one, and the account. \<open>None\<close> is a record that is not
  saved, is gone or has no such columns.
\<close>

definition resolve_owned_target ::
    "authority_db \<Rightarrow> (uuid \<times> uuid option \<times> uuid option) option \<Rightarrow> ResolvedAuthorizationTarget option" where
  "resolve_owned_target db row =
     (case row of
        Some (organization, edition, Some account) \<Rightarrow>
          if \<not> person_account_exists db account then None else owned_target db organization edition account
      | _ \<Rightarrow> None)"

definition resolve_self_target ::
    "authority_db \<Rightarrow> uuid \<Rightarrow> uuid \<Rightarrow> uuid option \<Rightarrow> ResolvedAuthorizationTarget option" where
  "resolve_self_target db person organization edition =
     (if \<not> person_account_exists db person then None else owned_target db organization edition person)"

section \<open>Currentness of a scope\<close>

definition resolve_scope :: "authority_db \<Rightarrow> scope \<Rightarrow> ResolvedAuthorizationTarget option" where
  "resolve_scope db s =
     (case (sc_edition_id s, sc_department_id s, sc_resource_binding_id s) of
        (Some e, Some d, Some b) \<Rightarrow> resolve_resource_target db (sc_organization_id s) e d b
      | (Some e, Some d, None) \<Rightarrow> resolve_department_target db (sc_organization_id s) e d
      | (Some e, None, None) \<Rightarrow> resolve_edition_target db (sc_organization_id s) e
      | (None, None, None) \<Rightarrow> resolve_organization_target db (sc_organization_id s)
      | _ \<Rightarrow> None)"

text \<open>\<open>_resolved_target_is_current\<close>, on the scope of its argument.\<close>

definition scope_is_current :: "authority_db \<Rightarrow> scope \<Rightarrow> bool" where
  "scope_is_current db s \<longleftrightarrow>
     scope_shape_is_valid s
     \<and> (case resolve_scope db s of None \<Rightarrow> False | Some resolved \<Rightarrow> scope_from_target resolved = Some s)"

definition authority_scope_is_current :: "authority_db \<Rightarrow> 'a authority_row_scheme \<Rightarrow> bool" where
  "authority_scope_is_current db w \<longleftrightarrow>
     scope_shape_is_valid (scope_from_authority w) \<and> scope_is_current db (scope_from_authority w)"

section \<open>Lemmas\<close>

text \<open>The seal never refuses what a resolver hands it.\<close>

lemma seal_organization [simp]: "seal_target (organization_target i) = Some (organization_target i)"
  by (simp add: seal_target_def organization_target_def)

lemma seal_edition [simp]:
  "binding \<noteq> None \<longrightarrow> department \<noteq> None \<Longrightarrow>
   seal_target (edition_target e i department binding) = Some (edition_target e i department binding)"
  by (auto simp: seal_target_def organization_target_def edition_target_def)

lemma resolve_organization_Some:
  "resolve_organization_target db i = Some t \<Longrightarrow>
   t = organization_target i \<and> (\<exists>r \<in> set (db_organizations db). og_id r = i)"
  by (auto simp: resolve_organization_target_def bind_eq_Some_conv dest!: find_SomeD)

lemma resolve_edition_Some:
  "resolve_edition_target db i e = Some t \<Longrightarrow>
   \<exists>r \<in> set (db_editions db). ed_id r = e \<and> ed_organization_id r = i
     \<and> ed_series_organization_id r = i \<and> t = edition_target r i None None"
  by (auto simp: resolve_edition_target_def bind_eq_Some_conv dest!: find_SomeD)

lemma resolve_department_Some:
  "resolve_department_target db i e d = Some t \<Longrightarrow>
   \<exists>r \<in> set (db_editions db). ed_id r = e \<and> t = edition_target r i (Some d) None"
  by (fastforce simp: resolve_department_target_def find_department_def joined_edition_def bind_eq_Some_conv
      dest!: find_SomeD)

lemma resolve_resource_Some:
  "resolve_resource_target db i e d b = Some t \<Longrightarrow>
   \<exists>r \<in> set (db_editions db). ed_id r = e \<and> t = edition_target r i (Some d) (Some b)"
  by (fastforce simp: resolve_resource_target_def joined_edition_def bind_eq_Some_conv
      split: if_splits dest!: find_SomeD)

lemmas resolve_Some = resolve_organization_Some resolve_edition_Some resolve_department_Some
  resolve_resource_Some

end
