(* ===== verification/Authority_Lineage.thy ===== *)
theory Authority_Lineage
  imports Authority_Targets
begin

text \<open>
  Exact authority lineage: \<open>src/src/maru/authorization/provenance.py\<close> with the Guidance qualification of
  \<open>guidance_target_contracts.py\<close>. Every grant and assignment has an issuance; an issuance is current when
  its authority is, when it covers the request, and when the two controls it names, or the grant it was
  delegated from, or the accepted representation of the organization, are current in turn. The validator
  walks this graph with a path, a depth limit and caches that are shared by the checks of one batch. The
  caches of verdicts change what a walk does and are passed as a state; a cache of rows only repeats a
  query under the same snapshot and is not.
\<close>

section \<open>Issuance targets\<close>

datatype issuance_target = Authority authority | Bundle RoleBundle

definition issuance_target_of :: "authority_db \<Rightarrow> AuthorityIssuance \<Rightarrow> issuance_target option" where
  "issuance_target_of db i =
     (case (is_capability_grant_id i, is_role_bundle_id i, is_role_assignment_id i) of
        (Some g, None, None) \<Rightarrow> map_option (\<lambda>g. Authority (Grant g)) (find_grant db g)
      | (None, None, Some a) \<Rightarrow> map_option (\<lambda>(a, b). Authority (Assignment a b)) (find_assignment db a)
      | (None, Some b, None) \<Rightarrow> map_option Bundle (find_bundle db b)
      | _ \<Rightarrow> None)"

text \<open>The targets a lineage may rest on: a grant or an assignment.\<close>

definition issuance_authority :: "authority_db \<Rightarrow> AuthorityIssuance \<Rightarrow> authority option" where
  "issuance_authority db i =
     (case issuance_target_of db i of Some (Authority s) \<Rightarrow> Some s | _ \<Rightarrow> None)"

text \<open>\<open>_target_attribution\<close>: actor, approver and recipient.\<close>

fun target_attribution :: "issuance_target \<Rightarrow> uuid option \<times> uuid option \<times> uuid option" where
  "target_attribution (Bundle b) = (bn_created_by_id b, bn_approved_by_id b, None)"
| "target_attribution (Authority s) =
     (Some (aw_granted_by_id (authority_base s)), aw_approved_by_id (authority_base s),
      Some (aw_principal_id (authority_base s)))"

fun source_has_capability :: "authority \<Rightarrow> string \<Rightarrow> bool" where
  "source_has_capability (Grant g) code \<longleftrightarrow> cg_capability_code g = code"
| "source_has_capability (Assignment a b) code \<longleftrightarrow> code \<in> set (bn_capability_codes b)"

section \<open>Guidance qualification\<close>

record GuidanceTargetQualification =
  qu_capability_code :: string
  qu_actor_source :: int
  qu_approver_source :: int

abbreviation guidance_invalid :: "maru_error + 'a" where
  "guidance_invalid \<equiv> Inl (invalid ''guidance_qualification_required'')"

definition guidance_shaped :: "RoleBundle \<Rightarrow> bool" where
  "guidance_shaped b \<longleftrightarrow>
     (case map_of GUIDANCE_ROLE_RECIPES (bn_code b) of
        None \<Rightarrow> False
      | Some recipe \<Rightarrow> bn_version b = gq_version recipe \<and> bn_name b = gq_name recipe
          \<and> bn_capability_codes b = gq_capability_codes recipe)"

definition guidance_target_free :: "RoleBundle \<Rightarrow> bool" where
  "guidance_target_free b \<longleftrightarrow>
     set GUIDANCE_PROTECTED_CAPABILITIES \<inter> set (bn_capability_codes b) = {}
     \<and> map_of GUIDANCE_ROLE_RECIPES (bn_code b) = None"

text \<open>The setup that issued a bundle, or an assignment.\<close>

definition bundle_setup :: "authority_db \<Rightarrow> RoleBundle \<Rightarrow> GuidanceAuthoritySetupReceipt option" where
  "bundle_setup db b =
     Option.bind (find (\<lambda>q. gp_role_bundle_id q = bn_id b) (db_guidance_recipes db)) (\<lambda>q.
       find (\<lambda>s. gs_id s = gp_setup_id q) (db_guidance_setups db))"

definition assignment_setup :: "authority_db \<Rightarrow> RoleAssignment \<Rightarrow> GuidanceAuthoritySetupReceipt option" where
  "assignment_setup db a =
     find (\<lambda>s. aw_id a \<in> {gs_controller_a_id s, gs_controller_b_id s, gs_content_a_id s, gs_content_b_id s})
       (db_guidance_setups db)"

text \<open>The setup belongs to an accepted activation of the organization and edition it names.\<close>

definition setup_activation ::
    "authority_db \<Rightarrow> GuidanceAuthoritySetupReceipt \<Rightarrow> uuid \<Rightarrow> GuidanceActivationQualification option" where
  "setup_activation db s organization =
     Option.bind (db_guidance_activation db (gs_activation_id s)) (\<lambda>activation.
       if gs_team_organization_id s \<noteq> organization \<or> gs_team_edition_id s \<noteq> ga_edition_id activation
         \<or> ga_organization_id activation \<noteq> organization then None else Some activation)"

definition bundle_qualification ::
    "authority_db \<Rightarrow> RoleBundle \<Rightarrow> maru_error + GuidanceTargetQualification option" where
  "bundle_qualification db b =
     (case bundle_setup db b of
        None \<Rightarrow> guidance_invalid
      | Some s \<Rightarrow>
          (case setup_activation db s (bn_organization_id b) of
             None \<Rightarrow> guidance_invalid
           | Some activation \<Rightarrow>
               if bn_created_by_id b \<noteq> Some (ga_operator_a_id activation)
                 \<or> bn_approved_by_id b \<noteq> Some (ga_operator_b_id activation) then guidance_invalid
               else Inr (Some \<lparr>qu_capability_code = GUIDANCE_BOOTSTRAP_CAPABILITY,
                      qu_actor_source = gs_root_a_id s, qu_approver_source = gs_root_b_id s\<rparr>)))"

definition assignment_ordinal :: "authority_db \<Rightarrow> uuid \<Rightarrow> int option" where
  "assignment_ordinal db a =
     map_option is_ordinal (find (\<lambda>i. is_role_assignment_id i = Some a) (db_issuances db))"

text \<open>An assignment that the setup itself issued: controllers rest on the roots, operators on the controllers.\<close>

definition setup_qualification ::
    "authority_db \<Rightarrow> GuidanceAuthoritySetupReceipt \<Rightarrow> RoleAssignment \<Rightarrow> RoleBundle
     \<Rightarrow> maru_error + GuidanceTargetQualification option" where
  "setup_qualification db s a b =
     (case setup_activation db s (aw_organization_id a) of
        None \<Rightarrow> guidance_invalid
      | Some activation \<Rightarrow>
          let is_a = aw_id a \<in> {gs_controller_a_id s, gs_content_a_id s};
              own = if is_a then ga_operator_a_id activation else ga_operator_b_id activation;
              other = if is_a then ga_operator_b_id activation else ga_operator_a_id activation
          in if aw_edition_id a \<noteq> Some (gs_team_edition_id s) then guidance_invalid
             else if aw_principal_id a \<noteq> own \<or> aw_granted_by_id a \<noteq> own
               \<or> aw_approved_by_id a \<noteq> Some other \<or> aw_expires_at a \<noteq> None then guidance_invalid
             else if aw_id a \<in> {gs_controller_a_id s, gs_controller_b_id s} then
               if bn_code b \<noteq> GUIDANCE_CONTROLLER_ROLE_CODE then guidance_invalid
               else Inr (Some \<lparr>qu_capability_code = GUIDANCE_BOOTSTRAP_CAPABILITY,
                      qu_actor_source = if is_a then gs_root_a_id s else gs_root_b_id s,
                      qu_approver_source = if is_a then gs_root_b_id s else gs_root_a_id s\<rparr>)
             else if bn_code b \<noteq> GUIDANCE_OPERATOR_ROLE_CODE then guidance_invalid
             else (case (assignment_ordinal db (gs_controller_a_id s), assignment_ordinal db (gs_controller_b_id s)) of
                     (Some source_a, Some source_b) \<Rightarrow>
                       if gs_controller_a_id s = gs_controller_b_id s then guidance_invalid
                       else Inr (Some \<lparr>qu_capability_code = GUIDANCE_CONTROL_CAPABILITY,
                              qu_actor_source = if is_a then source_a else source_b,
                              qu_approver_source = if is_a then source_b else source_a\<rparr>)
                   | _ \<Rightarrow> guidance_invalid))"

text \<open>An assignment that an accepted request issued.\<close>

definition decision_qualification ::
    "authority_db \<Rightarrow> RoleAssignment \<Rightarrow> maru_error + GuidanceTargetQualification option" where
  "decision_qualification db a =
     (case find (\<lambda>d. gd_assignment_id d = Some (aw_id a) \<and> gd_accepted d) (db_guidance_decisions db) of
        None \<Rightarrow> guidance_invalid
      | Some d \<Rightarrow>
          let r = gd_request d
          in if gd_actor_id d \<noteq> gx_approver_id r \<or> gd_request_digest d \<noteq> gx_request_digest r
               \<or> gx_decision_deadline r < gd_created_at d
               \<or> aw_organization_id a \<noteq> gx_organization_id r \<or> aw_edition_id a \<noteq> Some (gx_edition_id r)
               \<or> aw_principal_id a \<noteq> gx_recipient_id r \<or> aw_granted_by_id a \<noteq> gx_requested_by_id r
               \<or> aw_approved_by_id a \<noteq> Some (gx_approver_id r) \<or> ra_role_bundle_id a \<noteq> gx_role_bundle_id r
               \<or> aw_effective_from a \<noteq> gx_effective_from r \<or> aw_expires_at a \<noteq> gx_expires_at r
               \<or> aw_reason a \<noteq> gx_reason r
             then guidance_invalid
             else Inr (Some \<lparr>qu_capability_code = GUIDANCE_CONTROL_CAPABILITY,
                    qu_actor_source = gx_actor_source_id r, qu_approver_source = gx_approver_source_id r\<rparr>))"

fun guidance_target_qualification ::
    "authority_db \<Rightarrow> issuance_target \<Rightarrow> maru_error + GuidanceTargetQualification option" where
  "guidance_target_qualification db (Authority (Grant g)) =
     (if cg_capability_code g \<in> set GUIDANCE_PROTECTED_CAPABILITIES then guidance_invalid else Inr None)"
| "guidance_target_qualification db (Bundle b) =
     (if guidance_target_free b then Inr None
      else if \<not> guidance_shaped b then guidance_invalid
      else bundle_qualification db b)"
| "guidance_target_qualification db (Authority (Assignment a b)) =
     (if guidance_target_free b then Inr None
      else if \<not> guidance_shaped b then guidance_invalid
      else if aw_edition_id a = None \<or> aw_department_id a \<noteq> None \<or> aw_resource_binding_id a \<noteq> None
      then guidance_invalid
      else (case assignment_setup db a of
              Some s \<Rightarrow> setup_qualification db s a b
            | None \<Rightarrow> if bn_code b = GUIDANCE_CONTROLLER_ROLE_CODE then guidance_invalid
                      else decision_qualification db a))"

fun is_grant_target :: "issuance_target \<Rightarrow> bool" where
  "is_grant_target (Authority (Grant g)) = True"
| "is_grant_target _ = False"

definition required_target_control_capability :: "authority_db \<Rightarrow> issuance_target \<Rightarrow> maru_error + string" where
  "required_target_control_capability db t =
     bindE (guidance_target_qualification db t) (\<lambda>q. Inr (case q of
       Some q \<Rightarrow> qu_capability_code q
     | None \<Rightarrow> if is_grant_target t then ''authorization.grant_direct'' else ''authorization.manage_roles''))"

definition guidance_control_source_matches ::
    "authority_db \<Rightarrow> issuance_target \<Rightarrow> ControlRole \<Rightarrow> int option \<Rightarrow> bool" where
  "guidance_control_source_matches db t role source =
     (case guidance_target_qualification db t of
        Inl _ \<Rightarrow> False
      | Inr None \<Rightarrow> True
      | Inr (Some q) \<Rightarrow> source = Some (if role = ACTOR then qu_actor_source q else qu_approver_source q))"

section \<open>Expectations\<close>

datatype ControlHorizonMode = PERSISTENT | POINT_IN_TIME

record expectation =
  ex_principal_id :: uuid
  ex_capability_code :: string
  ex_target_scope :: scope
  ex_requested_effective_from :: instant
  ex_requested_expires_at :: "instant option"
  ex_evaluated_at :: instant
  ex_horizon_mode :: ControlHorizonMode

text \<open>The expectation that an authority puts on a source of its own: \<open>_Expectation\<close> over its term.\<close>

definition expects_term :: "uuid \<Rightarrow> string \<Rightarrow> 'a authority_row_scheme \<Rightarrow> instant \<Rightarrow> expectation" where
  "expects_term person capability_code w evaluated_at = \<lparr>ex_principal_id = person,
     ex_capability_code = capability_code, ex_target_scope = scope_from_authority w,
     ex_requested_effective_from = aw_effective_from w, ex_requested_expires_at = aw_expires_at w,
     ex_evaluated_at = evaluated_at, ex_horizon_mode = PERSISTENT\<rparr>"

text \<open>An optional instant that is set and not after \<open>t\<close>.\<close>

definition reached :: "instant option \<Rightarrow> instant \<Rightarrow> bool" where
  "reached expires t \<longleftrightarrow> (case expires of None \<Rightarrow> False | Some e \<Rightarrow> e \<le> t)"

text \<open>The requested end lies within that of the source; only a persistent horizon asks for it.\<close>

definition end_is_covered :: "instant option \<Rightarrow> expectation \<Rightarrow> bool" where
  "end_is_covered source_expires ex \<longleftrightarrow>
     (case source_expires of
        None \<Rightarrow> True
      | Some e \<Rightarrow> ex_horizon_mode ex = POINT_IN_TIME
          \<or> (case ex_requested_expires_at ex of None \<Rightarrow> False | Some r \<Rightarrow> r \<le> e))"

definition horizon_is_covered :: "'a authority_row_scheme \<Rightarrow> expectation \<Rightarrow> bool" where
  "horizon_is_covered w ex \<longleftrightarrow>
     (if ex_evaluated_at ex < aw_effective_from w \<or> ex_requested_effective_from ex < aw_effective_from w
        \<or> aw_revoked_at w \<noteq> None \<or> reached (aw_expires_at w) (ex_evaluated_at ex) then False
      else end_is_covered (aw_expires_at w) ex)"

definition historical_horizon_is_covered :: "'a authority_row_scheme \<Rightarrow> expectation \<Rightarrow> bool" where
  "historical_horizon_is_covered w ex \<longleftrightarrow>
     (if ex_evaluated_at ex < aw_effective_from w \<or> ex_requested_effective_from ex < aw_effective_from w
        \<or> reached (aw_revoked_at w) (ex_evaluated_at ex)
        \<or> reached (aw_expires_at w) (ex_evaluated_at ex) then False
      else end_is_covered (aw_expires_at w) ex)"

definition time_window_is_valid ::
    "instant typed \<Rightarrow> instant typed option \<Rightarrow> instant typed \<Rightarrow> ControlHorizonMode \<Rightarrow> bool" where
  "time_window_is_valid requested_from requested_expires evaluated_at mode \<longleftrightarrow>
     (case (requested_from, evaluated_at) of
        (Typed from_at, Typed _) \<Rightarrow>
          (case requested_expires of
             None \<Rightarrow> True
           | Some Untyped \<Rightarrow> False
           | Some (Typed e) \<Rightarrow> mode = PERSISTENT \<and> from_at < e)
      | _ \<Rightarrow> False)"

definition principal_is_current :: "authority_db \<Rightarrow> uuid \<Rightarrow> bool" where
  "principal_is_current db person \<longleftrightarrow>
     (case find_account db person of None \<Rightarrow> False | Some a \<Rightarrow> ac_account_kind a = PERSON \<and> ac_is_active a)"

definition principal_was_person :: "authority_db \<Rightarrow> uuid \<Rightarrow> bool" where
  "principal_was_person db person \<longleftrightarrow>
     (case find_account db person of None \<Rightarrow> False | Some a \<Rightarrow> ac_account_kind a = PERSON)"

section \<open>Controls\<close>

text \<open>\<open>_controls_by_role\<close>: exactly one actor and one approver.\<close>

definition controls_by_role :: "authority_db \<Rightarrow> AuthorityIssuance \<Rightarrow> (AuthorityControl \<times> AuthorityControl) option" where
  "controls_by_role db i =
     (case issuance_controls db (is_ordinal i) of
        [c, d] \<Rightarrow> if ct_role c = ACTOR \<and> ct_role d = APPROVER then Some (c, d)
                  else if ct_role c = APPROVER \<and> ct_role d = ACTOR then Some (d, c) else None
      | _ \<Rightarrow> None)"

definition control_metadata_matches :: "AuthorityIssuance \<Rightarrow> AuthorityControl \<Rightarrow> bool" where
  "control_metadata_matches i c \<longleftrightarrow> is_policy_version i \<noteq> []
     \<and> ct_policy_version c = is_policy_version i \<and> ct_evaluated_at c = is_evaluated_at i"

text \<open>What every ordinary control must be before its source is looked at.\<close>

definition ordinary_control_matches ::
    "authority_db \<Rightarrow> issuance_target \<Rightarrow> AuthorityIssuance \<Rightarrow> ControlRole \<Rightarrow> AuthorityControl \<Rightarrow> uuid \<Rightarrow> bool" where
  "ordinary_control_matches db t i role c person \<longleftrightarrow>
     guidance_control_source_matches db t role (ct_source_issuance_id c)
     \<and> ct_principal_id c = person \<and> ct_basis c = PERSISTENT_AUTHORITY
     \<and> (case ct_source_issuance_id c of None \<Rightarrow> False | Some s \<Rightarrow> s < is_ordinal i)
     \<and> ct_representation_id c = None \<and> ct_appointment_id c = None
     \<and> control_metadata_matches i c"

text \<open>
  A step of the loop over the two controls: whether the control itself is in order, and then the
  source and the expectation that the validator is asked about.
\<close>

type_synonym control_step = "bool \<times> int \<times> expectation"

definition control_source :: "AuthorityControl \<Rightarrow> int" where
  "control_source c = (case ct_source_issuance_id c of Some s \<Rightarrow> s | None \<Rightarrow> 0)"

text \<open>
  \<open>_validate_ordinary_controls\<close> and \<open>_validate_ordinary_controls_historical\<close> up to their loop. They
  differ in what they ask of the controllers as people.
\<close>

definition ordinary_control_steps ::
    "(uuid \<Rightarrow> bool) \<Rightarrow> authority_db \<Rightarrow> AuthorityIssuance \<Rightarrow> authority \<Rightarrow> instant \<Rightarrow> control_step list option" where
  "ordinary_control_steps person_ok db i source evaluated_at =
     (case required_target_control_capability db (Authority source) of
        Inl _ \<Rightarrow> None
      | Inr required \<Rightarrow>
          (case controls_by_role db i of
             None \<Rightarrow> None
           | Some (actor, approver) \<Rightarrow>
               let w = authority_base source
               in (case aw_approved_by_id w of
                     None \<Rightarrow> None
                   | Some approver_id \<Rightarrow>
                       if approver_id = aw_granted_by_id w \<or> approver_id = aw_principal_id w then None
                       else Some (map (\<lambda>(role, c, person).
                              (ordinary_control_matches db (Authority source) i role c person \<and> person_ok person,
                               control_source c, expects_term person required w evaluated_at))
                            [(ACTOR, actor, aw_granted_by_id w), (APPROVER, approver, approver_id)]))))"

text \<open>\<open>_ordinary_bundle_ceremony_is_historical\<close> up to its loop.\<close>

definition bundle_control_steps ::
    "authority_db \<Rightarrow> AuthorityIssuance \<Rightarrow> RoleBundle \<Rightarrow> instant \<Rightarrow> control_step list option" where
  "bundle_control_steps db i b evaluated_at =
     (case required_target_control_capability db (Bundle b) of
        Inl _ \<Rightarrow> None
      | Inr required \<Rightarrow>
          (case controls_by_role db i of
             None \<Rightarrow> None
           | Some (actor, approver) \<Rightarrow>
               if evaluated_at < is_evaluated_at i then None
               else (case (bn_created_by_id b, bn_approved_by_id b) of
                       (Some actor_id, Some approver_id) \<Rightarrow>
                         if actor_id = approver_id then None
                         else Some (map (\<lambda>(role, c, person).
                                (ordinary_control_matches db (Bundle b) i role c person, control_source c,
                                 \<lparr>ex_principal_id = person, ex_capability_code = required,
                                  ex_target_scope = \<lparr>sc_organization_id = bn_organization_id b,
                                    sc_edition_id = None, sc_department_id = None, sc_resource_binding_id = None\<rparr>,
                                  ex_requested_effective_from = is_evaluated_at i,
                                  ex_requested_expires_at = None, ex_evaluated_at = is_evaluated_at i,
                                  ex_horizon_mode = POINT_IN_TIME\<rparr>))
                              [(ACTOR, actor, actor_id), (APPROVER, approver, approver_id)])
                     | _ \<Rightarrow> None)))"

section \<open>The representation ceremony\<close>

definition is_representation_role :: "RoleBundle \<Rightarrow> bool" where
  "is_representation_role b \<longleftrightarrow> representation_definition_for_role (bn_code b) \<noteq> None"

definition representation_bundle_shape_is_valid :: "RoleBundle \<Rightarrow> bool" where
  "representation_bundle_shape_is_valid b \<longleftrightarrow>
     (case representation_definition_for_role (bn_code b) of
        None \<Rightarrow> False
      | Some d \<Rightarrow> bn_name b = rd_role_name d \<and> bn_version b = rd_role_version d
          \<and> length (bn_capability_codes b) = length (rd_capability_codes d)
          \<and> set (bn_capability_codes b) = set (rd_capability_codes d))"

fun target_bundle :: "issuance_target \<Rightarrow> RoleBundle option" where
  "target_bundle (Bundle b) = Some b"
| "target_bundle (Authority (Assignment a b)) = Some b"
| "target_bundle (Authority (Grant g)) = None"

definition special_control_shape :: "AuthorityIssuance \<Rightarrow> AuthorityControl \<Rightarrow> AuthorityControl \<Rightarrow> bool" where
  "special_control_shape i actor approver \<longleftrightarrow>
     ct_principal_id actor \<noteq> ct_principal_id approver
     \<and> ct_basis actor = PLATFORM_REPRESENTATION_BOOTSTRAP \<and> ct_representation_id actor \<noteq> None
     \<and> ct_source_issuance_id actor = None \<and> ct_appointment_id actor = None
     \<and> ct_basis approver = REPRESENTATION_ACCEPTANCE \<and> ct_appointment_id approver \<noteq> None
     \<and> ct_source_issuance_id approver = None \<and> ct_representation_id approver = None
     \<and> control_metadata_matches i actor \<and> control_metadata_matches i approver"

definition special_controls_are_historical ::
    "authority_db \<Rightarrow> AuthorityIssuance \<Rightarrow> uuid \<Rightarrow> uuid option
     \<Rightarrow> (OrganizationRepresentation \<times> RepresentationAppointment) option" where
  "special_controls_are_historical db i organization recipient =
     Option.bind (Option.bind (issuance_target_of db i) target_bundle) (\<lambda>b.
     Option.bind (representation_definition_for_role (bn_code b)) (\<lambda>d.
     Option.bind (controls_by_role db i) (\<lambda>(actor, approver).
       if \<not> special_control_shape i actor approver then None
       else if (case find_account db (ct_principal_id actor) of
                  None \<Rightarrow> True | Some a \<Rightarrow> ac_account_kind a \<noteq> PLATFORM_ADMINISTRATOR) then None
       else
         Option.bind (find (\<lambda>r. Some (rp_id r) = ct_representation_id actor \<and> rp_organization_id r = organization
             \<and> rp_activated_by_id r = Some (ct_principal_id actor)) (db_representations db)) (\<lambda>r.
         Option.bind (find (\<lambda>p. Some (pt_id p) = ct_appointment_id approver
             \<and> Some (pt_representation_id p) = ct_representation_id actor
             \<and> pt_account_id p = ct_principal_id approver
             \<and> pt_state p \<in> {APP_ACTIVE, APP_ENDED}) (db_appointments db)) (\<lambda>p.
           if rp_code r \<noteq> rd_code d \<or> rp_name r \<noteq> rd_name d \<or> pt_role p \<noteq> CONTROLLER
             \<or> rp_activated_at r \<noteq> Some (is_evaluated_at i)
             \<or> (case pt_responded_at p of None \<Rightarrow> True | Some t \<Rightarrow> is_evaluated_at i < t)
             \<or> recipient = Some (pt_account_id p)
           then None else Some (r, p))))))"

definition ceremony_attribution :: "RoleBundle \<Rightarrow> OrganizationRepresentation \<Rightarrow> RepresentationAppointment \<Rightarrow> bool" where
  "ceremony_attribution b r p \<longleftrightarrow>
     bn_created_by_id b = rp_activated_by_id r \<and> bn_approved_by_id b = Some (pt_account_id p)"

definition bundle_issuance :: "authority_db \<Rightarrow> RoleBundle \<Rightarrow> AuthorityIssuance option" where
  "bundle_issuance db b =
     Option.bind (issuance_for_bundle db (bn_id b)) (\<lambda>i.
       case issuance_target_of db i of
         Some (Bundle b') \<Rightarrow> if bn_id b' = bn_id b then Some i else None
       | _ \<Rightarrow> None)"

definition board_bundle_ceremony_is_valid :: "authority_db \<Rightarrow> RoleBundle \<Rightarrow> uuid \<Rightarrow> bool" where
  "board_bundle_ceremony_is_valid db b representation \<longleftrightarrow>
     representation_bundle_shape_is_valid b
     \<and> (case bundle_issuance db b of
          None \<Rightarrow> False
        | Some i \<Rightarrow>
            (case special_controls_are_historical db i (bn_organization_id b) None of
               None \<Rightarrow> False
             | Some (r, p) \<Rightarrow> rp_id r = representation \<and> ceremony_attribution b r p))"

definition board_assignment_shape :: "AuthorityIssuance \<Rightarrow> RoleAssignment \<Rightarrow> RoleBundle \<Rightarrow> bool" where
  "board_assignment_shape i a b \<longleftrightarrow>
     representation_bundle_shape_is_valid b \<and> aw_edition_id a = None \<and> aw_department_id a = None
     \<and> aw_resource_binding_id a = None \<and> aw_effective_from a = is_evaluated_at i \<and> aw_expires_at a = None"

definition board_assignment_is_current ::
    "authority_db \<Rightarrow> AuthorityIssuance \<Rightarrow> RoleAssignment \<Rightarrow> RoleBundle \<Rightarrow> bool" where
  "board_assignment_is_current db i a b \<longleftrightarrow>
     board_assignment_shape i a b \<and> aw_revoked_at a = None
     \<and> (case find_account db (aw_principal_id a) of
          None \<Rightarrow> False
        | Some p \<Rightarrow> ac_account_kind p = PERSON \<and> ac_is_active p \<and> has_verified_email p)
     \<and> (case special_controls_are_historical db i (aw_organization_id a) (Some (aw_principal_id a)) of
          None \<Rightarrow> False
        | Some (r, approver_appointment) \<Rightarrow>
            (case (find (\<lambda>p. pt_role_assignment_id p = Some (aw_id a) \<and> pt_representation_id p = rp_id r
                     \<and> pt_account_id p = aw_principal_id a \<and> pt_role p = CONTROLLER
                     \<and> pt_state p = APP_ACTIVE \<and> pt_ended_at p = None) (db_appointments db),
                   representation_definition_for_role (bn_code b),
                   find (\<lambda>m. mb_organization_id m = aw_organization_id a
                     \<and> mb_account_id m = aw_principal_id a) (db_memberships db)) of
               (Some appointment, Some d, Some membership) \<Rightarrow>
                 rp_state r = REP_ACTIVE \<and> rp_activated_at r = Some (is_evaluated_at i)
                 \<and> aw_reason a = rp_activation_reason r
                 \<and> (case pt_responded_at appointment of None \<Rightarrow> False | Some t \<Rightarrow> t \<le> is_evaluated_at i)
                 \<and> pt_activated_at appointment = Some (is_evaluated_at i)
                 \<and> Some (aw_granted_by_id a) = rp_activated_by_id r
                 \<and> aw_approved_by_id a = Some (pt_account_id approver_appointment)
                 \<and> list_ex (\<lambda>g. og_id g = aw_organization_id a \<and> og_lifecycle g = ORG_ACTIVE) (db_organizations db)
                 \<and> mb_state membership = MEM_ACTIVE
                 \<and> mb_relationship_label membership = rd_membership_label d
                 \<and> mb_started_at membership \<noteq> None \<and> mb_ended_at membership = None
                 \<and> board_bundle_ceremony_is_valid db b (rp_id r)
             | _ \<Rightarrow> False))"

definition board_assignment_was_current_at ::
    "authority_db \<Rightarrow> AuthorityIssuance \<Rightarrow> RoleAssignment \<Rightarrow> RoleBundle \<Rightarrow> instant \<Rightarrow> bool" where
  "board_assignment_was_current_at db i a b evaluated_at \<longleftrightarrow>
     board_assignment_shape i a b \<and> \<not> reached (aw_revoked_at a) evaluated_at
     \<and> principal_was_person db (aw_principal_id a)
     \<and> (case special_controls_are_historical db i (aw_organization_id a) (Some (aw_principal_id a)) of
          None \<Rightarrow> False
        | Some (r, approver_appointment) \<Rightarrow>
            list_ex (\<lambda>p. pt_role_assignment_id p = Some (aw_id a) \<and> pt_representation_id p = rp_id r
              \<and> pt_account_id p = aw_principal_id a \<and> pt_role p = CONTROLLER
              \<and> pt_state p \<in> {APP_ACTIVE, APP_ENDED} \<and> reached (pt_activated_at p) evaluated_at
              \<and> \<not> reached (pt_ended_at p) evaluated_at) (db_appointments db)
            \<and> rp_activated_at r = Some (is_evaluated_at i) \<and> is_evaluated_at i \<le> evaluated_at
            \<and> aw_reason a = rp_activation_reason r
            \<and> Some (aw_granted_by_id a) = rp_activated_by_id r
            \<and> aw_approved_by_id a = Some (pt_account_id approver_appointment)
            \<and> list_ex (\<lambda>g. og_id g = aw_organization_id a) (db_organizations db)
            \<and> list_ex (\<lambda>m. mb_organization_id m = aw_organization_id a \<and> mb_account_id m = aw_principal_id a
              \<and> reached (mb_started_at m) evaluated_at
              \<and> \<not> reached (mb_ended_at m) evaluated_at) (db_memberships db)
            \<and> board_bundle_ceremony_is_valid db b (rp_id r))"

end
