(* ===== verification/Lineage_Validator.thy ===== *)
theory Lineage_Validator
  imports Authority_Lineage
begin

text \<open>
  The walk of \<open>src/src/maru/authorization/provenance.py\<close> through a lineage: \<open>_validate_issuance_historical\<close>
  with \<open>_bundle_ceremony_is_historical\<close>, \<open>_validate_issuance_current\<close>, and the entry points that run
  them. The walk is recursion over a graph that may be cyclic; it ends because the path of bundles under
  proof never repeats and, between two bundles, the depth grows to its limit.
\<close>

definition MAX_AUTHORITY_LINEAGE_DEPTH :: nat where
  "MAX_AUTHORITY_LINEAGE_DEPTH = 64"

text \<open>The verdicts that one batch of checks remembers.\<close>

record lineage_cache =
  lc_historical :: "int \<times> expectation \<Rightarrow> bool option"
  lc_current :: "int \<times> expectation \<Rightarrow> bool option"
  lc_bundles :: "uuid \<times> instant \<Rightarrow> bool option"

definition empty_cache :: lineage_cache where
  "empty_cache = \<lparr>lc_historical = (\<lambda>_. None), lc_current = (\<lambda>_. None), lc_bundles = (\<lambda>_. None)\<rparr>"

definition keep_historical :: "int \<times> expectation \<Rightarrow> bool \<times> lineage_cache \<Rightarrow> bool \<times> lineage_cache" where
  "keep_historical key r = (fst r, (snd r)\<lparr>lc_historical := (lc_historical (snd r))(key \<mapsto> fst r)\<rparr>)"

definition keep_current :: "int \<times> expectation \<Rightarrow> bool \<times> lineage_cache \<Rightarrow> bool \<times> lineage_cache" where
  "keep_current key r = (fst r, (snd r)\<lparr>lc_current := (lc_current (snd r))(key \<mapsto> fst r)\<rparr>)"

definition keep_bundle :: "uuid \<times> instant \<Rightarrow> bool \<times> lineage_cache \<Rightarrow> bool \<times> lineage_cache" where
  "keep_bundle key r = (fst r, (snd r)\<lparr>lc_bundles := (lc_bundles (snd r))(key \<mapsto> fst r)\<rparr>)"

section \<open>What both walks ask of an issuance\<close>

text \<open>The issuance and its authority, when they meet the expectation by themselves.\<close>

definition source_matches ::
    "(uuid \<Rightarrow> bool) \<Rightarrow> (authority_row \<Rightarrow> bool) \<Rightarrow> authority_db \<Rightarrow> authority \<Rightarrow> expectation \<Rightarrow> bool" where
  "source_matches person_ok horizon_ok db source ex \<longleftrightarrow>
     (let w = authority_base source
      in aw_principal_id w = ex_principal_id ex \<and> person_ok (aw_principal_id w)
         \<and> source_has_capability source (ex_capability_code ex)
         \<and> authority_scope_is_current db w
         \<and> scope_contains (scope_from_authority w) (ex_target_scope ex)
         \<and> horizon_ok w)"

definition sound_issuance ::
    "(uuid \<Rightarrow> bool) \<Rightarrow> (authority_row \<Rightarrow> bool) \<Rightarrow> authority_db \<Rightarrow> int \<Rightarrow> expectation
     \<Rightarrow> (AuthorityIssuance \<times> authority) option" where
  "sound_issuance person_ok horizon_ok db ordinal ex =
     Option.bind (find_issuance db ordinal) (\<lambda>i.
       if is_policy_version i = [] \<or> ex_evaluated_at ex < is_evaluated_at i then None
       else Option.bind (issuance_authority db i) (\<lambda>source.
         if source_matches person_ok horizon_ok db source ex then Some (i, source) else None))"

definition sound_then :: "authority_db \<Rightarrow> int \<Rightarrow> expectation \<Rightarrow> (AuthorityIssuance \<times> authority) option" where
  "sound_then db ordinal ex =
     sound_issuance (principal_was_person db) (\<lambda>w. historical_horizon_is_covered w ex) db ordinal ex"

definition sound_now :: "authority_db \<Rightarrow> int \<Rightarrow> expectation \<Rightarrow> (AuthorityIssuance \<times> authority) option" where
  "sound_now db ordinal ex =
     sound_issuance (principal_is_current db) (\<lambda>w. horizon_is_covered w ex) db ordinal ex"

text \<open>
  What remains to be shown of a source: nothing of it (\<open>Verdict\<close>), the grant it was delegated from
  (one step), its two controls, or the representation ceremony.
\<close>

datatype remaining = Verdict bool | Steps "control_step list"

definition delegated_step :: "AuthorityIssuance \<Rightarrow> CapabilityGrant \<Rightarrow> instant \<Rightarrow> control_step" where
  "delegated_step parent g evaluated_at =
     (True, is_ordinal parent, expects_term (aw_granted_by_id g) (cg_capability_code g) g evaluated_at)"

definition remaining_of ::
    "(AuthorityIssuance \<Rightarrow> RoleAssignment \<Rightarrow> RoleBundle \<Rightarrow> bool) \<Rightarrow> (uuid \<Rightarrow> bool) \<Rightarrow> authority_db
     \<Rightarrow> AuthorityIssuance \<Rightarrow> authority \<Rightarrow> instant \<Rightarrow> remaining" where
  "remaining_of board person_ok db i source evaluated_at =
     (let controls = (case ordinary_control_steps person_ok db i source evaluated_at of
            None \<Rightarrow> Verdict False | Some steps \<Rightarrow> Steps steps)
      in case source of
           Grant g \<Rightarrow>
             (case cg_delegated_from_id g of
                None \<Rightarrow> controls
              | Some parent \<Rightarrow>
                  if issuance_controls db (is_ordinal i) \<noteq> [] then Verdict False
                  else (case issuance_for_grant db parent of
                          None \<Rightarrow> Verdict False
                        | Some p \<Rightarrow> Steps [delegated_step p g evaluated_at]))
         | Assignment a b \<Rightarrow> if is_representation_role b then Verdict (board i a b) else controls)"

definition remaining_then :: "authority_db \<Rightarrow> AuthorityIssuance \<Rightarrow> authority \<Rightarrow> instant \<Rightarrow> remaining" where
  "remaining_then db i source evaluated_at =
     remaining_of (\<lambda>i a b. board_assignment_was_current_at db i a b evaluated_at) (principal_was_person db)
       db i source evaluated_at"

definition remaining_now :: "authority_db \<Rightarrow> AuthorityIssuance \<Rightarrow> authority \<Rightarrow> instant \<Rightarrow> remaining" where
  "remaining_now db i source evaluated_at =
     remaining_of (board_assignment_is_current db) (principal_is_current db) db i source evaluated_at"

text \<open>What remains to be shown of a bundle, with the instant its sources are asked about.\<close>

definition remaining_bundle :: "authority_db \<Rightarrow> RoleBundle \<Rightarrow> instant \<Rightarrow> remaining" where
  "remaining_bundle db b evaluated_at =
     (case bundle_issuance db b of
        None \<Rightarrow> Verdict False
      | Some i \<Rightarrow>
          if evaluated_at < is_evaluated_at i then Verdict False
          else if representation_bundle_shape_is_valid b then
            Verdict (case special_controls_are_historical db i (bn_organization_id b) None of
              None \<Rightarrow> False | Some (r, p) \<Rightarrow> ceremony_attribution b r p)
          else if \<not> is_representation_role b then
            (case bundle_control_steps db i b evaluated_at of None \<Rightarrow> Verdict False | Some steps \<Rightarrow> Steps steps)
          else Verdict False)"

section \<open>The walk into the past\<close>

text \<open>The bundles under proof, the depth and the path decide termination.\<close>

definition issuance_times :: "authority_db \<Rightarrow> instant set" where
  "issuance_times db = set (map is_evaluated_at (db_issuances db))"

definition open_bundles :: "authority_db \<Rightarrow> (uuid \<times> instant) list \<Rightarrow> nat" where
  "open_bundles db proving = card (set (map bn_id (db_bundles db)) \<times> issuance_times db - set proving)"

lemma find_in_map: "find P xs = Some x \<Longrightarrow> f x \<in> set (map f xs)"
  by (auto dest!: find_SomeD)

lemma bundle_issuance_Some:
  assumes "bundle_issuance db b = Some i"
  shows "i \<in> set (db_issuances db)" and "bn_id b \<in> set (map bn_id (db_bundles db))"
proof -
  obtain b' where i: "issuance_for_bundle db (bn_id b) = Some i" and t: "issuance_target_of db i = Some (Bundle b')"
    and same: "bn_id b' = bn_id b"
    using assms unfolding bundle_issuance_def bind_eq_Some_conv
    by (elim exE conjE) (auto split: option.splits issuance_target.splits if_splits)
  from i show "i \<in> set (db_issuances db)" by (auto simp: issuance_for_bundle_def dest!: find_SomeD)
  from t have "b' \<in> set (db_bundles db)"
    by (auto simp: issuance_target_of_def find_bundle_def split: option.splits dest!: find_SomeD)
  with same show "bn_id b \<in> set (map bn_id (db_bundles db))" by (metis image_eqI list.set_map)
qed

lemma bundle_steps_times:
  assumes "remaining_bundle db b t = Steps steps"
  shows "\<forall>(ok, n, ex) \<in> set steps. ex_evaluated_at ex \<in> issuance_times db"
    and "bn_id b \<in> set (map bn_id (db_bundles db))"
  using assms bundle_issuance_Some [of db b]
  by (auto simp: remaining_bundle_def bundle_control_steps_def issuance_times_def Let_def
      split: option.splits if_splits sum.splits prod.splits)

lemma steps_then_times:
  "remaining_then db i source t = Steps steps \<Longrightarrow> \<forall>(ok, n, ex) \<in> set steps. ex_evaluated_at ex = t"
  by (auto simp: remaining_then_def remaining_of_def ordinary_control_steps_def delegated_step_def
      expects_term_def Let_def split: option.splits if_splits sum.splits prod.splits authority.splits)

lemma open_bundles_less:
  assumes "b \<in> set (map bn_id (db_bundles db))" "t \<in> issuance_times db" "(b, t) \<notin> set proving"
  shows "open_bundles db ((b, t) # proving) < open_bundles db proving"
  unfolding open_bundles_def using assms
  by (intro psubset_card_mono) (auto simp: issuance_times_def)

lemma open_bundles_le: "open_bundles db (k # proving) \<le> open_bundles db proving"
  unfolding open_bundles_def by (intro card_mono) (auto simp: issuance_times_def)

definition late_first :: "authority_db \<Rightarrow> instant \<Rightarrow> nat" where
  "late_first db t = (if t \<in> issuance_times db then 0 else 1)"

definition late_steps :: "authority_db \<Rightarrow> control_step list \<Rightarrow> nat" where
  "late_steps db steps = (if \<forall>(ok, n, ex) \<in> set steps. ex_evaluated_at ex \<in> issuance_times db then 0 else 1)"

lemma late_steps_eq:
  "late_first db (ex_evaluated_at ex) \<noteq> late_steps db ((True, n, ex) # steps)
   \<Longrightarrow> late_first db (ex_evaluated_at ex) < late_steps db ((True, n, ex) # steps)"
  "late_steps db steps \<noteq> late_steps db ((True, n, ex) # steps)
   \<Longrightarrow> late_steps db steps < late_steps db ((True, n, ex) # steps)"
  by (auto simp: late_steps_def late_first_def split: if_splits)

lemma late_steps_then:
  "remaining_then db i source t = Steps steps \<Longrightarrow> late_steps db steps \<le> late_first db t"
  using steps_then_times [of db i source t steps] by (force simp: late_steps_def late_first_def)

lemma bundle_walk_descends:
  assumes "remaining_bundle db b t = Steps steps" "(bn_id b, t) \<notin> set proving"
  shows "late_steps db steps < late_first db t
    \<or> late_steps db steps = late_first db t \<and> open_bundles db ((bn_id b, t) # proving) < open_bundles db proving"
  using bundle_steps_times [OF assms(1)] open_bundles_less [of "bn_id b" db t proving] assms(2)
  by (auto simp: late_steps_def late_first_def)

function validate_issuance_historical ::
      "authority_db \<Rightarrow> (uuid \<times> instant) list \<Rightarrow> int list \<Rightarrow> nat \<Rightarrow> int \<Rightarrow> expectation \<Rightarrow> lineage_cache
       \<Rightarrow> bool \<times> lineage_cache"
  and validate_steps_historical ::
      "authority_db \<Rightarrow> (uuid \<times> instant) list \<Rightarrow> int list \<Rightarrow> nat \<Rightarrow> control_step list \<Rightarrow> lineage_cache
       \<Rightarrow> bool \<times> lineage_cache"
  and bundle_ceremony_is_historical ::
      "authority_db \<Rightarrow> (uuid \<times> instant) list \<Rightarrow> RoleBundle \<Rightarrow> instant \<Rightarrow> lineage_cache \<Rightarrow> bool \<times> lineage_cache"
where
  "validate_issuance_historical db proving path depth ordinal ex c =
     (case lc_historical c (ordinal, ex) of
        Some v \<Rightarrow> (v, c)
      | None \<Rightarrow> keep_historical (ordinal, ex)
          (if MAX_AUTHORITY_LINEAGE_DEPTH \<le> depth \<or> ordinal \<in> set path then (False, c)
           else case sound_then db ordinal ex of
             None \<Rightarrow> (False, c)
           | Some (i, source) \<Rightarrow>
               (case (case source of
                        Assignment a b \<Rightarrow> bundle_ceremony_is_historical db proving b (ex_evaluated_at ex) c
                      | Grant g \<Rightarrow> (True, c)) of
                  (False, c) \<Rightarrow> (False, c)
                | (True, c) \<Rightarrow>
                    (case remaining_then db i source (ex_evaluated_at ex) of
                       Verdict v \<Rightarrow> (v, c)
                     | Steps steps \<Rightarrow>
                         validate_steps_historical db proving (ordinal # path) (Suc depth) steps c))))"
| "validate_steps_historical db proving path depth [] c = (True, c)"
| "validate_steps_historical db proving path depth ((ok, ordinal, ex) # steps) c =
     (if \<not> ok then (False, c)
      else case validate_issuance_historical db proving path depth ordinal ex c of
        (False, c) \<Rightarrow> (False, c)
      | (True, c) \<Rightarrow> validate_steps_historical db proving path depth steps c)"
| "bundle_ceremony_is_historical db proving b evaluated_at c =
     (case lc_bundles c (bn_id b, evaluated_at) of
        Some v \<Rightarrow> (v, c)
      | None \<Rightarrow> keep_bundle (bn_id b, evaluated_at)
          (if (bn_id b, evaluated_at) \<in> set proving then (False, c)
           else case remaining_bundle db b evaluated_at of
             Verdict v \<Rightarrow> (v, c)
           | Steps steps \<Rightarrow>
               validate_steps_historical db ((bn_id b, evaluated_at) # proving) [] 0 steps c))"
  by pat_completeness auto

termination
proof (relation "measures [
    case_sum (\<lambda>(db, proving, path, depth, n, ex, c). late_first db (ex_evaluated_at ex))
      (case_sum (\<lambda>(db, proving, path, depth, steps, c). late_steps db steps)
        (\<lambda>(db, proving, b, t, c). late_first db t)),
    case_sum (\<lambda>(db, proving, path, depth, n, ex, c). open_bundles db proving)
      (case_sum (\<lambda>(db, proving, path, depth, steps, c). open_bundles db proving)
        (\<lambda>(db, proving, b, t, c). open_bundles db proving)),
    case_sum (\<lambda>(db, proving, path, depth, n, ex, c). MAX_AUTHORITY_LINEAGE_DEPTH - depth)
      (case_sum (\<lambda>(db, proving, path, depth, steps, c). MAX_AUTHORITY_LINEAGE_DEPTH - depth) (\<lambda>_. 0)),
    case_sum (\<lambda>_. 0) (case_sum (\<lambda>(db, proving, path, depth, steps, c). Suc (length steps)) (\<lambda>_. 0))]",
    goal_cases)
  case 1 show ?case by simp
qed (auto simp: le_less dest: late_steps_then bundle_walk_descends intro: late_steps_eq)

declare validate_issuance_historical.simps [simp del] bundle_ceremony_is_historical.simps [simp del]

section \<open>The walk at present\<close>

function validate_issuance_current ::
      "authority_db \<Rightarrow> int list \<Rightarrow> nat \<Rightarrow> int \<Rightarrow> expectation \<Rightarrow> lineage_cache \<Rightarrow> bool \<times> lineage_cache"
  and validate_steps_current ::
      "authority_db \<Rightarrow> int list \<Rightarrow> nat \<Rightarrow> control_step list \<Rightarrow> lineage_cache \<Rightarrow> bool \<times> lineage_cache"
where
  "validate_issuance_current db path depth ordinal ex c =
     (case lc_current c (ordinal, ex) of
        Some v \<Rightarrow> (v, c)
      | None \<Rightarrow> keep_current (ordinal, ex)
          (if MAX_AUTHORITY_LINEAGE_DEPTH \<le> depth \<or> ordinal \<in> set path then (False, c)
           else case sound_now db ordinal ex of
             None \<Rightarrow> (False, c)
           | Some (i, source) \<Rightarrow>
               (case (case source of
                        Assignment a b \<Rightarrow> bundle_ceremony_is_historical db [] b (ex_evaluated_at ex) c
                      | Grant g \<Rightarrow> (True, c)) of
                  (False, c) \<Rightarrow> (False, c)
                | (True, c) \<Rightarrow>
                    (case remaining_now db i source (ex_evaluated_at ex) of
                       Verdict v \<Rightarrow> (v, c)
                     | Steps steps \<Rightarrow> validate_steps_current db (ordinal # path) (Suc depth) steps c))))"
| "validate_steps_current db path depth [] c = (True, c)"
| "validate_steps_current db path depth ((ok, ordinal, ex) # steps) c =
     (if \<not> ok then (False, c)
      else case validate_issuance_current db path depth ordinal ex c of
        (False, c) \<Rightarrow> (False, c)
      | (True, c) \<Rightarrow> validate_steps_current db path depth steps c)"
  by pat_completeness auto

termination
  by (relation "measures [
      case_sum (\<lambda>(db, path, depth, n, ex, c). MAX_AUTHORITY_LINEAGE_DEPTH - depth)
        (\<lambda>(db, path, depth, steps, c). MAX_AUTHORITY_LINEAGE_DEPTH - depth),
      case_sum (\<lambda>_. 0) (\<lambda>(db, path, depth, steps, c). Suc (length steps))]") auto

declare validate_issuance_current.simps [simp del]

section \<open>Entry points\<close>

text \<open>
  \<open>AuthorityIssuanceCurrentCheck\<close>. An instant of a caller is \<open>Typed\<close> when it is an aware datetime.
\<close>

record AuthorityIssuanceCurrentCheck =
  ck_issuance_ordinal :: int
  ck_principal_id :: uuid
  ck_capability_code :: string
  ck_target :: ResolvedAuthorizationTarget
  ck_requested_effective_from :: "instant typed"
  ck_requested_expires_at :: "instant typed option"
  ck_horizon_mode :: ControlHorizonMode

definition check_expectation :: "AuthorityIssuanceCurrentCheck \<Rightarrow> instant typed \<Rightarrow> expectation option" where
  "check_expectation k evaluated_at =
     (case (scope_from_target (ck_target k), ck_requested_effective_from k, evaluated_at) of
        (Some target_scope, Typed from_at, Typed t) \<Rightarrow>
          Some \<lparr>ex_principal_id = ck_principal_id k, ex_capability_code = ck_capability_code k,
            ex_target_scope = target_scope, ex_requested_effective_from = from_at,
            ex_requested_expires_at =
              (case ck_requested_expires_at k of Some (Typed e) \<Rightarrow> Some e | _ \<Rightarrow> None),
            ex_evaluated_at = t, ex_horizon_mode = ck_horizon_mode k\<rparr>
      | _ \<Rightarrow> None)"

text \<open>The checks of one batch share the caches.\<close>

definition check_current_python ::
    "authority_db \<Rightarrow> instant typed \<Rightarrow> AuthorityIssuanceCurrentCheck \<Rightarrow> lineage_cache \<Rightarrow> bool \<times> lineage_cache" where
  "check_current_python db evaluated_at k c =
     (case check_expectation k evaluated_at of
        None \<Rightarrow> (False, c)
      | Some ex \<Rightarrow>
          if ck_issuance_ordinal k \<le> 0 \<or> ck_capability_code k = []
            \<or> \<not> time_window_is_valid (ck_requested_effective_from k) (ck_requested_expires_at k) evaluated_at
                (ck_horizon_mode k)
          then (False, c)
          else if \<not> scope_is_current db (ex_target_scope ex) then (False, c)
          else validate_issuance_current db [] 0 (ck_issuance_ordinal k) ex c)"

fun authority_issuances_are_current_python ::
    "authority_db \<Rightarrow> instant typed \<Rightarrow> AuthorityIssuanceCurrentCheck list \<Rightarrow> lineage_cache \<Rightarrow> bool list" where
  "authority_issuances_are_current_python db evaluated_at [] c = []"
| "authority_issuances_are_current_python db evaluated_at (k # ks) c =
     (case check_current_python db evaluated_at k c of
        (v, c) \<Rightarrow> v # authority_issuances_are_current_python db evaluated_at ks c)"

definition authority_issuance_is_current ::
    "authority_db \<Rightarrow> instant typed \<Rightarrow> AuthorityIssuanceCurrentCheck \<Rightarrow> bool" where
  "authority_issuance_is_current db evaluated_at k =
     hd (authority_issuances_are_current_python db evaluated_at [k] empty_cache)"

text \<open>\<open>role_bundle_provenance_is_historical\<close> of a bundle that is saved.\<close>

definition role_bundle_provenance_is_historical :: "authority_db \<Rightarrow> uuid \<Rightarrow> instant typed \<Rightarrow> bool" where
  "role_bundle_provenance_is_historical db bundle evaluated_at =
     (case (evaluated_at, find_bundle db bundle) of
        (Typed t, Some persisted) \<Rightarrow> fst (bundle_ceremony_is_historical db [] persisted t empty_cache)
      | _ \<Rightarrow> False)"

text \<open>
  The read path hands each position that is well formed and whose target is current to the validator
  that is installed in PostgreSQL, \<open>maru_authority_issuance_valid_v1\<close>: an argument here, translated from
  the migrations in \<open>Native_Validator\<close>. A batch is split into calls of 256 positions, which answer independently.
\<close>

type_synonym native_validator = "authority_db \<Rightarrow> int \<Rightarrow> expectation \<Rightarrow> bool"

definition POSTGRESQL_BIGINT_MAX :: int where
  "POSTGRESQL_BIGINT_MAX = 9223372036854775807"

definition database_current_check_is_well_formed :: "AuthorityIssuanceCurrentCheck \<Rightarrow> instant typed \<Rightarrow> bool" where
  "database_current_check_is_well_formed k evaluated_at \<longleftrightarrow>
     0 < ck_issuance_ordinal k \<and> ck_issuance_ordinal k \<le> POSTGRESQL_BIGINT_MAX
     \<and> list_ex (\<lambda>x. \<not> is_space x) (ck_capability_code k)
     \<and> time_window_is_valid (ck_requested_effective_from k) (ck_requested_expires_at k) evaluated_at
         (ck_horizon_mode k)"

definition check_current_database ::
    "native_validator \<Rightarrow> authority_db \<Rightarrow> instant typed \<Rightarrow> AuthorityIssuanceCurrentCheck \<Rightarrow> bool" where
  "check_current_database native db evaluated_at k \<longleftrightarrow>
     (case check_expectation k evaluated_at of
        None \<Rightarrow> False
      | Some ex \<Rightarrow> database_current_check_is_well_formed k evaluated_at
          \<and> scope_is_current db (ex_target_scope ex) \<and> native db (ck_issuance_ordinal k) ex)"

definition authority_issuances_are_current ::
    "native_validator \<Rightarrow> authority_db \<Rightarrow> instant typed \<Rightarrow> AuthorityIssuanceCurrentCheck list \<Rightarrow> bool list" where
  "authority_issuances_are_current native db evaluated_at ks =
     map (check_current_database native db evaluated_at) ks"

end
