(* ===== verification/Lineage_Facts.thy ===== *)
theory Lineage_Facts
  imports Lineage_Validator
begin

text \<open>
  What the walk establishes. A lineage is a finite derivation: an issuance whose source is sound and
  whose remaining steps have derivations of their own, down to a representation ceremony. The relations
  below say so without path, depth or cache. The walk answers yes only for what has a derivation, from
  any caches that hold such answers only, and its caches keep doing so.
\<close>

section \<open>Derivations\<close>

inductive proved_then :: "authority_db \<Rightarrow> int \<Rightarrow> expectation \<Rightarrow> bool"
  and bundle_proved :: "authority_db \<Rightarrow> RoleBundle \<Rightarrow> instant \<Rightarrow> bool"
  for db :: authority_db
where
  then_verdict: "\<lbrakk>sound_then db n ex = Some (i, source);
     \<forall>a b. source = Assignment a b \<longrightarrow> bundle_proved db b (ex_evaluated_at ex);
     remaining_then db i source (ex_evaluated_at ex) = Verdict True\<rbrakk> \<Longrightarrow> proved_then db n ex"
| then_steps: "\<lbrakk>sound_then db n ex = Some (i, source);
     \<forall>a b. source = Assignment a b \<longrightarrow> bundle_proved db b (ex_evaluated_at ex);
     remaining_then db i source (ex_evaluated_at ex) = Steps steps;
     \<forall>x \<in> set steps. fst x \<and> proved_then db (fst (snd x)) (snd (snd x))\<rbrakk> \<Longrightarrow> proved_then db n ex"
| bundle_verdict: "remaining_bundle db b t = Verdict True \<Longrightarrow> bundle_proved db b t"
| bundle_steps: "\<lbrakk>remaining_bundle db b t = Steps steps;
     \<forall>x \<in> set steps. fst x \<and> proved_then db (fst (snd x)) (snd (snd x))\<rbrakk> \<Longrightarrow> bundle_proved db b t"

inductive proved_now :: "authority_db \<Rightarrow> int \<Rightarrow> expectation \<Rightarrow> bool" for db :: authority_db where
  now_verdict: "\<lbrakk>sound_now db n ex = Some (i, source);
     \<forall>a b. source = Assignment a b \<longrightarrow> bundle_proved db b (ex_evaluated_at ex);
     remaining_now db i source (ex_evaluated_at ex) = Verdict True\<rbrakk> \<Longrightarrow> proved_now db n ex"
| now_steps: "\<lbrakk>sound_now db n ex = Some (i, source);
     \<forall>a b. source = Assignment a b \<longrightarrow> bundle_proved db b (ex_evaluated_at ex);
     remaining_now db i source (ex_evaluated_at ex) = Steps steps;
     \<forall>x \<in> set steps. fst x \<and> proved_now db (fst (snd x)) (snd (snd x))\<rbrakk> \<Longrightarrow> proved_now db n ex"

section \<open>The walk is sound\<close>

definition cache_sound :: "authority_db \<Rightarrow> lineage_cache \<Rightarrow> bool" where
  "cache_sound db c \<longleftrightarrow>
     (\<forall>n ex. lc_historical c (n, ex) = Some True \<longrightarrow> proved_then db n ex)
     \<and> (\<forall>n ex. lc_current c (n, ex) = Some True \<longrightarrow> proved_now db n ex)
     \<and> (\<forall>b t. lc_bundles c (bn_id b, t) = Some True \<longrightarrow> find_bundle db (bn_id b) = Some b \<longrightarrow> bundle_proved db b t)"

lemma empty_cache_sound [simp]: "cache_sound db empty_cache"
  by (simp add: cache_sound_def empty_cache_def)

text \<open>A run that leaves the caches sound and answers yes only when \<open>P\<close> holds.\<close>

definition sound_run :: "authority_db \<Rightarrow> bool \<times> lineage_cache \<Rightarrow> bool \<Rightarrow> bool" where
  "sound_run db r P \<longleftrightarrow> cache_sound db (snd r) \<and> (fst r \<longrightarrow> P)"

lemma sound_runI: "cache_sound db c \<Longrightarrow> (v \<Longrightarrow> P) \<Longrightarrow> sound_run db (v, c) P"
  by (simp add: sound_run_def)

lemma keep_historical_sound:
  "sound_run db r (proved_then db n ex) \<Longrightarrow> sound_run db (keep_historical (n, ex) r) (proved_then db n ex)"
  by (auto simp: sound_run_def cache_sound_def keep_historical_def)

lemma keep_current_sound:
  "sound_run db r (proved_now db n ex) \<Longrightarrow> sound_run db (keep_current (n, ex) r) (proved_now db n ex)"
  by (auto simp: sound_run_def cache_sound_def keep_current_def)

lemma keep_bundle_sound:
  assumes r: "sound_run db r (bundle_proved db b t)" and b: "find_bundle db (bn_id b) = Some b"
  shows "sound_run db (keep_bundle (bn_id b, t) r) (bundle_proved db b t)"
proof -
  have "bundle_proved db b' t'" if "lc_bundles (snd (keep_bundle (bn_id b, t) r)) (bn_id b', t') = Some True"
    and b': "find_bundle db (bn_id b') = Some b'" for b' t'
  proof (cases "(bn_id b', t') = (bn_id b, t)")
    case True
    with b b' have "b' = b" by simp
    with True that r show ?thesis by (simp add: sound_run_def keep_bundle_def)
  next
    case False
    with that r show ?thesis by (auto simp: sound_run_def cache_sound_def keep_bundle_def)
  qed
  with r show ?thesis by (auto simp: sound_run_def cache_sound_def keep_bundle_def)
qed

lemma cached_sound:
  "cache_sound db c \<Longrightarrow> lc_historical c (n, ex) = Some v \<Longrightarrow> sound_run db (v, c) (proved_then db n ex)"
  "cache_sound db c \<Longrightarrow> lc_current c (n, ex) = Some v \<Longrightarrow> sound_run db (v, c) (proved_now db n ex)"
  "cache_sound db c \<Longrightarrow> lc_bundles c (bn_id b, t) = Some v \<Longrightarrow> find_bundle db (bn_id b) = Some b \<Longrightarrow>
   sound_run db (v, c) (bundle_proved db b t)"
  by (auto simp: sound_run_def cache_sound_def)

text \<open>Sequencing: the second run may use what the first one has shown.\<close>

lemma sound_run_then:
  assumes "sound_run db r P" and "\<And>c. r = (True, c) \<Longrightarrow> P \<Longrightarrow> cache_sound db c \<Longrightarrow> sound_run db (f c) Q"
  shows "sound_run db (case r of (False, c) \<Rightarrow> (False, c) | (True, c) \<Rightarrow> f c) Q"
  using assms by (cases r) (auto simp: sound_run_def split: bool.splits)

text \<open>The bundle of an assignment is the one that the table holds under its key.\<close>

lemma find_bundle_id: "find_bundle db n = Some b \<Longrightarrow> bn_id b = n"
  by (auto simp: find_bundle_def dest!: find_SomeD)

lemma find_assignment_bundle: "find_assignment db n = Some (a, b) \<Longrightarrow> find_bundle db (bn_id b) = Some b"
  by (auto simp: find_assignment_def split: option.splits) (metis find_bundle_id)

lemma issuance_authority_bundle:
  "issuance_authority db i = Some (Assignment a b) \<Longrightarrow> find_bundle db (bn_id b) = Some b"
  by (auto simp: issuance_authority_def issuance_target_of_def find_assignment_bundle
      split: option.splits issuance_target.splits)

lemma sound_issuance_Some:
  "sound_issuance person_ok horizon_ok db n ex = Some (i, source) \<longleftrightarrow>
     find_issuance db n = Some i \<and> is_policy_version i \<noteq> [] \<and> is_evaluated_at i \<le> ex_evaluated_at ex
     \<and> issuance_authority db i = Some source \<and> source_matches person_ok horizon_ok db source ex"
  by (auto simp: sound_issuance_def bind_eq_Some_conv split: if_splits)

lemma sound_bundle:
  "sound_then db n ex = Some (i, Assignment a b) \<Longrightarrow> find_bundle db (bn_id b) = Some b"
  "sound_now db n ex = Some (i, Assignment a b) \<Longrightarrow> find_bundle db (bn_id b) = Some b"
  by (auto simp: sound_then_def sound_now_def sound_issuance_Some dest: issuance_authority_bundle)

text \<open>
  Both walks end in the same way: the ceremony of the bundle, then what remains of the source. The loops
  over steps are the same too.
\<close>

lemma ceremony_sound:
  assumes c: "cache_sound db c"
    and found: "\<And>a b. source = Assignment a b \<Longrightarrow> find_bundle db (bn_id b) = Some b"
    and walk: "\<And>a b. source = Assignment a b \<Longrightarrow> find_bundle db (bn_id b) = Some b \<Longrightarrow>
      sound_run db (ceremony b) (bundle_proved db b t)"
  shows "sound_run db (case source of Assignment a b \<Rightarrow> ceremony b | Grant g \<Rightarrow> (True, c))
    (\<forall>a b. source = Assignment a b \<longrightarrow> bundle_proved db b t)"
  using c walk found by (cases source) (auto simp: sound_run_def)

lemma remaining_sound:
  assumes held: "sound_run db r B"
    and verdict: "B \<Longrightarrow> rest = Verdict True \<Longrightarrow> P"
    and steps: "\<And>steps c. r = (True, c) \<Longrightarrow> cache_sound db c \<Longrightarrow> rest = Steps steps \<Longrightarrow> sound_run db (walk steps c) (Q steps)"
    and proved: "\<And>steps. B \<Longrightarrow> rest = Steps steps \<Longrightarrow> Q steps \<Longrightarrow> P"
  shows "sound_run db (case r of (False, c) \<Rightarrow> (False, c)
      | (True, c) \<Rightarrow> (case rest of Verdict v \<Rightarrow> (v, c) | Steps steps \<Rightarrow> walk steps c)) P"
proof (rule sound_run_then [OF held])
  fix c assume r: "r = (True, c)" and B and c: "cache_sound db c"
  show "sound_run db (case rest of Verdict v \<Rightarrow> (v, c) | Steps steps \<Rightarrow> walk steps c) P"
  proof (cases rest)
    case (Verdict v)
    with \<open>B\<close> c verdict show ?thesis by (simp add: sound_run_def)
  next
    case (Steps steps)
    with \<open>B\<close> steps [OF r c] proved show ?thesis by (auto simp: sound_run_def)
  qed
qed

lemma step_sound:
  assumes "ok \<Longrightarrow> sound_run db first P" "\<And>c. ok \<Longrightarrow> first = (True, c) \<Longrightarrow> cache_sound db c \<Longrightarrow> sound_run db (rest c) Q"
    "cache_sound db c"
  shows "sound_run db (if \<not> ok then (False, c) else case first of (False, c) \<Rightarrow> (False, c) | (True, c) \<Rightarrow> rest c)
    (ok \<and> P \<and> Q)"
proof (cases ok)
  case True
  have "sound_run db (case first of (False, c) \<Rightarrow> (False, c) | (True, c) \<Rightarrow> rest c) (ok \<and> P \<and> Q)"
    by (rule sound_run_then [OF assms(1) [OF True]]) (use True assms(2) in \<open>auto simp: sound_run_def\<close>)
  with True show ?thesis by simp
qed (use assms(3) in \<open>simp add: sound_run_def\<close>)

abbreviation steps_proved :: "(int \<Rightarrow> expectation \<Rightarrow> bool) \<Rightarrow> control_step list \<Rightarrow> bool" where
  "steps_proved proved steps \<equiv> \<forall>x \<in> set steps. fst x \<and> proved (fst (snd x)) (snd (snd x))"

lemma historical_walk_sound:
  "cache_sound db c \<Longrightarrow>
     sound_run db (validate_issuance_historical db proving path depth n ex c) (proved_then db n ex)"
  "cache_sound db c \<Longrightarrow>
     sound_run db (validate_steps_historical db proving path depth steps c) (steps_proved (proved_then db) steps)"
  "cache_sound db c \<Longrightarrow> find_bundle db (bn_id b) = Some b \<Longrightarrow>
     sound_run db (bundle_ceremony_is_historical db proving b t c) (bundle_proved db b t)"
proof (induction db proving path depth n ex c and db proving path depth steps c and db proving b t c
    rule: validate_issuance_historical_validate_steps_historical_bundle_ceremony_is_historical.induct)
  case (1 db proving path depth n ex c)
  show ?case
  proof (cases "lc_historical c (n, ex)")
    case None
    show ?thesis
    proof (cases "MAX_AUTHORITY_LINEAGE_DEPTH \<le> depth \<or> n \<in> set path \<or> sound_then db n ex = None")
      case True
      with None 1(3) keep_historical_sound [OF sound_runI, of db c False] show ?thesis
        by (auto simp: validate_issuance_historical.simps)
    next
      case False
      then obtain i source where s: "sound_then db n ex = Some (i, source)"
        and go: "\<not> (MAX_AUTHORITY_LINEAGE_DEPTH \<le> depth \<or> n \<in> set path)" by auto
      have "sound_run db (case (case source of
            Assignment a b \<Rightarrow> bundle_ceremony_is_historical db proving b (ex_evaluated_at ex) c | Grant g \<Rightarrow> (True, c)) of
          (False, c) \<Rightarrow> (False, c)
        | (True, c) \<Rightarrow> (case remaining_then db i source (ex_evaluated_at ex) of
              Verdict v \<Rightarrow> (v, c)
            | Steps steps \<Rightarrow> validate_steps_historical db proving (n # path) (Suc depth) steps c)) (proved_then db n ex)"
      proof (rule remaining_sound [OF ceremony_sound])
        show "cache_sound db c" by (rule 1(3))
        show "find_bundle db (bn_id b) = Some b" if "source = Assignment a b" for a b
          using s that by (simp add: sound_bundle)
        show "sound_run db (bundle_ceremony_is_historical db proving b (ex_evaluated_at ex) c)
            (bundle_proved db b (ex_evaluated_at ex))"
          if "source = Assignment a b" "find_bundle db (bn_id b) = Some b" for a b
          using 1(1) [OF None go s refl that(1) 1(3) that(2)] .
      next
        fix steps c' assume "(case source of
            Assignment a b \<Rightarrow> bundle_ceremony_is_historical db proving b (ex_evaluated_at ex) c
          | Grant g \<Rightarrow> (True, c)) = (True, c')"
          and "cache_sound db c'" "remaining_then db i source (ex_evaluated_at ex) = Steps steps"
        then show "sound_run db (validate_steps_historical db proving (n # path) (Suc depth) steps c')
            (steps_proved (proved_then db) steps)"
          using 1(2) [OF None go s refl] by simp
      qed (rule then_verdict [OF s] then_steps [OF s]; assumption)+
      with None go s show ?thesis by (simp add: validate_issuance_historical.simps keep_historical_sound)
    qed
  qed (use 1(3) cached_sound(1) in \<open>simp add: validate_issuance_historical.simps\<close>)
next
  case (2 db proving path depth c)
  then show ?case by (simp add: sound_run_def)
next
  case (3 db proving path depth ok n ex steps c)
  have "sound_run db (validate_steps_historical db proving path depth ((ok, n, ex) # steps) c)
      (ok \<and> proved_then db n ex \<and> steps_proved (proved_then db) steps)"
    unfolding validate_steps_historical.simps by (rule step_sound) (use 3 in auto)
  then show ?case by simp
next
  case (4 db proving b t c)
  show ?case
  proof (cases "lc_bundles c (bn_id b, t)")
    case None
    then show ?thesis using 4 bundle_verdict [of db b t] bundle_steps [of db b t]
      by (auto simp: bundle_ceremony_is_historical.simps sound_run_def intro!: keep_bundle_sound [unfolded sound_run_def]
          split: remaining.splits)
  qed (use 4(2,3) cached_sound(3) in \<open>simp add: bundle_ceremony_is_historical.simps\<close>)
qed

lemma current_walk_sound:
  "cache_sound db c \<Longrightarrow> sound_run db (validate_issuance_current db path depth n ex c) (proved_now db n ex)"
  "cache_sound db c \<Longrightarrow> sound_run db (validate_steps_current db path depth steps c) (steps_proved (proved_now db) steps)"
proof (induction db path depth n ex c and db path depth steps c
    rule: validate_issuance_current_validate_steps_current.induct)
  case (1 db path depth n ex c)
  show ?case
  proof (cases "lc_current c (n, ex)")
    case None
    show ?thesis
    proof (cases "MAX_AUTHORITY_LINEAGE_DEPTH \<le> depth \<or> n \<in> set path \<or> sound_now db n ex = None")
      case True
      with None 1(2) keep_current_sound [OF sound_runI, of db c False] show ?thesis
        by (auto simp: validate_issuance_current.simps)
    next
      case False
      then obtain i source where s: "sound_now db n ex = Some (i, source)"
        and go: "\<not> (MAX_AUTHORITY_LINEAGE_DEPTH \<le> depth \<or> n \<in> set path)" by auto
      have "sound_run db (case (case source of
            Assignment a b \<Rightarrow> bundle_ceremony_is_historical db [] b (ex_evaluated_at ex) c | Grant g \<Rightarrow> (True, c)) of
          (False, c) \<Rightarrow> (False, c)
        | (True, c) \<Rightarrow> (case remaining_now db i source (ex_evaluated_at ex) of
              Verdict v \<Rightarrow> (v, c)
            | Steps steps \<Rightarrow> validate_steps_current db (n # path) (Suc depth) steps c)) (proved_now db n ex)"
      proof (rule remaining_sound [OF ceremony_sound])
        show "cache_sound db c" by (rule 1(2))
        show "find_bundle db (bn_id b) = Some b" if "source = Assignment a b" for a b
          using s that by (simp add: sound_bundle)
        show "sound_run db (bundle_ceremony_is_historical db [] b (ex_evaluated_at ex) c)
            (bundle_proved db b (ex_evaluated_at ex))" if "find_bundle db (bn_id b) = Some b" for b
          using historical_walk_sound(3) [OF 1(2) that] .
      next
        fix steps c' assume "(case source of
            Assignment a b \<Rightarrow> bundle_ceremony_is_historical db [] b (ex_evaluated_at ex) c
          | Grant g \<Rightarrow> (True, c)) = (True, c')"
          and "cache_sound db c'" "remaining_now db i source (ex_evaluated_at ex) = Steps steps"
        then show "sound_run db (validate_steps_current db (n # path) (Suc depth) steps c')
            (steps_proved (proved_now db) steps)"
          using 1(1) [OF None go s refl] by simp
      qed (rule now_verdict [OF s] now_steps [OF s]; assumption)+
      with None go s show ?thesis by (simp add: validate_issuance_current.simps keep_current_sound)
    qed
  qed (use 1(2) cached_sound(2) in \<open>simp add: validate_issuance_current.simps\<close>)
next
  case (2 db path depth c)
  then show ?case by (simp add: sound_run_def)
next
  case (3 db path depth ok n ex steps c)
  have "sound_run db (validate_steps_current db path depth ((ok, n, ex) # steps) c)
      (ok \<and> proved_now db n ex \<and> steps_proved (proved_now db) steps)"
    unfolding validate_steps_current.simps by (rule step_sound) (use 3 in auto)
  then show ?case by simp
qed

section \<open>What a derivation says\<close>

text \<open>Every derivation starts from a sound issuance.\<close>

lemma proved_now_sound: "proved_now db n ex \<Longrightarrow> \<exists>i source. sound_now db n ex = Some (i, source)"
  by (auto elim: proved_now.cases)

lemma sound_now_Some:
  "sound_now db n ex = Some (i, source) \<Longrightarrow>
     find_issuance db n = Some i \<and> issuance_authority db i = Some source
     \<and> is_policy_version i \<noteq> [] \<and> is_evaluated_at i \<le> ex_evaluated_at ex
     \<and> source_matches (principal_is_current db) (\<lambda>w. horizon_is_covered w ex) db source ex"
  by (simp add: sound_now_def sound_issuance_Some)

lemma find_issuance_ordinal: "find_issuance db n = Some i \<Longrightarrow> is_ordinal i = n"
  by (auto simp: find_issuance_def dest!: find_SomeD)

lemma expects_term_simps [simp]:
  "ex_principal_id (expects_term p c w t) = p" "ex_capability_code (expects_term p c w t) = c"
  "ex_target_scope (expects_term p c w t) = scope_from_authority w" "ex_evaluated_at (expects_term p c w t) = t"
  "ex_requested_effective_from (expects_term p c w t) = aw_effective_from w"
  "ex_requested_expires_at (expects_term p c w t) = aw_expires_at w"
  "ex_horizon_mode (expects_term p c w t) = PERSISTENT"
  by (simp_all add: expects_term_def)

lemma scope_from_truncate [simp]:
  "scope_from_authority (authority_row.truncate w) = scope_from_authority w"
  by (simp add: scope_from_authority_def authority_row.defs)

lemma truncate_simps [simp]:
  "aw_principal_id (authority_row.truncate w) = aw_principal_id w"
  "aw_organization_id (authority_row.truncate w) = aw_organization_id w"
  "aw_granted_by_id (authority_row.truncate w) = aw_granted_by_id w"
  "aw_approved_by_id (authority_row.truncate w) = aw_approved_by_id w"
  "aw_effective_from (authority_row.truncate w) = aw_effective_from w"
  "aw_expires_at (authority_row.truncate w) = aw_expires_at w"
  "aw_revoked_at (authority_row.truncate w) = aw_revoked_at w"
  by (simp_all add: authority_row.defs)

text \<open>The tenant and the instant never change on the way down.\<close>

lemma scope_contains_organization:
  "scope_contains s s' \<Longrightarrow> sc_organization_id s = sc_organization_id s'"
  by (simp add: scope_contains_def scope_covers_def split: if_splits)

lemma sound_now_organization:
  "sound_now db n ex = Some (i, source) \<Longrightarrow>
     aw_organization_id (authority_base source) = sc_organization_id (ex_target_scope ex)"
  by (auto dest!: sound_now_Some simp: source_matches_def Let_def scope_from_authority_def
      dest!: scope_contains_organization)

lemma remaining_now_steps:
  assumes "remaining_now db i source t = Steps steps" "(ok, m, ex') \<in> set steps"
  shows "ex_target_scope ex' = scope_from_authority (authority_base source)" "ex_evaluated_at ex' = t"
  using assms
  by (auto simp: remaining_now_def remaining_of_def ordinary_control_steps_def delegated_step_def Let_def
      split: option.splits if_splits sum.splits prod.splits authority.splits)

text \<open>The root of a derivation: the representation of the organization, accepted and still active.\<close>

definition organization_is_represented :: "authority_db \<Rightarrow> uuid \<Rightarrow> bool" where
  "organization_is_represented db organization \<longleftrightarrow>
     list_ex (\<lambda>g. og_id g = organization \<and> og_lifecycle g = ORG_ACTIVE) (db_organizations db)
     \<and> list_ex (\<lambda>r. rp_organization_id r = organization \<and> rp_state r = REP_ACTIVE
         \<and> list_ex (\<lambda>a. Some (ac_id a) = rp_activated_by_id r \<and> ac_account_kind a = PLATFORM_ADMINISTRATOR)
             (db_accounts db)
         \<and> list_ex (\<lambda>p. pt_representation_id p = rp_id r \<and> pt_state p = APP_ACTIVE \<and> pt_ended_at p = None
             \<and> principal_is_current db (pt_account_id p)) (db_appointments db))
         (db_representations db)"

lemma special_controls_Some:
  assumes "special_controls_are_historical db i organization recipient = Some (r, p)"
  shows "r \<in> set (db_representations db)" "rp_organization_id r = organization" "p \<in> set (db_appointments db)"
    and "\<exists>a \<in> set (db_accounts db). Some (ac_id a) = rp_activated_by_id r \<and> ac_account_kind a = PLATFORM_ADMINISTRATOR"
    and "\<forall>c \<in> set (issuance_controls db (is_ordinal i)). ct_source_issuance_id c = None"
  using assms
  by (auto simp: special_controls_are_historical_def bind_eq_Some_conv find_account_def controls_by_role_def
      special_control_shape_def split: if_splits option.splits list.splits dest!: find_SomeD)

lemma board_assignment_represented:
  assumes "board_assignment_is_current db i a b"
  shows "organization_is_represented db (aw_organization_id a)"
    and "\<forall>c \<in> set (issuance_controls db (is_ordinal i)). ct_source_issuance_id c = None"
proof -
  obtain r p where r: "special_controls_are_historical db i (aw_organization_id a) (Some (aw_principal_id a)) = Some (r, p)"
    using assms by (auto simp: board_assignment_is_current_def split: option.splits)
  have person: "principal_is_current db (aw_principal_id a)"
    using assms by (auto simp: board_assignment_is_current_def principal_is_current_def split: option.splits)
  have org: "list_ex (\<lambda>g. og_id g = aw_organization_id a \<and> og_lifecycle g = ORG_ACTIVE) (db_organizations db)"
    and act: "rp_state r = REP_ACTIVE"
    and appointed: "\<exists>q \<in> set (db_appointments db). pt_representation_id q = rp_id r \<and> pt_account_id q = aw_principal_id a
        \<and> pt_state q = APP_ACTIVE \<and> pt_ended_at q = None"
    using assms r by (auto simp: board_assignment_is_current_def split: option.splits dest!: find_SomeD)
  from special_controls_Some [OF r] person org act appointed show "organization_is_represented db (aw_organization_id a)"
    unfolding organization_is_represented_def list_ex_iff by metis
  show "\<forall>c \<in> set (issuance_controls db (is_ordinal i)). ct_source_issuance_id c = None"
    by (rule special_controls_Some(5) [OF r])
qed

lemma remaining_now_verdict:
  "remaining_now db i source t = Verdict True \<longleftrightarrow>
     (\<exists>a b. source = Assignment a b \<and> is_representation_role b \<and> board_assignment_is_current db i a b)"
  by (auto simp: remaining_now_def remaining_of_def Let_def split: authority.splits option.splits if_splits)

lemma proved_now_represented:
  "proved_now db n ex \<Longrightarrow> organization_is_represented db (sc_organization_id (ex_target_scope ex))"
proof (induction rule: proved_now.induct)
  case (now_verdict n ex i source)
  from now_verdict(3) obtain a b where "source = Assignment a b" "board_assignment_is_current db i a b"
    by (auto simp: remaining_now_verdict)
  with sound_now_organization [OF now_verdict(1)] board_assignment_represented(1) show ?case by fastforce
next
  case (now_steps n ex i source steps)
  have "steps \<noteq> []" using now_steps(3)
    by (auto simp: remaining_now_def remaining_of_def ordinary_control_steps_def Let_def
        split: option.splits if_splits sum.splits prod.splits authority.splits)
  then obtain ok m ex' where step: "(ok, m, ex') \<in> set steps" by (cases steps) auto
  with now_steps.IH have "organization_is_represented db (sc_organization_id (ex_target_scope ex'))" by fastforce
  moreover have "sc_organization_id (ex_target_scope ex') = sc_organization_id (ex_target_scope ex)"
    using remaining_now_steps(1) [OF now_steps(3) step] sound_now_organization [OF now_steps(1)]
    by (simp add: scope_from_authority_def)
  ultimately show ?case by simp
qed

section \<open>What an authority rests on\<close>

text \<open>
  The issuances that the row of an issuance names: the grant it was delegated from, or the sources of
  its controls. What it rests on is whatever these lead to.
\<close>

definition lineage_sources :: "authority_db \<Rightarrow> int \<Rightarrow> int list" where
  "lineage_sources db n =
     (case Option.bind (find_issuance db n) (issuance_authority db) of
        Some (Grant g) \<Rightarrow>
          (case cg_delegated_from_id g of
             Some parent \<Rightarrow> (case issuance_for_grant db parent of None \<Rightarrow> [] | Some p \<Rightarrow> [is_ordinal p])
           | None \<Rightarrow> List.map_filter ct_source_issuance_id (issuance_controls db n))
      | Some (Assignment a b) \<Rightarrow> List.map_filter ct_source_issuance_id (issuance_controls db n)
      | None \<Rightarrow> [])"

inductive rests_on :: "authority_db \<Rightarrow> int \<Rightarrow> int \<Rightarrow> bool" for db :: authority_db where
  itself [intro]: "rests_on db n n"
| through: "m \<in> set (lineage_sources db n) \<Longrightarrow> rests_on db m m' \<Longrightarrow> rests_on db n m'"

code_pred rests_on .

inductive_cases rests_onE: "rests_on db n m"

text \<open>The steps of a source are its sources, each with an expectation of its own.\<close>

lemma control_sources_steps:
  assumes "ordinary_control_steps ok db i source t = Some steps" "\<forall>x \<in> set steps. fst x"
    "m \<in> set (List.map_filter ct_source_issuance_id (issuance_controls db (is_ordinal i)))"
  shows "\<exists>ex'. (True, m, ex') \<in> set steps"
  using assms
  by (auto simp: ordinary_control_steps_def controls_by_role_def ordinary_control_matches_def control_source_def
      Let_def map_filter_def ex_disj_distrib split: sum.splits option.splits list.splits if_splits)

lemma proved_now_source:
  assumes "proved_now db n ex" "m \<in> set (lineage_sources db n)"
  shows "\<exists>ex'. proved_now db m ex' \<and> sc_organization_id (ex_target_scope ex') = sc_organization_id (ex_target_scope ex)
    \<and> ex_evaluated_at ex' = ex_evaluated_at ex"
  using assms(1)
proof cases
  case (now_verdict i source)
  from now_verdict(3) obtain a b where "source = Assignment a b" "board_assignment_is_current db i a b"
    by (auto simp: remaining_now_verdict)
  with sound_now_Some [OF now_verdict(1)] find_issuance_ordinal assms(2) board_assignment_represented(2)
  have False by (fastforce simp: lineage_sources_def map_filter_def)
  then show ?thesis ..
next
  case (now_steps i source steps)
  note i = sound_now_Some [OF now_steps(1)]
  have "\<exists>ex'. (True, m, ex') \<in> set steps"
  proof (cases "\<exists>g p. source = Grant g \<and> cg_delegated_from_id g = Some p")
    case True
    with i assms(2) now_steps(3) show ?thesis
      by (auto simp: lineage_sources_def remaining_now_def remaining_of_def delegated_step_def Let_def
          split: option.splits if_splits)
  next
    case False
    then have "ordinary_control_steps (principal_is_current db) db i source (ex_evaluated_at ex) = Some steps"
      using now_steps(3) by (auto simp: remaining_now_def remaining_of_def Let_def split: authority.splits option.splits if_splits)
    moreover have "m \<in> set (List.map_filter ct_source_issuance_id (issuance_controls db (is_ordinal i)))"
      using False i assms(2) find_issuance_ordinal
      by (auto simp: lineage_sources_def split: authority.splits option.splits)
    ultimately show ?thesis using control_sources_steps now_steps(4) by blast
  qed
  then obtain ex' where step: "(True, m, ex') \<in> set steps" by blast
  with now_steps(4) have "proved_now db m ex'" by fastforce
  with remaining_now_steps [OF now_steps(3) step] sound_now_organization [OF now_steps(1)] show ?thesis
    by (auto simp: scope_from_authority_def)
qed

lemma proved_now_rests_on:
  "rests_on db n m \<Longrightarrow> proved_now db n ex \<Longrightarrow>
   \<exists>ex'. proved_now db m ex' \<and> sc_organization_id (ex_target_scope ex') = sc_organization_id (ex_target_scope ex)
     \<and> ex_evaluated_at ex' = ex_evaluated_at ex"
  by (induction arbitrary: ex rule: rests_on.induct) (blast, metis proved_now_source)

text \<open>An issuance whose authority is in force by itself.\<close>

definition in_force :: "authority_db \<Rightarrow> uuid \<Rightarrow> instant \<Rightarrow> int \<Rightarrow> bool" where
  "in_force db organization t n \<longleftrightarrow>
     (case Option.bind (find_issuance db n) (issuance_authority db) of
        None \<Rightarrow> False
      | Some source \<Rightarrow>
          let w = authority_base source
          in aw_organization_id w = organization \<and> aw_revoked_at w = None \<and> aw_effective_from w \<le> t
             \<and> \<not> reached (aw_expires_at w) t \<and> principal_is_current db (aw_principal_id w)
             \<and> authority_scope_is_current db w)"

lemma proved_now_in_force:
  assumes "proved_now db n ex"
  shows "in_force db (sc_organization_id (ex_target_scope ex)) (ex_evaluated_at ex) n"
proof -
  from proved_now_sound [OF assms] obtain i source where s: "sound_now db n ex = Some (i, source)" by blast
  from sound_now_Some [OF s] sound_now_organization [OF s] show ?thesis
    by (auto simp: in_force_def source_matches_def horizon_is_covered_def Let_def split: if_splits)
qed

lemma proved_now_rests_in_force:
  "proved_now db n ex \<Longrightarrow> rests_on db n m \<Longrightarrow> in_force db (sc_organization_id (ex_target_scope ex)) (ex_evaluated_at ex) m"
  using proved_now_rests_on [of db n m ex] proved_now_in_force by metis

section \<open>Checks\<close>

lemma check_sound:
  "cache_sound db c \<Longrightarrow> sound_run db (check_current_python db at k c)
     (\<exists>ex. check_expectation k at = Some ex \<and> proved_now db (ck_issuance_ordinal k) ex)"
  using current_walk_sound(1) [of db c "[]" 0 "ck_issuance_ordinal k"]
  by (auto simp: check_current_python_def sound_run_def split: option.splits)

lemma batch_sound:
  "cache_sound db c \<Longrightarrow> j < length ks \<Longrightarrow> authority_issuances_are_current_python db at ks c ! j \<Longrightarrow>
     \<exists>ex. check_expectation (ks ! j) at = Some ex \<and> proved_now db (ck_issuance_ordinal (ks ! j)) ex"
proof (induction ks arbitrary: c j)
  case (Cons k ks)
  obtain v c' where r: "check_current_python db at k c = (v, c')" by fastforce
  with check_sound [OF Cons.prems(1), of at k] Cons show ?case
    by (cases j) (auto simp: sound_run_def)
qed simp

lemma check_expectation_Some:
  "check_expectation k at = Some ex \<Longrightarrow> \<exists>t. at = Typed t \<and> ex_evaluated_at ex = t
     \<and> sc_organization_id (ex_target_scope ex) = tg_organization_id (ck_target k)
     \<and> ex_principal_id ex = ck_principal_id k \<and> ex_capability_code ex = ck_capability_code k"
  by (auto simp: check_expectation_def scope_from_target_def scope_of_target_def
      split: option.splits typed.splits if_splits)

lemma is_current_sound:
  "authority_issuance_is_current db at k \<Longrightarrow>
     \<exists>ex. check_expectation k at = Some ex \<and> proved_now db (ck_issuance_ordinal k) ex"
  using batch_sound [of db empty_cache 0 "[k]" at]
  by (simp add: authority_issuance_is_current_def split: prod.splits)

end
