(* ===== verification/Policy_Engine.thy ===== *)
theory Policy_Engine
  imports Lineage_Validator
begin

text \<open>
  The policy engine: \<open>src/src/maru/authorization/policy.py\<close>. A decision takes a person, a capability and
  a sealed target and denies unless the code names a reason to allow: the own record of the person, the
  oversight of the platform, a direct grant or a role. Until the provenance cutover grants are judged by
  their delegation chain; after it every source must have a current exact lineage.
\<close>

section \<open>Terms and scopes of stored authority\<close>

definition active_at :: "instant \<Rightarrow> 'a authority_row_scheme \<Rightarrow> bool" where
  "active_at t w \<longleftrightarrow> aw_effective_from w \<le> t
     \<and> (case aw_expires_at w of None \<Rightarrow> True | Some e \<Rightarrow> t < e) \<and> aw_revoked_at w = None"

text \<open>\<open>_scope_filter\<close>: the scopes at or above the target, inside its organization.\<close>

definition scope_filter :: "ResolvedAuthorizationTarget \<Rightarrow> 'a authority_row_scheme \<Rightarrow> bool" where
  "scope_filter t w \<longleftrightarrow>
     aw_edition_id w = None \<and> aw_department_id w = None \<and> aw_resource_binding_id w = None
     \<or> tg_edition_id t \<noteq> None
       \<and> (aw_edition_id w = tg_edition_id t \<and> aw_department_id w = None \<and> aw_resource_binding_id w = None
         \<or> tg_department_id t \<noteq> None
           \<and> (aw_edition_id w = tg_edition_id t \<and> aw_department_id w = tg_department_id t
               \<and> aw_resource_binding_id w = None
             \<or> tg_resource_binding_id t \<noteq> None
               \<and> aw_edition_id w = tg_edition_id t \<and> aw_department_id w = tg_department_id t
               \<and> aw_resource_binding_id w = tg_resource_binding_id t))"

definition persistent_scope_is_valid :: "'a authority_row_scheme \<Rightarrow> bool" where
  "persistent_scope_is_valid w \<longleftrightarrow>
     (if aw_resource_binding_id w \<noteq> None then aw_department_id w \<noteq> None \<and> aw_edition_id w \<noteq> None
      else if aw_department_id w \<noteq> None then aw_edition_id w \<noteq> None else True)"

definition authority_scope_contains :: "'a authority_row_scheme \<Rightarrow> 'a authority_row_scheme \<Rightarrow> bool" where
  "authority_scope_contains parent child \<longleftrightarrow>
     (if \<not> persistent_scope_is_valid parent \<or> \<not> persistent_scope_is_valid child then False
      else scope_covers (scope_from_authority parent) (scope_from_authority child))"

section \<open>Delegation chains\<close>

text \<open>What a grant must be by itself, and towards the grant delegated from it.\<close>

definition chain_link_active :: "instant \<Rightarrow> CapabilityGrant \<Rightarrow> bool" where
  "chain_link_active t g \<longleftrightarrow>
     \<not> (t < aw_effective_from g \<or> reached (aw_expires_at g) t \<or> aw_revoked_at g \<noteq> None
        \<or> \<not> persistent_scope_is_valid g)"

definition chain_link_fits :: "CapabilityGrant \<Rightarrow> CapabilityGrant \<Rightarrow> bool" where
  "chain_link_fits parent child \<longleftrightarrow>
     cg_capability_code child = cg_capability_code parent \<and> authority_scope_contains parent child
     \<and> aw_granted_by_id child = aw_principal_id parent
     \<and> (case aw_expires_at parent of
          None \<Rightarrow> True
        | Some e \<Rightarrow> (case aw_expires_at child of None \<Rightarrow> False | Some e' \<Rightarrow> e' \<le> e))"

text \<open>
  The loop of \<open>grant_chain_is_active\<close>; \<open>seen\<close> stops it on a cycle. A grant that is not a row of the table
  has no parent to follow.
\<close>

definition parent_of :: "authority_db \<Rightarrow> CapabilityGrant \<Rightarrow> CapabilityGrant option" where
  "parent_of db g = Option.bind (cg_delegated_from_id g) (find_grant db)"

lemma parent_of_Some: "parent_of db g = Some p \<Longrightarrow> aw_id p \<in> aw_id ` set (db_grants db)"
  by (auto simp: parent_of_def find_grant_def bind_eq_Some_conv dest!: find_SomeD)

function chain_from :: "authority_db \<Rightarrow> instant \<Rightarrow> uuid list \<Rightarrow> CapabilityGrant option \<Rightarrow> CapabilityGrant \<Rightarrow> bool" where
  "chain_from db t seen child g =
     (if aw_id g \<in> set seen then False
      else if \<not> chain_link_active t g then False
      else if (case child of None \<Rightarrow> False | Some c \<Rightarrow> \<not> chain_link_fits g c) then False
      else (case parent_of db g of None \<Rightarrow> True | Some p \<Rightarrow> chain_from db t (aw_id g # seen) (Some g) p))"
  by pat_completeness auto

termination
proof (relation "measure (\<lambda>(db, t, seen, child, g).
    card (insert (aw_id g) (aw_id ` set (db_grants db)) - set seen))", goal_cases)
  case (2 db t seen child g p)
  have "insert (aw_id p) (aw_id ` set (db_grants db)) - set (aw_id g # seen)
      \<subset> insert (aw_id g) (aw_id ` set (db_grants db)) - set seen"
    using 2 parent_of_Some [of db g p] by auto
  then show ?case by (simp add: psubset_card_mono)
qed simp

declare chain_from.simps [simp del]

definition grant_chain_is_active :: "authority_db \<Rightarrow> instant \<Rightarrow> CapabilityGrant \<Rightarrow> bool" where
  "grant_chain_is_active db t g = chain_from db t [] None g"

section \<open>The provenance cutover\<close>

definition EXACT_LINEAGE_POLICY_CONTRACT_VERSION :: string where
  "EXACT_LINEAGE_POLICY_CONTRACT_VERSION = ''adr-0044-v1''"

definition EXACT_LINEAGE_POLICY_VERSION :: string where
  "EXACT_LINEAGE_POLICY_VERSION = ''2026-08-01.3''"

text \<open>Whether a cutover is on record, and whether it names the contract of this code.\<close>

definition exact_lineage_policy_state :: "authority_db \<Rightarrow> bool \<times> bool" where
  "exact_lineage_policy_state db =
     (case db_activation_marker db of
        None \<Rightarrow> (db_latch_generation db \<noteq> Some 0, False)
      | Some (contract_version, policy_version) \<Rightarrow>
          (True, db_latch_generation db = Some 1
             \<and> contract_version = EXACT_LINEAGE_POLICY_CONTRACT_VERSION
             \<and> policy_version = EXACT_LINEAGE_POLICY_VERSION))"

definition exact_lineage_policy_is_active :: "authority_db \<Rightarrow> bool" where
  "exact_lineage_policy_is_active db \<longleftrightarrow>
     fst (exact_lineage_policy_state db) \<and> snd (exact_lineage_policy_state db)"

text \<open>
  What surrounds an evaluation: the installed validator, the setting that requires exact provenance, and
  the clock, read when the caller passes no instant.
\<close>

record policy_env =
  pe_native :: native_validator
  pe_require_exact :: bool
  pe_now :: instant

definition point_check :: "uuid \<Rightarrow> string \<Rightarrow> ResolvedAuthorizationTarget \<Rightarrow> instant \<Rightarrow> int \<Rightarrow> AuthorityIssuanceCurrentCheck" where
  "point_check person capability_code resource t ordinal = \<lparr>ck_issuance_ordinal = ordinal,
     ck_principal_id = person, ck_capability_code = capability_code, ck_target = resource,
     ck_requested_effective_from = Typed t, ck_requested_expires_at = None, ck_horizon_mode = POINT_IN_TIME\<rparr>"

definition issuance_ordinal_of :: "authority_db \<Rightarrow> authority \<Rightarrow> int option" where
  "issuance_ordinal_of db source = map_option is_ordinal (case source of
     Grant g \<Rightarrow> issuance_for_grant db (aw_id g)
   | Assignment a b \<Rightarrow> find (\<lambda>i. is_role_assignment_id i = Some (aw_id a)) (db_issuances db))"

definition exact_issuance_allows ::
    "policy_env \<Rightarrow> authority_db \<Rightarrow> uuid \<Rightarrow> string \<Rightarrow> ResolvedAuthorizationTarget \<Rightarrow> instant \<Rightarrow> authority \<Rightarrow> bool" where
  "exact_issuance_allows env db person capability_code resource t source =
     (case issuance_ordinal_of db source of
        None \<Rightarrow> False
      | Some n \<Rightarrow>
          hd (authority_issuances_are_current (pe_native env) db (Typed t)
                [point_check person capability_code resource t n]))"

section \<open>Roles inside a profile\<close>

definition purpose_bounded_role_matches_target :: "ResolvedAuthorizationTarget \<Rightarrow> RoleBundle \<Rightarrow> bool" where
  "purpose_bounded_role_matches_target resource b \<longleftrightarrow>
     (if tg_edition_id resource = None then True
      else case (tg_adoption_profile_code resource, tg_adoption_profile_version resource) of
        (Some code, Some version) \<Rightarrow>
          if representation_definition_for_role (bn_code b) \<noteq> None
          then profile_allows_role code version (bn_code b)
          else profile_allows_capabilities code version (bn_capability_codes b)
      | _ \<Rightarrow> False)"

section \<open>The decision\<close>

definition denied :: "string \<Rightarrow> PolicyDecision" where
  "denied reason_code = \<lparr>pd_allowed = False, pd_fields = [], pd_obligations = [],
     pd_reason_code = reason_code, pd_policy_version = POLICY_VERSION\<rparr>"

definition allowed :: "Capability \<Rightarrow> string list \<Rightarrow> string \<Rightarrow> PolicyDecision" where
  "allowed d permitted reason_code = \<lparr>pd_allowed = True, pd_fields = permitted,
     pd_obligations = cap_obligations d, pd_reason_code = reason_code,
     pd_policy_version = POLICY_VERSION\<rparr>"

definition module_adopted :: "ResolvedAuthorizationTarget \<Rightarrow> string \<Rightarrow> bool" where
  "module_adopted resource capability_code \<longleftrightarrow>
     tg_edition_id resource = None
     \<or> (case (tg_adoption_profile_code resource, tg_adoption_profile_version resource) of
          (Some code, Some version) \<Rightarrow> profile_allows_capability code version capability_code
        | _ \<Rightarrow> False)"

definition permitted_fields :: "Capability \<Rightarrow> string list option \<Rightarrow> string list" where
  "permitted_fields d requested =
     (case requested of None \<Rightarrow> cap_field_ceiling d
      | Some fs \<Rightarrow> filter (\<lambda>f. f \<in> set fs) (cap_field_ceiling d))"

definition direct_grants ::
    "authority_db \<Rightarrow> uuid \<Rightarrow> string \<Rightarrow> ResolvedAuthorizationTarget \<Rightarrow> instant \<Rightarrow> CapabilityGrant list" where
  "direct_grants db person capability_code resource t =
     filter (\<lambda>g. active_at t g \<and> scope_filter resource g \<and> aw_organization_id g = tg_organization_id resource
       \<and> aw_principal_id g = person \<and> cg_capability_code g = capability_code) (db_grants db)"

definition matching_roles ::
    "authority_db \<Rightarrow> uuid \<Rightarrow> string \<Rightarrow> ResolvedAuthorizationTarget \<Rightarrow> instant
     \<Rightarrow> (RoleAssignment \<times> RoleBundle) list" where
  "matching_roles db person capability_code resource t =
     filter (\<lambda>(a, b). active_at t a \<and> scope_filter resource a \<and> aw_organization_id a = tg_organization_id resource
         \<and> aw_principal_id a = person \<and> capability_code \<in> set (bn_capability_codes b)
         \<and> purpose_bounded_role_matches_target resource b)
       (List.map_filter (\<lambda>a. map_option (\<lambda>b. (a, b)) (find_bundle db (ra_role_bundle_id a))) (db_assignments db))"

definition stored_authority ::
    "policy_env \<Rightarrow> authority_db \<Rightarrow> Account \<Rightarrow> string \<Rightarrow> Capability \<Rightarrow> ResolvedAuthorizationTarget
     \<Rightarrow> string list \<Rightarrow> instant \<Rightarrow> PolicyDecision" where
  "stored_authority env db person capability_code d resource permitted t =
     (let (marker_present, exact) = exact_lineage_policy_state db
      in if capability_code \<in> set GUIDANCE_PROTECTED_CAPABILITIES \<and> \<not> exact
         then denied ''guidance_purpose_authority_required''
         else if (marker_present \<or> pe_require_exact env) \<and> \<not> exact
         then denied ''authority_provenance_contract_invalid''
         else let holds = exact_issuance_allows env db (ac_id person) capability_code resource t
         in if (if exact
                then list_ex (\<lambda>g. holds (Grant g)) (direct_grants db (ac_id person) capability_code resource t)
                else list_ex (grant_chain_is_active db t) (direct_grants db (ac_id person) capability_code resource t))
            then allowed d permitted ''direct_grant''
            else if (if exact
                then list_ex (\<lambda>(a, b). holds (Assignment a b)) (matching_roles db (ac_id person) capability_code resource t)
                else matching_roles db (ac_id person) capability_code resource t \<noteq> [])
            then allowed d permitted ''role_assignment''
            else denied ''permission_absent'')"

definition decide ::
    "policy_env \<Rightarrow> authority_db \<Rightarrow> Account \<Rightarrow> string \<Rightarrow> ResolvedAuthorizationTarget typed
     \<Rightarrow> string list option \<Rightarrow> instant option \<Rightarrow> PolicyDecision" where
  "decide env db person capability_code presented requested at =
     (case capability capability_code of
        None \<Rightarrow> denied ''unknown_capability''
      | Some d \<Rightarrow>
          if \<not> ac_is_active person then denied ''account_inactive''
          else case presented of
            Untyped \<Rightarrow> denied ''target_unavailable''
          | Typed resource \<Rightarrow>
              if \<not> module_adopted resource capability_code then denied ''module_not_adopted''
              else let permitted = permitted_fields d requested
              in if cap_allow_self d \<and> tg_owner_account_id resource = Some (ac_id person)
                 then allowed d permitted ''self_relationship''
                 else if \<not> cap_persistable d then denied ''permission_absent''
                 else if is_platform_administrator person
                   \<and> capability_code \<in> set GUIDANCE_PROTECTED_CAPABILITIES
                 then denied ''guidance_purpose_authority_required''
                 else if is_platform_administrator person \<and> \<not> cap_allow_self d \<and> \<not> cap_requires_break_glass d
                 then allowed d permitted ''platform_administration''
                 else stored_authority env db person capability_code d resource permitted
                        (case at of Some t \<Rightarrow> t | None \<Rightarrow> pe_now env))"

section \<open>Decisions on identifiers\<close>

definition active_verified_principal :: "authority_db \<Rightarrow> uuid \<Rightarrow> Account option" where
  "active_verified_principal db person =
     find (\<lambda>a. ac_id a = person \<and> ac_is_active a \<and> ac_email_verified_at a \<noteq> None) (db_accounts db)"

definition active_verified_person_principal :: "authority_db \<Rightarrow> uuid \<Rightarrow> Account option" where
  "active_verified_person_principal db person =
     find (\<lambda>a. ac_id a = person \<and> ac_is_active a \<and> ac_email_verified_at a \<noteq> None
       \<and> ac_account_kind a = PERSON) (db_accounts db)"

fun presented_target :: "ResolvedAuthorizationTarget option \<Rightarrow> ResolvedAuthorizationTarget typed" where
  "presented_target None = Untyped"
| "presented_target (Some t) = Typed t"

definition decide_verified_principal_exact_edition ::
    "policy_env \<Rightarrow> authority_db \<Rightarrow> uuid \<Rightarrow> uuid \<Rightarrow> uuid \<Rightarrow> string \<Rightarrow> string list option \<Rightarrow> instant option
     \<Rightarrow> PolicyDecision" where
  "decide_verified_principal_exact_edition env db person organization edition capability_code requested at =
     (case active_verified_principal db person of
        None \<Rightarrow> denied ''account_inactive''
      | Some a \<Rightarrow> decide env db a capability_code
          (presented_target (resolve_edition_target db organization edition)) requested at)"

definition decide_verified_principal_exact_department ::
    "policy_env \<Rightarrow> authority_db \<Rightarrow> uuid \<Rightarrow> uuid \<Rightarrow> uuid \<Rightarrow> uuid \<Rightarrow> string \<Rightarrow> string list option \<Rightarrow> instant option
     \<Rightarrow> PolicyDecision" where
  "decide_verified_principal_exact_department env db person organization edition department capability_code
     requested at =
     (case active_verified_person_principal db person of
        None \<Rightarrow> denied ''account_inactive''
      | Some a \<Rightarrow> decide env db a capability_code
          (presented_target (resolve_department_target db organization edition department)) requested at)"

definition decide_verified_principal_exact_resource ::
    "policy_env \<Rightarrow> authority_db \<Rightarrow> uuid \<Rightarrow> uuid \<Rightarrow> uuid \<Rightarrow> uuid \<Rightarrow> uuid \<Rightarrow> string \<Rightarrow> string list option
     \<Rightarrow> instant option \<Rightarrow> PolicyDecision" where
  "decide_verified_principal_exact_resource env db person organization edition department binding
     capability_code requested at =
     (case active_verified_person_principal db person of
        None \<Rightarrow> denied ''account_inactive''
      | Some a \<Rightarrow> decide env db a capability_code
          (presented_target (resolve_resource_target db organization edition department binding)) requested at)"

definition decide_verified_principal_exact_self ::
    "policy_env \<Rightarrow> authority_db \<Rightarrow> uuid \<Rightarrow> uuid \<Rightarrow> uuid \<Rightarrow> uuid \<Rightarrow> string \<Rightarrow> string list option \<Rightarrow> instant option
     \<Rightarrow> PolicyDecision" where
  "decide_verified_principal_exact_self env db person owner organization edition capability_code requested at =
     (case active_verified_person_principal db person of
        None \<Rightarrow> denied ''account_inactive''
      | Some a \<Rightarrow> decide env db a capability_code
          (presented_target (if owner = ac_id a then resolve_self_target db (ac_id a) organization (Some edition)
             else None)) requested at)"

end
