(* ===== verification/Authority_Samples.thy ===== *)
theory Authority_Samples
  imports Lineage_Facts Policy_Engine
begin

text \<open>
  A small institution for the witnesses. The platform administrator 9 activated the Executive Board of
  organization 1 with the controllers 11 and 12. The controllers granted person 13 the view of editions
  in the whole organization, and 13 delegated that view inside edition 5 to person 14. Every row has its
  issuance, in the order in which the commands wrote them.
\<close>

definition sample_person :: "uuid \<Rightarrow> Account" where
  "sample_person i = \<lparr>ac_id = i, ac_account_kind = PERSON, ac_is_active = True, ac_email_verified_at = Some 1\<rparr>"

definition sample_appointment :: "uuid \<Rightarrow> uuid \<Rightarrow> uuid \<Rightarrow> RepresentationAppointment" where
  "sample_appointment i account assignment = \<lparr>pt_id = i, pt_representation_id = 20, pt_account_id = account,
     pt_role = CONTROLLER, pt_state = APP_ACTIVE, pt_responded_at = Some 9, pt_activated_at = Some 10,
     pt_ended_at = None, pt_role_assignment_id = Some assignment\<rparr>"

definition sample_membership :: "uuid \<Rightarrow> OrganizationMembership" where
  "sample_membership account = \<lparr>mb_organization_id = 1, mb_account_id = account, mb_state = MEM_ACTIVE,
     mb_relationship_label = ''Executive Board controller'', mb_started_at = Some 10, mb_ended_at = None\<rparr>"

definition sample_board :: RoleBundle where
  "sample_board = \<lparr>bn_id = 30, bn_organization_id = 1, bn_code = ''executive-board'', bn_name = ''Executive Board'',
     bn_version = 1, bn_capability_codes = EXECUTIVE_BOARD_CAPABILITIES, bn_created_by_id = Some 9,
     bn_approved_by_id = Some 11, bn_reason = ''founding''\<rparr>"

definition sample_term :: "uuid \<Rightarrow> uuid option \<Rightarrow> uuid \<Rightarrow> uuid \<Rightarrow> uuid option \<Rightarrow> instant \<Rightarrow> instant option \<Rightarrow> authority_row" where
  "sample_term i edition person granted_by approved_by from_at expires = \<lparr>aw_id = i, aw_organization_id = 1,
     aw_edition_id = edition, aw_department_id = None, aw_resource_binding_id = None, aw_principal_id = person,
     aw_effective_from = from_at, aw_expires_at = expires, aw_revoked_at = None, aw_granted_by_id = granted_by,
     aw_approved_by_id = approved_by, aw_reason = ''founding''\<rparr>"

definition sample_assignment :: "uuid \<Rightarrow> uuid \<Rightarrow> uuid \<Rightarrow> RoleAssignment" where
  "sample_assignment i person approver =
     authority_row.extend (sample_term i None person 9 (Some approver) 10 None) \<lparr>ra_role_bundle_id = 30\<rparr>"

definition sample_grant :: CapabilityGrant where
  "sample_grant = authority_row.extend (sample_term 41 None 13 11 (Some 12) 20 (Some 100))
     \<lparr>cg_capability_code = ''events.view_basic'', cg_delegated_from_id = None\<rparr>"

definition sample_delegated :: CapabilityGrant where
  "sample_delegated = authority_row.extend (sample_term 42 (Some 5) 14 13 None 30 (Some 90))
     \<lparr>cg_capability_code = ''events.view_basic'', cg_delegated_from_id = Some 41\<rparr>"

definition sample_issuance :: "int \<Rightarrow> instant \<Rightarrow> uuid option \<Rightarrow> uuid option \<Rightarrow> uuid option \<Rightarrow> AuthorityIssuance" where
  "sample_issuance n t grant bun assignment = \<lparr>is_ordinal = n, is_policy_version = ''v1'', is_evaluated_at = t,
     is_capability_grant_id = grant, is_role_bundle_id = bun, is_role_assignment_id = assignment\<rparr>"

text \<open>The two controls of the ceremony, and those of a grant.\<close>

definition ceremony_controls :: "int \<Rightarrow> uuid \<Rightarrow> uuid \<Rightarrow> AuthorityControl list" where
  "ceremony_controls n approver appointment =
     [\<lparr>ct_issuance_id = n, ct_role = ACTOR, ct_principal_id = 9, ct_basis = PLATFORM_REPRESENTATION_BOOTSTRAP,
        ct_source_issuance_id = None, ct_representation_id = Some 20, ct_appointment_id = None,
        ct_policy_version = ''v1'', ct_evaluated_at = 10\<rparr>,
      \<lparr>ct_issuance_id = n, ct_role = APPROVER, ct_principal_id = approver, ct_basis = REPRESENTATION_ACCEPTANCE,
        ct_source_issuance_id = None, ct_representation_id = None, ct_appointment_id = Some appointment,
        ct_policy_version = ''v1'', ct_evaluated_at = 10\<rparr>]"

definition ordinary_control :: "ControlRole \<Rightarrow> uuid \<Rightarrow> int \<Rightarrow> AuthorityControl" where
  "ordinary_control role person source = \<lparr>ct_issuance_id = 4, ct_role = role, ct_principal_id = person,
     ct_basis = PERSISTENT_AUTHORITY, ct_source_issuance_id = Some source, ct_representation_id = None,
     ct_appointment_id = None, ct_policy_version = ''v1'', ct_evaluated_at = 20\<rparr>"

definition sample_authority :: authority_db where
  "sample_authority = empty_authority\<lparr>
     db_accounts := \<lparr>ac_id = 9, ac_account_kind = PLATFORM_ADMINISTRATOR, ac_is_active = True,
         ac_email_verified_at = Some 1\<rparr> # map sample_person [11, 12, 13, 14],
     db_organizations := [\<lparr>og_id = 1, og_lifecycle = ORG_ACTIVE\<rparr>, \<lparr>og_id = 2, og_lifecycle = ORG_ACTIVE\<rparr>],
     db_editions := [\<lparr>ed_id = 5, ed_organization_id = 1, ed_series_organization_id = 1,
         ed_adoption_profile_code = ''full_convention'', ed_adoption_profile_version = 1\<rparr>],
     db_grants := [sample_grant, sample_delegated],
     db_bundles := [sample_board],
     db_assignments := [sample_assignment 31 11 12, sample_assignment 32 12 11],
     db_issuances := [sample_issuance 1 10 None (Some 30) None, sample_issuance 2 10 None None (Some 31),
         sample_issuance 3 10 None None (Some 32), sample_issuance 4 20 (Some 41) None None,
         sample_issuance 5 30 (Some 42) None None],
     db_controls := ceremony_controls 1 11 21 @ ceremony_controls 2 12 22 @ ceremony_controls 3 11 21
         @ [ordinary_control ACTOR 11 2, ordinary_control APPROVER 12 3],
     db_representations := [\<lparr>rp_id = 20, rp_organization_id = 1, rp_code = ''executive_board'',
         rp_name = ''Executive Board'', rp_state = REP_ACTIVE, rp_activated_by_id = Some 9,
         rp_activated_at = Some 10, rp_activation_reason = ''founding''\<rparr>],
     db_appointments := [sample_appointment 21 11 31, sample_appointment 22 12 32],
     db_memberships := [sample_membership 11, sample_membership 12],
     db_latch_generation := Some 1,
     db_activation_marker := Some (EXACT_LINEAGE_POLICY_CONTRACT_VERSION, EXACT_LINEAGE_POLICY_VERSION)\<rparr>"

definition sample_target :: ResolvedAuthorizationTarget where
  "sample_target = \<lparr>tg_organization_id = 1, tg_edition_id = Some 5, tg_department_id = None,
     tg_resource_binding_id = None, tg_owner_account_id = None,
     tg_adoption_profile_code = Some ''full_convention'', tg_adoption_profile_version = Some 1\<rparr>"

definition sample_check :: AuthorityIssuanceCurrentCheck where
  "sample_check = point_check 14 ''events.view_basic'' sample_target 50 5"

text \<open>
  The same institution after it set up Guidance in edition 6: the controllers issued the two recipes (6, 7),
  their seats as controllers of Guidance access (8, 9) and as operators (10, 11).
\<close>

definition guidance_bundle :: "uuid \<Rightarrow> string \<Rightarrow> string \<Rightarrow> string list \<Rightarrow> RoleBundle" where
  "guidance_bundle i code name codes = \<lparr>bn_id = i, bn_organization_id = 1, bn_code = code, bn_name = name,
     bn_version = 1, bn_capability_codes = codes, bn_created_by_id = Some 11, bn_approved_by_id = Some 12,
     bn_reason = ''founding''\<rparr>"

definition guidance_seat :: "uuid \<Rightarrow> uuid \<Rightarrow> uuid \<Rightarrow> uuid \<Rightarrow> RoleAssignment" where
  "guidance_seat i person approver bun =
     authority_row.extend (sample_term i (Some 6) person person (Some approver) 40 None) \<lparr>ra_role_bundle_id = bun\<rparr>"

definition guidance_controls :: "int \<Rightarrow> uuid \<Rightarrow> int \<Rightarrow> uuid \<Rightarrow> int \<Rightarrow> AuthorityControl list" where
  "guidance_controls n actor actor_source approver approver_source =
     [(ordinary_control ACTOR actor actor_source)\<lparr>ct_issuance_id := n, ct_evaluated_at := 40\<rparr>,
      (ordinary_control APPROVER approver approver_source)\<lparr>ct_issuance_id := n, ct_evaluated_at := 40\<rparr>]"

definition guidance_authority :: authority_db where
  "guidance_authority = sample_authority\<lparr>
     db_editions := db_editions sample_authority @ [\<lparr>ed_id = 6, ed_organization_id = 1, ed_series_organization_id = 1,
         ed_adoption_profile_code = ''guidance_only'', ed_adoption_profile_version = 1\<rparr>],
     db_bundles := [sample_board,
         guidance_bundle 61 ''guidance-access-controller'' ''Manage Guidance access'' [GUIDANCE_CONTROL_CAPABILITY],
         guidance_bundle 62 ''guidance-operator'' ''Guidance operator'' GUIDANCE_CONTENT_CAPABILITIES],
     db_assignments := db_assignments sample_authority @ [guidance_seat 51 11 12 61, guidance_seat 52 12 11 61,
         guidance_seat 53 11 12 62, guidance_seat 54 12 11 62],
     db_issuances := db_issuances sample_authority @ [sample_issuance 6 40 None (Some 61) None,
         sample_issuance 7 40 None (Some 62) None, sample_issuance 8 40 None None (Some 51),
         sample_issuance 9 40 None None (Some 52), sample_issuance 10 40 None None (Some 53),
         sample_issuance 11 40 None None (Some 54)],
     db_controls := db_controls sample_authority @ guidance_controls 6 11 2 12 3 @ guidance_controls 7 11 2 12 3
         @ guidance_controls 8 11 2 12 3 @ guidance_controls 9 12 3 11 2
         @ guidance_controls 10 11 8 12 9 @ guidance_controls 11 12 9 11 8,
     db_guidance_setups := [\<lparr>gs_id = 70, gs_activation_id = 71, gs_team_organization_id = 1, gs_team_edition_id = 6,
         gs_root_a_id = 2, gs_root_b_id = 3, gs_controller_a_id = 51, gs_controller_b_id = 52,
         gs_content_a_id = 53, gs_content_b_id = 54\<rparr>],
     db_guidance_recipes := [\<lparr>gp_setup_id = 70, gp_role_bundle_id = 61\<rparr>, \<lparr>gp_setup_id = 70, gp_role_bundle_id = 62\<rparr>],
     db_guidance_activation := (\<lambda>i. if i = 71 then Some \<lparr>ga_organization_id = 1, ga_edition_id = 6,
         ga_operator_a_id = 11, ga_operator_b_id = 12\<rparr> else None),
     db_guidance_plans := (\<lambda>i. if i = 71 then Some \<lparr>gn_organization_id = 1, gn_edition_id = 6,
         gn_operator_a_id = 11, gn_operator_b_id = 12\<rparr> else None)\<rparr>"

definition guidance_target :: ResolvedAuthorizationTarget where
  "guidance_target = sample_target\<lparr>tg_edition_id := Some 6, tg_adoption_profile_code := Some ''guidance_only''\<rparr>"

text \<open>A validator that does what the Python walk does, and a policy with it.\<close>

definition walk_validator :: native_validator where
  "walk_validator db n ex = fst (validate_issuance_current db [] 0 n ex empty_cache)"

definition sample_policy :: policy_env where
  "sample_policy = \<lparr>pe_native = walk_validator, pe_require_exact = True, pe_now = 50\<rparr>"

text \<open>The delegated view is current, and rests on the founding of the organization.\<close>

lemma sample_is_current: "authority_issuance_is_current sample_authority (Typed 50) sample_check"
  by code_simp

lemma sample_ordinal [simp]: "ck_issuance_ordinal sample_check = 5"
  by (simp add: sample_check_def point_check_def)

lemma sample_rests_on: "rests_on sample_authority 5 5" "rests_on sample_authority 5 4" "rests_on sample_authority 5 2"
proof -
  have a: "lineage_sources sample_authority 5 = [4]" by code_simp
  have b: "lineage_sources sample_authority 4 = [2, 3]" by code_simp
  show "rests_on sample_authority 5 5" by (rule itself)
  show "rests_on sample_authority 5 4" by (rule through [of 4]) (simp_all add: a itself)
  have "rests_on sample_authority 4 2" by (rule through [of 2]) (simp_all add: b itself)
  then show "rests_on sample_authority 5 2" by (rule through [rotated]) (simp add: a)
qed

lemma authority_rows:
  "find_issuance sample_authority 4 = Some (sample_issuance 4 20 (Some 41) None None)"
  "issuance_authority sample_authority (sample_issuance 4 20 (Some 41) None None) = Some (Grant sample_grant)"
  "find_issuance sample_authority 5 = Some (sample_issuance 5 30 (Some 42) None None)"
  "issuance_authority sample_authority (sample_issuance 5 30 (Some 42) None None) = Some (Grant sample_delegated)"
  by code_simp+

end
