(* ===== verification/Lineage_Props.thy ===== *)
theory Lineage_Props
  imports Authority_Samples
begin

text \<open>
  The properties of the lineage validator, each with its application to the institution of the samples.
  They rest on the soundness of the two walks: what a current issuance says about its organization,
  about everything it rests on, about the people who issued it and about delegation.
\<close>

section \<open>Shared facts\<close>

text \<open>An issuance through which a person holds a capability over the whole scope and term of \<open>w\<close>.\<close>

definition holds_over :: "authority_db \<Rightarrow> int \<Rightarrow> uuid \<Rightarrow> string \<Rightarrow> 'a authority_row_scheme \<Rightarrow> bool" where
  "holds_over db n person capability_code w \<longleftrightarrow>
     (case Option.bind (find_issuance db n) (issuance_authority db) of
        None \<Rightarrow> False
      | Some source \<Rightarrow>
          let s = authority_base source
          in aw_principal_id s = person \<and> source_has_capability source capability_code
             \<and> scope_contains (scope_from_authority s) (scope_from_authority w)
             \<and> aw_effective_from s \<le> aw_effective_from w \<and> aw_revoked_at s = None
             \<and> (case aw_expires_at s of
                  None \<Rightarrow> True
                | Some e \<Rightarrow> (case aw_expires_at w of None \<Rightarrow> False | Some e' \<Rightarrow> e' \<le> e)))"

definition is_undelegated :: "authority \<Rightarrow> bool" where
  "is_undelegated source \<longleftrightarrow>
     (case source of Grant g \<Rightarrow> cg_delegated_from_id g = None | Assignment a b \<Rightarrow> \<not> is_representation_role b)"

lemma proved_holds_over:
  "proved_now db n (expects_term person capability_code w t) \<Longrightarrow> holds_over db n person capability_code w"
  by (auto simp: holds_over_def source_matches_def horizon_is_covered_def end_is_covered_def Let_def
      dest!: proved_now_sound sound_now_Some split: if_splits option.splits)

text \<open>Everything a current issuance rests on has a derivation at the same instant.\<close>

lemma current_rests_on:
  assumes "authority_issuance_is_current db at k" "rests_on db (ck_issuance_ordinal k) m"
  obtains t ex where "at = Typed t" "proved_now db m ex" "ex_evaluated_at ex = t"
    "sc_organization_id (ex_target_scope ex) = tg_organization_id (ck_target k)"
  using is_current_sound [OF assms(1)] proved_now_rests_on [OF assms(2)] check_expectation_Some [of k at]
  by metis

lemma proved_now_unfold:
  assumes "proved_now db n ex" "find_issuance db n = Some i" "issuance_authority db i = Some source"
  obtains "remaining_now db i source (ex_evaluated_at ex) = Verdict True"
  | steps where "remaining_now db i source (ex_evaluated_at ex) = Steps steps" "steps_proved (proved_now db) steps"
  using assms by (auto elim!: proved_now.cases dest!: sound_now_Some)

lemma remaining_undelegated:
  assumes "is_undelegated source" "remaining_now db i source t = Steps steps"
  shows "ordinary_control_steps (principal_is_current db) db i source t = Some steps"
  using assms by (auto simp: remaining_now_def remaining_of_def is_undelegated_def Let_def
      split: authority.splits option.splits if_splits)

lemma verdict_not_undelegated: "remaining_now db i source t = Verdict True \<Longrightarrow> \<not> is_undelegated source"
  by (auto simp: remaining_now_verdict is_undelegated_def)

lemma control_steps_proved:
  assumes "ordinary_control_steps ok db i source t = Some steps" "steps_proved (proved_now db) steps"
  shows "\<exists>code approver a b. required_target_control_capability db (Authority source) = Inr code
    \<and> aw_approved_by_id (authority_base source) = Some approver
    \<and> approver \<noteq> aw_granted_by_id (authority_base source) \<and> approver \<noteq> aw_principal_id (authority_base source)
    \<and> a < is_ordinal i \<and> b < is_ordinal i
    \<and> proved_now db a (expects_term (aw_granted_by_id (authority_base source)) code (authority_base source) t)
    \<and> proved_now db b (expects_term approver code (authority_base source) t)"
  using assms
  by (auto simp: ordinary_control_steps_def ordinary_control_matches_def control_source_def Let_def
      split: sum.splits option.splits if_splits prod.splits) blast

section \<open>Soundness\<close>

text \<open>
  C29. Every yes of a batch of lineage checks is justified by a finite derivation of its own: the issuance
  and all it names exist and meet the expectations put on them, down to an accepted representation
  ceremony. Neither the verdicts shared between the checks of the batch nor cycles in the rows can
  produce a yes without one.
\<close>

theorem lineage_batch_is_sound:
  assumes "j < length ks" "authority_issuances_are_current_python db at ks empty_cache ! j"
  shows "\<exists>ex. check_expectation (ks ! j) at = Some ex \<and> proved_now db (ck_issuance_ordinal (ks ! j)) ex"
  using batch_sound [OF empty_cache_sound assms] .

theorem lineage_batch_is_sound_witness:
  "\<exists>ex. check_expectation ([sample_check, sample_check] ! 1) (Typed 50) = Some ex \<and> proved_now sample_authority 5 ex"
proof -
  have "authority_issuances_are_current_python sample_authority (Typed 50) [sample_check, sample_check] empty_cache ! 1"
    by code_simp
  from lineage_batch_is_sound [OF _ this] show ?thesis by (simp add: sample_check_def point_check_def)
qed

section \<open>What it rests on\<close>

text \<open>
  C30. Suspension, revocation, expiry and deactivation cascade. An authority is current only in an organization
  that is active and whose accountable representation is active now: activated by a platform administrator,
  with a controller who is in office and whose account is active. Every issuance that it rests on, through any
  number of delegations and controls, is in force itself: not revoked, begun, not expired, in the same
  organization and a scope that still exists, and held by an active person.
\<close>

theorem current_authority_rests_on_current:
  assumes "authority_issuance_is_current db (Typed t) k" "rests_on db (ck_issuance_ordinal k) m"
  shows "organization_is_represented db (tg_organization_id (ck_target k))
    \<and> in_force db (tg_organization_id (ck_target k)) t m"
proof -
  from is_current_sound [OF assms(1)] check_expectation_Some [of k "Typed t"]
  have "organization_is_represented db (tg_organization_id (ck_target k))" by (metis proved_now_represented)
  with current_rests_on [OF assms] proved_now_in_force show ?thesis by (metis typed.inject)
qed

theorem current_authority_rests_on_current_witness:
  "organization_is_represented sample_authority 1 \<and> in_force sample_authority 1 50 2"
  using current_authority_rests_on_current [OF sample_is_current, unfolded sample_ordinal, OF sample_rests_on(3)]
  by (simp add: sample_check_def point_check_def sample_target_def)

section \<open>Two people\<close>

text \<open>
  C31. Dual control. Every grant and role on the lineage that was not delegated, and is not the seat of a
  representative, was issued by one person and approved by another, who is not its recipient; each of
  them holds the control capability that the target asks for, over its whole scope and term, by an older
  issuance that is in force.
\<close>

theorem current_authority_has_two_controllers:
  assumes "authority_issuance_is_current db at k" "rests_on db (ck_issuance_ordinal k) m"
    and "find_issuance db m = Some i" "issuance_authority db i = Some source" "is_undelegated source"
  shows "\<exists>code approver a b. required_target_control_capability db (Authority source) = Inr code
    \<and> aw_approved_by_id (authority_base source) = Some approver
    \<and> approver \<noteq> aw_granted_by_id (authority_base source) \<and> approver \<noteq> aw_principal_id (authority_base source)
    \<and> a < m \<and> b < m
    \<and> holds_over db a (aw_granted_by_id (authority_base source)) code (authority_base source)
    \<and> holds_over db b approver code (authority_base source)"
proof -
  from current_rests_on [OF assms(1,2)] obtain ex where p: "proved_now db m ex" by blast
  from p assms(3,4) obtain steps where "remaining_now db i source (ex_evaluated_at ex) = Steps steps"
      "steps_proved (proved_now db) steps"
    by (cases rule: proved_now_unfold) (use assms(5) verdict_not_undelegated in blast)+
  with control_steps_proved [OF remaining_undelegated [OF assms(5)]] find_issuance_ordinal [OF assms(3)]
  show ?thesis by (meson proved_holds_over)
qed

theorem current_authority_has_two_controllers_witness:
  "\<exists>code approver a b. required_target_control_capability sample_authority (Authority (Grant sample_grant)) = Inr code
    \<and> aw_approved_by_id (authority_base (Grant sample_grant)) = Some approver
    \<and> approver \<noteq> aw_granted_by_id (authority_base (Grant sample_grant))
    \<and> approver \<noteq> aw_principal_id (authority_base (Grant sample_grant)) \<and> a < 4 \<and> b < 4
    \<and> holds_over sample_authority a (aw_granted_by_id (authority_base (Grant sample_grant))) code (authority_base (Grant sample_grant))
    \<and> holds_over sample_authority b approver code (authority_base (Grant sample_grant))"
  using current_authority_has_two_controllers [OF sample_is_current, unfolded sample_ordinal,
      OF sample_rests_on(2) authority_rows(1,2)] by (simp add: is_undelegated_def sample_grant_def authority_row.defs)

section \<open>Delegation\<close>

text \<open>
  C32. A delegated grant on the lineage is bounded by what it was delegated from: the grantor holds that
  capability himself, in a scope that contains the one delegated and for a term that begins no later and
  ends no earlier. It has no controls of its own.
\<close>

theorem delegated_authority_is_bounded:
  assumes "authority_issuance_is_current db at k" "rests_on db (ck_issuance_ordinal k) m"
    and "find_issuance db m = Some i" "issuance_authority db i = Some (Grant g)"
    and "cg_delegated_from_id g = Some parent"
  shows "issuance_controls db m = []
    \<and> (\<exists>p. issuance_for_grant db parent = Some p
         \<and> holds_over db (is_ordinal p) (aw_granted_by_id g) (cg_capability_code g) g)"
proof -
  from current_rests_on [OF assms(1,2)] obtain ex where "proved_now db m ex" by blast
  from this assms(3,4) show ?thesis
  proof (cases rule: proved_now_unfold)
    case 1
    then show ?thesis by (simp add: remaining_now_verdict)
  next
    case (2 steps)
    with assms(5) find_issuance_ordinal [OF assms(3)] show ?thesis
      by (auto simp: remaining_now_def remaining_of_def delegated_step_def Let_def dest: proved_holds_over
          split: option.splits if_splits)
  qed
qed

theorem delegated_authority_is_bounded_witness:
  "issuance_controls sample_authority 5 = []
    \<and> (\<exists>p. issuance_for_grant sample_authority 41 = Some p
         \<and> holds_over sample_authority (is_ordinal p) (aw_granted_by_id sample_delegated)
             (cg_capability_code sample_delegated) sample_delegated)"
  using delegated_authority_is_bounded [OF sample_is_current, unfolded sample_ordinal,
      OF sample_rests_on(1) authority_rows(3,4), of 41] by (simp add: sample_delegated_def authority_row.defs)

end
