(* ===== verification/Policy_Props.thy ===== *)
theory Policy_Props
  imports Authority_Samples
begin

text \<open>
  The properties of the policy engine: a decision is exactly
  the entitlement of the person, what a decision discloses, where protected and stored authority may come
  from, and what the loop over a delegation chain decides.
\<close>

section \<open>The catalogue\<close>

text \<open>
  What a person has over himself is never stored, and is nothing of access control, Guidance or
  announcements.
\<close>

lemma catalog_self:
  "list_all (\<lambda>d. if cap_allow_self d
     then \<not> cap_persistable d \<and> module_of_code (cap_code d) \<notin> set [''authorization'', ''knowledge'', ''announcements'']
     else cap_persistable d) CAPABILITY_DEFINITIONS"
  by code_simp

lemma capability_in_catalog: "capability code = Some d \<Longrightarrow> d \<in> set CAPABILITY_DEFINITIONS \<and> cap_code d = code"
  by (auto simp: capability_def dest!: find_SomeD)

lemma capability_self:
  assumes "capability code = Some d"
  shows "cap_persistable d \<longleftrightarrow> \<not> cap_allow_self d"
    and "cap_allow_self d \<Longrightarrow> module_of_code code \<notin> set [''authorization'', ''knowledge'', ''announcements'']"
  using catalog_self capability_in_catalog [OF assms] by (auto simp: list_all_iff simp del: list.set split: if_splits)

lemma protected_not_self:
  "capability code = Some d \<Longrightarrow> code \<in> set GUIDANCE_PROTECTED_CAPABILITIES \<Longrightarrow> \<not> cap_allow_self d"
  using capability_self(2) [of code d]
  by (auto simp: GUIDANCE_PROTECTED_CAPABILITIES_def GUIDANCE_CONTENT_CAPABILITIES_def GUIDANCE_CONTROL_CAPABILITY_def
      module_of_code_def)

section \<open>Entitlement\<close>

text \<open>
  The stored authority of a person: a row of the tables that names the person and the capability, is in
  force and lies at or above the target. Before the cutover a grant also needs its delegation chain, and
  nothing protected is stored; after it the row needs a current lineage.
\<close>

definition stored_entitlement ::
    "policy_env \<Rightarrow> authority_db \<Rightarrow> uuid \<Rightarrow> string \<Rightarrow> ResolvedAuthorizationTarget \<Rightarrow> instant \<Rightarrow> bool" where
  "stored_entitlement env db person code resource t \<longleftrightarrow>
     (if exact_lineage_policy_is_active db
      then (\<exists>g \<in> set (direct_grants db person code resource t). exact_issuance_allows env db person code resource t (Grant g))
         \<or> (\<exists>(a, b) \<in> set (matching_roles db person code resource t).
              exact_issuance_allows env db person code resource t (Assignment a b))
      else code \<notin> set GUIDANCE_PROTECTED_CAPABILITIES \<and> \<not> fst (exact_lineage_policy_state db) \<and> \<not> pe_require_exact env
         \<and> ((\<exists>g \<in> set (direct_grants db person code resource t). grant_chain_is_active db t g)
            \<or> matching_roles db person code resource t \<noteq> []))"

text \<open>
  What entitles a person to a capability over a target: the target is the person's own record and the
  capability is one that people have over themselves; or the platform's oversight; or stored authority.
\<close>

definition entitled ::
    "policy_env \<Rightarrow> authority_db \<Rightarrow> Account \<Rightarrow> string \<Rightarrow> ResolvedAuthorizationTarget \<Rightarrow> instant \<Rightarrow> bool" where
  "entitled env db person code resource t \<longleftrightarrow>
     (\<exists>d \<in> set CAPABILITY_DEFINITIONS. cap_code d = code \<and> capability code = Some d
        \<and> ac_is_active person \<and> module_adopted resource code
        \<and> (if cap_allow_self d then tg_owner_account_id resource = Some (ac_id person)
           else if is_platform_administrator person
           then code \<notin> set GUIDANCE_PROTECTED_CAPABILITIES
             \<and> (\<not> cap_requires_break_glass d \<or> stored_entitlement env db (ac_id person) code resource t)
           else stored_entitlement env db (ac_id person) code resource t))"

lemma exact_state: "exact_lineage_policy_is_active db \<longleftrightarrow> snd (exact_lineage_policy_state db)"
  by (auto simp: exact_lineage_policy_is_active_def exact_lineage_policy_state_def split: option.splits)

lemma stored_authority_allowed:
  "pd_allowed (stored_authority env db person code d resource permitted t) \<longleftrightarrow>
     stored_entitlement env db (ac_id person) code resource t"
  unfolding stored_authority_def stored_entitlement_def exact_state
  by (cases "exact_lineage_policy_state db") (simp add: denied_def allowed_def Let_def list_ex_iff case_prod_beta)

lemma decide_allowed:
  "pd_allowed (decide env db person code presented requested at) \<longleftrightarrow>
     (\<exists>resource. presented = Typed resource
        \<and> entitled env db person code resource (case at of Some t \<Rightarrow> t | None \<Rightarrow> pe_now env))"
proof (cases "capability code")
  case None
  then show ?thesis by (simp add: decide_def denied_def entitled_def)
next
  case (Some d)
  have d: "d \<in> set CAPABILITY_DEFINITIONS" "cap_code d = code" and p: "cap_persistable d \<longleftrightarrow> \<not> cap_allow_self d"
    using capability_in_catalog [OF Some] capability_self(1) [OF Some] by auto
  have e: "entitled env db person code resource t \<longleftrightarrow> ac_is_active person \<and> module_adopted resource code
        \<and> (if cap_allow_self d then tg_owner_account_id resource = Some (ac_id person)
           else if is_platform_administrator person
           then code \<notin> set GUIDANCE_PROTECTED_CAPABILITIES
             \<and> (\<not> cap_requires_break_glass d \<or> stored_entitlement env db (ac_id person) code resource t)
           else stored_entitlement env db (ac_id person) code resource t)" for resource t
    using Some d by (auto simp: entitled_def)
  show ?thesis
    by (cases presented; cases "cap_allow_self d")
      (simp_all add: decide_def Some p e denied_def allowed_def Let_def stored_authority_allowed)
qed

text \<open>
  C33. Deny by default. A decision allows exactly when the person is entitled: whatever is not in the
  catalogue, on a target that was not resolved, outside the adopted modules or without one of the three
  grounds is denied, whatever the order in which the code asks.
\<close>

theorem decide_refines_entitlement:
  "pd_allowed (decide env db person code presented requested at) \<longleftrightarrow>
     (\<exists>resource. presented = Typed resource
        \<and> entitled env db person code resource (case at of Some t \<Rightarrow> t | None \<Rightarrow> pe_now env))"
  by (rule decide_allowed)

section \<open>Disclosure\<close>

definition shaped :: "Capability \<Rightarrow> string list \<Rightarrow> PolicyDecision \<Rightarrow> bool" where
  "shaped d permitted decision \<longleftrightarrow> (\<exists>r. decision = allowed d permitted r) \<or> (\<exists>r. decision = denied r)"

lemma shaped_simps [simp]: "shaped d permitted (allowed d permitted r)" "shaped d permitted (denied r)"
  by (auto simp: shaped_def)

lemma stored_authority_shaped [simp]: "shaped d permitted (stored_authority env db person code d resource permitted t)"
  by (simp add: stored_authority_def Let_def case_prod_beta)

lemma decide_shaped:
  "capability code = Some d \<Longrightarrow> shaped d (permitted_fields d requested) (decide env db person code presented requested at)"
  by (simp add: decide_def Let_def split: typed.split)

lemma decide_unknown: "capability code = None \<Longrightarrow> decide env db person code presented requested at = denied ''unknown_capability''"
  by (simp add: decide_def)

text \<open>
  C34. A denial discloses nothing and obliges to nothing. An allowance names exactly the fields of the
  capability's ceiling that were asked for, and carries the obligations of the capability.
\<close>

theorem decide_discloses_within_ceiling:
  "let decision = decide env db person code presented requested at
   in if pd_allowed decision
      then \<exists>d \<in> set CAPABILITY_DEFINITIONS. cap_code d = code \<and> pd_obligations decision = cap_obligations d
        \<and> set (pd_fields decision) = {f \<in> set (cap_field_ceiling d). requested = None \<or> (\<exists>fs. requested = Some fs \<and> f \<in> set fs)}
      else pd_fields decision = [] \<and> pd_obligations decision = []"
proof (cases "capability code")
  case (Some d)
  from capability_in_catalog [OF Some] decide_shaped [OF Some, of requested env db person presented at] show ?thesis
    by (auto simp: shaped_def Let_def allowed_def denied_def permitted_fields_def split: option.splits intro!: bexI [of _ d])
qed (simp add: decide_unknown Let_def denied_def)

section \<open>Protected capabilities\<close>

lemma exact_issuance_native:
  "exact_issuance_allows env db person code resource t source \<Longrightarrow>
     \<exists>n ex. issuance_ordinal_of db source = Some n \<and> pe_native env db n ex \<and> ex_principal_id ex = person
       \<and> ex_capability_code ex = code \<and> ex_evaluated_at ex = t \<and> ex_target_scope ex = scope_of_target resource
       \<and> scope_is_current db (scope_of_target resource)"
  by (auto simp: exact_issuance_allows_def authority_issuances_are_current_def check_current_database_def
      check_expectation_def point_check_def scope_from_target_def split: option.splits if_splits)

text \<open>
  C35. A protected Guidance capability is never had by ownership, by the platform's oversight or before the
  cutover. Whoever is allowed one holds a row in force whose issuance the installed validator confirmed for
  exactly this person, capability, target and instant, and the target exists.
\<close>

theorem protected_capability_needs_lineage:
  assumes "code \<in> set GUIDANCE_PROTECTED_CAPABILITIES"
    and "pd_allowed (decide env db person code (Typed resource) requested (Some t))"
  shows "exact_lineage_policy_is_active db \<and> \<not> is_platform_administrator person
    \<and> (\<exists>source n ex. issuance_ordinal_of db source = Some n \<and> pe_native env db n ex
        \<and> ex_principal_id ex = ac_id person \<and> ex_capability_code ex = code \<and> ex_evaluated_at ex = t
        \<and> ex_target_scope ex = scope_of_target resource \<and> scope_is_current db (scope_of_target resource))"
proof -
  from assms(2) obtain d where d: "capability code = Some d"
    by (auto simp: decide_allowed entitled_def)
  from assms d protected_not_self [OF d assms(1)] have person: "\<not> is_platform_administrator person"
    and stored: "stored_entitlement env db (ac_id person) code resource t"
    by (auto simp: decide_allowed entitled_def split: if_splits)
  from stored assms(1) have exact: "exact_lineage_policy_is_active db"
    by (auto simp: stored_entitlement_def split: if_splits)
  with stored obtain source where "exact_issuance_allows env db (ac_id person) code resource t source"
    by (auto simp: stored_entitlement_def)
  with exact_issuance_native person exact show ?thesis by blast
qed

lemma guidance_decision:
  "decide sample_policy guidance_authority (sample_person 11) (GUIDANCE_CONTENT_CAPABILITIES ! 3)
     (Typed guidance_target) None (Some 50)
   = \<lparr>pd_allowed = True, pd_fields = [''review''], pd_obligations = [''audit''],
       pd_reason_code = ''role_assignment'', pd_policy_version = POLICY_VERSION\<rparr>"
  by code_simp

lemma guidance_allowed:
  "pd_allowed (decide sample_policy guidance_authority (sample_person 11) (GUIDANCE_CONTENT_CAPABILITIES ! 3)
     (Typed guidance_target) None (Some 50))"
  by (simp only: guidance_decision PolicyDecision.simps)

lemma guidance_protected: "GUIDANCE_CONTENT_CAPABILITIES ! 3 \<in> set GUIDANCE_PROTECTED_CAPABILITIES"
  by (simp add: GUIDANCE_PROTECTED_CAPABILITIES_def GUIDANCE_CONTENT_CAPABILITIES_def)

theorem protected_capability_needs_lineage_witness:
  "exact_lineage_policy_is_active guidance_authority \<and> \<not> is_platform_administrator (sample_person 11)"
  using protected_capability_needs_lineage [OF guidance_protected guidance_allowed] by blast

section \<open>Stored authority\<close>

definition is_stored :: "authority_db \<Rightarrow> authority \<Rightarrow> bool" where
  "is_stored db source \<longleftrightarrow>
     (case source of
        Grant g \<Rightarrow> g \<in> set (db_grants db)
      | Assignment a b \<Rightarrow> a \<in> set (db_assignments db) \<and> find_bundle db (ra_role_bundle_id a) = Some b)"

text \<open>A row of the tables that holds the capability for the person, in force, at or above the target.\<close>

definition row_entitles ::
    "authority_db \<Rightarrow> uuid \<Rightarrow> string \<Rightarrow> ResolvedAuthorizationTarget \<Rightarrow> instant \<Rightarrow> authority \<Rightarrow> bool" where
  "row_entitles db person code resource t source \<longleftrightarrow>
     is_stored db source \<and> source_has_capability source code
     \<and> aw_principal_id (authority_base source) = person \<and> active_at t (authority_base source)
     \<and> scope_covers (scope_from_authority (authority_base source)) (scope_of_target resource)"

lemma scope_filter_covers:
  "scope_filter resource w \<Longrightarrow> aw_organization_id w = tg_organization_id resource \<Longrightarrow>
   scope_covers (scope_from_authority w) (scope_of_target resource)"
  by (auto simp: scope_filter_def scope_covers_def scope_from_authority_def scope_of_target_def)

lemma active_truncate [simp]: "active_at t (authority_row.truncate w) = active_at t w"
  by (simp add: active_at_def)

lemma direct_grants_entitle:
  "g \<in> set (direct_grants db person code resource t) \<Longrightarrow> row_entitles db person code resource t (Grant g)"
  by (auto simp: direct_grants_def row_entitles_def is_stored_def scope_filter_covers)

lemma matching_roles_entitle:
  "(a, b) \<in> set (matching_roles db person code resource t) \<Longrightarrow>
   row_entitles db person code resource t (Assignment a b) \<and> purpose_bounded_role_matches_target resource b"
  by (auto simp: matching_roles_def row_entitles_def is_stored_def scope_filter_covers List.map_filter_def)

lemma stored_entitlement_row:
  assumes "stored_entitlement env db person code resource t"
  shows "\<exists>source. row_entitles db person code resource t source
    \<and> (case source of Grant g \<Rightarrow> True | Assignment a b \<Rightarrow> purpose_bounded_role_matches_target resource b)
    \<and> (if exact_lineage_policy_is_active db then exact_issuance_allows env db person code resource t source
       else case source of Grant g \<Rightarrow> grant_chain_is_active db t g | Assignment a b \<Rightarrow> True)"
proof -
  have some: "xs \<noteq> [] \<Longrightarrow> \<exists>a b. (a, b) \<in> set xs" for xs :: "(RoleAssignment \<times> RoleBundle) list"
    by (cases xs) auto
  from assms consider (grant) g where "g \<in> set (direct_grants db person code resource t)"
      "if exact_lineage_policy_is_active db then exact_issuance_allows env db person code resource t (Grant g)
       else grant_chain_is_active db t g"
    | (role) a b where "(a, b) \<in> set (matching_roles db person code resource t)"
      "exact_lineage_policy_is_active db \<Longrightarrow> exact_issuance_allows env db person code resource t (Assignment a b)"
    by (auto simp: stored_entitlement_def dest!: some split: if_splits)
  then show ?thesis
  proof cases
    case (grant g)
    with direct_grants_entitle show ?thesis by (intro exI [of _ "Grant g"]) (simp split: if_splits)
  next
    case (role a b)
    with matching_roles_entitle show ?thesis by (intro exI [of _ "Assignment a b"]) (simp split: if_splits)
  qed
qed

definition stored_reason :: "PolicyDecision \<Rightarrow> bool" where
  "stored_reason decision \<longleftrightarrow> pd_reason_code decision \<in> {''direct_grant'', ''role_assignment''}"

lemma decide_stored:
  assumes "pd_allowed (decide env db person code (Typed resource) requested (Some t))"
    "stored_reason (decide env db person code (Typed resource) requested (Some t))"
  shows "stored_entitlement env db (ac_id person) code resource t"
  using assms by (auto simp: decide_def Let_def stored_reason_def denied_def allowed_def
      dest: stored_authority_allowed [THEN iffD1] split: option.splits if_splits)

lemma row_organization:
  "row_entitles db person code resource t source \<Longrightarrow>
   aw_organization_id (authority_base source) = tg_organization_id resource"
  by (simp add: row_entitles_def scope_covers_def scope_from_authority_def scope_of_target_def split: if_splits)

lemma guidance_reason:
  "stored_reason (decide sample_policy guidance_authority (sample_person 11) (GUIDANCE_CONTENT_CAPABILITIES ! 3)
     (Typed guidance_target) None (Some 50))"
  by (simp add: stored_reason_def guidance_decision)

lemma guidance_sample [simp]: "ac_id (sample_person i) = i" "tg_organization_id guidance_target = 1"
  by (simp_all add: sample_person_def guidance_target_def sample_target_def)

text \<open>
  C36. Tenants do not mix. A decision that allows by a grant or a role rests on a row of the tables that names
  this person and this capability, is in force at the instant, belongs to the organization of the target and
  lies at or above it; inside an edition a role counts only when the profile of the edition admits it.
\<close>

theorem stored_authority_is_tenant_bound:
  assumes "pd_allowed (decide env db person code (Typed resource) requested (Some t))"
    and "stored_reason (decide env db person code (Typed resource) requested (Some t))"
  shows "\<exists>source. row_entitles db (ac_id person) code resource t source
    \<and> aw_organization_id (authority_base source) = tg_organization_id resource
    \<and> (case source of Grant g \<Rightarrow> True | Assignment a b \<Rightarrow> purpose_bounded_role_matches_target resource b)"
  using stored_entitlement_row [OF decide_stored [OF assms]] row_organization by blast

theorem stored_authority_is_tenant_bound_witness:
  "\<exists>source. row_entitles guidance_authority 11 (GUIDANCE_CONTENT_CAPABILITIES ! 3) guidance_target 50 source
    \<and> aw_organization_id (authority_base source) = 1
    \<and> (case source of Grant g \<Rightarrow> True | Assignment a b \<Rightarrow> purpose_bounded_role_matches_target guidance_target b)"
  using stored_authority_is_tenant_bound [OF guidance_allowed guidance_reason] by (simp only: guidance_sample)

section \<open>Delegation chains\<close>

text \<open>
  A chain that holds: finitely many grants up to one that was not delegated, each in force and each fitting
  the one delegated from it.
\<close>

definition fits_child :: "CapabilityGrant option \<Rightarrow> CapabilityGrant \<Rightarrow> bool" where
  "fits_child child g \<longleftrightarrow> (case child of None \<Rightarrow> True | Some c \<Rightarrow> chain_link_fits g c)"

inductive chain_holds :: "authority_db \<Rightarrow> instant \<Rightarrow> CapabilityGrant option \<Rightarrow> CapabilityGrant \<Rightarrow> bool"
  for db t where
  chain_root: "\<lbrakk>chain_link_active t g; fits_child child g; parent_of db g = None\<rbrakk> \<Longrightarrow> chain_holds db t child g"
| chain_up: "\<lbrakk>chain_link_active t g; fits_child child g; parent_of db g = Some p; chain_holds db t (Some g) p\<rbrakk>
    \<Longrightarrow> chain_holds db t child g"

inductive height :: "authority_db \<Rightarrow> CapabilityGrant \<Rightarrow> nat \<Rightarrow> bool" for db where
  height_root: "parent_of db g = None \<Longrightarrow> height db g 0"
| height_up: "parent_of db g = Some p \<Longrightarrow> height db p n \<Longrightarrow> height db g (Suc n)"

lemma height_unique: "height db g n \<Longrightarrow> height db g m \<Longrightarrow> m = n"
proof (induction arbitrary: m rule: height.induct)
  case (height_root g)
  from height_root(2,1) show ?case by cases auto
next
  case (height_up g p n)
  from height_up(4,1,3) show ?case by cases auto
qed

lemma chain_holds_height: "chain_holds db t child g \<Longrightarrow> \<exists>n. height db g n"
  by (induction rule: chain_holds.induct) (blast intro: height.intros)+

lemma parent_row:
  assumes "parent_of db g = Some p" shows "find_grant db (aw_id p) = Some p"
proof -
  from assms obtain x where x: "find_grant db x = Some p" by (auto simp: parent_of_def bind_eq_Some_conv)
  then have "aw_id p = x" by (auto simp: find_grant_def dest!: find_SomeD)
  with x show ?thesis by simp
qed

lemma chain_from_holds: "chain_from db t seen child g \<Longrightarrow> chain_holds db t child g"
proof (induction db t seen child g rule: chain_from.induct)
  case (1 db t seen child g)
  from "1.prems" "1.IH" show ?case
    by (subst (asm) chain_from.simps)
      (auto simp: fits_child_def split: if_splits option.splits intro: chain_root chain_up)
qed

text \<open>On a chain that holds, the heights descend, so that no grant is met twice.\<close>

lemma chain_holds_from:
  assumes "chain_holds db t child g" "height db g n" "find_grant db (aw_id g) = Some g"
    "\<forall>x \<in> set seen. \<exists>g' m. find_grant db x = Some g' \<and> height db g' m \<and> n < m"
  shows "chain_from db t seen child g"
  using assms
proof (induction arbitrary: n seen rule: chain_holds.induct)
  case (chain_root g child)
  then have "aw_id g \<notin> set seen" using height_unique by fastforce
  with chain_root show ?case by (subst chain_from.simps) (auto simp: fits_child_def split: option.splits)
next
  case (chain_up g child p)
  then have "aw_id g \<notin> set seen" using height_unique by fastforce
  moreover from chain_up.prems(1) chain_up.hyps(3) obtain m where m: "height db p m" "n = Suc m" by cases auto
  have "\<forall>x \<in> set (aw_id g # seen). \<exists>g' k. find_grant db x = Some g' \<and> height db g' k \<and> m < k"
    using chain_up.prems m(2) by (metis Suc_lessD lessI set_ConsD)
  then have "chain_from db t (aw_id g # seen) (Some g) p"
    by (rule chain_up.IH [OF m(1) parent_row [OF chain_up.hyps(3)]])
  ultimately show ?case using chain_up.hyps
    by (subst chain_from.simps) (auto simp: fits_child_def split: option.splits)
qed

text \<open>
  C39. The loop over a delegation chain decides exactly whether the chain holds: it always ends, also on rows
  that delegate in a circle, and its memory of the grants it has seen refuses no chain that holds.
\<close>

theorem grant_chain_exact:
  assumes "find_grant db (aw_id g) = Some g"
  shows "grant_chain_is_active db t g \<longleftrightarrow> chain_holds db t None g"
  unfolding grant_chain_is_active_def
proof
  assume "chain_holds db t None g"
  moreover from chain_holds_height [OF this] obtain n where "height db g n" by blast
  ultimately show "chain_from db t [] None g" by (rule chain_holds_from) (simp_all add: assms)
qed (rule chain_from_holds)

theorem grant_chain_exact_witness:
  "grant_chain_is_active sample_authority 50 sample_delegated \<longleftrightarrow> chain_holds sample_authority 50 None sample_delegated"
  by (rule grant_chain_exact) code_simp

text \<open>The grants from which a grant was delegated, over any number of steps.\<close>

inductive delegated_from :: "authority_db \<Rightarrow> CapabilityGrant \<Rightarrow> CapabilityGrant \<Rightarrow> bool" for db where
  delegated_self: "delegated_from db g g"
| delegated_up: "parent_of db g = Some p \<Longrightarrow> delegated_from db p q \<Longrightarrow> delegated_from db g q"

definition expires_within :: "CapabilityGrant \<Rightarrow> CapabilityGrant \<Rightarrow> bool" where
  "expires_within g p \<longleftrightarrow>
     (case aw_expires_at p of None \<Rightarrow> True | Some e \<Rightarrow> (case aw_expires_at g of None \<Rightarrow> False | Some e' \<Rightarrow> e' \<le> e))"

lemma expires_within_trans: "expires_within g p \<Longrightarrow> expires_within p q \<Longrightarrow> expires_within g q"
  by (auto simp: expires_within_def split: option.splits)

lemma chain_link_active_at: "chain_link_active t g \<Longrightarrow> active_at t g"
  by (auto simp: chain_link_active_def active_at_def reached_def split: option.splits)

lemma chain_holds_active: "chain_holds db t child g \<Longrightarrow> active_at t g"
  by (auto elim: chain_holds.cases dest: chain_link_active_at)

lemma chain_ancestors:
  "delegated_from db g q \<Longrightarrow> chain_holds db t child g \<Longrightarrow>
     active_at t q \<and> cg_capability_code q = cg_capability_code g \<and> aw_organization_id q = aw_organization_id g
     \<and> expires_within g q"
proof (induction arbitrary: child rule: delegated_from.induct)
  case (delegated_self g)
  then show ?case by (auto simp: chain_holds_active expires_within_def split: option.splits)
next
  case (delegated_up g p q)
  from delegated_up.prems delegated_up.hyps(1) have p: "chain_holds db t (Some g) p" by cases auto
  then have "chain_link_fits p g" by cases (auto simp: fits_child_def)
  then have "cg_capability_code p = cg_capability_code g" "aw_organization_id p = aw_organization_id g" "expires_within g p"
    by (auto simp: chain_link_fits_def authority_scope_contains_def scope_covers_def scope_from_authority_def
        expires_within_def split: if_splits)
  with delegated_up.IH [OF p] show ?case by (auto intro: expires_within_trans)
qed

text \<open>
  Before the cutover revocation cascades along delegation: a grant counts only while every grant it was
  delegated from, over any number of steps, is in force for the same capability in the same organization,
  and it never outlives one of them.
\<close>

theorem delegation_cascades:
  assumes "grant_chain_is_active db t g" "delegated_from db g q"
  shows "active_at t q \<and> cg_capability_code q = cg_capability_code g \<and> aw_organization_id q = aw_organization_id g
    \<and> expires_within g q"
  using chain_ancestors [OF assms(2) chain_from_holds] assms(1) by (simp add: grant_chain_is_active_def)

theorem delegation_cascades_witness:
  "active_at 50 sample_grant \<and> cg_capability_code sample_grant = cg_capability_code sample_delegated
    \<and> aw_organization_id sample_grant = aw_organization_id sample_delegated \<and> expires_within sample_delegated sample_grant"
proof (rule delegation_cascades)
  show "grant_chain_is_active sample_authority 50 sample_delegated" by code_simp
  have "parent_of sample_authority sample_delegated = Some sample_grant" by code_simp
  then show "delegated_from sample_authority sample_delegated sample_grant"
    by (rule delegated_up) (rule delegated_self)
qed

end
