(* ===== verification/Announcement_Authority.thy ===== *)
theory Announcement_Authority
  imports Announcement_Scope Policy_Props
begin

text \<open>
  The announcement commands with the policy engine. \<open>Announcement_Scope\<close> takes the decision of the policy
  engine as an argument; here it is the engine itself, asked the way
  \<open>src/src/maru/announcements/authorization.py\<close> asks it.
\<close>

definition engine_policy :: "policy_env \<Rightarrow> authority_db \<Rightarrow> policy" where
  "engine_policy env db person organization edition capability_code required =
     decide_verified_principal_exact_edition env db person organization edition capability_code (Some required) None"

lemma announcement_not_self:
  "map_of CAPABILITY_FIELDS code = Some fs \<Longrightarrow> capability code = Some d \<Longrightarrow> \<not> cap_allow_self d"
  using capability_self(2) [of code d] by (auto simp: CAPABILITY_FIELDS_def module_of_code_def split: if_splits)

lemma entitled_stored:
  "entitled env db person code resource t \<Longrightarrow> (\<And>d. capability code = Some d \<Longrightarrow> \<not> cap_allow_self d) \<Longrightarrow>
   ac_is_active person \<and> module_adopted resource code
   \<and> (is_platform_administrator person \<or> stored_entitlement env db (ac_id person) code resource t)"
  by (auto simp: entitled_def split: if_splits)

lemma verified_principal_Some:
  "active_verified_principal db person = Some a \<Longrightarrow>
   a \<in> set (db_accounts db) \<and> ac_id a = person \<and> ac_is_active a \<and> has_verified_email a"
  by (auto simp: active_verified_principal_def has_verified_email_def dest!: find_SomeD)

text \<open>
  C40. Whoever passes the authorization of an announcement request has an active account with a verified
  address, acts in an edition that belongs to the organization of the request and whose profile adopts the
  capability, and is a platform administrator or holds the capability by a row that is in force in that
  organization, at or above the edition.
\<close>

theorem announcement_authority_grounded:
  assumes "authorize_announcements_scope (engine_policy env db) sd rq code requested = Inr scope"
  shows "\<exists>a resource. a \<in> set (db_accounts db) \<and> ac_id a = rq_actor_id rq \<and> ac_is_active a \<and> has_verified_email a
    \<and> resolve_edition_target db (rq_organization_id rq) (rq_edition_id rq) = Some resource
    \<and> module_adopted resource code
    \<and> (is_platform_administrator a
       \<or> (\<exists>source. row_entitles db (rq_actor_id rq) code resource (pe_now env) source))"
proof -
  from authorized_scope(5,6) [OF assms] obtain fs fields where fs: "map_of CAPABILITY_FIELDS code = Some fs"
    and "pd_allowed (engine_policy env db (rq_actor_id rq) (rq_organization_id rq) (rq_edition_id rq) code fields)"
    by metis
  then obtain a resource where a: "active_verified_principal db (rq_actor_id rq) = Some a"
    and r: "resolve_edition_target db (rq_organization_id rq) (rq_edition_id rq) = Some resource"
    and e: "entitled env db a code resource (pe_now env)"
    by (cases "resolve_edition_target db (rq_organization_id rq) (rq_edition_id rq)")
      (auto simp: engine_policy_def decide_verified_principal_exact_edition_def denied_def decide_allowed
        split: option.splits)
  have "ac_is_active a \<and> module_adopted resource code
      \<and> (is_platform_administrator a \<or> stored_entitlement env db (ac_id a) code resource (pe_now env))"
    by (rule entitled_stored [OF e]) (rule announcement_not_self [OF fs])
  with verified_principal_Some [OF a] r stored_entitlement_row [of env db "ac_id a" code resource "pe_now env"]
  show ?thesis by metis
qed

text \<open>Person 13 may write the announcements of edition 7 by a grant of the controllers.\<close>

definition writing_authority :: authority_db where
  "writing_authority = sample_authority\<lparr>
     db_editions := [\<lparr>ed_id = 7, ed_organization_id = 1, ed_series_organization_id = 1,
         ed_adoption_profile_code = ''announcements_only'', ed_adoption_profile_version = 1\<rparr>],
     db_grants := [authority_row.extend (sample_term 43 (Some 7) 13 11 (Some 12) 40 None)
         \<lparr>cg_capability_code = ''announcements.compose'', cg_delegated_from_id = None\<rparr>],
     db_issuances := db_issuances sample_authority @ [sample_issuance 6 40 (Some 43) None None],
     db_controls := db_controls sample_authority @ guidance_controls 6 11 2 12 3\<rparr>"

definition writing_scope :: scope_db where
  "writing_scope = \<lparr>sd_organizations = [1], sd_series = [(2, 1)], sd_editions = [\<lparr>er_id = 7, er_organization_id = 1,
     er_series_id = 2, er_series_organization_id = 1, er_adoption_profile_code = ''announcements_only'',
     er_adoption_profile_version = 1, er_aggregate_version = 1, er_lifecycle = ''live'', er_language_codes = [''en''],
     er_time_zone = ''UTC'', er_organization_lifecycle = ''active'', er_series_is_active = True\<rparr>]\<rparr>"

definition writing_request :: AnnouncementCommandRequest where
  "writing_request = \<lparr>rq_actor_id = 13, rq_organization_id = 1, rq_edition_id = 7, rq_correlation_id = 5,
     rq_idempotency_key = 6, rq_source_channel = ''web''\<rparr>"

lemma writing_authorized:
  "case authorize_announcements_scope (engine_policy sample_policy writing_authority) writing_scope writing_request
      ''announcements.compose'' [] of Inl e \<Rightarrow> False | Inr s \<Rightarrow> True"
  by code_simp

theorem announcement_authority_grounded_witness:
  "\<exists>a resource. a \<in> set (db_accounts writing_authority) \<and> ac_id a = rq_actor_id writing_request
    \<and> ac_is_active a \<and> has_verified_email a
    \<and> resolve_edition_target writing_authority (rq_organization_id writing_request) (rq_edition_id writing_request) = Some resource
    \<and> module_adopted resource ''announcements.compose''
    \<and> (is_platform_administrator a
       \<or> (\<exists>source. row_entitles writing_authority (rq_actor_id writing_request) ''announcements.compose'' resource
            (pe_now sample_policy) source))"
proof -
  from writing_authorized obtain scope where "authorize_announcements_scope (engine_policy sample_policy writing_authority)
      writing_scope writing_request ''announcements.compose'' [] = Inr scope"
    by (auto split: sum.splits)
  from announcement_authority_grounded [OF this] show ?thesis .
qed

end
