(* ===== verification/Native_Validator.thy ===== *)
theory Native_Validator
  imports Lineage_Validator
begin

text \<open>
  The validator that runs inside PostgreSQL: \<open>maru_authority_issuance_valid_v1\<close> and
  \<open>maru_authority_bundle_historical_v1\<close> of
  \<open>src/src/maru/authorization/migrations/0007_authority_provenance_activation_guards.py\<close> with the scope
  functions they call, in the text that later migrations leave installed: 0039, 0042 and 0044 copy the
  ceremony block for three more representations, and 0046 adds the Guidance functions and asks them in
  the two loops over controls. A query for one row is \<open>find\<close>, \<open>FOUND\<close> is \<open>Some\<close>, and \<open>RETURN FALSE\<close> in a
  guard is the branch that ends. A comparison with a null is unknown, \<open>None\<close>, and an \<open>IF\<close> whose condition is
  unknown is not taken.
\<close>

section \<open>Scopes\<close>

definition native_scope_is_current :: "authority_db \<Rightarrow> scope \<Rightarrow> bool" where
  "native_scope_is_current db s \<longleftrightarrow>
     (let organization = sc_organization_id s
      in if \<not> list_ex (\<lambda>r. og_id r = organization) (db_organizations db) then False
         else case sc_edition_id s of
           None \<Rightarrow> sc_department_id s = None \<and> sc_resource_binding_id s = None
         | Some e \<Rightarrow>
             if \<not> list_ex (\<lambda>r. ed_id r = e \<and> ed_organization_id r = organization) (db_editions db) then False
             else case sc_department_id s of
               None \<Rightarrow> sc_resource_binding_id s = None
             | Some d \<Rightarrow>
                 if \<not> list_ex (\<lambda>r. dp_id r = d \<and> dp_organization_id r = organization \<and> dp_edition_id r = e)
                       (db_departments db) then False
                 else case sc_resource_binding_id s of
                   None \<Rightarrow> True
                 | Some b \<Rightarrow> list_ex (\<lambda>r. rb_id r = b \<and> rb_organization_id r = organization
                     \<and> rb_edition_id r = e \<and> rb_department_id r = d) (db_bindings db))"

text \<open>Comparison of columns that may be null, and conjunction, in three values.\<close>

definition sql_eq :: "'a option \<Rightarrow> 'a option \<Rightarrow> bool option" where
  "sql_eq x y = (case (x, y) of (Some a, Some b) \<Rightarrow> Some (a = b) | _ \<Rightarrow> None)"

definition sql_and :: "bool option \<Rightarrow> bool option \<Rightarrow> bool option" where
  "sql_and p q = (if p = Some False \<or> q = Some False then Some False
     else if p = None \<or> q = None then None else Some True)"

definition sql_not :: "bool option \<Rightarrow> bool option" where
  "sql_not p = map_option Not p"

definition native_scope_contains :: "authority_db \<Rightarrow> scope \<Rightarrow> scope \<Rightarrow> bool option" where
  "native_scope_contains db source target =
     (if sc_organization_id source \<noteq> sc_organization_id target \<or> \<not> native_scope_is_current db source
        \<or> \<not> native_scope_is_current db target then Some False
      else if sc_resource_binding_id source \<noteq> None
      then sql_eq (sc_resource_binding_id source) (sc_resource_binding_id target)
      else if sc_department_id source \<noteq> None
      then sql_and (sql_eq (sc_edition_id source) (sc_edition_id target))
             (sql_eq (sc_department_id source) (sc_department_id target))
      else if sc_edition_id source \<noteq> None then sql_eq (sc_edition_id source) (sc_edition_id target)
      else Some True)"

text \<open>\<open>IF \<dots> OR NOT p THEN RETURN FALSE\<close>: the guard stops the function only when \<open>NOT p\<close> is true.\<close>

definition stops :: "bool option \<Rightarrow> bool" where
  "stops condition \<longleftrightarrow> condition = Some True"

text \<open>\<open>v !~ '[^[:space:]]'\<close>\<close>

definition blank :: "string \<Rightarrow> bool" where
  "blank v \<longleftrightarrow> list_all (\<lambda>c. (of_char c :: nat) \<in> {9, 10, 11, 12, 13, 32}) v"

section \<open>Guidance\<close>

datatype target_kind = CAPABILITY_GRANT | ROLE_BUNDLE | ROLE_ASSIGNMENT

definition native_recipe :: "string \<Rightarrow> (string \<times> string list) option" where
  "native_recipe code = map_of
     [(''guidance-access-controller'', (''Manage Guidance access'', [''authorization.manage_guidance_access''])),
      (''guidance-operator'', (''Guidance operator'',
        [''knowledge.view_current'', ''knowledge.view_working'', ''knowledge.compose'', ''knowledge.review'',
         ''knowledge.withdraw'', ''knowledge.manage_settings'', ''knowledge.export_evidence''])),
      (''guidance-reader'', (''Read approved Guidance'', [''knowledge.view_current''])),
      (''guidance-editor'', (''Write Guidance'',
        [''knowledge.view_current'', ''knowledge.view_working'', ''knowledge.compose''])),
      (''guidance-reviewer'', (''Review Guidance'',
        [''knowledge.view_current'', ''knowledge.view_working'', ''knowledge.review'']))] code"

definition native_purpose_capabilities :: "string list" where
  "native_purpose_capabilities =
     [''authorization.manage_guidance_access'', ''knowledge.view_current'', ''knowledge.view_working'',
      ''knowledge.compose'', ''knowledge.review'', ''knowledge.withdraw'', ''knowledge.manage_settings'',
      ''knowledge.export_evidence'']"

definition native_bundle_control :: "target_kind \<Rightarrow> RoleBundle \<Rightarrow> string" where
  "native_bundle_control kind b =
     (if native_recipe (bn_code b) = None
        \<and> \<not> list_ex (\<lambda>c. c \<in> set native_purpose_capabilities) (bn_capability_codes b)
      then ''authorization.manage_roles''
      else if kind = ROLE_BUNDLE \<or> bn_code b = ''guidance-access-controller''
      then ''organizations.manage_representation'' else ''authorization.manage_guidance_access'')"

definition native_required_control :: "authority_db \<Rightarrow> target_kind \<Rightarrow> uuid \<Rightarrow> string" where
  "native_required_control db kind i =
     (case kind of
        CAPABILITY_GRANT \<Rightarrow>
          (case find_grant db i of
             None \<Rightarrow> ''guidance.target_unavailable''
           | Some g \<Rightarrow>
               if cg_capability_code g = ''authorization.manage_guidance_access''
                 \<or> take 10 (cg_capability_code g) = ''knowledge.''
               then ''guidance.direct_grants_forbidden'' else ''authorization.grant_direct'')
      | ROLE_BUNDLE \<Rightarrow>
          (case find_bundle db i of
             None \<Rightarrow> ''guidance.target_unavailable'' | Some b \<Rightarrow> native_bundle_control kind b)
      | ROLE_ASSIGNMENT \<Rightarrow>
          (case find_assignment db i of
             None \<Rightarrow> ''guidance.target_unavailable'' | Some (a, b) \<Rightarrow> native_bundle_control kind b))"

definition native_recipe_matches :: "RoleBundle \<Rightarrow> bool" where
  "native_recipe_matches b \<longleftrightarrow>
     (case native_recipe (bn_code b) of
        None \<Rightarrow> False
      | Some (name, codes) \<Rightarrow> bn_name b = name \<and> bn_version b = 1 \<and> bn_capability_codes b = codes)"

text \<open>The accepted plan of a setup, when it belongs to the team of the setup and to the organization.\<close>

definition native_plan ::
    "authority_db \<Rightarrow> GuidanceAuthoritySetupReceipt \<Rightarrow> RoleBundle \<Rightarrow> GuidanceActivationRequest option" where
  "native_plan db s b =
     Option.bind (db_guidance_plans db (gs_activation_id s)) (\<lambda>plan.
       if gs_team_organization_id s \<noteq> gn_organization_id plan \<or> gs_team_edition_id s \<noteq> gn_edition_id plan
         \<or> bn_organization_id b \<noteq> gn_organization_id plan then None else Some plan)"

definition native_bundle_source :: "authority_db \<Rightarrow> RoleBundle \<Rightarrow> ControlRole \<Rightarrow> int option" where
  "native_bundle_source db b role =
     Option.bind (bundle_setup db b) (\<lambda>s.
     Option.bind (native_plan db s b) (\<lambda>plan.
       if bn_created_by_id b \<noteq> Some (gn_operator_a_id plan) \<or> bn_approved_by_id b \<noteq> Some (gn_operator_b_id plan)
       then None else Some (if role = ACTOR then gs_root_a_id s else gs_root_b_id s)))"

definition native_setup_source ::
    "authority_db \<Rightarrow> GuidanceAuthoritySetupReceipt \<Rightarrow> RoleAssignment \<Rightarrow> RoleBundle \<Rightarrow> ControlRole \<Rightarrow> int option" where
  "native_setup_source db s a b role =
     Option.bind (native_plan db s b) (\<lambda>plan.
       let is_a = aw_id a \<in> {gs_controller_a_id s, gs_content_a_id s};
           own = if is_a then gn_operator_a_id plan else gn_operator_b_id plan;
           other = if is_a then gn_operator_b_id plan else gn_operator_a_id plan;
           first = is_a \<and> role = ACTOR \<or> \<not> is_a \<and> role = APPROVER
       in if aw_organization_id a \<noteq> gn_organization_id plan \<or> aw_edition_id a \<noteq> Some (gn_edition_id plan)
            \<or> aw_expires_at a \<noteq> None \<or> aw_principal_id a \<noteq> own \<or> aw_granted_by_id a \<noteq> aw_principal_id a
            \<or> aw_approved_by_id a \<noteq> Some other then None
          else if aw_id a \<in> {gs_controller_a_id s, gs_controller_b_id s} then
            if bn_code b \<noteq> ''guidance-access-controller'' then None
            else Some (if first then gs_root_a_id s else gs_root_b_id s)
          else if bn_code b \<noteq> ''guidance-operator'' then None
          else assignment_ordinal db (if first then gs_controller_a_id s else gs_controller_b_id s))"

definition native_decision_source :: "authority_db \<Rightarrow> RoleAssignment \<Rightarrow> ControlRole \<Rightarrow> int option" where
  "native_decision_source db a role =
     Option.bind (find (\<lambda>d. gd_assignment_id d = Some (aw_id a) \<and> gd_accepted d) (db_guidance_decisions db)) (\<lambda>d.
       let r = gd_request d
       in if gd_actor_id d \<noteq> gx_approver_id r \<or> gd_request_digest d \<noteq> gx_request_digest r
            \<or> gx_decision_deadline r < gd_created_at d \<or> aw_organization_id a \<noteq> gx_organization_id r
            \<or> aw_edition_id a \<noteq> Some (gx_edition_id r) \<or> aw_principal_id a \<noteq> gx_recipient_id r
            \<or> aw_granted_by_id a \<noteq> gx_requested_by_id r \<or> aw_approved_by_id a \<noteq> Some (gx_approver_id r)
            \<or> ra_role_bundle_id a \<noteq> gx_role_bundle_id r \<or> aw_effective_from a \<noteq> gx_effective_from r
            \<or> aw_expires_at a \<noteq> gx_expires_at r \<or> aw_reason a \<noteq> gx_reason r then None
          else Some (if role = ACTOR then gx_actor_source_id r else gx_approver_source_id r))"

text \<open>0 when any source will do, \<open>None\<close> when none does.\<close>

definition native_expected_source :: "authority_db \<Rightarrow> target_kind \<Rightarrow> uuid \<Rightarrow> ControlRole \<Rightarrow> int option" where
  "native_expected_source db kind i role =
     (if native_required_control db kind i \<in> {''authorization.grant_direct'', ''authorization.manage_roles''}
      then Some 0
      else case kind of
        CAPABILITY_GRANT \<Rightarrow> None
      | ROLE_BUNDLE \<Rightarrow>
          Option.bind (find_bundle db i) (\<lambda>b.
            if \<not> native_recipe_matches b then None else native_bundle_source db b role)
      | ROLE_ASSIGNMENT \<Rightarrow>
          Option.bind (find_assignment db i) (\<lambda>(a, b).
            if aw_edition_id a = None \<or> aw_department_id a \<noteq> None \<or> aw_resource_binding_id a \<noteq> None then None
            else if \<not> native_recipe_matches b then None
            else case assignment_setup db a of
              Some s \<Rightarrow> native_setup_source db s a b role
            | None \<Rightarrow> if bn_code b = ''guidance-access-controller'' then None
                      else native_decision_source db a role))"

definition native_source_allowed :: "authority_db \<Rightarrow> target_kind \<Rightarrow> uuid \<Rightarrow> AuthorityControl \<Rightarrow> bool" where
  "native_source_allowed db kind i c \<longleftrightarrow>
     (case native_expected_source db kind i (ct_role c) of
        None \<Rightarrow> False | Some n \<Rightarrow> n = 0 \<or> ct_source_issuance_id c = Some n)"

section \<open>Controls\<close>

text \<open>The counts over the controls of an issuance, and its two rows in the order of their roles.\<close>

definition native_two_controls :: "authority_db \<Rightarrow> int \<Rightarrow> bool" where
  "native_two_controls db n \<longleftrightarrow>
     (let cs = issuance_controls db n
      in length cs = 2 \<and> length (filter (\<lambda>c. ct_role c = ACTOR) cs) = 1
         \<and> length (filter (\<lambda>c. ct_role c = APPROVER) cs) = 1 \<and> card (set (map ct_principal_id cs)) = 2)"

definition native_controls :: "authority_db \<Rightarrow> int \<Rightarrow> AuthorityControl list" where
  "native_controls db n = filter (\<lambda>c. ct_role c = ACTOR) (issuance_controls db n)
     @ filter (\<lambda>c. ct_role c = APPROVER) (issuance_controls db n)"

definition native_person :: "bool \<Rightarrow> authority_db \<Rightarrow> uuid \<Rightarrow> bool" where
  "native_person require_current db person \<longleftrightarrow>
     (case find_account db person of
        None \<Rightarrow> False
      | Some a \<Rightarrow> ac_account_kind a = PERSON \<and> (require_current \<longrightarrow> ac_is_active a))"

text \<open>What the loops ask of a control before they ask about its source.\<close>

definition native_control_matches :: "AuthorityIssuance \<Rightarrow> AuthorityControl \<Rightarrow> uuid \<Rightarrow> bool" where
  "native_control_matches i c expected \<longleftrightarrow>
     ct_principal_id c = expected \<and> ct_basis c = PERSISTENT_AUTHORITY
     \<and> (case ct_source_issuance_id c of None \<Rightarrow> False | Some s \<Rightarrow> s < is_ordinal i)
     \<and> ct_representation_id c = None \<and> ct_appointment_id c = None
     \<and> ct_policy_version c = is_policy_version i \<and> ct_evaluated_at c = is_evaluated_at i"

section \<open>The representation ceremony\<close>

text \<open>The block of the Executive Board, and the words in which its three copies differ.\<close>

record native_root =
  nr_role_code :: string
  nr_role_name :: string
  nr_code :: string
  nr_label :: string
  nr_capabilities :: "string list"

definition native_roots :: "native_root list" where
  "native_roots =
     [\<lparr>nr_role_code = ''maru-operators'', nr_role_name = ''Maru operators'', nr_code = ''maru_operators'',
       nr_label = ''Maru operator'', nr_capabilities = MARU_OPERATOR_CAPABILITIES\<rparr>,
      \<lparr>nr_role_code = ''announcements-operators'', nr_role_name = ''Announcements operators'',
       nr_code = ''announcements_operators'', nr_label = ''Announcements operator'',
       nr_capabilities = ANNOUNCEMENTS_OPERATOR_CAPABILITIES\<rparr>,
      \<lparr>nr_role_code = ''workspace-operators'', nr_role_name = ''Workspace operators'',
       nr_code = ''workspace_operators'', nr_label = ''Workspace operator'',
       nr_capabilities = WORKSPACE_OPERATOR_CAPABILITIES\<rparr>,
      \<lparr>nr_role_code = ''executive-board'', nr_role_name = ''Executive Board'', nr_code = ''executive_board'',
       nr_label = ''Executive Board controller'', nr_capabilities = EXECUTIVE_BOARD_CAPABILITIES\<rparr>]"

definition native_root_of :: "RoleBundle \<Rightarrow> native_root option" where
  "native_root_of b = find (\<lambda>root. nr_role_code root = bn_code b) native_roots"

text \<open>Two arrays that are equal once they are sorted.\<close>

definition same_elements :: "string list \<Rightarrow> string list \<Rightarrow> bool" where
  "same_elements xs ys \<longleftrightarrow> length xs = length ys \<and> list_all (\<lambda>y. count_list xs y = count_list ys y) ys"

definition native_root_bundle :: "native_root \<Rightarrow> RoleBundle \<Rightarrow> bool" where
  "native_root_bundle root b \<longleftrightarrow> bn_name b = nr_role_name root \<and> bn_version b = 1
     \<and> same_elements (bn_capability_codes b) (nr_capabilities root)"

definition native_special_controls :: "AuthorityIssuance \<Rightarrow> AuthorityControl \<Rightarrow> AuthorityControl \<Rightarrow> uuid \<Rightarrow> uuid \<Rightarrow> bool" where
  "native_special_controls i actor approver source_actor source_approver \<longleftrightarrow>
     ct_principal_id actor = source_actor \<and> ct_principal_id approver = source_approver
     \<and> ct_basis actor = PLATFORM_REPRESENTATION_BOOTSTRAP \<and> ct_source_issuance_id actor = None
     \<and> ct_representation_id actor \<noteq> None \<and> ct_appointment_id actor = None
     \<and> ct_basis approver = REPRESENTATION_ACCEPTANCE \<and> ct_source_issuance_id approver = None
     \<and> ct_representation_id approver = None \<and> ct_appointment_id approver \<noteq> None
     \<and> ct_policy_version actor = is_policy_version i \<and> ct_policy_version approver = is_policy_version i
     \<and> ct_evaluated_at actor = is_evaluated_at i \<and> ct_evaluated_at approver = is_evaluated_at i"

text \<open>The representation with its activator joined, and what both functions ask of it.\<close>

definition native_representation ::
    "authority_db \<Rightarrow> native_root \<Rightarrow> AuthorityIssuance \<Rightarrow> uuid option \<Rightarrow> uuid \<Rightarrow> uuid \<Rightarrow> string
     \<Rightarrow> OrganizationRepresentation option" where
  "native_representation db root i rep organization source_actor reason =
     Option.bind (find (\<lambda>r. Some (rp_id r) = rep) (db_representations db)) (\<lambda>r.
     Option.bind (Option.bind (rp_activated_by_id r) (find_account db)) (\<lambda>activator.
       if rp_organization_id r \<noteq> organization \<or> rp_code r \<noteq> nr_code root \<or> rp_name r \<noteq> nr_role_name root
         \<or> rp_activated_by_id r \<noteq> Some source_actor \<or> ac_account_kind activator \<noteq> PLATFORM_ADMINISTRATOR
         \<or> rp_activated_at r \<noteq> Some (is_evaluated_at i) \<or> reason \<noteq> rp_activation_reason r
       then None else Some r))"

definition native_acceptance ::
    "authority_db \<Rightarrow> AuthorityIssuance \<Rightarrow> uuid option \<Rightarrow> uuid \<Rightarrow> uuid \<Rightarrow> bool" where
  "native_acceptance db i appointment source_approver representation \<longleftrightarrow>
     (case find (\<lambda>p. Some (pt_id p) = appointment) (db_appointments db) of
        None \<Rightarrow> False
      | Some p \<Rightarrow> pt_account_id p = source_approver \<and> pt_representation_id p = representation
          \<and> pt_state p \<in> {APP_ACTIVE, APP_ENDED} \<and> pt_role p = CONTROLLER
          \<and> (case pt_responded_at p of None \<Rightarrow> False | Some t \<Rightarrow> t \<le> is_evaluated_at i))"

text \<open>The seat of the controller: now, or at the instant of the evaluation.\<close>

definition native_seat_row :: "RoleAssignment \<Rightarrow> OrganizationRepresentation \<Rightarrow> RepresentationAppointment \<Rightarrow> bool" where
  "native_seat_row a r p \<longleftrightarrow> pt_role_assignment_id p = Some (aw_id a) \<and> pt_representation_id p = rp_id r
     \<and> pt_account_id p = aw_principal_id a"

definition native_responded :: "AuthorityIssuance \<Rightarrow> RepresentationAppointment \<Rightarrow> bool" where
  "native_responded i p \<longleftrightarrow> pt_role p = CONTROLLER
     \<and> (case pt_responded_at p of None \<Rightarrow> False | Some t \<Rightarrow> t \<le> is_evaluated_at i)"

definition native_seat_now ::
    "authority_db \<Rightarrow> native_root \<Rightarrow> AuthorityIssuance \<Rightarrow> RoleAssignment \<Rightarrow> OrganizationRepresentation \<Rightarrow> bool" where
  "native_seat_now db root i a r \<longleftrightarrow>
     (case find (native_seat_row a r) (db_appointments db) of
        None \<Rightarrow> False
      | Some p \<Rightarrow> rp_state r = REP_ACTIVE
          \<and> (case find_account db (aw_principal_id a) of None \<Rightarrow> False | Some q \<Rightarrow> ac_email_verified_at q \<noteq> None)
          \<and> pt_state p = APP_ACTIVE \<and> pt_ended_at p = None \<and> native_responded i p
          \<and> pt_activated_at p = Some (is_evaluated_at i)
          \<and> list_ex (\<lambda>g. og_id g = aw_organization_id a \<and> og_lifecycle g = ORG_ACTIVE) (db_organizations db)
          \<and> list_ex (\<lambda>m. mb_organization_id m = aw_organization_id a \<and> mb_account_id m = aw_principal_id a
              \<and> mb_state m = MEM_ACTIVE \<and> mb_relationship_label m = nr_label root
              \<and> mb_started_at m \<noteq> None \<and> mb_ended_at m = None) (db_memberships db))"

definition native_seat_then ::
    "authority_db \<Rightarrow> AuthorityIssuance \<Rightarrow> RoleAssignment \<Rightarrow> OrganizationRepresentation \<Rightarrow> instant \<Rightarrow> bool" where
  "native_seat_then db i a r t \<longleftrightarrow>
     (case find (\<lambda>p. native_seat_row a r p \<and> pt_state p \<in> {APP_ACTIVE, APP_ENDED} \<and> reached (pt_activated_at p) t
         \<and> \<not> reached (pt_ended_at p) t) (db_appointments db) of
        None \<Rightarrow> False
      | Some p \<Rightarrow> native_responded i p
          \<and> list_ex (\<lambda>m. mb_organization_id m = aw_organization_id a \<and> mb_account_id m = aw_principal_id a
              \<and> reached (mb_started_at m) t \<and> \<not> reached (mb_ended_at m) t) (db_memberships db)
          \<and> list_ex (\<lambda>g. og_id g = aw_organization_id a) (db_organizations db))"

text \<open>The block of an assignment up to the bundle: the representation it leads to.\<close>

definition native_assignment_ceremony ::
    "authority_db \<Rightarrow> native_root \<Rightarrow> bool \<Rightarrow> AuthorityIssuance \<Rightarrow> RoleAssignment \<Rightarrow> RoleBundle \<Rightarrow> instant
     \<Rightarrow> OrganizationRepresentation option" where
  "native_assignment_ceremony db root require_current i a b t =
     (if \<not> native_root_bundle root b \<or> aw_edition_id a \<noteq> None \<or> aw_department_id a \<noteq> None
        \<or> aw_resource_binding_id a \<noteq> None \<or> aw_effective_from a \<noteq> is_evaluated_at i \<or> aw_expires_at a \<noteq> None
      then None
      else case (native_controls db (is_ordinal i), aw_approved_by_id a) of
        ([actor, approver], Some source_approver) \<Rightarrow>
          if \<not> native_special_controls i actor approver (aw_granted_by_id a) source_approver then None
          else Option.bind (native_representation db root i (ct_representation_id actor) (aw_organization_id a)
              (aw_granted_by_id a) (aw_reason a)) (\<lambda>r.
            if \<not> reached (rp_activated_at r) t
              \<or> \<not> native_acceptance db i (ct_appointment_id approver) source_approver (rp_id r)
              \<or> \<not> (if require_current then native_seat_now db root i a r else native_seat_then db i a r t)
            then None else Some r)
      | _ \<Rightarrow> None)"

definition native_bundle_ceremony ::
    "authority_db \<Rightarrow> native_root \<Rightarrow> AuthorityIssuance \<Rightarrow> RoleBundle \<Rightarrow> uuid option \<Rightarrow> bool" where
  "native_bundle_ceremony db root i b expected \<longleftrightarrow>
     native_root_bundle root b
     \<and> (case (native_controls db (is_ordinal i), bn_created_by_id b, bn_approved_by_id b) of
          ([actor, approver], Some bundle_actor, Some bundle_approver) \<Rightarrow>
            native_special_controls i actor approver bundle_actor bundle_approver
            \<and> (case native_representation db root i (ct_representation_id actor) (bn_organization_id b)
                     bundle_actor (bn_reason b) of
                 None \<Rightarrow> False
               | Some r \<Rightarrow> (case expected of None \<Rightarrow> True | Some e \<Rightarrow> rp_id r = e)
                   \<and> native_acceptance db i (ct_appointment_id approver) bundle_approver (rp_id r))
        | _ \<Rightarrow> False)"

section \<open>The two functions\<close>

definition native_term_covers :: "bool \<Rightarrow> authority_row \<Rightarrow> expectation \<Rightarrow> bool" where
  "native_term_covers require_current w ex \<longleftrightarrow>
     aw_effective_from w \<le> ex_evaluated_at ex \<and> aw_effective_from w \<le> ex_requested_effective_from ex
     \<and> \<not> reached (aw_expires_at w) (ex_evaluated_at ex)
     \<and> (if require_current then aw_revoked_at w = None else \<not> reached (aw_revoked_at w) (ex_evaluated_at ex))
     \<and> (ex_horizon_mode ex = PERSISTENT \<longrightarrow>
          (case aw_expires_at w of
             None \<Rightarrow> True
           | Some e \<Rightarrow> (case ex_requested_expires_at ex of None \<Rightarrow> False | Some r \<Rightarrow> r \<le> e)))"

text \<open>The first half of \<open>maru_authority_issuance_valid_v1\<close>: the issuance and its authority.\<close>

definition native_source :: "authority_db \<Rightarrow> bool \<Rightarrow> int \<Rightarrow> expectation \<Rightarrow> (AuthorityIssuance \<times> authority) option" where
  "native_source db require_current n ex =
     (if blank (ex_capability_code ex) then None
      else Option.bind (find_issuance db n) (\<lambda>i.
        Option.bind (issuance_authority db i) (\<lambda>source.
          let w = authority_base source
          in if blank (is_policy_version i) \<or> ex_evaluated_at ex < is_evaluated_at i
               \<or> aw_principal_id w \<noteq> ex_principal_id ex
               \<or> aw_organization_id w \<noteq> sc_organization_id (ex_target_scope ex)
               \<or> stops (sql_not (native_scope_contains db (scope_from_authority w) (ex_target_scope ex)))
             then None
             else if \<not> source_has_capability source (ex_capability_code ex) then None
             else if \<not> native_person require_current db (aw_principal_id w) \<or> \<not> native_term_covers require_current w ex
             then None else Some (i, source))))"

text \<open>What the second half goes on to ask.\<close>

datatype native_rest =
    Refuse
  | Parent int expectation
  | Ceremony uuid uuid
  | Controls "uuid option" "control_step list"

fun target_key :: "authority \<Rightarrow> target_kind \<times> uuid" where
  "target_key (Grant g) = (CAPABILITY_GRANT, aw_id g)"
| "target_key (Assignment a b) = (ROLE_ASSIGNMENT, aw_id a)"

definition native_steps_of ::
    "authority_db \<Rightarrow> bool \<Rightarrow> AuthorityIssuance \<Rightarrow> authority \<Rightarrow> uuid \<Rightarrow> instant \<Rightarrow> control_step list" where
  "native_steps_of db require_current i source source_approver t =
     (let w = authority_base source; (kind, key) = target_key source
      in map (\<lambda>c. let person = (if ct_role c = ACTOR then aw_granted_by_id w else source_approver)
             in (native_control_matches i c person \<and> native_person require_current db (ct_principal_id c)
                   \<and> native_source_allowed db kind key c,
                 control_source c, expects_term person (native_required_control db kind key) w t))
           (native_controls db (is_ordinal i)))"

definition native_rest_of ::
    "authority_db \<Rightarrow> bool \<Rightarrow> AuthorityIssuance \<Rightarrow> authority \<Rightarrow> instant \<Rightarrow> native_rest" where
  "native_rest_of db require_current i source t =
     (let w = authority_base source;
          ordinary = (case aw_approved_by_id w of
            None \<Rightarrow> Refuse
          | Some approver \<Rightarrow>
              if aw_granted_by_id w = approver \<or> approver = aw_principal_id w
                \<or> \<not> native_two_controls db (is_ordinal i) then Refuse
              else case source of
                Grant g \<Rightarrow> Controls None (native_steps_of db require_current i source approver t)
              | Assignment a b \<Rightarrow>
                  (case native_root_of b of
                     Some root \<Rightarrow>
                       (case native_assignment_ceremony db root require_current i a b t of
                          None \<Rightarrow> Refuse | Some r \<Rightarrow> Ceremony (bn_id b) (rp_id r))
                   | None \<Rightarrow> Controls (Some (bn_id b)) (native_steps_of db require_current i source approver t)))
      in case source of
           Grant g \<Rightarrow>
             (case cg_delegated_from_id g of
                None \<Rightarrow> ordinary
              | Some parent \<Rightarrow>
                  if issuance_controls db (is_ordinal i) \<noteq> [] then Refuse
                  else (case issuance_for_grant db parent of
                          None \<Rightarrow> Refuse
                        | Some p \<Rightarrow>
                            if is_ordinal i \<le> is_ordinal p then Refuse
                            else Parent (is_ordinal p) (expects_term (aw_granted_by_id g) (cg_capability_code g) g t)))
         | Assignment a b \<Rightarrow> ordinary)"

text \<open>\<open>maru_authority_bundle_historical_v1\<close> up to its loop.\<close>

definition native_bundle_row :: "authority_db \<Rightarrow> uuid \<Rightarrow> instant \<Rightarrow> (AuthorityIssuance \<times> RoleBundle) option" where
  "native_bundle_row db bundle t =
     Option.bind (find_bundle db bundle) (\<lambda>b.
     Option.bind (issuance_for_bundle db bundle) (\<lambda>i.
       if t < is_evaluated_at i \<or> blank (is_policy_version i) \<or> bn_created_by_id b = None
         \<or> bn_approved_by_id b = None \<or> bn_created_by_id b = bn_approved_by_id b
         \<or> \<not> native_two_controls db (is_ordinal i) then None else Some (i, b)))"

definition native_bundle_steps ::
    "authority_db \<Rightarrow> AuthorityIssuance \<Rightarrow> RoleBundle \<Rightarrow> uuid \<Rightarrow> uuid \<Rightarrow> control_step list" where
  "native_bundle_steps db i b bundle_actor bundle_approver =
     map (\<lambda>c. let person = (if ct_role c = ACTOR then bundle_actor else bundle_approver)
            in (native_control_matches i c person \<and> native_person False db (ct_principal_id c)
                  \<and> native_source_allowed db ROLE_BUNDLE (bn_id b) c,
                control_source c,
                \<lparr>ex_principal_id = person, ex_capability_code = native_required_control db ROLE_BUNDLE (bn_id b),
                 ex_target_scope = \<lparr>sc_organization_id = bn_organization_id b, sc_edition_id = None,
                   sc_department_id = None, sc_resource_binding_id = None\<rparr>,
                 ex_requested_effective_from = is_evaluated_at i, ex_requested_expires_at = None,
                 ex_evaluated_at = is_evaluated_at i, ex_horizon_mode = POINT_IN_TIME\<rparr>))
       (native_controls db (is_ordinal i))"

definition native_bundle_rest :: "authority_db \<Rightarrow> AuthorityIssuance \<Rightarrow> RoleBundle \<Rightarrow> uuid option \<Rightarrow> remaining" where
  "native_bundle_rest db i b expected =
     (case native_root_of b of
        Some root \<Rightarrow> Verdict (native_bundle_ceremony db root i b expected)
      | None \<Rightarrow>
          (case (bn_created_by_id b, bn_approved_by_id b) of
             (Some bundle_actor, Some bundle_approver) \<Rightarrow>
               Steps (native_bundle_steps db i b bundle_actor bundle_approver)
           | _ \<Rightarrow> Verdict False))"

function native_issuance_valid ::
      "authority_db \<Rightarrow> bool \<Rightarrow> int \<Rightarrow> expectation \<Rightarrow> int list \<Rightarrow> nat \<Rightarrow> bool"
  and native_steps_valid :: "authority_db \<Rightarrow> bool \<Rightarrow> control_step list \<Rightarrow> int list \<Rightarrow> nat \<Rightarrow> bool"
  and native_bundle_historical ::
      "authority_db \<Rightarrow> uuid \<Rightarrow> instant \<Rightarrow> uuid option \<Rightarrow> int list \<Rightarrow> nat \<Rightarrow> bool"
where
  "native_issuance_valid db require_current n ex path depth =
     (if 64 \<le> depth \<or> n \<in> set path then False
      else case native_source db require_current n ex of
        None \<Rightarrow> False
      | Some (i, source) \<Rightarrow>
          (case native_rest_of db require_current i source (ex_evaluated_at ex) of
             Refuse \<Rightarrow> False
           | Parent p ex' \<Rightarrow> native_issuance_valid db require_current p ex' (n # path) (Suc depth)
           | Ceremony b r \<Rightarrow> native_bundle_historical db b (ex_evaluated_at ex) (Some r) (n # path) (Suc depth)
           | Controls b steps \<Rightarrow>
               (case b of None \<Rightarrow> True
                | Some b \<Rightarrow> native_bundle_historical db b (ex_evaluated_at ex) None (n # path) (Suc depth))
               \<and> native_steps_valid db require_current steps (n # path) (Suc depth)))"
| "native_steps_valid db require_current [] path depth = True"
| "native_steps_valid db require_current ((ok, n, ex) # steps) path depth =
     (ok \<and> native_issuance_valid db require_current n ex path depth
      \<and> native_steps_valid db require_current steps path depth)"
| "native_bundle_historical db bundle t expected path depth =
     (case native_bundle_row db bundle t of
        None \<Rightarrow> False
      | Some (i, b) \<Rightarrow>
          if 64 \<le> depth \<or> is_ordinal i \<in> set path then False
          else case native_bundle_rest db i b expected of
            Verdict v \<Rightarrow> v
          | Steps steps \<Rightarrow> native_steps_valid db False steps (is_ordinal i # path) (Suc depth))"
  by pat_completeness auto

termination
  by (relation "measures [
      case_sum (\<lambda>(db, c, n, ex, path, depth). 64 - depth)
        (case_sum (\<lambda>(db, c, steps, path, depth). 64 - depth) (\<lambda>(db, b, t, e, path, depth). 64 - depth)),
      case_sum (\<lambda>_. 0) (case_sum (\<lambda>(db, c, steps, path, depth). Suc (length steps)) (\<lambda>_. 0))]") auto

declare native_issuance_valid.simps [simp del] native_bundle_historical.simps [simp del]

text \<open>The call of \<open>_authority_issuances_are_current_database\<close>.\<close>

definition maru_authority_issuance_valid_v1 :: native_validator where
  "maru_authority_issuance_valid_v1 db n ex = native_issuance_valid db True n ex [] 0"

end
