(* ===== verification/Native_Props.thy ===== *)
theory Native_Props
  imports Native_Validator Policy_Props
begin

text \<open>
  What the SQL validator of \<open>Native_Validator\<close> establishes, and the policy engine with it. Its yes is a
  finite lineage, as the yes of the Python walk is: everything the issuance rests on is in force and it ends
  at a controller in office. The difference is in the scopes, which only have to be current in the sense
  of the SQL: it asks neither about retired departments nor about the organization of a series nor about the
  record behind a binding, and its containment check lets a broader target through.
\<close>

section \<open>What a confirmation says\<close>

lemma native_source_Some:
  assumes "native_source db True n ex = Some (i, source)"
  shows "find_issuance db n = Some i" "issuance_authority db i = Some source"
    "aw_principal_id (authority_base source) = ex_principal_id ex"
    "aw_organization_id (authority_base source) = sc_organization_id (ex_target_scope ex)"
    "source_has_capability source (ex_capability_code ex)"
    "principal_is_current db (aw_principal_id (authority_base source))"
    "native_term_covers True (authority_base source) ex"
    "native_scope_is_current db (scope_from_authority (authority_base source))"
  using assms
  by (auto simp: native_source_def bind_eq_Some_conv Let_def native_person_def principal_is_current_def
      native_scope_contains_def stops_def sql_not_def scope_from_authority_def split: if_splits option.splits)

lemma native_valid_source:
  "native_issuance_valid db True n ex path depth \<Longrightarrow>
     \<exists>i source. native_source db True n ex = Some (i, source)
       \<and> native_rest_of db True i source (ex_evaluated_at ex) \<noteq> Refuse"
  by (subst (asm) native_issuance_valid.simps) (auto split: option.splits if_splits)

text \<open>As \<open>in_force\<close>, with the scope check of the database.\<close>

definition native_in_force :: "authority_db \<Rightarrow> uuid \<Rightarrow> instant \<Rightarrow> int \<Rightarrow> bool" where
  "native_in_force db organization t n \<longleftrightarrow>
     (case Option.bind (find_issuance db n) (issuance_authority db) of
        None \<Rightarrow> False
      | Some source \<Rightarrow>
          let w = authority_base source
          in aw_organization_id w = organization \<and> aw_revoked_at w = None \<and> aw_effective_from w \<le> t
             \<and> \<not> reached (aw_expires_at w) t \<and> principal_is_current db (aw_principal_id w)
             \<and> native_scope_is_current db (scope_from_authority w))"

lemma native_valid_in_force:
  assumes "native_issuance_valid db True n ex path depth"
  shows "native_in_force db (sc_organization_id (ex_target_scope ex)) (ex_evaluated_at ex) n"
proof -
  from native_valid_source [OF assms] obtain i source where "native_source db True n ex = Some (i, source)" by blast
  from native_source_Some [OF this] show ?thesis
    by (simp add: native_in_force_def native_term_covers_def Let_def)
qed

text \<open>The loop over controls confirms each of its sources.\<close>

lemma native_steps_valid_all:
  "native_steps_valid db c steps path depth \<longleftrightarrow>
     (\<forall>(ok, n, ex) \<in> set steps. ok \<and> native_issuance_valid db c n ex path depth)"
  by (induction steps) auto

lemma native_step_of:
  assumes "native_steps_valid db True (native_steps_of db True i source approver t) path depth"
    and "c \<in> set (native_controls db (is_ordinal i))"
  shows "\<exists>m ex. ct_source_issuance_id c = Some m \<and> native_issuance_valid db True m ex path depth \<and> ex_evaluated_at ex = t
    \<and> sc_organization_id (ex_target_scope ex) = aw_organization_id (authority_base source)"
proof -
  obtain kind key where key: "target_key source = (kind, key)" by fastforce
  let ?person = "if ct_role c = ACTOR then aw_granted_by_id (authority_base source) else approver"
  let ?ex = "expects_term ?person (native_required_control db kind key) (authority_base source) t"
  have "(native_control_matches i c ?person \<and> native_person True db (ct_principal_id c)
      \<and> native_source_allowed db kind key c, control_source c, ?ex) \<in> set (native_steps_of db True i source approver t)"
    unfolding native_steps_of_def Let_def key prod.case set_map using assms(2) by (rule rev_image_eqI) (rule refl)
  from this assms(1) have ok: "native_control_matches i c ?person"
    and valid: "native_issuance_valid db True (control_source c) ?ex path depth"
    unfolding native_steps_valid_all by (auto dest!: bspec simp only: prod.case)
  from ok obtain m where m: "ct_source_issuance_id c = Some m"
    unfolding native_control_matches_def by (cases "ct_source_issuance_id c") simp_all
  have "control_source c = m" by (simp only: control_source_def m option.case)
  with valid m show ?thesis
    by (intro exI [of _ m] exI [of _ ?ex] conjI) (simp_all only: expects_term_simps scope_from_authority_def scope.simps)
qed

lemma native_controls_set: "set (native_controls db n) = set (issuance_controls db n)"
  by (auto simp: native_controls_def) (metis ControlRole.exhaust)

lemma ceremony_sources:
  assumes "native_assignment_ceremony db root c i a b t = Some r"
  shows "List.map_filter ct_source_issuance_id (issuance_controls db (is_ordinal i)) = []"
proof -
  from assms(1) obtain x y where controls: "native_controls db (is_ordinal i) = [x, y]"
    and none: "ct_source_issuance_id x = None" "ct_source_issuance_id y = None"
    by (auto simp: native_assignment_ceremony_def native_special_controls_def split: if_splits list.splits option.splits)
  with native_controls_set [of db "is_ordinal i"]
  have "\<forall>c \<in> set (issuance_controls db (is_ordinal i)). ct_source_issuance_id c = None" by auto
  then show ?thesis by (simp add: List.map_filter_def filter_empty_conv)
qed

text \<open>The three ways on.\<close>

lemma native_rest_cases:
  assumes "native_rest_of db c i source t \<noteq> Refuse"
  obtains (delegated) g parent p where "source = Grant g" "cg_delegated_from_id g = Some parent"
      "issuance_for_grant db parent = Some p"
      "native_rest_of db c i source t = Parent (is_ordinal p) (expects_term (aw_granted_by_id g) (cg_capability_code g) g t)"
  | (controls) b approver where "\<And>g. source = Grant g \<Longrightarrow> cg_delegated_from_id g = None"
      "native_two_controls db (is_ordinal i)" "native_rest_of db c i source t = Controls b (native_steps_of db c i source approver t)"
  | (ceremony) a b root r where "source = Assignment a b"
      "native_assignment_ceremony db root c i a b t = Some r"
      "native_rest_of db c i source t = Ceremony (bn_id b) (rp_id r)"
proof (cases source)
  case (Grant g)
  with assms delegated controls show ?thesis
    by (auto simp: native_rest_of_def Let_def split: option.splits if_splits)
next
  case (Assignment a b)
  with assms controls ceremony show ?thesis
    by (auto simp: native_rest_of_def Let_def split: option.splits if_splits)
qed

lemma native_valid_rest:
  assumes "native_issuance_valid db True n ex path depth" "native_source db True n ex = Some (i, source)"
  shows "case native_rest_of db True i source (ex_evaluated_at ex) of
      Refuse \<Rightarrow> False
    | Parent p ex' \<Rightarrow> native_issuance_valid db True p ex' (n # path) (Suc depth)
    | Ceremony b r \<Rightarrow> True
    | Controls b steps \<Rightarrow> native_steps_valid db True steps (n # path) (Suc depth)"
  using assms by (subst (asm) native_issuance_valid.simps) (auto split: option.splits if_splits native_rest.splits)

text \<open>Every source of a confirmed issuance is confirmed at the same instant, in the same organization.\<close>

lemma native_valid_sources:
  assumes "native_issuance_valid db True n ex path depth" "m \<in> set (lineage_sources db n)"
  shows "\<exists>ex' path' depth'. native_issuance_valid db True m ex' path' depth' \<and> ex_evaluated_at ex' = ex_evaluated_at ex
    \<and> sc_organization_id (ex_target_scope ex') = sc_organization_id (ex_target_scope ex)"
proof -
  from native_valid_source [OF assms(1)] obtain i source where s: "native_source db True n ex = Some (i, source)"
    by blast
  note found = native_source_Some [OF s]
  have n: "is_ordinal i = n" using find_issuance_ordinal [OF found(1)] .
  note rest = native_valid_rest [OF assms(1) s]
  from s native_valid_source [OF assms(1)] have "native_rest_of db True i source (ex_evaluated_at ex) \<noteq> Refuse" by simp
  then show ?thesis
  proof (cases rule: native_rest_cases)
    case (delegated g parent p)
    with assms(2) found(1,2) have "m = is_ordinal p" by (simp add: lineage_sources_def)
    with rest delegated found(4) show ?thesis by (force simp: scope_from_authority_def)
  next
    case (controls b approver)
    with assms(2) found(1,2) n obtain c where c: "c \<in> set (native_controls db (is_ordinal i))" "ct_source_issuance_id c = Some m"
      by (auto simp: lineage_sources_def List.map_filter_def native_controls_set split: authority.splits)
    from rest have "native_steps_valid db True (native_steps_of db True i source approver (ex_evaluated_at ex)) (n # path) (Suc depth)"
      by (simp add: controls(3))
    from native_step_of [OF this c(1)] c(2) found(4) show ?thesis by auto
  next
    case (ceremony a b root r)
    with assms(2) found(1,2) n ceremony_sources [OF ceremony(2)] show ?thesis by (simp add: lineage_sources_def)
  qed
qed

lemma native_rests_in_force:
  assumes "rests_on db n m" "native_issuance_valid db True n ex path depth"
  shows "native_in_force db (sc_organization_id (ex_target_scope ex)) (ex_evaluated_at ex) m"
  using assms
proof (induction arbitrary: ex path depth rule: rests_on.induct)
  case (itself n)
  then show ?case by (rule native_valid_in_force)
next
  case (through m n m')
  from native_valid_sources [OF through.prems through.hyps(1)] obtain ex' path' depth'
    where "native_issuance_valid db True m ex' path' depth'" "ex_evaluated_at ex' = ex_evaluated_at ex"
      "sc_organization_id (ex_target_scope ex') = sc_organization_id (ex_target_scope ex)" by blast
  with through.IH show ?case by metis
qed

text \<open>Where the lineage ends, a controller is in office.\<close>

lemma ceremony_represented:
  assumes "native_assignment_ceremony db root True i a b t = Some r" "principal_is_current db (aw_principal_id a)"
  shows "organization_is_represented db (aw_organization_id a)"
proof -
  from assms(1) obtain rep reason where r: "native_representation db root i rep (aw_organization_id a) (aw_granted_by_id a) reason = Some r"
    and seat: "native_seat_now db root i a r"
    by (auto simp: native_assignment_ceremony_def bind_eq_Some_conv split: if_splits list.splits option.splits)
  from r have rep: "r \<in> set (db_representations db)" "rp_organization_id r = aw_organization_id a"
      "\<exists>x \<in> set (db_accounts db). Some (ac_id x) = rp_activated_by_id r \<and> ac_account_kind x = PLATFORM_ADMINISTRATOR"
    by (auto simp: native_representation_def bind_eq_Some_conv find_account_def dest!: find_SomeD split: if_splits)
  from seat obtain p where p: "find (native_seat_row a r) (db_appointments db) = Some p" "pt_state p = APP_ACTIVE"
      "pt_ended_at p = None" "rp_state r = REP_ACTIVE"
      "list_ex (\<lambda>g. og_id g = aw_organization_id a \<and> og_lifecycle g = ORG_ACTIVE) (db_organizations db)"
    by (auto simp: native_seat_now_def split: option.splits)
  from p(1) have "p \<in> set (db_appointments db)" "pt_representation_id p = rp_id r" "pt_account_id p = aw_principal_id a"
    by (auto simp: native_seat_row_def dest!: find_SomeD)
  with rep p assms(2) show ?thesis unfolding organization_is_represented_def list_ex_iff by force
qed

lemma native_valid_down:
  assumes "native_issuance_valid db True n ex path depth"
  obtains (here) "organization_is_represented db (sc_organization_id (ex_target_scope ex))"
  | (below) m ex' where "native_issuance_valid db True m ex' (n # path) (Suc depth)"
      "sc_organization_id (ex_target_scope ex') = sc_organization_id (ex_target_scope ex)"
proof -
  from native_valid_source [OF assms] obtain i source where s: "native_source db True n ex = Some (i, source)"
    and go: "native_rest_of db True i source (ex_evaluated_at ex) \<noteq> Refuse" by blast
  note found = native_source_Some [OF s] and rest = native_valid_rest [OF assms s]
  from go show thesis
  proof (cases rule: native_rest_cases)
    case (delegated g parent p)
    with rest found(4) below show ?thesis by (force simp: scope_from_authority_def)
  next
    case (controls b approver)
    from rest have steps: "native_steps_valid db True (native_steps_of db True i source approver (ex_evaluated_at ex)) (n # path) (Suc depth)"
      by (simp add: controls(3))
    from controls(2) obtain c where "c \<in> set (native_controls db (is_ordinal i))"
      unfolding native_controls_set by (cases "issuance_controls db (is_ordinal i)") (auto simp: native_two_controls_def)
    from native_step_of [OF steps this] found(4) below show ?thesis by auto
  next
    case (ceremony a b root r)
    with found(4,6) ceremony_represented [OF ceremony(2)] here show ?thesis by simp
  qed
qed

lemma native_valid_represented:
  "native_issuance_valid db True n ex path depth \<Longrightarrow> organization_is_represented db (sc_organization_id (ex_target_scope ex))"
proof (induction "64 - depth" arbitrary: n ex path depth rule: less_induct)
  case less
  then have "depth < 64" by (simp add: native_issuance_valid.simps split: if_splits)
  from less.prems show ?case
  proof (cases rule: native_valid_down)
    case (below m ex')
    have "64 - Suc depth < 64 - depth" using \<open>depth < 64\<close> by simp
    from less.hyps [OF this below(1)] below(2) show ?thesis by simp
  qed
qed

section \<open>The policy engine with the installed validator\<close>

text \<open>The policy of the samples as the service runs it.\<close>

definition installed_policy :: policy_env where
  "installed_policy = sample_policy\<lparr>pe_native := maru_authority_issuance_valid_v1\<rparr>"

lemma installed_decision:
  "decide installed_policy guidance_authority (sample_person 11) (GUIDANCE_CONTENT_CAPABILITIES ! 3)
     (Typed guidance_target) None (Some 50)
   = \<lparr>pd_allowed = True, pd_fields = [''review''], pd_obligations = [''audit''],
       pd_reason_code = ''role_assignment'', pd_policy_version = POLICY_VERSION\<rparr>"
  by code_simp

text \<open>
  C37. After the cutover, an allowance by a grant or a role rests on a lineage. With the validator
  that the migrations install, the organization has an active accountable representation, the target exists
  and is not retired, and the issuance with everything it rests on is in force, at the instant of the
  decision and in the organization of the target. The scopes below the first are current as the SQL checks
  them: their rows exist and belong together.
\<close>

theorem allowance_rests_on_lineage:
  assumes "exact_lineage_policy_is_active db"
    and "pd_allowed (decide (env\<lparr>pe_native := maru_authority_issuance_valid_v1\<rparr>) db person code (Typed resource)
          requested (Some t))"
    and "stored_reason (decide (env\<lparr>pe_native := maru_authority_issuance_valid_v1\<rparr>) db person code (Typed resource)
          requested (Some t))"
  shows "organization_is_represented db (tg_organization_id resource)
    \<and> scope_is_current db (scope_of_target resource)
    \<and> (\<exists>source n. row_entitles db (ac_id person) code resource t source \<and> issuance_ordinal_of db source = Some n
        \<and> Collect (rests_on db n) \<subseteq> Collect (native_in_force db (tg_organization_id resource) t))"
proof -
  from stored_entitlement_row [OF decide_stored [OF assms(2,3)]] assms(1) obtain source
    where row: "row_entitles db (ac_id person) code resource t source"
      and allows: "exact_issuance_allows (env\<lparr>pe_native := maru_authority_issuance_valid_v1\<rparr>) db (ac_id person)
        code resource t source" by auto
  from exact_issuance_native [OF allows] obtain n ex where n: "issuance_ordinal_of db source = Some n"
    and valid: "native_issuance_valid db True n ex [] 0" and t: "ex_evaluated_at ex = t"
    and o: "sc_organization_id (ex_target_scope ex) = tg_organization_id resource"
    and target: "scope_is_current db (scope_of_target resource)"
    by (auto simp: scope_of_target_def maru_authority_issuance_valid_v1_def)
  from native_rests_in_force [OF _ valid] t o
  have "Collect (rests_on db n) \<subseteq> Collect (native_in_force db (tg_organization_id resource) t)" by auto
  with native_valid_represented [OF valid] o row n target show ?thesis by auto
qed

theorem allowance_rests_on_lineage_witness:
  "organization_is_represented guidance_authority 1 \<and> scope_is_current guidance_authority (scope_of_target guidance_target)"
proof -
  have "exact_lineage_policy_is_active guidance_authority" by code_simp
  from allowance_rests_on_lineage [OF this, of sample_policy "sample_person 11" "GUIDANCE_CONTENT_CAPABILITIES ! 3" guidance_target None 50]
  show ?thesis unfolding installed_policy_def [symmetric] installed_decision
    by (simp add: stored_reason_def)
qed

section \<open>A null in the guard\<close>

text \<open>The same scope with everything below the organization left out, and a check that asks about it.\<close>

definition whole_organization :: "scope \<Rightarrow> scope" where
  "whole_organization s = \<lparr>sc_organization_id = sc_organization_id s, sc_edition_id = None,
     sc_department_id = None, sc_resource_binding_id = None\<rparr>"

definition for_organization :: "AuthorityIssuanceCurrentCheck \<Rightarrow> AuthorityIssuanceCurrentCheck" where
  "for_organization k = k\<lparr>ck_target := organization_target (tg_organization_id (ck_target k))\<rparr>"

lemma native_contains_whole:
  assumes "native_scope_contains db source target \<noteq> Some False"
  shows "native_scope_contains db source (whole_organization target) \<noteq> Some False"
  using assms
  by (auto simp: native_scope_contains_def whole_organization_def native_scope_is_current_def sql_eq_def sql_and_def
      Let_def split: if_splits option.splits)

lemma whole_simps:
  "ex_evaluated_at (ex\<lparr>ex_target_scope := s\<rparr>) = ex_evaluated_at ex"
  "ex_principal_id (ex\<lparr>ex_target_scope := s\<rparr>) = ex_principal_id ex"
  "ex_capability_code (ex\<lparr>ex_target_scope := s\<rparr>) = ex_capability_code ex"
  "ex_requested_expires_at (ex\<lparr>ex_target_scope := s\<rparr>) = ex_requested_expires_at ex"
  "native_term_covers c w (ex\<lparr>ex_target_scope := s\<rparr>) = native_term_covers c w ex"
  "sc_organization_id (whole_organization s) = sc_organization_id s"
  by (simp_all add: native_term_covers_def whole_organization_def split: option.splits)

lemma native_source_whole:
  assumes "native_source db True n ex = Some r"
  shows "native_source db True n (ex\<lparr>ex_target_scope := whole_organization (ex_target_scope ex)\<rparr>) = Some r"
proof -
  have stop: "stops (sql_not p) \<longleftrightarrow> p = Some False" for p by (auto simp: stops_def sql_not_def)
  from assms native_contains_whole [of db _ "ex_target_scope ex"] show ?thesis
    by (auto simp: native_source_def stop bind_eq_Some_conv Let_def whole_simps split: if_splits)
qed

lemma native_valid_whole:
  assumes "maru_authority_issuance_valid_v1 db n ex"
  shows "maru_authority_issuance_valid_v1 db n (ex\<lparr>ex_target_scope := whole_organization (ex_target_scope ex)\<rparr>)"
proof -
  note valid = assms [unfolded maru_authority_issuance_valid_v1_def]
  from native_valid_source [OF valid] obtain r where r: "native_source db True n ex = Some r" by blast
  have "native_issuance_valid db True n (ex\<lparr>ex_target_scope := whole_organization (ex_target_scope ex)\<rparr>) [] 0
      = native_issuance_valid db True n ex [] 0"
    by (subst (1 2) native_issuance_valid.simps) (simp only: r native_source_whole [OF r] whole_simps)
  with valid show ?thesis by (simp add: maru_authority_issuance_valid_v1_def)
qed

lemma native_valid_organization:
  assumes "maru_authority_issuance_valid_v1 db n ex"
  shows "scope_is_current db (whole_organization (ex_target_scope ex))"
proof -
  from native_valid_source [OF assms [unfolded maru_authority_issuance_valid_v1_def]] obtain i source
    where "native_source db True n ex = Some (i, source)" by blast
  from native_source_Some(4,8) [OF this] obtain r
    where "find (\<lambda>r. og_id r = sc_organization_id (ex_target_scope ex)) (db_organizations db) = Some r"
    by (cases "find (\<lambda>r. og_id r = sc_organization_id (ex_target_scope ex)) (db_organizations db)")
      (auto simp: native_scope_is_current_def list_ex_iff Let_def scope_from_authority_def find_None_iff split: if_splits)
  moreover from find_SomeD [OF this] have "og_id r = sc_organization_id (ex_target_scope ex)" by simp
  ultimately show ?thesis
    by (simp add: scope_is_current_def whole_organization_def scope_shape_is_valid_def resolve_scope_def
        resolve_organization_target_def scope_from_target_def scope_of_target_def)
      (simp add: organization_target_def)
qed

lemma organization_expectation:
  assumes "check_expectation k at = Some ex"
  shows "check_expectation (for_organization k) at = Some (ex\<lparr>ex_target_scope := whole_organization (ex_target_scope ex)\<rparr>)"
  using assms
  by (auto simp: check_expectation_def for_organization_def organization_target_def whole_organization_def
      scope_from_target_def scope_of_target_def scope_shape_is_valid_def split: typed.splits option.splits if_splits)

text \<open>
  C38. The native containment check does not hold against a broader target. The SQL compares the columns
  of the source with those of the target, a comparison with a null is unknown, and the guard around it is not
  taken; so whatever authority the validator confirms for an edition, a department or a resource it also
  confirms, in the same terms, for the whole organization, which the Python walk of the same name refuses.
\<close>

theorem native_confirms_whole_organization:
  assumes "check_current_database maru_authority_issuance_valid_v1 db at k"
  shows "check_current_database maru_authority_issuance_valid_v1 db at (for_organization k)"
proof -
  from assms obtain ex where ex: "check_expectation k at = Some ex" "database_current_check_is_well_formed k at"
      "maru_authority_issuance_valid_v1 db (ck_issuance_ordinal k) ex"
    by (auto simp: check_current_database_def split: option.splits)
  have "database_current_check_is_well_formed (for_organization k) at"
    using ex(2) by (simp add: database_current_check_is_well_formed_def for_organization_def)
  with organization_expectation [OF ex(1)] native_valid_whole [OF ex(3)] native_valid_organization [OF ex(3)] show ?thesis
    by (simp add: check_current_database_def) (simp add: for_organization_def)
qed

theorem native_confirms_whole_organization_witness:
  "check_current_database maru_authority_issuance_valid_v1 sample_authority (Typed 50) (for_organization sample_check)
    \<and> aw_edition_id sample_delegated = Some 5
    \<and> \<not> authority_issuance_is_current sample_authority (Typed 50) (for_organization sample_check)"
proof (intro conjI)
  have "check_current_database maru_authority_issuance_valid_v1 sample_authority (Typed 50) sample_check" by code_simp
  then show "check_current_database maru_authority_issuance_valid_v1 sample_authority (Typed 50) (for_organization sample_check)"
    by (rule native_confirms_whole_organization)
  show "aw_edition_id sample_delegated = Some 5" by code_simp
  show "\<not> authority_issuance_is_current sample_authority (Typed 50) (for_organization sample_check)" by code_simp
qed

end
