(* ===== verification/Spec2Isabelle.thy ===== *)
theory Spec2Isabelle
  imports Conflict_Props Effect_Worker Operations_Props Audit_Props Announcement_Props Continuity_Props Continuity_Payload_Props Change_Notice Lineage_Props Announcement_Authority
    Native_Props
begin

text \<open>
  Verification development for Maru, a Django platform for the people who run conventions. All paths
  below are relative to \<open>src/src/maru\<close>.

  \<^bold>\<open>The program.\<close> Maru is a set of Django packages over one PostgreSQL database. A request becomes a
  command of one package; the command runs in a transaction, asks the policy engine for a decision,
  locks the rows it needs, writes its own tables, appends one event to the audit trail and publishes
  one domain event with its messages to the transactional outbox. A worker later claims the messages
  and delivers them. Timetables are computed and judged by pure functions on facts that were read from
  the database, and approved timetables can be taken off line as signed packages. The development
  follows these parts from the pure functions outwards.

  \<^bold>\<open>Shared vocabulary.\<close> \<open>Maru_Prelude\<close> models Python values (a UUID is a 128-bit word, an instant an
  integer number of microseconds, an argument of the wrong dynamic type is \<open>Untyped\<close>), and exceptions:
  a function that may raise returns a sum whose left side is the exception, \<open>bindE\<close> runs the rest of a
  body, \<open>guardE\<close> is a guard and \<open>foldE\<close> a loop that stops at the first exception. \<open>Json\<close>, \<open>Sha256\<close> and
  \<open>Iso_Datetime\<close> define the canonical JSON encoding, SHA-256 and the printed instant in full; the
  encodings are injective on the values the program prints. \<open>Json_Text\<close> and \<open>Wire_Text\<close> define the
  readers (\<open>json.loads\<close> with the hook against repeated keys, base64, UUID, ISO 8601) and that they undo
  the printers.

  \<^bold>\<open>Scheduling.\<close> \<open>Time_Rules\<close> is \<open>scheduling/time_rules.py\<close>: normalization of instants, windows,
  envelopes and presences, the service-day grid, the two-clique occupancy rule and the turnover window.
  \<open>Conflicts\<close> is \<open>scheduling/conflicts.py\<close>: fact records, \<open>_Findings\<close> with its two limits, the sweeps over
  rooms, hosts and reservations and \<open>evaluate_scheduling_facts\<close>. \<open>Conflict_Spec\<close> gives the evaluation a
  specification, the list of emissions it performs, and shows that the code refines it;
  \<open>Conflict_Props\<close> states what is reported, on every branch.

  \<^bold>\<open>Effects.\<close> \<open>Effect_Routes\<close> is \<open>effects/adoption.py\<close> and the payload checks of \<open>effects/registry.py\<close>.
  \<open>Outbox\<close> holds the tables of \<open>effects/models.py\<close> with their constraints as the record \<open>outbox_db\<close> and
  every service of \<open>effects/services.py\<close>. \<open>Outbox_Inv\<close> is the invariant of the tables, \<open>Outbox_Steps\<close> the
  step relation of all services and its reachable states, \<open>Outbox_Props\<close> what follows for claims,
  leases, retries, cancellation and replay. \<open>Effect_Worker\<close> is \<open>worker.py\<close> and \<open>supervisor.py\<close>: handlers,
  a run of a claim with every outcome, tenant eligibility and the scheduler. \<open>Effect_Operations\<close> and
  \<open>Operations_Props\<close> are the operator commands, queries and health snapshot; a locale states the
  contract of an audited command, and replay is its instance.

  \<^bold>\<open>Audit.\<close> \<open>Audit_Trail\<close> is \<open>audit/models.py\<close>, \<open>services.py\<close> and the management command: append, seal,
  verify. \<open>Audit_Inv\<close> is the invariant of the hash chain, \<open>Audit_Props\<close> its consequences: every reachable
  trail verifies, sealed history is tamper-evident up to collisions, the backlog drains.

  \<^bold>\<open>Announcements.\<close> \<open>Announcement_Inputs\<close>, \<open>_Scope\<close>, \<open>_Store\<close> and \<open>Announcements\<close> are the files
  \<open>inputs.py\<close>, \<open>catalog.py\<close>, \<open>errors.py\<close>, \<open>models.py\<close>, \<open>command_support.py\<close>, \<open>commands.py\<close> and
  \<open>evidence_bound.py\<close> with the scope of \<open>events/announcements_scope.py\<close>; a state is the record of all
  tables with the outbox and the audit trail. \<open>Announcement_Commits\<close> gives every command one shape,
  \<open>_Writes\<close> proves that each write refines it, \<open>_Guard\<close> translates the native guard of
  \<open>migrations/0002_integrity.py\<close>, \<open>_Inv\<close> and \<open>_Safety\<close> hold the invariants over any history of
  commands, \<open>_Samples\<close> a sample run and \<open>_Props\<close> the properties.

  \<^bold>\<open>Continuity.\<close> \<open>Continuity_Protocol\<close> is \<open>scheduling/continuity_protocol.py\<close> (scope, manifest, trust,
  signing and verification), \<open>Continuity_Facts\<close> what its parts do: the readers accept exactly the printed
  forms (the locale \<open>closed_reader\<close>, interpreted for each text), a signed document reads back as itself,
  and no document is larger than the limits allow. \<open>Continuity_Known\<close> is \<open>continuity_known_state.py\<close> with
  the invariant \<open>records_history\<close> of the stored history, \<open>Continuity_Props\<close> the properties.
  \<open>Continuity_Payload\<close> is \<open>continuity_payload.py\<close> (cards, their encoding and decoding, now and next),
  \<open>Continuity_Cards\<close> shows that every part of a card reads back, \<open>Continuity_Signing\<close> is
  \<open>continuity_signing.py\<close>, and \<open>Continuity_Payload_Props\<close> has the properties of both.
  \<open>Change_Notice\<close> is \<open>change_lifecycle.py\<close>, the evidence of one change notice.

  \<^bold>\<open>Authorization.\<close> \<open>Adoption_Profiles\<close> is \<open>events/adoption.py\<close>, the profiles that admit a capability
  to an edition. \<open>Authority_Catalog\<close> is \<open>authorization/catalog.py\<close> with \<open>guidance_catalog.py\<close> and
  \<open>organizations/representation_catalog.py\<close>: capabilities, their fields, scopes and protection.
  \<open>Authority_Store\<close> holds the rows that a decision reads (grants, role bindings and bundles, issuances,
  controls, boards, editions, accounts) as the record of all tables. \<open>Authority_Targets\<close> is the resolution
  of a target in \<open>policy.py\<close> and the resolvers of \<open>bindings.py\<close>. \<open>Authority_Lineage\<close> is
  \<open>provenance.py\<close> up to the walks and \<open>guidance_target_contracts.py\<close>; \<open>Lineage_Validator\<close> is its validator,
  the historical and the current walk over the lineage of an issuance, with the proof that they end.
  \<open>Lineage_Facts\<close> states inductively when an issuance is proved then and proved now, and shows that the
  walks, their caches and the batch answer only what these relations allow; \<open>Lineage_Props\<close> draws the
  consequences (a current authority is represented by an active board and rests on authority in force
  throughout, was issued by two controllers, stays within its parents). \<open>Policy_Engine\<close> is \<open>policy.py\<close>: entitlements, the decision with every denial, disclosed
  fields; \<open>Policy_Props\<close> shows that it refines the stored entitlements, that protected
  capabilities need a confirmed lineage and that tenants stay apart. \<open>Native_Validator\<close> is the validator inside
  PostgreSQL that the engine asks after the cutover: the SQL of \<open>authorization/migrations/0007\<close> with its
  scope functions, the three ceremony blocks that 0039, 0042 and 0044 copy and the Guidance functions of
  0046, with the three-valued logic of its comparisons. \<open>Native_Props\<close> puts it into the engine: an allowance
  rests on a lineage in force that ends at an active board. It also shows where the SQL says less than the
  walk: its scopes need only exist, and it confirms a narrow authority for its whole organization, because a
  comparison with a null does not stop its guard. \<open>Authority_Samples\<close> is one concrete
  organization, and \<open>Announcement_Authority\<close> runs the announcement commands under this engine.

  \<^bold>\<open>Arguments.\<close> What is not part of the repository, or belongs to a part that is not modelled, is an
  argument of the definitions that use it: the profile of an edition, the table of event declarations,
  NFC normalization and Django's URL check, Ed25519 with the construction of a private key, and the zone
  database. The commands of announcements and effects take the decision of the policy engine as an
  argument, as the code calls \<open>decide\<close> through its public name; \<open>Announcement_Authority\<close> puts the modelled
  engine in its place. The engine itself takes the native function of PostgreSQL that validates a lineage;
  what does not depend on it is stated for any, and \<open>Native_Props\<close> instantiates it with the SQL of the
  migrations. The lookups of the activation of Guidance and of its accepted plan are columns of the state. Where a property relies on an argument, its hypothesis says how and its
  witness gives a concrete instance.

  \<^bold>\<open>Loops and bounds.\<close> Loops are structural recursion or \<open>foldE\<close>. The JSON reader counts down a bound of
  one more than the length of the text; every nested call consumes a character, and the round trip shows
  that the bound is enough for everything the program prints. The lineage walks call themselves on the
  controls and the representation of an issuance; they end because the path under proof is limited to
  64 issuances and a bundle under proof is not entered again; the SQL validator counts the calls of both its
  functions against one limit of 64. The chain of delegated grants ends at
  the first grant seen twice. All of these are the code's own conditions. Integers are Python's; columns of the
  database keep their range as validation conditions. Text is a list of characters with code points
  below 256, which Python's escapes and UTF-8 treat by the same rules as all others.

  \<^bold>\<open>Not modelled.\<close> HTML views, forms, templates and HTTP APIs; read projections and exports; Django
  models below the validation the commands run (foreign keys, indexes, triggers other than the one
  translated and the completeness assertions beside the native validator; its sorted arrays are compared as
  multisets, whatever the collation); the packages for registration, workforce, applications, programme, venues, logistics,
  knowledge, charities, catalog and accreditation; of identity, organizations and events all but the
  rows, profiles and queries that a modelled part reads; of authorization the commands that write
  (delegation, issuance, roles, Guidance and Programme assignments) and their projections; releases, planning pages and outputs of
  Scheduling. Concurrency is modelled where the code relies on row locks: a locked row is a condition on
  the step, and every service runs as one step, as its transaction makes it.
\<close>

end
